(* ===== verification/Prelude.thy ===== *)
theory Prelude
  imports Complex_Main "HOL-Library.Word" "HOL-Library.AList" "HOL-Library.Monad_Syntax"
begin

text \<open>
  The vocabulary every component theory shares: bytes and byte strings, Python slices,
  the \<^verbatim>\<open>struct\<close> integer codecs, hexadecimal formatting and parsing, dynamically
  typed values and insertion-ordered dictionaries, and the generic lemmas about them.

  \<^item> A byte is an 8-bit word, so every value read from a frame is in range by its type.
  \<^item> A Python \<^verbatim>\<open>int\<close> is an \<^typ>\<open>int\<close>; a \<^verbatim>\<open>float\<close> is idealised as a rational number
    (no rounding), which is also the type of time stamps.
  \<^item> Identifiers and dictionary keys are \<^typ>\<open>string\<close>; free text (\<open>ustr\<close>) is a list of
    Unicode code points.
  \<^item> A dictionary is an association list in insertion order; assignment is
    \<^const>\<open>AList.update\<close>, which overwrites in place or appends, as Python does.
\<close>

unbundle bit_operations_syntax

named_theorems codec_simps \<open>lengths and round trips of the fixed-width codecs\<close>
named_theorems frame_simps \<open>slices of concatenated frames\<close>

type_synonym byte = "8 word"
type_synonym bytes = "byte list"
type_synonym ustr = "nat list"
type_synonym time = rat

datatype py_error = ValueError | IndexError | KeyError | StructError | RuntimeError


section \<open>Slices\<close>

text \<open>\<open>slice a b xs\<close> is Python's \<^verbatim>\<open>xs[a:b]\<close> for non-negative bounds: it never raises and is
  clipped to the end of the sequence. \<open>last_n n xs\<close> is \<^verbatim>\<open>xs[-n:]\<close> for positive \<open>n\<close>.\<close>

definition slice :: "nat \<Rightarrow> nat \<Rightarrow> 'a list \<Rightarrow> 'a list" where
  "slice a b xs = take (b - a) (drop a xs)"

definition last_n :: "nat \<Rightarrow> 'a list \<Rightarrow> 'a list" where
  "last_n n xs = drop (length xs - n) xs"

lemma length_slice [simp]: "length (slice a b xs) = min (b - a) (length xs - a)"
  by (simp add: slice_def min.commute)

lemma slice_all [simp]: "length xs \<le> b \<Longrightarrow> slice 0 b xs = xs"
  by (simp add: slice_def)

lemma slice_append_left [frame_simps]: "b \<le> length xs \<Longrightarrow> slice a b (xs @ ys) = slice a b xs"
  by (simp add: slice_def)

lemma slice_append_right [frame_simps]:
  "length xs \<le> a \<Longrightarrow> slice a b (xs @ ys) = slice (a - length xs) (b - length xs) ys"
  by (simp add: slice_def)

lemma slice_append_exact [frame_simps]:
  "a = length xs \<Longrightarrow> b = length xs + length ys \<Longrightarrow> slice a b (xs @ ys @ zs) = ys"
  by (simp add: slice_def)

lemma length_last_n [simp]: "length (last_n n xs) = min n (length xs)"
  by (simp add: last_n_def min_def)

lemma last_n_append [frame_simps]: "n = length ys \<Longrightarrow> last_n n (xs @ ys) = ys"
  by (simp add: last_n_def)


section \<open>Little- and big-endian integers\<close>

text \<open>\<^verbatim>\<open>struct.unpack_from("<I", ...)\<close> and its kin read an unsigned little-endian integer;
  \<^verbatim>\<open>struct.pack\<close> raises \<^verbatim>\<open>struct.error\<close> when the value does not fit.\<close>

fun le_int :: "bytes \<Rightarrow> int" where
  "le_int [] = 0"
| "le_int (b # bs) = uint b + 256 * le_int bs"

fun le_bytes :: "nat \<Rightarrow> int \<Rightarrow> bytes" where
  "le_bytes 0 v = []"
| "le_bytes (Suc n) v = word_of_int v # le_bytes n (v div 256)"

definition be_int :: "bytes \<Rightarrow> int" where
  "be_int bs = le_int (rev bs)"

definition pack_le :: "nat \<Rightarrow> int \<Rightarrow> bytes option" where
  "pack_le n v = (if 0 \<le> v \<and> v < 256 ^ n then Some (le_bytes n v) else None)"

text \<open>Two's complement reading of an \<open>n\<close>-byte unsigned value.\<close>

definition to_signed :: "nat \<Rightarrow> int \<Rightarrow> int" where
  "to_signed n v = (if v < 2 ^ (8 * n - 1) then v else v - 2 ^ (8 * n))"

lemma length_le_bytes [simp, codec_simps]: "length (le_bytes n v) = n"
  by (induction n arbitrary: v) auto

lemma le_int_nonneg [simp]: "0 \<le> le_int bs"
  by (induction bs) auto

lemma uint_byte_less: "uint (b :: byte) < 256"
  using uint_lt2p [of b] by simp

lemma le_int_less: "le_int bs < 256 ^ length bs"
proof (induction bs)
  case Nil
  then show ?case by simp
next
  case (Cons b bs)
  have "uint b + 256 * le_int bs < 256 * (1 + le_int bs)"
    using uint_byte_less [of b] by simp
  also have "\<dots> \<le> 256 * 256 ^ length bs"
    using Cons.IH by simp
  finally show ?case by simp
qed

lemma uint_word_of_int_byte: "uint (word_of_int v :: byte) = v mod 256"
  by (simp add: uint_word_of_int)

lemma le_int_le_bytes_mod: "le_int (le_bytes n v) = v mod 256 ^ n"
proof (induction n arbitrary: v)
  case 0
  then show ?case by simp
next
  case (Suc n)
  have "v mod 256 + 256 * (v div 256 mod 256 ^ n) = v mod (256 * 256 ^ n)"
    by (simp add: zmod_zmult2_eq)
  then show ?case by (simp add: Suc.IH uint_word_of_int_byte)
qed

lemma le_int_le_bytes [codec_simps]:
  "0 \<le> v \<Longrightarrow> v < 256 ^ n \<Longrightarrow> le_int (le_bytes n v) = v"
  by (simp add: le_int_le_bytes_mod)

lemma le_bytes_le_int [codec_simps]: "le_bytes (length bs) (le_int bs) = bs"
proof (induction bs)
  case Nil
  then show ?case by simp
next
  case (Cons b bs)
  have "(uint b + 256 * le_int bs) div 256 = le_int bs"
    using uint_byte_less [of b] by simp
  moreover have "(word_of_int (uint b + 256 * le_int bs) :: byte) = b"
    using uint_byte_less [of b]
    by (metis mod_mult_self2 mod_pos_pos_trivial uint_ge_0 uint_word_of_int_byte word_uint_eq_iff)
  ultimately show ?case by (simp add: Cons.IH)
qed

lemma le_bytes_inject:
  assumes "0 \<le> v" "v < 256 ^ n" "0 \<le> w" "w < 256 ^ n"
  shows "le_bytes n v = le_bytes n w \<longleftrightarrow> v = w"
  using assms le_int_le_bytes by metis

lemma pack_le_Some [codec_simps]:
  "pack_le n v = Some bs \<longleftrightarrow> 0 \<le> v \<and> v < 256 ^ n \<and> bs = le_bytes n v"
  by (auto simp: pack_le_def)

lemma to_signed_range:
  assumes "0 \<le> v" "v < 2 ^ (8 * n)" "0 < n"
  shows "- (2 ^ (8 * n - 1)) \<le> to_signed n v" "to_signed n v < 2 ^ (8 * n - 1)"
proof -
  have "(2::int) ^ (8 * n) = 2 * 2 ^ (8 * n - 1)"
    using assms(3) by (simp flip: power_Suc)
  then show "- (2 ^ (8 * n - 1)) \<le> to_signed n v" "to_signed n v < 2 ^ (8 * n - 1)"
    using assms by (auto simp: to_signed_def)
qed


section \<open>ASCII strings\<close>

definition lower_char :: "char \<Rightarrow> char" where
  "lower_char c = (let n = (of_char c :: nat) in if 65 \<le> n \<and> n \<le> 90 then char_of (n + 32) else c)"

definition upper_char :: "char \<Rightarrow> char" where
  "upper_char c = (let n = (of_char c :: nat) in if 97 \<le> n \<and> n \<le> 122 then char_of (n - 32) else c)"

abbreviation lower :: "string \<Rightarrow> string" where
  "lower \<equiv> map lower_char"

abbreviation upper :: "string \<Rightarrow> string" where
  "upper \<equiv> map upper_char"

definition is_space :: "char \<Rightarrow> bool" where
  "is_space c = (let n = (of_char c :: nat) in (9 \<le> n \<and> n \<le> 13) \<or> (28 \<le> n \<and> n \<le> 32))"

definition strip :: "string \<Rightarrow> string" where
  "strip s = rev (dropWhile is_space (rev (dropWhile is_space s)))"

text \<open>The code points of an ASCII literal.\<close>

text \<open>\<^verbatim>\<open>s.strip()\<close> on code points, with Unicode white space or other characters.\<close>

definition uni_space :: "nat \<Rightarrow> bool" where
  "uni_space c \<longleftrightarrow> (9 \<le> c \<and> c \<le> 13) \<or> (28 \<le> c \<and> c \<le> 32) \<or> c \<in> {133, 160, 5760, 8232, 8233, 8239, 8287, 12288} \<or>
     (8192 \<le> c \<and> c \<le> 8202)"

definition ustrip :: "(nat \<Rightarrow> bool) \<Rightarrow> ustr \<Rightarrow> ustr" where
  "ustrip p s = rev (dropWhile p (rev (dropWhile p s)))"

definition lit :: "string \<Rightarrow> ustr" where
  "lit s = map of_char s"

lemma lit_inject [simp]: "lit s = lit t \<longleftrightarrow> s = t"
  by (simp add: lit_def inj_map_eq_map inj_of_char)

lemma lower_idem [simp]: "lower_char (lower_char c) = lower_char c"
  by (auto simp: lower_char_def Let_def)

lemma upper_idem [simp]: "upper_char (upper_char c) = upper_char c"
  by (auto simp: upper_char_def Let_def)


section \<open>Hexadecimal formatting and parsing\<close>

definition hexdig :: "nat \<Rightarrow> char" where
  "hexdig n = ''0123456789abcdef'' ! n"

definition HEXDIG :: "nat \<Rightarrow> char" where
  "HEXDIG n = ''0123456789ABCDEF'' ! n"

fun hex_nat :: "(nat \<Rightarrow> char) \<Rightarrow> nat \<Rightarrow> string" where
  "hex_nat dig n = (if n < 16 then [dig n] else hex_nat dig (n div 16) @ [dig (n mod 16)])"

declare hex_nat.simps [simp del]

definition zfill :: "nat \<Rightarrow> string \<Rightarrow> string" where
  "zfill w s = replicate (w - length s) CHR ''0'' @ s"

text \<open>Python's format specifications \<^verbatim>\<open>0<w>x\<close> and \<^verbatim>\<open>0<w>X\<close>, the sign before the padding.\<close>

definition fmt_hex :: "(nat \<Rightarrow> char) \<Rightarrow> nat \<Rightarrow> int \<Rightarrow> string" where
  "fmt_hex dig w v =
     (if v < 0 then CHR ''-'' # zfill (w - 1) (hex_nat dig (nat (- v)))
      else zfill w (hex_nat dig (nat v)))"

abbreviation fmt_x :: "nat \<Rightarrow> int \<Rightarrow> string" where
  "fmt_x \<equiv> fmt_hex hexdig"

abbreviation fmt_X :: "nat \<Rightarrow> int \<Rightarrow> string" where
  "fmt_X \<equiv> fmt_hex HEXDIG"

text \<open>\<^verbatim>\<open>str(n)\<close> of an integer.\<close>

fun dec_nat :: "nat \<Rightarrow> string" where
  "dec_nat n = (if n < 10 then [char_of (48 + n)] else dec_nat (n div 10) @ [char_of (48 + n mod 10)])"

declare dec_nat.simps [simp del]

definition fmt_d :: "int \<Rightarrow> string" where
  "fmt_d v = (if v < 0 then CHR ''-'' # dec_nat (nat (- v)) else dec_nat (nat v))"

text \<open>\<^verbatim>\<open>bytes.hex()\<close>, with either digit table.\<close>

definition bytes_hex :: "(nat \<Rightarrow> char) \<Rightarrow> bytes \<Rightarrow> string" where
  "bytes_hex dig bs = concat (map (\<lambda>b. [dig (unat b div 16), dig (unat b mod 16)]) bs)"

definition hexval :: "char \<Rightarrow> nat option" where
  "hexval c = (let n = (of_char c :: nat) in
     if 48 \<le> n \<and> n \<le> 57 then Some (n - 48)
     else if 97 \<le> n \<and> n \<le> 102 then Some (n - 87)
     else if 65 \<le> n \<and> n \<le> 70 then Some (n - 55)
     else None)"

text \<open>\<^verbatim>\<open>int(s, 16)\<close>: surrounding white space, a sign, a \<^verbatim>\<open>0x\<close> prefix and single underscores
  between digits are accepted; anything else is a \<^verbatim>\<open>ValueError\<close>, here \<^const>\<open>None\<close>.\<close>

fun hex_digits :: "nat \<Rightarrow> bool \<Rightarrow> string \<Rightarrow> nat option" where
  "hex_digits acc ok [] = (if ok then Some acc else None)"
| "hex_digits acc ok (c # cs) =
     (if c = CHR ''_'' then (if ok then hex_digits acc False cs else None)
      else (case hexval c of None \<Rightarrow> None | Some d \<Rightarrow> hex_digits (16 * acc + d) True cs))"

fun drop_hex_prefix :: "string \<Rightarrow> string" where
  "drop_hex_prefix (c # d # cs) =
     (if c = CHR ''0'' \<and> (d = CHR ''x'' \<or> d = CHR ''X'')
      then (case cs of e # es \<Rightarrow> if e = CHR ''_'' then es else cs | [] \<Rightarrow> [])
      else c # d # cs)"
| "drop_hex_prefix cs = cs"

definition py_int16 :: "string \<Rightarrow> int option" where
  "py_int16 s =
     (case strip s of
        [] \<Rightarrow> None
      | c # cs \<Rightarrow>
          if c = CHR ''-'' then map_option (\<lambda>n. - int n) (hex_digits 0 False (drop_hex_prefix cs))
          else if c = CHR ''+'' then map_option int (hex_digits 0 False (drop_hex_prefix cs))
          else map_option int (hex_digits 0 False (drop_hex_prefix (c # cs))))"

text \<open>\<^verbatim>\<open>bytes.fromhex(s)\<close>: pairs of digits, ASCII white space allowed between the pairs;
  \<^const>\<open>None\<close> is the \<^verbatim>\<open>ValueError\<close>.\<close>

definition hexval_cp :: "nat \<Rightarrow> nat option" where
  "hexval_cp n = (if n < 128 then hexval (char_of n) else None)"

definition hex_space :: "nat \<Rightarrow> bool" where
  "hex_space c \<longleftrightarrow> c = 32 \<or> (9 \<le> c \<and> c \<le> 13)"

fun fromhex :: "ustr \<Rightarrow> bytes option" where
  "fromhex [] = Some []"
| "fromhex (c # cs) =
     (if hex_space c then fromhex cs
      else (case cs of
              [] \<Rightarrow> None
            | d # ds \<Rightarrow>
                (case (hexval_cp c, hexval_cp d, fromhex ds) of
                   (Some x, Some y, Some bs) \<Rightarrow> Some (of_nat (16 * x + y) # bs)
                 | _ \<Rightarrow> None)))"

definition hex_char :: "char \<Rightarrow> bool" where
  "hex_char c \<longleftrightarrow> hexval c \<noteq> None"

fun hex_value :: "nat \<Rightarrow> string \<Rightarrow> nat" where
  "hex_value acc [] = acc"
| "hex_value acc (c # cs) = hex_value (16 * acc + the (hexval c)) cs"

lemma hexval_hexdig:
  assumes "n < 16"
  shows "hexval (hexdig n) = Some n" and "hexval (HEXDIG n) = Some n"
proof -
  have "n \<in> {0,1,2,3,4,5,6,7,8,9,10,11,12,13,14,15}" using assms by (simp, arith)
  then show "hexval (hexdig n) = Some n" and "hexval (HEXDIG n) = Some n"
    by (auto simp: hexval_def hexdig_def HEXDIG_def nth_Cons')
qed

lemma hex_char_hexdig [simp]: "n < 16 \<Longrightarrow> hex_char (hexdig n)" "n < 16 \<Longrightarrow> hex_char (HEXDIG n)"
  by (simp_all add: hex_char_def hexval_hexdig)

lemma hex_char_facts:
  assumes "hex_char c"
  shows "\<not> is_space c" "c \<noteq> CHR ''-''" "c \<noteq> CHR ''+''" "c \<noteq> CHR ''_''" "c \<noteq> CHR ''x''" "c \<noteq> CHR ''X''"
  using assms by (auto simp: hex_char_def hexval_def is_space_def Let_def split: if_splits)

lemma hex_digits_value:
  "list_all hex_char cs \<Longrightarrow> cs \<noteq> [] \<or> ok \<Longrightarrow> hex_digits acc ok cs = Some (hex_value acc cs)"
proof (induction cs arbitrary: acc ok)
  case Nil
  then show ?case by simp
next
  case (Cons c cs)
  then have "c \<noteq> CHR ''_''" and "hexval c \<noteq> None"
    using hex_char_facts(4) by (auto simp: hex_char_def)
  with Cons show ?case by auto
qed

lemma strip_hex: "list_all hex_char s \<Longrightarrow> strip s = s"
proof -
  assume "list_all hex_char s"
  then have "\<forall>c \<in> set s. \<not> is_space c"
    using hex_char_facts(1) by (simp add: list_all_iff)
  then have "dropWhile is_space s = s" "dropWhile is_space (rev s) = rev s"
    using last_in_set [of s] hd_in_set [of s] by (auto simp: dropWhile_eq_self_iff hd_rev)
  then show ?thesis by (simp add: strip_def)
qed

lemma drop_hex_prefix_hex: "list_all hex_char s \<Longrightarrow> drop_hex_prefix s = s"
  by (cases s rule: drop_hex_prefix.cases) (auto dest: hex_char_facts(5,6))

lemma py_int16_hex:
  assumes "list_all hex_char s" "s \<noteq> []"
  shows "py_int16 s = Some (int (hex_value 0 s))"
proof -
  obtain c cs where s: "s = c # cs" using assms(2) by (cases s) auto
  then have "c \<noteq> CHR ''-''" "c \<noteq> CHR ''+''"
    using assms(1) hex_char_facts(2,3) by auto
  moreover have "hex_digits 0 False s = Some (hex_value 0 s)"
    using assms by (simp add: hex_digits_value)
  ultimately show ?thesis
    using s drop_hex_prefix_hex [OF assms(1)] strip_hex [OF assms(1)]
    by (simp add: py_int16_def)
qed

lemma hexval_cp_of_char: "hexval_cp (of_char c) = hexval c"
  by (auto simp: hexval_cp_def hexval_def Let_def)

lemma fromhex_pair:
  assumes "hexval_cp c = Some x" "hexval_cp d = Some y" "fromhex ds = Some bs"
  shows "fromhex (c # d # ds) = Some (of_nat (16 * x + y) # bs)"
proof -
  have "\<not> hex_space c"
    using assms(1) by (auto simp: hex_space_def hexval_cp_def hexval_def Let_def split: if_splits)
  then show ?thesis using assms by simp
qed

lemma fromhex_bytes_hex [codec_simps]:
  assumes "dig = hexdig \<or> dig = HEXDIG"
  shows "fromhex (lit (bytes_hex dig bs)) = Some bs"
proof (induction bs)
  case Nil
  then show ?case by (simp add: bytes_hex_def lit_def)
next
  case (Cons b bs)
  have lt: "unat b div 16 < 16" "unat b mod 16 < 16"
    using unsigned_less [where 'a = nat, of b] by (auto simp: div_less_iff_less_mult)
  have v: "n < 16 \<Longrightarrow> hexval_cp (of_char (dig n)) = Some n" for n
    using assms hexval_hexdig by (auto simp: hexval_cp_of_char)
  have "lit (bytes_hex dig (b # bs)) =
      of_char (dig (unat b div 16)) # of_char (dig (unat b mod 16)) # lit (bytes_hex dig bs)"
    by (simp add: bytes_hex_def lit_def)
  moreover have "(of_nat (16 * (unat b div 16) + unat b mod 16) :: byte) = b" by simp
  ultimately show ?case
    using fromhex_pair [OF v [OF lt(1)] v [OF lt(2)] Cons.IH] by (simp only:)
qed

lemma hex_value_append: "hex_value acc (s @ t) = hex_value (hex_value acc s) t"
  by (induction s arbitrary: acc) auto

lemma hex_value_zeros: "hex_value 0 (replicate n CHR ''0'') = 0"
  by (induction n) (auto simp: hexval_def)

lemma hex_nat_digits:
  shows "list_all hex_char (hex_nat hexdig n)" and "hex_value 0 (hex_nat hexdig n) = n"
    and "hex_nat hexdig n \<noteq> []"
proof (induction n rule: less_induct)
  case (less n)
  have u: "hex_nat hexdig n = (if n < 16 then [hexdig n] else hex_nat hexdig (n div 16) @ [hexdig (n mod 16)])"
    by (subst hex_nat.simps) simp
  have lt: "\<not> n < 16 \<Longrightarrow> n div 16 < n" by simp
  {
    case 1
    show ?case using less(1) [OF lt] by (simp add: u)
  next
    case 2
    show ?case using less(2) [OF lt] by (auto simp: u hexval_hexdig hex_value_append)
  next
    case 3
    show ?case by (simp add: u)
  }
qed

text \<open>Formatting a node or packet id and reading it back gives the id.\<close>

lemma py_int16_fmt_x [codec_simps]:
  assumes "0 \<le> v"
  shows "py_int16 (fmt_x w v) = Some v"
proof -
  have "hex_char CHR ''0''" by (simp add: hex_char_def hexval_def)
  then have "list_all hex_char (fmt_x w v)"
    using assms hex_nat_digits(1) by (auto simp: fmt_hex_def zfill_def list_all_iff)
  moreover have "fmt_x w v \<noteq> []"
    using assms hex_nat_digits(3) by (simp add: fmt_hex_def zfill_def)
  moreover have "hex_value 0 (fmt_x w v) = nat v"
    using assms by (simp add: fmt_hex_def zfill_def hex_value_append hex_value_zeros hex_nat_digits(2))
  ultimately show ?thesis using assms by (simp add: py_int16_hex)
qed

lemma fmt_x_inject: "0 \<le> v \<Longrightarrow> 0 \<le> w \<Longrightarrow> fmt_x n v = fmt_x n w \<longleftrightarrow> v = w"
  using py_int16_fmt_x by (metis option.inject)


section \<open>Dynamically typed values and dictionaries\<close>

datatype pyval =
    PNone
  | PBool bool
  | PInt int
  | PFloat rat
  | PInf bool
  | PNan
  | PStr ustr
  | PBytes bytes
  | PList "pyval list"
  | PDict "(string \<times> pyval) list"

type_synonym pydict = "(string \<times> pyval) list"

abbreviation pstr :: "string \<Rightarrow> pyval" where
  "pstr s \<equiv> PStr (lit s)"

text \<open>\<^verbatim>\<open>bool(v)\<close>.\<close>

fun truthy :: "pyval \<Rightarrow> bool" where
  "truthy PNone = False"
| "truthy (PBool b) = b"
| "truthy (PInt i) = (i \<noteq> 0)"
| "truthy (PFloat r) = (r \<noteq> 0)"
| "truthy (PInf neg) = True"
| "truthy PNan = True"
| "truthy (PStr s) = (s \<noteq> [])"
| "truthy (PBytes s) = (s \<noteq> [])"
| "truthy (PList xs) = (xs \<noteq> [])"
| "truthy (PDict d) = (d \<noteq> [])"

text \<open>\<^verbatim>\<open>d.get(k)\<close> and \<^verbatim>\<open>d.get(k, default)\<close>.\<close>

definition dget :: "string \<Rightarrow> pydict \<Rightarrow> pyval" where
  "dget k d = (case map_of d k of None \<Rightarrow> PNone | Some v \<Rightarrow> v)"

definition dget_or :: "string \<Rightarrow> pyval \<Rightarrow> pydict \<Rightarrow> pyval" where
  "dget_or k v d = (case map_of d k of None \<Rightarrow> v | Some x \<Rightarrow> x)"

text \<open>\<^verbatim>\<open>x or None\<close>, and \<^verbatim>\<open>d.update(e)\<close>.\<close>

definition or_none :: "pyval \<Rightarrow> pyval" where
  "or_none v = (if truthy v then v else PNone)"

definition dict_update :: "('k \<times> 'v) list \<Rightarrow> ('k \<times> 'v) list \<Rightarrow> ('k \<times> 'v) list" where
  "dict_update d e = foldl (\<lambda>acc (k, v). AList.update k v acc) d e"

lemma dget_update [simp]: "dget k (AList.update k' v d) = (if k = k' then v else dget k d)"
  by (simp add: dget_def update_conv')

lemma dget_Cons [simp]: "dget k ((k', v) # d) = (if k = k' then v else dget k d)"
  by (simp add: dget_def)

lemma dget_Nil [simp]: "dget k [] = PNone"
  by (simp add: dget_def)

lemma map_of_dict_update: "map_of (dict_update d e) = map_of d ++ map_of (rev e)"
  unfolding dict_update_def
  by (induction e arbitrary: d) (auto simp: update_conv' map_add_def fun_eq_iff split: option.splits)

lemma map_of_dict_update_other: "k \<notin> fst ` set e \<Longrightarrow> map_of (dict_update d e) k = map_of d k"
  by (simp add: map_of_dict_update map_add_dom_app_simps(3) dom_map_of_conv_image_fst)

lemma in_set_update: "e \<in> set (AList.update k v d) \<Longrightarrow> e = (k, v) \<or> e \<in> set d"
  by (induction d) (auto split: if_splits)

lemma in_set_delete: "e \<in> set (AList.delete k d) \<Longrightarrow> e \<in> set d"
  by (simp add: AList.delete_eq)

lemma find_SomeE: "find P xs = Some x \<Longrightarrow> P x" "find P xs = Some x \<Longrightarrow> x \<in> set xs"
  by (induction xs) (auto split: if_splits)


section \<open>Exclusive or on byte strings\<close>

definition xor_bytes :: "bytes \<Rightarrow> bytes \<Rightarrow> bytes" where
  "xor_bytes a b = map2 (\<lambda>x y. x XOR y) a b"

lemma length_xor_bytes [simp]: "length (xor_bytes a b) = min (length a) (length b)"
  by (simp add: xor_bytes_def)

lemma nth_xor_bytes [simp]:
  "i < length a \<Longrightarrow> i < length b \<Longrightarrow> xor_bytes a b ! i = a ! i XOR b ! i"
  by (simp add: xor_bytes_def)

lemma word_xor_cancel [simp]: "(x XOR y) XOR y = (x :: 'a::len word)"
  by (simp add: xor.assoc)

lemma xor_bytes_cancel [simp]: "length a \<le> length k \<Longrightarrow> xor_bytes (xor_bytes a k) k = a"
  by (rule nth_equalityI) auto

lemma xor_bytes_swap:
  "length a = length k \<Longrightarrow> length b = length k \<Longrightarrow> a = xor_bytes b k \<longleftrightarrow> xor_bytes a k = b"
  by (metis xor_bytes_cancel order_refl)

lemma xor_bytes_commute: "xor_bytes a b = xor_bytes b a"
  by (rule nth_equalityI) (auto simp: xor.commute)



section \<open>Rounding\<close>

text \<open>Python's \<^verbatim>\<open>round(x, n)\<close>: to \<open>n\<close> decimals, ties to the even neighbour. \<^verbatim>\<open>int(x)\<close> of a
  float truncates towards zero.\<close>

definition round_half_even :: "rat \<Rightarrow> int" where
  "round_half_even y =
     (let f = \<lfloor>y\<rfloor>; d = y - of_int f in
      if d < 1 / 2 then f else if 1 / 2 < d then f + 1 else if even f then f else f + 1)"

definition py_round :: "nat \<Rightarrow> rat \<Rightarrow> rat" where
  "py_round n x = of_int (round_half_even (x * 10 ^ n)) / 10 ^ n"

definition py_trunc :: "rat \<Rightarrow> int" where
  "py_trunc x = (if x < 0 then - \<lfloor>- x\<rfloor> else \<lfloor>x\<rfloor>)"

lemma round_half_even_of_int [simp]: "round_half_even (of_int i) = i"
  by (simp add: round_half_even_def)

lemma round_half_even_bounds:
  "of_int (round_half_even y) \<le> y + 1 / 2" "y - 1 / 2 \<le> of_int (round_half_even y)"
proof -
  define f where "f = \<lfloor>y\<rfloor>"
  have f: "of_int f \<le> y" "y < of_int f + 1" using floor_correct [of y] by (simp_all add: f_def)
  have r: "round_half_even y = (if y - of_int f < 1 / 2 then f else if 1 / 2 < y - of_int f then f + 1
      else if even f then f else f + 1)"
    by (simp add: round_half_even_def Let_def f_def)
  show "of_int (round_half_even y) \<le> y + 1 / 2" using f unfolding r by auto
  show "y - 1 / 2 \<le> of_int (round_half_even y)" using f unfolding r by auto
qed

lemma py_round_error: "\<bar>py_round n x - x\<bar> \<le> 1 / (2 * 10 ^ n)"
proof -
  define r where "r = round_half_even (x * 10 ^ n)"
  have "\<bar>of_int r - x * 10 ^ n\<bar> \<le> 1 / 2"
    using round_half_even_bounds [of "x * 10 ^ n"] unfolding r_def by linarith
  then have "\<bar>of_int r - x * 10 ^ n\<bar> / 10 ^ n \<le> (1 / 2) / 10 ^ n"
    by (rule divide_right_mono) simp
  moreover have "py_round n x - x = (of_int r - x * 10 ^ n) / 10 ^ n"
    by (simp add: py_round_def diff_divide_distrib r_def)
  ultimately show ?thesis by (simp add: abs_divide)
qed

end
