(* ===== verification/Stream_Cipher.thy ===== *)
theory Stream_Cipher
  imports Prelude
begin

text \<open>
  AES itself is a library. The code uses it in two ways, both as a function on 16-byte blocks
  under a fixed key: ECB mode on whole blocks, and key streams the code builds from it. The
  block function is the parameter \<open>E\<close>; what is relied on is that it maps 16 bytes to 16 bytes.

  The locale states what the key streams of the program (the counter mode of the library, CCM counter mode
  and the LoRaWAN payload cipher) promise to their clients, for messages of the lengths they support.
\<close>

definition block_cipher :: "(bytes \<Rightarrow> bytes) \<Rightarrow> bool" where
  "block_cipher E \<longleftrightarrow> (\<forall>b. length b = 16 \<longrightarrow> length (E b) = 16)"

text \<open>\<^verbatim>\<open>AES.new(key, AES.MODE_ECB).encrypt(data)\<close>: block by block, \<^verbatim>\<open>ValueError\<close> (\<^const>\<open>None\<close>)
  unless the length is a multiple of 16.\<close>

function ecb_blocks :: "(bytes \<Rightarrow> bytes) \<Rightarrow> bytes \<Rightarrow> bytes" where
  "ecb_blocks E bs = (if bs = [] then [] else E (take 16 bs) @ ecb_blocks E (drop 16 bs))"
  by pat_completeness auto
termination
  by (relation "measure (\<lambda>(E, bs). length bs)") auto

declare ecb_blocks.simps [simp del]

definition ecb_encrypt :: "(bytes \<Rightarrow> bytes) \<Rightarrow> bytes \<Rightarrow> bytes option" where
  "ecb_encrypt E bs = (if length bs mod 16 = 0 then Some (ecb_blocks E bs) else None)"

lemma ecb_blocks_one: "length bs = 16 \<Longrightarrow> ecb_blocks E bs = E bs"
  by (subst ecb_blocks.simps, subst ecb_blocks.simps) auto

lemma ecb_blocks_two:
  "length bs = 32 \<Longrightarrow> ecb_blocks E bs = E (take 16 bs) @ E (drop 16 bs)"
  by (subst ecb_blocks.simps) (auto simp: ecb_blocks_one)

lemma ecb_encrypt_one [simp]: "length bs = 16 \<Longrightarrow> ecb_encrypt E bs = Some (E bs)"
  by (simp add: ecb_encrypt_def ecb_blocks_one)

lemma ecb_encrypt_two [simp]:
  "length bs = 32 \<Longrightarrow> ecb_encrypt E bs = Some (E (take 16 bs) @ E (drop 16 bs))"
  by (simp add: ecb_encrypt_def ecb_blocks_two)

lemma block_cipherD: "block_cipher E \<Longrightarrow> length b = 16 \<Longrightarrow> length (E b) = 16"
  by (simp add: block_cipher_def)

locale stream_cipher =
  fixes ok :: "'c \<Rightarrow> nat \<Rightarrow> bool"
    and crypt :: "'c \<Rightarrow> bytes \<Rightarrow> bytes option"
  assumes crypt_total: "ok c (length inp) \<Longrightarrow> \<exists>out. crypt c inp = Some out \<and> length out = length inp"
    and crypt_back: "ok c (length inp) \<Longrightarrow> crypt c inp = Some out \<Longrightarrow> crypt c out = Some inp"
begin

lemma crypt_length:
  assumes "ok c (length inp)" "crypt c inp = Some out"
  shows "length out = length inp"
proof -
  obtain o' where "crypt c inp = Some o'" "length o' = length inp"
    using crypt_total [OF assms(1)] by blast
  then show ?thesis using assms(2) by simp
qed

lemma crypt_round_trip:
  assumes "ok c (length inp)"
  obtains out where "crypt c inp = Some out" "crypt c out = Some inp" "length out = length inp"
proof -
  obtain out where "crypt c inp = Some out" "length out = length inp"
    using crypt_total [OF assms] by blast
  then show ?thesis using crypt_back [OF assms] that by blast
qed

lemma crypt_injective:
  assumes "ok c (length x)" "ok c (length y)" "crypt c x = crypt c y"
  shows "x = y"
proof -
  obtain out where out: "crypt c x = Some out" "crypt c out = Some x"
    using crypt_round_trip [OF assms(1)] .
  then have "crypt c y = Some out" using assms(3) by simp
  then show ?thesis using out(2) crypt_back [OF assms(2), of out] by simp
qed

text \<open>A ciphertext is the encryption of exactly one plaintext, and decryption finds it.\<close>

lemma crypt_iff:
  assumes "ok c (length x)" "length y = length x"
  shows "crypt c x = Some y \<longleftrightarrow> crypt c y = Some x"
  using crypt_back [of c x y] crypt_back [of c y x] assms by auto

end

end
