(* ===== verification/Aes_Ccm.thy ===== *)
theory Aes_Ccm
  imports Stream_Cipher
begin

text \<open>
  \<^verbatim>\<open>src/src/decode/meshtastic_aes_ccm.py\<close>: the CCM engine of Meshtastic direct messages, over
  the block function \<open>E\<close> of the engine's key. The mutable buffers of the code (\<^verbatim>\<open>x\<close>, \<^verbatim>\<open>a\<close>, \<^verbatim>\<open>t\<close>)
  are passed and returned. \<^const>\<open>None\<close> is a raised exception: a slice assignment with a short
  nonce shrinks the buffer, and the next indexed write then raises.
\<close>

definition AES_BLOCK_SIZE :: nat where
  "AES_BLOCK_SIZE = 16"

definition put_be16 :: "bytes \<Rightarrow> nat \<Rightarrow> int \<Rightarrow> bytes option" where
  "put_be16 buf offset val =
     (if offset + 1 < length buf
      then Some (buf[offset := word_of_int (val div 256), offset + 1 := word_of_int val])
      else None)"

definition xor_block :: "bytes \<Rightarrow> bytes \<Rightarrow> bytes option" where
  "xor_block dst src =
     (if 16 \<le> length dst \<and> 16 \<le> length src
      then Some (xor_bytes (take 16 dst) (take 16 src) @ drop 16 dst) else None)"

definition constant_time_compare :: "bytes \<Rightarrow> bytes \<Rightarrow> nat \<Rightarrow> bool option" where
  "constant_time_compare a b len =
     (if len = 0 then Some True
      else if len \<le> length a \<and> len \<le> length b
      then Some (foldl (\<lambda>diff (x, y). diff OR (x XOR y)) 0 (zip (take len a) (take len b)) = (0 :: byte))
      else None)"

text \<open>The first byte of the first authentication block. For a tag length below 2 the shifted
  value is negative and the byte assignment raises.\<close>

definition ccm_flags :: "bool \<Rightarrow> nat \<Rightarrow> byte option" where
  "ccm_flags has_aad mac_len =
     (let m = (int mac_len - 2) div 2 in
      if m < 0 then None
      else Some (word_of_int (((if has_aad then 0x40 else 0) OR (m * 8)) OR 1)))"

definition auth_start :: "(bytes \<Rightarrow> bytes) \<Rightarrow> nat \<Rightarrow> bytes \<Rightarrow> bytes \<Rightarrow> nat \<Rightarrow> bytes option" where
  "auth_start E mac_len nonce aad plain_len =
     do {
       f \<leftarrow> ccm_flags (aad \<noteq> []) mac_len;
       b \<leftarrow> put_be16 ([f] @ take 13 nonce @ [0, 0]) 14 (int plain_len);
       x \<leftarrow> ecb_encrypt E b;
       if aad = [] then Some x
       else do {
         buf0 \<leftarrow> put_be16 (replicate 32 0) 0 (int (length aad));
         let buf1 = take 2 buf0 @ aad @ drop (2 + length aad) buf0;
         buf \<leftarrow> xor_block buf1 x;
         x1 \<leftarrow> ecb_encrypt E buf;
         if length aad > 14
         then do { tail \<leftarrow> xor_block (slice 16 32 buf) x1; ecb_encrypt E tail }
         else Some x1
       }
     }"

function ccm_auth :: "(bytes \<Rightarrow> bytes) \<Rightarrow> bytes \<Rightarrow> bytes \<Rightarrow> bytes option" where
  "ccm_auth E data x =
     (if 16 \<le> length data then
        do { x1 \<leftarrow> xor_block x (take 16 data); x2 \<leftarrow> ecb_encrypt E x1; ccm_auth E (drop 16 data) x2 }
      else if data = [] then Some x
      else do { x1 \<leftarrow> xor_block x (data @ replicate (16 - length data) 0); ecb_encrypt E x1 })"
  by pat_completeness auto
termination
  by (relation "measure (\<lambda>(E, data, x). length data)") auto

definition encr_start :: "bytes \<Rightarrow> bytes" where
  "encr_start nonce = [1] @ take 13 nonce @ [0, 0]"

function ccm_encr :: "(bytes \<Rightarrow> bytes) \<Rightarrow> bytes \<Rightarrow> bytes \<Rightarrow> int \<Rightarrow> (bytes \<times> bytes) option" where
  "ccm_encr E inp a counter =
     (if 16 \<le> length inp then
        do {
          a1 \<leftarrow> put_be16 a 14 counter;
          ks \<leftarrow> ecb_encrypt E a1;
          (out, a2) \<leftarrow> ccm_encr E (drop 16 inp) a1 (counter + 1);
          Some (xor_bytes (take 16 inp) (take 16 ks) @ out, a2)
        }
      else if inp = [] then Some ([], a)
      else
        do {
          a1 \<leftarrow> put_be16 a 14 counter;
          ks \<leftarrow> ecb_encrypt E a1;
          Some (xor_bytes inp (take (length inp) ks), a1)
        })"
  by pat_completeness auto
termination
  by (relation "measure (\<lambda>(E, inp, a, c). length inp)") auto

declare ccm_auth.simps [simp del] ccm_encr.simps [simp del]

definition encr_auth :: "(bytes \<Rightarrow> bytes) \<Rightarrow> nat \<Rightarrow> bytes \<Rightarrow> bytes \<Rightarrow> bytes option" where
  "encr_auth E mac_len x a =
     do {
       a1 \<leftarrow> put_be16 a 14 0;
       tmp \<leftarrow> ecb_encrypt E a1;
       if mac_len \<le> length x \<and> mac_len \<le> length tmp
       then Some (xor_bytes (take mac_len x) (take mac_len tmp)) else None
     }"

definition decr_auth :: "(bytes \<Rightarrow> bytes) \<Rightarrow> nat \<Rightarrow> bytes \<Rightarrow> bytes \<Rightarrow> (bytes \<times> bytes) option" where
  "decr_auth E mac_len a auth =
     do {
       a1 \<leftarrow> put_be16 a 14 0;
       tmp \<leftarrow> ecb_encrypt E a1;
       if mac_len \<le> length auth \<and> mac_len \<le> length tmp
       then Some (xor_bytes (take mac_len auth) (take mac_len tmp) @ replicate (16 - mac_len) 0, a1)
       else None
     }"

definition ccm_encrypt :: "(bytes \<Rightarrow> bytes) \<Rightarrow> bytes \<Rightarrow> nat \<Rightarrow> bytes \<Rightarrow> bytes \<Rightarrow> (bytes \<times> bytes) option" where
  "ccm_encrypt E nonce mac_len plaintext aad =
     (if length aad > 30 \<or> mac_len > 16 then None
      else do {
        x0 \<leftarrow> auth_start E mac_len nonce aad (length plaintext);
        x \<leftarrow> ccm_auth E plaintext x0;
        (crypt, a) \<leftarrow> ccm_encr E plaintext (encr_start nonce) 1;
        auth \<leftarrow> encr_auth E mac_len x a;
        Some (crypt, auth)
      })"

text \<open>Outer \<^const>\<open>None\<close>: an exception; inner \<^const>\<open>None\<close>: the method's \<^verbatim>\<open>None\<close>, a rejected message.\<close>

definition ccm_decrypt :: "(bytes \<Rightarrow> bytes) \<Rightarrow> bytes \<Rightarrow> nat \<Rightarrow> bytes \<Rightarrow> bytes \<Rightarrow> bytes \<Rightarrow> bytes option option" where
  "ccm_decrypt E nonce mac_len ciphertext auth aad =
     (if length aad > 30 \<or> mac_len > 16 then Some None
      else do {
        (t, a) \<leftarrow> decr_auth E mac_len (encr_start nonce) auth;
        (plain, a1) \<leftarrow> ccm_encr E ciphertext a 1;
        x0 \<leftarrow> auth_start E mac_len nonce aad (length ciphertext);
        x \<leftarrow> ccm_auth E plain x0;
        same \<leftarrow> constant_time_compare x t mac_len;
        Some (if same then Some plain else None)
      })"


section \<open>Buffers\<close>

lemma put_be16_length: "put_be16 a n v = Some b \<Longrightarrow> length b = length a"
  by (auto simp: put_be16_def split: if_splits)

lemma put_be16_total: "length a = 16 \<Longrightarrow> \<exists>b. put_be16 a 14 v = Some b \<and> length b = 16"
  by (simp add: put_be16_def)

lemma put_be16_overwrite: "put_be16 a n v = Some b \<Longrightarrow> put_be16 b n w = put_be16 a n w"
  by (auto simp: put_be16_def list_update_swap split: if_splits)

lemma or_zero_iff: "x OR y = 0 \<longleftrightarrow> x = 0 \<and> y = (0 :: 'a::len word)"
  by (metis or_eq_0_iff)

lemma xor_zero_iff: "x XOR y = 0 \<longleftrightarrow> x = (y :: 'a::len word)"
  by (metis word_xor_cancel xor.left_neutral xor_self_eq)

lemma diff_fold_zero:
  "length a = length b \<Longrightarrow>
   foldl (\<lambda>diff (x, y). diff OR (x XOR y)) d (zip a b) = (0 :: byte) \<longleftrightarrow> d = 0 \<and> a = b"
  by (induction a b arbitrary: d rule: list_induct2) (auto simp: or_zero_iff xor_zero_iff)

lemma constant_time_compare_eq:
  "n \<le> length a \<Longrightarrow> n \<le> length b \<Longrightarrow> constant_time_compare a b n = Some (take n a = take n b)"
  by (simp add: constant_time_compare_def diff_fold_zero min_def)


section \<open>The counter-mode key stream\<close>

text \<open>\<^verbatim>\<open>_encr\<close> as its callers use it: the output buffer, for a counter block \<open>a\<close>.\<close>

definition ccm_stream :: "(bytes \<Rightarrow> bytes) \<times> bytes \<Rightarrow> bytes \<Rightarrow> bytes option" where
  "ccm_stream = (\<lambda>(E, a) inp. map_option fst (ccm_encr E inp a 1))"

lemma ccm_encr_block:
  assumes "block_cipher E" "length a = 16"
  obtains a1 where "put_be16 a 14 v = Some a1" "ecb_encrypt E a1 = Some (E a1)" "length a1 = 16"
    "length (E a1) = 16"
proof -
  obtain a1 where "put_be16 a 14 v = Some a1" "length a1 = 16"
    using put_be16_total [OF assms(2)] by blast
  then show ?thesis using that block_cipherD [OF assms(1)] by simp
qed

lemma ccm_encr_back:
  assumes "block_cipher E" "length a = 16"
  shows "\<exists>out a'. ccm_encr E inp a c = Some (out, a') \<and> ccm_encr E out a c = Some (inp, a') \<and>
    length out = length inp \<and> length a' = 16 \<and> (\<forall>v. put_be16 a' 14 v = put_be16 a 14 v)"
  using assms
proof (induction E inp a c rule: ccm_encr.induct)
  case (1 E inp a c)
  obtain a1 where a1: "put_be16 a 14 c = Some a1" "ecb_encrypt E a1 = Some (E a1)"
      "length a1 = 16" "length (E a1) = 16"
    using ccm_encr_block [OF 1(2,3)] .
  have ow: "put_be16 a1 14 v = put_be16 a 14 v" for v
    using put_be16_overwrite [OF a1(1)] .
  show ?case
  proof (cases "16 \<le> length inp")
    case True
    obtain out a' where ih: "ccm_encr E (drop 16 inp) a1 (c + 1) = Some (out, a')"
        "ccm_encr E out a1 (c + 1) = Some (drop 16 inp, a')" "length out = length (drop 16 inp)"
        "length a' = 16" "\<forall>v. put_be16 a' 14 v = put_be16 a1 14 v"
      using 1(1) [OF True a1(1) a1(2) 1(2) a1(3)] by blast
    let ?o = "xor_bytes (take 16 inp) (take 16 (E a1)) @ out"
    have "ccm_encr E inp a c = Some (?o, a')"
      using True a1 ih by (subst ccm_encr.simps) simp
    moreover have "ccm_encr E ?o a c = Some (inp, a')"
      using True a1 ih by (subst ccm_encr.simps) simp
    ultimately show ?thesis using True a1 ih ow by auto
  next
    case False
    let ?o = "xor_bytes inp (take (length inp) (E a1))"
    show ?thesis
    proof (cases "inp = []")
      case True
      then show ?thesis using 1(3) by (simp add: ccm_encr.simps)
    next
      case ne: False
      then have "?o \<noteq> []" using a1(4) False by (cases inp; cases "E a1") (auto simp: xor_bytes_def)
      then have "ccm_encr E inp a c = Some (?o, a1)" "ccm_encr E ?o a c = Some (inp, a1)"
        using False ne a1 by (subst ccm_encr.simps, simp)+
      then show ?thesis using False a1 ow by auto
    qed
  qed
qed

lemma ccm_encr_start_block:
  "put_be16 a 14 v = Some b \<Longrightarrow> ccm_stream (E, b) inp = ccm_stream (E, a) inp"
  unfolding ccm_stream_def
  by (simp add: ccm_encr.simps [of E inp b] ccm_encr.simps [of E inp a] put_be16_overwrite)

definition ccm_ok :: "(bytes \<Rightarrow> bytes) \<times> bytes \<Rightarrow> nat \<Rightarrow> bool" where
  "ccm_ok c n \<longleftrightarrow> block_cipher (fst c) \<and> length (snd c) = 16"

interpretation ccm: stream_cipher ccm_ok ccm_stream
proof
  fix c :: "(bytes \<Rightarrow> bytes) \<times> bytes" and inp out :: bytes
  assume "ccm_ok c (length inp)"
  then obtain E a where c: "c = (E, a)" and ok: "block_cipher E" "length a = 16" by (cases c) (auto simp: ccm_ok_def)
  obtain o' a' where e: "ccm_encr E inp a 1 = Some (o', a')" "ccm_encr E o' a 1 = Some (inp, a')"
      "length o' = length inp"
    using ccm_encr_back [OF ok, of inp 1] by blast
  then show "\<exists>out. ccm_stream c inp = Some out \<and> length out = length inp"
    by (simp add: c ccm_stream_def)
  assume "ccm_stream c inp = Some out"
  then show "ccm_stream c out = Some inp" using e by (simp add: c ccm_stream_def)
qed


section \<open>The authentication value\<close>

lemma xor_block_total:
  "16 \<le> length d \<Longrightarrow> 16 \<le> length s \<Longrightarrow> \<exists>b. xor_block d s = Some b \<and> length b = length d"
  by (simp add: xor_block_def min_def)

lemma ecb_total:
  assumes "block_cipher E" "length b = 16 \<or> length b = 32"
  shows "\<exists>c. ecb_encrypt E b = Some c \<and> length c = length b"
  using assms by (auto simp: block_cipher_def)

lemma ccm_auth_total:
  assumes "block_cipher E" "length x = 16 \<or> length x = 32"
  shows "\<exists>y. ccm_auth E data x = Some y \<and> length y = length x"
  using assms
proof (induction E data x rule: ccm_auth.induct)
  case (1 E data x)
  have step: "\<exists>x1 x2. xor_block x blk = Some x1 \<and> ecb_encrypt E x1 = Some x2 \<and> length x2 = length x"
    if blk: "16 \<le> length blk" for blk
  proof -
    have "16 \<le> length x" using 1(3) by auto
    then obtain x1 where x1: "xor_block x blk = Some x1" "length x1 = length x"
      using xor_block_total [OF _ blk] by blast
    then have "length x1 = 16 \<or> length x1 = 32" using 1(3) by simp
    then obtain x2 where "ecb_encrypt E x1 = Some x2" "length x2 = length x1"
      using ecb_total [OF 1(2)] by blast
    then show ?thesis using x1 by metis
  qed
  show ?case
  proof (cases "16 \<le> length data")
    case True
    then obtain x1 x2 where x: "xor_block x (take 16 data) = Some x1" "ecb_encrypt E x1 = Some x2"
        "length x2 = length x"
      using step [of "take 16 data"] by auto
    then obtain y where "ccm_auth E (drop 16 data) x2 = Some y" "length y = length x2"
      using 1(1) [OF True x(1,2) 1(2)] 1(3) by auto
    then show ?thesis using x True by (subst ccm_auth.simps) simp
  next
    case False
    then obtain x1 x2 where "xor_block x (data @ replicate (16 - length data) 0) = Some x1"
        "ecb_encrypt E x1 = Some x2" "length x2 = length x"
      using step [of "data @ replicate (16 - length data) 0"] by auto
    then show ?thesis using False by (subst ccm_auth.simps) simp
  qed
qed

lemma ccm_flags_total: "2 \<le> m \<Longrightarrow> \<exists>f. ccm_flags h m = Some f"
  by (auto simp: ccm_flags_def Let_def)

lemma auth_start_total:
  assumes E: "block_cipher E" and n: "13 \<le> length nonce" and m: "2 \<le> mac_len" and aad: "length aad \<le> 30"
  shows "\<exists>x. auth_start E mac_len nonce aad k = Some x \<and> (length x = 16 \<or> length x = 32)"
proof -
  obtain f where f: "ccm_flags (aad \<noteq> []) mac_len = Some f" using ccm_flags_total [OF m] by blast
  have "length ([f] @ take 13 nonce @ [0, 0]) = 16" using n by simp
  then obtain b where b: "put_be16 ([f] @ take 13 nonce @ [0, 0]) 14 (int k) = Some b" "length b = 16"
    using put_be16_total by blast
  then have x: "ecb_encrypt E b = Some (E b)" "length (E b) = 16" using block_cipherD [OF E] by auto
  show ?thesis
  proof (cases "aad = []")
    case True
    then show ?thesis using f b x by (simp add: auth_start_def)
  next
    case False
    obtain b0 where b0: "put_be16 (replicate 32 0) 0 (int (length aad)) = Some b0" "length b0 = 32"
      by (simp add: put_be16_def)
    let ?b1 = "take 2 b0 @ aad @ drop (2 + length aad) b0"
    obtain buf where buf: "xor_block ?b1 (E b) = Some buf" "length buf = 32"
      using xor_block_total [of ?b1 "E b"] b0 x aad by auto
    obtain x1 where x1: "ecb_encrypt E buf = Some x1" "length x1 = 32"
      using ecb_total [OF E, of buf] buf by auto
    obtain t where t: "xor_block (slice 16 32 buf) x1 = Some t" "length t = 16"
      using xor_block_total [of "slice 16 32 buf" x1] x1 buf by auto
    show ?thesis
      using False f b x b0 buf x1 t block_cipherD [OF E t(2)] by (simp add: auth_start_def Let_def)
  qed
qed


section \<open>Encryption and decryption are inverse\<close>

text \<open>The authentication value both directions compute, and the key block that hides the tag.\<close>

definition ccm_mac :: "(bytes \<Rightarrow> bytes) \<Rightarrow> bytes \<Rightarrow> nat \<Rightarrow> bytes \<Rightarrow> bytes \<Rightarrow> bytes option" where
  "ccm_mac E nonce mac_len aad p = Option.bind (auth_start E mac_len nonce aad (length p)) (ccm_auth E p)"

definition ccm_params :: "(bytes \<Rightarrow> bytes) \<Rightarrow> bytes \<Rightarrow> nat \<Rightarrow> bytes \<Rightarrow> bool" where
  "ccm_params E nonce mac_len aad \<longleftrightarrow>
     block_cipher E \<and> 13 \<le> length nonce \<and> 2 \<le> mac_len \<and> mac_len \<le> 16 \<and> length aad \<le> 30"

lemma ccm_mac_total:
  assumes "ccm_params E n m aad"
  shows "\<exists>x. ccm_mac E n m aad p = Some x \<and> 16 \<le> length x"
proof -
  obtain x0 where x0: "auth_start E m n aad (length p) = Some x0" "length x0 = 16 \<or> length x0 = 32"
    using auth_start_total assms unfolding ccm_params_def by blast
  moreover obtain x where "ccm_auth E p x0 = Some x" "length x = length x0"
    using ccm_auth_total x0(2) assms unfolding ccm_params_def by blast
  ultimately show ?thesis by (auto simp: ccm_mac_def)
qed

definition tag_block :: "bytes \<Rightarrow> bytes" where
  "tag_block n = the (put_be16 (encr_start n) 14 0)"

lemma length_encr_start: "13 \<le> length n \<Longrightarrow> length (encr_start n) = 16"
  by (simp add: encr_start_def)

lemma tag_block_eq:
  assumes "13 \<le> length n"
  shows "put_be16 (encr_start n) 14 0 = Some (tag_block n)" "length (tag_block n) = 16"
  using put_be16_total [OF length_encr_start [OF assms], of 0] by (auto simp: tag_block_def)

lemma ccm_encrypt_eq:
  assumes "ccm_params E n m aad" "ccm_mac E n m aad p = Some x" "ccm_stream (E, encr_start n) p = Some c"
  shows "ccm_encrypt E n m p aad = Some (c, xor_bytes (take m x) (take m (E (tag_block n))))"
proof -
  note P = assms(1) [unfolded ccm_params_def]
  have n: "13 \<le> length n" using P by simp
  obtain a' where e: "ccm_encr E p (encr_start n) 1 = Some (c, a')"
      "put_be16 a' 14 0 = put_be16 (encr_start n) 14 0"
    using ccm_encr_back [of E "encr_start n" p 1] P length_encr_start [OF n] assms(3)
    by (auto simp: ccm_stream_def)
  obtain x0 where "auth_start E m n aad (length p) = Some x0" "ccm_auth E p x0 = Some x"
    using assms(2) by (auto simp: ccm_mac_def split: Option.bind_splits)
  moreover have "16 \<le> length x" using ccm_mac_total [OF assms(1), of p] assms(2) by auto
  moreover have "length (E (tag_block n)) = 16" using P block_cipherD tag_block_eq(2) [OF n] by blast
  ultimately show ?thesis
    using P e tag_block_eq [OF n] by (simp add: ccm_encrypt_def encr_auth_def)
qed

lemma ccm_decrypt_eq:
  assumes "ccm_params E n m aad" "m \<le> length t"
    and "ccm_stream (E, encr_start n) c = Some p" "ccm_mac E n m aad p = Some x"
  shows "ccm_decrypt E n m c t aad =
    Some (if take m x = xor_bytes (take m t) (take m (E (tag_block n))) then Some p else None)"
proof -
  note P = assms(1) [unfolded ccm_params_def]
  have n: "13 \<le> length n" using P by simp
  have lenE: "length (E (tag_block n)) = 16" using P block_cipherD tag_block_eq(2) [OF n] by blast
  have "ccm_stream (E, tag_block n) c = Some p"
    using ccm_encr_start_block [OF tag_block_eq(1) [OF n]] assms(3) by simp
  then obtain a' where e: "ccm_encr E c (tag_block n) 1 = Some (p, a')"
    by (auto simp: ccm_stream_def)
  have "length p = length c"
    using ccm.crypt_length [of "(E, encr_start n)"] P length_encr_start [OF n] assms(3) by (simp add: ccm_ok_def)
  then obtain x0 where x0: "auth_start E m n aad (length c) = Some x0" "ccm_auth E p x0 = Some x"
    using assms(4) by (auto simp: ccm_mac_def split: Option.bind_splits)
  let ?t = "xor_bytes (take m t) (take m (E (tag_block n))) @ replicate (16 - m) 0"
  have "16 \<le> length x" using ccm_mac_total [OF assms(1), of p] assms(4) by auto
  then have "constant_time_compare x ?t m =
      Some (take m x = xor_bytes (take m t) (take m (E (tag_block n))))"
    using P assms(2) lenE by (subst constant_time_compare_eq) (auto simp: min_def)
  then show ?thesis
    using P assms(2) lenE e x0 tag_block_eq [OF n] by (simp add: ccm_decrypt_def decr_auth_def)
qed

text \<open>A message is accepted exactly when it is what the engine itself would have sent.\<close>

lemma ccm_decrypt_iff_encrypt:
  assumes "ccm_params E n m aad" "length t = m"
  shows "ccm_decrypt E n m c t aad = Some (Some p) \<longleftrightarrow> ccm_encrypt E n m p aad = Some (c, t)"
proof -
  have ok: "ccm_ok (E, encr_start n) k" for k
    using assms(1) length_encr_start by (simp add: ccm_ok_def ccm_params_def)
  let ?K = "take m (E (tag_block n))"
  have K: "length ?K = m"
    using assms(1) block_cipherD tag_block_eq(2) unfolding ccm_params_def by (auto simp: min_def)
  obtain q where q: "ccm_stream (E, encr_start n) c = Some q" "ccm_stream (E, encr_start n) q = Some c"
    using ccm.crypt_round_trip ok by metis
  obtain x where x: "ccm_mac E n m aad q = Some x" "16 \<le> length x" using ccm_mac_total [OF assms(1)] by blast
  obtain d where d: "ccm_stream (E, encr_start n) p = Some d" "ccm_stream (E, encr_start n) d = Some p"
    using ccm.crypt_round_trip ok by metis
  obtain y where y: "ccm_mac E n m aad p = Some y" "16 \<le> length y" using ccm_mac_total [OF assms(1)] by blast
  have len: "length (take m z) = m" if "16 \<le> length z" for z :: bytes
    using that assms(1) by (simp add: ccm_params_def min_def)
  have sym: "take m z = xor_bytes t ?K \<longleftrightarrow> xor_bytes (take m z) ?K = t" if "16 \<le> length z" for z
    by (rule xor_bytes_swap) (use len [OF that] K assms(2) in simp_all)
  have "ccm_encrypt E n m p aad = Some (c, t) \<longleftrightarrow> d = c \<and> xor_bytes (take m y) ?K = t"
    using ccm_encrypt_eq [OF assms(1) y(1) d(1)] by simp
  moreover have "ccm_decrypt E n m c t aad = Some (Some p) \<longleftrightarrow> q = p \<and> take m x = xor_bytes t ?K"
    using ccm_decrypt_eq [OF assms(1) _ q(1) x(1), of t] assms(2) by auto
  moreover have "q = p \<longleftrightarrow> d = c" using q d by (metis option.inject)
  ultimately show ?thesis using sym x y by auto
qed

lemma ccm_encrypt_total:
  assumes "ccm_params E n m aad"
  obtains c t where "ccm_encrypt E n m p aad = Some (c, t)" "length c = length p" "length t = m"
proof -
  have ok: "ccm_ok (E, encr_start n) k" for k
    using assms length_encr_start by (simp add: ccm_ok_def ccm_params_def)
  obtain c where c: "ccm_stream (E, encr_start n) p = Some c" "length c = length p"
    using ccm.crypt_round_trip ok by metis
  obtain x where x: "ccm_mac E n m aad p = Some x" "16 \<le> length x" using ccm_mac_total [OF assms] by blast
  have "length (E (tag_block n)) = 16"
    using assms block_cipherD tag_block_eq(2) unfolding ccm_params_def by blast
  then show ?thesis
    using that [OF ccm_encrypt_eq [OF assms x(1) c(1)]] c x assms by (simp add: ccm_params_def)
qed

section \<open>Properties\<close>

text \<open>C25: a message is accepted by the CCM engine, with plaintext \<open>p\<close>, exactly when it is the
  ciphertext and tag the engine itself produces for \<open>p\<close> under the same key, nonce and
  associated data. In particular every encrypted message decrypts to its plaintext, and a message
  with any altered byte of ciphertext or tag that is accepted was itself a valid encryption.\<close>

theorem ccm_accepts_iff:
  assumes "block_cipher E" "13 \<le> length n" "2 \<le> m" "m \<le> 16" "length aad \<le> 30" "length t = m"
  shows "ccm_decrypt E n m c t aad = Some (Some p) \<longleftrightarrow> ccm_encrypt E n m p aad = Some (c, t)"
  using assms by (intro ccm_decrypt_iff_encrypt) (simp_all add: ccm_params_def)

theorem ccm_accepts_iff_witness:
  "let E = rev; n = replicate 13 7; (c, t) = the (ccm_encrypt E n 8 [1, 2, 3] [9]) in
   length t = 8 \<and> ccm_decrypt E n 8 c t [9] = Some (Some [1, 2, 3])"
proof -
  have E: "block_cipher rev" by (simp add: block_cipher_def)
  then have "ccm_params rev (replicate 13 7) 8 [9]" by (simp add: ccm_params_def)
  then obtain c t where e: "ccm_encrypt rev (replicate 13 7) 8 [1, 2, 3] [9] = Some (c, t)" "length t = 8"
    by (rule ccm_encrypt_total)
  then show ?thesis
    using ccm_accepts_iff [OF E, of "replicate 13 7" 8 "[9]" t c "[1, 2, 3]"] by simp
qed

end
