(* ===== verification/Sha256.thy ===== *)
theory Sha256
  imports Prelude
begin

text \<open>
  \<^verbatim>\<open>hashlib.sha256(data).digest()\<close> of the Python standard library (FIPS 180-4), which derives the
  shared key of direct messages and the gateway's default node id.
\<close>

type_synonym w32 = "32 word"

definition sha_K :: "w32 list" where
  "sha_K =
     [1116352408, 1899447441, 3049323471, 3921009573, 961987163, 1508970993, 2453635748, 2870763221,
      3624381080, 310598401, 607225278, 1426881987, 1925078388, 2162078206, 2614888103, 3248222580,
      3835390401, 4022224774, 264347078, 604807628, 770255983, 1249150122, 1555081692, 1996064986,
      2554220882, 2821834349, 2952996808, 3210313671, 3336571891, 3584528711, 113926993, 338241895,
      666307205, 773529912, 1294757372, 1396182291, 1695183700, 1986661051, 2177026350, 2456956037,
      2730485921, 2820302411, 3259730800, 3345764771, 3516065817, 3600352804, 4094571909, 275423344,
      430227734, 506948616, 659060556, 883997877, 958139571, 1322822218, 1537002063, 1747873779,
      1955562222, 2024104815, 2227730452, 2361852424, 2428436474, 2756734187, 3204031479, 3329325298]"

definition sha_H0 :: "w32 list" where
  "sha_H0 = [1779033703, 3144134277, 1013904242, 2773480762,
             1359893119, 2600822924, 528734635, 1541459225]"

definition rotr :: "nat \<Rightarrow> w32 \<Rightarrow> w32" where
  "rotr n x = drop_bit n x OR push_bit (32 - n) x"

definition sha_pad :: "bytes \<Rightarrow> bytes" where
  "sha_pad bs =
     bs @ [0x80] @ replicate (nat ((55 - int (length bs)) mod 64)) 0 @ rev (le_bytes 8 (8 * int (length bs)))"

fun be_words :: "bytes \<Rightarrow> w32 list" where
  "be_words (a # b # c # d # bs) = word_of_int (be_int [a, b, c, d]) # be_words bs"
| "be_words _ = []"

text \<open>The message schedule, kept newest word first.\<close>

definition sha_next :: "w32 list \<Rightarrow> w32" where
  "sha_next r =
     (let x = r ! 14; y = r ! 1 in
      (rotr 17 y XOR rotr 19 y XOR drop_bit 10 y) + r ! 6 +
      (rotr 7 x XOR rotr 18 x XOR drop_bit 3 x) + r ! 15)"

fun sha_schedule :: "nat \<Rightarrow> w32 list \<Rightarrow> w32 list" where
  "sha_schedule 0 r = r"
| "sha_schedule (Suc n) r = sha_schedule n (sha_next r # r)"

fun sha_round :: "w32 list \<Rightarrow> w32 \<times> w32 \<Rightarrow> w32 list" where
  "sha_round [a, b, c, d, e, f, g, h] (k, w) =
     (let t1 = h + (rotr 6 e XOR rotr 11 e XOR rotr 25 e) + ((e AND f) XOR (NOT e AND g)) + k + w;
          t2 = (rotr 2 a XOR rotr 13 a XOR rotr 22 a) + ((a AND b) XOR (a AND c) XOR (b AND c))
      in [t1 + t2, a, b, c, d + t1, e, f, g])"
| "sha_round s _ = s"

definition sha_block :: "w32 list \<Rightarrow> bytes \<Rightarrow> w32 list" where
  "sha_block H blk =
     map2 (+) H (foldl sha_round H (zip sha_K (rev (sha_schedule 48 (rev (be_words blk))))))"

function sha_blocks :: "w32 list \<Rightarrow> bytes \<Rightarrow> w32 list" where
  "sha_blocks H bs = (if bs = [] then H else sha_blocks (sha_block H (take 64 bs)) (drop 64 bs))"
  by pat_completeness auto
termination
  by (relation "measure (\<lambda>(H, bs). length bs)") auto

declare sha_blocks.simps [simp del]

definition sha256 :: "bytes \<Rightarrow> bytes" where
  "sha256 bs = concat (map (\<lambda>w. rev (le_bytes 4 (uint w))) (sha_blocks sha_H0 (sha_pad bs)))"

lemma length_sha_round [simp]: "length (sha_round s kw) = length s"
  by (induction s kw rule: sha_round.induct) (simp_all add: Let_def)

lemma length_sha_fold [simp]: "length (foldl sha_round s kws) = length s"
  by (induction kws arbitrary: s) simp_all

lemma length_sha_blocks: "length H = 8 \<Longrightarrow> length (sha_blocks H bs) = 8"
proof (induction H bs rule: sha_blocks.induct)
  case (1 H bs)
  then show ?case by (subst sha_blocks.simps) (simp add: sha_block_def)
qed

lemma length_sha256 [simp, codec_simps]: "length (sha256 bs) = 32"
proof -
  have "length (concat (map (\<lambda>w. rev (le_bytes 4 (uint w))) ws)) = 4 * length ws" for ws :: "w32 list"
    by (induction ws) simp_all
  then show ?thesis
    by (simp add: sha256_def length_sha_blocks sha_H0_def)
qed

end
