(* ===== verification/Pki_Crypto.thy ===== *)
theory Pki_Crypto
  imports Aes_Ccm Sha256
begin

text \<open>
  \<^verbatim>\<open>src/src/decode/pki_crypto.py\<close>: direct messages under a key agreed between two nodes. The third
  party primitives the decoding and sending code calls are the fields of \<open>crypto_lib\<close>: the AES block
  function of a key, AES in counter mode, and the X25519 exchange of a private with a
  public key (\<^const>\<open>None\<close> where the library raises). The random extra nonce is an argument.
\<close>

record crypto_lib =
  aes_block :: "bytes \<Rightarrow> bytes \<Rightarrow> bytes"
  aes_ctr :: "bytes \<Rightarrow> bytes \<Rightarrow> bytes \<Rightarrow> bytes option"
  x25519 :: "bytes \<Rightarrow> bytes \<Rightarrow> bytes option"

text \<open>What is relied on: AES of a 32-byte key is a function on 16-byte blocks; counter mode under a
  16- or 32-byte key and a 16-byte initial counter block is length-preserving and its own inverse.\<close>

definition aes_lib :: "crypto_lib \<Rightarrow> bool" where
  "aes_lib L \<longleftrightarrow>
     (\<forall>key. length key = 16 \<or> length key = 32 \<longrightarrow> block_cipher (aes_block L key)) \<and>
     (\<forall>key iv inp. (length key = 16 \<or> length key = 32) \<and> length iv = 16 \<longrightarrow>
        (\<exists>out. aes_ctr L key iv inp = Some out \<and> length out = length inp \<and> aes_ctr L key iv out = Some inp))"

text \<open>The library's counter mode is one of the key streams, whatever the message.\<close>

definition ctr_ok :: "crypto_lib \<times> bytes \<times> bytes \<Rightarrow> nat \<Rightarrow> bool" where
  "ctr_ok c n \<longleftrightarrow> (case c of (L, key, iv) \<Rightarrow> aes_lib L \<and> (length key = 16 \<or> length key = 32) \<and> length iv = 16)"

definition ctr_stream :: "crypto_lib \<times> bytes \<times> bytes \<Rightarrow> bytes \<Rightarrow> bytes option" where
  "ctr_stream c inp = (case c of (L, key, iv) \<Rightarrow> aes_ctr L key iv inp)"

interpretation ctr: stream_cipher ctr_ok ctr_stream
proof
  fix c :: "crypto_lib \<times> bytes \<times> bytes" and inp out :: bytes
  assume "ctr_ok c (length inp)"
  then obtain L key iv where c: "c = (L, key, iv)" and ok: "aes_lib L" "(length key = 16 \<or> length key = 32) \<and> length iv = 16"
    by (cases c) (auto simp: ctr_ok_def)
  obtain o' where e: "aes_ctr L key iv inp = Some o'" "length o' = length inp" "aes_ctr L key iv o' = Some inp"
    using conjunct2 [OF ok(1) [unfolded aes_lib_def]] ok(2) by blast
  then show "\<exists>out. ctr_stream c inp = Some out \<and> length out = length inp" by (simp add: c ctr_stream_def)
  assume "ctr_stream c inp = Some out"
  then show "ctr_stream c out = Some inp" using c e by (simp add: ctr_stream_def)
qed

definition PKC_OVERHEAD :: nat where
  "PKC_OVERHEAD = 12"

definition PKC_MIC_LEN :: nat where
  "PKC_MIC_LEN = 8"

definition build_pki_nonce :: "int \<Rightarrow> int \<Rightarrow> int \<Rightarrow> bytes" where
  "build_pki_nonce from_node_id packet_id extra_nonce =
     (let nonce = le_bytes 8 (packet_id mod 2 ^ 64) @ le_bytes 4 (from_node_id mod 2 ^ 32) @ [0] in
      if extra_nonce \<noteq> 0
      then take 4 nonce @ le_bytes 4 (extra_nonce mod 2 ^ 32) @ drop 8 nonce
      else nonce)"

definition derive_shared_key :: "crypto_lib \<Rightarrow> bytes \<Rightarrow> bytes \<Rightarrow> bytes option" where
  "derive_shared_key L private_key remote_public_key =
     (if length private_key \<noteq> 32 \<or> length remote_public_key \<noteq> 32 then None
      else map_option sha256 (x25519 L private_key remote_public_key))"

definition encrypt_pki_payload ::
    "crypto_lib \<Rightarrow> int \<Rightarrow> bytes \<Rightarrow> bytes \<Rightarrow> bytes \<Rightarrow> int \<Rightarrow> int \<Rightarrow> bytes option" where
  "encrypt_pki_payload L extra_nonce plaintext private_key remote_public_key from_node_id packet_id =
     do {
       shared_key \<leftarrow> derive_shared_key L private_key remote_public_key;
       let nonce = build_pki_nonce from_node_id packet_id extra_nonce;
       (ciphertext, mic) \<leftarrow> ccm_encrypt (aes_block L shared_key) nonce PKC_MIC_LEN plaintext [];
       extra \<leftarrow> pack_le 4 extra_nonce;
       Some (ciphertext @ mic @ extra)
     }"

definition decrypt_pki_payload ::
    "crypto_lib \<Rightarrow> bytes \<Rightarrow> bytes \<Rightarrow> bytes \<Rightarrow> int \<Rightarrow> int \<Rightarrow> bytes option" where
  "decrypt_pki_payload L encrypted private_key remote_public_key from_node_id packet_id =
     (if length encrypted \<le> PKC_OVERHEAD then None
      else do {
        let body_len = length encrypted - PKC_OVERHEAD;
        let ciphertext = take body_len encrypted;
        let auth = drop body_len encrypted;
        let extra_nonce = le_int (slice 8 12 auth);
        shared_key \<leftarrow> derive_shared_key L private_key remote_public_key;
        let nonce = build_pki_nonce from_node_id packet_id extra_nonce;
        result \<leftarrow> ccm_decrypt (aes_block L shared_key) nonce PKC_MIC_LEN ciphertext (take PKC_MIC_LEN auth) [];
        result
      })"


section \<open>Lemmas\<close>

lemma length_build_pki_nonce [simp]: "length (build_pki_nonce f p e) = 13"
  by (simp add: build_pki_nonce_def Let_def)

lemma derive_shared_key_length: "derive_shared_key L a b = Some k \<Longrightarrow> length k = 32"
  by (auto simp: derive_shared_key_def split: if_splits)

lemma pki_ccm_params:
  assumes "aes_lib L" "derive_shared_key L a b = Some k"
  shows "ccm_params (aes_block L k) (build_pki_nonce f p e) PKC_MIC_LEN []"
  using assms derive_shared_key_length [OF assms(2)]
  by (simp add: ccm_params_def aes_lib_def PKC_MIC_LEN_def)

text \<open>What a receiver accepts is, byte for byte, what a sender holding the same shared key produces.\<close>

lemma decrypt_pki_iff:
  assumes lib: "aes_lib L" and key: "derive_shared_key L priv pub = Some k"
    and len: "length c = length p" "length t = 8" "0 < length p" and e: "0 \<le> e" "e < 2 ^ 32"
  shows "decrypt_pki_payload L (c @ t @ le_bytes 4 e) priv pub f pid = Some p \<longleftrightarrow>
    ccm_encrypt (aes_block L k) (build_pki_nonce f pid e) 8 p [] = Some (c, t)"
proof -
  have t: "length t = PKC_MIC_LEN" using len(2) by (simp add: PKC_MIC_LEN_def)
  have "slice 8 12 (t @ le_bytes 4 e) = le_bytes 4 e" using len(2) by (simp add: slice_def)
  then have x: "le_int (slice 8 12 (t @ le_bytes 4 e)) = e" using e by (simp add: le_int_le_bytes)
  have "decrypt_pki_payload L (c @ t @ le_bytes 4 e) priv pub f pid = Some p \<longleftrightarrow>
      ccm_decrypt (aes_block L k) (build_pki_nonce f pid e) 8 c t [] = Some (Some p)"
    using key len x by (simp add: decrypt_pki_payload_def Let_def PKC_OVERHEAD_def PKC_MIC_LEN_def
        split: Option.bind_splits)
  also have "\<dots> \<longleftrightarrow> ccm_encrypt (aes_block L k) (build_pki_nonce f pid e) 8 p [] = Some (c, t)"
    using ccm_decrypt_iff_encrypt [OF pki_ccm_params [OF lib key] t] by (simp add: PKC_MIC_LEN_def)
  finally show ?thesis .
qed

lemma encrypt_pki_total:
  assumes lib: "aes_lib L" and key: "derive_shared_key L priv pub = Some k" and e: "0 \<le> e" "e < 2 ^ 32"
  obtains c t where "ccm_encrypt (aes_block L k) (build_pki_nonce f pid e) 8 p [] = Some (c, t)"
    "length c = length p" "length t = 8"
    "encrypt_pki_payload L e p priv pub f pid = Some (c @ t @ le_bytes 4 e)"
proof -
  obtain c t where ct: "ccm_encrypt (aes_block L k) (build_pki_nonce f pid e) PKC_MIC_LEN p [] = Some (c, t)"
      "length c = length p" "length t = PKC_MIC_LEN"
    using ccm_encrypt_total [OF pki_ccm_params [OF lib key]] by metis
  moreover have "pack_le 4 e = Some (le_bytes 4 e)" using e by (simp add: pack_le_def)
  ultimately have "encrypt_pki_payload L e p priv pub f pid = Some (c @ t @ le_bytes 4 e)"
    using key by (simp add: encrypt_pki_payload_def Let_def)
  then show ?thesis using that ct by (simp add: PKC_MIC_LEN_def)
qed

lemma encrypt_pki_Some_key:
  "encrypt_pki_payload L e p priv pub f pid = Some out \<Longrightarrow> \<exists>k. derive_shared_key L priv pub = Some k"
  by (auto simp: encrypt_pki_payload_def split: Option.bind_splits)


section \<open>A concrete library\<close>

text \<open>An instance of the parameters that satisfies what is relied on (with no secrecy): it shows
  that the hypotheses can hold, and lets concrete messages be evaluated.\<close>

definition toy_ctr :: "bytes \<Rightarrow> bytes \<Rightarrow> bytes \<Rightarrow> bytes option" where
  "toy_ctr key iv inp =
     (if (length key = 16 \<or> length key = 32) \<and> length iv = 16
      then Some (map (\<lambda>b. b XOR (hd key XOR hd iv)) inp) else None)"

definition toy_lib :: crypto_lib where
  "toy_lib =
     \<lparr>aes_block = (\<lambda>key blk. map (\<lambda>b. b + hd key) (rev blk)), aes_ctr = toy_ctr,
      x25519 = (\<lambda>a b. if length a = 32 \<and> length b = 32 then Some (map2 (+) a b) else None)\<rparr>"

lemma toy_lib_ok: "aes_lib toy_lib"
  by (auto simp: aes_lib_def toy_lib_def toy_ctr_def block_cipher_def o_def)


section \<open>Properties\<close>

text \<open>A direct message sealed by one node and opened by the other gives back the text: when the
  two exchanges agree (the Diffie-Hellman property of X25519), sealing succeeds, adds exactly 12
  bytes, and opening the result with the peer's public key returns the plaintext, for every non-empty plaintext
  and every random extra nonce.\<close>

lemma pki_round_trip:
  assumes "aes_lib L" and "x25519 L priv_a pub_b = Some s" and "x25519 L priv_b pub_a = Some s"
    and "length priv_a = 32" "length pub_a = 32" "length priv_b = 32" "length pub_b = 32"
    and "0 \<le> e" "e < 2 ^ 32" "p \<noteq> []"
  shows "\<exists>out. encrypt_pki_payload L e p priv_a pub_b from_id pid = Some out \<and>
    length out = length p + 12 \<and> decrypt_pki_payload L out priv_b pub_a from_id pid = Some p"
proof -
  have key: "derive_shared_key L priv_a pub_b = Some (sha256 s)" "derive_shared_key L priv_b pub_a = Some (sha256 s)"
    using assms by (simp_all add: derive_shared_key_def)
  obtain c t where ct: "ccm_encrypt (aes_block L (sha256 s)) (build_pki_nonce from_id pid e) 8 p [] = Some (c, t)"
      "length c = length p" "length t = 8"
      "encrypt_pki_payload L e p priv_a pub_b from_id pid = Some (c @ t @ le_bytes 4 e)"
    using encrypt_pki_total [OF assms(1) key(1) assms(8,9)] .
  then show ?thesis
    using decrypt_pki_iff [OF assms(1) key(2) ct(2,3) _ assms(8,9)] assms(10) by simp
qed

lemma pki_round_trip_witness:
  "\<exists>out. encrypt_pki_payload toy_lib 77 [1, 2, 3] (replicate 32 1) (replicate 32 2) 5 6 = Some out \<and>
     length out = length [1 :: byte, 2, 3] + 12 \<and>
     decrypt_pki_payload toy_lib out (replicate 32 2) (replicate 32 1) 5 6 = Some [1, 2, 3]"
  by (rule pki_round_trip [where s = "replicate 32 3"])
    (simp_all add: toy_lib_ok, simp_all add: toy_lib_def numeral_eq_Suc)

text \<open>A received direct message that opens is authentic: its bytes are exactly what the holder of
  the shared key produces for that plaintext, sender and packet id with the extra nonce
  the message carries.\<close>

lemma pki_authentic:
  assumes "aes_lib L" "decrypt_pki_payload L enc priv pub from_id pid = Some p"
  shows "\<exists>k e. derive_shared_key L priv pub = Some k \<and> e = le_int (last_n 4 enc) \<and>
    encrypt_pki_payload L e p priv pub from_id pid = Some enc"
proof -
  have big: "12 < length enc"
    using assms(2) by (auto simp: decrypt_pki_payload_def PKC_OVERHEAD_def split: if_splits)
  obtain k where k: "derive_shared_key L priv pub = Some k"
    using assms(2) by (auto simp: decrypt_pki_payload_def Let_def split: if_splits Option.bind_splits)
  define c t x where "c = take (length enc - 12) enc" and "t = take 8 (drop (length enc - 12) enc)"
    and "x = last_n 4 enc"
  have x: "length x = 4" "x = drop 8 (drop (length enc - 12) enc)"
    using big by (simp_all add: x_def last_n_def)
  have enc: "enc = c @ t @ x" using big x(2) by (metis c_def t_def append_take_drop_id)
  have e: "0 \<le> le_int x" "le_int x < 2 ^ 32" "le_bytes 4 (le_int x) = x"
    using le_int_less [of x] le_bytes_le_int [of x] x(1) by simp_all
  have "length t = 8" using big by (simp add: t_def)
  have lc: "length c > 0" using big by (simp add: c_def)
  have "length c = length p"
  proof -
    have "ccm_decrypt (aes_block L k) (build_pki_nonce from_id pid (le_int x)) 8 c t [] = Some (Some p)"
      using assms(2) big k \<open>length t = 8\<close> x
      by (simp add: decrypt_pki_payload_def Let_def PKC_OVERHEAD_def PKC_MIC_LEN_def c_def t_def slice_def
          split: Option.bind_splits)
    then have "ccm_encrypt (aes_block L k) (build_pki_nonce from_id pid (le_int x)) 8 p [] = Some (c, t)"
      using ccm_decrypt_iff_encrypt [OF pki_ccm_params [OF assms(1) k]] \<open>length t = 8\<close>
      by (simp add: PKC_MIC_LEN_def)
    then show ?thesis using ccm_encrypt_total [OF pki_ccm_params [OF assms(1) k, unfolded PKC_MIC_LEN_def]] by (metis option.inject prod.inject)
  qed
  then have "ccm_encrypt (aes_block L k) (build_pki_nonce from_id pid (le_int x)) 8 p [] = Some (c, t)"
    using decrypt_pki_iff [OF assms(1) k _ \<open>length t = 8\<close> _ e(1,2), of c p from_id pid] assms(2) enc e(3) lc by simp
  then have "encrypt_pki_payload L (le_int x) p priv pub from_id pid = Some enc"
    using encrypt_pki_total [OF assms(1) k e(1,2)] enc e(3) by (metis option.inject prod.inject)
  then show ?thesis using k x_def by blast
qed

lemma pki_authentic_witness:
  "\<exists>enc k e. decrypt_pki_payload toy_lib enc (replicate 32 2) (replicate 32 1) 5 6 = Some [1, 2, 3] \<and>
     derive_shared_key toy_lib (replicate 32 2) (replicate 32 1) = Some k \<and> e = le_int (last_n 4 enc) \<and>
     encrypt_pki_payload toy_lib e [1, 2, 3] (replicate 32 2) (replicate 32 1) 5 6 = Some enc"
proof -
  have key: "derive_shared_key toy_lib (replicate 32 2) (replicate 32 1) = Some (sha256 (replicate 32 3))"
    by (simp add: derive_shared_key_def toy_lib_def numeral_eq_Suc)
  have e: "(0 :: int) \<le> 77" "(77 :: int) < 2 ^ 32" by simp_all
  obtain c t where "ccm_encrypt (aes_block toy_lib (sha256 (replicate 32 3))) (build_pki_nonce 5 6 77) 8 [1, 2, 3] [] =
      Some (c, t)" "length c = length [1 :: byte, 2, 3]" "length t = 8"
    by (rule encrypt_pki_total [OF toy_lib_ok key e, of 5 6 "[1, 2, 3]"]) (rule that)
  then have "decrypt_pki_payload toy_lib (c @ t @ le_bytes 4 77) (replicate 32 2) (replicate 32 1) 5 6 = Some [1, 2, 3]"
    using decrypt_pki_iff [OF toy_lib_ok key, of c "[1, 2, 3]" t 77 5 6] by simp
  then show ?thesis using pki_authentic [OF toy_lib_ok] by blast
qed

end
