(* ===== verification/Base64.thy ===== *)
theory Base64
  imports Prelude
begin

text \<open>
  \<^verbatim>\<open>base64\<close> of the Python standard library, as the channel keys of the configuration use it:
  \<^verbatim>\<open>b64decode\<close> in its default, non-validating mode (characters outside the alphabet are skipped,
  a completed padding ends the input) and \<^verbatim>\<open>b64encode\<close>.
\<close>

definition b64_value :: "nat \<Rightarrow> nat option" where
  "b64_value c =
     (if 65 \<le> c \<and> c \<le> 90 then Some (c - 65)
      else if 97 \<le> c \<and> c \<le> 122 then Some (c - 71)
      else if 48 \<le> c \<and> c \<le> 57 then Some (c + 4)
      else if c = 43 then Some 62 else if c = 47 then Some 63 else None)"

definition b64_char :: "nat \<Rightarrow> nat" where
  "b64_char v =
     (if v < 26 then v + 65 else if v < 52 then v + 71 else if v < 62 then v - 4
      else if v = 62 then 43 else 47)"

text \<open>\<open>a2b quad left pads input\<close>: the scanner, with the position in the group of four, the bits left
  over and the padding characters seen. \<^const>\<open>None\<close> is \<^verbatim>\<open>binascii.Error\<close>, a \<^verbatim>\<open>ValueError\<close>.\<close>

fun a2b :: "nat \<Rightarrow> nat \<Rightarrow> nat \<Rightarrow> nat list \<Rightarrow> bytes option" where
  "a2b quad left pads [] = (if quad = 0 then Some [] else None)"
| "a2b quad left pads (c # cs) =
     (if c = 61 then
        (if 2 \<le> quad \<and> 4 \<le> quad + pads + 1 then Some []
         else a2b quad left (if 2 \<le> quad then pads + 1 else pads) cs)
      else (case b64_value c of
          None \<Rightarrow> a2b quad left pads cs
        | Some v \<Rightarrow>
            if quad = 0 then a2b 1 v 0 cs
            else if quad = 1 then map_option ((#) (of_nat (left * 4 + v div 16))) (a2b 2 (v mod 16) 0 cs)
            else if quad = 2 then map_option ((#) (of_nat (left * 16 + v div 4))) (a2b 3 (v mod 4) 0 cs)
            else map_option ((#) (of_nat (left * 64 + v))) (a2b 0 0 0 cs)))"

text \<open>A string with a non-ASCII character is a \<^verbatim>\<open>ValueError\<close>.\<close>

definition b64decode :: "ustr \<Rightarrow> bytes option" where
  "b64decode s = (if list_all (\<lambda>c. c < 128) s then a2b 0 0 0 s else None)"

fun b64encode :: "bytes \<Rightarrow> nat list" where
  "b64encode [] = []"
| "b64encode [x] = (let a = unat x in [b64_char (a div 4), b64_char (a mod 4 * 16), 61, 61])"
| "b64encode [x, y] =
     (let a = unat x; b = unat y in
      [b64_char (a div 4), b64_char (a mod 4 * 16 + b div 16), b64_char (b mod 16 * 4), 61])"
| "b64encode (x # y # z # bs) =
     (let a = unat x; b = unat y; c = unat z in
      b64_char (a div 4) # b64_char (a mod 4 * 16 + b div 16) # b64_char (b mod 16 * 4 + c div 64) #
      b64_char (c mod 64) # b64encode bs)"

lemma b64_value_char [simp]: "v < 64 \<Longrightarrow> b64_value (b64_char v) = Some v"
  by (auto simp: b64_value_def b64_char_def)

lemma b64_char_facts [simp]: "v < 64 \<Longrightarrow> b64_char v \<noteq> 61" "b64_char v < 128"
  by (auto simp: b64_char_def)

lemma unat_byte_less [simp]: "unat (b :: byte) < 256"
  using unsigned_less [where 'a = nat, of b] by simp

text \<open>The three ways a group of four is read, with the bytes it stands for as side conditions.\<close>

lemma a2b_group3:
  assumes "u < 64" "v < 64" "w < 64" "x < 64"
    and "a = u * 4 + v div 16" "b = v mod 16 * 16 + w div 4" "c = w mod 4 * 64 + x"
  shows "a2b 0 l p (b64_char u # b64_char v # b64_char w # b64_char x # cs) =
    map_option (\<lambda>bs. of_nat a # of_nat b # of_nat c # bs) (a2b 0 0 0 cs)"
  using assms(1-4) unfolding assms(5-7) by (cases "a2b 0 0 0 cs") simp_all

lemma a2b_group2:
  assumes "u < 64" "v < 64" "w < 64" and "a = u * 4 + v div 16" "b = v mod 16 * 16 + w div 4"
  shows "a2b 0 l p [b64_char u, b64_char v, b64_char w, 61] = Some [of_nat a, of_nat b]"
  using assms(1-3) unfolding assms(4-5) by simp

lemma a2b_group1:
  assumes "u < 64" "v < 64" and "a = u * 4 + v div 16"
  shows "a2b 0 l p [b64_char u, b64_char v, 61, 61] = Some [of_nat a]"
  using assms(1-2) unfolding assms(3) by simp

lemma b64_split:
  fixes a b k :: nat
  assumes "b < k"
  shows "(a * k + b) div k = a" "(a * k + b) mod k = b"
  using assms by simp_all

lemma b64_bits:
  fixes a :: nat
  assumes "a < 256"
  shows "a div 4 < 64" "a div 16 < 16" "a div 64 < 4"
  using assms by (simp_all add: div_less_iff_less_mult)

lemma b64_low: "a mod 4 * 16 + k < 64" if "k < 16" for a k :: nat
proof -
  have "a mod 4 < 4" by simp
  then show ?thesis using that by linarith
qed

lemma b64_mid: "b mod 16 * 4 + k < 64" if "k < 4" for b k :: nat
proof -
  have "b mod 16 < 16" by simp
  then show ?thesis using that by linarith
qed

lemma a2b_encode: "a2b 0 0 0 (b64encode bs) = Some bs"
proof (induction bs rule: b64encode.induct)
  case 1
  show ?case by simp
next
  case (2 x)
  have "a2b 0 0 0 [b64_char (unat x div 4), b64_char (unat x mod 4 * 16), 61, 61] = Some [of_nat (unat x)]"
    by (rule a2b_group1) (use b64_low [of 0 "unat x"] in \<open>simp_all add: b64_bits\<close>)
  then show ?case by (simp add: Let_def)
next
  case (3 x y)
  let ?a = "unat x" and ?b = "unat y"
  have "a2b 0 0 0 [b64_char (?a div 4), b64_char (?a mod 4 * 16 + ?b div 16), b64_char (?b mod 16 * 4), 61] =
      Some [of_nat ?a, of_nat ?b]"
    by (rule a2b_group2)
      (use b64_mid [of 0 ?b] in \<open>simp_all add: b64_bits b64_low b64_split del: mod_mult_self3 div_mult_self3\<close>)
  then show ?case by (simp add: Let_def)
next
  case (4 x y z bs)
  let ?a = "unat x" and ?b = "unat y" and ?c = "unat z"
  have "a2b 0 0 0 (b64_char (?a div 4) # b64_char (?a mod 4 * 16 + ?b div 16) #
      b64_char (?b mod 16 * 4 + ?c div 64) # b64_char (?c mod 64) # b64encode bs) =
      map_option (\<lambda>bs. of_nat ?a # of_nat ?b # of_nat ?c # bs) (a2b 0 0 0 (b64encode bs))"
    by (rule a2b_group3)
      (simp_all add: b64_bits b64_low b64_mid b64_split del: mod_mult_self3 div_mult_self3)
  then show ?case using 4 by (simp add: Let_def)
qed

lemma b64encode_ascii: "list_all (\<lambda>c. c < 128) (b64encode bs)"
  by (induction bs rule: b64encode.induct) (simp_all add: Let_def)

lemma b64decode_encode [codec_simps]: "b64decode (b64encode bs) = Some bs"
  by (simp add: b64decode_def b64encode_ascii a2b_encode)

end
