(* ===== verification/Utf8.thy ===== *)
theory Utf8
  imports Prelude
begin

text \<open>
  The two text codecs of the language the components rely on: \<^verbatim>\<open>str.encode("utf-8")\<close>, which
  raises on a lone surrogate, and \<^verbatim>\<open>bytes.decode("utf-8", errors="replace")\<close>, which is total
  and writes one U+FFFD for every maximal ill-formed prefix. A string is its list of code
  points. The round trip is the fact the message paths need.
\<close>

definition scalar :: "nat \<Rightarrow> bool" where
  "scalar c \<longleftrightarrow> c < 0x110000 \<and> \<not> (0xD800 \<le> c \<and> c \<le> 0xDFFF)"

definition utf8_char :: "nat \<Rightarrow> nat list" where
  "utf8_char c =
     (if c < 0x80 then [c]
      else if c < 0x800 then [0xC0 + c div 64, 0x80 + c mod 64]
      else if c < 0x10000 then [0xE0 + c div 4096, 0x80 + c div 64 mod 64, 0x80 + c mod 64]
      else [0xF0 + c div 262144, 0x80 + c div 4096 mod 64, 0x80 + c div 64 mod 64, 0x80 + c mod 64])"

definition utf8_encode :: "ustr \<Rightarrow> bytes option" where
  "utf8_encode s = (if list_all scalar s then Some (map of_nat (concat (map utf8_char s))) else None)"

abbreviation replacement_char :: nat where
  "replacement_char \<equiv> 0xFFFD"

definition is_cont :: "nat \<Rightarrow> bool" where
  "is_cont b \<longleftrightarrow> 0x80 \<le> b \<and> b \<le> 0xBF"

text \<open>Which second byte a three- or four-byte lead admits (no overlong forms, no surrogates,
  nothing above U+10FFFF).\<close>

definition second_ok :: "nat \<Rightarrow> nat \<Rightarrow> bool" where
  "second_ok b b2 \<longleftrightarrow>
     (if b = 0xE0 then 0xA0 \<le> b2 \<and> b2 \<le> 0xBF
      else if b = 0xED then 0x80 \<le> b2 \<and> b2 \<le> 0x9F
      else if b = 0xF0 then 0x90 \<le> b2 \<and> b2 \<le> 0xBF
      else if b = 0xF4 then 0x80 \<le> b2 \<and> b2 \<le> 0x8F
      else is_cont b2)"

text \<open>One decoding step: the code point and how many bytes after the lead it consumes.\<close>

definition utf8_step :: "nat \<Rightarrow> nat list \<Rightarrow> nat \<times> nat" where
  "utf8_step b bs =
     (if b < 0x80 then (b, 0)
      else if 0xC2 \<le> b \<and> b \<le> 0xDF then
        (case bs of
           b2 # _ \<Rightarrow> if is_cont b2 then ((b - 0xC0) * 64 + (b2 - 0x80), 1) else (replacement_char, 0)
         | [] \<Rightarrow> (replacement_char, 0))
      else if 0xE0 \<le> b \<and> b \<le> 0xEF then
        (case bs of
           b2 # r \<Rightarrow>
             if second_ok b b2 then
               (case r of
                  b3 # _ \<Rightarrow>
                    if is_cont b3
                    then ((b - 0xE0) * 4096 + (b2 - 0x80) * 64 + (b3 - 0x80), 2)
                    else (replacement_char, 1)
                | [] \<Rightarrow> (replacement_char, 1))
             else (replacement_char, 0)
         | [] \<Rightarrow> (replacement_char, 0))
      else if 0xF0 \<le> b \<and> b \<le> 0xF4 then
        (case bs of
           b2 # r \<Rightarrow>
             if second_ok b b2 then
               (case r of
                  b3 # q \<Rightarrow>
                    if is_cont b3 then
                      (case q of
                         b4 # _ \<Rightarrow>
                           if is_cont b4
                           then ((b - 0xF0) * 262144 + (b2 - 0x80) * 4096 + (b3 - 0x80) * 64 + (b4 - 0x80), 3)
                           else (replacement_char, 2)
                       | [] \<Rightarrow> (replacement_char, 2))
                    else (replacement_char, 1)
                | [] \<Rightarrow> (replacement_char, 1))
             else (replacement_char, 0)
         | [] \<Rightarrow> (replacement_char, 0))
      else (replacement_char, 0))"

fun utf8_decode_nat :: "nat list \<Rightarrow> ustr" where
  "utf8_decode_nat [] = []"
| "utf8_decode_nat (b # bs) =
     fst (utf8_step b bs) # utf8_decode_nat (drop (snd (utf8_step b bs)) bs)"

definition utf8_decode_replace :: "bytes \<Rightarrow> ustr" where
  "utf8_decode_replace bs = utf8_decode_nat (map unat bs)"

lemma utf8_char_not_Nil: "utf8_char c \<noteq> []"
  by (simp add: utf8_char_def)

lemma utf8_char_byte: "scalar c \<Longrightarrow> b \<in> set (utf8_char c) \<Longrightarrow> b < 256"
  by (auto simp: utf8_char_def scalar_def split: if_splits)

lemma utf8_step_2:
  "2 \<le> x \<Longrightarrow> x < 32 \<Longrightarrow> z < 64 \<Longrightarrow>
   utf8_step (0xC0 + x) ((0x80 + z) # rest) = (x * 64 + z, 1)"
  by (simp add: utf8_step_def is_cont_def)

lemma utf8_step_3:
  "x < 16 \<Longrightarrow> y < 64 \<Longrightarrow> z < 64 \<Longrightarrow> (x = 0 \<longrightarrow> 32 \<le> y) \<Longrightarrow> (x = 13 \<longrightarrow> y < 32) \<Longrightarrow>
   utf8_step (0xE0 + x) ((0x80 + y) # (0x80 + z) # rest) = (x * 4096 + y * 64 + z, 2)"
  by (auto simp: utf8_step_def is_cont_def second_ok_def)

lemma utf8_step_4:
  "w \<le> 4 \<Longrightarrow> x < 64 \<Longrightarrow> y < 64 \<Longrightarrow> z < 64 \<Longrightarrow> (w = 0 \<longrightarrow> 16 \<le> x) \<Longrightarrow> (w = 4 \<longrightarrow> x < 16) \<Longrightarrow>
   utf8_step (0xF0 + w) ((0x80 + x) # (0x80 + y) # (0x80 + z) # rest) =
     (w * 262144 + x * 4096 + y * 64 + z, 3)"
  by (auto simp: utf8_step_def is_cont_def second_ok_def)

lemma base64_digits:
  fixes c :: nat
  shows "c = c div 64 * 64 + c mod 64"
    and "c = c div 4096 * 4096 + c div 64 mod 64 * 64 + c mod 64"
    and "c = c div 262144 * 262144 + c div 4096 mod 64 * 4096 + c div 64 mod 64 * 64 + c mod 64"
proof -
  have e: "c div 4096 = c div 64 div 64" "c div 262144 = c div 4096 div 64"
    using div_mult2_eq [of c 64 64] div_mult2_eq [of c 4096 64] by simp_all
  show 1: "c = c div 64 * 64 + c mod 64" by simp
  have 2: "c div 64 = c div 4096 * 64 + c div 64 mod 64" unfolding e by simp
  have 3: "c div 4096 = c div 262144 * 64 + c div 4096 mod 64" unfolding e(2) by simp
  show 4: "c = c div 4096 * 4096 + c div 64 mod 64 * 64 + c mod 64" using 1 2 by linarith
  show "c = c div 262144 * 262144 + c div 4096 mod 64 * 4096 + c div 64 mod 64 * 64 + c mod 64"
    using 3 4 by linarith
qed

lemma utf8_step_char:
  assumes "scalar c" and "utf8_char c = b # bs"
  shows "utf8_step b (bs @ rest) = (c, length bs)"
proof -
  have lt: "c mod 64 < 64" "c div 64 mod 64 < 64" "c div 4096 mod 64 < 64" by simp_all
  consider (1) "c < 0x80" | (2) "0x80 \<le> c" "c < 0x800" | (3) "0x800 \<le> c" "c < 0x10000"
    | (4) "0x10000 \<le> c" by linarith
  then show ?thesis
  proof cases
    case 1
    then show ?thesis using assms by (auto simp: utf8_char_def utf8_step_def)
  next
    case 2
    have "2 \<le> c div 64" "c div 64 < 32" using 2 by auto
    then show ?thesis
      using assms(2) 2 utf8_step_2 [OF _ _ lt(1), of "c div 64" rest] base64_digits(1) [of c]
      by (auto simp: utf8_char_def)
  next
    case 3
    have x: "c div 4096 < 16" using 3 by auto
    have y: "c div 4096 = 0 \<longrightarrow> 32 \<le> c div 64 mod 64" "c div 4096 = 13 \<longrightarrow> c div 64 mod 64 < 32"
      using base64_digits(2) [of c] lt 3 assms(1) by (auto simp: scalar_def)
    show ?thesis
      using assms(2) 3 utf8_step_3 [OF x lt(2,1) y, of rest] base64_digits(2) [of c]
      by (auto simp: utf8_char_def)
  next
    case 4
    have w: "c div 262144 \<le> 4" using assms(1) by (auto simp: scalar_def)
    have x: "c div 262144 = 0 \<longrightarrow> 16 \<le> c div 4096 mod 64" "c div 262144 = 4 \<longrightarrow> c div 4096 mod 64 < 16"
      using base64_digits(3) [of c] lt 4 assms(1) by (auto simp: scalar_def)
    show ?thesis
      using assms(2) 4 utf8_step_4 [OF w lt(3,2,1) x, of rest] base64_digits(3) [of c]
      by (auto simp: utf8_char_def)
  qed
qed

lemma utf8_decode_char:
  assumes "scalar c"
  shows "utf8_decode_nat (utf8_char c @ rest) = c # utf8_decode_nat rest"
proof -
  obtain b bs where "utf8_char c = b # bs" using utf8_char_not_Nil [of c] by (cases "utf8_char c") auto
  with utf8_step_char [OF assms this] show ?thesis by simp
qed

lemma utf8_decode_chars:
  "list_all scalar s \<Longrightarrow> utf8_decode_nat (concat (map utf8_char s)) = s"
  by (induction s) (simp_all add: utf8_decode_char)

text \<open>Decoding the encoding of a string gives the string back.\<close>

lemma utf8_roundtrip [codec_simps]:
  assumes "utf8_encode s = Some bs"
  shows "utf8_decode_replace bs = s"
proof -
  have s: "list_all scalar s" and bs: "bs = map of_nat (concat (map utf8_char s))"
    using assms by (auto simp: utf8_encode_def split: if_splits)
  have "map (unat \<circ> (of_nat :: nat \<Rightarrow> byte)) (concat (map utf8_char s)) = concat (map utf8_char s)"
    using s utf8_char_byte by (intro map_idI) (auto simp: list_all_iff unat_of_nat)
  then show ?thesis
    by (simp add: utf8_decode_replace_def bs utf8_decode_chars [OF s])
qed

text \<open>ASCII text is encoded byte for byte.\<close>

lemma utf8_encode_lit:
  assumes "\<forall>c \<in> set s. (of_char c :: nat) < 128"
  shows "utf8_encode (lit s) = Some (map (\<lambda>c. of_nat (of_char c)) s)"
proof -
  have "list_all scalar (lit s)"
    using assms by (auto simp: lit_def list_all_iff scalar_def)
  moreover have "concat (map utf8_char (lit s)) = lit s"
    using assms by (induction s) (auto simp: lit_def utf8_char_def)
  ultimately show ?thesis by (simp add: utf8_encode_def lit_def)
qed

section \<open>Hexadecimal text\<close>

lemma ascii_bytes_hex: "list_all (\<lambda>c. c < 128) (lit (bytes_hex hexdig b))"
proof (induction b)
  case Nil
  then show ?case by (simp add: bytes_hex_def lit_def)
next
  case (Cons x b)
  have d: "n < 16 \<Longrightarrow> of_char (hexdig n) < (128 :: nat)" for n
    using hex_char_hexdig(1) [of n] by (auto simp: hex_char_def hexval_def Let_def split: if_splits)
  have "unat x div 16 < 16" "unat x mod 16 < 16"
    using unsigned_less [where 'a = nat, of x] by (auto simp: div_less_iff_less_mult)
  then show ?case using Cons d by (simp add: bytes_hex_def lit_def)
qed

lemma scalar_bytes_hex: "list_all scalar (lit (bytes_hex hexdig b))"
  using ascii_bytes_hex [of b] by (auto simp: list_all_iff scalar_def)

end
