(* ===== verification/Crypto_Service.thy ===== *)
theory Crypto_Service
  imports Pki_Crypto Base64 Utf8
begin

text \<open>
  \<^verbatim>\<open>src/src/decode/crypto_service.py\<close>: the key ring of the gateway. The state is the record
  \<open>crypto\<close>; the node database the service may consult for a peer's key is an argument (\<open>db\<close>: the
  non-empty \<^verbatim>\<open>public_key\<close> text stored for a node id, \<^const>\<open>None\<close> when there is no row or SQLite fails).
  Where a method can raise, the outer \<^const>\<open>None\<close> is the exception.
\<close>

definition MESHTASTIC_DEFAULT_KEY_B64 :: ustr where
  "MESHTASTIC_DEFAULT_KEY_B64 = lit ''AQ==''"

definition MESHTASTIC_DEFAULT_PSK :: bytes where
  "MESHTASTIC_DEFAULT_PSK =
     [0xD4, 0xF1, 0xBB, 0x3A, 0x20, 0x29, 0x07, 0x59, 0xF0, 0xBC, 0xFF, 0xAB, 0xCF, 0x4E, 0x69, 0x01]"

record crypto =
  cs_keys :: "(ustr \<times> bytes) list"
  cs_private_key :: "bytes option"
  cs_public_key :: "bytes option"
  cs_public_keys :: "(int \<times> bytes) list"
  cs_node_db_path :: "string option"
  cs_default_key :: "bytes option"

definition expand_key :: "bytes \<Rightarrow> bytes" where
  "expand_key raw_key =
     (if raw_key = [] then replicate 16 0
      else if length raw_key = 16 \<or> length raw_key = 32 then raw_key
      else if length raw_key = 1 then
        (let index = raw_key ! 0 in
         if index = 0 then replicate 16 0
         else MESHTASTIC_DEFAULT_PSK[15 := MESHTASTIC_DEFAULT_PSK ! 15 + index - 1])
      else take 16 (raw_key @ replicate 16 0))"

definition crypto_init :: "ustr \<Rightarrow> crypto option" where
  "crypto_init default_key_b64 =
     (let mk = (\<lambda>k. \<lparr>cs_keys = [], cs_private_key = None, cs_public_key = None, cs_public_keys = [],
                     cs_node_db_path = None, cs_default_key = k\<rparr>) in
      if default_key_b64 = [] then Some (mk None)
      else map_option (\<lambda>raw. mk (Some (expand_key raw))) (b64decode default_key_b64))"

definition add_channel_key :: "ustr \<Rightarrow> ustr \<Rightarrow> crypto \<Rightarrow> crypto option" where
  "add_channel_key channel_name key_b64 cs =
     map_option (\<lambda>raw. cs\<lparr>cs_keys := AList.update channel_name (expand_key raw) (cs_keys cs)\<rparr>)
       (b64decode key_b64)"

definition clear_channel_keys :: "crypto \<Rightarrow> crypto" where
  "clear_channel_keys cs = cs\<lparr>cs_keys := []\<rparr>"

definition set_keypair :: "bytes \<Rightarrow> bytes \<Rightarrow> crypto \<Rightarrow> crypto" where
  "set_keypair priv pub cs = cs\<lparr>cs_private_key := Some priv, cs_public_key := Some pub\<rparr>"

definition has_pki :: "crypto \<Rightarrow> bool" where
  "has_pki cs \<longleftrightarrow> cs_private_key cs \<noteq> None \<and> cs_public_key cs \<noteq> None"

definition set_node_db_path :: "string \<Rightarrow> crypto \<Rightarrow> crypto" where
  "set_node_db_path path cs = cs\<lparr>cs_node_db_path := Some path\<rparr>"

definition register_public_key :: "int \<Rightarrow> bytes \<Rightarrow> crypto \<Rightarrow> crypto" where
  "register_public_key node_id pub cs =
     (if length pub = 32 then cs\<lparr>cs_public_keys := AList.update node_id pub (cs_public_keys cs)\<rparr> else cs)"

definition load_public_key_from_db :: "(string \<Rightarrow> ustr option) \<Rightarrow> int \<Rightarrow> crypto \<Rightarrow> bytes option" where
  "load_public_key_from_db db node_id cs =
     (case cs_node_db_path cs of
        None \<Rightarrow> None
      | Some path \<Rightarrow>
          if path = [] then None
          else do {
            row \<leftarrow> db (fmt_x 8 node_id);
            if row = [] then None
            else do { key \<leftarrow> fromhex row; if length key \<noteq> 32 then None else Some key }
          })"

definition lookup_public_key :: "(string \<Rightarrow> ustr option) \<Rightarrow> int \<Rightarrow> crypto \<Rightarrow> bytes option \<times> crypto" where
  "lookup_public_key db node_id cs =
     (case map_of (cs_public_keys cs) node_id of
        Some cached \<Rightarrow> (Some cached, cs)
      | None \<Rightarrow>
          (case load_public_key_from_db db node_id cs of
             Some loaded \<Rightarrow> (Some loaded, cs\<lparr>cs_public_keys := AList.update node_id loaded (cs_public_keys cs)\<rparr>)
           | None \<Rightarrow> (None, cs)))"

definition refresh_public_key_from_db :: "(string \<Rightarrow> ustr option) \<Rightarrow> int \<Rightarrow> crypto \<Rightarrow> bytes option \<times> crypto" where
  "refresh_public_key_from_db db node_id cs =
     lookup_public_key db node_id (cs\<lparr>cs_public_keys := AList.delete node_id (cs_public_keys cs)\<rparr>)"

definition decrypt_meshtastic_pki ::
    "crypto_lib \<Rightarrow> bytes \<Rightarrow> int \<Rightarrow> int \<Rightarrow> bytes \<Rightarrow> crypto \<Rightarrow> bytes option" where
  "decrypt_meshtastic_pki L enc pid sender_node_id sender_public_key cs =
     (case cs_private_key cs of
        None \<Rightarrow> None
      | Some priv \<Rightarrow> decrypt_pki_payload L enc priv sender_public_key sender_node_id pid)"

definition encrypt_meshtastic_pki ::
    "crypto_lib \<Rightarrow> int \<Rightarrow> bytes \<Rightarrow> int \<Rightarrow> int \<Rightarrow> bytes \<Rightarrow> crypto \<Rightarrow> bytes option" where
  "encrypt_meshtastic_pki L extra plaintext pid source_node_id recipient_public_key cs =
     (case cs_private_key cs of
        None \<Rightarrow> None
      | Some priv \<Rightarrow> encrypt_pki_payload L extra plaintext priv recipient_public_key source_node_id pid)"

definition is_pki_packet :: "int \<Rightarrow> int \<Rightarrow> int option \<Rightarrow> nat \<Rightarrow> bool" where
  "is_pki_packet chash dest_id our_node_id payload_len \<longleftrightarrow>
     chash = 0 \<and> our_node_id \<noteq> None \<and> our_node_id = Some dest_id \<and> dest_id \<noteq> 0xFFFFFFFF \<and>
     payload_len > PKC_OVERHEAD"

definition get_all_keys :: "crypto \<Rightarrow> bytes list" where
  "get_all_keys cs =
     (case cs_default_key cs of Some (b # bs) \<Rightarrow> [b # bs] | _ \<Rightarrow> []) @ map snd (cs_keys cs)"

definition build_meshtastic_nonce :: "int \<Rightarrow> int \<Rightarrow> bytes option" where
  "build_meshtastic_nonce pid source_node_id =
     do {
       p \<leftarrow> pack_le 4 pid;
       s \<leftarrow> pack_le 4 source_node_id;
       Some (p @ replicate 4 0 @ s @ replicate 4 0)
     }"

definition build_meshcore_nonce :: "int \<Rightarrow> int \<Rightarrow> bytes option" where
  "build_meshcore_nonce pid source_node_id =
     do {
       p \<leftarrow> pack_le 4 pid;
       s \<leftarrow> pack_le 4 source_node_id;
       Some (p @ replicate 4 0 @ s @ replicate 4 0)
     }"

definition use_key :: "bytes option \<Rightarrow> crypto \<Rightarrow> bytes option" where
  "use_key key cs = (case key of Some k \<Rightarrow> Some k | None \<Rightarrow> cs_default_key cs)"

definition decrypt_meshtastic ::
    "crypto_lib \<Rightarrow> bytes \<Rightarrow> int \<Rightarrow> int \<Rightarrow> bytes option \<Rightarrow> crypto \<Rightarrow> bytes option option" where
  "decrypt_meshtastic L enc pid source_node_id key cs =
     (case use_key key cs of
        None \<Rightarrow> Some None
      | Some k \<Rightarrow> do { nonce \<leftarrow> build_meshtastic_nonce pid source_node_id; Some (aes_ctr L k nonce enc) })"

definition encrypt_meshtastic ::
    "crypto_lib \<Rightarrow> bytes \<Rightarrow> int \<Rightarrow> int \<Rightarrow> bytes option \<Rightarrow> crypto \<Rightarrow> bytes option option" where
  "encrypt_meshtastic L plaintext pid source_node_id key cs =
     (case use_key key cs of
        None \<Rightarrow> Some None
      | Some k \<Rightarrow> do { nonce \<leftarrow> build_meshtastic_nonce pid source_node_id; Some (aes_ctr L k nonce plaintext) })"

definition decrypt_meshcore :: "crypto_lib \<Rightarrow> bytes \<Rightarrow> int \<Rightarrow> int \<Rightarrow> crypto \<Rightarrow> bytes option option" where
  "decrypt_meshcore L enc pid source_node_id cs =
     (case cs_default_key cs of
        None \<Rightarrow> Some None
      | Some k \<Rightarrow> do { nonce \<leftarrow> build_meshcore_nonce pid source_node_id; Some (aes_ctr L k nonce enc) })"

text \<open>The channel hash; \<^verbatim>\<open>channel_name.encode()\<close> raises for a name with a lone surrogate.\<close>

definition xor_all :: "bytes \<Rightarrow> byte" where
  "xor_all bs = foldl (XOR) 0 bs"

definition compute_channel_hash :: "ustr \<Rightarrow> bytes \<Rightarrow> int option" where
  "compute_channel_hash channel_name expanded_key =
     map_option (\<lambda>name. uint (foldl (XOR) (xor_all name) expanded_key)) (utf8_encode channel_name)"


section \<open>Keys\<close>

definition good_key :: "bytes \<Rightarrow> bool" where
  "good_key k \<longleftrightarrow> length k = 16 \<or> length k = 32"

lemma expand_key_length: "good_key (expand_key raw)"
  by (auto simp: good_key_def expand_key_def Let_def MESHTASTIC_DEFAULT_PSK_def)

lemma expand_key_idem: "expand_key (expand_key raw) = expand_key raw"
  using expand_key_length [of raw] by (auto simp: expand_key_def [of "expand_key raw"] good_key_def)

definition crypto_inv :: "crypto \<Rightarrow> bool" where
  "crypto_inv cs \<longleftrightarrow>
     (\<forall>k. cs_default_key cs = Some k \<longrightarrow> good_key k) \<and> (\<forall>e \<in> set (cs_keys cs). good_key (snd e)) \<and>
     (\<forall>e \<in> set (cs_public_keys cs). length (snd e) = 32) \<and>
     distinct (map fst (cs_keys cs)) \<and> distinct (map fst (cs_public_keys cs))"

lemma get_all_keys_good: "crypto_inv cs \<Longrightarrow> k \<in> set (get_all_keys cs) \<Longrightarrow> good_key k"
  by (auto simp: get_all_keys_def crypto_inv_def split: option.splits list.splits)

lemma crypto_init_inv: "crypto_init s = Some cs \<Longrightarrow> crypto_inv cs"
  using expand_key_length by (auto simp: crypto_init_def crypto_inv_def Let_def split: if_splits)

lemma add_channel_key_inv: "add_channel_key n k cs = Some cs' \<Longrightarrow> crypto_inv cs \<Longrightarrow> crypto_inv cs'"
  using expand_key_length
  by (fastforce simp: add_channel_key_def crypto_inv_def distinct_update dest!: in_set_update)

lemma crypto_inv_public_key:
  "crypto_inv cs \<Longrightarrow> length k = 32 \<Longrightarrow>
   crypto_inv (cs\<lparr>cs_public_keys := AList.update n k (cs_public_keys cs)\<rparr>)"
  by (fastforce simp: crypto_inv_def distinct_update dest!: in_set_update)

lemma load_public_key_length: "load_public_key_from_db db n cs = Some k \<Longrightarrow> length k = 32"
  by (auto simp: load_public_key_from_db_def split: option.splits if_splits Option.bind_splits)

lemma lookup_public_key_inv: "crypto_inv cs \<Longrightarrow> crypto_inv (snd (lookup_public_key db n cs))"
  by (auto simp: lookup_public_key_def dest: load_public_key_length intro: crypto_inv_public_key
      split: option.splits)

lemma register_public_key_inv: "crypto_inv cs \<Longrightarrow> crypto_inv (register_public_key n k cs)"
  by (simp add: register_public_key_def crypto_inv_public_key)

lemma refresh_public_key_inv: "crypto_inv cs \<Longrightarrow> crypto_inv (snd (refresh_public_key_from_db db n cs))"
  unfolding refresh_public_key_from_db_def
  by (rule lookup_public_key_inv) (fastforce simp: crypto_inv_def distinct_delete dest: in_set_delete)


section \<open>Counter mode\<close>

lemma build_meshtastic_nonce_eq:
  assumes "0 \<le> pid" "pid < 2 ^ 32" "0 \<le> src" "src < 2 ^ 32"
  shows "build_meshtastic_nonce pid src = Some (le_bytes 4 pid @ replicate 4 0 @ le_bytes 4 src @ replicate 4 0)"
  using assms by (simp add: build_meshtastic_nonce_def pack_le_def)

lemma encrypt_meshtastic_back:
  assumes "aes_lib L" "use_key key cs = Some k" "good_key k" "0 \<le> pid" "pid < 2 ^ 32" "0 \<le> src" "src < 2 ^ 32"
  obtains enc where "encrypt_meshtastic L p pid src key cs = Some (Some enc)" "length enc = length p"
    "\<And>cs' key'. use_key key' cs' = Some k \<Longrightarrow> decrypt_meshtastic L enc pid src key' cs' = Some (Some p)"
proof -
  let ?n = "le_bytes 4 pid @ replicate 4 0 @ le_bytes 4 src @ replicate 4 0"
  have n: "build_meshtastic_nonce pid src = Some ?n"
    using build_meshtastic_nonce_eq [OF assms(4-7)] .
  have "length ?n = 16" by simp
  then obtain enc where "aes_ctr L k ?n p = Some enc" "length enc = length p" "aes_ctr L k ?n enc = Some p"
    using assms(1,3) unfolding aes_lib_def good_key_def by blast
  then show ?thesis
    using that n assms(2) by (simp add: encrypt_meshtastic_def decrypt_meshtastic_def)
qed

lemma build_meshtastic_nonce_inject:
  assumes "build_meshtastic_nonce p s = Some n" "build_meshtastic_nonce p' s' = Some n"
  shows "p = p' \<and> s = s'"
  using assms le_bytes_inject [of p 4 p'] le_bytes_inject [of s 4 s']
  by (auto simp: build_meshtastic_nonce_def pack_le_Some split: Option.bind_splits)


section \<open>Channel hash\<close>

lemma xor_all_foldl: "foldl (XOR) h bs = h XOR xor_all bs"
proof (induction bs arbitrary: h)
  case Nil
  then show ?case by (simp add: xor_all_def)
next
  case (Cons b bs)
  have "foldl (XOR) (h XOR b) bs = (h XOR b) XOR xor_all bs" using Cons .
  moreover have "xor_all (b # bs) = b XOR xor_all bs"
    using Cons [of "0 XOR b"] by (simp add: xor_all_def)
  ultimately show ?case by (simp add: xor.assoc)
qed

lemma compute_channel_hash_eq:
  "utf8_encode name = Some bs \<Longrightarrow> compute_channel_hash name key = Some (uint (xor_all bs XOR xor_all key))"
  by (simp add: compute_channel_hash_def xor_all_foldl)

section \<open>Runs of the key ring\<close>

text \<open>Every state the configuration code, the decoder and the senders can bring the key ring to; the
  database may answer differently each time.\<close>

inductive crypto_reach :: "crypto \<Rightarrow> bool" where
  start: "crypto_init s = Some cs \<Longrightarrow> crypto_reach cs"
| add_key: "crypto_reach cs \<Longrightarrow> add_channel_key n k cs = Some cs' \<Longrightarrow> crypto_reach cs'"
| clear_keys: "crypto_reach cs \<Longrightarrow> crypto_reach (clear_channel_keys cs)"
| keypair: "crypto_reach cs \<Longrightarrow> crypto_reach (set_keypair priv pub cs)"
| db_path: "crypto_reach cs \<Longrightarrow> crypto_reach (set_node_db_path path cs)"
| register: "crypto_reach cs \<Longrightarrow> crypto_reach (register_public_key n pub cs)"
| lookup: "crypto_reach cs \<Longrightarrow> crypto_reach (snd (lookup_public_key db n cs))"
| refresh: "crypto_reach cs \<Longrightarrow> crypto_reach (snd (refresh_public_key_from_db db n cs))"

lemma crypto_reach_inv: "crypto_reach cs \<Longrightarrow> crypto_inv cs"
proof (induction rule: crypto_reach.induct)
  case (clear_keys cs)
  then show ?case by (simp add: crypto_inv_def clear_channel_keys_def)
next
  case (keypair cs priv pub)
  then show ?case by (simp add: crypto_inv_def set_keypair_def)
next
  case (db_path cs path)
  then show ?case by (simp add: crypto_inv_def set_node_db_path_def)
qed (auto intro: crypto_init_inv add_channel_key_inv register_public_key_inv lookup_public_key_inv
    refresh_public_key_inv)

definition demo_crypto :: crypto where
  "demo_crypto = the (crypto_init MESHTASTIC_DEFAULT_KEY_B64)"

lemma demo_crypto_eq:
  "crypto_init MESHTASTIC_DEFAULT_KEY_B64 = Some demo_crypto" "cs_default_key demo_crypto = Some MESHTASTIC_DEFAULT_PSK"
proof -
  have "b64decode MESHTASTIC_DEFAULT_KEY_B64 = Some [1]" by code_simp
  moreover have "expand_key [1] = MESHTASTIC_DEFAULT_PSK" by code_simp
  ultimately show "crypto_init MESHTASTIC_DEFAULT_KEY_B64 = Some demo_crypto"
      "cs_default_key demo_crypto = Some MESHTASTIC_DEFAULT_PSK"
    by (simp_all add: demo_crypto_def crypto_init_def MESHTASTIC_DEFAULT_KEY_B64_def lit_def)
qed


section \<open>Properties\<close>

text \<open>However the key ring was configured and used, every key it offers for decryption is a
  16- or 32-byte AES key, every peer key it returns is a 32-byte X25519 key, and a refresh returns
  what the database holds now, not what was cached.\<close>

lemma key_ring_sound:
  assumes "crypto_reach cs"
  shows "(\<forall>k \<in> set (get_all_keys cs). length k = 16 \<or> length k = 32) \<and>
    (\<forall>db n k. fst (lookup_public_key db n cs) = Some k \<longrightarrow> length k = 32) \<and>
    (\<forall>db n. fst (refresh_public_key_from_db db n cs) = load_public_key_from_db db n cs)"
proof (intro conjI allI impI)
  have inv: "crypto_inv cs" using crypto_reach_inv [OF assms] .
  show "\<forall>k \<in> set (get_all_keys cs). length k = 16 \<or> length k = 32"
    using get_all_keys_good [OF inv] by (auto simp: good_key_def)
  show "length k = 32" if "fst (lookup_public_key db n cs) = Some k" for db n k
    using that inv load_public_key_length
    by (fastforce simp: lookup_public_key_def crypto_inv_def split: option.splits dest: map_of_SomeD)
  show "fst (refresh_public_key_from_db db n cs) = load_public_key_from_db db n cs" for db n
    by (auto simp: refresh_public_key_from_db_def lookup_public_key_def load_public_key_from_db_def
        delete_conv' split: option.splits)
qed

lemma key_ring_sound_witness:
  "list_all (\<lambda>k. length k = 16 \<or> length k = 32) (get_all_keys demo_crypto)"
  using key_ring_sound [OF crypto_reach.start [OF demo_crypto_eq(1)]] by (simp add: list_all_iff)

text \<open>Channel encryption and decryption are inverse between two gateways that share a channel key:
  for every 32-bit packet id and source, encryption succeeds, keeps the length, and the other
  side's decryption gives back the plaintext.\<close>

lemma channel_round_trip:
  assumes "aes_lib L" "crypto_reach cs" "use_key key cs = Some k" "key = None \<or> k \<in> set (get_all_keys cs)"
    and "use_key key' cs' = Some k" and "0 \<le> pid" "pid < 2 ^ 32" "0 \<le> src" "src < 2 ^ 32"
  shows "\<exists>enc. encrypt_meshtastic L p pid src key cs = Some (Some enc) \<and> length enc = length p \<and>
    decrypt_meshtastic L enc pid src key' cs' = Some (Some p)"
proof -
  have inv: "crypto_inv cs" using crypto_reach_inv [OF assms(2)] .
  then have "good_key k"
    using assms(3,4) get_all_keys_good [OF inv] by (auto simp: use_key_def crypto_inv_def split: option.splits)
  then show ?thesis
    using encrypt_meshtastic_back [OF assms(1,3) _ assms(6-9)] assms(5) by metis
qed

lemma channel_round_trip_witness:
  "\<exists>enc. encrypt_meshtastic toy_lib [8, 1, 9] 7 5 None demo_crypto = Some (Some enc) \<and> length enc = length [8 :: byte, 1, 9] \<and>
     decrypt_meshtastic toy_lib enc 7 5 None demo_crypto = Some (Some [8, 1, 9])"
  by (rule channel_round_trip [where k = MESHTASTIC_DEFAULT_PSK, OF toy_lib_ok crypto_reach.start [OF demo_crypto_eq(1)]])
    (simp_all add: use_key_def demo_crypto_eq)

text \<open>Two packets never share a counter block unless they agree in packet id and source node,
  so the key stream is not reused across senders or ids.\<close>

lemma nonce_unique:
  assumes "build_meshtastic_nonce p s = Some n" "build_meshtastic_nonce p' s' = Some n"
  shows "length n = 16 \<and> p = p' \<and> s = s'"
  using build_meshtastic_nonce_inject [OF assms] assms
  by (auto simp: build_meshtastic_nonce_def pack_le_Some split: Option.bind_splits)

lemma nonce_unique_witness:
  "length (the (build_meshtastic_nonce 7 5)) = 16"
  using nonce_unique [of 7 5 "the (build_meshtastic_nonce 7 5)" 7 5] by (simp add: build_meshtastic_nonce_eq)

text \<open>The default channel gets the hash every Meshtastic node uses for it (8), and the
  hash of any channel is one byte, the exclusive or of its name's bytes and its expanded key.\<close>

lemma channel_hash_value:
  "compute_channel_hash (lit ''LongFast'') (expand_key [1]) = Some 8 \<and>
   compute_channel_hash name key =
     map_option (\<lambda>bs. uint (xor_all bs XOR xor_all key)) (utf8_encode name) \<and>
   (\<forall>h. compute_channel_hash name key = Some h \<longrightarrow> 0 \<le> h \<and> h < 256)"
proof (intro conjI allI impI)
  show "compute_channel_hash (lit ''LongFast'') (expand_key [1]) = Some 8"
    by (simp add: compute_channel_hash_def utf8_encode_lit xor_all_def expand_key_def MESHTASTIC_DEFAULT_PSK_def)
  show "compute_channel_hash name key = map_option (\<lambda>bs. uint (xor_all bs XOR xor_all key)) (utf8_encode name)"
    by (simp add: compute_channel_hash_def xor_all_foldl)
  show "0 \<le> h" "h < 256" if "compute_channel_hash name key = Some h" for h
    using that uint_byte_less by (auto simp: compute_channel_hash_def)
qed

lemma channel_hash_value_witness:
  "compute_channel_hash (lit ''LongFast'') (expand_key [1]) = Some 8 \<and> (0 :: int) \<le> 8"
  using channel_hash_value [of "[]" "[]"] by simp

end
