(* ===== verification/Models.thy ===== *)
theory Models
  imports Prelude
begin

text \<open>
  The data model of \<^verbatim>\<open>src/src/models\<close>: signal metrics, protocol and packet-type identities
  (closed enumerations plus the open, plugin-registered ones), raw captures, packets, nodes and
  telemetry. Fields that a decoder copies out of a payload dictionary keep the dynamic type
  \<^typ>\<open>pyval\<close>; every other field has the type the class declares.
\<close>


section \<open>Signal metrics\<close>

record signal_metrics =
  rssi :: rat
  snr :: rat
  frequency_mhz :: rat
  spreading_factor :: int
  bandwidth_khz :: rat
  coding_rate :: string

definition signal_quality_percent :: "signal_metrics \<Rightarrow> rat" where
  "signal_quality_percent s =
     (let clamped = max (- 120) (min (- 30) (rssi s)) in py_round 1 ((clamped + 120) / 90 * 100))"


section \<open>Protocols and packet types\<close>

datatype protocol =
    MESHTASTIC | MESHCORE | LORAWAN | PAGER | UNKNOWN_PROTOCOL
  | OpenProtocol string

fun protocol_value :: "protocol \<Rightarrow> string" where
  "protocol_value MESHTASTIC = ''meshtastic''"
| "protocol_value MESHCORE = ''meshcore''"
| "protocol_value LORAWAN = ''lorawan''"
| "protocol_value PAGER = ''pager''"
| "protocol_value UNKNOWN_PROTOCOL = ''unknown''"
| "protocol_value (OpenProtocol s) = s"

definition core_protocols :: "protocol list" where
  "core_protocols = [MESHTASTIC, MESHCORE, LORAWAN, PAGER, UNKNOWN_PROTOCOL]"

text \<open>\<^verbatim>\<open>cls(value)\<close> finds the member with that value; a \<^verbatim>\<open>ValueError\<close> gives the open identity.\<close>

definition protocol_parse :: "string \<Rightarrow> protocol" where
  "protocol_parse v =
     (case find (\<lambda>p. protocol_value p = v) core_protocols of Some p \<Rightarrow> p | None \<Rightarrow> OpenProtocol v)"

datatype packet_type =
    TEXT | POSITION | TELEMETRY | NODEINFO | ROUTING | ADMIN | TRACEROUTE | NEIGHBORINFO
  | WAYPOINT | RANGE_TEST | STORE_FORWARD | DETECTION_SENSOR | PAXCOUNTER | MAP_REPORT
  | ENCRYPTED | LORAWAN_JOIN | LORAWAN_JOIN_ACCEPT | LORAWAN_DATA | LORAWAN_REJOIN
  | NEIGHBOUR_ADVERT | PAGER_RAW | UNKNOWN
  | OpenPacketType string

fun packet_type_value :: "packet_type \<Rightarrow> string" where
  "packet_type_value TEXT = ''text''"
| "packet_type_value POSITION = ''position''"
| "packet_type_value TELEMETRY = ''telemetry''"
| "packet_type_value NODEINFO = ''nodeinfo''"
| "packet_type_value ROUTING = ''routing''"
| "packet_type_value ADMIN = ''admin''"
| "packet_type_value TRACEROUTE = ''traceroute''"
| "packet_type_value NEIGHBORINFO = ''neighborinfo''"
| "packet_type_value WAYPOINT = ''waypoint''"
| "packet_type_value RANGE_TEST = ''range_test''"
| "packet_type_value STORE_FORWARD = ''store_forward''"
| "packet_type_value DETECTION_SENSOR = ''detection_sensor''"
| "packet_type_value PAXCOUNTER = ''paxcounter''"
| "packet_type_value MAP_REPORT = ''map_report''"
| "packet_type_value ENCRYPTED = ''encrypted''"
| "packet_type_value LORAWAN_JOIN = ''lorawan_join''"
| "packet_type_value LORAWAN_JOIN_ACCEPT = ''lorawan_join_accept''"
| "packet_type_value LORAWAN_DATA = ''lorawan_data''"
| "packet_type_value LORAWAN_REJOIN = ''lorawan_rejoin''"
| "packet_type_value NEIGHBOUR_ADVERT = ''neighbour_advert''"
| "packet_type_value PAGER_RAW = ''pager_raw''"
| "packet_type_value UNKNOWN = ''unknown''"
| "packet_type_value (OpenPacketType s) = s"

definition core_packet_types :: "packet_type list" where
  "core_packet_types =
     [TEXT, POSITION, TELEMETRY, NODEINFO, ROUTING, ADMIN, TRACEROUTE, NEIGHBORINFO, WAYPOINT,
      RANGE_TEST, STORE_FORWARD, DETECTION_SENSOR, PAXCOUNTER, MAP_REPORT, ENCRYPTED,
      LORAWAN_JOIN, LORAWAN_JOIN_ACCEPT, LORAWAN_DATA, LORAWAN_REJOIN, NEIGHBOUR_ADVERT,
      PAGER_RAW, UNKNOWN]"

definition packet_type_parse :: "string \<Rightarrow> packet_type" where
  "packet_type_parse v =
     (case find (\<lambda>p. packet_type_value p = v) core_packet_types of
        Some p \<Rightarrow> p | None \<Rightarrow> OpenPacketType v)"


section \<open>Packets\<close>

text \<open>What a capture source that decrypts locally hands over (\<^verbatim>\<open>RawCapture.pre_decoded\<close>, a dictionary
  whose keys may be absent).\<close>

record pre_decoded =
  pd_portnum :: "int option"
  pd_payload :: "bytes option"
  pd_request_id :: "int option"
  pd_channel_name :: "ustr option"

record raw_capture =
  rc_payload :: bytes
  rc_signal :: "signal_metrics option"
  rc_capture_source :: string
  rc_timestamp :: time
  rc_protocol_hint :: "protocol option"
  rc_pre_decoded :: "pre_decoded option"

record packet =
  packet_id :: string
  source_id :: string
  destination_id :: string
  protocol :: protocol
  packet_type :: packet_type
  hop_limit :: int
  hop_start :: int
  channel_hash :: int
  want_ack :: bool
  via_mqtt :: bool
  relay_node :: int
  decoded_payload :: "pydict option"
  encrypted_payload :: "bytes option"
  raw_app_payload :: "bytes option"
  raw_radio_packet :: "bytes option"
  decrypted :: bool
  matched_channel_index :: "nat option"
  remote_channel_name :: "ustr option"
  signal :: "signal_metrics option"
  capture_source :: string
  timestamp :: time

text \<open>The dataclass defaults, for the fields a constructor call leaves out.\<close>

definition default_packet :: "string \<Rightarrow> string \<Rightarrow> string \<Rightarrow> protocol \<Rightarrow> packet_type \<Rightarrow> time \<Rightarrow> packet" where
  "default_packet pid src dst pr pt now =
     \<lparr>packet_id = pid, source_id = src, destination_id = dst, protocol = pr, packet_type = pt,
      hop_limit = 0, hop_start = 0, channel_hash = 0, want_ack = False, via_mqtt = False,
      relay_node = 0, decoded_payload = None, encrypted_payload = None, raw_app_payload = None,
      raw_radio_packet = None, decrypted = False, matched_channel_index = None,
      remote_channel_name = None, signal = None, capture_source = ''unknown'', timestamp = now\<rparr>"

definition hop_count :: "packet \<Rightarrow> int" where
  "hop_count p = (if hop_start p > 0 then hop_start p - hop_limit p else 0)"


section \<open>Nodes and telemetry\<close>

record telemetry =
  tel_node_id :: string
  battery_level :: pyval
  voltage :: pyval
  temperature :: pyval
  humidity :: pyval
  barometric_pressure :: pyval
  channel_utilization :: pyval
  air_util_tx :: pyval
  uptime_seconds :: pyval
  tel_timestamp :: time

definition default_telemetry :: "string \<Rightarrow> time \<Rightarrow> telemetry" where
  "default_telemetry nid now =
     \<lparr>tel_node_id = nid, battery_level = PNone, voltage = PNone, temperature = PNone,
      humidity = PNone, barometric_pressure = PNone, channel_utilization = PNone,
      air_util_tx = PNone, uptime_seconds = PNone, tel_timestamp = now\<rparr>"

record node =
  node_id :: string
  long_name :: pyval
  short_name :: pyval
  hardware_model :: pyval
  firmware_version :: pyval
  node_protocol :: string
  role :: pyval
  public_key :: pyval
  latitude :: pyval
  longitude :: pyval
  altitude :: pyval
  last_heard :: time
  packet_count :: int
  latest_signal :: "signal_metrics option"

definition default_node :: "string \<Rightarrow> string \<Rightarrow> time \<Rightarrow> node" where
  "default_node nid pr heard =
     \<lparr>node_id = nid, long_name = PNone, short_name = PNone, hardware_model = PNone, firmware_version = PNone,
      node_protocol = pr, role = PNone, public_key = PNone, latitude = PNone, longitude = PNone,
      altitude = PNone, last_heard = heard, packet_count = 0, latest_signal = None\<rparr>"

definition has_position :: "node \<Rightarrow> bool" where
  "has_position n \<longleftrightarrow> latitude n \<noteq> PNone \<and> longitude n \<noteq> PNone"


section \<open>Properties\<close>

lemmas packet_defaults = default_packet_def packet.defs

lemma core_protocol_cases: "p \<in> set core_protocols \<or> (\<exists>s. p = OpenProtocol s)"
  by (cases p) (simp_all add: core_protocols_def)

lemma core_packet_type_cases: "p \<in> set core_packet_types \<or> (\<exists>s. p = OpenPacketType s)"
  by (cases p) (simp_all add: core_packet_types_def)

text \<open>Reading an identity from storage and writing it back is the identity on every string,
  and a core identity survives a store and a load.\<close>

lemma protocol_value_parse: "protocol_value (protocol_parse v) = v"
  by (cases "find (\<lambda>p. protocol_value p = v) core_protocols") (auto simp: protocol_parse_def dest: find_SomeE(1))

lemma packet_type_value_parse: "packet_type_value (packet_type_parse v) = v"
  by (cases "find (\<lambda>p. packet_type_value p = v) core_packet_types") (auto simp: packet_type_parse_def dest: find_SomeE(1))

lemma protocol_parse_value: "p \<in> set core_protocols \<Longrightarrow> protocol_parse (protocol_value p) = p"
  by (cases p) (simp_all add: core_protocols_def protocol_parse_def)

lemma packet_type_parse_value:
  "p \<in> set core_packet_types \<Longrightarrow> packet_type_parse (packet_type_value p) = p"
  by (cases p) (simp_all add: core_packet_types_def packet_type_parse_def)

lemma signal_quality_range: "0 \<le> signal_quality_percent s \<and> signal_quality_percent s \<le> 100"
proof -
  define y :: rat where "y = (max (- 120) (min (- 30) (rssi s)) + 120) / 90 * 100 * 10"
  have "0 \<le> y" "y \<le> 1000" by (auto simp: y_def)
  then have "- 1 < round_half_even y" "round_half_even y < 1001"
    using round_half_even_bounds [of y] by linarith+
  then have "0 \<le> round_half_even y" "round_half_even y \<le> 1000" by simp_all
  moreover have "signal_quality_percent s = of_int (round_half_even y) / 10"
    by (simp add: signal_quality_percent_def py_round_def y_def Let_def)
  ultimately show ?thesis by simp
qed

end
