(* ===== verification/Portnum_Handlers.thy ===== *)
theory Portnum_Handlers
  imports Models Utf8
begin

text \<open>
  \<^verbatim>\<open>src/src/decode/portnum_handlers.py\<close>: the payload decoders of the Meshtastic application ports.

  The protobuf classes are generated third-party code. Their parsers are the fields of \<open>pb_lib\<close>, each
  returning the message (a record of the fields the handlers read) or \<^const>\<open>None\<close> where
  \<^verbatim>\<open>ParseFromString\<close> raises; \<open>pb_installed\<close> is false when importing the package fails.
\<close>

section \<open>Messages\<close>

record position_msg =
  pos_latitude_i :: int
  pos_longitude_i :: int
  pos_altitude :: int
  pos_sats_in_view :: int
  pos_precision_bits :: int
  pos_ground_speed :: int
  pos_ground_track :: int

record user_msg =
  user_id :: ustr
  user_long_name :: ustr
  user_short_name :: ustr
  user_hw_model :: int
  user_role :: int
  user_public_key :: bytes

record device_metrics =
  dm_battery_level :: int
  dm_voltage :: rat
  dm_channel_utilization :: rat
  dm_air_util_tx :: rat
  dm_uptime_seconds :: int

record local_stats =
  ls_uptime_seconds :: int
  ls_channel_utilization :: rat
  ls_air_util_tx :: rat
  ls_num_packets_tx :: int
  ls_num_packets_rx :: int

record environment_metrics =
  em_temperature :: rat
  em_relative_humidity :: rat
  em_barometric_pressure :: rat

record power_metrics =
  pm_ch1_voltage :: rat
  pm_ch1_current :: rat
  pm_ch2_voltage :: rat
  pm_ch2_current :: rat

text \<open>A submessage is \<^const>\<open>None\<close> when \<^verbatim>\<open>HasField\<close> is false.\<close>

record telemetry_msg =
  tm_local_stats :: "local_stats option"
  tm_device_metrics :: "device_metrics option"
  tm_environment_metrics :: "environment_metrics option"
  tm_power_metrics :: "power_metrics option"

record waypoint_msg =
  wp_id :: int
  wp_name :: ustr
  wp_description :: ustr
  wp_latitude_i :: int
  wp_longitude_i :: int
  wp_icon :: int

record store_forward_msg =
  sf_rr :: int
  sf_heartbeat :: "(int \<times> int) option"
  sf_stats :: "(int \<times> int \<times> int) option"

record paxcount_msg =
  pax_wifi :: int
  pax_ble :: int
  pax_uptime :: int

record map_report_msg =
  mr_long_name :: ustr
  mr_short_name :: ustr
  mr_hw_model :: int
  mr_firmware_version :: ustr
  mr_num_online_local_nodes :: int
  mr_modem_preset :: int
  mr_region :: int
  mr_has_default_channel :: bool
  mr_latitude_i :: int
  mr_longitude_i :: int

record routing_msg =
  rt_error_reason :: int
  rt_route_request :: "int list option"
  rt_route_reply :: "int list option"

record neighborinfo_msg =
  ni_neighbors :: "(int \<times> rat) list"
  ni_node_broadcast_interval_secs :: int

record route_discovery_msg =
  rd_route :: "int list"
  rd_snr_towards :: "int list"
  rd_snr_back :: "int list"

record data_msg =
  data_portnum :: int
  data_payload :: bytes
  data_request_id :: int

record pb_lib =
  pb_installed :: bool
  parse_data :: "bytes \<Rightarrow> data_msg option"
  parse_position :: "bytes \<Rightarrow> position_msg option"
  parse_user :: "bytes \<Rightarrow> user_msg option"
  parse_telemetry :: "bytes \<Rightarrow> telemetry_msg option"
  parse_waypoint :: "bytes \<Rightarrow> waypoint_msg option"
  parse_store_forward :: "bytes \<Rightarrow> store_forward_msg option"
  parse_paxcount :: "bytes \<Rightarrow> paxcount_msg option"
  parse_map_report :: "bytes \<Rightarrow> map_report_msg option"
  parse_routing :: "bytes \<Rightarrow> routing_msg option"
  parse_neighborinfo :: "bytes \<Rightarrow> neighborinfo_msg option"
  parse_route_discovery :: "bytes \<Rightarrow> route_discovery_msg option"

text \<open>Import and parse: either failing raises inside the handler's \<^verbatim>\<open>try\<close>.\<close>

definition with_pb :: "pb_lib \<Rightarrow> (bytes \<Rightarrow> 'm option) \<Rightarrow> bytes \<Rightarrow> 'm option" where
  "with_pb L parse payload = (if pb_installed L then parse payload else None)"


section \<open>Values\<close>

type_synonym handler_result = "pydict option \<times> packet_type"

definition degrees :: "int \<Rightarrow> pyval" where
  "degrees i = PFloat (of_int i / 10 ^ 7)"

definition int_or_none :: "int \<Rightarrow> pyval" where
  "int_or_none i = or_none (PInt i)"

definition float_or_none :: "rat \<Rightarrow> pyval" where
  "float_or_none r = or_none (PFloat r)"

definition str_or_none :: "ustr \<Rightarrow> pyval" where
  "str_or_none s = or_none (PStr s)"

text \<open>\<^verbatim>\<open>str(v) if v else None\<close> of an enumeration value.\<close>

definition enum_or_none :: "int \<Rightarrow> pyval" where
  "enum_or_none i = (if i \<noteq> 0 then pstr (fmt_d i) else PNone)"

definition raw_hex :: "bytes \<Rightarrow> pyval" where
  "raw_hex bs = pstr (bytes_hex hexdig bs)"

definition node_hex :: "int \<Rightarrow> pyval" where
  "node_hex n = pstr (fmt_x 8 n)"


section \<open>Handlers\<close>

definition decode_text :: "bytes \<Rightarrow> handler_result" where
  "decode_text payload = (Some [(''text'', PStr (utf8_decode_replace payload))], TEXT)"

definition decode_position :: "pb_lib \<Rightarrow> bytes \<Rightarrow> handler_result" where
  "decode_position L payload =
     (case with_pb L (parse_position L) payload of
        None \<Rightarrow> (None, POSITION)
      | Some pos \<Rightarrow>
          (Some [(''latitude'', degrees (pos_latitude_i pos)),
                 (''longitude'', degrees (pos_longitude_i pos)),
                 (''altitude'', int_or_none (pos_altitude pos)),
                 (''sats_in_view'', int_or_none (pos_sats_in_view pos)),
                 (''precision_bits'', int_or_none (pos_precision_bits pos)),
                 (''ground_speed'', int_or_none (pos_ground_speed pos)),
                 (''ground_track'', int_or_none (pos_ground_track pos))], POSITION))"

definition decode_nodeinfo :: "pb_lib \<Rightarrow> bytes \<Rightarrow> handler_result" where
  "decode_nodeinfo L payload =
     (case with_pb L (parse_user L) payload of
        None \<Rightarrow> (None, NODEINFO)
      | Some user \<Rightarrow>
          (Some [(''long_name'', str_or_none (user_long_name user)),
                 (''short_name'', str_or_none (user_short_name user)),
                 (''hw_model'', enum_or_none (user_hw_model user)),
                 (''id'', str_or_none (user_id user)),
                 (''role'', enum_or_none (user_role user)),
                 (''public_key'', if length (user_public_key user) = 32 then raw_hex (user_public_key user)
                                  else PNone)], NODEINFO))"

definition telemetry_variant :: "telemetry_msg \<Rightarrow> bytes \<Rightarrow> string" where
  "telemetry_variant telem payload =
     (if tm_local_stats telem \<noteq> None then ''local_stats''
      else if tm_device_metrics telem \<noteq> None then ''device_metrics''
      else if take 1 payload = [0x32] then ''local_stats''
      else ''device_metrics'')"

definition telemetry_fields :: "telemetry_msg \<Rightarrow> pydict" where
  "telemetry_fields telem =
     (case tm_device_metrics telem of None \<Rightarrow> [] | Some dm \<Rightarrow>
        [(''battery_level'', int_or_none (dm_battery_level dm)),
         (''voltage'', float_or_none (dm_voltage dm)),
         (''channel_utilization'', float_or_none (dm_channel_utilization dm)),
         (''air_util_tx'', float_or_none (dm_air_util_tx dm)),
         (''uptime_seconds'', int_or_none (dm_uptime_seconds dm))]) @
     (case tm_local_stats telem of None \<Rightarrow> [] | Some ls \<Rightarrow>
        [(''local_uptime_seconds'', int_or_none (ls_uptime_seconds ls)),
         (''local_channel_utilization'', float_or_none (ls_channel_utilization ls)),
         (''local_air_util_tx'', float_or_none (ls_air_util_tx ls)),
         (''num_packets_tx'', int_or_none (ls_num_packets_tx ls)),
         (''num_packets_rx'', int_or_none (ls_num_packets_rx ls))]) @
     (case tm_environment_metrics telem of None \<Rightarrow> [] | Some em \<Rightarrow>
        [(''temperature'', float_or_none (em_temperature em)),
         (''humidity'', float_or_none (em_relative_humidity em)),
         (''barometric_pressure'', float_or_none (em_barometric_pressure em))]) @
     (case tm_power_metrics telem of None \<Rightarrow> [] | Some pm \<Rightarrow>
        [(''power_ch1_voltage'', float_or_none (pm_ch1_voltage pm)),
         (''power_ch1_current'', float_or_none (pm_ch1_current pm)),
         (''power_ch2_voltage'', float_or_none (pm_ch2_voltage pm)),
         (''power_ch2_current'', float_or_none (pm_ch2_current pm))])"

definition decode_telemetry :: "pb_lib \<Rightarrow> bytes \<Rightarrow> handler_result" where
  "decode_telemetry L payload =
     (case with_pb L (parse_telemetry L) payload of
        None \<Rightarrow> (None, TELEMETRY)
      | Some telem \<Rightarrow>
          (Some ((''telemetry_variant'', pstr (telemetry_variant telem payload)) # telemetry_fields telem),
           TELEMETRY))"

definition decode_waypoint :: "pb_lib \<Rightarrow> bytes \<Rightarrow> handler_result" where
  "decode_waypoint L payload =
     (case with_pb L (parse_waypoint L) payload of
        None \<Rightarrow> (None, WAYPOINT)
      | Some wp \<Rightarrow>
          (Some [(''id'', PInt (wp_id wp)),
                 (''name'', str_or_none (wp_name wp)),
                 (''description'', str_or_none (wp_description wp)),
                 (''latitude'', if wp_latitude_i wp \<noteq> 0 then degrees (wp_latitude_i wp) else PNone),
                 (''longitude'', if wp_longitude_i wp \<noteq> 0 then degrees (wp_longitude_i wp) else PNone),
                 (''icon'', int_or_none (wp_icon wp))], WAYPOINT))"

definition decode_range_test :: "bytes \<Rightarrow> handler_result" where
  "decode_range_test payload = (Some [(''text'', PStr (utf8_decode_replace payload))], RANGE_TEST)"

definition decode_store_forward :: "pb_lib \<Rightarrow> bytes \<Rightarrow> handler_result" where
  "decode_store_forward L payload =
     (case with_pb L (parse_store_forward L) payload of
        None \<Rightarrow> (Some [(''raw_hex'', raw_hex payload)], STORE_FORWARD)
      | Some sf \<Rightarrow>
          (Some ([(''rr'', PInt (sf_rr sf))] @
             (case sf_heartbeat sf of None \<Rightarrow> [] | Some (period, secondary) \<Rightarrow>
                [(''period'', PInt period), (''secondary'', PInt secondary)]) @
             (case sf_stats sf of None \<Rightarrow> [] | Some (tot, saved, maximum) \<Rightarrow>
                [(''messages_total'', PInt tot), (''messages_saved'', PInt saved),
                 (''messages_max'', PInt maximum)])), STORE_FORWARD))"

definition decode_detection_sensor :: "bytes \<Rightarrow> handler_result" where
  "decode_detection_sensor payload =
     (Some [(''text'', PStr (utf8_decode_replace payload))], DETECTION_SENSOR)"

definition decode_paxcounter :: "pb_lib \<Rightarrow> bytes \<Rightarrow> handler_result" where
  "decode_paxcounter L payload =
     (case with_pb L (parse_paxcount L) payload of
        None \<Rightarrow> (Some [(''raw_hex'', raw_hex payload)], PAXCOUNTER)
      | Some pax \<Rightarrow>
          (Some [(''wifi'', PInt (pax_wifi pax)), (''ble'', PInt (pax_ble pax)),
                 (''uptime'', PInt (pax_uptime pax))], PAXCOUNTER))"

definition decode_map_report :: "pb_lib \<Rightarrow> bytes \<Rightarrow> handler_result" where
  "decode_map_report L payload =
     (case with_pb L (parse_map_report L) payload of
        None \<Rightarrow> (Some [(''raw_hex'', raw_hex payload)], MAP_REPORT)
      | Some r \<Rightarrow>
          (Some ([(''long_name'', str_or_none (mr_long_name r)),
                  (''short_name'', str_or_none (mr_short_name r)),
                  (''hw_model'', enum_or_none (mr_hw_model r)),
                  (''firmware_version'', str_or_none (mr_firmware_version r)),
                  (''num_online_local_nodes'', int_or_none (mr_num_online_local_nodes r)),
                  (''modem_preset'', enum_or_none (mr_modem_preset r)),
                  (''region'', enum_or_none (mr_region r)),
                  (''has_default_channel'', or_none (PBool (mr_has_default_channel r)))] @
             (if mr_latitude_i r \<noteq> 0 then [(''latitude'', degrees (mr_latitude_i r))] else []) @
             (if mr_longitude_i r \<noteq> 0 then [(''longitude'', degrees (mr_longitude_i r))] else [])),
           MAP_REPORT))"

definition decode_routing :: "pb_lib \<Rightarrow> bytes \<Rightarrow> handler_result" where
  "decode_routing L payload =
     (case with_pb L (parse_routing L) payload of
        None \<Rightarrow> (Some [(''raw_hex'', raw_hex payload)], ROUTING)
      | Some r \<Rightarrow>
          (Some ((if rt_error_reason r \<noteq> 0 then [(''error_reason'', pstr (fmt_d (rt_error_reason r)))] else []) @
             (case rt_route_request r of None \<Rightarrow> [] | Some ns \<Rightarrow> [(''route_request'', PList (map node_hex ns))]) @
             (case rt_route_reply r of None \<Rightarrow> [] | Some ns \<Rightarrow> [(''route_reply'', PList (map node_hex ns))])),
           ROUTING))"

definition decode_neighborinfo :: "pb_lib \<Rightarrow> bytes \<Rightarrow> handler_result" where
  "decode_neighborinfo L payload =
     (case with_pb L (parse_neighborinfo L) payload of
        None \<Rightarrow> (Some [(''raw_hex'', raw_hex payload)], NEIGHBORINFO)
      | Some ni \<Rightarrow>
          (Some [(''neighbors'', PList (map (\<lambda>(n, s). PDict [(''node_id'', node_hex n),
                    (''snr'', if s \<noteq> 0 then PFloat (py_round 1 s) else PNone)]) (ni_neighbors ni))),
                 (''node_broadcast_interval_secs'', int_or_none (ni_node_broadcast_interval_secs ni))],
           NEIGHBORINFO))"

definition decode_traceroute :: "pb_lib \<Rightarrow> bytes \<Rightarrow> handler_result" where
  "decode_traceroute L payload =
     (case with_pb L (parse_route_discovery L) payload of
        None \<Rightarrow> (Some [(''raw_hex'', raw_hex payload)], TRACEROUTE)
      | Some rd \<Rightarrow>
          (Some [(''route'', PList (map node_hex (rd_route rd))),
                 (''snr_towards'', PList (map PInt (rd_snr_towards rd))),
                 (''snr_back'', PList (map PInt (rd_snr_back rd)))], TRACEROUTE))"

definition passthrough :: "packet_type \<Rightarrow> bytes \<Rightarrow> handler_result" where
  "passthrough ptype payload = (Some [(''portnum'', PNone)], ptype)"

definition HANDLERS :: "pb_lib \<Rightarrow> (int \<times> (bytes \<Rightarrow> handler_result)) list" where
  "HANDLERS L =
     [(1, decode_text), (3, decode_position L), (4, decode_nodeinfo L), (67, decode_telemetry L),
      (5, decode_routing L), (70, decode_traceroute L), (71, decode_neighborinfo L),
      (6, passthrough ADMIN), (8, decode_waypoint L), (66, decode_range_test),
      (65, decode_store_forward L), (10, decode_detection_sensor), (34, decode_paxcounter L),
      (73, decode_map_report L)]"

definition dispatch_portnum :: "pb_lib \<Rightarrow> int \<Rightarrow> bytes \<Rightarrow> handler_result" where
  "dispatch_portnum L portnum payload =
     (case map_of (HANDLERS L) portnum of
        Some handler \<Rightarrow> handler payload
      | None \<Rightarrow> (Some [(''portnum'', PInt portnum), (''raw_hex'', raw_hex payload)], UNKNOWN))"


section \<open>Lemmas\<close>

lemmas handler_defs = decode_text_def decode_position_def decode_nodeinfo_def decode_telemetry_def
  decode_routing_def decode_traceroute_def decode_neighborinfo_def passthrough_def decode_waypoint_def
  decode_range_test_def decode_store_forward_def decode_detection_sensor_def decode_paxcounter_def
  decode_map_report_def

text \<open>The type a port stands for.\<close>

definition port_type :: "int \<Rightarrow> packet_type" where
  "port_type p =
     (case map_of [(1, TEXT), (3, POSITION), (4, NODEINFO), (67, TELEMETRY), (5, ROUTING), (70, TRACEROUTE),
        (71, NEIGHBORINFO), (6, ADMIN), (8, WAYPOINT), (66, RANGE_TEST), (65, STORE_FORWARD),
        (10, DETECTION_SENSOR), (34, PAXCOUNTER), (73, MAP_REPORT)] p of Some t \<Rightarrow> t | None \<Rightarrow> UNKNOWN)"

lemma dispatch_type: "snd (dispatch_portnum L p payload) = port_type p"
  by (simp add: dispatch_portnum_def HANDLERS_def port_type_def handler_defs split: option.splits)

lemma dispatch_text: "dispatch_portnum L 1 payload = (Some [(''text'', PStr (utf8_decode_replace payload))], TEXT)"
  by (simp add: dispatch_portnum_def HANDLERS_def decode_text_def)

text \<open>A fact about the result of every handler is a fact about the result of the dispatch.\<close>

lemma dispatch_induct:
  assumes "\<And>h. h \<in> {decode_text, decode_routing L, decode_traceroute L, decode_neighborinfo L, passthrough ADMIN,
      decode_range_test, decode_store_forward L, decode_detection_sensor, decode_paxcounter L, decode_map_report L}
      \<Longrightarrow> P p (h payload)"
    and "p = 3 \<Longrightarrow> P p (decode_position L payload)" "p = 4 \<Longrightarrow> P p (decode_nodeinfo L payload)"
    and "p = 67 \<Longrightarrow> P p (decode_telemetry L payload)" "p = 8 \<Longrightarrow> P p (decode_waypoint L payload)"
    and "P p (Some [(''portnum'', PInt p), (''raw_hex'', raw_hex payload)], UNKNOWN)"
  shows "P p (dispatch_portnum L p payload)"
  using assms by (auto simp: dispatch_portnum_def HANDLERS_def)

text \<open>The only payloads a handler rejects are unparsable positions, node infos, telemetry and
  waypoints.\<close>

lemma dispatch_rejects:
  assumes "fst (dispatch_portnum L p payload) = None"
  shows "p \<in> {3, 4, 8, 67}"
proof -
  have "fst (dispatch_portnum L p payload) = None \<longrightarrow> p \<in> {3, 4, 8, 67}"
  proof (rule dispatch_induct [where P = "\<lambda>p r. fst r = None \<longrightarrow> p \<in> {3, 4, 8, 67}"])
    fix h
    assume "h \<in> {decode_text, decode_routing L, decode_traceroute L, decode_neighborinfo L, passthrough ADMIN,
      decode_range_test, decode_store_forward L, decode_detection_sensor, decode_paxcounter L, decode_map_report L}"
    then have "fst (h payload) \<noteq> None"
      by (elim insertE) (simp_all add: handler_defs split: option.splits)
    then show "fst (h payload) = None \<longrightarrow> p \<in> {3, 4, 8, 67}" by auto
  qed simp_all
  then show ?thesis using assms by simp
qed

text \<open>No handler writes the key the decoder adds afterwards.\<close>

definition no_request_id :: "handler_result \<Rightarrow> bool" where
  "no_request_id r \<longleftrightarrow> (case fst r of None \<Rightarrow> True | Some d \<Rightarrow> ''request_id'' \<notin> fst ` set d)"

lemma handlers_no_request_id:
  "no_request_id (decode_text b)" "no_request_id (decode_traceroute L b)"
  "no_request_id (decode_neighborinfo L b)" "no_request_id (passthrough t b)" "no_request_id (decode_range_test b)"
  "no_request_id (decode_detection_sensor b)" "no_request_id (decode_paxcounter L b)"
  "no_request_id (decode_position L b)" "no_request_id (decode_nodeinfo L b)" "no_request_id (decode_waypoint L b)"
  by (simp_all add: no_request_id_def handler_defs split: option.splits)

lemma handlers_no_request_id':
  "no_request_id (decode_routing L b)" "no_request_id (decode_store_forward L b)"
  "no_request_id (decode_map_report L b)"
  by (auto simp: no_request_id_def handler_defs split: option.splits)

lemma telemetry_no_request_id: "no_request_id (decode_telemetry L b)"
proof -
  have "''request_id'' \<notin> fst ` set (telemetry_fields t)" for t
    by (cases "tm_device_metrics t"; cases "tm_local_stats t"; cases "tm_environment_metrics t";
        cases "tm_power_metrics t") (simp_all add: telemetry_fields_def)
  then show ?thesis by (simp add: no_request_id_def decode_telemetry_def split: option.splits)
qed

lemma dispatch_no_request_id: "no_request_id (dispatch_portnum L p payload)"
  by (rule dispatch_induct [where P = "\<lambda>p. no_request_id"])
    (use handlers_no_request_id handlers_no_request_id' telemetry_no_request_id in \<open>auto simp: no_request_id_def\<close>)

end
