(* ===== verification/Protobuf_Wire.thy ===== *)
theory Protobuf_Wire
  imports Portnum_Handlers
begin

text \<open>
  A reader for the documented protobuf wire format. The gateway writes two message types by hand
  (\<^verbatim>\<open>Data\<close> and \<^verbatim>\<open>User\<close>) and reads messages with the generated classes. The reader is the
  reference against which the hand-written encoders are proved, and \<open>wire_lib\<close> is a concrete
  instance of the library parameter that reads these two message types from the wire.
\<close>

datatype wire_value = Varint nat | I64 bytes | LenBytes bytes | I32 bytes

fun read_varint :: "bytes \<Rightarrow> (nat \<times> bytes) option" where
  "read_varint [] = None"
| "read_varint (b # bs) =
     (if unat b < 128 then Some (unat b, bs)
      else (case read_varint bs of None \<Rightarrow> None | Some (v, rest) \<Rightarrow> Some (unat b - 128 + 128 * v, rest)))"

definition read_bytes :: "nat \<Rightarrow> bytes \<Rightarrow> (bytes \<times> bytes) option" where
  "read_bytes n bs = (if n \<le> length bs then Some (take n bs, drop n bs) else None)"

definition read_field :: "bytes \<Rightarrow> ((nat \<times> wire_value) \<times> bytes) option" where
  "read_field bs =
     do {
       (tag, r) \<leftarrow> read_varint bs;
       let n = tag div 8;
       let k = tag mod 8;
       if k = 0 then do { (v, r1) \<leftarrow> read_varint r; Some ((n, Varint v), r1) }
       else if k = 1 then do { (v, r1) \<leftarrow> read_bytes 8 r; Some ((n, I64 v), r1) }
       else if k = 2 then do { (l, r1) \<leftarrow> read_varint r; (v, r2) \<leftarrow> read_bytes l r1; Some ((n, LenBytes v), r2) }
       else if k = 5 then do { (v, r1) \<leftarrow> read_bytes 4 r; Some ((n, I32 v), r1) }
       else None
     }"

function read_message :: "bytes \<Rightarrow> (nat \<times> wire_value) list option" where
  "read_message bs =
     (if bs = [] then Some []
      else (case read_field bs of
          None \<Rightarrow> None
        | Some (f, rest) \<Rightarrow> if length rest < length bs then map_option ((#) f) (read_message rest) else None))"
  by pat_completeness auto
termination
  by (relation "measure length") auto

declare read_message.simps [simp del]

text \<open>The value of a singular field is its last occurrence.\<close>

definition last_field :: "nat \<Rightarrow> (nat \<times> wire_value) list \<Rightarrow> wire_value option" where
  "last_field n fs = map_of (rev fs) n"

definition varint_field :: "nat \<Rightarrow> (nat \<times> wire_value) list \<Rightarrow> int" where
  "varint_field n fs = (case last_field n fs of Some (Varint v) \<Rightarrow> int v | _ \<Rightarrow> 0)"

definition bytes_field :: "nat \<Rightarrow> (nat \<times> wire_value) list \<Rightarrow> bytes" where
  "bytes_field n fs = (case last_field n fs of Some (LenBytes b) \<Rightarrow> b | _ \<Rightarrow> [])"

definition fixed32_field :: "nat \<Rightarrow> (nat \<times> wire_value) list \<Rightarrow> int" where
  "fixed32_field n fs = (case last_field n fs of Some (I32 b) \<Rightarrow> le_int b | _ \<Rightarrow> 0)"

definition utf8_strict :: "bytes \<Rightarrow> ustr option" where
  "utf8_strict bs = (let s = utf8_decode_replace bs in if utf8_encode s = Some bs then Some s else None)"

definition wire_data :: "bytes \<Rightarrow> data_msg option" where
  "wire_data bs =
     map_option (\<lambda>fs. \<lparr>data_portnum = varint_field 1 fs, data_payload = bytes_field 2 fs,
                       data_request_id = fixed32_field 6 fs\<rparr>) (read_message bs)"

definition wire_user :: "bytes \<Rightarrow> user_msg option" where
  "wire_user bs =
     do {
       fs \<leftarrow> read_message bs;
       i \<leftarrow> utf8_strict (bytes_field 1 fs);
       l \<leftarrow> utf8_strict (bytes_field 2 fs);
       s \<leftarrow> utf8_strict (bytes_field 3 fs);
       Some \<lparr>user_id = i, user_long_name = l, user_short_name = s, user_hw_model = varint_field 5 fs,
             user_role = varint_field 7 fs, user_public_key = bytes_field 8 fs\<rparr>
     }"

definition wire_lib :: pb_lib where
  "wire_lib = \<lparr>pb_installed = True, parse_data = wire_data, parse_position = (\<lambda>_. None), parse_user = wire_user,
     parse_telemetry = (\<lambda>_. None), parse_waypoint = (\<lambda>_. None), parse_store_forward = (\<lambda>_. None),
     parse_paxcount = (\<lambda>_. None), parse_map_report = (\<lambda>_. None), parse_routing = (\<lambda>_. None),
     parse_neighborinfo = (\<lambda>_. None), parse_route_discovery = (\<lambda>_. None)\<rparr>"


section \<open>Reading what was written\<close>

lemma utf8_strict_encode [simp]: "utf8_encode s = Some bs \<Longrightarrow> utf8_strict bs = Some s"
  by (simp add: utf8_strict_def utf8_roundtrip)

lemma read_varint_small: "unat b < 128 \<Longrightarrow> read_varint (b # r) = Some (unat b, r)"
  by simp

text \<open>A field that starts with a one-byte tag and is read completely, followed by the rest.\<close>

lemma read_message_field:
  assumes "read_field bs = Some (f, rest)" "length rest < length bs"
  shows "read_message bs = map_option ((#) f) (read_message rest)"
proof -
  have "bs \<noteq> []" using assms(2) by auto
  then show ?thesis using assms by (subst read_message.simps) simp
qed

lemma read_message_Nil [simp]: "read_message [] = Some []"
  by (simp add: read_message.simps)

lemma read_field_varint:
  assumes "read_varint v = Some (n, r)" "unat t < 128" "unat t mod 8 = 0"
  shows "read_field (t # v) = Some ((unat t div 8, Varint n), r)"
  using assms by (simp add: read_field_def)

lemma read_field_len:
  assumes "read_varint v = Some (length b, b @ r)" "unat t < 128" "unat t mod 8 = 2"
  shows "read_field (t # v) = Some ((unat t div 8, LenBytes b), r)"
  using assms by (simp add: read_field_def read_bytes_def)

lemma read_field_fixed32:
  assumes "length b = 4" "unat t < 128" "unat t mod 8 = 5"
  shows "read_field (t # b @ r) = Some ((unat t div 8, I32 b), r)"
  using assms by (simp add: read_field_def read_bytes_def)

lemma read_varint_shorter: "read_varint bs = Some (v, r) \<Longrightarrow> length r < length bs"
proof (induction bs arbitrary: v)
  case Nil
  then show ?case by simp
next
  case (Cons b bs)
  then show ?case by (fastforce split: if_splits option.splits)
qed

end
