(* ===== verification/Meshtastic_Decoder.thy ===== *)
theory Meshtastic_Decoder
  imports Crypto_Service Protobuf_Wire
begin

text \<open>
  \<^verbatim>\<open>src/src/decode/meshtastic_decoder.py\<close>: from a captured radio frame to a packet. Decoding may
  cache a sender's public key, so it returns the key ring it leaves behind. The outer \<^const>\<open>None\<close>
  would be an exception; it is proved below that there is none. The two database
  arguments are what the node table holds at the lookup and at the refresh of a sender's key.
\<close>

definition MESHTASTIC_HEADER_SIZE :: nat where
  "MESHTASTIC_HEADER_SIZE = 16"

definition BROADCAST_ADDR :: int where
  "BROADCAST_ADDR = 0xFFFFFFFF"

record mesh_header =
  mh_dest_id :: int
  mh_source_id :: int
  mh_packet_id :: int
  mh_hop_limit :: int
  mh_hop_start :: int
  mh_want_ack :: bool
  mh_via_mqtt :: bool
  mh_channel_hash :: int
  mh_relay_node :: int

text \<open>\<^verbatim>\<open>_parse_header\<close>. The source's header has no field for byte 14 (the next hop) either, so equal parsed headers say nothing
  about that byte.\<close>

definition parse_header :: "bytes \<Rightarrow> mesh_header option" where
  "parse_header hb =
     (if length hb < 16 then None
      else
        let flags = hb ! 12; hl = uint (flags AND 0x07); hs = uint (drop_bit 5 flags AND 0x07) in
        if hl > hs then None
        else Some \<lparr>mh_dest_id = le_int (slice 0 4 hb), mh_source_id = le_int (slice 4 8 hb),
                   mh_packet_id = le_int (slice 8 12 hb), mh_hop_limit = hl, mh_hop_start = hs,
                   mh_want_ack = (flags AND 0x08 \<noteq> 0), mh_via_mqtt = (flags AND 0x10 \<noteq> 0),
                   mh_channel_hash = uint (hb ! 13), mh_relay_node = uint (hb ! 15)\<rparr>)"

text \<open>The result of a payload decode: dictionary, type, application payload, request id.\<close>

type_synonym payload_result = "pydict option \<times> packet_type \<times> bytes option \<times> int"

definition or_nothing :: "bytes \<Rightarrow> bytes option" where
  "or_nothing bs = (if bs = [] then None else Some bs)"

definition try_protobuf_decode :: "pb_lib \<Rightarrow> bytes \<Rightarrow> payload_result" where
  "try_protobuf_decode PB payload =
     (if \<not> pb_installed PB then
        (Some [(''raw_hex'', raw_hex payload), (''size'', PInt (int (length payload)))], UNKNOWN, None, 0)
      else (case parse_data PB payload of
          None \<Rightarrow> (None, UNKNOWN, None, 0)
        | Some d \<Rightarrow>
            let (decoded, ptype) = dispatch_portnum PB (data_portnum d) (data_payload d) in
            (decoded, ptype, or_nothing (data_payload d), data_request_id d)))"

definition decode_payload :: "pb_lib \<Rightarrow> bytes \<Rightarrow> payload_result" where
  "decode_payload PB dec =
     (if length dec < 2 then (None, UNKNOWN, None, 0) else try_protobuf_decode PB dec)"

text \<open>The local variables of \<^verbatim>\<open>decode\<close>.\<close>

record decode_vars =
  dv_payload :: "pydict option"
  dv_type :: packet_type
  dv_decrypted :: bool
  dv_raw_app :: "bytes option"
  dv_request_id :: int
  dv_remote_channel :: "ustr option"
  dv_matched :: "nat option"

definition vars_init :: decode_vars where
  "vars_init = \<lparr>dv_payload = None, dv_type = UNKNOWN, dv_decrypted = False, dv_raw_app = None,
     dv_request_id = 0, dv_remote_channel = None, dv_matched = None\<rparr>"

definition take_result :: "payload_result \<Rightarrow> decode_vars \<Rightarrow> decode_vars" where
  "take_result r v =
     (case r of (d, t, raw, rid) \<Rightarrow>
        v\<lparr>dv_payload := d, dv_type := t, dv_raw_app := raw, dv_request_id := rid,
          dv_decrypted := (dv_decrypted v \<or> d \<noteq> None)\<rparr>)"

definition use_pre_decoded :: "pb_lib \<Rightarrow> pre_decoded \<Rightarrow> decode_vars" where
  "use_pre_decoded PB pre =
     (let (d, t) = dispatch_portnum PB (case pd_portnum pre of Some n \<Rightarrow> n | None \<Rightarrow> - 1)
                     (case pd_payload pre of Some b \<Rightarrow> b | None \<Rightarrow> []) in
      vars_init\<lparr>dv_payload := d, dv_type := t,
        dv_raw_app := (case pd_payload pre of Some b \<Rightarrow> or_nothing b | None \<Rightarrow> None),
        dv_request_id := (case pd_request_id pre of Some n \<Rightarrow> n | None \<Rightarrow> 0),
        dv_remote_channel := pd_channel_name pre, dv_decrypted := (d \<noteq> None)\<rparr>)"

definition try_pki ::
    "crypto_lib \<Rightarrow> pb_lib \<Rightarrow> (string \<Rightarrow> ustr option) \<Rightarrow> (string \<Rightarrow> ustr option) \<Rightarrow> mesh_header \<Rightarrow> bytes \<Rightarrow>
     crypto \<Rightarrow> decode_vars \<times> crypto" where
  "try_pki L PB db db' h enc cs =
     (case lookup_public_key db (mh_source_id h) cs of
        (None, cs1) \<Rightarrow> (vars_init, cs1)
      | (Some sender_key, cs1) \<Rightarrow>
          if \<not> has_pki cs1 then (vars_init, cs1)
          else
            let (dec, cs3) =
              (case decrypt_meshtastic_pki L enc (mh_packet_id h) (mh_source_id h) sender_key cs1 of
                 Some d \<Rightarrow> (Some d, cs1)
               | None \<Rightarrow>
                   (case refresh_public_key_from_db db' (mh_source_id h) cs1 of
                      (None, cs2) \<Rightarrow> (None, cs2)
                    | (Some refreshed, cs2) \<Rightarrow>
                        (if refreshed \<noteq> sender_key
                         then decrypt_meshtastic_pki L enc (mh_packet_id h) (mh_source_id h) refreshed cs2
                         else None, cs2)))
            in (case dec of None \<Rightarrow> (vars_init, cs3) | Some d \<Rightarrow> (take_result (decode_payload PB d) vars_init, cs3)))"

fun try_keys :: "crypto_lib \<Rightarrow> pb_lib \<Rightarrow> mesh_header \<Rightarrow> bytes \<Rightarrow> crypto \<Rightarrow> nat \<Rightarrow> bytes list \<Rightarrow> decode_vars \<Rightarrow>
    decode_vars option" where
  "try_keys L PB h enc cs i [] v = Some v"
| "try_keys L PB h enc cs i (key # keys) v =
     (case decrypt_meshtastic L enc (mh_packet_id h) (mh_source_id h) (Some key) cs of
        None \<Rightarrow> None
      | Some None \<Rightarrow> try_keys L PB h enc cs (i + 1) keys v
      | Some (Some dec) \<Rightarrow>
          let v1 = take_result (decode_payload PB dec) v in
          if dv_payload v1 \<noteq> None then Some (v1\<lparr>dv_matched := Some i\<rparr>)
          else try_keys L PB h enc cs (i + 1) keys v1)"

definition mark_encrypted :: "mesh_header \<Rightarrow> bytes \<Rightarrow> decode_vars \<Rightarrow> decode_vars" where
  "mark_encrypted h enc v =
     (if \<not> dv_decrypted v \<and> enc \<noteq> []
      then v\<lparr>dv_type := ENCRYPTED,
             dv_payload := Some [(''encrypted'', PBool True), (''payload_size'', PInt (int (length enc))),
                                 (''channel_hash'', PInt (mh_channel_hash h))]\<rparr>
      else v)"

definition add_request_id :: "decode_vars \<Rightarrow> pydict option" where
  "add_request_id v =
     (case dv_payload v of
        None \<Rightarrow> None
      | Some d \<Rightarrow> Some (if dv_request_id v \<noteq> 0 then AList.update ''request_id'' (PInt (dv_request_id v)) d else d))"

definition make_packet :: "time \<Rightarrow> bytes \<Rightarrow> signal_metrics option \<Rightarrow> mesh_header \<Rightarrow> bytes \<Rightarrow> decode_vars \<Rightarrow> packet" where
  "make_packet now raw sig h enc v =
     \<lparr>packet_id = fmt_x 8 (mh_packet_id h), source_id = fmt_x 8 (mh_source_id h),
      destination_id = fmt_x 8 (mh_dest_id h), protocol = MESHTASTIC, packet_type = dv_type v,
      hop_limit = mh_hop_limit h, hop_start = mh_hop_start h, channel_hash = mh_channel_hash h,
      want_ack = mh_want_ack h, via_mqtt = mh_via_mqtt h, relay_node = mh_relay_node h,
      decoded_payload = add_request_id v,
      encrypted_payload = (if dv_decrypted v then None else Some enc),
      raw_app_payload = dv_raw_app v, raw_radio_packet = Some raw, decrypted = dv_decrypted v,
      matched_channel_index = dv_matched v, remote_channel_name = dv_remote_channel v,
      signal = sig, capture_source = ''unknown'', timestamp = now\<rparr>"

definition decode ::
    "crypto_lib \<Rightarrow> pb_lib \<Rightarrow> (string \<Rightarrow> ustr option) \<Rightarrow> (string \<Rightarrow> ustr option) \<Rightarrow> time \<Rightarrow> int option \<Rightarrow>
     bytes \<Rightarrow> signal_metrics option \<Rightarrow> pre_decoded option \<Rightarrow> crypto \<Rightarrow> (packet option \<times> crypto) option" where
  "decode L PB db db' now our_node_id raw sig pre cs =
     (if length raw < MESHTASTIC_HEADER_SIZE then Some (None, cs)
      else (case parse_header (take 16 raw) of
          None \<Rightarrow> Some (None, cs)
        | Some h \<Rightarrow>
            let enc = drop 16 raw;
                (v, cs1) =
                  (case pre of
                     Some p \<Rightarrow> (use_pre_decoded PB p, cs)
                   | None \<Rightarrow>
                       if is_pki_packet (mh_channel_hash h) (mh_dest_id h) our_node_id (length enc)
                       then try_pki L PB db db' h enc cs else (vars_init, cs))
            in do {
              v1 \<leftarrow> (if \<not> dv_decrypted v \<and> pre = None
                    then try_keys L PB h enc cs1 0 (get_all_keys cs1) v else Some v);
              Some (Some (make_packet now raw sig h enc (mark_encrypted h enc v1)), cs1)
            }))"


section \<open>Node and telemetry updates\<close>

definition extract_node_update :: "packet \<Rightarrow> node option" where
  "extract_node_update p =
     (case decoded_payload p of
        None \<Rightarrow> None
      | Some d \<Rightarrow>
          if d = [] then None
          else
            let n = default_node (source_id p) (protocol_value (protocol p)) (timestamp p) in
            if packet_type p = ENCRYPTED then Some (n\<lparr>latest_signal := signal p\<rparr>)
            else
              let n1 = (if packet_type p = NODEINFO
                        then n\<lparr>long_name := dget ''long_name'' d, short_name := dget ''short_name'' d,
                               hardware_model := dget ''hw_model'' d, public_key := dget ''public_key'' d\<rparr> else n);
                  n2 = (if packet_type p = POSITION
                        then n1\<lparr>latitude := dget ''latitude'' d, longitude := dget ''longitude'' d,
                                altitude := dget ''altitude'' d\<rparr> else n1)
              in Some (n2\<lparr>latest_signal := signal p\<rparr>))"

definition extract_telemetry :: "packet \<Rightarrow> telemetry option" where
  "extract_telemetry p =
     (if packet_type p \<noteq> TELEMETRY then None
      else (case decoded_payload p of
          None \<Rightarrow> None
        | Some d \<Rightarrow>
            if d = [] then None
            else Some \<lparr>tel_node_id = source_id p, battery_level = dget ''battery_level'' d,
                       voltage = dget ''voltage'' d, temperature = dget ''temperature'' d,
                       humidity = dget ''humidity'' d, barometric_pressure = dget ''barometric_pressure'' d,
                       channel_utilization = dget ''channel_utilization'' d, air_util_tx = dget ''air_util_tx'' d,
                       uptime_seconds = dget ''uptime_seconds'' d, tel_timestamp = timestamp p\<rparr>))"


section \<open>Headers\<close>

lemma byte_and7: "0 \<le> uint (b AND 0x07 :: byte)" "uint (b AND 0x07 :: byte) \<le> 7"
proof -
  have "b AND 0x07 \<le> (0x07 :: byte)" by (rule word_and_le1)
  then show "uint (b AND 0x07) \<le> 7" by (simp add: word_le_def)
qed simp

lemma parse_header_Some:
  assumes "parse_header hb = Some h"
  shows "0 \<le> mh_hop_limit h" "mh_hop_limit h \<le> mh_hop_start h" "mh_hop_start h \<le> 7"
    "0 \<le> mh_channel_hash h" "mh_channel_hash h < 256" "0 \<le> mh_relay_node h" "mh_relay_node h < 256"
    "0 \<le> mh_dest_id h" "mh_dest_id h < 2 ^ 32" "0 \<le> mh_source_id h" "mh_source_id h < 2 ^ 32"
    "0 \<le> mh_packet_id h" "mh_packet_id h < 2 ^ 32"
proof -
  have len: "16 \<le> length hb" using assms by (auto simp: parse_header_def split: if_splits)
  have u32: "le_int (slice a (a + 4) hb) < 2 ^ 32" if "a + 4 \<le> 16" for a
  proof -
    have "length (slice a (a + 4) hb) = 4" using that len by simp
    then show ?thesis using le_int_less [of "slice a (a + 4) hb"] by simp
  qed
  show "0 \<le> mh_hop_limit h" "mh_hop_limit h \<le> mh_hop_start h" "mh_hop_start h \<le> 7"
    "0 \<le> mh_channel_hash h" "mh_channel_hash h < 256" "0 \<le> mh_relay_node h" "mh_relay_node h < 256"
    "0 \<le> mh_dest_id h" "0 \<le> mh_source_id h" "0 \<le> mh_packet_id h"
    using assms byte_and7 uint_byte_less by (auto simp: parse_header_def Let_def split: if_splits)
  show "mh_dest_id h < 2 ^ 32" "mh_source_id h < 2 ^ 32" "mh_packet_id h < 2 ^ 32"
    using assms u32 [of 0] u32 [of 4] u32 [of 8] by (auto simp: parse_header_def Let_def split: if_splits)
qed


section \<open>The key loop\<close>

lemma decrypt_meshtastic_no_raise:
  assumes "parse_header hb = Some h"
  shows "\<exists>r. decrypt_meshtastic L enc (mh_packet_id h) (mh_source_id h) key cs = Some r"
  using build_meshtastic_nonce_eq [of "mh_packet_id h" "mh_source_id h"] parse_header_Some(10-13) [OF assms]
  by (auto simp: decrypt_meshtastic_def split: option.splits)

text \<open>What one key contributes: the dictionary it decodes to, if any.\<close>

definition key_payload :: "crypto_lib \<Rightarrow> pb_lib \<Rightarrow> mesh_header \<Rightarrow> bytes \<Rightarrow> crypto \<Rightarrow> bytes \<Rightarrow> pydict option" where
  "key_payload L PB h enc cs key =
     (case decrypt_meshtastic L enc (mh_packet_id h) (mh_source_id h) (Some key) cs of
        Some (Some dec) \<Rightarrow> fst (decode_payload PB dec) | _ \<Rightarrow> None)"

lemma take_result_simps [simp]:
  "dv_payload (take_result r v) = fst r" "dv_matched (take_result r v) = dv_matched v"
  "dv_remote_channel (take_result r v) = dv_remote_channel v"
  "dv_decrypted (take_result r v) = (dv_decrypted v \<or> fst r \<noteq> None)"
  by (simp_all add: take_result_def split: prod.splits)

lemma try_keys_total:
  assumes "parse_header hb = Some h"
  shows "\<exists>w. try_keys L PB h enc cs i keys v = Some w"
proof (induction keys arbitrary: i v)
  case Nil
  then show ?case by simp
next
  case (Cons key keys)
  obtain r where "decrypt_meshtastic L enc (mh_packet_id h) (mh_source_id h) (Some key) cs = Some r"
    using decrypt_meshtastic_no_raise [OF assms] by blast
  then show ?case using Cons by (cases r) (simp_all add: Let_def)
qed

lemma try_keys_spec:
  assumes "try_keys L PB h enc cs i keys v = Some w" "\<not> dv_decrypted v" "dv_matched v = None"
  shows "case find (\<lambda>k. key_payload L PB h enc cs k \<noteq> None) keys of
      None \<Rightarrow> \<not> dv_decrypted w \<and> dv_matched w = None \<and> (dv_payload w = None \<or> dv_payload w = dv_payload v)
    | Some key \<Rightarrow> dv_decrypted w \<and> dv_payload w = key_payload L PB h enc cs key \<and>
        (\<exists>j < length keys. dv_matched w = Some (i + j) \<and> keys ! j = key \<and>
           (\<forall>m < j. key_payload L PB h enc cs (keys ! m) = None))"
  using assms
proof (induction keys arbitrary: i v)
  case Nil
  then show ?case by simp
next
  case (Cons key keys)
  let ?D = "decrypt_meshtastic L enc (mh_packet_id h) (mh_source_id h) (Some key) cs"
  show ?case
  proof (cases "key_payload L PB h enc cs key")
    case None
    then obtain v1 where v1: "try_keys L PB h enc cs (i + 1) keys v1 = Some w" "\<not> dv_decrypted v1"
        "dv_matched v1 = None" "dv_payload v1 = None \<or> dv_payload v1 = dv_payload v"
      using Cons.prems by (auto simp: key_payload_def Let_def split: option.splits if_splits)
    have shift: "\<exists>j < length (key # keys). dv_matched w = Some (i + j) \<and> (key # keys) ! j = k \<and>
        (\<forall>m < j. key_payload L PB h enc cs ((key # keys) ! m) = None)"
      if tail: "\<exists>j < length keys. dv_matched w = Some (i + 1 + j) \<and> keys ! j = k \<and>
        (\<forall>m < j. key_payload L PB h enc cs (keys ! m) = None)" for k
    proof -
      obtain j where "j < length keys" "dv_matched w = Some (i + 1 + j)" "keys ! j = k"
          "\<forall>m < j. key_payload L PB h enc cs (keys ! m) = None" using tail by blast
      then show ?thesis using None by (intro exI [of _ "Suc j"]) (auto simp: nth_Cons split: nat.splits)
    qed
    show ?thesis using Cons.IH [OF v1(1-3)] v1(4) None shift by (auto split: option.splits)
  next
    case (Some d)
    then show ?thesis using Cons.prems by (auto simp: key_payload_def Let_def split: option.splits if_splits)
  qed
qed


section \<open>Decoding never raises and keeps the key ring sound\<close>

lemma try_pki_reach: "crypto_reach cs \<Longrightarrow> crypto_reach (snd (try_pki L PB db db' h enc cs))"
  using crypto_reach.lookup [of cs db "mh_source_id h"]
    crypto_reach.refresh [of "snd (lookup_public_key db (mh_source_id h) cs)" db' "mh_source_id h"]
  by (auto simp: try_pki_def Let_def split: prod.splits option.splits if_splits)

lemma try_pki_vars:
  "dv_matched (fst (try_pki L PB db db' h enc cs)) = None"
  by (auto simp: try_pki_def vars_init_def Let_def split: prod.splits option.splits if_splits)

lemma try_pki_payload:
  "dv_decrypted (fst (try_pki L PB db db' h enc cs)) \<longleftrightarrow> dv_payload (fst (try_pki L PB db db' h enc cs)) \<noteq> None"
  by (auto simp: try_pki_def vars_init_def Let_def split: prod.splits option.splits if_splits)

lemma lookup_frame [simp]:
  "cs_private_key (snd (lookup_public_key db n cs)) = cs_private_key cs"
  "cs_node_db_path (snd (lookup_public_key db n cs)) = cs_node_db_path cs"
  by (simp_all add: lookup_public_key_def split: option.splits)

lemma refresh_frame [simp]:
  "cs_private_key (snd (refresh_public_key_from_db db n cs)) = cs_private_key cs"
  "fst (refresh_public_key_from_db db n cs) = load_public_key_from_db db n cs"
  by (simp_all add: refresh_public_key_from_db_def, auto simp: lookup_public_key_def load_public_key_from_db_def
      delete_conv' split: option.splits)

lemma load_lookup [simp]:
  "load_public_key_from_db db' n (snd (lookup_public_key db m cs)) = load_public_key_from_db db' n cs"
  by (simp add: load_public_key_from_db_def)

text \<open>A direct message is opened with the key of the first lookup or with the refreshed one.\<close>

lemma try_pki_success:
  assumes "try_pki L PB db db' h enc cs = (v, cs1)" "dv_decrypted v"
  shows "\<exists>priv key dec. cs_private_key cs1 = Some priv \<and>
    (fst (lookup_public_key db (mh_source_id h) cs) = Some key \<or>
     load_public_key_from_db db' (mh_source_id h) cs = Some key) \<and>
    decrypt_pki_payload L enc priv key (mh_source_id h) (mh_packet_id h) = Some dec \<and>
    fst (decode_payload PB dec) \<noteq> None"
proof -
  let ?s = "mh_source_id h" and ?pid = "mh_packet_id h"
  have no: "\<not> dv_decrypted vars_init" by (simp add: vars_init_def)
  obtain k cs0 where lk: "lookup_public_key db ?s cs = (Some k, cs0)" and pki: "has_pki cs0"
    using assms no by (auto simp: try_pki_def split: prod.splits option.splits if_splits)
  then obtain priv where priv: "cs_private_key cs0 = Some priv" "cs_private_key cs = Some priv"
    using lookup_frame(1) [of db ?s cs] by (auto simp: has_pki_def)
  obtain r cs2 where rf: "refresh_public_key_from_db db' ?s cs0 = (r, cs2)"
    by (cases "refresh_public_key_from_db db' ?s cs0") auto
  have r: "r = load_public_key_from_db db' ?s cs" "cs_private_key cs2 = Some priv"
    using refresh_frame [of db' ?s cs0] load_lookup [of db' ?s db ?s cs] rf lk priv by simp_all
  show ?thesis
  proof (cases "decrypt_pki_payload L enc priv k ?s ?pid")
    case (Some d)
    then have "v = take_result (decode_payload PB d) vars_init" "cs1 = cs0"
      using assms(1) lk pki priv by (simp_all add: try_pki_def decrypt_meshtastic_pki_def)
    then show ?thesis using Some assms(2) no lk priv by auto
  next
    case None
    then obtain k' d where "r = Some k'" "decrypt_pki_payload L enc priv k' ?s ?pid = Some d"
        "v = take_result (decode_payload PB d) vars_init" "cs1 = cs2"
      using assms no lk pki priv rf r(2)
      by (auto simp: try_pki_def decrypt_meshtastic_pki_def split: option.splits if_splits)
    then show ?thesis using assms(2) no r by auto
  qed
qed

text \<open>What \<^verbatim>\<open>decode\<close> knows before it tries the channel keys.\<close>

definition first_stage ::
    "crypto_lib \<Rightarrow> pb_lib \<Rightarrow> (string \<Rightarrow> ustr option) \<Rightarrow> (string \<Rightarrow> ustr option) \<Rightarrow> int option \<Rightarrow> mesh_header \<Rightarrow>
     bytes \<Rightarrow> pre_decoded option \<Rightarrow> crypto \<Rightarrow> decode_vars \<times> crypto" where
  "first_stage L PB db db' our h enc pre cs =
     (case pre of
        Some p \<Rightarrow> (use_pre_decoded PB p, cs)
      | None \<Rightarrow>
          if is_pki_packet (mh_channel_hash h) (mh_dest_id h) our (length enc)
          then try_pki L PB db db' h enc cs else (vars_init, cs))"

lemma first_stage_reach: "crypto_reach cs \<Longrightarrow> crypto_reach (snd (first_stage L PB db db' our h enc pre cs))"
  by (simp add: first_stage_def try_pki_reach split: option.splits)

lemma first_stage_matched: "dv_matched (fst (first_stage L PB db db' our h enc pre cs)) = None"
  by (auto simp: first_stage_def try_pki_vars use_pre_decoded_def vars_init_def Let_def split: option.splits prod.splits)

lemma first_stage_payload:
  "dv_decrypted (fst (first_stage L PB db db' our h enc pre cs)) \<longleftrightarrow>
     dv_payload (fst (first_stage L PB db db' our h enc pre cs)) \<noteq> None"
  by (simp add: first_stage_def try_pki_payload use_pre_decoded_def vars_init_def Let_def
      split: option.splits prod.splits)

lemma decode_header_fails:
  "length raw < 16 \<or> parse_header (take 16 raw) = None \<Longrightarrow> decode L PB db db' now our raw sig pre cs = Some (None, cs)"
  by (auto simp: decode_def MESHTASTIC_HEADER_SIZE_def)

lemma decode_eq:
  assumes "parse_header (take 16 raw) = Some h" "16 \<le> length raw"
    and "first_stage L PB db db' our h (drop 16 raw) pre cs = (v, cs1)"
  shows "decode L PB db db' now our raw sig pre cs =
    map_option (\<lambda>v1. (Some (make_packet now raw sig h (drop 16 raw) (mark_encrypted h (drop 16 raw) v1)), cs1))
      (if \<not> dv_decrypted v \<and> pre = None then try_keys L PB h (drop 16 raw) cs1 0 (get_all_keys cs1) v else Some v)"
proof -
  have "(case pre of Some p \<Rightarrow> (use_pre_decoded PB p, cs) | None \<Rightarrow>
      if is_pki_packet (mh_channel_hash h) (mh_dest_id h) our (length (drop 16 raw))
      then try_pki L PB db db' h (drop 16 raw) cs else (vars_init, cs)) = (v, cs1)"
    using assms(3) unfolding first_stage_def .
  then show ?thesis
    using assms(1,2) unfolding decode_def MESHTASTIC_HEADER_SIZE_def
    by (simp add: Let_def map_conv_bind_option o_def)
qed

lemma decode_result:
  assumes "parse_header (take 16 raw) = Some h" "16 \<le> length raw"
  obtains v cs1 v1 where "first_stage L PB db db' our h (drop 16 raw) pre cs = (v, cs1)"
    "if \<not> dv_decrypted v \<and> pre = None
     then try_keys L PB h (drop 16 raw) cs1 0 (get_all_keys cs1) v = Some v1 else v1 = v"
    "decode L PB db db' now our raw sig pre cs =
       Some (Some (make_packet now raw sig h (drop 16 raw) (mark_encrypted h (drop 16 raw) v1)), cs1)"
proof -
  obtain v cs1 where st: "first_stage L PB db db' our h (drop 16 raw) pre cs = (v, cs1)"
    by (cases "first_stage L PB db db' our h (drop 16 raw) pre cs") auto
  obtain w where w: "try_keys L PB h (drop 16 raw) cs1 0 (get_all_keys cs1) v = Some w"
    using try_keys_total [OF assms(1)] by blast
  show ?thesis
  proof (cases "\<not> dv_decrypted v \<and> pre = None")
    case True
    then show ?thesis using that [OF st, of w] decode_eq [OF assms st] w by simp
  next
    case False
    then show ?thesis using that [OF st, of v] decode_eq [OF assms st] by auto
  qed
qed

text \<open>After the key loop a packet counts as decrypted exactly when it has a dictionary.\<close>

lemma decode_vars_consistent:
  assumes "first_stage L PB db db' our h enc pre cs = (v, cs1)"
    and "if \<not> dv_decrypted v \<and> pre = None then try_keys L PB h enc cs1 0 (get_all_keys cs1) v = Some v1 else v1 = v"
  shows "dv_decrypted v1 \<longleftrightarrow> dv_payload v1 \<noteq> None"
proof (cases "\<not> dv_decrypted v \<and> pre = None")
  case True
  have fs: "dv_matched v = None" "dv_payload v = None"
    using first_stage_matched [of L PB db db' our h enc pre cs] first_stage_payload [of L PB db db' our h enc pre cs]
      assms(1) True by auto
  have "try_keys L PB h enc cs1 0 (get_all_keys cs1) v = Some v1" using assms(2) True by simp
  note spec = try_keys_spec [OF this _ fs(1)]
  show ?thesis
    using spec True fs by (auto split: option.splits dest: find_SomeE(1))
next
  case False
  then have "v1 = v" using assms(2) by auto
  then show ?thesis using first_stage_payload [of L PB db db' our h enc pre cs] assms(1) by simp
qed

lemma mark_encrypted_simps [simp]:
  "dv_decrypted (mark_encrypted h enc v) = dv_decrypted v" "dv_matched (mark_encrypted h enc v) = dv_matched v"
  by (simp_all add: mark_encrypted_def)

lemma make_packet_simps [simp]:
  "decrypted (make_packet now raw sig h enc v) = dv_decrypted v"
  "matched_channel_index (make_packet now raw sig h enc v) = dv_matched v"
  "packet_type (make_packet now raw sig h enc v) = dv_type v"
  "encrypted_payload (make_packet now raw sig h enc v) = (if dv_decrypted v then None else Some enc)"
  "raw_radio_packet (make_packet now raw sig h enc v) = Some raw"
  "decoded_payload (make_packet now raw sig h enc v) = add_request_id v"
  "source_id (make_packet now raw sig h enc v) = fmt_x 8 (mh_source_id h)"
  "destination_id (make_packet now raw sig h enc v) = fmt_x 8 (mh_dest_id h)"
  "packet_id (make_packet now raw sig h enc v) = fmt_x 8 (mh_packet_id h)"
  "hop_limit (make_packet now raw sig h enc v) = mh_hop_limit h"
  "hop_start (make_packet now raw sig h enc v) = mh_hop_start h"
  "channel_hash (make_packet now raw sig h enc v) = mh_channel_hash h"
  "protocol (make_packet now raw sig h enc v) = MESHTASTIC"
  "raw_app_payload (make_packet now raw sig h enc v) = dv_raw_app v"
  by (simp_all add: make_packet_def)

section \<open>Properties\<close>

text \<open>C36: decoding never raises and leaves the key ring sound, whatever the bytes, the keys and
  the third-party libraries do. A packet comes out exactly for frames of at least 16 bytes whose header
  has at most as many hops left as it started with; it carries the header's ids, the raw frame, a hop
  count between 0 and 7, and either a decoded dictionary or the undecoded ciphertext, never both.\<close>

theorem decode_sound:
  assumes "crypto_reach cs"
  shows "\<exists>r cs1. decode L PB db db' now our raw sig pre cs = Some (r, cs1) \<and> crypto_reach cs1 \<and>
    (r = None \<longleftrightarrow> length raw < 16 \<or> parse_header (take 16 raw) = None) \<and>
    (\<forall>p h. r = Some p \<and> parse_header (take 16 raw) = Some h \<longrightarrow>
       source_id p = fmt_x 8 (mh_source_id h) \<and> packet_id p = fmt_x 8 (mh_packet_id h) \<and>
       destination_id p = fmt_x 8 (mh_dest_id h) \<and> raw_radio_packet p = Some raw \<and>
       0 \<le> hop_limit p \<and> hop_limit p \<le> hop_start p \<and> hop_start p \<le> 7 \<and> hop_count p \<le> 7 \<and>
       (decrypted p \<longleftrightarrow> encrypted_payload p = None) \<and> (decrypted p \<longrightarrow> decoded_payload p \<noteq> None) \<and>
       (\<not> decrypted p \<and> 16 < length raw \<longrightarrow> packet_type p = ENCRYPTED \<and> encrypted_payload p = Some (drop 16 raw)))"
proof (cases "length raw < 16 \<or> parse_header (take 16 raw) = None")
  case True
  then show ?thesis using decode_header_fails [OF True] assms by auto
next
  case False
  then obtain h where h: "parse_header (take 16 raw) = Some h" and len: "16 \<le> length raw" by auto
  obtain v cs1 v1 where st: "first_stage L PB db db' our h (drop 16 raw) pre cs = (v, cs1)"
    and keys: "if \<not> dv_decrypted v \<and> pre = None
      then try_keys L PB h (drop 16 raw) cs1 0 (get_all_keys cs1) v = Some v1 else v1 = v"
    and d: "decode L PB db db' now our raw sig pre cs =
      Some (Some (make_packet now raw sig h (drop 16 raw) (mark_encrypted h (drop 16 raw) v1)), cs1)"
    using decode_result [OF h len, where L = L and PB = PB and db = db and db' = db' and our = our and pre = pre
        and cs = cs and now = now and sig = sig] by blast
  let ?p = "make_packet now raw sig h (drop 16 raw) (mark_encrypted h (drop 16 raw) v1)"
  have reach: "crypto_reach cs1" using first_stage_reach [OF assms, of L PB db db' our h "drop 16 raw" pre] st by simp
  have con: "dv_decrypted v1 \<longleftrightarrow> dv_payload v1 \<noteq> None" using decode_vars_consistent [OF st keys] .
  have "hop_count ?p \<le> 7" using parse_header_Some(1,3) [OF h] by (simp add: hop_count_def)
  moreover have "dv_decrypted v1 \<longrightarrow> decoded_payload ?p \<noteq> None"
    using con by (auto simp: add_request_id_def mark_encrypted_def split: option.splits)
  moreover have "\<not> dv_decrypted v1 \<and> 16 < length raw \<longrightarrow> packet_type ?p = ENCRYPTED"
    by (simp add: mark_encrypted_def)
  ultimately show ?thesis using h len d reach parse_header_Some(1-3) [OF h] by simp
qed

lemma crypto_init_fields:
  "crypto_init s = Some cs \<Longrightarrow> cs_keys cs = [] \<and> cs_private_key cs = None \<and> cs_public_keys cs = []"
  by (auto simp: crypto_init_def Let_def split: if_splits)

lemmas demo_fields = crypto_init_fields [OF demo_crypto_eq(1)]

lemma demo_keys: "get_all_keys demo_crypto = [MESHTASTIC_DEFAULT_PSK]" "good_key MESHTASTIC_DEFAULT_PSK"
proof -
  have "cs_keys demo_crypto = []" using demo_fields by simp
  then show "get_all_keys demo_crypto = [MESHTASTIC_DEFAULT_PSK]"
    using demo_crypto_eq(2) by (simp add: get_all_keys_def MESHTASTIC_DEFAULT_PSK_def)
  show "good_key MESHTASTIC_DEFAULT_PSK" by (simp add: good_key_def MESHTASTIC_DEFAULT_PSK_def)
qed

lemma zero_header: "\<exists>h. parse_header (take 16 (replicate 17 0)) = Some h \<and> mh_dest_id h = 0"
proof -
  have "slice 0 4 (take 16 (replicate 17 (0 :: byte))) = [0, 0, 0, 0]"
    by (simp add: slice_def numeral_eq_Suc)
  then show ?thesis by (simp add: parse_header_def Let_def)
qed

lemmas demo_reach = crypto_reach.start [OF demo_crypto_eq(1)]

theorem decode_sound_witness:
  "\<exists>p cs1. decode toy_lib wire_lib (\<lambda>_. None) (\<lambda>_. None) 0 None (replicate 17 0) None None demo_crypto = Some (Some p, cs1) \<and>
     crypto_reach cs1"
proof -
  obtain h where h: "parse_header (take 16 (replicate 17 0)) = Some h" using zero_header by blast
  obtain r cs1 where "decode toy_lib wire_lib (\<lambda>_. None) (\<lambda>_. None) 0 None (replicate 17 0) None None demo_crypto = Some (r, cs1)"
    "crypto_reach cs1" "r = None \<longleftrightarrow> length (replicate 17 (0 :: byte)) < 16 \<or> parse_header (take 16 (replicate 17 0)) = None"
    using decode_sound [OF demo_reach, of toy_lib wire_lib "\<lambda>_. None" "\<lambda>_. None" 0 None "replicate 17 0" None None]
    by (elim exE conjE) (rule that)
  then show ?thesis using h by (cases r) auto
qed

text \<open>For an ordinary channel packet the keys are tried in order and the first one that yields a
  decodable payload wins: the packet is decrypted exactly when some key of the ring decodes it, and
  the recorded channel index is the position of the first such key.\<close>

lemma decode_first_key:
  assumes "crypto_reach cs" "parse_header (take 16 raw) = Some h" "16 \<le> length raw"
    and "\<not> is_pki_packet (mh_channel_hash h) (mh_dest_id h) our (length raw - 16)"
    and "decode L PB db db' now our raw sig None cs = Some (Some p, cs1)"
  shows "cs1 = cs \<and>
    (decrypted p \<longleftrightarrow> (\<exists>k \<in> set (get_all_keys cs). key_payload L PB h (drop 16 raw) cs k \<noteq> None)) \<and>
    (\<forall>i. matched_channel_index p = Some i \<longleftrightarrow>
       i < length (get_all_keys cs) \<and> key_payload L PB h (drop 16 raw) cs (get_all_keys cs ! i) \<noteq> None \<and>
       (\<forall>m < i. key_payload L PB h (drop 16 raw) cs (get_all_keys cs ! m) = None))"
proof -
  let ?K = "get_all_keys cs" and ?P = "\<lambda>k. key_payload L PB h (drop 16 raw) cs k"
  have st: "first_stage L PB db db' our h (drop 16 raw) None cs = (vars_init, cs)"
    using assms(4) by (simp add: first_stage_def)
  have v0: "\<not> dv_decrypted vars_init" "dv_matched vars_init = None" by (simp_all add: vars_init_def)
  obtain w where w: "try_keys L PB h (drop 16 raw) cs 0 ?K vars_init = Some w"
    using try_keys_total [OF assms(2)] by blast
  then have p: "p = make_packet now raw sig h (drop 16 raw) (mark_encrypted h (drop 16 raw) w)" and "cs1 = cs"
    using assms(5) decode_eq [OF assms(2,3) st] v0(1) by simp_all
  have unique: "i = j" if "i < length ?K" "?P (?K ! i) \<noteq> None" "\<forall>m < i. ?P (?K ! m) = None"
      "?P (?K ! j) \<noteq> None" "\<forall>m < j. ?P (?K ! m) = None" for i j
    using that by (meson linorder_neqE_nat)
  show ?thesis
  proof (cases "find (\<lambda>k. ?P k \<noteq> None) ?K")
    case None
    then have none: "\<forall>k \<in> set ?K. ?P k = None" by (auto simp: find_None_iff)
    then show ?thesis
      using try_keys_spec [OF w v0] None p \<open>cs1 = cs\<close> by (auto simp del: find_None_iff)
  next
    case (Some k)
    then obtain j where j: "dv_decrypted w" "j < length ?K" "dv_matched w = Some j" "?K ! j = k"
        "\<forall>m < j. ?P (?K ! m) = None"
      using try_keys_spec [OF w v0] by auto
    have k: "?P k \<noteq> None" "k \<in> set ?K" using find_SomeE [OF Some] by auto
    have "matched_channel_index p = Some i \<longleftrightarrow>
        i < length ?K \<and> ?P (?K ! i) \<noteq> None \<and> (\<forall>m < i. ?P (?K ! m) = None)" for i
      using unique [of i j] j k p by auto
    then show ?thesis using j(1) k p \<open>cs1 = cs\<close> by auto
  qed
qed

lemma decode_first_key_witness:
  "\<exists>p h. decode toy_lib wire_lib (\<lambda>_. None) (\<lambda>_. None) 0 None (replicate 17 0) None None demo_crypto = Some (Some p, demo_crypto) \<and>
     (decrypted p \<longleftrightarrow> (\<exists>k \<in> set (get_all_keys demo_crypto). key_payload toy_lib wire_lib h (drop 16 (replicate 17 0)) demo_crypto k \<noteq> None))"
proof -
  let ?r = "replicate 17 (0 :: byte)"
  obtain h where h: "parse_header (take 16 ?r) = Some h" using zero_header by blast
  have np: "\<not> is_pki_packet (mh_channel_hash h) (mh_dest_id h) None (length ?r - 16)" by (simp add: is_pki_packet_def)
  have st: "first_stage toy_lib wire_lib (\<lambda>_. None) (\<lambda>_. None) None h (drop 16 ?r) None demo_crypto = (vars_init, demo_crypto)"
    using np by (simp add: first_stage_def)
  obtain w where "try_keys toy_lib wire_lib h (drop 16 ?r) demo_crypto 0 (get_all_keys demo_crypto) vars_init = Some w"
    using try_keys_total [OF h] by blast
  then obtain p where "decode toy_lib wire_lib (\<lambda>_. None) (\<lambda>_. None) 0 None ?r None None demo_crypto = Some (Some p, demo_crypto)"
    using decode_eq [OF h _ st, of 0 None] by (simp add: vars_init_def)
  then show ?thesis using decode_first_key [OF demo_reach h _ np] by auto
qed

text \<open>C37: a direct message to this node that was decrypted without a channel key was opened with the
  sender's public key from the key ring or the node database, so by the authenticity of the CCM
  engine it was sealed by a holder of the shared key.\<close>

theorem decode_pki_authentic:
  assumes "parse_header (take 16 raw) = Some h" "16 \<le> length raw"
    and "is_pki_packet (mh_channel_hash h) (mh_dest_id h) our (length raw - 16)"
    and "decode L PB db db' now our raw sig None cs = Some (Some p, cs1)"
    and "decrypted p" "matched_channel_index p = None"
  shows "\<exists>priv key dec. cs_private_key cs1 = Some priv \<and>
    (fst (lookup_public_key db (mh_source_id h) cs) = Some key \<or>
     load_public_key_from_db db' (mh_source_id h) cs = Some key) \<and>
    decrypt_pki_payload L (drop 16 raw) priv key (mh_source_id h) (mh_packet_id h) = Some dec \<and>
    fst (decode_payload PB dec) \<noteq> None"
proof -
  let ?enc = "drop 16 raw" and ?s = "mh_source_id h"
  have st: "first_stage L PB db db' our h ?enc None cs = try_pki L PB db db' h ?enc cs"
    using assms(3) by (simp add: first_stage_def)
  obtain v where v: "try_pki L PB db db' h ?enc cs = (v, cs1)"
    using assms(4) decode_eq [OF assms(1,2), of L PB db db' our None cs] st
    by (cases "try_pki L PB db db' h ?enc cs") (auto split: if_splits)
  have "dv_decrypted v"
  proof (rule ccontr)
    assume nd: "\<not> dv_decrypted v"
    obtain w where w: "try_keys L PB h ?enc cs1 0 (get_all_keys cs1) v = Some w"
      using try_keys_total [OF assms(1)] by blast
    have "dv_matched v = None" using try_pki_vars [of L PB db db' h ?enc cs] v by simp
    from try_keys_spec [OF w nd this] have "dv_decrypted w \<longrightarrow> dv_matched w \<noteq> None"
      by (auto split: option.splits)
    moreover have "decrypted p = dv_decrypted w" "matched_channel_index p = dv_matched w"
      using assms(4) decode_eq [OF assms(1,2), of L PB db db' our None cs v cs1] st v nd w by auto
    ultimately show False using assms(5,6) by simp
  qed
  then show ?thesis using try_pki_success [OF v] by blast
qed

text \<open>A failed attempt leaves traces. When the last key of the ring decrypts the frame to something that
  parses as a message but whose payload its handler rejects, the packet is reported as encrypted and yet
  carries that attempt's bytes as its application payload, and its request id in the dictionary.\<close>

lemma failed_attempt_leaks:
  assumes "parse_header (take 16 raw) = Some h" "16 < length raw"
    and "\<not> is_pki_packet (mh_channel_hash h) (mh_dest_id h) our (length raw - 16)"
    and "get_all_keys cs = [k]"
    and "decrypt_meshtastic L (drop 16 raw) (mh_packet_id h) (mh_source_id h) (Some k) cs = Some (Some dec)"
    and "decode_payload PB dec = (None, t, Some garbage, rid)"
  shows "\<exists>p. decode L PB db db' now our raw sig None cs = Some (Some p, cs) \<and>
    \<not> decrypted p \<and> packet_type p = ENCRYPTED \<and> raw_app_payload p = Some garbage \<and>
    (rid \<noteq> 0 \<longrightarrow> dget ''request_id'' (the (decoded_payload p)) = PInt rid)"
proof -
  have st: "first_stage L PB db db' our h (drop 16 raw) None cs = (vars_init, cs)"
    using assms(3) by (simp add: first_stage_def)
  have "try_keys L PB h (drop 16 raw) cs 0 (get_all_keys cs) vars_init = Some (take_result (decode_payload PB dec) vars_init)"
    using assms(4-6) by simp
  then show ?thesis
    using decode_eq [OF assms(1) _ st, of now sig] assms(2,6)
    by (simp add: vars_init_def mark_encrypted_def add_request_id_def take_result_def)
qed

text \<open>A frame that the default channel key turns into a position message with an unreadable payload.\<close>

definition leak_frame :: bytes where
  "leak_frame = replicate 16 0 @ map (\<lambda>b. b XOR 0xD4) [0x08, 3, 0x12, 1, 7]"

lemma failed_attempt_leaks_witness:
  "\<exists>p. decode toy_lib wire_lib (\<lambda>_. None) (\<lambda>_. None) 0 None leak_frame None None demo_crypto = Some (Some p, demo_crypto) \<and>
     \<not> decrypted p \<and> raw_app_payload p = Some [7]"
proof -
  obtain h where h: "parse_header (take 16 leak_frame) = Some h" and ids: "mh_packet_id h = 0" "mh_source_id h = 0"
    by (simp add: parse_header_def leak_frame_def Let_def slice_def numeral_eq_Suc)
  have "decrypt_meshtastic toy_lib (drop 16 leak_frame) 0 0 (Some MESHTASTIC_DEFAULT_PSK) demo_crypto = Some (Some [0x08, 3, 0x12, 1, 7])"
    by (simp add: decrypt_meshtastic_def use_key_def build_meshtastic_nonce_eq toy_lib_def toy_ctr_def
        MESHTASTIC_DEFAULT_PSK_def leak_frame_def numeral_eq_Suc)
  moreover have "wire_data [0x08, 3, 0x12, 1, 7] = Some \<lparr>data_portnum = 3, data_payload = [7], data_request_id = 0\<rparr>"
    by code_simp
  then have "decode_payload wire_lib [0x08, 3, 0x12, 1, 7] = (None, POSITION, Some [7], 0)"
    by (simp add: decode_payload_def try_protobuf_decode_def wire_lib_def dispatch_portnum_def HANDLERS_def
        decode_position_def with_pb_def or_nothing_def)
  moreover have "16 < length leak_frame" by (simp add: leak_frame_def)
  ultimately show ?thesis
    using failed_attempt_leaks [OF h _ _ demo_keys(1), where L = toy_lib and PB = wire_lib and our = None and now = 0
        and sig = None and db = "\<lambda>_. None" and db' = "\<lambda>_. None" and dec = "[0x08, 3, 0x12, 1, 7]" and t = POSITION
        and garbage = "[7]" and rid = 0] ids by (auto simp: is_pki_packet_def)
qed

end
