(* ===== verification/Meshtastic_Builder.thy ===== *)
theory Meshtastic_Builder
  imports Meshtastic_Decoder
begin

text \<open>
  \<^verbatim>\<open>src/src/transmit/meshtastic_builder.py\<close>: the frames the gateway sends. The serialisers of the
  generated protobuf classes are the fields of \<open>pb_out\<close>, with \<^const>\<open>None\<close> where building the message
  raises. Outer \<^const>\<open>None\<close>: an exception of the builder (an id that does not fit its field, a
  text with a lone surrogate); inner \<^const>\<open>None\<close>: the method returned \<^verbatim>\<open>None\<close>.
\<close>

definition HW_MODEL_PRIVATE_HW :: int where
  "HW_MODEL_PRIVATE_HW = 255"

definition MAINS_BATTERY_LEVEL :: int where
  "MAINS_BATTERY_LEVEL = 101"

record stats_out =
  so_uptime_seconds :: int
  so_channel_utilization :: rat
  so_air_util_tx :: rat
  so_num_packets_tx :: int
  so_num_packets_rx :: int
  so_num_packets_rx_bad :: int
  so_num_online_nodes :: int
  so_num_total_nodes :: int
  so_num_tx_relay :: int
  so_noise_floor :: "int option"

record route_out =
  ro_route :: "int list"
  ro_snr_towards :: "int list"
  ro_route_back :: "int list"
  ro_snr_back :: "int list"

text \<open>\<open>ser_metrics\<close> and \<open>ser_stats\<close> take the optional message time first; \<open>ser_position\<close> takes
  latitude, longitude and the optional altitude, already converted to integers.\<close>

record pb_out =
  ser_metrics :: "int option \<Rightarrow> device_metrics \<Rightarrow> bytes option"
  ser_stats :: "int option \<Rightarrow> stats_out \<Rightarrow> bytes option"
  ser_position :: "int \<Rightarrow> int \<Rightarrow> int option \<Rightarrow> bytes option"
  ser_route :: "route_out \<Rightarrow> bytes option"

function encode_varint :: "int \<Rightarrow> bytes" where
  "encode_varint value =
     (if value > 0x7F then (word_of_int (value mod 128) OR 0x80) # encode_varint (value div 128)
      else [word_of_int (value mod 128)])"
  by pat_completeness auto
termination
  by (relation "measure nat") auto

declare encode_varint.simps [simp del]

definition serialize_data :: "int \<Rightarrow> bytes \<Rightarrow> int \<Rightarrow> bytes" where
  "serialize_data portnum payload request_id =
     [0x08] @ encode_varint portnum @ [0x12] @ encode_varint (int (length payload)) @ payload @
     (if request_id \<noteq> 0 then [0x35] @ le_bytes 4 (request_id mod 2 ^ 32) else [])"

definition serialize_text_field :: "byte \<Rightarrow> ustr \<Rightarrow> bytes option" where
  "serialize_text_field tag text =
     map_option (\<lambda>encoded. [tag] @ encode_varint (int (length encoded)) @ encoded) (utf8_encode text)"

definition serialize_user :: "ustr \<Rightarrow> ustr \<Rightarrow> ustr \<Rightarrow> int \<Rightarrow> bytes option \<Rightarrow> bytes option" where
  "serialize_user node_id_str lname sname hw_model pub =
     do {
       a \<leftarrow> serialize_text_field 0x0A node_id_str;
       b \<leftarrow> serialize_text_field 0x12 lname;
       c \<leftarrow> serialize_text_field 0x1A sname;
       Some (a @ b @ c @ [0x28] @ encode_varint hw_model @
         (case pub of
            Some (k # ks) \<Rightarrow> [0x42] @ encode_varint (int (length (k # ks))) @ (k # ks)
          | _ \<Rightarrow> []))
     }"

text \<open>\<^verbatim>\<open>struct.pack\<close> and \<^verbatim>\<open>bytes([...])\<close> raise when a value is out of range.\<close>

definition build_header :: "int \<Rightarrow> int \<Rightarrow> int \<Rightarrow> int \<Rightarrow> int \<Rightarrow> bool \<Rightarrow> bool \<Rightarrow> int \<Rightarrow> bytes option" where
  "build_header dest src pid hl hs ack mqtt chash =
     do {
       let flags = (word_of_int hl AND 0x07) OR (if ack then 0x08 else 0) OR
                   (if mqtt then 0x10 else 0) OR push_bit 5 (word_of_int hs AND 0x07);
       d \<leftarrow> pack_le 4 dest;
       s \<leftarrow> pack_le 4 src;
       p \<leftarrow> pack_le 4 pid;
       c \<leftarrow> pack_le 1 chash;
       Some (d @ s @ p @ [flags] @ c @ [0, 0])
     }"

text \<open>\<^verbatim>\<open>if recipient_public_key\<close>: present and not empty.\<close>

definition given :: "bytes option \<Rightarrow> bool" where
  "given k \<longleftrightarrow> (case k of Some (b # bs) \<Rightarrow> True | _ \<Rightarrow> False)"

definition encrypt_payload ::
    "crypto_lib \<Rightarrow> int \<Rightarrow> bytes \<Rightarrow> int \<Rightarrow> int \<Rightarrow> int \<Rightarrow> bytes option \<Rightarrow> bytes option \<Rightarrow> crypto \<Rightarrow> bytes option option" where
  "encrypt_payload L extra inner pid src dest channel_key recipient_public_key cs =
     (if given recipient_public_key \<and> dest \<noteq> BROADCAST_ADDR \<and> has_pki cs
      then Some (encrypt_meshtastic_pki L extra inner pid src (the recipient_public_key) cs)
      else encrypt_meshtastic L inner pid src channel_key cs)"

text \<open>The options every builder method shares.\<close>

record tx_params =
  tp_channel_key :: "bytes option"
  tp_channel_hash :: int
  tp_hop_limit :: int
  tp_hop_start :: int
  tp_recipient_public_key :: "bytes option"

definition default_params :: tx_params where
  "default_params = \<lparr>tp_channel_key = None, tp_channel_hash = 0x08, tp_hop_limit = 3, tp_hop_start = 3,
     tp_recipient_public_key = None\<rparr>"

definition on_air_hash :: "tx_params \<Rightarrow> int" where
  "on_air_hash tp = (if given (tp_recipient_public_key tp) then 0 else tp_channel_hash tp)"

text \<open>The common tail of the unicast methods: encrypt, give up on \<^verbatim>\<open>None\<close>, prepend the header.\<close>

definition finish_unicast ::
    "crypto_lib \<Rightarrow> int \<Rightarrow> bytes \<Rightarrow> int \<Rightarrow> int \<Rightarrow> int \<Rightarrow> bool \<Rightarrow> tx_params \<Rightarrow> crypto \<Rightarrow> bytes option option" where
  "finish_unicast L extra inner dest src pid ack tp cs =
     do {
       ciphertext \<leftarrow> encrypt_payload L extra inner pid src dest (tp_channel_key tp)
                      (tp_recipient_public_key tp) cs;
       (case ciphertext of
          None \<Rightarrow> Some None
        | Some c \<Rightarrow> do {
            header \<leftarrow> build_header dest src pid (tp_hop_limit tp) (tp_hop_start tp) ack False
                       (on_air_hash tp);
            Some (Some (header @ c))
          })
     }"

definition finish_broadcast ::
    "crypto_lib \<Rightarrow> bytes \<Rightarrow> int \<Rightarrow> int \<Rightarrow> tx_params \<Rightarrow> crypto \<Rightarrow> bytes option option" where
  "finish_broadcast L inner src pid tp cs =
     do {
       ciphertext \<leftarrow> encrypt_meshtastic L inner pid src (tp_channel_key tp) cs;
       (case ciphertext of
          None \<Rightarrow> Some None
        | Some c \<Rightarrow> do {
            header \<leftarrow> build_header BROADCAST_ADDR src pid (tp_hop_limit tp) (tp_hop_start tp) False False
                       (tp_channel_hash tp);
            Some (Some (header @ c))
          })
     }"

definition build_text_message ::
    "crypto_lib \<Rightarrow> int \<Rightarrow> ustr \<Rightarrow> int \<Rightarrow> int \<Rightarrow> int \<Rightarrow> bool \<Rightarrow> tx_params \<Rightarrow> crypto \<Rightarrow> bytes option option" where
  "build_text_message L extra text dest src pid ack tp cs =
     do {
       payload \<leftarrow> utf8_encode text;
       finish_unicast L extra (serialize_data 1 payload 0) dest src pid ack tp cs
     }"

definition build_nodeinfo ::
    "crypto_lib \<Rightarrow> int \<Rightarrow> int \<Rightarrow> ustr \<Rightarrow> ustr \<Rightarrow> int \<Rightarrow> bytes option \<Rightarrow> tx_params \<Rightarrow> crypto \<Rightarrow> bytes option option" where
  "build_nodeinfo L src pid lname sname hw_model pub tp cs =
     do {
       user_payload \<leftarrow> serialize_user (lit (''!'' @ fmt_x 8 src)) lname sname hw_model pub;
       finish_broadcast L (serialize_data 4 user_payload 0) src pid tp cs
     }"

definition build_routing_ack ::
    "crypto_lib \<Rightarrow> int \<Rightarrow> int \<Rightarrow> int \<Rightarrow> int \<Rightarrow> int \<Rightarrow> tx_params \<Rightarrow> crypto \<Rightarrow> bytes option option" where
  "build_routing_ack L extra src dest pid request_id tp cs =
     finish_unicast L extra (serialize_data 5 [] request_id) dest src pid False tp cs"

definition build_telemetry ::
    "crypto_lib \<Rightarrow> pb_out \<Rightarrow> int \<Rightarrow> int \<Rightarrow> device_metrics \<Rightarrow> tx_params \<Rightarrow> crypto \<Rightarrow> bytes option option" where
  "build_telemetry L PO src pid dm tp cs =
     (case ser_metrics PO None dm of
        None \<Rightarrow> Some None
      | Some payload \<Rightarrow> finish_broadcast L (serialize_data 67 payload 0) src pid tp cs)"

definition build_telemetry_reply ::
    "crypto_lib \<Rightarrow> pb_out \<Rightarrow> int \<Rightarrow> int \<Rightarrow> int \<Rightarrow> int \<Rightarrow> int \<Rightarrow> string \<Rightarrow> device_metrics \<Rightarrow> stats_out \<Rightarrow> int \<Rightarrow>
     tx_params \<Rightarrow> crypto \<Rightarrow> bytes option option" where
  "build_telemetry_reply L PO extra src dest pid request_id variant dm so telemetry_time tp cs =
     (let t = (if telemetry_time \<noteq> 0 then Some telemetry_time else None) in
      case (if variant = ''local_stats'' then ser_stats PO t so else ser_metrics PO t dm) of
        None \<Rightarrow> Some None
      | Some payload \<Rightarrow>
          finish_unicast L extra (serialize_data 67 payload request_id) dest src pid False tp cs)"

definition build_position ::
    "crypto_lib \<Rightarrow> pb_out \<Rightarrow> int \<Rightarrow> int \<Rightarrow> rat \<Rightarrow> rat \<Rightarrow> rat option \<Rightarrow> tx_params \<Rightarrow> crypto \<Rightarrow> bytes option option" where
  "build_position L PO src pid lat lon alt tp cs =
     (case ser_position PO (py_trunc (lat * 10 ^ 7)) (py_trunc (lon * 10 ^ 7)) (map_option py_trunc alt) of
        None \<Rightarrow> Some None
      | Some payload \<Rightarrow> finish_broadcast L (serialize_data 3 payload 0) src pid tp cs)"

definition build_traceroute_reply ::
    "crypto_lib \<Rightarrow> pb_out \<Rightarrow> int \<Rightarrow> int \<Rightarrow> int \<Rightarrow> int \<Rightarrow> route_out \<Rightarrow> int \<Rightarrow> tx_params \<Rightarrow> crypto \<Rightarrow> bytes option option" where
  "build_traceroute_reply L PO extra src dest pid ro request_id tp cs =
     (case ser_route PO ro of
        None \<Rightarrow> Some None
      | Some payload \<Rightarrow>
          finish_unicast L extra (serialize_data 70 payload request_id) dest src pid False tp cs)"


section \<open>Varints and messages\<close>

lemma varint_byte: "unat (word_of_int v OR 0x80 :: byte) = 128 + nat v" if "0 \<le> v" "v < 128"
proof -
  have "word_of_int v AND (0x80 :: byte) = 0"
  proof (rule bit_word_eqI)
    fix n :: nat
    assume "n < LENGTH(8)"
    have "\<not> bit v 7"
      using that by (simp add: bit_iff_odd div_pos_pos_trivial)
    then show "bit (word_of_int v AND (0x80 :: byte)) n = bit (0 :: byte) n"
      using \<open>n < LENGTH(8)\<close> by (auto simp: bit_simps numeral_eq_Suc less_Suc_eq)
  qed
  then have "word_of_int v OR (0x80 :: byte) = word_of_int v + 0x80"
    by (metis disjunctive_add_eq_or)
  moreover have "uint (word_of_int v + 0x80 :: byte) = v + 128"
    using that by (simp add: uint_word_ariths(1) uint_word_of_int)
  ultimately have "uint (word_of_int v OR 0x80 :: byte) = v + 128" by simp
  then show ?thesis using that by (simp add: unat_eq_nat_uint)
qed

lemma read_encode_varint: "0 \<le> v \<Longrightarrow> read_varint (encode_varint v @ r) = Some (nat v, r)"
proof (induction v rule: encode_varint.induct)
  case (1 v)
  show ?case
  proof (cases "v > 0x7F")
    case True
    have ih: "read_varint (encode_varint (v div 128) @ r) = Some (nat (v div 128), r)"
      using 1 True by simp
    have m: "0 \<le> v mod 128" "v mod 128 < 128" by simp_all
    have "nat (v mod 128) + 128 * nat (v div 128) = nat v"
      using 1(2) by (simp flip: nat_mult_distrib nat_add_distrib add: nat_div_distrib nat_mod_distrib)
    then show ?thesis
      using True ih varint_byte [OF m] by (subst encode_varint.simps) simp
  next
    case False
    then have "unat (word_of_int v :: byte) = nat v" "nat v < 128"
      using 1(2) by (simp_all add: unat_eq_nat_uint uint_word_of_int)
    then show ?thesis using False 1(2) by (subst encode_varint.simps) simp
  qed
qed

lemma encode_varint_bounds: "encode_varint v \<noteq> []"
  by (subst encode_varint.simps) simp

lemma read_field_varint_enc:
  assumes "0 \<le> v" "unat t < 128" "unat t mod 8 = 0"
  shows "read_message (t # encode_varint v @ r) = map_option ((#) (unat t div 8, Varint (nat v))) (read_message r)"
  by (rule read_message_field)
    (use assms read_field_varint [OF read_encode_varint [OF assms(1), of r] assms(2,3)] in simp_all)

lemma read_field_len_enc:
  assumes "unat t < 128" "unat t mod 8 = 2"
  shows "read_message (t # encode_varint (int (length b)) @ b @ r) =
    map_option ((#) (unat t div 8, LenBytes b)) (read_message r)"
  by (rule read_message_field)
    (use read_field_len [of "encode_varint (int (length b)) @ b @ r" b r t] assms
      read_encode_varint [of "int (length b)" "b @ r"] in simp_all)

lemma read_fixed32:
  assumes "unat t < 128" "unat t mod 8 = 5" "length b = 4"
  shows "read_message (t # b) = Some [(unat t div 8, I32 b)]"
  using read_message_field [of "t # b" "(unat t div 8, I32 b)" "[]"] read_field_fixed32 [OF assms(3,1,2), of "[]"]
  by simp

text \<open>The hand-written \<^verbatim>\<open>Data\<close> encoder is read back by the wire format.\<close>

lemma wire_serialize_data:
  assumes "0 \<le> p"
  shows "wire_data (serialize_data p payload rid) =
    Some \<lparr>data_portnum = p, data_payload = payload, data_request_id = rid mod 2 ^ 32\<rparr>"
proof -
  let ?tail = "if rid \<noteq> 0 then [0x35] @ le_bytes 4 (rid mod 2 ^ 32) else []"
  let ?fs = "if rid \<noteq> 0 then [(6, I32 (le_bytes 4 (rid mod 2 ^ 32)))] else []"
  have tail: "read_message ?tail = Some ?fs"
    using read_fixed32 [of "0x35" "le_bytes 4 (rid mod 2 ^ 32)"] by auto
  have "read_message (serialize_data p payload rid) =
      map_option ((#) (1, Varint (nat p))) (map_option ((#) (2, LenBytes payload)) (read_message ?tail))"
    unfolding serialize_data_def
    using read_field_varint_enc [OF assms, of "0x08"] read_field_len_enc [of "0x12" payload] by simp
  moreover have "le_int (le_bytes 4 (rid mod 2 ^ 32)) = rid mod 2 ^ 32"
    by (simp add: le_int_le_bytes_mod)
  ultimately show ?thesis
    using tail assms by (auto simp: wire_data_def varint_field_def bytes_field_def fixed32_field_def last_field_def)
qed

lemma serialize_text_field_Some:
  assumes "serialize_text_field t s = Some bs"
  obtains e where "utf8_encode s = Some e" "bs = t # encode_varint (int (length e)) @ e"
  using assms by (auto simp: serialize_text_field_def)

text \<open>The hand-written \<^verbatim>\<open>User\<close> encoder, too.\<close>

lemma wire_serialize_user:
  assumes "serialize_user i l s hw pub = Some bs" "0 \<le> hw"
  shows "wire_user bs = Some \<lparr>user_id = i, user_long_name = l, user_short_name = s, user_hw_model = hw,
    user_role = 0, user_public_key = (case pub of Some k \<Rightarrow> k | None \<Rightarrow> [])\<rparr>"
proof -
  let ?key = "case pub of Some (k # ks) \<Rightarrow> [0x42] @ encode_varint (int (length (k # ks))) @ (k # ks) | _ \<Rightarrow> []"
  let ?kf = "case pub of Some (k # ks) \<Rightarrow> [(8, LenBytes (k # ks))] | _ \<Rightarrow> []"
  obtain a b c where abc: "serialize_text_field 0x0A i = Some a" "serialize_text_field 0x12 l = Some b"
      "serialize_text_field 0x1A s = Some c" and bs: "bs = a @ b @ c @ [0x28] @ encode_varint hw @ ?key"
    using assms(1) by (auto simp: serialize_user_def split: Option.bind_splits)
  obtain ei el es where e: "utf8_encode i = Some ei" "a = 0x0A # encode_varint (int (length ei)) @ ei"
      "utf8_encode l = Some el" "b = 0x12 # encode_varint (int (length el)) @ el"
      "utf8_encode s = Some es" "c = 0x1A # encode_varint (int (length es)) @ es"
    using abc by (elim serialize_text_field_Some) blast
  have key: "read_message ?key = Some ?kf"
    using read_field_len_enc [of "0x42" "the pub" "[]"] by (auto split: option.splits list.splits)
  have "read_message bs = Some ([(1, LenBytes ei), (2, LenBytes el), (3, LenBytes es), (5, Varint (nat hw))] @ ?kf)"
    unfolding bs e(2,4,6)
    using read_field_len_enc [of "0x0A" ei] read_field_len_enc [of "0x12" el] read_field_len_enc [of "0x1A" es]
      read_field_varint_enc [OF assms(2), of "0x28"] key by simp
  then show ?thesis
    using e assms(2) by (auto simp: wire_user_def bytes_field_def varint_field_def last_field_def
        split: option.splits list.splits)
qed


section \<open>Headers\<close>

text \<open>The layout of the flags byte, with its masks given by their bits.\<close>

lemma flags_layout:
  fixes hl hs :: byte
  assumes m: "\<And>n. bit m7 n \<longleftrightarrow> n < 3" "\<And>n. bit m8 n \<longleftrightarrow> n = 3" "\<And>n. bit m16 n \<longleftrightarrow> n = 4"
    and f: "f = (hl AND m7) OR (if ack then m8 else 0) OR (if mqtt then m16 else 0) OR push_bit 5 (hs AND m7)"
  shows "f AND m7 = hl AND m7" "drop_bit 5 f AND m7 = hs AND m7" "f AND m8 \<noteq> 0 \<longleftrightarrow> ack" "f AND m16 \<noteq> 0 \<longleftrightarrow> mqtt"
proof -
  have b: "bit f n \<longleftrightarrow> (bit hl n \<and> n < 3) \<or> (ack \<and> n = 3) \<or> (mqtt \<and> n = 4) \<or>
      (5 \<le> n \<and> n < 8 \<and> bit hs (n - 5))" for n
    unfolding f by (auto simp: bit_simps m)
  show "f AND m7 = hl AND m7" by (rule bit_word_eqI) (auto simp: bit_simps b m)
  show "drop_bit 5 f AND m7 = hs AND m7" by (rule bit_word_eqI) (auto simp: bit_simps b m)
  have "bit (f AND m8) n \<longleftrightarrow> ack \<and> n = 3" "bit (f AND m16) n \<longleftrightarrow> mqtt \<and> n = 4" for n
    by (auto simp: bit_simps b m)
  moreover have "x \<noteq> 0 \<longleftrightarrow> (\<exists>n. bit x n)" for x :: byte
    using bit_eqI [of x 0] by auto
  ultimately show "f AND m8 \<noteq> 0 \<longleftrightarrow> ack" "f AND m16 \<noteq> 0 \<longleftrightarrow> mqtt" by simp_all
qed

lemma mask_bits: "bit (0x07 :: byte) n \<longleftrightarrow> n < 3" "bit (0x08 :: byte) n \<longleftrightarrow> n = 3" "bit (0x10 :: byte) n \<longleftrightarrow> n = 4"
proof -
  have "(0x07 :: byte) = mask 3" "(0x08 :: byte) = push_bit 3 1" "(0x10 :: byte) = push_bit 4 1"
    by (simp_all add: mask_eq_exp_minus_1)
  then show "bit (0x07 :: byte) n \<longleftrightarrow> n < 3" "bit (0x08 :: byte) n \<longleftrightarrow> n = 3" "bit (0x10 :: byte) n \<longleftrightarrow> n = 4"
    by (auto simp only: bit_mask_iff bit_push_bit_iff bit_1_iff possible_bit_def exp_eq_0_imp_not_bit) auto
qed

lemmas flags_fields = flags_layout [OF mask_bits]

lemma word_and7: "0 \<le> h \<Longrightarrow> h \<le> 7 \<Longrightarrow> uint (word_of_int h AND 0x07 :: byte) = h"
proof -
  assume "0 \<le> h" "h \<le> 7"
  have "word_of_int h AND (0x07 :: byte) = take_bit 3 (word_of_int h)"
    by (simp add: take_bit_eq_mask mask_eq_exp_minus_1)
  then have "uint (word_of_int h AND 0x07 :: byte) = take_bit 3 (uint (word_of_int h :: byte))"
    by (simp add: unsigned_take_bit_eq)
  also have "\<dots> = h" using \<open>0 \<le> h\<close> \<open>h \<le> 7\<close> by (simp add: uint_word_of_int take_bit_eq_mod)
  finally show ?thesis .
qed

definition u32 :: "int \<Rightarrow> bool" where
  "u32 v \<longleftrightarrow> 0 \<le> v \<and> v < 2 ^ 32"

lemma build_header_parse:
  assumes "u32 dest" "u32 src" "u32 pid" "0 \<le> ch" "ch < 256" "0 \<le> hl" "hl \<le> hs" "hs \<le> 7"
  obtains hb where "build_header dest src pid hl hs ack mqtt ch = Some hb" "length hb = 16"
    "parse_header hb = Some \<lparr>mh_dest_id = dest, mh_source_id = src, mh_packet_id = pid, mh_hop_limit = hl,
       mh_hop_start = hs, mh_want_ack = ack, mh_via_mqtt = mqtt, mh_channel_hash = ch, mh_relay_node = 0\<rparr>"
proof -
  let ?f = "((word_of_int hl :: byte) AND 0x07) OR (if ack then 0x08 else 0) OR (if mqtt then 0x10 else 0) OR
    push_bit 5 (word_of_int hs AND 0x07)"
  let ?hb = "le_bytes 4 dest @ le_bytes 4 src @ le_bytes 4 pid @ [?f] @ le_bytes 1 ch @ [0, 0]"
  have "build_header dest src pid hl hs ack mqtt ch = Some ?hb"
    using assms by (simp add: build_header_def u32_def pack_le_def Let_def)
  moreover have "length ?hb = 16" by simp
  moreover have "parse_header ?hb = Some \<lparr>mh_dest_id = dest, mh_source_id = src, mh_packet_id = pid,
       mh_hop_limit = hl, mh_hop_start = hs, mh_want_ack = ack, mh_via_mqtt = mqtt, mh_channel_hash = ch,
       mh_relay_node = 0\<rparr>"
  proof -
    have at: "?hb ! 12 = ?f" "?hb ! 13 = word_of_int ch" "?hb ! 15 = 0"
      by (simp_all add: nth_append One_nat_def numeral_eq_Suc)
    have sl: "slice 0 4 ?hb = le_bytes 4 dest" "slice 4 8 ?hb = le_bytes 4 src" "slice 8 12 ?hb = le_bytes 4 pid"
      by (simp_all add: slice_def)
    have "uint (?f AND 0x07) = hl" "uint (drop_bit 5 ?f AND 0x07) = hs"
      using flags_fields(1,2) [of ?f "word_of_int hl" ack mqtt "word_of_int hs", OF refl] word_and7 assms by simp_all
    then show ?thesis
      using flags_fields(3,4) [of ?f "word_of_int hl" ack mqtt "word_of_int hs", OF refl] assms
      unfolding parse_header_def at sl
      by (simp add: Let_def le_int_le_bytes u32_def uint_word_of_int)
  qed
  ultimately show ?thesis using that by blast
qed

section \<open>From the builder to the decoder\<close>

text \<open>What is relied on of the generated \<^verbatim>\<open>Data\<close> class: it reads the wire format the builder writes, for port numbers
  in the range of the enumeration field and payloads below the size limit of the library.\<close>

definition reads_data :: "pb_lib \<Rightarrow> bool" where
  "reads_data PB \<longleftrightarrow> pb_installed PB \<and>
     (\<forall>p payload rid. 0 \<le> p \<and> p < 2 ^ 31 \<and> length payload < 2 ^ 30 \<and> u32 rid \<longrightarrow>
        parse_data PB (serialize_data p payload rid) =
          Some \<lparr>data_portnum = p, data_payload = payload, data_request_id = rid\<rparr>)"

lemma wire_lib_reads_data: "reads_data wire_lib"
  by (simp add: reads_data_def wire_lib_def wire_serialize_data u32_def)

lemma length_serialize_data: "2 \<le> length (serialize_data p payload rid)"
  by (simp add: serialize_data_def)

lemma length_serialize_data_payload: "length payload < length (serialize_data p payload rid)"
  by (simp add: serialize_data_def)

lemma decode_payload_serialized:
  assumes "reads_data PB" "0 \<le> p" "p < 2 ^ 31" "length payload < 2 ^ 30" "u32 rid"
  shows "decode_payload PB (serialize_data p payload rid) =
    (fst (dispatch_portnum PB p payload), port_type p, or_nothing payload, rid)"
  using assms length_serialize_data [of p payload rid] dispatch_type [of PB p payload]
  by (auto simp: decode_payload_def try_protobuf_decode_def reads_data_def Let_def split: prod.splits)

lemma try_keys_hit:
  assumes "j < length keys" "\<forall>m < j. key_payload L PB h enc cs (keys ! m) = None"
    and "decrypt_meshtastic L enc (mh_packet_id h) (mh_source_id h) (Some (keys ! j)) cs = Some (Some inner)"
    and "fst (decode_payload PB inner) \<noteq> None" and hb: "parse_header hb = Some h"
  shows "\<exists>v'. try_keys L PB h enc cs i keys v = Some ((take_result (decode_payload PB inner) v')\<lparr>dv_matched := Some (i + j)\<rparr>) \<and>
    dv_remote_channel v' = dv_remote_channel v"
  using assms(1-3)
proof (induction keys arbitrary: i j v)
  case Nil
  then show ?case by simp
next
  case (Cons key keys)
  show ?case
  proof (cases j)
    case 0
    then show ?thesis using Cons.prems assms(4) by (auto simp: Let_def)
  next
    case (Suc j')
    obtain r where r: "decrypt_meshtastic L enc (mh_packet_id h) (mh_source_id h) (Some key) cs = Some r"
      using decrypt_meshtastic_no_raise [OF hb] by blast
    have none: "key_payload L PB h enc cs key = None" using Cons.prems(2) Suc by auto
    obtain v1 where v1: "try_keys L PB h enc cs i (key # keys) v = try_keys L PB h enc cs (i + 1) keys v1"
        "dv_remote_channel v1 = dv_remote_channel v"
      using r none by (cases r) (auto simp: key_payload_def Let_def)
    have "\<forall>m < j'. key_payload L PB h enc cs (keys ! m) = None" using Cons.prems(2) Suc by auto
    then show ?thesis
      using Cons.IH [of j' "i + 1" v1] Cons.prems Suc v1 by auto
  qed
qed

lemma decode_channel_frame:
  assumes "parse_header (take 16 raw) = Some h" "16 \<le> length raw"
    and "\<not> is_pki_packet (mh_channel_hash h) (mh_dest_id h) our (length raw - 16)"
    and "j < length (get_all_keys cs)" "\<forall>m < j. key_payload L PB h (drop 16 raw) cs (get_all_keys cs ! m) = None"
    and "decrypt_meshtastic L (drop 16 raw) (mh_packet_id h) (mh_source_id h) (Some (get_all_keys cs ! j)) cs = Some (Some inner)"
    and "decode_payload PB inner = (Some d, t, ra, rid)"
  shows "\<exists>p. decode L PB db db' now our raw sig None cs = Some (Some p, cs) \<and> decrypted p \<and> packet_type p = t \<and>
    decoded_payload p = Some (if rid \<noteq> 0 then AList.update ''request_id'' (PInt rid) d else d) \<and>
    raw_app_payload p = ra \<and> matched_channel_index p = Some j \<and>
    source_id p = fmt_x 8 (mh_source_id h) \<and> destination_id p = fmt_x 8 (mh_dest_id h) \<and> packet_id p = fmt_x 8 (mh_packet_id h)"
proof -
  have st: "first_stage L PB db db' our h (drop 16 raw) None cs = (vars_init, cs)"
    using assms(3) by (simp add: first_stage_def)
  have ne: "fst (decode_payload PB inner) \<noteq> None" using assms(7) by simp
  obtain v' where "try_keys L PB h (drop 16 raw) cs 0 (get_all_keys cs) vars_init =
      Some ((take_result (decode_payload PB inner) v')\<lparr>dv_matched := Some (0 + j)\<rparr>)"
    using try_keys_hit [OF assms(4-6) ne assms(1), of 0 vars_init] by blast
  then show ?thesis
    using decode_eq [OF assms(1,2) st, of now sig] assms(7)
    by (simp add: vars_init_def mark_encrypted_def add_request_id_def take_result_def)
qed

lemma decode_pki_frame:
  assumes "parse_header (take 16 raw) = Some h" "16 \<le> length raw"
    and "is_pki_packet (mh_channel_hash h) (mh_dest_id h) our (length raw - 16)"
    and "lookup_public_key db (mh_source_id h) cs = (Some sender_key, cs1)" "has_pki cs1"
    and "decrypt_meshtastic_pki L (drop 16 raw) (mh_packet_id h) (mh_source_id h) sender_key cs1 = Some inner"
    and "decode_payload PB inner = (Some d, t, ra, rid)"
  shows "\<exists>p. decode L PB db db' now our raw sig None cs = Some (Some p, cs1) \<and> decrypted p \<and> packet_type p = t \<and>
    decoded_payload p = Some (if rid \<noteq> 0 then AList.update ''request_id'' (PInt rid) d else d) \<and>
    raw_app_payload p = ra \<and> matched_channel_index p = None"
proof -
  have st: "first_stage L PB db db' our h (drop 16 raw) None cs = (take_result (decode_payload PB inner) vars_init, cs1)"
    using assms(3-6) by (simp add: first_stage_def try_pki_def)
  show ?thesis
    using decode_eq [OF assms(1,2) st, of now sig] assms(7)
    by (simp add: vars_init_def mark_encrypted_def add_request_id_def take_result_def)
qed

section \<open>Frames\<close>

definition params_ok :: "tx_params \<Rightarrow> bool" where
  "params_ok tp \<longleftrightarrow> 0 \<le> tp_channel_hash tp \<and> tp_channel_hash tp < 256 \<and>
     0 \<le> tp_hop_limit tp \<and> tp_hop_limit tp \<le> tp_hop_start tp \<and> tp_hop_start tp \<le> 7"

definition frame_header :: "int \<Rightarrow> int \<Rightarrow> int \<Rightarrow> bool \<Rightarrow> int \<Rightarrow> tx_params \<Rightarrow> mesh_header" where
  "frame_header dest src pid ack ch tp =
     \<lparr>mh_dest_id = dest, mh_source_id = src, mh_packet_id = pid, mh_hop_limit = tp_hop_limit tp,
      mh_hop_start = tp_hop_start tp, mh_want_ack = ack, mh_via_mqtt = False, mh_channel_hash = ch, mh_relay_node = 0\<rparr>"

lemma finish_unicast_channel:
  assumes "aes_lib L" "u32 dest" "u32 src" "u32 pid" "params_ok tp"
    and "use_key (tp_channel_key tp) tx = Some k" "good_key k"
    and "\<not> (given (tp_recipient_public_key tp) \<and> dest \<noteq> BROADCAST_ADDR \<and> has_pki tx)"
  obtains raw where "finish_unicast L extra inner dest src pid ack tp tx = Some (Some raw)"
    "length raw = length inner + 16"
    "parse_header (take 16 raw) = Some (frame_header dest src pid ack (on_air_hash tp) tp)"
    "encrypt_meshtastic L inner pid src (tp_channel_key tp) tx = Some (Some (drop 16 raw))"
    "\<And>rx. decrypt_meshtastic L (drop 16 raw) pid src (Some k) rx = Some (Some inner)"
proof -
  have ids: "0 \<le> pid" "pid < 2 ^ 32" "0 \<le> src" "src < 2 ^ 32" using assms(3,4) by (simp_all add: u32_def)
  obtain c where c: "encrypt_meshtastic L inner pid src (tp_channel_key tp) tx = Some (Some c)" "length c = length inner"
      "\<And>cs' key'. use_key key' cs' = Some k \<Longrightarrow> decrypt_meshtastic L c pid src key' cs' = Some (Some inner)"
    using encrypt_meshtastic_back [OF assms(1,6,7) ids] by metis
  have ch: "0 \<le> on_air_hash tp" "on_air_hash tp < 256" and hops: "0 \<le> tp_hop_limit tp" "tp_hop_limit tp \<le> tp_hop_start tp" "tp_hop_start tp \<le> 7"
    using assms(5) by (simp_all add: on_air_hash_def params_ok_def)
  obtain hb where hb: "build_header dest src pid (tp_hop_limit tp) (tp_hop_start tp) ack False (on_air_hash tp) = Some hb"
      "length hb = 16" "parse_header hb = Some (frame_header dest src pid ack (on_air_hash tp) tp)"
    using build_header_parse [OF assms(2-4) ch hops] unfolding frame_header_def by metis
  have "encrypt_payload L extra inner pid src dest (tp_channel_key tp) (tp_recipient_public_key tp) tx = Some (Some c)"
    using assms(8) c(1) by (auto simp: encrypt_payload_def)
  then have "finish_unicast L extra inner dest src pid ack tp tx = Some (Some (hb @ c))"
    using hb(1) by (simp add: finish_unicast_def)
  then show ?thesis using that [of "hb @ c"] hb c by (simp add: use_key_def)
qed

lemma finish_unicast_pki:
  assumes "aes_lib L" "u32 dest" "u32 src" "u32 pid" "params_ok tp" "0 \<le> e" "e < 2 ^ 32"
    and "tp_recipient_public_key tp = Some pub_b" "length pub_b = 32" "dest \<noteq> BROADCAST_ADDR" "has_pki tx"
    and "cs_private_key tx = Some priv_a" "derive_shared_key L priv_a pub_b = Some k" "inner \<noteq> []"
  obtains raw where "finish_unicast L e inner dest src pid ack tp tx = Some (Some raw)"
    "length raw = length inner + 28"
    "parse_header (take 16 raw) = Some (frame_header dest src pid ack 0 tp)"
    "\<And>priv_b pub_a. derive_shared_key L priv_b pub_a = Some k \<Longrightarrow>
       decrypt_pki_payload L (drop 16 raw) priv_b pub_a src pid = Some inner"
proof -
  have g: "given (tp_recipient_public_key tp)" using assms(8,9) by (cases pub_b) (simp_all add: given_def)
  obtain c t where ct: "ccm_encrypt (aes_block L k) (build_pki_nonce src pid e) 8 inner [] = Some (c, t)"
      "length c = length inner" "length t = 8" "encrypt_pki_payload L e inner priv_a pub_b src pid = Some (c @ t @ le_bytes 4 e)"
    using encrypt_pki_total [OF assms(1,13,6,7)] .
  have hops: "0 \<le> tp_hop_limit tp" "tp_hop_limit tp \<le> tp_hop_start tp" "tp_hop_start tp \<le> 7"
    using assms(5) by (simp_all add: params_ok_def)
  obtain hb where hb: "build_header dest src pid (tp_hop_limit tp) (tp_hop_start tp) ack False 0 = Some hb"
      "length hb = 16" "parse_header hb = Some (frame_header dest src pid ack 0 tp)"
    using build_header_parse [OF assms(2-4) _ _ hops, of 0] unfolding frame_header_def by auto
  have "encrypt_payload L e inner pid src dest (tp_channel_key tp) (tp_recipient_public_key tp) tx =
      Some (Some (c @ t @ le_bytes 4 e))"
    using g assms(8,10-12) ct(4) by (simp add: encrypt_payload_def encrypt_meshtastic_pki_def)
  then have f: "finish_unicast L e inner dest src pid ack tp tx = Some (Some (hb @ c @ t @ le_bytes 4 e))"
    using hb(1) g by (simp add: finish_unicast_def on_air_hash_def)
  have "decrypt_pki_payload L (c @ t @ le_bytes 4 e) priv_b pub_a src pid = Some inner"
    if "derive_shared_key L priv_b pub_a = Some k" for priv_b pub_a
    using decrypt_pki_iff [OF assms(1) that ct(2,3) _ assms(6,7)] ct(1) assms(14) by simp
  then show ?thesis using that [OF f] hb ct by simp
qed


section \<open>Properties\<close>

text \<open>The hand-written protobuf encoders produce well-formed messages: a reader of the wire
  format gets back the port number, the payload and the request id of a \<^verbatim>\<open>Data\<close> message, and every field
  of a \<^verbatim>\<open>User\<close> message.\<close>

lemma encoders_well_formed:
  assumes "0 \<le> p" "0 \<le> rid" "rid < 2 ^ 32" "serialize_user i l s hw pub = Some bs" "0 \<le> hw"
  shows "wire_data (serialize_data p payload rid) =
      Some \<lparr>data_portnum = p, data_payload = payload, data_request_id = rid\<rparr> \<and>
    wire_user bs = Some \<lparr>user_id = i, user_long_name = l, user_short_name = s, user_hw_model = hw,
      user_role = 0, user_public_key = (case pub of Some k \<Rightarrow> k | None \<Rightarrow> [])\<rparr>"
  using wire_serialize_data [OF assms(1)] wire_serialize_user [OF assms(4,5)] assms(2,3) by simp

lemma encoders_well_formed_witness:
  "wire_data (serialize_data 300 [1, 2] 77) = Some \<lparr>data_portnum = 300, data_payload = [1, 2], data_request_id = 77\<rparr> \<and>
   wire_user (the (serialize_user [] [] [] 255 (Some [9]))) =
     Some \<lparr>user_id = [], user_long_name = [], user_short_name = [], user_hw_model = 255, user_role = 0, user_public_key = [9]\<rparr>"
proof -
  have "serialize_user [] [] [] 255 (Some [9]) = Some (the (serialize_user [] [] [] 255 (Some [9])))"
    using utf8_encode_lit [of "[]"] by (simp add: serialize_user_def serialize_text_field_def lit_def)
  then show ?thesis using encoders_well_formed [of 300 77 "[]" "[]" "[]" 255 "Some [9]"] by simp
qed

text \<open>A text message the gateway puts on the air on a channel is read back by any gateway that has the
  channel's key: building succeeds, and decoding the frame returns a decrypted text packet with the
  same text, source, destination and packet id, found under the position of that key
  (unless an earlier key of the receiver happens to decode the frame as well).\<close>

lemma text_channel_round_trip:
  assumes "aes_lib L" "reads_data PB" "u32 dest" "u32 src" "u32 pid" "params_ok tp" "utf8_encode text = Some bs"
    and "tp_recipient_public_key tp = None" "use_key (tp_channel_key tp) tx = Some k" "good_key k"
    and "tp_channel_hash tp \<noteq> 0 \<or> our \<noteq> Some dest" "length bs < 2 ^ 30"
  shows "\<exists>raw. build_text_message L e text dest src pid ack tp tx = Some (Some raw) \<and>
    (\<forall>rx j. j < length (get_all_keys rx) \<and> get_all_keys rx ! j = k \<and>
       (\<forall>m < j. key_payload L PB (the (parse_header (take 16 raw))) (drop 16 raw) rx (get_all_keys rx ! m) = None) \<longrightarrow>
       (\<exists>p. decode L PB db db' now our raw sig None rx = Some (Some p, rx) \<and> decrypted p \<and> packet_type p = TEXT \<and>
          decoded_payload p = Some [(''text'', PStr text)] \<and> matched_channel_index p = Some j \<and>
          source_id p = fmt_x 8 src \<and> destination_id p = fmt_x 8 dest \<and> packet_id p = fmt_x 8 pid))"
proof -
  let ?inner = "serialize_data 1 bs 0" and ?h = "frame_header dest src pid ack (on_air_hash tp) tp"
  have nopki: "\<not> (given (tp_recipient_public_key tp) \<and> dest \<noteq> BROADCAST_ADDR \<and> has_pki tx)"
    and hash: "on_air_hash tp = tp_channel_hash tp" using assms(8) by (simp_all add: given_def on_air_hash_def)
  obtain raw where raw: "finish_unicast L e ?inner dest src pid ack tp tx = Some (Some raw)"
      "length raw = length ?inner + 16" "parse_header (take 16 raw) = Some ?h"
      "\<And>rx. decrypt_meshtastic L (drop 16 raw) pid src (Some k) rx = Some (Some ?inner)"
    using finish_unicast_channel [OF assms(1,3-6,9,10) nopki] by metis
  have dp: "decode_payload PB ?inner = (Some [(''text'', PStr text)], TEXT, or_nothing bs, 0)"
    using decode_payload_serialized [OF assms(2), of 1 bs 0] assms(12) utf8_roundtrip [OF assms(7)]
    by (simp add: u32_def dispatch_text port_type_def)
  have h: "mh_packet_id ?h = pid" "mh_source_id ?h = src" "mh_dest_id ?h = dest" "mh_channel_hash ?h = tp_channel_hash tp"
    by (simp_all add: frame_header_def hash)
  have np: "\<not> is_pki_packet (mh_channel_hash ?h) (mh_dest_id ?h) our (length raw - 16)"
    using assms(11) h by (auto simp: is_pki_packet_def)
  have len: "16 \<le> length raw" using raw(2) by simp
  have "\<exists>p. decode L PB db db' now our raw sig None rx = Some (Some p, rx) \<and> decrypted p \<and> packet_type p = TEXT \<and>
      decoded_payload p = Some [(''text'', PStr text)] \<and> matched_channel_index p = Some j \<and>
      source_id p = fmt_x 8 src \<and> destination_id p = fmt_x 8 dest \<and> packet_id p = fmt_x 8 pid"
    if j: "j < length (get_all_keys rx)" "get_all_keys rx ! j = k"
      "\<forall>m < j. key_payload L PB (the (parse_header (take 16 raw))) (drop 16 raw) rx (get_all_keys rx ! m) = None" for rx j
    using decode_channel_frame [OF raw(3) len np j(1) _ _ dp, where L = L and db = db and db' = db' and now = now and sig = sig]
      j raw(3,4) h by auto
  then show ?thesis using raw(1) assms(7) by (auto simp: build_text_message_def)
qed

lemma default_params_ok: "params_ok default_params"
  by (simp add: params_ok_def default_params_def)

lemma text_channel_round_trip_witness:
  "\<exists>raw p. build_text_message toy_lib 0 (lit ''hi'') BROADCAST_ADDR 5 6 False default_params demo_crypto = Some (Some raw) \<and>
     decode toy_lib wire_lib (\<lambda>_. None) (\<lambda>_. None) 0 None raw None None demo_crypto = Some (Some p, demo_crypto) \<and>
     decoded_payload p = Some [(''text'', PStr (lit ''hi''))]"
proof -
  have "utf8_encode (lit ''hi'') = Some [104, 105]" using utf8_encode_lit [of "''hi''"] by simp
  then have "\<exists>raw. build_text_message toy_lib 0 (lit ''hi'') BROADCAST_ADDR 5 6 False default_params demo_crypto = Some (Some raw) \<and>
    (\<forall>rx j. j < length (get_all_keys rx) \<and> get_all_keys rx ! j = MESHTASTIC_DEFAULT_PSK \<and>
       (\<forall>m < j. key_payload toy_lib wire_lib (the (parse_header (take 16 raw))) (drop 16 raw) rx (get_all_keys rx ! m) = None) \<longrightarrow>
       (\<exists>p. decode toy_lib wire_lib (\<lambda>_. None) (\<lambda>_. None) 0 None raw None None rx = Some (Some p, rx) \<and>
          decrypted p \<and> packet_type p = TEXT \<and>
          decoded_payload p = Some [(''text'', PStr (lit ''hi''))] \<and> matched_channel_index p = Some j \<and>
          source_id p = fmt_x 8 5 \<and> destination_id p = fmt_x 8 BROADCAST_ADDR \<and> packet_id p = fmt_x 8 6))"
    by (intro text_channel_round_trip [OF toy_lib_ok wire_lib_reads_data])
      (simp_all add: u32_def BROADCAST_ADDR_def default_params_ok demo_keys use_key_def demo_crypto_eq,
       simp_all add: default_params_def demo_crypto_eq)
  then obtain raw where raw: "build_text_message toy_lib 0 (lit ''hi'') BROADCAST_ADDR 5 6 False default_params demo_crypto = Some (Some raw)"
    and all: "\<forall>rx j. j < length (get_all_keys rx) \<and> get_all_keys rx ! j = MESHTASTIC_DEFAULT_PSK \<and>
       (\<forall>m < j. key_payload toy_lib wire_lib (the (parse_header (take 16 raw))) (drop 16 raw) rx (get_all_keys rx ! m) = None) \<longrightarrow>
       (\<exists>p. decode toy_lib wire_lib (\<lambda>_. None) (\<lambda>_. None) 0 None raw None None rx = Some (Some p, rx) \<and>
          decrypted p \<and> packet_type p = TEXT \<and>
          decoded_payload p = Some [(''text'', PStr (lit ''hi''))] \<and> matched_channel_index p = Some j \<and>
          source_id p = fmt_x 8 5 \<and> destination_id p = fmt_x 8 BROADCAST_ADDR \<and> packet_id p = fmt_x 8 6)"
    by blast
  from all [rule_format, of 0 demo_crypto] raw show ?thesis by (auto simp: demo_keys)
qed

text \<open>A direct message sealed for a peer is opened by that peer: when both gateways hold a key
  pair, the exchanges agree, and the receiver knows the sender's public key, decoding the frame that
  was built returns the text without trying any channel key.\<close>

lemma text_direct_round_trip:
  assumes "aes_lib L" "reads_data PB" "u32 dest" "u32 src" "u32 pid" "params_ok tp" "utf8_encode text = Some bs"
    and "0 \<le> e" "e < 2 ^ 32" "dest \<noteq> BROADCAST_ADDR"
    and "tp_recipient_public_key tp = Some pub_b" "length pub_b = 32" "length pub_a = 32"
    and "length priv_a = 32" "length priv_b = 32"
    and "x25519 L priv_a pub_b = Some s" "x25519 L priv_b pub_a = Some s"
    and "has_pki tx" "cs_private_key tx = Some priv_a" "has_pki rx" "cs_private_key rx = Some priv_b"
    and "lookup_public_key db src rx = (Some pub_a, rx1)" "length bs < 2 ^ 30"
  shows "\<exists>raw p. build_text_message L e text dest src pid ack tp tx = Some (Some raw) \<and>
    decode L PB db db' now (Some dest) raw sig None rx = Some (Some p, rx1) \<and> decrypted p \<and> packet_type p = TEXT \<and>
    decoded_payload p = Some [(''text'', PStr text)] \<and> matched_channel_index p = None"
proof -
  let ?inner = "serialize_data 1 bs 0" and ?h = "frame_header dest src pid ack 0 tp"
  have key: "derive_shared_key L priv_a pub_b = Some (sha256 s)" "derive_shared_key L priv_b pub_a = Some (sha256 s)"
    using assms by (simp_all add: derive_shared_key_def)
  have ne: "?inner \<noteq> []" using length_serialize_data [of 1 bs 0] by auto
  obtain raw where raw: "finish_unicast L e ?inner dest src pid ack tp tx = Some (Some raw)"
      "length raw = length ?inner + 28" "parse_header (take 16 raw) = Some ?h"
      "decrypt_pki_payload L (drop 16 raw) priv_b pub_a src pid = Some ?inner"
    using finish_unicast_pki [OF assms(1,3-6,8,9,11,12,10,18,19) key(1) ne] key(2) by metis
  have dp: "decode_payload PB ?inner = (Some [(''text'', PStr text)], TEXT, or_nothing bs, 0)"
    using decode_payload_serialized [OF assms(2), of 1 bs 0] assms(23) utf8_roundtrip [OF assms(7)]
    by (simp add: u32_def dispatch_text port_type_def)
  have pki: "is_pki_packet (mh_channel_hash ?h) (mh_dest_id ?h) (Some dest) (length raw - 16)"
    using raw(2) assms(10) ne
    by (simp add: frame_header_def is_pki_packet_def PKC_OVERHEAD_def BROADCAST_ADDR_def)
  have rx1: "cs_private_key rx1 = Some priv_b" "has_pki rx1"
    using assms(20-22) by (auto simp: lookup_public_key_def has_pki_def split: option.splits)
  have "\<exists>p. decode L PB db db' now (Some dest) raw sig None rx = Some (Some p, rx1) \<and> decrypted p \<and> packet_type p = TEXT \<and>
      decoded_payload p = Some (if (0 :: int) \<noteq> 0 then AList.update ''request_id'' (PInt 0) [(''text'', PStr text)] else [(''text'', PStr text)]) \<and>
      raw_app_payload p = or_nothing bs \<and> matched_channel_index p = None"
    by (rule decode_pki_frame [OF raw(3) _ pki _ rx1(2) _ dp])
      (use raw rx1 assms(22) in \<open>simp_all add: frame_header_def decrypt_meshtastic_pki_def\<close>)
  then show ?thesis using raw(1) assms(7) by (auto simp: build_text_message_def)
qed

definition demo_tx :: crypto where
  "demo_tx = set_keypair (replicate 32 1) (replicate 32 1) demo_crypto"

definition demo_rx :: crypto where
  "demo_rx = register_public_key 5 (replicate 32 1) (set_keypair (replicate 32 2) (replicate 32 2) demo_crypto)"

lemma text_direct_round_trip_witness:
  "\<exists>raw p. build_text_message toy_lib 7 (lit ''hi'') 9 5 6 True
       (default_params\<lparr>tp_recipient_public_key := Some (replicate 32 2)\<rparr>) demo_tx = Some (Some raw) \<and>
     decode toy_lib wire_lib (\<lambda>_. None) (\<lambda>_. None) 0 (Some 9) raw None None demo_rx = Some (Some p, demo_rx) \<and>
     decrypted p \<and> packet_type p = TEXT \<and> decoded_payload p = Some [(''text'', PStr (lit ''hi''))] \<and>
     matched_channel_index p = None"
proof -
  have u: "utf8_encode (lit ''hi'') = Some [104, 105]" using utf8_encode_lit [of "''hi''"] by simp
  have x: "x25519 toy_lib (replicate 32 1) (replicate 32 2) = Some (replicate 32 3)"
      "x25519 toy_lib (replicate 32 2) (replicate 32 1) = Some (replicate 32 3)"
    by (simp_all add: toy_lib_def numeral_eq_Suc)
  have lk: "lookup_public_key (\<lambda>_. None) 5 demo_rx = (Some (replicate 32 1), demo_rx)"
    by (simp add: lookup_public_key_def demo_rx_def register_public_key_def update_conv')
  show ?thesis
    by (rule text_direct_round_trip [OF toy_lib_ok wire_lib_reads_data _ _ _ _ u _ _ _ _ _ _ _ _ x _ _ _ _ lk])
      (simp_all add: u32_def params_ok_def default_params_def BROADCAST_ADDR_def demo_tx_def demo_rx_def
        register_public_key_def set_keypair_def has_pki_def)
qed

text \<open>When a recipient key is given but the gateway has no key pair, the message is encrypted under the
  channel key and yet goes out with channel hash 0, which receivers read as sealed for the recipient.\<close>

lemma hash_zero_with_channel_key:
  assumes "aes_lib L" "u32 dest" "u32 src" "u32 pid" "params_ok tp" "utf8_encode text = Some bs"
    and "given (tp_recipient_public_key tp)" "\<not> has_pki tx" "use_key (tp_channel_key tp) tx = Some k" "good_key k"
  shows "\<exists>raw h. build_text_message L e text dest src pid ack tp tx = Some (Some raw) \<and>
    parse_header (take 16 raw) = Some h \<and> mh_channel_hash h = 0 \<and>
    encrypt_meshtastic L (serialize_data 1 bs 0) pid src (tp_channel_key tp) tx = Some (Some (drop 16 raw))"
proof -
  have np: "\<not> (given (tp_recipient_public_key tp) \<and> dest \<noteq> BROADCAST_ADDR \<and> has_pki tx)" using assms(8) by simp
  obtain raw where raw: "finish_unicast L e (serialize_data 1 bs 0) dest src pid ack tp tx = Some (Some raw)"
      "parse_header (take 16 raw) = Some (frame_header dest src pid ack (on_air_hash tp) tp)"
      "encrypt_meshtastic L (serialize_data 1 bs 0) pid src (tp_channel_key tp) tx = Some (Some (drop 16 raw))"
    using finish_unicast_channel [OF assms(1-5,9,10) np] by metis
  then show ?thesis using assms(6,7) by (simp add: build_text_message_def frame_header_def on_air_hash_def)
qed

lemma hash_zero_with_channel_key_witness:
  "\<exists>raw h. build_text_message toy_lib 0 (lit ''hi'') 9 5 6 False
       (default_params\<lparr>tp_recipient_public_key := Some (replicate 32 2)\<rparr>) demo_crypto = Some (Some raw) \<and>
     parse_header (take 16 raw) = Some h \<and> mh_channel_hash h = 0 \<and>
     encrypt_meshtastic toy_lib (serialize_data 1 [104, 105] 0) 6 5 None demo_crypto = Some (Some (drop 16 raw))"
proof -
  have u: "utf8_encode (lit ''hi'') = Some [104, 105]" using utf8_encode_lit [of "''hi''"] by simp
  have "cs_private_key demo_crypto = None" using demo_fields by simp
  then show ?thesis
    using hash_zero_with_channel_key [OF toy_lib_ok _ _ _ _ u, where dest = 9 and src = 5 and pid = 6
        and tp = "default_params\<lparr>tp_recipient_public_key := Some (replicate 32 2)\<rparr>" and tx = demo_crypto]
    by (simp add: u32_def params_ok_def default_params_def given_def has_pki_def use_key_def demo_crypto_eq demo_keys numeral_eq_Suc)
qed

theorem decode_pki_authentic_witness:
  "\<exists>raw priv key dec. decrypt_pki_payload toy_lib (drop 16 raw) priv key 5 6 = Some dec \<and>
     fst (decode_payload wire_lib dec) \<noteq> None \<and> cs_private_key demo_rx = Some priv"
proof -
  let ?tp = "default_params\<lparr>tp_recipient_public_key := Some (replicate 32 2)\<rparr>"
  let ?inner = "serialize_data 1 [104] 0" and ?h = "frame_header 9 5 6 False 0 ?tp"
  have key: "derive_shared_key toy_lib (replicate 32 1) (replicate 32 2) = Some (sha256 (replicate 32 3))"
      "derive_shared_key toy_lib (replicate 32 2) (replicate 32 1) = Some (sha256 (replicate 32 3))"
    by (simp_all add: derive_shared_key_def toy_lib_def numeral_eq_Suc)
  have ne: "?inner \<noteq> []" using length_serialize_data [of 1 "[104]" 0] by auto
  obtain raw where raw: "length raw = length ?inner + 28" "parse_header (take 16 raw) = Some ?h"
      "decrypt_pki_payload toy_lib (drop 16 raw) (replicate 32 2) (replicate 32 1) 5 6 = Some ?inner"
    by (rule finish_unicast_pki [OF toy_lib_ok _ _ _ _ _ _ _ _ _ _ _ key(1) ne, of 9 5 6 ?tp 0 demo_tx])
      (use key(2) in \<open>auto simp: u32_def params_ok_def default_params_def BROADCAST_ADDR_def demo_tx_def set_keypair_def has_pki_def\<close>)
  have h: "mh_packet_id ?h = 6" "mh_source_id ?h = 5" "mh_dest_id ?h = 9" "mh_channel_hash ?h = 0" by (simp_all add: frame_header_def)
  have dp: "decode_payload wire_lib ?inner = (Some [(''text'', PStr (utf8_decode_replace [104]))], TEXT, or_nothing [104], 0)"
    using decode_payload_serialized [OF wire_lib_reads_data, of 1 "[104]" 0] by (simp add: u32_def dispatch_text port_type_def)
  have lk: "lookup_public_key (\<lambda>_. None) 5 demo_rx = (Some (replicate 32 1), demo_rx)"
    by (simp add: lookup_public_key_def demo_rx_def register_public_key_def update_conv')
  have pki: "is_pki_packet (mh_channel_hash ?h) (mh_dest_id ?h) (Some 9) (length raw - 16)"
    using raw(1) ne h by (simp add: is_pki_packet_def PKC_OVERHEAD_def)
  have rx: "has_pki demo_rx" "cs_private_key demo_rx = Some (replicate 32 2)"
    by (simp_all add: demo_rx_def register_public_key_def set_keypair_def has_pki_def)
  obtain p where "decode toy_lib wire_lib (\<lambda>_. None) (\<lambda>_. None) 0 (Some 9) raw None None demo_rx = Some (Some p, demo_rx)"
      "decrypted p" "matched_channel_index p = None"
    using decode_pki_frame [OF raw(2) _ pki _ rx(1) _ dp, of "\<lambda>_. None" demo_rx "replicate 32 1" toy_lib "\<lambda>_. None" 0 None]
      raw h lk rx by (auto simp: decrypt_meshtastic_pki_def)
  then have "\<exists>priv key dec. cs_private_key demo_rx = Some priv \<and>
      (fst (lookup_public_key (\<lambda>_. None) (mh_source_id ?h) demo_rx) = Some key \<or>
       load_public_key_from_db (\<lambda>_. None) (mh_source_id ?h) demo_rx = Some key) \<and>
      decrypt_pki_payload toy_lib (drop 16 raw) priv key (mh_source_id ?h) (mh_packet_id ?h) = Some dec \<and>
      fst (decode_payload wire_lib dec) \<noteq> None"
    using raw(1) by (intro decode_pki_authentic [OF raw(2) _ pki]) auto
  then show ?thesis unfolding h by blast
qed

end
