(* ===== verification/Sliding_Window.thy ===== *)
theory Sliding_Window
  imports Prelude
begin

text \<open>
  The contract three components share: a queue of time-stamped entries in insertion order,
  whose expired entries are dropped from the front before every use. The deduplication filter,
  the relay rate limiter and the duty-cycle tracker each have their own loop and their own
  cut-off comparison; each interprets this locale on its own definitions and takes the queue
  lemmas from it.
\<close>

locale sliding_window =
  fixes stamp :: "'e \<Rightarrow> rat"
    and live :: "rat \<Rightarrow> rat \<Rightarrow> bool"
    and prune :: "rat \<Rightarrow> 'e list \<Rightarrow> 'e list"
  assumes prune_Nil: "prune now [] = []"
    and prune_Cons: "prune now (e # es) = (if live now (stamp e) then e # es else prune now es)"
    and live_newer: "live now s \<Longrightarrow> s \<le> t \<Longrightarrow> live now t"
    and live_earlier: "live now' s \<Longrightarrow> now \<le> now' \<Longrightarrow> live now s"
begin

abbreviation in_order :: "'e list \<Rightarrow> bool" where
  "in_order es \<equiv> sorted (map stamp es)"

lemma prune_dropWhile: "prune now es = dropWhile (\<lambda>e. \<not> live now (stamp e)) es"
  by (induction es) (simp_all add: prune_Nil prune_Cons)

lemma prune_filter: "in_order es \<Longrightarrow> prune now es = filter (\<lambda>e. live now (stamp e)) es"
proof (induction es)
  case Nil
  then show ?case by (simp add: prune_Nil)
next
  case (Cons e es)
  have "live now (stamp e) \<Longrightarrow> \<forall>x \<in> set es. live now (stamp x)"
    using Cons.prems live_newer by auto
  then show ?case using Cons by (auto simp: prune_Cons filter_id_conv)
qed

lemma prune_in_order: "in_order es \<Longrightarrow> in_order (prune now es)"
  by (simp add: prune_filter sorted_filter)

lemma set_prune: "in_order es \<Longrightarrow> set (prune now es) = {e \<in> set es. live now (stamp e)}"
  by (simp add: prune_filter)

lemma prune_subset: "set (prune now es) \<subseteq> set es"
  using set_dropWhileD by (fastforce simp: prune_dropWhile)

lemma length_prune_le: "length (prune now es) \<le> length es"
  by (simp add: prune_dropWhile length_dropWhile_le)

lemma prune_suffix: "\<exists>pre. es = pre @ prune now es"
  by (metis prune_dropWhile takeWhile_dropWhile_id)

lemma prune_later: "in_order es \<Longrightarrow> now \<le> now' \<Longrightarrow> prune now' (prune now es) = prune now' es"
  using live_earlier by (auto simp: prune_filter sorted_filter intro!: filter_cong)

lemma in_order_append: "in_order es \<Longrightarrow> \<forall>x \<in> set es. stamp x \<le> stamp e \<Longrightarrow> in_order (es @ [e])"
  by (simp add: sorted_append)

lemma prune_keeps_live_suffix:
  "live now (stamp e) \<Longrightarrow> \<exists>pre'. prune now (pre @ e # post) = pre' @ e # post"
  by (induction pre) (auto simp: prune_Cons)

lemma prune_append_live:
  "in_order es \<Longrightarrow> \<forall>x \<in> set es. stamp x \<le> stamp e \<Longrightarrow> live now (stamp e) \<Longrightarrow>
   prune now (es @ [e]) = prune now es @ [e]"
  by (simp add: prune_filter sorted_append)

end

end
