(* ===== verification/Duty_Cycle.thy ===== *)
theory Duty_Cycle
  imports Sliding_Window
begin

text \<open>
  \<^verbatim>\<open>src/src/transmit/duty_cycle.py\<close>: the tracker that keeps cumulative airtime inside the
  regulatory share of a rolling window. A method's clock readings are its first arguments. A
  zero window makes the percentage raise \<^verbatim>\<open>ZeroDivisionError\<close>; that is the result \<^const>\<open>None\<close>.
\<close>

definition DUTY_CYCLE_LIMITS :: "(string \<times> rat) list" where
  "DUTY_CYCLE_LIMITS =
     [(''US'', 100), (''EU_868'', 1), (''ANZ'', 100), (''IN'', 100), (''KR'', 100), (''SG_923'', 100)]"

definition MESHPOINT_DUTY_DEFAULTS :: "(string \<times> rat) list" where
  "MESHPOINT_DUTY_DEFAULTS =
     [(''US'', 10), (''EU_868'', 1), (''ANZ'', 10), (''IN'', 1), (''KR'', 10), (''SG_923'', 10)]"

definition DEFAULT_WINDOW_SECONDS :: int where
  "DEFAULT_WINDOW_SECONDS = 3600"

definition get_or :: "(string \<times> 'v) list \<Rightarrow> string \<Rightarrow> 'v \<Rightarrow> 'v" where
  "get_or d k v = (case map_of d k of Some x \<Rightarrow> x | None \<Rightarrow> v)"

definition resolve_max_duty_percent :: "string \<Rightarrow> rat option \<Rightarrow> rat" where
  "resolve_max_duty_percent region configured =
     (case configured of Some c \<Rightarrow> c | None \<Rightarrow> get_or MESHPOINT_DUTY_DEFAULTS region 1)"

record tx_record =
  tx_timestamp :: rat
  tx_airtime_ms :: int

record duty =
  dc_region :: string
  dc_window_seconds :: int
  dc_max_duty_percent :: rat
  dc_records :: "tx_record list"

definition duty_init :: "string \<Rightarrow> rat option \<Rightarrow> int \<Rightarrow> duty" where
  "duty_init region max_duty window =
     \<lparr>dc_region = region, dc_window_seconds = window,
      dc_max_duty_percent = (case max_duty of Some m \<Rightarrow> m | None \<Rightarrow> get_or DUTY_CYCLE_LIMITS region 1),
      dc_records = []\<rparr>"

fun prune_expired_loop :: "rat \<Rightarrow> tx_record list \<Rightarrow> tx_record list" where
  "prune_expired_loop cutoff [] = []"
| "prune_expired_loop cutoff (r # rs) =
     (if tx_timestamp r < cutoff then prune_expired_loop cutoff rs else r # rs)"

definition prune_expired :: "rat \<Rightarrow> duty \<Rightarrow> duty" where
  "prune_expired now d =
     d\<lparr>dc_records := prune_expired_loop (now - of_int (dc_window_seconds d)) (dc_records d)\<rparr>"

definition airtime_sum :: "tx_record list \<Rightarrow> int" where
  "airtime_sum rs = sum_list (map tx_airtime_ms rs)"

definition percent_of_window :: "int \<Rightarrow> int \<Rightarrow> rat option" where
  "percent_of_window ms window_ms =
     (if window_ms = 0 then None else Some (of_int ms / of_int window_ms * 100))"

definition check_budget :: "rat \<Rightarrow> int \<Rightarrow> duty \<Rightarrow> bool option \<times> duty" where
  "check_budget now airtime_ms d =
     (let d1 = prune_expired now d;
          current_ms = airtime_sum (dc_records d1);
          window_ms = dc_window_seconds d1 * 1000
      in (map_option (\<lambda>projected. projected \<le> dc_max_duty_percent d1)
            (percent_of_window (current_ms + airtime_ms) window_ms), d1))"

definition current_usage_percent :: "rat \<Rightarrow> duty \<Rightarrow> rat option \<times> duty" where
  "current_usage_percent now d =
     (let d1 = prune_expired now d
      in (percent_of_window (airtime_sum (dc_records d1)) (dc_window_seconds d1 * 1000), d1))"

definition remaining_budget_ms :: "rat \<Rightarrow> duty \<Rightarrow> int \<times> duty" where
  "remaining_budget_ms now d =
     (let d1 = prune_expired now d;
          current_ms = airtime_sum (dc_records d1);
          window_ms = dc_window_seconds d1 * 1000;
          max_ms = py_trunc (of_int window_ms * dc_max_duty_percent d1 / 100)
      in (max 0 (max_ms - current_ms), d1))"

text \<open>\<^verbatim>\<open>record_tx\<close> appends, then \<^verbatim>\<open>_log_usage\<close> reads the usage, which prunes at a second clock
  reading; the log line itself is left out.\<close>

definition record_tx :: "rat \<Rightarrow> rat \<Rightarrow> int \<Rightarrow> duty \<Rightarrow> duty" where
  "record_tx now now_log airtime_ms d =
     snd (current_usage_percent now_log
       (d\<lparr>dc_records := dc_records d @ [\<lparr>tx_timestamp = now, tx_airtime_ms = airtime_ms\<rparr>]\<rparr>))"


section \<open>The queue contract\<close>

definition dc_live :: "int \<Rightarrow> rat \<Rightarrow> rat \<Rightarrow> bool" where
  "dc_live w now t \<longleftrightarrow> \<not> t < now - of_int w"

definition dc_prune :: "int \<Rightarrow> rat \<Rightarrow> tx_record list \<Rightarrow> tx_record list" where
  "dc_prune w now = prune_expired_loop (now - of_int w)"

interpretation dc: sliding_window tx_timestamp "dc_live w" "dc_prune w" for w
  by unfold_locales (auto simp: dc_live_def dc_prune_def)

lemma prune_expired_simps [simp]:
  "dc_records (prune_expired now d) = dc_prune (dc_window_seconds d) now (dc_records d)"
  "dc_window_seconds (prune_expired now d) = dc_window_seconds d"
  "dc_max_duty_percent (prune_expired now d) = dc_max_duty_percent d"
  by (simp_all add: prune_expired_def dc_prune_def)

lemma percent_le_iff:
  assumes "0 < w"
  shows "percent_of_window ms (w * 1000) = Some p \<Longrightarrow> p \<le> m \<longleftrightarrow> of_int ms \<le> m * of_int w * 10"
proof -
  have "0 < (of_int w :: rat)" using assms by simp
  then show "percent_of_window ms (w * 1000) = Some p \<Longrightarrow> p \<le> m \<longleftrightarrow> of_int ms \<le> m * of_int w * 10"
    using assms by (auto simp: percent_of_window_def field_simps)
qed

lemma check_budget_iff:
  assumes "0 < dc_window_seconds d"
  shows "fst (check_budget now a d) = Some ok \<longleftrightarrow>
    (ok \<longleftrightarrow> of_int (airtime_sum (dc_prune (dc_window_seconds d) now (dc_records d)) + a)
       \<le> dc_max_duty_percent d * of_int (dc_window_seconds d) * 10)"
proof -
  have "dc_window_seconds d * 1000 \<noteq> 0" using assms by simp
  then obtain p where p: "percent_of_window
      (airtime_sum (dc_prune (dc_window_seconds d) now (dc_records d)) + a) (dc_window_seconds d * 1000) = Some p"
    by (auto simp: percent_of_window_def)
  show ?thesis using p percent_le_iff [OF assms p, of "dc_max_duty_percent d"]
    by (auto simp: check_budget_def Let_def)
qed

lemma duty_records_simps [simp]:
  "dc_records (snd (check_budget now a d)) = dc_prune (dc_window_seconds d) now (dc_records d)"
  "dc_window_seconds (snd (check_budget now a d)) = dc_window_seconds d"
  "dc_max_duty_percent (snd (check_budget now a d)) = dc_max_duty_percent d"
  "dc_records (record_tx now now' a d) = dc_prune (dc_window_seconds d) now'
     (dc_records d @ [\<lparr>tx_timestamp = now, tx_airtime_ms = a\<rparr>])"
  "dc_window_seconds (record_tx now now' a d) = dc_window_seconds d"
  "dc_max_duty_percent (record_tx now now' a d) = dc_max_duty_percent d"
  by (simp_all add: check_budget_def record_tx_def current_usage_percent_def Let_def)


section \<open>Sequential transmissions\<close>

text \<open>Transmissions one after the other, as the send paths make them: check the budget, transmit,
  record. Time may pass between any two clock readings. The history of sent records is a ghost.\<close>

inductive duty_reach :: "duty \<Rightarrow> duty \<Rightarrow> rat \<Rightarrow> tx_record list \<Rightarrow> bool" for d0 :: duty where
  start: "dc_records d0 = [] \<Longrightarrow> duty_reach d0 d0 now []"
| sent: "duty_reach d0 d now hist \<Longrightarrow> now \<le> t1 \<Longrightarrow> t1 \<le> t2 \<Longrightarrow> t2 \<le> t3 \<Longrightarrow> 0 \<le> a \<Longrightarrow>
    fst (check_budget t1 a d) = Some True \<Longrightarrow>
    duty_reach d0 (record_tx t2 t3 a (snd (check_budget t1 a d))) t3
      (hist @ [\<lparr>tx_timestamp = t2, tx_airtime_ms = a\<rparr>])"
| unsent: "duty_reach d0 d now hist \<Longrightarrow> now \<le> t1 \<Longrightarrow>
    duty_reach d0 (snd (check_budget t1 a d)) t1 hist"
| usage_read: "duty_reach d0 d now hist \<Longrightarrow> now \<le> t1 \<Longrightarrow>
    duty_reach d0 (snd (current_usage_percent t1 d)) t1 hist"
| remaining_read: "duty_reach d0 d now hist \<Longrightarrow> now \<le> t1 \<Longrightarrow>
    duty_reach d0 (snd (remaining_budget_ms t1 d)) t1 hist"

definition duty_inv :: "duty \<Rightarrow> duty \<Rightarrow> rat \<Rightarrow> tx_record list \<Rightarrow> bool" where
  "duty_inv d0 d now hist \<longleftrightarrow>
     dc_window_seconds d = dc_window_seconds d0 \<and> dc_max_duty_percent d = dc_max_duty_percent d0 \<and>
     sorted (map tx_timestamp hist) \<and> sorted (map tx_timestamp (dc_records d)) \<and>
     set (dc_records d) \<subseteq> set hist \<and>
     (\<forall>r \<in> set hist. tx_timestamp r \<le> now \<and> 0 \<le> tx_airtime_ms r) \<and>
     dc_prune (dc_window_seconds d0) now (dc_records d) = dc_prune (dc_window_seconds d0) now hist"

lemma duty_inv_prune:
  assumes "duty_inv d0 d now hist" "now \<le> t" "dc_records d' = dc_prune (dc_window_seconds d) t (dc_records d)"
    "dc_window_seconds d' = dc_window_seconds d" "dc_max_duty_percent d' = dc_max_duty_percent d"
  shows "duty_inv d0 d' t hist"
proof -
  let ?w = "dc_window_seconds d0"
  have s: "sorted (map tx_timestamp (dc_records d))" "sorted (map tx_timestamp hist)"
    and w: "dc_window_seconds d = ?w"
    and q: "dc_prune ?w now (dc_records d) = dc_prune ?w now hist"
    using assms(1) by (auto simp: duty_inv_def)
  have "dc_prune ?w t (dc_records d) = dc_prune ?w t (dc_prune ?w now (dc_records d))"
    using dc.prune_later s(1) assms(2) by simp
  also have "\<dots> = dc_prune ?w t hist" using q dc.prune_later s(2) assms(2) by simp
  finally have "dc_prune ?w t (dc_records d') = dc_prune ?w t hist"
    using assms(3) w dc.prune_later [OF s(2), of t t] by simp
  moreover have "sorted (map tx_timestamp (dc_records d'))"
    using assms(3) dc.prune_in_order s(1) by simp
  moreover have "set (dc_records d') \<subseteq> set hist"
    using assms(1,3) dc.prune_subset [of "dc_window_seconds d" t "dc_records d"] by (auto simp: duty_inv_def)
  ultimately show ?thesis using assms by (fastforce simp: duty_inv_def)
qed

lemma duty_inv_later:
  assumes "duty_inv d0 d now hist" "now \<le> t"
  shows "duty_inv d0 d t hist"
proof -
  let ?w = "dc_window_seconds d0"
  have s: "sorted (map tx_timestamp (dc_records d))" "sorted (map tx_timestamp hist)"
    and q: "dc_prune ?w now (dc_records d) = dc_prune ?w now hist"
    using assms(1) by (auto simp: duty_inv_def)
  have "dc_prune ?w t (dc_records d) = dc_prune ?w t hist"
    using q dc.prune_later [OF s(1) assms(2)] dc.prune_later [OF s(2) assms(2)] by metis
  then show ?thesis using assms by (fastforce simp: duty_inv_def)
qed

lemma duty_inv_record:
  assumes "duty_inv d0 d now hist" "now \<le> t2" "t2 \<le> t3" "0 \<le> a"
  shows "duty_inv d0 (record_tx t2 t3 a d) t3 (hist @ [\<lparr>tx_timestamp = t2, tx_airtime_ms = a\<rparr>])"
proof -
  let ?w = "dc_window_seconds d0" and ?r = "\<lparr>tx_timestamp = t2, tx_airtime_ms = a\<rparr>"
  have w: "dc_window_seconds d = ?w"
    and s: "sorted (map tx_timestamp (dc_records d))" "sorted (map tx_timestamp hist)"
    and old: "\<forall>r \<in> set hist. tx_timestamp r \<le> now \<and> 0 \<le> tx_airtime_ms r"
    and sub: "set (dc_records d) \<subseteq> set hist"
    and q: "dc_prune ?w now (dc_records d) = dc_prune ?w now hist"
    using assms(1) by (auto simp: duty_inv_def)
  have ord: "sorted (map tx_timestamp (hist @ [?r]))" "sorted (map tx_timestamp (dc_records d @ [?r]))"
    using s old sub assms(2) by (fastforce simp: sorted_append)+
  have le: "now \<le> t3" using assms(2,3) by simp
  have "dc_prune ?w t3 (dc_records d) = dc_prune ?w t3 hist"
    using q dc.prune_later [OF s(1) le] dc.prune_later [OF s(2) le] by metis
  then have same: "dc_prune ?w t3 (dc_records d @ [?r]) = dc_prune ?w t3 (hist @ [?r])"
    using s ord by (simp add: dc.prune_filter)
  moreover have "dc_prune ?w t3 (dc_prune ?w t3 (hist @ [?r])) = dc_prune ?w t3 (hist @ [?r])"
    using dc.prune_later [OF ord(1), of t3 t3] by simp
  moreover have "set (dc_prune ?w t3 (hist @ [?r])) \<subseteq> set (hist @ [?r])" by (rule dc.prune_subset)
  moreover have "sorted (map tx_timestamp (dc_prune ?w t3 (hist @ [?r])))"
    using dc.prune_in_order ord(1) by blast
  ultimately show ?thesis using assms w ord old le
    by (fastforce simp: duty_inv_def)
qed

lemma duty_reach_inv: "duty_reach d0 d now hist \<Longrightarrow> duty_inv d0 d now hist"
proof (induction rule: duty_reach.induct)
  case (start now)
  then show ?case by (simp add: duty_inv_def)
next
  case (sent d now hist t1 t2 t3 a)
  have "duty_inv d0 (snd (check_budget t1 a d)) t1 hist"
    using sent.IH sent.hyps(2) by (rule duty_inv_prune) simp_all
  then show ?case using sent.hyps by (intro duty_inv_record) auto
next
  case (unsent d now hist t1 a)
  show ?case
    by (rule duty_inv_prune [OF unsent.IH unsent.hyps(2)]) simp_all
next
  case (usage_read d now hist t1)
  show ?case
    by (rule duty_inv_prune [OF usage_read.IH usage_read.hyps(2)]) (simp_all add: current_usage_percent_def Let_def)
next
  case (remaining_read d now hist t1)
  show ?case
    by (rule duty_inv_prune [OF remaining_read.IH remaining_read.hyps(2)]) (simp_all add: remaining_budget_ms_def Let_def)
qed

text \<open>The airtime inside a window of the history.\<close>

definition airtime_in :: "rat \<Rightarrow> rat \<Rightarrow> tx_record list \<Rightarrow> int" where
  "airtime_in lo hi rs = airtime_sum (filter (\<lambda>r. lo \<le> tx_timestamp r \<and> tx_timestamp r \<le> hi) rs)"

lemma airtime_sum_filter_mono:
  assumes "\<forall>r \<in> set rs. 0 \<le> tx_airtime_ms r" "\<forall>r \<in> set rs. P r \<longrightarrow> Q r"
  shows "airtime_sum (filter P rs) \<le> airtime_sum (filter Q rs)"
  using assms by (induction rs) (auto simp: airtime_sum_def)

lemma airtime_sum_append: "airtime_sum (xs @ ys) = airtime_sum xs + airtime_sum ys"
  by (simp add: airtime_sum_def)

lemma duty_window_step:
  assumes inv: "duty_inv d0 d now hist" and w: "0 < dc_window_seconds d0"
    and t: "now \<le> t1" and ok: "fst (check_budget t1 a d) = Some True"
    and u: "t1 \<le> u + of_int (dc_window_seconds d0)"
  shows "of_int (airtime_in u (u + of_int (dc_window_seconds d0)) hist + a)
    \<le> dc_max_duty_percent d0 * of_int (dc_window_seconds d0) * 10"
proof -
  let ?w = "dc_window_seconds d0"
  have p: "dc_window_seconds d = ?w" "dc_max_duty_percent d = dc_max_duty_percent d0"
    and s: "sorted (map tx_timestamp hist)" "sorted (map tx_timestamp (dc_records d))"
    and nn: "\<forall>r \<in> set hist. 0 \<le> tx_airtime_ms r"
    and q: "dc_prune ?w now (dc_records d) = dc_prune ?w now hist"
    using inv by (auto simp: duty_inv_def)
  have "dc_prune ?w t1 (dc_records d) = dc_prune ?w t1 hist"
    using q dc.prune_later [OF s(1) t] dc.prune_later [OF s(2) t] by metis
  then have "of_int (airtime_sum (dc_prune ?w t1 hist) + a) \<le> dc_max_duty_percent d0 * of_int ?w * 10"
    using ok check_budget_iff [of d t1 a True] w p by simp
  moreover have "airtime_in u (u + of_int ?w) hist \<le> airtime_sum (dc_prune ?w t1 hist)"
    using nn u unfolding airtime_in_def dc.prune_filter [OF s(1)]
    by (intro airtime_sum_filter_mono) (auto simp: dc_live_def)
  ultimately show ?thesis by (meson add_right_mono of_int_le_iff order_trans)
qed

text \<open>No window of the configured length ever contains more than the permitted airtime.\<close>

lemma duty_window_bound:
  assumes "duty_reach d0 d now hist" "0 < dc_window_seconds d0" "0 \<le> dc_max_duty_percent d0"
  shows "of_int (airtime_in u (u + of_int (dc_window_seconds d0)) hist)
    \<le> dc_max_duty_percent d0 * of_int (dc_window_seconds d0) * 10"
  using assms(1)
proof (induction rule: duty_reach.induct)
  case (start now)
  then show ?case using assms(2,3) by (simp add: airtime_in_def airtime_sum_def)
next
  case (sent d now hist t1 t2 t3 a)
  show ?case
  proof (cases "u \<le> t2 \<and> t2 \<le> u + of_int (dc_window_seconds d0)")
    case True
    then show ?thesis
      using duty_window_step [OF duty_reach_inv [OF sent.hyps(1)] assms(2) sent.hyps(2,6), of u] sent.hyps(3)
      by (simp add: airtime_in_def airtime_sum_append airtime_sum_def)
  next
    case False
    then show ?thesis using sent.IH by (auto simp: airtime_in_def)
  qed
qed

section \<open>Overlapping transmissions\<close>

text \<open>What holds while sends overlap, for \<open>P\<close> milliseconds admitted and not yet recorded and a bound \<open>B\<close>: no window
  holds more than \<open>B\<close>, and a window that the clock has not left yet has room for \<open>P\<close> more.\<close>

definition window_room :: "rat \<Rightarrow> int \<Rightarrow> rat \<Rightarrow> int \<Rightarrow> tx_record list \<Rightarrow> bool" where
  "window_room B w now P hist \<longleftrightarrow>
     (\<forall>u. of_int (airtime_in u (u + of_int w) hist) \<le> B \<and>
          (now \<le> u + of_int w \<longrightarrow> of_int (airtime_in u (u + of_int w) hist + P) \<le> B))"

lemma window_room_start: "0 \<le> B \<Longrightarrow> window_room B w now 0 []"
  by (simp add: window_room_def airtime_in_def airtime_sum_def)

lemma window_room_weaken:
  assumes "window_room B w now P hist" "now \<le> t" "Q \<le> P"
  shows "window_room B w t Q hist"
  unfolding window_room_def
proof (intro allI conjI impI)
  fix u
  show "of_int (airtime_in u (u + of_int w) hist) \<le> B" using assms(1) by (simp add: window_room_def)
  assume "t \<le> u + of_int w"
  then have "of_int (airtime_in u (u + of_int w) hist + P) \<le> B" using assms(1,2) by (auto simp: window_room_def)
  moreover have "(of_int (airtime_in u (u + of_int w) hist + Q) :: rat) \<le> of_int (airtime_in u (u + of_int w) hist + P)"
    using assms(3) by (simp only: of_int_le_iff)
  ultimately show "of_int (airtime_in u (u + of_int w) hist + Q) \<le> B" by linarith
qed

lemma window_room_check:
  assumes "window_room B w now P hist" "duty_inv d0 d now hist" "dc_window_seconds d0 = w" "0 < w" "now \<le> t"
    and "fst (check_budget t a d) = Some True" "dc_max_duty_percent d0 * of_int w * 10 + of_int P \<le> B"
  shows "window_room B w t (P + a) hist"
  unfolding window_room_def
proof (intro allI conjI impI)
  fix u
  show "of_int (airtime_in u (u + of_int w) hist) \<le> B" using assms(1) by (simp add: window_room_def)
  assume "t \<le> u + of_int w"
  then have "of_int (airtime_in u (u + of_int w) hist + a) \<le> dc_max_duty_percent d0 * of_int w * 10"
    using duty_window_step [OF assms(2) _ assms(5,6), of u] assms(3,4) by simp
  then show "of_int (airtime_in u (u + of_int w) hist + (P + a)) \<le> B" using assms(7) by simp
qed

lemma window_room_record:
  assumes "window_room B w now (P + a) hist" "now \<le> t2" "t2 \<le> t3" "0 \<le> P" "0 \<le> a"
  shows "window_room B w t3 P (hist @ [\<lparr>tx_timestamp = t2, tx_airtime_ms = a\<rparr>])"
  unfolding window_room_def
proof (intro allI)
  fix u
  let ?S = "airtime_in u (u + of_int w) hist" and ?S' = "airtime_in u (u + of_int w) (hist @ [\<lparr>tx_timestamp = t2, tx_airtime_ms = a\<rparr>])"
  have S': "?S' = ?S + (if u \<le> t2 \<and> t2 \<le> u + of_int w then a else 0)"
    by (simp add: airtime_in_def airtime_sum_append airtime_sum_def)
  have s: "of_int ?S \<le> B" "now \<le> u + of_int w \<Longrightarrow> of_int (?S + (P + a)) \<le> B"
    using assms(1) by (simp_all add: window_room_def)
  have nn: "(0 :: rat) \<le> of_int P" "(0 :: rat) \<le> of_int a" using assms(4,5) by simp_all
  show "of_int ?S' \<le> B \<and> (t3 \<le> u + of_int w \<longrightarrow> of_int (?S' + P) \<le> B)"
  proof (cases "u \<le> t2 \<and> t2 \<le> u + of_int w")
    case True
    then have "of_int (?S + (P + a)) \<le> B" using s(2) assms(2) by simp
    then show ?thesis using True S' nn by (simp add: algebra_simps)
  next
    case False
    then show ?thesis using S' s assms(2,3) nn by auto
  qed
qed


section \<open>Properties\<close>

text \<open>When transmissions follow one another (each one checked, sent and recorded before the
  next is checked), no window of the configured length contains more airtime than the configured
  share of it, however the clock readings fall.\<close>

lemma duty_sliding_window:
  assumes "duty_reach (duty_init region (Some pct) w) d now hist" "0 < w" "0 \<le> pct"
  shows "of_int (airtime_in u (u + of_int w) hist) \<le> pct / 100 * (of_int w * 1000)"
  using duty_window_bound [OF assms(1), of u] assms(2,3) by (simp add: duty_init_def algebra_simps)

lemma duty_first_send:
  assumes "fst (check_budget t1 a d0) = Some True" "dc_records d0 = []" "t1 \<le> t2" "0 \<le> a"
  shows "duty_reach d0 (record_tx t2 t2 a (snd (check_budget t1 a d0))) t2
    [\<lparr>tx_timestamp = t2, tx_airtime_ms = a\<rparr>]"
  using duty_reach.sent [OF duty_reach.start [OF assms(2)] _ assms(3) _ assms(4,1), of t1 t2] by simp

lemma duty_sliding_window_witness:
  "(of_int (airtime_in 0 (0 + of_int 3600) [\<lparr>tx_timestamp = 2, tx_airtime_ms = 30000\<rparr>]) :: rat)
     \<le> 1 / 100 * (of_int 3600 * 1000)"
proof -
  let ?d = "duty_init ''EU_868'' (Some 1) 3600"
  have "fst (check_budget 1 30000 ?d) = Some True"
    by (simp add: check_budget_def duty_init_def prune_expired_def airtime_sum_def percent_of_window_def)
  then have "duty_reach ?d (record_tx 2 2 30000 (snd (check_budget 1 30000 ?d))) 2
      [\<lparr>tx_timestamp = 2, tx_airtime_ms = 30000\<rparr>]"
    by (rule duty_first_send) (simp_all add: duty_init_def)
  from duty_sliding_window [OF this, of 0] show ?thesis by simp
qed

text \<open>The remaining budget is exact: for a positive window and a non-negative limit, a
  transmission of positive airtime is admitted exactly when it is at most the remaining budget
  the tracker reports at the same instant.\<close>

lemma remaining_budget_exact:
  assumes "0 < dc_window_seconds d" "0 \<le> dc_max_duty_percent d" "0 < a"
  shows "fst (check_budget now a d) = Some (a \<le> fst (remaining_budget_ms now d))"
proof -
  let ?s = "airtime_sum (dc_prune (dc_window_seconds d) now (dc_records d))"
  let ?x = "dc_max_duty_percent d * of_int (dc_window_seconds d) * 10"
  have nn: "0 \<le> ?x" using assms(1,2) by simp
  have "fst (remaining_budget_ms now d) = max 0 (\<lfloor>?x\<rfloor> - ?s)"
    using nn by (simp add: remaining_budget_ms_def Let_def py_trunc_def algebra_simps)
  moreover have "of_int (?s + a) \<le> ?x \<longleftrightarrow> ?s + a \<le> \<lfloor>?x\<rfloor>" by (rule le_floor_iff [symmetric])
  moreover have "?s + a \<le> \<lfloor>?x\<rfloor> \<longleftrightarrow> a \<le> max 0 (\<lfloor>?x\<rfloor> - ?s)" using assms(3) by auto
  ultimately show ?thesis using check_budget_iff [OF assms(1)] by metis
qed

lemma remaining_budget_exact_witness:
  "fst (check_budget 5 36000 (duty_init ''EU_868'' None 3600)) =
     Some (36000 \<le> fst (remaining_budget_ms 5 (duty_init ''EU_868'' None 3600)))"
  using remaining_budget_exact [of "duty_init ''EU_868'' None 3600" 36000 5]
  by (simp add: duty_init_def get_or_def DUTY_CYCLE_LIMITS_def)

text \<open>The check and the record are separate calls. Two senders that both check before either
  records are both admitted, and together exceed the limit that the tracker enforces.\<close>

lemma duty_interleaved_senders_exceed:
  "let d0 = duty_init ''EU_868'' (Some 1) 3600;
       (ok1, d1) = check_budget 0 20000 d0;
       (ok2, d2) = check_budget 1 20000 d1;
       d4 = record_tx 3 3 20000 (record_tx 2 2 20000 d2)
   in ok1 = Some True \<and> ok2 = Some True \<and> fst (current_usage_percent 3 d4) = Some (10 / 9)"
  by (simp add: check_budget_def record_tx_def current_usage_percent_def duty_init_def
      prune_expired_def airtime_sum_def percent_of_window_def)

end
