(* ===== verification/Reply_Hop_Policy.thy ===== *)
theory Reply_Hop_Policy
  imports Prelude
begin

text \<open>
  \<^verbatim>\<open>src/src/transmit/reply_hop_policy.py\<close>: how many hops a reply may travel.
\<close>

definition hops_away :: "int \<Rightarrow> int \<Rightarrow> int \<Rightarrow> int" where
  "hops_away hl hs default_if_unknown = (if hs < hl then default_if_unknown else hs - hl)"

definition hop_limit_for_response :: "int \<Rightarrow> int \<Rightarrow> int \<Rightarrow> int" where
  "hop_limit_for_response hl hs configured =
     (let used = hops_away hl hs (- 1) in
      if used \<ge> 0 then
        (if used > configured then used
         else if hs = 0 then 0
         else if used + 2 < configured then used + 2
         else configured)
      else configured)"

definition reply_hop_fields :: "int \<Rightarrow> int \<Rightarrow> int \<Rightarrow> int \<times> int" where
  "reply_hop_fields hl hs configured =
     (let r = hop_limit_for_response hl hs configured in (r, r))"


section \<open>Properties\<close>

text \<open>A reply gets enough hops to travel back the way the request came, at most two more than that
  unless the request itself travelled further, and stays in the 3-bit range of the header: for a
  well-formed request and a configured limit between 0 and 7.\<close>

lemma reply_reaches_requester:
  assumes "0 \<le> hl" "hl \<le> hs" "hs \<le> 7" "0 \<le> configured" "configured \<le> 7"
    and "reply_hop_fields hl hs configured = (rl, rs)"
  shows "rl = rs \<and> 0 \<le> rl \<and> rl \<le> 7 \<and> hs - hl \<le> rl \<and> rl \<le> max (hs - hl + 2) 0 \<and> rl \<le> max configured (hs - hl)"
  using assms by (auto simp: reply_hop_fields_def hop_limit_for_response_def hops_away_def Let_def split: if_splits)

lemma reply_reaches_requester_witness:
  "fst (reply_hop_fields 2 3 7) = 3"
  using reply_reaches_requester [of 2 3 7 3 3]
  by (simp add: reply_hop_fields_def hop_limit_for_response_def hops_away_def)

end
