(* ===== verification/Tx_Service.thy ===== *)
theory Tx_Service
  imports Meshtastic_Builder Duty_Cycle Reply_Hop_Policy
begin

text \<open>
  \<^verbatim>\<open>src/src/transmit/tx_service.py\<close>: the Meshtastic sending service. Its state is the record
  \<open>txs\<close>. What the radio library, the clock, the node database and the random generator answer during one
  call is the record \<open>tx_env\<close>. A method returns its \<^verbatim>\<open>SendResult\<close> (\<^const>\<open>None\<close> when an exception
  leaves the method), what it handed to a radio, and the state it leaves behind. Sending through a
  MeshCore companion is left out.
\<close>

section \<open>State, environment, results\<close>

definition BROADCAST_ADDR_MT :: int where
  "BROADCAST_ADDR_MT = 0xFFFFFFFF"

definition RESERVED_NODE_IDS :: "int list" where
  "RESERVED_NODE_IDS = [0, 0xFFFFFFFF]"

definition DEFAULT_HOP_LIMIT :: int where
  "DEFAULT_HOP_LIMIT = 3"

definition PRESET_DISPLAY_NAMES :: "((int \<times> int) \<times> string) list" where
  "PRESET_DISPLAY_NAMES =
     [((7, 250), ''ShortFast''), ((7, 500), ''ShortTurbo''), ((8, 250), ''ShortSlow''),
      ((9, 250), ''MediumFast''), ((10, 250), ''MediumSlow''), ((11, 250), ''LongFast''),
      ((11, 500), ''LongTurbo''), ((11, 125), ''LongMod''), ((12, 125), ''LongSlow''), ((12, 62), ''VLongSlow'')]"

record send_result =
  sr_success :: bool
  sr_packet_id :: string
  sr_error :: string
  sr_airtime_ms :: int

record tx_config =
  tc_enabled :: bool
  tc_node_id :: "int option"
  tc_tx_power_dbm :: int
  tc_hop_limit :: int

record radio_config =
  ra_frequency_mhz :: rat
  ra_spreading_factor :: int
  ra_bandwidth_khz :: rat
  ra_coding_rate :: string

text \<open>A Meshtastic USB stick, as the send path uses it: its name, its connection, its channel table.\<close>

record serial_source =
  ss_name :: string
  ss_connected :: bool
  ss_channels :: "(int \<times> ustr) list"

record txs =
  tx_has_wrapper :: bool
  tx_crypto :: "crypto option"
  tx_config :: "tx_config option"
  tx_duty :: "duty option"
  tx_radio :: "radio_config option"
  tx_primary_channel_name :: ustr
  tx_device_id :: "ustr option"
  tx_packet_counter :: int
  tx_node_id_source :: string
  tx_source_node_id :: int
  tx_device_metrics :: "device_metrics option"
  tx_local_stats :: "stats_out option"
  tx_serial_sources :: "serial_source list"

text \<open>The fields of \<^verbatim>\<open>LgwPktTxS\<close> the service sets to something other than a constant.\<close>

record hal_packet =
  hp_freq_hz :: int
  hp_rf_power :: int
  hp_bandwidth :: int
  hp_datarate :: int
  hp_coderate :: int
  hp_size :: int
  hp_payload :: bytes

datatype radio_out =
    HalFrame hal_packet
  | SerialText string ustr int int bool

text \<open>\<open>te_airtime\<close> and \<open>te_send\<close> answer \<^const>\<open>None\<close> when the radio library raises; \<open>te_db\<close> and \<open>te_db'\<close> are the
  node database at a lookup and at a refresh; \<open>te_latest_source\<close> is the capture source that last heard a node
  (\<^const>\<open>None\<close> also when the query fails); \<open>te_serial_result\<close> is what a stick answers.\<close>

record tx_env =
  te_airtime :: "hal_packet \<Rightarrow> int option"
  te_send :: "hal_packet \<Rightarrow> int option"
  te_check_time :: rat
  te_record_time :: rat
  te_log_time :: rat
  te_telemetry_time :: int
  te_db :: "string \<Rightarrow> ustr option"
  te_db' :: "string \<Rightarrow> ustr option"
  te_extra_nonce :: int
  te_latest_source :: "string \<Rightarrow> string option"
  te_serial_result :: "radio_out \<Rightarrow> send_result"

type_synonym send_outcome = "send_result option \<times> radio_out list \<times> txs"

definition failure :: "string \<Rightarrow> string \<Rightarrow> send_result" where
  "failure pid err = \<lparr>sr_success = False, sr_packet_id = pid, sr_error = err, sr_airtime_ms = 0\<rparr>"

definition meshtastic_enabled :: "txs \<Rightarrow> bool" where
  "meshtastic_enabled tx \<longleftrightarrow> (case tx_config tx of None \<Rightarrow> False | Some c \<Rightarrow> tc_enabled c) \<and> tx_has_wrapper tx"

definition configured_hop_limit :: "txs \<Rightarrow> int" where
  "configured_hop_limit tx = (case tx_config tx of Some c \<Rightarrow> tc_hop_limit c | None \<Rightarrow> DEFAULT_HOP_LIMIT)"


section \<open>Identity and packet ids\<close>

definition next_packet_id :: "txs \<Rightarrow> int \<times> txs" where
  "next_packet_id tx =
     (let n = (tx_packet_counter tx + 1) mod 2 ^ 32 in (n, tx\<lparr>tx_packet_counter := n\<rparr>))"

text \<open>\<^const>\<open>None\<close>: the device id cannot be encoded, or all seven words of the digest are reserved.\<close>

definition digest_words :: "bytes \<Rightarrow> int list" where
  "digest_words digest = map (\<lambda>offset. be_int (slice offset (offset + 4) digest)) [0, 4, 8, 12, 16, 20, 24]"

definition derive_node_id :: "ustr \<Rightarrow> int option" where
  "derive_node_id device_id =
     do {
       bs \<leftarrow> utf8_encode device_id;
       find (\<lambda>v. v \<notin> set RESERVED_NODE_IDS) (digest_words (sha256 bs))
     }"

text \<open>\<open>draws\<close>: the values the generator produces; \<^const>\<open>None\<close> while they are all reserved.\<close>

definition random_non_reserved :: "int list \<Rightarrow> int option" where
  "random_non_reserved draws = find (\<lambda>v. v \<notin> set RESERVED_NODE_IDS) draws"

definition unconfigured_node_id :: "ustr option \<Rightarrow> int list \<Rightarrow> (int \<times> string) option" where
  "unconfigured_node_id device_id draws =
     (case device_id of
        Some (c # cs) \<Rightarrow> map_option (\<lambda>v. (v, ''derived'')) (derive_node_id (c # cs))
      | _ \<Rightarrow> map_option (\<lambda>v. (v, ''random'')) (random_non_reserved draws))"

definition resolve_node_id :: "tx_config option \<Rightarrow> ustr option \<Rightarrow> int list \<Rightarrow> (int \<times> string) option" where
  "resolve_node_id config device_id draws =
     (case Option.bind config tc_node_id of
        Some n \<Rightarrow> if n \<notin> set RESERVED_NODE_IDS then Some (n, ''config'') else unconfigured_node_id device_id draws
      | None \<Rightarrow> unconfigured_node_id device_id draws)"

text \<open>\<open>saved\<close>: whether writing \<^verbatim>\<open>local.yaml\<close> succeeds.\<close>

definition persist_derived_node_id :: "bool \<Rightarrow> txs \<Rightarrow> txs" where
  "persist_derived_node_id saved tx =
     (if tx_node_id_source tx \<noteq> ''derived'' \<or> \<not> saved then tx
      else tx\<lparr>tx_config := map_option (\<lambda>c. c\<lparr>tc_node_id := Some (tx_source_node_id tx)\<rparr>) (tx_config tx),
              tx_node_id_source := ''config''\<rparr>)"


section \<open>Channels and destinations\<close>

definition get_preset_name :: "txs \<Rightarrow> ustr" where
  "get_preset_name tx =
     (case tx_radio tx of
        None \<Rightarrow> lit ''LongFast''
      | Some r \<Rightarrow>
          lit (case map_of PRESET_DISPLAY_NAMES (ra_spreading_factor r, py_trunc (ra_bandwidth_khz r)) of
                 Some n \<Rightarrow> n | None \<Rightarrow> ''Custom''))"

text \<open>Python's \<^verbatim>\<open>xs[i]\<close> with its negative indices; \<^const>\<open>None\<close> is \<^verbatim>\<open>IndexError\<close>.\<close>

definition py_nth :: "'a list \<Rightarrow> int \<Rightarrow> 'a option" where
  "py_nth xs i =
     (let j = (if i < 0 then i + int (length xs) else i) in
      if 0 \<le> j \<and> j < int (length xs) then Some (xs ! nat j) else None)"

definition channel_name_for_index :: "int \<Rightarrow> txs \<Rightarrow> ustr option" where
  "channel_name_for_index channel tx =
     (let fallback = (if tx_primary_channel_name tx \<noteq> [] then tx_primary_channel_name tx else get_preset_name tx) in
      case tx_crypto tx of
        None \<Rightarrow> Some fallback
      | Some cs \<Rightarrow>
          if channel \<noteq> 0 \<and> channel - 1 < int (length (cs_keys cs))
          then map_option fst (py_nth (cs_keys cs) (channel - 1)) else Some fallback)"

definition resolve_channel :: "int \<Rightarrow> txs \<Rightarrow> int \<times> bytes option" where
  "resolve_channel channel tx =
     (case tx_crypto tx of
        None \<Rightarrow> (0x08, None)
      | Some cs \<Rightarrow>
          let keys = get_all_keys cs;
              named = (if channel = 0 then map_option (\<lambda>k. (tx_primary_channel_name tx, k)) (py_nth keys 0)
                       else if channel - 1 < int (length (cs_keys cs)) then py_nth (cs_keys cs) (channel - 1)
                       else map_option (\<lambda>k. (tx_primary_channel_name tx, k)) (py_nth keys 0))
          in (case named of
                None \<Rightarrow> (0x08, None)
              | Some (name, key) \<Rightarrow>
                  (case compute_channel_hash name key of None \<Rightarrow> (0x08, None) | Some h \<Rightarrow> (h, Some key))))"

text \<open>The loop of \<^verbatim>\<open>_resolve_channel_by_hash\<close> over the named channels, numbered from 1. The outer
  \<^const>\<open>None\<close> is an exception, the inner one the end of the loop.\<close>

fun by_hash_loop :: "int \<Rightarrow> bytes list \<Rightarrow> nat \<Rightarrow> (ustr \<times> bytes) list \<Rightarrow> bytes option option" where
  "by_hash_loop ch all_keys i [] = Some None"
| "by_hash_loop ch all_keys i ((name, key) # rest) =
     (if i < length all_keys then
        (case compute_channel_hash name (all_keys ! i) of
           None \<Rightarrow> None
         | Some h \<Rightarrow> if h = ch then Some (Some (all_keys ! i)) else by_hash_loop ch all_keys (i + 1) rest)
      else by_hash_loop ch all_keys (i + 1) rest)"

definition resolve_channel_by_hash :: "int \<Rightarrow> txs \<Rightarrow> int \<times> bytes option" where
  "resolve_channel_by_hash ch tx =
     (case tx_crypto tx of
        None \<Rightarrow> (ch, None)
      | Some cs \<Rightarrow>
          let all_keys = get_all_keys cs;
              result = do {
                primary_hash \<leftarrow> (case all_keys of [] \<Rightarrow> Some None
                  | k # _ \<Rightarrow> map_option Some (compute_channel_hash (tx_primary_channel_name tx) k));
                if primary_hash = Some ch then Some (Some (hd all_keys))
                else do {
                  found \<leftarrow> by_hash_loop ch all_keys 1 (cs_keys cs);
                  (case found of
                     Some k \<Rightarrow> Some (Some k)
                   | None \<Rightarrow> Some (case all_keys of [] \<Rightarrow> None | k # _ \<Rightarrow> Some k))
                }
              }
          in (ch, case result of None \<Rightarrow> None | Some k \<Rightarrow> k))"

datatype destination = DestInt int | DestStr string

fun resolve_destination :: "destination \<Rightarrow> int" where
  "resolve_destination (DestStr s) =
     (if lower s \<in> {''broadcast'', ''all'', ''ffff'', ''ffffffff'', ''0''} then BROADCAST_ADDR_MT
      else (case py_int16 (dropWhile (\<lambda>c. c = CHR ''!'') s) of Some n \<Rightarrow> n | None \<Rightarrow> BROADCAST_ADDR_MT))"
| "resolve_destination (DestInt n) = (if n = 0 then BROADCAST_ADDR_MT else n)"

definition resolve_coderate :: "string \<Rightarrow> int" where
  "resolve_coderate cr =
     (case map_of [(''4/5'', 1), (''4/6'', 2), (''4/7'', 3), (''4/8'', 4)] cr of Some n \<Rightarrow> n | None \<Rightarrow> 1)"

definition resolve_serial_send_source :: "tx_env \<Rightarrow> int \<Rightarrow> txs \<Rightarrow> serial_source option" where
  "resolve_serial_send_source env dest tx =
     (if tx_serial_sources tx = [] then None
      else (case te_latest_source env (fmt_x 8 dest) of
          None \<Rightarrow> None
        | Some n \<Rightarrow> if n = [] then None
            else find (\<lambda>s. ss_name s = n \<and> ss_connected s) (tx_serial_sources tx)))"

text \<open>\<^verbatim>\<open>SerialCaptureSource.resolve_channel_index\<close>.\<close>

definition resolve_channel_index :: "serial_source \<Rightarrow> ustr \<Rightarrow> int option" where
  "resolve_channel_index s name = map_option fst (find (\<lambda>e. snd e = name) (ss_channels s))"


section \<open>The radio\<close>

definition BW_KHZ_TO_HAL :: "(int \<times> int) list" where
  "BW_KHZ_TO_HAL = [(125, 4), (250, 5), (500, 6)]"

text \<open>The structure's integer fields wrap at their C width. The payload array has 256 bytes, the rest of
  which stay zero.\<close>

definition build_hal_packet :: "bytes \<Rightarrow> txs \<Rightarrow> hal_packet option" where
  "build_hal_packet bs tx =
     (case tx_config tx of
        None \<Rightarrow> None
      | Some c \<Rightarrow> Some
          \<lparr>hp_freq_hz = (case tx_radio tx of Some r \<Rightarrow> py_trunc (ra_frequency_mhz r * 1000000) | None \<Rightarrow> 906875000) mod 2 ^ 32,
           hp_rf_power = to_signed 1 (tc_tx_power_dbm c mod 256),
           hp_bandwidth = (case map_of BW_KHZ_TO_HAL (case tx_radio tx of Some r \<Rightarrow> py_trunc (ra_bandwidth_khz r) | None \<Rightarrow> 250) of
                             Some b \<Rightarrow> b | None \<Rightarrow> 5),
           hp_datarate = (case tx_radio tx of Some r \<Rightarrow> ra_spreading_factor r | None \<Rightarrow> 11) mod 2 ^ 32,
           hp_coderate = resolve_coderate (case tx_radio tx of Some r \<Rightarrow> ra_coding_rate r | None \<Rightarrow> ''4/8''),
           hp_size = int (length bs) mod 2 ^ 16,
           hp_payload = take 256 bs @ replicate (256 - length bs) 0\<rparr>)"

text \<open>\<^const>\<open>None\<close>: division by a spreading factor of zero.\<close>

definition estimate_airtime :: "int \<Rightarrow> int \<Rightarrow> int option" where
  "estimate_airtime payload_size sf =
     (if sf = 0 then None
      else
        let symbol_time_ms = 2 ^ nat sf / 250;
            n_symbols = 8 + max (((8 * payload_size - 4 * sf + 28 + 16) div (4 * sf)) * 5 + 8) 0
        in Some (py_trunc (of_int (16 + n_symbols) * symbol_time_ms)))"

definition get_airtime :: "tx_env \<Rightarrow> hal_packet \<Rightarrow> int option" where
  "get_airtime env p = (case te_airtime env p of Some a \<Rightarrow> Some a | None \<Rightarrow> estimate_airtime (hp_size p) (hp_datarate p))"

text \<open>The sequence every native send method ends with, in its two halves: up to the radio (fill the HAL structure,
  compute the airtime, ask the duty-cycle tracker) and from the radio's answer on (record what it accepted). The
  methods await the radio between the halves, so other sends may run there; \<open>transmit_frame\<close> is a send with nothing
  in between. The status reads of \<^verbatim>\<open>_send_meshtastic\<close> around the send raise only while the radio library is
  unloaded, when the send raises too.\<close>

datatype hal_outcome = Refused int | Sent int | Failed int int | Raised

definition transmit_begin :: "tx_env \<Rightarrow> bytes \<Rightarrow> txs \<Rightarrow> (hal_outcome + hal_packet \<times> int) \<times> txs" where
  "transmit_begin env bs tx =
     (case build_hal_packet bs tx of
        None \<Rightarrow> (Inl Raised, tx)
      | Some pkt \<Rightarrow>
          (case get_airtime env pkt of
             None \<Rightarrow> (Inl Raised, tx)
           | Some airtime \<Rightarrow>
               (case tx_duty tx of
                  None \<Rightarrow> (Inr (pkt, airtime), tx)
                | Some d \<Rightarrow>
                    let (ok, d1) = check_budget (te_check_time env) airtime d in
                    (case ok of
                       None \<Rightarrow> Inl Raised
                     | Some False \<Rightarrow> Inl (Refused airtime)
                     | Some True \<Rightarrow> Inr (pkt, airtime), tx\<lparr>tx_duty := Some d1\<rparr>))))"

definition transmit_end :: "tx_env \<Rightarrow> hal_packet \<Rightarrow> int \<Rightarrow> txs \<Rightarrow> hal_outcome \<times> txs" where
  "transmit_end env pkt airtime tx =
     (case te_send env pkt of
        None \<Rightarrow> (Raised, tx)
      | Some code \<Rightarrow>
          if code = 0
          then (Sent airtime, tx\<lparr>tx_duty := map_option (record_tx (te_record_time env) (te_log_time env) airtime) (tx_duty tx)\<rparr>)
          else (Failed code airtime, tx))"

definition transmit_frame :: "tx_env \<Rightarrow> bytes \<Rightarrow> txs \<Rightarrow> hal_outcome \<times> radio_out list \<times> txs" where
  "transmit_frame env bs tx =
     (case transmit_begin env bs tx of
        (Inl out, tx1) \<Rightarrow> (out, [], tx1)
      | (Inr (pkt, airtime), tx1) \<Rightarrow>
          let (out, tx2) = transmit_end env pkt airtime tx1 in (out, [HalFrame pkt], tx2))"

definition outcome_result :: "string \<Rightarrow> hal_outcome \<Rightarrow> send_result option" where
  "outcome_result pid out =
     (case out of
        Raised \<Rightarrow> None
      | Refused a \<Rightarrow> Some \<lparr>sr_success = False, sr_packet_id = pid, sr_error = ''Duty cycle limit reached'', sr_airtime_ms = a\<rparr>
      | Sent a \<Rightarrow> Some \<lparr>sr_success = True, sr_packet_id = pid, sr_error = [], sr_airtime_ms = a\<rparr>
      | Failed code a \<Rightarrow> Some (failure pid (''lgw_send returned '' @ fmt_d code)))"

definition send_built_packet :: "tx_env \<Rightarrow> bytes \<Rightarrow> int \<Rightarrow> txs \<Rightarrow> send_outcome" where
  "send_built_packet env bs pid tx =
     (let (out, sent, tx1) = transmit_frame env bs tx in (outcome_result (fmt_x 8 pid) out, sent, tx1))"


section \<open>Relaying a captured frame\<close>

definition send_raw_relay :: "tx_env \<Rightarrow> bytes \<Rightarrow> txs \<Rightarrow> send_outcome" where
  "send_raw_relay env raw tx =
     (if \<not> meshtastic_enabled tx then (Some (failure [] ''Meshtastic TX not available''), [], tx)
      else if length raw < 16 then (Some (failure [] ''Packet too short (need full 16-byte header)''), [], tx)
      else
        let flags = raw ! 12; hops = flags AND 0x07 in
        if hops = 0 then (Some (failure [] ''Packet has no hops remaining''), [], tx)
        else
          let new_flags = (flags AND NOT 0x07) OR (hops - 1);
              (out, sent, tx1) = transmit_frame env (raw[12 := new_flags]) tx
          in (case out of
                Failed code a \<Rightarrow> Some \<lparr>sr_success = False, sr_packet_id = [],
                    sr_error = ''lgw_send returned '' @ fmt_d code, sr_airtime_ms = a\<rparr>
              | _ \<Rightarrow> outcome_result [] out, sent, tx1))"

section \<open>The frame on the air\<close>

lemma build_hal_packet_payload:
  assumes "build_hal_packet bs tx = Some pkt" "length bs \<le> 256"
  shows "hp_size pkt = int (length bs)" "take (nat (hp_size pkt)) (hp_payload pkt) = bs" "length (hp_payload pkt) = 256"
  using assms by (auto simp: build_hal_packet_def split: option.splits)

text \<open>A frame reaches the radio only after the tracker admitted its airtime, and the airtime is recorded exactly when
  the radio accepts it.\<close>

lemma transmit_begin_turned:
  assumes "transmit_begin env bs tx = (Inl out, tx1)"
  obtains "out = Raised" "tx1 = tx"
    | pkt a d ok d1 where "build_hal_packet bs tx = Some pkt" "get_airtime env pkt = Some a" "tx_duty tx = Some d"
        "check_budget (te_check_time env) a d = (ok, d1)" "ok \<noteq> Some True" "tx1 = tx\<lparr>tx_duty := Some d1\<rparr>"
        "out = (if ok = None then Raised else Refused a)"
proof (cases "build_hal_packet bs tx")
  case None
  then show ?thesis using assms that(1) by (simp add: transmit_begin_def)
next
  case pkt: (Some pkt)
  show ?thesis
  proof (cases "get_airtime env pkt")
    case None
    then show ?thesis using assms that(1) pkt by (simp add: transmit_begin_def)
  next
    case a: (Some a)
    obtain d where d: "tx_duty tx = Some d" using assms pkt a by (cases "tx_duty tx") (simp_all add: transmit_begin_def)
    obtain ok d1 where c: "check_budget (te_check_time env) a d = (ok, d1)" by fastforce
    have "ok \<noteq> Some True" "tx1 = tx\<lparr>tx_duty := Some d1\<rparr>" "out = (if ok = None then Raised else Refused a)"
      using assms pkt a d c by (simp_all add: transmit_begin_def split: option.splits bool.splits)
    then show ?thesis using that(2) [OF pkt a d c] by simp
  qed
qed

lemma transmit_frame_cases:
  assumes "transmit_frame env bs tx = (out, outs, tx1)"
  obtains (early) "out = Raised" "outs = []" "tx1 = tx"
    | (budget) pkt a d ok d1 where "build_hal_packet bs tx = Some pkt" "get_airtime env pkt = Some a" "tx_duty tx = Some d"
        "check_budget (te_check_time env) a d = (ok, d1)" "ok \<noteq> Some True" "outs = []" "tx1 = tx\<lparr>tx_duty := Some d1\<rparr>"
        "out = (if ok = None then Raised else Refused a)"
    | (radio) pkt a tx0 where "build_hal_packet bs tx = Some pkt" "get_airtime env pkt = Some a" "outs = [HalFrame pkt]"
        "case tx_duty tx of None \<Rightarrow> tx0 = tx
         | Some d \<Rightarrow> fst (check_budget (te_check_time env) a d) = Some True \<and>
             tx0 = tx\<lparr>tx_duty := Some (snd (check_budget (te_check_time env) a d))\<rparr>"
        "if te_send env pkt = Some 0
         then out = Sent a \<and> tx1 = tx0\<lparr>tx_duty := map_option (record_tx (te_record_time env) (te_log_time env) a) (tx_duty tx0)\<rparr>
         else tx1 = tx0 \<and> (\<forall>x. out \<noteq> Sent x)"
proof (cases "transmit_begin env bs tx")
  case (Pair v tx')
  show ?thesis
  proof (cases v)
    case (Inl o1)
    then have out: "out = o1" "outs = []" "tx1 = tx'" using Pair assms by (simp_all add: transmit_frame_def)
    from Pair Inl have "transmit_begin env bs tx = (Inl o1, tx')" by simp
    then show ?thesis by (cases rule: transmit_begin_turned) (use out early budget in auto)
  next
    case (Inr pa)
    then obtain pkt a where pa: "v = Inr (pkt, a)" by (cases pa) simp
    have b: "build_hal_packet bs tx = Some pkt" "get_airtime env pkt = Some a"
        "case tx_duty tx of None \<Rightarrow> tx' = tx
         | Some d \<Rightarrow> fst (check_budget (te_check_time env) a d) = Some True \<and>
             tx' = tx\<lparr>tx_duty := Some (snd (check_budget (te_check_time env) a d))\<rparr>"
      using Pair pa by (auto simp: transmit_begin_def split: option.splits prod.splits bool.splits)
    then show ?thesis
      using radio [OF b(1,2) _ b(3)] Pair pa assms
      by (auto simp: transmit_frame_def transmit_end_def split: option.splits prod.splits if_splits)
  qed
qed


section \<open>The duty cycle of the service\<close>

text \<open>Sends of the service as the event loop interleaves them: a send runs up to the radio in one step and from the
  radio's answer on in another, and between the two any other send may take its steps, at most \<open>k\<close> of them being
  under way when one is admitted. \<open>A\<close> bounds the airtimes. Reading the tracker prunes it; anything else leaves it
  alone. The clock does not go back. \<open>hist\<close>, a ghost, lists what the radio accepted, with the times recorded.\<close>

type_synonym tx_pending = "tx_env \<times> hal_packet \<times> int"

definition pending_ms :: "tx_pending list \<Rightarrow> int" where
  "pending_ms ps = (\<Sum>p\<leftarrow>ps. snd (snd p))"

inductive tx_conc :: "nat \<Rightarrow> int \<Rightarrow> txs \<Rightarrow> txs \<Rightarrow> rat \<Rightarrow> tx_pending list \<Rightarrow> tx_record list \<Rightarrow> bool"
  for k :: nat and A :: int and tx0 :: txs where
  idle: "tx_conc k A tx0 tx0 now [] []"
| admitted: "tx_conc k A tx0 tx now ps hist \<Longrightarrow> length ps \<le> k \<Longrightarrow> now \<le> te_check_time env \<Longrightarrow>
    transmit_begin env bs tx = (Inr (pkt, a), tx1) \<Longrightarrow> 0 \<le> a \<Longrightarrow> a \<le> A \<Longrightarrow>
    tx_conc k A tx0 tx1 (te_check_time env) (ps @ [(env, pkt, a)]) hist"
| turned_away: "tx_conc k A tx0 tx now ps hist \<Longrightarrow> now \<le> te_check_time env \<Longrightarrow>
    transmit_begin env bs tx = (Inl out, tx1) \<Longrightarrow> tx_conc k A tx0 tx1 (te_check_time env) ps hist"
| answered: "tx_conc k A tx0 tx now (ps @ (env, pkt, a) # qs) hist \<Longrightarrow> now \<le> te_record_time env \<Longrightarrow>
    te_record_time env \<le> te_log_time env \<Longrightarrow> transmit_end env pkt a tx = (out, tx1) \<Longrightarrow>
    tx_conc k A tx0 tx1 (te_log_time env) (ps @ qs)
      (case out of Sent _ \<Rightarrow> hist @ [\<lparr>tx_timestamp = te_record_time env, tx_airtime_ms = a\<rparr>] | _ \<Rightarrow> hist)"
| usage_read: "tx_conc k A tx0 tx now ps hist \<Longrightarrow> now \<le> t \<Longrightarrow>
    tx_duty tx1 = map_option (\<lambda>d. snd (current_usage_percent t d)) (tx_duty tx) \<Longrightarrow> tx_conc k A tx0 tx1 t ps hist"
| remaining_read: "tx_conc k A tx0 tx now ps hist \<Longrightarrow> now \<le> t \<Longrightarrow>
    tx_duty tx1 = map_option (\<lambda>d. snd (remaining_budget_ms t d)) (tx_duty tx) \<Longrightarrow> tx_conc k A tx0 tx1 t ps hist"
| other: "tx_conc k A tx0 tx now ps hist \<Longrightarrow> tx_duty tx1 = tx_duty tx \<Longrightarrow> tx_conc k A tx0 tx1 now ps hist"

definition conc_inv :: "nat \<Rightarrow> int \<Rightarrow> duty \<Rightarrow> txs \<Rightarrow> rat \<Rightarrow> tx_pending list \<Rightarrow> tx_record list \<Rightarrow> bool" where
  "conc_inv k A d0 tx now ps hist \<longleftrightarrow>
     (\<exists>d. tx_duty tx = Some d \<and> duty_inv d0 d now hist) \<and>
     list_all (\<lambda>p. 0 \<le> snd (snd p) \<and> snd (snd p) \<le> A) ps \<and>
     window_room (dc_max_duty_percent d0 * of_int (dc_window_seconds d0) * 10 + of_nat k * of_int A)
       (dc_window_seconds d0) now (pending_ms ps) hist"

lemma pending_ms_simps [simp]:
  "pending_ms [] = 0" "pending_ms (p # ps) = snd (snd p) + pending_ms ps" "pending_ms (ps @ qs) = pending_ms ps + pending_ms qs"
  by (simp_all add: pending_ms_def)

lemma pending_ms_bounds:
  assumes "list_all (\<lambda>p. 0 \<le> snd (snd p) \<and> snd (snd p) \<le> A) ps"
  shows "0 \<le> pending_ms ps" "pending_ms ps \<le> int (length ps) * A"
  using assms by (induction ps) (auto simp: algebra_simps)

lemma conc_inv_later:
  assumes "conc_inv k A d0 tx now ps hist" "now \<le> t"
    and "\<And>d. tx_duty tx = Some d \<Longrightarrow> duty_inv d0 d now hist \<Longrightarrow> \<exists>d1. tx_duty tx1 = Some d1 \<and> duty_inv d0 d1 t hist"
  shows "conc_inv k A d0 tx1 t ps hist"
  using assms window_room_weaken [OF _ assms(2) order_refl] by (auto simp: conc_inv_def)

lemma transmit_begin_admits:
  assumes "transmit_begin env bs tx = (Inr (pkt, a), tx1)" "tx_duty tx = Some d"
  shows "fst (check_budget (te_check_time env) a d) = Some True" "tx_duty tx1 = Some (snd (check_budget (te_check_time env) a d))"
  using assms by (auto simp: transmit_begin_def split: option.splits prod.splits bool.splits)

lemma transmit_begin_duty:
  assumes "transmit_begin env bs tx = (v, tx1)" "tx_duty tx = Some d"
  shows "tx_duty tx1 = Some d \<or> (\<exists>a. tx_duty tx1 = Some (snd (check_budget (te_check_time env) a d)))"
  using assms by (auto simp: transmit_begin_def split: option.splits prod.splits) (metis snd_conv)+

lemma duty_inv_check:
  assumes "duty_inv d0 d now hist" "now \<le> t"
  shows "duty_inv d0 (snd (check_budget t a d)) t hist"
  by (rule duty_inv_prune [OF assms]) simp_all

lemma conc_inv_admitted:
  assumes inv: "conc_inv k A d0 tx now ps hist" and w: "0 < dc_window_seconds d0"
    and len: "length ps \<le> k" and t: "now \<le> te_check_time env"
    and b: "transmit_begin env bs tx = (Inr (pkt, a), tx1)" and a: "0 \<le> a" "a \<le> A"
  shows "conc_inv k A d0 tx1 (te_check_time env) (ps @ [(env, pkt, a)]) hist"
proof -
  obtain d where d: "tx_duty tx = Some d" "duty_inv d0 d now hist" using inv by (auto simp: conc_inv_def)
  have ps: "list_all (\<lambda>p. 0 \<le> snd (snd p) \<and> snd (snd p) \<le> A) ps" using inv by (simp add: conc_inv_def)
  have "pending_ms ps \<le> int k * A"
    using pending_ms_bounds(2) [OF ps] len a by (meson mult_right_mono of_nat_mono order_trans)
  then have "(of_int (pending_ms ps) :: rat) \<le> of_nat k * of_int A"
    by (metis of_int_le_iff of_int_mult of_int_of_nat_eq)
  then show ?thesis
    using window_room_check [OF _ d(2) refl w t transmit_begin_admits(1) [OF b d(1)]] inv ps a
      duty_inv_check [OF d(2) t] transmit_begin_admits(2) [OF b d(1)]
    by (auto simp: conc_inv_def)
qed

lemma conc_inv_answered:
  assumes inv: "conc_inv k A d0 tx now (ps @ (env, pkt, a) # qs) hist"
    and t: "now \<le> te_record_time env" "te_record_time env \<le> te_log_time env"
    and e: "transmit_end env pkt a tx = (out, tx1)"
  shows "conc_inv k A d0 tx1 (te_log_time env) (ps @ qs)
    (case out of Sent _ \<Rightarrow> hist @ [\<lparr>tx_timestamp = te_record_time env, tx_airtime_ms = a\<rparr>] | _ \<Rightarrow> hist)"
proof -
  let ?B = "dc_max_duty_percent d0 * of_int (dc_window_seconds d0) * 10 + of_nat k * of_int A"
  obtain d where d: "tx_duty tx = Some d" "duty_inv d0 d now hist" using inv by (auto simp: conc_inv_def)
  have ps: "list_all (\<lambda>p. 0 \<le> snd (snd p) \<and> snd (snd p) \<le> A) (ps @ qs)" "0 \<le> a"
    and room: "window_room ?B (dc_window_seconds d0) now (pending_ms (ps @ qs) + a) hist"
    using inv by (auto simp: conc_inv_def algebra_simps)
  have le: "now \<le> te_log_time env" using t by simp
  show ?thesis
  proof (cases "te_send env pkt = Some 0")
    case True
    then have "out = Sent a" "tx_duty tx1 = Some (record_tx (te_record_time env) (te_log_time env) a d)"
      using e d(1) by (auto simp: transmit_end_def)
    then show ?thesis
      using window_room_record [OF room t pending_ms_bounds(1) [OF ps(1)] ps(2)] duty_inv_record [OF d(2) t ps(2)] ps(1)
      by (simp add: conc_inv_def)
  next
    case False
    then have "tx1 = tx" "\<And>x. out \<noteq> Sent x" using e by (auto simp: transmit_end_def split: option.splits if_splits)
    then show ?thesis
      using window_room_weaken [OF room le, of "pending_ms (ps @ qs)"] duty_inv_later [OF d(2) le] ps d(1)
      by (simp add: conc_inv_def split: hal_outcome.splits)
  qed
qed

lemma tx_conc_inv:
  assumes "tx_conc k A tx0 tx now ps hist" "tx_duty tx0 = Some d0" "dc_records d0 = []" "0 < dc_window_seconds d0"
    "0 \<le> dc_max_duty_percent d0" "0 \<le> A"
  shows "conc_inv k A d0 tx now ps hist"
  using assms(1)
proof (induction rule: tx_conc.induct)
  case (idle now)
  have "duty_inv d0 d0 now []" using assms(3) by (simp add: duty_inv_def)
  then show ?case using assms(2,4-6) window_room_start by (simp add: conc_inv_def)
next
  case (admitted tx now ps hist env bs pkt a tx1)
  then show ?case using conc_inv_admitted assms(4) by blast
next
  case (turned_away tx now ps hist env bs out tx1)
  show ?case
    by (rule conc_inv_later [OF turned_away.IH turned_away.hyps(2)])
      (use transmit_begin_duty [OF turned_away.hyps(3)] duty_inv_later duty_inv_check turned_away.hyps(2) in blast)
next
  case (answered tx now ps env pkt a qs hist out tx1)
  then show ?case using conc_inv_answered by blast
next
  case (usage_read tx now ps hist t tx1)
  show ?case
    by (rule conc_inv_later [OF usage_read.IH usage_read.hyps(2)])
      (use usage_read.hyps duty_inv_prune in \<open>force simp: current_usage_percent_def Let_def\<close>)
next
  case (remaining_read tx now ps hist t tx1)
  show ?case
    by (rule conc_inv_later [OF remaining_read.IH remaining_read.hyps(2)])
      (use remaining_read.hyps duty_inv_prune in \<open>force simp: remaining_budget_ms_def Let_def\<close>)
next
  case (other tx now ps hist tx1)
  then show ?case by (simp add: conc_inv_def)
qed


section \<open>Relayed frames\<close>

lemma relay_flags:
  fixes f :: byte
  assumes "f AND 0x07 \<noteq> 0"
  shows "uint (((f AND NOT 0x07) OR (f AND 0x07) - 1) AND 0x07) = uint (f AND 0x07) - 1"
    "drop_bit 5 ((f AND NOT 0x07) OR (f AND 0x07) - 1) AND 0x07 = drop_bit 5 f AND 0x07"
    "((f AND NOT 0x07) OR (f AND 0x07) - 1) AND 0x08 = f AND 0x08"
    "((f AND NOT 0x07) OR (f AND 0x07) - 1) AND 0x10 = f AND 0x10"
proof -
  define g where "g = (f AND 0x07) - (1 :: byte)"
  have "uint (f AND 0x07) \<noteq> 0" using assms by (simp add: uint_0_iff)
  then have u: "1 \<le> uint (f AND 0x07)" using byte_and7(1) [of f] by linarith
  then have ug: "uint g = uint (f AND 0x07) - 1"
    unfolding g_def by (subst uint_minus_simple_alt [THEN iffD1]) (auto simp: word_le_def)
  then have "uint g < 2 ^ 3" using byte_and7(2) [of f] by simp
  then have "take_bit 3 (uint g) = uint g" by (simp add: take_bit_int_eq_self_iff)
  then have "take_bit 3 g = g" by (metis unsigned_take_bit_eq word_uint_eq_iff)
  then have low: "bit g n \<Longrightarrow> n < 3" for n by (metis bit_take_bit_iff)
  define m7 m8 m16 :: byte where "m7 = 0x07" and "m8 = 0x08" and "m16 = 0x10"
  have m: "bit m7 n \<longleftrightarrow> n < 3" "bit m8 n \<longleftrightarrow> n = 3" "bit m16 n \<longleftrightarrow> n = 4" for n
    by (simp_all only: m7_def m8_def m16_def mask_bits)
  define R where "R = (f AND NOT m7) OR g"
  have r: "bit R n \<longleftrightarrow> n < 8 \<and> bit f n \<and> \<not> n < 3 \<or> bit g n" for n
    by (auto simp: R_def bit_simps m)
  have R: "(f AND NOT 0x07) OR (f AND 0x07) - 1 = R" by (simp add: R_def g_def m7_def)
  have "R AND m7 = g" by (rule bit_word_eqI) (use low in \<open>auto simp: bit_and_iff r m\<close>)
  moreover have "drop_bit 5 R AND m7 = drop_bit 5 f AND m7"
    by (rule bit_word_eqI) (auto simp: bit_and_iff bit_drop_bit_eq r m dest: low)
  moreover have "R AND m8 = f AND m8" "R AND m16 = f AND m16"
    by (rule bit_word_eqI; auto simp: bit_and_iff r m dest: low)+
  ultimately show "uint (((f AND NOT 0x07) OR (f AND 0x07) - 1) AND 0x07) = uint (f AND 0x07) - 1"
    "drop_bit 5 ((f AND NOT 0x07) OR (f AND 0x07) - 1) AND 0x07 = drop_bit 5 f AND 0x07"
    "((f AND NOT 0x07) OR (f AND 0x07) - 1) AND 0x08 = f AND 0x08"
    "((f AND NOT 0x07) OR (f AND 0x07) - 1) AND 0x10 = f AND 0x10"
    using ug unfolding R m7_def m8_def m16_def by simp_all
qed

lemma relay_high_bits:
  fixes f :: byte
  assumes "f AND 0x07 \<noteq> 0"
  shows "((f AND NOT 0x07) OR (f AND 0x07) - 1) AND NOT 0x07 = f AND NOT 0x07"
proof -
  let ?g = "(f AND 0x07) - 1"
  have "uint (f AND 0x07) \<noteq> 0" using assms by (simp add: uint_0_iff)
  then have "1 \<le> uint (f AND 0x07)" using byte_and7(1) [of f] by linarith
  then have "uint ?g = uint (f AND 0x07) - 1"
    by (subst uint_minus_simple_alt [THEN iffD1]) (auto simp: word_le_def)
  then have "uint ?g < 2 ^ 3" using byte_and7(2) [of f] by simp
  then have "take_bit 3 ?g = ?g"
    by (metis take_bit_int_eq_self_iff unsigned_take_bit_eq unsigned_greater_eq word_uint_eq_iff)
  then have "?g AND mask 3 = ?g" by (simp add: take_bit_eq_mask)
  then have "?g AND 0x07 = ?g" by (simp add: mask_eq_exp_minus_1)
  then have "?g AND NOT 0x07 = 0" by (metis and.assoc and.right_neutral bit.conj_cancel_right and_zero_eq)
  then show ?thesis by (simp add: bit.conj_disj_distrib2 and.assoc)
qed

lemma relay_header:
  assumes "parse_header (take 16 raw) = Some h" "16 \<le> length raw" "raw ! 12 AND 0x07 \<noteq> 0"
  shows "parse_header (take 16 (raw[12 := (raw ! 12 AND NOT 0x07) OR (raw ! 12 AND 0x07) - 1])) =
    Some (h\<lparr>mh_hop_limit := mh_hop_limit h - 1\<rparr>)"
proof -
  let ?f = "raw ! 12" and ?g = "(raw ! 12 AND NOT 0x07) OR (raw ! 12 AND 0x07) - 1"
  let ?t = "take 16 raw" and ?t' = "take 16 (raw[12 := ?g])"
  have t': "?t' = ?t[12 := ?g]" by (simp add: take_update_swap)
  have len: "length ?t = 16" "length ?t' = 16" using assms(2) by simp_all
  have at: "?t' ! 12 = ?g" "?t' ! 13 = ?t ! 13" "?t' ! 15 = ?t ! 15" "?t ! 12 = ?f" using len unfolding t' by simp_all
  have sl: "slice 0 4 ?t' = slice 0 4 ?t" "slice 4 8 ?t' = slice 4 8 ?t" "slice 8 12 ?t' = slice 8 12 ?t"
    unfolding t' by (simp_all add: slice_def drop_update_swap)
  note fl = relay_flags [OF assms(3)]
  have "\<not> uint (?f AND 0x07) > uint (drop_bit 5 ?f AND 0x07)"
    using assms(1) len at(4) by (auto simp: parse_header_def Let_def split: if_splits)
  then show ?thesis
    using assms(1) len unfolding parse_header_def at sl Let_def fl by auto
qed

lemma relay_sends:
  assumes "send_raw_relay env raw tx = (r, outs, tx1)" "HalFrame pkt \<in> set outs"
  shows "meshtastic_enabled tx" "16 \<le> length raw" "raw ! 12 AND 0x07 \<noteq> 0"
    "build_hal_packet (raw[12 := (raw ! 12 AND NOT 0x07) OR (raw ! 12 AND 0x07) - 1]) tx = Some pkt"
proof -
  let ?raw' = "raw[12 := (raw ! 12 AND NOT 0x07) OR (raw ! 12 AND 0x07) - 1]"
  obtain out outs' tx2 where t: "transmit_frame env ?raw' tx = (out, outs', tx2)" by (cases "transmit_frame env ?raw' tx") auto
  have g: "meshtastic_enabled tx \<and> 16 \<le> length raw \<and> raw ! 12 AND 0x07 \<noteq> 0 \<and> outs = outs'"
    using assms t by (auto simp: send_raw_relay_def Let_def split: if_splits)
  then show "meshtastic_enabled tx" "16 \<le> length raw" "raw ! 12 AND 0x07 \<noteq> 0" by simp_all
  from t show "build_hal_packet ?raw' tx = Some pkt"
    by (cases rule: transmit_frame_cases) (use g assms(2) in auto)
qed


section \<open>Packet ids\<close>

fun packet_ids :: "nat \<Rightarrow> txs \<Rightarrow> int list" where
  "packet_ids 0 tx = []"
| "packet_ids (Suc n) tx = (let (pid, tx1) = next_packet_id tx in pid # packet_ids n tx1)"

lemma packet_ids_eq: "packet_ids n tx = map (\<lambda>i. (tx_packet_counter tx + int i + 1) mod 2 ^ 32) [0 ..< n]"
proof (induction n arbitrary: tx)
  case 0
  then show ?case by simp
next
  case (Suc n)
  have "((tx_packet_counter tx + 1) mod 2 ^ 32 + int i + 1) mod 2 ^ 32 =
      (tx_packet_counter tx + int (Suc i) + 1) mod 2 ^ 32" for i
  proof -
    have "((tx_packet_counter tx + 1) mod 2 ^ 32 + (int i + 1)) mod 2 ^ 32 = (tx_packet_counter tx + 1 + (int i + 1)) mod 2 ^ 32"
      by (rule mod_add_left_eq)
    then show ?thesis by (simp add: algebra_simps)
  qed
  then show ?case
    by (simp add: Suc next_packet_id_def Let_def map_Suc_upt [symmetric] upt_conv_Cons del: upt_Suc)
qed

lemma mod_shift_inject:
  fixes c :: int
  assumes "(c + int i + 1) mod 2 ^ 32 = (c + int j + 1) mod 2 ^ 32" "i < 2 ^ 32" "j < 2 ^ 32"
  shows "i = j"
proof -
  have "(2 :: int) ^ 32 dvd (c + int i + 1) - (c + int j + 1)"
    using assms(1) by (simp only: mod_eq_dvd_iff)
  then have "(2 :: int) ^ 32 dvd int i - int j" by simp
  moreover have "\<bar>int i - int j\<bar> < 2 ^ 32" using assms(2,3) by auto
  ultimately show ?thesis using dvd_imp_le_int [of "int i - int j" "2 ^ 32"] by force
qed


section \<open>Properties\<close>

text \<open>C4: a relayed frame keeps its identity: what reaches the radio is the captured frame byte for byte except the
  hop limit, the three low bits of byte 12, which is one less: every other byte of header and ciphertext is the
  captured one, the other bits of byte 12 as well, so the parsed header differs in its hop limit only; and a frame
  with no hops left, or too short for a header, is never sent.\<close>

theorem relay_preserves_identity:
  assumes "send_raw_relay env raw tx = (r, outs, tx1)" "HalFrame pkt \<in> set outs" "length raw \<le> 256"
    and "parse_header (take 16 raw) = Some h"
  shows "0 < mh_hop_limit h \<and> hp_size pkt = int (length raw) \<and>
    parse_header (take 16 (hp_payload pkt)) = Some (h\<lparr>mh_hop_limit := mh_hop_limit h - 1\<rparr>) \<and>
    (\<forall>i < length raw. i \<noteq> 12 \<longrightarrow> hp_payload pkt ! i = raw ! i) \<and>
    hp_payload pkt ! 12 AND NOT 0x07 = raw ! 12 AND NOT 0x07"
proof -
  let ?raw' = "raw[12 := (raw ! 12 AND NOT 0x07) OR (raw ! 12 AND 0x07) - 1]"
  note s = relay_sends [OF assms(1,2)]
  have p: "hp_size pkt = int (length raw)" "take (length raw) (hp_payload pkt) = ?raw'" "length (hp_payload pkt) = 256"
    using build_hal_packet_payload [OF s(4)] assms(3) by auto
  have "take 16 (hp_payload pkt) = take 16 ?raw'"
    using p s(2) by (metis min_absorb1 take_take)
  moreover have pay: "hp_payload pkt ! i = ?raw' ! i" if "i < length raw" for i
    using p(2) that by (metis nth_take)
  moreover have "hp_payload pkt ! 12 AND NOT 0x07 = raw ! 12 AND NOT 0x07"
    using pay [of 12] s(2) relay_high_bits [OF s(3)] by simp
  moreover have "mh_hop_limit h = uint (raw ! 12 AND 0x07)"
    using assms(4) s(2) by (auto simp: parse_header_def Let_def split: if_splits)
  moreover have "0 < uint (raw ! 12 AND 0x07)"
    using s(3) byte_and7(1) [of "raw ! 12"] uint_0_iff [of "raw ! 12 AND 0x07"] by linarith
  ultimately show ?thesis
    using relay_header [OF assms(4) s(2,3)] p by simp
qed

definition demo_txs :: txs where
  "demo_txs = \<lparr>tx_has_wrapper = True, tx_crypto = Some demo_crypto,
     tx_config = Some \<lparr>tc_enabled = True, tc_node_id = Some 5, tc_tx_power_dbm = 14, tc_hop_limit = 3\<rparr>,
     tx_duty = Some (duty_init ''EU_868'' (Some 1) 3600), tx_radio = None, tx_primary_channel_name = lit ''LongFast'',
     tx_device_id = None, tx_packet_counter = 41, tx_node_id_source = ''config'', tx_source_node_id = 5,
     tx_device_metrics = None, tx_local_stats = None, tx_serial_sources = []\<rparr>"

definition demo_env :: tx_env where
  "demo_env = \<lparr>te_airtime = (\<lambda>_. Some 400), te_send = (\<lambda>_. Some 0), te_check_time = 1, te_record_time = 2, te_log_time = 2,
     te_telemetry_time = 0, te_db = (\<lambda>_. None), te_db' = (\<lambda>_. None), te_extra_nonce = 7, te_latest_source = (\<lambda>_. None),
     te_serial_result = (\<lambda>_. failure [] [])\<rparr>"

definition demo_raw :: bytes where
  "demo_raw = (replicate 17 0)[12 := 0x63]"

lemma demo_transmit:
  "\<exists>pkt tx1. build_hal_packet bs demo_txs = Some pkt \<and> transmit_frame demo_env bs demo_txs = (Sent 400, [HalFrame pkt], tx1)"
  by (simp add: transmit_frame_def transmit_begin_def transmit_end_def build_hal_packet_def get_airtime_def demo_txs_def demo_env_def check_budget_def
      duty_init_def prune_expired_def airtime_sum_def percent_of_window_def)

theorem relay_preserves_identity_witness:
  "\<exists>r pkt tx1 h. send_raw_relay demo_env demo_raw demo_txs = (r, [HalFrame pkt], tx1) \<and>
     parse_header (take 16 demo_raw) = Some h \<and>
     parse_header (take 16 (hp_payload pkt)) = Some (h\<lparr>mh_hop_limit := mh_hop_limit h - 1\<rparr>) \<and>
     hp_payload pkt ! 14 = demo_raw ! 14"
proof -
  have at: "demo_raw ! 12 = 0x63" "length demo_raw = 17" by (simp_all add: demo_raw_def)
  obtain h where h: "parse_header (take 16 demo_raw) = Some h"
    using at by (auto simp: parse_header_def Let_def)
  have en: "meshtastic_enabled demo_txs" by (simp add: meshtastic_enabled_def demo_txs_def)
  obtain pkt tx1 where "transmit_frame demo_env (demo_raw[12 := (demo_raw ! 12 AND NOT 0x07) OR (demo_raw ! 12 AND 0x07) - 1]) demo_txs =
      (Sent 400, [HalFrame pkt], tx1)" using demo_transmit by blast
  then have "send_raw_relay demo_env demo_raw demo_txs = (outcome_result [] (Sent 400), [HalFrame pkt], tx1)"
    using en at by (simp add: send_raw_relay_def Let_def)
  then show ?thesis using relay_preserves_identity [of demo_env demo_raw demo_txs _ "[HalFrame pkt]" tx1 pkt h] h at by auto
qed

text \<open>C7: the duty cycle of the sending service, with overlapping sends. A send checks the budget, hands its frame to
  the radio and records the airtime when the radio has answered, and other sends may run between these. If a send is
  admitted only while at most \<open>k\<close> others are under way and no frame lasts longer than \<open>A\<close> milliseconds, then in any
  window of the configured length the recorded airtime is at most the configured share plus \<open>k\<close> times \<open>A\<close>, whatever
  the radio library and the clock report; with \<open>k = 0\<close>, sends one after the other, the share itself is kept.\<close>

theorem service_duty_bound:
  assumes "tx_conc k A tx0 tx now ps hist" "tx_duty tx0 = Some (duty_init region (Some pct) w)"
    and "0 < w" "0 \<le> pct" "0 \<le> A"
  shows "of_int (airtime_in u (u + of_int w) hist) \<le> pct / 100 * (of_int w * 1000) + of_nat k * of_int A"
proof -
  have "conc_inv k A (duty_init region (Some pct) w) tx now ps hist"
    by (rule tx_conc_inv [OF assms(1,2)]) (use assms(3-5) in \<open>simp_all add: duty_init_def\<close>)
  then show ?thesis by (simp add: conc_inv_def window_room_def duty_init_def algebra_simps)
qed

lemma demo_begin:
  assumes "tx_duty tx = Some (duty_init ''EU_868'' (Some 1) 3600)" "tx_config tx = tx_config demo_txs"
  shows "\<exists>pkt tx1. transmit_begin demo_env bs tx = (Inr (pkt, 400), tx1) \<and>
    tx_duty tx1 = Some (duty_init ''EU_868'' (Some 1) 3600) \<and> tx_config tx1 = tx_config demo_txs"
  using assms by (simp add: transmit_begin_def build_hal_packet_def get_airtime_def demo_txs_def demo_env_def check_budget_def
      duty_init_def prune_expired_def airtime_sum_def percent_of_window_def)

theorem service_duty_bound_witness:
  "\<exists>tx ps hist. tx_conc 1 400 demo_txs tx 2 ps hist \<and> length hist = 2 \<and>
     (of_int (airtime_in 0 (0 + of_int 3600) hist) :: rat) \<le> 1 / 100 * (of_int 3600 * 1000) + of_nat 1 * of_int 400"
proof -
  have d0: "tx_duty demo_txs = Some (duty_init ''EU_868'' (Some 1) 3600)" by (simp add: demo_txs_def)
  have env: "te_check_time demo_env = 1" "te_record_time demo_env = 2" "te_log_time demo_env = 2" "te_send demo_env p = Some 0" for p
    by (simp_all add: demo_env_def)
  obtain p1 tx1 where b1: "transmit_begin demo_env [1] demo_txs = (Inr (p1, 400), tx1)"
      "tx_duty tx1 = Some (duty_init ''EU_868'' (Some 1) 3600)" "tx_config tx1 = tx_config demo_txs"
    using demo_begin [OF d0 refl] by blast
  obtain p2 tx2 where b2: "transmit_begin demo_env [2] tx1 = (Inr (p2, 400), tx2)" using demo_begin [OF b1(2,3)] by blast
  have c1: "tx_conc 1 400 demo_txs tx1 1 [(demo_env, p1, 400)] []"
    using tx_conc.admitted [OF tx_conc.idle [of 1 400 demo_txs 0] _ _ b1(1)] env by simp
  have c2: "tx_conc 1 400 demo_txs tx2 1 [(demo_env, p1, 400), (demo_env, p2, 400)] []"
    using tx_conc.admitted [OF c1 _ _ b2] env by simp
  have e: "transmit_end demo_env p 400 tx =
      (Sent 400, tx\<lparr>tx_duty := map_option (record_tx 2 2 400) (tx_duty tx)\<rparr>)" for p tx
    by (simp add: transmit_end_def env)
  obtain tx3 where c3: "tx_conc 1 400 demo_txs tx3 2 [(demo_env, p2, 400)] [\<lparr>tx_timestamp = 2, tx_airtime_ms = 400\<rparr>]"
    using tx_conc.answered [of 1 400 demo_txs tx2 1 "[]", OF _ _ _ e] c2 env by fastforce
  obtain tx4 where c4: "tx_conc 1 400 demo_txs tx4 2 []
      [\<lparr>tx_timestamp = 2, tx_airtime_ms = 400\<rparr>, \<lparr>tx_timestamp = 2, tx_airtime_ms = 400\<rparr>]"
    using tx_conc.answered [of 1 400 demo_txs tx3 2 "[]", OF _ _ _ e] c3 env by fastforce
  from service_duty_bound [OF c4 d0, of 0] show ?thesis using c4 by (metis length_0_conv length_Cons numeral_2_eq_2 order_refl zero_le_numeral zero_less_numeral zero_le_one)
qed

text \<open>Packet ids are 32-bit values and do not repeat within any 2^32 consecutive packets, so the pair of
  source and packet id that receivers use to recognise duplicates, and the encryption nonce, are fresh.\<close>

lemma packet_ids_fresh:
  assumes "n \<le> 2 ^ 32"
  shows "distinct (packet_ids n tx) \<and> list_all u32 (packet_ids n tx)"
proof -
  have "inj_on (\<lambda>i. (tx_packet_counter tx + int i + 1) mod 2 ^ 32) (set [0 ..< n])"
    using assms mod_shift_inject [of "tx_packet_counter tx"] by (intro inj_onI) auto
  then show ?thesis by (auto simp: packet_ids_eq distinct_map list_all_iff u32_def)
qed

lemma packet_ids_fresh_witness: "distinct (packet_ids 3 (demo_txs\<lparr>tx_packet_counter := 2 ^ 32 - 2\<rparr>))"
  using packet_ids_fresh [of 3] by simp

text \<open>The node id the gateway adopts is never a reserved one (0 or the broadcast address): a configured
  id wins if it is not reserved, otherwise it is derived from the device id, which is the same
  32-bit value after every restart, and only a gateway without a device id draws one.\<close>

lemma node_id_not_reserved:
  assumes "resolve_node_id config device_id draws = Some (n, src)"
  shows "n \<noteq> 0 \<and> n \<noteq> 0xFFFFFFFF \<and>
    (src = ''config'' \<longrightarrow> (\<exists>c. config = Some c \<and> tc_node_id c = Some n)) \<and>
    (src = ''derived'' \<longrightarrow> u32 n \<and> (\<forall>draws'. resolve_node_id config device_id draws' = Some (n, src)))"
proof -
  have find: "find (\<lambda>v. v \<notin> set RESERVED_NODE_IDS) xs = Some v \<Longrightarrow> v \<noteq> 0 \<and> v \<noteq> 0xFFFFFFFF" for xs v
    by (drule find_SomeE(1)) (simp add: RESERVED_NODE_IDS_def)
  have word: "u32 (be_int (slice a (a + 4) (sha256 bs)))" if "a + 4 \<le> 32" for a bs
    using le_int_less [of "rev (slice a (a + 4) (sha256 bs))"] that by (simp add: be_int_def u32_def)
  have dom: "v \<noteq> 0 \<and> v \<noteq> 0xFFFFFFFF \<and> u32 v" if dv: "derive_node_id d = Some v" for d v
  proof -
    obtain bs where f: "find (\<lambda>v. v \<notin> set RESERVED_NODE_IDS) (digest_words (sha256 bs)) = Some v"
      using dv by (auto simp: derive_node_id_def split: Option.bind_splits)
    from find_SomeE(2) [OF f] obtain a where "a \<in> {0, 4, 8, 12, 16, 20, 24}" "v = be_int (slice a (a + 4) (sha256 bs))"
      by (simp only: digest_words_def set_map list.set image_iff) blast
    then show ?thesis using find [OF f] word [of a bs] by auto
  qed
  have unc: "n \<noteq> 0 \<and> n \<noteq> 0xFFFFFFFF \<and> src \<noteq> ''config'' \<and>
      (src = ''derived'' \<longrightarrow> u32 n \<and> (\<forall>draws'. unconfigured_node_id device_id draws' = Some (n, src)))"
    if "unconfigured_node_id device_id draws = Some (n, src)"
  proof (cases "\<exists>c cs. device_id = Some (c # cs)")
    case True
    then obtain c cs where d: "device_id = Some (c # cs)" by blast
    then have "derive_node_id (c # cs) = Some n" "src = ''derived''" using that by (auto simp: unconfigured_node_id_def)
    then show ?thesis using dom d by (simp add: unconfigured_node_id_def)
  next
    case False
    then have "random_non_reserved draws = Some n" "src = ''random''"
      using that by (auto simp: unconfigured_node_id_def split: option.splits list.splits)
    then show ?thesis using find by (simp add: random_non_reserved_def)
  qed
  show ?thesis
  proof (cases "\<exists>c m. config = Some c \<and> tc_node_id c = Some m \<and> m \<notin> set RESERVED_NODE_IDS")
    case True
    then show ?thesis using assms by (auto simp: resolve_node_id_def RESERVED_NODE_IDS_def)
  next
    case False
    then have "resolve_node_id config device_id ds = unconfigured_node_id device_id ds" for ds
      by (auto simp: resolve_node_id_def split: option.splits Option.bind_splits)
    then show ?thesis using unc assms by simp
  qed
qed

lemma node_id_not_reserved_witness:
  "fst (the (resolve_node_id (Some \<lparr>tc_enabled = True, tc_node_id = Some 5, tc_tx_power_dbm = 14, tc_hop_limit = 3\<rparr>) None [])) \<noteq> 0"
  using node_id_not_reserved [of "Some \<lparr>tc_enabled = True, tc_node_id = Some 5, tc_tx_power_dbm = 14, tc_hop_limit = 3\<rparr>" None "[]" 5 "''config''"]
  by (simp add: resolve_node_id_def RESERVED_NODE_IDS_def)

end
