(* ===== verification/Tx_Messages.thy ===== *)
theory Tx_Messages
  imports Tx_Service
begin

text \<open>
  The message-sending methods of \<^verbatim>\<open>src/src/transmit/tx_service.py\<close>, on top of the radio sequence of
  \<^verbatim>\<open>Tx_Service\<close>. The packet builder is loaded lazily and always available, as in the code.
\<close>

text \<open>The key ring the builder was made with. The coordinator always provides one; without it every build is taken
  to raise.\<close>

definition with_crypto :: "(crypto \<Rightarrow> bytes option option) \<Rightarrow> txs \<Rightarrow> bytes option option" where
  "with_crypto build tx = (case tx_crypto tx of None \<Rightarrow> None | Some cs \<Rightarrow> build cs)"

text \<open>Build, report a build that returned \<^verbatim>\<open>None\<close>, otherwise send.\<close>

definition send_or_report :: "tx_env \<Rightarrow> bytes option option \<Rightarrow> int \<Rightarrow> send_result \<Rightarrow> txs \<Rightarrow> send_outcome" where
  "send_or_report env built pid report tx =
     (case built of
        None \<Rightarrow> (None, [], tx)
      | Some None \<Rightarrow> (Some report, [], tx)
      | Some (Some bs) \<Rightarrow> send_built_packet env bs pid tx)"

definition send_nodeinfo :: "crypto_lib \<Rightarrow> tx_env \<Rightarrow> ustr \<Rightarrow> ustr \<Rightarrow> int \<Rightarrow> txs \<Rightarrow> send_outcome" where
  "send_nodeinfo L env lname sname hw_model tx =
     (if \<not> meshtastic_enabled tx then (Some (failure [] ''Meshtastic TX not available''), [], tx)
      else
        let (pid, tx1) = next_packet_id tx;
            (ch, key) = resolve_channel 0 tx1;
            hops = configured_hop_limit tx1;
            tp = \<lparr>tp_channel_key = key, tp_channel_hash = ch, tp_hop_limit = hops, tp_hop_start = hops,
                  tp_recipient_public_key = None\<rparr>;
            pub = (case tx_crypto tx1 of None \<Rightarrow> None | Some cs \<Rightarrow> cs_public_key cs)
        in (case with_crypto (build_nodeinfo L (tx_source_node_id tx1) pid lname sname hw_model pub tp) tx1 of
              None \<Rightarrow> (Some (failure (fmt_x 8 pid) ''NodeInfo build failed''), [], tx1)
            | b \<Rightarrow> send_or_report env b pid (failure (fmt_x 8 pid) ''NodeInfo packet build returned None'') tx1))"

text \<open>Sending through a USB stick: the channel is translated by name, and an unknown name refuses.\<close>

definition send_via_stick :: "tx_env \<Rightarrow> serial_source \<Rightarrow> ustr \<Rightarrow> int \<Rightarrow> int \<Rightarrow> bool \<Rightarrow> txs \<Rightarrow> send_outcome" where
  "send_via_stick env s text dest channel ack tx =
     (case channel_name_for_index channel tx of
        None \<Rightarrow> (None, [], tx)
      | Some name \<Rightarrow>
          (case resolve_channel_index s name of
             None \<Rightarrow> (Some (failure [] (ss_name s @ '' has no such channel -- refusing to send'')), [], tx)
           | Some i \<Rightarrow>
               let out = SerialText (ss_name s) text dest i ack in
               (Some (te_serial_result env out), [out], tx)))"

definition send_meshtastic ::
    "crypto_lib \<Rightarrow> tx_env \<Rightarrow> ustr \<Rightarrow> destination \<Rightarrow> int \<Rightarrow> bool \<Rightarrow> int option \<Rightarrow> txs \<Rightarrow> send_outcome" where
  "send_meshtastic L env text dst channel ack echo_hash tx =
     (let dest = resolve_destination dst;
          stick = (if (case tx_config tx of None \<Rightarrow> False | Some c \<Rightarrow> tc_enabled c) \<and> dest \<noteq> BROADCAST_ADDR_MT
                   then resolve_serial_send_source env dest tx else None)
      in case stick of
           Some s \<Rightarrow> send_via_stick env s text dest channel ack tx
         | None \<Rightarrow>
             if \<not> meshtastic_enabled tx then (Some (failure [] ''Meshtastic TX not available''), [], tx)
             else
               let (pid, tx1) = next_packet_id tx;
                   (ch, key) = resolve_channel channel tx1;
                   ch1 = (case echo_hash of Some e \<Rightarrow> e | None \<Rightarrow> ch);
                   (pub, tx2) =
                     (case tx_crypto tx1 of
                        Some cs \<Rightarrow>
                          if dest \<noteq> BROADCAST_ADDR_MT
                          then (let (k, cs1) = lookup_public_key (te_db env) dest cs in (k, tx1\<lparr>tx_crypto := Some cs1\<rparr>))
                          else (None, tx1)
                      | None \<Rightarrow> (None, tx1));
                   hops = configured_hop_limit tx2;
                   tp = \<lparr>tp_channel_key = key, tp_channel_hash = ch1, tp_hop_limit = hops, tp_hop_start = hops,
                         tp_recipient_public_key = pub\<rparr>
               in send_or_report env
                    (with_crypto (build_text_message L (te_extra_nonce env) text dest (tx_source_node_id tx2) pid ack tp) tx2)
                    pid (failure (fmt_x 8 pid) ''Packet build failed'') tx2)"

definition recipient_pubkey_for_reply :: "tx_env \<Rightarrow> packet \<Rightarrow> int \<Rightarrow> txs \<Rightarrow> bytes option \<times> txs" where
  "recipient_pubkey_for_reply env original requester tx =
     (if channel_hash original \<noteq> 0 then (None, tx)
      else (case tx_crypto tx of
          None \<Rightarrow> (None, tx)
        | Some cs \<Rightarrow>
            (case lookup_public_key (te_db env) requester cs of
               (Some k, cs1) \<Rightarrow> (Some k, tx\<lparr>tx_crypto := Some cs1\<rparr>)
             | (None, cs1) \<Rightarrow>
                 (let (k, cs2) = refresh_public_key_from_db (te_db' env) requester cs1 in
                  (k, tx\<lparr>tx_crypto := Some cs2\<rparr>)))))"

text \<open>The part the three unicast replies share: ids of the request, a new packet id, the key of the request's
  channel, the requester's public key for a sealed request, the hop fields.\<close>

definition reply_setup :: "tx_env \<Rightarrow> packet \<Rightarrow> int \<Rightarrow> txs \<Rightarrow> int \<times> tx_params \<times> bool \<times> txs" where
  "reply_setup env original requester tx =
     (let (pid, tx1) = next_packet_id tx;
          ch = channel_hash original;
          key = snd (resolve_channel_by_hash ch tx1);
          (pub, tx2) = recipient_pubkey_for_reply env original requester tx1;
          (hl, hs) = reply_hop_fields (hop_limit original) (hop_start original) (configured_hop_limit tx2)
      in (pid, \<lparr>tp_channel_key = key, tp_channel_hash = ch, tp_hop_limit = hl, tp_hop_start = hs,
               tp_recipient_public_key = pub\<rparr>, ch = 0 \<and> pub = None, tx2))"

definition send_routing_ack :: "crypto_lib \<Rightarrow> tx_env \<Rightarrow> packet \<Rightarrow> txs \<Rightarrow> send_outcome" where
  "send_routing_ack L env original tx =
     (if \<not> meshtastic_enabled tx then (Some (failure [] ''TX unavailable''), [], tx)
      else (case (py_int16 (packet_id original), py_int16 (source_id original)) of
          (Some request_id, Some dest) \<Rightarrow>
            let (pid, tp, no_key, tx1) = reply_setup env original dest tx in
            if no_key then (Some (failure [] ''No public_key for PKI routing ACK recipient''), [], tx1)
            else send_or_report env
                   (with_crypto (build_routing_ack L (te_extra_nonce env) (tx_source_node_id tx1) dest pid request_id tp) tx1)
                   pid (failure [] ''ACK build failed'') tx1
        | _ \<Rightarrow> (Some (failure [] ''Invalid packet ids''), [], tx)))"

text \<open>The fields of a traceroute answer. List entries that are not of the types the decoder produces are skipped.\<close>

fun int_of_hex_value :: "pyval \<Rightarrow> int option" where
  "int_of_hex_value (PStr s) = (if list_all (\<lambda>c. c < 128) s then py_int16 (map char_of s) else None)"
| "int_of_hex_value _ = None"

fun int_of_value :: "pyval \<Rightarrow> int option" where
  "int_of_value (PInt i) = Some i"
| "int_of_value (PFloat r) = Some (py_trunc r)"
| "int_of_value (PBool b) = Some (if b then 1 else 0)"
| "int_of_value _ = None"

fun value_items :: "pyval \<Rightarrow> pyval list" where
  "value_items (PList xs) = xs"
| "value_items _ = []"

definition build_traceroute_reply_data :: "packet \<Rightarrow> rat option \<Rightarrow> int \<Rightarrow> route_out" where
  "build_traceroute_reply_data original rx_snr requester =
     (let payload = (case decoded_payload original of None \<Rightarrow> [] | Some d \<Rightarrow> d);
          encoded = map_option (\<lambda>s. round_half_even (s * 4)) rx_snr
      in \<lparr>ro_route = List.map_filter int_of_hex_value (value_items (dget ''route'' payload)),
          ro_snr_towards = List.map_filter int_of_value (value_items (dget ''snr_towards'' payload)) @
            (case encoded of Some e \<Rightarrow> [e] | None \<Rightarrow> []),
          ro_route_back = [requester],
          ro_snr_back = (case encoded of Some e \<Rightarrow> [e] | None \<Rightarrow> [])\<rparr>)"

definition send_traceroute_reply :: "crypto_lib \<Rightarrow> pb_out \<Rightarrow> tx_env \<Rightarrow> packet \<Rightarrow> txs \<Rightarrow> send_outcome" where
  "send_traceroute_reply L PO env original tx =
     (if \<not> meshtastic_enabled tx then (Some (failure [] ''TX unavailable''), [], tx)
      else (case (py_int16 (source_id original), py_int16 (packet_id original)) of
          (Some requester, Some request_id) \<Rightarrow>
            let ro = build_traceroute_reply_data original (map_option snr (signal original)) requester;
                (pid, tp, no_key, tx1) = reply_setup env original requester tx in
            if no_key then (Some (failure [] ''No public_key for PKI traceroute reply recipient''), [], tx1)
            else send_or_report env
                   (with_crypto (build_traceroute_reply L PO (te_extra_nonce env) (tx_source_node_id tx1) requester pid ro request_id tp) tx1)
                   pid (failure [] ''Traceroute build failed'') tx1
        | _ \<Rightarrow> (Some (failure [] ''Invalid source id''), [], tx)))"

text \<open>A broadcast of this node on its primary channel.\<close>

definition primary_params :: "txs \<Rightarrow> tx_params" where
  "primary_params tx =
     (let (ch, key) = resolve_channel 0 tx; hops = configured_hop_limit tx in
      \<lparr>tp_channel_key = key, tp_channel_hash = ch, tp_hop_limit = hops, tp_hop_start = hops,
       tp_recipient_public_key = None\<rparr>)"

definition send_telemetry :: "crypto_lib \<Rightarrow> pb_out \<Rightarrow> tx_env \<Rightarrow> device_metrics \<Rightarrow> txs \<Rightarrow> send_outcome" where
  "send_telemetry L PO env dm tx =
     (if \<not> meshtastic_enabled tx then (Some (failure [] ''TX unavailable''), [], tx)
      else
        let (pid, tx1) = next_packet_id tx in
        send_or_report env (with_crypto (build_telemetry L PO (tx_source_node_id tx1) pid dm (primary_params tx1)) tx1)
          pid (failure [] ''Telemetry build failed'') tx1)"

definition default_metrics :: device_metrics where
  "default_metrics = \<lparr>dm_battery_level = 101, dm_voltage = 5, dm_channel_utilization = 0, dm_air_util_tx = 0,
     dm_uptime_seconds = 0\<rparr>"

definition default_stats :: stats_out where
  "default_stats = \<lparr>so_uptime_seconds = 0, so_channel_utilization = 0, so_air_util_tx = 0, so_num_packets_tx = 0,
     so_num_packets_rx = 0, so_num_packets_rx_bad = 0, so_num_online_nodes = 0, so_num_total_nodes = 0,
     so_num_tx_relay = 0, so_noise_floor = None\<rparr>"

definition send_telemetry_reply :: "crypto_lib \<Rightarrow> pb_out \<Rightarrow> tx_env \<Rightarrow> packet \<Rightarrow> txs \<Rightarrow> send_outcome" where
  "send_telemetry_reply L PO env original tx =
     (if \<not> meshtastic_enabled tx then (Some (failure [] ''TX unavailable''), [], tx)
      else (case (py_int16 (source_id original), py_int16 (packet_id original)) of
          (Some requester, Some request_id) \<Rightarrow>
            let payload = (case decoded_payload original of None \<Rightarrow> [] | Some d \<Rightarrow> d);
                variant = (if dget_or ''telemetry_variant'' (pstr ''device_metrics'') payload = pstr ''local_stats''
                           then ''local_stats'' else ''device_metrics'');
                dm = (case tx_device_metrics tx of Some m \<Rightarrow> m | None \<Rightarrow> default_metrics);
                so = (case tx_local_stats tx of Some s \<Rightarrow> s | None \<Rightarrow> default_stats);
                (pid, tp, no_key, tx1) = reply_setup env original requester tx in
            if no_key then (Some (failure [] ''No public_key for PKI telemetry reply recipient''), [], tx1)
            else send_or_report env
                   (with_crypto (build_telemetry_reply L PO (te_extra_nonce env) (tx_source_node_id tx1) requester pid request_id
                      variant dm so (te_telemetry_time env) tp) tx1)
                   pid (failure [] ''Telemetry reply build failed'') tx1
        | _ \<Rightarrow> (Some (failure [] ''Invalid source id''), [], tx)))"

definition send_position :: "crypto_lib \<Rightarrow> pb_out \<Rightarrow> tx_env \<Rightarrow> rat \<Rightarrow> rat \<Rightarrow> rat option \<Rightarrow> txs \<Rightarrow> send_outcome" where
  "send_position L PO env lat lon alt tx =
     (if \<not> meshtastic_enabled tx then (Some (failure [] ''TX unavailable''), [], tx)
      else
        let (pid, tx1) = next_packet_id tx in
        send_or_report env (with_crypto (build_position L PO (tx_source_node_id tx1) pid lat lon alt (primary_params tx1)) tx1)
          pid (failure [] ''Position build failed'') tx1)"

section \<open>Channels\<close>

lemma py_nth_mem: "py_nth xs i = Some x \<Longrightarrow> x \<in> set xs"
  by (auto simp: py_nth_def Let_def split: if_splits)

lemma resolve_channel_good:
  assumes "crypto_inv cs" "tx_crypto tx = Some cs" "resolve_channel c tx = (h, Some k)"
  shows "good_key k" "0 \<le> h" "h < 256"
proof -
  obtain name where name: "compute_channel_hash name k = Some h"
      "k \<in> set (get_all_keys cs) \<or> (name, k) \<in> set (cs_keys cs)"
    using assms(2,3) by (fastforce simp: resolve_channel_def Let_def dest: py_nth_mem split: option.splits if_splits prod.splits)
  then show "good_key k" using get_all_keys_good [OF assms(1)] assms(1) by (auto simp: crypto_inv_def)
  show "0 \<le> h" "h < 256" using name(1) uint_byte_less by (auto simp: compute_channel_hash_def)
qed

text \<open>The loop finds a named channel with the wanted hash, or there is none.\<close>

lemma by_hash_loop_spec:
  assumes "by_hash_loop ch all i chans = Some r" "\<forall>j < length chans. i + j < length all \<and> all ! (i + j) = snd (chans ! j)"
  shows "case r of
      Some k \<Rightarrow> \<exists>name. (name, k) \<in> set chans \<and> compute_channel_hash name k = Some ch
    | None \<Rightarrow> \<forall>(name, k) \<in> set chans. compute_channel_hash name k \<noteq> Some ch"
  using assms
proof (induction chans arbitrary: i)
  case Nil
  then show ?case by simp
next
  case (Cons c chans)
  obtain name key where c: "c = (name, key)" by (cases c) auto
  have i: "i < length all" "all ! i = key" using Cons.prems(2) c by (auto dest: spec [of _ 0])
  have tail: "\<forall>j < length chans. (i + 1) + j < length all \<and> all ! ((i + 1) + j) = snd (chans ! j)"
    using Cons.prems(2) by (auto dest: spec [of _ "Suc _"])
  show ?case
  proof (cases "compute_channel_hash name key = Some ch")
    case True
    then show ?thesis using Cons.prems(1) c i by auto
  next
    case False
    then have "by_hash_loop ch all (i + 1) chans = Some r"
      using Cons.prems(1) c i by (auto split: option.splits if_splits)
    then show ?thesis using Cons.IH [OF _ tail] False c by (auto split: option.splits)
  qed
qed


section \<open>What leaves the gateway\<close>

lemma send_or_report_outs:
  assumes "send_or_report env built pid rep tx = (r, outs, tx1)" "x \<in> set outs"
  obtains bs pkt where "built = Some (Some bs)" "x = HalFrame pkt" "build_hal_packet bs tx = Some pkt"
proof -
  obtain bs out where b: "built = Some (Some bs)" and t: "transmit_frame env bs tx = (out, outs, tx1)"
    using assms by (auto simp: send_or_report_def send_built_packet_def split: option.splits prod.splits)
  from t show ?thesis
    by (cases rule: transmit_frame_cases) (use assms(2) b that in auto)
qed

lemma send_or_report_total: "\<exists>r outs tx1. send_or_report env built pid rep tx = (r, outs, tx1)"
  by (cases "send_or_report env built pid rep tx") auto

lemma next_packet_id_frame:
  "next_packet_id tx = (pid, tx1) \<Longrightarrow> u32 pid \<and> tx1 = tx\<lparr>tx_packet_counter := pid\<rparr>"
  by (auto simp: next_packet_id_def Let_def u32_def)

lemma resolve_channel_counter [simp]:
  "resolve_channel c (tx\<lparr>tx_packet_counter := n\<rparr>) = resolve_channel c tx"
  by (cases "tx_crypto tx") (simp_all add: resolve_channel_def cong: if_cong)


section \<open>Properties\<close>

text \<open>C5: what the gateway broadcasts is what its peers read: when a text whose serialised form has at most 240 bytes
  is broadcast on a channel with a key, with a hop limit of 0 to 7, every frame handed to the radio decodes, at any
  gateway that holds the channel's key and no earlier key that also decodes the frame, to a text packet with the same
  text and this gateway's node id as source. Longer texts do not fit the radio's buffer and are cut.\<close>

theorem broadcast_text_is_received:
  assumes "aes_lib L" "reads_data PB" "tx_crypto tx = Some cs" "crypto_reach cs" "resolve_channel channel tx = (ch, Some k)"
    and "resolve_destination dst = BROADCAST_ADDR_MT" "utf8_encode text = Some bs" "length (serialize_data 1 bs 0) \<le> 240"
    and "u32 (tx_source_node_id tx)" "0 \<le> configured_hop_limit tx" "configured_hop_limit tx \<le> 7"
    and "send_meshtastic L env text dst channel ack None tx = (r, outs, tx1)" "HalFrame pkt \<in> set outs"
    and "raw = take (nat (hp_size pkt)) (hp_payload pkt)"
    and "j < length (get_all_keys rx)" "get_all_keys rx ! j = k"
    and "\<forall>m < j. key_payload L PB (the (parse_header (take 16 raw))) (drop 16 raw) rx (get_all_keys rx ! m) = None"
  shows "\<exists>p. decode L PB db db' now our raw sig None rx = Some (Some p, rx) \<and> decrypted p \<and> packet_type p = TEXT \<and>
    decoded_payload p = Some [(''text'', PStr text)] \<and> source_id p = fmt_x 8 (tx_source_node_id tx) \<and>
    matched_channel_index p = Some j"
proof -
  obtain pid txp where n: "next_packet_id tx = (pid, txp)" by (cases "next_packet_id tx") auto
  then have pid: "u32 pid" and txp: "txp = tx\<lparr>tx_packet_counter := pid\<rparr>" using next_packet_id_frame by blast+
  let ?tp = "\<lparr>tp_channel_key = Some k, tp_channel_hash = ch, tp_hop_limit = configured_hop_limit tx,
      tp_hop_start = configured_hop_limit tx, tp_recipient_public_key = None\<rparr>"
  let ?inner = "serialize_data 1 bs 0" and ?src = "tx_source_node_id tx"
  note good = resolve_channel_good [OF crypto_reach_inv [OF assms(4)] assms(3,5)]
  have tp: "params_ok ?tp" using good assms(10,11) by (simp add: params_ok_def)
  have hash: "on_air_hash ?tp = ch" by (simp add: on_air_hash_def given_def)
  have "BROADCAST_ADDR_MT = BROADCAST_ADDR" by (simp add: BROADCAST_ADDR_MT_def BROADCAST_ADDR_def)
  then have dest: "u32 BROADCAST_ADDR_MT" by (simp add: u32_def BROADCAST_ADDR_def)
  obtain fr where fr: "finish_unicast L (te_extra_nonce env) ?inner BROADCAST_ADDR_MT ?src pid ack ?tp cs = Some (Some fr)"
      "length fr = length ?inner + 16"
      "parse_header (take 16 fr) = Some (frame_header BROADCAST_ADDR_MT ?src pid ack ch ?tp)"
      "\<And>rx. decrypt_meshtastic L (drop 16 fr) pid ?src (Some k) rx = Some (Some ?inner)"
    using finish_unicast_channel [OF assms(1) dest assms(9) pid tp, of cs k "te_extra_nonce env" ?inner ack] good(1)
    unfolding hash by (auto simp: use_key_def given_def)
  have en: "meshtastic_enabled tx" and snd: "send_or_report env (Some (Some fr)) pid (failure (fmt_x 8 pid) ''Packet build failed'') txp = (r, outs, tx1)"
    using assms(3,5,6,7,12,13) n fr(1) unfolding txp
    by (auto simp: send_meshtastic_def Let_def with_crypto_def build_text_message_def configured_hop_limit_def split: if_splits option.splits)
  from send_or_report_outs [OF snd assms(13)] have "build_hal_packet fr txp = Some pkt" by auto
  then have raw: "raw = fr" using build_hal_packet_payload(2) fr(2) assms(8,14) by simp
  have dp: "decode_payload PB ?inner = (Some [(''text'', PStr text)], TEXT, or_nothing bs, 0)"
    using decode_payload_serialized [OF assms(2), of 1 bs 0] length_serialize_data_payload [of bs 1 0] assms(8) utf8_roundtrip [OF assms(7)]
    by (simp add: u32_def dispatch_text port_type_def)
  let ?h = "frame_header BROADCAST_ADDR_MT ?src pid ack ch ?tp"
  have np: "\<not> is_pki_packet (mh_channel_hash ?h) (mh_dest_id ?h) our (length fr - 16)"
    by (simp add: is_pki_packet_def frame_header_def BROADCAST_ADDR_MT_def)
  have h: "mh_packet_id ?h = pid" "mh_source_id ?h = ?src" by (simp_all add: frame_header_def)
  show ?thesis
    using decode_channel_frame [OF fr(3) _ np assms(15) _ _ dp, where L = L and db = db and db' = db' and now = now and sig = sig]
      assms(16,17) fr(2-4) h unfolding raw by auto
qed

definition demo_key2 :: bytes where
  "demo_key2 = [7, 7, 7, 7, 7, 7, 7, 7, 1, 2, 3, 4, 1, 2, 3, 4]"

lemmas demo_hashes = compute_channel_hash_def utf8_encode_lit xor_all_def MESHTASTIC_DEFAULT_PSK_def demo_key2_def

lemma demo_channel: "resolve_channel 0 (demo_txs\<lparr>tx_packet_counter := n\<rparr>) = (8, Some MESHTASTIC_DEFAULT_PSK)"
proof -
  have "compute_channel_hash (lit ''LongFast'') MESHTASTIC_DEFAULT_PSK = Some 8" by (simp add: demo_hashes)
  then show ?thesis by (simp add: resolve_channel_def demo_txs_def demo_keys py_nth_def)
qed

lemma demo_build:
  "\<exists>fr. build_text_message toy_lib 7 (lit ''hi'') BROADCAST_ADDR_MT 5 42 False
     \<lparr>tp_channel_key = Some MESHTASTIC_DEFAULT_PSK, tp_channel_hash = 8, tp_hop_limit = 3, tp_hop_start = 3,
      tp_recipient_public_key = None\<rparr> demo_crypto = Some (Some fr)"
  (is "\<exists>fr. build_text_message _ _ _ _ _ _ _ ?tp _ = _")
proof -
  have u: "utf8_encode (lit ''hi'') = Some [104, 105]" using utf8_encode_lit [of "''hi''"] by simp
  have ok: "params_ok ?tp" "u32 BROADCAST_ADDR_MT" "u32 5" "u32 42" by (simp_all add: params_ok_def u32_def BROADCAST_ADDR_MT_def)
  have "use_key (Some MESHTASTIC_DEFAULT_PSK) demo_crypto = Some MESHTASTIC_DEFAULT_PSK" by (simp add: use_key_def)
  then have "\<exists>fr. finish_unicast toy_lib 7 (serialize_data 1 [104, 105] 0) BROADCAST_ADDR_MT 5 42 False ?tp demo_crypto = Some (Some fr)"
    using finish_unicast_channel [OF toy_lib_ok ok(2-4) ok(1), of demo_crypto MESHTASTIC_DEFAULT_PSK 7 "serialize_data 1 [104, 105] 0" False] demo_keys(2)
    by (simp add: given_def) blast
  then show ?thesis using u by (simp add: build_text_message_def)
qed

lemma demo_transmit_counter:
  "\<exists>pkt tx1. transmit_frame demo_env bs (demo_txs\<lparr>tx_packet_counter := n\<rparr>) = (Sent 400, [HalFrame pkt], tx1)"
  by (simp add: transmit_frame_def transmit_begin_def transmit_end_def build_hal_packet_def get_airtime_def demo_txs_def demo_env_def check_budget_def
      duty_init_def prune_expired_def airtime_sum_def percent_of_window_def)

lemma demo_broadcast:
  "\<exists>r pkt tx1. send_meshtastic toy_lib demo_env (lit ''hi'') (DestInt 0) 0 False None demo_txs = (r, [HalFrame pkt], tx1)"
proof -
  obtain fr where fr: "build_text_message toy_lib 7 (lit ''hi'') BROADCAST_ADDR_MT 5 42 False
     \<lparr>tp_channel_key = Some MESHTASTIC_DEFAULT_PSK, tp_channel_hash = 8, tp_hop_limit = 3, tp_hop_start = 3,
      tp_recipient_public_key = None\<rparr> demo_crypto = Some (Some fr)" using demo_build by blast
  let ?tx = "demo_txs\<lparr>tx_packet_counter := 42\<rparr>"
  obtain pkt tx1 where t: "transmit_frame demo_env fr ?tx = (Sent 400, [HalFrame pkt], tx1)"
    using demo_transmit_counter by blast
  have f: "next_packet_id demo_txs = (42, ?tx)" "meshtastic_enabled demo_txs" "tx_source_node_id ?tx = 5" "configured_hop_limit ?tx = 3"
      "tx_crypto ?tx = Some demo_crypto" "te_extra_nonce demo_env = 7"
    by (simp_all add: next_packet_id_def meshtastic_enabled_def configured_hop_limit_def demo_txs_def demo_env_def)
  show ?thesis using fr t demo_channel [of 42]
    by (simp add: send_meshtastic_def Let_def f send_or_report_def with_crypto_def send_built_packet_def)
qed

theorem broadcast_text_is_received_witness:
  "\<exists>r pkt tx1 p. send_meshtastic toy_lib demo_env (lit ''hi'') (DestInt 0) 0 False None demo_txs = (r, [HalFrame pkt], tx1) \<and>
     decode toy_lib wire_lib (\<lambda>_. None) (\<lambda>_. None) 0 None (take (nat (hp_size pkt)) (hp_payload pkt)) None None demo_crypto =
       Some (Some p, demo_crypto) \<and> decoded_payload p = Some [(''text'', PStr (lit ''hi''))]"
proof -
  obtain r pkt tx1 where s: "send_meshtastic toy_lib demo_env (lit ''hi'') (DestInt 0) 0 False None demo_txs = (r, [HalFrame pkt], tx1)"
    using demo_broadcast by blast
  have u: "utf8_encode (lit ''hi'') = Some [104, 105]" using utf8_encode_lit [of "''hi''"] by simp
  have l: "length (serialize_data 1 [104, 105] 0) \<le> 240" by code_simp
  have f: "tx_crypto demo_txs = Some demo_crypto" "u32 (tx_source_node_id demo_txs)" "configured_hop_limit demo_txs = 3"
    by (simp_all add: demo_txs_def u32_def configured_hop_limit_def)
  have c: "resolve_channel 0 demo_txs = (8, Some MESHTASTIC_DEFAULT_PSK)"
    using demo_channel [of 0] by simp
  from broadcast_text_is_received [OF toy_lib_ok wire_lib_reads_data f(1) demo_reach c _ u l f(2) _ _ s _ refl, of pkt 0 demo_crypto
      "\<lambda>_. None" "\<lambda>_. None" 0 None None] s f(3)
  show ?thesis by (auto simp: demo_keys)
qed

text \<open>A gateway whose transmission is switched off sends nothing: no method hands anything to the concentrator
  or to a USB stick.\<close>

lemma disabled_sends_nothing:
  assumes "case tx_config tx of None \<Rightarrow> True | Some c \<Rightarrow> \<not> tc_enabled c"
  shows "fst (snd (send_meshtastic L env text dst channel ack echo tx)) = [] \<and>
    fst (snd (send_nodeinfo L env lname sname hw tx)) = [] \<and> fst (snd (send_routing_ack L env original tx)) = [] \<and>
    fst (snd (send_traceroute_reply L PO env original tx)) = [] \<and> fst (snd (send_telemetry L PO env dm tx)) = [] \<and>
    fst (snd (send_telemetry_reply L PO env original tx)) = [] \<and> fst (snd (send_position L PO env lat lon alt tx)) = [] \<and>
    fst (snd (send_raw_relay env raw tx)) = []"
proof -
  have "\<not> meshtastic_enabled tx" "(case tx_config tx of None \<Rightarrow> False | Some c \<Rightarrow> tc_enabled c) = False"
    using assms by (auto simp: meshtastic_enabled_def split: option.splits)
  then show ?thesis
    by (simp add: send_meshtastic_def send_nodeinfo_def send_routing_ack_def send_traceroute_reply_def send_telemetry_def
        send_telemetry_reply_def send_position_def send_raw_relay_def)
qed

lemma disabled_sends_nothing_witness:
  "fst (snd (send_raw_relay demo_env demo_raw (demo_txs\<lparr>tx_config := None\<rparr>))) = []"
  using disabled_sends_nothing [of "demo_txs\<lparr>tx_config := None\<rparr>" _ demo_env _ _ _ _ _ _ _ _ _ _ _ _ _ _ demo_raw] by simp

text \<open>With a default key in the ring, the key a reply is encrypted with belongs to the channel the request came on:
  it is the key of a channel (the primary one first) whose name and key give the on-air hash, or the default key
  when there is no such channel.\<close>

lemma reply_key_matches_hash:
  assumes "tx_crypto tx = Some cs" "cs_default_key cs = Some dk" "dk \<noteq> []" "resolve_channel_by_hash ch tx = (ch', Some k)"
  shows "ch' = ch \<and>
    (compute_channel_hash (tx_primary_channel_name tx) dk = Some ch \<and> k = dk \<or>
     (\<exists>name. (name, k) \<in> set (cs_keys cs) \<and> compute_channel_hash name k = Some ch) \<or>
     k = dk \<and> (\<forall>(name, key) \<in> set (cs_keys cs). compute_channel_hash name key \<noteq> Some ch))"
proof -
  have keys: "get_all_keys cs = dk # map snd (cs_keys cs)"
    using assms(2,3) by (cases dk) (simp_all add: get_all_keys_def)
  have ch: "ch' = ch"
    using assms(1,4) by (simp add: resolve_channel_by_hash_def Let_def split: option.splits)
  obtain ph where ph: "compute_channel_hash (tx_primary_channel_name tx) dk = Some ph"
    using assms(1,4) by (cases "compute_channel_hash (tx_primary_channel_name tx) dk") (simp_all add: resolve_channel_by_hash_def keys)
  show ?thesis
  proof (cases "ph = ch")
    case True
    then show ?thesis using assms(1,4) ph by (simp add: resolve_channel_by_hash_def keys)
  next
    case False
    obtain found where f: "by_hash_loop ch (get_all_keys cs) 1 (cs_keys cs) = Some found"
        "k = (case found of Some k \<Rightarrow> k | None \<Rightarrow> dk)"
      using assms(1,4) ph False by (auto simp: resolve_channel_by_hash_def keys Let_def split: option.splits Option.bind_splits)
    have "\<forall>j < length (cs_keys cs). 1 + j < length (get_all_keys cs) \<and> get_all_keys cs ! (1 + j) = snd (cs_keys cs ! j)"
      by (simp add: keys)
    from by_hash_loop_spec [OF f(1) this] show ?thesis using f(2) ch by (auto split: option.splits)
  qed
qed


definition demo_ring :: txs where
  "demo_ring = demo_txs\<lparr>tx_crypto := Some (demo_crypto\<lparr>cs_keys := [(lit ''Ops'', demo_key2)]\<rparr>)\<rparr>"

lemma demo_ring_resolves: "resolve_channel_by_hash 76 demo_ring = (76, Some demo_key2)"
proof -
  have "compute_channel_hash (lit ''Ops'') demo_key2 = Some 76" "compute_channel_hash (lit ''LongFast'') MESHTASTIC_DEFAULT_PSK = Some 8"
    by (simp_all add: demo_hashes)
  moreover have "get_all_keys (demo_crypto\<lparr>cs_keys := [(lit ''Ops'', demo_key2)]\<rparr>) = [MESHTASTIC_DEFAULT_PSK, demo_key2]"
    by (simp add: get_all_keys_def demo_crypto_eq) (simp add: MESHTASTIC_DEFAULT_PSK_def)
  moreover have "tx_crypto demo_ring = Some (demo_crypto\<lparr>cs_keys := [(lit ''Ops'', demo_key2)]\<rparr>)"
      "tx_primary_channel_name demo_ring = lit ''LongFast''" by (simp_all add: demo_ring_def demo_txs_def)
  ultimately show ?thesis by (simp add: resolve_channel_by_hash_def Let_def)
qed

lemma reply_key_matches_hash_witness:
  "resolve_channel_by_hash 76 demo_ring = (76, Some demo_key2) \<and>
     (compute_channel_hash (lit ''LongFast'') MESHTASTIC_DEFAULT_PSK = Some 76 \<and> demo_key2 = MESHTASTIC_DEFAULT_PSK \<or>
      compute_channel_hash (lit ''Ops'') demo_key2 = Some 76 \<or> demo_key2 = MESHTASTIC_DEFAULT_PSK)"
  using demo_ring_resolves
    reply_key_matches_hash [of demo_ring "demo_crypto\<lparr>cs_keys := [(lit ''Ops'', demo_key2)]\<rparr>" MESHTASTIC_DEFAULT_PSK 76 76 demo_key2]
  by (auto simp: demo_ring_def demo_txs_def demo_crypto_eq MESHTASTIC_DEFAULT_PSK_def)

text \<open>Without a default key in the ring the lookup by hash is off by one: the names are paired with the
  following key, so a request on the second of two channels is answered with the key of the first.\<close>

lemma reply_key_misaligned:
  assumes "tx_crypto tx = Some cs" "cs_default_key cs = None" "cs_keys cs = [(a, ka), (b, kb)]"
    and "compute_channel_hash (tx_primary_channel_name tx) ka = Some h0" "h0 \<noteq> ch"
    and "compute_channel_hash a kb = Some h1" "h1 \<noteq> ch" "compute_channel_hash b kb = Some ch"
  shows "resolve_channel_by_hash ch tx = (ch, Some ka)"
  using assms by (simp add: resolve_channel_by_hash_def get_all_keys_def)

lemma reply_key_misaligned_witness:
  "resolve_channel_by_hash 76 (demo_txs\<lparr>tx_crypto := Some (demo_crypto\<lparr>cs_default_key := None,
      cs_keys := [(lit ''Home'', [1, 2, 3, 4, 5, 6, 7, 8, 1, 2, 3, 4, 5, 6, 7, 9]), (lit ''Ops'', demo_key2)]\<rparr>)\<rparr>) = (76, Some [1, 2, 3, 4, 5, 6, 7, 8, 1, 2, 3, 4, 5, 6, 7, 9])"
proof -
  have "compute_channel_hash (lit ''LongFast'') [1, 2, 3, 4, 5, 6, 7, 8, 1, 2, 3, 4, 5, 6, 7, 9] = Some 11" "compute_channel_hash (lit ''Home'') demo_key2 = Some 47"
      "compute_channel_hash (lit ''Ops'') demo_key2 = Some 76" by (simp_all add: demo_hashes)
  then show ?thesis
    using reply_key_misaligned [of _ "demo_crypto\<lparr>cs_default_key := None,
      cs_keys := [(lit ''Home'', [1, 2, 3, 4, 5, 6, 7, 8, 1, 2, 3, 4, 5, 6, 7, 9]), (lit ''Ops'', demo_key2)]\<rparr>" "lit ''Home''" "[1, 2, 3, 4, 5, 6, 7, 8, 1, 2, 3, 4, 5, 6, 7, 9]" "lit ''Ops''" demo_key2 11 76 47]
    by (simp add: demo_txs_def)
qed

end
