(* ===== verification/Inbound_Handler.thy ===== *)
theory Inbound_Handler
  imports Tx_Messages
begin

text \<open>
  \<^verbatim>\<open>src/src/transmit/meshtastic_inbound_handler.py\<close>: the automatic answers to packets addressed to this gateway. The
  Boolean of the result is \<^const>\<open>False\<close> when the send method raises.
\<close>

definition should_handle_inbound :: "packet \<Rightarrow> string \<Rightarrow> bool" where
  "should_handle_inbound p our_node_hex \<longleftrightarrow>
     protocol p = MESHTASTIC \<and> decrypted p \<and> lower (source_id p) \<noteq> our_node_hex \<and> lower (destination_id p) = our_node_hex"

definition answered :: "send_outcome \<Rightarrow> bool \<times> radio_out list \<times> txs" where
  "answered out = (case out of (r, outs, tx) \<Rightarrow> (r \<noteq> None, outs, tx))"

definition handle_inbound ::
    "crypto_lib \<Rightarrow> pb_out \<Rightarrow> tx_env \<Rightarrow> int \<Rightarrow> packet \<Rightarrow> txs \<Rightarrow> bool \<times> radio_out list \<times> txs" where
  "handle_inbound L PO env our_node_id p tx =
     (let our_node_hex = fmt_x 8 our_node_id in
      if protocol p \<noteq> MESHTASTIC \<or> \<not> decrypted p then (True, [], tx)
      else if lower (source_id p) = our_node_hex then (True, [], tx)
      else if lower (destination_id p) \<noteq> our_node_hex then (True, [], tx)
      else if packet_type p = TRACEROUTE then answered (send_traceroute_reply L PO env p tx)
      else if packet_type p = TELEMETRY then answered (send_telemetry_reply L PO env p tx)
      else if packet_type p = TEXT \<and> want_ack p then answered (send_routing_ack L env p tx)
      else (True, [], tx))"


section \<open>The frames of a reply\<close>

lemma build_header_ids:
  assumes "build_header dest src pid hl hs ack mqtt ch = Some h"
  shows "length h = 16" "le_int (slice 0 4 h) = dest" "le_int (slice 4 8 h) = src" "le_int (slice 8 12 h) = pid"
  using assms by (auto simp: build_header_def Let_def pack_le_Some slice_def le_int_le_bytes split: Option.bind_splits)

lemma finish_unicast_ids:
  assumes "finish_unicast L extra inner dest src pid ack tp cs = Some (Some raw)"
  shows "16 \<le> length raw" "le_int (slice 0 4 raw) = dest" "le_int (slice 4 8 raw) = src"
proof -
  obtain c h where h: "build_header dest src pid (tp_hop_limit tp) (tp_hop_start tp) ack False (on_air_hash tp) = Some h"
      and raw: "raw = h @ c"
    using assms by (auto simp: finish_unicast_def split: Option.bind_splits option.splits)
  note i = build_header_ids [OF h]
  show "16 \<le> length raw" "le_int (slice 0 4 raw) = dest" "le_int (slice 4 8 raw) = src"
    using i raw by (simp_all add: slice_append_left)
qed

text \<open>The three replies end alike: an optional payload, then the unicast tail and the radio.\<close>

lemma reply_setup_identity:
  "reply_setup env original requester tx = (pid, tp, nk, tx1) \<Longrightarrow> tx_source_node_id tx1 = tx_source_node_id tx"
  by (auto simp: reply_setup_def recipient_pubkey_for_reply_def next_packet_id_def Let_def
      split: prod.splits if_splits option.splits)

lemma reply_frame:
  assumes "send_or_report env (with_crypto b tx) pid rep tx = (r, outs, tx1)" "x \<in> set outs"
    and "\<And>cs raw. b cs = Some (Some raw) \<Longrightarrow> \<exists>inner tp. finish_unicast L extra inner dest src pid False tp cs = Some (Some raw)"
  obtains pkt where "x = HalFrame pkt" "outs = [HalFrame pkt]" "le_int (slice 0 4 (hp_payload pkt)) = dest"
    "le_int (slice 4 8 (hp_payload pkt)) = src"
proof -
  obtain bs out where b: "with_crypto b tx = Some (Some bs)" and t: "transmit_frame env bs tx = (out, outs, tx1)"
    using assms(1,2) by (auto simp: send_or_report_def send_built_packet_def split: option.splits prod.splits)
  obtain cs where "b cs = Some (Some bs)" using b by (auto simp: with_crypto_def split: option.splits)
  from assms(3) [OF this] obtain inner tp where "finish_unicast L extra inner dest src pid False tp cs = Some (Some bs)" by blast
  note i = finish_unicast_ids [OF this]
  from t obtain pkt where p: "outs = [HalFrame pkt]" "build_hal_packet bs tx = Some pkt"
    by (cases rule: transmit_frame_cases) (use assms(2) in auto)
  then have "hp_payload pkt = take 256 bs @ replicate (256 - length bs) 0"
    by (auto simp: build_hal_packet_def split: option.splits)
  then have "slice a b (hp_payload pkt) = slice a b bs" if "b \<le> 16" for a b
    using that i(1) by (simp add: slice_def drop_take min_def) arith
  then show ?thesis using that p(1) assms(2) i(2,3) by auto
qed

lemma answered_outs: "snd (answered out) = snd out"
  by (simp add: answered_def split: prod.split)

lemma ack_frame:
  assumes "send_routing_ack L env p tx = (r, outs, tx1)" "x \<in> set outs"
  obtains pkt n where "x = HalFrame pkt" "outs = [HalFrame pkt]" "py_int16 (source_id p) = Some n"
    "le_int (slice 0 4 (hp_payload pkt)) = n" "le_int (slice 4 8 (hp_payload pkt)) = tx_source_node_id tx"
proof -
  obtain rid n pid tp tx0 where n: "py_int16 (source_id p) = Some n" and s: "reply_setup env p n tx = (pid, tp, False, tx0)"
    and o: "send_or_report env (with_crypto (build_routing_ack L (te_extra_nonce env) (tx_source_node_id tx0) n pid rid tp) tx0)
          pid (failure [] ''ACK build failed'') tx0 = (r, outs, tx1)"
    using assms by (auto simp: send_routing_ack_def Let_def split: if_splits option.splits prod.splits)
  show ?thesis
    by (rule reply_frame [OF o assms(2), of L "te_extra_nonce env" n "tx_source_node_id tx0"])
      (use that n reply_setup_identity [OF s] in \<open>auto simp: build_routing_ack_def\<close>)
qed

lemma traceroute_frame:
  assumes "send_traceroute_reply L PO env p tx = (r, outs, tx1)" "x \<in> set outs"
  obtains pkt n where "x = HalFrame pkt" "outs = [HalFrame pkt]" "py_int16 (source_id p) = Some n"
    "le_int (slice 0 4 (hp_payload pkt)) = n" "le_int (slice 4 8 (hp_payload pkt)) = tx_source_node_id tx"
proof -
  obtain rid n pid tp tx0 ro where n: "py_int16 (source_id p) = Some n" and s: "reply_setup env p n tx = (pid, tp, False, tx0)"
    and o: "send_or_report env (with_crypto (build_traceroute_reply L PO (te_extra_nonce env) (tx_source_node_id tx0) n pid ro rid tp) tx0)
          pid (failure [] ''Traceroute build failed'') tx0 = (r, outs, tx1)"
    using assms by (auto simp: send_traceroute_reply_def Let_def split: if_splits option.splits prod.splits)
  show ?thesis
    by (rule reply_frame [OF o assms(2), of L "te_extra_nonce env" n "tx_source_node_id tx0"])
      (use that n reply_setup_identity [OF s] in \<open>auto simp: build_traceroute_reply_def split: option.splits\<close>)
qed

lemma telemetry_frame:
  assumes "send_telemetry_reply L PO env p tx = (r, outs, tx1)" "x \<in> set outs"
  obtains pkt n where "x = HalFrame pkt" "outs = [HalFrame pkt]" "py_int16 (source_id p) = Some n"
    "le_int (slice 0 4 (hp_payload pkt)) = n" "le_int (slice 4 8 (hp_payload pkt)) = tx_source_node_id tx"
proof -
  obtain rid n pid tp tx0 v dm so where n: "py_int16 (source_id p) = Some n" and s: "reply_setup env p n tx = (pid, tp, False, tx0)"
    and o: "send_or_report env (with_crypto (build_telemetry_reply L PO (te_extra_nonce env) (tx_source_node_id tx0) n pid rid
          v dm so (te_telemetry_time env) tp) tx0) pid (failure [] ''Telemetry reply build failed'') tx0 = (r, outs, tx1)"
    using assms by (auto simp: send_telemetry_reply_def Let_def split: if_splits option.splits prod.splits)
  show ?thesis
    by (rule reply_frame [OF o assms(2), of L "te_extra_nonce env" n "tx_source_node_id tx0"])
      (use that n reply_setup_identity [OF s] in \<open>auto simp: build_telemetry_reply_def Let_def split: option.splits\<close>)
qed


section \<open>Properties\<close>

text \<open>C11: the gateway only answers packets meant for it, and answers the sender: whatever arrives, at most one frame is
  handed to the radio; when one is, the packet was a decrypted Meshtastic packet from another node addressed to this one,
  a traceroute, a telemetry message or a text that asks for an acknowledgement, and the frame's destination is
  the packet's source and its source this node's id.\<close>

theorem inbound_answers_sender:
  assumes "handle_inbound L PO env our p tx = (fin, outs, tx1)" "x \<in> set outs"
  shows "should_handle_inbound p (fmt_x 8 our) \<and>
    (packet_type p = TRACEROUTE \<or> packet_type p = TELEMETRY \<or> packet_type p = TEXT \<and> want_ack p) \<and>
    (\<exists>pkt n. outs = [HalFrame pkt] \<and> py_int16 (source_id p) = Some n \<and> le_int (slice 0 4 (hp_payload pkt)) = n \<and>
       le_int (slice 4 8 (hp_payload pkt)) = tx_source_node_id tx)"
proof -
  have sh: "should_handle_inbound p (fmt_x 8 our)"
    and ty: "packet_type p = TRACEROUTE \<or> packet_type p = TELEMETRY \<or> packet_type p = TEXT \<and> want_ack p"
    using assms by (auto simp: handle_inbound_def should_handle_inbound_def Let_def split: if_splits)
  have h: "handle_inbound L PO env our p tx =
      (if packet_type p = TRACEROUTE then answered (send_traceroute_reply L PO env p tx)
       else if packet_type p = TELEMETRY then answered (send_telemetry_reply L PO env p tx)
       else answered (send_routing_ack L env p tx))"
    using sh ty by (auto simp: handle_inbound_def should_handle_inbound_def)
  have "\<exists>pkt n. outs = [HalFrame pkt] \<and> py_int16 (source_id p) = Some n \<and> le_int (slice 0 4 (hp_payload pkt)) = n \<and>
       le_int (slice 4 8 (hp_payload pkt)) = tx_source_node_id tx"
  proof (cases "packet_type p = TRACEROUTE")
    case True
    then obtain r where "send_traceroute_reply L PO env p tx = (r, outs, tx1)"
      using h assms(1) by (auto simp: answered_def split: prod.splits)
    from traceroute_frame [OF this assms(2)] show ?thesis by metis
  next
    case nt: False
    show ?thesis
    proof (cases "packet_type p = TELEMETRY")
      case True
      then obtain r where "send_telemetry_reply L PO env p tx = (r, outs, tx1)"
        using h assms(1) by (auto simp: answered_def split: prod.splits)
      from telemetry_frame [OF this assms(2)] show ?thesis by metis
    next
      case False
      then obtain r where "send_routing_ack L env p tx = (r, outs, tx1)"
        using h nt assms(1) by (auto simp: answered_def split: prod.splits)
      from ack_frame [OF this assms(2)] show ?thesis by metis
    qed
  qed
  then show ?thesis using sh ty by blast
qed

definition demo_text :: packet where
  "demo_text = (default_packet ''0000002a'' ''00000009'' ''00000005'' MESHTASTIC TEXT 0)
     \<lparr>decrypted := True, want_ack := True, channel_hash := 8, hop_limit := 3, hop_start := 3\<rparr>"

lemma demo_ack_key: "resolve_channel_by_hash 8 (demo_txs\<lparr>tx_packet_counter := n\<rparr>) = (8, Some MESHTASTIC_DEFAULT_PSK)"
proof -
  have "compute_channel_hash (lit ''LongFast'') MESHTASTIC_DEFAULT_PSK = Some 8" by (simp add: demo_hashes)
  then show ?thesis by (simp add: resolve_channel_by_hash_def demo_txs_def demo_keys Let_def)
qed

lemma demo_setup:
  obtains hl hs where "reply_setup demo_env demo_text 9 demo_txs = (42, \<lparr>tp_channel_key = Some MESHTASTIC_DEFAULT_PSK,
      tp_channel_hash = 8, tp_hop_limit = hl, tp_hop_start = hs, tp_recipient_public_key = None\<rparr>, False,
      demo_txs\<lparr>tx_packet_counter := 42\<rparr>)" "0 \<le> hl" "hl \<le> hs" "hs \<le> 7"
proof -
  have n: "next_packet_id demo_txs = (42, demo_txs\<lparr>tx_packet_counter := 42\<rparr>)" by (simp add: next_packet_id_def demo_txs_def)
  have "reply_hop_fields 3 3 (configured_hop_limit (demo_txs\<lparr>tx_packet_counter := 42\<rparr>)) = (2, 2)"
    by (simp add: reply_hop_fields_def hop_limit_for_response_def hops_away_def configured_hop_limit_def demo_txs_def)
  moreover have "channel_hash demo_text = 8" "hop_limit demo_text = 3" "hop_start demo_text = 3"
    by (simp_all add: demo_text_def default_packet_def)
  ultimately have "reply_setup demo_env demo_text 9 demo_txs = (42, \<lparr>tp_channel_key = Some MESHTASTIC_DEFAULT_PSK,
      tp_channel_hash = 8, tp_hop_limit = 2, tp_hop_start = 2, tp_recipient_public_key = None\<rparr>, False,
      demo_txs\<lparr>tx_packet_counter := 42\<rparr>)"
    using n demo_ack_key [of 42] by (simp add: reply_setup_def recipient_pubkey_for_reply_def)
  then show ?thesis using that by fastforce
qed

lemma demo_ack: "\<exists>r pkt tx1. send_routing_ack toy_lib demo_env demo_text demo_txs = (r, [HalFrame pkt], tx1)"
proof -
  obtain hl hs where s: "reply_setup demo_env demo_text 9 demo_txs = (42, \<lparr>tp_channel_key = Some MESHTASTIC_DEFAULT_PSK,
      tp_channel_hash = 8, tp_hop_limit = hl, tp_hop_start = hs, tp_recipient_public_key = None\<rparr>, False,
      demo_txs\<lparr>tx_packet_counter := 42\<rparr>)" and hops: "0 \<le> hl" "hl \<le> hs" "hs \<le> 7" using demo_setup .
  let ?tp = "\<lparr>tp_channel_key = Some MESHTASTIC_DEFAULT_PSK, tp_channel_hash = 8, tp_hop_limit = hl, tp_hop_start = hs,
      tp_recipient_public_key = None\<rparr>" and ?tx = "demo_txs\<lparr>tx_packet_counter := 42\<rparr>"
  have ok: "params_ok ?tp" "u32 9" "u32 5" "u32 42" using hops by (simp_all add: params_ok_def u32_def)
  have "use_key (Some MESHTASTIC_DEFAULT_PSK) demo_crypto = Some MESHTASTIC_DEFAULT_PSK" by (simp add: use_key_def)
  then obtain fr where fr: "build_routing_ack toy_lib 7 5 9 42 42 ?tp demo_crypto = Some (Some fr)"
    using finish_unicast_channel [OF toy_lib_ok ok(2-4) ok(1), of demo_crypto MESHTASTIC_DEFAULT_PSK 7 "serialize_data 5 [] 42" False]
      demo_keys(2) by (simp add: build_routing_ack_def given_def) blast
  obtain pkt tx1 where t: "transmit_frame demo_env fr ?tx = (Sent 400, [HalFrame pkt], tx1)" using demo_transmit_counter by blast
  have "py_int16 (fmt_x 8 42) = Some 42" "py_int16 (fmt_x 8 9) = Some 9" by (rule py_int16_fmt_x, simp)+
  moreover have "fmt_x 8 42 = ''0000002a''" "fmt_x 8 9 = ''00000009''" by code_simp+
  ultimately have ids: "py_int16 (packet_id demo_text) = Some 42" "py_int16 (source_id demo_text) = Some 9"
    by (simp_all add: demo_text_def default_packet_def)
  have f: "meshtastic_enabled demo_txs" "tx_source_node_id ?tx = 5" "tx_crypto ?tx = Some demo_crypto" "te_extra_nonce demo_env = 7"
    by (simp_all add: meshtastic_enabled_def demo_txs_def demo_env_def)
  show ?thesis using ids s fr t
    by (simp add: send_routing_ack_def f send_or_report_def with_crypto_def send_built_packet_def)
qed

definition demo_pb_out :: pb_out where
  "demo_pb_out = \<lparr>ser_metrics = (\<lambda>_ _. None), ser_stats = (\<lambda>_ _. None), ser_position = (\<lambda>_ _ _. None), ser_route = (\<lambda>_. None)\<rparr>"

theorem inbound_answers_sender_witness:
  "\<exists>fin pkt tx1. handle_inbound toy_lib demo_pb_out demo_env 5 demo_text demo_txs = (fin, [HalFrame pkt], tx1) \<and>
     py_int16 ''00000009'' = Some (le_int (slice 0 4 (hp_payload pkt)))"
proof -
  have our: "fmt_x 8 5 = ''00000005''" "lower ''00000009'' = ''00000009''" "lower ''00000005'' = ''00000005''" by code_simp+
  obtain r pkt tx1 where a: "send_routing_ack toy_lib demo_env demo_text demo_txs = (r, [HalFrame pkt], tx1)" using demo_ack by blast
  have src: "source_id demo_text = ''00000009''" by (simp add: demo_text_def default_packet_def)
  have "handle_inbound toy_lib demo_pb_out demo_env 5 demo_text demo_txs = answered (send_routing_ack toy_lib demo_env demo_text demo_txs)"
    using our by (simp add: handle_inbound_def demo_text_def default_packet_def)
  then have h: "handle_inbound toy_lib demo_pb_out demo_env 5 demo_text demo_txs = (r \<noteq> None, [HalFrame pkt], tx1)"
    using a by (simp add: answered_def)
  from inbound_answers_sender [OF h, of "HalFrame pkt"] show ?thesis using h src by auto
qed

text \<open>The handler does not distinguish an answer from a request: a telemetry message that carries the id of the
  request it answers is treated exactly like one without it, so an answer is answered again.\<close>

lemma answers_to_answers:
  assumes "packet_type p = TELEMETRY" "decoded_payload p = Some d"
  shows "handle_inbound L PO env our p tx = handle_inbound L PO env our (p\<lparr>decoded_payload := Some (AList.delete ''request_id'' d)\<rparr>) tx \<and>
    (should_handle_inbound p (fmt_x 8 our) \<longrightarrow> handle_inbound L PO env our p tx = answered (send_telemetry_reply L PO env p tx))"
proof -
  let ?q = "p\<lparr>decoded_payload := Some (AList.delete ''request_id'' d)\<rparr>"
  have "dget_or ''telemetry_variant'' v (AList.delete ''request_id'' d) = dget_or ''telemetry_variant'' v d" for v
    by (simp add: dget_or_def delete_conv')
  moreover have "reply_setup env ?q n tx = reply_setup env p n tx" for n
    by (simp add: reply_setup_def recipient_pubkey_for_reply_def)
  ultimately have "send_telemetry_reply L PO env ?q tx = send_telemetry_reply L PO env p tx"
    using assms(2) by (simp add: send_telemetry_reply_def cong: option.case_cong)
  then show ?thesis using assms(1) by (auto simp: handle_inbound_def should_handle_inbound_def Let_def)
qed

lemma answers_to_answers_witness:
  "handle_inbound toy_lib demo_pb_out demo_env 5 (demo_text\<lparr>packet_type := TELEMETRY, decoded_payload := Some [(''request_id'', PInt 7)]\<rparr>) demo_txs =
   handle_inbound toy_lib demo_pb_out demo_env 5 (demo_text\<lparr>packet_type := TELEMETRY, decoded_payload := Some []\<rparr>) demo_txs"
  using answers_to_answers [of "demo_text\<lparr>packet_type := TELEMETRY, decoded_payload := Some [(''request_id'', PInt 7)]\<rparr>"
      "[(''request_id'', PInt 7)]" toy_lib demo_pb_out demo_env 5 demo_txs] by simp

end
