(* ===== verification/Meshcore_Decoder.thy ===== *)
theory Meshcore_Decoder
  imports Crypto_Service Models
begin

text \<open>
  \<^verbatim>\<open>src/src/decode/meshcore_decoder.py\<close>: raw MeshCore frames to packets, and node and telemetry updates. The outer
  \<^const>\<open>None\<close> of decoding would be an exception.
\<close>

definition MESHCORE_HEADER_SIZE :: nat where
  "MESHCORE_HEADER_SIZE = 8"

definition ADV_TYPE_ROLE :: "(int \<times> pyval) list" where
  "ADV_TYPE_ROLE = [(0, PNone), (1, pstr ''CLIENT''), (2, pstr ''REPEATER''), (3, pstr ''ROOMSERVER''), (4, pstr ''SENSOR'')]"

record meshcore_header =
  ch_packet_id :: int
  ch_source_id :: int
  ch_dest_id :: int
  ch_hop_count :: int
  ch_flags :: int
  ch_msg_type :: int

text \<open>\<^const>\<open>None\<close> for fewer than eight bytes, where the indexing would raise.\<close>

definition mc_parse_header :: "bytes \<Rightarrow> meshcore_header option" where
  "mc_parse_header hb =
     (if length hb < 8 then None
      else Some \<lparr>ch_packet_id = le_int (slice 0 2 hb), ch_source_id = le_int (slice 2 4 hb), ch_dest_id = le_int (slice 4 6 hb),
                 ch_hop_count = uint (hb ! 6), ch_flags = uint (hb ! 7), ch_msg_type = uint (hb ! 7 AND 0x0F)\<rparr>)"


section \<open>Payloads\<close>

definition mc_raw_hex :: "bytes \<Rightarrow> pyval" where
  "mc_raw_hex bs = pstr (bytes_hex hexdig bs)"

definition mc_decode_text :: "bytes \<Rightarrow> pydict option" where
  "mc_decode_text payload = Some [(''text'', PStr (utf8_decode_replace payload))]"

definition mc_degrees :: "bytes \<Rightarrow> pyval" where
  "mc_degrees bs = PFloat (of_int (to_signed 4 (le_int bs)) / 10 ^ 7)"

definition mc_decode_position :: "bytes \<Rightarrow> pydict option" where
  "mc_decode_position payload =
     (if length payload < 8 then Some [(''raw_hex'', mc_raw_hex payload)]
      else Some [(''latitude'', mc_degrees (slice 0 4 payload)), (''longitude'', mc_degrees (slice 4 8 payload))])"

definition mc_decode_telemetry :: "bytes \<Rightarrow> pydict option" where
  "mc_decode_telemetry payload = Some [(''raw_hex'', mc_raw_hex payload), (''size'', PInt (int (length payload)))]"

text \<open>An IEEE 754 single, as \<^verbatim>\<open>struct\<close> unpacks it; both zeros are 0.\<close>

definition f32 :: "bytes \<Rightarrow> pyval" where
  "f32 bs =
     (let n = nat (le_int bs); neg = n div 2 ^ 31 \<noteq> 0; ex = n div 2 ^ 23 mod 256; m = n mod 2 ^ 23;
          v = (if ex = 0 then of_nat m / 2 ^ 149
               else if ex \<ge> 150 then of_nat (2 ^ 23 + m) * 2 ^ (ex - 150) else of_nat (2 ^ 23 + m) / 2 ^ (150 - ex)) :: rat
      in if ex = 255 then (if m = 0 then PInf neg else PNan) else PFloat (if neg then - v else v))"

definition advert_name :: "bytes \<Rightarrow> ustr" where
  "advert_name name_bytes = utf8_decode_replace (takeWhile (\<lambda>b. b \<noteq> 0) name_bytes)"

definition mc_decode_nodeinfo :: "bytes \<Rightarrow> pydict option" where
  "mc_decode_nodeinfo payload =
     (case payload of
        [] \<Rightarrow> None
      | flags # _ \<Rightarrow>
          let latlon = flags AND 0x10 \<noteq> 0;
              pos = (if latlon \<and> 9 \<le> length payload
                     then [(''latitude'', f32 (slice 1 5 payload)), (''longitude'', f32 (slice 5 9 payload))] else []);
              offset = 1 + (if latlon then 8 else 0) + (if flags AND 0x20 \<noteq> 0 then 2 else 0) + (if flags AND 0x40 \<noteq> 0 then 2 else 0);
              name = (if flags AND 0x80 \<noteq> 0 then [(''long_name'', PStr (advert_name (drop offset payload)))] else [])
          in Some ((''node_type'', PInt (uint (flags AND 0x0F))) # pos @ name))"

definition mc_decode_payload :: "bytes \<Rightarrow> pydict option \<times> packet_type" where
  "mc_decode_payload dec =
     (case dec of
        [] \<Rightarrow> (None, UNKNOWN)
      | msg_type # body \<Rightarrow>
          if msg_type = 0x01 then (mc_decode_text body, TEXT)
          else if msg_type = 0x02 then (mc_decode_position body, POSITION)
          else if msg_type = 0x03 then (mc_decode_telemetry body, TELEMETRY)
          else if msg_type = 0x04 then (mc_decode_nodeinfo body, NODEINFO)
          else if msg_type = 0x05 \<or> msg_type = 0x06 then (Some [(''msg_type'', PInt (uint msg_type))], ROUTING)
          else (None, UNKNOWN))"

definition mc_decode :: "crypto_lib \<Rightarrow> time \<Rightarrow> bytes \<Rightarrow> signal_metrics option \<Rightarrow> crypto \<Rightarrow> packet option option" where
  "mc_decode L now raw sig cs =
     (if length raw < MESHCORE_HEADER_SIZE then Some None
      else (case mc_parse_header (take 8 raw) of
          None \<Rightarrow> Some None
        | Some h \<Rightarrow> do {
            dec \<leftarrow> decrypt_meshcore L (drop 8 raw) (ch_packet_id h) (ch_source_id h) cs;
            let (decoded, ptype) = (case dec of Some d \<Rightarrow> mc_decode_payload d | None \<Rightarrow> (None, UNKNOWN));
            Some (Some ((default_packet (fmt_x 4 (ch_packet_id h)) (fmt_x 4 (ch_source_id h)) (fmt_x 4 (ch_dest_id h))
                    MESHCORE ptype now)
                 \<lparr>hop_limit := ch_hop_count h, decoded_payload := decoded,
                  encrypted_payload := (if decoded = None then Some (drop 8 raw) else None),
                  decrypted := (decoded \<noteq> None), signal := sig\<rparr>))
          }))"


section \<open>Node and telemetry updates\<close>

text \<open>\<^verbatim>\<open>_ADV_TYPE_ROLE.get(v)\<close>: equal numbers are equal keys, whatever their type.\<close>

fun adv_role :: "pyval \<Rightarrow> pyval" where
  "adv_role (PInt n) = (case map_of ADV_TYPE_ROLE n of Some r \<Rightarrow> r | None \<Rightarrow> PNone)"
| "adv_role (PBool b) = (case map_of ADV_TYPE_ROLE (if b then 1 else 0) of Some r \<Rightarrow> r | None \<Rightarrow> PNone)"
| "adv_role (PFloat x) = (case map_of ADV_TYPE_ROLE \<lfloor>x\<rfloor> of Some r \<Rightarrow> if of_int \<lfloor>x\<rfloor> = x then r else PNone | None \<Rightarrow> PNone)"
| "adv_role _ = PNone"

definition mc_apply_position :: "pydict \<Rightarrow> node \<Rightarrow> node" where
  "mc_apply_position d n =
     (if dget ''latitude'' d = PNone \<or> dget ''longitude'' d = PNone then n
      else n\<lparr>latitude := dget ''latitude'' d, longitude := dget ''longitude'' d\<rparr>)"

definition mc_extract_node_update :: "packet \<Rightarrow> node option" where
  "mc_extract_node_update p =
     (case decoded_payload p of
        None \<Rightarrow> None
      | Some d \<Rightarrow>
          if d = [] then None
          else
            let n = default_node (source_id p) (protocol_value (protocol p)) (timestamp p);
                n1 = (if packet_type p = NODEINFO
                      then mc_apply_position d (n\<lparr>long_name := dget ''long_name'' d, role := adv_role (dget ''node_type'' d)\<rparr>)
                      else n);
                n2 = (if packet_type p = POSITION then mc_apply_position d n1 else n1)
            in Some (n2\<lparr>latest_signal := signal p\<rparr>))"

definition mc_extract_telemetry :: "packet \<Rightarrow> telemetry option" where
  "mc_extract_telemetry p =
     (if packet_type p \<noteq> TELEMETRY then None
      else (case decoded_payload p of
          None \<Rightarrow> None
        | Some d \<Rightarrow> if d = [] then None else Some (default_telemetry (source_id p) (timestamp p))))"


section \<open>Decoding\<close>

lemma meshcore_nonce:
  assumes "0 \<le> pid" "pid < 2 ^ 16" "0 \<le> src" "src < 2 ^ 16"
  obtains iv where "build_meshcore_nonce pid src = Some iv" "length iv = 16"
  using assms that by (simp add: build_meshcore_nonce_def pack_le_def)

lemma mc_header_range:
  assumes "mc_parse_header hb = Some h"
  shows "0 \<le> ch_packet_id h" "ch_packet_id h < 2 ^ 16" "0 \<le> ch_source_id h" "ch_source_id h < 2 ^ 16" "0 \<le> ch_hop_count h"
    "ch_hop_count h < 256"
proof -
  have "le_int (slice a (a + 2) hb) < 2 ^ 16" if "a + 2 \<le> length hb" for a
    using le_int_less [of "slice a (a + 2) hb"] that by simp
  from this [of 0] this [of 2] assms show "ch_packet_id h < 2 ^ 16" "ch_source_id h < 2 ^ 16"
    by (auto simp: mc_parse_header_def numeral_eq_Suc split: if_splits)
qed (use assms uint_byte_less in \<open>auto simp: mc_parse_header_def split: if_splits\<close>)

lemma mc_decode_total:
  "\<exists>r. mc_decode L now raw sig cs = Some r \<and>
     (case r of None \<Rightarrow> length raw < 8
      | Some p \<Rightarrow> 8 \<le> length raw \<and> protocol p = MESHCORE \<and> signal p = sig \<and> (decrypted p \<longleftrightarrow> decoded_payload p \<noteq> None) \<and>
          encrypted_payload p = (if decrypted p then None else Some (drop 8 raw)) \<and> 0 \<le> hop_limit p \<and> hop_limit p < 256)"
proof (cases "length raw < 8")
  case True
  then show ?thesis by (simp add: mc_decode_def MESHCORE_HEADER_SIZE_def)
next
  case False
  then obtain h where h: "mc_parse_header (take 8 raw) = Some h" by (auto simp: mc_parse_header_def)
  note r = mc_header_range [OF h]
  obtain iv where "build_meshcore_nonce (ch_packet_id h) (ch_source_id h) = Some iv" using meshcore_nonce [OF r(1-4)] .
  then have "\<exists>d. decrypt_meshcore L (drop 8 raw) (ch_packet_id h) (ch_source_id h) cs = Some d"
    by (cases "cs_default_key cs") (simp_all add: decrypt_meshcore_def)
  then obtain d where "decrypt_meshcore L (drop 8 raw) (ch_packet_id h) (ch_source_id h) cs = Some d" by blast
  then show ?thesis using False h r(5,6)
    by (simp add: mc_decode_def MESHCORE_HEADER_SIZE_def default_packet_def split: prod.split)
qed


section \<open>Properties\<close>

definition meshcore_frame :: "int \<Rightarrow> int \<Rightarrow> int \<Rightarrow> byte \<Rightarrow> byte \<Rightarrow> bytes \<Rightarrow> bytes" where
  "meshcore_frame pid src dst hops flags body = le_bytes 2 pid @ le_bytes 2 src @ le_bytes 2 dst @ [hops, flags] @ body"

lemma meshcore_frame_decodes:
  assumes "aes_lib L" "cs_default_key cs = Some k" "good_key k"
    and "0 \<le> pid" "pid < 2 ^ 16" "0 \<le> src" "src < 2 ^ 16" "0 \<le> dst" "dst < 2 ^ 16"
    and "build_meshcore_nonce pid src = Some iv" "aes_ctr L k iv plain = Some body"
    and "mc_decode_payload plain = (d, t)"
  shows "\<exists>p. mc_decode L now (meshcore_frame pid src dst hops flags body) sig cs = Some (Some p) \<and>
    packet_id p = fmt_x 4 pid \<and> source_id p = fmt_x 4 src \<and> destination_id p = fmt_x 4 dst \<and> hop_limit p = uint hops \<and>
    packet_type p = t \<and> decoded_payload p = d \<and> encrypted_payload p = (if d = None then Some body else None) \<and>
    (\<forall>text bs. utf8_encode text = Some bs \<and> plain = 0x01 # bs \<longrightarrow> t = TEXT \<and> d = Some [(''text'', PStr text)])"
proof -
  let ?f = "meshcore_frame pid src dst hops flags body"
  have iv: "length iv = 16" using assms(4-7,10) meshcore_nonce by (metis option.inject)
  have "ctr_ok (L, k, iv) (length plain)" using assms(1,3) iv by (simp add: ctr_ok_def good_key_def)
  then have opens: "aes_ctr L k iv body = Some plain"
    using ctr.crypt_back [of "(L, k, iv)" plain body] assms(11) by (simp add: ctr_stream_def)
  have v: "le_int (le_bytes 2 x) = x" if "0 \<le> x" "x < 2 ^ 16" for x using that by (simp add: le_int_le_bytes)
  have h: "mc_parse_header (take 8 ?f) = Some \<lparr>ch_packet_id = pid, ch_source_id = src, ch_dest_id = dst,
      ch_hop_count = uint hops, ch_flags = uint flags, ch_msg_type = uint (flags AND 0x0F)\<rparr>"
    using v assms(4-9) by (simp add: mc_parse_header_def meshcore_frame_def slice_def nth_append)
  have b: "drop 8 ?f = body" "\<not> length ?f < 8" by (simp_all add: meshcore_frame_def)
  have "t = TEXT \<and> d = Some [(''text'', PStr s)]" if "utf8_encode s = Some bs" "plain = 0x01 # bs" for s bs
    using assms(12) that utf8_roundtrip [OF that(1)] by (simp add: mc_decode_payload_def mc_decode_text_def)
  then show ?thesis
    using h b opens assms(2,10,12)
    by (auto simp: mc_decode_def MESHCORE_HEADER_SIZE_def decrypt_meshcore_def default_packet_def)
qed

text \<open>C38: a MeshCore frame whose body is the counter-mode encryption of a message under the gateway's default key is
  decoded to that message: its type, and for a text the text itself, with the frame's packet id, source,
  destination and hop count; a body that is not a known message is kept as ciphertext.\<close>

theorem meshcore_round_trip:
  assumes "aes_lib L" "cs_default_key cs = Some k" "good_key k"
    and "0 \<le> pid" "pid < 2 ^ 16" "0 \<le> src" "src < 2 ^ 16" "0 \<le> dst" "dst < 2 ^ 16"
    and "build_meshcore_nonce pid src = Some iv" "aes_ctr L k iv plain = Some body"
    and "mc_decode_payload plain = (d, t)"
  shows "\<exists>p. mc_decode L now (meshcore_frame pid src dst hops flags body) sig cs = Some (Some p) \<and>
    packet_id p = fmt_x 4 pid \<and> source_id p = fmt_x 4 src \<and> destination_id p = fmt_x 4 dst \<and> hop_limit p = uint hops \<and>
    packet_type p = t \<and> decoded_payload p = d \<and> encrypted_payload p = (if d = None then Some body else None) \<and>
    (\<forall>text bs. utf8_encode text = Some bs \<and> plain = 0x01 # bs \<longrightarrow> t = TEXT \<and> d = Some [(''text'', PStr text)])"
  by (rule meshcore_frame_decodes [OF assms])

theorem meshcore_round_trip_witness:
  "\<exists>body p. mc_decode toy_lib 0 (meshcore_frame 7 9 0xFFFF 2 1 body) None demo_crypto = Some (Some p) \<and>
     decoded_payload p = Some [(''text'', PStr (lit ''hi''))]"
proof -
  obtain iv where iv: "build_meshcore_nonce 7 9 = Some iv" "length iv = 16" using meshcore_nonce [of 7 9] by auto
  have good: "good_key MESHTASTIC_DEFAULT_PSK" by (simp add: good_key_def MESHTASTIC_DEFAULT_PSK_def)
  have u: "utf8_encode (lit ''hi'') = Some [104, 105]" using utf8_encode_lit [of "''hi''"] by simp
  obtain body where body: "aes_ctr toy_lib MESHTASTIC_DEFAULT_PSK iv [1, 104, 105] = Some body"
    using ctr.crypt_total [of "(toy_lib, MESHTASTIC_DEFAULT_PSK, iv)" "[1, 104, 105]"] toy_lib_ok good iv
    by (auto simp: ctr_ok_def ctr_stream_def good_key_def)
  obtain d t where dt: "mc_decode_payload [1, 104, 105] = (d, t)" by fastforce
  from meshcore_round_trip [OF toy_lib_ok demo_crypto_eq(2) good _ _ _ _ _ _ iv(1) body dt, of "0xFFFF" 0 2 1 None]
  obtain p where "mc_decode toy_lib 0 (meshcore_frame 7 9 0xFFFF 2 1 body) None demo_crypto = Some (Some p)" "decoded_payload p = d"
      "\<forall>text bs. utf8_encode text = Some bs \<and> [1, 104, 105] = 0x01 # bs \<longrightarrow> t = TEXT \<and> d = Some [(''text'', PStr text)]"
    by auto
  then show ?thesis using u by blast
qed

end
