(* ===== verification/Lorawan_Crypto.thy ===== *)
theory Lorawan_Crypto
  imports Pki_Crypto
begin

text \<open>
  \<^verbatim>\<open>src/src/decode/lorawan_crypto.py\<close> (Join-Accept decryption, session-key derivation, the frame payload
  cipher), \<^verbatim>\<open>src/src/decode/lorawan_payload_formats.py\<close> (configured payload fields) and
  \<^verbatim>\<open>src/src/decode/lorawan_keystore.py\<close> (root and session keys). The outer \<^const>\<open>None\<close> of an operation is an
  exception. AES is the block function of \<^typ>\<open>crypto_lib\<close>.
\<close>


section \<open>Join-Accept and session keys\<close>

text \<open>\<^verbatim>\<open>AES.new(key, AES.MODE_ECB).encrypt(data)\<close>.\<close>

definition aes_ecb :: "crypto_lib \<Rightarrow> bytes \<Rightarrow> bytes \<Rightarrow> bytes option" where
  "aes_ecb L key bs = (if length key \<in> {16, 24, 32} then ecb_encrypt (aes_block L key) bs else None)"

record join_accept_fields =
  ja_join_nonce :: bytes
  ja_net_id :: bytes
  ja_dev_addr :: int
  ja_dl_settings :: int
  ja_rx_delay :: int
  ja_cflist :: "bytes option"
  ja_mic :: bytes

definition decrypt_join_accept :: "crypto_lib \<Rightarrow> bytes \<Rightarrow> bytes \<Rightarrow> join_accept_fields option option" where
  "decrypt_join_accept L nwk_key encrypted =
     (if length encrypted \<noteq> 16 \<and> length encrypted \<noteq> 32 then Some None
      else map_option
        (\<lambda>plaintext. Some
          \<lparr>ja_join_nonce = slice 0 3 plaintext, ja_net_id = slice 3 6 plaintext,
           ja_dev_addr = le_int (slice 6 10 plaintext), ja_dl_settings = uint (plaintext ! 10),
           ja_rx_delay = uint (plaintext ! 11),
           ja_cflist = (if length plaintext = 32 then Some (slice 12 28 plaintext) else None),
           ja_mic = last_n 4 plaintext\<rparr>)
        (aes_ecb L nwk_key encrypted))"

definition derive_app_skey :: "crypto_lib \<Rightarrow> bytes \<Rightarrow> bytes \<Rightarrow> bytes \<Rightarrow> int \<Rightarrow> bytes option" where
  "derive_app_skey L app_key join_nonce join_eui dev_nonce =
     do {
       nonce \<leftarrow> pack_le 2 dev_nonce;
       let block = [0x02] @ join_nonce @ join_eui @ nonce;
       aes_ecb L app_key (block @ replicate (16 - length block) 0)
     }"


section \<open>The payload cipher\<close>

text \<open>The loop over the counter blocks \<open>i, i + 1, ...\<close>; \<^verbatim>\<open>bytes([0x00, i])\<close> raises beyond 255.\<close>

fun frm_keystream :: "crypto_lib \<Rightarrow> bytes \<Rightarrow> byte \<Rightarrow> bytes \<Rightarrow> bytes \<Rightarrow> nat \<Rightarrow> nat \<Rightarrow> bytes option" where
  "frm_keystream L key direction addr cnt i 0 = Some []"
| "frm_keystream L key direction addr cnt i (Suc n) =
     (if 255 < i then None
      else do {
        block \<leftarrow> aes_ecb L key ([0x01, 0x00, 0x00, 0x00, 0x00, direction] @ addr @ cnt @ [0x00, of_nat i]);
        rest \<leftarrow> frm_keystream L key direction addr cnt (i + 1) n;
        Some (block @ rest)
      })"

definition decrypt_frm_payload :: "crypto_lib \<Rightarrow> bytes \<Rightarrow> bytes \<Rightarrow> int \<Rightarrow> int \<Rightarrow> bool \<Rightarrow> bytes option" where
  "decrypt_frm_payload L app_skey frm_payload dev_addr fcnt uplink =
     (let num_blocks = (length frm_payload + 15) div 16 in
      if length app_skey \<notin> {16, 24, 32} then None
      else if num_blocks = 0 then Some []
      else do {
        addr \<leftarrow> pack_le 4 dev_addr;
        cnt \<leftarrow> pack_le 4 fcnt;
        ks \<leftarrow> frm_keystream L app_skey (if uplink then 0 else 1) addr cnt 1 num_blocks;
        Some (xor_bytes frm_payload ks)
      })"


section \<open>Configured payload fields\<close>

text \<open>Struct formats: signed, size, big endian.\<close>

definition FIELD_TYPES :: "(string \<times> bool \<times> nat \<times> bool) list" where
  "FIELD_TYPES =
     [(''int8'', True, 1, False), (''uint8'', False, 1, False),
      (''int16_be'', True, 2, True), (''int16_le'', True, 2, False),
      (''uint16_be'', False, 2, True), (''uint16_le'', False, 2, False),
      (''int32_be'', True, 4, True), (''int32_le'', True, 4, False),
      (''uint32_be'', False, 4, True), (''uint32_le'', False, 4, False)]"

record payload_field =
  pf_name :: "string option"
  pf_type :: "string option"
  pf_offset :: "int option"
  pf_scale :: "rat option"

text \<open>\<^verbatim>\<open>struct.unpack_from(fmt, payload, offset)[0]\<close> with its negative offsets.\<close>

definition unpack_int :: "bool \<Rightarrow> bool \<Rightarrow> bytes \<Rightarrow> int" where
  "unpack_int is_signed big bs =
     (let v = (if big then be_int bs else le_int bs) in if is_signed then to_signed (length bs) v else v)"

definition unpack_from :: "bool \<Rightarrow> nat \<Rightarrow> bool \<Rightarrow> bytes \<Rightarrow> int \<Rightarrow> int option" where
  "unpack_from is_signed sz big payload offset =
     (let start = (if offset < 0 then offset + int (length payload) else offset) in
      if (offset < 0 \<and> (offset + int sz > 0 \<or> start < 0)) \<or> start + int sz > int (length payload) then None
      else Some (unpack_int is_signed big (slice (nat start) (nat start + sz) payload)))"

definition scaled :: "rat option \<Rightarrow> int \<Rightarrow> pyval" where
  "scaled scale raw =
     (let s = (case scale of None \<Rightarrow> 1 | Some s \<Rightarrow> s) in
      if s \<noteq> 1 then PFloat (py_round 6 (of_int raw * s)) else PInt raw)"

fun decode_fields :: "payload_field list \<Rightarrow> bytes \<Rightarrow> int \<Rightarrow> pydict \<Rightarrow> pydict option" where
  "decode_fields [] payload cursor result = Some result"
| "decode_fields (f # fs) payload cursor result =
     (let offset = (case pf_offset f of Some n \<Rightarrow> n | None \<Rightarrow> cursor) in
      case (map_of FIELD_TYPES (case pf_type f of Some t \<Rightarrow> t | None \<Rightarrow> []), pf_name f) of
        (Some (is_signed, sz, big), Some (c # cs)) \<Rightarrow>
          if offset + int sz > int (length payload) then decode_fields fs payload (offset + int sz) result
          else do {
            raw \<leftarrow> unpack_from is_signed sz big payload offset;
            decode_fields fs payload (offset + int sz) (AList.update (c # cs) (scaled (pf_scale f) raw) result)
          }
      | _ \<Rightarrow> decode_fields fs payload cursor result)"

definition lorawan_decode_payload :: "payload_field list \<Rightarrow> bytes \<Rightarrow> pydict option" where
  "lorawan_decode_payload fs payload = decode_fields fs payload 0 []"


section \<open>The key store\<close>

record keystore =
  ks_root_keys :: "(string \<times> bytes \<times> bytes) list"
  ks_payload_fields :: "(string \<times> payload_field list) list"
  ks_session_keys :: "(int \<times> bytes) list"
  ks_dev_addr_eui :: "(int \<times> string) list"

definition keystore_init :: keystore where
  "keystore_init = \<lparr>ks_root_keys = [], ks_payload_fields = [], ks_session_keys = [], ks_dev_addr_eui = []\<rparr>"

definition add_device :: "string \<Rightarrow> ustr \<Rightarrow> ustr \<Rightarrow> payload_field list \<Rightarrow> keystore \<Rightarrow> keystore option" where
  "add_device dev_eui app_key_hex nwk_key_hex fs ks =
     do {
       app_key \<leftarrow> fromhex app_key_hex;
       nwk_key \<leftarrow> fromhex nwk_key_hex;
       if length app_key \<noteq> 16 \<or> length nwk_key \<noteq> 16 then None
       else
         let ks1 = ks\<lparr>ks_root_keys := AList.update (upper dev_eui) (app_key, nwk_key) (ks_root_keys ks)\<rparr> in
         Some (if fs \<noteq> []
               then ks1\<lparr>ks_payload_fields := AList.update (upper dev_eui) fs (ks_payload_fields ks1)\<rparr> else ks1)
     }"

definition root_keys_for :: "string \<Rightarrow> keystore \<Rightarrow> (bytes \<times> bytes) option" where
  "root_keys_for dev_eui ks = map_of (ks_root_keys ks) (upper dev_eui)"

definition has_device :: "string \<Rightarrow> keystore \<Rightarrow> bool" where
  "has_device dev_eui ks \<longleftrightarrow> upper dev_eui \<in> fst ` set (ks_root_keys ks)"

definition set_session_key :: "int \<Rightarrow> bytes \<Rightarrow> string \<Rightarrow> keystore \<Rightarrow> keystore" where
  "set_session_key dev_addr app_skey dev_eui ks =
     ks\<lparr>ks_session_keys := AList.update dev_addr app_skey (ks_session_keys ks),
        ks_dev_addr_eui := AList.update dev_addr (upper dev_eui) (ks_dev_addr_eui ks)\<rparr>"

definition session_key_for :: "int \<Rightarrow> keystore \<Rightarrow> bytes option" where
  "session_key_for dev_addr ks = map_of (ks_session_keys ks) dev_addr"

definition payload_fields_for_addr :: "int \<Rightarrow> keystore \<Rightarrow> payload_field list option" where
  "payload_fields_for_addr dev_addr ks =
     (case map_of (ks_dev_addr_eui ks) dev_addr of None \<Rightarrow> None | Some eui \<Rightarrow> map_of (ks_payload_fields ks) eui)"


section \<open>The payload cipher is a key stream\<close>

lemma aes_ecb_block:
  assumes "aes_lib L" "length key = 16 \<or> length key = 32" "length b = 16"
  shows "aes_ecb L key b = Some (aes_block L key b)" "length (aes_block L key b) = 16"
  using assms by (auto simp: aes_ecb_def aes_lib_def block_cipher_def)

lemma frm_keystream_total:
  assumes "aes_lib L" "length key = 16 \<or> length key = 32" "length addr = 4" "length cnt = 4" "i + n \<le> 256"
  shows "\<exists>ks. frm_keystream L key d addr cnt i n = Some ks \<and> length ks = 16 * n"
  using assms(5)
proof (induction n arbitrary: i)
  case 0
  then show ?case by simp
next
  case (Suc n)
  let ?b = "[0x01, 0x00, 0x00, 0x00, 0x00, d] @ addr @ cnt @ [0x00, of_nat i]"
  have "aes_ecb L key ?b = Some (aes_block L key ?b)" "length (aes_block L key ?b) = 16"
    using aes_ecb_block [OF assms(1,2), of ?b] assms(3,4) by simp_all
  moreover obtain ks where "frm_keystream L key d addr cnt (i + 1) n = Some ks" "length ks = 16 * n"
    using Suc.IH [of "i + 1"] Suc.prems by auto
  ultimately show ?case using Suc.prems by simp
qed

type_synonym frm_context = "crypto_lib \<times> bytes \<times> int \<times> int \<times> bool"

definition frm_ok :: "frm_context \<Rightarrow> nat \<Rightarrow> bool" where
  "frm_ok c n \<longleftrightarrow> (case c of (L, key, dev_addr, fcnt, up) \<Rightarrow>
     aes_lib L \<and> (length key = 16 \<or> length key = 32) \<and> 0 \<le> dev_addr \<and> dev_addr < 2 ^ 32 \<and> 0 \<le> fcnt \<and> fcnt < 2 ^ 32 \<and>
     n \<le> 4080)"

definition frm_stream :: "frm_context \<Rightarrow> bytes \<Rightarrow> bytes option" where
  "frm_stream c inp = (case c of (L, key, dev_addr, fcnt, up) \<Rightarrow> decrypt_frm_payload L key inp dev_addr fcnt up)"

text \<open>Payloads of one length under one context are xored with one key stream.\<close>

lemma frm_stream_keys:
  assumes "frm_ok c n"
  obtains ks where "\<And>inp. length inp = n \<Longrightarrow> frm_stream c inp = Some (xor_bytes inp ks)" "n \<le> length ks"
proof -
  obtain L key dev fcnt up where c: "c = (L, key, dev, fcnt, up)" by (cases c) auto
  let ?m = "(n + 15) div 16"
  have ok: "aes_lib L" "length key = 16 \<or> length key = 32" "pack_le 4 dev = Some (le_bytes 4 dev)"
      "pack_le 4 fcnt = Some (le_bytes 4 fcnt)" and m: "1 + ?m \<le> 256"
    using assms unfolding c frm_ok_def by (auto simp: pack_le_def)
  obtain ks where ks: "frm_keystream L key (if up then 0 else 1) (le_bytes 4 dev) (le_bytes 4 fcnt) 1 ?m = Some ks"
      "length ks = 16 * ?m"
    using frm_keystream_total [OF ok(1,2) _ _ m, of "le_bytes 4 dev" "le_bytes 4 fcnt"] by auto
  have len: "n \<le> length ks" unfolding ks(2) by linarith
  have "frm_stream c inp = Some (xor_bytes inp ks)" if "length inp = n" for inp
    using that ok ks(1) by (auto simp: c frm_stream_def decrypt_frm_payload_def Let_def xor_bytes_def)
  then show ?thesis using that len by blast
qed

interpretation frm: stream_cipher frm_ok frm_stream
proof
  fix c :: frm_context and inp out :: bytes
  assume "frm_ok c (length inp)"
  then obtain ks where ks: "\<And>x. length x = length inp \<Longrightarrow> frm_stream c x = Some (xor_bytes x ks)" "length inp \<le> length ks"
    using frm_stream_keys by blast
  then show "\<exists>out. frm_stream c inp = Some out \<and> length out = length inp" by (simp add: min_absorb1)
  assume "frm_stream c inp = Some out"
  then have "out = xor_bytes inp ks" using ks(1) [of inp] by simp
  then show "frm_stream c out = Some inp" using ks by (simp add: min_absorb1)
qed


section \<open>Payload fields\<close>

text \<open>How a device lays out an integer for a struct format.\<close>

definition field_bytes :: "nat \<Rightarrow> bool \<Rightarrow> int \<Rightarrow> bytes" where
  "field_bytes sz big v = (if big then rev (le_bytes sz v) else le_bytes sz v)"

definition in_range :: "bool \<Rightarrow> nat \<Rightarrow> int \<Rightarrow> bool" where
  "in_range is_signed sz v \<longleftrightarrow>
     (if is_signed then - (2 ^ (8 * sz - 1)) \<le> v \<and> v < 2 ^ (8 * sz - 1) else 0 \<le> v \<and> v < 2 ^ (8 * sz))"

lemma length_field_bytes [simp]: "length (field_bytes sz big v) = sz"
  by (simp add: field_bytes_def)

lemma to_signed_mod:
  assumes "- (2 ^ (8 * n - 1)) \<le> v" "v < 2 ^ (8 * n - 1)" "0 < n"
  shows "to_signed n (v mod 2 ^ (8 * n)) = v"
proof -
  have p: "(2::int) ^ (8 * n) = 2 * 2 ^ (8 * n - 1)" using assms(3) by (simp flip: power_Suc)
  show ?thesis
  proof (cases "0 \<le> v")
    case True
    then have "v mod 2 ^ (8 * n) = v" using assms p by simp
    then show ?thesis using assms by (simp add: to_signed_def)
  next
    case False
    then have "v mod 2 ^ (8 * n) = v + 2 ^ (8 * n)"
      using assms p mod_pos_pos_trivial [of "v + 2 ^ (8 * n)" "2 ^ (8 * n)"] by simp
    then show ?thesis using assms False p by (simp add: to_signed_def)
  qed
qed

lemma unpack_field_bytes:
  assumes "in_range is_signed sz v" "0 < sz"
  shows "unpack_int is_signed big (field_bytes sz big v) = v"
proof -
  have "le_int (le_bytes sz v) = v mod 2 ^ (8 * sz)" by (simp add: le_int_le_bytes_mod power_mult)
  then have "(if big then be_int (field_bytes sz big v) else le_int (field_bytes sz big v)) = v mod 2 ^ (8 * sz)"
    by (simp add: field_bytes_def be_int_def)
  then show ?thesis
    using assms to_signed_mod [of sz v] by (auto simp: unpack_int_def Let_def in_range_def split: if_splits)
qed

lemma field_type_size: "map_of FIELD_TYPES t = Some (sg, sz, big) \<Longrightarrow> 0 < sz \<and> sz \<le> 4"
  by (auto simp: FIELD_TYPES_def split: if_splits)

text \<open>The bytes a device sends for its configured fields: one value per field, in order, no gaps.\<close>

fun layout :: "payload_field list \<Rightarrow> int list \<Rightarrow> bytes option" where
  "layout [] [] = Some []"
| "layout (f # fs) (v # vs) =
     (case map_of FIELD_TYPES (case pf_type f of Some t \<Rightarrow> t | None \<Rightarrow> []) of
        Some (is_signed, sz, big) \<Rightarrow>
          if in_range is_signed sz v \<and> pf_offset f = None \<and> pf_name f \<noteq> None \<and> pf_name f \<noteq> Some []
          then map_option (\<lambda>bs. field_bytes sz big v @ bs) (layout fs vs) else None
      | None \<Rightarrow> None)"
| "layout _ _ = None"

lemma decode_fields_layout:
  assumes "layout fs vs = Some bs" "distinct (map (\<lambda>f. the (pf_name f)) fs)" "\<forall>f \<in> set fs. the (pf_name f) \<notin> fst ` set acc"
    and "cursor = int (length pre)"
  shows "decode_fields fs (pre @ bs @ extra) cursor acc =
    Some (acc @ map2 (\<lambda>f v. (the (pf_name f), scaled (pf_scale f) v)) fs vs)"
  using assms
proof (induction fs vs arbitrary: bs pre acc cursor rule: layout.induct)
  case (2 f fs v vs)
  obtain sg sz big bs' where t: "map_of FIELD_TYPES (case pf_type f of Some t \<Rightarrow> t | None \<Rightarrow> []) = Some (sg, sz, big)"
    and f: "in_range sg sz v" "pf_offset f = None" "pf_name f \<noteq> None" "pf_name f \<noteq> Some []"
    and bs: "layout fs vs = Some bs'" "bs = field_bytes sz big v @ bs'"
    using 2(2) by (auto split: option.splits if_splits)
  obtain c cs where n: "pf_name f = Some (c # cs)" using f by (cases "pf_name f"; cases "the (pf_name f)") auto
  have new: "map_of acc (c # cs) = None"
    using 2(4) n by (auto simp: map_of_eq_None_iff)
  let ?e = "(c # cs, scaled (pf_scale f) v)"
  have upd: "AList.update (c # cs) (snd ?e) acc = acc @ [?e]"
    using new by (induction acc) (auto split: if_splits)
  have raw: "unpack_from sg sz big (pre @ bs @ extra) cursor = Some v"
    using unpack_field_bytes [OF f(1)] field_type_size [OF t] 2(5)
    by (simp add: unpack_from_def bs slice_def Let_def)
  have "\<forall>g \<in> set fs. the (pf_name g) \<notin> fst ` set (acc @ [?e])"
    using 2(3,4) n by (auto simp: image_iff)
  moreover have "distinct (map (\<lambda>f. the (pf_name f)) fs)" using 2(3) by simp
  ultimately have "decode_fields fs ((pre @ field_bytes sz big v) @ bs' @ extra) (cursor + int sz) (acc @ [?e]) =
      Some ((acc @ [?e]) @ map2 (\<lambda>f v. (the (pf_name f), scaled (pf_scale f) v)) fs vs)"
    using 2(1) [OF t refl refl _ bs(1), of "acc @ [?e]" "cursor + int sz" "pre @ field_bytes sz big v"] 2(5) f by simp
  then show ?case using t n raw upd 2(5) by (simp add: bs f Let_def)
qed auto


text \<open>Decoding never raises when the configured offsets are not negative.\<close>

definition fields_ok :: "payload_field list \<Rightarrow> bool" where
  "fields_ok fs \<longleftrightarrow> list_all (\<lambda>f. case pf_offset f of None \<Rightarrow> True | Some n \<Rightarrow> 0 \<le> n) fs"

lemma decode_fields_total:
  assumes "fields_ok fs" "0 \<le> cursor"
  shows "\<exists>d. decode_fields fs payload cursor acc = Some d"
  using assms
proof (induction fs arbitrary: cursor acc)
  case Nil
  then show ?case by simp
next
  case (Cons f fs)
  let ?o = "case pf_offset f of Some n \<Rightarrow> n | None \<Rightarrow> cursor"
  have fs: "fields_ok fs" and o: "0 \<le> ?o" using Cons.prems by (auto simp: fields_ok_def split: option.splits)
  have rd: "\<exists>v. unpack_from sg sz big payload ?o = Some v" if "?o + int sz \<le> int (length payload)" for sg sz big
    using that o by (simp add: unpack_from_def Let_def)
  show ?case
  proof (cases "map_of FIELD_TYPES (case pf_type f of Some t \<Rightarrow> t | None \<Rightarrow> [])")
    case None
    then show ?thesis using Cons.IH [OF fs Cons.prems(2)] by (simp add: Let_def)
  next
    case (Some spec)
    obtain sg sz big where spec: "spec = (sg, sz, big)" by (cases spec) auto
    show ?thesis
    proof (cases "pf_name f = None \<or> pf_name f = Some []")
      case True
      then show ?thesis using Some spec Cons.IH [OF fs Cons.prems(2)] by (auto simp: Let_def)
    next
      case False
      then obtain c cs where "pf_name f = Some (c # cs)" by (cases "pf_name f"; cases "the (pf_name f)") auto
      then show ?thesis using Some spec Cons.IH [OF fs, of "?o + int sz"] o rd [of sz sg big]
        by (cases "?o + int sz \<le> int (length payload)") (auto simp: Let_def)
    qed
  qed
qed


section \<open>The key store's invariant\<close>

definition keystore_inv :: "keystore \<Rightarrow> bool" where
  "keystore_inv ks \<longleftrightarrow>
     (\<forall>(eui, app, nwk) \<in> set (ks_root_keys ks). upper eui = eui \<and> length app = 16 \<and> length nwk = 16) \<and>
     (\<forall>(addr, key) \<in> set (ks_session_keys ks). length key = 16) \<and>
     (\<forall>(eui, fs) \<in> set (ks_payload_fields ks). fields_ok fs)"

lemma keystore_init_inv: "keystore_inv keystore_init"
  by (simp add: keystore_inv_def keystore_init_def)

lemma add_device_inv:
  assumes "keystore_inv ks" "add_device eui app nwk fs ks = Some ks'" "fields_ok fs"
  shows "keystore_inv ks'"
  using assms
  by (auto simp: keystore_inv_def add_device_def Let_def o_def split: Option.bind_splits if_splits dest!: in_set_update)

lemma set_session_key_inv:
  "keystore_inv ks \<Longrightarrow> length key = 16 \<Longrightarrow> keystore_inv (set_session_key addr key eui ks)"
  by (auto simp: keystore_inv_def set_session_key_def dest!: in_set_update)

lemma root_keys_length:
  "keystore_inv ks \<Longrightarrow> root_keys_for eui ks = Some (app, nwk) \<Longrightarrow> length app = 16 \<and> length nwk = 16"
  by (auto simp: keystore_inv_def root_keys_for_def dest!: map_of_SomeD)

lemma session_key_length: "keystore_inv ks \<Longrightarrow> session_key_for addr ks = Some key \<Longrightarrow> length key = 16"
  by (auto simp: keystore_inv_def session_key_for_def dest!: map_of_SomeD)

lemma payload_fields_ok: "keystore_inv ks \<Longrightarrow> payload_fields_for_addr addr ks = Some fs \<Longrightarrow> fields_ok fs"
  by (auto simp: keystore_inv_def payload_fields_for_addr_def split: option.splits dest!: map_of_SomeD)

lemma add_device_lookup:
  assumes "add_device eui app_hex nwk_hex fs ks = Some ks'"
  shows "root_keys_for eui' ks' = (if upper eui' = upper eui then Some (the (fromhex app_hex), the (fromhex nwk_hex))
    else root_keys_for eui' ks)"
  using assms
  by (auto simp: add_device_def root_keys_for_def Let_def update_conv' split: Option.bind_splits if_splits)

lemma session_lookup [simp]:
  "session_key_for a (set_session_key b key eui ks) = (if a = b then Some key else session_key_for a ks)"
  "root_keys_for e (set_session_key b key eui ks) = root_keys_for e ks"
  by (simp_all add: session_key_for_def set_session_key_def root_keys_for_def update_conv')

lemma session_fields [simp]:
  "payload_fields_for_addr a (set_session_key b key eui ks) =
    (if a = b then map_of (ks_payload_fields ks) (upper eui) else payload_fields_for_addr a ks)"
  by (simp add: payload_fields_for_addr_def set_session_key_def update_conv' split: option.splits)


section \<open>Properties\<close>

text \<open>The payload cipher of LoRaWAN is its own inverse: for every 32-bit device address, frame counter
  and direction and every payload of at most 255 blocks it succeeds, keeps the length, and applying it again gives
  the payload back; distinct payloads of a frame never encrypt to the same bytes.\<close>

lemma frm_payload_involution:
  assumes "aes_lib L" "length key = 16" "0 \<le> dev_addr" "dev_addr < 2 ^ 32" "0 \<le> fcnt" "fcnt < 2 ^ 32" "length p \<le> 4080"
  shows "(\<exists>c. decrypt_frm_payload L key p dev_addr fcnt up = Some c \<and> length c = length p \<and>
      decrypt_frm_payload L key c dev_addr fcnt up = Some p) \<and>
    (\<forall>q. length q \<le> 4080 \<and> decrypt_frm_payload L key q dev_addr fcnt up = decrypt_frm_payload L key p dev_addr fcnt up \<longrightarrow> q = p)"
proof -
  let ?c = "(L, key, dev_addr, fcnt, up)"
  have ok: "n \<le> 4080 \<Longrightarrow> frm_ok ?c n" for n using assms by (simp add: frm_ok_def)
  have st: "frm_stream ?c x = decrypt_frm_payload L key x dev_addr fcnt up" for x by (simp add: frm_stream_def)
  have "\<exists>c. frm_stream ?c p = Some c \<and> length c = length p \<and> frm_stream ?c c = Some p"
    using frm.crypt_round_trip [OF ok [OF assms(7)]] by metis
  moreover have "q = p" if "length q \<le> 4080" "frm_stream ?c q = frm_stream ?c p" for q
    using frm.crypt_injective [OF ok ok] that assms(7) by blast
  ultimately show ?thesis by (simp add: st)
qed

lemma frm_payload_involution_witness:
  "\<exists>c. decrypt_frm_payload toy_lib (replicate 16 3) [1, 2, 3] 0x26011BDA 7 True = Some c \<and>
     decrypt_frm_payload toy_lib (replicate 16 3) c 0x26011BDA 7 True = Some [1, 2, 3]"
  using frm_payload_involution [OF toy_lib_ok, of "replicate 16 3" "0x26011BDA" 7 "[1, 2, 3]" True] by auto

text \<open>The configured payload fields read exactly what a device writes: when a payload starts with the
  values of the configured fields in their formats, one after the other, decoding gives each field its value
  (scaled where a scale is configured), signed and unsigned, in either byte order.\<close>

lemma payload_fields_round_trip:
  assumes "layout fs vs = Some bs" "distinct (map (\<lambda>f. the (pf_name f)) fs)"
  shows "lorawan_decode_payload fs (bs @ extra) =
    Some (map2 (\<lambda>f v. (the (pf_name f), scaled (pf_scale f) v)) fs vs)"
  using decode_fields_layout [OF assms, of "[]" 0 "[]"] by (simp add: lorawan_decode_payload_def)

definition demo_payload_fields :: "payload_field list" where
  "demo_payload_fields =
     [\<lparr>pf_name = Some ''temperature_c'', pf_type = Some ''int16_be'', pf_offset = None, pf_scale = Some (1 / 100)\<rparr>,
      \<lparr>pf_name = Some ''battery'', pf_type = Some ''uint8'', pf_offset = None, pf_scale = None\<rparr>]"

lemma demo_layout: "layout demo_payload_fields [- 2, 200] = Some [0xFF, 0xFE, 0xC8]"
  by code_simp

lemma payload_fields_round_trip_witness:
  "lorawan_decode_payload demo_payload_fields [0xFF, 0xFE, 0xC8, 9] =
     Some [(''temperature_c'', PFloat (- 2 / 100)), (''battery'', PInt 200)]"
proof -
  have "py_round 6 (- 2 * (1 / 100)) = - 2 / 100"
    using round_half_even_of_int [of "- 20000"] by (simp add: py_round_def)
  then show ?thesis
    using payload_fields_round_trip [OF demo_layout, of "[9]"] by (simp add: demo_payload_fields_def scaled_def)
qed

end
