(* ===== verification/Lorawan_Decoder.thy ===== *)
theory Lorawan_Decoder
  imports Lorawan_Crypto Models Utf8
begin

text \<open>
  \<^verbatim>\<open>src/src/decode/lorawan_decoder.py\<close>: LoRaWAN frames to packets. The decoder remembers the last Join-Request and
  installs session keys in its key store, so decoding returns the state it leaves behind. \<open>now\<close> is the packet's
  timestamp, \<open>clk\<close> the reading of the monotonic clock. The outer \<^const>\<open>None\<close> would be an exception.
\<close>

definition JOIN_ACCEPT_CORRELATE_WINDOW_S :: rat where
  "JOIN_ACCEPT_CORRELATE_WINDOW_S = 10"

text \<open>\<^verbatim>\<open>_eui_str\<close> and \<^verbatim>\<open>_hex\<close>.\<close>

fun join_colon :: "string list \<Rightarrow> string" where
  "join_colon [] = []"
| "join_colon [s] = s"
| "join_colon (s # t # ss) = s @ '':'' @ join_colon (t # ss)"

definition eui_str :: "bytes \<Rightarrow> string" where
  "eui_str raw = join_colon (map (\<lambda>b. fmt_X 2 (uint b)) (rev raw))"

definition lw_hex :: "bytes \<Rightarrow> string" where
  "lw_hex raw = bytes_hex HEXDIG raw"

record join_request =
  jr_dev_eui :: string
  jr_app_eui :: string
  jr_app_eui_raw :: bytes
  jr_dev_nonce :: int
  jr_at :: rat

record lorawan =
  lw_last_join :: "join_request option"
  lw_keystore :: "keystore option"

type_synonym lorawan_result = "(packet option \<times> lorawan) option"

definition lorawan_init :: "keystore option \<Rightarrow> lorawan" where
  "lorawan_init ks = \<lparr>lw_last_join = None, lw_keystore = ks\<rparr>"

definition lorawan_packet ::
    "string \<Rightarrow> string \<Rightarrow> string \<Rightarrow> packet_type \<Rightarrow> pydict \<Rightarrow> bool \<Rightarrow> signal_metrics option \<Rightarrow> time \<Rightarrow> packet" where
  "lorawan_packet pid src dst pt payload dec sig now =
     (default_packet pid src dst LORAWAN pt now)\<lparr>decoded_payload := Some payload, decrypted := dec, signal := sig,
        capture_source := ''concentrator''\<rparr>"

definition decode_join_request :: "time \<Rightarrow> rat \<Rightarrow> bytes \<Rightarrow> signal_metrics option \<Rightarrow> lorawan \<Rightarrow> lorawan_result" where
  "decode_join_request now clk raw sig st =
     (if length raw < 23 then Some (None, st)
      else
        let app_eui = slice 1 9 raw; dev_eui = slice 9 17 raw; dev_nonce = le_int (slice 17 19 raw);
            app_eui_str = eui_str app_eui; dev_eui_str = eui_str dev_eui;
            st1 = st\<lparr>lw_last_join := Some \<lparr>jr_dev_eui = dev_eui_str, jr_app_eui = app_eui_str, jr_app_eui_raw = app_eui,
                       jr_dev_nonce = dev_nonce, jr_at = clk\<rparr>\<rparr>
        in Some (Some (lorawan_packet (''join:'' @ fmt_X 4 dev_nonce @ '':'' @ lw_hex dev_eui) dev_eui_str ''network-server''
             LORAWAN_JOIN
             [(''mtype'', pstr ''JoinRequest''), (''app_eui'', pstr app_eui_str), (''dev_eui'', pstr dev_eui_str),
              (''dev_nonce'', PInt dev_nonce), (''mic'', pstr (lw_hex (slice 19 23 raw)))]
             True sig now), st1))"

text \<open>The last Join-Request, if it is recent enough to belong to a Join-Accept heard now.\<close>

definition correlated :: "rat \<Rightarrow> lorawan \<Rightarrow> join_request option" where
  "correlated clk st =
     (case lw_last_join st of
        None \<Rightarrow> None
      | Some jr \<Rightarrow> if clk - jr_at jr \<le> JOIN_ACCEPT_CORRELATE_WINDOW_S then Some jr else None)"

text \<open>The decryption branch: the fields of the Join-Accept and the key store with the new session.\<close>

definition open_join_accept :: "crypto_lib \<Rightarrow> bytes \<Rightarrow> join_request option \<Rightarrow> lorawan \<Rightarrow> (join_accept_fields option \<times> lorawan) option" where
  "open_join_accept L encrypted join_req st =
     (case (lw_keystore st, join_req) of
        (Some ks, Some jr) \<Rightarrow>
          (case root_keys_for (jr_dev_eui jr) ks of
             None \<Rightarrow> Some (None, st)
           | Some (app_key, nwk_key) \<Rightarrow> do {
               found \<leftarrow> decrypt_join_accept L nwk_key encrypted;
               (case found of
                  None \<Rightarrow> Some (None, st)
                | Some f \<Rightarrow> do {
                    app_skey \<leftarrow> derive_app_skey L app_key (ja_join_nonce f) (jr_app_eui_raw jr) (jr_dev_nonce jr);
                    Some (Some f, st\<lparr>lw_keystore := Some (set_session_key (ja_dev_addr f) app_skey (jr_dev_eui jr) ks)\<rparr>)
                  })
             })
      | _ \<Rightarrow> Some (None, st))"

definition join_accept_entries :: "join_accept_fields \<Rightarrow> pydict" where
  "join_accept_entries f =
     [(''dev_addr'', pstr (fmt_X 8 (ja_dev_addr f))), (''net_id'', pstr (lw_hex (ja_net_id f))),
      (''dl_settings'', PInt (ja_dl_settings f)), (''rx_delay'', PInt (ja_rx_delay f)),
      (''cflist'', case ja_cflist f of Some (b # bs) \<Rightarrow> pstr (lw_hex (b # bs)) | _ \<Rightarrow> PNone)]"

definition decode_join_accept :: "crypto_lib \<Rightarrow> time \<Rightarrow> rat \<Rightarrow> bytes \<Rightarrow> signal_metrics option \<Rightarrow> lorawan \<Rightarrow> lorawan_result" where
  "decode_join_accept L now clk raw sig st =
     (if length raw \<noteq> 17 \<and> length raw \<noteq> 33 then Some (None, st)
      else
        let encrypted = drop 1 raw; jr = correlated clk st; likely = map_option jr_dev_eui jr;
            payload = [(''mtype'', pstr ''JoinAccept''),
                       (''likely_dev_eui'', case likely of Some e \<Rightarrow> pstr e | None \<Rightarrow> PNone),
                       (''has_cflist'', PBool (length raw = 33)), (''encrypted_payload'', pstr (lw_hex encrypted))]
        in do {
          (found, st1) \<leftarrow> open_join_accept L encrypted jr st;
          Some (Some (lorawan_packet (''joinaccept:'' @ lw_hex (take 4 encrypted)) ''network-server''
             (case likely of Some (c # cs) \<Rightarrow> c # cs | _ \<Rightarrow> ''unknown'') LORAWAN_JOIN_ACCEPT
             (case found of Some f \<Rightarrow> dict_update payload (join_accept_entries f) | None \<Rightarrow> payload)
             (found \<noteq> None) sig now), st1)
        })"

text \<open>The entries added to a data frame that decrypts: the plaintext and the configured fields.\<close>

definition open_frm_payload :: "crypto_lib \<Rightarrow> int \<Rightarrow> int \<Rightarrow> int option \<Rightarrow> bytes \<Rightarrow> lorawan \<Rightarrow> pydict option option" where
  "open_frm_payload L dev_addr fcnt fport frm_payload st =
     (case (lw_keystore st, fport) of
        (Some ks, Some port) \<Rightarrow>
          if port > 0 \<and> frm_payload \<noteq> [] then
            (case session_key_for dev_addr ks of
               None \<Rightarrow> Some None
             | Some app_skey \<Rightarrow> do {
                 plaintext \<leftarrow> decrypt_frm_payload L app_skey frm_payload dev_addr fcnt True;
                 app_fields \<leftarrow> (case payload_fields_for_addr dev_addr ks of
                    Some (f # fs) \<Rightarrow> lorawan_decode_payload (f # fs) plaintext | _ \<Rightarrow> Some []);
                 Some (Some ((''frm_payload_decrypted'', pstr (lw_hex plaintext)) # app_fields))
               })
          else Some None
      | _ \<Rightarrow> Some None)"

definition decode_data_up :: "crypto_lib \<Rightarrow> time \<Rightarrow> bytes \<Rightarrow> nat \<Rightarrow> signal_metrics option \<Rightarrow> lorawan \<Rightarrow> lorawan_result" where
  "decode_data_up L now raw mtype sig st =
     (if length raw < 12 then Some (None, st)
      else
        let dev_addr = le_int (slice 1 5 raw); fctrl = raw ! 5; fcnt = le_int (slice 6 8 raw);
            fopts_len = unat (fctrl AND 0x0F); fhdr_end = 8 + fopts_len
        in if length raw < fhdr_end + 4 then Some (None, st)
        else
          let mic_offset = length raw - 4;
              fport = (if fhdr_end < mic_offset then Some (uint (raw ! fhdr_end)) else None);
              frm = (if fhdr_end < mic_offset then slice (fhdr_end + 1) mic_offset raw else []);
              dev_addr_str = fmt_X 8 dev_addr;
              payload = [(''mtype'', pstr (if mtype = 4 then ''ConfirmedDataUp'' else ''UnconfirmedDataUp'')),
                         (''dev_addr'', pstr dev_addr_str), (''fcnt'', PInt fcnt),
                         (''adr'', PBool (fctrl AND 0x80 \<noteq> 0)), (''ack'', PBool (fctrl AND 0x20 \<noteq> 0)),
                         (''fport'', case fport of Some p \<Rightarrow> PInt p | None \<Rightarrow> PNone),
                         (''fopts'', if fopts_len = 0 then PNone else pstr (lw_hex (slice 8 fhdr_end raw))),
                         (''frm_payload'', if frm = [] then PNone else pstr (lw_hex frm)),
                         (''mic'', pstr (lw_hex (drop mic_offset raw)))]
          in do {
            extra \<leftarrow> open_frm_payload L dev_addr fcnt fport frm st;
            Some (Some (lorawan_packet (''lora:'' @ dev_addr_str @ '':'' @ fmt_d fcnt) dev_addr_str ''network-server'' LORAWAN_DATA
               (case extra of Some e \<Rightarrow> dict_update payload e | None \<Rightarrow> payload) (extra \<noteq> None) sig now), st)
          })"

definition decode_rejoin :: "time \<Rightarrow> bytes \<Rightarrow> signal_metrics option \<Rightarrow> lorawan \<Rightarrow> lorawan_result" where
  "decode_rejoin now raw sig st =
     (if length raw < 2 then Some (None, st)
      else
        let rejoin_type = uint (raw ! 1); mic = pstr (lw_hex (last_n 4 raw));
            mk = (\<lambda>payload src. lorawan_packet (''rejoin:'' @ fmt_d rejoin_type @ '':'' @ src) src ''network-server''
                    LORAWAN_REJOIN payload True sig now)
        in if rejoin_type = 0 \<or> rejoin_type = 2 then
             if length raw < 19 then Some (None, st)
             else
               let dev_eui = eui_str (slice 5 13 raw) in
               Some (Some (mk [(''mtype'', pstr (''RejoinRequest'' @ fmt_d rejoin_type)), (''rejoin_type'', PInt rejoin_type),
                               (''net_id'', pstr (lw_hex (slice 2 5 raw))), (''dev_eui'', pstr dev_eui),
                               (''rjcount'', PInt (le_int (slice 13 15 raw))), (''mic'', mic)] dev_eui), st)
           else if rejoin_type = 1 then
             if length raw < 23 then Some (None, st)
             else
               let dev_eui = eui_str (slice 10 18 raw) in
               Some (Some (mk [(''mtype'', pstr ''RejoinRequest1''), (''rejoin_type'', PInt 1),
                               (''join_eui'', pstr (eui_str (slice 2 10 raw))), (''dev_eui'', pstr dev_eui),
                               (''rjcount'', PInt (le_int (slice 18 20 raw))), (''mic'', mic)] dev_eui), st)
           else Some (None, st))"

definition lorawan_decode :: "crypto_lib \<Rightarrow> time \<Rightarrow> rat \<Rightarrow> bytes \<Rightarrow> signal_metrics option \<Rightarrow> lorawan \<Rightarrow> lorawan_result" where
  "lorawan_decode L now clk raw sig st =
     (case raw of
        [] \<Rightarrow> Some (None, st)
      | mhdr # _ \<Rightarrow>
          let mtype = unat (drop_bit 5 mhdr AND 0x07) in
          if mhdr AND 0x03 \<noteq> 0 then Some (None, st)
          else if mtype = 0 then decode_join_request now clk raw sig st
          else if mtype = 1 then decode_join_accept L now clk raw sig st
          else if mtype = 2 \<or> mtype = 4 then decode_data_up L now raw mtype sig st
          else if mtype = 6 then decode_rejoin now raw sig st
          else Some (None, st))"


section \<open>Soundness\<close>

definition lorawan_inv :: "lorawan \<Rightarrow> bool" where
  "lorawan_inv st \<longleftrightarrow>
     (case lw_last_join st of None \<Rightarrow> True
      | Some jr \<Rightarrow> length (jr_app_eui_raw jr) = 8 \<and> 0 \<le> jr_dev_nonce jr \<and> jr_dev_nonce jr < 2 ^ 16) \<and>
     (case lw_keystore st of None \<Rightarrow> True | Some ks \<Rightarrow> keystore_inv ks)"

lemma lorawan_init_inv: "(\<And>ks. k = Some ks \<Longrightarrow> keystore_inv ks) \<Longrightarrow> lorawan_inv (lorawan_init k)"
  by (auto simp: lorawan_inv_def lorawan_init_def split: option.splits)

lemma le_int_slice_bounds: "0 \<le> le_int (slice a (a + n) bs)" "le_int (slice a (a + n) bs) < 256 ^ n"
proof -
  have "length (slice a (a + n) bs) \<le> n" by simp
  then have "(256::int) ^ length (slice a (a + n) bs) \<le> 256 ^ n" by (intro power_increasing) auto
  then show "le_int (slice a (a + n) bs) < 256 ^ n" using le_int_less [of "slice a (a + n) bs"] by linarith
qed simp

lemma derive_app_skey_total:
  assumes "aes_lib L" "length app_key = 16" "length jn = 3" "length eui = 8" "0 \<le> n" "n < 2 ^ 16"
  shows "derive_app_skey L app_key jn eui n =
      Some (aes_block L app_key ([0x02] @ jn @ eui @ le_bytes 2 n @ [0, 0]))"
    "length (aes_block L app_key ([0x02] @ jn @ eui @ le_bytes 2 n @ [0, 0])) = 16"
  using assms aes_ecb_block [of L app_key "[0x02] @ jn @ eui @ le_bytes 2 n @ [0, 0]"]
  by (simp_all add: derive_app_skey_def pack_le_def numeral_eq_Suc)

lemma decrypt_join_accept_total:
  assumes "aes_lib L" "length nwk = 16" "length enc = 16 \<or> length enc = 32"
  obtains f where "decrypt_join_accept L nwk enc = Some (Some f)" "length (ja_join_nonce f) = 3"
proof -
  have blk: "length (aes_block L nwk b) = 16" if "length b = 16" for b using aes_ecb_block(2) [OF assms(1)] assms(2) that by blast
  have "\<exists>pt. aes_ecb L nwk enc = Some pt \<and> length pt = length enc"
    using assms(2,3) blk [of enc] blk [of "take 16 enc"] blk [of "drop 16 enc"] by (auto simp: aes_ecb_def)
  then obtain pt where "aes_ecb L nwk enc = Some pt" "length pt = length enc" by blast
  then show ?thesis using that assms(3) by (auto simp: decrypt_join_accept_def)
qed

lemma open_join_accept_sound:
  assumes "aes_lib L" "lorawan_inv st" "length enc = 16 \<or> length enc = 32" "jr = correlated clk st"
  shows "\<exists>f st1. open_join_accept L enc jr st = Some (f, st1) \<and> lorawan_inv st1"
proof (cases "\<exists>ks r app nwk. lw_keystore st = Some ks \<and> jr = Some r \<and> root_keys_for (jr_dev_eui r) ks = Some (app, nwk)")
  case True
  then obtain ks r app nwk where k: "lw_keystore st = Some ks" "jr = Some r" "root_keys_for (jr_dev_eui r) ks = Some (app, nwk)"
    by blast
  have inv: "keystore_inv ks" and r: "length (jr_app_eui_raw r) = 8" "0 \<le> jr_dev_nonce r" "jr_dev_nonce r < 2 ^ 16"
    using assms(2,4) k by (auto simp: lorawan_inv_def correlated_def split: option.splits if_splits)
  have len: "length app = 16" "length nwk = 16" using root_keys_length [OF inv k(3)] by simp_all
  obtain f where f: "decrypt_join_accept L nwk enc = Some (Some f)" "length (ja_join_nonce f) = 3"
    using decrypt_join_accept_total [OF assms(1) len(2) assms(3)] .
  note s = derive_app_skey_total [OF assms(1) len(1) f(2) r]
  show ?thesis using k f s assms(2) set_session_key_inv [OF inv s(2)]
    by (auto simp: open_join_accept_def lorawan_inv_def split: option.splits)
next
  case False
  then show ?thesis using assms(2)
    by (auto simp: open_join_accept_def split: option.splits prod.splits)
qed

lemma open_frm_payload_total:
  assumes "aes_lib L" "lorawan_inv st" "0 \<le> addr" "addr < 2 ^ 32" "0 \<le> fcnt" "fcnt < 2 ^ 32" "length frm \<le> 4080"
  shows "\<exists>e. open_frm_payload L addr fcnt fport frm st = Some e"
proof (cases "\<exists>ks key. lw_keystore st = Some ks \<and> session_key_for addr ks = Some key")
  case True
  then obtain ks key where k: "lw_keystore st = Some ks" "session_key_for addr ks = Some key" by blast
  have inv: "keystore_inv ks" using assms(2) k by (simp add: lorawan_inv_def)
  have "frm_ok (L, key, addr, fcnt, True) (length frm)"
    using assms session_key_length [OF inv k(2)] by (simp add: frm_ok_def)
  then obtain p where p: "decrypt_frm_payload L key frm addr fcnt True = Some p"
    using frm.crypt_total by (fastforce simp: frm_stream_def)
  have "\<exists>d. lorawan_decode_payload fs p = Some d" if "payload_fields_for_addr addr ks = Some fs" for fs
    using decode_fields_total [OF payload_fields_ok [OF inv that]] by (simp add: lorawan_decode_payload_def)
  then show ?thesis using k p
    by (auto simp: open_frm_payload_def split: option.splits list.splits)
next
  case False
  then show ?thesis by (auto simp: open_frm_payload_def split: option.splits)
qed

definition lorawan_result_ok :: "signal_metrics option \<Rightarrow> time \<Rightarrow> lorawan_result \<Rightarrow> bool" where
  "lorawan_result_ok sig now res \<longleftrightarrow>
     (\<exists>r st. res = Some (r, st) \<and> lorawan_inv st \<and>
       (case r of None \<Rightarrow> True
        | Some p \<Rightarrow> protocol p = LORAWAN \<and> decoded_payload p \<noteq> None \<and> signal p = sig \<and> timestamp p = now))"

lemma lorawan_packet_fields [simp]:
  "protocol (lorawan_packet pid src dst pt pl dec sig now) = LORAWAN"
  "decoded_payload (lorawan_packet pid src dst pt pl dec sig now) = Some pl"
  "signal (lorawan_packet pid src dst pt pl dec sig now) = sig"
  "timestamp (lorawan_packet pid src dst pt pl dec sig now) = now"
  "decrypted (lorawan_packet pid src dst pt pl dec sig now) = dec"
  "packet_type (lorawan_packet pid src dst pt pl dec sig now) = pt"
  "source_id (lorawan_packet pid src dst pt pl dec sig now) = src"
  "packet_id (lorawan_packet pid src dst pt pl dec sig now) = pid"
  by (simp_all add: lorawan_packet_def default_packet_def)

lemma result_okI [intro]:
  "lorawan_inv st \<Longrightarrow> lorawan_result_ok sig now (Some (None, st))"
  "lorawan_inv st \<Longrightarrow> lorawan_result_ok sig now (Some (Some (lorawan_packet pid src dst pt pl dec sig now), st))"
  by (simp_all add: lorawan_result_ok_def)

lemma bind_ok:
  "\<exists>e. m = Some e \<Longrightarrow> (\<And>e. lorawan_result_ok sig now (k e)) \<Longrightarrow> lorawan_result_ok sig now (Option.bind m k)"
  by auto

lemma join_request_ok: "lorawan_inv st \<Longrightarrow> lorawan_result_ok sig now (decode_join_request now clk raw sig st)"
  using le_int_slice_bounds [of 17 2 raw]
  by (auto simp: decode_join_request_def Let_def lorawan_inv_def intro!: result_okI)

lemma join_accept_ok:
  assumes "aes_lib L" "lorawan_inv st"
  shows "lorawan_result_ok sig now (decode_join_accept L now clk raw sig st)"
proof (cases "length raw = 17 \<or> length raw = 33")
  case True
  then obtain f st1 where "open_join_accept L (drop 1 raw) (correlated clk st) st = Some (f, st1)" "lorawan_inv st1"
    using open_join_accept_sound [OF assms _ refl, of "drop 1 raw" clk] by auto
  then show ?thesis using True by (auto simp: decode_join_accept_def Let_def)
next
  case False
  then show ?thesis using assms by (auto simp: decode_join_accept_def)
qed

lemma data_up_ok:
  assumes "aes_lib L" "lorawan_inv st" "length raw \<le> 4080"
  shows "lorawan_result_ok sig now (decode_data_up L now raw mtype sig st)"
proof -
  have any: "\<exists>e. open_frm_payload L (le_int (slice 1 5 raw)) (le_int (slice 6 8 raw)) fport frm st = Some e"
    if "length frm \<le> 4080" for fport frm
    using le_int_slice_bounds [of 1 4 raw] le_int_slice_bounds [of 6 2 raw] that
    by (intro open_frm_payload_total [OF assms(1,2)]) auto
  have "\<exists>e. open_frm_payload L (le_int (slice 1 5 raw)) (le_int (slice 6 8 raw)) fport (slice a b raw) st = Some e" for fport a b
    using assms(3) by (intro any) auto
  moreover have "\<exists>e. open_frm_payload L (le_int (slice 1 5 raw)) (le_int (slice 6 8 raw)) fport [] st = Some e" for fport
    by (intro any) simp
  ultimately show ?thesis using assms(2)
    unfolding decode_data_up_def Let_def by (auto intro!: bind_ok)
qed

lemma rejoin_ok: "lorawan_inv st \<Longrightarrow> lorawan_result_ok sig now (decode_rejoin now raw sig st)"
  by (auto simp: decode_rejoin_def Let_def)


lemma lorawan_decode_ok:
  assumes "aes_lib L" "lorawan_inv st" "length raw \<le> 4080"
  shows "lorawan_result_ok sig now (lorawan_decode L now clk raw sig st)"
  using assms join_request_ok join_accept_ok data_up_ok rejoin_ok
  by (auto simp: lorawan_decode_def Let_def split: list.split)


section \<open>Properties\<close>

text \<open>Decoding a LoRaWAN frame never raises, whatever the bytes (frames of at most 4080 bytes; the radio
  delivers at most 255): it keeps every root and session key a 16-byte key, and a packet it yields is a
  LoRaWAN packet with a payload dictionary.\<close>

lemma lorawan_decode_sound:
  assumes "aes_lib L" "lorawan_inv st" "length raw \<le> 4080"
  shows "\<exists>r st'. lorawan_decode L now clk raw sig st = Some (r, st') \<and> lorawan_inv st' \<and>
    (case r of None \<Rightarrow> True
     | Some p \<Rightarrow> protocol p = LORAWAN \<and> decoded_payload p \<noteq> None \<and> signal p = sig \<and> timestamp p = now)"
  using lorawan_decode_ok [OF assms] by (simp add: lorawan_result_ok_def)

lemma lorawan_decode_sound_witness:
  "\<exists>r st'. lorawan_decode toy_lib 0 0 (0x40 # replicate 20 7) None (lorawan_init (Some keystore_init)) = Some (r, st') \<and> lorawan_inv st'"
  using lorawan_decode_sound [OF toy_lib_ok lorawan_init_inv, of "Some keystore_init" "0x40 # replicate 20 7" 0 0 None] keystore_init_inv
  by auto

text \<open>The frames of a joining device and of its network, as LoRaWAN lays them out.\<close>

definition join_request_frame :: "bytes \<Rightarrow> bytes \<Rightarrow> int \<Rightarrow> bytes \<Rightarrow> bytes" where
  "join_request_frame app_eui dev_eui nonce mic = [0x00] @ app_eui @ dev_eui @ le_bytes 2 nonce @ mic"

definition join_accept_plain :: "bytes \<Rightarrow> bytes \<Rightarrow> int \<Rightarrow> byte \<Rightarrow> byte \<Rightarrow> bytes \<Rightarrow> bytes" where
  "join_accept_plain jn net_id addr dl rx mic = jn @ net_id @ le_bytes 4 addr @ [dl, rx] @ mic"

definition data_frame :: "bool \<Rightarrow> int \<Rightarrow> byte \<Rightarrow> int \<Rightarrow> bytes \<Rightarrow> byte \<Rightarrow> bytes \<Rightarrow> bytes \<Rightarrow> bytes" where
  "data_frame conf addr flags fcnt fopts port frm mic =
     [if conf then 0x80 else 0x40] @ le_bytes 4 addr @ [(flags AND 0xF0) OR of_nat (length fopts)] @ le_bytes 2 fcnt @ fopts @ [port] @ frm @ mic"


lemma fopts_nibble: "n < 16 \<Longrightarrow> ((f AND 0xF0) OR of_nat n) AND 0x0F = (of_nat n :: byte)"
proof -
  assume n: "n < 16"
  have "(0x0F :: byte) = mask 4" by (simp add: mask_eq_exp_minus_1)
  then have "(of_nat n :: byte) AND 0x0F = take_bit 4 (of_nat n)" by (simp add: take_bit_eq_mask)
  also have "\<dots> = of_nat (take_bit 4 n)" by (simp add: take_bit_of_nat)
  also have "take_bit 4 n = n" using n by (simp add: take_bit_nat_eq_self)
  finally have "(of_nat n :: byte) AND 0x0F = of_nat n" .
  moreover have "(f AND 0xF0) AND (0x0F :: byte) = 0" by (simp add: and.assoc)
  ultimately show ?thesis by (simp add: bit.conj_disj_distrib2)
qed

lemma join_request_step:
  assumes "length app_eui = 8" "length dev_eui = 8" "length mic = 4" "0 \<le> nonce" "nonce < 2 ^ 16"
  obtains p where "lorawan_decode L now clk (join_request_frame app_eui dev_eui nonce mic) sig st =
    Some (Some p, st\<lparr>lw_last_join := Some \<lparr>jr_dev_eui = eui_str dev_eui, jr_app_eui = eui_str app_eui, jr_app_eui_raw = app_eui,
      jr_dev_nonce = nonce, jr_at = clk\<rparr>\<rparr>)"
    "source_id p = eui_str dev_eui" "packet_type p = LORAWAN_JOIN"
proof -
  let ?f = "join_request_frame app_eui dev_eui nonce mic"
  have sl: "slice 1 9 ?f = app_eui" "slice 9 17 ?f = dev_eui" "slice 17 19 ?f = le_bytes 2 nonce" "length ?f = 23"
    using assms by (simp_all add: join_request_frame_def slice_def)
  have "le_int (le_bytes 2 nonce) = nonce" using assms by (simp add: le_int_le_bytes)
  moreover obtain t where "?f = 0 # t" by (simp add: join_request_frame_def)
  then have "lorawan_decode L now clk ?f sig st = decode_join_request now clk ?f sig st" by (simp add: lorawan_decode_def)
  ultimately show ?thesis using that sl by (simp add: decode_join_request_def Let_def)
qed

lemma join_accept_step:
  assumes "aes_lib L" "lw_keystore st = Some ks" "keystore_inv ks" "lw_last_join st = Some jr" "clk - jr_at jr \<le> 10"
    and "root_keys_for (jr_dev_eui jr) ks = Some (app_key, nwk_key)"
    and "length (jr_app_eui_raw jr) = 8" "0 \<le> jr_dev_nonce jr" "jr_dev_nonce jr < 2 ^ 16"
    and "length jn = 3" "length net_id = 3" "length mic = 4" "0 \<le> addr" "addr < 2 ^ 32" "length enc = 16"
    and "aes_block L nwk_key enc = join_accept_plain jn net_id addr dl rx mic"
    and "skey = aes_block L app_key ([0x02] @ jn @ jr_app_eui_raw jr @ le_bytes 2 (jr_dev_nonce jr) @ [0, 0])"
  obtains p where "lorawan_decode L now clk (0x20 # enc) sig st =
      Some (Some p, st\<lparr>lw_keystore := Some (set_session_key addr skey (jr_dev_eui jr) ks)\<rparr>)"
    "decrypted p" "packet_type p = LORAWAN_JOIN_ACCEPT"
proof -
  have len: "length app_key = 16" "length nwk_key = 16" using root_keys_length [OF assms(3,6)] by simp_all
  have pt: "aes_ecb L nwk_key enc = Some (join_accept_plain jn net_id addr dl rx mic)"
    using aes_ecb_block(1) [OF assms(1), of nwk_key enc] len assms(15,16) by simp
  have addr: "le_int (le_bytes 4 addr) = addr" using assms(13,14) by (simp add: le_int_le_bytes)
  obtain f where f: "decrypt_join_accept L nwk_key enc = Some (Some f)" "ja_join_nonce f = jn" "ja_dev_addr f = addr"
    using pt addr assms(10-12,15) by (simp add: decrypt_join_accept_def join_accept_plain_def slice_def)
  have k: "derive_app_skey L app_key jn (jr_app_eui_raw jr) (jr_dev_nonce jr) = Some skey"
    using derive_app_skey_total(1) [OF assms(1) len(1) assms(10,7-9)] assms(17) by simp
  have "correlated clk st = Some jr" using assms(4,5) by (simp add: correlated_def JOIN_ACCEPT_CORRELATE_WINDOW_S_def)
  then have "open_join_accept L enc (correlated clk st) st =
      Some (Some f, st\<lparr>lw_keystore := Some (set_session_key addr skey (jr_dev_eui jr) ks)\<rparr>)"
    using assms(2,6) f k by (simp add: open_join_accept_def)
  then show ?thesis using that assms(15) by (simp add: lorawan_decode_def decode_join_accept_def Let_def)
qed

lemma data_step:
  assumes "lw_keystore st = Some ks" "session_key_for addr ks = Some skey" "0 \<le> addr" "addr < 2 ^ 32" "0 \<le> fcnt" "fcnt < 2 ^ 16"
    and "length fopts < 16" "port \<noteq> 0" "frm \<noteq> []" "length mic = 4"
    and "decrypt_frm_payload L skey frm addr fcnt True = Some plain"
    and "(case payload_fields_for_addr addr ks of Some (f # fs) \<Rightarrow> lorawan_decode_payload (f # fs) plain | _ \<Rightarrow> Some []) = Some app"
  obtains p d where "lorawan_decode L now clk (data_frame conf addr flags fcnt fopts port frm mic) sig st = Some (Some p, st)"
    "decrypted p" "packet_type p = LORAWAN_DATA" "source_id p = fmt_X 8 addr"
    "decoded_payload p = Some (dict_update d ((''frm_payload_decrypted'', pstr (lw_hex plain)) # app))"
proof -
  let ?r = "data_frame conf addr flags fcnt fopts port frm mic"
  let ?n = "length fopts"
  have len: "length ?r = 8 + ?n + 1 + length frm + 4" using assms(10) by (simp add: data_frame_def)
  have fr: "?r = ([if conf then 0x80 else 0x40] @ le_bytes 4 addr @ [(flags AND 0xF0) OR of_nat ?n] @ le_bytes 2 fcnt @ fopts @ [port]) @ frm @ mic"
    by (simp add: data_frame_def)
  have sl: "slice 1 5 ?r = le_bytes 4 addr" "slice 6 8 ?r = le_bytes 2 fcnt" "?r ! 5 = (flags AND 0xF0) OR of_nat ?n"
      "?r ! (8 + ?n) = port" by (simp_all add: data_frame_def slice_def nth_append)
  have frm: "slice (8 + ?n + 1) (8 + ?n + 1 + length frm) ?r = frm"
    unfolding fr by (rule slice_append_exact) simp_all
  have v: "le_int (le_bytes 4 addr) = addr" "le_int (le_bytes 2 fcnt) = fcnt" using assms(3-6) by (simp_all add: le_int_le_bytes)
  have nib: "unat (?r ! 5 AND 0x0F) = ?n" using fopts_nibble [OF assms(7)] assms(7) sl(3) by (simp add: unat_of_nat)
  have port: "0 < uint port" using assms(8) by (simp add: uint_0_iff order_less_le)
  have opened: "open_frm_payload L addr fcnt (Some (uint port)) frm st =
      Some (Some ((''frm_payload_decrypted'', pstr (lw_hex plain)) # app))"
    using assms(1,2,9,11,12) port by (simp add: open_frm_payload_def)
  have mic: "length ?r - 4 = 8 + ?n + 1 + length frm" using len by simp
  define mt where "mt = unat (drop_bit 5 (hd ?r) AND 0x07)"
  have "lorawan_decode L now clk ?r sig st = decode_data_up L now ?r mt sig st"
    by (cases conf) (simp_all add: lorawan_decode_def data_frame_def mt_def Let_def)
  moreover obtain p d where "decode_data_up L now ?r mt sig st = Some (Some p, st)" "decrypted p" "packet_type p = LORAWAN_DATA"
     "source_id p = fmt_X 8 addr" "decoded_payload p = Some (dict_update d ((''frm_payload_decrypted'', pstr (lw_hex plain)) # app))"
    using len mic opened sl frm nib v by (simp add: decode_data_up_def Let_def add.assoc)
  ultimately show ?thesis using that by simp
qed


text \<open>C8: a device that joins over the air is followed end to end. When its root keys are configured, the gateway
  hears its Join-Request, within ten seconds the Join-Accept its network sealed with the network key, and then a data
  frame (confirmed or not, with or without options) whose payload the device encrypted with its session key, then the
  data packet is reported decrypted, from the device's new address, with the plaintext the device sent and the
  configured fields read from it.\<close>

theorem otaa_session:
  assumes "aes_lib L" "lw_keystore st = Some ks" "keystore_inv ks"
    and "root_keys_for (eui_str dev_eui) ks = Some (app_key, nwk_key)"
    and "length app_eui = 8" "length dev_eui = 8" "0 \<le> nonce" "nonce < 2 ^ 16" "length mic0 = 4"
    and "length jn = 3" "length net_id = 3" "0 \<le> addr" "addr < 2 ^ 32" "length mic1 = 4"
    and "length enc = 16" "aes_block L nwk_key enc = join_accept_plain jn net_id addr dl rx mic1"
    and "t1 - t0 \<le> 10"
    and "skey = aes_block L app_key ([0x02] @ jn @ app_eui @ le_bytes 2 nonce @ [0, 0])"
    and "0 \<le> fcnt" "fcnt < 2 ^ 16" "length fopts < 16" "port \<noteq> 0" "plain \<noteq> []" "length plain \<le> 4080" "length mic2 = 4"
    and "decrypt_frm_payload L skey plain addr fcnt True = Some frm"
    and "app = (case map_of (ks_payload_fields ks) (upper (eui_str dev_eui)) of
           Some (f # fs) \<Rightarrow> the (lorawan_decode_payload (f # fs) plain) | _ \<Rightarrow> [])"
  shows "\<exists>p0 st0 p1 st1 p2 d.
    lorawan_decode L now0 t0 (join_request_frame app_eui dev_eui nonce mic0) sig0 st = Some (Some p0, st0) \<and>
    lorawan_decode L now1 t1 (0x20 # enc) sig1 st0 = Some (Some p1, st1) \<and> decrypted p1 \<and>
    lorawan_decode L now2 t2 (data_frame conf addr flags fcnt fopts port frm mic2) sig2 st1 = Some (Some p2, st1) \<and>
    decrypted p2 \<and> source_id p2 = fmt_X 8 addr \<and>
    decoded_payload p2 = Some (dict_update d ((''frm_payload_decrypted'', pstr (lw_hex plain)) # app))"
proof -
  let ?jr = "\<lparr>jr_dev_eui = eui_str dev_eui, jr_app_eui = eui_str app_eui, jr_app_eui_raw = app_eui, jr_dev_nonce = nonce, jr_at = t0\<rparr>"
  let ?st0 = "st\<lparr>lw_last_join := Some ?jr\<rparr>" and ?ks = "set_session_key addr skey (eui_str dev_eui) ks"
  let ?st1 = "?st0\<lparr>lw_keystore := Some ?ks\<rparr>"
  obtain p0 where p0: "lorawan_decode L now0 t0 (join_request_frame app_eui dev_eui nonce mic0) sig0 st = Some (Some p0, ?st0)"
    using join_request_step assms(5-9) by blast
  obtain p1 where p1: "lorawan_decode L now1 t1 (0x20 # enc) sig1 ?st0 = Some (Some p1, ?st1)" "decrypted p1"
    using join_accept_step [OF assms(1) _ assms(3), of ?st0 ?jr t1 app_key nwk_key jn net_id mic1 addr enc dl rx skey now1 sig1] assms
    by auto
  have skey: "length skey = 16"
    using derive_app_skey_total(2) [OF assms(1) _ assms(10,5,7,8)] root_keys_length [OF assms(3,4)] assms(18) by simp
  then have ok: "frm_ok (L, skey, addr, fcnt, True) (length plain)" using assms by (simp add: frm_ok_def)
  have opens: "decrypt_frm_payload L skey frm addr fcnt True = Some plain"
    using frm.crypt_back [OF ok] assms(26) by (simp add: frm_stream_def)
  have ne: "frm \<noteq> []" using frm.crypt_length [OF ok, of frm] assms(23,26) by (auto simp: frm_stream_def)
  have fields: "\<exists>d. lorawan_decode_payload fs plain = Some d" if "map_of (ks_payload_fields ks) e = Some fs" for e fs
    using decode_fields_total [of fs 0] that assms(3)
    by (auto simp: lorawan_decode_payload_def keystore_inv_def dest!: map_of_SomeD)
  have app: "(case payload_fields_for_addr addr ?ks of Some (f # fs) \<Rightarrow> lorawan_decode_payload (f # fs) plain | _ \<Rightarrow> Some []) = Some app"
    using fields [of "upper (eui_str dev_eui)"] assms(27) by (auto split: option.splits list.splits)
  obtain p2 d where "lorawan_decode L now2 t2 (data_frame conf addr flags fcnt fopts port frm mic2) sig2 ?st1 = Some (Some p2, ?st1)"
    "decrypted p2" "source_id p2 = fmt_X 8 addr"
    "decoded_payload p2 = Some (dict_update d ((''frm_payload_decrypted'', pstr (lw_hex plain)) # app))"
    by (rule data_step [of ?st1 ?ks addr skey fcnt fopts port frm mic2 L plain app now2 t2 conf flags sig2])
      (use app opens ne assms(12,13,19-22,25) that in simp_all)
  then show ?thesis using p0 p1 by blast
qed

definition demo_keystore :: keystore where
  "demo_keystore = keystore_init\<lparr>ks_root_keys := [(eui_str (replicate 8 0), replicate 16 1, replicate 16 2)]\<rparr>"

lemma demo_keystore_ok:
  "keystore_inv demo_keystore" "root_keys_for (eui_str (replicate 8 0)) demo_keystore = Some (replicate 16 1, replicate 16 2)"
proof -
  have u: "upper (eui_str (replicate 8 0)) = eui_str (replicate 8 0)" by code_simp
  show "keystore_inv demo_keystore" using u by (simp add: demo_keystore_def keystore_inv_def keystore_init_def)
  show "root_keys_for (eui_str (replicate 8 0)) demo_keystore = Some (replicate 16 1, replicate 16 2)"
    using u by (simp add: root_keys_for_def demo_keystore_def)
qed

theorem otaa_session_witness:
  "\<exists>frm p0 st0 p1 st1 p2 d.
    lorawan_decode toy_lib 0 0 (join_request_frame (replicate 8 1) (replicate 8 0) 5 (replicate 4 0)) None
      (lorawan_init (Some demo_keystore)) = Some (Some p0, st0) \<and>
    lorawan_decode toy_lib 1 6 (0x20 # rev (map (\<lambda>b. b - 2) (join_accept_plain [1, 2, 3] [4, 5, 6] 0x26011BDA 0 1 (replicate 4 9)))) None st0 =
      Some (Some p1, st1) \<and>
    lorawan_decode toy_lib 2 60 (data_frame False 0x26011BDA 0 1 [] 2 frm (replicate 4 8)) None st1 = Some (Some p2, st1) \<and>
    decoded_payload p2 = Some (dict_update d [(''frm_payload_decrypted'', pstr ''CAFE'')])"
proof -
  let ?pt = "join_accept_plain [1, 2, 3] [4, 5, 6] 0x26011BDA 0 1 (replicate 4 9)"
  let ?enc = "rev (map (\<lambda>b. b - 2) ?pt)"
  let ?skey = "aes_block toy_lib (replicate 16 1) ([0x02] @ [1, 2, 3] @ replicate 8 1 @ le_bytes 2 5 @ [0, 0])"
  have enc: "aes_block toy_lib (replicate 16 2) ?enc = ?pt" by (simp add: toy_lib_def rev_map o_def numeral_eq_Suc)
  have len: "length ?enc = 16" by (simp add: join_accept_plain_def)
  have sk: "length ?skey = 16" by (simp add: toy_lib_def)
  obtain frm where frm: "decrypt_frm_payload toy_lib ?skey [0xCA, 0xFE] 0x26011BDA 1 True = Some frm"
    using frm.crypt_total [of "(toy_lib, ?skey, 0x26011BDA, 1, True)" "[0xCA, 0xFE]"] sk toy_lib_ok
    by (auto simp: frm_ok_def frm_stream_def)
  have hex: "lw_hex [0xCA, 0xFE] = ''CAFE''" by code_simp
  have nf: "map_of (ks_payload_fields demo_keystore) e = None" for e by (simp add: demo_keystore_def keystore_init_def)
  from otaa_session [OF toy_lib_ok _ demo_keystore_ok, of "lorawan_init (Some demo_keystore)" "replicate 8 1" 5 "replicate 4 0"
      "[1, 2, 3]" "[4, 5, 6]" "0x26011BDA" "replicate 4 9" ?enc 0 1 6 0 ?skey 1 "[]" 2 "[0xCA, 0xFE]" "replicate 4 8" frm "[]"
      0 None 1 None 2 60 False 0 None]
  show ?thesis using enc len frm hex nf by (simp add: lorawan_init_def) blast
qed

text \<open>A type-1 Rejoin-Request of 23 bytes, one short of the layout, is accepted: byte 19 is read both as the high byte
  of the counter and as the first byte of the integrity code.\<close>

lemma rejoin_1_overlap:
  assumes "length raw = 23" "raw ! 0 = 0xC0" "raw ! 1 = 1"
  shows "\<exists>p d. lorawan_decode L now clk raw sig st = Some (Some p, st) \<and> decoded_payload p = Some d \<and>
    dget ''rjcount'' d = PInt (le_int [raw ! 18, raw ! 19]) \<and>
    dget ''mic'' d = pstr (lw_hex [raw ! 19, raw ! 20, raw ! 21, raw ! 22])"
proof -
  obtain b where raw: "raw = 0xC0 # b" using assms by (cases raw) auto
  have "slice 18 20 raw = [raw ! 18, raw ! 19]" "last_n 4 raw = [raw ! 19, raw ! 20, raw ! 21, raw ! 22]"
    using assms(1) by (auto simp: list_eq_iff_nth_eq slice_def last_n_def less_Suc_eq numeral_eq_Suc)
  then show ?thesis
    using assms raw by (simp add: lorawan_decode_def decode_rejoin_def Let_def dget_def)
qed

end
