(* ===== verification/Packet_Router.thy ===== *)
theory Packet_Router
  imports Meshtastic_Decoder Meshcore_Decoder Lorawan_Decoder
begin

text \<open>
  \<^verbatim>\<open>src/src/decode/packet_router.py\<close>: which decoder a captured frame goes to, and
  \<^verbatim>\<open>src/src/decode/stray_frame_log.py\<close>: the ring buffer of frames no decoder understood. The Meshtastic and the MeshCore
  decoder share one key ring; the LoRaWAN decoder has a state of its own.

  The locale states what a decoder promises to the router and to the capture pipeline; it is interpreted for the
  three decoders.
\<close>


section \<open>Routing\<close>

text \<open>What decoding reads besides the frame: the libraries, the node database, the clocks, the node's own id.\<close>

record router_env =
  re_lib :: crypto_lib
  re_pb :: pb_lib
  re_db :: "string \<Rightarrow> ustr option"
  re_db' :: "string \<Rightarrow> ustr option"
  re_now :: time
  re_clk :: rat
  re_our :: "int option"

record router =
  rt_crypto :: crypto
  rt_lorawan :: lorawan

definition via_meshtastic :: "router_env \<Rightarrow> bytes \<Rightarrow> signal_metrics option \<Rightarrow> pre_decoded option \<Rightarrow> router \<Rightarrow> (packet option \<times> router) option" where
  "via_meshtastic e raw sig pre rt =
     map_option (\<lambda>(r, cs). (r, rt\<lparr>rt_crypto := cs\<rparr>))
       (decode (re_lib e) (re_pb e) (re_db e) (re_db' e) (re_now e) (re_our e) raw sig pre (rt_crypto rt))"

definition via_meshcore :: "router_env \<Rightarrow> bytes \<Rightarrow> signal_metrics option \<Rightarrow> router \<Rightarrow> (packet option \<times> router) option" where
  "via_meshcore e raw sig rt = map_option (\<lambda>r. (r, rt)) (mc_decode (re_lib e) (re_now e) raw sig (rt_crypto rt))"

definition via_lorawan :: "router_env \<Rightarrow> bytes \<Rightarrow> signal_metrics option \<Rightarrow> router \<Rightarrow> (packet option \<times> router) option" where
  "via_lorawan e raw sig rt =
     map_option (\<lambda>(r, st). (r, rt\<lparr>rt_lorawan := st\<rparr>))
       (lorawan_decode (re_lib e) (re_now e) (re_clk e) raw sig (rt_lorawan rt))"

definition route ::
    "router_env \<Rightarrow> bytes \<Rightarrow> signal_metrics option \<Rightarrow> protocol option \<Rightarrow> pre_decoded option \<Rightarrow> router \<Rightarrow> (packet option \<times> router) option" where
  "route e raw sig hint pre rt =
     (if hint = Some LORAWAN then via_lorawan e raw sig rt
      else if hint = Some MESHTASTIC then via_meshtastic e raw sig pre rt
      else if hint = Some MESHCORE then via_meshcore e raw sig rt
      else do {
        (mt, rt1) \<leftarrow> via_meshtastic e raw sig pre rt;
        if (case mt of Some p \<Rightarrow> decrypted p | None \<Rightarrow> False) then Some (mt, rt1)
        else do {
          (mc, rt2) \<leftarrow> via_meshcore e raw sig rt1;
          if (case mc of Some p \<Rightarrow> decrypted p | None \<Rightarrow> False) then Some (mc, rt2)
          else Some (case mt of Some p \<Rightarrow> Some p | None \<Rightarrow> mc, rt2)
        }
      })"


section \<open>Stray frames\<close>

definition MAX_STRAY_ENTRIES :: nat where
  "MAX_STRAY_ENTRIES = 500"

definition MAX_RAW_BYTES :: nat where
  "MAX_RAW_BYTES = 512"

record stray_log =
  sl_entries :: "pydict list"
  sl_maxlen :: nat

definition stray_init :: "nat \<Rightarrow> stray_log" where
  "stray_init maxlen = \<lparr>sl_entries = [], sl_maxlen = maxlen\<rparr>"

definition stray_entry :: "raw_capture \<Rightarrow> pydict" where
  "stray_entry c =
     [(''received_at'', PFloat (rc_timestamp c)), (''capture_source'', pstr (rc_capture_source c)),
      (''protocol_hint'', case rc_protocol_hint c of Some p \<Rightarrow> pstr (protocol_value p) | None \<Rightarrow> PNone),
      (''byte_length'', PInt (int (length (rc_payload c)))),
      (''rssi'', case rc_signal c of Some s \<Rightarrow> PFloat (rssi s) | None \<Rightarrow> PNone),
      (''snr'', case rc_signal c of Some s \<Rightarrow> PFloat (snr s) | None \<Rightarrow> PNone),
      (''raw_hex'', pstr (bytes_hex hexdig (take MAX_RAW_BYTES (rc_payload c))))]"

definition stray_record :: "raw_capture \<Rightarrow> stray_log \<Rightarrow> stray_log" where
  "stray_record c l = l\<lparr>sl_entries := last_n (sl_maxlen l) (sl_entries l @ [stray_entry c])\<rparr>"

definition stray_snapshot :: "stray_log \<Rightarrow> pydict list" where
  "stray_snapshot l = sl_entries l"

definition stray_count :: "stray_log \<Rightarrow> nat" where
  "stray_count l = length (sl_entries l)"


section \<open>The decoder contract\<close>

fun decode_all :: "('c \<Rightarrow> 's \<Rightarrow> (packet option \<times> 's) option) \<Rightarrow> 'c list \<Rightarrow> 's \<Rightarrow> (packet option list \<times> 's) option" where
  "decode_all dec [] s = Some ([], s)"
| "decode_all dec (c # cs) s =
     do { (r, s1) \<leftarrow> dec c s; (rs, s2) \<leftarrow> decode_all dec cs s1; Some (r # rs, s2) }"

locale frame_decoder =
  fixes ok :: "'c \<Rightarrow> bool"
    and inv :: "'s \<Rightarrow> bool"
    and dec :: "'c \<Rightarrow> 's \<Rightarrow> (packet option \<times> 's) option"
    and protos :: "protocol list"
  assumes dec_total: "ok c \<Longrightarrow> inv s \<Longrightarrow> \<exists>r s'. dec c s = Some (r, s') \<and> inv s'"
    and dec_protocol: "ok c \<Longrightarrow> inv s \<Longrightarrow> dec c s = Some (Some p, s') \<Longrightarrow> protocol p \<in> set protos"
begin

text \<open>A whole stream of captures is decoded without an exception; one capture gives at most one packet, of a protocol
  of the decoder.\<close>

lemma stream:
  assumes "list_all ok cs" "inv s"
  shows "\<exists>rs s'. decode_all dec cs s = Some (rs, s') \<and> inv s' \<and> length rs = length cs \<and>
    list_all (\<lambda>r. case r of Some p \<Rightarrow> protocol p \<in> set protos | None \<Rightarrow> True) rs"
  using assms
proof (induction cs arbitrary: s)
  case Nil
  then show ?case by simp
next
  case (Cons c cs)
  have ok: "ok c" "list_all ok cs" using Cons.prems(1) by simp_all
  obtain r s1 where r: "dec c s = Some (r, s1)" "inv s1" using dec_total [OF ok(1) Cons.prems(2)] by blast
  obtain rs s2 where "decode_all dec cs s1 = Some (rs, s2)" "inv s2" "length rs = length cs"
      "list_all (\<lambda>r. case r of Some p \<Rightarrow> protocol p \<in> set protos | None \<Rightarrow> True) rs"
    using Cons.IH [OF ok(2) r(2)] by blast
  then show ?case using r dec_protocol [OF ok(1) Cons.prems(2)] by (auto split: option.split)
qed

end

definition router_inv :: "router \<Rightarrow> bool" where
  "router_inv rt \<longleftrightarrow> crypto_reach (rt_crypto rt) \<and> lorawan_inv (rt_lorawan rt)"

text \<open>A capture as the decoders see it: the environment, the bytes, the signal.\<close>

record frame_in =
  fi_env :: router_env
  fi_raw :: bytes
  fi_sig :: "signal_metrics option"
  fi_hint :: "protocol option"
  fi_pre :: "pre_decoded option"

definition frame_ok :: "frame_in \<Rightarrow> bool" where
  "frame_ok c \<longleftrightarrow> aes_lib (re_lib (fi_env c)) \<and> length (fi_raw c) \<le> 4080"

lemma meshtastic_decode_total:
  assumes "crypto_reach cs"
  obtains r cs1 where "decode L PB db db' now our raw sig pre cs = Some (r, cs1)" "crypto_reach cs1"
    "\<And>p. r = Some p \<Longrightarrow> protocol p = MESHTASTIC" "r = None \<longleftrightarrow> length raw < 16 \<or> parse_header (take 16 raw) = None"
proof (cases "length raw < 16 \<or> parse_header (take 16 raw) = None")
  case True
  then show ?thesis using that decode_header_fails [OF True] assms by auto
next
  case False
  then obtain h where h: "parse_header (take 16 raw) = Some h" and len: "16 \<le> length raw" by auto
  obtain v cs1 v1 where st: "first_stage L PB db db' our h (drop 16 raw) pre cs = (v, cs1)"
    and d: "decode L PB db db' now our raw sig pre cs =
      Some (Some (make_packet now raw sig h (drop 16 raw) (mark_encrypted h (drop 16 raw) v1)), cs1)"
    using decode_result [OF h len, where L = L and PB = PB and db = db and db' = db' and our = our and pre = pre
        and cs = cs and now = now and sig = sig] by blast
  have "crypto_reach cs1" using first_stage_reach [OF assms, of L PB db db' our h "drop 16 raw" pre] st by simp
  then show ?thesis using that [OF d] False by simp
qed

interpretation mt: frame_decoder frame_ok router_inv
  "\<lambda>c rt. via_meshtastic (fi_env c) (fi_raw c) (fi_sig c) (fi_pre c) rt" "[MESHTASTIC]"
proof
  fix c rt p rt'
  assume inv: "router_inv rt"
  obtain r cs where d: "decode (re_lib (fi_env c)) (re_pb (fi_env c)) (re_db (fi_env c)) (re_db' (fi_env c)) (re_now (fi_env c))
        (re_our (fi_env c)) (fi_raw c) (fi_sig c) (fi_pre c) (rt_crypto rt) = Some (r, cs)" "crypto_reach cs"
      "\<And>p. r = Some p \<Longrightarrow> protocol p = MESHTASTIC"
    using meshtastic_decode_total inv unfolding router_inv_def by metis
  then show "\<exists>r s'. via_meshtastic (fi_env c) (fi_raw c) (fi_sig c) (fi_pre c) rt = Some (r, s') \<and> router_inv s'"
    using inv by (simp add: via_meshtastic_def router_inv_def)
  assume "via_meshtastic (fi_env c) (fi_raw c) (fi_sig c) (fi_pre c) rt = Some (Some p, rt')"
  then show "protocol p \<in> set [MESHTASTIC]" using d by (simp add: via_meshtastic_def)
qed

interpretation mc: frame_decoder frame_ok router_inv "\<lambda>c rt. via_meshcore (fi_env c) (fi_raw c) (fi_sig c) rt" "[MESHCORE]"
proof
  fix c rt p rt'
  assume inv: "router_inv rt"
  obtain r where d: "mc_decode (re_lib (fi_env c)) (re_now (fi_env c)) (fi_raw c) (fi_sig c) (rt_crypto rt) = Some r"
      "case r of None \<Rightarrow> True | Some p \<Rightarrow> protocol p = MESHCORE"
    using mc_decode_total [of "re_lib (fi_env c)" "re_now (fi_env c)" "fi_raw c" "fi_sig c" "rt_crypto rt"]
    by (auto split: option.splits)
  then show "\<exists>r s'. via_meshcore (fi_env c) (fi_raw c) (fi_sig c) rt = Some (r, s') \<and> router_inv s'"
    using inv by (simp add: via_meshcore_def)
  assume "via_meshcore (fi_env c) (fi_raw c) (fi_sig c) rt = Some (Some p, rt')"
  then show "protocol p \<in> set [MESHCORE]" using d by (simp add: via_meshcore_def)
qed

interpretation lw: frame_decoder frame_ok router_inv "\<lambda>c rt. via_lorawan (fi_env c) (fi_raw c) (fi_sig c) rt" "[LORAWAN]"
proof
  fix c rt p rt'
  assume ok: "frame_ok c" and inv: "router_inv rt"
  have "lorawan_result_ok (fi_sig c) (re_now (fi_env c))
      (lorawan_decode (re_lib (fi_env c)) (re_now (fi_env c)) (re_clk (fi_env c)) (fi_raw c) (fi_sig c) (rt_lorawan rt))"
    using ok inv by (intro lorawan_decode_ok) (auto simp: frame_ok_def router_inv_def)
  then obtain r st where d: "lorawan_decode (re_lib (fi_env c)) (re_now (fi_env c)) (re_clk (fi_env c)) (fi_raw c) (fi_sig c) (rt_lorawan rt) =
        Some (r, st)" "lorawan_inv st" "case r of None \<Rightarrow> True | Some p \<Rightarrow> protocol p = LORAWAN"
    unfolding lorawan_result_ok_def by (auto split: option.splits)
  then show "\<exists>r s'. via_lorawan (fi_env c) (fi_raw c) (fi_sig c) rt = Some (r, s') \<and> router_inv s'"
    using inv by (simp add: via_lorawan_def router_inv_def)
  assume "via_lorawan (fi_env c) (fi_raw c) (fi_sig c) rt = Some (Some p, rt')"
  then show "protocol p \<in> set [LORAWAN]" using d by (simp add: via_lorawan_def)
qed


definition route_in :: "frame_in \<Rightarrow> router \<Rightarrow> (packet option \<times> router) option" where
  "route_in c rt = route (fi_env c) (fi_raw c) (fi_sig c) (fi_hint c) (fi_pre c) rt"

text \<open>The router keeps the contract because its decoders do.\<close>

interpretation rt: frame_decoder frame_ok router_inv route_in "[MESHTASTIC, MESHCORE, LORAWAN]"
proof
  fix c rt p rt'
  assume ok: "frame_ok c" and inv: "router_inv rt"
  obtain m rt1 where m: "via_meshtastic (fi_env c) (fi_raw c) (fi_sig c) (fi_pre c) rt = Some (m, rt1)" "router_inv rt1"
    using mt.dec_total [OF ok inv] by blast
  obtain n rt2 where n: "via_meshcore (fi_env c) (fi_raw c) (fi_sig c) rt1 = Some (n, rt2)" "router_inv rt2"
    using mc.dec_total [OF ok m(2)] by blast
  obtain n' rt2' where n': "via_meshcore (fi_env c) (fi_raw c) (fi_sig c) rt = Some (n', rt2')" "router_inv rt2'"
    using mc.dec_total [OF ok inv] by blast
  obtain l rt3 where l: "via_lorawan (fi_env c) (fi_raw c) (fi_sig c) rt = Some (l, rt3)" "router_inv rt3"
    using lw.dec_total [OF ok inv] by blast
  show "\<exists>r s'. route_in c rt = Some (r, s') \<and> router_inv s'"
    using m n n' l by (simp add: route_in_def route_def)
  assume "route_in c rt = Some (Some p, rt')"
  moreover have "m = Some q \<Longrightarrow> protocol q = MESHTASTIC" for q using mt.dec_protocol [OF ok inv] m(1) by fastforce
  moreover have "n = Some q \<Longrightarrow> protocol q = MESHCORE" for q using mc.dec_protocol [OF ok m(2)] n(1) by fastforce
  moreover have "n' = Some q \<Longrightarrow> protocol q = MESHCORE" for q using mc.dec_protocol [OF ok inv] n'(1) by fastforce
  moreover have "l = Some q \<Longrightarrow> protocol q = LORAWAN" for q using lw.dec_protocol [OF ok inv] l(1) by fastforce
  ultimately show "protocol p \<in> set [MESHTASTIC, MESHCORE, LORAWAN]"
    using m(1) n(1) n'(1) l(1) by (auto simp: route_in_def route_def split: if_splits option.splits)
qed

lemma last_n_snoc: "last_n m (last_n m xs @ [x]) = last_n m (xs @ [x])"
  by (cases "m \<le> length xs") (auto simp: last_n_def Suc_diff_le)

lemma length_bytes_hex: "length (bytes_hex dig bs) = 2 * length bs"
  by (induction bs) (simp_all add: bytes_hex_def)


section \<open>Properties\<close>

text \<open>The decoding pipeline never stops: for every sequence of captured frames, whatever their bytes, hints and
  pre-decoded parts, routing each of them in turn succeeds, gives at most one packet per frame, of a protocol the gateway
  knows, and leaves key ring and LoRaWAN sessions in a sound state.\<close>

lemma pipeline_total:
  assumes "list_all frame_ok frames" "crypto_reach (rt_crypto rt)" "lorawan_inv (rt_lorawan rt)"
  shows "\<exists>rs rt'. decode_all route_in frames rt = Some (rs, rt') \<and> length rs = length frames \<and>
    crypto_reach (rt_crypto rt') \<and> lorawan_inv (rt_lorawan rt') \<and>
    list_all (\<lambda>r. case r of Some p \<Rightarrow> protocol p \<in> set [MESHTASTIC, MESHCORE, LORAWAN] | None \<Rightarrow> True) rs"
  using rt.stream [OF assms(1), of rt] assms(2,3) unfolding router_inv_def by blast

definition demo_router :: router where
  "demo_router = \<lparr>rt_crypto = demo_crypto, rt_lorawan = lorawan_init None\<rparr>"

definition demo_frame :: "bytes \<Rightarrow> protocol option \<Rightarrow> frame_in" where
  "demo_frame raw hint = \<lparr>fi_env = \<lparr>re_lib = toy_lib, re_pb = wire_lib, re_db = (\<lambda>_. None), re_db' = (\<lambda>_. None), re_now = 0,
     re_clk = 0, re_our = None\<rparr>, fi_raw = raw, fi_sig = None, fi_hint = hint, fi_pre = None\<rparr>"

lemma demo_frame_ok: "length raw \<le> 4080 \<Longrightarrow> frame_ok (demo_frame raw hint)"
  by (simp add: frame_ok_def demo_frame_def toy_lib_ok)

lemma demo_router_ok: "crypto_reach (rt_crypto demo_router)" "lorawan_inv (rt_lorawan demo_router)"
  using demo_reach lorawan_init_inv [of None] by (simp_all add: demo_router_def)

lemma pipeline_total_witness:
  "\<exists>rs rt'. decode_all route_in [demo_frame [1, 2] None, demo_frame (replicate 20 3) (Some LORAWAN), demo_frame (replicate 30 5) None]
     demo_router = Some (rs, rt') \<and> length rs = 3"
  using pipeline_total [OF _ demo_router_ok, of "[demo_frame [1, 2] None, demo_frame (replicate 20 3) (Some LORAWAN),
      demo_frame (replicate 30 5) None]"] demo_frame_ok by auto

text \<open>How a frame without a usable hint is classified: it is dropped exactly when it has fewer than eight bytes;
  if the Meshtastic decoder decrypts it, its packet is the result; otherwise the packet is a MeshCore one when that
  decoder decrypts it, and else the Meshtastic packet when the Meshtastic header is well formed.\<close>

lemma route_without_hint:
  assumes "crypto_reach (rt_crypto rt)" "hint \<notin> {Some LORAWAN, Some MESHTASTIC, Some MESHCORE}"
    and "via_meshtastic e raw sig pre rt = Some (mt, rt1)" "via_meshcore e raw sig rt1 = Some (mc, rt2)"
  shows "\<exists>r rt'. route e raw sig hint pre rt = Some (r, rt') \<and> (r = None \<longleftrightarrow> length raw < 8) \<and>
    (\<forall>p. mt = Some p \<and> decrypted p \<longrightarrow> r = Some p) \<and>
    (\<forall>p. r = Some p \<longrightarrow> protocol p = MESHTASTIC \<or> protocol p = MESHCORE) \<and>
    (\<forall>p. r = Some p \<and> \<not> decrypted p \<longrightarrow>
       (protocol p = MESHTASTIC \<longleftrightarrow> 16 \<le> length raw \<and> parse_header (take 16 raw) \<noteq> None))"
proof -
  obtain r cs where d: "decode (re_lib e) (re_pb e) (re_db e) (re_db' e) (re_now e) (re_our e) raw sig pre (rt_crypto rt) = Some (r, cs)"
      "\<And>p. r = Some p \<Longrightarrow> protocol p = MESHTASTIC" "r = None \<longleftrightarrow> length raw < 16 \<or> parse_header (take 16 raw) = None"
    using meshtastic_decode_total [OF assms(1)] by metis
  then have mt: "mt = r" using assms(3) by (simp add: via_meshtastic_def)
  obtain q where "mc_decode (re_lib e) (re_now e) raw sig (rt_crypto rt1) = Some q"
      "case q of None \<Rightarrow> length raw < 8 | Some p \<Rightarrow> 8 \<le> length raw \<and> protocol p = MESHCORE"
    using mc_decode_total [of "re_lib e" "re_now e" raw sig "rt_crypto rt1"] by (auto split: option.splits)
  then have mc: "mc = None \<longleftrightarrow> length raw < 8" "\<And>p. mc = Some p \<Longrightarrow> protocol p = MESHCORE"
    using assms(4) by (auto simp: via_meshcore_def split: option.splits)
  have rt: "route e raw sig hint pre rt =
      (if (case mt of Some p \<Rightarrow> decrypted p | None \<Rightarrow> False) then Some (mt, rt1)
       else if (case mc of Some p \<Rightarrow> decrypted p | None \<Rightarrow> False) then Some (mc, rt2)
       else Some (case mt of Some p \<Rightarrow> Some p | None \<Rightarrow> mc, rt2))"
    using assms(2-4) by (simp add: route_def)
  show ?thesis
  proof (cases mt)
    case None
    then show ?thesis using rt mc d(3) mt by (cases mc) auto
  next
    case (Some p)
    then have p: "protocol p = MESHTASTIC" "16 \<le> length raw" "parse_header (take 16 raw) \<noteq> None" using d mt by auto
    then obtain q where "mc = Some q" using mc(1) by (cases mc) auto
    then show ?thesis using rt mc(2) Some p by (cases "decrypted p"; cases "decrypted q") auto
  qed
qed

lemma route_without_hint_witness:
  "\<exists>r rt'. route (fi_env (demo_frame [1, 2] None)) [1, 2] None None None demo_router = Some (r, rt') \<and> r = None"
proof -
  obtain mt rt1 where m: "via_meshtastic (fi_env (demo_frame [1, 2] None)) [1, 2] None None demo_router = Some (mt, rt1)" "router_inv rt1"
    using mt.dec_total [OF demo_frame_ok, of "[1, 2]" demo_router None] demo_router_ok by (auto simp: router_inv_def demo_frame_def)
  obtain mc rt2 where "via_meshcore (fi_env (demo_frame [1, 2] None)) [1, 2] None rt1 = Some (mc, rt2)"
    using mc.dec_total [OF demo_frame_ok m(2), of "[1, 2]" None] by (auto simp: demo_frame_def)
  from route_without_hint [OF demo_router_ok(1) _ m(1) this, of None] show ?thesis by auto
qed

text \<open>The stray-frame log is a ring buffer: after any sequence of records the snapshot shows the most recent
  entries in order, as many as fit, and no entry stores more than 512 bytes of a frame.\<close>

lemma stray_log_is_ring:
  "stray_snapshot (foldl (\<lambda>l c. stray_record c l) (stray_init m) cs) = last_n m (map stray_entry cs) \<and>
   stray_count (foldl (\<lambda>l c. stray_record c l) (stray_init m) cs) = min m (length cs) \<and>
   (\<exists>s. dget ''raw_hex'' (stray_entry c) = PStr s \<and> length s \<le> 1024)"
proof -
  have ring: "sl_maxlen (foldl (\<lambda>l c. stray_record c l) (stray_init m) cs) = m \<and>
      sl_entries (foldl (\<lambda>l c. stray_record c l) (stray_init m) cs) = last_n m (map stray_entry cs)"
  proof (induction cs rule: rev_induct)
    case Nil
    then show ?case by (simp add: stray_init_def last_n_def)
  next
    case (snoc c cs)
    then show ?case by (simp add: stray_record_def last_n_snoc)
  qed
  moreover have "\<exists>s. dget ''raw_hex'' (stray_entry c) = PStr s \<and> length s \<le> 1024"
    by (simp add: stray_entry_def dget_def lit_def MAX_RAW_BYTES_def length_bytes_hex)
  ultimately show ?thesis by (simp add: stray_snapshot_def stray_count_def)
qed

end
