(* ===== verification/Radio_Plan.thy ===== *)
theory Radio_Plan
  imports Utf8
begin

text \<open>
  Frequencies and modem settings: \<^verbatim>\<open>src/src/radio/presets.py\<close>, \<^verbatim>\<open>src/src/radio/channel_frequency.py\<close>,
  \<^verbatim>\<open>src/src/hal/concentrator_config.py\<close> and the frequency resolution of \<^verbatim>\<open>src/src/config.py\<close>. Floating-point numbers are
  rationals.
\<close>

section \<open>Presets\<close>

record modem_preset =
  mo_name :: string
  mo_display_name :: string
  mo_spreading_factor :: int
  mo_bandwidth_khz :: rat
  mo_coding_rate :: string
  mo_tx_capable :: bool

definition preset :: "string \<Rightarrow> string \<Rightarrow> int \<Rightarrow> rat \<Rightarrow> string \<Rightarrow> modem_preset" where
  "preset n d sf bw cr = \<lparr>mo_name = n, mo_display_name = d, mo_spreading_factor = sf, mo_bandwidth_khz = bw,
     mo_coding_rate = cr, mo_tx_capable = True\<rparr>"

definition MODEM_PRESETS :: "(string \<times> modem_preset) list" where
  "MODEM_PRESETS =
     [(''LONG_FAST'', preset ''LONG_FAST'' ''LongFast'' 11 250 ''4/5''),
      (''LONG_TURBO'', preset ''LONG_TURBO'' ''LongTurbo'' 11 500 ''4/8''),
      (''LONG_MODERATE'', preset ''LONG_MODERATE'' ''LongModerate'' 11 125 ''4/8''),
      (''LONG_SLOW'', preset ''LONG_SLOW'' ''LongSlow'' 12 125 ''4/8''),
      (''VERY_LONG_SLOW'', (preset ''VERY_LONG_SLOW'' ''VeryLongSlow'' 12 (125 / 2) ''4/8'')\<lparr>mo_tx_capable := False\<rparr>),
      (''MEDIUM_FAST'', preset ''MEDIUM_FAST'' ''MediumFast'' 9 250 ''4/5''),
      (''MEDIUM_SLOW'', preset ''MEDIUM_SLOW'' ''MediumSlow'' 10 250 ''4/5''),
      (''SHORT_FAST'', preset ''SHORT_FAST'' ''ShortFast'' 7 250 ''4/5''),
      (''SHORT_SLOW'', preset ''SHORT_SLOW'' ''ShortSlow'' 8 250 ''4/5''),
      (''SHORT_TURBO'', preset ''SHORT_TURBO'' ''ShortTurbo'' 7 500 ''4/5'')]"

definition REGION_DEFAULTS :: "(string \<times> rat) list" where
  "REGION_DEFAULTS =
     [(''US'', 906875 / 1000), (''EU_868'', 869525 / 1000), (''ANZ'', 916), (''IN'', 8654625 / 10000), (''KR'', 9219 / 10),
      (''SG_923'', 923)]"

definition get_preset :: "string \<Rightarrow> modem_preset option" where
  "get_preset name = map_of MODEM_PRESETS (upper name)"

text \<open>The integer conversions on both sides of the comparison do not change the numbers compared.\<close>

definition preset_from_params :: "int \<Rightarrow> rat \<Rightarrow> string \<Rightarrow> string option" where
  "preset_from_params sf bw_khz cr =
     map_option fst (find (\<lambda>(name, p). mo_spreading_factor p = sf \<and> mo_bandwidth_khz p = bw_khz \<and> mo_coding_rate p = cr)
       MODEM_PRESETS)"


section \<open>Channel frequencies\<close>

definition REGION_BAND_MHZ :: "(string \<times> rat \<times> rat) list" where
  "REGION_BAND_MHZ =
     [(''US'', 902, 928), (''EU_433'', 433, 434), (''EU_868'', 8694 / 10, 86965 / 100), (''ANZ'', 915, 928), (''IN'', 865, 867),
      (''KR'', 920, 923), (''SG_923'', 917, 925)]"

definition PRESET_HASH_NAME :: "(string \<times> string) list" where
  "PRESET_HASH_NAME =
     [(''SHORT_TURBO'', ''ShortTurbo''), (''SHORT_SLOW'', ''ShortSlow''), (''SHORT_FAST'', ''ShortFast''),
      (''MEDIUM_SLOW'', ''MediumSlow''), (''MEDIUM_FAST'', ''MediumFast''), (''LONG_SLOW'', ''LongSlow''),
      (''LONG_FAST'', ''LongFast''), (''LONG_TURBO'', ''LongTurbo''), (''LONG_MODERATE'', ''LongMod''),
      (''LITE_FAST'', ''LiteFast''), (''LITE_SLOW'', ''LiteSlow''), (''NARROW_FAST'', ''NarrowFast''),
      (''NARROW_SLOW'', ''NarrowSlow''), (''TINY_FAST'', ''TinyFast''), (''TINY_SLOW'', ''TinySlow'')]"

text \<open>\<^verbatim>\<open>((h << 5) + h + byte) & 0xFFFFFFFF\<close>; \<^const>\<open>None\<close> when the text has no UTF-8 encoding.\<close>

definition djb2_bytes :: "bytes \<Rightarrow> int" where
  "djb2_bytes bs = fold (\<lambda>b h. (push_bit 5 h + h + uint b) mod 2 ^ 32) bs 5381"

definition djb2 :: "ustr \<Rightarrow> int option" where
  "djb2 s = map_option djb2_bytes (utf8_encode s)"

definition preset_hash_name :: "string option \<Rightarrow> bool \<Rightarrow> string" where
  "preset_hash_name modem_preset use_preset =
     (if \<not> use_preset then ''Custom''
      else (case map_of PRESET_HASH_NAME (case modem_preset of None \<Rightarrow> [] | Some m \<Rightarrow> m) of Some n \<Rightarrow> n | None \<Rightarrow> ''Invalid''))"

text \<open>The keyword arguments of \<^verbatim>\<open>resolve_frequency_mhz\<close>.\<close>

record frequency_query =
  fq_region :: "string option"
  fq_channel_num :: "int option"
  fq_bandwidth_khz :: "rat option"
  fq_channel_name :: "ustr option"
  fq_modem_preset :: "string option"
  fq_use_preset :: bool
  fq_frequency_offset :: rat
  fq_override_frequency :: rat

definition channel_slot :: "frequency_query \<Rightarrow> int \<Rightarrow> int option" where
  "channel_slot q num_slots =
     (if fq_channel_num q \<noteq> None \<and> fq_channel_num q \<noteq> Some 0 then Some (the (fq_channel_num q) - 1)
      else
        let name = ustrip uni_space (case fq_channel_name q of None \<Rightarrow> [] | Some n \<Rightarrow> n);
            name = (if name = [] then lit (preset_hash_name (fq_modem_preset q) (fq_use_preset q)) else name)
        in map_option (\<lambda>h. h mod num_slots) (djb2 name))"

definition resolve_frequency_mhz :: "frequency_query \<Rightarrow> rat option" where
  "resolve_frequency_mhz q =
     (if fq_override_frequency q \<noteq> 0 then Some (py_round 4 (fq_override_frequency q + fq_frequency_offset q))
      else (case (fq_region q, fq_bandwidth_khz q) of
          (Some region, Some bw) \<Rightarrow>
            if region = [] \<or> bw = 0 then Some 0
            else (case map_of REGION_BAND_MHZ region of
                None \<Rightarrow> Some 0
              | Some (freq_start, freq_end) \<Rightarrow>
                  let width = bw / 1000 in
                  if width \<le> 0 then Some 0
                  else
                    let num_slots = round_half_even ((freq_end - freq_start) / width) in
                    if num_slots \<le> 0 then Some 0
                    else do {
                      slot \<leftarrow> channel_slot q num_slots;
                      if fq_channel_num q \<noteq> None \<and> fq_channel_num q \<noteq> Some 0 \<and> slot \<ge> num_slots then Some 0
                      else Some (py_round 4 (freq_start + bw / 2000 + of_int slot * width + fq_frequency_offset q))
                    })
        | _ \<Rightarrow> Some 0))"



section \<open>Frequency of a configuration\<close>

definition REGION_FREQ_START :: "(string \<times> rat) list" where
  "REGION_FREQ_START = [(''US'', 902), (''EU_868'', 863), (''ANZ'', 915), (''IN'', 865), (''KR'', 920), (''SG_923'', 917)]"

definition REGION_DEFAULT_FREQ :: "(string \<times> rat) list" where
  "REGION_DEFAULT_FREQ =
     [(''US'', 906875 / 1000), (''EU_868'', 869525 / 1000), (''ANZ'', 916), (''IN'', 8654625 / 10000), (''KR'', 9219 / 10),
      (''SG_923'', 923)]"

record rf_config =
  rf_region :: string
  rf_frequency_mhz :: "rat option"
  rf_slot :: "int option"
  rf_spreading_factor :: int
  rf_bandwidth_khz :: rat

definition resolve_radio_frequency :: "rf_config \<Rightarrow> rf_config" where
  "resolve_radio_frequency rc =
     (if rf_frequency_mhz rc \<noteq> None then rc
      else (case (rf_slot rc, map_of REGION_FREQ_START (rf_region rc)) of
          (Some slot, Some freq_start) \<Rightarrow>
            let spacing = rf_bandwidth_khz rc / 1000 in
            rc\<lparr>rf_frequency_mhz := Some (py_round 4 (freq_start + spacing / 2 + of_int (slot - 1) * spacing))\<rparr>
        | _ \<Rightarrow> rc\<lparr>rf_frequency_mhz :=
            Some (case map_of REGION_DEFAULT_FREQ (rf_region rc) of Some f \<Rightarrow> f | None \<Rightarrow> 906875 / 1000)\<rparr>))"


section \<open>Channel plans of the concentrator\<close>

definition REGION_DEFAULTS_HZ :: "(string \<times> int) list" where
  "REGION_DEFAULTS_HZ =
     [(''US'', 906875000), (''EU_868'', 869525000), (''ANZ'', 919875000), (''IN'', 865875000), (''KR'', 922875000),
      (''SG_923'', 917875000)]"

definition REGION_BAND_LIMITS_HZ :: "(string \<times> int \<times> int) list" where
  "REGION_BAND_LIMITS_HZ =
     [(''US'', 902000000, 928000000), (''EU_868'', 863000000, 870000000), (''ANZ'', 915000000, 928000000),
      (''IN'', 865000000, 867000000), (''KR'', 920000000, 923000000), (''SG_923'', 917000000, 925000000)]"

definition NARROW_BAND_REGIONS :: "string list" where
  "NARROW_BAND_REGIONS = [''EU_868'']"

record channel_config =
  ch_frequency_hz :: int
  ch_bandwidth_khz :: int
  ch_spreading_factor :: int
  ch_enabled :: bool

definition multi_sf :: "int \<Rightarrow> channel_config" where
  "multi_sf f = \<lparr>ch_frequency_hz = f, ch_bandwidth_khz = 125, ch_spreading_factor = 0, ch_enabled = True\<rparr>"

definition single_sf :: "int \<Rightarrow> int \<Rightarrow> int \<Rightarrow> channel_config" where
  "single_sf f bw sf = \<lparr>ch_frequency_hz = f, ch_bandwidth_khz = bw, ch_spreading_factor = sf, ch_enabled = True\<rparr>"

abbreviation disabled :: "int \<Rightarrow> channel_config" where
  "disabled f \<equiv> (multi_sf f)\<lparr>ch_enabled := False\<rparr>"

record channel_plan =
  pl_multi_sf_channels :: "channel_config list"
  pl_single_sf_channel :: "channel_config option"
  pl_radio_0_freq_hz :: int
  pl_radio_1_freq_hz :: int

text \<open>Channels \<open>step\<close> apart: \<^verbatim>\<open>[base + i * step for i in range(n)]\<close>.\<close>

definition comb :: "int \<Rightarrow> int \<Rightarrow> nat \<Rightarrow> channel_config list" where
  "comb base step n = map (\<lambda>i. multi_sf (base + int i * step)) [0..<n]"

definition build_centered_plan :: "int \<Rightarrow> int \<Rightarrow> rat \<Rightarrow> channel_plan" where
  "build_centered_plan center sf bw =
     \<lparr>pl_multi_sf_channels = comb (center - 700000) 200000 8, pl_single_sf_channel = Some (single_sf center (py_trunc bw) sf),
      pl_radio_0_freq_hz = center, pl_radio_1_freq_hz = center + 800000\<rparr>"

definition build_narrow_plan :: "int \<Rightarrow> int \<Rightarrow> rat \<Rightarrow> channel_plan" where
  "build_narrow_plan center sf bw =
     \<lparr>pl_multi_sf_channels = [multi_sf (center - 62500), multi_sf (center + 62500)] @ replicate 6 (disabled center),
      pl_single_sf_channel = Some (single_sf center (py_trunc bw) sf),
      pl_radio_0_freq_hz = center, pl_radio_1_freq_hz = center\<rparr>"

definition build_wide_band_plan :: "int \<Rightarrow> int \<Rightarrow> int \<Rightarrow> int \<Rightarrow> channel_plan" where
  "build_wide_band_plan primary radio_0 radio_1 base =
     \<lparr>pl_multi_sf_channels = comb base 200000 8, pl_single_sf_channel = Some (single_sf primary 250 11),
      pl_radio_0_freq_hz = radio_0, pl_radio_1_freq_hz = radio_1\<rparr>"

definition meshtastic_us915_default :: channel_plan where
  "meshtastic_us915_default = build_wide_band_plan 906875000 906800000 907400000 906200000"

definition eu868_lorawan :: channel_plan where
  "eu868_lorawan =
     \<lparr>pl_multi_sf_channels =
        map multi_sf [867900000, 868100000, 868300000, 868500000, 868700000, 869525000] @ [disabled 869525000, disabled 869525000],
      pl_single_sf_channel = Some (single_sf 869525000 250 11), pl_radio_0_freq_hz = 868300000, pl_radio_1_freq_hz = 869525000\<rparr>"

definition meshtastic_eu868_default :: channel_plan where
  "meshtastic_eu868_default =
     \<lparr>pl_multi_sf_channels = [multi_sf 869462500, multi_sf 869587500] @ replicate 6 (disabled 869525000),
      pl_single_sf_channel = Some (single_sf 869525000 250 11), pl_radio_0_freq_hz = 869525000, pl_radio_1_freq_hz = 869525000\<rparr>"

definition meshtastic_anz_default :: channel_plan where
  "meshtastic_anz_default = build_wide_band_plan 919875000 919800000 920400000 919200000"

definition meshtastic_in865_default :: channel_plan where
  "meshtastic_in865_default = build_wide_band_plan 865875000 865800000 866400000 865200000"

definition meshtastic_kr920_default :: channel_plan where
  "meshtastic_kr920_default =
     \<lparr>pl_multi_sf_channels = comb 921800000 200000 6 @ replicate 2 (disabled 922400000),
      pl_single_sf_channel = Some (single_sf 922875000 250 11), pl_radio_0_freq_hz = 922400000, pl_radio_1_freq_hz = 921400000\<rparr>"

definition meshtastic_sg923_default :: channel_plan where
  "meshtastic_sg923_default = build_wide_band_plan 917875000 917800000 918400000 917200000"

definition for_region :: "string \<Rightarrow> py_error + channel_plan" where
  "for_region region =
     (case map_of [(''US'', meshtastic_us915_default), (''EU_868'', eu868_lorawan), (''ANZ'', meshtastic_anz_default),
        (''IN'', meshtastic_in865_default), (''KR'', meshtastic_kr920_default), (''SG_923'', meshtastic_sg923_default)] region of
        None \<Rightarrow> Inl ValueError
      | Some plan \<Rightarrow> Inr plan)"

definition from_radio_config :: "string \<Rightarrow> rat \<Rightarrow> int \<Rightarrow> rat \<Rightarrow> py_error + channel_plan" where
  "from_radio_config region frequency_mhz sf bw =
     (let freq_hz = py_trunc (frequency_mhz * 1000000) in
      if region = [] then Inr (build_centered_plan freq_hz sf bw)
      else (case map_of REGION_DEFAULTS_HZ region of
          None \<Rightarrow> Inl ValueError
        | Some default_hz \<Rightarrow>
            if freq_hz = default_hz \<and> sf = 11 \<and> py_trunc bw = 250 then for_region region
            else
              let (band_min, band_max) = the (map_of REGION_BAND_LIMITS_HZ region);
                  target =
                    (if freq_hz \<noteq> default_hz \<and> \<not> (band_min \<le> freq_hz \<and> freq_hz \<le> band_max)
                     then (if freq_hz \<in> snd ` set REGION_DEFAULTS_HZ then Some default_hz else None)
                     else Some freq_hz)
              in (case target of
                    None \<Rightarrow> Inl ValueError
                  | Some f \<Rightarrow>
                      Inr (if region \<in> set NARROW_BAND_REGIONS then build_narrow_plan f sf bw else build_centered_plan f sf bw))))"

definition default_frequency_hz :: "string \<Rightarrow> int option" where
  "default_frequency_hz region = map_of REGION_DEFAULTS_HZ region"

definition band_limits_hz :: "string \<Rightarrow> (int \<times> int) option" where
  "band_limits_hz region = map_of REGION_BAND_LIMITS_HZ region"

text \<open>\<^verbatim>\<open>SX1302Wrapper._configure_if_channels\<close>: the radio a channel is attached to and its offset from that radio's centre; at most
  eight multi-SF channels are programmed.\<close>

definition LGW_MULTI_NB :: nat where
  "LGW_MULTI_NB = 8"

definition if_chain :: "channel_plan \<Rightarrow> channel_config \<Rightarrow> int \<times> int" where
  "if_chain plan ch =
     (let rf_chain = (if ch_frequency_hz ch \<le> pl_radio_0_freq_hz plan + 500000 then 0 else 1);
          center = (if rf_chain = 0 then pl_radio_0_freq_hz plan else pl_radio_1_freq_hz plan)
      in (rf_chain, ch_frequency_hz ch - center))"

definition configure_if_channels :: "channel_plan \<Rightarrow> (bool \<times> int \<times> int) list \<times> (bool \<times> int \<times> int) option" where
  "configure_if_channels plan =
     (map (\<lambda>ch. (ch_enabled ch, if_chain plan ch)) (take LGW_MULTI_NB (pl_multi_sf_channels plan)),
      map_option (\<lambda>ch. (ch_enabled ch, if_chain plan ch)) (pl_single_sf_channel plan))"



section \<open>Properties\<close>

text \<open>The stock query: LongFast, no channel number, no channel name.\<close>

definition longfast_query :: "string \<Rightarrow> frequency_query" where
  "longfast_query region = \<lparr>fq_region = Some region, fq_channel_num = Some 0, fq_bandwidth_khz = Some 250, fq_channel_name = None,
     fq_modem_preset = Some ''LONG_FAST'', fq_use_preset = True, fq_frequency_offset = 0, fq_override_frequency = 0\<rparr>"

lemma djb2_longfast: "djb2 (lit ''LongFast'') = Some 130429955"
  by (simp add: djb2_def utf8_encode_lit djb2_bytes_def)

lemma round4_grid: "py_round 4 (of_int n / 10000) = of_int n / 10000"
  by (simp add: py_round_def)

lemma longfast_slots:
  "resolve_frequency_mhz (longfast_query ''US'') = Some (906875 / 1000)"
  "resolve_frequency_mhz (longfast_query ''EU_868'') = Some (869525 / 1000)"
  "resolve_frequency_mhz (longfast_query ''ANZ'') = Some (919875 / 1000)"
  "resolve_frequency_mhz (longfast_query ''IN'') = Some (865875 / 1000)"
  "resolve_frequency_mhz (longfast_query ''KR'') = Some (922875 / 1000)"
  "resolve_frequency_mhz (longfast_query ''SG_923'') = Some (917875 / 1000)"
  using djb2_longfast
  by (simp_all add: longfast_query_def resolve_frequency_mhz_def REGION_BAND_MHZ_def round_half_even_def channel_slot_def ustrip_def
      preset_hash_name_def PRESET_HASH_NAME_def py_round_def)

text \<open>The concentrator's default frequency of every region is the slot that the LongFast channel hashes to, so a
  stock node is heard; but the table of \<^verbatim>\<open>radio/presets.py\<close>, from which the dashboard and the configuration
  loader take the default of a region, is that slot for US and EU_868 only.\<close>

lemma region_defaults:
  "list_all (\<lambda>(region, hz). resolve_frequency_mhz (longfast_query region) = Some (of_int hz / 1000000)) REGION_DEFAULTS_HZ \<and>
   map fst (filter (\<lambda>(region, mhz). resolve_frequency_mhz (longfast_query region) = Some mhz) REGION_DEFAULTS) = [''US'', ''EU_868''] \<and>
   REGION_DEFAULT_FREQ = REGION_DEFAULTS"
  by (simp add: REGION_DEFAULTS_HZ_def REGION_DEFAULTS_def REGION_DEFAULT_FREQ_def longfast_slots)

text \<open>The unrounded centre frequency of a slot.\<close>

lemma slot_in_band:
  fixes w s e :: rat
  assumes "0 < w" "n = round_half_even ((e - s) / w)" "0 \<le> k" "k < n"
  shows "s + w / 2 \<le> s + w / 2 + of_int k * w" "s + w / 2 + of_int k * w \<le> e"
    "of_int n * w \<le> e - s \<Longrightarrow> s + w / 2 + of_int k * w + w / 2 \<le> e"
proof -
  have k: "of_int k * w \<le> of_int n * w - w"
  proof -
    have "(of_int k + 1 :: rat) \<le> of_int n" using assms(4) by (metis of_int_1 of_int_add of_int_le_iff zless_imp_add1_zle)
    then have "(of_int k + 1) * w \<le> of_int n * w" using assms(1) by (simp add: mult_right_mono)
    then show ?thesis by (simp add: algebra_simps)
  qed
  have "of_int n \<le> (e - s) / w + 1 / 2" using round_half_even_bounds [of "(e - s) / w"] assms(2) by linarith
  then have "of_int n * w \<le> ((e - s) / w + 1 / 2) * w" using assms(1) by (simp add: mult_right_mono)
  moreover have "((e - s) / w + 1 / 2) * w = e - s + w / 2" using assms(1) by (simp add: distrib_right)
  ultimately have n: "of_int n * w \<le> e - s + w / 2" by simp
  show "s + w / 2 \<le> s + w / 2 + of_int k * w" using assms(1,3) by simp
  show "s + w / 2 + of_int k * w \<le> e" using k n by linarith
  show "of_int n * w \<le> e - s \<Longrightarrow> s + w / 2 + of_int k * w + w / 2 \<le> e" using k by linarith
qed

text \<open>An explicit channel number or a channel name always resolves into the region's band: unless the answer is 0 (unknown),
  the centre frequency lies in the band, and the whole channel does when the band holds a whole number of
  channels, up to the rounding to 100 Hz.\<close>

lemma resolved_frequency_in_band:
  assumes "resolve_frequency_mhz q = Some f" "f \<noteq> 0" "fq_override_frequency q = 0" "fq_frequency_offset q = 0"
    and "\<And>n. fq_channel_num q = Some n \<Longrightarrow> 0 \<le> n"
  shows "\<exists>region bw s e. fq_region q = Some region \<and> fq_bandwidth_khz q = Some bw \<and> map_of REGION_BAND_MHZ region = Some (s, e) \<and>
    s - 1 / 20000 \<le> f \<and> f \<le> e + 1 / 20000 \<and>
    (of_int (round_half_even ((e - s) / (bw / 1000))) * (bw / 1000) \<le> e - s \<longrightarrow>
       s - 1 / 20000 \<le> f - bw / 2000 \<and> f + bw / 2000 \<le> e + 1 / 20000)"
proof -
  obtain region bw s e where r: "fq_region q = Some region" "fq_bandwidth_khz q = Some bw" "map_of REGION_BAND_MHZ region = Some (s, e)"
    using assms by (auto simp: resolve_frequency_mhz_def split: option.splits if_splits)
  define w n where "w = bw / 1000" and "n = round_half_even ((e - s) / w)"
  obtain k where k: "channel_slot q n = Some k" "0 < w" "0 < n" "f = py_round 4 (s + bw / 2000 + of_int k * w)"
      and lt: "fq_channel_num q \<noteq> None \<Longrightarrow> fq_channel_num q \<noteq> Some 0 \<Longrightarrow> k < n"
    using assms(1-4) r
    by (auto simp: resolve_frequency_mhz_def Let_def w_def n_def split: if_splits Option.bind_splits)
  have kn: "0 \<le> k" "k < n" using k(1,3) lt assms(5) by (auto simp: channel_slot_def Let_def split: if_splits)
  define g where "g = s + w / 2 + of_int k * w"
  have f: "f = py_round 4 g" using k(4) by (simp add: g_def w_def)
  have "\<bar>f - g\<bar> \<le> 1 / 20000" using py_round_error [of 4 g] f by simp
  then have d: "f - g \<le> 1 / 20000" "g - f \<le> 1 / 20000" by linarith+
  note band = slot_in_band [OF k(2) n_def kn, folded g_def]
  have w: "w / 2 = bw / 2000" "0 < bw" using k(2) by (simp_all add: w_def)
  have "s - 1 / 20000 \<le> f - bw / 2000" "s - 1 / 20000 \<le> f" "f \<le> e + 1 / 20000" using d band(1,2) w by linarith+
  moreover have "f + bw / 2000 \<le> e + 1 / 20000" if "of_int n * w \<le> e - s" using d band(3) [OF that] w by linarith
  ultimately have "s - 1 / 20000 \<le> f \<and> f \<le> e + 1 / 20000 \<and>
      (of_int n * w \<le> e - s \<longrightarrow> s - 1 / 20000 \<le> f - bw / 2000 \<and> f + bw / 2000 \<le> e + 1 / 20000)" by blast
  then show ?thesis using r by (auto simp: n_def w_def)
qed

lemma resolved_frequency_in_band_witness:
  "\<exists>s e. map_of REGION_BAND_MHZ ''ANZ'' = Some (s, e) \<and> s - 1 / 20000 \<le> 919875 / 1000 \<and> 919875 / 1000 \<le> e + 1 / 20000"
  using resolved_frequency_in_band [OF longfast_slots(3)] by (auto simp: longfast_query_def)

text \<open>A slot number in the configuration means the same frequency as on a node of the region, except for EU_868, where the
  configuration counts from 863 MHz and the nodes from 869.4 MHz.\<close>

lemma config_slot_frequency:
  assumes "rf_frequency_mhz rc = None" "rf_slot rc = Some slot" "1 \<le> slot" "rf_bandwidth_khz rc > 0"
    and "rf_region rc \<in> {''US'', ''ANZ'', ''IN'', ''KR'', ''SG_923''}"
    and "q = (longfast_query (rf_region rc))\<lparr>fq_channel_num := Some slot, fq_bandwidth_khz := Some (rf_bandwidth_khz rc)\<rparr>"
    and "resolve_frequency_mhz q = Some f" "f \<noteq> 0"
  shows "rf_frequency_mhz (resolve_radio_frequency rc) = Some f \<and>
    rf_frequency_mhz (resolve_radio_frequency (rc\<lparr>rf_region := ''EU_868'', rf_slot := Some 1, rf_bandwidth_khz := 250\<rparr>)) = Some (863125 / 1000) \<and>
    resolve_frequency_mhz ((longfast_query ''EU_868'')\<lparr>fq_channel_num := Some 1\<rparr>) = Some (869525 / 1000)"
proof -
  have "rf_frequency_mhz (resolve_radio_frequency rc) = Some f"
    using assms
    by (auto simp: resolve_radio_frequency_def REGION_FREQ_START_def longfast_query_def resolve_frequency_mhz_def
        REGION_BAND_MHZ_def channel_slot_def Let_def split: if_splits)
  moreover have "resolve_frequency_mhz ((longfast_query ''EU_868'')\<lparr>fq_channel_num := Some 1\<rparr>) = Some (869525 / 1000)"
    by (simp add: longfast_query_def resolve_frequency_mhz_def REGION_BAND_MHZ_def round_half_even_def channel_slot_def py_round_def)
  ultimately show ?thesis using assms(1) by (simp add: resolve_radio_frequency_def REGION_FREQ_START_def py_round_def round_half_even_def)
qed

lemma config_slot_frequency_witness:
  "rf_frequency_mhz (resolve_radio_frequency \<lparr>rf_region = ''US'', rf_frequency_mhz = None, rf_slot = Some 20, rf_spreading_factor = 11,
     rf_bandwidth_khz = 250\<rparr>) = Some (906875 / 1000)"
proof -
  let ?rc = "\<lparr>rf_region = ''US'', rf_frequency_mhz = None, rf_slot = Some 20, rf_spreading_factor = 11, rf_bandwidth_khz = 250\<rparr> :: rf_config"
  let ?q = "(longfast_query ''US'')\<lparr>fq_channel_num := Some 20, fq_bandwidth_khz := Some 250\<rparr>"
  have "resolve_frequency_mhz ?q = Some (906875 / 1000)"
    by (simp add: longfast_query_def resolve_frequency_mhz_def REGION_BAND_MHZ_def round_half_even_def channel_slot_def py_round_def)
  then show ?thesis using config_slot_frequency [of ?rc 20 ?q "906875 / 1000"] by simp
qed


definition plan_ok :: "int \<Rightarrow> channel_plan \<Rightarrow> bool" where
  "plan_ok bound plan \<longleftrightarrow>
     length (pl_multi_sf_channels plan) = 8 \<and>
     list_all (\<lambda>(en, chain, off). en \<longrightarrow> \<bar>off\<bar> \<le> bound) (fst (configure_if_channels plan)) \<and>
     (case snd (configure_if_channels plan) of None \<Rightarrow> False | Some (en, chain, off) \<Rightarrow> en \<and> \<bar>off\<bar> \<le> 475000)"

lemma centered_plan_ok: "plan_ok 700000 (build_centered_plan f sf bw)"
  by (simp add: plan_ok_def configure_if_channels_def if_chain_def comb_def multi_sf_def single_sf_def LGW_MULTI_NB_def
      build_centered_plan_def upt_rec)

lemma narrow_plan_ok: "plan_ok 62500 (build_narrow_plan f sf bw)"
  by (simp add: plan_ok_def configure_if_channels_def if_chain_def multi_sf_def single_sf_def LGW_MULTI_NB_def
      build_narrow_plan_def numeral_eq_Suc)

lemma region_plan_ok: "for_region region = Inr plan \<Longrightarrow> plan_ok 600000 plan"
  by (auto simp: for_region_def plan_ok_def configure_if_channels_def if_chain_def comb_def multi_sf_def single_sf_def LGW_MULTI_NB_def
      build_wide_band_plan_def upt_rec numeral_eq_Suc meshtastic_us915_default_def eu868_lorawan_def meshtastic_anz_default_def
      meshtastic_in865_default_def meshtastic_kr920_default_def meshtastic_sg923_default_def split: if_splits)

lemma region_tables:
  "map_of REGION_DEFAULTS_HZ region = Some d \<Longrightarrow> \<exists>lo hi plan ch. map_of REGION_BAND_LIMITS_HZ region = Some (lo, hi) \<and> lo \<le> d \<and> d \<le> hi \<and>
     for_region region = Inr plan \<and> pl_single_sf_channel plan = Some ch \<and> ch_frequency_hz ch = d \<and> ch_spreading_factor ch = 11"
  by (auto simp: REGION_DEFAULTS_HZ_def REGION_BAND_LIMITS_HZ_def for_region_def single_sf_def build_wide_band_plan_def
      meshtastic_us915_default_def eu868_lorawan_def meshtastic_anz_default_def meshtastic_in865_default_def
      meshtastic_kr920_default_def meshtastic_sg923_default_def split: if_splits)

lemma plan_ok_mono: "plan_ok a plan \<Longrightarrow> a \<le> b \<Longrightarrow> plan_ok b plan"
  by (fastforce simp: plan_ok_def list_all_iff)

lemma channel_plan_usable:
  assumes "from_radio_config region mhz sf bw = Inr plan" "region \<noteq> []"
  shows "plan_ok 700000 plan \<and>
    (\<exists>ch lo hi. pl_single_sf_channel plan = Some ch \<and> band_limits_hz region = Some (lo, hi) \<and>
       lo \<le> ch_frequency_hz ch \<and> ch_frequency_hz ch \<le> hi \<and> ch_spreading_factor ch = sf \<and>
       (lo \<le> py_trunc (mhz * 1000000) \<and> py_trunc (mhz * 1000000) \<le> hi \<longrightarrow> ch_frequency_hz ch = py_trunc (mhz * 1000000)))"
proof -
  obtain d where d: "map_of REGION_DEFAULTS_HZ region = Some d"
    using assms by (auto simp: from_radio_config_def Let_def split: option.splits)
  obtain lo hi rp ch where t: "map_of REGION_BAND_LIMITS_HZ region = Some (lo, hi)" "lo \<le> d" "d \<le> hi" "for_region region = Inr rp"
      "pl_single_sf_channel rp = Some ch" "ch_frequency_hz ch = d" "ch_spreading_factor ch = 11"
    using region_tables [OF d] by blast
  define f where "f = py_trunc (mhz * 1000000)"
  have cases: "(f = d \<and> sf = 11 \<and> plan = rp) \<or>
      (\<exists>g. lo \<le> g \<and> g \<le> hi \<and> (lo \<le> f \<and> f \<le> hi \<longrightarrow> g = f) \<and> (plan = build_narrow_plan g sf bw \<or> plan = build_centered_plan g sf bw))"
    using assms d t by (auto simp: from_radio_config_def Let_def f_def split: if_splits)
  then show ?thesis
  proof (elim disjE exE conjE)
    assume "f = d" "sf = 11" "plan = rp"
    then show ?thesis using t region_plan_ok [OF t(4)] plan_ok_mono f_def by (fastforce simp: band_limits_hz_def)
  next
    fix g assume "lo \<le> g" "g \<le> hi" "lo \<le> f \<and> f \<le> hi \<longrightarrow> g = f" "plan = build_narrow_plan g sf bw"
    then show ?thesis using t plan_ok_mono [OF narrow_plan_ok, of 700000]
      by (auto simp: band_limits_hz_def f_def build_narrow_plan_def single_sf_def)
  next
    fix g assume "lo \<le> g" "g \<le> hi" "lo \<le> f \<and> f \<le> hi \<longrightarrow> g = f" "plan = build_centered_plan g sf bw"
    then show ?thesis using t centered_plan_ok
      by (auto simp: band_limits_hz_def f_def build_centered_plan_def single_sf_def)
  qed
qed

text \<open>A channel plan built for a region is usable: the service channel is in the region's band, at the requested
  frequency whenever that is in the band, with the requested spreading factor; all eight multi-SF channels are
  programmed, and every enabled channel is within 700 kHz of the radio it is attached to (the service channel within 475 kHz).\<close>

lemma channel_plan_sound:
  assumes "from_radio_config region mhz sf bw = Inr plan" "region \<noteq> []"
  shows "plan_ok 700000 plan \<and>
    (\<exists>ch lo hi. pl_single_sf_channel plan = Some ch \<and> band_limits_hz region = Some (lo, hi) \<and>
       lo \<le> ch_frequency_hz ch \<and> ch_frequency_hz ch \<le> hi \<and> ch_spreading_factor ch = sf \<and>
       (lo \<le> py_trunc (mhz * 1000000) \<and> py_trunc (mhz * 1000000) \<le> hi \<longrightarrow> ch_frequency_hz ch = py_trunc (mhz * 1000000)))"
  by (rule channel_plan_usable [OF assms])

lemma channel_plan_sound_witness:
  "\<exists>plan. from_radio_config ''US'' (9205 / 10) 9 250 = Inr plan \<and> plan_ok 700000 plan"
proof -
  have "from_radio_config ''US'' (9205 / 10) 9 250 = Inr (build_centered_plan 920500000 9 250)"
    by (simp add: from_radio_config_def REGION_DEFAULTS_HZ_def REGION_BAND_LIMITS_HZ_def NARROW_BAND_REGIONS_def py_trunc_def)
  then show ?thesis using channel_plan_sound [of "''US''" "9205 / 10" 9 250] by fastforce
qed

end
