(* ===== verification/Concentrator.thy ===== *)
theory Concentrator
  imports Packet_Router Radio_Plan
begin

text \<open>
  The capture side: \<^verbatim>\<open>receive\<close> and the register arithmetic of \<^verbatim>\<open>src/src/hal/sx1302_wrapper.py\<close>,
  \<^verbatim>\<open>src/src/capture/concentrator_source.py\<close> and the queue of \<^verbatim>\<open>src/src/capture/capture_coordinator.py\<close>. What the
  concentrator library answers is an argument: the packets of one \<^verbatim>\<open>lgw_receive\<close> call, or a negative count.
\<close>

section \<open>The concentrator\<close>

definition LGW_PKT_MAX :: nat where
  "LGW_PKT_MAX = 16"

definition STAT_CRC_OK :: int where
  "STAT_CRC_OK = 0x10"

definition STAT_CRC_BAD :: int where
  "STAT_CRC_BAD = 0x11"

definition STAT_NO_CRC :: int where
  "STAT_NO_CRC = 0x01"

definition MOD_FSK :: int where
  "MOD_FSK = 0x20"

definition BW_250KHZ :: int where
  "BW_250KHZ = 5"

definition BW_MAP :: "(int \<times> rat) list" where
  "BW_MAP = [(4, 125), (5, 250), (6, 500)]"

record lgw_pkt =
  lp_freq_hz :: int
  lp_if_chain :: int
  lp_status :: int
  lp_count_us :: int
  lp_modulation :: int
  lp_bandwidth :: int
  lp_datarate :: int
  lp_coderate :: int
  lp_rssic :: rat
  lp_snr :: rat
  lp_size :: nat
  lp_payload :: bytes

record concentrator_packet =
  cp_payload :: bytes
  cp_frequency_hz :: int
  cp_rssi :: rat
  cp_snr :: rat
  cp_spreading_factor :: int
  cp_bandwidth :: int
  cp_coderate :: int
  cp_crc_ok :: bool
  cp_timestamp_us :: int
  cp_modulation :: string

record wrapper =
  wr_started :: bool
  wr_crc_bad_count :: nat
  wr_no_crc_count :: nat
  wr_unknown_status_count :: nat

definition to_concentrator_packet :: "lgw_pkt \<Rightarrow> concentrator_packet" where
  "to_concentrator_packet p =
     \<lparr>cp_payload = take (lp_size p) (lp_payload p), cp_frequency_hz = lp_freq_hz p, cp_rssi = lp_rssic p, cp_snr = lp_snr p,
      cp_spreading_factor = lp_datarate p, cp_bandwidth = lp_bandwidth p, cp_coderate = lp_coderate p,
      cp_crc_ok = (lp_status p = STAT_CRC_OK), cp_timestamp_us = lp_count_us p,
      cp_modulation = (if lp_modulation p = MOD_FSK then ''fsk'' else ''lora'')\<rparr>"

definition receive_one :: "lgw_pkt \<Rightarrow> wrapper \<Rightarrow> concentrator_packet list \<times> wrapper" where
  "receive_one p w =
     (if lp_size p = 0 then ([], w)
      else if lp_status p = STAT_CRC_BAD then ([], w\<lparr>wr_crc_bad_count := wr_crc_bad_count w + 1\<rparr>)
      else if lp_status p = STAT_NO_CRC \<and> (lp_modulation p = MOD_FSK \<or> lp_if_chain p = int LGW_MULTI_NB)
        then ([], w\<lparr>wr_no_crc_count := wr_no_crc_count w + 1\<rparr>)
      else if lp_status p = STAT_NO_CRC
        then ([to_concentrator_packet p], w\<lparr>wr_no_crc_count := wr_no_crc_count w + 1\<rparr>)
      else if lp_status p \<noteq> STAT_CRC_OK then ([], w\<lparr>wr_unknown_status_count := wr_unknown_status_count w + 1\<rparr>)
      else ([to_concentrator_packet p], w))"

fun receive_loop :: "lgw_pkt list \<Rightarrow> wrapper \<Rightarrow> concentrator_packet list \<times> wrapper" where
  "receive_loop [] w = ([], w)"
| "receive_loop (p # ps) w =
     (let (r, w1) = receive_one p w; (rs, w2) = receive_loop ps w1 in (r @ rs, w2))"

text \<open>\<open>lock_free\<close>: whether no other thread holds the lock of the library; \<open>answer\<close>: the packets, \<^const>\<open>None\<close> for an error.\<close>

definition receive :: "bool \<Rightarrow> lgw_pkt list option \<Rightarrow> wrapper \<Rightarrow> concentrator_packet list \<times> wrapper" where
  "receive lock_free answer w =
     (if \<not> wr_started w then ([], w)
      else if \<not> lock_free then ([], w)
      else (case answer of None \<Rightarrow> ([], w) | Some ps \<Rightarrow> receive_loop ps w))"

text \<open>The peak positions of a service-channel sync word.\<close>

definition syncword_peaks :: "int \<Rightarrow> int \<times> int" where
  "syncword_peaks syncword = (and (drop_bit 4 syncword) 0x0F * 2, and syncword 0x0F * 2)"

definition FSK_DATARATE_MIN :: int where
  "FSK_DATARATE_MIN = 500"

definition FSK_DATARATE_MAX :: int where
  "FSK_DATARATE_MAX = 250000"

definition fsk_if_offset :: "int \<Rightarrow> int \<Rightarrow> int \<Rightarrow> py_error + int" where
  "fsk_if_offset rf_chain_freq_hz frequency_hz datarate =
     (if \<not> (FSK_DATARATE_MIN \<le> datarate \<and> datarate \<le> FSK_DATARATE_MAX) then Inl ValueError
      else Inr (frequency_hz - rf_chain_freq_hz))"

record fsk_tx =
  ft_freq_hz :: int
  ft_rf_chain :: int
  ft_rf_power :: int
  ft_datarate :: int
  ft_f_dev :: int
  ft_size :: nat
  ft_payload :: bytes

definition build_fsk_packet :: "bytes \<Rightarrow> int \<Rightarrow> int \<Rightarrow> int \<Rightarrow> int \<Rightarrow> py_error + fsk_tx" where
  "build_fsk_packet payload frequency_hz rf_power datarate f_dev =
     (if \<not> (FSK_DATARATE_MIN \<le> datarate \<and> datarate \<le> FSK_DATARATE_MAX) then Inl ValueError
      else if \<not> (1 \<le> f_dev \<and> f_dev \<le> 200) then Inl ValueError
      else if length payload > 255 then Inl ValueError
      else Inr \<lparr>ft_freq_hz = frequency_hz, ft_rf_chain = 0, ft_rf_power = rf_power, ft_datarate = datarate, ft_f_dev = f_dev,
                ft_size = length payload, ft_payload = payload\<rparr>)"


section \<open>The capture source\<close>

definition MESHTASTIC_EU868_FREQS_HZ :: "int list" where
  "MESHTASTIC_EU868_FREQS_HZ = [869525000]"

definition resolve_channel_plan :: "channel_plan option \<Rightarrow> rf_config option \<Rightarrow> py_error + channel_plan" where
  "resolve_channel_plan plan rc =
     (case rc of
        Some r \<Rightarrow> from_radio_config (rf_region r) (the (rf_frequency_mhz r)) (rf_spreading_factor r) (rf_bandwidth_khz r)
      | None \<Rightarrow> (case plan of Some p \<Rightarrow> Inr p | None \<Rightarrow> Inr meshtastic_us915_default))"

definition capture_signal :: "time \<Rightarrow> concentrator_packet \<Rightarrow> signal_metrics" where
  "capture_signal now p =
     \<lparr>rssi = cp_rssi p, snr = cp_snr p, frequency_mhz = of_int (cp_frequency_hz p) / 1000000,
      spreading_factor = cp_spreading_factor p,
      bandwidth_khz = (case map_of BW_MAP (cp_bandwidth p) of Some b \<Rightarrow> b | None \<Rightarrow> 125), coding_rate = ''4/8''\<rparr>"

definition capture_hint :: "concentrator_packet \<Rightarrow> protocol" where
  "capture_hint p =
     (if cp_modulation p = ''fsk'' then PAGER
      else if cp_frequency_hz p \<in> set MESHTASTIC_EU868_FREQS_HZ \<and> cp_bandwidth p = BW_250KHZ then MESHTASTIC
      else LORAWAN)"

definition capture_of :: "time \<Rightarrow> concentrator_packet \<Rightarrow> raw_capture" where
  "capture_of now p =
     \<lparr>rc_payload = cp_payload p, rc_signal = Some (capture_signal now p), rc_capture_source = ''concentrator'',
      rc_timestamp = now, rc_protocol_hint = Some (capture_hint p), rc_pre_decoded = None\<rparr>"


section \<open>The capture coordinator\<close>

text \<open>The queue between the capture sources and the pipeline, and the tasks that fill it, one for each source that
  started, by its position. A \<^verbatim>\<open>maxsize\<close> of 0 is no limit.\<close>

record capture_coord =
  cq_items :: "raw_capture list"
  cq_maxsize :: nat
  cq_running :: bool
  cq_tasks :: "nat list"

definition coord_init :: "nat \<Rightarrow> capture_coord" where
  "coord_init n = \<lparr>cq_items = [], cq_maxsize = n, cq_running = False, cq_tasks = []\<rparr>"

datatype start_outcome = StartOk | StartFails | StartImportError

text \<open>\<^const>\<open>False\<close>: an \<^verbatim>\<open>ImportError\<close> left \<^verbatim>\<open>start\<close>.\<close>

fun start_sources :: "nat \<Rightarrow> start_outcome list \<Rightarrow> nat list \<Rightarrow> bool \<times> nat list" where
  "start_sources i [] tasks = (True, tasks)"
| "start_sources i (r # rs) tasks =
     (case r of
        StartImportError \<Rightarrow> (False, tasks)
      | StartFails \<Rightarrow> start_sources (i + 1) rs tasks
      | StartOk \<Rightarrow> start_sources (i + 1) rs (tasks @ [i]))"

definition coord_start :: "start_outcome list \<Rightarrow> capture_coord \<Rightarrow> bool \<times> capture_coord" where
  "coord_start rs q =
     (let (ok, tasks) = start_sources 0 rs (cq_tasks q) in (ok, q\<lparr>cq_running := True, cq_tasks := tasks\<rparr>))"

text \<open>\<^verbatim>\<open>stop\<close> awaits the sources between clearing the flag and cancelling the tasks.\<close>

definition coord_stop_begin :: "capture_coord \<Rightarrow> capture_coord" where
  "coord_stop_begin q = q\<lparr>cq_running := False\<rparr>"

definition coord_stop_end :: "capture_coord \<Rightarrow> capture_coord" where
  "coord_stop_end q = q\<lparr>cq_tasks := []\<rparr>"

definition queue_full :: "capture_coord \<Rightarrow> bool" where
  "queue_full q \<longleftrightarrow> 0 < cq_maxsize q \<and> cq_maxsize q \<le> length (cq_items q)"

text \<open>The task of source \<open>i\<close> gets a capture from it. \<^const>\<open>Some\<close> \<^const>\<open>False\<close>: dropped, the queue is full.\<close>

definition queue_put :: "nat \<Rightarrow> raw_capture \<Rightarrow> capture_coord \<Rightarrow> bool option \<times> capture_coord" where
  "queue_put i c q =
     (if i \<notin> set (cq_tasks q) then (None, q)
      else if \<not> cq_running q then (None, q\<lparr>cq_tasks := removeAll i (cq_tasks q)\<rparr>)
      else if queue_full q then (Some False, q)
      else (Some True, q\<lparr>cq_items := cq_items q @ [c]\<rparr>))"

text \<open>The stream of a source ends or raises.\<close>

definition source_ends :: "nat \<Rightarrow> capture_coord \<Rightarrow> capture_coord" where
  "source_ends i q = q\<lparr>cq_tasks := removeAll i (cq_tasks q)\<rparr>"

text \<open>One round of \<^verbatim>\<open>packets\<close>: nothing after \<^verbatim>\<open>stop\<close>, and nothing when the second passes without a capture.\<close>

definition queue_get :: "capture_coord \<Rightarrow> raw_capture option \<times> capture_coord" where
  "queue_get q =
     (if \<not> cq_running q then (None, q)
      else (case cq_items q of [] \<Rightarrow> (None, q) | c # cs \<Rightarrow> (Some c, q\<lparr>cq_items := cs\<rparr>)))"

datatype coord_event = Put nat raw_capture | Get | Ends nat | Start "start_outcome list" | StopBegin | StopEnd

text \<open>A run of the coordinator: what was accepted, what was taken.\<close>

fun coord_run :: "coord_event list \<Rightarrow> capture_coord \<Rightarrow> raw_capture list \<times> raw_capture list \<times> capture_coord" where
  "coord_run [] q = ([], [], q)"
| "coord_run (Put i c # es) q =
     (let (ok, q1) = queue_put i c q; (acc, taken, q2) = coord_run es q1 in (if ok = Some True then c # acc else acc, taken, q2))"
| "coord_run (Get # es) q =
     (let (r, q1) = queue_get q; (acc, taken, q2) = coord_run es q1 in (acc, (case r of Some c \<Rightarrow> c # taken | None \<Rightarrow> taken), q2))"
| "coord_run (Ends i # es) q = coord_run es (source_ends i q)"
| "coord_run (Start rs # es) q = coord_run es (snd (coord_start rs q))"
| "coord_run (StopBegin # es) q = coord_run es (coord_stop_begin q)"
| "coord_run (StopEnd # es) q = coord_run es (coord_stop_end q)"



section \<open>Properties\<close>

lemma receive_one_delivers:
  "x \<in> set (fst (receive_one p w)) \<Longrightarrow> x = to_concentrator_packet p \<and> lp_size p \<noteq> 0 \<and>
    (lp_status p = STAT_CRC_OK \<or> lp_status p = STAT_NO_CRC \<and> lp_modulation p \<noteq> MOD_FSK \<and> lp_if_chain p \<noteq> 8)"
  by (auto simp: receive_one_def LGW_MULTI_NB_def split: if_splits)

definition nonempty :: "lgw_pkt list \<Rightarrow> lgw_pkt list" where
  "nonempty ps = filter (\<lambda>p. lp_size p \<noteq> 0) ps"

text \<open>What a poll of the concentrator hands over: only packets the library returned, each with its own first bytes, and one
  without a valid checksum only if it is a LoRa packet from a LoRaWAN channel (0 to 7) sent without one; and no
  packet disappears unseen: every non-empty packet is handed over or counted.\<close>

lemma receive_accounts_for_packets:
  assumes "receive_loop ps w = (rs, w')"
  shows "list_all (\<lambda>x. \<exists>p. p \<in> set ps \<and> x = to_concentrator_packet p \<and> lp_size p \<noteq> 0 \<and>
      (cp_crc_ok x \<or> lp_status p = STAT_NO_CRC \<and> cp_modulation x = ''lora'' \<and> lp_if_chain p \<noteq> 8)) rs \<and>
    length (nonempty ps) + wr_crc_bad_count w + wr_no_crc_count w + wr_unknown_status_count w \<le>
      length rs + wr_crc_bad_count w' + wr_no_crc_count w' + wr_unknown_status_count w'"
  using assms
proof (induction ps arbitrary: w rs)
  case (Cons p ps)
  obtain r w1 where r: "receive_one p w = (r, w1)" by fastforce
  obtain rs1 w2 where l: "receive_loop ps w1 = (rs1, w2)" by fastforce
  have rs: "rs = r @ rs1" "w' = w2" using Cons.prems r l by simp_all
  have "length (nonempty [p]) + wr_crc_bad_count w + wr_no_crc_count w + wr_unknown_status_count w \<le>
      length r + wr_crc_bad_count w1 + wr_no_crc_count w1 + wr_unknown_status_count w1"
    using r by (auto simp: receive_one_def nonempty_def split: if_splits)
  moreover have "\<exists>q. q \<in> set (p # ps) \<and> x = to_concentrator_packet q \<and> lp_size q \<noteq> 0 \<and>
      (cp_crc_ok x \<or> lp_status q = STAT_NO_CRC \<and> cp_modulation x = ''lora'' \<and> lp_if_chain q \<noteq> 8)" if "x \<in> set r" for x
    using receive_one_delivers [of x p w] that r by (intro exI [of _ p]) (auto simp: to_concentrator_packet_def)
  ultimately show ?case using Cons.IH [of w1 rs1] l rs by (fastforce simp: list_all_iff nonempty_def)
qed (simp add: nonempty_def)

lemma receive_accounts_for_packets_witness:
  "length (nonempty [\<lparr>lp_freq_hz = 868100000, lp_if_chain = 1, lp_status = STAT_NO_CRC, lp_count_us = 0, lp_modulation = 0x10,
      lp_bandwidth = 4, lp_datarate = 9, lp_coderate = 1, lp_rssic = 0, lp_snr = 0, lp_size = 2, lp_payload = [1, 2, 3]\<rparr>]) + 0 + 0 + 0 \<le> (1 + 0 + 1 + 0 :: nat)"
  using receive_accounts_for_packets [of "[\<lparr>lp_freq_hz = 868100000, lp_if_chain = 1, lp_status = STAT_NO_CRC, lp_count_us = 0, lp_modulation = 0x10,
      lp_bandwidth = 4, lp_datarate = 9, lp_coderate = 1, lp_rssic = 0, lp_snr = 0, lp_size = 2, lp_payload = [1, 2, 3]\<rparr>]"
      "\<lparr>wr_started = True, wr_crc_bad_count = 0, wr_no_crc_count = 0, wr_unknown_status_count = 0\<rparr>"]
  by (simp add: receive_one_def STAT_NO_CRC_def STAT_CRC_BAD_def STAT_CRC_OK_def MOD_FSK_def LGW_MULTI_NB_def nonempty_def)

text \<open>However sources and pipeline interleave, what the pipeline has taken followed by what is still queued is what was
  queued at first followed by what was accepted, in order, and a queue with a limit never exceeds it.\<close>

lemma queue_step_simps [simp]:
  "cq_items (source_ends i q) = cq_items q" "cq_maxsize (source_ends i q) = cq_maxsize q"
  "cq_items (snd (coord_start rs q)) = cq_items q" "cq_maxsize (snd (coord_start rs q)) = cq_maxsize q"
  "cq_items (coord_stop_begin q) = cq_items q" "cq_maxsize (coord_stop_begin q) = cq_maxsize q"
  "cq_items (coord_stop_end q) = cq_items q" "cq_maxsize (coord_stop_end q) = cq_maxsize q"
  by (simp_all add: source_ends_def coord_start_def coord_stop_begin_def coord_stop_end_def split: prod.split)

lemma queue_put_items:
  assumes "queue_put i c q = (ok, q1)"
  shows "cq_items q1 = (if ok = Some True then cq_items q @ [c] else cq_items q)" "cq_maxsize q1 = cq_maxsize q"
    "ok = Some True \<Longrightarrow> 0 < cq_maxsize q \<Longrightarrow> length (cq_items q) < cq_maxsize q"
  using assms by (auto simp: queue_put_def queue_full_def split: if_splits)

lemma queue_get_items:
  assumes "queue_get q = (r, q1)"
  shows "cq_items q = (case r of Some c \<Rightarrow> c # cq_items q1 | None \<Rightarrow> cq_items q1)" "cq_maxsize q1 = cq_maxsize q"
  using assms by (auto simp: queue_get_def split: if_splits list.splits)

lemma coord_run_fifo:
  "coord_run es q = (acc, taken, q') \<Longrightarrow> 0 < cq_maxsize q \<longrightarrow> length (cq_items q) \<le> cq_maxsize q \<Longrightarrow>
   cq_items q @ acc = taken @ cq_items q' \<and> (0 < cq_maxsize q \<longrightarrow> length (cq_items q') \<le> cq_maxsize q)"
proof (induction es q arbitrary: acc taken rule: coord_run.induct)
  case (2 i c es q)
  obtain ok q1 where p: "queue_put i c q = (ok, q1)" by fastforce
  obtain acc1 where r: "coord_run es q1 = (acc1, taken, q')" and acc: "acc = (if ok = Some True then c # acc1 else acc1)"
    using 2(2) p by (auto split: prod.splits)
  have l: "0 < cq_maxsize q1 \<longrightarrow> length (cq_items q1) \<le> cq_maxsize q1" using queue_put_items [OF p] 2(3) by auto
  show ?case using 2(1) [OF p [symmetric] refl r l] queue_put_items [OF p] acc by (auto split: if_splits)
next
  case (3 es q)
  obtain x q1 where g: "queue_get q = (x, q1)" by fastforce
  obtain taken1 where r: "coord_run es q1 = (acc, taken1, q')" and t: "taken = (case x of Some c \<Rightarrow> c # taken1 | None \<Rightarrow> taken1)"
    using 3(2) g by (auto split: prod.splits)
  have l: "0 < cq_maxsize q1 \<longrightarrow> length (cq_items q1) \<le> cq_maxsize q1"
    using queue_get_items [OF g] 3(3) by (auto split: option.splits)
  show ?case using 3(1) [OF g [symmetric] refl r l] queue_get_items [OF g] t by (auto split: option.splits)
qed auto

text \<open>A source that fails to start, or whose stream raises, takes no other source with it.\<close>

lemma start_sources_others:
  assumes "StartImportError \<notin> set rs"
  shows "fst (start_sources i rs tasks) \<and>
    (n \<in> set (snd (start_sources i rs tasks)) \<longleftrightarrow> n \<in> set tasks \<or> (\<exists>k < length rs. rs ! k = StartOk \<and> n = i + k))"
  using assms
proof (induction i rs tasks rule: start_sources.induct)
  case (2 i r rs tasks)
  have "(\<exists>k < length (r # rs). (r # rs) ! k = StartOk \<and> n = i + k) \<longleftrightarrow>
      r = StartOk \<and> n = i \<or> (\<exists>k < length rs. rs ! k = StartOk \<and> n = i + 1 + k)"
    by (simp add: Ex_less_Suc2)
  then show ?case using 2 by (cases r) auto
qed simp

definition demo_lora :: "int \<Rightarrow> concentrator_packet" where
  "demo_lora hz = \<lparr>cp_payload = replicate 20 7, cp_frequency_hz = hz, cp_rssi = - 90, cp_snr = 5, cp_spreading_factor = 11,
     cp_bandwidth = 5, cp_coderate = 1, cp_crc_ok = True, cp_timestamp_us = 0, cp_modulation = ''lora''\<rparr>"

text \<open>Outside EU_868 the concentrator's own Meshtastic channel is never decoded as Meshtastic: for every plan of another region,
  whatever is received on its service channel is handed to the LoRaWAN decoder, because the capture source recognises
  Meshtastic by the European frequency alone.\<close>

lemma foreign_region_meshtastic_lost:
  assumes "from_radio_config region mhz sf bw = Inr plan" "region \<noteq> []" "region \<noteq> ''EU_868''"
    and "pl_single_sf_channel plan = Some ch" "cp_frequency_hz x = ch_frequency_hz ch" "cp_modulation x = ''lora''"
    and "c = capture_of now x" "length (rc_payload c) \<le> 4080" "aes_lib (re_lib e)" "router_inv rt"
  shows "rc_protocol_hint c = Some LORAWAN \<and>
    (\<exists>r rt'. route e (rc_payload c) (rc_signal c) (rc_protocol_hint c) (rc_pre_decoded c) rt = Some (r, rt') \<and>
       (case r of Some p \<Rightarrow> protocol p = LORAWAN | None \<Rightarrow> True))"
proof -
  obtain lo hi where b: "band_limits_hz region = Some (lo, hi)" "lo \<le> ch_frequency_hz ch" "ch_frequency_hz ch \<le> hi"
    using channel_plan_usable [OF assms(1,2)] assms(4) by auto
  then have "ch_frequency_hz ch \<noteq> 869525000"
    using assms(3) by (auto simp: band_limits_hz_def REGION_BAND_LIMITS_HZ_def split: if_splits)
  then have h: "rc_protocol_hint c = Some LORAWAN"
    using assms(5-7) by (simp add: capture_of_def capture_hint_def MESHTASTIC_EU868_FREQS_HZ_def)
  let ?f = "\<lparr>fi_env = e, fi_raw = rc_payload c, fi_sig = rc_signal c, fi_hint = Some LORAWAN, fi_pre = None\<rparr>"
  have ok: "frame_ok ?f" using assms(8,9) by (simp add: frame_ok_def)
  obtain r rt' where d: "via_lorawan e (rc_payload c) (rc_signal c) rt = Some (r, rt')"
    using lw.dec_total [OF ok assms(10)] by auto
  then have "protocol p = LORAWAN" if "r = Some p" for p
    using lw.dec_protocol [OF ok assms(10)] that by simp
  then show ?thesis using h d by (auto simp: route_def split: option.splits)
qed

lemma foreign_region_meshtastic_lost_witness:
  "\<exists>r rt'. route (fi_env (demo_frame [] None)) (rc_payload (capture_of 0 (demo_lora 906875000))) (rc_signal (capture_of 0 (demo_lora 906875000)))
     (rc_protocol_hint (capture_of 0 (demo_lora 906875000))) (rc_pre_decoded (capture_of 0 (demo_lora 906875000))) demo_router = Some (r, rt') \<and>
     (case r of Some p \<Rightarrow> protocol p = LORAWAN | None \<Rightarrow> True)"
proof -
  have plan: "from_radio_config ''US'' (906875 / 1000) 11 250 = Inr meshtastic_us915_default"
    by (simp add: from_radio_config_def REGION_DEFAULTS_HZ_def py_trunc_def for_region_def)
  have ch: "pl_single_sf_channel meshtastic_us915_default = Some (single_sf 906875000 250 11)"
    by (simp add: meshtastic_us915_default_def build_wide_band_plan_def)
  have lib: "aes_lib (re_lib (fi_env (demo_frame [] None)))" using demo_frame_ok [of "[]" None] by (simp add: frame_ok_def)
  have "router_inv demo_router" using demo_router_ok by (simp add: router_inv_def)
  moreover have "length (rc_payload (capture_of 0 (demo_lora 906875000))) \<le> 4080" "cp_modulation (demo_lora 906875000) = ''lora''"
    "cp_frequency_hz (demo_lora 906875000) = ch_frequency_hz (single_sf 906875000 250 11)"
    by (simp_all add: demo_lora_def capture_of_def single_sf_def)
  ultimately show ?thesis using foreign_region_meshtastic_lost [OF plan _ _ ch _ _ refl _ lib] by blast
qed

end
