(* ===== verification/Broadcast_Interval.thy ===== *)
theory Broadcast_Interval
  imports Prelude
begin

text \<open>
  \<^verbatim>\<open>src/src/transmit/broadcast_interval.py\<close>: the schedule that the NodeInfo, position and telemetry broadcasters share.
  Times are seconds; every reading of the clock is an argument. The loop is cut at its suspension points: a phase says
  what it waits for, and one function runs it from one suspension point to the next.
\<close>

definition INTERVAL_DISABLED :: int where
  "INTERVAL_DISABLED = 0"

definition INTERVAL_MIN_MINUTES :: int where
  "INTERVAL_MIN_MINUTES = 5"

definition INTERVAL_MAX_MINUTES :: int where
  "INTERVAL_MAX_MINUTES = 1440"

definition clamp_interval_minutes :: "int \<Rightarrow> int" where
  "clamp_interval_minutes v =
     (if v = INTERVAL_DISABLED then INTERVAL_DISABLED
      else if v < 0 then INTERVAL_DISABLED
      else if v < INTERVAL_MIN_MINUTES then INTERVAL_MIN_MINUTES
      else if v > INTERVAL_MAX_MINUTES then INTERVAL_MAX_MINUTES
      else v)"

record schedule =
  bi_startup_delay :: int
  bi_interval :: int
  bi_changed :: bool
  bi_started_at :: "rat option"
  bi_last_sent_at :: "rat option"

definition schedule_init :: "int \<Rightarrow> int \<Rightarrow> schedule" where
  "schedule_init startup_delay interval =
     \<lparr>bi_startup_delay = max 0 startup_delay, bi_interval = interval, bi_changed = False, bi_started_at = None,
      bi_last_sent_at = None\<rparr>"

definition mark_sent :: "rat \<Rightarrow> schedule \<Rightarrow> schedule" where
  "mark_sent now s = s\<lparr>bi_last_sent_at := Some now\<rparr>"

definition begin_schedule :: "rat \<Rightarrow> schedule \<Rightarrow> schedule" where
  "begin_schedule now s = s\<lparr>bi_started_at := Some now\<rparr>"

definition next_due_at :: "bool \<Rightarrow> schedule \<Rightarrow> rat option" where
  "next_due_at running s =
     (if \<not> running then None
      else if bi_interval s = 0 then None
      else (case bi_last_sent_at s of
          Some t \<Rightarrow> Some (t + of_int (bi_interval s))
        | None \<Rightarrow> map_option (\<lambda>t. t + of_int (bi_startup_delay s)) (bi_started_at s)))"

definition set_interval :: "rat \<Rightarrow> int \<Rightarrow> schedule \<Rightarrow> int \<times> schedule" where
  "set_interval now minutes s =
     (let clamped = clamp_interval_minutes minutes;
          s1 = s\<lparr>bi_interval := clamped * 60\<rparr>;
          s2 = (if bi_interval s1 > 0 \<and> bi_last_sent_at s1 = None \<and> bi_started_at s1 \<noteq> None
                then s1\<lparr>bi_started_at := Some (now - of_int (bi_startup_delay s1))\<rparr> else s1)
      in (clamped, s2\<lparr>bi_changed := True\<rparr>))"

definition is_due_now :: "rat \<Rightarrow> schedule \<Rightarrow> bool" where
  "is_due_now now s =
     (if bi_interval s = 0 then False
      else (case bi_last_sent_at s of None \<Rightarrow> True | Some t \<Rightarrow> now \<ge> t + of_int (bi_interval s)))"

definition sleep_until_next :: "rat \<Rightarrow> schedule \<Rightarrow> rat" where
  "sleep_until_next now s =
     (if bi_interval s = 0 then 0
      else (case bi_last_sent_at s of
          None \<Rightarrow> of_int (bi_interval s)
        | Some t \<Rightarrow> max 0 (t + of_int (bi_interval s) - now)))"


section \<open>The loop\<close>

text \<open>What the loop waits for: the start-up delay or the sleep, each cut short by a changed interval (with the time the
  timeout ends); a changed interval alone; nothing (it is about to look at \<^verbatim>\<open>is_running\<close> again); it has ended.\<close>

datatype phase = StartupUntil rat | SleepUntil rat | Parked | AtHead | Ended

definition loop_entry :: "rat \<Rightarrow> schedule \<Rightarrow> phase \<times> schedule" where
  "loop_entry now s =
     (if bi_startup_delay s > 0 then (StartupUntil (now + of_int (bi_startup_delay s)), s\<lparr>bi_changed := False\<rparr>)
      else (AtHead, s))"

text \<open>The event ends any wait, the clock only the two with a timeout.\<close>

fun wakes :: "rat \<Rightarrow> phase \<Rightarrow> schedule \<Rightarrow> bool" where
  "wakes now (StartupUntil t) s = (bi_changed s \<or> t \<le> now)"
| "wakes now (SleepUntil t) s = (bi_changed s \<or> t \<le> now)"
| "wakes now Parked s = bi_changed s"
| "wakes now AtHead s = True"
| "wakes now Ended s = False"

text \<open>One pass from the head of the loop: \<open>on_due\<close> is the broadcast with everything other tasks do to the schedule
  while it is awaited, \<^const>\<open>None\<close> when it raises; \<open>running\<close> and \<open>running'\<close> are the two readings of \<^verbatim>\<open>is_running\<close>. The
  broadcaster catches the exception and the task ends.\<close>

definition loop_pass :: "bool \<Rightarrow> bool \<Rightarrow> rat \<Rightarrow> rat \<Rightarrow> (schedule \<Rightarrow> schedule option) \<Rightarrow> schedule \<Rightarrow> phase \<times> schedule" where
  "loop_pass running running' t_due t_sleep on_due s =
     (if \<not> running then (Ended, s)
      else if bi_interval s = 0 then (Parked, s\<lparr>bi_changed := False\<rparr>)
      else
        let due = is_due_now t_due s in
        (case (if due then on_due s else Some s) of
           None \<Rightarrow> (Ended, s)
         | Some s1 \<Rightarrow>
             if due \<and> \<not> running' then (Ended, s1)
             else
               let s2 = s1\<lparr>bi_changed := False\<rparr>; sleep = sleep_until_next t_sleep s2 in
               if sleep \<le> 0 then (AtHead, s2) else (SleepUntil (t_sleep + sleep), s2)))"

definition interval_ok :: "schedule \<Rightarrow> bool" where
  "interval_ok s \<longleftrightarrow> bi_interval s = 0 \<or> 300 \<le> bi_interval s \<and> bi_interval s \<le> 86400"

lemma clamp_cases:
  "clamp_interval_minutes v = 0 \<and> v \<le> 0 \<or> 5 \<le> clamp_interval_minutes v \<and> clamp_interval_minutes v \<le> 1440 \<and> 0 < v"
  by (simp add: clamp_interval_minutes_def INTERVAL_DISABLED_def INTERVAL_MIN_MINUTES_def INTERVAL_MAX_MINUTES_def)

lemma set_interval_simps [simp]:
  "bi_interval (snd (set_interval now m s)) = clamp_interval_minutes m * 60"
  "bi_last_sent_at (snd (set_interval now m s)) = bi_last_sent_at s"
  "bi_changed (snd (set_interval now m s))"
  "bi_startup_delay (snd (set_interval now m s)) = bi_startup_delay s"
  by (simp_all add: set_interval_def Let_def)

lemma set_interval_ok: "interval_ok (snd (set_interval now m s))"
  using clamp_cases [of m] by (auto simp: interval_ok_def)

lemma mark_sent_simps [simp]:
  "bi_interval (mark_sent now s) = bi_interval s" "bi_last_sent_at (mark_sent now s) = Some now"
  "interval_ok (mark_sent now s) = interval_ok s"
  by (simp_all add: mark_sent_def interval_ok_def)

text \<open>Waking up at the end of the sleep, and not before, finds the next broadcast due.\<close>

lemma due_after_sleep:
  assumes "bi_interval s > 0" "bi_last_sent_at s = Some t" "now \<le> now'"
  shows "is_due_now now' s \<longleftrightarrow> now + sleep_until_next now s \<le> now'"
  using assms by (auto simp: is_due_now_def sleep_until_next_def)



section \<open>The loop among other tasks\<close>

text \<open>While the loop waits, or its broadcast is awaited, the dashboard may set the interval or have a broadcast sent.\<close>

datatype api_call = CallInterval rat int | CallSent rat

fun api_apply :: "api_call \<Rightarrow> schedule \<Rightarrow> schedule" where
  "api_apply (CallInterval now m) s = snd (set_interval now m s)"
| "api_apply (CallSent now) s = mark_sent now s"

fun api_time :: "api_call \<Rightarrow> rat" where
  "api_time (CallInterval now m) = now"
| "api_time (CallSent now) = now"

definition calls_within :: "rat \<Rightarrow> rat \<Rightarrow> api_call list \<Rightarrow> bool" where
  "calls_within a b cs \<longleftrightarrow> (\<forall>c \<in> set cs. a \<le> api_time c \<and> api_time c \<le> b)"

text \<open>Reachable states of a task: the clock, the phase, the schedule and the times of the loop's own successful
  broadcasts, newest first.\<close>

inductive bcast_reach :: "rat \<Rightarrow> phase \<Rightarrow> schedule \<Rightarrow> rat list \<Rightarrow> bool" where
  entry: "interval_ok s \<Longrightarrow> (\<And>t. bi_last_sent_at s = Some t \<Longrightarrow> t \<le> now) \<Longrightarrow> loop_entry now s = (ph, s') \<Longrightarrow>
    bcast_reach now ph s' []"
| api: "bcast_reach now ph s sl \<Longrightarrow> now \<le> api_time c \<Longrightarrow> bcast_reach (api_time c) ph (api_apply c s) sl"
| unsent: "bcast_reach now ph s sl \<Longrightarrow> now \<le> t \<Longrightarrow> t \<le> t1 \<Longrightarrow> wakes t ph s \<Longrightarrow> calls_within t t1 cs \<Longrightarrow>
    loop_pass r r' t t1 (\<lambda>s. Some (fold api_apply cs s)) s = (ph', s') \<Longrightarrow> bcast_reach t1 ph' s' sl"
| sent: "bcast_reach now ph s sl \<Longrightarrow> now \<le> t \<Longrightarrow> t \<le> t_sent \<Longrightarrow> t_sent \<le> t1 \<Longrightarrow> wakes t ph s \<Longrightarrow> is_due_now t s \<Longrightarrow>
    calls_within t t_sent cs \<Longrightarrow> calls_within t_sent t1 cs' \<Longrightarrow>
    loop_pass True r' t t1 (\<lambda>s. Some (fold api_apply cs' (mark_sent t_sent (fold api_apply cs s)))) s = (ph', s') \<Longrightarrow>
    bcast_reach t1 ph' s' (t_sent # sl)"
| crash: "bcast_reach now ph s sl \<Longrightarrow> now \<le> t \<Longrightarrow> wakes t ph s \<Longrightarrow>
    loop_pass r r' t t (\<lambda>s. None) s = (ph', s') \<Longrightarrow> bcast_reach t ph' s' sl"

fun spaced :: "rat \<Rightarrow> rat list \<Rightarrow> bool" where
  "spaced d (x # y # zs) = (y + d \<le> x \<and> spaced d (y # zs))"
| "spaced d _ = True"

definition sent_between :: "rat list \<Rightarrow> rat \<Rightarrow> schedule \<Rightarrow> bool" where
  "sent_between sl now s \<longleftrightarrow>
     (\<forall>t. bi_last_sent_at s = Some t \<longrightarrow> t \<le> now) \<and> (sl \<noteq> [] \<longrightarrow> (\<exists>t. bi_last_sent_at s = Some t \<and> hd sl \<le> t))"

lemma api_apply_ok: "interval_ok s \<Longrightarrow> interval_ok (api_apply c s)"
  by (cases c) (simp_all add: set_interval_ok)

lemma fold_api_ok: "interval_ok s \<Longrightarrow> interval_ok (fold api_apply cs s)"
  by (induction cs arbitrary: s) (simp_all add: api_apply_ok)

lemma api_sent_between:
  "sent_between sl now s \<Longrightarrow> a \<le> now \<Longrightarrow> api_time c \<le> now \<Longrightarrow> a \<le> api_time c \<Longrightarrow> (sl \<noteq> [] \<Longrightarrow> hd sl \<le> a) \<Longrightarrow>
   sent_between sl now (api_apply c s)"
  by (cases c) (auto simp: sent_between_def)

lemma fold_api_sent_between:
  "sent_between sl now s \<Longrightarrow> calls_within a now cs \<Longrightarrow> a \<le> now \<Longrightarrow> (sl \<noteq> [] \<Longrightarrow> hd sl \<le> a) \<Longrightarrow>
   sent_between sl now (fold api_apply cs s)"
proof (induction cs arbitrary: s)
  case (Cons c cs)
  then have "sent_between sl now (api_apply c s)" by (auto intro: api_sent_between simp: calls_within_def)
  then show ?case using Cons by (simp add: calls_within_def)
qed simp

lemma sent_between_later: "sent_between sl now s \<Longrightarrow> now \<le> now' \<Longrightarrow> sent_between sl now' s"
  by (fastforce simp: sent_between_def)

text \<open>A pass leaves the schedule as the broadcast left it, but for the event.\<close>

lemma loop_pass_schedule:
  assumes "loop_pass r r' t t1 f s = (ph, s')"
  shows "\<exists>u b. s' = u\<lparr>bi_changed := b\<rparr> \<and> (u = s \<or> is_due_now t s \<and> f s = Some u)"
  using assms
  by (auto simp: loop_pass_def Let_def split: if_splits option.splits) (metis schedule.surjective schedule.update_convs(3))+

lemma changed_simps [simp]:
  "interval_ok (s\<lparr>bi_changed := b\<rparr>) = interval_ok s" "sent_between sl now (s\<lparr>bi_changed := b\<rparr>) = sent_between sl now s"
  by (simp_all add: interval_ok_def sent_between_def)

lemma loop_pass_due:
  assumes "loop_pass True r' t t1 f s = (ph, s')" "is_due_now t s" "f s = Some u"
  shows "\<exists>b. s' = u\<lparr>bi_changed := b\<rparr>"
  using assms is_due_now_def
  by (auto simp: loop_pass_def Let_def split: if_splits) (metis schedule.surjective schedule.update_convs(3))+

lemma due_interval: "interval_ok s \<Longrightarrow> is_due_now t s \<Longrightarrow> bi_last_sent_at s = Some u \<Longrightarrow> u + 300 \<le> t"
proof -
  assume a: "interval_ok s" "is_due_now t s" "bi_last_sent_at s = Some u"
  then have "300 \<le> bi_interval s" by (auto simp: interval_ok_def is_due_now_def split: if_splits)
  then have "(300 :: rat) \<le> of_int (bi_interval s)" by (metis of_int_le_iff of_int_numeral)
  then show "u + 300 \<le> t" using a by (auto simp: is_due_now_def split: if_splits)
qed

lemma bcast_invariant:
  assumes "bcast_reach now ph s sl"
  shows "interval_ok s \<and> sent_between sl now s \<and> spaced 300 sl \<and> (sl \<noteq> [] \<longrightarrow> hd sl \<le> now)"
  using assms
proof induction
  case (entry s now ph s')
  then show ?case by (auto simp: loop_entry_def sent_between_def split: if_splits)
next
  case (api now ph s sl c)
  then have "sent_between sl (api_time c) s" using sent_between_later by blast
  then show ?case using api by (auto intro!: api_apply_ok api_sent_between [where a = "api_time c"] intro: order_trans)
next
  case (unsent now ph s sl t t1 cs r r' ph' s')
  obtain u b where u: "s' = u\<lparr>bi_changed := b\<rparr>" "u = s \<or> u = fold api_apply cs s"
    using loop_pass_schedule [OF unsent(6)] by blast
  have "sent_between sl t1 s" using unsent sent_between_later by fastforce
  then have "sent_between sl t1 u"
    using u(2) fold_api_sent_between [of sl t1 s t cs] unsent by force
  then show ?case using u unsent fold_api_ok by auto
next
  case (sent now ph s sl t t_sent t1 cs cs' r' ph' s')
  let ?m = "mark_sent t_sent (fold api_apply cs s)"
  obtain b where s': "s' = (fold api_apply cs' ?m)\<lparr>bi_changed := b\<rparr>"
    using loop_pass_due [OF sent(9) sent(6)] by blast
  have "sent_between (t_sent # sl) t1 ?m" using sent by (auto simp: sent_between_def)
  then have "sent_between (t_sent # sl) t1 s'"
    using s' fold_api_sent_between [of "t_sent # sl" t1 ?m t_sent cs'] sent by simp
  moreover have "spaced 300 (t_sent # sl)"
  proof (cases sl)
    case (Cons x xs)
    then obtain u where "bi_last_sent_at s = Some u" "x \<le> u" using sent by (auto simp: sent_between_def)
    then show ?thesis using Cons sent due_interval [of s t u] by auto
  qed simp
  ultimately show ?case using s' sent fold_api_ok by simp
next
  case (crash now ph s sl t r r' ph' s')
  have "sent_between sl t s" using crash sent_between_later by blast
  then show ?case using loop_pass_schedule [OF crash(4)] crash by auto
qed


section \<open>Progress\<close>

text \<open>When the loop next gets to its head if nothing else happens, and a run of it in which every broadcast succeeds: each
  round wakes up \<open>late\<close> after that time, sends for \<open>dur\<close>, and reads the clock again after a further \<open>rest\<close>.\<close>

fun wake_at :: "rat \<Rightarrow> phase \<Rightarrow> rat" where
  "wake_at now (StartupUntil t) = t"
| "wake_at now (SleepUntil t) = t"
| "wake_at now _ = now"

fun rounds :: "(rat \<times> rat \<times> rat) list \<Rightarrow> rat \<Rightarrow> phase \<times> schedule \<Rightarrow> rat list" where
  "rounds [] now st = []"
| "rounds ((late, dur, rest) # rs) now (ph, s) =
     (let t = wake_at now ph + late;
          st = loop_pass True True t (t + dur + rest) (\<lambda>s. Some (mark_sent (t + dur) s)) s
      in (if wakes t ph s \<and> is_due_now t s then [t + dur] else []) @ rounds rs (t + dur + rest) st)"

definition ready :: "rat \<Rightarrow> phase \<Rightarrow> schedule \<Rightarrow> bool" where
  "ready now ph s \<longleftrightarrow> bi_interval s > 0 \<and> ph \<noteq> Parked \<and> ph \<noteq> Ended \<and> (\<forall>t \<ge> wake_at now ph. is_due_now t s)"

lemma ready_wakes: "ready now ph s \<Longrightarrow> wake_at now ph \<le> t \<Longrightarrow> wakes t ph s"
  by (cases ph) (auto simp: ready_def)

lemma ready_pass:
  fixes dur :: rat
  assumes "ready now ph s" "wake_at now ph \<le> t" "0 \<le> rest"
  defines "st \<equiv> loop_pass True True t (t + dur + rest) (\<lambda>s. Some (mark_sent (t + dur) s)) s"
  shows "ready (t + dur + rest) (fst st) (snd st)" "bi_interval (snd st) = bi_interval s"
    "wake_at (t + dur + rest) (fst st) \<le> t + dur + rest + of_int (bi_interval s)"
proof -
  have i: "bi_interval s > 0" and due: "is_due_now t s" using assms(1,2) by (auto simp: ready_def)
  let ?s = "(mark_sent (t + dur) s)\<lparr>bi_changed := False\<rparr>"
  have st: "st = (if sleep_until_next (t + dur + rest) ?s \<le> 0 then (AtHead, ?s)
      else (SleepUntil (t + dur + rest + sleep_until_next (t + dur + rest) ?s), ?s))"
    using i due by (simp add: st_def loop_pass_def Let_def)
  have sl: "sleep_until_next (t + dur + rest) ?s = max 0 (of_int (bi_interval s) - rest)"
    using i by (simp add: sleep_until_next_def algebra_simps)
  show "bi_interval (snd st) = bi_interval s" by (simp add: st)
  show "wake_at (t + dur + rest) (fst st) \<le> t + dur + rest + of_int (bi_interval s)" using i assms(3) by (simp add: st sl)
  show "ready (t + dur + rest) (fst st) (snd st)"
    using i by (auto simp: st sl ready_def is_due_now_def)
qed

lemma entry_ready:
  assumes "bi_interval s > 0" "bi_last_sent_at s = None"
  shows "ready now (fst (loop_entry now s)) (snd (loop_entry now s))"
  using assms by (auto simp: loop_entry_def ready_def is_due_now_def)

abbreviation round_time :: "rat \<times> rat \<times> rat \<Rightarrow> rat" where
  "round_time r \<equiv> fst r + fst (snd r) + snd (snd r)"

abbreviation delays_ok :: "(rat \<times> rat \<times> rat) list \<Rightarrow> bool" where
  "delays_ok rs \<equiv> list_all (\<lambda>(late, dur, rest). 0 \<le> late \<and> 0 \<le> dur \<and> 0 \<le> rest) rs"

lemma rounds_progress:
  assumes "ready now ph s" "delays_ok rs"
  shows "length (rounds rs now (ph, s)) = length rs \<and>
    (\<forall>k < length rs. rounds rs now (ph, s) ! k \<le>
       wake_at now ph + of_nat k * of_int (bi_interval s) + sum_list (map round_time (take (Suc k) rs)))"
  using assms
proof (induction rs arbitrary: now ph s)
  case (Cons r rs)
  obtain late dur rest where r: "r = (late, dur, rest)" by (cases r)
  let ?t = "wake_at now ph + late" and ?i = "of_int (bi_interval s) :: rat"
  let ?st = "loop_pass True True ?t (?t + dur + rest) (\<lambda>s. Some (mark_sent (?t + dur) s)) s"
  have nn: "0 \<le> late" "0 \<le> dur" "0 \<le> rest" and rs: "delays_ok rs" using Cons.prems(2) r by simp_all
  note pass = ready_pass [OF Cons.prems(1), of ?t rest dur]
  have here: "wakes ?t ph s" "is_due_now ?t s"
    using ready_wakes [OF Cons.prems(1)] Cons.prems(1) nn by (simp_all add: ready_def)
  have eq: "rounds (r # rs) now (ph, s) = (?t + dur) # rounds rs (?t + dur + rest) ?st"
    using here by (simp add: r Let_def)
  have IH: "length (rounds rs (?t + dur + rest) ?st) = length rs \<and>
      (\<forall>k < length rs. rounds rs (?t + dur + rest) ?st ! k \<le>
         wake_at (?t + dur + rest) (fst ?st) + of_nat k * ?i + sum_list (map round_time (take (Suc k) rs)))"
    using Cons.IH [OF pass(1) rs] pass(2) nn by simp
  have "rounds (r # rs) now (ph, s) ! k \<le> wake_at now ph + of_nat k * ?i + sum_list (map round_time (take (Suc k) (r # rs)))"
    if "k < length (r # rs)" for k
  proof (cases k)
    case 0
    then show ?thesis unfolding eq using nn by (simp add: r)
  next
    case (Suc j)
    then have "rounds rs (?t + dur + rest) ?st ! j \<le>
        wake_at (?t + dur + rest) (fst ?st) + of_nat j * ?i + sum_list (map round_time (take (Suc j) rs))"
      using IH that by simp
    moreover have "wake_at (?t + dur + rest) (fst ?st) \<le> ?t + dur + rest + ?i" using pass(3) nn by simp
    ultimately show ?thesis unfolding eq by (simp add: Suc r algebra_simps)
  qed
  then show ?case using IH unfolding eq by simp
qed simp


section \<open>Properties\<close>

text \<open>C28: the loop never floods the mesh: whatever the dashboard does to the interval meanwhile, two broadcasts that
  one run of the loop sends are at least five minutes apart, and the interval in force is zero (disabled) or between
  five minutes and a day.\<close>

theorem broadcasts_spaced:
  assumes "bcast_reach now ph s sl"
  shows "spaced 300 sl \<and> (bi_interval s = 0 \<or> 300 \<le> bi_interval s \<and> bi_interval s \<le> 86400)"
  using bcast_invariant [OF assms] by (simp add: interval_ok_def)


theorem broadcasts_spaced_witness:
  "\<exists>s ph. bcast_reach 304 ph s [303, 2] \<and> spaced 300 [303, 2 :: rat]"
proof -
  let ?s = "schedule_init 0 300"
  have "bcast_reach 0 AtHead ?s []" by (rule bcast_reach.entry [of ?s]) (simp_all add: schedule_init_def interval_ok_def loop_entry_def)
  then have "bcast_reach 3 (SleepUntil 302) (mark_sent 2 ?s) [2]"
    by (rule bcast_reach.sent [where t = 1 and t_sent = 2 and cs = "[]" and cs' = "[]" and r' = True])
      (simp_all add: schedule_init_def is_due_now_def calls_within_def loop_pass_def Let_def sleep_until_next_def mark_sent_def)
  then have r: "bcast_reach 304 (SleepUntil 603) (mark_sent 303 (mark_sent 2 ?s)) [303, 2]"
    by (rule bcast_reach.sent [where t = 302 and t_sent = 303 and cs = "[]" and cs' = "[]" and r' = True])
      (simp_all add: schedule_init_def is_due_now_def calls_within_def loop_pass_def Let_def sleep_until_next_def mark_sent_def)
  then show ?thesis using broadcasts_spaced [OF r] by blast
qed

text \<open>C29: the loop is live: started with a positive interval, and as long as its broadcasts succeed, it wakes up for a broadcast
  every time and never for nothing, and the \<open>k\<close>-th one is out by the start-up delay plus \<open>k\<close> intervals
  plus what the scheduler and the sending took.\<close>

theorem broadcast_liveness:
  assumes "bi_interval s > 0" "bi_last_sent_at s = None" "delays_ok rs"
  shows "length (rounds rs start (loop_entry start s)) = length rs \<and>
    (\<forall>k < length rs. rounds rs start (loop_entry start s) ! k \<le>
       start + of_int (max 0 (bi_startup_delay s)) + of_nat k * of_int (bi_interval s) + sum_list (map round_time (take (Suc k) rs)))"
proof -
  have "wake_at start (fst (loop_entry start s)) = start + of_int (max 0 (bi_startup_delay s))"
    "bi_interval (snd (loop_entry start s)) = bi_interval s" by (simp_all add: loop_entry_def)
  then show ?thesis using rounds_progress [OF entry_ready [OF assms(1,2)] assms(3), of start] by simp
qed

theorem broadcast_liveness_witness:
  "rounds [(1, 2, 0), (0, 3, 1)] 0 (loop_entry 0 (schedule_init 60 300)) ! 1 \<le> 60 + 300 + 7"
  using broadcast_liveness [of "schedule_init 60 300" "[(1, 2, 0), (0, 3, 1)]" 0, THEN conjunct2, rule_format, of 1]
  by (simp add: schedule_init_def del: rounds.simps)

text \<open>Successive passes from the head of the loop, with their clock readings.\<close>

fun passes :: "(schedule \<Rightarrow> schedule option) \<Rightarrow> (rat \<times> rat) list \<Rightarrow> phase \<times> schedule \<Rightarrow> (phase \<times> schedule) list" where
  "passes f [] st = []"
| "passes f ((t, t') # ts) (ph, s) = (let st = loop_pass True True t t' f s in st # passes f ts st)"

text \<open>The loop does not pause after a broadcast that fails: once a broadcast is overdue and \<^verbatim>\<open>on_due\<close> leaves the schedule as
  it is (the transmitter refuses, or there are no coordinates), every pass ends at the head of the loop again
  without waiting, however many passes and whatever the clock says.\<close>

lemma overdue_failure_spins:
  assumes "bi_interval s > 0" "bi_last_sent_at s = Some u"
    and "list_all (\<lambda>(t, t'). u + of_int (bi_interval s) \<le> t \<and> t \<le> t') ts"
  shows "map fst (passes Some ts (AtHead, s)) = replicate (length ts) AtHead"
  using assms
proof (induction ts arbitrary: s)
  case (Cons p ts)
  obtain t t' where p: "p = (t, t')" by (cases p)
  have "loop_pass True True t t' Some s = (AtHead, s\<lparr>bi_changed := False\<rparr>)"
    using Cons.prems p by (simp add: loop_pass_def Let_def is_due_now_def sleep_until_next_def)
  then show ?case using Cons by (simp add: p Let_def)
qed simp

lemma overdue_failure_spins_witness:
  "map fst (passes Some [(400, 400), (400, 400), (401, 401)] (AtHead, mark_sent 0 (schedule_init 0 300))) = [AtHead, AtHead, AtHead]"
  using overdue_failure_spins [of "mark_sent 0 (schedule_init 0 300)" 0 "[(400, 400), (400, 400), (401, 401)]"]
  by (simp add: schedule_init_def numeral_eq_Suc)

end
