(* ===== verification/Mqtt_Privacy.thy ===== *)
theory Mqtt_Privacy
  imports Models
begin

text \<open>
  \<^verbatim>\<open>src/src/relay/mqtt_privacy.py\<close> and \<^verbatim>\<open>src/src/hal/location/privacy.py\<close>: what of a packet may be published. The
  filter walks the payload dictionary and everything nested in it.
\<close>

definition LOCATION_FIELDS :: "string list" where
  "LOCATION_FIELDS =
     [''latitude'', ''longitude'', ''latitude_i'', ''longitude_i'', ''altitude'', ''altitude_hae'',
      ''altitude_geoidal_separation'', ''precision_bits'', ''ground_speed'', ''ground_track'']"

definition is_broadcast :: "packet \<Rightarrow> bool" where
  "is_broadcast p =
     (let dst = lower (destination_id p) in
      if protocol p = MESHTASTIC then dst = ''ffffffff''
      else if protocol p = MESHCORE then dst = ''ffff'' \<or> dst = ''broadcast''
      else False)"

datatype policy = Exact | Approximate | NoLocation

definition policy_of :: "string \<Rightarrow> policy" where
  "policy_of precision =
     (if precision = ''exact'' then Exact else if precision = ''approximate'' then Approximate else NoLocation)"

definition drop_location :: "pydict \<Rightarrow> pydict" where
  "drop_location d = filter (\<lambda>(k, v). k \<notin> set LOCATION_FIELDS) d"

text \<open>\<^verbatim>\<open>type(v) in (int, float)\<close>, finite and within \<open>bound\<close>; Booleans are neither.\<close>

fun coordinate_ok :: "rat \<Rightarrow> pyval \<Rightarrow> bool" where
  "coordinate_ok bound (PInt i) = (- bound \<le> of_int i \<and> of_int i \<le> bound)"
| "coordinate_ok bound (PFloat r) = (- bound \<le> r \<and> r \<le> bound)"
| "coordinate_ok bound _ = False"

text \<open>\<^verbatim>\<open>round(v, 2)\<close>; an integer stays as it is.\<close>

fun round2 :: "pyval \<Rightarrow> pyval" where
  "round2 (PFloat r) = PFloat (py_round 2 r)"
| "round2 v = v"

definition filter_dict :: "policy \<Rightarrow> pydict \<Rightarrow> pydict" where
  "filter_dict pol d =
     (if pol = NoLocation then drop_location d
      else
        let lat = dget ''latitude'' d; lon = dget ''longitude'' d in
        if \<not> (coordinate_ok 90 lat \<and> coordinate_ok 180 lon) then drop_location d
        else if pol = Approximate then drop_location d @ [(''latitude'', round2 lat), (''longitude'', round2 lon)]
        else d)"

lemma pyval_size_dict [termination_simp]: "(k, v) \<in> set d \<Longrightarrow> size v < Suc (size_list (size_prod size size) d)"
  by (induction d) auto

fun filtered :: "policy \<Rightarrow> pyval \<Rightarrow> pyval" where
  "filtered pol (PList xs) = PList (map (filtered pol) xs)"
| "filtered pol (PDict d) = PDict (filter_dict pol (map (\<lambda>(k, v). (k, filtered pol v)) d))"
| "filtered pol v = v"

definition filtered_payload :: "policy \<Rightarrow> pydict \<Rightarrow> pydict" where
  "filtered_payload pol d = filter_dict pol (map (\<lambda>(k, v). (k, filtered pol v)) d)"

definition prepare_packet :: "packet \<Rightarrow> string \<Rightarrow> packet" where
  "prepare_packet p precision =
     p\<lparr>decoded_payload := map_option (filtered_payload (policy_of precision)) (decoded_payload p),
       encrypted_payload := None, raw_app_payload := None, raw_radio_packet := None\<rparr>"

definition location_apply :: "pyval \<Rightarrow> pyval \<Rightarrow> string \<Rightarrow> pyval \<times> pyval" where
  "location_apply lat lon precision =
     (if lat = PNone \<or> lon = PNone then (lat, lon)
      else if precision = ''none'' then (PNone, PNone)
      else if precision = ''approximate'' then (round2 lat, round2 lon)
      else (lat, lon))"


section \<open>What the filter lets through\<close>

text \<open>A condition on every entry of every dictionary in a value, however deep.\<close>

fun everywhere :: "(string \<Rightarrow> pyval \<Rightarrow> bool) \<Rightarrow> pyval \<Rightarrow> bool" where
  "everywhere ok (PList xs) = list_all (everywhere ok) xs"
| "everywhere ok (PDict d) = list_all (\<lambda>(k, v). ok k v \<and> everywhere ok v) d"
| "everywhere ok v = True"

definition no_location :: "string \<Rightarrow> pyval \<Rightarrow> bool" where
  "no_location k v \<longleftrightarrow> k \<notin> set LOCATION_FIELDS"

text \<open>A whole number or a multiple of one hundredth of a degree (about a kilometre).\<close>

definition hundredths :: "pyval \<Rightarrow> bool" where
  "hundredths v \<longleftrightarrow> (case v of PInt i \<Rightarrow> True | PFloat r \<Rightarrow> \<exists>n. r = of_int n / 100 | _ \<Rightarrow> False)"

definition coarse_location :: "string \<Rightarrow> pyval \<Rightarrow> bool" where
  "coarse_location k v \<longleftrightarrow> k \<notin> set LOCATION_FIELDS \<or> (k = ''latitude'' \<or> k = ''longitude'') \<and> hundredths v"

lemma round2_hundredths: "coordinate_ok b v \<Longrightarrow> hundredths (round2 v)"
  by (cases v) (auto simp: hundredths_def py_round_def)

lemma round2_everywhere: "coordinate_ok b v \<Longrightarrow> everywhere ok (round2 v)"
  by (cases v) simp_all

lemma drop_location_entries:
  "list_all (\<lambda>(k, v). everywhere ok v) d \<Longrightarrow> (\<And>k v. k \<notin> set LOCATION_FIELDS \<Longrightarrow> ok k v) \<Longrightarrow>
   list_all (\<lambda>(k, v). ok k v \<and> everywhere ok v) (drop_location d)"
  by (auto simp: drop_location_def list_all_iff)

lemma filter_dict_none:
  "list_all (\<lambda>(k, v). everywhere no_location v) d \<Longrightarrow> everywhere no_location (PDict (filter_dict NoLocation d))"
  using drop_location_entries [of no_location d] by (simp add: filter_dict_def no_location_def)

lemma filter_dict_coarse:
  assumes "list_all (\<lambda>(k, v). everywhere coarse_location v) d"
  shows "everywhere coarse_location (PDict (filter_dict Approximate d))"
proof -
  have "list_all (\<lambda>(k, v). coarse_location k v \<and> everywhere coarse_location v) (drop_location d)"
    using drop_location_entries [OF assms] by (simp add: coarse_location_def)
  then show ?thesis
    by (auto simp: filter_dict_def Let_def coarse_location_def round2_hundredths round2_everywhere)
qed

text \<open>A property that every filtered dictionary has is had by every filtered value.\<close>

lemma filtered_everywhere:
  assumes "\<And>d. list_all (\<lambda>(k, v). everywhere ok v) d \<Longrightarrow> everywhere ok (PDict (filter_dict pol d))"
  shows "everywhere ok (filtered pol v)"
  using assms
proof (induction pol v rule: filtered.induct)
  case (1 pol xs)
  then show ?case by (simp add: list_all_iff)
next
  case (2 pol d)
  have "list_all (\<lambda>(k, v). everywhere ok v) (map (\<lambda>(k, v). (k, filtered pol v)) d)"
    using 2 by (fastforce simp: list_all_iff)
  then show ?case using 2(2) by simp
qed simp_all

lemma filtered_payload_everywhere:
  assumes "\<And>d. list_all (\<lambda>(k, v). everywhere ok v) d \<Longrightarrow> everywhere ok (PDict (filter_dict pol d))"
  shows "everywhere ok (PDict (filtered_payload pol d))"
  using filtered_everywhere [OF assms, of "PDict d"] by (simp add: filtered_payload_def)


section \<open>Properties\<close>

text \<open>Location privacy holds at any depth of what is published: under every policy but \<^verbatim>\<open>exact\<close> and
  \<^verbatim>\<open>approximate\<close> (a misspelt one included) no dictionary in the published payload has a location field; under
  \<^verbatim>\<open>approximate\<close> the only ones are latitude and longitude, rounded to a hundredth of a degree and
  at most half a hundredth away; the ciphertext and the raw frames are always removed, and the packet's other
  fields are untouched.\<close>

lemma location_privacy:
  "(precision \<noteq> ''exact'' \<and> precision \<noteq> ''approximate'' \<longrightarrow>
      (case decoded_payload (prepare_packet p precision) of None \<Rightarrow> True | Some d \<Rightarrow> everywhere no_location (PDict d))) \<and>
   (precision = ''approximate'' \<longrightarrow>
      (case decoded_payload (prepare_packet p precision) of None \<Rightarrow> True | Some d \<Rightarrow> everywhere coarse_location (PDict d))) \<and>
   encrypted_payload (prepare_packet p precision) = None \<and> raw_app_payload (prepare_packet p precision) = None \<and>
   raw_radio_packet (prepare_packet p precision) = None \<and> source_id (prepare_packet p precision) = source_id p \<and>
   (decoded_payload (prepare_packet p precision) = None \<longleftrightarrow> decoded_payload p = None) \<and>
   (\<forall>r. \<bar>py_round 2 r - r\<bar> \<le> 1 / 200)"
proof -
  have "everywhere no_location (PDict (filtered_payload NoLocation d))" for d
    using filtered_payload_everywhere [OF filter_dict_none] by blast
  moreover have "everywhere coarse_location (PDict (filtered_payload Approximate d))" for d
    using filtered_payload_everywhere [OF filter_dict_coarse] by blast
  moreover have "\<bar>py_round 2 r - r\<bar> \<le> 1 / 200" for r using py_round_error [of 2 r] by simp
  ultimately show ?thesis by (auto simp: prepare_packet_def policy_of_def split: option.splits)
qed

definition demo_position :: packet where
  "demo_position = (default_packet ''01'' ''0a'' ''ffffffff'' MESHTASTIC POSITION 0)
     \<lparr>decoded_payload := Some [(''latitude'', PFloat (52 + 1 / 8)), (''longitude'', PFloat (13 + 1 / 3)), (''altitude'', PInt 40)]\<rparr>"

lemma location_privacy_witness:
  "case decoded_payload (prepare_packet demo_position ''approx'') of None \<Rightarrow> False | Some d \<Rightarrow> everywhere no_location (PDict d)"
proof -
  have "decoded_payload demo_position \<noteq> None" by (simp add: demo_position_def)
  then show ?thesis using location_privacy [of "''approx''" demo_position] by (auto split: option.splits)
qed

end
