(* ===== verification/Broadcasters.thy ===== *)
theory Broadcasters
  imports Broadcast_Interval Tx_Messages Mqtt_Privacy
begin

text \<open>
  The three periodic broadcasters (\<^verbatim>\<open>src/src/transmit/nodeinfo_broadcaster.py\<close>, \<^verbatim>\<open>position_broadcaster.py\<close>,
  \<^verbatim>\<open>telemetry_broadcaster.py\<close>) over the transmission service, and where a position comes from:
  \<^verbatim>\<open>src/src/transmit/mesh_position_resolver.py\<close>, \<^verbatim>\<open>src/src/hal/location/models.py\<close> and
  \<^verbatim>\<open>src/src/hal/location/static_source.py\<close>. Coordinates are finite, so rationals.
\<close>

section \<open>Location\<close>

record location_fix =
  fix_mode :: int
  fix_latitude :: "rat option"
  fix_longitude :: "rat option"
  fix_altitude_m :: "rat option"

record gps_status =
  gs_source :: string
  gs_available :: bool
  gs_fix :: "location_fix option"

record device_config =
  dv_latitude :: "rat option"
  dv_longitude :: "rat option"
  dv_altitude :: "rat option"

definition fix_has_position :: "location_fix \<Rightarrow> bool" where
  "fix_has_position f \<longleftrightarrow> fix_mode f \<ge> 2 \<and> fix_latitude f \<noteq> None \<and> fix_longitude f \<noteq> None"

definition FIX_MODE_LABELS :: "(int \<times> string) list" where
  "FIX_MODE_LABELS = [(0, ''UNKNOWN''), (1, ''NO FIX''), (2, ''2D''), (3, ''3D'')]"

definition mode_label :: "location_fix \<Rightarrow> string" where
  "mode_label f = (case map_of FIX_MODE_LABELS (fix_mode f) of Some l \<Rightarrow> l | None \<Rightarrow> ''UNKNOWN'')"

definition has_valid_coordinates :: "device_config \<Rightarrow> bool" where
  "has_valid_coordinates dv =
     (case (dv_latitude dv, dv_longitude dv) of
        (Some lat, Some lon) \<Rightarrow> - 90 \<le> lat \<and> lat \<le> 90 \<and> - 180 \<le> lon \<and> lon \<le> 180
      | _ \<Rightarrow> False)"

definition static_get_status :: "device_config \<Rightarrow> gps_status" where
  "static_get_status dv =
     (if \<not> has_valid_coordinates dv then \<lparr>gs_source = ''static'', gs_available = False, gs_fix = None\<rparr>
      else \<lparr>gs_source = ''static'', gs_available = True,
            gs_fix = Some \<lparr>fix_mode = 3, fix_latitude = dv_latitude dv, fix_longitude = dv_longitude dv,
                           fix_altitude_m = dv_altitude dv\<rparr>\<rparr>)"

text \<open>A location source as its clients see it: its name and the status it answers.\<close>

record location_source =
  ls_source_name :: string
  ls_status :: gps_status

record position_config =
  po_interval_minutes :: int
  po_startup_delay_seconds :: int
  po_coordinate_source :: string
  po_location_precision :: string

definition VALID_LOCATION_PRECISION :: "string list" where
  "VALID_LOCATION_PRECISION = [''exact'', ''approximate'', ''none'']"

definition live_fix_available :: "location_source \<Rightarrow> bool" where
  "live_fix_available ls =
     (if ls_source_name ls = ''static'' then False
      else if \<not> gs_available (ls_status ls) then False
      else (case gs_fix (ls_status ls) of None \<Rightarrow> False | Some f \<Rightarrow> fix_has_position f))"

fun finite_float :: "pyval \<Rightarrow> rat option" where
  "finite_float (PFloat r) = Some r"
| "finite_float _ = None"

definition resolve_position :: "position_config \<Rightarrow> device_config \<Rightarrow> location_source \<Rightarrow> (rat \<times> rat \<times> rat option) option" where
  "resolve_position pc dv ls =
     (let mesh_source = lower (if po_coordinate_source pc = [] then ''static'' else po_coordinate_source pc) in
      do {
        (lat, lon, alt, precision) \<leftarrow>
          (if mesh_source = ''live'' then
             if \<not> live_fix_available ls then None
             else (case gs_fix (ls_status ls) of
                 None \<Rightarrow> None
               | Some f \<Rightarrow> do { lat \<leftarrow> fix_latitude f; lon \<leftarrow> fix_longitude f;
                   Some (lat, lon, fix_altitude_m f,
                         if po_location_precision pc = [] then ''approximate'' else po_location_precision pc) })
           else do { lat \<leftarrow> dv_latitude dv; lon \<leftarrow> dv_longitude dv; Some (lat, lon, dv_altitude dv, ''exact'') });
        let precision = (if precision \<notin> set VALID_LOCATION_PRECISION then ''approximate'' else precision);
        let (vlat, vlon) = location_apply (PFloat lat) (PFloat lon) precision;
        lat \<leftarrow> finite_float vlat;
        lon \<leftarrow> finite_float vlon;
        Some (lat, lon, alt)
      })"


section \<open>Broadcasters\<close>

datatype task = NoTask | TaskPending | TaskDone

record broadcaster =
  br_running :: bool
  br_task :: task
  br_schedule :: schedule

definition br_is_running :: "broadcaster \<Rightarrow> bool" where
  "br_is_running b \<longleftrightarrow> br_running b \<and> br_task b \<noteq> NoTask \<and> br_task b \<noteq> TaskDone"

definition DEFAULT_STARTUP_DELAY_SECONDS :: int where
  "DEFAULT_STARTUP_DELAY_SECONDS = 60"

definition DEFAULT_INTERVAL_SECONDS :: int where
  "DEFAULT_INTERVAL_SECONDS = 180 * 60"

definition nodeinfo_broadcaster :: "int \<Rightarrow> int \<Rightarrow> broadcaster" where
  "nodeinfo_broadcaster delay interval =
     \<lparr>br_running = False, br_task = NoTask, br_schedule = schedule_init delay interval\<rparr>"

text \<open>The position and the telemetry broadcaster clamp the configured interval.\<close>

definition clamped_broadcaster :: "int \<Rightarrow> int \<Rightarrow> broadcaster" where
  "clamped_broadcaster interval_minutes delay =
     \<lparr>br_running = False, br_task = NoTask,
      br_schedule = schedule_init delay (clamp_interval_minutes interval_minutes * 60)\<rparr>"

definition br_next_due_at :: "broadcaster \<Rightarrow> rat option" where
  "br_next_due_at b = next_due_at (br_running b) (br_schedule b)"

definition br_set_interval :: "rat \<Rightarrow> int \<Rightarrow> broadcaster \<Rightarrow> int \<times> broadcaster" where
  "br_set_interval now minutes b =
     (case set_interval now minutes (br_schedule b) of (clamped, s) \<Rightarrow> (clamped, b\<lparr>br_schedule := s\<rparr>))"

definition br_start :: "rat \<Rightarrow> broadcaster \<Rightarrow> broadcaster" where
  "br_start now b =
     (if br_is_running b then b
      else b\<lparr>br_running := True, br_schedule := begin_schedule now (br_schedule b), br_task := TaskPending\<rparr>)"

definition br_stop :: "broadcaster \<Rightarrow> broadcaster" where
  "br_stop b = (if br_task b = NoTask then b\<lparr>br_running := False\<rparr> else b\<lparr>br_running := False, br_task := NoTask\<rparr>)"

text \<open>The broadcasts. A result of \<^const>\<open>None\<close> is an exception that leaves the function; the time is the clock reading
  of \<^verbatim>\<open>mark_sent\<close>.\<close>

definition mark_if_sent :: "rat \<Rightarrow> send_result \<Rightarrow> schedule \<Rightarrow> schedule" where
  "mark_if_sent now r s = (if sr_success r then mark_sent now s else s)"

definition nodeinfo_broadcast_now ::
    "crypto_lib \<Rightarrow> tx_env \<Rightarrow> ustr \<Rightarrow> ustr \<Rightarrow> int \<Rightarrow> rat \<Rightarrow> txs \<times> schedule \<Rightarrow> send_result \<times> radio_out list \<times> txs \<times> schedule" where
  "nodeinfo_broadcast_now L env lname sname hw_model now st =
     (case st of (tx, s) \<Rightarrow>
        (case send_nodeinfo L env lname sname hw_model tx of
           (None, outs, tx1) \<Rightarrow> (failure [] ''exception'', outs, tx1, s)
         | (Some r, outs, tx1) \<Rightarrow> (r, outs, tx1, mark_if_sent now r s)))"

definition position_broadcast_once ::
    "crypto_lib \<Rightarrow> pb_out \<Rightarrow> tx_env \<Rightarrow> (rat \<times> rat \<times> rat option) option \<Rightarrow> rat \<Rightarrow> txs \<times> schedule
     \<Rightarrow> bool \<times> radio_out list \<times> txs \<times> schedule" where
  "position_broadcast_once L PO env coords now st =
     (case st of (tx, s) \<Rightarrow>
        (case coords of
           None \<Rightarrow> (True, [], tx, s)
         | Some (lat, lon, alt) \<Rightarrow>
             (case send_position L PO env lat lon alt tx of
                (None, outs, tx1) \<Rightarrow> (False, outs, tx1, s)
              | (Some r, outs, tx1) \<Rightarrow> (True, outs, tx1, mark_if_sent now r s))))"

text \<open>The provider of the telemetry broadcaster answers with finite numbers, or leaves keys out.\<close>

record metrics =
  me_battery_level :: "rat option"
  me_voltage :: "rat option"
  me_channel_utilization :: "rat option"
  me_air_util_tx :: "rat option"
  me_uptime_seconds :: "rat option"

abbreviation value_or :: "'a \<Rightarrow> 'a option \<Rightarrow> 'a" where
  "value_or d v \<equiv> (case v of None \<Rightarrow> d | Some x \<Rightarrow> x)"

definition telemetry_broadcast_once ::
    "crypto_lib \<Rightarrow> pb_out \<Rightarrow> tx_env \<Rightarrow> metrics \<Rightarrow> rat \<Rightarrow> rat \<Rightarrow> rat \<Rightarrow> txs \<times> schedule
     \<Rightarrow> bool \<times> radio_out list \<times> txs \<times> schedule" where
  "telemetry_broadcast_once L PO env m started_at clock now st =
     (case st of (tx, s) \<Rightarrow>
        let uptime = py_trunc (clock - started_at);
            dm = \<lparr>dm_battery_level = py_trunc (value_or 101 (me_battery_level m)), dm_voltage = value_or 5 (me_voltage m),
                  dm_channel_utilization = value_or 0 (me_channel_utilization m),
                  dm_air_util_tx = value_or 0 (me_air_util_tx m),
                  dm_uptime_seconds = py_trunc (value_or (of_int uptime) (me_uptime_seconds m))\<rparr>
        in (case send_telemetry L PO env dm tx of
              (None, outs, tx1) \<Rightarrow> (False, outs, tx1, s)
            | (Some r, outs, tx1) \<Rightarrow> (True, outs, tx1, mark_if_sent now r s)))"



section \<open>Properties\<close>

text \<open>The position that goes on the air respects its setting: it is the configured pin, as it is, when the source is static;
  the live fix otherwise, only while there is one, unrounded only under \<^verbatim>\<open>exact\<close>, never under \<^verbatim>\<open>none\<close>, and else
  (a misspelt precision included) rounded to hundredths of a degree.\<close>

lemma mesh_position_policy:
  assumes "resolve_position pc dv ls = Some (lat, lon, alt)"
  shows "lower (po_coordinate_source pc) \<noteq> ''live'' \<and> dv_latitude dv = Some lat \<and> dv_longitude dv = Some lon \<or>
     lower (po_coordinate_source pc) = ''live'' \<and> live_fix_available ls \<and> po_location_precision pc \<noteq> ''none'' \<and>
     (\<exists>f la lo. gs_fix (ls_status ls) = Some f \<and> fix_has_position f \<and> fix_latitude f = Some la \<and> fix_longitude f = Some lo \<and>
        (if po_location_precision pc = ''exact'' then lat = la \<and> lon = lo
         else lat = py_round 2 la \<and> lon = py_round 2 lo \<and> \<bar>lat - la\<bar> \<le> 1 / 200 \<and> \<bar>lon - lo\<bar> \<le> 1 / 200))"
proof -
  have r: "\<bar>py_round 2 x - x\<bar> \<le> 1 / 200" for x using py_round_error [of 2 x] by simp
  show ?thesis using assms r
    by (auto simp: resolve_position_def live_fix_available_def location_apply_def VALID_LOCATION_PRECISION_def Let_def
        split: if_splits option.splits Option.bind_splits)
qed

definition demo_live :: location_source where
  "demo_live = \<lparr>ls_source_name = ''gpsd'', ls_status = \<lparr>gs_source = ''gpsd'', gs_available = True,
     gs_fix = Some \<lparr>fix_mode = 3, fix_latitude = Some (52), fix_longitude = Some 13, fix_altitude_m = None\<rparr>\<rparr>\<rparr>"

definition demo_position_config :: position_config where
  "demo_position_config = \<lparr>po_interval_minutes = 15, po_startup_delay_seconds = 180, po_coordinate_source = ''live'',
     po_location_precision = ''approx''\<rparr>"

definition no_pin :: device_config where
  "no_pin = \<lparr>dv_latitude = None, dv_longitude = None, dv_altitude = None\<rparr>"

lemma mesh_position_policy_witness:
  "\<exists>lat lon. resolve_position demo_position_config no_pin demo_live = Some (lat, lon, None) \<and> \<bar>lat - (52)\<bar> \<le> 1 / 200"
proof -
  have "resolve_position demo_position_config no_pin demo_live = Some (py_round 2 (52), py_round 2 13, None)"
    by (simp add: resolve_position_def demo_position_config_def demo_live_def live_fix_available_def fix_has_position_def
        VALID_LOCATION_PRECISION_def location_apply_def lower_char_def)
  then show ?thesis
    using mesh_position_policy [of demo_position_config no_pin demo_live "py_round 2 (52)" "py_round 2 13" None]
    by (auto simp: demo_live_def demo_position_config_def no_pin_def)
qed

text \<open>The broadcast of the position loop, as the loop calls it.\<close>

definition position_on_due ::
    "crypto_lib \<Rightarrow> pb_out \<Rightarrow> tx_env \<Rightarrow> (rat \<times> rat \<times> rat option) option \<Rightarrow> rat \<Rightarrow> txs \<Rightarrow> schedule \<Rightarrow> schedule option" where
  "position_on_due L PO env coords now tx s =
     (case position_broadcast_once L PO env coords now (tx, s) of (ok, outs, tx1, s1) \<Rightarrow> if ok then Some s1 else None)"

text \<open>After the first position was sent, losing the satellite fix makes the position broadcaster spin: from the next due
  time on every pass of the loop comes back to its head without waiting, however often it runs and whatever the clock
  says; such a pass awaits nothing, so no other task of the gateway runs meanwhile.\<close>

lemma lost_fix_spins:
  assumes "lower (po_coordinate_source pc) = ''live''" "\<not> live_fix_available ls"
    and "bi_interval s > 0" "bi_last_sent_at s = Some u"
    and "list_all (\<lambda>(t, t'). u + of_int (bi_interval s) \<le> t \<and> t \<le> t') ts"
  shows "map fst (passes (position_on_due L PO env (resolve_position pc dv ls) now tx) ts (AtHead, s)) =
    replicate (length ts) AtHead"
proof -
  have "resolve_position pc dv ls = None"
    using assms(1,2) by (cases "po_coordinate_source pc = []") (auto simp: resolve_position_def)
  then have "position_on_due L PO env (resolve_position pc dv ls) now tx = Some"
    by (auto simp: position_on_due_def position_broadcast_once_def)
  then show ?thesis using overdue_failure_spins [OF assms(3-5)] by simp
qed

lemma lost_fix_spins_witness:
  "\<forall>L PO env. map fst (passes (position_on_due L PO env
       (resolve_position demo_position_config no_pin \<lparr>ls_source_name = ''gpsd'', ls_status = \<lparr>gs_source = ''gpsd'', gs_available = False, gs_fix = None\<rparr>\<rparr>) 0 demo_txs)
     [(1000, 1000), (1000, 1000), (1000, 1001)] (AtHead, mark_sent 0 (schedule_init 180 900))) = [AtHead, AtHead, AtHead]"
  by (intro allI, subst lost_fix_spins [where u = 0])
    (simp_all add: schedule_init_def demo_position_config_def live_fix_available_def lower_char_def numeral_eq_Suc)

end
