(* ===== verification/Dedup_Filter.thy ===== *)
theory Dedup_Filter
  imports Sliding_Window
begin

text \<open>
  \<^verbatim>\<open>src/src/relay/dedup_filter.py\<close>: the filter that keeps a relayed packet from being relayed
  again. Its \<^verbatim>\<open>OrderedDict\<close> is the association list \<open>dd_seen\<close> in insertion order. The clock
  reading of a call is its first argument.
\<close>

record dedup =
  dd_max_entries :: nat
  dd_ttl :: rat
  dd_seen :: "(string \<times> rat) list"

definition dedup_init :: "nat \<Rightarrow> rat \<Rightarrow> dedup" where
  "dedup_init max_entries ttl = \<lparr>dd_max_entries = max_entries, dd_ttl = ttl, dd_seen = []\<rparr>"

text \<open>The loop of \<^verbatim>\<open>_evict_expired\<close>, with its cut-off \<^verbatim>\<open>now - ttl\<close>.\<close>

fun evict_expired_loop :: "rat \<Rightarrow> (string \<times> rat) list \<Rightarrow> (string \<times> rat) list" where
  "evict_expired_loop cutoff [] = []"
| "evict_expired_loop cutoff ((k, t) # es) =
     (if t > cutoff then (k, t) # es else evict_expired_loop cutoff es)"

definition evict_expired :: "rat \<Rightarrow> dedup \<Rightarrow> dedup" where
  "evict_expired now d = d\<lparr>dd_seen := evict_expired_loop (now - dd_ttl d) (dd_seen d)\<rparr>"

fun enforce_max_size_loop :: "nat \<Rightarrow> (string \<times> rat) list \<Rightarrow> (string \<times> rat) list" where
  "enforce_max_size_loop m [] = []"
| "enforce_max_size_loop m (e # es) =
     (if length (e # es) > m then enforce_max_size_loop m es else e # es)"

definition enforce_max_size :: "dedup \<Rightarrow> dedup" where
  "enforce_max_size d = d\<lparr>dd_seen := enforce_max_size_loop (dd_max_entries d) (dd_seen d)\<rparr>"

definition dedup_key :: "string \<Rightarrow> string \<Rightarrow> string" where
  "dedup_key src pid = src @ '':'' @ pid"

definition is_duplicate :: "rat \<Rightarrow> string \<Rightarrow> string \<Rightarrow> dedup \<Rightarrow> bool \<times> dedup" where
  "is_duplicate now src pid d =
     (let key = dedup_key src pid; d1 = evict_expired now d in
      if key \<in> fst ` set (dd_seen d1) then (True, d1)
      else (False, enforce_max_size (d1\<lparr>dd_seen := AList.update key now (dd_seen d1)\<rparr>)))"

definition dedup_size :: "dedup \<Rightarrow> nat" where
  "dedup_size d = length (dd_seen d)"

definition dedup_clear :: "dedup \<Rightarrow> dedup" where
  "dedup_clear d = d\<lparr>dd_seen := []\<rparr>"


section \<open>The queue contract\<close>

text \<open>An entry is live while \<^verbatim>\<open>oldest_time > now - ttl\<close>.\<close>

definition dd_live :: "rat \<Rightarrow> rat \<Rightarrow> rat \<Rightarrow> bool" where
  "dd_live ttl now t \<longleftrightarrow> t > now - ttl"

definition dd_prune :: "rat \<Rightarrow> rat \<Rightarrow> (string \<times> rat) list \<Rightarrow> (string \<times> rat) list" where
  "dd_prune ttl now = evict_expired_loop (now - ttl)"

interpretation dd: sliding_window snd "dd_live ttl" "dd_prune ttl" for ttl
  by unfold_locales (auto simp: dd_live_def dd_prune_def)

lemma evict_expired_prune [simp]:
  "dd_seen (evict_expired now d) = dd_prune (dd_ttl d) now (dd_seen d)"
  "dd_ttl (evict_expired now d) = dd_ttl d"
  "dd_max_entries (evict_expired now d) = dd_max_entries d"
  by (simp_all add: evict_expired_def dd_prune_def)

lemma enforce_max_size_drop: "enforce_max_size_loop m es = drop (length es - m) es"
  by (induction es) (auto simp: Suc_diff_le)

lemma enforce_max_size_simps [simp]:
  "dd_seen (enforce_max_size d) = drop (length (dd_seen d) - dd_max_entries d) (dd_seen d)"
  "dd_ttl (enforce_max_size d) = dd_ttl d"
  "dd_max_entries (enforce_max_size d) = dd_max_entries d"
  by (simp_all add: enforce_max_size_def enforce_max_size_drop)

lemma update_fresh_key: "k \<notin> fst ` set d \<Longrightarrow> AList.update k v d = d @ [(k, v)]"
  by (induction d) auto

lemma is_duplicate_unfold:
  "is_duplicate now src pid d =
     (let live = dd_prune (dd_ttl d) now (dd_seen d) in
      if dedup_key src pid \<in> fst ` set live then (True, d\<lparr>dd_seen := live\<rparr>)
      else (False, d\<lparr>dd_seen := last_n (dd_max_entries d) (live @ [(dedup_key src pid, now)])\<rparr>))"
  by (auto simp: is_duplicate_def Let_def update_fresh_key evict_expired_def dd_prune_def
      enforce_max_size_def enforce_max_size_drop last_n_def)


section \<open>Invariant\<close>

definition dedup_inv :: "rat \<Rightarrow> dedup \<Rightarrow> bool" where
  "dedup_inv now d \<longleftrightarrow>
     distinct (map fst (dd_seen d)) \<and> sorted (map snd (dd_seen d)) \<and>
     (\<forall>e \<in> set (dd_seen d). snd e \<le> now) \<and> length (dd_seen d) \<le> dd_max_entries d"

lemma dedup_inv_init: "dedup_inv now (dedup_init m ttl)"
  by (simp add: dedup_inv_def dedup_init_def)

lemma dedup_inv_clear: "dedup_inv now d \<Longrightarrow> dedup_inv now (dedup_clear d)"
  by (simp add: dedup_inv_def dedup_clear_def)

lemma distinct_map_last_n: "distinct (map f xs) \<Longrightarrow> distinct (map f (last_n n xs))"
  by (simp add: last_n_def drop_map [symmetric])

lemma sorted_map_last_n: "sorted (map f xs) \<Longrightarrow> sorted (map f (last_n n xs))"
  by (simp add: last_n_def drop_map [symmetric] sorted_wrt_drop)

lemma set_last_n: "set (last_n n xs) \<subseteq> set xs"
  by (simp add: last_n_def set_drop_subset)

lemma is_duplicate_inv:
  assumes inv: "dedup_inv now d" and le: "now \<le> now'"
  shows "dedup_inv now' (snd (is_duplicate now' src pid d))"
proof -
  define live where "live = dd_prune (dd_ttl d) now' (dd_seen d)"
  define key where "key = dedup_key src pid"
  have ord: "sorted (map snd (dd_seen d))" using inv by (simp add: dedup_inv_def)
  have sub: "set live \<subseteq> set (dd_seen d)"
    using dd.prune_subset by (simp add: live_def)
  have old: "\<forall>e \<in> set live. snd e \<le> now'"
    using inv le sub by (fastforce simp: dedup_inv_def)
  obtain pre where "dd_seen d = pre @ live"
    using dd.prune_suffix [of "dd_seen d" "dd_ttl d" now'] by (auto simp: live_def)
  then have dist: "distinct (map fst live)" using inv by (simp add: dedup_inv_def)
  have srt: "sorted (map snd live)"
    using dd.prune_in_order [OF ord] by (simp add: live_def)
  have len: "length live \<le> dd_max_entries d"
    using dd.length_prune_le [of "dd_ttl d" now' "dd_seen d"] inv
    by (simp add: live_def dedup_inv_def)
  show ?thesis
  proof (cases "key \<in> fst ` set live")
    case True
    then show ?thesis using old dist srt len
      by (simp add: is_duplicate_unfold dedup_inv_def live_def key_def)
  next
    case False
    have "distinct (map fst (live @ [(key, now')]))" using dist False by auto
    moreover have "sorted (map snd (live @ [(key, now')]))" using srt old by (simp add: sorted_append)
    moreover have "\<forall>e \<in> set (last_n n (live @ [(key, now')])). snd e \<le> now'" for n
      using set_last_n [of n "live @ [(key, now')]"] old by auto
    ultimately show ?thesis using False
      by (simp add: is_duplicate_unfold dedup_inv_def live_def [symmetric] key_def [symmetric]
          distinct_map_last_n sorted_map_last_n)
  qed
qed


section \<open>What a call reports\<close>

text \<open>A packet is reported as a duplicate exactly when its key was recorded less than the
  time to live ago and is still held.\<close>

lemma is_duplicate_iff:
  assumes "dedup_inv now d"
  shows "fst (is_duplicate now' src pid d) \<longleftrightarrow>
    (\<exists>t. (dedup_key src pid, t) \<in> set (dd_seen d) \<and> now' - t < dd_ttl d)"
proof -
  have "sorted (map snd (dd_seen d))" using assms by (simp add: dedup_inv_def)
  then have "set (dd_prune (dd_ttl d) now' (dd_seen d)) =
      {e \<in> set (dd_seen d). dd_live (dd_ttl d) now' (snd e)}"
    by (rule dd.set_prune)
  then show ?thesis
    by (force simp: is_duplicate_unfold Let_def dd_live_def image_iff)
qed

text \<open>The calls the relay makes, one after the other.\<close>

fun dedup_run :: "dedup \<Rightarrow> (rat \<times> string \<times> string) list \<Rightarrow> dedup" where
  "dedup_run d [] = d"
| "dedup_run d ((now, src, pid) # cs) = dedup_run (snd (is_duplicate now src pid d)) cs"

text \<open>Entry \<open>(k, t)\<close> is held with at most \<open>n\<close> entries behind it.\<close>

definition held :: "string \<Rightarrow> rat \<Rightarrow> nat \<Rightarrow> dedup \<Rightarrow> bool" where
  "held k t n d \<longleftrightarrow> (\<exists>pre post. dd_seen d = pre @ (k, t) # post \<and> length post \<le> n)"

lemma heldI: "dd_seen d = pre @ (k, t) # post \<Longrightarrow> length post \<le> n \<Longrightarrow> held k t n d"
  by (auto simp: held_def)

lemma is_duplicate_params [simp]:
  "dd_ttl (snd (is_duplicate now src pid d)) = dd_ttl d"
  "dd_max_entries (snd (is_duplicate now src pid d)) = dd_max_entries d"
  by (simp_all add: is_duplicate_unfold Let_def)

lemma last_n_keeps: "length post < n \<Longrightarrow> \<exists>pre'. last_n n (pre @ e # post) = pre' @ e # post"
  by (auto simp: last_n_def)

lemma held_step:
  assumes "held k t n d" "now - t < dd_ttl d" "Suc n < dd_max_entries d"
  shows "held k t (Suc n) (snd (is_duplicate now src pid d))"
proof -
  obtain pre post where seen: "dd_seen d = pre @ (k, t) # post" and post: "length post \<le> n"
    using assms(1) by (auto simp: held_def)
  have "dd_live (dd_ttl d) now (snd (k, t))" using assms(2) by (simp add: dd_live_def)
  then obtain pre' where live: "dd_prune (dd_ttl d) now (dd_seen d) = pre' @ (k, t) # post"
    using dd.prune_keeps_live_suffix [of "dd_ttl d" now "(k, t)" pre post] seen by auto
  define key where "key = dedup_key src pid"
  obtain pre'' where "last_n (dd_max_entries d) (pre' @ (k, t) # (post @ [(key, now)])) =
      pre'' @ (k, t) # (post @ [(key, now)])"
    using last_n_keeps [of "post @ [(key, now)]" "dd_max_entries d" pre' "(k, t)"] post assms(3) by auto
  then have "dd_seen (snd (is_duplicate now src pid d)) = pre' @ (k, t) # post \<or>
      dd_seen (snd (is_duplicate now src pid d)) = pre'' @ (k, t) # (post @ [(key, now)])"
    using live by (simp add: is_duplicate_unfold key_def Let_def)
  then show ?thesis using post by (auto intro: heldI)
qed

lemma held_run:
  assumes "held k t n d" "\<forall>c \<in> set cs. fst c - t < dd_ttl d" "n + length cs < dd_max_entries d"
  shows "held k t (n + length cs) (dedup_run d cs)"
  using assms
proof (induction cs arbitrary: n d)
  case Nil
  then show ?case by simp
next
  case (Cons c cs)
  obtain now src pid where c: "c = (now, src, pid)" by (cases c) auto
  have "held k t (Suc n) (snd (is_duplicate now src pid d))"
    using Cons.prems c by (intro held_step) auto
  then have "held k t (Suc n + length cs) (dedup_run (snd (is_duplicate now src pid d)) cs)"
    using Cons.prems by (intro Cons.IH) auto
  then show ?case by (simp add: c)
qed

lemma held_after_record:
  assumes "fst (is_duplicate now src pid d) = False" "0 < dd_max_entries d"
  shows "held (dedup_key src pid) now 0 (snd (is_duplicate now src pid d))"
  using assms last_n_keeps [of "[]" "dd_max_entries d"]
  by (fastforce simp: is_duplicate_unfold held_def Let_def split: if_splits)

lemma held_is_duplicate:
  assumes "held (dedup_key src pid) t n d" "now - t < dd_ttl d"
  shows "fst (is_duplicate now src pid d)"
proof -
  obtain pre post where seen: "dd_seen d = pre @ (dedup_key src pid, t) # post"
    using assms(1) by (auto simp: held_def)
  have "dd_live (dd_ttl d) now (snd (dedup_key src pid, t))" using assms(2) by (simp add: dd_live_def)
  then obtain pre' where "dd_prune (dd_ttl d) now (dd_seen d) = pre' @ (dedup_key src pid, t) # post"
    using dd.prune_keeps_live_suffix [of "dd_ttl d" now "(dedup_key src pid, t)" pre post] seen by auto
  then show ?thesis by (auto simp: is_duplicate_unfold Let_def)
qed

section \<open>Properties\<close>

lemma dedup_inv_run:
  "sorted (map fst cs) \<Longrightarrow> \<forall>c \<in> set cs. now \<le> fst c \<and> fst c \<le> end_time \<Longrightarrow> now \<le> end_time \<Longrightarrow>
   dedup_inv now d \<Longrightarrow> dedup_inv end_time (dedup_run d cs)"
proof (induction d cs arbitrary: now rule: dedup_run.induct)
  case (1 d)
  then show ?case by (fastforce simp: dedup_inv_def)
next
  case (2 d t src pid cs)
  have "dedup_inv t (snd (is_duplicate t src pid d))"
    using 2(2-5) by (intro is_duplicate_inv [of now]) auto
  then show ?case using 2(1) [of t] 2(2,3) by auto
qed

lemma dedup_run_params [simp]:
  "dd_ttl (dedup_run d cs) = dd_ttl d" "dd_max_entries (dedup_run d cs) = dd_max_entries d"
  by (induction d cs rule: dedup_run.induct) simp_all

text \<open>The packets a caller has been told are new, with the times of the calls.\<close>

fun let_through :: "dedup \<Rightarrow> (rat \<times> string \<times> string) list \<Rightarrow> (string \<times> rat) list" where
  "let_through d [] = []"
| "let_through d ((now, src, pid) # cs) =
     (case is_duplicate now src pid d of
        (dup, d1) \<Rightarrow> (if dup then [] else [(dedup_key src pid, now)]) @ let_through d1 cs)"

text \<open>The table is the end of that list: what is missing has expired or lies more than \<open>m\<close> entries back.\<close>

definition covers :: "rat \<Rightarrow> rat \<Rightarrow> nat \<Rightarrow> (string \<times> rat) list \<Rightarrow> (string \<times> rat) list \<Rightarrow> bool" where
  "covers now ttl m P S \<longleftrightarrow>
     (\<exists>pre. P = pre @ S \<and> length S \<le> m \<and> (\<forall>i < length pre. snd (pre ! i) \<le> now - ttl \<or> m < length P - i))"

lemma evict_expired_loop_dropWhile: "evict_expired_loop c es = dropWhile (\<lambda>e. snd e \<le> c) es"
  by (induction c es rule: evict_expired_loop.induct) auto

lemma covers_later: "covers now ttl m P S \<Longrightarrow> now \<le> now' \<Longrightarrow> covers now' ttl m P S"
  unfolding covers_def by fastforce

lemma covers_evict:
  assumes "covers now ttl m P S"
  shows "covers now ttl m P (dd_prune ttl now S)"
proof -
  obtain pre where P: "P = pre @ S" "length S \<le> m" "\<forall>i < length pre. snd (pre ! i) \<le> now - ttl \<or> m < length P - i"
    using assms by (auto simp: covers_def)
  let ?g = "takeWhile (\<lambda>e. snd e \<le> now - ttl) S"
  have d: "dd_prune ttl now S = dropWhile (\<lambda>e. snd e \<le> now - ttl) S"
    by (simp add: dd_prune_def evict_expired_loop_dropWhile)
  have "snd (?g ! i) \<le> now - ttl" if "i < length ?g" for i
    using nth_mem [OF that] by (auto dest: set_takeWhileD)
  then have "\<forall>i < length (pre @ ?g). snd ((pre @ ?g) ! i) \<le> now - ttl \<or> m < length P - i"
    using P(3) by (auto simp: nth_append)
  moreover have "length (dropWhile (\<lambda>e. snd e \<le> now - ttl) S) \<le> m"
    using P(2) length_dropWhile_le [of _ S] le_trans by blast
  ultimately show ?thesis using P(1) unfolding covers_def d
    by (intro exI [of _ "pre @ ?g"]) simp
qed

lemma covers_add:
  assumes "covers now ttl m P S"
  shows "covers now ttl m (P @ [e]) (last_n m (S @ [e]))"
proof -
  obtain pre where P: "P = pre @ S" "length S \<le> m" "\<forall>i < length pre. snd (pre ! i) \<le> now - ttl \<or> m < length P - i"
    using assms by (auto simp: covers_def)
  let ?k = "length (S @ [e]) - m"
  have "\<forall>i < length (pre @ take ?k (S @ [e])). snd ((pre @ take ?k (S @ [e])) ! i) \<le> now - ttl \<or> m < length (P @ [e]) - i"
  proof (intro allI impI)
    fix i
    assume i: "i < length (pre @ take ?k (S @ [e]))"
    show "snd ((pre @ take ?k (S @ [e])) ! i) \<le> now - ttl \<or> m < length (P @ [e]) - i"
    proof (cases "i < length pre")
      case True
      then show ?thesis using P(3) by (auto simp: nth_append)
    next
      case False
      then show ?thesis using i P(1) by auto
    qed
  qed
  moreover have "P @ [e] = (pre @ take ?k (S @ [e])) @ last_n m (S @ [e])"
    unfolding last_n_def P(1) by (simp only: append.assoc append_take_drop_id)
  moreover have "length (last_n m (S @ [e])) \<le> m" by (simp add: last_n_def)
  ultimately show ?thesis unfolding covers_def by blast
qed

lemma covers_run:
  assumes "sorted (map fst cs)" "\<forall>c \<in> set cs. now \<le> fst c \<and> fst c \<le> end_time" "now \<le> end_time"
    and "covers now (dd_ttl d) (dd_max_entries d) P (dd_seen d)"
  shows "covers end_time (dd_ttl d) (dd_max_entries d) (P @ let_through d cs) (dd_seen (dedup_run d cs))"
  using assms
proof (induction cs arbitrary: now d P)
  case Nil
  then show ?case using covers_later by simp
next
  case (Cons c cs)
  obtain t src pid where c: "c = (t, src, pid)" by (cases c) auto
  have "covers t (dd_ttl d) (dd_max_entries d) P (dd_seen d)" using Cons.prems c covers_later by auto
  then have l: "covers t (dd_ttl d) (dd_max_entries d) P (dd_prune (dd_ttl d) t (dd_seen d))" by (rule covers_evict)
  obtain dup d1 where d1: "is_duplicate t src pid d = (dup, d1)" by fastforce
  let ?P = "P @ (if dup then [] else [(dedup_key src pid, t)])"
  have "covers t (dd_ttl d) (dd_max_entries d) ?P (dd_seen d1)"
    using l covers_add [OF l, of "(dedup_key src pid, t)"] d1 by (auto simp: is_duplicate_unfold Let_def split: if_splits)
  moreover have "dd_ttl d1 = dd_ttl d" "dd_max_entries d1 = dd_max_entries d"
    using is_duplicate_params [of t src pid d] d1 by simp_all
  ultimately show ?case using Cons.IH [of t d1 ?P] Cons.prems c d1 by simp
qed

lemma covers_live:
  assumes "covers now ttl m P S" "now - t < ttl"
  shows "(k, t) \<in> set S \<longleftrightarrow> (k, t) \<in> set (last_n m P)"
proof -
  obtain pre where P: "P = pre @ S" "length S \<le> m" "\<forall>i < length pre. snd (pre ! i) \<le> now - ttl \<or> m < length P - i"
    using assms(1) by (auto simp: covers_def)
  have split: "last_n m P = drop (length P - m) pre @ S" using P(1,2) by (simp add: last_n_def)
  have "(k, t) \<notin> set (drop (length P - m) pre)"
  proof
    assume "(k, t) \<in> set (drop (length P - m) pre)"
    then obtain j where j: "j < length pre - (length P - m)" "pre ! (length P - m + j) = (k, t)"
      by (auto simp: in_set_conv_nth)
    then have "t \<le> now - ttl \<or> m < length P - (length P - m + j)" using P(3) [rule_format, of "length P - m + j"] by simp
    then show False using assms(2) j(1) by auto
  qed
  then show ?thesis by (simp add: split)
qed

text \<open>C34: after any sequence of calls with a clock that does not run backwards, the next call reports a packet as a
  duplicate exactly when it is among the last \<^verbatim>\<open>max_entries\<close> packets that were let through and was let through less
  than the time to live ago; the table holds at most \<^verbatim>\<open>max_entries\<close> keys.\<close>

theorem dedup_exact:
  assumes "sorted (map fst cs)" and "\<forall>c \<in> set cs. fst c \<le> now"
  shows "(fst (is_duplicate now src pid (dedup_run (dedup_init m ttl) cs)) \<longleftrightarrow>
      (\<exists>t. (dedup_key src pid, t) \<in> set (last_n m (let_through (dedup_init m ttl) cs)) \<and> now - t < ttl)) \<and>
    dedup_size (dedup_run (dedup_init m ttl) cs) \<le> m"
proof -
  let ?d = "dedup_run (dedup_init m ttl) cs"
  define t0 where "t0 = (case cs of [] \<Rightarrow> now | c # _ \<Rightarrow> fst c)"
  have t0: "\<forall>c \<in> set cs. t0 \<le> fst c \<and> fst c \<le> now" "t0 \<le> now"
    using assms(1,2) by (cases cs; force simp: t0_def)+
  then have inv: "dedup_inv now ?d" using dedup_inv_run [OF assms(1) _ _ dedup_inv_init, of t0 now] by simp
  have p: "dd_ttl ?d = ttl" "dd_max_entries ?d = m" by (simp_all add: dedup_init_def)
  have "covers t0 ttl m [] (dd_seen (dedup_init m ttl))" by (simp add: covers_def dedup_init_def)
  then have "covers now ttl m (let_through (dedup_init m ttl) cs) (dd_seen ?d)"
    using covers_run [OF assms(1) t0, of "dedup_init m ttl" "[]"] by (simp add: dedup_init_def)
  from covers_live [OF this] show ?thesis
    using is_duplicate_iff [OF inv, of now src pid] inv p by (auto simp: dedup_inv_def dedup_size_def)
qed

theorem dedup_exact_witness:
  "fst (is_duplicate 9 ''aa'' ''01''
     (dedup_run (dedup_init 2 5) [(1, ''aa'', ''01''), (5, ''bb'', ''01''), (6, ''aa'', ''01'')]))"
  using dedup_exact [of "[(1, ''aa'', ''01''), (5, ''bb'', ''01''), (6, ''aa'', ''01'')]" 9 "''aa''" "''01''" 2 5]
  by (simp add: dedup_init_def is_duplicate_unfold dd_prune_def dedup_key_def last_n_def)

end
