(* ===== verification/Rate_Limiter.thy ===== *)
theory Rate_Limiter
  imports Sliding_Window
begin

text \<open>
  \<^verbatim>\<open>src/src/relay/rate_limiter.py\<close>: the limiter of relay transmissions. The state is the deque
  of the times at which a transmission was granted; every method reads the clock once, its
  first argument.
\<close>

record limiter =
  rl_max_per_minute :: int
  rl_burst_size :: int
  rl_timestamps :: "rat list"

definition window_seconds :: rat where
  "window_seconds = 60"

definition limiter_init :: "int \<Rightarrow> int \<Rightarrow> limiter" where
  "limiter_init max_per_minute burst =
     \<lparr>rl_max_per_minute = max_per_minute, rl_burst_size = burst, rl_timestamps = []\<rparr>"

fun prune_loop :: "rat \<Rightarrow> rat list \<Rightarrow> rat list" where
  "prune_loop cutoff [] = []"
| "prune_loop cutoff (t # ts) = (if t < cutoff then prune_loop cutoff ts else t # ts)"

definition limiter_prune :: "rat \<Rightarrow> limiter \<Rightarrow> limiter" where
  "limiter_prune now l = l\<lparr>rl_timestamps := prune_loop (now - window_seconds) (rl_timestamps l)\<rparr>"

definition allow :: "rat \<Rightarrow> limiter \<Rightarrow> bool \<times> limiter" where
  "allow now l =
     (let l1 = limiter_prune now l in
      if int (length (rl_timestamps l1)) \<ge> rl_max_per_minute l1 then (False, l1)
      else
        let recent_count = int (length (filter (\<lambda>t. now - t < 5) (rl_timestamps l1))) in
        if recent_count \<ge> rl_burst_size l1 then (False, l1)
        else (True, l1\<lparr>rl_timestamps := rl_timestamps l1 @ [now]\<rparr>))"

definition current_rate :: "rat \<Rightarrow> limiter \<Rightarrow> nat \<times> limiter" where
  "current_rate now l = (let l1 = limiter_prune now l in (length (rl_timestamps l1), l1))"

definition remaining_capacity :: "rat \<Rightarrow> limiter \<Rightarrow> int \<times> limiter" where
  "remaining_capacity now l =
     (let l1 = limiter_prune now l in
      (max 0 (rl_max_per_minute l1 - int (length (rl_timestamps l1))), l1))"


section \<open>The queue contract\<close>

definition rl_live :: "rat \<Rightarrow> rat \<Rightarrow> bool" where
  "rl_live now t \<longleftrightarrow> \<not> t < now - window_seconds"

definition rl_prune :: "rat \<Rightarrow> rat list \<Rightarrow> rat list" where
  "rl_prune now = prune_loop (now - window_seconds)"

interpretation rl: sliding_window "\<lambda>t. t" rl_live rl_prune
  by unfold_locales (auto simp: rl_live_def rl_prune_def)

lemma limiter_prune_simps [simp]:
  "rl_timestamps (limiter_prune now l) = rl_prune now (rl_timestamps l)"
  "rl_max_per_minute (limiter_prune now l) = rl_max_per_minute l"
  "rl_burst_size (limiter_prune now l) = rl_burst_size l"
  by (simp_all add: limiter_prune_def rl_prune_def)


section \<open>Runs\<close>

text \<open>Any sequence of calls with a clock that does not go backwards. The last component is the
  history of grants, which the limiter itself forgets.\<close>

inductive limiter_reach :: "int \<Rightarrow> int \<Rightarrow> limiter \<Rightarrow> rat \<Rightarrow> rat list \<Rightarrow> bool"
  for m :: int and b :: int where
  start: "limiter_reach m b (limiter_init m b) now []"
| granted: "limiter_reach m b l now hist \<Longrightarrow> now \<le> now' \<Longrightarrow> allow now' l = (True, l') \<Longrightarrow>
    limiter_reach m b l' now' (hist @ [now'])"
| refused: "limiter_reach m b l now hist \<Longrightarrow> now \<le> now' \<Longrightarrow> allow now' l = (False, l') \<Longrightarrow>
    limiter_reach m b l' now' hist"
| rate_read: "limiter_reach m b l now hist \<Longrightarrow> now \<le> now' \<Longrightarrow>
    limiter_reach m b (snd (current_rate now' l)) now' hist"
| capacity_read: "limiter_reach m b l now hist \<Longrightarrow> now \<le> now' \<Longrightarrow>
    limiter_reach m b (snd (remaining_capacity now' l)) now' hist"

text \<open>The queue is the part of the history inside the window ending now.\<close>

definition limiter_inv :: "int \<Rightarrow> int \<Rightarrow> limiter \<Rightarrow> rat \<Rightarrow> rat list \<Rightarrow> bool" where
  "limiter_inv m b l now hist \<longleftrightarrow>
     rl_max_per_minute l = m \<and> rl_burst_size l = b \<and>
     sorted hist \<and> (\<forall>t \<in> set hist. t \<le> now) \<and>
     rl_prune now (rl_timestamps l) = rl_prune now hist \<and> sorted (rl_timestamps l)"

lemma limiter_inv_later:
  assumes "limiter_inv m b l now hist" "now \<le> now'"
  shows "limiter_inv m b l now' hist"
proof -
  have "sorted (rl_timestamps l)" "sorted hist" using assms(1) by (auto simp: limiter_inv_def)
  then have "rl_prune now' (rl_timestamps l) = rl_prune now' (rl_prune now (rl_timestamps l))"
    "rl_prune now' hist = rl_prune now' (rl_prune now hist)"
    using rl.prune_later assms(2) by simp_all
  then show ?thesis using assms by (fastforce simp: limiter_inv_def)
qed

lemma limiter_inv_prune:
  assumes "limiter_inv m b l now hist"
  shows "limiter_inv m b (limiter_prune now l) now hist"
proof -
  have "sorted (rl_timestamps l)" using assms by (simp add: limiter_inv_def)
  then have "rl_prune now (rl_prune now (rl_timestamps l)) = rl_prune now (rl_timestamps l)"
    "sorted (rl_prune now (rl_timestamps l))"
    using rl.prune_later [of "rl_timestamps l" now now] rl.prune_in_order [of "rl_timestamps l" now]
    by simp_all
  then show ?thesis using assms by (simp add: limiter_inv_def)
qed

lemma allow_False: "allow now l = (False, l') \<Longrightarrow> l' = limiter_prune now l"
  by (auto simp: allow_def Let_def split: if_splits)

lemma allow_True:
  assumes "allow now l = (True, l')"
  shows "l' = (limiter_prune now l)\<lparr>rl_timestamps := rl_prune now (rl_timestamps l) @ [now]\<rparr>"
    and "int (length (rl_prune now (rl_timestamps l))) < rl_max_per_minute l"
    and "int (length (filter (\<lambda>t. now - t < 5) (rl_prune now (rl_timestamps l)))) < rl_burst_size l"
  using assms by (auto simp: allow_def Let_def split: if_splits)

lemma limiter_inv_granted:
  assumes "limiter_inv m b l now hist" "allow now l = (True, l')"
  shows "limiter_inv m b l' now (hist @ [now])"
proof -
  define q where "q = rl_prune now (rl_timestamps l)"
  have srt: "sorted q" "sorted hist" "\<forall>t \<in> set hist. t \<le> now" and q: "q = rl_prune now hist"
    using assms(1) rl.prune_in_order [of "rl_timestamps l" now] by (auto simp: limiter_inv_def q_def)
  then have old: "\<forall>t \<in> set q. t \<le> now" using rl.prune_subset [of now hist] by auto
  have live: "rl_live now now" by (simp add: rl_live_def window_seconds_def)
  have "rl_prune now (q @ [now]) = rl_prune now q @ [now]"
    using rl.prune_append_live [of q now now] srt old live by simp
  moreover have "rl_prune now (hist @ [now]) = rl_prune now hist @ [now]"
    using rl.prune_append_live [of hist now now] srt live by simp
  moreover have "rl_prune now q = q"
    using rl.prune_later [of hist now now] srt q by simp
  ultimately show ?thesis
    using assms srt old allow_True(1) [OF assms(2)] q
    by (auto simp: limiter_inv_def q_def [symmetric] sorted_append)
qed

lemma limiter_reach_inv: "limiter_reach m b l now hist \<Longrightarrow> limiter_inv m b l now hist"
proof (induction rule: limiter_reach.induct)
  case (start now)
  then show ?case by (simp add: limiter_inv_def limiter_init_def)
next
  case (granted l now hist now' l')
  then show ?case using limiter_inv_later limiter_inv_granted by blast
next
  case (refused l now hist now' l')
  then show ?case using limiter_inv_later limiter_inv_prune allow_False by metis
next
  case (rate_read l now hist now')
  then show ?case using limiter_inv_later limiter_inv_prune by (simp add: current_rate_def Let_def)
next
  case (capacity_read l now hist now')
  then show ?case using limiter_inv_later limiter_inv_prune by (simp add: remaining_capacity_def Let_def)
qed


section \<open>The two limits\<close>

text \<open>Adding one grant to a history: a window that contains it counts at most the earlier grants
  close to it, plus one.\<close>

lemma window_count_step:
  fixes hist :: "rat list"
  assumes small: "\<forall>t. int (length (filter (\<lambda>s. t \<le> s \<and> P (s - t)) hist)) \<le> max 0 k"
    and close: "int (length (filter (\<lambda>s. P (now - s)) hist)) < k"
    and down: "\<And>x y. P x \<Longrightarrow> 0 \<le> y \<Longrightarrow> y \<le> x \<Longrightarrow> P y"
    and past: "\<forall>s \<in> set hist. s \<le> now"
  shows "int (length (filter (\<lambda>s. t \<le> s \<and> P (s - t)) (hist @ [now]))) \<le> max 0 k"
proof (cases "t \<le> now \<and> P (now - t)")
  case True
  have "\<forall>s \<in> set hist. t \<le> s \<and> P (s - t) \<longrightarrow> P (now - s)"
    using True past down [of "now - t"] by (auto simp: algebra_simps)
  then have "length (filter (\<lambda>s. t \<le> s \<and> P (s - t)) hist) \<le> length (filter (\<lambda>s. P (now - s)) hist)"
    by (induction hist) auto
  then show ?thesis using True close by simp
next
  case False
  then show ?thesis using small by auto
qed

lemma filter_prune:
  assumes "sorted hist" "\<And>s. P s \<Longrightarrow> rl_live now s"
  shows "filter P (rl_prune now hist) = filter P hist"
  using assms rl.prune_filter [of hist now] by (auto intro: filter_cong)

lemma limiter_counts:
  assumes "limiter_reach m b l now hist"
  shows "(\<forall>t. int (length (filter (\<lambda>s. t \<le> s \<and> s - t \<le> window_seconds) hist)) \<le> max 0 m) \<and>
    (\<forall>t. int (length (filter (\<lambda>s. t \<le> s \<and> s - t < 5) hist)) \<le> max 0 b)"
  using assms
proof (induction rule: limiter_reach.induct)
  case (granted l now hist now' l')
  have inv: "limiter_inv m b l now' hist"
    using granted limiter_reach_inv limiter_inv_later by blast
  then have h: "sorted hist" "\<forall>s \<in> set hist. s \<le> now'" "rl_max_per_minute l = m" "rl_burst_size l = b"
    and q: "rl_prune now' (rl_timestamps l) = rl_prune now' hist"
    by (auto simp: limiter_inv_def)
  have "rl_prune now' hist = filter (\<lambda>s. now' - s \<le> window_seconds) hist"
    using rl.prune_filter [of hist now'] h(1) by (auto simp: rl_live_def intro!: filter_cong)
  then have minute: "int (length (filter (\<lambda>s. now' - s \<le> window_seconds) hist)) < m"
    using allow_True(2) [OF granted.hyps(3)] q h(3) by simp
  have "filter (\<lambda>t. now' - t < 5) (rl_prune now' hist) = filter (\<lambda>t. now' - t < 5) hist"
    using h(1) by (rule filter_prune) (simp add: rl_live_def window_seconds_def)
  then have burst: "int (length (filter (\<lambda>s. now' - s < 5) hist)) < b"
    using allow_True(3) [OF granted.hyps(3)] q h(4) by simp
  show ?case
    using window_count_step [of "\<lambda>x. x \<le> window_seconds" hist m now', OF _ minute _ h(2)]
      window_count_step [of "\<lambda>x. x < 5" hist b now', OF _ burst _ h(2)] granted.IH by auto
qed simp_all

section \<open>Properties\<close>

text \<open>C3: whatever sequence of calls the limiter serves, no 60-second window contains more granted
  transmissions than \<^verbatim>\<open>max_per_minute\<close> and no 5-second window more than \<^verbatim>\<open>burst_size\<close>: the
  limits hold for every sliding window of the history, not only for the one the limiter
  still remembers.\<close>

theorem limiter_sliding_windows:
  assumes "limiter_reach m b l now hist" "0 \<le> m" "0 \<le> b"
  shows "(\<forall>t. int (length (filter (\<lambda>s. t \<le> s \<and> s \<le> t + 60) hist)) \<le> m) \<and>
    (\<forall>t. int (length (filter (\<lambda>s. t \<le> s \<and> s < t + 5) hist)) \<le> b)"
  using limiter_counts [OF assms(1)] assms(2,3)
  by (simp add: window_seconds_def algebra_simps)

theorem limiter_sliding_windows_witness:
  "int (length (filter (\<lambda>s. 0 \<le> s \<and> s < 0 + (5 :: rat)) [1 :: rat])) \<le> 1"
proof -
  have "allow 1 (limiter_init 2 1) = (True, (limiter_init 2 1)\<lparr>rl_timestamps := [1]\<rparr>)"
    by (simp add: allow_def limiter_init_def limiter_prune_def)
  then have "limiter_reach 2 1 ((limiter_init 2 1)\<lparr>rl_timestamps := [1]\<rparr>) 1 ([] @ [1])"
    using limiter_reach.granted [OF limiter_reach.start [of 2 1 0], of 1] by simp
  then show ?thesis using limiter_sliding_windows [of 2 1 _ 1 "[] @ [1]"] by simp
qed

text \<open>A granted call always leaves its time stamp in the queue, and a refused call never does:
  the number of live grants reported by \<^verbatim>\<open>current_rate\<close> grows by one exactly on a grant.\<close>

lemma allow_accounts:
  assumes "limiter_reach m b l now hist" "now \<le> now'"
  shows "fst (current_rate now' (snd (allow now' l))) =
    fst (current_rate now' l) + (if fst (allow now' l) then 1 else 0)"
proof (cases "allow now' l")
  case (Pair ok l')
  have inv: "limiter_inv m b l now' hist" using limiter_inv_later limiter_reach_inv assms by blast
  then have "sorted (rl_timestamps l)" by (simp add: limiter_inv_def)
  then have twice: "rl_prune now' (rl_prune now' (rl_timestamps l)) = rl_prune now' (rl_timestamps l)"
    using rl.prune_later [of "rl_timestamps l" now' now'] by simp
  show ?thesis
  proof (cases ok)
    case True
    then have "limiter_inv m b l' now' (hist @ [now'])" using limiter_inv_granted [OF inv] Pair by simp
    moreover have "rl_prune now' (hist @ [now']) = rl_prune now' hist @ [now']"
      using inv rl.prune_append_live [of hist now' now']
      by (simp add: limiter_inv_def rl_live_def window_seconds_def)
    ultimately show ?thesis
      using True Pair inv by (simp add: current_rate_def Let_def limiter_inv_def)
  next
    case False
    then show ?thesis using Pair allow_False [of now' l l'] twice
      by (simp add: current_rate_def Let_def)
  qed
qed

lemma allow_accounts_witness:
  "fst (current_rate 1 (snd (allow 1 (limiter_init 2 1)))) = 1"
  using allow_accounts [OF limiter_reach.start [of 2 1 0], of 1]
  by (simp add: allow_def limiter_init_def limiter_prune_def current_rate_def)

end
