(* ===== verification/Relay_Manager.thy ===== *)
theory Relay_Manager
  imports Models Dedup_Filter Rate_Limiter
begin

text \<open>
  \<^verbatim>\<open>src/src/relay/relay_manager.py\<close> and \<^verbatim>\<open>src/src/relay/meshtastic_transmitter.py\<close>: the decision
  whether a captured packet is rebroadcast, its bookkeeping, and the companion-radio
  transmitter. \<^verbatim>\<open>evaluate\<close> reads the clock in the deduplication filter and again in the rate
  limiter; both readings are arguments. The transmit function is outside the class; what the
  manager does to it is the packet it hands over, the first component of the result.
\<close>

definition RELAY_WORTHY_TYPES :: "packet_type list" where
  "RELAY_WORTHY_TYPES = [TEXT, POSITION, TELEMETRY, NODEINFO]"

definition BROADCAST_ADDR_MESHTASTIC :: string where
  "BROADCAST_ADDR_MESHTASTIC = ''ffffffff''"

definition BROADCAST_ADDR_MESHCORE :: string where
  "BROADCAST_ADDR_MESHCORE = ''ffff''"

record relay_decision =
  should_relay :: bool
  reason :: string

record relay_manager =
  rm_dedup :: dedup
  rm_limiter :: limiter
  rm_min_rssi :: rat
  rm_max_rssi :: rat
  rm_enabled :: bool
  rm_local_node_hex :: "string option"
  rm_relay_count :: nat
  rm_rejected_count :: nat
  rm_rejection_reasons :: "(string \<times> nat) list"
  rm_has_transmit_fn :: bool

definition relay_init :: "int \<Rightarrow> int \<Rightarrow> rat \<Rightarrow> rat \<Rightarrow> bool \<Rightarrow> relay_manager" where
  "relay_init max_relay_per_minute burst min_relay_rssi max_relay_rssi enabled =
     \<lparr>rm_dedup = dedup_init 10000 300, rm_limiter = limiter_init max_relay_per_minute burst,
      rm_min_rssi = min_relay_rssi, rm_max_rssi = max_relay_rssi, rm_enabled = enabled,
      rm_local_node_hex = None, rm_relay_count = 0, rm_rejected_count = 0,
      rm_rejection_reasons = [], rm_has_transmit_fn = False\<rparr>"

definition set_local_node_id :: "string \<Rightarrow> relay_manager \<Rightarrow> relay_manager" where
  "set_local_node_id node_hex rm = rm\<lparr>rm_local_node_hex := Some (lower node_hex)\<rparr>"

definition set_enabled :: "bool \<Rightarrow> relay_manager \<Rightarrow> relay_manager" where
  "set_enabled v rm = rm\<lparr>rm_enabled := v\<rparr>"

definition set_transmit_function :: "relay_manager \<Rightarrow> relay_manager" where
  "set_transmit_function rm = rm\<lparr>rm_has_transmit_fn := True\<rparr>"

definition decide :: "bool \<Rightarrow> string \<Rightarrow> relay_decision" where
  "decide b r = \<lparr>should_relay = b, reason = r\<rparr>"

text \<open>\<^verbatim>\<open>self._local_node_hex and dest == self._local_node_hex and dest not in (...)\<close>.\<close>

definition dest_is_local :: "relay_manager \<Rightarrow> packet \<Rightarrow> bool" where
  "dest_is_local rm p =
     (let dest = lower (destination_id p) in
      case rm_local_node_hex rm of
        None \<Rightarrow> False
      | Some h \<Rightarrow> h \<noteq> [] \<and> dest = h \<and>
          dest \<notin> {BROADCAST_ADDR_MESHTASTIC, BROADCAST_ADDR_MESHCORE})"

definition signal_too_strong :: "relay_manager \<Rightarrow> packet \<Rightarrow> bool" where
  "signal_too_strong rm p = (case signal p of None \<Rightarrow> False | Some s \<Rightarrow> rssi s > rm_max_rssi rm)"

definition signal_too_weak :: "relay_manager \<Rightarrow> packet \<Rightarrow> bool" where
  "signal_too_weak rm p = (case signal p of None \<Rightarrow> False | Some s \<Rightarrow> rssi s < rm_min_rssi rm)"

definition evaluate :: "rat \<Rightarrow> rat \<Rightarrow> packet \<Rightarrow> relay_manager \<Rightarrow> relay_decision \<times> relay_manager" where
  "evaluate now_dedup now_limit p rm =
     (if \<not> rm_enabled rm then (decide False ''relay_disabled'', rm)
      else
        let (dup, dd) = is_duplicate now_dedup (source_id p) (packet_id p) (rm_dedup rm);
            rm1 = rm\<lparr>rm_dedup := dd\<rparr> in
        if dup then (decide False ''duplicate'', rm1)
        else if hop_limit p \<le> 0 then (decide False ''no_hops_remaining'', rm1)
        else if dest_is_local rm1 p then (decide False ''dest_local'', rm1)
        else if packet_type p \<notin> set RELAY_WORTHY_TYPES then (decide False ''non_relayable_type'', rm1)
        else if signal_too_strong rm1 p then (decide False ''signal_too_strong'', rm1)
        else if signal_too_weak rm1 p then (decide False ''signal_too_weak'', rm1)
        else
          let (ok, rl) = allow now_limit (rm_limiter rm1); rm2 = rm1\<lparr>rm_limiter := rl\<rparr> in
          if \<not> ok then (decide False ''rate_limited'', rm2)
          else (decide True ''approved'', rm2))"

text \<open>\<^verbatim>\<open>process_packet\<close> with \<^verbatim>\<open>_relay\<close>: the packet handed to the transmit function, if any.
  A failing transmission is logged and swallowed, so the counters do not depend on it.\<close>

definition relay_one :: "packet \<Rightarrow> relay_manager \<Rightarrow> packet option" where
  "relay_one p rm = (if rm_has_transmit_fn rm then Some p else None)"

definition process_packet :: "rat \<Rightarrow> rat \<Rightarrow> packet \<Rightarrow> relay_manager \<Rightarrow> packet option \<times> relay_manager" where
  "process_packet now_dedup now_limit p rm =
     (let (decision, rm1) = evaluate now_dedup now_limit p rm in
      if should_relay decision then (relay_one p rm1, rm1\<lparr>rm_relay_count := rm_relay_count rm1 + 1\<rparr>)
      else
        let r = reason decision;
            n = (case map_of (rm_rejection_reasons rm1) r of None \<Rightarrow> 0 | Some k \<Rightarrow> k) in
        (None, rm1\<lparr>rm_rejected_count := rm_rejected_count rm1 + 1,
                   rm_rejection_reasons := AList.update r (n + 1) (rm_rejection_reasons rm1)\<rparr>))"


section \<open>The companion transmitter\<close>

definition PORTNUM_MAP :: "(string \<times> int) list" where
  "PORTNUM_MAP =
     [(''text'', 1), (''position'', 3), (''nodeinfo'', 4), (''routing'', 5), (''waypoint'', 8),
      (''detection_sensor'', 10), (''paxcounter'', 34), (''store_forward'', 65), (''range_test'', 66),
      (''telemetry'', 67), (''traceroute'', 70), (''neighborinfo'', 71), (''map_report'', 73)]"

record transmitter =
  mt_connected :: bool
  mt_has_interface :: bool
  mt_payload_warning_logged :: bool

text \<open>The arguments of one \<^verbatim>\<open>interface.sendData\<close> call.\<close>

record send_data =
  sd_payload :: bytes
  sd_destination :: int
  sd_portnum :: int
  sd_hop_limit :: int
  sd_channel_index :: int

definition resolve_portnum :: "packet \<Rightarrow> int" where
  "resolve_portnum p =
     (case map_of PORTNUM_MAP (packet_type_value (packet_type p)) of Some n \<Rightarrow> n | None \<Rightarrow> 256)"

definition parse_destination :: "string \<Rightarrow> int" where
  "parse_destination dest_id = (case py_int16 dest_id of Some n \<Rightarrow> n | None \<Rightarrow> 0xFFFFFFFF)"

text \<open>\<^verbatim>\<open>_get_payload\<close>; the outer \<^const>\<open>None\<close> is the \<^verbatim>\<open>ValueError\<close> of \<^verbatim>\<open>bytes.fromhex\<close>.\<close>

definition get_payload :: "packet \<Rightarrow> bytes option option" where
  "get_payload p =
     (case raw_app_payload p of
        Some (b # bs) \<Rightarrow> Some (Some (b # bs))
      | _ \<Rightarrow>
        (case decoded_payload p of
           Some (e # es) \<Rightarrow>
             (case dget ''raw_bytes'' (e # es) of
                PBytes bs \<Rightarrow> Some (Some bs)
              | PStr s \<Rightarrow> map_option Some (fromhex s)
              | _ \<Rightarrow> Some None)
         | _ \<Rightarrow> Some None))"

definition transmit :: "packet \<Rightarrow> transmitter \<Rightarrow> send_data option \<times> transmitter" where
  "transmit p t =
     (if \<not> mt_connected t \<or> \<not> mt_has_interface t then (None, t)
      else if protocol p \<noteq> MESHTASTIC then (None, t)
      else if \<not> decrypted p then (None, t)
      else
        (case get_payload p of
           None \<Rightarrow> (None, t)
         | Some None \<Rightarrow> (None, t\<lparr>mt_payload_warning_logged := True\<rparr>)
         | Some (Some bs) \<Rightarrow>
             (Some \<lparr>sd_payload = bs, sd_destination = parse_destination (destination_id p),
                    sd_portnum = resolve_portnum p, sd_hop_limit = max (hop_limit p - 1) 0,
                    sd_channel_index = channel_hash p\<rparr>, t)))"


section \<open>Lemmas\<close>

lemma decide_simps [simp]: "should_relay (decide b r) = b" "reason (decide b r) = r"
  by (simp_all add: decide_def)

lemma evaluate_dedup:
  "rm_dedup (snd (evaluate t1 t2 p rm)) =
     (if rm_enabled rm then snd (is_duplicate t1 (source_id p) (packet_id p) (rm_dedup rm)) else rm_dedup rm)"
  by (auto simp: evaluate_def Let_def split: prod.splits)

lemma evaluate_frame [simp]:
  "rm_enabled (snd (evaluate t1 t2 p rm)) = rm_enabled rm"
  "rm_local_node_hex (snd (evaluate t1 t2 p rm)) = rm_local_node_hex rm"
  "rm_min_rssi (snd (evaluate t1 t2 p rm)) = rm_min_rssi rm"
  "rm_max_rssi (snd (evaluate t1 t2 p rm)) = rm_max_rssi rm"
  "rm_has_transmit_fn (snd (evaluate t1 t2 p rm)) = rm_has_transmit_fn rm"
  by (auto simp: evaluate_def Let_def split: prod.splits)

text \<open>The limiter is consulted, and a token spent, only for a packet every other filter passed.\<close>

definition relay_eligible :: "relay_manager \<Rightarrow> packet \<Rightarrow> bool" where
  "relay_eligible rm p \<longleftrightarrow>
     hop_limit p > 0 \<and> \<not> dest_is_local rm p \<and> packet_type p \<in> set RELAY_WORTHY_TYPES \<and>
     \<not> signal_too_strong rm p \<and> \<not> signal_too_weak rm p"

lemma relay_eligible_dedup [simp]:
  "dest_is_local (rm\<lparr>rm_dedup := d\<rparr>) p = dest_is_local rm p"
  "signal_too_strong (rm\<lparr>rm_dedup := d\<rparr>) p = signal_too_strong rm p"
  "signal_too_weak (rm\<lparr>rm_dedup := d\<rparr>) p = signal_too_weak rm p"
  by (simp_all add: dest_is_local_def signal_too_strong_def signal_too_weak_def cong: option.case_cong)

lemma evaluate_approved_iff:
  "should_relay (fst (evaluate t1 t2 p rm)) \<longleftrightarrow>
     rm_enabled rm \<and> \<not> fst (is_duplicate t1 (source_id p) (packet_id p) (rm_dedup rm)) \<and>
     relay_eligible rm p \<and> fst (allow t2 (rm_limiter rm))"
  by (auto simp: evaluate_def relay_eligible_def Let_def split: prod.splits)

lemma evaluate_limiter:
  "rm_limiter (snd (evaluate t1 t2 p rm)) =
     (if rm_enabled rm \<and> \<not> fst (is_duplicate t1 (source_id p) (packet_id p) (rm_dedup rm)) \<and>
         relay_eligible rm p
      then snd (allow t2 (rm_limiter rm)) else rm_limiter rm)"
  by (auto simp: evaluate_def relay_eligible_def Let_def split: prod.splits)

lemma process_packet_state:
  "rm_dedup (snd (process_packet t1 t2 p rm)) = rm_dedup (snd (evaluate t1 t2 p rm))"
  "rm_limiter (snd (process_packet t1 t2 p rm)) = rm_limiter (snd (evaluate t1 t2 p rm))"
  "rm_enabled (snd (process_packet t1 t2 p rm)) = rm_enabled rm"
  supply evaluate_frame [simp del]
  using evaluate_frame(1) [of t1 t2 p rm]
  by (auto simp: process_packet_def Let_def split: prod.splits)

text \<open>A stretch of traffic: each packet with its two clock readings.\<close>

fun relay_run :: "relay_manager \<Rightarrow> (rat \<times> rat \<times> packet) list \<Rightarrow> relay_manager" where
  "relay_run rm [] = rm"
| "relay_run rm ((t1, t2, p) # cs) = relay_run (snd (process_packet t1 t2 p rm)) cs"

definition dedup_calls :: "(rat \<times> rat \<times> packet) list \<Rightarrow> (rat \<times> string \<times> string) list" where
  "dedup_calls cs = map (\<lambda>(t1, t2, p). (t1, source_id p, packet_id p)) cs"

lemma relay_run_dedup:
  "rm_enabled rm \<Longrightarrow> rm_dedup (relay_run rm cs) = dedup_run (rm_dedup rm) (dedup_calls cs)"
proof (induction rm cs rule: relay_run.induct)
  case (1 rm)
  then show ?case by (simp add: dedup_calls_def)
next
  case (2 rm t1 t2 p cs)
  then show ?case by (simp add: dedup_calls_def process_packet_state evaluate_dedup)
qed

lemma relay_run_enabled: "rm_enabled (relay_run rm cs) = rm_enabled rm"
  by (induction rm cs rule: relay_run.induct) (simp_all add: process_packet_state)

lemma process_packet_relays:
  "fst (process_packet t1 t2 p rm) \<noteq> None \<Longrightarrow> should_relay (fst (evaluate t1 t2 p rm))"
  by (auto simp: process_packet_def Let_def split: prod.splits if_splits)

text \<open>Once a packet was handed to the radio, no packet with the same source and packet id is
  handed over again within the time to live, as long as fewer packets than the
  cache holds arrive in between.\<close>

lemma relay_once_within_ttl:
  assumes first: "should_relay (fst (evaluate t1 t2 p rm))"
    and rm1: "rm1 = snd (process_packet t1 t2 p rm)"
    and cs: "\<forall>c \<in> set cs. fst c - t1 < dd_ttl (rm_dedup rm)"
    and few: "length cs < dd_max_entries (rm_dedup rm)"
    and same: "source_id p' = source_id p" "packet_id p' = packet_id p"
    and soon: "t1' - t1 < dd_ttl (rm_dedup rm)"
  shows "fst (evaluate t1' t2' p' (relay_run rm1 cs)) = decide False ''duplicate''"
proof -
  let ?k = "dedup_key (source_id p) (packet_id p)"
  have en: "rm_enabled rm" and fresh: "\<not> fst (is_duplicate t1 (source_id p) (packet_id p) (rm_dedup rm))"
    using first by (auto simp: evaluate_approved_iff)
  have dd: "rm_dedup rm1 = snd (is_duplicate t1 (source_id p) (packet_id p) (rm_dedup rm))"
    using en by (simp add: rm1 process_packet_state evaluate_dedup)
  have en1: "rm_enabled rm1" using en by (simp add: rm1 process_packet_state)
  have "0 < dd_max_entries (rm_dedup rm)" using few by auto
  then have "held ?k t1 0 (rm_dedup rm1)" using held_after_record fresh dd by simp
  then have "held ?k t1 (0 + length (dedup_calls cs)) (dedup_run (rm_dedup rm1) (dedup_calls cs))"
    using cs few by (intro held_run) (auto simp: dd dedup_calls_def)
  then have h: "held ?k t1 (length cs) (rm_dedup (relay_run rm1 cs))"
    using relay_run_dedup [OF en1] by (simp add: dedup_calls_def)
  have ttl: "dd_ttl (dedup_run d xs) = dd_ttl d" for d xs
    by (induction d xs rule: dedup_run.induct) simp_all
  have "fst (is_duplicate t1' (source_id p') (packet_id p') (rm_dedup (relay_run rm1 cs)))"
    using held_is_duplicate [of "source_id p'" "packet_id p'" t1 "length cs"] h soon same
    by (simp add: relay_run_dedup [OF en1] ttl dd)
  then show ?thesis using en1
    by (auto simp: evaluate_def Let_def relay_run_enabled split: prod.splits)
qed

section \<open>Properties\<close>

definition passes_filters :: "rat \<Rightarrow> packet \<Rightarrow> relay_manager \<Rightarrow> bool" where
  "passes_filters t p rm \<longleftrightarrow>
     rm_enabled rm \<and> \<not> fst (is_duplicate t (source_id p) (packet_id p) (rm_dedup rm)) \<and> relay_eligible rm p"

text \<open>A packet is relayed exactly when relaying is enabled, its source and id were not seen
  within the time to live, it has hops left, it is not addressed to this node, its type is
  one of the relayed ones, its signal lies within the configured band, and the rate limiter grants
  a slot; the limiter is asked (and a slot spent) only when all the other conditions hold.\<close>

lemma relay_decision:
  "(should_relay (fst (evaluate t1 t2 p rm)) \<longleftrightarrow> passes_filters t1 p rm \<and> fst (allow t2 (rm_limiter rm))) \<and>
    rm_limiter (snd (evaluate t1 t2 p rm)) =
      (if passes_filters t1 p rm then snd (allow t2 (rm_limiter rm)) else rm_limiter rm)"
  by (simp add: passes_filters_def evaluate_approved_iff evaluate_limiter)

text \<open>C1: once a packet has been approved, every packet with the same source and packet id that is
  evaluated within the time to live is refused as a duplicate, as long as fewer packets than
  the cache holds are processed in between: the relay never echoes a packet back and forth.\<close>

theorem relay_at_most_once:
  assumes "should_relay (fst (evaluate t1 t2 p rm))"
    and "\<forall>c \<in> set cs. fst c - t1 < dd_ttl (rm_dedup rm)"
    and "length cs < dd_max_entries (rm_dedup rm)"
    and "source_id p' = source_id p" "packet_id p' = packet_id p"
    and "t1' - t1 < dd_ttl (rm_dedup rm)"
  shows "fst (process_packet t1' t2' p' (relay_run (snd (process_packet t1 t2 p rm)) cs)) = None"
proof -
  have "fst (evaluate t1' t2' p' (relay_run (snd (process_packet t1 t2 p rm)) cs)) = decide False ''duplicate''"
    using assms by (intro relay_once_within_ttl [OF _ refl]) auto
  then show ?thesis using process_packet_relays [of t1' t2' p' "relay_run (snd (process_packet t1 t2 p rm)) cs"]
    by (cases "fst (process_packet t1' t2' p' (relay_run (snd (process_packet t1 t2 p rm)) cs))") auto
qed

theorem relay_at_most_once_witness:
  "let p = (default_packet ''01'' ''aa'' ''bb'' MESHTASTIC TEXT 0)\<lparr>hop_limit := 3\<rparr>;
       q = default_packet ''02'' ''cc'' ''bb'' MESHTASTIC ADMIN 1;
       rm = relay_init 20 5 (- 110) (- 50) True in
   should_relay (fst (evaluate 0 0 p rm)) \<and>
   fst (process_packet 299 299 p (relay_run (snd (process_packet 0 0 p rm)) [(2, 2, q)])) = None"
  using relay_at_most_once [of 0 0 "(default_packet ''01'' ''aa'' ''bb'' MESHTASTIC TEXT 0)\<lparr>hop_limit := 3\<rparr>"
      "relay_init 20 5 (- 110) (- 50) True" "[(2, 2, default_packet ''02'' ''cc'' ''bb'' MESHTASTIC ADMIN 1)]"
      "(default_packet ''01'' ''aa'' ''bb'' MESHTASTIC TEXT 0)\<lparr>hop_limit := 3\<rparr>" 299 299]
  by (simp add: evaluate_approved_iff default_packet_def relay_init_def relay_eligible_def dedup_init_def
      is_duplicate_unfold dd_prune_def dest_is_local_def signal_too_strong_def signal_too_weak_def
      RELAY_WORTHY_TYPES_def allow_def limiter_init_def limiter_prune_def)

text \<open>The companion-radio transmitter sends nothing but decrypted Meshtastic packets, forwards the
  application payload unchanged, and never with more than one hop less than the packet
  arrived with.\<close>

lemma transmit_sends:
  assumes "fst (transmit p t) = Some s"
  shows "mt_connected t \<and> protocol p = MESHTASTIC \<and> decrypted p \<and>
    get_payload p = Some (Some (sd_payload s)) \<and> sd_portnum s = resolve_portnum p \<and>
    0 \<le> sd_hop_limit s \<and> (0 < hop_limit p \<longrightarrow> sd_hop_limit s = hop_limit p - 1)"
  using assms by (auto simp: transmit_def split: if_splits option.splits)

lemma transmit_sends_witness:
  "sd_portnum (the (fst (transmit
     ((default_packet ''01'' ''aa'' ''0000002a'' MESHTASTIC POSITION 0)
       \<lparr>raw_app_payload := Some [1, 2], decrypted := True, hop_limit := 3\<rparr>)
     \<lparr>mt_connected = True, mt_has_interface = True, mt_payload_warning_logged = False\<rparr>))) = 3"
  using transmit_sends [of "(default_packet ''01'' ''aa'' ''0000002a'' MESHTASTIC POSITION 0)
       \<lparr>raw_app_payload := Some [1, 2], decrypted := True, hop_limit := 3\<rparr>"
     "\<lparr>mt_connected = True, mt_has_interface = True, mt_payload_warning_logged = False\<rparr>"
     "\<lparr>sd_payload = [1, 2], sd_destination = 42, sd_portnum = 3, sd_hop_limit = 2, sd_channel_index = 0\<rparr>"]
  by (simp add: transmit_def get_payload_def default_packet_def resolve_portnum_def PORTNUM_MAP_def)

end
