(* ===== verification/Channel_Resolver.thy ===== *)
theory Channel_Resolver
  imports Crypto_Service Models
begin

text \<open>
  \<^verbatim>\<open>src/src/relay/channel_resolver.py\<close>: from on-air channel hashes to channel names. The module has its own copy of the key
  expansion and of the hash; both are shown to agree with the key ring's. The outer \<^const>\<open>None\<close> is an exception.
\<close>

definition RESOLVER_DEFAULT_PSK :: bytes where
  "RESOLVER_DEFAULT_PSK = [212, 241, 187, 58, 32, 41, 7, 89, 240, 188, 255, 171, 207, 78, 105, 1]"

definition STANDARD_PRESETS :: "ustr list" where
  "STANDARD_PRESETS =
     [lit ''LongFast'', lit ''LongSlow'', lit ''LongModerate'', lit ''MediumFast'', lit ''MediumSlow'', lit ''ShortFast'',
      lit ''ShortSlow'', lit ''ShortTurbo'']"

definition resolver_expand_key :: "bytes \<Rightarrow> bytes" where
  "resolver_expand_key raw_key =
     (if length raw_key = 0 then replicate 16 0
      else if length raw_key = 16 \<or> length raw_key = 32 then raw_key
      else if length raw_key = 1 then
        (if raw_key ! 0 = 0 then replicate 16 0
         else RESOLVER_DEFAULT_PSK[15 := RESOLVER_DEFAULT_PSK ! 15 + raw_key ! 0 - 1])
      else take 16 (raw_key @ replicate 16 0))"

definition xor_hash :: "ustr \<Rightarrow> bytes \<Rightarrow> int option" where
  "xor_hash channel_name expanded_key =
     map_option (\<lambda>name. uint (foldl (XOR) (foldl (XOR) 0 name) expanded_key)) (utf8_encode channel_name)"

type_synonym resolver = "(int \<times> ustr) list"

fun build_default_presets :: "bytes \<Rightarrow> ustr list \<Rightarrow> resolver \<Rightarrow> resolver option" where
  "build_default_presets key [] m = Some m"
| "build_default_presets key (name # names) m =
     (case xor_hash name key of None \<Rightarrow> None | Some h \<Rightarrow> build_default_presets key names (AList.update h name m))"

text \<open>A user channel whose key or name cannot be decoded is skipped.\<close>

fun build_user_channels :: "(ustr \<times> ustr) list \<Rightarrow> resolver \<Rightarrow> resolver" where
  "build_user_channels [] m = m"
| "build_user_channels ((name, key_b64) # chans) m =
     build_user_channels chans
       (case Option.bind (b64decode key_b64) (\<lambda>raw. xor_hash name (resolver_expand_key raw)) of
          None \<Rightarrow> m | Some h \<Rightarrow> AList.update h name m)"

definition resolver_init :: "(ustr \<times> ustr) list \<Rightarrow> ustr \<Rightarrow> resolver option" where
  "resolver_init channel_keys default_key_b64 =
     do {
       raw \<leftarrow> b64decode default_key_b64;
       m \<leftarrow> build_default_presets (resolver_expand_key raw) STANDARD_PRESETS [];
       Some (build_user_channels channel_keys m)
     }"

definition resolve_name :: "int \<Rightarrow> protocol \<Rightarrow> resolver \<Rightarrow> ustr" where
  "resolve_name ch proto m =
     (if proto = MESHCORE then lit ''MeshCore''
      else if ch = 0 then lit ''LongFast''
      else (case map_of m ch of Some name \<Rightarrow> name | None \<Rightarrow> lit (''ch'' @ fmt_d ch)))"

definition is_known :: "int \<Rightarrow> resolver \<Rightarrow> bool" where
  "is_known ch m \<longleftrightarrow> ch = 0 \<or> ch \<in> fst ` set m"


section \<open>Agreement with the key ring\<close>

lemma resolver_expand_key_eq: "resolver_expand_key raw = expand_key raw"
  by (simp add: resolver_expand_key_def expand_key_def RESOLVER_DEFAULT_PSK_def MESHTASTIC_DEFAULT_PSK_def Let_def)

lemma xor_hash_eq: "xor_hash name key = compute_channel_hash name key"
  by (simp add: xor_hash_def compute_channel_hash_def xor_all_def)

lemma build_user_channels_append:
  "build_user_channels (xs @ ys) m = build_user_channels ys (build_user_channels xs m)"
  by (induction xs m rule: build_user_channels.induct) simp_all

text \<open>The hash a user channel has on the air, as the key ring computes it.\<close>

definition user_hash :: "ustr \<times> ustr \<Rightarrow> int option" where
  "user_hash c = Option.bind (b64decode (snd c)) (\<lambda>raw. compute_channel_hash (fst c) (expand_key raw))"

lemma find_append_None: "find P xs = None \<Longrightarrow> find P (xs @ ys) = find P ys"
  by (induction xs) (auto split: if_splits)

lemma build_user_channels_lookup:
  "map_of (build_user_channels chans m) h =
     (case find (\<lambda>c. user_hash c = Some h) (rev chans) of Some c \<Rightarrow> Some (fst c) | None \<Rightarrow> map_of m h)"
proof (induction chans rule: rev_induct)
  case Nil
  then show ?case by simp
next
  case (snoc c chans)
  obtain name key where c: "c = (name, key)" by (cases c) auto
  have "Option.bind (b64decode key) (\<lambda>raw. xor_hash name (resolver_expand_key raw)) = user_hash c"
    by (simp add: user_hash_def c xor_hash_eq resolver_expand_key_eq)
  then show ?case
    using snoc by (cases "user_hash c") (auto simp: build_user_channels_append c update_conv' split: option.splits)
qed


section \<open>Properties\<close>

text \<open>C39: the resolver agrees with the key ring. Let a configured channel have the key bytes \<open>raw\<close> and, by the key ring's
  expansion and hash, the hash \<open>h\<close>. Then the resolver's own expansion and hash give the same \<open>h\<close>, and \<open>h\<close> is known. A
  packet that is not a MeshCore one and carries a hash \<open>h\<close> other than 0 is named after the last configured channel that has
  this hash in the key ring, never after a standard preset; so after the channel itself unless a later one collides. Hash 0 is
  always named LongFast, whatever channel has it, and a MeshCore packet MeshCore.\<close>

theorem resolver_agrees_with_key_ring:
  assumes init: "resolver_init chans default_key = Some m" and mem: "(name, key) \<in> set chans"
    and key: "b64decode key = Some raw" and hash: "compute_channel_hash name (expand_key raw) = Some h"
  shows "xor_hash name (resolver_expand_key raw) = Some h \<and> is_known h m \<and> resolve_name h MESHCORE m = lit ''MeshCore'' \<and>
    (proto \<noteq> MESHCORE \<and> h = 0 \<longrightarrow> resolve_name h proto m = lit ''LongFast'') \<and>
    (proto \<noteq> MESHCORE \<and> h \<noteq> 0 \<longrightarrow>
      (\<exists>before name' key' raw' after. chans = before @ (name', key') # after \<and> resolve_name h proto m = name' \<and>
         b64decode key' = Some raw' \<and> compute_channel_hash name' (expand_key raw') = Some h \<and>
         (\<forall>(n, k) \<in> set after. \<forall>r. b64decode k = Some r \<longrightarrow> compute_channel_hash n (expand_key r) \<noteq> Some h)))"
proof -
  obtain m0 where m: "m = build_user_channels chans m0"
    using init by (auto simp: resolver_init_def split: Option.bind_splits)
  have "user_hash (name, key) = Some h" using key hash by (simp add: user_hash_def)
  then obtain bef c aft where split: "chans = bef @ c # aft" "user_hash c = Some h" "\<forall>d \<in> set aft. user_hash d \<noteq> Some h"
    using mem split_list_last_prop [of chans "\<lambda>c. user_hash c = Some h"] by blast
  then have "find (\<lambda>c. user_hash c = Some h) (rev chans) = Some c"
    by (simp add: find_append_None find_None_iff)
  then have l: "map_of m h = Some (fst c)" by (simp add: m build_user_channels_lookup)
  then have known: "is_known h m" by (auto simp: is_known_def dest: map_of_SomeD intro: rev_image_eqI)
  obtain raw' where raw': "b64decode (snd c) = Some raw'" "compute_channel_hash (fst c) (expand_key raw') = Some h"
    using split(2) by (auto simp: user_hash_def bind_eq_Some_conv)
  have last: "\<forall>(n, k) \<in> set aft. \<forall>r. b64decode k = Some r \<longrightarrow> compute_channel_hash n (expand_key r) \<noteq> Some h"
    using split(3) by (auto simp: user_hash_def)
  have "resolve_name h proto m = fst c" if "proto \<noteq> MESHCORE" "h \<noteq> 0" using that l by (simp add: resolve_name_def)
  then show ?thesis
    using hash known split(1) raw' last
    by (intro conjI impI exI [of _ bef] exI [of _ "fst c"] exI [of _ "snd c"] exI [of _ raw'] exI [of _ aft])
      (auto simp: xor_hash_eq resolver_expand_key_eq resolve_name_def)
qed

lemma utf8_lit_total: "utf8_encode (lit ''Ops'') = Some [79, 112, 115]"
  using utf8_encode_lit [of "''Ops''"] by simp

lemma Ops_hash: "compute_channel_hash (lit ''Ops'') (expand_key [1]) = Some 78"
  using utf8_lit_total by (simp add: compute_channel_hash_def xor_all_def expand_key_def MESHTASTIC_DEFAULT_PSK_def)

theorem resolver_agrees_with_key_ring_witness:
  "\<exists>m. resolver_init [(lit ''Ops'', lit ''AQ=='')] (lit ''AQ=='') = Some m \<and>
     xor_hash (lit ''Ops'') (resolver_expand_key [1]) = Some 78 \<and> resolve_name 78 MESHTASTIC m = lit ''Ops''"
proof -
  have b: "b64decode (lit ''AQ=='') = Some [1]" by code_simp
  have "\<exists>m. build_default_presets key STANDARD_PRESETS m0 = Some m" for key m0
    by (simp add: STANDARD_PRESETS_def xor_hash_def utf8_encode_lit)
  then obtain m0 where "build_default_presets (resolver_expand_key [1]) STANDARD_PRESETS [] = Some m0" by blast
  then obtain m where m: "resolver_init [(lit ''Ops'', lit ''AQ=='')] (lit ''AQ=='') = Some m" using b by (simp add: resolver_init_def)
  show ?thesis
    using m resolver_agrees_with_key_ring [OF m _ b Ops_hash, where proto = MESHTASTIC]
    by (auto simp: Cons_eq_append_conv)
qed

end
