(* ===== verification/Mqtt_Publisher.thy ===== *)
theory Mqtt_Publisher
  imports Mqtt_Privacy Channel_Resolver
begin

text \<open>
  \<^verbatim>\<open>src/src/relay/mqtt_formatter.py\<close> and \<^verbatim>\<open>src/src/relay/mqtt_publisher.py\<close>: the messages a packet is published as, and
  the gates it passes before. The generated protobuf classes are the parameter \<open>mq_message\<close>: the serialisation of a
  message, given the class and the fields assigned, \<^const>\<open>None\<close> when an assignment raises. The broker client's
  answer to a message, Unicode lower-casing and Python's string hash are parameters too. A message keeps the dictionary
  that \<^verbatim>\<open>json.dumps\<close> turns into text. Numeric strings, which no decoder puts into a numeric field, are not parsed.
\<close>

datatype mqtt_body = JsonBody pydict | ProtoBody bytes | EmptyBody

record mqtt_message =
  mm_topic :: ustr
  mm_body :: mqtt_body
  mm_retain :: bool

record mqtt_lib =
  mq_available :: bool
  mq_message :: "string \<Rightarrow> pydict \<Rightarrow> bytes option"
  mq_lower :: "ustr \<Rightarrow> ustr"
  mq_hash :: "string \<Rightarrow> int"
  mq_md5_hex :: "ustr \<Rightarrow> string option"
  mq_send :: "mqtt_message \<Rightarrow> int option"


section \<open>Formatting\<close>

definition MQTT_PORTNUM_MAP :: "(packet_type \<times> int) list" where
  "MQTT_PORTNUM_MAP =
     [(TEXT, 1), (POSITION, 3), (NODEINFO, 4), (ROUTING, 5), (TELEMETRY, 67), (TRACEROUTE, 70), (NEIGHBORINFO, 71),
      (MAP_REPORT, 73), (WAYPOINT, 8), (DETECTION_SENSOR, 49), (PAXCOUNTER, 51), (RANGE_TEST, 69), (STORE_FORWARD, 56),
      (ADMIN, 6)]"

text \<open>\<^verbatim>\<open>s.strip().strip("/")\<close> of a configured topic.\<close>

definition clean_topic :: "ustr \<Rightarrow> ustr" where
  "clean_topic s = ustrip (\<lambda>c. c = 47) (ustrip uni_space s)"

definition ends_with :: "ustr \<Rightarrow> ustr \<Rightarrow> bool" where
  "ends_with s t \<longleftrightarrow> drop (length s - length t) s = t"

definition build_topic_prefix :: "mqtt_lib \<Rightarrow> ustr \<Rightarrow> ustr \<Rightarrow> ustr" where
  "build_topic_prefix Q topic_root region =
     (let root = clean_topic topic_root; reg = clean_topic region in
      if root = [] \<and> reg = [] then lit ''msh/US''
      else if reg = [] then root
      else if root = [] then reg
      else if mq_lower Q root = mq_lower Q reg \<or> ends_with (mq_lower Q root) (lit ''/'' @ mq_lower Q reg) then root
      else root @ lit ''/'' @ reg)"

fun py_int :: "pyval \<Rightarrow> int option" where
  "py_int (PInt i) = Some i"
| "py_int (PFloat r) = Some (py_trunc r)"
| "py_int (PBool b) = Some (if b then 1 else 0)"
| "py_int _ = None"

fun py_float :: "pyval \<Rightarrow> pyval option" where
  "py_float (PInt i) = Some (PFloat (of_int i))"
| "py_float (PFloat r) = Some (PFloat r)"
| "py_float (PBool b) = Some (PFloat (if b then 1 else 0))"
| "py_float (PInf neg) = Some (PInf neg)"
| "py_float PNan = Some PNan"
| "py_float _ = None"

fun py_str :: "pyval \<Rightarrow> ustr option" where
  "py_str (PStr s) = Some s"
| "py_str (PInt i) = Some (lit (fmt_d i))"
| "py_str _ = None"

text \<open>\<^verbatim>\<open>int(v * 1e7)\<close> of a coordinate.\<close>

fun scaled_int :: "pyval \<Rightarrow> int option" where
  "scaled_int (PFloat r) = Some (py_trunc (r * 10 ^ 7))"
| "scaled_int (PInt i) = Some (i * 10 ^ 7)"
| "scaled_int (PBool b) = Some (if b then 10 ^ 7 else 0)"
| "scaled_int _ = None"

text \<open>One conditional assignment \<^verbatim>\<open>if data.get(k) is not None: msg.f = conv(data[k])\<close>, and a sequence of them.\<close>

fun assign_fields :: "(string \<times> string \<times> (pyval \<Rightarrow> pyval option)) list \<Rightarrow> pydict \<Rightarrow> pydict option" where
  "assign_fields [] data = Some []"
| "assign_fields ((k, f, conv) # rest) data =
     (if dget k data = PNone then assign_fields rest data
      else do { v \<leftarrow> conv (dget k data); fs \<leftarrow> assign_fields rest data; Some ((f, v) # fs) })"

definition as_int :: "pyval \<Rightarrow> pyval option" where
  "as_int v = map_option PInt (py_int v)"

definition encode_position :: "mqtt_lib \<Rightarrow> pydict \<Rightarrow> bytes option" where
  "encode_position Q data =
     Option.bind (assign_fields
       [(''latitude'', ''latitude_i'', \<lambda>v. map_option PInt (scaled_int v)),
        (''longitude'', ''longitude_i'', \<lambda>v. map_option PInt (scaled_int v)), (''altitude'', ''altitude'', as_int),
        (''time'', ''time'', as_int), (''precision_bits'', ''precision_bits'', as_int)] data)
       (mq_message Q ''Position'')"

text \<open>The name fields are assigned when they are truthy.\<close>

definition text_field :: "string \<Rightarrow> pydict \<Rightarrow> pydict option" where
  "text_field k data = (if truthy (dget k data) then map_option (\<lambda>s. [(k, PStr s)]) (py_str (dget k data)) else Some [])"

definition encode_nodeinfo :: "mqtt_lib \<Rightarrow> pydict \<Rightarrow> bytes option" where
  "encode_nodeinfo Q data =
     do {
       a \<leftarrow> text_field ''id'' data;
       b \<leftarrow> text_field ''long_name'' data;
       c \<leftarrow> text_field ''short_name'' data;
       fs \<leftarrow> assign_fields [(''hw_model'', ''hw_model'', as_int), (''role'', ''role'', as_int)] data;
       mq_message Q ''User'' (a @ b @ c @ fs)
     }"

definition encode_telemetry :: "mqtt_lib \<Rightarrow> pydict \<Rightarrow> bytes option" where
  "encode_telemetry Q data =
     Option.bind (assign_fields
       [(''time'', ''time'', as_int), (''battery_level'', ''device_metrics.battery_level'', as_int),
        (''voltage'', ''device_metrics.voltage'', py_float),
        (''channel_utilization'', ''device_metrics.channel_utilization'', py_float),
        (''air_util_tx'', ''device_metrics.air_util_tx'', py_float),
        (''temperature'', ''environment_metrics.temperature'', py_float),
        (''relative_humidity'', ''environment_metrics.relative_humidity'', py_float),
        (''barometric_pressure'', ''environment_metrics.barometric_pressure'', py_float)] data)
       (mq_message Q ''Telemetry'')"

definition encode_routing :: "mqtt_lib \<Rightarrow> pydict \<Rightarrow> bytes option" where
  "encode_routing Q data =
     Option.bind (assign_fields [(''error_reason'', ''error_reason'', as_int)] data) (mq_message Q ''Routing'')"

text \<open>Every exception of an encoder is caught, so \<^const>\<open>None\<close> is the result \<^verbatim>\<open>None\<close>.\<close>

definition encode_portnum_payload :: "mqtt_lib \<Rightarrow> packet \<Rightarrow> bytes option" where
  "encode_portnum_payload Q p =
     (case decoded_payload p of
        None \<Rightarrow> None
      | Some data \<Rightarrow>
          if data = [] then None
          else if packet_type p = POSITION then encode_position Q data
          else if packet_type p = NODEINFO then encode_nodeinfo Q data
          else if packet_type p = TELEMETRY then encode_telemetry Q data
          else if packet_type p = TEXT then
            (case dget_or ''text'' (PStr []) data of PStr (c # cs) \<Rightarrow> utf8_encode (c # cs) | _ \<Rightarrow> None)
          else if packet_type p = ROUTING then encode_routing Q data
          else None)"

text \<open>\<^verbatim>\<open>_is_hex\<close> skips a leading \<^verbatim>\<open>!\<close>; \<^verbatim>\<open>int(value, 16)\<close> does not.\<close>

definition is_hex :: "string \<Rightarrow> bool" where
  "is_hex v = (let w = (if v = [] \<or> hd v = CHR ''!'' then tl v else v) in py_int16 w \<noteq> None)"

definition parse_packet_id :: "mqtt_lib \<Rightarrow> string \<Rightarrow> int option" where
  "parse_packet_id Q pid =
     (if is_hex pid then map_option (\<lambda>n. n mod 2 ^ 32) (py_int16 pid) else Some (mq_hash Q pid mod 2 ^ 32))"

definition node_field :: "string \<Rightarrow> string \<Rightarrow> pydict option" where
  "node_field f v = (if v \<noteq> [] \<and> is_hex v then map_option (\<lambda>n. [(f, PInt (n mod 2 ^ 32))]) (py_int16 v) else Some [])"

record mt_formatter =
  mf_prefix :: ustr
  mf_gateway :: ustr
  mf_precision :: string
  mf_resolver :: resolver

definition mf_topic :: "mt_formatter \<Rightarrow> string \<Rightarrow> packet \<Rightarrow> ustr" where
  "mf_topic F kind p =
     mf_prefix F @ lit (''/2/'' @ kind @ ''/'') @ resolve_name (channel_hash p) (protocol p) (mf_resolver F) @ lit ''/'' @ mf_gateway F"

definition envelope :: "mqtt_lib \<Rightarrow> mt_formatter \<Rightarrow> packet \<Rightarrow> pydict \<Rightarrow> bytes option" where
  "envelope Q F p packet_fields =
     mq_message Q ''ServiceEnvelope''
       [(''packet'', PDict packet_fields),
        (''channel_id'', PStr (resolve_name (channel_hash p) (protocol p) (mf_resolver F))), (''gateway_id'', PStr (mf_gateway F))]"

definition format_encrypted :: "mqtt_lib \<Rightarrow> mt_formatter \<Rightarrow> packet \<Rightarrow> mqtt_message option option" where
  "format_encrypted Q F p =
     (if \<not> mq_available Q then Some None
      else do {
        pid \<leftarrow> parse_packet_id Q (packet_id p);
        src \<leftarrow> node_field ''from'' (source_id p);
        dst \<leftarrow> node_field ''to'' (destination_id p);
        body \<leftarrow> envelope Q F p
          ([(''id'', PInt pid), (''hop_limit'', PInt (hop_limit p)), (''hop_start'', PInt (hop_start p)),
            (''want_ack'', PBool (want_ack p)), (''channel'', PInt (channel_hash p))] @ src @ dst @
           [(''encrypted'', PBytes (the (encrypted_payload p)))]);
        Some (Some \<lparr>mm_topic = mf_topic F ''e'' p, mm_body = ProtoBody body, mm_retain = False\<rparr>)
      })"

text \<open>The outer \<^const>\<open>None\<close> is an exception, the inner one no message.\<close>

definition format_packet_mt :: "mqtt_lib \<Rightarrow> mt_formatter \<Rightarrow> packet \<Rightarrow> mqtt_message option option" where
  "format_packet_mt Q F p =
     (let d = (case decoded_payload p of Some d \<Rightarrow> d | None \<Rightarrow> []) in
      if packet_type p = POSITION \<and> (dget ''latitude'' d = PNone \<or> dget ''longitude'' d = PNone) then Some None
      else if \<not> mq_available Q then Some None
      else (case map_of MQTT_PORTNUM_MAP (packet_type p) of
          None \<Rightarrow> Some None
        | Some portnum \<Rightarrow>
            (case encode_portnum_payload Q p of
               None \<Rightarrow> if encrypted_payload p \<noteq> None \<and> encrypted_payload p \<noteq> Some [] then format_encrypted Q F p else Some None
             | Some inner \<Rightarrow> do {
                 pid \<leftarrow> parse_packet_id Q (packet_id p);
                 src \<leftarrow> node_field ''from'' (source_id p);
                 dst \<leftarrow> node_field ''to'' (destination_id p);
                 body \<leftarrow> envelope Q F p
                   ([(''id'', PInt pid), (''hop_limit'', PInt (hop_limit p)), (''hop_start'', PInt (hop_start p)),
                     (''want_ack'', PBool (want_ack p)), (''channel'', PInt 0)] @ src @ dst @
                    (case signal p of Some s \<Rightarrow> [(''rx_rssi'', PInt (py_trunc (rssi s))), (''rx_snr'', PFloat (snr s))] | None \<Rightarrow> []) @
                    [(''decoded.portnum'', PInt portnum), (''decoded.payload'', PBytes inner)]);
                 Some (Some \<lparr>mm_topic = mf_topic F ''e'' p, mm_body = ProtoBody body, mm_retain = False\<rparr>)
               })))"

text \<open>\<^verbatim>\<open>json.dumps\<close> raises on bytes.\<close>

fun json_ok :: "pyval \<Rightarrow> bool" where
  "json_ok (PBytes b) = False"
| "json_ok (PList xs) = list_all json_ok xs"
| "json_ok (PDict d) = list_all (\<lambda>(k, v). json_ok v) d"
| "json_ok v = True"

definition json_location :: "string \<Rightarrow> pydict \<Rightarrow> pydict" where
  "json_location precision d =
     (let (lat, lon) = location_apply (dget ''latitude'' d) (dget ''longitude'' d) precision in
      if lat \<noteq> PNone then AList.update ''longitude'' lon (AList.update ''latitude'' lat d)
      else if ''latitude'' \<in> fst ` set d then AList.delete ''longitude'' (AList.delete ''latitude'' d)
      else d)"

definition json_payload :: "ustr \<Rightarrow> string \<Rightarrow> pydict \<Rightarrow> packet \<Rightarrow> pydict" where
  "json_payload gateway precision hops p =
     [(''id'', pstr (packet_id p)), (''from'', pstr (source_id p)), (''to'', pstr (destination_id p)),
      (''type'', pstr (packet_type_value (packet_type p))), (''sender'', PStr gateway),
      (''timestamp'', PInt (py_trunc (timestamp p)))] @ hops @
     (case signal p of Some s \<Rightarrow> [(''rssi'', PFloat (rssi s)), (''snr'', PFloat (snr s))] | None \<Rightarrow> []) @
     (case decoded_payload p of Some (e # es) \<Rightarrow> [(''payload'', PDict (json_location precision (e # es)))] | _ \<Rightarrow> [])"

definition json_message :: "ustr \<Rightarrow> pydict \<Rightarrow> mqtt_message option" where
  "json_message topic d =
     (if json_ok (PDict d) then Some \<lparr>mm_topic = topic, mm_body = JsonBody d, mm_retain = False\<rparr> else None)"

definition format_json :: "mt_formatter \<Rightarrow> packet \<Rightarrow> mqtt_message option" where
  "format_json F p =
     json_message (mf_topic F ''json'' p)
       (json_payload (mf_gateway F) (mf_precision F)
          [(''hop_limit'', PInt (hop_limit p)), (''hop_start'', PInt (hop_start p))] p)"

definition format_packet_mc :: "mt_formatter \<Rightarrow> packet \<Rightarrow> mqtt_message option" where
  "format_packet_mc F p =
     json_message (mf_prefix F @ lit ''/2/c/MeshCore/'' @ mf_gateway F) (json_payload (mf_gateway F) (mf_precision F) [] p)"


section \<open>Home Assistant discovery\<close>

text \<open>The announced nodes are the state; each operation gives the retained messages it publishes. The answer of the
  client is not looked at, but it may raise.\<close>

definition retained :: "ustr \<Rightarrow> mqtt_body \<Rightarrow> mqtt_message" where
  "retained topic body = \<lparr>mm_topic = topic, mm_body = body, mm_retain = True\<rparr>"

definition device_block :: "ustr \<Rightarrow> string \<Rightarrow> pyval" where
  "device_block gateway nid =
     PDict [(''identifiers'', PList [pstr (''meshpoint_'' @ nid)]), (''name'', pstr (''Mesh Node '' @ last_n 4 nid)),
            (''manufacturer'', pstr ''Meshtastic''), (''via_device'', PStr gateway)]"

definition battery_config :: "ustr \<Rightarrow> string \<Rightarrow> mqtt_message" where
  "battery_config gateway nid =
     retained (lit (''homeassistant/sensor/meshpoint_'' @ nid @ ''/battery/config''))
       (JsonBody [(''name'', pstr ''Battery''), (''unique_id'', pstr (''meshpoint_'' @ nid @ ''_battery'')),
          (''device'', device_block gateway nid), (''state_topic'', pstr (''meshpoint/'' @ nid @ ''/telemetry'')),
          (''value_template'', pstr ''{{ value_json.battery_level }}''), (''unit_of_measurement'', pstr ''%''),
          (''device_class'', pstr ''battery'')])"

definition temperature_config :: "ustr \<Rightarrow> string \<Rightarrow> mqtt_message" where
  "temperature_config gateway nid =
     retained (lit (''homeassistant/sensor/meshpoint_'' @ nid @ ''/temperature/config''))
       (JsonBody [(''name'', pstr ''Temperature''), (''unique_id'', pstr (''meshpoint_'' @ nid @ ''_temperature'')),
          (''device'', device_block gateway nid), (''state_topic'', pstr (''meshpoint/'' @ nid @ ''/telemetry'')),
          (''value_template'', pstr ''{{ value_json.temperature }}''), (''unit_of_measurement'', PStr [176, 67]),
          (''device_class'', pstr ''temperature'')])"

definition gps_tracker_config :: "ustr \<Rightarrow> string \<Rightarrow> mqtt_message" where
  "gps_tracker_config gateway nid =
     retained (lit (''homeassistant/device_tracker/meshpoint_'' @ nid @ ''/config''))
       (JsonBody [(''name'', pstr ''Location''), (''unique_id'', pstr (''meshpoint_'' @ nid @ ''_tracker'')),
          (''device'', device_block gateway nid), (''json_attributes_topic'', pstr (''meshpoint/'' @ nid @ ''/position'')),
          (''source_type'', pstr ''gps'')])"

definition announce_node :: "ustr \<Rightarrow> packet \<Rightarrow> string list \<Rightarrow> mqtt_message list \<times> string list" where
  "announce_node gateway p announced =
     (case decoded_payload p of
        None \<Rightarrow> ([], announced)
      | Some d \<Rightarrow>
          if d = [] \<or> source_id p \<in> set announced then ([], announced)
          else
            let nid = source_id p;
                sensors = (if dget ''battery_level'' d \<noteq> PNone then [battery_config gateway nid] else []) @
                          (if dget ''temperature'' d \<noteq> PNone then [temperature_config gateway nid] else []) @
                          (if dget ''latitude'' d \<noteq> PNone then [gps_tracker_config gateway nid] else [])
            in (sensors, if sensors \<noteq> [] then nid # announced else announced))"

text \<open>The inner \<^const>\<open>None\<close> of \<open>state_message\<close>: nothing to publish; the outer one: \<^verbatim>\<open>json.dumps\<close> raises.\<close>

definition retained_json :: "ustr \<Rightarrow> pydict \<Rightarrow> mqtt_message list option" where
  "retained_json topic d = (if json_ok (PDict d) then Some [retained topic (JsonBody d)] else None)"

definition publish_state :: "packet \<Rightarrow> mqtt_message list option" where
  "publish_state p =
     (case decoded_payload p of
        None \<Rightarrow> Some []
      | Some d \<Rightarrow>
          if d = [] \<or> source_id p = [] then Some []
          else if packet_type p = TELEMETRY then
            let state = filter (\<lambda>(k, v). v \<noteq> PNone)
              (map (\<lambda>k. (k, dget k d)) [''battery_level'', ''temperature'', ''voltage'', ''humidity'', ''barometric_pressure'',
                ''channel_utilization'', ''air_util_tx''])
            in if state = [] then Some [] else retained_json (lit (''meshpoint/'' @ source_id p @ ''/telemetry'')) state
          else if packet_type p = POSITION then
            if dget ''latitude'' d = PNone \<or> dget ''longitude'' d = PNone then Some []
            else retained_json (lit (''meshpoint/'' @ source_id p @ ''/position''))
              ([(''latitude'', dget ''latitude'' d), (''longitude'', dget ''longitude'' d)] @
               (if dget ''altitude'' d \<noteq> PNone then [(''altitude'', dget ''altitude'' d)] else []))
          else Some [])"

definition clear_position :: "string \<Rightarrow> mqtt_message list" where
  "clear_position nid = (if nid = [] then [] else [retained (lit (''meshpoint/'' @ nid @ ''/position'')) EmptyBody])"


section \<open>The publisher\<close>

record mqtt_config =
  mc_enabled :: bool
  mc_topic_root :: ustr
  mc_region :: ustr
  mc_gateway_id :: "ustr option"
  mc_publish_channels :: "ustr list"
  mc_publish_json :: bool
  mc_location_precision :: string
  mc_homeassistant_discovery :: bool

record publisher =
  mp_config :: mqtt_config
  mp_gateway_id :: ustr
  mp_has_client :: bool
  mp_connected :: bool
  mp_publish_count :: nat
  mp_blocked_count :: nat
  mp_last_privacy_log :: "rat option"
  mp_disconnect_count :: nat
  mp_last_connect_rc :: "int option"
  mp_last_disconnect_rc :: "int option"
  mp_last_publish :: "rat option"
  mp_last_map_report :: "rat option"
  mp_connected_since :: "rat option"
  mp_allowed_channels :: "ustr list"
  mp_resolver :: resolver
  mp_ha_announced :: "string list option"

definition generate_gateway_id :: "mqtt_lib \<Rightarrow> ustr \<Rightarrow> ustr option" where
  "generate_gateway_id Q device_name = map_option (\<lambda>h. lit (''!'' @ take 8 h)) (mq_md5_hex Q (mq_lower Q device_name))"

definition resolve_gateway_id :: "mqtt_lib \<Rightarrow> ustr option \<Rightarrow> ustr \<Rightarrow> ustr option" where
  "resolve_gateway_id Q override device_name =
     (case override of
        Some (c # cs) \<Rightarrow>
          (let raw = ustrip uni_space (c # cs) in
           Some (if raw \<noteq> [] \<and> hd raw = 33 then mq_lower Q raw else lit ''!'' @ mq_lower Q raw))
      | _ \<Rightarrow> generate_gateway_id Q device_name)"

definition publisher_init :: "mqtt_lib \<Rightarrow> mqtt_config \<Rightarrow> ustr \<Rightarrow> (ustr \<times> ustr) list \<Rightarrow> publisher option" where
  "publisher_init Q config device_name channel_keys =
     do {
       gw \<leftarrow> resolve_gateway_id Q (mc_gateway_id config) device_name;
       resolver \<leftarrow> resolver_init channel_keys (lit ''AQ=='');
       Some \<lparr>mp_config = config, mp_gateway_id = gw, mp_has_client = False, mp_connected = False, mp_publish_count = 0,
             mp_blocked_count = 0, mp_last_privacy_log = None, mp_disconnect_count = 0, mp_last_connect_rc = None,
             mp_last_disconnect_rc = None, mp_last_publish = None, mp_last_map_report = None, mp_connected_since = None,
             mp_allowed_channels = map (mq_lower Q) (mc_publish_channels config), mp_resolver = resolver, mp_ha_announced = None\<rparr>
     }"

definition formatter :: "mqtt_lib \<Rightarrow> publisher \<Rightarrow> mt_formatter" where
  "formatter Q pb = \<lparr>mf_prefix = build_topic_prefix Q (mc_topic_root (mp_config pb)) (mc_region (mp_config pb)),
     mf_gateway = mp_gateway_id pb, mf_precision = ''exact'', mf_resolver = mp_resolver pb\<rparr>"

definition passes_safety_gates :: "mqtt_lib \<Rightarrow> rat \<Rightarrow> packet \<Rightarrow> publisher \<Rightarrow> bool \<times> publisher" where
  "passes_safety_gates Q now p pb =
     (if \<not> mc_enabled (mp_config pb) then (False, pb)
      else if \<not> is_broadcast p then
        let log = (case mp_last_privacy_log pb of None \<Rightarrow> True | Some t \<Rightarrow> now - t \<ge> 60) in
        (False, pb\<lparr>mp_blocked_count := mp_blocked_count pb + 1,
                   mp_last_privacy_log := (if log then Some now else mp_last_privacy_log pb)\<rparr>)
      else if packet_type p = ENCRYPTED then (False, pb)
      else if \<not> decrypted p \<and> encrypted_payload p \<noteq> None \<and> encrypted_payload p \<noteq> Some [] then (False, pb)
      else (mq_lower Q (resolve_name (channel_hash p) (protocol p) (mp_resolver pb)) \<in> set (mp_allowed_channels pb), pb))"

definition format_packet :: "mqtt_lib \<Rightarrow> packet \<Rightarrow> publisher \<Rightarrow> mqtt_message list option" where
  "format_packet Q p pb =
     (if protocol p = MESHTASTIC then do {
        msg \<leftarrow> format_packet_mt Q (formatter Q pb) p;
        let ms = (case msg of Some m \<Rightarrow> [m] | None \<Rightarrow> []);
        if mc_publish_json (mp_config pb) then do { j \<leftarrow> format_json (formatter Q pb) p; Some (ms @ [j]) } else Some ms
      }
      else if protocol p = MESHCORE then do { m \<leftarrow> format_packet_mc (formatter Q pb) p; Some [m] }
      else Some [])"

text \<open>Sending a list of messages: whether one was accepted, and what was handed over; \<^const>\<open>None\<close> when the client raises,
  after the messages before.\<close>

fun send_all :: "mqtt_lib \<Rightarrow> mqtt_message list \<Rightarrow> bool option \<times> mqtt_message list" where
  "send_all Q [] = (Some False, [])"
| "send_all Q (m # ms) =
     (case mq_send Q m of
        None \<Rightarrow> (None, [])
      | Some rc \<Rightarrow> (case send_all Q ms of (r, sent) \<Rightarrow> (map_option (\<lambda>b. b \<or> rc = 0) r, m # sent)))"

text \<open>The Home Assistant part of \<^verbatim>\<open>publish\<close>; the Boolean is \<^const>\<open>False\<close> when it raises.\<close>

definition ha_publish :: "mqtt_lib \<Rightarrow> bool \<Rightarrow> packet \<Rightarrow> publisher \<Rightarrow> bool \<times> mqtt_message list \<times> publisher" where
  "ha_publish Q published p pb =
     (case mp_ha_announced pb of
        None \<Rightarrow> (True, [], pb)
      | Some announced \<Rightarrow>
          let d = (case decoded_payload p of Some d \<Rightarrow> d | None \<Rightarrow> []);
              (sensors, announced1) = (if published then announce_node (mp_gateway_id pb) p announced else ([], announced));
              clear = (if packet_type p = POSITION \<and> \<not> (dget ''latitude'' d \<noteq> PNone \<and> dget ''longitude'' d \<noteq> PNone)
                       then clear_position (source_id p) else []);
              (r1, s1) = send_all Q sensors;
              pb1 = pb\<lparr>mp_ha_announced := Some announced1\<rparr>
          in if r1 = None then (False, s1, pb)
             else (case (if published then publish_state p else Some []) of
                 None \<Rightarrow> (False, s1, pb1)
               | Some st \<Rightarrow>
                   let (r2, s2) = send_all Q st in
                   if r2 = None then (False, s1 @ s2, pb1)
                   else let (r3, s3) = send_all Q clear in (r3 \<noteq> None, s1 @ s2 @ s3, pb1)))"

definition mqtt_publish :: "mqtt_lib \<Rightarrow> rat \<Rightarrow> rat \<Rightarrow> packet \<Rightarrow> publisher \<Rightarrow> bool option \<times> mqtt_message list \<times> publisher" where
  "mqtt_publish Q now_gate now_pub p pb =
     (if \<not> mp_connected pb \<or> \<not> mp_has_client pb then (Some False, [], pb)
      else
        let (ok, pb1) = passes_safety_gates Q now_gate p pb in
        if \<not> ok then (Some False, [], pb1)
        else
          let q = prepare_packet p (mc_location_precision (mp_config pb1)) in
          (case format_packet Q q pb1 of
             None \<Rightarrow> (None, [], pb1)
           | Some ms \<Rightarrow>
               (case send_all Q ms of
                  (None, sent) \<Rightarrow> (None, sent, pb1)
                | (Some published, sent) \<Rightarrow>
                    let pb2 = (if published then pb1\<lparr>mp_publish_count := mp_publish_count pb1 + 1, mp_last_publish := Some now_pub\<rparr> else pb1);
                        (ok, sent', pb3) = ha_publish Q published q pb2
                    in (if ok then Some published else None, sent @ sent', pb3))))"

definition on_connect :: "rat \<Rightarrow> int \<Rightarrow> publisher \<Rightarrow> publisher" where
  "on_connect now rc pb =
     (let pb1 = pb\<lparr>mp_last_connect_rc := Some rc\<rparr> in
      if rc = 0 then
        let pb2 = pb1\<lparr>mp_connected := True, mp_connected_since := Some now\<rparr> in
        if mc_homeassistant_discovery (mp_config pb2) \<and> mp_has_client pb2 then pb2\<lparr>mp_ha_announced := Some []\<rparr> else pb2
      else pb1\<lparr>mp_connected := False\<rparr>)"

definition on_disconnect :: "int \<Rightarrow> publisher \<Rightarrow> publisher" where
  "on_disconnect rc pb =
     pb\<lparr>mp_connected := False, mp_last_disconnect_rc := Some rc, mp_connected_since := None,
        mp_disconnect_count := (if rc \<noteq> 0 then mp_disconnect_count pb + 1 else mp_disconnect_count pb)\<rparr>"

definition mqtt_disconnect :: "publisher \<Rightarrow> publisher" where
  "mqtt_disconnect pb = (if mp_has_client pb then pb\<lparr>mp_connected := False\<rparr> else pb)"


section \<open>What the messages contain\<close>

lemma send_all_subset: "send_all Q ms = (r, sent) \<Longrightarrow> set sent \<subseteq> set ms"
  by (induction ms arbitrary: r sent) (auto split: option.splits prod.splits)

text \<open>A condition on payload entries that concerns location fields only.\<close>

definition location_only :: "(string \<Rightarrow> pyval \<Rightarrow> bool) \<Rightarrow> bool" where
  "location_only ok \<longleftrightarrow> (\<forall>k v. k \<notin> set LOCATION_FIELDS \<longrightarrow> ok k v)"

lemma location_only_instances: "location_only no_location" "location_only coarse_location"
  by (simp_all add: location_only_def no_location_def coarse_location_def)

definition body_ok :: "(string \<Rightarrow> pyval \<Rightarrow> bool) \<Rightarrow> mqtt_message \<Rightarrow> bool" where
  "body_ok ok m \<longleftrightarrow> (case mm_body m of JsonBody d \<Rightarrow> everywhere ok (PDict d) | _ \<Rightarrow> True)"

text \<open>A payload in which the coordinates come in pairs.\<close>

definition paired :: "pydict \<Rightarrow> bool" where
  "paired d \<longleftrightarrow> (dget ''latitude'' d = PNone) = (dget ''longitude'' d = PNone)"

lemma everywhere_dict: "everywhere ok (PDict d) \<longleftrightarrow> (\<forall>(k, v) \<in> set d. ok k v \<and> everywhere ok v)"
  by (simp add: list_all_iff)

lemma everywhere_dget:
  assumes "everywhere ok (PDict d)" "dget k d \<noteq> PNone"
  shows "ok k (dget k d) \<and> everywhere ok (dget k d)"
proof -
  have "(k, dget k d) \<in> set d" using assms(2) by (auto simp: dget_def map_of_SomeD split: option.splits)
  then show ?thesis using assms(1) unfolding everywhere_dict by blast
qed

lemma everywhere_update:
  "everywhere ok (PDict d) \<Longrightarrow> ok k v \<Longrightarrow> everywhere ok v \<Longrightarrow> everywhere ok (PDict (AList.update k v d))"
  unfolding everywhere_dict by (fastforce dest: in_set_update)

lemma everywhere_delete: "everywhere ok (PDict d) \<Longrightarrow> everywhere ok (PDict (AList.delete k d))"
  unfolding everywhere_dict AList.delete_eq by auto

lemma json_location_ok:
  assumes "everywhere ok (PDict d)" "paired d"
  shows "everywhere ok (PDict (json_location ''exact'' d))"
proof (cases "dget ''latitude'' d = PNone")
  case True
  then show ?thesis using assms by (simp add: json_location_def location_apply_def everywhere_delete del: everywhere.simps)
next
  case False
  then have "dget ''longitude'' d \<noteq> PNone" using assms(2) by (simp add: paired_def)
  then show ?thesis using False assms(1) everywhere_dget [OF assms(1)]
    by (simp add: json_location_def location_apply_def everywhere_update del: everywhere.simps)
qed

lemma json_payload_ok:
  assumes "location_only ok" "\<And>d. decoded_payload p = Some d \<Longrightarrow> everywhere ok (PDict d) \<and> paired d"
    and "\<forall>(k, v) \<in> set hops. k \<notin> set LOCATION_FIELDS \<and> everywhere ok v"
  shows "everywhere ok (PDict (json_payload gw ''exact'' hops p))"
proof -
  have ok: "k \<notin> set LOCATION_FIELDS \<Longrightarrow> ok k v" for k v using assms(1) by (simp add: location_only_def)
  have pl: "everywhere ok (PDict (json_location ''exact'' (e # es)))" if "decoded_payload p = Some (e # es)" for e es
    using json_location_ok assms(2) [OF that] by blast
  have "\<forall>(k, v) \<in> set (json_payload gw ''exact'' hops p). ok k v \<and> everywhere ok v"
    using assms(3) ok pl
    by (auto simp: json_payload_def LOCATION_FIELDS_def simp del: everywhere.simps(2) split: option.splits list.splits)
  then show ?thesis unfolding everywhere_dict .
qed

lemma drop_location_lookup: "k \<in> set LOCATION_FIELDS \<Longrightarrow> map_of (drop_location d) k = None"
  by (induction d) (auto simp: drop_location_def)

lemma filtered_payload_paired:
  assumes "pol \<noteq> Exact"
  shows "paired (filtered_payload pol d)"
proof -
  have drop: "dget k (drop_location e) = PNone" if "k \<in> set LOCATION_FIELDS" for k e
    using drop_location_lookup [OF that] by (simp add: dget_def)
  have keys: "''latitude'' \<in> set LOCATION_FIELDS" "''longitude'' \<in> set LOCATION_FIELDS" by (simp_all add: LOCATION_FIELDS_def)
  have "round2 v \<noteq> PNone" if "coordinate_ok b v" for b v using that by (cases v) simp_all
  then show ?thesis using assms keys
    by (cases pol) (auto simp: filtered_payload_def filter_dict_def paired_def drop Let_def dget_def map_add_def drop_location_lookup)
qed

text \<open>Home Assistant output.\<close>

lemma sensors_ok:
  assumes "location_only ok" "m \<in> set (fst (announce_node gw p ann))"
  shows "body_ok ok m"
proof -
  have ok: "ok k v" if "k \<notin> set LOCATION_FIELDS" for k v using assms(1) that by (simp add: location_only_def)
  have "body_ok ok (battery_config gw nid) \<and> body_ok ok (temperature_config gw nid) \<and> body_ok ok (gps_tracker_config gw nid)" for nid
    using ok by (simp add: body_ok_def battery_config_def temperature_config_def gps_tracker_config_def retained_def
        device_block_def LOCATION_FIELDS_def)
  then show ?thesis using assms(2) by (auto simp: announce_node_def Let_def split: option.splits if_splits)
qed

lemma state_ok:
  assumes "location_only ok" "\<And>d. decoded_payload p = Some d \<Longrightarrow> everywhere ok (PDict d)"
    and "publish_state p = Some ms" "m \<in> set ms"
  shows "body_ok ok m"
proof (cases "decoded_payload p")
  case None
  then show ?thesis using assms(3,4) by (simp add: publish_state_def)
next
  case (Some d)
  have entry: "dget k d \<noteq> PNone \<Longrightarrow> ok k (dget k d) \<and> everywhere ok (dget k d)" for k
    using everywhere_dget assms(2) [OF Some] by blast
  then have "everywhere ok (PDict (filter (\<lambda>(k, v). v \<noteq> PNone) (map (\<lambda>k. (k, dget k d)) ks)))" for ks
    unfolding everywhere_dict by auto
  then show ?thesis using assms(3,4) Some entry
    by (auto simp: publish_state_def retained_json_def body_ok_def retained_def Let_def simp del: filter.simps list.map
        split: if_splits)
qed

lemma ha_publish_sends:
  assumes "ha_publish Q published p pb = (r, sent, pb')" "m \<in> set sent"
  shows "(\<exists>ann. m \<in> set (fst (announce_node (mp_gateway_id pb) p ann))) \<or> (\<exists>ms. publish_state p = Some ms \<and> m \<in> set ms) \<or>
         m \<in> set (clear_position (source_id p))"
proof (cases "mp_ha_announced pb")
  case None
  then show ?thesis using assms by (simp add: ha_publish_def)
next
  case (Some announced)
  define sensors where "sensors = fst (if published then announce_node (mp_gateway_id pb) p announced else ([], announced))"
  define st where "st = (if published then publish_state p else Some [])"
  have sub: "set (snd (send_all Q ms)) \<subseteq> set ms" for ms using send_all_subset [of Q ms] by (metis prod.collapse)
  have "m \<in> set (snd (send_all Q sensors)) \<or> (\<exists>ms. st = Some ms \<and> m \<in> set (snd (send_all Q ms))) \<or>
      m \<in> set (snd (send_all Q (clear_position (source_id p))))"
    using assms(1)[symmetric] assms(2) Some
    by (auto simp: ha_publish_def Let_def case_prod_unfold simp flip: sensors_def st_def split: option.splits if_splits)
  then have "m \<in> set sensors \<or> (\<exists>ms. st = Some ms \<and> m \<in> set ms) \<or> m \<in> set (clear_position (source_id p))"
    using sub by blast
  then show ?thesis by (auto simp: sensors_def st_def split: if_splits)
qed

lemma ha_publish_ok:
  assumes "location_only ok" "\<And>d. decoded_payload p = Some d \<Longrightarrow> everywhere ok (PDict d)"
    and "ha_publish Q published p pb = (r, sent, pb')" "m \<in> set sent"
  shows "body_ok ok m"
  using ha_publish_sends [OF assms(3,4)]
proof (elim disjE exE conjE)
  fix ann assume "m \<in> set (fst (announce_node (mp_gateway_id pb) p ann))"
  then show ?thesis by (rule sensors_ok [OF assms(1)])
next
  fix ms assume "publish_state p = Some ms" "m \<in> set ms"
  then show ?thesis using state_ok [OF assms(1,2)] by blast
next
  assume "m \<in> set (clear_position (source_id p))"
  then show ?thesis by (auto simp: clear_position_def body_ok_def retained_def split: if_splits)
qed

lemma format_packet_mt_body: "format_packet_mt Q F p = Some (Some m) \<Longrightarrow> \<exists>b. mm_body m = ProtoBody b"
  by (auto simp: format_packet_mt_def format_encrypted_def Let_def bind_eq_Some_conv split: if_splits option.splits)

lemma json_message_body: "json_message topic d = Some m \<Longrightarrow> mm_body m = JsonBody d"
  by (auto simp: json_message_def split: if_splits)

lemma format_packet_cases:
  assumes "format_packet Q p pb = Some ms" "m \<in> set ms"
  shows "format_packet_mt Q (formatter Q pb) p = Some (Some m) \<or> format_json (formatter Q pb) p = Some m \<or>
         format_packet_mc (formatter Q pb) p = Some m"
  using assms by (auto simp: format_packet_def bind_eq_Some_conv split: if_splits option.splits)

lemma format_packet_ok:
  assumes "location_only ok" "\<And>d. decoded_payload p = Some d \<Longrightarrow> everywhere ok (PDict d) \<and> paired d"
    and "format_packet Q p pb = Some ms" "m \<in> set ms"
  shows "body_ok ok m"
  using format_packet_cases [OF assms(3,4)]
proof (elim disjE)
  assume "format_packet_mt Q (formatter Q pb) p = Some (Some m)"
  then show ?thesis using format_packet_mt_body by (fastforce simp: body_ok_def)
next
  have hops: "\<forall>(k, v) \<in> set [(''hop_limit'', PInt (hop_limit p)), (''hop_start'', PInt (hop_start p))].
      k \<notin> set LOCATION_FIELDS \<and> everywhere ok v" by (simp add: LOCATION_FIELDS_def)
  assume "format_json (formatter Q pb) p = Some m"
  then have "mm_body m = JsonBody (json_payload (mp_gateway_id pb) ''exact''
      [(''hop_limit'', PInt (hop_limit p)), (''hop_start'', PInt (hop_start p))] p)"
    using json_message_body by (simp add: format_json_def formatter_def)
  then show ?thesis using json_payload_ok [OF assms(1,2) hops] by (simp add: body_ok_def)
next
  assume "format_packet_mc (formatter Q pb) p = Some m"
  then have "mm_body m = JsonBody (json_payload (mp_gateway_id pb) ''exact'' [] p)"
    using json_message_body by (simp add: format_packet_mc_def formatter_def)
  then show ?thesis using json_payload_ok [OF assms(1,2), of p "[]"] by (simp add: body_ok_def)
qed

text \<open>Where a published message comes from.\<close>

lemma mqtt_publish_sends:
  assumes "m \<in> set (fst (snd (mqtt_publish Q t1 t2 p pb)))"
  defines "q \<equiv> prepare_packet p (mc_location_precision (mp_config pb))"
  shows "mp_connected pb \<and> fst (passes_safety_gates Q t1 p pb) \<and>
     ((\<exists>ms. format_packet Q q (snd (passes_safety_gates Q t1 p pb)) = Some ms \<and> m \<in> set ms) \<or>
      (\<exists>b pb2 r sent pb3. ha_publish Q b q pb2 = (r, sent, pb3) \<and> m \<in> set sent))"
proof -
  obtain ok pb1 where g: "passes_safety_gates Q t1 p pb = (ok, pb1)" by fastforce
  have cfg: "mp_config pb1 = mp_config pb" using g by (auto simp: passes_safety_gates_def Let_def split: if_splits)
  from assms(1) g cfg show ?thesis
    by (auto simp: mqtt_publish_def Let_def q_def split: if_splits option.splits prod.splits dest!: send_all_subset) blast+
qed

lemma gate_passed:
  "fst (passes_safety_gates Q t p pb) \<Longrightarrow>
   mc_enabled (mp_config pb) \<and> is_broadcast p \<and> packet_type p \<noteq> ENCRYPTED \<and>
   (decrypted p \<or> encrypted_payload p = None \<or> encrypted_payload p = Some []) \<and>
   mq_lower Q (resolve_name (channel_hash p) (protocol p) (mp_resolver pb)) \<in> set (mp_allowed_channels pb)"
  by (auto simp: passes_safety_gates_def Let_def split: if_splits)

lemma prepared_location:
  assumes "location_only ok" "\<And>d. everywhere ok (PDict (filtered_payload (policy_of precision) d))" "policy_of precision \<noteq> Exact"
    and "decoded_payload (prepare_packet p precision) = Some d"
  shows "everywhere ok (PDict d) \<and> paired d"
  using assms filtered_payload_paired by (auto simp: prepare_packet_def)

lemma published_body_ok:
  assumes "location_only ok" "\<And>d. everywhere ok (PDict (filtered_payload (policy_of (mc_location_precision (mp_config pb))) d))"
    and "policy_of (mc_location_precision (mp_config pb)) \<noteq> Exact"
    and "m \<in> set (fst (snd (mqtt_publish Q t1 t2 p pb)))"
  shows "body_ok ok m"
proof -
  let ?q = "prepare_packet p (mc_location_precision (mp_config pb))"
  have q: "everywhere ok (PDict d) \<and> paired d" if "decoded_payload ?q = Some d" for d
    using prepared_location [OF assms(1-3) that] .
  from mqtt_publish_sends [OF assms(4)] show ?thesis
    using format_packet_ok [OF assms(1) q] ha_publish_ok [OF assms(1)] q by blast
qed


section \<open>Properties\<close>

text \<open>C9: no packet reaches the broker unless it passes every gate: any message that a call of \<^verbatim>\<open>publish\<close> for a packet hands
  to the client, Home Assistant's included, comes from a broadcast packet that was decrypted or carries no encrypted payload and
  whose resolved channel name is in the configured list, while publishing is enabled and the client connected. (The map
  report, which is made of the gateway's own data and of no packet, is sent by \<^verbatim>\<open>publish_map_report\<close>.)\<close>

theorem publish_only_through_gates:
  assumes "m \<in> set (fst (snd (mqtt_publish Q t1 t2 p pb)))"
  shows "mp_connected pb \<and> mc_enabled (mp_config pb) \<and> is_broadcast p \<and> packet_type p \<noteq> ENCRYPTED \<and>
     (decrypted p \<or> encrypted_payload p = None \<or> encrypted_payload p = Some []) \<and>
     mq_lower Q (resolve_name (channel_hash p) (protocol p) (mp_resolver pb)) \<in> set (mp_allowed_channels pb)"
  using mqtt_publish_sends [OF assms] gate_passed by blast

definition demo_mqtt_lib :: mqtt_lib where
  "demo_mqtt_lib = \<lparr>mq_available = False, mq_message = (\<lambda>_ _. None), mq_lower = id, mq_hash = (\<lambda>_. 0), mq_md5_hex = (\<lambda>_. None),
     mq_send = (\<lambda>_. Some 0)\<rparr>"

definition demo_publisher :: publisher where
  "demo_publisher = \<lparr>mp_config = \<lparr>mc_enabled = True, mc_topic_root = lit ''msh'', mc_region = lit ''US'', mc_gateway_id = None,
       mc_publish_channels = [lit ''LongFast''], mc_publish_json = True, mc_location_precision = ''approximate'',
       mc_homeassistant_discovery = True\<rparr>,
     mp_gateway_id = lit ''!01'', mp_has_client = True, mp_connected = True, mp_publish_count = 0, mp_blocked_count = 0,
     mp_last_privacy_log = None, mp_disconnect_count = 0, mp_last_connect_rc = Some 0, mp_last_disconnect_rc = None,
     mp_last_publish = None, mp_last_map_report = None, mp_connected_since = Some 0, mp_allowed_channels = [lit ''LongFast''], mp_resolver = [],
     mp_ha_announced = Some []\<rparr>"

lemma demo_publish_sends: "fst (snd (mqtt_publish demo_mqtt_lib 0 0 demo_position demo_publisher)) \<noteq> []"
proof -
  have f: "format_packet demo_mqtt_lib (prepare_packet demo_position ''approximate'') demo_publisher =
      map_option (\<lambda>m. [m]) (format_json (formatter demo_mqtt_lib demo_publisher) (prepare_packet demo_position ''approximate''))"
    by (cases "format_json (formatter demo_mqtt_lib demo_publisher) (prepare_packet demo_position ''approximate'')")
      (simp_all add: format_packet_def demo_publisher_def demo_position_def default_packet_def prepare_packet_def
        format_packet_mt_def Let_def demo_mqtt_lib_def)
  have "\<exists>m. format_json (formatter demo_mqtt_lib demo_publisher) (prepare_packet demo_position ''approximate'') = Some m"
    by (simp add: format_json_def json_message_def json_payload_def demo_position_def default_packet_def prepare_packet_def
        formatter_def demo_publisher_def policy_of_def filtered_payload_def filter_dict_def drop_location_def LOCATION_FIELDS_def
        dget_def json_location_def location_apply_def)
  then obtain m where "format_packet demo_mqtt_lib (prepare_packet demo_position ''approximate'') demo_publisher = Some [m]"
    using f by auto
  moreover have "passes_safety_gates demo_mqtt_lib 0 demo_position demo_publisher = (True, demo_publisher)"
    by (simp add: passes_safety_gates_def demo_publisher_def demo_position_def default_packet_def is_broadcast_def
        resolve_name_def demo_mqtt_lib_def lower_char_def)
  moreover have "mp_connected demo_publisher" "mp_has_client demo_publisher"
    "mc_location_precision (mp_config demo_publisher) = ''approximate''" by (simp_all add: demo_publisher_def)
  ultimately show ?thesis
    by (simp add: mqtt_publish_def demo_mqtt_lib_def split: prod.splits)
qed

theorem publish_only_through_gates_witness:
  "is_broadcast demo_position \<and> fst (snd (mqtt_publish demo_mqtt_lib 0 0 demo_position demo_publisher)) \<noteq> []"
  using publish_only_through_gates [OF hd_in_set [OF demo_publish_sends]] demo_publish_sends by blast

text \<open>C10: the location policy reaches every output: whatever message is published, the JSON mirror and the Home
  Assistant discovery and state messages included, its JSON has no location field at any depth
  under a policy other than \<^verbatim>\<open>exact\<close> and \<^verbatim>\<open>approximate\<close>, and only coordinates rounded to a hundredth of a degree under
  \<^verbatim>\<open>approximate\<close>.\<close>

theorem published_location_policy:
  assumes "m \<in> set (fst (snd (mqtt_publish Q t1 t2 p pb)))"
  shows "(mc_location_precision (mp_config pb) \<notin> {''exact'', ''approximate''} \<longrightarrow> body_ok no_location m) \<and>
     (mc_location_precision (mp_config pb) = ''approximate'' \<longrightarrow> body_ok coarse_location m)"
proof -
  have "everywhere no_location (PDict (filtered_payload NoLocation d))"
    "everywhere coarse_location (PDict (filtered_payload Approximate d))" for d
    using filtered_payload_everywhere [OF filter_dict_none] filtered_payload_everywhere [OF filter_dict_coarse] by blast+
  then show ?thesis using published_body_ok [OF _ _ _ assms] location_only_instances by (auto simp: policy_of_def)
qed

theorem published_location_policy_witness:
  "fst (snd (mqtt_publish demo_mqtt_lib 0 0 demo_position demo_publisher)) \<noteq> [] \<and>
   body_ok coarse_location (hd (fst (snd (mqtt_publish demo_mqtt_lib 0 0 demo_position demo_publisher))))"
  using published_location_policy [OF hd_in_set [OF demo_publish_sends]] demo_publish_sends by (simp add: demo_publisher_def)

end
