(* ===== verification/Storage.thy ===== *)
theory Storage
  imports Models "HOL-Library.Multiset"
begin

text \<open>
  \<^verbatim>\<open>src/src/storage/\<close>: the repositories over the SQLite tables. A table is the list of its rows in row-id order; a statement is
  the function on rows that it denotes, \<^const>\<open>PNone\<close> being NULL. Timestamps are numbers, ordered as their ISO strings are.
  Where a query asks for the newest row and several have the same timestamp, the one stored last counts. JSON columns
  hold the value that was dumped; a payload whose dump raises is left to the caller.
\<close>

section \<open>Rows\<close>

record node_row =
  nr_node_id :: string
  nr_long_name :: pyval
  nr_short_name :: pyval
  nr_hardware_model :: pyval
  nr_firmware_version :: pyval
  nr_protocol :: string
  nr_role :: pyval
  nr_public_key :: pyval
  nr_latitude :: pyval
  nr_longitude :: pyval
  nr_altitude :: pyval
  nr_last_heard :: time
  nr_first_seen :: time
  nr_packet_count :: int

record packet_row =
  pr_packet_id :: string
  pr_source_id :: string
  pr_destination_id :: string
  pr_protocol :: string
  pr_packet_type :: string
  pr_payload :: "pydict option"
  pr_rssi :: "rat option"
  pr_snr :: "rat option"
  pr_capture_source :: string
  pr_timestamp :: time

record message_row =
  me_id :: int
  me_direction :: string
  me_text :: ustr
  me_node_id :: string
  me_node_name :: ustr
  me_protocol :: string
  me_channel :: int
  me_timestamp :: time
  me_status :: string
  me_packet_id :: string
  me_rssi :: "rat option"
  me_snr :: "rat option"
  me_rx_count :: int

record database =
  db_nodes :: "node_row list"
  db_packets :: "packet_row list"
  db_telemetry :: "telemetry list"
  db_messages :: "message_row list"
  db_next_message :: int

definition empty_database :: database where
  "empty_database = \<lparr>db_nodes = [], db_packets = [], db_telemetry = [], db_messages = [], db_next_message = 1\<rparr>"

text \<open>\<^verbatim>\<open>COALESCE(a, b)\<close>, \<^verbatim>\<open>LOWER\<close> (of ASCII letters only), and the update of the rows of a table that satisfy a condition.\<close>

definition coalesce :: "pyval \<Rightarrow> pyval \<Rightarrow> pyval" where
  "coalesce a b = (if a = PNone then b else a)"

definition sql_lower :: "ustr \<Rightarrow> ustr" where
  "sql_lower s = map (\<lambda>c. if 65 \<le> c \<and> c \<le> 90 then c + 32 else c) s"

fun sql_text :: "pyval \<Rightarrow> ustr" where
  "sql_text (PStr s) = s"
| "sql_text _ = []"

definition blank :: "pyval \<Rightarrow> bool" where
  "blank v \<longleftrightarrow> v = PNone \<or> v = PStr []"

definition update_where :: "('r \<Rightarrow> bool) \<Rightarrow> ('r \<Rightarrow> 'r) \<Rightarrow> 'r list \<Rightarrow> 'r list" where
  "update_where P f rows = map (\<lambda>r. if P r then f r else r) rows"


section \<open>Nodes\<close>

definition excluded_row :: "time \<Rightarrow> node \<Rightarrow> node_row" where
  "excluded_row first_seen n =
     \<lparr>nr_node_id = node_id n, nr_long_name = long_name n, nr_short_name = short_name n, nr_hardware_model = hardware_model n,
      nr_firmware_version = firmware_version n, nr_protocol = node_protocol n, nr_role = role n, nr_public_key = public_key n,
      nr_latitude = latitude n, nr_longitude = longitude n, nr_altitude = altitude n, nr_last_heard = last_heard n,
      nr_first_seen = first_seen, nr_packet_count = packet_count n\<rparr>"

definition merged_long_name :: "node_row \<Rightarrow> node_row \<Rightarrow> pyval" where
  "merged_long_name ex old =
     (if blank (nr_long_name ex) then nr_long_name old
      else if nr_protocol ex = ''meshtastic'' then nr_long_name ex
      else if blank (nr_long_name old) then nr_long_name ex
      else if nr_protocol old = ''meshcore'' \<and> sql_lower (sql_text (nr_long_name old)) = sql_lower (lit (nr_node_id old))
        then nr_long_name ex
      else nr_long_name old)"

definition merge_row :: "node_row \<Rightarrow> node_row \<Rightarrow> node_row" where
  "merge_row ex old =
     old\<lparr>nr_long_name := merged_long_name ex old,
         nr_short_name := coalesce (nr_short_name ex) (nr_short_name old),
         nr_hardware_model := coalesce (nr_hardware_model ex) (nr_hardware_model old),
         nr_firmware_version := coalesce (nr_firmware_version ex) (nr_firmware_version old),
         nr_role := coalesce (nr_role ex) (nr_role old),
         nr_public_key := coalesce (nr_public_key ex) (nr_public_key old),
         nr_latitude := coalesce (nr_latitude ex) (nr_latitude old),
         nr_longitude := coalesce (nr_longitude ex) (nr_longitude old),
         nr_altitude := coalesce (nr_altitude ex) (nr_altitude old),
         nr_last_heard := nr_last_heard ex,
         nr_packet_count := nr_packet_count old + 1\<rparr>"

text \<open>\<^verbatim>\<open>INSERT ... ON CONFLICT(node_id) DO UPDATE\<close>.\<close>

definition insert_or_update :: "node_row \<Rightarrow> (node_row \<Rightarrow> node_row) \<Rightarrow> node_row list \<Rightarrow> node_row list" where
  "insert_or_update ex f rows =
     (if nr_node_id ex \<in> nr_node_id ` set rows then update_where (\<lambda>r. nr_node_id r = nr_node_id ex) f rows else rows @ [ex])"

definition node_upsert :: "time \<Rightarrow> node \<Rightarrow> database \<Rightarrow> database" where
  "node_upsert first_seen n db =
     db\<lparr>db_nodes := insert_or_update (excluded_row first_seen n) (merge_row (excluded_row first_seen n)) (db_nodes db)\<rparr>"

definition get_by_id :: "string \<Rightarrow> database \<Rightarrow> node_row option" where
  "get_by_id nid db = find (\<lambda>r. nr_node_id r = nid) (db_nodes db)"

definition increment_packet_count :: "time \<Rightarrow> string \<Rightarrow> database \<Rightarrow> database" where
  "increment_packet_count now nid db =
     db\<lparr>db_nodes := update_where (\<lambda>r. nr_node_id r = nid)
          (\<lambda>r. r\<lparr>nr_packet_count := nr_packet_count r + 1, nr_last_heard := now\<rparr>) (db_nodes db)\<rparr>"

definition starts_with :: "string \<Rightarrow> string \<Rightarrow> bool" where
  "starts_with s p \<longleftrightarrow> take (length p) s = p"

text \<open>The newest packet of the node that its own radio heard: not the synthetic rows of a neighbour report or an import. \<^verbatim>\<open>LIKE\<close>
  compares letters without case.\<close>

definition own_packets :: "string \<Rightarrow> database \<Rightarrow> packet_row list" where
  "own_packets nid db =
     filter (\<lambda>p. pr_source_id p = nid \<and> \<not> starts_with (lower (pr_packet_id p)) ''nb:'' \<and>
       \<not> starts_with (lower (pr_packet_id p)) ''meshcoredb:'') (db_packets db)"

definition neighbour_row :: "string \<Rightarrow> time \<Rightarrow> node_row" where
  "neighbour_row nid heard =
     \<lparr>nr_node_id = nid, nr_long_name = pstr nid, nr_short_name = PNone, nr_hardware_model = PNone, nr_firmware_version = PNone,
      nr_protocol = ''meshcore'', nr_role = PNone, nr_public_key = PNone, nr_latitude = PNone, nr_longitude = PNone,
      nr_altitude = PNone, nr_last_heard = heard, nr_first_seen = heard, nr_packet_count = 0\<rparr>"

definition merge_neighbour :: "node_row \<Rightarrow> database \<Rightarrow> node_row \<Rightarrow> node_row" where
  "merge_neighbour ex db old =
     old\<lparr>nr_long_name :=
           (if blank (nr_long_name old) then nr_long_name ex
            else if sql_lower (sql_text (nr_long_name old)) = sql_lower (lit (nr_node_id old)) then nr_long_name ex
            else nr_long_name old),
         nr_last_heard :=
           (case map pr_timestamp (own_packets (nr_node_id old) db) of
              [] \<Rightarrow> nr_last_heard ex
            | t # ts \<Rightarrow> max (nr_last_heard ex) (fold max ts t))\<rparr>"

definition upsert_from_neighbour_report :: "string \<Rightarrow> time \<Rightarrow> database \<Rightarrow> database" where
  "upsert_from_neighbour_report nid heard db =
     db\<lparr>db_nodes := insert_or_update (neighbour_row nid heard) (merge_neighbour (neighbour_row nid heard) db) (db_nodes db)\<rparr>"

definition get_active_count :: "time \<Rightarrow> rat \<Rightarrow> string option \<Rightarrow> database \<Rightarrow> nat" where
  "get_active_count now hours proto db =
     length (filter (\<lambda>r. nr_last_heard r \<ge> now - hours * 3600 \<and> (case proto of None \<Rightarrow> True | Some [] \<Rightarrow> True | Some p \<Rightarrow> nr_protocol r = p))
       (db_nodes db))"

definition phantom :: "node_row \<Rightarrow> bool" where
  "phantom r \<longleftrightarrow> nr_packet_count r = 0 \<and> (nr_long_name r = PNone \<or> ustrip (\<lambda>c. c = 32) (sql_text (nr_long_name r)) = []) \<and>
     (nr_short_name r = PNone \<or> ustrip (\<lambda>c. c = 32) (sql_text (nr_short_name r)) = [])"

definition count_phantom_rows :: "database \<Rightarrow> nat" where
  "count_phantom_rows db = length (filter phantom (db_nodes db))"

definition delete_phantom_rows :: "database \<Rightarrow> nat \<times> database" where
  "delete_phantom_rows db = (count_phantom_rows db, db\<lparr>db_nodes := filter (\<lambda>r. \<not> phantom r) (db_nodes db)\<rparr>)"

text \<open>\<^verbatim>\<open>ORDER BY timestamp DESC LIMIT 1\<close>.\<close>

fun newest :: "('r \<Rightarrow> time) \<Rightarrow> 'r list \<Rightarrow> 'r option" where
  "newest key [] = None"
| "newest key (r # rs) = (case newest key rs of None \<Rightarrow> Some r | Some s \<Rightarrow> Some (if key s < key r then r else s))"

definition get_latest_capture_source :: "string \<Rightarrow> database \<Rightarrow> string option" where
  "get_latest_capture_source sid db =
     map_option pr_capture_source (newest pr_timestamp (filter (\<lambda>p. pr_source_id p = sid) (db_packets db)))"

definition get_all_nodes :: "nat \<Rightarrow> database \<Rightarrow> node_row list" where
  "get_all_nodes limit db = take limit (rev (sort_key nr_last_heard (db_nodes db)))"

definition get_latest_capture_sources :: "string list \<Rightarrow> database \<Rightarrow> (string \<times> string) list" where
  "get_latest_capture_sources source_ids db =
     List.map_filter (\<lambda>s. map_option (\<lambda>c. (s, c)) (get_latest_capture_source s db)) (remdups source_ids)"


section \<open>Packets and telemetry\<close>

text \<open>The columns of a packet that the repositories read back or select by.\<close>

definition row_of_packet :: "packet \<Rightarrow> packet_row" where
  "row_of_packet p =
     \<lparr>pr_packet_id = packet_id p, pr_source_id = source_id p, pr_destination_id = destination_id p,
      pr_protocol = protocol_value (protocol p), pr_packet_type = packet_type_value (packet_type p),
      pr_payload = (case decoded_payload p of Some [] \<Rightarrow> None | d \<Rightarrow> d),
      pr_rssi = map_option rssi (signal p), pr_snr = map_option snr (signal p),
      pr_capture_source = capture_source p, pr_timestamp = timestamp p\<rparr>"

definition packet_insert :: "packet \<Rightarrow> database \<Rightarrow> database" where
  "packet_insert p db = db\<lparr>db_packets := db_packets db @ [row_of_packet p]\<rparr>"

definition get_source_id_by_packet_id :: "string \<Rightarrow> database \<Rightarrow> string" where
  "get_source_id_by_packet_id pid db =
     (if pid = [] then [] else (case find (\<lambda>p. pr_packet_id p = pid) (db_packets db) of Some r \<Rightarrow> pr_source_id r | None \<Rightarrow> []))"

definition update_pager_status :: "string \<Rightarrow> string \<Rightarrow> database \<Rightarrow> bool \<times> database" where
  "update_pager_status pid status db =
     (case find (\<lambda>p. pr_packet_id p = pid) (db_packets db) of
        None \<Rightarrow> (False, db)
      | Some r \<Rightarrow>
          let payload = AList.update ''status'' (pstr status) (case pr_payload r of Some d \<Rightarrow> d | None \<Rightarrow> []) in
          (True, db\<lparr>db_packets := update_where (\<lambda>p. pr_packet_id p = pid) (\<lambda>p. p\<lparr>pr_payload := Some payload\<rparr>) (db_packets db)\<rparr>))"

text \<open>\<^verbatim>\<open>DELETE ... WHERE id IN (SELECT id ... ORDER BY timestamp ASC LIMIT n)\<close>: the \<open>n\<close> oldest rows, of equal ones those stored first.\<close>

fun delete_oldest_one :: "('r \<Rightarrow> time) \<Rightarrow> 'r list \<Rightarrow> 'r list" where
  "delete_oldest_one key [] = []"
| "delete_oldest_one key (r # rs) = (if list_all (\<lambda>s. key r \<le> key s) rs then rs else r # delete_oldest_one key rs)"

definition delete_oldest :: "nat \<Rightarrow> ('r \<Rightarrow> time) \<Rightarrow> 'r list \<Rightarrow> 'r list" where
  "delete_oldest n key rows = (delete_oldest_one key ^^ n) rows"

definition cleanup_rows :: "('r \<Rightarrow> time) \<Rightarrow> nat \<Rightarrow> 'r list \<Rightarrow> nat \<times> 'r list" where
  "cleanup_rows key max_retained rows =
     (if length rows \<le> max_retained then (0, rows)
      else (length rows - max_retained, delete_oldest (length rows - max_retained) key rows))"

definition packet_cleanup_old :: "nat \<Rightarrow> database \<Rightarrow> nat \<times> database" where
  "packet_cleanup_old max_retained db =
     (case cleanup_rows pr_timestamp max_retained (db_packets db) of (n, rows) \<Rightarrow> (n, db\<lparr>db_packets := rows\<rparr>))"

definition telemetry_insert :: "telemetry \<Rightarrow> database \<Rightarrow> database" where
  "telemetry_insert t db = db\<lparr>db_telemetry := db_telemetry db @ [t]\<rparr>"

definition telemetry_cleanup_old :: "nat \<Rightarrow> database \<Rightarrow> nat \<times> database" where
  "telemetry_cleanup_old max_retained db =
     (case cleanup_rows tel_timestamp max_retained (db_telemetry db) of (n, rows) \<Rightarrow> (n, db\<lparr>db_telemetry := rows\<rparr>))"



section \<open>Histories\<close>

definition bucket_seconds :: "(time \<times> time) option \<Rightarrow> int \<Rightarrow> rat \<Rightarrow> int" where
  "bucket_seconds span_row limit hours =
     (let limit = max limit 1 in
      case span_row of
        Some (lo, hi) \<Rightarrow>
          if hi - lo > 0 then max 60 (py_trunc ((hi - lo) / of_int limit)) else max 60 (py_trunc (hours * 3600 / of_int limit))
      | None \<Rightarrow> max 60 (py_trunc (hours * 3600 / of_int limit)))"

text \<open>The samples of \<^verbatim>\<open>get_signal_history\<close> within a window: a group per bucket of \<open>bucket\<close> seconds, oldest first, at most \<open>limit\<close> of them;
  each with its first timestamp and its averages. \<^verbatim>\<open>strftime('%s')\<close> is the whole number of seconds.\<close>

definition bucket_of :: "int \<Rightarrow> time \<Rightarrow> int" where
  "bucket_of bucket t = \<lfloor>t\<rfloor> div bucket"

definition average :: "rat list \<Rightarrow> rat option" where
  "average xs = (if xs = [] then None else Some (sum_list xs / of_nat (length xs)))"

record signal_sample =
  sa_timestamp :: time
  sa_rssi :: "rat option"
  sa_snr :: "rat option"

definition sample_of :: "packet_row list \<Rightarrow> signal_sample" where
  "sample_of ps =
     \<lparr>sa_timestamp = Min (set (map pr_timestamp ps)), sa_rssi = average (List.map_filter pr_rssi ps),
      sa_snr = average (List.map_filter pr_snr ps)\<rparr>"

definition signal_rows :: "string \<Rightarrow> time \<Rightarrow> database \<Rightarrow> packet_row list" where
  "signal_rows sid since db =
     filter (\<lambda>p. pr_source_id p = sid \<and> pr_rssi p \<noteq> None \<and> pr_timestamp p \<ge> since) (db_packets db)"

definition time_span :: "time list \<Rightarrow> (time \<times> time) option" where
  "time_span ts = (case ts of [] \<Rightarrow> None | t # ts \<Rightarrow> Some (fold min ts t, fold max ts t))"

definition get_signal_history :: "string \<Rightarrow> int \<Rightarrow> rat \<Rightarrow> time \<Rightarrow> database \<Rightarrow> signal_sample list" where
  "get_signal_history sid limit hours now db =
     (let rows = signal_rows sid (now - hours * 3600) db;
          bucket = bucket_seconds (time_span (map pr_timestamp rows)) limit hours;
          keys = sorted_list_of_set (bucket_of bucket ` set (map pr_timestamp rows));
          groups = map (\<lambda>k. filter (\<lambda>p. bucket_of bucket (pr_timestamp p) = k) rows) keys
      in take (nat limit) (map sample_of groups))"


section \<open>Messages\<close>

definition save_sent ::
    "time \<Rightarrow> ustr \<Rightarrow> string \<Rightarrow> ustr \<Rightarrow> string \<Rightarrow> int \<Rightarrow> string \<Rightarrow> string \<Rightarrow> database \<Rightarrow> int \<times> database" where
  "save_sent now msg nid name proto channel pid status db =
     (db_next_message db,
      db\<lparr>db_messages := db_messages db @
           [\<lparr>me_id = db_next_message db, me_direction = ''sent'', me_text = msg, me_node_id = nid, me_node_name = name, me_protocol = proto,
             me_channel = channel, me_timestamp = now, me_status = status, me_packet_id = pid, me_rssi = None, me_snr = None,
             me_rx_count = 1\<rparr>],
         db_next_message := db_next_message db + 1\<rparr>)"

text \<open>The lookup and the statement after it are one step. The source awaits between them, so this is \<^verbatim>\<open>save_received\<close> for
  receptions that are stored one after the other.\<close>

definition save_received ::
    "time \<Rightarrow> ustr \<Rightarrow> string \<Rightarrow> ustr \<Rightarrow> string \<Rightarrow> int \<Rightarrow> string \<Rightarrow> string \<Rightarrow> rat option \<Rightarrow> rat option \<Rightarrow> database
     \<Rightarrow> (int \<times> bool) \<times> database" where
  "save_received now msg nid name proto channel pid direction rs sn db =
     (case (if pid = [] then None else find (\<lambda>m. me_packet_id m = pid) (db_messages db)) of
        Some existing \<Rightarrow>
          let new_count = (if me_rx_count existing = 0 then 1 else me_rx_count existing) + 1;
              better = (case rs of None \<Rightarrow> False | Some r \<Rightarrow> (case me_rssi existing of None \<Rightarrow> True | Some r0 \<Rightarrow> r > r0));
              f = (\<lambda>m. if better then m\<lparr>me_rssi := rs, me_snr := sn, me_rx_count := new_count\<rparr> else m\<lparr>me_rx_count := new_count\<rparr>)
          in ((me_id existing, True), db\<lparr>db_messages := update_where (\<lambda>m. me_id m = me_id existing) f (db_messages db)\<rparr>)
      | None \<Rightarrow>
          ((db_next_message db, False),
           db\<lparr>db_messages := db_messages db @
                [\<lparr>me_id = db_next_message db, me_direction = direction, me_text = msg, me_node_id = nid, me_node_name = name,
                  me_protocol = proto, me_channel = channel, me_timestamp = now, me_status = ''delivered'', me_packet_id = pid,
                  me_rssi = rs, me_snr = sn, me_rx_count = 1\<rparr>],
              db_next_message := db_next_message db + 1\<rparr>))"

definition get_conversation :: "string \<Rightarrow> nat \<Rightarrow> time option \<Rightarrow> database \<Rightarrow> message_row list" where
  "get_conversation nid limit before db =
     last_n limit (sort_key me_timestamp
       (filter (\<lambda>m. me_node_id m = nid \<and> (case before of None \<Rightarrow> True | Some t \<Rightarrow> me_timestamp m < t)) (db_messages db)))"

definition mark_read :: "string \<Rightarrow> database \<Rightarrow> database" where
  "mark_read nid db =
     db\<lparr>db_messages := update_where (\<lambda>m. me_node_id m = nid \<and> me_direction m = ''received'' \<and> me_status m \<noteq> ''read'')
          (\<lambda>m. m\<lparr>me_status := ''read''\<rparr>) (db_messages db)\<rparr>"

definition delete_conversation :: "string \<Rightarrow> database \<Rightarrow> nat \<times> database" where
  "delete_conversation nid db =
     (length (filter (\<lambda>m. me_node_id m = nid) (db_messages db)),
      db\<lparr>db_messages := filter (\<lambda>m. me_node_id m \<noteq> nid) (db_messages db)\<rparr>)"

definition delete_all_messages :: "database \<Rightarrow> nat \<times> database" where
  "delete_all_messages db = (length (db_messages db), db\<lparr>db_messages := []\<rparr>)"

definition unread_count :: "string \<Rightarrow> database \<Rightarrow> nat" where
  "unread_count nid db =
     length (filter (\<lambda>m. me_node_id m = nid \<and> me_direction m = ''received'' \<and> me_status m \<noteq> ''read'') (db_messages db))"

definition truncate_text :: "ustr \<Rightarrow> nat \<Rightarrow> ustr" where
  "truncate_text t max_len = (if length t \<le> max_len then t else take (max_len - 3) t @ lit ''...'')"



section \<open>The node table as a store\<close>

lemma find_update_where:
  assumes "\<And>r. key (f r) = key r"
  shows "find (\<lambda>r. key r = k) (update_where (\<lambda>r. key r = k') f rows) =
    (if k = k' then map_option f (find (\<lambda>r. key r = k) rows) else find (\<lambda>r. key r = k) rows)"
  using assms by (induction rows) (auto simp: update_where_def)

lemma find_key_None: "find (\<lambda>r. key r = k) rows = None \<longleftrightarrow> k \<notin> key ` set rows"
  by (auto simp: find_None_iff)

lemma find_append: "find P (xs @ ys) = (case find P xs of None \<Rightarrow> find P ys | Some x \<Rightarrow> Some x)"
  by (induction xs) auto

lemma merge_row_id [simp]: "nr_node_id (merge_row ex old) = nr_node_id old"
  by (simp add: merge_row_def)

lemma excluded_row_id [simp]: "nr_node_id (excluded_row t n) = node_id n"
  by (simp add: excluded_row_def)

lemma get_node_upsert:
  "get_by_id k (node_upsert t n db) =
     (if k = node_id n then Some (case get_by_id k db of None \<Rightarrow> excluded_row t n | Some r \<Rightarrow> merge_row (excluded_row t n) r)
      else get_by_id k db)"
proof (cases "get_by_id (node_id n) db")
  case None
  then have "node_id n \<notin> nr_node_id ` set (db_nodes db)" by (simp add: get_by_id_def find_key_None)
  then show ?thesis using None
    by (auto simp: get_by_id_def node_upsert_def insert_or_update_def find_append split: option.splits)
next
  case (Some r)
  then have "node_id n \<in> nr_node_id ` set (db_nodes db)"
    using find_key_None [of nr_node_id "node_id n" "db_nodes db"] by (auto simp: get_by_id_def)
  then show ?thesis using Some by (simp add: get_by_id_def node_upsert_def insert_or_update_def find_update_where)
qed

text \<open>What happens to the row of a node: a report of the node is stored, or a packet of it is counted.\<close>

datatype node_event = Reported time node | Counted time string

fun apply_node_event :: "node_event \<Rightarrow> database \<Rightarrow> database" where
  "apply_node_event (Reported t n) db = node_upsert t n db"
| "apply_node_event (Counted t k) db = increment_packet_count t k db"

fun event_node :: "node_event \<Rightarrow> string" where
  "event_node (Reported t n) = node_id n"
| "event_node (Counted t k) = k"

fun event_time :: "node_event \<Rightarrow> time" where
  "event_time (Reported t n) = last_heard n"
| "event_time (Counted t k) = t"

fun reported :: "node_event \<Rightarrow> (time \<times> node) option" where
  "reported (Reported t n) = Some (t, n)"
| "reported (Counted t k) = None"

text \<open>The history of a node: its events from the first report on; a packet counted before has no row to be counted in.\<close>

definition node_history :: "string \<Rightarrow> node_event list \<Rightarrow> node_event list" where
  "node_history k es = dropWhile (\<lambda>e. reported e = None) (filter (\<lambda>e. event_node e = k) es)"

definition reports :: "node_event list \<Rightarrow> node list" where
  "reports h = List.map_filter (\<lambda>e. map_option snd (reported e)) h"

text \<open>The most recent known value of a column.\<close>

definition latest_known :: "(node \<Rightarrow> pyval) \<Rightarrow> node list \<Rightarrow> pyval" where
  "latest_known f ns = fold (\<lambda>n v. coalesce (f n) v) ns PNone"

text \<open>The name shown for a node. Of the reports that carry a name those from the last Meshtastic one on count; of these the
  first name that is not just the identifier of a MeshCore node, or else the last.\<close>

fun since_meshtastic :: "node list \<Rightarrow> node list" where
  "since_meshtastic [] = []"
| "since_meshtastic (n # ns) = (if list_ex (\<lambda>m. node_protocol m = ''meshtastic'') ns then since_meshtastic ns else n # ns)"

definition only_the_id :: "string \<Rightarrow> string \<Rightarrow> node \<Rightarrow> bool" where
  "only_the_id k proto n \<longleftrightarrow> proto = ''meshcore'' \<and> sql_lower (sql_text (long_name n)) = sql_lower (lit k)"

definition shown_name :: "string \<Rightarrow> node list \<Rightarrow> pyval" where
  "shown_name k ns =
     (let s = since_meshtastic (filter (\<lambda>n. \<not> blank (long_name n)) ns) in
      if s = [] then long_name (hd ns)
      else (case find (\<lambda>n. \<not> only_the_id k (node_protocol (hd ns)) n) s of Some n \<Rightarrow> long_name n | None \<Rightarrow> long_name (last s)))"

definition node_facts :: "string \<Rightarrow> node_event list \<Rightarrow> node_row \<Rightarrow> bool" where
  "node_facts k h r \<longleftrightarrow>
     nr_node_id r = k \<and> map_option fst (reported (hd h)) = Some (nr_first_seen r) \<and> nr_last_heard r = event_time (last h) \<and>
     nr_packet_count r = packet_count (hd (reports h)) + int (length h) - 1 \<and>
     nr_protocol r = node_protocol (hd (reports h)) \<and> nr_long_name r = shown_name k (reports h) \<and>
     nr_short_name r = latest_known short_name (reports h) \<and> nr_hardware_model r = latest_known hardware_model (reports h) \<and>
     nr_firmware_version r = latest_known firmware_version (reports h) \<and>
     nr_role r = latest_known role (reports h) \<and> nr_public_key r = latest_known public_key (reports h) \<and>
     nr_latitude r = latest_known latitude (reports h) \<and> nr_longitude r = latest_known longitude (reports h) \<and>
     nr_altitude r = latest_known altitude (reports h)"

lemma latest_known_snoc: "latest_known f (ns @ [n]) = coalesce (f n) (latest_known f ns)"
  by (simp add: latest_known_def)

lemma since_meshtastic_snoc:
  "since_meshtastic (ns @ [n]) = (if node_protocol n = ''meshtastic'' then [n] else since_meshtastic ns @ [n])"
  by (induction ns) auto

lemma since_meshtastic_Nil [simp]: "since_meshtastic ns = [] \<longleftrightarrow> ns = []"
  by (induction ns) auto

lemma reports_simps [simp]:
  "reports [] = []" "reports (Reported t n # h) = n # reports h" "reports (Counted t k # h) = reports h"
  "reports (h @ g) = reports h @ reports g"
  by (simp_all add: reports_def List.map_filter_def)

lemma shown_name_fresh: "shown_name k [n] = long_name n"
  by (simp add: shown_name_def)

text \<open>One report more.\<close>

lemma shown_name_snoc:
  assumes "ns \<noteq> []"
  shows "shown_name k (ns @ [n]) =
    (if blank (long_name n) then shown_name k ns
     else if node_protocol n = ''meshtastic'' \<or> blank (shown_name k ns) \<or>
        (node_protocol (hd ns) = ''meshcore'' \<and> sql_lower (sql_text (shown_name k ns)) = sql_lower (lit k))
       then long_name n else shown_name k ns)"
proof -
  let ?P = "\<lambda>n. \<not> only_the_id k (node_protocol (hd ns)) n" and ?f = "filter (\<lambda>n. \<not> blank (long_name n))"
  let ?s = "since_meshtastic (?f ns)"
  have sub: "set (since_meshtastic xs) \<subseteq> set xs" for xs by (induction xs) auto
  have nb: "\<not> blank (long_name m)" if "m \<in> set ?s" for m using that sub [of "?f ns"] by auto
  have hd: "hd (ns @ [n]) = hd ns" using assms by simp
  consider (blank) "blank (long_name n)" | (mt) "\<not> blank (long_name n)" "node_protocol n = ''meshtastic''"
    | (none) "\<not> blank (long_name n)" "node_protocol n \<noteq> ''meshtastic''" "?f ns = []"
    | (some) m where "\<not> blank (long_name n)" "node_protocol n \<noteq> ''meshtastic''" "?s \<noteq> []" "find ?P ?s = Some m"
    | (ids) "\<not> blank (long_name n)" "node_protocol n \<noteq> ''meshtastic''" "?s \<noteq> []" "find ?P ?s = None"
    by (cases "find ?P ?s") auto
  then show ?thesis
  proof cases
    case blank
    then show ?thesis using hd by (simp add: shown_name_def Let_def)
  next
    case mt
    then show ?thesis using hd by (simp add: shown_name_def since_meshtastic_snoc Let_def)
  next
    case none
    then have "blank (long_name (hd ns))" using assms by (cases ns) (auto split: if_splits)
    then show ?thesis using none hd by (simp add: shown_name_def Let_def)
  next
    case (some m)
    then have m: "m \<in> set ?s" "?P m" by (auto simp: find_Some_iff in_set_conv_nth)
    have "shown_name k ns = long_name m" using some by (simp add: shown_name_def Let_def)
    moreover have "shown_name k (ns @ [n]) = long_name m" using some hd by (simp add: shown_name_def since_meshtastic_snoc find_append Let_def)
    ultimately show ?thesis using some(1,2) m(2) nb [OF m(1)] by (auto simp: only_the_id_def)
  next
    case ids
    then have l: "last ?s \<in> set ?s" "\<not> ?P (last ?s)" by (simp_all add: find_None_iff)
    have "shown_name k ns = long_name (last ?s)" using ids by (simp add: shown_name_def Let_def)
    moreover have "shown_name k (ns @ [n]) = long_name n"
      using ids hd by (simp add: shown_name_def since_meshtastic_snoc find_append Let_def)
    ultimately show ?thesis using ids(1,2) l(2) by (auto simp: only_the_id_def)
  qed
qed

lemma node_facts_fresh: "node_facts (node_id n) [Reported t n] (excluded_row t n)"
  by (simp add: node_facts_def excluded_row_def latest_known_def coalesce_def shown_name_fresh)

lemma node_facts_report:
  assumes "h \<noteq> []" "reports h \<noteq> []" "node_facts k h r" "node_id n = k"
  shows "node_facts k (h @ [Reported t n]) (merge_row (excluded_row t n) r)"
proof -
  have "nr_long_name (merge_row (excluded_row t n) r) = shown_name k (reports h @ [n])"
    using assms shown_name_snoc [OF assms(2), of k n]
    by (auto simp: node_facts_def merge_row_def merged_long_name_def excluded_row_def)
  then show ?thesis using assms
    by (simp add: node_facts_def merge_row_def excluded_row_def latest_known_snoc)
qed

lemma node_facts_count:
  assumes "h \<noteq> []" "reports h \<noteq> []" "node_facts k h r"
  shows "node_facts k (h @ [Counted t k]) (r\<lparr>nr_packet_count := nr_packet_count r + 1, nr_last_heard := t\<rparr>)"
  using assms by (simp add: node_facts_def)

lemma get_increment:
  "get_by_id k (increment_packet_count t k' db) =
     (if k = k' then map_option (\<lambda>r. r\<lparr>nr_packet_count := nr_packet_count r + 1, nr_last_heard := t\<rparr>) (get_by_id k db) else get_by_id k db)"
  by (simp add: get_by_id_def increment_packet_count_def find_update_where)

lemma node_history_snoc:
  "node_history k (es @ [e]) =
     (if event_node e \<noteq> k \<or> (node_history k es = [] \<and> reported e = None) then node_history k es else node_history k es @ [e])"
  by (auto simp: node_history_def dropWhile_append eq_commute [of "[]"])

lemma node_history_reports: "node_history k es \<noteq> [] \<Longrightarrow> reports (node_history k es) \<noteq> []"
proof -
  assume ne: "node_history k es \<noteq> []"
  then have "reported (hd (node_history k es)) \<noteq> None"
    unfolding node_history_def by (metis (mono_tags, lifting) hd_dropWhile)
  then show ?thesis using ne by (cases "node_history k es"; cases "hd (node_history k es)") auto
qed

lemma node_row_history:
  "case get_by_id k (fold apply_node_event es empty_database) of
     None \<Rightarrow> node_history k es = []
   | Some r \<Rightarrow> node_history k es \<noteq> [] \<and> node_facts k (node_history k es) r"
proof (induction es rule: rev_induct)
  case Nil
  then show ?case by (simp add: get_by_id_def empty_database_def node_history_def)
next
  case (snoc e es)
  let ?db = "fold apply_node_event es empty_database"
  show ?case
  proof (cases e)
    case (Reported t n)
    show ?thesis
    proof (cases "get_by_id k ?db")
      case None
      then show ?thesis using snoc Reported node_facts_fresh [of n t] by (auto simp: get_node_upsert node_history_snoc)
    next
      case (Some r)
      then show ?thesis using snoc Reported node_facts_report [of "node_history k es" k r n t] node_history_reports [of k es]
        by (auto simp: get_node_upsert node_history_snoc)
    qed
  next
    case (Counted t k')
    show ?thesis
    proof (cases "get_by_id k ?db")
      case None
      then show ?thesis using snoc Counted by (auto simp: get_increment node_history_snoc)
    next
      case (Some r)
      then show ?thesis using snoc Counted node_facts_count [of "node_history k es" k r t] node_history_reports [of k es]
        by (auto simp: get_increment node_history_snoc)
    qed
  qed
qed


section \<open>Retention\<close>

lemma delete_oldest_one_mset:
  "rows \<noteq> [] \<Longrightarrow> \<exists>d. mset rows = add_mset d (mset (delete_oldest_one key rows)) \<and> (\<forall>r \<in> set rows. key d \<le> key r)"
proof (induction rows)
  case (Cons r rs)
  show ?case
  proof (cases "list_all (\<lambda>s. key r \<le> key s) rs")
    case True
    then show ?thesis by (auto simp: list_all_iff)
  next
    case False
    then have "rs \<noteq> []" by auto
    then obtain d where d: "mset rs = add_mset d (mset (delete_oldest_one key rs))" "\<forall>x \<in> set rs. key d \<le> key x"
      using Cons.IH by blast
    obtain x where "x \<in> set rs" "key x < key r" using False by (auto simp: list_all_iff not_le)
    then have "key d \<le> key r" using d(2) by (meson less_imp_le order_trans)
    then show ?thesis using d False by (auto simp: add_mset_commute)
  qed
qed simp

lemma delete_oldest_newest:
  assumes "n \<le> length rows"
  shows "\<exists>gone. mset rows = mset gone + mset (delete_oldest n key rows) \<and> length gone = n \<and>
    (\<forall>d \<in> set gone. \<forall>k \<in> set (delete_oldest n key rows). key d \<le> key k)"
  using assms
proof (induction n)
  case 0
  then show ?case by (simp add: delete_oldest_def)
next
  case (Suc n)
  let ?rest = "delete_oldest n key rows"
  obtain gone where g: "mset rows = mset gone + mset ?rest" "length gone = n"
      "\<forall>d \<in> set gone. \<forall>k \<in> set ?rest. key d \<le> key k" using Suc by auto
  have "length rows = length gone + length ?rest" using g(1) by (metis size_mset size_union)
  then have "?rest \<noteq> []" using g(2) Suc.prems by auto
  then obtain d where d: "mset ?rest = add_mset d (mset (delete_oldest_one key ?rest))" "\<forall>r \<in> set ?rest. key d \<le> key r"
    using delete_oldest_one_mset by blast
  have sub: "set (delete_oldest_one key ?rest) \<subseteq> set ?rest" "d \<in> set ?rest"
    using d(1) by (metis in_multiset_in_set insert_subset set_mset_add_mset_insert set_mset_mset subsetI insertI2) (metis d(1) set_mset_mset union_single_eq_member)
  have step: "delete_oldest (Suc n) key rows = delete_oldest_one key ?rest" by (simp add: delete_oldest_def)
  have "mset rows = mset (d # gone) + mset (delete_oldest (Suc n) key rows)" using g(1) d(1) step by simp
  moreover have "\<forall>x \<in> set (d # gone). \<forall>k \<in> set (delete_oldest (Suc n) key rows). key x \<le> key k"
    using g(3) d(2) sub step by auto
  ultimately show ?case using g(2) by (metis length_Cons)
qed



section \<open>Buckets\<close>

lemma time_span_bounds:
  assumes "time_span ts = Some (lo, hi)"
  shows "lo \<in> set ts" "hi \<in> set ts" "\<And>t. t \<in> set ts \<Longrightarrow> lo \<le> t \<and> t \<le> hi"
proof -
  obtain x xs where ts: "ts = x # xs" using assms by (cases ts) (simp_all add: time_span_def)
  have "fold min xs x = Min (set ts)" "fold max xs x = Max (set ts)"
    unfolding ts by (rule Min.set_eq_fold [symmetric], rule Max.set_eq_fold [symmetric])
  then have "lo = Min (set ts)" "hi = Max (set ts)" using assms by (simp_all add: ts time_span_def)
  then show "lo \<in> set ts" "hi \<in> set ts" "\<And>t. t \<in> set ts \<Longrightarrow> lo \<le> t \<and> t \<le> hi" using ts by (auto simp del: set_simps simp: Min_in Max_in)
qed

text \<open>The first \<open>n\<close> of a sorted interval stop before its end when it has more elements.\<close>

lemma take_interval:
  fixes a c :: int
  assumes "a + int n \<le> c" "k \<in> set (take n (sorted_list_of_set {a..c}))"
  shows "k < c"
proof -
  have n: "n < length (sorted_list_of_set {a..c})" using assms(1) by simp
  obtain i where i: "i < n" "k = sorted_list_of_set {a..c} ! i" using assms(2) n by (auto simp: in_set_conv_nth)
  have "sorted_list_of_set {a..c} ! i < sorted_list_of_set {a..c} ! n"
    using i(1) n strict_sorted_list_of_set sorted_wrt_nth_less by blast
  moreover have "sorted_list_of_set {a..c} ! n \<in> {a..c}" using nth_mem [OF n] by simp
  ultimately show ?thesis using i by simp
qed

lemma bucket_distance:
  fixes lo hi :: rat and b limit :: int
  assumes "0 < limit" "0 < b" "of_int (b * limit) \<le> hi - lo"
  shows "\<lfloor>lo\<rfloor> div b + limit \<le> \<lfloor>hi\<rfloor> div b"
proof -
  have "lo + of_int (b * limit) \<le> hi" using assms(3) by linarith
  then have "\<lfloor>lo\<rfloor> + b * limit \<le> \<lfloor>hi\<rfloor>" by (metis floor_add_int floor_mono)
  then have "(\<lfloor>lo\<rfloor> + b * limit) div b \<le> \<lfloor>hi\<rfloor> div b" using assms(2) by (rule zdiv_mono1)
  moreover have "(\<lfloor>lo\<rfloor> + b * limit) div b = \<lfloor>lo\<rfloor> div b + limit" using assms(2) by simp
  ultimately show ?thesis by simp
qed

lemma bucket_seconds_span:
  assumes "limit \<ge> 1" "60 * of_int limit \<le> hi - lo"
  shows "60 \<le> bucket_seconds (Some (lo, hi)) limit hours" "of_int (bucket_seconds (Some (lo, hi)) limit hours * limit) \<le> hi - lo"
proof -
  have p: "hi - lo > 0" using assms by (metis less_le_trans mult_pos_pos of_int_0_less_iff zero_less_numeral zero_less_one)
  have q: "60 \<le> (hi - lo) / of_int limit" using assms by (simp add: pos_le_divide_eq)
  then have "py_trunc ((hi - lo) / of_int limit) = \<lfloor>(hi - lo) / of_int limit\<rfloor>" by (simp add: py_trunc_def)
  then have b: "bucket_seconds (Some (lo, hi)) limit hours = \<lfloor>(hi - lo) / of_int limit\<rfloor>"
    using p q assms(1) by (simp add: bucket_seconds_def Let_def max_def le_floor_iff)
  show "60 \<le> bucket_seconds (Some (lo, hi)) limit hours" using b q by (simp add: le_floor_iff)
  have "of_int \<lfloor>(hi - lo) / of_int limit\<rfloor> * (of_int limit :: rat) \<le> (hi - lo) / of_int limit * of_int limit"
    using assms(1) by (intro mult_right_mono) auto
  then show "of_int (bucket_seconds (Some (lo, hi)) limit hours * limit) \<le> hi - lo" using b assms(1) by simp
qed



section \<open>Properties\<close>

text \<open>C26: the node table is exactly the history of its nodes: after any sequence of stored node reports and counted packets (of
  this and of other nodes) a node's row exists iff the node was reported, and carries the time and the protocol of its first report, the time of
  its last event, the packet count of the first report plus one for every later event, in every optional column the most recent
  value that was known, and as its name the first proper name reported since the last Meshtastic report that named it (a MeshCore
  node's bare identifier is no proper name and gives way to a later one). Placeholders made from a repeater's neighbour list are not among the events.\<close>

theorem node_rows_exact:
  "case get_by_id k (fold apply_node_event es empty_database) of
     None \<Rightarrow> node_history k es = []
   | Some r \<Rightarrow> node_history k es \<noteq> [] \<and> node_facts k (node_history k es) r"
  by (rule node_row_history)

text \<open>Retention keeps the newest: pruning leaves at most the configured number of packets, reports how many it removed, and
  nothing it removed is newer than anything it kept.\<close>

lemma cleanup_keeps_newest:
  "\<exists>gone. mset (db_packets db) = mset gone + mset (db_packets (snd (packet_cleanup_old m db))) \<and>
     length gone = fst (packet_cleanup_old m db) \<and> length (db_packets (snd (packet_cleanup_old m db))) \<le> m \<and>
     (list_all (\<lambda>d. list_all (\<lambda>k. pr_timestamp d \<le> pr_timestamp k) (db_packets (snd (packet_cleanup_old m db)))) gone)"
proof (cases "length (db_packets db) \<le> m")
  case True
  then show ?thesis by (intro exI [of _ "[]"]) (simp add: packet_cleanup_old_def cleanup_rows_def)
next
  case False
  let ?n = "length (db_packets db) - m"
  obtain gone where g: "mset (db_packets db) = mset gone + mset (delete_oldest ?n pr_timestamp (db_packets db))" "length gone = ?n"
      "\<forall>d \<in> set gone. \<forall>k \<in> set (delete_oldest ?n pr_timestamp (db_packets db)). pr_timestamp d \<le> pr_timestamp k"
    using delete_oldest_newest [of ?n "db_packets db" pr_timestamp] by auto
  have "length (db_packets db) = length gone + length (delete_oldest ?n pr_timestamp (db_packets db))"
    using g(1) by (metis size_mset size_union)
  then show ?thesis using g False by (intro exI [of _ gone]) (auto simp: packet_cleanup_old_def cleanup_rows_def list_all_iff)
qed

text \<open>The chart of a node's signal is bounded by the requested number of points, but on a dense history it loses its newest point:
  when every bucket from the first to the last sample is occupied and the span is at least a minute per point, no
  returned sample is from the bucket of the newest one.\<close>

lemma history_drops_newest:
  assumes "rows = signal_rows sid (now - hours * 3600) db" "time_span (map pr_timestamp rows) = Some (lo, hi)"
    and "1 \<le> limit" "60 * of_int limit \<le> hi - lo" "b = bucket_seconds (Some (lo, hi)) limit hours"
    and dense: "{bucket_of b lo..bucket_of b hi} \<subseteq> bucket_of b ` set (map pr_timestamp rows)"
    and "x \<in> set (get_signal_history sid limit hours now db)"
  shows "bucket_of b (sa_timestamp x) < bucket_of b hi \<and> length (get_signal_history sid limit hours now db) \<le> nat limit"
proof -
  note span = time_span_bounds [OF assms(2)]
  have b: "60 \<le> b" "of_int (b * limit) \<le> hi - lo" using bucket_seconds_span [OF assms(3,4)] assms(5) by simp_all
  have dist: "bucket_of b lo + limit \<le> bucket_of b hi"
    using bucket_distance [of limit b hi lo] b assms(3) by (simp add: bucket_of_def)
  have "bucket_of b lo \<le> bucket_of b t \<and> bucket_of b t \<le> bucket_of b hi" if "t \<in> set (map pr_timestamp rows)" for t
    using span(3) [OF that] b(1) by (simp add: bucket_of_def zdiv_mono1 floor_mono)
  then have keys: "bucket_of b ` set (map pr_timestamp rows) = {bucket_of b lo..bucket_of b hi}" using dense by fastforce
  have hist: "get_signal_history sid limit hours now db =
      map (\<lambda>k. sample_of (filter (\<lambda>p. bucket_of b (pr_timestamp p) = k) rows))
        (take (nat limit) (sorted_list_of_set {bucket_of b lo..bucket_of b hi}))"
    using assms(1,2,5) keys by (simp add: get_signal_history_def Let_def take_map del: set_map)
  obtain k where k: "k \<in> set (take (nat limit) (sorted_list_of_set {bucket_of b lo..bucket_of b hi}))"
      "x = sample_of (filter (\<lambda>p. bucket_of b (pr_timestamp p) = k) rows)"
    using assms(7) hist by auto
  have "k \<in> {bucket_of b lo..bucket_of b hi}" using in_set_takeD [OF k(1)] by simp
  then have "k \<in> bucket_of b ` set (map pr_timestamp rows)" using keys by blast
  then obtain p where "p \<in> set rows" "bucket_of b (pr_timestamp p) = k" by auto
  then have ne: "set (map pr_timestamp (filter (\<lambda>p. bucket_of b (pr_timestamp p) = k) rows)) \<noteq> {}" by auto
  have "sa_timestamp x \<in> set (map pr_timestamp (filter (\<lambda>p. bucket_of b (pr_timestamp p) = k) rows))"
    using Min_in [OF _ ne] by (simp add: k(2) sample_of_def)
  then have "bucket_of b (sa_timestamp x) = k" by auto
  moreover have "k < bucket_of b hi" using take_interval [OF _ k(1)] dist assms(3) by simp
  ultimately show ?thesis by (simp add: hist)
qed

definition chart_row :: "time \<Rightarrow> packet_row" where
  "chart_row t = \<lparr>pr_packet_id = ''01'', pr_source_id = ''0a'', pr_destination_id = ''ffffffff'', pr_protocol = ''meshtastic'',
     pr_packet_type = ''text'', pr_payload = None, pr_rssi = Some (- 90), pr_snr = None, pr_capture_source = ''concentrator'',
     pr_timestamp = t\<rparr>"

lemma history_drops_newest_witness:
  "\<exists>x. x \<in> set (get_signal_history ''0a'' 2 24 200 (empty_database\<lparr>db_packets := map chart_row [0, 100, 178]\<rparr>)) \<and>
     bucket_of 89 (sa_timestamp x) < bucket_of 89 178"
proof -
  let ?db = "empty_database\<lparr>db_packets := map chart_row [0, 100, 178]\<rparr>"
  have rows: "signal_rows ''0a'' (200 - 24 * 3600) ?db = map chart_row [0, 100, 178]" by (simp add: signal_rows_def chart_row_def)
  have span: "time_span (map pr_timestamp (map chart_row [0, 100, 178])) = Some (0, 178)" by (simp add: time_span_def chart_row_def)
  have b: "bucket_seconds (Some (0, 178)) 2 24 = 89" by (simp add: bucket_seconds_def py_trunc_def)
  have keys: "bucket_of 89 ` set (map pr_timestamp (map chart_row [0, 100, 178])) = {0, 1, 2}" by (simp add: bucket_of_def chart_row_def)
  have "get_signal_history ''0a'' 2 24 200 ?db \<noteq> []"
    unfolding get_signal_history_def Let_def rows span b keys by simp
  then have x: "hd (get_signal_history ''0a'' 2 24 200 ?db) \<in> set (get_signal_history ''0a'' 2 24 200 ?db)" by simp
  have "{bucket_of 89 0..bucket_of 89 178} \<subseteq> bucket_of 89 ` set (map pr_timestamp (map chart_row [0, 100, 178]))"
    unfolding keys by (auto simp: bucket_of_def)
  from history_drops_newest [OF rows [symmetric] span _ _ b [symmetric] this x] x show ?thesis by auto
qed

text \<open>A node that was heard once and has not told its name counts as a phantom: its row has packet count 0, and wiping the rows
  created by corrupted receptions deletes it.\<close>

lemma heard_once_is_phantom:
  assumes "blank (long_name n)" "blank (short_name n)" "node_id n \<notin> nr_node_id ` set (db_nodes db)" "packet_count n = 0"
  shows "(\<exists>r. get_by_id (node_id n) (node_upsert t n db) = Some r \<and> nr_packet_count r = 0) \<and>
    get_by_id (node_id n) (snd (delete_phantom_rows (node_upsert t n db))) = None"
proof -
  have new: "db_nodes (node_upsert t n db) = db_nodes db @ [excluded_row t n]"
    using assms(3) by (simp add: node_upsert_def insert_or_update_def)
  have "phantom (excluded_row t n)"
    using assms(1,2,4) by (auto simp: phantom_def excluded_row_def blank_def ustrip_def)
  then have "node_id n \<notin> nr_node_id ` set (db_nodes (snd (delete_phantom_rows (node_upsert t n db))))"
    using assms(3) by (auto simp: delete_phantom_rows_def new)
  then have "get_by_id (node_id n) (snd (delete_phantom_rows (node_upsert t n db))) = None" by (simp add: get_by_id_def find_key_None)
  moreover have "get_by_id (node_id n) db = None" using assms(3) by (simp add: get_by_id_def find_key_None)
  then have "get_by_id (node_id n) (node_upsert t n db) = Some (excluded_row t n)" by (simp add: get_node_upsert)
  ultimately show ?thesis using assms(4) by (simp add: excluded_row_def)
qed

lemma heard_once_is_phantom_witness:
  "get_by_id ''0a'' (snd (delete_phantom_rows (node_upsert 5 (default_node ''0a'' ''meshtastic'' 5) empty_database))) = None"
  using heard_once_is_phantom [of "default_node ''0a'' ''meshtastic'' 5" empty_database 5]
  by (simp add: default_node_def blank_def empty_database_def)

text \<open>A neighbour report can make a node look older than it is: once the node's own packets have been pruned, a report
  with an older time overwrites the time it was last heard.\<close>

lemma neighbour_report_unfreshens:
  assumes "get_by_id nid db = Some r" "own_packets nid db = []"
  shows "\<exists>r'. get_by_id nid (upsert_from_neighbour_report nid heard db) = Some r' \<and> nr_last_heard r' = heard"
proof -
  have "nid \<in> nr_node_id ` set (db_nodes db)"
    using assms(1) find_key_None [of nr_node_id nid "db_nodes db"] by (auto simp: get_by_id_def)
  moreover have "nr_node_id r = nid" using find_SomeE(1) [OF assms(1) [unfolded get_by_id_def]] by simp
  ultimately show ?thesis
    using assms by (simp add: get_by_id_def upsert_from_neighbour_report_def insert_or_update_def neighbour_row_def
        find_update_where merge_neighbour_def)
qed

lemma neighbour_report_unfreshens_witness:
  "\<exists>r'. get_by_id ''0a'' (upsert_from_neighbour_report ''0a'' 100 (node_upsert 5 (default_node ''0a'' ''meshcore'' 9000) empty_database)) =
     Some r' \<and> nr_last_heard r' = 100"
proof (rule neighbour_report_unfreshens)
  show "get_by_id ''0a'' (node_upsert 5 (default_node ''0a'' ''meshcore'' 9000) empty_database) =
      Some (excluded_row 5 (default_node ''0a'' ''meshcore'' 9000))"
    by (simp add: get_node_upsert default_node_def) (simp add: get_by_id_def empty_database_def)
  show "own_packets ''0a'' (node_upsert 5 (default_node ''0a'' ''meshcore'' 9000) empty_database) = []"
    by (simp add: own_packets_def node_upsert_def empty_database_def)
qed

section \<open>Received messages\<close>

definition messages_ok :: "database \<Rightarrow> bool" where
  "messages_ok db \<longleftrightarrow> distinct (map me_id (db_messages db)) \<and> (\<forall>m \<in> set (db_messages db). me_id m < db_next_message db)"

definition best_rssi :: "(rat option \<times> rat option) list \<Rightarrow> rat option" where
  "best_rssi rs = fold (\<lambda>(r, sn) b. case r of None \<Rightarrow> b | Some x \<Rightarrow> (case b of None \<Rightarrow> Some x | Some y \<Rightarrow> Some (max y x))) rs None"

lemma best_rssi_snoc:
  "best_rssi (rs @ [(r, sn)]) = (case r of None \<Rightarrow> best_rssi rs | Some x \<Rightarrow> (case best_rssi rs of None \<Rightarrow> Some x | Some y \<Rightarrow> Some (max y x)))"
  unfolding best_rssi_def by simp

lemma update_where_key:
  assumes "\<And>m. key (f m) = key m"
  shows "map key (update_where P f rows) = map key rows"
  using assms by (simp add: update_where_def)

lemma find_filter: "find P xs = (case filter P xs of [] \<Rightarrow> None | x # _ \<Rightarrow> Some x)"
  by (induction xs) auto

text \<open>An update of the row with a given id, in a table without a second one, acts on the selected rows alone.\<close>

lemma filter_update_id:
  assumes "distinct (map me_id rows)" "r \<in> set rows" "P r" "\<And>m. P (f m) = P m"
  shows "filter (\<lambda>m. \<not> P m) (update_where (\<lambda>m. me_id m = me_id r) f rows) = filter (\<lambda>m. \<not> P m) rows"
    "filter P rows = [r] \<Longrightarrow> filter P (update_where (\<lambda>m. me_id m = me_id r) f rows) = [f r]"
proof -
  have only: "m = r" if "m \<in> set rows" "me_id m = me_id r" for m
    using assms(1,2) that by (metis inj_on_eq_iff distinct_map)
  have u: "filter Q (update_where (\<lambda>m. me_id m = me_id r) f rows) = map (\<lambda>m. if me_id m = me_id r then f m else m) (filter Q rows)"
    if "\<And>m. Q (f m) = Q m" for Q
    unfolding update_where_def filter_map using that by (intro arg_cong [where f = "map _"] filter_cong) auto
  show "filter (\<lambda>m. \<not> P m) (update_where (\<lambda>m. me_id m = me_id r) f rows) = filter (\<lambda>m. \<not> P m) rows"
  proof -
    have "map (\<lambda>m. if me_id m = me_id r then f m else m) (filter (\<lambda>m. \<not> P m) rows) = filter (\<lambda>m. \<not> P m) rows"
      using assms(3) only by (intro map_idI) auto
    then show ?thesis using u [of "\<lambda>m. \<not> P m"] assms(4) by simp
  qed
  show "filter P rows = [r] \<Longrightarrow> filter P (update_where (\<lambda>m. me_id m = me_id r) f rows) = [f r]"
    using u [of P] assms(4) by simp
qed

text \<open>A further reception of a stored message touches its row only.\<close>

lemma save_received_again:
  assumes ok: "messages_ok db" and r: "filter (\<lambda>m. me_packet_id m = pid) (db_messages db) = [r]" "pid \<noteq> []" "me_rx_count r > 0"
    and sv: "save_received now msg nid name proto ch pid dir rs sn db = (res, db')"
  shows "messages_ok db'" "filter (\<lambda>m. me_packet_id m \<noteq> pid) (db_messages db') = filter (\<lambda>m. me_packet_id m \<noteq> pid) (db_messages db)"
    "\<exists>r'. filter (\<lambda>m. me_packet_id m = pid) (db_messages db') = [r'] \<and> me_rx_count r' = me_rx_count r + 1 \<and> me_text r' = me_text r \<and>
      me_rssi r' = (case rs of None \<Rightarrow> me_rssi r | Some x \<Rightarrow> (case me_rssi r of None \<Rightarrow> Some x | Some y \<Rightarrow> Some (max y x)))"
proof -
  have "r \<in> set (filter (\<lambda>m. me_packet_id m = pid) (db_messages db))" using r(1) by simp
  then have mem: "r \<in> set (db_messages db)" "me_packet_id r = pid" by simp_all
  define better where "better = (case rs of None \<Rightarrow> False | Some x \<Rightarrow> (case me_rssi r of None \<Rightarrow> True | Some r0 \<Rightarrow> x > r0))"
  define f where "f = (\<lambda>m :: message_row. if better then m\<lparr>me_rssi := rs, me_snr := sn, me_rx_count := me_rx_count r + 1\<rparr>
      else m\<lparr>me_rx_count := me_rx_count r + 1\<rparr>)"
  have db': "db' = db\<lparr>db_messages := update_where (\<lambda>m. me_id m = me_id r) f (db_messages db)\<rparr>"
    using sv r by (auto simp: save_received_def find_filter Let_def better_def f_def cong: if_cong)
  have f: "me_id (f m) = me_id m" "me_packet_id (f m) = me_packet_id m" for m by (simp_all add: f_def)
  have d: "distinct (map me_id (db_messages db))" using ok by (simp add: messages_ok_def)
  show "messages_ok db'"
    using ok f by (auto simp: messages_ok_def db' update_where_key) (auto simp: update_where_def)
  note fu = filter_update_id [OF d mem(1), where P = "\<lambda>m. me_packet_id m = pid" and f = f]
  show "filter (\<lambda>m. me_packet_id m \<noteq> pid) (db_messages db') = filter (\<lambda>m. me_packet_id m \<noteq> pid) (db_messages db)"
    using fu(1) mem(2) f(2) by (simp add: db')
  have "filter (\<lambda>m. me_packet_id m = pid) (db_messages db') = [f r]" using fu(2) mem(2) f(2) r(1) by (simp add: db')
  moreover have "me_rssi (f r) = (case rs of None \<Rightarrow> me_rssi r | Some x \<Rightarrow> (case me_rssi r of None \<Rightarrow> Some x | Some y \<Rightarrow> Some (max y x)))"
    by (auto simp: f_def better_def max_def split: option.splits)
  ultimately show "\<exists>r'. filter (\<lambda>m. me_packet_id m = pid) (db_messages db') = [r'] \<and> me_rx_count r' = me_rx_count r + 1 \<and>
      me_text r' = me_text r \<and> me_rssi r' = (case rs of None \<Rightarrow> me_rssi r | Some x \<Rightarrow> (case me_rssi r of None \<Rightarrow> Some x | Some y \<Rightarrow> Some (max y x)))"
    by (simp add: f_def)
qed

text \<open>The same packet heard several times, each with its signal.\<close>

definition receptions ::
    "time \<Rightarrow> ustr \<Rightarrow> string \<Rightarrow> ustr \<Rightarrow> string \<Rightarrow> int \<Rightarrow> string \<Rightarrow> string \<Rightarrow> (rat option \<times> rat option) list \<Rightarrow> database \<Rightarrow> database" where
  "receptions now msg nid name proto ch pid dir recs db =
     fold (\<lambda>(rs, sn) db. snd (save_received now msg nid name proto ch pid dir rs sn db)) recs db"

text \<open>C30: a text heard over several paths is one message: after any number of receptions with the same (non-empty) packet id the table
  has exactly one row for it, the text of the first, a reception count equal to the number of receptions and the
  strongest signal reported; every other row is as before.\<close>

theorem received_once:
  assumes "messages_ok db" "pid \<noteq> []" "pid \<notin> me_packet_id ` set (db_messages db)" "recs \<noteq> []"
    and "db' = receptions now msg nid name proto ch pid dir recs db"
  shows "\<exists>r. filter (\<lambda>m. me_packet_id m = pid) (db_messages db') = [r] \<and> me_text r = msg \<and>
    me_rx_count r = int (length recs) \<and> me_rssi r = best_rssi recs \<and>
    filter (\<lambda>m. me_packet_id m \<noteq> pid) (db_messages db') = db_messages db"
proof -
  have "messages_ok db' \<and> (\<exists>r. filter (\<lambda>m. me_packet_id m = pid) (db_messages db') = [r] \<and> me_text r = msg \<and>
    me_rx_count r = int (length recs) \<and> me_rssi r = best_rssi recs \<and>
    filter (\<lambda>m. me_packet_id m \<noteq> pid) (db_messages db') = db_messages db)"
    using assms(4) unfolding assms(5) receptions_def
  proof (induction recs rule: rev_induct)
    case (snoc u recs)
    obtain rs sn where u: "u = (rs, sn)" by (cases u)
    show ?case
    proof (cases "recs = []")
      case True
      have n: "filter (\<lambda>m. me_packet_id m = pid) (db_messages db) = []" "filter (\<lambda>m. me_packet_id m \<noteq> pid) (db_messages db) = db_messages db"
        using assms(3) by (auto simp: filter_empty_conv filter_id_conv)
      then show ?thesis using True assms(1,2)
        by (auto simp: u save_received_def find_filter messages_ok_def best_rssi_def split: option.splits)
    next
      case False
      let ?db = "fold (\<lambda>(rs, sn) db. snd (save_received now msg nid name proto ch pid dir rs sn db)) recs db"
      obtain r where r: "messages_ok ?db" "filter (\<lambda>m. me_packet_id m = pid) (db_messages ?db) = [r]" "me_text r = msg"
          "me_rx_count r = int (length recs)" "me_rssi r = best_rssi recs"
          "filter (\<lambda>m. me_packet_id m \<noteq> pid) (db_messages ?db) = db_messages db" using snoc.IH False by blast
      have "me_rx_count r > 0" using r(4) False by simp
      note again = save_received_again [OF r(1,2) assms(2) this surjective_pairing, of now msg nid name proto ch dir rs sn]
      show ?thesis using again [unfolded r(5)] r by (auto simp: u best_rssi_snoc)
    qed
  qed simp
  then show ?thesis by blast
qed

theorem received_once_witness:
  "\<exists>r. filter (\<lambda>m. me_packet_id m = ''0001'') (db_messages
       (receptions 7 (lit ''hi'') ''0a'' [] ''meshtastic'' 0 ''0001'' ''received'' [(Some (- 90), None), (Some (- 70), None)] empty_database)) = [r] \<and>
     me_rx_count r = 2 \<and> me_rssi r = Some (- 70)"
  using received_once [OF _ _ _ _ refl, of empty_database "''0001''" "[(Some (- 90), None), (Some (- 70), None)]" 7 "lit ''hi''" "''0a''" "[]" "''meshtastic''" 0 "''received''"]
  by (auto simp: messages_ok_def empty_database_def best_rssi_def)

end
