(* ===== verification/Keyed_Store.thy ===== *)
theory Keyed_Store
  imports Main
begin

text \<open>
  The contract that the gateway's tables share, whatever they are made of: an update carries a key or none; the
  first update of a key creates its row, a later one is merged into it, and no other row changes. The client's
  lemma: the row of a key is the history of the updates that carry it.
\<close>

definition absorb :: "('u \<Rightarrow> 'r) \<Rightarrow> ('u \<Rightarrow> 'r \<Rightarrow> 'r) \<Rightarrow> 'u \<Rightarrow> 'r option \<Rightarrow> 'r option" where
  "absorb fresh merge u r = Some (case r of None \<Rightarrow> fresh u | Some x \<Rightarrow> merge u x)"

lemma absorb_simps [simp]:
  "absorb fresh merge u None = Some (fresh u)" "absorb fresh merge u (Some r) = Some (merge u r)"
  by (simp_all add: absorb_def)

text \<open>The history of one row.\<close>

lemma fold_absorb_None_iff [simp]: "fold (absorb fresh merge) us r = None \<longleftrightarrow> us = [] \<and> r = None"
  by (induction us arbitrary: r) (auto simp: absorb_def)

lemma fold_absorb_facts:
  assumes "us \<noteq> []" and "\<And>u. P [u] (fresh u)" and "\<And>us u r. us \<noteq> [] \<Longrightarrow> P us r \<Longrightarrow> P (us @ [u]) (merge u r)"
  shows "\<exists>r. fold (absorb fresh merge) us None = Some r \<and> P us r"
  using assms(1)
proof (induction us rule: rev_nonempty_induct)
  case (snoc u us)
  then obtain r where "fold (absorb fresh merge) us None = Some r" "P us r" by blast
  then show ?case using assms(3) [of us r u] snoc.hyps by simp
qed (simp add: assms(2))

locale keyed_store =
  fixes key_of :: "'u \<Rightarrow> 'k option"
    and fresh :: "'u \<Rightarrow> 'r"
    and merge :: "'u \<Rightarrow> 'r \<Rightarrow> 'r"
    and get :: "'k \<Rightarrow> 's \<Rightarrow> 'r option"
    and put :: "'u \<Rightarrow> 's \<Rightarrow> 's"
  assumes get_put: "get k (put u s) = (if key_of u = Some k then absorb fresh merge u (get k s) else get k s)"
begin

lemma get_puts: "get k (fold put us s) = fold (absorb fresh merge) (filter (\<lambda>u. key_of u = Some k) us) (get k s)"
  by (induction us arbitrary: s) (simp_all add: get_put)

text \<open>What holds of a new row and survives a merge, holds of every row and the updates that made it.\<close>

lemma row_facts:
  assumes "get k s = None" "\<And>u. P [u] (fresh u)" "\<And>us u r. us \<noteq> [] \<Longrightarrow> P us r \<Longrightarrow> P (us @ [u]) (merge u r)"
  shows "case get k (fold put us s) of
      None \<Rightarrow> filter (\<lambda>u. key_of u = Some k) us = []
    | Some r \<Rightarrow> filter (\<lambda>u. key_of u = Some k) us \<noteq> [] \<and> P (filter (\<lambda>u. key_of u = Some k) us) r"
proof (cases "filter (\<lambda>u. key_of u = Some k) us = []")
  case True
  then show ?thesis using get_puts [of k us s] assms(1) by simp
next
  case False
  have "\<exists>r. fold (absorb fresh merge) (filter (\<lambda>u. key_of u = Some k) us) None = Some r \<and> P (filter (\<lambda>u. key_of u = Some k) us) r"
    using False assms(2,3) by (rule fold_absorb_facts)
  then show ?thesis using get_puts [of k us s] assms(1) False by auto
qed

end

end
