(* ===== verification/Analytics.thy ===== *)
theory Analytics
  imports Models Keyed_Store "HOL-Library.List_Lexorder" "HOL-Library.Char_ord" "HOL-Library.Product_Lexorder"
begin

text \<open>
  \<^verbatim>\<open>src/src/analytics/\<close>: the histograms of received signal strength and the accumulator of the heartbeat statistics;
  \<^verbatim>\<open>src/src/api/topology_graph.py\<close>: the network graph of the dashboard. Numbers are rationals; the
  functions of \<^verbatim>\<open>math\<close> and the rounding of the float operations in the great-circle distance are a parameter.
\<close>

section \<open>Histograms\<close>

definition RSSI_NEAR_FIELD_CEILING_DBM :: rat where
  "RSSI_NEAR_FIELD_CEILING_DBM = - 20"

text \<open>\<^verbatim>\<open>v // size\<close> of a float.\<close>

definition bucket_index :: "int \<Rightarrow> rat \<Rightarrow> int" where
  "bucket_index width v = \<lfloor>v / of_int width\<rfloor>"

definition count_into :: "int \<Rightarrow> int \<Rightarrow> rat \<Rightarrow> nat list \<Rightarrow> nat list" where
  "count_into width lo v counts =
     (let i = nat (min (bucket_index width (v - of_int lo)) (int (length counts) - 1)) in counts[i := counts ! i + 1])"

definition histogram :: "int \<Rightarrow> rat list \<Rightarrow> int list \<times> nat list" where
  "histogram width vs =
     (if vs = [] then ([], [])
      else
        let lo = bucket_index width (Min (set vs)) * width;
            hi = (bucket_index width (Max (set vs)) + 1) * width;
            buckets = map (\<lambda>i. lo + int i * width) [0..<nat ((hi + width - lo) div width)]
        in (buckets, fold (count_into width lo) vs (replicate (length buckets) 0)))"

definition rssi_distribution :: "packet list \<Rightarrow> int list \<times> nat list" where
  "rssi_distribution packets =
     histogram 5 (filter (\<lambda>r. r < RSSI_NEAR_FIELD_CEILING_DBM) (List.map_filter (\<lambda>p. map_option rssi (signal p)) packets))"

definition snr_distribution :: "packet list \<Rightarrow> int list \<times> nat list" where
  "snr_distribution packets = histogram 2 (List.map_filter (\<lambda>p. map_option snr (signal p)) packets)"

definition signal_summary :: "packet list \<Rightarrow> (rat \<times> rat \<times> rat \<times> rat) option \<times> nat" where
  "signal_summary packets =
     (let rs = filter (\<lambda>r. r < RSSI_NEAR_FIELD_CEILING_DBM) (List.map_filter (\<lambda>p. map_option rssi (signal p)) packets);
          ss = List.map_filter (\<lambda>p. map_option snr (signal p)) packets
      in if rs = [] then (None, 0)
         else (Some (py_round 1 (sum_list rs / of_nat (length rs)), py_round 1 (Min (set rs)), py_round 1 (Max (set rs)),
                     py_round 1 (sum_list ss / of_nat (length ss))), length rs))"

text \<open>\<^verbatim>\<open>TrafficMonitor.get_recent_activity\<close>: the counts of the timeline, a bucket per \<open>step\<close> minutes from the cutoff on.\<close>

definition bucket_starts :: "nat \<Rightarrow> nat \<Rightarrow> nat list" where
  "bucket_starts minutes step = map (\<lambda>k. k * step) [0..<(minutes + step - 1) div step]"

definition recent_activity :: "nat \<Rightarrow> nat \<Rightarrow> rat \<Rightarrow> rat list \<Rightarrow> nat list" where
  "recent_activity minutes step now ts =
     (let cutoff = now - of_nat (60 * minutes) in
      map (\<lambda>i. length (filter (\<lambda>t. cutoff + of_nat (60 * i) \<le> t \<and> t < cutoff + of_nat (60 * i) + of_nat (60 * step)) ts))
        (bucket_starts minutes step))"


section \<open>Heartbeat statistics\<close>

record stats =
  st_start_time :: rat
  st_total_packets :: nat
  st_protocols :: "(string \<times> nat) list"
  st_packet_types :: "(string \<times> nat) list"
  st_rssi_excellent :: nat
  st_rssi_good :: nat
  st_rssi_fair :: nat
  st_rssi_weak :: nat
  st_rssi_sum :: rat
  st_rssi_count :: nat
  st_best_rssi :: "rat option"
  st_snr_sum :: rat
  st_snr_count :: nat
  st_best_snr :: "rat option"
  st_direct_count :: nat
  st_relayed_count :: nat
  st_farthest_direct_miles :: rat
  st_farthest_direct_node_id :: string
  st_farthest_direct_rssi :: "int option"
  st_changed_nodes :: "(string \<times> node) list"

definition stats_init :: "rat \<Rightarrow> stats" where
  "stats_init now = \<lparr>st_start_time = now, st_total_packets = 0, st_protocols = [], st_packet_types = [], st_rssi_excellent = 0,
     st_rssi_good = 0, st_rssi_fair = 0, st_rssi_weak = 0, st_rssi_sum = 0, st_rssi_count = 0, st_best_rssi = None,
     st_snr_sum = 0, st_snr_count = 0, st_best_snr = None, st_direct_count = 0, st_relayed_count = 0,
     st_farthest_direct_miles = 0, st_farthest_direct_node_id = [], st_farthest_direct_rssi = None, st_changed_nodes = []\<rparr>"

definition bump :: "string \<Rightarrow> (string \<times> nat) list \<Rightarrow> (string \<times> nat) list" where
  "bump k d = AList.update k ((case map_of d k of Some n \<Rightarrow> n | None \<Rightarrow> 0) + 1) d"

definition classify_rssi :: "rat \<Rightarrow> stats \<Rightarrow> stats" where
  "classify_rssi r st =
     (if r > - 80 then st\<lparr>st_rssi_excellent := st_rssi_excellent st + 1\<rparr>
      else if r > - 100 then st\<lparr>st_rssi_good := st_rssi_good st + 1\<rparr>
      else if r > - 115 then st\<lparr>st_rssi_fair := st_rssi_fair st + 1\<rparr>
      else st\<lparr>st_rssi_weak := st_rssi_weak st + 1\<rparr>)"

definition better_of :: "rat \<Rightarrow> rat option \<Rightarrow> rat option" where
  "better_of r b = (case b of None \<Rightarrow> Some r | Some x \<Rightarrow> if r > x then Some r else Some x)"

definition hops_consumed :: "int \<Rightarrow> int \<Rightarrow> int" where
  "hops_consumed start limit = (if start > 0 then start - limit else 0)"

definition record_packet :: "string \<Rightarrow> string \<Rightarrow> rat option \<Rightarrow> rat option \<Rightarrow> int \<Rightarrow> int \<Rightarrow> stats \<Rightarrow> stats" where
  "record_packet proto ptype rs sn start limit st =
     (let st1 = st\<lparr>st_total_packets := st_total_packets st + 1, st_protocols := bump proto (st_protocols st),
                   st_packet_types := bump ptype (st_packet_types st)\<rparr>;
          st2 = (case rs of
                   Some r \<Rightarrow>
                     if r < RSSI_NEAR_FIELD_CEILING_DBM then
                       (let c = classify_rssi r st1 in
                        c\<lparr>st_rssi_sum := st_rssi_sum c + r, st_rssi_count := st_rssi_count c + 1,
                          st_best_rssi := better_of r (st_best_rssi c)\<rparr>)
                     else st1
                 | None \<Rightarrow> st1);
          st3 = (case sn of
                   Some x \<Rightarrow> st2\<lparr>st_snr_sum := st_snr_sum st2 + x, st_snr_count := st_snr_count st2 + 1,
                                  st_best_snr := better_of x (st_best_snr st2)\<rparr>
                 | None \<Rightarrow> st2)
      in if hops_consumed start limit = 0 then st3\<lparr>st_direct_count := st_direct_count st3 + 1\<rparr>
         else st3\<lparr>st_relayed_count := st_relayed_count st3 + 1\<rparr>)"

definition MAX_PLAUSIBLE_DISTANCE_MI :: rat where
  "MAX_PLAUSIBLE_DISTANCE_MI = 3600 / (160934 / 100000)"

definition is_real_position :: "rat \<Rightarrow> rat \<Rightarrow> bool" where
  "is_real_position lat lon \<longleftrightarrow> \<not> (lat = 0 \<and> lon = 0)"

text \<open>The functions of \<^verbatim>\<open>math\<close> on floats, and the rounding of the result of a float operation.\<close>

record math_lib =
  ml_round :: "rat \<Rightarrow> rat"
  ml_radians :: "rat \<Rightarrow> rat"
  ml_sin :: "rat \<Rightarrow> rat"
  ml_cos :: "rat \<Rightarrow> rat"
  ml_sqrt :: "rat \<Rightarrow> rat"
  ml_atan2 :: "rat \<Rightarrow> rat \<Rightarrow> rat"

text \<open>\<^const>\<open>None\<close>: the \<^verbatim>\<open>ValueError\<close> of \<^verbatim>\<open>math.sqrt\<close>, where rounding, or a latitude beyond the poles, makes \<open>a\<close> or
  \<open>1 - a\<close> negative.\<close>

definition haversine_mi :: "math_lib \<Rightarrow> rat \<Rightarrow> rat \<Rightarrow> rat \<Rightarrow> rat \<Rightarrow> rat option" where
  "haversine_mi M lat1 lon1 lat2 lon2 =
     (let fl = ml_round M;
          r = fl (39588 / 10);
          dlat = ml_radians M (fl (lat2 - lat1));
          dlon = ml_radians M (fl (lon2 - lon1));
          a = fl (fl (ml_sin M (fl (dlat / 2)) ^ 2)
                + fl (fl (ml_cos M (ml_radians M lat1) * ml_cos M (ml_radians M lat2))
                    * fl (ml_sin M (fl (dlon / 2)) ^ 2)));
          b = fl (1 - a)
      in if a < 0 \<or> b < 0 then None
         else Some (fl (fl (r * 2) * ml_atan2 M (ml_sqrt M a) (ml_sqrt M b))))"

definition record_farthest_direct ::
    "math_lib \<Rightarrow> string \<Rightarrow> rat option \<Rightarrow> rat \<times> rat \<Rightarrow> rat \<times> rat \<Rightarrow> int \<Rightarrow> int \<Rightarrow> stats \<Rightarrow> stats option" where
  "record_farthest_direct M sid rs dev nd start limit st =
     (if hops_consumed start limit \<noteq> 0 then Some st
      else if \<not> is_real_position (fst nd) (snd nd) then Some st
      else
        (case haversine_mi M (fst dev) (snd dev) (fst nd) (snd nd) of
           None \<Rightarrow> None
         | Some miles \<Rightarrow> Some
             (if miles < 1 / 10 \<or> miles > MAX_PLAUSIBLE_DISTANCE_MI then st
              else if miles > st_farthest_direct_miles st then
                let st1 = st\<lparr>st_farthest_direct_miles := py_round 1 miles, st_farthest_direct_node_id := sid\<rparr> in
                (case rs of Some r \<Rightarrow> if r < 0 then st1\<lparr>st_farthest_direct_rssi := Some (py_trunc r)\<rparr> else st1 | None \<Rightarrow> st1)
              else st)))"

definition record_node :: "node \<Rightarrow> stats \<Rightarrow> stats" where
  "record_node n st =
     (if node_id n \<noteq> [] then st\<lparr>st_changed_nodes := AList.update (node_id n) n (st_changed_nodes st)\<rparr> else st)"

definition packets_per_minute :: "rat \<Rightarrow> stats \<Rightarrow> rat" where
  "packets_per_minute now st =
     (let elapsed = now - st_start_time st in
      if elapsed \<le> 0 \<or> st_total_packets st = 0 then 0 else py_round 1 (of_nat (st_total_packets st) / (elapsed / 60)))"

text \<open>\<^verbatim>\<open>reset\<close> clears every accumulator.\<close>

definition stats_reset :: "rat \<Rightarrow> stats \<Rightarrow> stats" where
  "stats_reset now st = stats_init now"


section \<open>The topology graph\<close>

text \<open>The rows the endpoint selects. A stored traceroute is given by the \<^verbatim>\<open>route\<close> of its JSON payload, empty where the text does
  not parse or has no such list; times are ISO texts, compared as texts.\<close>

record trace_row =
  tr_source_id :: "string option"
  tr_route :: "string option list"
  tr_timestamp :: "string option"

record reception_row =
  re_source_id :: "string option"
  re_protocol :: "string option"
  re_anchor :: "string option"
  re_cnt :: nat
  re_last_seen :: "string option"
  re_avg_rssi :: "rat option"
  re_avg_snr :: "rat option"

record roster_row =
  ro_node_id :: "string option"
  ro_long_name :: "ustr option"
  ro_short_name :: "ustr option"
  ro_protocol :: "string option"
  ro_role :: pyval
  ro_latitude :: "rat option"
  ro_longitude :: "rat option"

text \<open>A call of \<^verbatim>\<open>add_edge\<close>, and an edge.\<close>

record edge_call =
  ec_a :: "string option"
  ec_b :: "string option"
  ec_kind :: string
  ec_last_seen :: "string option"
  ec_count :: nat
  ec_snr :: "rat option"
  ec_rssi :: "rat option"

record edge =
  ed_a :: string
  ed_b :: string
  ed_kind :: string
  ed_count :: nat
  ed_last_seen :: "string option"
  ed_snr :: "rat option"
  ed_rssi :: "rat option"

type_synonym edge_id = "string \<times> string \<times> string"

definition norm_id :: "string option \<Rightarrow> string" where
  "norm_id nid = (case nid of None \<Rightarrow> [] | Some s \<Rightarrow> lower (strip s))"

definition set_text :: "string option \<Rightarrow> bool" where
  "set_text v \<longleftrightarrow> v \<noteq> None \<and> v \<noteq> Some []"

definition edge_key :: "edge_call \<Rightarrow> edge_id option" where
  "edge_key c =
     (let a = norm_id (ec_a c); b = norm_id (ec_b c) in
      if a = [] \<or> b = [] \<or> a = b then None else Some (min a b, max a b, ec_kind c))"

definition new_edge :: "edge_id \<Rightarrow> edge_call \<Rightarrow> edge" where
  "new_edge k c = \<lparr>ed_a = fst k, ed_b = fst (snd k), ed_kind = ec_kind c, ed_count = ec_count c, ed_last_seen = ec_last_seen c,
     ed_snr = ec_snr c, ed_rssi = ec_rssi c\<rparr>"

definition merge_edge :: "edge_call \<Rightarrow> edge \<Rightarrow> edge" where
  "merge_edge c cur =
     (let cur1 = cur\<lparr>ed_count := ed_count cur + ec_count c\<rparr> in
      if set_text (ec_last_seen c) \<and> (\<not> set_text (ed_last_seen cur1) \<or> the (ec_last_seen c) > the (ed_last_seen cur1)) then
        cur1\<lparr>ed_last_seen := ec_last_seen c, ed_snr := (if ec_snr c \<noteq> None then ec_snr c else ed_snr cur1),
             ed_rssi := (if ec_rssi c \<noteq> None then ec_rssi c else ed_rssi cur1)\<rparr>
      else cur1)"

definition add_edge :: "edge_call \<Rightarrow> (edge_id \<times> edge) list \<Rightarrow> (edge_id \<times> edge) list" where
  "add_edge c edges =
     (case edge_key c of
        None \<Rightarrow> edges
      | Some key \<Rightarrow>
          (case map_of edges key of
             None \<Rightarrow> AList.update key (new_edge key c) edges
           | Some cur \<Rightarrow> AList.update key (merge_edge c cur) edges))"

text \<open>The calls the rows lead to, and the hints on a node's protocol, each kept from its first row.\<close>

definition trace_chain :: "trace_row \<Rightarrow> string list" where
  "trace_chain r = (if tr_route r = [] then [] else filter (\<lambda>h. h \<noteq> []) (norm_id (tr_source_id r) # map norm_id (tr_route r)))"

definition hop_pairs :: "string list \<Rightarrow> (string \<times> string) list" where
  "hop_pairs chain = zip chain (tl chain)"

definition trace_calls :: "trace_row \<Rightarrow> edge_call list" where
  "trace_calls r =
     map (\<lambda>(a, b). \<lparr>ec_a = Some a, ec_b = Some b, ec_kind = ''route'', ec_last_seen = tr_timestamp r, ec_count = 1, ec_snr = None,
                     ec_rssi = None\<rparr>) (hop_pairs (trace_chain r))"

definition trace_hints :: "trace_row \<Rightarrow> (string \<times> string) list" where
  "trace_hints r = concat (map (\<lambda>(a, b). [(a, ''meshtastic''), (b, ''meshtastic'')]) (hop_pairs (trace_chain r)))"

definition direct_call :: "string \<Rightarrow> reception_row \<Rightarrow> edge_call" where
  "direct_call self_id r =
     \<lparr>ec_a = Some self_id, ec_b = Some (norm_id (re_source_id r)), ec_kind = ''direct'', ec_last_seen = re_last_seen r,
      ec_count = re_cnt r, ec_snr = map_option (py_round 1) (re_avg_snr r), ec_rssi = map_option (py_round 1) (re_avg_rssi r)\<rparr>"

definition direct_hint :: "reception_row \<Rightarrow> string \<times> string" where
  "direct_hint r = (norm_id (re_source_id r), if set_text (re_protocol r) then the (re_protocol r) else ''meshtastic'')"

definition row_anchor :: "string option \<Rightarrow> reception_row \<Rightarrow> string" where
  "row_anchor anchor_id r = (if norm_id (re_anchor r) \<noteq> [] then norm_id (re_anchor r) else case anchor_id of None \<Rightarrow> [] | Some s \<Rightarrow> s)"

definition neighbour_call :: "string option \<Rightarrow> reception_row \<Rightarrow> edge_call" where
  "neighbour_call anchor_id r =
     \<lparr>ec_a = Some (row_anchor anchor_id r), ec_b = Some (norm_id (re_source_id r)), ec_kind = ''neighbour'',
      ec_last_seen = re_last_seen r, ec_count = re_cnt r, ec_snr = map_option (py_round 1) (re_avg_snr r), ec_rssi = None\<rparr>"

definition anchored :: "string option \<Rightarrow> reception_row list \<Rightarrow> reception_row list" where
  "anchored anchor_id rows = filter (\<lambda>r. row_anchor anchor_id r \<noteq> []) rows"

text \<open>The calls of \<^verbatim>\<open>add_edge\<close> in their order. A traceroute row is given as its decoded route, a list of texts, as the handler of
  traceroutes stores it; a row whose payload is no dictionary, or with a hop that is no text, makes the source raise.\<close>

definition graph_calls ::
    "trace_row list \<Rightarrow> reception_row list \<Rightarrow> reception_row list \<Rightarrow> string option \<Rightarrow> string option \<Rightarrow> edge_call list" where
  "graph_calls traces directs neighbours self_id anchor_id =
     concat (map trace_calls traces) @
     (if set_text self_id then map (direct_call (the self_id)) directs else []) @
     map (neighbour_call anchor_id) (anchored anchor_id neighbours)"

definition setdefault :: "'k \<times> 'v \<Rightarrow> ('k \<times> 'v) list \<Rightarrow> ('k \<times> 'v) list" where
  "setdefault kv d = (if map_of d (fst kv) = None then d @ [kv] else d)"

definition graph_hints ::
    "trace_row list \<Rightarrow> reception_row list \<Rightarrow> reception_row list \<Rightarrow> string option \<Rightarrow> string option \<Rightarrow> (string \<times> string) list" where
  "graph_hints traces directs neighbours self_id anchor_id =
     fold setdefault
       (concat (map trace_hints traces) @ (if set_text self_id then map direct_hint directs else []) @
        concat (map (\<lambda>r. [(norm_id (re_source_id r), ''meshcore''), (row_anchor anchor_id r, ''meshcore'')]) (anchored anchor_id neighbours)))
       []"

record graph_node =
  gn_id :: string
  gn_name :: "ustr option"
  gn_protocol :: "string option"
  gn_role :: pyval
  gn_position :: "(rat \<times> rat) option"
  gn_is_self :: bool
  gn_is_anchor :: bool

record graph =
  gr_nodes :: "graph_node list"
  gr_edges :: "edge list"
  gr_counts :: "nat \<times> nat \<times> nat \<times> nat \<times> nat"

definition graph_node_of ::
    "(string \<times> roster_row) list \<Rightarrow> (string \<times> string) list \<Rightarrow> string option \<Rightarrow> ustr \<Rightarrow> string option \<Rightarrow> string \<Rightarrow> graph_node" where
  "graph_node_of roster hints self_id self_name anchor_id nid =
     (let info = map_of roster nid;
          text_or = (\<lambda>v w. if v \<noteq> None \<and> v \<noteq> Some [] then v else w);
          name = (case info of None \<Rightarrow> None | Some r \<Rightarrow> text_or (ro_long_name r) (text_or (ro_short_name r) None));
          proto = (case info of None \<Rightarrow> map_of hints nid
                   | Some r \<Rightarrow> if set_text (ro_protocol r) then ro_protocol r else map_of hints nid);
          pos = (case info of
                   None \<Rightarrow> None
                 | Some r \<Rightarrow> (case (ro_latitude r, ro_longitude r) of
                                (Some la, Some lo) \<Rightarrow> if la \<noteq> 0 \<and> lo \<noteq> 0 then Some (la, lo) else None
                              | _ \<Rightarrow> None));
          is_self = (Some nid = self_id)
      in \<lparr>gn_id = nid, gn_name = (if is_self \<and> name = None then Some self_name else name), gn_protocol = proto,
          gn_role = (case info of None \<Rightarrow> PNone | Some r \<Rightarrow> ro_role r), gn_position = pos, gn_is_self = is_self,
          gn_is_anchor = (Some nid = anchor_id)\<rparr>)"

definition edge_sort_key :: "edge \<Rightarrow> edge_id" where
  "edge_sort_key e = (ed_a e, ed_b e, ed_kind e)"

definition count_kind :: "string \<Rightarrow> edge list \<Rightarrow> nat" where
  "count_kind kind es = length (filter (\<lambda>e. ed_kind e = kind) es)"

definition assemble_graph ::
    "trace_row list \<Rightarrow> reception_row list \<Rightarrow> reception_row list \<Rightarrow> roster_row list \<Rightarrow> string option \<Rightarrow> ustr \<Rightarrow> string option \<Rightarrow> graph" where
  "assemble_graph traces directs neighbours roster_rows self_id self_name anchor_id =
     (let edges = map snd (fold add_edge (graph_calls traces directs neighbours self_id anchor_id) []);
          hints = graph_hints traces directs neighbours self_id anchor_id;
          roster = fold (\<lambda>r d. AList.update (norm_id (ro_node_id r)) r d) roster_rows [];
          ids = set (map ed_a edges) \<union> set (map ed_b edges) \<union> (if set_text self_id then {the self_id} else {});
          nodes = map (graph_node_of roster hints self_id self_name anchor_id) (sorted_list_of_set ids);
          edge_list = sort_key edge_sort_key edges
      in \<lparr>gr_nodes = nodes, gr_edges = edge_list,
          gr_counts = (length nodes, length edge_list, count_kind ''route'' edge_list, count_kind ''direct'' edge_list,
                       count_kind ''neighbour'' edge_list)\<rparr>)"


section \<open>Properties\<close>

lemma bucket_index_shift: "width > 0 \<Longrightarrow> bucket_index width (v - of_int (k * width)) = bucket_index width v - k"
  by (simp add: bucket_index_def diff_divide_distrib)

lemma bucket_index_mono: "width > 0 \<Longrightarrow> v \<le> v' \<Longrightarrow> bucket_index width v \<le> bucket_index width v'"
  by (simp add: bucket_index_def divide_right_mono floor_mono)

lemma bucket_index_iff:
  "width > 0 \<Longrightarrow> bucket_index width v = k \<longleftrightarrow> of_int (k * width) \<le> v \<and> v < of_int ((k + 1) * width)"
  by (simp add: bucket_index_def floor_eq_iff pos_le_divide_eq pos_divide_less_eq)

lemma fold_count_into:
  "list_all (\<lambda>v. 0 \<le> bucket_index w (v - of_int lo) \<and> bucket_index w (v - of_int lo) < int (length cs)) vs \<Longrightarrow>
   length (fold (count_into w lo) vs cs) = length cs \<and>
   (\<forall>i < length cs. fold (count_into w lo) vs cs ! i = cs ! i + length (filter (\<lambda>v. bucket_index w (v - of_int lo) = int i) vs))"
proof (induction vs arbitrary: cs)
  case (Cons v vs)
  let ?k = "bucket_index w (v - of_int lo)"
  have c: "count_into w lo v cs = cs[nat ?k := cs ! nat ?k + 1]" "0 \<le> ?k" "nat ?k < length cs"
    using Cons.prems by (auto simp: count_into_def Let_def)
  have "i < length cs \<Longrightarrow> cs[nat ?k := cs ! nat ?k + 1] ! i = cs ! i + (if ?k = int i then 1 else 0)" for i
    using c by (auto simp: nth_list_update)
  with Cons.IH [of "cs[nat ?k := cs ! nat ?k + 1]"] Cons.prems c show ?case by simp
qed simp

text \<open>The histogram of non-empty data, with the index of each value relative to the first bucket.\<close>

lemma histogram_shape:
  assumes "width > 0" "vs \<noteq> []"
  defines "a \<equiv> bucket_index width (Min (set vs))" and "b \<equiv> bucket_index width (Max (set vs))"
  shows "histogram width vs =
      (map (\<lambda>i. (a + int i) * width) [0..<nat (b - a + 2)], fold (count_into width (a * width)) vs (replicate (nat (b - a + 2)) 0))"
    and "v \<in> set vs \<Longrightarrow> a \<le> bucket_index width v \<and> bucket_index width v \<le> b"
proof -
  have "(b + 1) * width + width - a * width = (b - a + 2) * width" by (simp add: algebra_simps)
  then have "((b + 1) * width + width - a * width) div width = b - a + 2" using assms(1) by simp
  then show "histogram width vs =
      (map (\<lambda>i. (a + int i) * width) [0..<nat (b - a + 2)], fold (count_into width (a * width)) vs (replicate (nat (b - a + 2)) 0))"
    using assms(2) by (simp add: histogram_def Let_def a_def b_def distrib_right)
  show "a \<le> bucket_index width v \<and> bucket_index width v \<le> b" if "v \<in> set vs"
    using that assms(1) by (simp add: a_def b_def bucket_index_mono)
qed

lemma sum_filter_parts:
  "(\<And>v. v \<in> set vs \<Longrightarrow> f v < (n :: nat)) \<Longrightarrow> (\<Sum>i < n. length (filter (\<lambda>v. f v = i) vs)) = length vs"
proof (induction vs)
  case (Cons v vs)
  have "(\<Sum>i < n. length (filter (\<lambda>v. f v = i) (v # vs))) = (\<Sum>i < n. (if f v = i then 1 else 0) + length (filter (\<lambda>v. f v = i) vs))"
    by (rule sum.cong) simp_all
  also have "\<dots> = 1 + length vs" using Cons by (simp add: sum.distrib)
  finally show ?case by simp
qed simp

text \<open>A histogram loses nothing and misplaces nothing: each count is the number of values between its label and the next one,
  and the counts add up to the number of values.\<close>

lemma histogram_exact:
  assumes "width > 0" "histogram width vs = (buckets, counts)"
  shows "length counts = length buckets \<and> sum_list counts = length vs \<and>
    (\<forall>i < length counts. counts ! i =
       length (filter (\<lambda>v. of_int (buckets ! i) \<le> v \<and> v < of_int (buckets ! i + width)) vs))"
proof (cases "vs = []")
  case False
  let ?a = "bucket_index width (Min (set vs))" and ?b = "bucket_index width (Max (set vs))"
  let ?n = "nat (?b - ?a + 2)"
  note shape = histogram_shape [OF assms(1) False]
  have bk: "buckets = map (\<lambda>i. (?a + int i) * width) [0..<?n]" and cn: "counts = fold (count_into width (?a * width)) vs (replicate ?n 0)"
    using assms(2) shape(1) by simp_all
  have rng: "list_all (\<lambda>v. 0 \<le> bucket_index width (v - of_int (?a * width)) \<and> bucket_index width (v - of_int (?a * width)) < int ?n) vs"
    unfolding list_all_iff bucket_index_shift [OF assms(1)] using shape(2) by fastforce
  from this [unfolded bucket_index_shift [OF assms(1)]] have c: "length counts = ?n" "\<And>i. i < ?n \<Longrightarrow> counts ! i = length (filter (\<lambda>v. bucket_index width v - ?a = int i) vs)"
    using fold_count_into [of width "?a * width" "replicate ?n 0" vs, unfolded bucket_index_shift [OF assms(1)]]
    by (simp_all add: cn list_all_iff)
  have "sum_list counts = (\<Sum>i < ?n. length (filter (\<lambda>v. bucket_index width v - ?a = int i) vs))"
    by (simp add: sum_list_sum_nth c atLeast0LessThan)
  also have "\<dots> = (\<Sum>i < ?n. length (filter (\<lambda>v. nat (bucket_index width v - ?a) = i) vs))"
    using shape(2) by (intro sum.cong refl arg_cong [where f = length] filter_cong) auto
  also have "\<dots> = length vs" using shape(2) by (intro sum_filter_parts) fastforce
  finally have s: "sum_list counts = length vs" .
  have "counts ! i = length (filter (\<lambda>v. of_int (buckets ! i) \<le> v \<and> v < of_int (buckets ! i + width)) vs)" if "i < ?n" for i
  proof -
    have "bucket_index width v - ?a = int i \<longleftrightarrow> of_int (buckets ! i) \<le> v \<and> v < of_int (buckets ! i + width)" for v
      using bucket_index_iff [OF assms(1), of v "?a + int i"] that by (auto simp: bk algebra_simps)
    then show ?thesis using c(2) [OF that] by simp
  qed
  then show ?thesis using c(1) s by (simp add: bk)
qed (use assms in \<open>simp add: histogram_def\<close>)


lemma histogram_exact_witness:
  "sum_list (snd (histogram 5 [- 81, - 97, - 80])) = 3"
  using histogram_exact [of 5 "[- 81, - 97, - 80]" "fst (histogram 5 [- 81, - 97, - 80])" "snd (histogram 5 [- 81, - 97, - 80])"]
  by simp

text \<open>The packets a report accumulates: protocol, type, signal strength, signal-to-noise ratio, hop start and limit.\<close>

type_synonym heard = "string \<times> string \<times> rat option \<times> rat option \<times> int \<times> int"

definition record_heard :: "heard \<Rightarrow> stats \<Rightarrow> stats" where
  "record_heard h = (case h of (proto, ptype, rs, sn, start, limit) \<Rightarrow> record_packet proto ptype rs sn start limit)"

definition far_field :: "heard list \<Rightarrow> rat list" where
  "far_field hs = filter (\<lambda>r. r < RSSI_NEAR_FIELD_CEILING_DBM) (List.map_filter (\<lambda>(_, _, rs, _). rs) hs)"

interpretation counters: keyed_store Some "\<lambda>_. 1 :: nat" "\<lambda>_ n. n + 1" "\<lambda>k d. map_of d k" bump
  by unfold_locales (simp add: bump_def update_conv' absorb_def split: option.split)

lemma sum_bump: "distinct (map fst d) \<Longrightarrow> sum_list (map snd (bump k d)) = sum_list (map snd d) + 1"
proof (induction d)
  case (Cons p d)
  then show ?case by (cases p) (auto simp: bump_def)
qed (simp add: bump_def)

lemma distinct_bump: "distinct (map fst d) \<Longrightarrow> distinct (map fst (bump k d))"
  by (simp add: bump_def distinct_update)

definition best_of :: "rat list \<Rightarrow> rat option" where
  "best_of rs = (if rs = [] then None else Some (Max (set rs)))"

lemma best_of_snoc: "better_of r (best_of rs) = best_of (rs @ [r])"
proof (cases "rs = []")
  case False
  then have "Max (set (rs @ [r])) = max r (Max (set rs))" by simp
  then show ?thesis using False by (simp add: better_of_def best_of_def max_def del: Max_less_iff)
qed (simp add: better_of_def best_of_def)

definition stats_facts :: "heard list \<Rightarrow> stats \<Rightarrow> bool" where
  "stats_facts hs st \<longleftrightarrow>
     st_total_packets st = length hs \<and> st_direct_count st + st_relayed_count st = length hs \<and>
     sum_list (map snd (st_protocols st)) = length hs \<and> distinct (map fst (st_protocols st)) \<and>
     sum_list (map snd (st_packet_types st)) = length hs \<and> distinct (map fst (st_packet_types st)) \<and>
     st_rssi_count st = length (far_field hs) \<and> st_rssi_sum st = sum_list (far_field hs) \<and> st_best_rssi st = best_of (far_field hs) \<and>
     st_rssi_excellent st + st_rssi_good st + st_rssi_fair st + st_rssi_weak st = st_rssi_count st"

lemma classify_rssi_simps [simp]:
  "st_total_packets (classify_rssi r st) = st_total_packets st" "st_direct_count (classify_rssi r st) = st_direct_count st"
  "st_relayed_count (classify_rssi r st) = st_relayed_count st" "st_protocols (classify_rssi r st) = st_protocols st"
  "st_packet_types (classify_rssi r st) = st_packet_types st" "st_rssi_count (classify_rssi r st) = st_rssi_count st"
  "st_rssi_sum (classify_rssi r st) = st_rssi_sum st" "st_best_rssi (classify_rssi r st) = st_best_rssi st"
  "st_rssi_excellent (classify_rssi r st) + st_rssi_good (classify_rssi r st) + st_rssi_fair (classify_rssi r st) +
     st_rssi_weak (classify_rssi r st) = st_rssi_excellent st + st_rssi_good st + st_rssi_fair st + st_rssi_weak st + 1"
  by (simp_all add: classify_rssi_def)

lemma far_field_snoc:
  "far_field (hs @ [(p, t, rs, sn, s, l)]) =
     far_field hs @ (case rs of Some r \<Rightarrow> if r < RSSI_NEAR_FIELD_CEILING_DBM then [r] else [] | None \<Rightarrow> [])"
  by (auto simp: far_field_def List.map_filter_def split: option.split)

lemma stats_facts_step: "stats_facts hs st \<Longrightarrow> stats_facts (hs @ [h]) (record_heard h st)"
  by (cases h) (auto simp: stats_facts_def record_heard_def record_packet_def Let_def far_field_snoc sum_bump distinct_bump best_of_snoc
      split: option.split)

lemma stats_facts_init: "stats_facts [] (stats_init now)"
  by (simp add: stats_facts_def stats_init_def far_field_def best_of_def List.map_filter_def)


text \<open>The heartbeat statistics are those of the packets recorded since the last reset: every packet counts once under its protocol,
  once under its type and once as direct or relayed; sum, count, best value and the four classes of the signal strength are
  over exactly the packets below the near-field ceiling.\<close>

lemma stats_exact:
  "stats_facts hs (fold record_heard hs (stats_reset now st))"
proof (induction hs rule: rev_induct)
  case Nil
  show ?case by (simp add: stats_reset_def stats_facts_init)
next
  case (snoc h hs)
  then show ?case by (simp add: stats_facts_step)
qed

text \<open>The edge table as a store.\<close>

lemma get_add_edge:
  "map_of (add_edge c es) k =
     (if edge_key c = Some k then absorb (\<lambda>c. new_edge (the (edge_key c)) c) merge_edge c (map_of es k) else map_of es k)"
  by (auto simp: add_edge_def update_conv' absorb_def split: option.splits)

interpretation edges: keyed_store edge_key "\<lambda>c. new_edge (the (edge_key c)) c" merge_edge "\<lambda>k es. map_of es k" add_edge
  by unfold_locales (rule get_add_edge)

definition edge_facts :: "edge_call list \<Rightarrow> edge \<Rightarrow> bool" where
  "edge_facts cs e \<longleftrightarrow>
     ed_count e = sum_list (map ec_count cs) \<and>
     list_all (\<lambda>c. \<not> set_text (ec_last_seen c) \<or> set_text (ed_last_seen e) \<and> the (ec_last_seen c) \<le> the (ed_last_seen e)) cs \<and>
     ed_last_seen e \<in> set (map ec_last_seen cs)"

lemma edge_facts_fresh: "edge_facts [c] (new_edge k c)"
  by (simp add: edge_facts_def new_edge_def)

lemma edge_facts_merge: "edge_facts cs e \<Longrightarrow> edge_facts (cs @ [c]) (merge_edge c e)"
  by (auto simp: edge_facts_def merge_edge_def Let_def list_all_iff)

lemma list_all_update: "list_all P al \<Longrightarrow> P (k, v) \<Longrightarrow> list_all P (AList.update k v al)"
  by (induction al) auto

definition edge_ok :: "edge_id \<times> edge \<Rightarrow> bool" where
  "edge_ok ke \<longleftrightarrow> (case ke of (k, e) \<Rightarrow> k = edge_sort_key e \<and> ed_a e < ed_b e \<and> ed_a e \<noteq> [] \<and>
     ed_kind e \<in> {''route'', ''direct'', ''neighbour''})"

lemma merge_edge_simps [simp]:
  "ed_a (merge_edge c e) = ed_a e" "ed_b (merge_edge c e) = ed_b e" "ed_kind (merge_edge c e) = ed_kind e"
  by (simp_all add: merge_edge_def Let_def)

lemma add_edge_ok:
  assumes "distinct (map fst es)" "list_all edge_ok es" "ec_kind c \<in> {''route'', ''direct'', ''neighbour''}"
  shows "distinct (map fst (add_edge c es)) \<and> list_all edge_ok (add_edge c es)"
proof (cases "edge_key c")
  case (Some k)
  have n: "edge_ok (k, new_edge k c)"
    using Some assms(3)
    by (auto simp: edge_ok_def edge_sort_key_def edge_key_def new_edge_def Let_def min_def max_def split: if_splits)
  have m: "edge_ok (k, merge_edge c e)" if "map_of es k = Some e" for e
    using assms(2) map_of_SomeD [OF that] by (auto simp: edge_ok_def edge_sort_key_def list_all_iff)
  show ?thesis using n m assms by (auto simp: add_edge_def Some distinct_update list_all_update split: option.split)
qed (use assms in \<open>simp add: add_edge_def\<close>)

lemma fold_add_edge_ok:
  "list_all (\<lambda>c. ec_kind c \<in> {''route'', ''direct'', ''neighbour''}) cs \<Longrightarrow> distinct (map fst es) \<Longrightarrow> list_all edge_ok es \<Longrightarrow>
   distinct (map fst (fold add_edge cs es)) \<and> list_all edge_ok (fold add_edge cs es)"
  by (induction cs arbitrary: es) (simp_all add: add_edge_ok)

lemma graph_calls_kinds:
  "list_all (\<lambda>c. ec_kind c \<in> {''route'', ''direct'', ''neighbour''}) (graph_calls traces directs neighbours self_id anchor_id)"
  by (auto simp: graph_calls_def list_all_iff trace_calls_def direct_call_def neighbour_call_def)

definition edges_of :: "edge_call list \<Rightarrow> (edge_id \<times> edge) list" where
  "edges_of cs = fold add_edge cs []"

lemma edges_of_lookup:
  "case map_of (edges_of cs) k of
     None \<Rightarrow> filter (\<lambda>c. edge_key c = Some k) cs = []
   | Some e \<Rightarrow> filter (\<lambda>c. edge_key c = Some k) cs \<noteq> [] \<and> edge_facts (filter (\<lambda>c. edge_key c = Some k) cs) e"
  unfolding edges_of_def by (rule edges.row_facts) (simp_all add: edge_facts_fresh edge_facts_merge)

lemma edges_of_sorted:
  assumes "list_all (\<lambda>c. ec_kind c \<in> {''route'', ''direct'', ''neighbour''}) cs"
  shows "distinct (map edge_sort_key (map snd (edges_of cs)))" and "e \<in> snd ` set (edges_of cs) \<Longrightarrow> edge_ok (edge_sort_key e, e)"
    and "map_of (edges_of cs) k = Some e \<longleftrightarrow> e \<in> snd ` set (edges_of cs) \<and> edge_sort_key e = k"
proof -
  have ok: "distinct (map fst (edges_of cs))" "list_all edge_ok (edges_of cs)"
    using fold_add_edge_ok [OF assms, of "[]"] by (simp_all add: edges_of_def)
  have k: "map edge_sort_key (map snd (edges_of cs)) = map fst (edges_of cs)"
    using ok(2) by (auto simp: list_all_iff edge_ok_def)
  show "distinct (map edge_sort_key (map snd (edges_of cs)))" using ok(1) unfolding k .
  show "edge_ok (edge_sort_key e, e)" if "e \<in> snd ` set (edges_of cs)" for e
    using that ok(2) by (auto simp: list_all_iff edge_ok_def)
  show "map_of (edges_of cs) k = Some e \<longleftrightarrow> e \<in> snd ` set (edges_of cs) \<and> edge_sort_key e = k"
    using ok by (force simp: list_all_iff edge_ok_def intro: map_of_is_SomeI dest: map_of_SomeD)
qed

lemma option_eqI: "(\<And>e. x = Some e \<longleftrightarrow> y = Some e) \<Longrightarrow> x = y"
  by (cases x; cases y) auto

lemma find_key_Some: "distinct (map f xs) \<Longrightarrow> find (\<lambda>x. f x = k) xs = Some x \<longleftrightarrow> x \<in> set xs \<and> f x = k"
  by (induction xs) auto

lemma count_kinds:
  "list_all (\<lambda>e. ed_kind e \<in> {''route'', ''direct'', ''neighbour''}) es \<Longrightarrow>
   count_kind ''route'' es + count_kind ''direct'' es + count_kind ''neighbour'' es = length es"
  by (induction es) (auto simp: count_kind_def)

text \<open>C35: the topology graph is exactly the observations it is made of: a link between two nodes is there iff some row reports it, with the
  number of all its reports and the newest of their times; there is one link per pair and kind, none from a node to
  itself; both ends are nodes of the graph, every node is listed once, in order, and the counters add up.\<close>

theorem topology_exact:
  "let g = assemble_graph traces directs neighbours roster self_id self_name anchor_id;
       reports = filter (\<lambda>c. edge_key c = Some k) (graph_calls traces directs neighbours self_id anchor_id)
   in (case find (\<lambda>e. edge_sort_key e = k) (gr_edges g) of
         None \<Rightarrow> reports = []
       | Some e \<Rightarrow> reports \<noteq> [] \<and> edge_facts reports e) \<and>
      sorted (map edge_sort_key (gr_edges g)) \<and> distinct (map edge_sort_key (gr_edges g)) \<and>
      list_all (\<lambda>e. ed_a e \<noteq> ed_b e \<and> {ed_a e, ed_b e} \<subseteq> set (map gn_id (gr_nodes g))) (gr_edges g) \<and>
      sorted (map gn_id (gr_nodes g)) \<and> distinct (map gn_id (gr_nodes g)) \<and>
      (case gr_counts g of (n, m, r, d, nb) \<Rightarrow> n = length (gr_nodes g) \<and> m = length (gr_edges g) \<and> r + d + nb = m)"
proof -
  let ?g = "assemble_graph traces directs neighbours roster self_id self_name anchor_id"
  let ?es = "edges_of (graph_calls traces directs neighbours self_id anchor_id)"
  note so = edges_of_sorted [OF graph_calls_kinds [of traces directs neighbours self_id anchor_id]]
  have e: "gr_edges ?g = sort_key edge_sort_key (map snd ?es)" by (simp add: assemble_graph_def Let_def edges_of_def)
  then have es: "set (gr_edges ?g) = snd ` set ?es" "length (gr_edges ?g) = length ?es" by simp_all
  have d: "distinct (map edge_sort_key (gr_edges ?g))" "sorted (map edge_sort_key (gr_edges ?g))"
    using so(1) unfolding e distinct_map [of edge_sort_key] by simp_all
  have "find (\<lambda>e. edge_sort_key e = k) (gr_edges ?g) = map_of ?es k"
    by (rule option_eqI) (auto simp: find_key_Some [OF d(1)] so(3) es(1))
  then have lookup: "case find (\<lambda>e. edge_sort_key e = k) (gr_edges ?g) of
      None \<Rightarrow> filter (\<lambda>c. edge_key c = Some k) (graph_calls traces directs neighbours self_id anchor_id) = []
    | Some e \<Rightarrow> filter (\<lambda>c. edge_key c = Some k) (graph_calls traces directs neighbours self_id anchor_id) \<noteq> [] \<and>
        edge_facts (filter (\<lambda>c. edge_key c = Some k) (graph_calls traces directs neighbours self_id anchor_id)) e"
    using edges_of_lookup [of k "graph_calls traces directs neighbours self_id anchor_id"] by simp
  have ids: "map gn_id (gr_nodes ?g) = sorted_list_of_set (set (map ed_a (map snd ?es)) \<union> set (map ed_b (map snd ?es)) \<union>
      (if set_text self_id then {the self_id} else {}))"
    by (simp add: assemble_graph_def Let_def edges_of_def comp_def graph_node_of_def image_comp)
  have ends: "ed_a e \<noteq> ed_b e \<and> {ed_a e, ed_b e} \<subseteq> set (map gn_id (gr_nodes ?g)) \<and> ed_kind e \<in> {''route'', ''direct'', ''neighbour''}"
    if "e \<in> set (gr_edges ?g)" for e
    using that so(2) [of e] unfolding ids es(1) by (auto simp: edge_ok_def)
  have counts: "case gr_counts ?g of (n, m, r, d, nb) \<Rightarrow> n = length (gr_nodes ?g) \<and> m = length (gr_edges ?g) \<and> r + d + nb = m"
    using count_kinds [of "gr_edges ?g"] ends by (auto simp: list_all_iff assemble_graph_def Let_def)
  show ?thesis using lookup d ends counts unfolding Let_def list_all_iff ids by simp
qed

end
