(* ===== verification/Event_Adapters.thy ===== *)
theory Event_Adapters
  imports Meshcore_Decoder Utf8
begin

text \<open>
  \<^verbatim>\<open>src/src/decode/meshcore_event_adapter.py\<close> and \<^verbatim>\<open>pager_event_adapter.py\<close>: captures that are JSON texts, an event of
  the MeshCore companion library or a frame of the pager channel, turned into packets. The JSON parser is a parameter,
  as are the conversions of the language that depend on Unicode tables or on the printing of floats. An identifier
  outside ASCII stands as its UTF-8 bytes, a lone surrogate among them as the three bytes of the general scheme.
  The companion library hands over a text as \<^verbatim>\<open>pubkey_prefix\<close>, an integer as \<^verbatim>\<open>channel_idx\<close> and finite signal values; the
  model of a builder fails on anything else.
\<close>

record text_lib =
  tl_json :: "bytes \<Rightarrow> pyval option"
  tl_str :: "pyval \<Rightarrow> ustr"
  tl_int :: "ustr \<Rightarrow> int option"
  tl_float :: "ustr \<Rightarrow> rat option"
  tl_lower :: "ustr \<Rightarrow> ustr"
  tl_is_hex :: "ustr \<Rightarrow> bool"

definition ident :: "ustr \<Rightarrow> string" where
  "ident s = map char_of (concat (map utf8_char s))"

text \<open>Whether the database driver can bind the text: it is encodable.\<close>

definition storable :: "ustr \<Rightarrow> bool" where
  "storable s \<longleftrightarrow> list_all scalar s"

fun str_of :: "text_lib \<Rightarrow> pyval \<Rightarrow> ustr" where
  "str_of T (PStr s) = s"
| "str_of T (PInt i) = lit (fmt_d i)"
| "str_of T v = tl_str T v"

text \<open>\<^verbatim>\<open>int(v)\<close> and \<^verbatim>\<open>float(v)\<close>; the first component of a failed \<^verbatim>\<open>int\<close> tells whether the failure is a \<^verbatim>\<open>TypeError\<close> or
  \<^verbatim>\<open>ValueError\<close> (and not an \<^verbatim>\<open>OverflowError\<close>).\<close>

fun int_of :: "text_lib \<Rightarrow> pyval \<Rightarrow> bool + int" where
  "int_of T (PInt i) = Inr i"
| "int_of T (PBool b) = Inr (if b then 1 else 0)"
| "int_of T (PFloat r) = Inr (py_trunc r)"
| "int_of T (PInf neg) = Inl False"
| "int_of T (PStr s) = (case tl_int T s of Some i \<Rightarrow> Inr i | None \<Rightarrow> Inl True)"
| "int_of T _ = Inl True"

fun float_of :: "text_lib \<Rightarrow> pyval \<Rightarrow> rat option" where
  "float_of T (PInt i) = Some (of_int i)"
| "float_of T (PBool b) = Some (if b then 1 else 0)"
| "float_of T (PFloat r) = Some r"
| "float_of T (PStr s) = tl_float T s"
| "float_of T _ = None"


section \<open>MeshCore companion events\<close>

definition first_truthy :: "string list \<Rightarrow> pydict \<Rightarrow> pyval" where
  "first_truthy keys d = (case find (\<lambda>k. truthy (dget k d)) keys of Some k \<Rightarrow> dget k d | None \<Rightarrow> PStr [])"

definition sender_name_of :: "pydict \<Rightarrow> pyval" where
  "sender_name_of d = first_truthy [''sender_name'', ''contact_name'', ''name''] d"

fun first_payload_value :: "text_lib \<Rightarrow> pydict \<Rightarrow> string list \<Rightarrow> ustr \<Rightarrow> ustr" where
  "first_payload_value T d [] dflt = dflt"
| "first_payload_value T d (k # ks) dflt =
     (let v = dget k d; s = ustrip uni_space (str_of T v) in
      if v \<noteq> PNone \<and> s \<noteq> [] then s else first_payload_value T d ks dflt)"

text \<open>\<^verbatim>\<open>_find_payload_name\<close>: the loop over the items of one dictionary (the name, or the containers to push), and the loop over the
  stack, whose top is the head of the list here.\<close>

fun scan_items :: "text_lib \<Rightarrow> string list \<Rightarrow> pydict \<Rightarrow> pyval list \<Rightarrow> ustr + pyval list" where
  "scan_items T wanted [] stack = Inr stack"
| "scan_items T wanted ((k, v) # items) stack =
     (if lower k \<in> set wanted \<and> v \<noteq> PNone then
        (let candidate = ustrip uni_space (str_of T v) in if candidate \<noteq> [] then Inl candidate else scan_items T wanted items stack)
      else (case v of
              PDict d \<Rightarrow> scan_items T wanted items (v # stack)
            | PList xs \<Rightarrow> scan_items T wanted items (v # stack)
            | _ \<Rightarrow> scan_items T wanted items stack))"

lemma scan_items_size:
  "scan_items T wanted items stack = Inr stack' \<Longrightarrow> size_list size stack' \<le> size_list size stack + size_list (size_prod (\<lambda>_. 0) size) items"
proof (induction T wanted items stack rule: scan_items.induct)
  case (2 T wanted k v items stack)
  then show ?case by (fastforce simp: Let_def split: if_splits pyval.splits)
qed simp

lemma size_list_rev: "size_list f (rev xs) = size_list f xs"
  by (induction xs) (simp_all add: size_list_append)

function search_stack :: "text_lib \<Rightarrow> string list \<Rightarrow> pyval list \<Rightarrow> ustr" where
  "search_stack T wanted [] = []"
| "search_stack T wanted (v # stack) =
     (case v of
        PDict d \<Rightarrow> (case scan_items T wanted d stack of Inl name \<Rightarrow> name | Inr stack' \<Rightarrow> search_stack T wanted stack')
      | PList xs \<Rightarrow> search_stack T wanted (rev xs @ stack)
      | _ \<Rightarrow> search_stack T wanted stack)"
  by pat_completeness auto
termination
  by (relation "measure (\<lambda>(_, _, stack). size_list size stack)")
    (auto simp: size_list_append size_list_rev dest!: scan_items_size)


definition find_payload_name :: "text_lib \<Rightarrow> pydict \<Rightarrow> string list \<Rightarrow> ustr" where
  "find_payload_name T d keys =
     (let direct = first_payload_value T d keys [] in
      if direct \<noteq> [] then direct else search_stack T (map lower keys) (rev (map snd d)))"

fun type_of_keys :: "text_lib \<Rightarrow> pydict \<Rightarrow> string list \<Rightarrow> (int option) option" where
  "type_of_keys T d [] = Some None"
| "type_of_keys T d (k # ks) =
     (if dget k d = PNone then type_of_keys T d ks
      else (case int_of T (dget k d) of
              Inl caught \<Rightarrow> if caught then type_of_keys T d ks else None
            | Inr v \<Rightarrow> if 0 \<le> v \<and> v \<le> 15 then Some (Some v) else type_of_keys T d ks))"

fun type_of_candidates :: "text_lib \<Rightarrow> pydict list \<Rightarrow> (int option) option" where
  "type_of_candidates T [] = Some None"
| "type_of_candidates T (d # ds) =
     (case type_of_keys T d [''type'', ''adv_type'', ''node_type''] of
        None \<Rightarrow> None | Some (Some v) \<Rightarrow> Some (Some v) | Some None \<Rightarrow> type_of_candidates T ds)"

text \<open>The outer \<^const>\<open>None\<close> is the \<^verbatim>\<open>OverflowError\<close> of an infinite number.\<close>

definition find_payload_type :: "text_lib \<Rightarrow> pydict \<Rightarrow> (int option) option" where
  "find_payload_type T d =
     type_of_candidates T (d # List.map_filter (\<lambda>(k, v). case v of PDict e \<Rightarrow> Some e | _ \<Rightarrow> None) d)"

definition lstrip_bang :: "ustr \<Rightarrow> ustr" where
  "lstrip_bang s = dropWhile (\<lambda>c. c = 33) s"

definition looks_like_identifier :: "text_lib \<Rightarrow> ustr \<Rightarrow> ustr \<Rightarrow> ustr \<Rightarrow> bool" where
  "looks_like_identifier T name src pubkey =
     (let lowered = lstrip_bang (tl_lower T name) in
      lowered \<in> {lstrip_bang (tl_lower T src), lstrip_bang (tl_lower T pubkey), lstrip_bang (tl_lower T (take 12 pubkey))} \<or>
      tl_is_hex T lowered \<and> 8 \<le> length lowered)"

definition rf_signal_from_payload :: "text_lib \<Rightarrow> pydict \<Rightarrow> signal_metrics option \<Rightarrow> signal_metrics option option" where
  "rf_signal_from_payload T d fallback =
     (let rs = dget_or ''rssi'' (dget ''RSSI'' d) d; sn = dget_or ''snr'' (dget ''SNR'' d) d in
      if rs = PNone \<and> sn = PNone then Some fallback
      else do {
        r \<leftarrow> (if rs \<noteq> PNone then float_of T rs else Some (- 120));
        s \<leftarrow> (if sn \<noteq> PNone then float_of T sn else Some 0);
        Some (Some \<lparr>rssi = r, snr = s,
          frequency_mhz = (case fallback of Some f \<Rightarrow> frequency_mhz f | None \<Rightarrow> 0),
          spreading_factor = (case fallback of Some f \<Rightarrow> spreading_factor f | None \<Rightarrow> 0),
          bandwidth_khz = (case fallback of Some f \<Rightarrow> bandwidth_khz f | None \<Rightarrow> 0), coding_rate = ''N/A''\<rparr>) })"

definition hop_start_from_payload :: "text_lib \<Rightarrow> pydict \<Rightarrow> int option" where
  "hop_start_from_payload T d =
     (let v = dget ''path_len'' d in
      if v = PNone \<or> v = PInt 255 \<or> v = PFloat 255 then Some 0 else (case int_of T v of Inr i \<Rightarrow> Some i | Inl _ \<Rightarrow> None))"

text \<open>\<^verbatim>\<open>datetime.fromtimestamp\<close> covers the years 1 to 9999.\<close>

definition in_calendar :: "rat \<Rightarrow> time option" where
  "in_calendar t = (if - 62135596800 \<le> t \<and> t < 253402300800 then Some t else None)"

fun parse_timestamp :: "time \<Rightarrow> pyval \<Rightarrow> time option" where
  "parse_timestamp now (PInt i) = in_calendar (of_int i)"
| "parse_timestamp now (PBool b) = in_calendar (if b then 1 else 0)"
| "parse_timestamp now (PFloat r) = in_calendar r"
| "parse_timestamp now (PInf neg) = None"
| "parse_timestamp now PNan = None"
| "parse_timestamp now _ = Some now"

text \<open>What a builder may read besides the payload: the fresh id, the clock, the signal of the capture.\<close>

record event_env =
  ee_id :: string
  ee_now :: time
  ee_signal :: "signal_metrics option"

definition with_name :: "pyval \<Rightarrow> pydict \<Rightarrow> pydict" where
  "with_name name d = (if truthy name then d @ [(''long_name'', name)] else d)"

fun text_ident :: "pyval \<Rightarrow> string option" where
  "text_ident (PStr s) = Some (ident s)"
| "text_ident _ = None"

definition build_contact_message :: "text_lib \<Rightarrow> event_env \<Rightarrow> pydict \<Rightarrow> packet option" where
  "build_contact_message T e d = do {
     src \<leftarrow> text_ident (dget_or ''pubkey_prefix'' (pstr ''unknown'') d);
     hops \<leftarrow> hop_start_from_payload T d;
     sig \<leftarrow> rf_signal_from_payload T d (ee_signal e);
     ts \<leftarrow> parse_timestamp (ee_now e) (dget ''timestamp'' d);
     Some ((default_packet (ee_id e) src ''self'' MESHCORE TEXT ts)
       \<lparr>decoded_payload := Some (with_name (sender_name_of d) [(''text'', dget_or ''text'' (PStr []) d)]),
        hop_start := hops, signal := sig, decrypted := True\<rparr>) }"

text \<open>\<^verbatim>\<open>": " in raw_text\<close> and \<^verbatim>\<open>raw_text.split(": ", 1)\<close>; the outer \<^const>\<open>None\<close> is an exception.\<close>

fun split_sender :: "ustr \<Rightarrow> (ustr \<times> ustr) option" where
  "split_sender (a # b # s) =
     (if a = 58 \<and> b = 32 then Some ([], s) else map_option (\<lambda>(x, y). (a # x, y)) (split_sender (b # s)))"
| "split_sender _ = None"

fun sender_in_text :: "pyval \<Rightarrow> ((ustr \<times> ustr) option) option" where
  "sender_in_text (PStr s) = Some (split_sender s)"
| "sender_in_text (PList xs) = (if pstr '': '' \<in> set xs then None else Some None)"
| "sender_in_text (PDict d) = (if '': '' \<in> set (map fst d) then None else Some None)"
| "sender_in_text _ = None"

definition build_channel_message :: "text_lib \<Rightarrow> event_env \<Rightarrow> pydict \<Rightarrow> packet option" where
  "build_channel_message T e d =
     (let raw_text = dget_or ''text'' (PStr []) d; given = sender_name_of d in do {
        (sender, text') \<leftarrow>
          (if truthy given then Some (given, raw_text)
           else map_option (\<lambda>r. case r of Some (n, t) \<Rightarrow> (PStr n, PStr t) | None \<Rightarrow> (given, raw_text)) (sender_in_text raw_text));
        src \<leftarrow> (let v = dget_or ''pubkey_prefix'' (PStr []) d in
                if truthy v then text_ident v
                else if truthy sender then Some (''mc:'' @ ident (str_of T sender))
                else Some ''mc:channel'');
        ch \<leftarrow> (case dget_or ''channel_idx'' (PInt 0) d of PInt i \<Rightarrow> Some i | _ \<Rightarrow> None);
        hops \<leftarrow> hop_start_from_payload T d;
        sig \<leftarrow> rf_signal_from_payload T d (ee_signal e);
        ts \<leftarrow> parse_timestamp (ee_now e) (dget ''timestamp'' d);
        Some ((default_packet (ee_id e) src ''broadcast'' MESHCORE TEXT ts)
          \<lparr>decoded_payload := Some (with_name sender [(''text'', text'), (''channel'', PInt ch)]),
           channel_hash := ch, hop_start := hops, signal := sig, decrypted := True\<rparr>) })"

definition ADVERT_NAME_KEYS :: "string list" where
  "ADVERT_NAME_KEYS = [''adv_name'', ''advName'', ''name'', ''long_name'', ''longName'', ''display_name'', ''displayName'',
     ''node_name'', ''nodeName'', ''repeater_name'', ''repeaterName'']"

definition build_advertisement :: "text_lib \<Rightarrow> event_env \<Rightarrow> pydict \<Rightarrow> packet option" where
  "build_advertisement T e d =
     (let pubkey = first_payload_value T d [''public_key'', ''pubkey'', ''pub_key'', ''pubkey_prefix''] (lit ''unknown'');
          src = take 12 pubkey;
          name = find_payload_name T d ADVERT_NAME_KEYS;
          lat = dget ''adv_lat'' d; lon = dget ''adv_lon'' d in do {
        node_type \<leftarrow> find_payload_type T d;
        ts \<leftarrow> parse_timestamp (ee_now e) (dget ''timestamp'' d);
        Some ((default_packet (ee_id e) (ident src) ''broadcast'' MESHCORE NODEINFO ts)
          \<lparr>decoded_payload := Some (
             [(''public_key'', PStr pubkey), (''advertisement'', PDict d)] @
             (case node_type of Some v \<Rightarrow> [(''node_type'', PInt v)] | None \<Rightarrow> []) @
             (if name \<noteq> [] \<and> \<not> looks_like_identifier T name src pubkey
              then [(''long_name'', PStr name), (''short_name'', PStr (take 4 name))] else []) @
             (if truthy lat \<and> truthy lon then [(''latitude'', lat), (''longitude'', lon)] else [])),
           signal := ee_signal e\<rparr>) })"

definition build_raw_data :: "text_lib \<Rightarrow> event_env \<Rightarrow> pydict \<Rightarrow> packet option" where
  "build_raw_data T e d = do {
     ts \<leftarrow> parse_timestamp (ee_now e) (dget ''timestamp'' d);
     Some ((default_packet (ee_id e) ''raw'' ''unknown'' MESHCORE UNKNOWN ts)
       \<lparr>decoded_payload := Some [(''raw_hex'', dget_or ''payload'' (PStr []) d)], signal := ee_signal e\<rparr>) }"

definition build_rx_log_data :: "text_lib \<Rightarrow> event_env \<Rightarrow> pydict \<Rightarrow> packet option" where
  "build_rx_log_data T e d = do {
     sig \<leftarrow> rf_signal_from_payload T d (ee_signal e);
     ts \<leftarrow> parse_timestamp (ee_now e) (dget ''timestamp'' d);
     Some ((default_packet (ee_id e) ''rf_log'' ''unknown'' MESHCORE UNKNOWN ts)
       \<lparr>decoded_payload := Some [(''raw_hex'', dget_or ''payload'' (dget_or ''raw_hex'' (PStr []) d) d),
                                 (''payload_length'', dget ''payload_length'' d)], signal := sig\<rparr>) }"

definition BUILDERS :: "text_lib \<Rightarrow> (string \<times> (event_env \<Rightarrow> pydict \<Rightarrow> packet option)) list" where
  "BUILDERS T =
     [(''contact_message'', build_contact_message T), (''channel_message'', build_channel_message T),
      (''advertisement'', build_advertisement T), (''new_contact'', build_advertisement T),
      (''raw_data'', build_raw_data T), (''rx_log_data'', build_rx_log_data T)]"

text \<open>The outer \<^const>\<open>None\<close> is an exception: an envelope that is no object, or an unhashable event type. A builder's exception
  gives no packet.\<close>

definition adapt_event :: "text_lib \<Rightarrow> event_env \<Rightarrow> bytes \<Rightarrow> packet option option" where
  "adapt_event T e raw =
     (case tl_json T raw of
        None \<Rightarrow> Some None
      | Some (PDict env) \<Rightarrow>
          (case dget_or ''event_type'' (PStr []) env of
             PStr t \<Rightarrow>
               (case find (\<lambda>(k, b). lit k = t) (BUILDERS T) of
                  None \<Rightarrow> Some None
                | Some (k, b) \<Rightarrow> (case dget_or ''payload'' (PDict []) env of PDict d \<Rightarrow> Some (b e d) | _ \<Rightarrow> Some None))
           | PList _ \<Rightarrow> None
           | PDict _ \<Rightarrow> None
           | _ \<Rightarrow> Some None)
      | Some _ \<Rightarrow> None)"


section \<open>Pager frames\<close>

definition pager_address :: "text_lib \<Rightarrow> pyval \<Rightarrow> string \<Rightarrow> string" where
  "pager_address T v dflt = (if v \<noteq> PNone then ident (str_of T v) else dflt)"

definition pager_adapt_event :: "text_lib \<Rightarrow> event_env \<Rightarrow> bytes \<Rightarrow> packet option" where
  "pager_adapt_event T e raw =
     (case tl_json T raw of
        Some (PDict d) \<Rightarrow>
          let from = dget ''from'' d; to = dget ''to'' d;
              mk = (\<lambda>pid payload. (default_packet pid (pager_address T from ''unknown'') (pager_address T to ''broadcast'') PAGER PAGER_RAW (ee_now e))
                      \<lparr>decoded_payload := Some payload, decrypted := True, signal := ee_signal e\<rparr>) in
          (case map_of d ''ack_id'' of
             Some a \<Rightarrow>
               let ack_id = str_of T a in
               Some (mk (ident ack_id) [(''from'', from), (''to'', to), (''ack_id'', PStr ack_id)])
           | None \<Rightarrow>
               (case map_of d ''text'' of
                  None \<Rightarrow> None
                | Some t \<Rightarrow>
                    let msg_id = (if dget ''id'' d \<noteq> PNone then str_of T (dget ''id'' d) else lit (ee_id e)) in
                    Some (mk (ident msg_id) [(''from'', from), (''to'', to), (''text'', PStr (str_of T t)), (''id'', PStr msg_id)])))
      | _ \<Rightarrow> None)"



section \<open>Lemmas\<close>

text \<open>Entries of nested dictionaries and lists: those the search may look at. It does not look behind a key that is itself wanted.\<close>

definition wanted_key :: "string list \<Rightarrow> string \<times> pyval \<Rightarrow> bool" where
  "wanted_key wanted kv \<longleftrightarrow> lower (fst kv) \<in> set wanted \<and> snd kv \<noteq> PNone"

inductive entry_in :: "string list \<Rightarrow> pyval \<Rightarrow> string \<times> pyval \<Rightarrow> bool" for wanted where
  item: "kv \<in> set d \<Longrightarrow> entry_in wanted (PDict d) kv"
| below: "kv \<in> set d \<Longrightarrow> \<not> wanted_key wanted kv \<Longrightarrow> entry_in wanted (snd kv) kv' \<Longrightarrow> entry_in wanted (PDict d) kv'"
| element: "v \<in> set xs \<Longrightarrow> entry_in wanted v kv \<Longrightarrow> entry_in wanted (PList xs) kv"

inductive_simps entry_in_simps [simp]:
  "entry_in wanted (PDict d) kv" "entry_in wanted (PList xs) kv" "entry_in wanted PNone kv" "entry_in wanted (PBool b) kv"
  "entry_in wanted (PInt i) kv" "entry_in wanted (PFloat r) kv" "entry_in wanted (PInf n) kv" "entry_in wanted PNan kv"
  "entry_in wanted (PStr s) kv" "entry_in wanted (PBytes b) kv"

definition name_in :: "text_lib \<Rightarrow> string list \<Rightarrow> pyval \<Rightarrow> ustr \<Rightarrow> bool" where
  "name_in T wanted v s \<longleftrightarrow> s \<noteq> [] \<and>
     (\<exists>kv. entry_in wanted v kv \<and> wanted_key wanted kv \<and> s = ustrip uni_space (str_of T (snd kv)))"

lemma name_in_nonempty: "name_in T wanted v s \<Longrightarrow> s \<noteq> []"
  by (simp add: name_in_def)

lemma entry_in_Cons:
  "entry_in wanted (PDict (kv # d)) e \<longleftrightarrow> e = kv \<or> \<not> wanted_key wanted kv \<and> entry_in wanted (snd kv) e \<or> entry_in wanted (PDict d) e"
  by (cases kv) auto

lemma name_in_list [simp]: "name_in T wanted (PList xs) s \<longleftrightarrow> (\<exists>v \<in> set xs. name_in T wanted v s)"
  by (auto simp: name_in_def)

lemma name_in_items [simp]:
  "\<not> name_in T wanted (PDict []) s"
  "name_in T wanted (PDict ((k, v) # d)) s \<longleftrightarrow> name_in T wanted (PDict d) s \<or>
     (if wanted_key wanted (k, v) then s \<noteq> [] \<and> s = ustrip uni_space (str_of T v) else name_in T wanted v s)"
proof -
  show "\<not> name_in T wanted (PDict []) s" by (simp add: name_in_def)
  show "name_in T wanted (PDict ((k, v) # d)) s \<longleftrightarrow> name_in T wanted (PDict d) s \<or>
     (if wanted_key wanted (k, v) then s \<noteq> [] \<and> s = ustrip uni_space (str_of T v) else name_in T wanted v s)"
    unfolding name_in_def entry_in_Cons by (cases "wanted_key wanted (k, v)") (simp_all, blast+)
qed

lemma name_in_leaf [simp]:
  "\<not> name_in T wanted PNone s" "\<not> name_in T wanted (PBool b) s" "\<not> name_in T wanted (PInt i) s" "\<not> name_in T wanted (PFloat r) s"
  "\<not> name_in T wanted (PInf n) s" "\<not> name_in T wanted PNan s" "\<not> name_in T wanted (PStr u) s" "\<not> name_in T wanted (PBytes y) s"
  by (simp_all add: name_in_def)

abbreviation name_at :: "text_lib \<Rightarrow> string list \<Rightarrow> pyval list \<Rightarrow> ustr \<Rightarrow> bool" where
  "name_at T wanted vs s \<equiv> (\<exists>v \<in> set vs. name_in T wanted v s)"

lemma scan_items_exact:
  "case scan_items T wanted items stack of
     Inl name \<Rightarrow> name_in T wanted (PDict items) name
   | Inr stack' \<Rightarrow> (\<forall>s. name_at T wanted stack' s \<longleftrightarrow> name_in T wanted (PDict items) s \<or> name_at T wanted stack s)"
proof (induction T wanted items stack rule: scan_items.induct)
  case (2 T wanted k v items stack)
  show ?case
  proof (cases "wanted_key wanted (k, v)")
    case True
    then show ?thesis using "2.IH"(1) by (auto simp: wanted_key_def Let_def split: sum.splits) metis+
  next
    case False
    then have "\<not> (lower k \<in> set wanted \<and> v \<noteq> PNone)" by (simp add: wanted_key_def)
    then show ?thesis using False "2.IH"(2-) by (cases v) (auto simp del: name_in_list split: sum.splits)
  qed
qed simp

lemma search_stack_exact:
  "if search_stack T wanted vs = [] then \<forall>s. \<not> name_at T wanted vs s else name_at T wanted vs (search_stack T wanted vs)"
proof (induction T wanted vs rule: search_stack.induct)
  case (2 T wanted v stack)
  show ?case
  proof (cases v)
    case (PDict d)
    show ?thesis
    proof (cases "scan_items T wanted d stack")
      case (Inl name)
      then have "name_in T wanted (PDict d) name" using scan_items_exact [of T wanted d stack] by simp
      then show ?thesis using PDict Inl name_in_nonempty by auto
    next
      case (Inr stack')
      then have "\<And>s. name_at T wanted stack' s \<longleftrightarrow> name_in T wanted (PDict d) s \<or> name_at T wanted stack s"
        using scan_items_exact [of T wanted d stack] by simp
      moreover have "if search_stack T wanted stack' = [] then \<forall>s. \<not> name_at T wanted stack' s
          else name_at T wanted stack' (search_stack T wanted stack')" using "2.IH" PDict Inr by blast
      ultimately show ?thesis using PDict Inr by (cases "search_stack T wanted stack' = []") simp_all
    qed
  next
    case (PList xs)
    then show ?thesis using "2.IH" by (auto split: if_splits)
  qed (use "2.IH" in \<open>auto split: if_splits\<close>)
qed simp


definition companion_packet :: "event_env \<Rightarrow> packet \<Rightarrow> bool" where
  "companion_packet e p \<longleftrightarrow> protocol p = MESHCORE \<and> packet_id p = ee_id e \<and> hop_limit p = 0"

lemma builder_packets:
  "build_contact_message T e d = Some p \<Longrightarrow> companion_packet e p" "build_channel_message T e d = Some p \<Longrightarrow> companion_packet e p"
  "build_advertisement T e d = Some p \<Longrightarrow> companion_packet e p" "build_raw_data T e d = Some p \<Longrightarrow> companion_packet e p"
  "build_rx_log_data T e d = Some p \<Longrightarrow> companion_packet e p"
  by (clarsimp simp: build_contact_message_def build_channel_message_def build_advertisement_def build_raw_data_def
      build_rx_log_data_def default_packet_def Let_def Option.bind_eq_Some_conv companion_packet_def)+

lemma find_in_set: "find P xs = Some x \<Longrightarrow> x \<in> set xs"
  by (induction xs) (auto split: if_splits)

lemma adapt_event_packet:
  assumes "adapt_event T e raw = Some (Some p)"
  shows "companion_packet e p"
proof -
  obtain k b d where "(k, b) \<in> set (BUILDERS T)" "b e d = Some p"
    using assms by (auto simp: adapt_event_def split: option.splits pyval.splits prod.splits dest!: find_in_set)
  then show ?thesis using builder_packets by (auto simp: BUILDERS_def)
qed

lemma pager_adapt_packet: "pager_adapt_event T e raw = Some p \<Longrightarrow> protocol p = PAGER \<and> packet_type p = PAGER_RAW \<and> decrypted p"
  by (auto simp: pager_adapt_event_def default_packet_def Let_def split: option.splits pyval.splits)


section \<open>Properties\<close>

text \<open>C40: the search for the name of an advertised node always ends, and its answer is exact: a non-empty answer is the trimmed text of some
  entry under one of the wanted keys, at the top level or at any depth; an empty answer means that no such entry has a
  name.\<close>

theorem advert_name_exact:
  "let name = find_payload_name T d keys in
   if name = [] then \<not> (\<exists>k s. k \<in> set keys \<and> dget k d \<noteq> PNone \<and> s = ustrip uni_space (str_of T (dget k d)) \<and> s \<noteq> []) \<and>
       (\<forall>s. \<not> name_at T (map lower keys) (map snd d) s)
   else (\<exists>k. k \<in> set keys \<and> dget k d \<noteq> PNone \<and> name = ustrip uni_space (str_of T (dget k d))) \<or> name_at T (map lower keys) (map snd d) name"
proof -
  have f: "if first_payload_value T d ks [] = [] then \<not> (\<exists>k \<in> set ks. dget k d \<noteq> PNone \<and> ustrip uni_space (str_of T (dget k d)) \<noteq> [])
      else \<exists>k \<in> set ks. dget k d \<noteq> PNone \<and> first_payload_value T d ks [] = ustrip uni_space (str_of T (dget k d))" for ks
    by (induction ks) (auto simp: Let_def split: if_splits)
  show ?thesis using f [of keys] search_stack_exact [of T "map lower keys" "rev (map snd d)"]
    by (auto simp: find_payload_name_def Let_def split: if_splits)
qed

end
