(* ===== verification/Pipeline.thy ===== *)
theory Pipeline
  imports Relay_Manager Packet_Router Mqtt_Publisher Storage Analytics Event_Adapters
begin

text \<open>
  \<^verbatim>\<open>src/src/coordinator.py\<close>: the pipeline from a capture to the stray-frame log or to the database, the listeners, the relay, the MQTT
  broker and the statistics. Plugins (\<^verbatim>\<open>src/src/api/protocol_registry.py\<close>) are parameters. A result of \<^const>\<open>None\<close> of a
  capture is an exception that leaves \<^verbatim>\<open>_process_capture\<close> and with it ends the loop over the captures.
\<close>

section \<open>State and environment\<close>

text \<open>\<^verbatim>\<open>ProtocolSpec\<close>; an outer \<^const>\<open>None\<close> is an exception of the plugin.\<close>

record protocol_spec =
  ps_protocol :: string
  ps_capture_prefix :: string
  ps_adapt :: "raw_capture \<Rightarrow> packet option option"
  ps_tier :: "(packet \<Rightarrow> string option option) option"

definition for_capture_source :: "protocol_spec list \<Rightarrow> string \<Rightarrow> protocol_spec option" where
  "for_capture_source specs src = find (\<lambda>s. starts_with src (ps_capture_prefix s)) specs"

definition for_protocol :: "protocol_spec list \<Rightarrow> string \<Rightarrow> protocol_spec option" where
  "for_protocol specs proto = find (\<lambda>s. ps_protocol s = proto) (rev specs)"

text \<open>The parameters and the clock readings of one capture: the decoders', the adapters', the plugins in the order of their
  registration, the MQTT client's; the functions of \<^verbatim>\<open>math\<close>; the configured position and pager address.\<close>

record pipe_env =
  pe_router :: router_env
  pe_text :: text_lib
  pe_event_id :: string
  pe_specs :: "protocol_spec list"
  pe_mqtt :: mqtt_lib
  pe_math :: math_lib
  pe_device :: "(rat \<times> rat) option"
  pe_pager_capcode :: int
  pe_now_dedup :: rat
  pe_now_limit :: rat
  pe_now_gate :: rat
  pe_now_publish :: rat
  pe_now :: time

record pipeline =
  pc_router :: router
  pc_stray :: stray_log
  pc_relay :: relay_manager
  pc_mqtt :: "publisher option"
  pc_db :: database
  pc_stats :: stats
  pc_last_node :: "(string \<times> node) list"

record pipe_out =
  out_notified :: "packet list"
  out_relayed :: "packet option"
  out_mqtt :: "mqtt_message list"

definition no_output :: pipe_out where
  "no_output = \<lparr>out_notified = [], out_relayed = None, out_mqtt = []\<rparr>"


section \<open>Storing\<close>

text \<open>What the database driver can bind: an encodable text, a 64-bit integer, a float, nothing.\<close>

fun storable_id :: "string \<Rightarrow> bool" where
  "storable_id (a # b # s) \<longleftrightarrow> \<not> ((of_char a :: nat) = 0xED \<and> 0xA0 \<le> (of_char b :: nat)) \<and> storable_id (b # s)"
| "storable_id _ \<longleftrightarrow> True"

definition int64 :: "int \<Rightarrow> bool" where
  "int64 i \<longleftrightarrow> - (2 ^ 63) \<le> i \<and> i < 2 ^ 63"

fun bindable :: "pyval \<Rightarrow> bool" where
  "bindable (PInt i) \<longleftrightarrow> int64 i"
| "bindable (PStr s) \<longleftrightarrow> list_all scalar s"
| "bindable (PList xs) \<longleftrightarrow> False"
| "bindable (PDict d) \<longleftrightarrow> False"
| "bindable _ \<longleftrightarrow> True"

definition packet_bindable :: "packet \<Rightarrow> bool" where
  "packet_bindable p \<longleftrightarrow>
     (case decoded_payload p of None \<Rightarrow> True | Some d \<Rightarrow> json_ok (PDict d)) \<and>
     list_all storable_id [packet_id p, source_id p, destination_id p, protocol_value (protocol p), packet_type_value (packet_type p),
       capture_source p] \<and>
     list_all int64 [hop_limit p, hop_start p, channel_hash p, relay_node p] \<and>
     (case signal p of None \<Rightarrow> True | Some s \<Rightarrow> int64 (spreading_factor s))"

definition node_bindable :: "node \<Rightarrow> bool" where
  "node_bindable n \<longleftrightarrow> storable_id (node_id n) \<and>
     list_all bindable [long_name n, short_name n, hardware_model n, firmware_version n, role n, public_key n, latitude n, longitude n, altitude n]"

definition telemetry_bindable :: "telemetry \<Rightarrow> bool" where
  "telemetry_bindable t \<longleftrightarrow> storable_id (tel_node_id t) \<and>
     list_all bindable [battery_level t, voltage t, temperature t, humidity t, barometric_pressure t, channel_utilization t,
       air_util_tx t, uptime_seconds t]"

text \<open>\<^verbatim>\<open>_update_node\<close> from the registration of a public key on; the flag tells whether the function returns normally.\<close>

definition learn_public_key :: "(string \<Rightarrow> ustr option) \<Rightarrow> node \<Rightarrow> crypto \<Rightarrow> bool \<times> crypto" where
  "learn_public_key db n cs =
     (if \<not> truthy (public_key n) then (True, cs)
      else (case py_int16 (node_id n) of
          None \<Rightarrow> (True, cs)
        | Some node_int \<Rightarrow>
            (case public_key n of
               PStr hex \<Rightarrow>
                 (case fromhex hex of
                    None \<Rightarrow> (True, cs)
                  | Some new_key \<Rightarrow> (True, register_public_key node_int new_key (snd (lookup_public_key db node_int cs))))
             | _ \<Rightarrow> (False, cs))))"

definition node_update_of :: "packet \<Rightarrow> node option" where
  "node_update_of p = (if protocol p = MESHTASTIC then extract_node_update p else mc_extract_node_update p)"

definition telemetry_of :: "packet \<Rightarrow> telemetry option" where
  "telemetry_of p = (if protocol p = MESHTASTIC then extract_telemetry p else mc_extract_telemetry p)"

text \<open>Each stage of \<^verbatim>\<open>_store_packet\<close> gives the new state and whether it ended without an exception.\<close>

definition insert_stage :: "packet \<Rightarrow> pipeline \<Rightarrow> bool \<times> pipeline" where
  "insert_stage p pc = (if packet_bindable p then (True, pc\<lparr>pc_db := packet_insert p (pc_db pc)\<rparr>) else (False, pc))"

definition count_stage :: "pipe_env \<Rightarrow> packet \<Rightarrow> pipeline \<Rightarrow> bool \<times> pipeline" where
  "count_stage e p pc =
     (if source_id p = [] then (True, pc)
      else if storable_id (source_id p) then (True, pc\<lparr>pc_db := increment_packet_count (pe_now e) (source_id p) (pc_db pc)\<rparr>)
      else (False, pc))"

definition update_node :: "pipe_env \<Rightarrow> packet \<Rightarrow> pipeline \<Rightarrow> bool \<times> pipeline" where
  "update_node e p pc =
     (if protocol p \<noteq> MESHTASTIC \<and> protocol p \<noteq> MESHCORE then
        (if protocol p = LORAWAN then count_stage e p pc else (True, pc))
      else (case node_update_of p of
          None \<Rightarrow> count_stage e p pc
        | Some n \<Rightarrow>
            if \<not> node_bindable n then (False, pc)
            else
              let (ok, cs) = learn_public_key (re_db (pe_router e)) n (rt_crypto (pc_router pc)) in
              (ok, pc\<lparr>pc_db := node_upsert (pe_now e) n (pc_db pc),
                      pc_last_node := AList.update (node_id n) n (pc_last_node pc),
                      pc_stats := record_node n (pc_stats pc),
                      pc_router := (pc_router pc)\<lparr>rt_crypto := cs\<rparr>\<rparr>)))"

definition store_telemetry :: "packet \<Rightarrow> pipeline \<Rightarrow> bool \<times> pipeline" where
  "store_telemetry p pc =
     (if protocol p \<noteq> MESHTASTIC \<and> protocol p \<noteq> MESHCORE then (True, pc)
      else (case telemetry_of p of
          None \<Rightarrow> (True, pc)
        | Some t \<Rightarrow>
            if telemetry_bindable t then (True, pc\<lparr>pc_db := telemetry_insert t (pc_db pc)\<rparr>) else (False, pc)))"

definition store_packet :: "pipe_env \<Rightarrow> packet \<Rightarrow> pipeline \<Rightarrow> pipeline" where
  "store_packet e p pc =
     (let (ok, pc1) = insert_stage p pc in
      if \<not> ok then pc1
      else
        let (ok, pc2) = update_node e p pc1 in
        if \<not> ok then pc2 else snd (store_telemetry p pc2))"


section \<open>Statistics\<close>

text \<open>A coordinate the distance can be computed from; the distance of an infinite coordinate is a \<^verbatim>\<open>ValueError\<close> of \<^verbatim>\<open>math.sin\<close>, that of a
  NaN fails every comparison.\<close>

fun coordinate :: "pyval \<Rightarrow> rat option" where
  "coordinate (PInt i) = Some (of_int i)"
| "coordinate (PFloat r) = Some r"
| "coordinate (PBool b) = Some (if b then 1 else 0)"
| "coordinate _ = None"

definition farthest_direct :: "pipe_env \<Rightarrow> packet \<Rightarrow> rat option \<Rightarrow> rat \<times> rat \<Rightarrow> node \<Rightarrow> stats \<Rightarrow> stats option" where
  "farthest_direct e p rs dev n st =
     (if hops_consumed (hop_start p) (hop_limit p) \<noteq> 0 then Some st
      else (case (coordinate (latitude n), coordinate (longitude n)) of
          (Some lat, Some lon) \<Rightarrow>
            record_farthest_direct (pe_math e) (source_id p) rs dev (lat, lon) (hop_start p) (hop_limit p) st
        | _ \<Rightarrow>
            if (coordinate (latitude n) \<noteq> None \<or> latitude n = PNan) \<and> (coordinate (longitude n) \<noteq> None \<or> longitude n = PNan)
            then Some st else None))"

definition record_stats :: "pipe_env \<Rightarrow> packet \<Rightarrow> pipeline \<Rightarrow> pipeline option" where
  "record_stats e p pc =
     (let rs = map_option rssi (signal p); sn = map_option snr (signal p);
          st = record_packet (protocol_value (protocol p)) (packet_type_value (packet_type p)) rs sn (hop_start p) (hop_limit p) (pc_stats pc)
      in map_option (\<lambda>st. pc\<lparr>pc_stats := st\<rparr>)
           (case (signal p, pe_device e, map_of (pc_last_node pc) (source_id p)) of
              (Some _, Some dev, Some n) \<Rightarrow>
                if source_id p \<noteq> [] \<and> has_position n then farthest_direct e p rs dev n st else Some st
            | _ \<Rightarrow> Some st))"


section \<open>One capture\<close>

definition pipe_event_env :: "pipe_env \<Rightarrow> raw_capture \<Rightarrow> event_env" where
  "pipe_event_env e c = \<lparr>ee_id = pe_event_id e, ee_now = pe_now e, ee_signal = rc_signal c\<rparr>"

definition dispatch :: "pipe_env \<Rightarrow> raw_capture \<Rightarrow> router \<Rightarrow> (packet option \<times> router) option" where
  "dispatch e c rt =
     (if starts_with (rc_capture_source c) ''meshcore_usb'' then
        map_option (\<lambda>r. (r, rt)) (adapt_event (pe_text e) (pipe_event_env e c) (rc_payload c))
      else (case for_capture_source (pe_specs e) (rc_capture_source c) of
          Some spec \<Rightarrow> map_option (\<lambda>r. (r, rt)) (ps_adapt spec c)
        | None \<Rightarrow>
            if rc_protocol_hint c = Some PAGER then Some (pager_adapt_event (pe_text e) (pipe_event_env e c) (rc_payload c), rt)
            else route (pe_router e) (rc_payload c) (rc_signal c) (rc_protocol_hint c) (rc_pre_decoded c) rt))"

definition tier_of :: "pipe_env \<Rightarrow> packet \<Rightarrow> string option option" where
  "tier_of e p =
     (case for_protocol (pe_specs e) (protocol_value (protocol p)) of
        None \<Rightarrow> Some None
      | Some spec \<Rightarrow> (case ps_tier spec of None \<Rightarrow> Some None | Some tier \<Rightarrow> tier p))"

fun equals_int :: "pyval \<Rightarrow> int \<Rightarrow> bool" where
  "equals_int (PInt i) n \<longleftrightarrow> i = n"
| "equals_int (PFloat r) n \<longleftrightarrow> r = of_int n"
| "equals_int (PBool b) n \<longleftrightarrow> (if b then 1 else 0) = n"
| "equals_int _ n \<longleftrightarrow> False"

definition publish_mqtt :: "pipe_env \<Rightarrow> packet \<Rightarrow> publisher option \<Rightarrow> mqtt_message list \<times> publisher option" where
  "publish_mqtt e p m =
     (case m of
        None \<Rightarrow> ([], None)
      | Some pb \<Rightarrow> (case mqtt_publish (pe_mqtt e) (pe_now_gate e) (pe_now_publish e) p pb of (_, sent, pb1) \<Rightarrow> (sent, Some pb1)))"

definition deliver :: "pipe_env \<Rightarrow> packet \<Rightarrow> pipeline \<Rightarrow> (pipe_out \<times> pipeline) option" where
  "deliver e p pc =
     (let pc1 = store_packet e p pc;
          (relayed, rm) = process_packet (pe_now_dedup e) (pe_now_limit e) p (pc_relay pc1);
          (sent, m) = publish_mqtt e p (pc_mqtt pc1);
          pc2 = pc1\<lparr>pc_relay := rm, pc_mqtt := m\<rparr>
      in map_option (\<lambda>pc3. (\<lparr>out_notified = [p], out_relayed = relayed, out_mqtt = sent\<rparr>, pc3)) (record_stats e p pc2))"

definition pager_control :: "pipe_env \<Rightarrow> packet \<Rightarrow> pipeline \<Rightarrow> (pipe_out \<times> pipeline) option" where
  "pager_control e p pc =
     (let d = (case decoded_payload p of Some d \<Rightarrow> d | None \<Rightarrow> []) in
      if pe_pager_capcode e \<noteq> 0 \<and> equals_int (dget ''from'' d) (pe_pager_capcode e) then Some (no_output, pc)
      else (case map_of d ''ack_id'' of
          None \<Rightarrow> deliver e p pc
        | Some (PStr ack) \<Rightarrow>
            if storable_id (ident ack)
            then Some (no_output, pc\<lparr>pc_db := snd (update_pager_status (ident ack) ''acked'' (pc_db pc))\<rparr>) else None
        | Some _ \<Rightarrow> None))"

definition handle_packet :: "pipe_env \<Rightarrow> packet \<Rightarrow> pipeline \<Rightarrow> (pipe_out \<times> pipeline) option" where
  "handle_packet e p pc = do {
     tier \<leftarrow> tier_of e p;
     if tier = Some ''ignore'' then Some (no_output, pc)
     else if tier = Some ''blacklist'' then Some (no_output\<lparr>out_notified := [p]\<rparr>, pc)
     else if protocol p = PAGER then pager_control e p pc
     else deliver e p pc }"

definition process_capture :: "pipe_env \<Rightarrow> raw_capture \<Rightarrow> pipeline \<Rightarrow> (pipe_out \<times> pipeline) option" where
  "process_capture e c pc = do {
     (r, rt) \<leftarrow> dispatch e c (pc_router pc);
     let pc1 = pc\<lparr>pc_router := rt\<rparr>;
     (case r of
        None \<Rightarrow> Some (no_output, pc1\<lparr>pc_stray := stray_record c (pc_stray pc1)\<rparr>)
      | Some p \<Rightarrow> handle_packet e (p\<lparr>capture_source := rc_capture_source c\<rparr>) pc1) }"

text \<open>\<^verbatim>\<open>_run_pipeline\<close>: an exception ends the loop, and with it the processing of every later capture.\<close>

fun run_pipeline :: "(pipe_env \<times> raw_capture) list \<Rightarrow> pipeline \<Rightarrow> pipe_out list \<times> pipeline option" where
  "run_pipeline [] pc = ([], Some pc)"
| "run_pipeline ((e, c) # cs) pc =
     (case process_capture e c pc of
        None \<Rightarrow> ([], None)
      | Some (out, pc1) \<Rightarrow> (case run_pipeline cs pc1 of (outs, r) \<Rightarrow> (out # outs, r)))"



section \<open>What the Meshtastic decoder hands over\<close>

text \<open>A decoded payload and its type are what a port handler made of some bytes, or the raw bytes where no protobuf support is installed.\<close>

definition handled :: "pb_lib \<Rightarrow> pydict option \<Rightarrow> packet_type \<Rightarrow> bool" where
  "handled PB d t \<longleftrightarrow> d = None \<and> t \<in> set core_packet_types \<or> (\<exists>b. d = Some [(''raw_hex'', raw_hex b), (''size'', PInt (int (length b)))] \<and> t = UNKNOWN) \<or>
     (\<exists>p b. dispatch_portnum PB p b = (d, t))"

lemma port_type_core: "port_type p \<in> set core_packet_types"
  by (simp add: port_type_def core_packet_types_def split: option.split)

lemma handled_type: "handled PB d t \<Longrightarrow> t \<in> set core_packet_types"
proof -
  assume "handled PB d t"
  moreover have "UNKNOWN \<in> set core_packet_types" by (simp add: core_packet_types_def)
  moreover have "dispatch_portnum PB p b = (d, t) \<Longrightarrow> t \<in> set core_packet_types" for p b
    using dispatch_type [of PB p b] port_type_core [of p] by simp
  ultimately show ?thesis unfolding handled_def by blast
qed

lemma decode_payload_handled: "handled PB (fst (decode_payload PB b)) (fst (snd (decode_payload PB b)))"
  by (auto simp: handled_def decode_payload_def try_protobuf_decode_def core_packet_types_def Let_def split: option.splits prod.splits)

abbreviation vars_handled :: "pb_lib \<Rightarrow> decode_vars \<Rightarrow> bool" where
  "vars_handled PB v \<equiv> handled PB (dv_payload v) (dv_type v)"

lemma take_result_type [simp]: "dv_type (take_result r v) = fst (snd r)"
  by (cases r) (simp add: take_result_def)

lemma take_result_handled: "vars_handled PB (take_result (decode_payload PB b) v)"
  by (simp add: decode_payload_handled)

lemma try_keys_handled: "try_keys L PB h enc cs i keys v = Some w \<Longrightarrow> vars_handled PB v \<Longrightarrow> vars_handled PB w"
proof (induction keys arbitrary: i v)
  case (Cons key keys)
  have d: "vars_handled PB (take_result (decode_payload PB b) v)" for b by (rule take_result_handled)
  show ?case
  proof (cases "decrypt_meshtastic L enc (mh_packet_id h) (mh_source_id h) (Some key) cs")
    case (Some r)
    show ?thesis
    proof (cases r)
      case None
      then show ?thesis using Cons \<open>_ = Some r\<close> by simp
    next
      case (Some b)
      show ?thesis using Cons.prems(1) Cons.IH [OF _ d [of b]] d [of b] \<open>_ = Some r\<close> Some
        by (cases "fst (decode_payload PB b)") (auto simp: Let_def)
    qed
  qed (use Cons in simp)
qed simp

lemma first_stage_handled: "vars_handled PB (fst (first_stage L PB db db' our h enc pre cs))"
proof -
  have i: "vars_handled PB vars_init" by (simp add: handled_def vars_init_def core_packet_types_def)
  have p: "vars_handled PB (use_pre_decoded PB q)" for q
    by (auto simp: use_pre_decoded_def handled_def vars_init_def Let_def split: prod.splits)
  have "vars_handled PB (fst (try_pki L PB db db' h enc cs))"
    using i take_result_handled by (auto simp: try_pki_def Let_def split: prod.splits option.splits if_splits)
  then show ?thesis using i p by (simp add: first_stage_def split: option.split)
qed

text \<open>So a decoded packet carries a handled payload, possibly with the request id, or is marked as encrypted.\<close>

lemma decode_handled:
  assumes "decode L PB db db' now our raw sig pre cs = Some (Some p, cs')"
  obtains h v where "p = make_packet now raw sig h (drop 16 raw) (mark_encrypted h (drop 16 raw) v)" "vars_handled PB v"
    "parse_header (take 16 raw) = Some h"
proof -
  obtain h where h: "parse_header (take 16 raw) = Some h" "16 \<le> length raw"
    using assms decode_header_fails [of raw L PB db db' now our sig pre cs] by (cases "parse_header (take 16 raw)") force+
  obtain v cs1 v1 where v: "first_stage L PB db db' our h (drop 16 raw) pre cs = (v, cs1)"
      "if \<not> dv_decrypted v \<and> pre = None then try_keys L PB h (drop 16 raw) cs1 0 (get_all_keys cs1) v = Some v1 else v1 = v"
      "decode L PB db db' now our raw sig pre cs =
         Some (Some (make_packet now raw sig h (drop 16 raw) (mark_encrypted h (drop 16 raw) v1)), cs1)"
    using decode_result [OF h] by blast
  have "vars_handled PB v" using first_stage_handled [of PB L db db' our h "drop 16 raw" pre cs] v(1) by simp
  then have "vars_handled PB v1" using v(2) try_keys_handled by (auto split: if_splits)
  then show ?thesis using that [of h v1] v(3) assms h(1) by simp
qed

lemma coordinate_degrees [simp]: "\<exists>r. coordinate (degrees i) = Some r"
  unfolding degrees_def coordinate.simps by blast

lemma position_coordinates:
  assumes "handled PB (Some d) POSITION"
  shows "coordinate (dget ''latitude'' d) \<noteq> None" "coordinate (dget ''longitude'' d) \<noteq> None"
proof -
  obtain p b where r: "dispatch_portnum PB p b = (Some d, POSITION)" using assms by (auto simp: handled_def)
  then have "port_type p = POSITION" using dispatch_type [of PB p b] by simp
  then have "p = 3" by (simp add: port_type_def split: if_splits)
  then have "decode_position PB b = (Some d, POSITION)" using r by (simp add: dispatch_portnum_def HANDLERS_def)
  then show "coordinate (dget ''latitude'' d) \<noteq> None" "coordinate (dget ''longitude'' d) \<noteq> None"
    by (auto simp: decode_position_def split: option.splits)
qed

lemma json_ok_values [simp]:
  "json_ok (degrees i)" "json_ok (int_or_none i)" "json_ok (float_or_none r)" "json_ok (str_or_none s)" "json_ok (enum_or_none i)"
  "json_ok (raw_hex b)" "json_ok (node_hex i)" "json_ok (or_none (PBool t))"
  by (simp_all add: degrees_def int_or_none_def float_or_none_def str_or_none_def enum_or_none_def raw_hex_def node_hex_def or_none_def)

definition result_json_ok :: "handler_result \<Rightarrow> bool" where
  "result_json_ok r \<longleftrightarrow> (case fst r of None \<Rightarrow> True | Some d \<Rightarrow> json_ok (PDict d))"

lemma handlers_json_ok:
  "result_json_ok (decode_text b)" "result_json_ok (decode_traceroute L b)" "result_json_ok (decode_neighborinfo L b)"
  "result_json_ok (passthrough t b)" "result_json_ok (decode_range_test b)" "result_json_ok (decode_detection_sensor b)"
  "result_json_ok (decode_paxcounter L b)" "result_json_ok (decode_position L b)" "result_json_ok (decode_nodeinfo L b)"
  "result_json_ok (decode_waypoint L b)" "result_json_ok (decode_routing L b)" "result_json_ok (decode_store_forward L b)"
  "result_json_ok (decode_map_report L b)" "result_json_ok (decode_telemetry L b)"
  by (auto simp: result_json_ok_def handler_defs telemetry_fields_def list_all_iff split: option.splits)

lemma dispatch_json_ok: "result_json_ok (dispatch_portnum L p b)"
  by (rule dispatch_induct [where P = "\<lambda>p. result_json_ok"]) (use handlers_json_ok in \<open>auto simp: result_json_ok_def\<close>)

lemma handled_json_ok: "handled PB (Some d) t \<Longrightarrow> json_ok (PDict d)"
  unfolding handled_def
proof (elim disjE exE conjE)
  fix p b
  assume "dispatch_portnum PB p b = (Some d, t)"
  then show "json_ok (PDict d)" using dispatch_json_ok [of PB p b] by (simp add: result_json_ok_def)
qed simp_all



section \<open>The state of the pipeline\<close>

text \<open>A coordinate that does no harm to the statistics.\<close>

definition harmless :: "pyval \<Rightarrow> bool" where
  "harmless v \<longleftrightarrow> v = PNone \<or> v = PNan \<or> coordinate v \<noteq> None"

definition coords_ok :: "node \<Rightarrow> bool" where
  "coords_ok n \<longleftrightarrow> harmless (latitude n) \<and> harmless (longitude n)"

definition pipe_inv :: "pipeline \<Rightarrow> bool" where
  "pipe_inv pc \<longleftrightarrow> router_inv (pc_router pc) \<and> list_all (\<lambda>(k, n). coords_ok n) (pc_last_node pc)"

lemma router_inv_crypto: "router_inv rt \<Longrightarrow> crypto_reach cs \<Longrightarrow> router_inv (rt\<lparr>rt_crypto := cs\<rparr>)"
  by (simp add: router_inv_def)

lemma learn_public_key_reach: "crypto_reach cs \<Longrightarrow> crypto_reach (snd (learn_public_key db n cs))"
  by (auto simp: learn_public_key_def intro: crypto_reach.intros split: option.split pyval.split)

text \<open>The stages of storing change neither the packets already stored, nor relay, publisher and stray-frame log.\<close>

lemma count_stage_frame:
  "case count_stage e p pc of (ok, pc1) \<Rightarrow> pc_relay pc1 = pc_relay pc \<and> pc_mqtt pc1 = pc_mqtt pc \<and> pc_stray pc1 = pc_stray pc \<and>
     db_packets (pc_db pc1) = db_packets (pc_db pc) \<and> pc_stats pc1 = pc_stats pc \<and> pc_router pc1 = pc_router pc \<and> pc_last_node pc1 = pc_last_node pc"
  by (simp add: count_stage_def increment_packet_count_def)

definition same_frame :: "pipeline \<Rightarrow> pipeline \<Rightarrow> bool" where
  "same_frame pc pc1 \<longleftrightarrow> pc_relay pc1 = pc_relay pc \<and> pc_mqtt pc1 = pc_mqtt pc \<and> pc_stray pc1 = pc_stray pc \<and>
     db_packets (pc_db pc1) = db_packets (pc_db pc) \<and> st_total_packets (pc_stats pc1) = st_total_packets (pc_stats pc)"

lemma update_node_keeps:
  assumes "pipe_inv pc" "\<And>n. protocol p \<in> {MESHTASTIC, MESHCORE} \<Longrightarrow> node_update_of p = Some n \<Longrightarrow> coords_ok n"
  shows "same_frame pc (snd (update_node e p pc)) \<and> pipe_inv (snd (update_node e p pc))"
proof -
  have c: "same_frame pc (snd (count_stage e p pc)) \<and> pipe_inv (snd (count_stage e p pc))"
    using count_stage_frame [where e = e and p = p and pc = pc] assms(1) by (auto simp: same_frame_def pipe_inv_def)
  have l: "crypto_reach cs" if "learn_public_key db n (rt_crypto (pc_router pc)) = (ok, cs)" for db n ok cs
    using learn_public_key_reach [of "rt_crypto (pc_router pc)" db n] that assms(1) by (simp add: pipe_inv_def router_inv_def)
  show ?thesis
  proof (cases "protocol p \<in> {MESHTASTIC, MESHCORE} \<and> node_update_of p \<noteq> None")
    case True
    then obtain n where n: "node_update_of p = Some n" "coords_ok n" "protocol p \<in> {MESHTASTIC, MESHCORE}" using assms(2) by auto
    obtain ok cs where k: "learn_public_key (re_db (pe_router e)) n (rt_crypto (pc_router pc)) = (ok, cs)" by fastforce
    show ?thesis using n k l [OF k] assms(1)
      by (auto simp: update_node_def same_frame_def pipe_inv_def node_upsert_def record_node_def list_all_update router_inv_crypto)
  next
    case False
    then show ?thesis using c assms(1) by (auto simp: update_node_def same_frame_def)
  qed
qed

lemma store_packet_keeps:
  assumes "pipe_inv pc" "\<And>n. protocol p \<in> {MESHTASTIC, MESHCORE} \<Longrightarrow> node_update_of p = Some n \<Longrightarrow> coords_ok n"
  shows "pipe_inv (store_packet e p pc)" "pc_relay (store_packet e p pc) = pc_relay pc" "pc_mqtt (store_packet e p pc) = pc_mqtt pc"
    "pc_stray (store_packet e p pc) = pc_stray pc" "st_total_packets (pc_stats (store_packet e p pc)) = st_total_packets (pc_stats pc)"
    "db_packets (pc_db (store_packet e p pc)) = db_packets (pc_db pc) @ (if packet_bindable p then [row_of_packet p] else [])"
proof -
  let ?pc1 = "pc\<lparr>pc_db := packet_insert p (pc_db pc)\<rparr>"
  have i: "pipe_inv ?pc1" using assms(1) by (simp add: pipe_inv_def)
  have t: "same_frame q (snd (store_telemetry p q)) \<and> (pipe_inv q \<longrightarrow> pipe_inv (snd (store_telemetry p q)))" for q
    by (auto simp: store_telemetry_def same_frame_def pipe_inv_def telemetry_insert_def split: option.split)
  obtain ok pc2 where u: "update_node e p ?pc1 = (ok, pc2)" by fastforce
  have "same_frame ?pc1 (snd (update_node e p ?pc1)) \<and> pipe_inv (snd (update_node e p ?pc1))"
    using i assms(2) by (rule update_node_keeps)
  then have u2: "same_frame ?pc1 pc2 \<and> pipe_inv pc2" using u by simp
  have s: "store_packet e p pc = (if packet_bindable p then if ok then snd (store_telemetry p pc2) else pc2 else pc)"
    by (simp add: store_packet_def insert_stage_def u)
  show "pipe_inv (store_packet e p pc)" "pc_relay (store_packet e p pc) = pc_relay pc" "pc_mqtt (store_packet e p pc) = pc_mqtt pc"
    "pc_stray (store_packet e p pc) = pc_stray pc" "st_total_packets (pc_stats (store_packet e p pc)) = st_total_packets (pc_stats pc)"
    "db_packets (pc_db (store_packet e p pc)) = db_packets (pc_db pc) @ (if packet_bindable p then [row_of_packet p] else [])"
    using u2 t [of pc2] assms(1) unfolding s by (auto simp: same_frame_def packet_insert_def)
qed


text \<open>The distance raises for a packet: it was heard directly, and between the position of this device and the last known one of its
  sender the distance has no value.\<close>

definition distance_fails :: "pipe_env \<Rightarrow> packet \<Rightarrow> pipeline \<Rightarrow> bool" where
  "distance_fails e p pc \<longleftrightarrow>
     signal p \<noteq> None \<and> source_id p \<noteq> [] \<and> hops_consumed (hop_start p) (hop_limit p) = 0 \<and>
     (\<exists>dev n lat lon. pe_device e = Some dev \<and> map_of (pc_last_node pc) (source_id p) = Some n \<and>
        coordinate (latitude n) = Some lat \<and> coordinate (longitude n) = Some lon \<and> is_real_position lat lon \<and>
        haversine_mi (pe_math e) (fst dev) (snd dev) lat lon = None)"

lemma record_farthest_direct_counts:
  "record_farthest_direct M sid rs dev nd start limit st = Some st1 \<Longrightarrow> st_total_packets st1 = st_total_packets st"
  by (auto simp: record_farthest_direct_def Let_def split: if_splits option.splits)

lemma record_stats_keeps:
  assumes "record_stats e p pc = Some pc1"
  shows "pipe_inv pc \<Longrightarrow> pipe_inv pc1" "pc_stray pc1 = pc_stray pc" "pc_db pc1 = pc_db pc"
    "st_total_packets (pc_stats pc1) = st_total_packets (pc_stats pc) + 1"
proof -
  have t: "st_total_packets (record_packet a b c d f g st) = st_total_packets st + 1" for a b c d f g st
    by (simp add: record_packet_def Let_def split: option.split)
  have f: "st_total_packets st1 = st_total_packets st" if "farthest_direct e p rs dev n st = Some st1" for rs dev n st st1
    using that record_farthest_direct_counts by (auto simp: farthest_direct_def split: if_splits option.splits)
  obtain st where "pc1 = pc\<lparr>pc_stats := st\<rparr>" "st_total_packets st = st_total_packets (pc_stats pc) + 1"
    using assms t by (auto simp: record_stats_def Let_def dest!: f split: option.splits if_splits)
  then show "pipe_inv pc \<Longrightarrow> pipe_inv pc1" "pc_stray pc1 = pc_stray pc" "pc_db pc1 = pc_db pc"
    "st_total_packets (pc_stats pc1) = st_total_packets (pc_stats pc) + 1" by (simp_all add: pipe_inv_def)
qed

lemma record_farthest_direct_None:
  "record_farthest_direct M sid rs dev nd start limit st = None \<longleftrightarrow>
     hops_consumed start limit = 0 \<and> is_real_position (fst nd) (snd nd) \<and> haversine_mi M (fst dev) (snd dev) (fst nd) (snd nd) = None"
  by (auto simp: record_farthest_direct_def split: option.split)

lemma farthest_direct_None:
  assumes "coords_ok n" "has_position n"
  shows "farthest_direct e p rs dev n st = None \<longleftrightarrow>
    hops_consumed (hop_start p) (hop_limit p) = 0 \<and>
    (\<exists>lat lon. coordinate (latitude n) = Some lat \<and> coordinate (longitude n) = Some lon \<and> is_real_position lat lon \<and>
       haversine_mi (pe_math e) (fst dev) (snd dev) lat lon = None)"
proof -
  have "coordinate (latitude n) \<noteq> None \<or> latitude n = PNan" "coordinate (longitude n) \<noteq> None \<or> longitude n = PNan"
    using assms by (auto simp: coords_ok_def harmless_def has_position_def)
  then show ?thesis by (auto simp: farthest_direct_def record_farthest_direct_None split: option.split)
qed

lemma record_stats_None:
  assumes "pipe_inv pc"
  shows "record_stats e p pc = None \<longleftrightarrow> distance_fails e p pc"
proof -
  have ok: "coords_ok n" if "map_of (pc_last_node pc) k = Some n" for k n
    using assms map_of_SomeD [OF that] by (auto simp: pipe_inv_def list_all_iff)
  show ?thesis
  proof (cases "\<exists>sig dev n. signal p = Some sig \<and> pe_device e = Some dev \<and> map_of (pc_last_node pc) (source_id p) = Some n")
    case True
    then obtain sig dev n where h: "signal p = Some sig" "pe_device e = Some dev" "map_of (pc_last_node pc) (source_id p) = Some n" by blast
    have "has_position n" if "coordinate (latitude n) = Some lat" "coordinate (longitude n) = Some lon" for lat lon
      using that by (auto simp: has_position_def)
    then show ?thesis using h farthest_direct_None [OF ok [OF h(3)]]
      by (auto simp: record_stats_def distance_fails_def Let_def)
  next
    case False
    then show ?thesis by (auto simp: record_stats_def distance_fails_def Let_def split: option.split)
  qed
qed

lemma deliver_total:
  assumes "pipe_inv pc" "\<And>n. protocol p \<in> {MESHTASTIC, MESHCORE} \<Longrightarrow> node_update_of p = Some n \<Longrightarrow> coords_ok n"
  shows "deliver e p pc = None \<longleftrightarrow> distance_fails e p (store_packet e p pc)"
    "deliver e p pc = Some (out, pc1) \<Longrightarrow> pipe_inv pc1 \<and> out_notified out = [p] \<and> pc_stray pc1 = pc_stray pc \<and>
       db_packets (pc_db pc1) = db_packets (pc_db pc) @ (if packet_bindable p then [row_of_packet p] else []) \<and>
       st_total_packets (pc_stats pc1) = st_total_packets (pc_stats pc) + 1"
proof -
  let ?pc1 = "store_packet e p pc"
  note s = store_packet_keeps [where e = e and p = p, OF assms]
  obtain relayed rm where r: "process_packet (pe_now_dedup e) (pe_now_limit e) p (pc_relay ?pc1) = (relayed, rm)" by fastforce
  obtain sent m where q: "publish_mqtt e p (pc_mqtt ?pc1) = (sent, m)" by fastforce
  let ?pc2 = "?pc1\<lparr>pc_relay := rm, pc_mqtt := m\<rparr>"
  have inv: "pipe_inv ?pc2" using s(1) by (simp add: pipe_inv_def)
  have d: "deliver e p pc =
      map_option (\<lambda>pc3. (\<lparr>out_notified = [p], out_relayed = relayed, out_mqtt = sent\<rparr>, pc3)) (record_stats e p ?pc2)"
    by (simp add: deliver_def r q Let_def)
  show "deliver e p pc = None \<longleftrightarrow> distance_fails e p ?pc1"
    using record_stats_None [OF inv, of e p] by (simp add: d distance_fails_def)
  assume "deliver e p pc = Some (out, pc1)"
  then have "record_stats e p ?pc2 = Some pc1" "out_notified out = [p]" by (auto simp: d)
  then show "pipe_inv pc1 \<and> out_notified out = [p] \<and> pc_stray pc1 = pc_stray pc \<and>
       db_packets (pc_db pc1) = db_packets (pc_db pc) @ (if packet_bindable p then [row_of_packet p] else []) \<and>
       st_total_packets (pc_stats pc1) = st_total_packets (pc_stats pc) + 1"
    using record_stats_keeps inv s(4-6) by fastforce
qed



section \<open>Captures of the radio\<close>

text \<open>A capture of the concentrator on a Meshtastic or LoRaWAN channel, with no plugin in its way.\<close>

definition radio_capture :: "pipe_env \<Rightarrow> raw_capture \<Rightarrow> bool" where
  "radio_capture e c \<longleftrightarrow>
     \<not> starts_with (rc_capture_source c) ''meshcore_usb'' \<and> for_capture_source (pe_specs e) (rc_capture_source c) = None \<and>
     (rc_protocol_hint c = Some MESHTASTIC \<or> rc_protocol_hint c = Some LORAWAN) \<and>
     for_protocol (pe_specs e) ''meshtastic'' = None \<and> for_protocol (pe_specs e) ''lorawan'' = None \<and>
     aes_lib (re_lib (pe_router e)) \<and> length (rc_payload c) \<le> 4080 \<and> storable_id (rc_capture_source c) \<and>
     (case rc_signal c of None \<Rightarrow> True | Some s \<Rightarrow> int64 (spreading_factor s))"

definition frame_of :: "pipe_env \<Rightarrow> raw_capture \<Rightarrow> frame_in" where
  "frame_of e c = \<lparr>fi_env = pe_router e, fi_raw = rc_payload c, fi_sig = rc_signal c, fi_hint = rc_protocol_hint c, fi_pre = rc_pre_decoded c\<rparr>"

lemma radio_dispatch: "radio_capture e c \<Longrightarrow> dispatch e c rt = route_in (frame_of e c) rt"
  by (auto simp: radio_capture_def dispatch_def route_in_def frame_of_def)

lemma storable_ascii: "list_all (\<lambda>c. (of_char c :: nat) < 128) s \<Longrightarrow> storable_id s"
  by (induction s rule: storable_id.induct) auto

lemma hex_char_ascii: "hex_char c \<Longrightarrow> (of_char c :: nat) < 128"
  by (auto simp: hex_char_def hexval_def Let_def split: if_splits)

lemma storable_fmt_x: "0 \<le> v \<Longrightarrow> storable_id (fmt_x w v)"
  using hex_nat_digits(1) [of "nat v"] hex_char_ascii
  by (intro storable_ascii) (auto simp: fmt_hex_def zfill_def list_all_iff)

lemma meshtastic_bindable:
  assumes "decode L PB db db' now our raw sig pre cs = Some (Some p, cs')" "storable_id src"
    and "case sig of None \<Rightarrow> True | Some s \<Rightarrow> int64 (spreading_factor s)"
  shows "packet_bindable (p\<lparr>capture_source := src\<rparr>)"
proof -
  obtain h v where p: "p = make_packet now raw sig h (drop 16 raw) (mark_encrypted h (drop 16 raw) v)" and v: "vars_handled PB v"
    and h: "parse_header (take 16 raw) = Some h" using decode_handled [OF assms(1)] .
  have m: "json_ok (PDict d)" if "dv_payload (mark_encrypted h (drop 16 raw) v) = Some d" for d
    using that v handled_json_ok [of PB d "dv_type v"] by (auto simp: mark_encrypted_def split: if_splits)
  have "json_ok (PDict d)" if "add_request_id (mark_encrypted h (drop 16 raw) v) = Some d" for d
    using that m by (auto simp: add_request_id_def list_all_update split: option.splits if_splits)
  then have j: "case decoded_payload p of None \<Rightarrow> True | Some d \<Rightarrow> json_ok (PDict d)" by (simp add: p split: option.split)
  have "list_all (\<lambda>t. storable_id (packet_type_value t)) core_packet_types" by (simp add: core_packet_types_def)
  moreover have "dv_type (mark_encrypted h (drop 16 raw) v) \<in> set core_packet_types"
    using handled_type [OF v] by (simp add: mark_encrypted_def core_packet_types_def)
  ultimately have t: "storable_id (packet_type_value (packet_type p))" by (simp add: p list_all_iff)
  show ?thesis using j t assms(2,3) parse_header_Some [OF h]
    by (simp add: packet_bindable_def p make_packet_def storable_fmt_x int64_def)
qed


lemma meshtastic_coords:
  assumes "decode L PB db db' now our raw sig pre cs = Some (Some p, cs')" "extract_node_update (p\<lparr>capture_source := src\<rparr>) = Some n"
  shows "coords_ok n"
proof -
  obtain h v where p: "p = make_packet now raw sig h (drop 16 raw) (mark_encrypted h (drop 16 raw) v)" and v: "vars_handled PB v"
    using decode_handled [OF assms(1)] .
  let ?m = "mark_encrypted h (drop 16 raw) v"
  have c: "coordinate (dget ''latitude'' d) \<noteq> None \<and> coordinate (dget ''longitude'' d) \<noteq> None"
    if "dv_payload ?m = Some d" "dv_type ?m = POSITION" for d
    using that v position_coordinates [of PB d] by (auto simp: mark_encrypted_def simp del: not_None_eq split: if_splits)
  have d: "coordinate (dget ''latitude'' d) \<noteq> None \<and> coordinate (dget ''longitude'' d) \<noteq> None"
    if "decoded_payload p = Some d" "packet_type p = POSITION" for d
    using that c by (auto simp: p add_request_id_def simp del: not_None_eq split: option.splits if_splits)
  have "harmless PNone" by (simp add: harmless_def)
  then show ?thesis using assms(2) d
    by (auto simp: extract_node_update_def coords_ok_def default_node_def harmless_def Let_def simp del: not_None_eq
        split: option.splits if_splits)
qed

lemma radio_packet:
  assumes "radio_capture e c" "router_inv rt"
  obtains r rt' where "dispatch e c rt = Some (r, rt')" "router_inv rt'"
    "\<And>p. r = Some p \<Longrightarrow> protocol p = MESHTASTIC \<or> protocol p = LORAWAN"
    "\<And>p. r = Some p \<Longrightarrow> protocol p = MESHTASTIC \<Longrightarrow> packet_bindable (p\<lparr>capture_source := rc_capture_source c\<rparr>)"
    "\<And>p n. r = Some p \<Longrightarrow> protocol p = MESHTASTIC \<Longrightarrow> extract_node_update (p\<lparr>capture_source := rc_capture_source c\<rparr>) = Some n \<Longrightarrow> coords_ok n"
proof -
  let ?f = "frame_of e c"
  have ok: "frame_ok ?f" using assms(1) by (simp add: radio_capture_def frame_ok_def frame_of_def)
  obtain r rt' where r: "route_in ?f rt = Some (r, rt')" "router_inv rt'" using rt.dec_total [OF ok assms(2)] by blast
  show ?thesis
  proof (cases "rc_protocol_hint c = Some LORAWAN")
    case True
    then have "via_lorawan (pe_router e) (rc_payload c) (rc_signal c) rt = Some (r, rt')"
      using r(1) by (simp add: route_in_def route_def frame_of_def)
    then have "protocol p = LORAWAN" if "r = Some p" for p
      using lw.dec_protocol [OF ok assms(2)] that by (simp add: frame_of_def)
    then show ?thesis using that [of r rt'] r radio_dispatch [OF assms(1)] by simp
  next
    case False
    then have "rc_protocol_hint c = Some MESHTASTIC" using assms(1) by (auto simp: radio_capture_def)
    then have m: "via_meshtastic (pe_router e) (rc_payload c) (rc_signal c) (rc_pre_decoded c) rt = Some (r, rt')"
      using r(1) by (simp add: route_in_def route_def frame_of_def)
    then have "protocol p = MESHTASTIC" if "r = Some p" for p
      using mt.dec_protocol [OF ok assms(2)] that by (simp add: frame_of_def)
    moreover obtain cs where d: "decode (re_lib (pe_router e)) (re_pb (pe_router e)) (re_db (pe_router e)) (re_db' (pe_router e))
        (re_now (pe_router e)) (re_our (pe_router e)) (rc_payload c) (rc_signal c) (rc_pre_decoded c) (rt_crypto rt) = Some (r, cs)"
      using m by (auto simp: via_meshtastic_def)
    moreover have "packet_bindable (p\<lparr>capture_source := rc_capture_source c\<rparr>)" if "r = Some p" for p
      using meshtastic_bindable [OF d [unfolded that]] assms(1) by (simp add: radio_capture_def)
    moreover have "coords_ok n" if "r = Some p" "extract_node_update (p\<lparr>capture_source := rc_capture_source c\<rparr>) = Some n" for p n
      using meshtastic_coords [OF d [unfolded that(1)] that(2)] .
    ultimately show ?thesis using that [of r rt'] r radio_dispatch [OF assms(1)] by metis
  qed
qed

text \<open>What becomes of one capture: it is a stray frame, or its packet is announced and counted (and stored, unless the driver cannot bind it).\<close>

definition accounted :: "raw_capture \<Rightarrow> pipeline \<Rightarrow> pipe_out \<Rightarrow> pipeline \<Rightarrow> bool" where
  "accounted c pc out pc1 \<longleftrightarrow>
     (case out_notified out of
        [] \<Rightarrow> out = no_output \<and> pc_stray pc1 = stray_record c (pc_stray pc) \<and> pc_db pc1 = pc_db pc \<and> pc_stats pc1 = pc_stats pc
      | [p] \<Rightarrow> pc_stray pc1 = pc_stray pc \<and> capture_source p = rc_capture_source c \<and>
          st_total_packets (pc_stats pc1) = st_total_packets (pc_stats pc) + 1 \<and>
          db_packets (pc_db pc1) = db_packets (pc_db pc) @ (if packet_bindable p then [row_of_packet p] else []) \<and>
          (protocol p = MESHTASTIC \<longrightarrow> packet_bindable p)
      | _ \<Rightarrow> False)"

lemma radio_capture_cases:
  assumes "radio_capture e c" "pipe_inv pc"
  obtains (stray) pc1 rt where "dispatch e c (pc_router pc) = Some (None, rt)" "process_capture e c pc = Some (no_output, pc1)" "pipe_inv pc1" "accounted c pc no_output pc1"
    | (packet) q p rt where "dispatch e c (pc_router pc) = Some (Some q, rt)" "p = q\<lparr>capture_source := rc_capture_source c\<rparr>"
        "process_capture e c pc = deliver e p (pc\<lparr>pc_router := rt\<rparr>)" "pipe_inv (pc\<lparr>pc_router := rt\<rparr>)"
        "capture_source p = rc_capture_source c" "protocol p = MESHTASTIC \<longrightarrow> packet_bindable p"
        "\<And>n. protocol p \<in> {MESHTASTIC, MESHCORE} \<Longrightarrow> node_update_of p = Some n \<Longrightarrow> coords_ok n"
proof -
  obtain r rt where r: "dispatch e c (pc_router pc) = Some (r, rt)" "router_inv rt"
      "\<And>p. r = Some p \<Longrightarrow> protocol p = MESHTASTIC \<or> protocol p = LORAWAN"
      "\<And>p. r = Some p \<Longrightarrow> protocol p = MESHTASTIC \<Longrightarrow> packet_bindable (p\<lparr>capture_source := rc_capture_source c\<rparr>)"
      "\<And>p n. r = Some p \<Longrightarrow> protocol p = MESHTASTIC \<Longrightarrow> extract_node_update (p\<lparr>capture_source := rc_capture_source c\<rparr>) = Some n \<Longrightarrow> coords_ok n"
    using radio_packet [OF assms(1)] assms(2) unfolding pipe_inv_def by blast
  let ?pc = "pc\<lparr>pc_router := rt\<rparr>"
  have inv: "pipe_inv ?pc" using assms(2) r(2) by (simp add: pipe_inv_def)
  show ?thesis
  proof (cases r)
    case None
    show ?thesis
      by (rule stray [of rt "?pc\<lparr>pc_stray := stray_record c (pc_stray pc)\<rparr>"])
        (use None r(1) inv in \<open>simp_all add: process_capture_def accounted_def no_output_def pipe_inv_def\<close>)
  next
    case (Some p)
    let ?p = "p\<lparr>capture_source := rc_capture_source c\<rparr>"
    have "for_protocol (pe_specs e) (protocol_value (protocol p)) = None"
      using r(3) [OF Some] assms(1) by (auto simp: radio_capture_def)
    then have h: "handle_packet e ?p ?pc = deliver e ?p ?pc"
      using r(3) [OF Some] by (auto simp: handle_packet_def tier_of_def)
    show ?thesis
      by (rule packet [of p rt ?p]) (use Some r(1) h inv r(3-5) [OF Some] in \<open>auto simp: process_capture_def node_update_of_def\<close>)
  qed
qed

text \<open>A capture whose packet ends the loop: after the packet has been stored, its distance raises.\<close>

definition distance_stops :: "pipe_env \<Rightarrow> raw_capture \<Rightarrow> pipeline \<Rightarrow> bool" where
  "distance_stops e c pc \<longleftrightarrow>
     (\<exists>q p rt. dispatch e c (pc_router pc) = Some (Some q, rt) \<and> p = q\<lparr>capture_source := rc_capture_source c\<rparr> \<and>
        distance_fails e p (store_packet e p (pc\<lparr>pc_router := rt\<rparr>)))"

lemma radio_capture_None:
  assumes "radio_capture e c" "pipe_inv pc"
  shows "process_capture e c pc = None \<longleftrightarrow> distance_stops e c pc"
  using assms
proof (cases rule: radio_capture_cases)
  case (stray pc1 rt)
  then show ?thesis by (auto simp: distance_stops_def process_capture_def)
next
  case (packet q p rt)
  show ?thesis using deliver_total(1) [OF packet(4), of p e] packet by (simp add: distance_stops_def)
qed

lemma radio_capture_accounted:
  assumes "radio_capture e c" "pipe_inv pc" "process_capture e c pc = Some (out, pc1)"
  shows "pipe_inv pc1 \<and> accounted c pc out pc1"
  using assms(1,2)
proof (cases rule: radio_capture_cases)
  case (stray pc2 rt)
  then show ?thesis using assms(3) by simp
next
  case (packet q p rt)
  then show ?thesis using deliver_total(2) [OF packet(4), of p e out pc1] assms(3) by (simp add: accounted_def)
qed


section \<open>Public keys\<close>

definition own_keys :: "crypto \<Rightarrow> bytes option \<times> bytes option" where
  "own_keys cs = (cs_private_key cs, cs_public_key cs)"

lemma lookup_own_keys: "lookup_public_key db n cs = (k, cs1) \<Longrightarrow> own_keys cs1 = own_keys cs"
  by (auto simp: lookup_public_key_def own_keys_def split: option.splits)

lemma refresh_own_keys: "refresh_public_key_from_db db n cs = (k, cs1) \<Longrightarrow> own_keys cs1 = own_keys cs"
  by (auto simp: refresh_public_key_from_db_def own_keys_def dest!: lookup_own_keys split: option.splits)

lemma decode_keeps_own_keys:
  assumes "decode L PB db db' now our raw sig pre cs = Some (r, cs')"
  shows "own_keys cs' = own_keys cs"
proof -
  have f: "own_keys (snd (first_stage L PB db db' our h enc pre cs)) = own_keys cs" for h enc
    by (auto simp: first_stage_def try_pki_def Let_def dest!: lookup_own_keys refresh_own_keys
        split: option.splits prod.splits if_splits)
  show ?thesis
  proof (cases "length raw < 16 \<or> parse_header (take 16 raw) = None")
    case True
    then show ?thesis using assms decode_header_fails by fastforce
  next
    case False
    then obtain h where h: "parse_header (take 16 raw) = Some h" "16 \<le> length raw" by auto
    show ?thesis using decode_result [OF h, where cs = cs] assms f by (metis Pair_inject option.inject snd_conv)
  qed
qed

text \<open>A stored node update with a 32-byte key in hexadecimal teaches the key ring this key.\<close>

lemma learn_public_key_registers:
  assumes "public_key n = raw_hex key" "length key = 32" "node_id n = fmt_x 8 s" "0 \<le> s"
  shows "fst (learn_public_key db n cs) \<and> own_keys (snd (learn_public_key db n cs)) = own_keys cs \<and>
    lookup_public_key db' s (snd (learn_public_key db n cs)) = (Some key, snd (learn_public_key db n cs))"
proof -
  have "bytes_hex hexdig key \<noteq> []" using assms(2) length_bytes_hex [of hexdig key] by fastforce
  moreover have "fromhex (lit (bytes_hex hexdig key)) = Some key" by (simp add: fromhex_bytes_hex)
  moreover obtain k cs1 where "lookup_public_key db s cs = (k, cs1)" "own_keys cs1 = own_keys cs"
    using lookup_own_keys by (metis prod.collapse)
  ultimately show ?thesis using assms
    by (auto simp: learn_public_key_def raw_hex_def lit_def py_int16_fmt_x register_public_key_def lookup_public_key_def own_keys_def update_conv')
qed

lemma store_packet_router:
  assumes "packet_bindable p" "protocol p = MESHTASTIC" "extract_node_update p = Some n" "node_bindable n"
  shows "pc_router (store_packet e p pc) =
    (pc_router pc)\<lparr>rt_crypto := snd (learn_public_key (re_db (pe_router e)) n (rt_crypto (pc_router pc)))\<rparr>"
  using assms
  by (auto simp: store_packet_def insert_stage_def update_node_def node_update_of_def store_telemetry_def split: prod.split option.split)


lemma deliver_router: "deliver e p pc = Some (out, pc1) \<Longrightarrow> pc_router pc1 = pc_router (store_packet e p pc)"
  by (auto simp: deliver_def record_stats_def Let_def split: prod.splits)


section \<open>What ends the loop\<close>

text \<open>A position from which the distance raises.\<close>

lemma deliver_distance_fails:
  assumes "protocol p = MESHTASTIC" "packet_bindable p" "extract_node_update p = Some n" "node_bindable n" "public_key n = PNone"
    and "node_id n = source_id p" "source_id p \<noteq> []" "coordinate (latitude n) = Some lat" "coordinate (longitude n) = Some lon"
    and "signal p = Some sig" "pe_device e = Some dev" "hops_consumed (hop_start p) (hop_limit p) = 0" "is_real_position lat lon"
    and "haversine_mi (pe_math e) (fst dev) (snd dev) lat lon = None"
  shows "deliver e p pc = None"
proof -
  have "map_of (pc_last_node (store_packet e p pc)) (source_id p) = Some n"
    using assms by (auto simp: store_packet_def insert_stage_def update_node_def node_update_of_def learn_public_key_def store_telemetry_def
        update_conv' split: option.split)
  moreover have "has_position n" using assms(8,9) by (auto simp: has_position_def)
  ultimately show ?thesis using assms
    by (auto simp: deliver_def record_stats_def farthest_direct_def record_farthest_direct_def Let_def split: prod.split)
qed

text \<open>An infinite coordinate of a node reaches \<^verbatim>\<open>math.sin\<close>.\<close>

lemma deliver_infinite:
  assumes "protocol p = MESHCORE" "packet_bindable p" "mc_extract_node_update p = Some n" "node_bindable n"
    and "node_id n = source_id p" "source_id p \<noteq> []" "latitude n = PInf neg" "longitude n \<noteq> PNone"
    and "signal p = Some sig" "pe_device e = Some dev" "hops_consumed (hop_start p) (hop_limit p) = 0"
    and "public_key n = PNone"
  shows "deliver e p pc = None"
proof -
  have "map_of (pc_last_node (store_packet e p pc)) (source_id p) = Some n"
    using assms by (auto simp: store_packet_def insert_stage_def update_node_def node_update_of_def learn_public_key_def store_telemetry_def
        update_conv' split: option.split)
  then show ?thesis using assms
    by (auto simp: deliver_def record_stats_def farthest_direct_def has_position_def Let_def split: prod.split option.splits)
qed

lemma infinite_coordinate_stops:
  assumes "dispatch e c (pc_router pc) = Some (Some p, rt)" "for_protocol (pe_specs e) ''meshcore'' = None"
    and "protocol p = MESHCORE" "packet_type p = NODEINFO" "decoded_payload p = Some d"
    and "dget ''latitude'' d = PInf neg" "dget ''longitude'' d \<noteq> PNone" "dget ''long_name'' d = PNone"
    and "bindable (dget ''longitude'' d)" "packet_bindable (p\<lparr>capture_source := rc_capture_source c\<rparr>)" "source_id p \<noteq> []"
    and "hop_start p = 0" "signal p = Some sig" "pe_device e = Some dev"
  shows "process_capture e c pc = None"
proof -
  let ?p = "p\<lparr>capture_source := rc_capture_source c\<rparr>"
  have "d \<noteq> []" using assms(6) by (auto simp: dget_def)
  then obtain n where n: "mc_extract_node_update ?p = Some n" "node_id n = source_id p" "latitude n = PInf neg"
      "longitude n = dget ''longitude'' d" "long_name n = PNone" "short_name n = PNone" "hardware_model n = PNone" "firmware_version n = PNone" "public_key n = PNone"
      "altitude n = PNone" "role n = adv_role (dget ''node_type'' d)"
    using assms(4-8) by (auto simp: mc_extract_node_update_def mc_apply_position_def default_node_def Let_def)
  have "bindable r" if "map_of ADV_TYPE_ROLE i = Some r" for i r
    using that by (auto simp: ADV_TYPE_ROLE_def lit_def scalar_def split: if_splits)
  then have r: "bindable (adv_role v)" for v by (cases v) (auto split: option.split if_splits)
  have b: "node_bindable n" using n r assms(9,10) by (simp add: node_bindable_def packet_bindable_def)
  have "deliver e ?p q = None" for q
    by (rule deliver_infinite [OF _ assms(10) n(1) b]) (use n assms in \<open>simp_all add: hops_consumed_def\<close>)
  then show ?thesis using assms(1-3) by (simp add: process_capture_def handle_packet_def tier_of_def)
qed


text \<open>An acknowledgement from the pager channel whose id cannot be encoded.\<close>

lemma unencodable_ack_stops:
  assumes "\<not> starts_with (rc_capture_source c) ''meshcore_usb''" "for_capture_source (pe_specs e) (rc_capture_source c) = None"
    and "for_protocol (pe_specs e) ''pager'' = None" "rc_protocol_hint c = Some PAGER"
    and "tl_json (pe_text e) (rc_payload c) = Some (PDict d)" "map_of d ''ack_id'' = Some (PStr a)" "\<not> storable_id (ident a)"
    and "dget ''from'' d = PNone"
  shows "process_capture e c pc = None"
  using assms
  by (simp add: process_capture_def dispatch_def pager_adapt_event_def handle_packet_def tier_of_def pager_control_def default_packet_def
      pager_address_def Let_def)

end
