(* ===== verification/Map_Report.thy ===== *)
theory Map_Report
  imports Mqtt_Publisher Radio_Plan
begin

text \<open>
  \<^verbatim>\<open>src/src/relay/map_report.py\<close>, \<^verbatim>\<open>publish_map_report\<close> of \<^verbatim>\<open>src/src/relay/mqtt_publisher.py\<close> and the map-report loop of
  \<^verbatim>\<open>src/src/coordinator.py\<close>: the report of the gateway's own position for the public map, sent over MQTT only. The generated
  protobuf classes are the parameter \<open>mq_message\<close> of the publisher, and their enumerations the parameter \<open>E\<close>: the number of a name, or
  \<^const>\<open>None\<close> when there is none.
\<close>

unbundle bit_operations_syntax

section \<open>The report\<close>

definition MAP_REPORT_PORTNUM :: int where
  "MAP_REPORT_PORTNUM = 73"

definition BROADCAST_NODE_ID :: int where
  "BROADCAST_NODE_ID = 0xFFFFFFFF"

definition MIN_POSITION_PRECISION :: int where
  "MIN_POSITION_PRECISION = 12"

definition MAX_POSITION_PRECISION :: int where
  "MAX_POSITION_PRECISION = 15"

record map_report =
  mrd_node_id :: int
  mrd_long_name :: ustr
  mrd_short_name :: ustr
  mrd_latitude :: rat
  mrd_longitude :: rat
  mrd_altitude :: "rat option"
  mrd_firmware_version :: ustr
  mrd_region :: string
  mrd_modem_preset :: string
  mrd_primary_channel_name :: ustr
  mrd_has_default_channel :: bool
  mrd_num_online_local_nodes :: int
  mrd_position_precision :: int
  mrd_role :: int
  mrd_hw_model :: int

type_synonym enum_lib = "string \<Rightarrow> string \<Rightarrow> int option"

definition enum_value :: "enum_lib \<Rightarrow> string \<Rightarrow> string \<Rightarrow> int" where
  "enum_value E path name = (case E path name of Some n \<Rightarrow> n | None \<Rightarrow> 0)"

definition round_coordinate :: "rat \<Rightarrow> int \<Rightarrow> int" where
  "round_coordinate deg precision =
     (let v = py_trunc (deg * 10 ^ 7);
          unsigned = v AND 0xFFFFFFFF;
          mask = push_bit (nat (32 - precision)) 0xFFFFFFFF AND 0xFFFFFFFF;
          rounded = ((unsigned AND mask) + push_bit (nat (31 - precision)) 1) AND 0xFFFFFFFF
      in if rounded \<ge> 0x80000000 then rounded - 0x100000000 else rounded)"

definition map_precision :: "map_report \<Rightarrow> int" where
  "map_precision d = max MIN_POSITION_PRECISION (min (mrd_position_precision d) MAX_POSITION_PRECISION)"

definition map_report_fields :: "enum_lib \<Rightarrow> map_report \<Rightarrow> pydict" where
  "map_report_fields E d =
     [(''long_name'', PStr (take 24 (mrd_long_name d))), (''short_name'', PStr (take 4 (mrd_short_name d))),
      (''role'', PInt (mrd_role d)), (''hw_model'', PInt (mrd_hw_model d)),
      (''firmware_version'', PStr (take 17 (mrd_firmware_version d))),
      (''region'', PInt (enum_value E ''Config.LoRaConfig.RegionCode'' (mrd_region d))),
      (''modem_preset'', PInt (enum_value E ''Config.LoRaConfig.ModemPreset'' (mrd_modem_preset d))),
      (''has_default_channel'', PBool (mrd_has_default_channel d)),
      (''latitude_i'', PInt (round_coordinate (mrd_latitude d) (map_precision d))),
      (''longitude_i'', PInt (round_coordinate (mrd_longitude d) (map_precision d)))] @
     (case mrd_altitude d of Some a \<Rightarrow> [(''altitude'', PInt (py_trunc a))] | None \<Rightarrow> []) @
     [(''position_precision'', PInt (map_precision d)),
      (''num_online_local_nodes'', PInt (max 0 (min (mrd_num_online_local_nodes d) 0xFFFF))),
      (''has_opted_report_location'', PBool True)]"

text \<open>\<^const>\<open>None\<close>: the protobuf classes are not installed, or an assignment raises.\<close>

definition build_map_report_message :: "enum_lib \<Rightarrow> mqtt_lib \<Rightarrow> map_report \<Rightarrow> ustr \<Rightarrow> ustr \<Rightarrow> mqtt_message option" where
  "build_map_report_message E Q d topic_root mqtt_region =
     (if \<not> mq_available Q then None
      else do {
        let node = mrd_node_id d AND 0xFFFFFFFF;
        report \<leftarrow> mq_message Q ''MapReport'' (map_report_fields E d);
        body \<leftarrow> mq_message Q ''ServiceEnvelope''
          [(''packet'', PDict [(''from'', PInt node), (''to'', PInt BROADCAST_NODE_ID),
              (''decoded.portnum'', PInt MAP_REPORT_PORTNUM), (''decoded.payload'', PBytes report)]),
           (''channel_id'', PStr (mrd_primary_channel_name d)), (''gateway_id'', PStr (lit (''!'' @ fmt_x 8 node)))];
        Some \<lparr>mm_topic = build_topic_prefix Q topic_root mqtt_region @ lit ''/2/map/'', mm_body = ProtoBody body, mm_retain = False\<rparr>
      })"

definition publish_map_report :: "enum_lib \<Rightarrow> mqtt_lib \<Rightarrow> rat \<Rightarrow> map_report \<Rightarrow> publisher \<Rightarrow> bool \<times> mqtt_message list \<times> publisher" where
  "publish_map_report E Q now d pb =
     (if \<not> mp_connected pb \<or> \<not> mp_has_client pb then (False, [], pb)
      else (case build_map_report_message E Q d (mc_topic_root (mp_config pb)) (mc_region (mp_config pb)) of
          None \<Rightarrow> (False, [], pb)
        | Some m \<Rightarrow>
            (case mq_send Q m of
               None \<Rightarrow> (False, [], pb)
             | Some rc \<Rightarrow>
                 if rc \<noteq> 0 then (False, [m], pb)
                 else (True, [m], pb\<lparr>mp_publish_count := mp_publish_count pb + 1, mp_last_publish := Some now, mp_last_map_report := Some now\<rparr>))))"


section \<open>The loop\<close>

text \<open>The configuration the report is made from.\<close>

record map_source =
  ms_node_id :: "int option"
  ms_long_name :: ustr
  ms_short_name :: ustr
  ms_position :: "rat option \<times> rat option"
  ms_altitude :: "rat option"
  ms_version :: ustr
  ms_radio_region :: string
  ms_frequency_mhz :: "rat option"
  ms_spreading_factor :: int
  ms_bandwidth_khz :: rat
  ms_coding_rate :: string
  ms_primary_channel_name :: ustr
  ms_default_key_b64 :: ustr
  ms_precision :: int
  ms_interval :: int

text \<open>\<^const>\<open>None\<close>: nothing to report. \<open>online\<close>: the number of nodes heard in the last two hours.\<close>

definition map_report_of :: "mqtt_lib \<Rightarrow> int \<Rightarrow> map_source \<Rightarrow> map_report option" where
  "map_report_of Q online c =
     (case (ms_node_id c, ms_position c) of
        (Some node, Some lat, Some lon) \<Rightarrow>
          if lat = 0 \<and> lon = 0 then None
          else
            let preset_name = (case preset_from_params (ms_spreading_factor c) (ms_bandwidth_khz c) (ms_coding_rate c) of
                  Some n \<Rightarrow> n | None \<Rightarrow> ''LONG_FAST'');
                expected_name = lit (case map_of MODEM_PRESETS preset_name of Some p \<Rightarrow> mo_display_name p | None \<Rightarrow> ''LongFast'');
                primary = (if ms_primary_channel_name c \<noteq> [] then ms_primary_channel_name c else expected_name);
                default_channel = (ms_default_key_b64 c = lit ''AQ=='' \<and> mq_lower Q primary = mq_lower Q expected_name \<and>
                  (case (map_of REGION_DEFAULTS (ms_radio_region c), ms_frequency_mhz c) of
                     (Some f, Some g) \<Rightarrow> \<bar>g - f\<bar> < 1 / 10000 | _ \<Rightarrow> False))
            in Some \<lparr>mrd_node_id = node, mrd_long_name = ms_long_name c, mrd_short_name = ms_short_name c, mrd_latitude = lat,
                 mrd_longitude = lon, mrd_altitude = ms_altitude c, mrd_firmware_version = ms_version c, mrd_region = ms_radio_region c,
                 mrd_modem_preset = preset_name, mrd_primary_channel_name = primary, mrd_has_default_channel = default_channel,
                 mrd_num_online_local_nodes = online, mrd_position_precision = ms_precision c, mrd_role = 0, mrd_hw_model = 37\<rparr>
      | _ \<Rightarrow> None)"

definition map_interval :: "map_source \<Rightarrow> int" where
  "map_interval c = max 3600 (if ms_interval c = 0 then 3600 else ms_interval c)"

text \<open>One round of the loop: how long it sleeps afterwards, what it sent. \<^const>\<open>None\<close>: counting the nodes raised, which ends the
  loop.\<close>

definition map_report_pass ::
    "enum_lib \<Rightarrow> mqtt_lib \<Rightarrow> rat \<Rightarrow> int option \<Rightarrow> map_source \<Rightarrow> publisher \<Rightarrow> (int \<times> mqtt_message list \<times> publisher) option" where
  "map_report_pass E Q now online c pb =
     (if \<not> mp_connected pb then Some (5, [], pb)
      else
        let retry = min 300 (map_interval c) in
        (case map_report_of Q (case online of Some n \<Rightarrow> n | None \<Rightarrow> 0) c of
           None \<Rightarrow> Some (retry, [], pb)
         | Some d \<Rightarrow>
             if online = None then None
             else (case publish_map_report E Q now d pb of
                 (ok, sent, pb1) \<Rightarrow> Some (if ok then map_interval c else retry, sent, pb1))))"


section \<open>What a report tells of the position\<close>

text \<open>The cell of the grid a coordinate lies in.\<close>

definition map_cell :: "int \<Rightarrow> rat \<Rightarrow> int" where
  "map_cell precision deg = py_trunc (deg * 10 ^ 7) div 2 ^ nat (32 - precision)"

lemma and_ones_32: "x AND 0xFFFFFFFF = x mod (2 ^ 32 :: int)"
  using take_bit_eq_mask [of 32 x] by (simp add: take_bit_eq_mod mask_eq_exp_minus_1)

lemma mask_high:
  fixes x :: int
  assumes "k \<le> 32"
  shows "(x AND 0xFFFFFFFF) AND (push_bit k 0xFFFFFFFF AND 0xFFFFFFFF) = (x div 2 ^ k * 2 ^ k) mod 2 ^ 32"
proof -
  have m: "(0xFFFFFFFF :: int) = mask 32" by (simp add: mask_eq_exp_minus_1)
  have "(x AND mask 32) AND (push_bit k (mask 32) AND mask 32) = take_bit 32 (push_bit k (drop_bit k x))"
    by (rule bit_eqI) (auto simp: bit_simps)
  then show ?thesis unfolding m by (simp add: take_bit_eq_mod push_bit_eq_mult drop_bit_eq_div)
qed

lemma round_coordinate_cell:
  assumes "0 \<le> p" "p \<le> 31"
  shows "round_coordinate deg p =
    (let r = (map_cell p deg * 2 ^ nat (32 - p) + 2 ^ nat (31 - p)) mod 2 ^ 32 in if r \<ge> 2 ^ 31 then r - 2 ^ 32 else r)"
proof -
  have k: "nat (32 - p) \<le> 32" using assms by simp
  have "(((py_trunc (deg * 10 ^ 7) AND 0xFFFFFFFF) AND (push_bit (nat (32 - p)) 0xFFFFFFFF AND 0xFFFFFFFF)) + push_bit (nat (31 - p)) 1) AND 0xFFFFFFFF =
      (map_cell p deg * 2 ^ nat (32 - p) + 2 ^ nat (31 - p)) mod 2 ^ 32"
    unfolding mask_high [OF k] unfolding and_ones_32 map_cell_def by (simp add: push_bit_eq_mult mod_add_left_eq)
  then show ?thesis by (simp add: round_coordinate_def Let_def)
qed

lemma signed_wrap:
  fixes y :: int
  assumes "- (2 ^ 31) \<le> y" "y < 2 ^ 31"
  shows "(let r = y mod 2 ^ 32 in if r \<ge> 2 ^ 31 then r - 2 ^ 32 else r) = y"
proof (cases "0 \<le> y")
  case True
  then show ?thesis using assms by (simp add: mod_pos_pos_trivial)
next
  case False
  then have "y mod 2 ^ 32 = y + 2 ^ 32"
    using assms mod_pos_pos_trivial [of "y + 2 ^ 32" "2 ^ 32"] by simp
  then show ?thesis using assms False by simp
qed

lemma cell_middle:
  fixes v h m :: int
  assumes "0 < h" "- (2 * h * m) \<le> v" "v < 2 * h * m"
  shows "- (2 * h * m) \<le> v div (2 * h) * (2 * h) + h" "v div (2 * h) * (2 * h) + h < 2 * h * m"
    "\<bar>v div (2 * h) * (2 * h) + h - v\<bar> \<le> h"
proof -
  have v: "v = v div (2 * h) * (2 * h) + v mod (2 * h)" by (simp only: div_mult_mod_eq)
  have r: "0 \<le> v mod (2 * h)" "v mod (2 * h) < 2 * h" using assms(1) by simp_all
  define q where "q = v div (2 * h)"
  have "- m \<le> q"
  proof (rule ccontr)
    assume "\<not> - m \<le> q"
    then have "(q + 1) * (2 * h) \<le> - m * (2 * h)" using assms(1) by (intro mult_right_mono) auto
    then show False using v r assms(2) unfolding q_def [symmetric] by (simp add: algebra_simps)
  qed
  then have "- m * (2 * h) \<le> q * (2 * h)" using assms(1) by (intro mult_right_mono) auto
  then show "- (2 * h * m) \<le> v div (2 * h) * (2 * h) + h" using assms(1) unfolding q_def [symmetric] by (simp add: algebra_simps)
  have "q < m"
  proof (rule ccontr)
    assume "\<not> q < m"
    then have "m * (2 * h) \<le> q * (2 * h)" using assms(1) by (intro mult_right_mono) auto
    then have "2 * h * m \<le> q * (2 * h)" by (simp only: mult.commute [of m])
    then show False using v r assms(3) unfolding q_def [symmetric] by linarith
  qed
  then have "(q + 1) * (2 * h) \<le> m * (2 * h)" using assms(1) by (intro mult_right_mono) auto
  then show "v div (2 * h) * (2 * h) + h < 2 * h * m" using assms(1) unfolding q_def [symmetric] by (simp add: algebra_simps)
  show "\<bar>v div (2 * h) * (2 * h) + h - v\<bar> \<le> h" using v r by linarith
qed

text \<open>A coordinate that fits 32 bits is replaced by the middle of its cell.\<close>

lemma round_coordinate_near:
  assumes "12 \<le> p" "p \<le> 15" "- (2 ^ 31) \<le> py_trunc (deg * 10 ^ 7)" "py_trunc (deg * 10 ^ 7) < 2 ^ 31"
  shows "round_coordinate deg p = map_cell p deg * 2 ^ nat (32 - p) + 2 ^ nat (31 - p)"
    "\<bar>round_coordinate deg p - py_trunc (deg * 10 ^ 7)\<bar> \<le> 2 ^ nat (31 - p)"
proof -
  let ?v = "py_trunc (deg * 10 ^ 7)" and ?h = "(2 :: int) ^ nat (31 - p)"
  have p: "p = 12 \<or> p = 13 \<or> p = 14 \<or> p = 15" using assms(1,2) by linarith
  have K: "(2 :: int) ^ nat (32 - p) = 2 * ?h" using p by (elim disjE) simp_all
  have m: "(2 :: int) ^ 31 = 2 * ?h * 2 ^ nat (p - 1)" using p by (elim disjE) simp_all
  have cell: "map_cell p deg * 2 ^ nat (32 - p) + ?h = ?v div (2 * ?h) * (2 * ?h) + ?h" by (simp only: map_cell_def K)
  note mid = cell_middle [of ?h "2 ^ nat (p - 1)" ?v, folded m, OF _ assms(3,4), folded cell]
  have "round_coordinate deg p =
      (let r = (map_cell p deg * 2 ^ nat (32 - p) + ?h) mod 2 ^ 32 in if r \<ge> 2 ^ 31 then r - 2 ^ 32 else r)"
    using assms(1,2) by (intro round_coordinate_cell) auto
  then show eq: "round_coordinate deg p = map_cell p deg * 2 ^ nat (32 - p) + ?h"
    using signed_wrap [OF mid(1,2)] by simp
  show "\<bar>round_coordinate deg p - ?v\<bar> \<le> ?h" unfolding eq by (rule mid(3)) simp
qed

lemma map_precision_range: "12 \<le> map_precision d" "map_precision d \<le> 15"
  by (simp_all add: map_precision_def MIN_POSITION_PRECISION_def MAX_POSITION_PRECISION_def)


section \<open>Properties\<close>

text \<open>C27: the public map report hides the exact position, whatever precision is configured. Two positions in the same cells of a grid of
  \<open>2 ^ (32 - p)\<close> units of a ten-millionth of a degree, \<open>p\<close> being the configured precision brought into the range 12 to 15, are published as the same
  message with the same effects; the published coordinates are within half a cell of the true ones, if these fit 32 bits; and the loop
  publishes only while connected and waits at least an hour after a report.\<close>

theorem map_report_hides_position:
  assumes "map_cell (map_precision d) lat = map_cell (map_precision d) lat'" "map_cell (map_precision d) lon = map_cell (map_precision d) lon'"
  shows "publish_map_report E Q now (d\<lparr>mrd_latitude := lat, mrd_longitude := lon\<rparr>) pb =
      publish_map_report E Q now (d\<lparr>mrd_latitude := lat', mrd_longitude := lon'\<rparr>) pb \<and>
    12 \<le> map_precision d \<and> map_precision d \<le> 15 \<and>
    (\<forall>x \<in> {lat, lon}. - (2 ^ 31) \<le> py_trunc (x * 10 ^ 7) \<and> py_trunc (x * 10 ^ 7) < 2 ^ 31 \<longrightarrow>
       \<bar>round_coordinate x (map_precision d) - py_trunc (x * 10 ^ 7)\<bar> \<le> 2 ^ nat (31 - map_precision d)) \<and>
    (case map_report_pass E Q now online c pb of
       None \<Rightarrow> True
     | Some (pause, sent, pb1) \<Rightarrow> (sent \<noteq> [] \<longrightarrow> mp_connected pb) \<and> (mp_publish_count pb1 \<noteq> mp_publish_count pb \<longrightarrow> 3600 \<le> pause))"
proof -
  have r: "round_coordinate x (map_precision d) = round_coordinate y (map_precision d)"
    if "map_cell (map_precision d) x = map_cell (map_precision d) y" for x y
    using round_coordinate_cell [of "map_precision d"] map_precision_range [of d] that by simp
  have p: "map_precision (d\<lparr>mrd_latitude := x, mrd_longitude := y\<rparr>) = map_precision d" for x y by (simp add: map_precision_def)
  have "map_report_fields E (d\<lparr>mrd_latitude := lat, mrd_longitude := lon\<rparr>) = map_report_fields E (d\<lparr>mrd_latitude := lat', mrd_longitude := lon'\<rparr>)"
    using r [OF assms(1)] r [OF assms(2)] by (simp add: map_report_fields_def p)
  then have "publish_map_report E Q now (d\<lparr>mrd_latitude := lat, mrd_longitude := lon\<rparr>) pb =
      publish_map_report E Q now (d\<lparr>mrd_latitude := lat', mrd_longitude := lon'\<rparr>) pb"
    by (simp add: publish_map_report_def build_map_report_message_def)
  moreover have "case map_report_pass E Q now online c pb of
       None \<Rightarrow> True
     | Some (pause, sent, pb1) \<Rightarrow> (sent \<noteq> [] \<longrightarrow> mp_connected pb) \<and> (mp_publish_count pb1 \<noteq> mp_publish_count pb \<longrightarrow> 3600 \<le> pause)"
    by (auto simp: map_report_pass_def publish_map_report_def map_interval_def Let_def split: option.splits prod.splits if_splits)
  ultimately show ?thesis using round_coordinate_near(2) [OF map_precision_range] map_precision_range [of d] by blast
qed

definition demo_report :: map_report where
  "demo_report = \<lparr>mrd_node_id = 5, mrd_long_name = lit ''Gate'', mrd_short_name = lit ''G'', mrd_latitude = 52, mrd_longitude = 13, mrd_altitude = None,
     mrd_firmware_version = lit ''1'', mrd_region = ''EU_868'', mrd_modem_preset = ''LONG_FAST'', mrd_primary_channel_name = lit ''LongFast'',
     mrd_has_default_channel = True, mrd_num_online_local_nodes = 3, mrd_position_precision = 32, mrd_role = 0, mrd_hw_model = 37\<rparr>"

text \<open>With the precision set to 32 the position is still cut to 15 bits: a hundredth of a degree makes no difference.\<close>

theorem map_report_hides_position_witness:
  "\<forall>E Q now pb. publish_map_report E Q now (demo_report\<lparr>mrd_latitude := 52, mrd_longitude := 13\<rparr>) pb =
     publish_map_report E Q now (demo_report\<lparr>mrd_latitude := 52 + 1 / 200, mrd_longitude := 13\<rparr>) pb"
proof (intro allI)
  fix E Q now pb
  have "map_precision demo_report = 15" by (simp add: map_precision_def demo_report_def MIN_POSITION_PRECISION_def MAX_POSITION_PRECISION_def)
  moreover have "map_cell 15 52 = map_cell 15 (52 + 1 / 200)" by (simp add: map_cell_def py_trunc_def)
  ultimately show "publish_map_report E Q now (demo_report\<lparr>mrd_latitude := 52, mrd_longitude := 13\<rparr>) pb =
     publish_map_report E Q now (demo_report\<lparr>mrd_latitude := 52 + 1 / 200, mrd_longitude := 13\<rparr>) pb"
    using map_report_hides_position [of demo_report 52 "52 + 1 / 200" 13 13] by simp
qed

end
