(* ===== verification/Lockout.thy ===== *)
theory Lockout
  imports Prelude
begin

text \<open>
  \<^verbatim>\<open>src/src/api/auth/lockout_tracker.py\<close>: the per-key tally of failed logins. The dictionary of
  attempt states is a map; every method that reads the clock gets the reading as an argument.
  The lock around each method makes it one step.
\<close>

record attempt_state =
  failures :: int
  locked_until :: rat

definition fresh_attempt :: attempt_state where
  "fresh_attempt = \<lparr>failures = 0, locked_until = 0\<rparr>"

record lockout =
  lo_max_attempts :: int
  lo_cooldown_seconds :: int
  lo_states :: "ustr \<rightharpoonup> attempt_state"

definition lockout_init :: "int \<Rightarrow> int \<Rightarrow> py_error + lockout" where
  "lockout_init max_attempts cooldown_minutes =
     (if max_attempts < 1 then Inl ValueError
      else if cooldown_minutes < 1 then Inl ValueError
      else Inr \<lparr>lo_max_attempts = max_attempts, lo_cooldown_seconds = cooldown_minutes * 60,
                lo_states = Map.empty\<rparr>)"

definition cooldown_minutes :: "lockout \<Rightarrow> int" where
  "cooldown_minutes l = lo_cooldown_seconds l div 60"

definition reconfigure :: "int \<Rightarrow> int \<Rightarrow> lockout \<Rightarrow> py_error + lockout" where
  "reconfigure max_attempts cooldown l =
     (if max_attempts < 1 then Inl ValueError
      else if cooldown < 1 then Inl ValueError
      else Inr (l\<lparr>lo_max_attempts := max_attempts, lo_cooldown_seconds := cooldown * 60\<rparr>))"

definition remaining_seconds :: "ustr \<Rightarrow> rat \<Rightarrow> lockout \<Rightarrow> int option \<times> lockout" where
  "remaining_seconds key now l =
     (if key = [] then (None, l)
      else case lo_states l key of
        None \<Rightarrow> (None, l)
      | Some st \<Rightarrow>
          if locked_until st = 0 then (None, l)
          else if locked_until st \<le> now then (None, l\<lparr>lo_states := (lo_states l)(key := None)\<rparr>)
          else (Some (py_trunc (locked_until st - now) + 1), l))"

definition register_failure :: "ustr \<Rightarrow> rat \<Rightarrow> lockout \<Rightarrow> int option \<times> lockout" where
  "register_failure key now l =
     (if key = [] then (None, l)
      else
        let st = (case lo_states l key of None \<Rightarrow> fresh_attempt | Some st \<Rightarrow> st) in
        if now < locked_until st
        then (Some (py_trunc (locked_until st - now) + 1), l\<lparr>lo_states := (lo_states l)(key \<mapsto> st)\<rparr>)
        else
          let st1 = st\<lparr>failures := failures st + 1\<rparr> in
          if lo_max_attempts l \<le> failures st1
          then (Some (lo_cooldown_seconds l),
                l\<lparr>lo_states := (lo_states l)(key \<mapsto> st1\<lparr>locked_until := now + of_int (lo_cooldown_seconds l)\<rparr>)\<rparr>)
          else (None, l\<lparr>lo_states := (lo_states l)(key \<mapsto> st1)\<rparr>))"

definition register_success :: "ustr \<Rightarrow> lockout \<Rightarrow> lockout" where
  "register_success key l =
     (if key = [] then l else l\<lparr>lo_states := (lo_states l)(key := None)\<rparr>)"


section \<open>Runs of the tracker\<close>

text \<open>The calls a login makes, for any interleaving of accounts, with a clock that does not go
  backwards and reconfigurations that keep the threshold at most \<open>M\<close> and the cooldown at least
  \<open>C\<close> seconds: \<open>refused\<close> is a login turned away, \<open>failed\<close> one whose password was checked and
  wrong, \<open>succeeded\<close> one whose password was right. The history \<open>hist key\<close> holds the times at
  which a password for \<open>key\<close> was checked and found wrong, since the last right one.\<close>

inductive lockout_reach :: "int \<Rightarrow> rat \<Rightarrow> lockout \<Rightarrow> rat \<Rightarrow> (ustr \<Rightarrow> rat list) \<Rightarrow> bool"
  for M :: int and C :: rat where
  lo_start: "lockout_init m c = Inr l \<Longrightarrow> m \<le> M \<Longrightarrow> C \<le> of_int (c * 60) \<Longrightarrow> 0 \<le> now \<Longrightarrow>
    lockout_reach M C l now (\<lambda>_. [])"
| lo_refused: "lockout_reach M C l now hist \<Longrightarrow> now \<le> now1 \<Longrightarrow>
    remaining_seconds key now1 l = (Some s, l1) \<Longrightarrow> lockout_reach M C l1 now1 hist"
| lo_failed: "lockout_reach M C l now hist \<Longrightarrow> now \<le> now1 \<Longrightarrow> now1 \<le> now2 \<Longrightarrow>
    remaining_seconds key now1 l = (None, l1) \<Longrightarrow> register_failure key now2 l1 = (r, l2) \<Longrightarrow>
    lockout_reach M C l2 now2 (hist(key := hist key @ [now2]))"
| lo_succeeded: "lockout_reach M C l now hist \<Longrightarrow> now \<le> now1 \<Longrightarrow>
    remaining_seconds key now1 l = (None, l1) \<Longrightarrow>
    lockout_reach M C (register_success key l1) now1 (hist(key := []))"
| lo_reconfigured: "lockout_reach M C l now hist \<Longrightarrow> reconfigure m c l = Inr l1 \<Longrightarrow>
    m \<le> M \<Longrightarrow> C \<le> of_int (c * 60) \<Longrightarrow> lockout_reach M C l1 now hist"

definition in_window :: "rat \<Rightarrow> rat \<Rightarrow> rat list \<Rightarrow> nat" where
  "in_window C x ts = length (filter (\<lambda>t. x \<le> t \<and> t < x + C) ts)"

definition recent :: "rat \<Rightarrow> rat \<Rightarrow> rat list \<Rightarrow> nat" where
  "recent C now ts = length (filter (\<lambda>t. now < t + C) ts)"

definition key_ok :: "int \<Rightarrow> rat \<Rightarrow> rat \<Rightarrow> attempt_state option \<Rightarrow> rat list \<Rightarrow> bool" where
  "key_ok M C now st ts \<longleftrightarrow>
     (\<forall>x. int (in_window C x ts) \<le> M) \<and> (\<forall>t \<in> set ts. t \<le> now) \<and>
     (case st of
        None \<Rightarrow> recent C now ts = 0
      | Some s \<Rightarrow>
          if locked_until s = 0 then int (recent C now ts) \<le> failures s \<and> 0 \<le> failures s \<and> failures s < M
          else 0 < locked_until s \<and> (\<forall>t \<in> set ts. t + C \<le> locked_until s))"

lemma filter_length_mono: "(\<And>x. x \<in> set xs \<Longrightarrow> P x \<Longrightarrow> Q x) \<Longrightarrow> length (filter P xs) \<le> length (filter Q xs)"
  by (induction xs) auto

lemma recent_mono: "now \<le> now' \<Longrightarrow> recent C now' ts \<le> recent C now ts"
  unfolding recent_def by (rule filter_length_mono) auto

lemma recent_zero: "recent C now ts = 0 \<longleftrightarrow> (\<forall>t \<in> set ts. t + C \<le> now)"
  by (auto simp: recent_def filter_empty_conv not_less)

text \<open>A later clock reading keeps the invariant of a key.\<close>

lemma key_ok_later: "key_ok M C now st ts \<Longrightarrow> now \<le> now' \<Longrightarrow> key_ok M C now' st ts"
  using recent_mono [of now now' C ts]
  by (auto simp: key_ok_def recent_zero split: option.splits if_splits dest: order_trans)

text \<open>A window that reaches the newest failure contains only recent ones.\<close>

lemma in_window_snoc:
  assumes "\<forall>x. int (in_window C x ts) \<le> M" "int (recent C now ts) + 1 \<le> M"
  shows "int (in_window C x (ts @ [now])) \<le> M"
proof (cases "x \<le> now \<and> now < x + C")
  case True
  then have "in_window C x ts \<le> recent C now ts"
    unfolding in_window_def recent_def by (intro filter_length_mono) auto
  with True assms(2) show ?thesis by (simp add: in_window_def)
next
  case False
  with assms(1) show ?thesis by (auto simp: in_window_def)
qed

lemma remaining_key_ok:
  assumes "key_ok M C now (lo_states l k) ts" "now \<le> now1" "remaining_seconds key now1 l = (r, l1)"
  shows "key_ok M C now1 (lo_states l1 k) ts"
    and "r = None \<Longrightarrow> k = key \<Longrightarrow> k \<noteq> [] \<Longrightarrow>
      (case lo_states l1 k of None \<Rightarrow> True | Some s \<Rightarrow> locked_until s = 0)"
proof -
  note ok = key_ok_later [OF assms(1,2)]
  show "key_ok M C now1 (lo_states l1 k) ts"
    using ok assms(3)
    by (auto simp: remaining_seconds_def key_ok_def recent_zero
        split: if_splits option.splits dest: order_trans)
  show "r = None \<Longrightarrow> k = key \<Longrightarrow> k \<noteq> [] \<Longrightarrow>
      (case lo_states l1 k of None \<Rightarrow> True | Some s \<Rightarrow> locked_until s = 0)"
    using assms(3) by (auto simp: remaining_seconds_def split: if_splits option.splits)
qed

lemma failure_key_ok:
  assumes ok: "key_ok M C now (lo_states l key) ts" and "key \<noteq> []" "now \<le> now2" "0 \<le> now2" "0 < C"
    and unlocked: "case lo_states l key of None \<Rightarrow> True | Some s \<Rightarrow> locked_until s = 0"
    and cfg: "1 \<le> lo_max_attempts l" "lo_max_attempts l \<le> M" "C \<le> of_int (lo_cooldown_seconds l)"
    and step: "register_failure key now2 l = (r, l2)"
  shows "key_ok M C now2 (lo_states l2 key) (ts @ [now2])"
proof -
  define s where "s = (case lo_states l key of None \<Rightarrow> fresh_attempt | Some st \<Rightarrow> st)"
  have ok2: "key_ok M C now2 (lo_states l key) ts" using ok assms(3) by (rule key_ok_later)
  have s0: "locked_until s = 0" using unlocked by (auto simp: s_def fresh_attempt_def split: option.splits)
  have cnt: "int (recent C now2 ts) \<le> failures s" "0 \<le> failures s" "failures s < M"
    using ok2 unlocked cfg by (auto simp: key_ok_def s_def fresh_attempt_def split: option.splits)
  have win: "int (in_window C x (ts @ [now2])) \<le> M" for x
    using ok2 cnt by (intro in_window_snoc) (auto simp: key_ok_def)
  have past: "\<forall>t \<in> set ts. t \<le> now2" using ok2 by (simp add: key_ok_def)
  have l2: "lo_states l2 key = Some (if lo_max_attempts l \<le> failures s + 1
      then s\<lparr>failures := failures s + 1, locked_until := now2 + of_int (lo_cooldown_seconds l)\<rparr>
      else s\<lparr>failures := failures s + 1\<rparr>)"
    using step s0 assms(2,4) by (auto simp: register_failure_def Let_def s_def split: if_splits)
  have "int (recent C now2 (ts @ [now2])) \<le> failures s + 1" using cnt by (simp add: recent_def)
  moreover have "0 < now2 + of_int (lo_cooldown_seconds l)" using assms(4,5) cfg(3) by linarith
  moreover have "t + C \<le> now2 + of_int (lo_cooldown_seconds l)" if "t \<in> set (ts @ [now2])" for t
    using that past cfg(3) add_mono [of t now2 C] by auto
  ultimately show ?thesis
    using l2 win past s0 cnt cfg by (auto simp: key_ok_def)
qed

lemma other_key:
  "remaining_seconds key now l = (r, l1) \<Longrightarrow> k \<noteq> key \<Longrightarrow> lo_states l1 k = lo_states l k"
  "register_failure key now l = (r, l1) \<Longrightarrow> k \<noteq> key \<Longrightarrow> lo_states l1 k = lo_states l k"
  "k \<noteq> key \<Longrightarrow> lo_states (register_success key l) k = lo_states l k"
  by (auto simp: remaining_seconds_def register_failure_def register_success_def Let_def
      split: if_splits option.splits)

lemma same_config:
  "remaining_seconds key now l = (r, l1) \<Longrightarrow>
     lo_max_attempts l1 = lo_max_attempts l \<and> lo_cooldown_seconds l1 = lo_cooldown_seconds l"
  "register_failure key now l = (r, l1) \<Longrightarrow>
     lo_max_attempts l1 = lo_max_attempts l \<and> lo_cooldown_seconds l1 = lo_cooldown_seconds l"
  "lo_max_attempts (register_success key l) = lo_max_attempts l"
  "lo_cooldown_seconds (register_success key l) = lo_cooldown_seconds l"
  by (auto simp: remaining_seconds_def register_failure_def register_success_def Let_def
      split: if_splits option.splits)

definition lockout_ok :: "int \<Rightarrow> rat \<Rightarrow> lockout \<Rightarrow> rat \<Rightarrow> (ustr \<Rightarrow> rat list) \<Rightarrow> bool" where
  "lockout_ok M C l now hist \<longleftrightarrow>
     1 \<le> lo_max_attempts l \<and> lo_max_attempts l \<le> M \<and> C \<le> of_int (lo_cooldown_seconds l) \<and> 0 \<le> now \<and>
     (\<forall>k. k \<noteq> [] \<longrightarrow> key_ok M C now (lo_states l k) (hist k))"

lemma lockout_ok_start:
  assumes "lockout_init m c = Inr l" "m \<le> M" "C \<le> of_int (c * 60)" "0 \<le> now"
  shows "lockout_ok M C l now (\<lambda>_. [])"
  using assms
  by (auto simp: lockout_init_def lockout_ok_def key_ok_def in_window_def recent_def split: if_splits)

lemma lockout_ok_remaining:
  assumes "lockout_ok M C l now hist" "now \<le> now1" "remaining_seconds key now1 l = (r, l1)"
  shows "lockout_ok M C l1 now1 hist"
  using assms same_config(1) [OF assms(3)] remaining_key_ok(1) [OF _ assms(2,3)]
  by (auto simp: lockout_ok_def)

lemma lockout_ok_failure:
  assumes ok: "lockout_ok M C l now hist" and C: "0 < C" and t: "now \<le> now1" "now1 \<le> now2"
    and rem: "remaining_seconds key now1 l = (None, l1)" and fail: "register_failure key now2 l1 = (r, l2)"
  shows "lockout_ok M C l2 now2 (hist(key := hist key @ [now2]))"
proof -
  have ok1: "lockout_ok M C l1 now1 hist" using lockout_ok_remaining [OF ok t(1) rem] .
  have "key_ok M C now2 (lo_states l2 k) ((hist(key := hist key @ [now2])) k)" if "k \<noteq> []" for k
  proof (cases "k = key")
    case True
    have "case lo_states l1 key of None \<Rightarrow> True | Some s \<Rightarrow> locked_until s = 0"
      using remaining_key_ok(2) [OF _ t(1) rem, of M C key] ok that True by (auto simp: lockout_ok_def)
    then show ?thesis
      using ok1 t C that True failure_key_ok [OF _ _ t(2) _ C _ _ _ _ fail, of M "hist key"]
      by (auto simp: lockout_ok_def)
  next
    case False
    then show ?thesis
      using ok1 that key_ok_later [OF _ t(2)] by (simp add: lockout_ok_def other_key(2) [OF fail])
  qed
  then show ?thesis using ok1 t same_config(2) [OF fail] by (auto simp: lockout_ok_def)
qed

lemma lockout_ok_success:
  assumes ok: "lockout_ok M C l now hist" and t: "now \<le> now1" and M: "0 \<le> M"
    and rem: "remaining_seconds key now1 l = (None, l1)"
  shows "lockout_ok M C (register_success key l1) now1 (hist(key := []))"
proof -
  have ok1: "lockout_ok M C l1 now1 hist" using lockout_ok_remaining [OF ok t rem] .
  have "key_ok M C now1 (lo_states (register_success key l1) k) ((hist(key := [])) k)" if "k \<noteq> []" for k
  proof (cases "k = key")
    case True
    then show ?thesis using M that by (simp add: register_success_def key_ok_def in_window_def recent_def)
  next
    case False
    then show ?thesis using ok1 that by (simp add: lockout_ok_def other_key(3))
  qed
  then show ?thesis using ok1 by (simp add: lockout_ok_def same_config(3,4))
qed

lemma lockout_reach_ok:
  assumes "lockout_reach M C l now hist" "0 < C"
  shows "lockout_ok M C l now hist"
  using assms(1)
proof (induction rule: lockout_reach.induct)
  case (lo_start m c l now)
  then show ?case by (rule lockout_ok_start)
next
  case (lo_refused l now hist now1 key s l1)
  then show ?case using lockout_ok_remaining by blast
next
  case (lo_failed l now hist now1 now2 key l1 r l2)
  then show ?case using lockout_ok_failure assms(2) by blast
next
  case (lo_succeeded l now hist now1 key l1)
  moreover have "0 \<le> M" using lo_succeeded.IH by (simp add: lockout_ok_def)
  ultimately show ?case using lockout_ok_success by blast
next
  case (lo_reconfigured l now hist m c l1)
  then show ?case by (auto simp: reconfigure_def lockout_ok_def split: if_splits)
qed

lemma lockout_window_bound:
  assumes "lockout_reach M C l now hist" "0 < C" "key \<noteq> []"
  shows "int (in_window C x (hist key)) \<le> M"
  using lockout_reach_ok [OF assms(1,2)] assms(3) by (simp add: lockout_ok_def key_ok_def)

text \<open>A reconfiguration never lifts a lock: as long as nothing else happens, the answer for
  every key is the one before.\<close>

lemma reconfigure_keeps_locks:
  "reconfigure m c l = Inr l1 \<Longrightarrow> fst (remaining_seconds key now l1) = fst (remaining_seconds key now l)"
  by (auto simp: reconfigure_def remaining_seconds_def split: if_splits option.splits)

lemma remaining_positive:
  "remaining_seconds key now l = (Some s, l1) \<Longrightarrow> 0 < s \<and> l1 = l"
  by (auto simp: remaining_seconds_def py_trunc_def split: if_splits option.splits)

end
