(* ===== verification/Audit_Log.thy ===== *)
theory Audit_Log
  imports Prelude
begin

text \<open>
  \<^verbatim>\<open>src/src/api/audit/audit_log.py\<close>: the append-only log of administrative actions. The file is
  the list of its entries; serialising an entry raises for values JSON has no form for (byte
  strings), and a failing disk write is swallowed. Clock readings and the outcome of the disk
  write are arguments.
\<close>

definition SENSITIVE_KEYS :: "string list" where
  "SENSITIVE_KEYS =
     [''password'', ''current_password'', ''new_password'', ''confirm_password'', ''viewer_password'',
      ''admin_password'', ''secret'', ''jwt_secret'', ''session_secret'', ''key'', ''psk'', ''channel_key'',
      ''raw_key'', ''token'', ''auth'', ''authorization'', ''cookie'']"

definition REDACTED :: pyval where
  "REDACTED = pstr ''<redacted>''"

text \<open>\<^verbatim>\<open>needle in haystack\<close> on strings.\<close>

fun is_infix :: "string \<Rightarrow> string \<Rightarrow> bool" where
  "is_infix xs [] = (xs = [])"
| "is_infix xs (y # ys) = (take (length xs) (y # ys) = xs \<or> is_infix xs ys)"

definition is_sensitive_key :: "string \<Rightarrow> bool" where
  "is_sensitive_key key =
     (let lowered = lower key in
      lowered \<in> set SENSITIVE_KEYS \<or>
      list_ex (\<lambda>w. is_infix w lowered) [''password'', ''secret'', ''token''])"

fun redact :: "pyval \<Rightarrow> pyval"
and redact_list :: "pyval list \<Rightarrow> pyval list"
and redact_dict :: "pydict \<Rightarrow> pydict" where
  "redact (PDict d) = PDict (redact_dict d)"
| "redact (PList xs) = PList (redact_list xs)"
| "redact PNone = PNone"
| "redact (PBool b) = PBool b"
| "redact (PInt i) = PInt i"
| "redact (PFloat r) = PFloat r"
| "redact (PInf n) = PInf n"
| "redact PNan = PNan"
| "redact (PStr s) = PStr s"
| "redact (PBytes s) = PBytes s"
| "redact_list [] = []"
| "redact_list (x # xs) = redact x # redact_list xs"
| "redact_dict [] = []"
| "redact_dict ((k, v) # d) = (k, if is_sensitive_key k then REDACTED else redact v) # redact_dict d"

text \<open>What \<^verbatim>\<open>json.dumps\<close> accepts.\<close>

fun json_able :: "pyval \<Rightarrow> bool"
and json_able_list :: "pyval list \<Rightarrow> bool"
and json_able_dict :: "pydict \<Rightarrow> bool" where
  "json_able (PDict d) = json_able_dict d"
| "json_able (PList xs) = json_able_list xs"
| "json_able PNone = True"
| "json_able (PBool b) = True"
| "json_able (PInt i) = True"
| "json_able (PFloat r) = True"
| "json_able (PInf n) = True"
| "json_able PNan = True"
| "json_able (PStr s) = True"
| "json_able (PBytes s) = False"
| "json_able_list [] = True"
| "json_able_list (x # xs) = (json_able x \<and> json_able_list xs)"
| "json_able_dict [] = True"
| "json_able_dict ((k, v) # d) = (json_able v \<and> json_able_dict d)"

record audit_entry =
  en_ts :: ustr
  en_user :: ustr
  en_action :: string
  en_params :: pydict
  en_result :: string
  en_duration_ms :: int
  en_error :: "ustr option"

type_synonym audit_log = "audit_entry list"

record audit_io =
  ai_now_iso :: ustr
  ai_started :: rat
  ai_finished :: rat
  ai_disk_ok :: bool

text \<open>\<^verbatim>\<open>to_json\<close> keeps every field but an absent error.\<close>

definition entry_to_json :: "audit_entry \<Rightarrow> pydict option" where
  "entry_to_json e =
     (let payload =
        [(''ts'', PStr (en_ts e)), (''user'', PStr (en_user e)), (''action'', pstr (en_action e)),
         (''params'', PDict (en_params e)), (''result'', pstr (en_result e)),
         (''duration_ms'', PInt (en_duration_ms e))] @
        (case en_error e of None \<Rightarrow> [] | Some m \<Rightarrow> [(''error'', PStr m)]) in
      if json_able (PDict payload) then Some payload else None)"

text \<open>\<open>None\<close> is the \<^verbatim>\<open>TypeError\<close> of the serialiser, raised before the guarded disk write.\<close>

definition write_entry :: "bool \<Rightarrow> audit_entry \<Rightarrow> audit_log \<Rightarrow> audit_log option" where
  "write_entry disk_ok e lg =
     (case entry_to_json e of
        None \<Rightarrow> None
      | Some line \<Rightarrow> Some (if disk_ok then lg @ [e] else lg))"

definition audit_write ::
    "audit_io \<Rightarrow> ustr \<Rightarrow> string \<Rightarrow> pydict \<Rightarrow> string \<Rightarrow> int \<Rightarrow> ustr option \<Rightarrow> audit_log \<Rightarrow> audit_log option" where
  "audit_write io user action params res duration_ms err lg =
     write_entry (ai_disk_ok io)
       \<lparr>en_ts = ai_now_iso io, en_user = (if user = [] then lit ''anonymous'' else user), en_action = action,
        en_params = redact_dict params, en_result = res, en_duration_ms = duration_ms, en_error = err\<rparr> lg"

record timed_context =
  tc_params :: pydict
  tc_error :: "ustr option"
  tc_result :: "string option"

definition ctx_result :: "timed_context \<Rightarrow> string" where
  "ctx_result c = (case tc_result c of None \<Rightarrow> ''success'' | Some r \<Rightarrow> if r = [] then ''success'' else r)"

definition set_result :: "string \<Rightarrow> timed_context \<Rightarrow> timed_context" where
  "set_result v c = c\<lparr>tc_result := Some v\<rparr>"

definition result_is_set :: "timed_context \<Rightarrow> bool" where
  "result_is_set c \<longleftrightarrow> tc_result c \<noteq> None"

text \<open>The block inside \<^verbatim>\<open>with audit.timed_action(...)\<close> is a function of the context and the state;
  \<open>exc_text\<close> is \<^verbatim>\<open>str(exc)\<close> or the name of the class. \<open>TimedTypeError\<close> is an exception of the
  log writer itself, which replaces the outcome of the block.\<close>

datatype ('e, 'a) timed = TimedValue 'a | TimedRaise 'e | TimedTypeError

definition timed_action ::
    "audit_io \<Rightarrow> ('e \<Rightarrow> ustr) \<Rightarrow> ustr \<Rightarrow> string \<Rightarrow> pydict \<Rightarrow>
     (timed_context \<Rightarrow> 's \<Rightarrow> ('e + 'a) \<times> timed_context \<times> 's) \<Rightarrow> audit_log \<Rightarrow> 's \<Rightarrow>
     ('e, 'a) timed \<times> audit_log \<times> 's" where
  "timed_action io exc_text user action params body lg s =
     (let (out, ctx, s1) = body \<lparr>tc_params = params, tc_error = None, tc_result = None\<rparr> s;
          elapsed_ms = py_trunc ((ai_finished io - ai_started io) * 1000) in
      case out of
        Inl exc \<Rightarrow>
          (case audit_write io user action (tc_params ctx)
                  (if result_is_set ctx then ctx_result ctx else ''error'') elapsed_ms (Some (exc_text exc)) lg of
             None \<Rightarrow> (TimedTypeError, lg, s1)
           | Some lg1 \<Rightarrow> (TimedRaise exc, lg1, s1))
      | Inr v \<Rightarrow>
          (case audit_write io user action (tc_params ctx)
                  (if result_is_set ctx then ctx_result ctx else ''success'') elapsed_ms (tc_error ctx) lg of
             None \<Rightarrow> (TimedTypeError, lg, s1)
           | Some lg1 \<Rightarrow> (TimedValue v, lg1, s1)))"


section \<open>What the redactor hides\<close>

text \<open>Two values that agree everywhere but below sensitive keys.\<close>

fun agree :: "pyval \<Rightarrow> pyval \<Rightarrow> bool"
and agree_list :: "pyval list \<Rightarrow> pyval list \<Rightarrow> bool"
and agree_dict :: "pydict \<Rightarrow> pydict \<Rightarrow> bool" where
  "agree (PDict d) w = (case w of PDict e \<Rightarrow> agree_dict d e | _ \<Rightarrow> False)"
| "agree (PList xs) w = (case w of PList ys \<Rightarrow> agree_list xs ys | _ \<Rightarrow> False)"
| "agree PNone w = (w = PNone)"
| "agree (PBool b) w = (w = PBool b)"
| "agree (PInt i) w = (w = PInt i)"
| "agree (PFloat r) w = (w = PFloat r)"
| "agree (PInf n) w = (w = PInf n)"
| "agree PNan w = (w = PNan)"
| "agree (PStr s) w = (w = PStr s)"
| "agree (PBytes s) w = (w = PBytes s)"
| "agree_list [] ys = (ys = [])"
| "agree_list (x # xs) ys = (case ys of y # ys' \<Rightarrow> agree x y \<and> agree_list xs ys' | [] \<Rightarrow> False)"
| "agree_dict [] e = (e = [])"
| "agree_dict ((k, v) # d) e =
     (case e of (k', v') # e' \<Rightarrow> k = k' \<and> (is_sensitive_key k \<or> agree v v') \<and> agree_dict d e' | [] \<Rightarrow> False)"

lemma redact_eq_iff:
  shows "redact v = redact w \<longleftrightarrow> agree v w"
    and "redact_list xs = redact_list ys \<longleftrightarrow> agree_list xs ys"
    and "redact_dict d = redact_dict e \<longleftrightarrow> agree_dict d e"
proof (induction v w and xs ys and d e rule: agree_agree_list_agree_dict.induct)
  case (12 x xs ys)
  then show ?case by (cases ys) auto
next
  case (14 k v d e)
  show ?case
  proof (cases e)
    case (Cons p e')
    then obtain k' v' where e: "e = (k', v') # e'" by (cases p) auto
    have "redact_dict d = redact_dict e' \<longleftrightarrow> agree_dict d e'" "redact v = redact v' \<longleftrightarrow> agree v v'"
      if "k = k'"
      using 14 e that by simp_all
    then show ?thesis using e by (cases "k = k'") simp_all
  qed simp
next
  case (11 ys)
  then show ?case by (cases ys) auto
next
  case (13 e)
  then show ?case by (cases e) auto
next
  case (1 d w)
  then show ?case by (cases w) auto
next
  case (2 xs w)
  then show ?case by (cases w) auto
next
  case (3 w)
  then show ?case by (cases w) auto
next
  case (4 b w)
  then show ?case by (cases w) auto
next
  case (5 i w)
  then show ?case by (cases w) auto
next
  case (6 r w)
  then show ?case by (cases w) auto
next
  case (7 n w)
  then show ?case by (cases w) auto
next
  case (8 w)
  then show ?case by (cases w) auto
next
  case (9 s w)
  then show ?case by (cases w) auto
next
  case (10 s w)
  then show ?case by (cases w) auto
qed

lemma redact_idem:
  shows "redact (redact v) = redact v" and "redact_list (redact_list xs) = redact_list xs"
    and "redact_dict (redact_dict d) = redact_dict d"
  by (induction v and xs and d rule: redact_redact_list_redact_dict.induct) auto

lemma redact_dict_keys: "map fst (redact_dict d) = map fst d"
  by (induction d) auto

lemma redact_json_able:
  shows "json_able v \<Longrightarrow> json_able (redact v)" and "json_able_list xs \<Longrightarrow> json_able_list (redact_list xs)"
    and "json_able_dict d \<Longrightarrow> json_able_dict (redact_dict d)"
  by (induction v and xs and d rule: redact_redact_list_redact_dict.induct) (auto simp: REDACTED_def)

text \<open>An action that fails is logged as an error, one that succeeds as its context says, and the
  outcome of the block is passed on: the log neither hides nor invents an exception as long as
  the parameters are serialisable.\<close>

lemma timed_action_outcome:
  assumes "body \<lparr>tc_params = params, tc_error = None, tc_result = None\<rparr> s = (out, ctx, s1)"
    and "json_able_dict (redact_dict (tc_params ctx))" and "ai_disk_ok io"
  shows "\<exists>e. timed_action io exc_text user action params body lg s =
      (case out of Inl x \<Rightarrow> TimedRaise x | Inr v \<Rightarrow> TimedValue v, lg @ [e], s1) \<and>
    en_user e = (if user = [] then lit ''anonymous'' else user) \<and> en_action e = action \<and>
    en_params e = redact_dict (tc_params ctx) \<and>
    en_result e = (if result_is_set ctx then ctx_result ctx else case out of Inl _ \<Rightarrow> ''error'' | Inr _ \<Rightarrow> ''success'')"
  using assms
  by (auto simp: timed_action_def audit_write_def write_entry_def entry_to_json_def split: sum.splits option.splits)

text \<open>C17: What reaches the audit log does not depend on any value below a sensitive key, at any
  depth: two parameter dictionaries give the same log line exactly if they agree everywhere else.
  The whole of the rest is therefore kept, and the log entry of an action holds the redacted
  parameters only.\<close>

theorem audit_redaction_exact:
  assumes "audit_write io user action params res dur err lg = Some lg1"
  shows "(audit_write io user action params' res dur err lg = Some lg1) \<longleftrightarrow>
    (ai_disk_ok io \<longrightarrow> agree_dict params params') \<and> json_able_dict (redact_dict params')"
proof -
  have j: "json_able_dict (redact_dict params)"
    using assms by (auto simp: audit_write_def write_entry_def entry_to_json_def split: option.splits if_splits)
  then show ?thesis
    using assms redact_eq_iff(3) [of params params']
    by (auto simp: audit_write_def write_entry_def entry_to_json_def split: option.splits if_splits)
qed

definition sample_audit_io :: audit_io where
  "sample_audit_io = \<lparr>ai_now_iso = [], ai_started = 0, ai_finished = 1, ai_disk_ok = True\<rparr>"

theorem audit_redaction_exact_witness:
  "audit_write sample_audit_io [] ''a'' [(''opts'', PDict [(''New_Password'', PInt 1), (''n'', PInt 2)])] ''success'' 0 None [] =
   audit_write sample_audit_io [] ''a'' [(''opts'', PDict [(''New_Password'', PNone), (''n'', PInt 2)])] ''success'' 0 None []"
proof -
  let ?w = "\<lambda>v. audit_write sample_audit_io [] ''a'' [(''opts'', PDict [(''New_Password'', v), (''n'', PInt 2)])] ''success'' 0 None []"
  have s: "is_sensitive_key ''New_Password''" "\<not> is_sensitive_key ''opts''" "\<not> is_sensitive_key ''n''"
    by code_simp+
  obtain lg1 where "?w (PInt 1) = Some lg1"
    by (simp add: audit_write_def write_entry_def entry_to_json_def s REDACTED_def split: if_splits)
  moreover from audit_redaction_exact [OF this, of "[(''opts'', PDict [(''New_Password'', PNone), (''n'', PInt 2)])]"]
  have "?w PNone = Some lg1" by (simp add: s REDACTED_def)
  ultimately show ?thesis by simp
qed

end
