(* ===== verification/Auth_Service.thy ===== *)
theory Auth_Service
  imports Lockout Audit_Log Utf8
begin

text \<open>
  The authentication of the dashboard: \<^verbatim>\<open>src/src/api/auth/\<close> (\<^verbatim>\<open>auth_service.py\<close>, \<^verbatim>\<open>jwt_session.py\<close>,
  \<^verbatim>\<open>password_hasher.py\<close>, \<^verbatim>\<open>dependencies.py\<close>, \<^verbatim>\<open>auth_bootstrap.py\<close>), its endpoints
  (\<^verbatim>\<open>src/src/api/routes/auth_routes.py\<close>, \<^verbatim>\<open>auth_config_routes.py\<close>) and the section of the
  configuration file they write.

  \<^item> PyJWT, bcrypt and \<^verbatim>\<open>str.lower\<close> are the functions of an \<open>auth_lib\<close>; what a call reads from
    the outside (clocks, salt, fresh secret, whether the file could be written) is an \<open>auth_io\<close>.
  \<^item> Endpoints are coroutines without an \<^verbatim>\<open>await\<close> between their guard and their answer, so a
    request is one step.
  \<^item> A JWT payload is a dictionary of dynamically typed values, as an attacker may choose them.
\<close>

record auth_lib =
  al_lower :: "ustr \<Rightarrow> ustr"
  al_hashpw :: "bytes \<Rightarrow> bytes \<Rightarrow> ustr option"
  al_checkpw :: "bytes \<Rightarrow> ustr \<Rightarrow> bool option"
  al_encode :: "pydict \<Rightarrow> ustr \<Rightarrow> ustr"
  al_decode :: "rat \<Rightarrow> ustr \<Rightarrow> ustr \<Rightarrow> pydict option"

record auth_io =
  io_check_time :: rat
  io_failure_time :: rat
  io_wall :: rat
  io_salt :: bytes
  io_secret :: ustr
  io_persist_ok :: bool
  io_audit :: audit_io

datatype auth_exn = AuthValueError | PersistError


section \<open>Passwords\<close>

definition hasher_hash :: "auth_lib \<Rightarrow> bytes \<Rightarrow> ustr \<Rightarrow> auth_exn + ustr" where
  "hasher_hash L salt plaintext =
     (if plaintext = [] then Inl AuthValueError
      else case utf8_encode plaintext of
        None \<Rightarrow> Inl AuthValueError
      | Some b \<Rightarrow> (case al_hashpw L b salt of None \<Rightarrow> Inl AuthValueError | Some digest \<Rightarrow> Inr digest))"

definition hasher_verify :: "auth_lib \<Rightarrow> ustr \<Rightarrow> ustr \<Rightarrow> bool" where
  "hasher_verify L candidate stored_hash =
     (if candidate = [] \<or> stored_hash = [] then False
      else case utf8_encode candidate of
        None \<Rightarrow> False
      | Some b \<Rightarrow>
          if list_all (\<lambda>c. c < 128) stored_hash
          then (case al_checkpw L b stored_hash of None \<Rightarrow> False | Some ok \<Rightarrow> ok)
          else False)"

definition MIN_PASSWORD_LENGTH :: nat where
  "MIN_PASSWORD_LENGTH = 8"

definition MAX_PASSWORD_LENGTH :: nat where
  "MAX_PASSWORD_LENGTH = 256"

definition validate_password :: "ustr \<Rightarrow> string option" where
  "validate_password password =
     (if length password < MIN_PASSWORD_LENGTH then Some ''password_too_short''
      else if length password > MAX_PASSWORD_LENGTH then Some ''password_too_long''
      else None)"


section \<open>Sessions\<close>

definition ROLE_ADMIN :: ustr where
  "ROLE_ADMIN = lit ''admin''"

definition ROLE_VIEWER :: ustr where
  "ROLE_VIEWER = lit ''viewer''"

record session_claims =
  sc_subject :: ustr
  sc_role :: ustr
  sc_session_version :: int

record jwt_service =
  js_secret :: ustr
  js_expiry_minutes :: int
  js_session_version :: int

definition jwt_init :: "ustr \<Rightarrow> int \<Rightarrow> int \<Rightarrow> auth_exn + jwt_service" where
  "jwt_init secret expiry sv =
     (if secret = [] then Inl AuthValueError
      else if expiry \<le> 0 then Inl AuthValueError
      else if sv < 1 then Inl AuthValueError
      else Inr \<lparr>js_secret = secret, js_expiry_minutes = expiry, js_session_version = sv\<rparr>)"

definition set_expiry_minutes :: "int \<Rightarrow> jwt_service \<Rightarrow> auth_exn + jwt_service" where
  "set_expiry_minutes minutes js =
     (if minutes \<le> 0 then Inl AuthValueError else Inr (js\<lparr>js_expiry_minutes := minutes\<rparr>))"

definition rotate_secret :: "ustr \<Rightarrow> jwt_service \<Rightarrow> auth_exn + jwt_service" where
  "rotate_secret new_secret js =
     (if new_secret = [] then Inl AuthValueError else Inr (js\<lparr>js_secret := new_secret\<rparr>))"

definition bump_session_version :: "jwt_service \<Rightarrow> int \<times> jwt_service" where
  "bump_session_version js =
     (js_session_version js + 1, js\<lparr>js_session_version := js_session_version js + 1\<rparr>)"

definition issue :: "auth_lib \<Rightarrow> rat \<Rightarrow> ustr \<Rightarrow> ustr \<Rightarrow> jwt_service \<Rightarrow> auth_exn + ustr" where
  "issue L now subject role js =
     (if subject = [] then Inl AuthValueError
      else if role \<notin> {ROLE_ADMIN, ROLE_VIEWER} then Inl AuthValueError
      else Inr (al_encode L
        [(''sub'', PStr subject), (''role'', PStr role), (''sv'', PInt (js_session_version js)),
         (''iat'', PInt (py_trunc now)),
         (''exp'', PInt (py_trunc (now + of_int (60 * js_expiry_minutes js))))]
        (js_secret js)))"

text \<open>\<^verbatim>\<open>isinstance(x, int)\<close> holds of booleans too, which compare equal to 0 and 1. A role that is a
  list or a dictionary cannot be hashed: looking it up raises, which rejects the request as the
  \<open>None\<close> of this model does.\<close>

fun jwt_int :: "pyval \<Rightarrow> int option" where
  "jwt_int (PInt i) = Some i"
| "jwt_int (PBool b) = Some (if b then 1 else 0)"
| "jwt_int _ = None"

definition verify :: "auth_lib \<Rightarrow> rat \<Rightarrow> ustr \<Rightarrow> jwt_service \<Rightarrow> session_claims option" where
  "verify L now token js =
     (if token = [] then None
      else case al_decode L now token (js_secret js) of
        None \<Rightarrow> None
      | Some payload \<Rightarrow>
          (case dget ''sub'' payload of
             PStr subject \<Rightarrow>
               if subject = [] then None
               else
                 (case dget ''role'' payload of
                    PStr role \<Rightarrow>
                      if role \<notin> {ROLE_ADMIN, ROLE_VIEWER} then None
                      else
                        (case jwt_int (dget ''sv'' payload) of
                           Some sv \<Rightarrow>
                             if sv \<noteq> js_session_version js then None
                             else Some \<lparr>sc_subject = subject, sc_role = role, sc_session_version = sv\<rparr>
                         | None \<Rightarrow> None)
                  | _ \<Rightarrow> None)
           | _ \<Rightarrow> None))"


section \<open>Configuration and the file behind it\<close>

record web_auth =
  wa_admin_password_hash :: ustr
  wa_viewer_password_hash :: ustr
  wa_jwt_secret :: ustr
  wa_jwt_expiry_minutes :: int
  wa_allow_read_only :: bool
  wa_lockout_attempts :: int
  wa_lockout_cooldown_minutes :: int
  wa_session_version :: int

definition default_web_auth :: web_auth where
  "default_web_auth =
     \<lparr>wa_admin_password_hash = [], wa_viewer_password_hash = [], wa_jwt_secret = [],
      wa_jwt_expiry_minutes = 480, wa_allow_read_only = False, wa_lockout_attempts = 5,
      wa_lockout_cooldown_minutes = 5, wa_session_version = 1\<rparr>"

text \<open>One \<^verbatim>\<open>setattr\<close> of \<^verbatim>\<open>_merge_dataclass\<close>: unknown keys are skipped; \<open>None\<close> stands for a value of
  another type than the field, which only an edit by hand puts into the file.\<close>

definition web_auth_setattr :: "string \<Rightarrow> pyval \<Rightarrow> web_auth \<Rightarrow> web_auth option" where
  "web_auth_setattr key v c =
     (if key = ''admin_password_hash'' then (case v of PStr s \<Rightarrow> Some (c\<lparr>wa_admin_password_hash := s\<rparr>) | _ \<Rightarrow> None)
      else if key = ''viewer_password_hash'' then (case v of PStr s \<Rightarrow> Some (c\<lparr>wa_viewer_password_hash := s\<rparr>) | _ \<Rightarrow> None)
      else if key = ''jwt_secret'' then (case v of PStr s \<Rightarrow> Some (c\<lparr>wa_jwt_secret := s\<rparr>) | _ \<Rightarrow> None)
      else if key = ''jwt_expiry_minutes'' then (case v of PInt i \<Rightarrow> Some (c\<lparr>wa_jwt_expiry_minutes := i\<rparr>) | _ \<Rightarrow> None)
      else if key = ''allow_read_only'' then (case v of PBool b \<Rightarrow> Some (c\<lparr>wa_allow_read_only := b\<rparr>) | _ \<Rightarrow> None)
      else if key = ''lockout_attempts'' then (case v of PInt i \<Rightarrow> Some (c\<lparr>wa_lockout_attempts := i\<rparr>) | _ \<Rightarrow> None)
      else if key = ''lockout_cooldown_minutes'' then (case v of PInt i \<Rightarrow> Some (c\<lparr>wa_lockout_cooldown_minutes := i\<rparr>) | _ \<Rightarrow> None)
      else if key = ''session_version'' then (case v of PInt i \<Rightarrow> Some (c\<lparr>wa_session_version := i\<rparr>) | _ \<Rightarrow> None)
      else Some c)"

fun merge_web_auth :: "pydict \<Rightarrow> web_auth \<Rightarrow> web_auth option" where
  "merge_web_auth [] c = Some c"
| "merge_web_auth ((k, v) # kvs) c =
     (case web_auth_setattr k v c of None \<Rightarrow> None | Some c1 \<Rightarrow> merge_web_auth kvs c1)"

text \<open>The shipped \<^verbatim>\<open>config/default.yaml\<close> is applied before the local file; its lifetime of a session is not the one of the class.\<close>

definition DEFAULT_YAML_WEB_AUTH :: pydict where
  "DEFAULT_YAML_WEB_AUTH =
     [(''admin_password_hash'', PStr []), (''viewer_password_hash'', PStr []), (''jwt_secret'', PStr []), (''jwt_expiry_minutes'', PInt 60),
      (''allow_read_only'', PBool False), (''lockout_attempts'', PInt 5), (''lockout_cooldown_minutes'', PInt 5), (''session_version'', PInt 1)]"

definition shipped_web_auth :: web_auth where
  "shipped_web_auth = (case merge_web_auth DEFAULT_YAML_WEB_AUTH default_web_auth of Some c \<Rightarrow> c | None \<Rightarrow> default_web_auth)"

lemma shipped_web_auth_eq: "shipped_web_auth = default_web_auth\<lparr>wa_jwt_expiry_minutes := 60\<rparr>"
  by (simp add: shipped_web_auth_def DEFAULT_YAML_WEB_AUTH_def default_web_auth_def web_auth_setattr_def)

record auth =
  au_config :: web_auth
  au_lockout :: lockout
  au_jwt :: jwt_service
  au_disk :: pydict
  au_audit :: audit_log

definition ensure_jwt_secret :: "ustr \<Rightarrow> web_auth \<Rightarrow> web_auth" where
  "ensure_jwt_secret fresh c = (if wa_jwt_secret c \<noteq> [] then c else c\<lparr>wa_jwt_secret := fresh\<rparr>)"

text \<open>Start-up over the section of the file found on disk.\<close>

definition build_auth_subsystem :: "ustr \<Rightarrow> pydict \<Rightarrow> audit_log \<Rightarrow> auth option" where
  "build_auth_subsystem fresh disk lg =
     (case merge_web_auth disk shipped_web_auth of
        None \<Rightarrow> None
      | Some c0 \<Rightarrow>
          let c = ensure_jwt_secret fresh c0 in
          (case jwt_init (wa_jwt_secret c) (wa_jwt_expiry_minutes c) (wa_session_version c) of
             Inl _ \<Rightarrow> None
           | Inr js \<Rightarrow>
               (case lockout_init (wa_lockout_attempts c) (wa_lockout_cooldown_minutes c) of
                  Inl _ \<Rightarrow> None
                | Inr lo \<Rightarrow>
                    Some \<lparr>au_config = c, au_lockout = lo, au_jwt = js, au_disk = disk, au_audit = lg\<rparr>)))"

text \<open>\<^verbatim>\<open>save_section_to_yaml("web_auth", values)\<close>.\<close>

definition persist :: "auth_io \<Rightarrow> pydict \<Rightarrow> auth \<Rightarrow> (auth_exn + unit) \<times> auth" where
  "persist io values a =
     (if io_persist_ok io then (Inr (), a\<lparr>au_disk := dict_update (au_disk a) values\<rparr>)
      else (Inl PersistError, a))"

text \<open>Python's statement sequence: the next statement runs on the state the previous one left, and
  an exception ends the call with that state.\<close>

definition then_do :: "('e + 'a) \<times> 's \<Rightarrow> ('a \<Rightarrow> 's \<Rightarrow> ('e + 'b) \<times> 's) \<Rightarrow> ('e + 'b) \<times> 's" where
  "then_do r f = (case r of (Inl e, s) \<Rightarrow> (Inl e, s) | (Inr x, s) \<Rightarrow> f x s)"


section \<open>The service\<close>

datatype setup_result = SetupSuccess ustr | SetupRejected string
datatype login_result = LoginSuccess ustr ustr | LoginFailure string "int option"
datatype change_result = ChangePasswordSuccess ustr ustr | ChangePasswordFailure string
datatype viewer_result = ViewerSetupSuccess | ViewerSetupRejected string

definition is_setup_complete :: "auth \<Rightarrow> bool" where
  "is_setup_complete a \<longleftrightarrow> wa_admin_password_hash (au_config a) \<noteq> []"

definition complete_setup :: "auth_lib \<Rightarrow> auth_io \<Rightarrow> ustr \<Rightarrow> auth \<Rightarrow> (auth_exn + setup_result) \<times> auth" where
  "complete_setup L io password a =
     (if is_setup_complete a then (Inr (SetupRejected ''already_set''), a)
      else case validate_password password of
        Some rejection \<Rightarrow> (Inr (SetupRejected rejection), a)
      | None \<Rightarrow>
          then_do (hasher_hash L (io_salt io) password, a) (\<lambda>hashed a.
          let a1 = a\<lparr>au_config := (au_config a)\<lparr>wa_admin_password_hash := hashed\<rparr>\<rparr> in
          then_do (persist io [(''admin_password_hash'', PStr hashed),
                               (''jwt_secret'', PStr (wa_jwt_secret (au_config a1)))] a1) (\<lambda>_ a2.
          then_do (issue L (io_wall io) (lit ''admin'') ROLE_ADMIN (au_jwt a2), a2) (\<lambda>token a3.
          (Inr (SetupSuccess token), a3)))))"

definition hash_for :: "ustr \<Rightarrow> web_auth \<Rightarrow> ustr option" where
  "hash_for normalized c =
     (if normalized = lit ''admin'' then
        (if wa_admin_password_hash c = [] then None else Some (wa_admin_password_hash c))
      else if normalized = lit ''viewer'' then
        (if wa_viewer_password_hash c = [] then None else Some (wa_viewer_password_hash c))
      else None)"

definition normalize_user :: "auth_lib \<Rightarrow> ustr \<Rightarrow> ustr" where
  "normalize_user L username = al_lower L (ustrip uni_space username)"

definition role_of :: "ustr \<Rightarrow> ustr" where
  "role_of normalized = (if normalized = lit ''admin'' then ROLE_ADMIN else ROLE_VIEWER)"

definition login :: "auth_lib \<Rightarrow> auth_io \<Rightarrow> ustr \<Rightarrow> ustr \<Rightarrow> auth \<Rightarrow> (auth_exn + login_result) \<times> auth" where
  "login L io username password a =
     (if \<not> is_setup_complete a then (Inr (LoginFailure ''setup_required'' None), a)
      else
        let normalized = normalize_user L username;
            (cooldown, lo1) = remaining_seconds normalized (io_check_time io) (au_lockout a);
            a1 = a\<lparr>au_lockout := lo1\<rparr> in
        case cooldown of
          Some s \<Rightarrow> (Inr (LoginFailure ''locked_out'' (Some s)), a1)
        | None \<Rightarrow>
            if (case hash_for normalized (au_config a1) of
                  None \<Rightarrow> True | Some stored \<Rightarrow> \<not> hasher_verify L password stored)
            then
              (let (triggered, lo2) = register_failure normalized (io_failure_time io) (au_lockout a1) in
               (Inr (LoginFailure ''invalid_credentials'' triggered), a1\<lparr>au_lockout := lo2\<rparr>))
            else
              (let a2 = a1\<lparr>au_lockout := register_success normalized (au_lockout a1)\<rparr>;
                   role = role_of normalized in
               then_do (issue L (io_wall io) normalized role (au_jwt a2), a2) (\<lambda>token a3.
               (Inr (LoginSuccess token role), a3))))"

definition change_password ::
    "auth_lib \<Rightarrow> auth_io \<Rightarrow> ustr \<Rightarrow> ustr \<Rightarrow> ustr \<Rightarrow> auth \<Rightarrow> (auth_exn + change_result) \<times> auth" where
  "change_password L io subject current new a =
     (let normalized = normalize_user L subject in
      if normalized \<notin> {lit ''admin'', lit ''viewer''} then (Inr (ChangePasswordFailure ''invalid_subject''), a)
      else if (case hash_for normalized (au_config a) of
                 None \<Rightarrow> True | Some stored \<Rightarrow> \<not> hasher_verify L current stored)
      then (Inr (ChangePasswordFailure ''invalid_current_password''), a)
      else case validate_password new of
        Some rejection \<Rightarrow> (Inr (ChangePasswordFailure rejection), a)
      | None \<Rightarrow>
          then_do (hasher_hash L (io_salt io) new, a) (\<lambda>new_hash a.
          let new_secret = io_secret io;
              c1 = (if normalized = lit ''admin'' then (au_config a)\<lparr>wa_admin_password_hash := new_hash\<rparr>
                    else (au_config a)\<lparr>wa_viewer_password_hash := new_hash\<rparr>);
              a1 = a\<lparr>au_config := c1\<lparr>wa_jwt_secret := new_secret\<rparr>\<rparr> in
          then_do (rotate_secret new_secret (au_jwt a1), a1) (\<lambda>js a1.
          let a2 = a1\<lparr>au_jwt := js\<rparr> in
          then_do (persist io [(''jwt_secret'', PStr new_secret),
                     (if normalized = lit ''admin'' then ''admin_password_hash'' else ''viewer_password_hash'',
                      PStr new_hash)] a2) (\<lambda>_ a3.
          then_do (issue L (io_wall io) normalized (role_of normalized) (au_jwt a3), a3) (\<lambda>token a4.
          (Inr (ChangePasswordSuccess token (role_of normalized)), a4))))))"

definition logout_all_sessions :: "auth_io \<Rightarrow> auth \<Rightarrow> (auth_exn + int) \<times> auth" where
  "logout_all_sessions io a =
     (let (new_sv, js) = bump_session_version (au_jwt a);
          a1 = a\<lparr>au_jwt := js, au_config := (au_config a)\<lparr>wa_session_version := new_sv\<rparr>\<rparr> in
      then_do (persist io [(''session_version'', PInt new_sv)] a1) (\<lambda>_ a2. (Inr new_sv, a2)))"

definition update_lockout_config :: "auth_io \<Rightarrow> int \<Rightarrow> int \<Rightarrow> auth \<Rightarrow> (auth_exn + int \<times> int) \<times> auth" where
  "update_lockout_config io attempts cooldown a =
     (case reconfigure attempts cooldown (au_lockout a) of
        Inl _ \<Rightarrow> (Inl AuthValueError, a)
      | Inr lo \<Rightarrow>
          let a1 = a\<lparr>au_lockout := lo,
                au_config := (au_config a)\<lparr>wa_lockout_attempts := attempts, wa_lockout_cooldown_minutes := cooldown\<rparr>\<rparr> in
          then_do (persist io [(''lockout_attempts'', PInt attempts), (''lockout_cooldown_minutes'', PInt cooldown)] a1)
            (\<lambda>_ a2. (Inr (attempts, cooldown), a2)))"

definition update_session_lifetime :: "auth_io \<Rightarrow> int \<Rightarrow> auth \<Rightarrow> (auth_exn + int) \<times> auth" where
  "update_session_lifetime io minutes a =
     (if minutes \<le> 0 then (Inl AuthValueError, a)
      else
        then_do (set_expiry_minutes minutes (au_jwt a), a) (\<lambda>js a.
        let a1 = a\<lparr>au_jwt := js, au_config := (au_config a)\<lparr>wa_jwt_expiry_minutes := minutes\<rparr>\<rparr> in
        then_do (persist io [(''jwt_expiry_minutes'', PInt minutes)] a1) (\<lambda>_ a2. (Inr minutes, a2))))"

definition setup_viewer :: "auth_lib \<Rightarrow> auth_io \<Rightarrow> ustr \<Rightarrow> auth \<Rightarrow> (auth_exn + viewer_result) \<times> auth" where
  "setup_viewer L io password a =
     (case validate_password password of
        Some rejection \<Rightarrow> (Inr (ViewerSetupRejected rejection), a)
      | None \<Rightarrow>
          then_do (hasher_hash L (io_salt io) password, a) (\<lambda>new_hash a.
          let a1 = a\<lparr>au_config := (au_config a)\<lparr>wa_viewer_password_hash := new_hash, wa_allow_read_only := True\<rparr>\<rparr> in
          then_do (persist io [(''viewer_password_hash'', PStr new_hash), (''allow_read_only'', PBool True)] a1)
            (\<lambda>_ a2. (Inr ViewerSetupSuccess, a2))))"

definition clear_viewer :: "auth_io \<Rightarrow> auth \<Rightarrow> (auth_exn + unit) \<times> auth" where
  "clear_viewer io a =
     (let a1 = a\<lparr>au_config := (au_config a)\<lparr>wa_viewer_password_hash := [], wa_allow_read_only := False\<rparr>\<rparr> in
      persist io [(''viewer_password_hash'', PStr []), (''allow_read_only'', PBool False)] a1)"

definition viewer_enabled :: "auth \<Rightarrow> bool" where
  "viewer_enabled a \<longleftrightarrow> wa_viewer_password_hash (au_config a) \<noteq> [] \<and> wa_allow_read_only (au_config a)"

end
