(* ===== verification/Auth_Routes.thy ===== *)
theory Auth_Routes
  imports Auth_Service Sha256
begin

text \<open>
  The HTTP side of the authentication: the guards of \<^verbatim>\<open>src/src/api/auth/dependencies.py\<close>,
  \<^verbatim>\<open>ws_guard.py\<close> and \<^verbatim>\<open>metrics_api_key.py\<close>, and the endpoints of
  \<^verbatim>\<open>src/src/api/routes/auth_routes.py\<close> and \<^verbatim>\<open>auth_config_routes.py\<close> with the services bound at
  start-up. The length and range limits of the request models are part of the endpoints
  (status 422); a request is one step on the state.
\<close>

record request =
  rq_cookie :: "ustr option"
  rq_authorization :: "ustr option"
  rq_client :: "ustr option"
  rq_https :: bool

datatype cookie_action = KeepCookie | SetCookie ustr int bool | ClearCookie

datatype response =
    Response int cookie_action pydict
  | HttpError int string "(string \<times> string) list"
  | ServerError

text \<open>What an endpoint raises: a chosen HTTP error or an exception of the service.\<close>

datatype handler_exn = Http int string | Exn auth_exn

definition BEARER_PREFIX :: ustr where
  "BEARER_PREFIX = lit ''Bearer ''"

definition has_prefix :: "'a list \<Rightarrow> 'a list \<Rightarrow> bool" where
  "has_prefix p s \<longleftrightarrow> take (length p) s = p"

definition truthy_opt :: "'a list option \<Rightarrow> 'a list" where
  "truthy_opt x = (case x of None \<Rightarrow> [] | Some s \<Rightarrow> s)"

definition extract_token :: "request \<Rightarrow> ustr" where
  "extract_token rq =
     (if truthy_opt (rq_cookie rq) \<noteq> [] then truthy_opt (rq_cookie rq)
      else
        let authorization = truthy_opt (rq_authorization rq) in
        if authorization \<noteq> [] \<and> has_prefix BEARER_PREFIX authorization
        then ustrip uni_space (drop (length BEARER_PREFIX) authorization)
        else [])"

definition claims_or_none :: "auth_lib \<Rightarrow> rat \<Rightarrow> ustr \<Rightarrow> jwt_service option \<Rightarrow> session_claims option" where
  "claims_or_none L now token js =
     (case js of None \<Rightarrow> None | Some j \<Rightarrow> if token = [] then None else verify L now token j)"

definition unauthorized :: response where
  "unauthorized = HttpError 401 ''authentication required'' [(''WWW-Authenticate'', ''Bearer'')]"

definition forbidden :: response where
  "forbidden = HttpError 403 ''admin role required'' []"

definition require_auth :: "auth_lib \<Rightarrow> rat \<Rightarrow> request \<Rightarrow> jwt_service option \<Rightarrow> response + session_claims" where
  "require_auth L now rq js =
     (if js = None then Inl unauthorized
      else case claims_or_none L now (extract_token rq) js of
        None \<Rightarrow> Inl unauthorized
      | Some claims \<Rightarrow> Inr claims)"

definition require_admin :: "auth_lib \<Rightarrow> rat \<Rightarrow> request \<Rightarrow> jwt_service option \<Rightarrow> response + session_claims" where
  "require_admin L now rq js =
     (case require_auth L now rq js of
        Inl r \<Rightarrow> Inl r
      | Inr claims \<Rightarrow> if sc_role claims \<noteq> ROLE_ADMIN then Inl forbidden else Inr claims)"

definition optional_auth :: "auth_lib \<Rightarrow> rat \<Rightarrow> request \<Rightarrow> jwt_service option \<Rightarrow> session_claims option" where
  "optional_auth L now rq js = claims_or_none L now (extract_token rq) js"

text \<open>The handshake of a WebSocket: the cookie first, the query parameter \<^verbatim>\<open>token\<close> otherwise.\<close>

definition authenticate_websocket ::
    "auth_lib \<Rightarrow> rat \<Rightarrow> ustr option \<Rightarrow> ustr option \<Rightarrow> jwt_service option \<Rightarrow> session_claims option" where
  "authenticate_websocket L now cookie query_token js =
     (case js of
        None \<Rightarrow> None
      | Some j \<Rightarrow>
          let token = (if truthy_opt cookie \<noteq> [] then truthy_opt cookie else truthy_opt query_token) in
          if token = [] then None else verify L now token j)"


section \<open>Metrics keys\<close>

record metrics_api_key =
  mk_id :: ustr
  mk_label :: ustr
  mk_key_hash :: ustr
  mk_created_at :: ustr
  mk_last_used_at :: "ustr option"

definition key_digest :: "ustr \<Rightarrow> ustr option" where
  "key_digest presented = map_option (\<lambda>b. lit (bytes_hex hexdig (sha256 b))) (utf8_encode presented)"

text \<open>The position of the first key with the digest of the presented one; a header that is not
  encodable matches none.\<close>

fun find_key :: "ustr \<Rightarrow> metrics_api_key list \<Rightarrow> nat option" where
  "find_key h [] = None"
| "find_key h (k # ks) = (if mk_key_hash k = h then Some 0 else map_option Suc (find_key h ks))"

definition match_metrics_api_key :: "metrics_api_key list option \<Rightarrow> ustr option \<Rightarrow> nat option" where
  "match_metrics_api_key config authorization =
     (case config of
        None \<Rightarrow> None
      | Some keys \<Rightarrow>
          let h = truthy_opt authorization in
          if h = [] \<or> \<not> has_prefix BEARER_PREFIX h then None
          else
            let presented = ustrip uni_space (drop (length BEARER_PREFIX) h) in
            if presented = [] then None
            else (case key_digest presented of None \<Rightarrow> None | Some d \<Rightarrow> find_key d keys))"

definition require_session_or_metrics_key ::
    "auth_lib \<Rightarrow> rat \<Rightarrow> ustr \<Rightarrow> request \<Rightarrow> jwt_service option \<Rightarrow> metrics_api_key list option \<Rightarrow>
     (response + unit) \<times> metrics_api_key list option" where
  "require_session_or_metrics_key L now now_iso rq js config =
     (case match_metrics_api_key config (rq_authorization rq) of
        Some i \<Rightarrow>
          (Inr (), map_option (\<lambda>keys. keys[i := (keys ! i)\<lparr>mk_last_used_at := Some now_iso\<rparr>]) config)
      | None \<Rightarrow>
          (case require_auth L now rq js of Inl r \<Rightarrow> Inl r | Inr _ \<Rightarrow> Inr (), config))"


section \<open>Endpoints\<close>

definition session_cookie :: "request \<Rightarrow> ustr \<Rightarrow> auth \<Rightarrow> cookie_action" where
  "session_cookie rq token a = SetCookie token (wa_jwt_expiry_minutes (au_config a) * 60) (rq_https rq)"

definition reject_setup :: "string \<Rightarrow> response" where
  "reject_setup reason =
     (if reason = ''already_set'' then HttpError 409 ''already_set'' [] else HttpError 400 reason [])"

definition reject_login :: "string \<Rightarrow> int option \<Rightarrow> response" where
  "reject_login reason retry_after =
     (if reason = ''locked_out'' then
        HttpError 429 ''locked_out''
          (case retry_after of None \<Rightarrow> [] | Some s \<Rightarrow> [(''Retry-After'', fmt_d s)])
      else if reason = ''setup_required'' then HttpError 409 ''setup_required'' []
      else HttpError 401 ''invalid_credentials'' [])"

definition reject_change_password :: "string \<Rightarrow> handler_exn" where
  "reject_change_password reason =
     (if reason = ''invalid_current_password'' then Http 401 ''invalid_current_password''
      else Http 400 reason)"

definition length_between :: "nat \<Rightarrow> nat \<Rightarrow> ustr \<Rightarrow> bool" where
  "length_between lo hi s \<longleftrightarrow> lo \<le> length s \<and> length s \<le> hi"

definition unprocessable :: response where
  "unprocessable = HttpError 422 ''validation error'' []"

definition setup_password :: "auth_lib \<Rightarrow> auth_io \<Rightarrow> request \<Rightarrow> ustr \<Rightarrow> auth \<Rightarrow> response \<times> auth" where
  "setup_password L io rq password a =
     (if \<not> length_between 1 512 password then (unprocessable, a)
      else case complete_setup L io password a of
        (Inl _, a1) \<Rightarrow> (ServerError, a1)
      | (Inr (SetupSuccess token), a1) \<Rightarrow>
          (Response 200 (session_cookie rq token a1) [(''role'', pstr ''admin'')], a1)
      | (Inr (SetupRejected reason), a1) \<Rightarrow> (reject_setup reason, a1))"

definition login_endpoint :: "auth_lib \<Rightarrow> auth_io \<Rightarrow> request \<Rightarrow> ustr \<Rightarrow> ustr \<Rightarrow> auth \<Rightarrow> response \<times> auth" where
  "login_endpoint L io rq username password a =
     (if \<not> length_between 1 64 username \<or> \<not> length_between 1 512 password then (unprocessable, a)
      else case login L io username password a of
        (Inl _, a1) \<Rightarrow> (ServerError, a1)
      | (Inr (LoginSuccess token role), a1) \<Rightarrow>
          (Response 200 (session_cookie rq token a1)
            ((''role'', PStr role) # (if truthy_opt (rq_client rq) \<noteq> [] then [(''token'', PStr token)] else [])), a1)
      | (Inr (LoginFailure reason retry_after), a1) \<Rightarrow> (reject_login reason retry_after, a1))"

definition logout :: "auth \<Rightarrow> response \<times> auth" where
  "logout a = (Response 204 ClearCookie [], a)"

text \<open>Leaving the \<^verbatim>\<open>with audit.timed_action(...)\<close> block of an endpoint.\<close>

definition audited ::
    "(handler_exn \<Rightarrow> ustr) \<Rightarrow> auth_io \<Rightarrow> ustr \<Rightarrow> string \<Rightarrow> pydict \<Rightarrow>
     (timed_context \<Rightarrow> auth \<Rightarrow> (handler_exn + 'a) \<times> timed_context \<times> auth) \<Rightarrow> ('a \<Rightarrow> auth \<Rightarrow> response) \<Rightarrow>
     auth \<Rightarrow> response \<times> auth" where
  "audited etext io user action params body answer a =
     (let (out, lg, a1) = timed_action (io_audit io) etext user action params body (au_audit a) a;
          a2 = a1\<lparr>au_audit := lg\<rparr> in
      (case out of
         TimedValue v \<Rightarrow> answer v a2
       | TimedRaise (Http status detail) \<Rightarrow> HttpError status detail []
       | TimedRaise (Exn _) \<Rightarrow> ServerError
       | TimedTypeError \<Rightarrow> ServerError, a2))"

definition add_param :: "string \<Rightarrow> pyval \<Rightarrow> timed_context \<Rightarrow> timed_context" where
  "add_param k v ctx = ctx\<lparr>tc_params := AList.update k v (tc_params ctx)\<rparr>"

definition change_password_endpoint ::
    "auth_lib \<Rightarrow> (handler_exn \<Rightarrow> ustr) \<Rightarrow> auth_io \<Rightarrow> request \<Rightarrow> ustr \<Rightarrow> ustr \<Rightarrow> auth \<Rightarrow> response \<times> auth" where
  "change_password_endpoint L etext io rq current new a =
     (case require_auth L (io_wall io) rq (Some (au_jwt a)) of
        Inl r \<Rightarrow> (r, a)
      | Inr claims \<Rightarrow>
          if \<not> length_between 1 512 current \<or> \<not> length_between 1 512 new then (unprocessable, a)
          else
            audited etext io (sc_subject claims) ''auth.change_password''
              [(''subject'', PStr (sc_subject claims))]
              (\<lambda>ctx a. case change_password L io (sc_subject claims) current new a of
                 (Inl e, a1) \<Rightarrow> (Inl (Exn e), ctx, a1)
               | (Inr (ChangePasswordFailure reason), a1) \<Rightarrow>
                   (Inl (reject_change_password reason),
                    add_param ''reason'' (pstr reason) (set_result ''error'' ctx), a1)
               | (Inr (ChangePasswordSuccess token role), a1) \<Rightarrow>
                   (Inr (token, role), add_param ''role'' (PStr role) ctx, a1))
              (\<lambda>(token, role) a2. Response 200 (session_cookie rq token a2) [(''role'', PStr role)]) a)"

definition logout_all ::
    "auth_lib \<Rightarrow> (handler_exn \<Rightarrow> ustr) \<Rightarrow> auth_io \<Rightarrow> request \<Rightarrow> auth \<Rightarrow> response \<times> auth" where
  "logout_all L etext io rq a =
     (case require_admin L (io_wall io) rq (Some (au_jwt a)) of
        Inl r \<Rightarrow> (r, a)
      | Inr claims \<Rightarrow>
          audited etext io (sc_subject claims) ''auth.logout_all'' []
            (\<lambda>ctx a. case logout_all_sessions io a of
               (Inl e, a1) \<Rightarrow> (Inl (Exn e), ctx, a1)
             | (Inr new_sv, a1) \<Rightarrow> (Inr (), add_param ''session_version'' (PInt new_sv) ctx, a1))
            (\<lambda>_ _. Response 204 ClearCookie []) a)"

definition setup_viewer_endpoint ::
    "auth_lib \<Rightarrow> (handler_exn \<Rightarrow> ustr) \<Rightarrow> auth_io \<Rightarrow> request \<Rightarrow> ustr \<Rightarrow> auth \<Rightarrow> response \<times> auth" where
  "setup_viewer_endpoint L etext io rq password a =
     (case require_admin L (io_wall io) rq (Some (au_jwt a)) of
        Inl r \<Rightarrow> (r, a)
      | Inr claims \<Rightarrow>
          if \<not> length_between 1 512 password then (unprocessable, a)
          else
            audited etext io (sc_subject claims) ''auth.setup_viewer'' []
              (\<lambda>ctx a. case setup_viewer L io password a of
                 (Inl e, a1) \<Rightarrow> (Inl (Exn e), ctx, a1)
               | (Inr (ViewerSetupRejected reason), a1) \<Rightarrow>
                   (Inl (Http 400 reason), add_param ''reason'' (pstr reason) (set_result ''error'' ctx), a1)
               | (Inr ViewerSetupSuccess, a1) \<Rightarrow> (Inr (), ctx, a1))
              (\<lambda>_ _. Response 200 KeepCookie [(''viewer_enabled'', PBool True)]) a)"

definition clear_viewer_endpoint ::
    "auth_lib \<Rightarrow> (handler_exn \<Rightarrow> ustr) \<Rightarrow> auth_io \<Rightarrow> request \<Rightarrow> auth \<Rightarrow> response \<times> auth" where
  "clear_viewer_endpoint L etext io rq a =
     (case require_admin L (io_wall io) rq (Some (au_jwt a)) of
        Inl r \<Rightarrow> (r, a)
      | Inr claims \<Rightarrow>
          audited etext io (sc_subject claims) ''auth.clear_viewer'' []
            (\<lambda>ctx a. case clear_viewer io a of (Inl e, a1) \<Rightarrow> (Inl (Exn e), ctx, a1) | (Inr _, a1) \<Rightarrow> (Inr (), ctx, a1))
            (\<lambda>_ _. Response 204 KeepCookie []) a)"

definition SESSION_LIFETIME_MIN_MINUTES :: int where
  "SESSION_LIFETIME_MIN_MINUTES = 5"

definition SESSION_LIFETIME_MAX_MINUTES :: int where
  "SESSION_LIFETIME_MAX_MINUTES = 30 * 24 * 60"

definition get_auth_settings :: "auth_lib \<Rightarrow> auth_io \<Rightarrow> request \<Rightarrow> auth \<Rightarrow> response \<times> auth" where
  "get_auth_settings L io rq a =
     (case require_admin L (io_wall io) rq (Some (au_jwt a)) of
        Inl r \<Rightarrow> (r, a)
      | Inr _ \<Rightarrow>
          let cfg = au_config a in
          (Response 200 KeepCookie
            [(''lockout_attempts'', PInt (wa_lockout_attempts cfg)),
             (''lockout_cooldown_minutes'', PInt (wa_lockout_cooldown_minutes cfg)),
             (''session_lifetime_minutes'', PInt (wa_jwt_expiry_minutes cfg)),
             (''session_lifetime_min_minutes'', PInt SESSION_LIFETIME_MIN_MINUTES),
             (''session_lifetime_max_minutes'', PInt SESSION_LIFETIME_MAX_MINUTES)], a))"

definition update_auth_lockout ::
    "auth_lib \<Rightarrow> (handler_exn \<Rightarrow> ustr) \<Rightarrow> auth_io \<Rightarrow> request \<Rightarrow> int \<Rightarrow> int \<Rightarrow> auth \<Rightarrow> response \<times> auth" where
  "update_auth_lockout L etext io rq attempts cooldown a =
     (case require_admin L (io_wall io) rq (Some (au_jwt a)) of
        Inl r \<Rightarrow> (r, a)
      | Inr claims \<Rightarrow>
          if \<not> (1 \<le> attempts \<and> attempts \<le> 100) \<or> \<not> (1 \<le> cooldown \<and> cooldown \<le> 1440) then (unprocessable, a)
          else
            audited etext io (sc_subject claims) ''config.auth_lockout_update''
              [(''lockout_attempts'', PInt attempts), (''lockout_cooldown_minutes'', PInt cooldown)]
              (\<lambda>ctx a. case update_lockout_config io attempts cooldown a of
                 (Inl e, a1) \<Rightarrow> (Inl (Exn e), ctx, a1) | (Inr r, a1) \<Rightarrow> (Inr r, ctx, a1))
              (\<lambda>(n, c) _. Response 200 KeepCookie
                 [(''lockout_attempts'', PInt n), (''lockout_cooldown_minutes'', PInt c)]) a)"

definition update_session_lifetime_endpoint ::
    "auth_lib \<Rightarrow> (handler_exn \<Rightarrow> ustr) \<Rightarrow> auth_io \<Rightarrow> request \<Rightarrow> int \<Rightarrow> auth \<Rightarrow> response \<times> auth" where
  "update_session_lifetime_endpoint L etext io rq minutes a =
     (case require_admin L (io_wall io) rq (Some (au_jwt a)) of
        Inl r \<Rightarrow> (r, a)
      | Inr claims \<Rightarrow>
          if \<not> (SESSION_LIFETIME_MIN_MINUTES \<le> minutes \<and> minutes \<le> SESSION_LIFETIME_MAX_MINUTES)
          then (unprocessable, a)
          else
            audited etext io (sc_subject claims) ''config.auth_session_lifetime_update''
              [(''session_lifetime_minutes'', PInt minutes)]
              (\<lambda>ctx a. case update_session_lifetime io minutes a of
                 (Inl e, a1) \<Rightarrow> (Inl (Exn e), ctx, a1) | (Inr r, a1) \<Rightarrow> (Inr r, ctx, a1))
              (\<lambda>applied _. Response 200 KeepCookie [(''session_lifetime_minutes'', PInt applied)]) a)"

text \<open>The routing table of the two modules.\<close>

datatype endpoint =
    EpSetup ustr
  | EpLogin ustr ustr
  | EpLogout
  | EpChangePassword ustr ustr
  | EpLogoutAll
  | EpSetupViewer ustr
  | EpClearViewer
  | EpAuthSettings
  | EpAuthLockout int int
  | EpSessionLifetime int

fun serve :: "auth_lib \<Rightarrow> (handler_exn \<Rightarrow> ustr) \<Rightarrow> auth_io \<Rightarrow> request \<Rightarrow> endpoint \<Rightarrow> auth \<Rightarrow> response \<times> auth" where
  "serve L etext io rq (EpSetup p) a = setup_password L io rq p a"
| "serve L etext io rq (EpLogin u p) a = login_endpoint L io rq u p a"
| "serve L etext io rq EpLogout a = logout a"
| "serve L etext io rq (EpChangePassword c n) a = change_password_endpoint L etext io rq c n a"
| "serve L etext io rq EpLogoutAll a = logout_all L etext io rq a"
| "serve L etext io rq (EpSetupViewer p) a = setup_viewer_endpoint L etext io rq p a"
| "serve L etext io rq EpClearViewer a = clear_viewer_endpoint L etext io rq a"
| "serve L etext io rq EpAuthSettings a = get_auth_settings L io rq a"
| "serve L etext io rq (EpAuthLockout n c) a = update_auth_lockout L etext io rq n c a"
| "serve L etext io rq (EpSessionLifetime m) a = update_session_lifetime_endpoint L etext io rq m a"

type_synonym http_call = "auth_io \<times> request \<times> endpoint"

fun serve_all :: "auth_lib \<Rightarrow> (handler_exn \<Rightarrow> ustr) \<Rightarrow> http_call list \<Rightarrow> auth \<Rightarrow> response list \<times> auth" where
  "serve_all L etext [] a = ([], a)"
| "serve_all L etext ((io, rq, ep) # cs) a =
     (let (r, a1) = serve L etext io rq ep a; (rs, a2) = serve_all L etext cs a1 in (r # rs, a2))"

end
