(* ===== verification/Auth_Access.thy ===== *)
theory Auth_Access
  imports Auth_Routes
begin

text \<open>
  The properties of the authentication, over any sequence of requests.
\<close>

section \<open>What an endpoint does to the state\<close>

text \<open>The state a request leaves behind, the audit log aside: the guard of the endpoint, then the
  operation of the service.\<close>

definition admin_session :: "auth_lib \<Rightarrow> auth_io \<Rightarrow> request \<Rightarrow> auth \<Rightarrow> bool" where
  "admin_session L io rq a \<longleftrightarrow>
     (\<exists>c. verify L (io_wall io) (extract_token rq) (au_jwt a) = Some c \<and> sc_role c = ROLE_ADMIN)"

definition session_of :: "auth_lib \<Rightarrow> auth_io \<Rightarrow> request \<Rightarrow> auth \<Rightarrow> session_claims option" where
  "session_of L io rq a = verify L (io_wall io) (extract_token rq) (au_jwt a)"

fun effect :: "auth_lib \<Rightarrow> auth_io \<Rightarrow> request \<Rightarrow> endpoint \<Rightarrow> auth \<Rightarrow> auth" where
  "effect L io rq (EpSetup p) a = (if length_between 1 512 p then snd (complete_setup L io p a) else a)"
| "effect L io rq (EpLogin u p) a =
     (if length_between 1 64 u \<and> length_between 1 512 p then snd (login L io u p a) else a)"
| "effect L io rq EpLogout a = a"
| "effect L io rq (EpChangePassword c n) a =
     (case session_of L io rq a of
        None \<Rightarrow> a
      | Some s \<Rightarrow> if length_between 1 512 c \<and> length_between 1 512 n
                  then snd (change_password L io (sc_subject s) c n a) else a)"
| "effect L io rq EpLogoutAll a = (if admin_session L io rq a then snd (logout_all_sessions io a) else a)"
| "effect L io rq (EpSetupViewer p) a =
     (if admin_session L io rq a \<and> length_between 1 512 p then snd (setup_viewer L io p a) else a)"
| "effect L io rq EpClearViewer a = (if admin_session L io rq a then snd (clear_viewer io a) else a)"
| "effect L io rq EpAuthSettings a = a"
| "effect L io rq (EpAuthLockout n c) a =
     (if admin_session L io rq a \<and> 1 \<le> n \<and> n \<le> 100 \<and> 1 \<le> c \<and> c \<le> 1440
      then snd (update_lockout_config io n c a) else a)"
| "effect L io rq (EpSessionLifetime m) a =
     (if admin_session L io rq a \<and> SESSION_LIFETIME_MIN_MINUTES \<le> m \<and> m \<le> SESSION_LIFETIME_MAX_MINUTES
      then snd (update_session_lifetime io m a) else a)"

lemma verify_empty [simp]: "verify L now [] js = None"
  by (simp add: verify_def)

lemma require_auth_iff:
  "require_auth L (io_wall io) rq (Some (au_jwt a)) =
     (case session_of L io rq a of None \<Rightarrow> Inl unauthorized | Some c \<Rightarrow> Inr c)"
  by (auto simp: require_auth_def claims_or_none_def session_of_def)

lemma require_admin_cases:
  obtains (admin) c where "require_admin L (io_wall io) rq (Some (au_jwt a)) = Inr c"
      "session_of L io rq a = Some c" "sc_role c = ROLE_ADMIN" "admin_session L io rq a"
    | (refused) r where "require_admin L (io_wall io) rq (Some (au_jwt a)) = Inl r"
      "r = unauthorized \<or> r = forbidden" "\<not> admin_session L io rq a"
proof (cases "session_of L io rq a")
  case None
  then have "require_admin L (io_wall io) rq (Some (au_jwt a)) = Inl unauthorized" "\<not> admin_session L io rq a"
    by (simp_all add: require_admin_def require_auth_iff admin_session_def session_of_def)
  then show ?thesis using refused by blast
next
  case (Some c)
  show ?thesis
  proof (cases "sc_role c = ROLE_ADMIN")
    case True
    then show ?thesis
      using Some admin by (simp add: require_admin_def require_auth_iff admin_session_def session_of_def)
  next
    case False
    then have "require_admin L (io_wall io) rq (Some (au_jwt a)) = Inl forbidden" "\<not> admin_session L io rq a"
      using Some by (simp_all add: require_admin_def require_auth_iff admin_session_def session_of_def)
    then show ?thesis using refused by blast
  qed
qed

lemma audited_state:
  assumes "body \<lparr>tc_params = params, tc_error = None, tc_result = None\<rparr> a = (out, ctx, a1)"
  shows "\<exists>lg. snd (audited etext io user action params body answer a) = a1\<lparr>au_audit := lg\<rparr>"
  using assms
  by (auto simp: audited_def timed_action_def Let_def split: prod.splits sum.splits option.splits)

lemma audited_state':
  assumes "snd (snd (body \<lparr>tc_params = params, tc_error = None, tc_result = None\<rparr> a)) = a1"
  shows "\<exists>lg. snd (audited etext io user action params body answer a) = a1\<lparr>au_audit := lg\<rparr>"
  using audited_state assms by (metis prod.collapse)

text \<open>The audit log of a state; every endpoint changes the state by its effect and the log.\<close>

lemma au_audit_id: "\<exists>lg. a = a\<lparr>au_audit := lg\<rparr>"
  by (rule exI [of _ "au_audit a"]) simp

lemma serve_effect: "\<exists>lg. snd (serve L etext io rq ep a) = (effect L io rq ep a)\<lparr>au_audit := lg\<rparr>"
proof (cases ep)
  case (EpSetup p)
  have "snd (serve L etext io rq ep a) = effect L io rq ep a"
    using EpSetup by (auto simp: setup_password_def split: prod.splits sum.splits setup_result.splits)
  then show ?thesis using au_audit_id by metis
next
  case (EpLogin u p)
  have "snd (serve L etext io rq ep a) = effect L io rq ep a"
    using EpLogin by (auto simp: login_endpoint_def split: prod.splits sum.splits login_result.splits)
  then show ?thesis using au_audit_id by metis
next
  case EpLogout
  then show ?thesis using au_audit_id by (simp add: logout_def)
next
  case (EpChangePassword c n)
  show ?thesis
  proof (cases "session_of L io rq a")
    case None
    then show ?thesis using EpChangePassword au_audit_id by (simp add: change_password_endpoint_def require_auth_iff)
  next
    case (Some s)
    then show ?thesis
      using EpChangePassword au_audit_id
      by (auto simp: serve.simps change_password_endpoint_def require_auth_iff intro!: audited_state'
          split: prod.splits sum.splits change_result.splits)
  qed
next
  case EpLogoutAll
  show ?thesis
    by (rule require_admin_cases [of L io rq a]; use EpLogoutAll au_audit_id in
        \<open>auto simp: logout_all_def intro!: audited_state' split: prod.splits sum.splits\<close>)
next
  case (EpSetupViewer p)
  show ?thesis
    by (rule require_admin_cases [of L io rq a]; use EpSetupViewer au_audit_id in
        \<open>auto simp: setup_viewer_endpoint_def intro!: audited_state' split: prod.splits sum.splits viewer_result.splits\<close>)
next
  case EpClearViewer
  show ?thesis
    by (rule require_admin_cases [of L io rq a]; use EpClearViewer au_audit_id in
        \<open>auto simp: clear_viewer_endpoint_def intro!: audited_state' split: prod.splits sum.splits\<close>)
next
  case EpAuthSettings
  then show ?thesis using au_audit_id by (auto simp: get_auth_settings_def Let_def split: sum.splits)
next
  case (EpAuthLockout n c)
  show ?thesis
    by (rule require_admin_cases [of L io rq a]; use EpAuthLockout au_audit_id in
        \<open>auto simp: update_auth_lockout_def intro!: audited_state' split: prod.splits sum.splits\<close>)
next
  case (EpSessionLifetime m)
  show ?thesis
    by (rule require_admin_cases [of L io rq a]; use EpSessionLifetime au_audit_id in
        \<open>auto simp: update_session_lifetime_endpoint_def intro!: audited_state' split: prod.splits sum.splits\<close>)
qed

lemma serve_fields:
  "au_config (snd (serve L etext io rq ep a)) = au_config (effect L io rq ep a)"
  "au_lockout (snd (serve L etext io rq ep a)) = au_lockout (effect L io rq ep a)"
  "au_jwt (snd (serve L etext io rq ep a)) = au_jwt (effect L io rq ep a)"
  "au_disk (snd (serve L etext io rq ep a)) = au_disk (effect L io rq ep a)"
  using serve_effect [of L etext io rq ep a] by auto

declare serve.simps [simp del]


lemmas service_defs = complete_setup_def login_def change_password_def logout_all_sessions_def
  update_lockout_config_def update_session_lifetime_def setup_viewer_def clear_viewer_def
  persist_def then_do_def Let_def rotate_secret_def set_expiry_minutes_def bump_session_version_def


section \<open>Revocation\<close>

text \<open>Setup and logins leave the session service alone.\<close>

lemma setup_jwt: "au_jwt (snd (complete_setup L io p a)) = au_jwt a"
  by (auto simp: service_defs split: option.splits sum.splits)

lemma login_jwt: "au_jwt (snd (login L io u p a)) = au_jwt a"
  by (auto simp: service_defs split: option.splits sum.splits prod.splits)

lemma setup_viewer_jwt: "au_jwt (snd (setup_viewer L io p a)) = au_jwt a"
  by (auto simp: service_defs split: option.splits sum.splits)

lemma clear_viewer_jwt: "au_jwt (snd (clear_viewer io a)) = au_jwt a"
  by (auto simp: service_defs)

lemma lockout_config_jwt: "au_jwt (snd (update_lockout_config io n c a)) = au_jwt a"
  by (auto simp: service_defs split: sum.splits)

lemma lifetime_jwt:
  "js_secret (au_jwt (snd (update_session_lifetime io m a))) = js_secret (au_jwt a)"
  "js_session_version (au_jwt (snd (update_session_lifetime io m a))) = js_session_version (au_jwt a)"
  by (auto simp: service_defs split: sum.splits)

lemma logout_all_jwt:
  "js_secret (au_jwt (snd (logout_all_sessions io a))) = js_secret (au_jwt a)"
  "js_session_version (au_jwt (snd (logout_all_sessions io a))) = js_session_version (au_jwt a) + 1"
  by (auto simp: service_defs)

lemma change_password_jwt:
  "js_secret (au_jwt (snd (change_password L io u c n a))) \<in> {js_secret (au_jwt a), io_secret io}"
  "js_session_version (au_jwt (snd (change_password L io u c n a))) = js_session_version (au_jwt a)"
  "change_password L io u c n a = (Inr (ChangePasswordSuccess t r), a1) \<Longrightarrow> js_secret (au_jwt a1) = io_secret io"
  by (auto simp: service_defs split: option.splits sum.splits if_splits)

lemmas jwt_frames = setup_jwt login_jwt setup_viewer_jwt clear_viewer_jwt lockout_config_jwt
  lifetime_jwt logout_all_jwt change_password_jwt(2)

lemma serve_jwt:
  "js_secret (au_jwt (snd (serve L etext io rq ep a))) \<in> {js_secret (au_jwt a), io_secret io}"
  "js_session_version (au_jwt a) \<le> js_session_version (au_jwt (snd (serve L etext io rq ep a)))"
proof -
  show "js_secret (au_jwt (snd (serve L etext io rq ep a))) \<in> {js_secret (au_jwt a), io_secret io}"
  proof (cases ep)
    case (EpChangePassword c n)
    then show ?thesis
      using change_password_jwt(1) by (simp only: serve_fields effect.simps split: option.split if_split) blast
  qed (simp_all add: serve_fields jwt_frames)
  show "js_session_version (au_jwt a) \<le> js_session_version (au_jwt (snd (serve L etext io rq ep a)))"
    by (cases ep) (simp_all add: serve_fields jwt_frames split: option.split)
qed

definition secrets_drawn :: "http_call list \<Rightarrow> ustr list" where
  "secrets_drawn cs = map (\<lambda>(io, rq, ep). io_secret io) cs"

lemma snd_serve_all_Cons:
  "snd (serve_all L etext ((io, rq, ep) # cs) a) = snd (serve_all L etext cs (snd (serve L etext io rq ep a)))"
  by (simp split: prod.splits)

declare serve_all.simps(2) [simp del]

lemma serve_all_jwt:
  "js_secret (au_jwt (snd (serve_all L etext cs a))) \<in> insert (js_secret (au_jwt a)) (set (secrets_drawn cs))"
  "js_session_version (au_jwt a) \<le> js_session_version (au_jwt (snd (serve_all L etext cs a)))"
proof (induction cs arbitrary: a)
  case Nil
  { case 1 then show ?case by simp next case 2 then show ?case by simp }
next
  case (Cons x cs)
  obtain io rq ep where x: "x = (io, rq, ep)" by (cases x)
  note st = snd_serve_all_Cons
  {
    case (1 a)
    show ?case using Cons(1) [of "snd (serve L etext io rq ep a)"] serve_jwt(1) [of L etext io rq ep a]
      by (auto simp: x st secrets_drawn_def)
  next
    case (2 a)
    show ?case using Cons(2) [of "snd (serve L etext io rq ep a)"] serve_jwt(2) [of a L etext io rq ep] by (simp add: x st)
  }
qed

text \<open>The law of a signed token: it verifies under one secret at most, with one payload.\<close>

definition one_secret :: "auth_lib \<Rightarrow> bool" where
  "one_secret L \<longleftrightarrow>
     (\<forall>t now s p now' s' p'. al_decode L now t s = Some p \<longrightarrow> al_decode L now' t s' = Some p' \<longrightarrow> s = s' \<and> p = p')"

lemma verify_Some:
  assumes "verify L now t js = Some c"
  obtains p where "al_decode L now t (js_secret js) = Some p" "jwt_int (dget ''sv'' p) = Some (js_session_version js)"
    "dget ''sub'' p = PStr (sc_subject c)" "dget ''role'' p = PStr (sc_role c)"
    "sc_role c \<in> {ROLE_ADMIN, ROLE_VIEWER}" "sc_subject c \<noteq> []" "sc_session_version c = js_session_version js"
  using assms
  by (auto simp: verify_def split: if_splits option.splits pyval.splits)

lemma dead_token:
  assumes "one_secret L" "verify L now t js = Some c"
    and "js_secret js' \<noteq> js_secret js \<or> js_session_version js' \<noteq> js_session_version js"
  shows "verify L now' t js' = None"
proof (rule ccontr)
  assume "verify L now' t js' \<noteq> None"
  then obtain c' where "verify L now' t js' = Some c'" by auto
  then obtain p' where p': "al_decode L now' t (js_secret js') = Some p'"
      "jwt_int (dget ''sv'' p') = Some (js_session_version js')"
    by (rule verify_Some)
  obtain p where p: "al_decode L now t (js_secret js) = Some p"
      "jwt_int (dget ''sv'' p) = Some (js_session_version js)"
    using assms(2) by (rule verify_Some)
  have "js_secret js = js_secret js' \<and> p = p'"
    using assms(1) p(1) p'(1) unfolding one_secret_def by blast
  then show False using p(2) p'(2) assms(3) by simp
qed

text \<open>The requests that revoke sessions, and that they were answered as done.\<close>

definition revoking :: "endpoint \<Rightarrow> response \<Rightarrow> bool" where
  "revoking ep r \<longleftrightarrow>
     (case ep of
        EpChangePassword _ _ \<Rightarrow> (case r of Response _ _ _ \<Rightarrow> True | _ \<Rightarrow> False)
      | EpLogoutAll \<Rightarrow> (case r of Response _ _ _ \<Rightarrow> True | _ \<Rightarrow> False)
      | _ \<Rightarrow> False)"

lemma audited_answer:
  assumes "body \<lparr>tc_params = params, tc_error = None, tc_result = None\<rparr> a = (out, ctx, a1)"
    and "audited etext io user action params body answer a = (Response st ck bd, a2)"
  shows "\<exists>v. out = Inr v"
  using assms
  by (auto simp: audited_def timed_action_def Let_def split: prod.splits sum.splits option.splits timed.splits handler_exn.splits)

lemma change_password_served:
  assumes "serve L etext io rq (EpChangePassword c n) a = (Response st ck bd, a1)"
  shows "js_secret (au_jwt a1) = io_secret io"
proof -
  obtain s where s: "session_of L io rq a = Some s" and len: "length_between 1 512 c" "length_between 1 512 n"
    using assms by (auto simp: serve.simps change_password_endpoint_def require_auth_iff unauthorized_def unprocessable_def
        split: option.splits if_splits)
  obtain out a2 where cp: "change_password L io (sc_subject s) c n a = (out, a2)" by fastforce
  have a1: "au_jwt a1 = au_jwt a2"
    using serve_fields(3) [of L etext io rq "EpChangePassword c n" a] assms s len cp by simp
  show ?thesis
  proof (cases out)
    case (Inl e)
    then show ?thesis
      using assms s len cp audited_answer
      by (fastforce simp: serve.simps change_password_endpoint_def require_auth_iff dest!: audited_answer [rotated])
  next
    case (Inr r)
    then show ?thesis
    proof (cases r)
      case (ChangePasswordSuccess t ro)
      then show ?thesis using change_password_jwt(3) cp Inr a1 by metis
    next
      case (ChangePasswordFailure reason)
      then show ?thesis
        using assms s len cp Inr
        by (fastforce simp: serve.simps change_password_endpoint_def require_auth_iff dest!: audited_answer [rotated])
    qed
  qed
qed

lemma logout_all_served:
  assumes "serve L etext io rq EpLogoutAll a = (Response st ck bd, a1)"
  shows "js_session_version (au_jwt a1) = js_session_version (au_jwt a) + 1"
proof (rule require_admin_cases [of L io rq a])
  fix r
  assume "require_admin L (io_wall io) rq (Some (au_jwt a)) = Inl r" "r = unauthorized \<or> r = forbidden"
  then show ?thesis using assms by (auto simp: serve.simps logout_all_def unauthorized_def forbidden_def)
next
  assume "admin_session L io rq a"
  then show ?thesis
    using serve_fields(3) [of L etext io rq EpLogoutAll a] assms by (simp add: logout_all_jwt)
qed

text \<open>C13: Signing out everywhere and changing a password revoke every session there is, for good.
  A token the service accepts is refused from the answer of the revoking request on, whatever
  requests follow, later password changes and further revocations included, and whatever the
  clock says. The secrets are drawn at random: none drawn from then on is the current one; and a
  signed token verifies under one secret only.\<close>

theorem revoked_for_good:
  assumes "one_secret L"
    and "verify L now t (au_jwt a) = Some c"
    and "js_secret (au_jwt a) \<notin> set (secrets_drawn ((io, rq, ep) # cs))"
    and "serve L etext io rq ep a = (r, a1)" and "revoking ep r"
  shows "verify L now' t (au_jwt (snd (serve_all L etext cs a1))) = None"
proof (rule dead_token [OF assms(1,2)])
  let ?js = "au_jwt (snd (serve_all L etext cs a1))"
  have "js_secret (au_jwt a1) \<noteq> js_secret (au_jwt a) \<or> js_session_version (au_jwt a) < js_session_version (au_jwt a1)"
    using assms(3,4,5) change_password_served [of L etext io rq] logout_all_served [of L etext io rq a]
    by (fastforce simp: revoking_def secrets_drawn_def split: endpoint.splits response.splits)
  moreover have "js_secret ?js \<in> insert (js_secret (au_jwt a1)) (set (secrets_drawn cs))"
    and "js_session_version (au_jwt a1) \<le> js_session_version ?js"
    by (rule serve_all_jwt)+
  moreover have "js_secret (au_jwt a) \<notin> set (secrets_drawn cs)"
    using assms(3) by (simp add: secrets_drawn_def)
  ultimately show "js_secret ?js \<noteq> js_secret (au_jwt a) \<or>
      js_session_version ?js \<noteq> js_session_version (au_jwt a)"
    by auto
qed


section \<open>Who may change what\<close>

lemma login_config:
  "au_config (snd (login L io u p a)) = au_config a" "au_disk (snd (login L io u p a)) = au_disk a"
  by (auto simp: service_defs split: option.splits sum.splits prod.splits)

lemma setup_refused: "is_setup_complete a \<Longrightarrow> complete_setup L io p a = (Inr (SetupRejected ''already_set''), a)"
  by (simp add: complete_setup_def)

lemma change_password_changes:
  assumes "snd (change_password L io u cur new a) \<noteq> a"
  obtains h where "hash_for (normalize_user L u) (au_config a) = Some h" "hasher_verify L cur h"
    "normalize_user L u \<in> {lit ''admin'', lit ''viewer''}"
  using assms by (auto simp: change_password_def Let_def split: if_splits option.splits)

lemma change_password_own_hash:
  "normalize_user L u = lit ''admin'' \<Longrightarrow>
     wa_viewer_password_hash (au_config (snd (change_password L io u cur new a))) = wa_viewer_password_hash (au_config a)"
  "normalize_user L u \<noteq> lit ''admin'' \<Longrightarrow>
     wa_admin_password_hash (au_config (snd (change_password L io u cur new a))) = wa_admin_password_hash (au_config a)"
  by (auto simp: service_defs split: option.splits sum.splits)

text \<open>What justifies a request that changes the accounts, the secret, the session version or the
  policy: nothing has been set up yet, an administrator's session, or the session of an account
  with its current password, which touches the hash of that account only.\<close>

definition justified :: "auth_lib \<Rightarrow> auth_io \<Rightarrow> request \<Rightarrow> endpoint \<Rightarrow> auth \<Rightarrow> auth \<Rightarrow> bool" where
  "justified L io rq ep a a' \<longleftrightarrow>
     (case ep of
        EpSetup p \<Rightarrow> \<not> is_setup_complete a
      | EpChangePassword cur new \<Rightarrow>
          (case session_of L io rq a of
             None \<Rightarrow> False
           | Some c \<Rightarrow>
               let user = normalize_user L (sc_subject c) in
               (case hash_for user (au_config a) of None \<Rightarrow> False | Some h \<Rightarrow> hasher_verify L cur h) \<and>
               (if user = lit ''admin''
                then wa_viewer_password_hash (au_config a') = wa_viewer_password_hash (au_config a)
                else wa_admin_password_hash (au_config a') = wa_admin_password_hash (au_config a)))
      | EpLogin _ _ \<Rightarrow> False | EpLogout \<Rightarrow> False | EpAuthSettings \<Rightarrow> False
      | _ \<Rightarrow> admin_session L io rq a)"

text \<open>C12: Access control. Whatever endpoint a request names and whatever token it carries, the
  configuration, the session service and the file change only if the request is justified: the
  first setup, an administrator's valid session, or the owner of an account who also gives its
  current password, and then the hash of the other account stays.\<close>

theorem changes_are_justified:
  "let (r, a') = serve L etext io rq ep a in
   (au_config a' = au_config a \<and> au_jwt a' = au_jwt a \<and> au_disk a' = au_disk a) \<or> justified L io rq ep a a'"
proof -
  obtain r a' where sv: "serve L etext io rq ep a = (r, a')" by (cases "serve L etext io rq ep a")
  have f: "au_config a' = au_config (effect L io rq ep a)" "au_jwt a' = au_jwt (effect L io rq ep a)"
      "au_disk a' = au_disk (effect L io rq ep a)"
    using serve_fields [of L etext io rq ep a] sv by simp_all
  have "(au_config a' = au_config a \<and> au_jwt a' = au_jwt a \<and> au_disk a' = au_disk a) \<or> justified L io rq ep a a'"
  proof (cases ep)
    case (EpChangePassword cur new)
    show ?thesis
    proof (cases "effect L io rq ep a = a")
      case False
      then obtain c where c: "session_of L io rq a = Some c"
          and eff: "effect L io rq ep a = snd (change_password L io (sc_subject c) cur new a)"
        using EpChangePassword by (auto split: option.splits if_splits)
      obtain h where "hash_for (normalize_user L (sc_subject c)) (au_config a) = Some h" "hasher_verify L cur h"
        using change_password_changes False eff by metis
      then show ?thesis
        using EpChangePassword c eff f(1) change_password_own_hash
        by (simp add: justified_def Let_def)
    qed (use f in simp)
  qed (use f in \<open>auto simp: justified_def setup_refused login_jwt login_config\<close>)
  then show ?thesis by (simp add: sv)
qed


section \<open>Throttling\<close>

definition note_login :: "auth_lib \<Rightarrow> http_call \<Rightarrow> response \<Rightarrow> (ustr \<Rightarrow> rat list) \<Rightarrow> ustr \<Rightarrow> rat list" where
  "note_login L call r hist =
     (case call of (io, rq, ep) \<Rightarrow>
        (case ep of
           EpLogin u p \<Rightarrow>
             let k = normalize_user L u in
             (case r of
                HttpError st d hs \<Rightarrow> if st = 401 then hist(k := hist k @ [io_failure_time io]) else hist
              | Response st ck bd \<Rightarrow> hist(k := [])
              | ServerError \<Rightarrow> hist)
         | _ \<Rightarrow> hist))"

fun wrong_passwords :: "auth_lib \<Rightarrow> (http_call \<times> response) list \<Rightarrow> (ustr \<Rightarrow> rat list) \<Rightarrow> ustr \<Rightarrow> rat list" where
  "wrong_passwords L [] hist = hist"
| "wrong_passwords L ((call, r) # tr) hist = wrong_passwords L tr (note_login L call r hist)"

fun clock_ok :: "rat \<Rightarrow> http_call list \<Rightarrow> bool" where
  "clock_ok now [] = True"
| "clock_ok now ((io, rq, ep) # cs) =
     (now \<le> io_check_time io \<and> io_check_time io \<le> io_failure_time io \<and> clock_ok (io_failure_time io) cs)"

definition lockout_bounds :: "int \<Rightarrow> rat \<Rightarrow> http_call \<Rightarrow> bool" where
  "lockout_bounds M C call =
     (case call of (io, rq, EpAuthLockout n c) \<Rightarrow> n \<le> M \<and> C \<le> of_int (c * 60) | _ \<Rightarrow> True)"

lemma issue_ok:
  "hash_for k c = Some h \<Longrightarrow> issue L now k (role_of k) js \<noteq> Inl e"
  by (auto simp: hash_for_def issue_def role_of_def lit_def split: if_splits)

text \<open>The outcome of a login by cases.\<close>

lemma login_cases:
  assumes "login L io u p a = (out, a1)"
  obtains (incomplete) "out = Inr (LoginFailure ''setup_required'' None)" "a1 = a" "\<not> is_setup_complete a"
    | (locked) s l1 where "remaining_seconds (normalize_user L u) (io_check_time io) (au_lockout a) = (Some s, l1)"
        "out = Inr (LoginFailure ''locked_out'' (Some s))" "au_lockout a1 = l1"
    | (failed) l1 tr l2 where "remaining_seconds (normalize_user L u) (io_check_time io) (au_lockout a) = (None, l1)"
        "register_failure (normalize_user L u) (io_failure_time io) l1 = (tr, l2)"
        "out = Inr (LoginFailure ''invalid_credentials'' tr)" "au_lockout a1 = l2"
    | (success) l1 h t where "remaining_seconds (normalize_user L u) (io_check_time io) (au_lockout a) = (None, l1)"
        "hash_for (normalize_user L u) (au_config a) = Some h" "hasher_verify L p h"
        "out = Inr (LoginSuccess t (role_of (normalize_user L u)))"
        "issue L (io_wall io) (normalize_user L u) (role_of (normalize_user L u)) (au_jwt a) = Inr t"
        "au_lockout a1 = register_success (normalize_user L u) l1"
proof (cases "is_setup_complete a")
  case False
  then show ?thesis using incomplete assms by (simp add: login_def)
next
  case True
  obtain cd l1 where rem: "remaining_seconds (normalize_user L u) (io_check_time io) (au_lockout a) = (cd, l1)"
    by fastforce
  show ?thesis
  proof (cases cd)
    case (Some s)
    then show ?thesis using assms True rem locked by (auto simp: login_def)
  next
    case None
    note rem = rem [unfolded None]
    show ?thesis
    proof (cases "case hash_for (normalize_user L u) (au_config a) of None \<Rightarrow> True | Some h \<Rightarrow> \<not> hasher_verify L p h")
      case wrong: True
      obtain tr l2 where "register_failure (normalize_user L u) (io_failure_time io) l1 = (tr, l2)" by fastforce
      then show ?thesis using assms True rem wrong by (intro failed) (auto simp: login_def)
    next
      case right: False
      then obtain h where h: "hash_for (normalize_user L u) (au_config a) = Some h" "hasher_verify L p h"
        by (auto split: option.splits)
      obtain t where t: "issue L (io_wall io) (normalize_user L u) (role_of (normalize_user L u)) (au_jwt a) = Inr t"
        using issue_ok [OF h(1)] by (metis obj_sumE)
      show ?thesis
        using assms True rem h t by (intro success) (auto simp: login_def Let_def then_do_def)
    qed
  qed
qed

lemma other_lockout:
  "au_lockout (snd (complete_setup L io p a)) = au_lockout a"
  "au_lockout (snd (change_password L io u c n a)) = au_lockout a"
  "au_lockout (snd (logout_all_sessions io a)) = au_lockout a"
  "au_lockout (snd (setup_viewer L io p a)) = au_lockout a"
  "au_lockout (snd (clear_viewer io a)) = au_lockout a"
  "au_lockout (snd (update_session_lifetime io m a)) = au_lockout a"
  by (auto simp: service_defs split: option.splits sum.splits)

lemma lockout_update_reach:
  assumes "lockout_reach M C (au_lockout a) now hist" "n \<le> M" "C \<le> of_int (c * 60)"
  shows "lockout_reach M C (au_lockout (snd (update_lockout_config io n c a))) now hist"
  using assms lo_reconfigured [OF assms(1) _ assms(2,3)]
  by (auto simp: service_defs split: sum.splits)

lemma login_reach:
  assumes r: "lockout_reach M C (au_lockout a) now hist" and t: "now \<le> io_check_time io" "io_check_time io \<le> io_failure_time io"
    and sv: "serve L etext io rq (EpLogin u p) a = (resp, a1)"
  shows "\<exists>now1 \<le> io_failure_time io. lockout_reach M C (au_lockout a1) now1 (note_login L (io, rq, EpLogin u p) resp hist)"
proof (cases "length_between 1 64 u \<and> length_between 1 512 p")
  case False
  then have "resp = unprocessable" "a1 = a" using sv by (auto simp: serve.simps login_endpoint_def)
  then show ?thesis
    using r t by (auto simp: note_login_def unprocessable_def Let_def intro!: exI [of _ now])
next
  case True
  obtain out a2 where lg: "login L io u p a = (out, a2)" by fastforce
  from lg show ?thesis
  proof (cases rule: login_cases)
    case incomplete
    then have "resp = HttpError 409 ''setup_required'' []" "a1 = a"
      using sv True lg by (auto simp: serve.simps login_endpoint_def reject_login_def)
    then show ?thesis using r t by (auto simp: note_login_def Let_def intro!: exI [of _ now])
  next
    case (locked s l1)
    then have "resp = HttpError 429 ''locked_out'' [(''Retry-After'', fmt_d s)]" "a1 = a2"
      using sv True lg by (auto simp: serve.simps login_endpoint_def reject_login_def)
    then show ?thesis
      using lo_refused [OF r t(1) locked(1)] locked(3) t
      by (auto simp: note_login_def Let_def intro!: exI [of _ "io_check_time io"])
  next
    case (failed l1 tr l2)
    then have "resp = HttpError 401 ''invalid_credentials'' []" "a1 = a2"
      using sv True lg by (auto simp: serve.simps login_endpoint_def reject_login_def)
    then show ?thesis
      using lo_failed [OF r t failed(1,2)] failed(4)
      by (auto simp: note_login_def Let_def intro!: exI [of _ "io_failure_time io"])
  next
    case (success l1 h tk)
    then have "\<exists>ck bd. resp = Response 200 ck bd" "a1 = a2"
      using sv True lg by (auto simp: serve.simps login_endpoint_def)
    then show ?thesis
      using lo_succeeded [OF r t(1) success(1)] success(6) t
      by (auto simp: note_login_def Let_def intro!: exI [of _ "io_check_time io"])
  qed
qed

lemma serve_reach:
  assumes r: "lockout_reach M C (au_lockout a) now hist" and t: "now \<le> io_check_time io" "io_check_time io \<le> io_failure_time io"
    and b: "lockout_bounds M C (io, rq, ep)" and sv: "serve L etext io rq ep a = (resp, a1)"
  shows "\<exists>now1 \<le> io_failure_time io. lockout_reach M C (au_lockout a1) now1 (note_login L (io, rq, ep) resp hist)"
proof (cases ep)
  case (EpLogin u p)
  then show ?thesis using login_reach r t sv by blast
next
  case (EpAuthLockout n c)
  have "lockout_reach M C (au_lockout a1) now hist"
    using serve_fields(2) [of L etext io rq ep a] sv EpAuthLockout b r lockout_update_reach
    by (auto simp: lockout_bounds_def)
  then show ?thesis using t EpAuthLockout by (auto simp: note_login_def intro!: exI [of _ now])
qed (use serve_fields(2) [of L etext io rq ep a] sv r t in
    \<open>auto simp: note_login_def other_lockout split: option.splits if_splits intro!: exI [of _ now]\<close>)

lemma serve_all_reach:
  assumes "lockout_reach M C (au_lockout a) now hist" "now \<le> t" "clock_ok t cs" "list_all (lockout_bounds M C) cs"
  shows "\<exists>now1 l. lockout_reach M C l now1 (wrong_passwords L (zip cs (fst (serve_all L etext cs a))) hist)"
  using assms
proof (induction cs arbitrary: a now t hist)
  case Nil
  then show ?case by auto
next
  case (Cons x cs)
  obtain io rq ep where x: "x = (io, rq, ep)" by (cases x)
  obtain r a1 where sv: "serve L etext io rq ep a = (r, a1)" by fastforce
  obtain now1 where "now1 \<le> io_failure_time io"
      "lockout_reach M C (au_lockout a1) now1 (note_login L (io, rq, ep) r hist)"
    using serve_reach [OF Cons.prems(1) _ _ _ sv] Cons.prems(2-4) unfolding x by auto
  moreover obtain rs a2 where "serve_all L etext cs a1 = (rs, a2)" by fastforce
  ultimately show ?case
    using Cons.IH [of a1 now1 _ "io_failure_time io"] Cons.prems(3,4) by (simp add: x serve_all.simps(2) sv)
qed

text \<open>C14: Password guessing at the login is throttled, over any sequence of requests of any number of clients.
  If the threshold never exceeds \<open>M\<close> attempts and the cooldown never falls below \<open>C\<close> seconds, then
  no window of \<open>C\<close> seconds contains more than \<open>M\<close> wrong passwords the login answered for one account since
  its last successful login, whatever other requests, reconfigurations included, come between. (A successful login
  starts the count again, and guesses made by changing a password are not counted.)\<close>

theorem guessing_is_throttled:
  assumes "build_auth_subsystem fresh disk lg = Some a"
    and "wa_lockout_attempts (au_config a) \<le> M" "C \<le> of_int (wa_lockout_cooldown_minutes (au_config a) * 60)"
    and "0 < C" "0 \<le> now" "clock_ok now cs" "list_all (lockout_bounds M C) cs" "account \<noteq> []"
  shows "int (in_window C x (wrong_passwords L (zip cs (fst (serve_all L etext cs a))) (\<lambda>_. []) account)) \<le> M"
proof -
  have "lockout_init (wa_lockout_attempts (au_config a)) (wa_lockout_cooldown_minutes (au_config a)) = Inr (au_lockout a)"
    using assms(1) by (auto simp: build_auth_subsystem_def Let_def split: option.splits sum.splits)
  then have "lockout_reach M C (au_lockout a) now (\<lambda>_. [])"
    using assms(2,3,5) by (rule lo_start)
  then show ?thesis
    using serve_all_reach [OF _ order_refl assms(6,7)] lockout_window_bound assms(4,8) by metis
qed

end
