(* ===== verification/Auth_Restart.thy ===== *)
theory Auth_Restart
  imports Auth_Access
begin

text \<open>
  What the configuration file remembers of the authentication.
\<close>

section \<open>Merging the file\<close>

text \<open>A configuration is the function from its field names to their values.\<close>

definition wa_field :: "web_auth \<Rightarrow> string \<Rightarrow> pyval option" where
  "wa_field c k =
     (if k = ''admin_password_hash'' then Some (PStr (wa_admin_password_hash c))
      else if k = ''viewer_password_hash'' then Some (PStr (wa_viewer_password_hash c))
      else if k = ''jwt_secret'' then Some (PStr (wa_jwt_secret c))
      else if k = ''jwt_expiry_minutes'' then Some (PInt (wa_jwt_expiry_minutes c))
      else if k = ''allow_read_only'' then Some (PBool (wa_allow_read_only c))
      else if k = ''lockout_attempts'' then Some (PInt (wa_lockout_attempts c))
      else if k = ''lockout_cooldown_minutes'' then Some (PInt (wa_lockout_cooldown_minutes c))
      else if k = ''session_version'' then Some (PInt (wa_session_version c))
      else None)"

lemma setattr_total: "web_auth_setattr k v c = Some c1 \<Longrightarrow> \<exists>d1. web_auth_setattr k v d = Some d1"
  by (cases v) (auto simp: web_auth_setattr_def split: if_splits)

lemma wa_field_known: "(wa_field c k = None) = (wa_field d k = None)"
  by (simp add: wa_field_def)

lemma wa_field_updates:
  "wa_field (c\<lparr>wa_admin_password_hash := x0\<rparr>) = (wa_field c)(''admin_password_hash'' \<mapsto> PStr x0)"
  "wa_field (c\<lparr>wa_viewer_password_hash := x1\<rparr>) = (wa_field c)(''viewer_password_hash'' \<mapsto> PStr x1)"
  "wa_field (c\<lparr>wa_jwt_secret := x2\<rparr>) = (wa_field c)(''jwt_secret'' \<mapsto> PStr x2)"
  "wa_field (c\<lparr>wa_jwt_expiry_minutes := x3\<rparr>) = (wa_field c)(''jwt_expiry_minutes'' \<mapsto> PInt x3)"
  "wa_field (c\<lparr>wa_allow_read_only := x4\<rparr>) = (wa_field c)(''allow_read_only'' \<mapsto> PBool x4)"
  "wa_field (c\<lparr>wa_lockout_attempts := x5\<rparr>) = (wa_field c)(''lockout_attempts'' \<mapsto> PInt x5)"
  "wa_field (c\<lparr>wa_lockout_cooldown_minutes := x6\<rparr>) = (wa_field c)(''lockout_cooldown_minutes'' \<mapsto> PInt x6)"
  "wa_field (c\<lparr>wa_session_version := x7\<rparr>) = (wa_field c)(''session_version'' \<mapsto> PInt x7)"
  by (simp_all add: wa_field_def fun_eq_iff)

lemma setattr_Some:
  "web_auth_setattr k v c = Some c1 \<Longrightarrow>
     (k = ''admin_password_hash'' \<and> (\<exists>x. v = PStr x \<and> c1 = c\<lparr>wa_admin_password_hash := x\<rparr>)) \<or>
     (k = ''viewer_password_hash'' \<and> (\<exists>x. v = PStr x \<and> c1 = c\<lparr>wa_viewer_password_hash := x\<rparr>)) \<or>
     (k = ''jwt_secret'' \<and> (\<exists>x. v = PStr x \<and> c1 = c\<lparr>wa_jwt_secret := x\<rparr>)) \<or>
     (k = ''jwt_expiry_minutes'' \<and> (\<exists>x. v = PInt x \<and> c1 = c\<lparr>wa_jwt_expiry_minutes := x\<rparr>)) \<or>
     (k = ''allow_read_only'' \<and> (\<exists>x. v = PBool x \<and> c1 = c\<lparr>wa_allow_read_only := x\<rparr>)) \<or>
     (k = ''lockout_attempts'' \<and> (\<exists>x. v = PInt x \<and> c1 = c\<lparr>wa_lockout_attempts := x\<rparr>)) \<or>
     (k = ''lockout_cooldown_minutes'' \<and> (\<exists>x. v = PInt x \<and> c1 = c\<lparr>wa_lockout_cooldown_minutes := x\<rparr>)) \<or>
     (k = ''session_version'' \<and> (\<exists>x. v = PInt x \<and> c1 = c\<lparr>wa_session_version := x\<rparr>)) \<or>
     (wa_field c k = None \<and> c1 = c)"
  unfolding web_auth_setattr_def wa_field_def
  by (cases v; simp split: if_splits)

lemma setattr_field:
  assumes "web_auth_setattr k v c = Some c1"
  shows "wa_field c1 k' = (if k' = k \<and> wa_field c k \<noteq> None then Some v else wa_field c k')"
  using setattr_Some [OF assms]
  by (elim disjE conjE exE) (simp_all add: wa_field_updates, simp_all add: wa_field_def)

lemma wa_field_inject:
  assumes "\<And>k. wa_field c k = wa_field d k"
  shows "c = d"
  using assms [of "''admin_password_hash''"] assms [of "''viewer_password_hash''"] assms [of "''jwt_secret''"]
    assms [of "''jwt_expiry_minutes''"] assms [of "''allow_read_only''"] assms [of "''lockout_attempts''"]
    assms [of "''lockout_cooldown_minutes''"] assms [of "''session_version''"]
  by (simp add: wa_field_def)

lemma setattr_commute:
  assumes "k \<noteq> k'" "web_auth_setattr k v c = Some c1" "web_auth_setattr k' v' c1 = Some c2"
  obtains d where "web_auth_setattr k' v' c = Some d" "web_auth_setattr k v d = Some c2"
proof -
  obtain d where d: "web_auth_setattr k' v' c = Some d" using setattr_total assms(3) by blast
  obtain e where e: "web_auth_setattr k v d = Some e" using setattr_total assms(2) by blast
  have "wa_field e x = wa_field c2 x" for x
    using setattr_field [OF d, of x] setattr_field [OF e, of x] setattr_field [OF assms(2), of x]
      setattr_field [OF assms(3), of x] wa_field_known [of c k d] wa_field_known [of c k' c1] assms(1)
    by auto
  then have "e = c2" by (rule wa_field_inject)
  then show ?thesis using that d e by simp
qed

lemma setattr_overwrite:
  assumes "web_auth_setattr k v c = Some c1" "web_auth_setattr k v' c1 = Some c2"
  shows "web_auth_setattr k v' c = Some c2"
proof -
  obtain d where d: "web_auth_setattr k v' c = Some d" using setattr_total assms(2) by blast
  have "wa_field d x = wa_field c2 x" for x
    using setattr_field [OF d, of x] setattr_field [OF assms(1), of x] setattr_field [OF assms(2), of x]
      wa_field_known [of c k c1] by auto
  then have "d = c2" by (rule wa_field_inject)
  then show ?thesis using d by simp
qed

lemma merge_setattr_commute:
  assumes "k \<notin> fst ` set d" "merge_web_auth d c = Some c1" "web_auth_setattr k v c1 = Some c2"
  shows "\<exists>e. web_auth_setattr k v c = Some e \<and> merge_web_auth d e = Some c2"
  using assms
proof (induction d arbitrary: c)
  case Nil
  then show ?case by simp
next
  case (Cons x d)
  obtain k' v' where x: "x = (k', v')" by (cases x)
  obtain c' where c': "web_auth_setattr k' v' c = Some c'" "merge_web_auth d c' = Some c1"
    using Cons.prems(2) by (auto simp: x split: option.splits)
  obtain e where e: "web_auth_setattr k v c' = Some e" "merge_web_auth d e = Some c2"
    using Cons.IH [OF _ c'(2) Cons.prems(3)] Cons.prems(1) by auto
  obtain f where "web_auth_setattr k v c = Some f" "web_auth_setattr k' v' f = Some e"
    using setattr_commute [OF _ c'(1) e(1)] Cons.prems(1) x by auto
  then show ?case using e(2) by (simp add: x)
qed

lemma merge_update:
  assumes "distinct (map fst d)" "merge_web_auth d c = Some c1" "web_auth_setattr k v c1 = Some c2"
  shows "merge_web_auth (AList.update k v d) c = Some c2"
  using assms
proof (induction d arbitrary: c)
  case Nil
  then show ?case by simp
next
  case (Cons x d)
  obtain k' v' where x: "x = (k', v')" by (cases x)
  obtain c' where c': "web_auth_setattr k' v' c = Some c'" "merge_web_auth d c' = Some c1"
    using Cons.prems(2) by (auto simp: x split: option.splits)
  show ?case
  proof (cases "k = k'")
    case True
    then obtain e where e: "web_auth_setattr k v c' = Some e" "merge_web_auth d e = Some c2"
      using merge_setattr_commute [OF _ c'(2) Cons.prems(3)] Cons.prems(1) x by auto
    have "web_auth_setattr k v c = Some e" using setattr_overwrite c'(1) e(1) True by blast
    then show ?thesis using e True by (simp add: x)
  next
    case False
    then show ?thesis using Cons.IH [OF _ c'(2) Cons.prems(3)] Cons.prems(1) c'(1) by (simp add: x)
  qed
qed

lemma merge_dict_update:
  assumes "distinct (map fst d)" "merge_web_auth d c = Some c1" "merge_web_auth vals c1 = Some c2"
  shows "merge_web_auth (dict_update d vals) c = Some c2 \<and> distinct (map fst (dict_update d vals))"
  using assms unfolding dict_update_def
proof (induction vals arbitrary: d c1)
  case Nil
  then show ?case by simp
next
  case (Cons x vals)
  obtain k v where x: "x = (k, v)" by (cases x)
  obtain c' where c': "web_auth_setattr k v c1 = Some c'" "merge_web_auth vals c' = Some c2"
    using Cons.prems(3) by (auto simp: x split: option.splits)
  show ?case
    using Cons.IH [OF _ merge_update [OF Cons.prems(1,2) c'(1)] c'(2)] Cons.prems(1)
    by (simp add: x distinct_update)
qed


section \<open>Memory and file\<close>

text \<open>The file agrees with the configuration in memory, but for a secret that was made up at
  start-up and not written yet; services and configuration agree.\<close>

definition in_step :: "web_auth \<Rightarrow> auth \<Rightarrow> bool" where
  "in_step c0 a \<longleftrightarrow>
     c0 = au_config a \<or>
     (\<not> is_setup_complete a \<and> wa_jwt_secret c0 = [] \<and> c0 = (au_config a)\<lparr>wa_jwt_secret := []\<rparr>)"

definition services_ok :: "auth \<Rightarrow> bool" where
  "services_ok a \<longleftrightarrow>
     jwt_init (wa_jwt_secret (au_config a)) (wa_jwt_expiry_minutes (au_config a)) (wa_session_version (au_config a))
       = Inr (au_jwt a) \<and>
     lockout_init (wa_lockout_attempts (au_config a)) (wa_lockout_cooldown_minutes (au_config a)) =
       Inr ((au_lockout a)\<lparr>lo_states := Map.empty\<rparr>)"

definition file_ok :: "auth \<Rightarrow> bool" where
  "file_ok a \<longleftrightarrow> distinct (map fst (au_disk a)) \<and> services_ok a \<and>
     (\<exists>c0. merge_web_auth (au_disk a) shipped_web_auth = Some c0 \<and> in_step c0 a)"

lemma lockout_frames:
  "remaining_seconds k t l = (r, l1) \<Longrightarrow> l1\<lparr>lo_states := s\<rparr> = l\<lparr>lo_states := s\<rparr>"
  "register_failure k t l = (r, l1) \<Longrightarrow> l1\<lparr>lo_states := s\<rparr> = l\<lparr>lo_states := s\<rparr>"
  "(register_success k l)\<lparr>lo_states := s\<rparr> = l\<lparr>lo_states := s\<rparr>"
  by (auto simp: remaining_seconds_def register_failure_def register_success_def Let_def split: if_splits option.splits)

text \<open>Writing what was changed keeps file and memory in step.\<close>

lemma file_ok_persist:
  assumes "file_ok a" "au_disk a1 = dict_update (au_disk a) vals" "services_ok a1"
    and "\<And>c0. in_step c0 a \<Longrightarrow> \<exists>c1. merge_web_auth vals c0 = Some c1 \<and> in_step c1 a1"
  shows "file_ok a1"
proof -
  obtain c0 where d: "distinct (map fst (au_disk a))" and m: "merge_web_auth (au_disk a) shipped_web_auth = Some c0"
      and "in_step c0 a"
    using assms(1) by (auto simp: file_ok_def)
  then obtain c1 where "merge_web_auth vals c0 = Some c1" "in_step c1 a1" using assms(4) by blast
  then show ?thesis using merge_dict_update [OF d m] assms(2,3) by (simp add: file_ok_def)
qed

lemma file_ok_login: "file_ok a \<Longrightarrow> file_ok (snd (login L io u p a))"
proof -
  assume ok: "file_ok a"
  have "(au_lockout (snd (login L io u p a)))\<lparr>lo_states := Map.empty\<rparr> = (au_lockout a)\<lparr>lo_states := Map.empty\<rparr>"
  proof (cases "login L io u p a")
    case (Pair out a1)
    then show ?thesis
      by (cases rule: login_cases)
        (use Pair in \<open>simp_all add: lockout_frames(3) lockout_frames(1,2) [of _ _ _ _ _ Map.empty]\<close>)
  qed
  then show ?thesis
    using ok by (simp add: file_ok_def services_ok_def in_step_def is_setup_complete_def login_config login_jwt)
qed

lemma hashed_not_empty:
  assumes "\<forall>b s h. al_hashpw L b s = Some h \<longrightarrow> h \<noteq> []" "hasher_hash L salt p = Inr h"
  shows "h \<noteq> []"
  using assms by (auto simp: hasher_hash_def split: if_splits option.splits)

lemma services_ok_iff:
  "services_ok a \<longleftrightarrow>
     js_secret (au_jwt a) = wa_jwt_secret (au_config a) \<and>
     js_expiry_minutes (au_jwt a) = wa_jwt_expiry_minutes (au_config a) \<and>
     js_session_version (au_jwt a) = wa_session_version (au_config a) \<and>
     wa_jwt_secret (au_config a) \<noteq> [] \<and> 0 < wa_jwt_expiry_minutes (au_config a) \<and> 1 \<le> wa_session_version (au_config a) \<and>
     lo_max_attempts (au_lockout a) = wa_lockout_attempts (au_config a) \<and>
     lo_cooldown_seconds (au_lockout a) = wa_lockout_cooldown_minutes (au_config a) * 60 \<and>
     1 \<le> wa_lockout_attempts (au_config a) \<and> 1 \<le> wa_lockout_cooldown_minutes (au_config a)"
  by (cases "au_jwt a"; cases "au_lockout a") (auto simp: services_ok_def jwt_init_def lockout_init_def)

lemmas step_defs = in_step_def services_ok_iff is_setup_complete_def web_auth_setattr_def

lemma file_ok_setup:
  assumes ok: "file_ok a" and io: "io_persist_ok io"
  shows "file_ok (snd (complete_setup L io p a))"
proof (cases "snd (complete_setup L io p a) = a")
  case False
  then obtain h where a1: "snd (complete_setup L io p a) =
      a\<lparr>au_config := (au_config a)\<lparr>wa_admin_password_hash := h\<rparr>,
        au_disk := dict_update (au_disk a) [(''admin_password_hash'', PStr h), (''jwt_secret'', PStr (wa_jwt_secret (au_config a)))]\<rparr>"
    using io by (auto simp: service_defs split: if_splits option.splits sum.splits)
  show ?thesis
    using ok by (intro file_ok_persist [OF ok]) (auto simp: a1 file_ok_def step_defs)
qed (use ok in simp)

lemma change_password_state:
  assumes "snd (change_password L io u cur new a) \<noteq> a" "io_persist_ok io" "io_secret io \<noteq> []"
  obtains h where "snd (change_password L io u cur new a) =
      a\<lparr>au_config := (if normalize_user L u = lit ''admin'' then (au_config a)\<lparr>wa_admin_password_hash := h\<rparr>
                      else (au_config a)\<lparr>wa_viewer_password_hash := h\<rparr>)\<lparr>wa_jwt_secret := io_secret io\<rparr>,
        au_jwt := (au_jwt a)\<lparr>js_secret := io_secret io\<rparr>,
        au_disk := dict_update (au_disk a) [(''jwt_secret'', PStr (io_secret io)),
          (if normalize_user L u = lit ''admin'' then ''admin_password_hash'' else ''viewer_password_hash'', PStr h)]\<rparr>"
proof -
  obtain old where old: "hash_for (normalize_user L u) (au_config a) = Some old" "hasher_verify L cur old"
      "normalize_user L u \<in> {lit ''admin'', lit ''viewer''}"
    using change_password_changes [OF assms(1)] by metis
  have v: "validate_password new = None"
    using assms(1) old by (cases "validate_password new") (auto simp: change_password_def)
  have "\<And>e. hasher_hash L (io_salt io) new = Inl e \<Longrightarrow> snd (change_password L io u cur new a) = a"
    using old v by (auto simp: change_password_def then_do_def)
  then obtain h where h: "hasher_hash L (io_salt io) new = Inr h"
    using assms(1) by (cases "hasher_hash L (io_salt io) new") simp_all
  obtain t where t: "issue L (io_wall io) (normalize_user L u) (role_of (normalize_user L u))
      ((au_jwt a)\<lparr>js_secret := io_secret io\<rparr>) = Inr t"
    using issue_ok [OF old(1)] by (metis obj_sumE)
  show ?thesis
    by (rule that [of h]) (use old v h t assms(2,3) in
        \<open>auto simp: change_password_def then_do_def persist_def rotate_secret_def Let_def\<close>)
qed

lemma file_ok_change_password:
  assumes ok: "file_ok a" and io: "io_persist_ok io" and ne: "io_secret io \<noteq> []"
  shows "file_ok (snd (change_password L io u cur new a))"
proof (cases "snd (change_password L io u cur new a) = a")
  case False
  show ?thesis
  proof (cases "normalize_user L u = lit ''admin''")
    case True
    obtain h where a1: "snd (change_password L io u cur new a) =
      a\<lparr>au_config := (au_config a)\<lparr>wa_admin_password_hash := h, wa_jwt_secret := io_secret io\<rparr>,
        au_jwt := (au_jwt a)\<lparr>js_secret := io_secret io\<rparr>,
        au_disk := dict_update (au_disk a) [(''jwt_secret'', PStr (io_secret io)), (''admin_password_hash'', PStr h)]\<rparr>"
      using change_password_state [OF False io ne] True by auto
    show ?thesis
      by (rule file_ok_persist [OF ok, where vals = "[(''jwt_secret'', PStr (io_secret io)), (''admin_password_hash'', PStr h)]"];
          use ok ne in \<open>auto simp: a1 file_ok_def step_defs\<close>)
  next
    case other: False
    obtain h where a1: "snd (change_password L io u cur new a) =
      a\<lparr>au_config := (au_config a)\<lparr>wa_viewer_password_hash := h, wa_jwt_secret := io_secret io\<rparr>,
        au_jwt := (au_jwt a)\<lparr>js_secret := io_secret io\<rparr>,
        au_disk := dict_update (au_disk a) [(''jwt_secret'', PStr (io_secret io)), (''viewer_password_hash'', PStr h)]\<rparr>"
      using change_password_state [OF False io ne] other by auto
    show ?thesis
      by (rule file_ok_persist [OF ok, where vals = "[(''jwt_secret'', PStr (io_secret io)), (''viewer_password_hash'', PStr h)]"];
          use ok ne in \<open>auto simp: a1 file_ok_def step_defs\<close>)
  qed
qed (use ok in simp)

lemma file_ok_logout_all:
  assumes "file_ok a" "io_persist_ok io"
  shows "file_ok (snd (logout_all_sessions io a))"
  by (rule file_ok_persist [OF assms(1), where vals = "[(''session_version'', PInt (js_session_version (au_jwt a) + 1))]"]; use assms in \<open>auto simp: service_defs file_ok_def step_defs split: if_splits\<close>)

lemma file_ok_lifetime:
  assumes "file_ok a" "io_persist_ok io"
  shows "file_ok (snd (update_session_lifetime io m a))"
proof (cases "m \<le> 0")
  case False
  show ?thesis
    by (rule file_ok_persist [OF assms(1), where vals = "[(''jwt_expiry_minutes'', PInt m)]"]; use False assms in \<open>auto simp: service_defs file_ok_def step_defs split: if_splits\<close>)
qed (use assms in \<open>simp add: service_defs\<close>)

lemma file_ok_lockout:
  assumes "file_ok a" "io_persist_ok io"
  shows "file_ok (snd (update_lockout_config io n c a))"
proof (cases "n < 1 \<or> c < 1")
  case False
  show ?thesis
    by (rule file_ok_persist [OF assms(1), where vals = "[(''lockout_attempts'', PInt n), (''lockout_cooldown_minutes'', PInt c)]"];
        use False assms in \<open>auto simp: service_defs reconfigure_def lockout_init_def file_ok_def step_defs split: if_splits\<close>)
qed (use assms in \<open>auto simp: update_lockout_config_def reconfigure_def\<close>)

lemma file_ok_clear_viewer:
  assumes "file_ok a" "io_persist_ok io"
  shows "file_ok (snd (clear_viewer io a))"
  by (rule file_ok_persist [OF assms(1), where vals = "[(''viewer_password_hash'', PStr []), (''allow_read_only'', PBool False)]"]; use assms in \<open>auto simp: service_defs file_ok_def step_defs\<close>)

lemma file_ok_setup_viewer:
  assumes ok: "file_ok a" and io: "io_persist_ok io"
  shows "file_ok (snd (setup_viewer L io p a))"
proof (cases "snd (setup_viewer L io p a) = a")
  case False
  then obtain h where a1: "snd (setup_viewer L io p a) =
      a\<lparr>au_config := (au_config a)\<lparr>wa_viewer_password_hash := h, wa_allow_read_only := True\<rparr>,
        au_disk := dict_update (au_disk a) [(''viewer_password_hash'', PStr h), (''allow_read_only'', PBool True)]\<rparr>"
    using io by (auto simp: service_defs split: option.splits sum.splits)
  show ?thesis
    by (rule file_ok_persist [OF ok, where vals = "[(''viewer_password_hash'', PStr h), (''allow_read_only'', PBool True)]"]; use ok in \<open>auto simp: a1 file_ok_def step_defs\<close>)
qed (use ok in simp)

lemmas file_ok_ops = file_ok_setup file_ok_login file_ok_change_password file_ok_logout_all file_ok_lifetime
  file_ok_lockout file_ok_clear_viewer file_ok_setup_viewer

lemma file_ok_audit [simp]: "file_ok (a\<lparr>au_audit := lg\<rparr>) = file_ok a"
  by (simp add: file_ok_def step_defs)

lemma file_ok_serve:
  assumes "file_ok a" "io_persist_ok io" "io_secret io \<noteq> []"
  shows "file_ok (snd (serve L etext io rq ep a))"
proof -
  have "file_ok (effect L io rq ep a)"
    using assms file_ok_ops by (cases ep) (auto split: option.split)
  then show ?thesis using serve_effect [of L etext io rq ep a] by auto
qed

lemma file_ok_serve_all:
  assumes "file_ok a" "\<And>io rq ep. (io, rq, ep) \<in> set cs \<Longrightarrow> io_persist_ok io \<and> io_secret io \<noteq> []"
  shows "file_ok (snd (serve_all L etext cs a))"
  using assms
proof (induction cs arbitrary: a)
  case Nil
  then show ?case by simp
next
  case (Cons x cs)
  obtain io rq ep where x: "x = (io, rq, ep)" by (cases x)
  have "file_ok (snd (serve L etext io rq ep a))" using Cons.prems by (intro file_ok_serve) (auto simp: x)
  then show ?case using Cons by (auto simp: x snd_serve_all_Cons)
qed

lemma file_ok_build:
  assumes "build_auth_subsystem fresh disk lg = Some a" "distinct (map fst disk)"
    and "merge_web_auth disk shipped_web_auth = Some c" "wa_jwt_secret c = [] \<Longrightarrow> wa_admin_password_hash c = []"
  shows "file_ok a"
  using assms
  by (auto simp: build_auth_subsystem_def ensure_jwt_secret_def Let_def file_ok_def in_step_def services_ok_def
      is_setup_complete_def lockout_init_def split: option.splits sum.splits if_splits)

lemma build_from_file:
  assumes "file_ok a" "is_setup_complete a"
  shows "\<exists>b. build_auth_subsystem fresh (au_disk a) lg = Some b \<and> au_config b = au_config a \<and> au_jwt b = au_jwt a \<and>
    au_lockout b = (au_lockout a)\<lparr>lo_states := Map.empty\<rparr>"
proof -
  have m: "merge_web_auth (au_disk a) shipped_web_auth = Some (au_config a)" and s: "services_ok a"
    using assms by (auto simp: file_ok_def in_step_def)
  have "wa_jwt_secret (au_config a) \<noteq> []" using s by (auto simp: services_ok_def jwt_init_def split: if_splits)
  then show ?thesis using m s by (simp add: build_auth_subsystem_def ensure_jwt_secret_def services_ok_def)
qed

text \<open>C15: A restart forgets nothing but the failure counters. From a start on any configuration file,
  after any sequence of requests whose writes succeed, a restart from the file as it then is
  brings back exactly the configuration and the session service that were in memory: the
  passwords, the secret and with it every open session, the session version and with it every
  revocation, and the policy. (The file at the start has a secret if it has an administrator.)\<close>

theorem restart_restores:
  assumes "build_auth_subsystem fresh disk lg = Some a0" "distinct (map fst disk)"
    and "merge_web_auth disk shipped_web_auth = Some c" "wa_jwt_secret c = [] \<Longrightarrow> wa_admin_password_hash c = []"
    and "\<And>io rq ep. (io, rq, ep) \<in> set cs \<Longrightarrow> io_persist_ok io \<and> io_secret io \<noteq> []"
    and "a = snd (serve_all L etext cs a0)" "is_setup_complete a"
  shows "\<exists>b. build_auth_subsystem fresh' (au_disk a) lg' = Some b \<and> au_config b = au_config a \<and>
    au_jwt b = au_jwt a \<and> au_lockout b = (au_lockout a)\<lparr>lo_states := Map.empty\<rparr>"
proof -
  have "file_ok a0" using assms(1-4) by (rule file_ok_build)
  then have "file_ok a" unfolding assms(6) using assms(5) by (rule file_ok_serve_all)
  then show ?thesis using build_from_file assms(7) by blast
qed

end
