(* ===== verification/Py_Countable.thy ===== *)
theory Py_Countable
  imports Prelude "HOL-Library.Countable"
begin

text \<open>
  Dynamically typed values are countable, so a value can be coded as a number: what the example
  instances of printers and signers are made of.
\<close>

instance pyval :: countable
  by countable_datatype

end
