(* ===== verification/Auth_Login.thy ===== *)
theory Auth_Login
  imports Auth_Restart Py_Countable
begin

text \<open>
  The way from a fresh installation to an administrator's session, and a library of the external
  functions that satisfies every law the properties of the authentication assume.
\<close>

section \<open>From a fresh installation to an administrator's session\<close>

text \<open>What bcrypt and PyJWT document: a hash is ASCII text that its own password matches; a token with the
  required claims decodes under its secret to its payload between the times it names.\<close>

definition bcrypt_ok :: "auth_lib \<Rightarrow> bool" where
  "bcrypt_ok L \<longleftrightarrow>
     (\<forall>b salt h. al_hashpw L b salt = Some h \<longrightarrow> h \<noteq> [] \<and> list_all (\<lambda>c. c < 128) h \<and> al_checkpw L b h = Some True)"

definition session_payload :: "ustr \<Rightarrow> ustr \<Rightarrow> int \<Rightarrow> int \<Rightarrow> int \<Rightarrow> pydict" where
  "session_payload sub role sv i e =
     [(''sub'', PStr sub), (''role'', PStr role), (''sv'', PInt sv), (''iat'', PInt i), (''exp'', PInt e)]"

definition jwt_ok :: "auth_lib \<Rightarrow> bool" where
  "jwt_ok L \<longleftrightarrow>
     (\<forall>sub role sv i e s now. of_int i \<le> now \<longrightarrow> now < of_int e \<longrightarrow>
        al_decode L now (al_encode L (session_payload sub role sv i e) s) s = Some (session_payload sub role sv i e)) \<and>
     (\<forall>sub role sv i e s. al_encode L (session_payload sub role sv i e) s \<noteq> [])"

definition issued_until :: "auth_io \<Rightarrow> auth \<Rightarrow> rat \<Rightarrow> bool" where
  "issued_until io a now \<longleftrightarrow>
     of_int (py_trunc (io_wall io)) \<le> now \<and>
     now < of_int (py_trunc (io_wall io + of_int (60 * js_expiry_minutes (au_jwt a))))"

lemma issued_accepted:
  assumes "jwt_ok L" "issue L (io_wall io) sub role (au_jwt a) = Inr t" "issued_until io a now"
  shows "verify L now t (au_jwt a) = Some \<lparr>sc_subject = sub, sc_role = role, sc_session_version = js_session_version (au_jwt a)\<rparr>"
    and "t \<noteq> []"
proof -
  let ?p = "session_payload sub role (js_session_version (au_jwt a)) (py_trunc (io_wall io))
      (py_trunc (io_wall io + of_int (60 * js_expiry_minutes (au_jwt a))))"
  have t: "t = al_encode L ?p (js_secret (au_jwt a))" "sub \<noteq> []" "role \<in> {ROLE_ADMIN, ROLE_VIEWER}"
    using assms(2) by (auto simp: issue_def session_payload_def split: if_splits)
  have "al_decode L now t (js_secret (au_jwt a)) = Some ?p"
    using assms(1,3) unfolding t(1) jwt_ok_def issued_until_def by blast
  moreover show "t \<noteq> []" using assms(1) unfolding t(1) jwt_ok_def by blast
  ultimately show "verify L now t (au_jwt a) =
      Some \<lparr>sc_subject = sub, sc_role = role, sc_session_version = js_session_version (au_jwt a)\<rparr>"
    using t(2,3) by (auto simp: verify_def session_payload_def)
qed

lemma hash_verifies:
  assumes "bcrypt_ok L" "hasher_hash L salt p = Inr h"
  shows "hasher_verify L p h" "h \<noteq> []"
  using assms
  by (auto simp: hasher_hash_def hasher_verify_def bcrypt_ok_def split: if_splits option.splits)

lemma setup_served:
  assumes "serve L etext io rq (EpSetup p) a = (Response st ck bd, a1)" "bcrypt_ok L"
  obtains h where "hash_for (lit ''admin'') (au_config a1) = Some h" "hasher_verify L p h" "is_setup_complete a1"
    "au_lockout a1 = au_lockout a" "au_jwt a1 = au_jwt a" "length_between 1 512 p"
    "wa_jwt_expiry_minutes (au_config a1) = wa_jwt_expiry_minutes (au_config a)"
proof -
  have len: "length_between 1 512 p"
    using assms by (auto simp: serve.simps setup_password_def unprocessable_def split: if_splits)
  obtain t where cs: "complete_setup L io p a = (Inr (SetupSuccess t), a1)"
    using assms len by (auto simp: serve.simps setup_password_def reject_setup_def
        split: prod.splits sum.splits setup_result.splits if_splits)
  then obtain h where h: "hasher_hash L (io_salt io) p = Inr h"
      and c: "au_config a1 = (au_config a)\<lparr>wa_admin_password_hash := h\<rparr>"
    by (auto simp: service_defs split: if_splits option.splits sum.splits)
  show ?thesis
    using that [of h] hash_verifies [OF assms(2) h] c len setup_jwt [of L io p a] other_lockout(1) [of L io p a] cs
    by (simp add: hash_for_def is_setup_complete_def)
qed

text \<open>C16: A fresh installation can be taken into use. If the first setup is answered with success,
  the administrator can log in with that password, and every request that carries the cookie of
  the answer has administrator rights until the session's lifetime is over.\<close>

theorem setup_then_login:
  assumes "bcrypt_ok L" "jwt_ok L" "al_lower L (lit ''admin'') = lit ''admin''"
    and "build_auth_subsystem fresh disk lg = Some a0"
    and "serve L etext io1 rq1 (EpSetup pw) a0 = (Response st ck bd, a1)"
  shows "\<exists>tok bd2 a2. serve L etext io2 rq2 (EpLogin (lit ''admin'') pw) a1 =
      (Response 200 (SetCookie tok (wa_jwt_expiry_minutes (au_config a0) * 60) (rq_https rq2)) bd2, a2) \<and>
    (\<forall>io rq. rq_cookie rq = Some tok \<and> issued_until io2 a0 (io_wall io) \<longrightarrow> admin_session L io rq a2)"
proof -
  obtain h where h: "hash_for (lit ''admin'') (au_config a1) = Some h" "hasher_verify L pw h" "is_setup_complete a1"
    and fr: "au_lockout a1 = au_lockout a0" "au_jwt a1 = au_jwt a0" "length_between 1 512 pw"
    "wa_jwt_expiry_minutes (au_config a1) = wa_jwt_expiry_minutes (au_config a0)"
    using setup_served [OF assms(5,1)] by metis
  have n: "normalize_user L (lit ''admin'') = lit ''admin''"
    using assms(3) by (simp add: normalize_user_def ustrip_def lit_def uni_space_def)
  have "lo_states (au_lockout a0) = Map.empty"
    using assms(4) by (auto simp: build_auth_subsystem_def lockout_init_def Let_def split: option.splits sum.splits if_splits)
  then have rem: "remaining_seconds (lit ''admin'') t (au_lockout a1) = (None, au_lockout a1)" for t
    by (simp add: fr(1) remaining_seconds_def)
  obtain tok where tok: "issue L (io_wall io2) (lit ''admin'') ROLE_ADMIN (au_jwt a1) = Inr tok"
    using issue_ok [OF h(1)] by (metis obj_sumE role_of_def)
  define a2 where "a2 = a1\<lparr>au_lockout := register_success (lit ''admin'') (au_lockout a1)\<rparr>"
  have "login L io2 (lit ''admin'') pw a1 = (Inr (LoginSuccess tok ROLE_ADMIN), a2)"
    using h rem tok by (simp add: login_def n role_of_def then_do_def a2_def)
  then obtain bd2 where sv: "serve L etext io2 rq2 (EpLogin (lit ''admin'') pw) a1 =
      (Response 200 (SetCookie tok (wa_jwt_expiry_minutes (au_config a0) * 60) (rq_https rq2)) bd2, a2)"
    using fr(3,4) by (simp add: serve.simps login_endpoint_def session_cookie_def a2_def length_between_def lit_def)
  have "admin_session L io rq a2" if "rq_cookie rq = Some tok" "issued_until io2 a0 (io_wall io)" for io rq
    using issued_accepted [OF assms(2) tok, of "io_wall io"] that
    by (simp add: admin_session_def extract_token_def truthy_opt_def a2_def issued_until_def fr(2))
  then show ?thesis using sv by blast
qed


section \<open>A library that satisfies the laws\<close>

definition toy_hash :: "bytes \<Rightarrow> ustr" where
  "toy_hash b = lit (CHR ''$'' # bytes_hex hexdig b)"

definition toy_decode :: "rat \<Rightarrow> ustr \<Rightarrow> ustr \<Rightarrow> pydict option" where
  "toy_decode now t s =
     (case t of
        [] \<Rightarrow> None
      | n # s' \<Rightarrow>
          (case from_nat n of
             PDict p \<Rightarrow>
               (case dget ''exp'' p of PInt e \<Rightarrow> if s' = s \<and> now < of_int e then Some p else None | _ \<Rightarrow> None)
           | _ \<Rightarrow> None))"

definition toy_auth_lib :: auth_lib where
  "toy_auth_lib =
     \<lparr>al_lower = map (\<lambda>c. if 65 \<le> c \<and> c \<le> 90 then c + 32 else c),
      al_hashpw = \<lambda>b salt. Some (toy_hash b), al_checkpw = \<lambda>b h. Some (h = toy_hash b),
      al_encode = \<lambda>p s. to_nat (PDict p) # s, al_decode = toy_decode\<rparr>"

lemma toy_laws: "bcrypt_ok toy_auth_lib" "jwt_ok toy_auth_lib" "one_secret toy_auth_lib"
proof -
  show "bcrypt_ok toy_auth_lib"
    using ascii_bytes_hex by (simp add: bcrypt_ok_def toy_auth_lib_def toy_hash_def lit_def)
  show "jwt_ok toy_auth_lib"
    by (simp add: jwt_ok_def toy_auth_lib_def toy_decode_def session_payload_def)
  show "one_secret toy_auth_lib"
    by (auto simp: one_secret_def toy_auth_lib_def toy_decode_def split: list.splits pyval.splits if_splits)
qed

definition toy_io :: "rat \<Rightarrow> nat \<Rightarrow> auth_io" where
  "toy_io t n = \<lparr>io_check_time = t, io_failure_time = t, io_wall = t, io_salt = [], io_secret = [n],
     io_persist_ok = True, io_audit = sample_audit_io\<rparr>"

definition toy_request :: "ustr option \<Rightarrow> request" where
  "toy_request tok = \<lparr>rq_cookie = tok, rq_authorization = None, rq_client = None, rq_https = False\<rparr>"

definition toy_start :: auth where
  "toy_start = \<lparr>au_config = shipped_web_auth\<lparr>wa_jwt_secret := [1]\<rparr>,
     au_lockout = \<lparr>lo_max_attempts = 5, lo_cooldown_seconds = 300, lo_states = Map.empty\<rparr>,
     au_jwt = \<lparr>js_secret = [1], js_expiry_minutes = 60, js_session_version = 1\<rparr>, au_disk = [], au_audit = []\<rparr>"

abbreviation toy_text :: "handler_exn \<Rightarrow> ustr" where
  "toy_text \<equiv> \<lambda>_. []"

lemma toy_build: "build_auth_subsystem [1] [] [] = Some toy_start"
  by (simp add: build_auth_subsystem_def ensure_jwt_secret_def shipped_web_auth_eq default_web_auth_def jwt_init_def lockout_init_def
      toy_start_def)

lemma toy_setup:
  obtains tok bd a1 where "serve toy_auth_lib toy_text (toy_io 0 7) (toy_request None) (EpSetup (lit ''password'')) toy_start =
    (Response 200 (SetCookie tok 3600 False) bd, a1)" "au_jwt a1 = au_jwt toy_start" "is_setup_complete a1"
    "issue toy_auth_lib 0 (lit ''admin'') ROLE_ADMIN (au_jwt a1) = Inr tok"
proof -
  obtain b where u: "utf8_encode (lit ''password'') = Some b"
    using utf8_encode_lit [of "''password''"] by simp
  have h: "hasher_hash toy_auth_lib [] (lit ''password'') = Inr (toy_hash b)"
    by (simp add: hasher_hash_def u) (simp add: toy_auth_lib_def lit_def)
  have v: "validate_password (lit ''password'') = None" "length_between 1 512 (lit ''password'')"
    by (simp_all add: validate_password_def MIN_PASSWORD_LENGTH_def MAX_PASSWORD_LENGTH_def length_between_def lit_def)
  have s: "\<not> is_setup_complete toy_start" "wa_jwt_expiry_minutes (au_config toy_start) = 60"
    by (simp_all add: is_setup_complete_def toy_start_def shipped_web_auth_eq default_web_auth_def)
  obtain tok where tok: "issue toy_auth_lib 0 (lit ''admin'') ROLE_ADMIN (au_jwt toy_start) = Inr tok"
    by (simp add: issue_def lit_def)
  define a1 where "a1 = toy_start\<lparr>au_config := (au_config toy_start)\<lparr>wa_admin_password_hash := toy_hash b\<rparr>,
      au_disk := dict_update (au_disk toy_start)
        [(''admin_password_hash'', PStr (toy_hash b)), (''jwt_secret'', PStr (wa_jwt_secret (au_config toy_start)))]\<rparr>"
  have cs: "complete_setup toy_auth_lib (toy_io 0 7) (lit ''password'') toy_start = (Inr (SetupSuccess tok), a1)"
    by (simp add: complete_setup_def s v h tok then_do_def persist_def a1_def toy_io_def)
  have sc: "session_cookie (toy_request None) tok a1 = SetCookie tok 3600 False"
    using s(2) by (simp add: session_cookie_def toy_request_def a1_def)
  show ?thesis
  proof (rule that)
    show "serve toy_auth_lib toy_text (toy_io 0 7) (toy_request None) (EpSetup (lit ''password'')) toy_start =
        (Response 200 (SetCookie tok 3600 False) [(''role'', pstr ''admin'')], a1)"
      unfolding serve.simps setup_password_def cs using v(2) sc by simp
    show "au_jwt a1 = au_jwt toy_start" by (simp add: a1_def)
    show "is_setup_complete a1" by (simp add: is_setup_complete_def a1_def toy_hash_def lit_def)
    show "issue toy_auth_lib 0 (lit ''admin'') ROLE_ADMIN (au_jwt a1) = Inr tok" using tok by (simp add: a1_def)
  qed
qed

text \<open>The laws are consistent, and the walk-through happens.\<close>

theorem setup_then_login_witness:
  "\<exists>a1 tok bd2 a2. serve toy_auth_lib toy_text (toy_io 1 8) (toy_request None) (EpLogin (lit ''admin'') (lit ''password'')) a1 =
      (Response 200 (SetCookie tok 3600 False) bd2, a2) \<and> admin_session toy_auth_lib (toy_io 2 9) (toy_request (Some tok)) a2"
proof -
  obtain tok1 bd1 a1 where sv: "serve toy_auth_lib toy_text (toy_io 0 7) (toy_request None) (EpSetup (lit ''password'')) toy_start =
      (Response 200 (SetCookie tok1 3600 False) bd1, a1)"
    using toy_setup by metis
  have low: "al_lower toy_auth_lib (lit ''admin'') = lit ''admin''" by (simp add: toy_auth_lib_def lit_def)
  have e: "wa_jwt_expiry_minutes (au_config toy_start) * 60 = 3600" "rq_https (toy_request None) = False"
    by (simp_all add: toy_start_def shipped_web_auth_eq default_web_auth_def toy_request_def)
  have u: "issued_until (toy_io 1 8) toy_start (io_wall (toy_io 2 9))"
    by (simp add: issued_until_def toy_io_def toy_start_def py_trunc_def)
  obtain tok bd2 a2 where "serve toy_auth_lib toy_text (toy_io 1 8) (toy_request None) (EpLogin (lit ''admin'') (lit ''password'')) a1 =
      (Response 200 (SetCookie tok 3600 False) bd2, a2)"
      "\<forall>io rq. rq_cookie rq = Some tok \<and> issued_until (toy_io 1 8) toy_start (io_wall io) \<longrightarrow> admin_session toy_auth_lib io rq a2"
    using setup_then_login [OF toy_laws(1,2) low toy_build sv, of "toy_io 1 8" "toy_request None"] unfolding e by blast
  moreover from this(2) have "admin_session toy_auth_lib (toy_io 2 9) (toy_request (Some tok)) a2"
    using u by (simp add: toy_request_def)
  ultimately show ?thesis by blast
qed

text \<open>A session that is revoked by signing out everywhere.\<close>

lemma toy_session:
  obtains tok where "verify toy_auth_lib 1 tok (au_jwt toy_start) =
    Some \<lparr>sc_subject = lit ''admin'', sc_role = ROLE_ADMIN, sc_session_version = 1\<rparr>" "tok \<noteq> []"
proof -
  obtain tok where "issue toy_auth_lib (io_wall (toy_io 0 7)) (lit ''admin'') ROLE_ADMIN (au_jwt toy_start) = Inr tok"
    by (simp add: issue_def lit_def)
  moreover have "issued_until (toy_io 0 7) toy_start 1"
    by (simp add: issued_until_def toy_io_def toy_start_def py_trunc_def)
  moreover have "js_session_version (au_jwt toy_start) = 1" by (simp add: toy_start_def)
  ultimately show ?thesis using issued_accepted [OF toy_laws(2)] that by metis
qed

theorem revoked_for_good_witness:
  "\<exists>tok c a1. verify toy_auth_lib 1 tok (au_jwt toy_start) = Some c \<and>
     serve toy_auth_lib toy_text (toy_io 1 7) (toy_request (Some tok)) EpLogoutAll toy_start = (Response 204 ClearCookie [], a1) \<and>
     verify toy_auth_lib 2 tok (au_jwt (snd (serve_all toy_auth_lib toy_text [(toy_io 2 8, toy_request None, EpLogout)] a1))) = None"
proof -
  obtain tok where tok: "verify toy_auth_lib 1 tok (au_jwt toy_start) =
      Some \<lparr>sc_subject = lit ''admin'', sc_role = ROLE_ADMIN, sc_session_version = 1\<rparr>" "tok \<noteq> []"
    by (rule toy_session)
  define rq where "rq = toy_request (Some tok)"
  have adm: "require_admin toy_auth_lib (io_wall (toy_io 1 7)) rq (Some (au_jwt toy_start)) =
      Inr \<lparr>sc_subject = lit ''admin'', sc_role = ROLE_ADMIN, sc_session_version = 1\<rparr>"
    using tok by (simp add: require_admin_def require_auth_def claims_or_none_def extract_token_def truthy_opt_def
        toy_request_def toy_io_def rq_def)
  have "\<exists>a1. serve toy_auth_lib toy_text (toy_io 1 7) rq EpLogoutAll toy_start = (Response 204 ClearCookie [], a1)"
    unfolding serve.simps logout_all_def adm
    by (simp add: audited_def timed_action_def service_defs toy_io_def add_param_def
        audit_write_def write_entry_def entry_to_json_def REDACTED_def)
  then obtain a1 where sv: "serve toy_auth_lib toy_text (toy_io 1 7) rq EpLogoutAll toy_start = (Response 204 ClearCookie [], a1)"
    by blast
  have fresh: "js_secret (au_jwt toy_start) \<notin>
      set (secrets_drawn ((toy_io 1 7, rq, EpLogoutAll) # [(toy_io 2 8, toy_request None, EpLogout)]))"
    by (simp add: secrets_drawn_def toy_start_def toy_io_def)
  have "revoking EpLogoutAll (Response 204 ClearCookie [])" by (simp add: revoking_def)
  from revoked_for_good [OF toy_laws(3) tok(1) fresh sv this] show ?thesis
    using tok(1) sv unfolding rq_def by blast
qed

text \<open>Six guesses within six seconds at an installation with an administrator: at most five are
  checked.\<close>

definition toy_guesses :: "http_call list" where
  "toy_guesses = map (\<lambda>t. (toy_io t 7, toy_request None, EpLogin (lit ''admin'') (lit ''guess''))) [0, 1, 2, 3, 4, 5]"

definition toy_file :: pydict where
  "toy_file = [(''admin_password_hash'', pstr ''$''), (''jwt_secret'', pstr ''s'')]"

theorem guessing_is_throttled_witness:
  "\<exists>a. build_auth_subsystem [1] toy_file [] = Some a \<and> is_setup_complete a \<and>
     int (in_window 300 0 (wrong_passwords toy_auth_lib
       (zip toy_guesses (fst (serve_all toy_auth_lib toy_text toy_guesses a))) (\<lambda>_. []) (lit ''admin''))) \<le> 5"
proof -
  obtain a where a: "build_auth_subsystem [1] toy_file [] = Some a" "wa_lockout_attempts (au_config a) = 5"
      "wa_lockout_cooldown_minutes (au_config a) = 5" "is_setup_complete a"
    by (simp add: build_auth_subsystem_def ensure_jwt_secret_def shipped_web_auth_eq default_web_auth_def jwt_init_def lockout_init_def
        toy_file_def web_auth_setattr_def is_setup_complete_def lit_def)
  have "int (in_window 300 0 (wrong_passwords toy_auth_lib
       (zip toy_guesses (fst (serve_all toy_auth_lib toy_text toy_guesses a))) (\<lambda>_. []) (lit ''admin''))) \<le> 5"
    by (rule guessing_is_throttled [OF a(1), where now = 0])
      (simp_all add: a toy_guesses_def lockout_bounds_def toy_io_def lit_def)
  then show ?thesis using a by blast
qed

theorem restart_restores_witness:
  "\<exists>tok bd a b. serve toy_auth_lib toy_text (toy_io 0 7) (toy_request None) (EpSetup (lit ''password'')) toy_start =
      (Response 200 (SetCookie tok 3600 False) bd, a) \<and>
     build_auth_subsystem [2] (au_disk a) [] = Some b \<and> au_config b = au_config a \<and> au_jwt b = au_jwt a"
proof -
  obtain tok bd a where sv: "serve toy_auth_lib toy_text (toy_io 0 7) (toy_request None) (EpSetup (lit ''password'')) toy_start =
      (Response 200 (SetCookie tok 3600 False) bd, a)" and fin: "is_setup_complete a"
    using toy_setup by metis
  let ?cs = "[(toy_io 0 7, toy_request None, EpSetup (lit ''password''))]"
  have "a = snd (serve_all toy_auth_lib toy_text ?cs toy_start)" by (simp add: snd_serve_all_Cons sv)
  then have "\<exists>b. build_auth_subsystem [2] (au_disk a) [] = Some b \<and> au_config b = au_config a \<and>
      au_jwt b = au_jwt a \<and> au_lockout b = (au_lockout a)\<lparr>lo_states := Map.empty\<rparr>"
    using fin
    by (intro restart_restores [OF toy_build, of shipped_web_auth ?cs])
      (auto simp: shipped_web_auth_eq default_web_auth_def toy_io_def)
  then show ?thesis using sv by blast
qed

end
