(* ===== verification/Backup.thy ===== *)
theory Backup
  imports Event_Adapters Sha256 "HOL-Library.List_Lexorder"
begin

text \<open>
  \<^verbatim>\<open>src/src/backup/\<close>: building a backup archive (\<^verbatim>\<open>archive_builder.py\<close>, \<^verbatim>\<open>paths.py\<close>, \<^verbatim>\<open>manifest.py\<close>), the
  optional encryption (\<^verbatim>\<open>encryption.py\<close>) and the validation of an uploaded archive
  (\<^verbatim>\<open>restore_service.py\<close>).

  \<^item> An archive is the list of its members; reading the compressed tar format, Scrypt, AES-GCM and
    the JSON printer are parameters.
  \<^item> Error texts that quote data are abbreviated to their fixed part. \<open>Uncaught\<close> stands for every
    exception that is not the \<^verbatim>\<open>RestoreValidationError\<close> the endpoint answers with status 400.
\<close>

section \<open>Manifest\<close>

record backup_entry =
  be_path :: ustr
  be_sha256 :: ustr
  be_size_bytes :: int

record backup_manifest =
  bm_format_version :: int
  bm_meshpoint_version :: ustr
  bm_created_at :: ustr
  bm_device_id :: ustr
  bm_device_name :: ustr
  bm_entries :: "backup_entry list"
  bm_total_bytes :: int

definition FORMAT_VERSION :: int where
  "FORMAT_VERSION = 1"

definition entry_to_dict :: "backup_entry \<Rightarrow> pyval" where
  "entry_to_dict e = PDict [(''path'', PStr (be_path e)), (''sha256'', PStr (be_sha256 e)),
     (''size_bytes'', PInt (be_size_bytes e))]"

text \<open>The value \<^verbatim>\<open>to_json\<close> prints, its keys sorted.\<close>

definition manifest_to_dict :: "backup_manifest \<Rightarrow> pyval" where
  "manifest_to_dict m = PDict
     [(''created_at'', PStr (bm_created_at m)), (''device_id'', PStr (bm_device_id m)),
      (''device_name'', PStr (bm_device_name m)), (''entries'', PList (map entry_to_dict (bm_entries m))),
      (''format_version'', PInt (bm_format_version m)), (''meshpoint_version'', PStr (bm_meshpoint_version m)),
      (''total_bytes'', PInt (bm_total_bytes m))]"

text \<open>\<^verbatim>\<open>raw[key]\<close> of a dictionary and the conversions; \<open>None\<close> is the exception.\<close>

definition str_field :: "text_lib \<Rightarrow> string \<Rightarrow> pydict \<Rightarrow> ustr option" where
  "str_field T k d = map_option (str_of T) (map_of d k)"

definition int_field :: "text_lib \<Rightarrow> string \<Rightarrow> pydict \<Rightarrow> int option" where
  "int_field T k d =
     (case map_of d k of None \<Rightarrow> None | Some v \<Rightarrow> (case int_of T v of Inl _ \<Rightarrow> None | Inr i \<Rightarrow> Some i))"

fun entry_from_dict :: "text_lib \<Rightarrow> pyval \<Rightarrow> backup_entry option" where
  "entry_from_dict T (PDict d) =
     do {
       path \<leftarrow> str_field T ''path'' d;
       sha256 \<leftarrow> str_field T ''sha256'' d;
       size_bytes \<leftarrow> int_field T ''size_bytes'' d;
       Some \<lparr>be_path = path, be_sha256 = sha256, be_size_bytes = size_bytes\<rparr>
     }"
| "entry_from_dict T _ = None"

fun entries_from :: "text_lib \<Rightarrow> pyval list \<Rightarrow> backup_entry list option" where
  "entries_from T [] = Some []"
| "entries_from T (v # vs) =
     do { e \<leftarrow> entry_from_dict T v; es \<leftarrow> entries_from T vs; Some (e # es) }"

text \<open>Iterating over the value of \<^verbatim>\<open>entries\<close>: a text or dictionary yields items that are not
  dictionaries, unless it is empty.\<close>

fun entry_items :: "pyval \<Rightarrow> pyval list option" where
  "entry_items (PList vs) = Some vs"
| "entry_items (PStr []) = Some []"
| "entry_items (PDict []) = Some []"
| "entry_items _ = None"

fun manifest_from_dict :: "text_lib \<Rightarrow> pyval \<Rightarrow> backup_manifest option" where
  "manifest_from_dict T (PDict d) =
     do {
       items \<leftarrow> entry_items (dget_or ''entries'' (PList []) d);
       entries \<leftarrow> entries_from T items;
       format_version \<leftarrow> int_field T ''format_version'' d;
       meshpoint_version \<leftarrow> str_field T ''meshpoint_version'' d;
       created_at \<leftarrow> str_field T ''created_at'' d;
       device_id \<leftarrow> str_field T ''device_id'' d;
       total_bytes \<leftarrow> (case int_of T (dget_or ''total_bytes'' (PInt 0) d) of Inl _ \<Rightarrow> None | Inr i \<Rightarrow> Some i);
       Some \<lparr>bm_format_version = format_version, bm_meshpoint_version = meshpoint_version,
             bm_created_at = created_at, bm_device_id = device_id,
             bm_device_name = str_of T (dget_or ''device_name'' (PStr []) d),
             bm_entries = entries, bm_total_bytes = total_bytes\<rparr>
     }"
| "manifest_from_dict T _ = None"


section \<open>Encryption\<close>

text \<open>\<open>kdf password salt n_log2 r p\<close> is Scrypt, \<open>None\<close> for parameters it refuses; AES-GCM gets key, nonce, text
  and associated data.\<close>

record backup_lib =
  bk_kdf :: "bytes \<Rightarrow> bytes \<Rightarrow> byte \<Rightarrow> byte \<Rightarrow> byte \<Rightarrow> bytes option"
  bk_gcm_encrypt :: "bytes \<Rightarrow> bytes \<Rightarrow> bytes \<Rightarrow> bytes \<Rightarrow> bytes"
  bk_gcm_decrypt :: "bytes \<Rightarrow> bytes \<Rightarrow> bytes \<Rightarrow> bytes \<Rightarrow> bytes option"
  bk_dumps :: "pyval \<Rightarrow> bytes"
  bk_digit :: "nat \<Rightarrow> bool"

datatype backup_error = DecryptionError string | Invalid string | Uncaught

definition MAGIC :: bytes where
  "MAGIC = map (\<lambda>c. of_nat (of_char c)) ''MPBKENC1''"

record enc_header =
  eh_version :: byte
  eh_n_log2 :: byte
  eh_r :: byte
  eh_p :: byte
  eh_salt :: bytes
  eh_nonce :: bytes

definition is_encrypted :: "bytes \<Rightarrow> bool" where
  "is_encrypted payload \<longleftrightarrow> take (length MAGIC) payload = MAGIC"

definition pack_header :: "enc_header \<Rightarrow> bytes" where
  "pack_header h = MAGIC @ [eh_version h, eh_n_log2 h, eh_r h, eh_p h] @ eh_salt h @ eh_nonce h"

definition unpack_header :: "bytes \<Rightarrow> backup_error + enc_header" where
  "unpack_header payload =
     (if length payload < 40 then Inl (DecryptionError ''archive is too small to be an encrypted backup'')
      else
        let b = take 40 payload in
        if take 8 b \<noteq> MAGIC then Inl (DecryptionError ''not an encrypted backup archive'')
        else if b ! 8 \<noteq> 1 then Inl (DecryptionError ''unsupported encrypted-backup version'')
        else Inr \<lparr>eh_version = b ! 8, eh_n_log2 = b ! 9, eh_r = b ! 10, eh_p = b ! 11,
                   eh_salt = slice 12 28 b, eh_nonce = slice 28 40 b\<rparr>)"

definition derive_key :: "backup_lib \<Rightarrow> ustr \<Rightarrow> enc_header \<Rightarrow> bytes option" where
  "derive_key B password h =
     (case utf8_encode password of
        None \<Rightarrow> None | Some pw \<Rightarrow> bk_kdf B pw (eh_salt h) (eh_n_log2 h) (eh_r h) (eh_p h))"

definition backup_password_ok :: "ustr \<Rightarrow> bool" where
  "backup_password_ok password \<longleftrightarrow> 8 \<le> length password \<and> length password \<le> 256"

definition encrypt_archive :: "backup_lib \<Rightarrow> bytes \<Rightarrow> bytes \<Rightarrow> bytes \<Rightarrow> ustr \<Rightarrow> backup_error + bytes" where
  "encrypt_archive B salt nonce plaintext password =
     (if \<not> backup_password_ok password then Inl Uncaught
      else
        let h = \<lparr>eh_version = 1, eh_n_log2 = 14, eh_r = 8, eh_p = 1, eh_salt = salt, eh_nonce = nonce\<rparr>;
            header_bytes = pack_header h in
        case derive_key B password h of
          None \<Rightarrow> Inl Uncaught
        | Some key \<Rightarrow> Inr (header_bytes @ bk_gcm_encrypt B key nonce plaintext header_bytes))"

definition decrypt_archive :: "backup_lib \<Rightarrow> bytes \<Rightarrow> ustr \<Rightarrow> backup_error + bytes" where
  "decrypt_archive B payload password =
     (case unpack_header payload of
        Inl e \<Rightarrow> Inl e
      | Inr h \<Rightarrow>
          (case derive_key B password h of
             None \<Rightarrow> Inl Uncaught
           | Some key \<Rightarrow>
               (case bk_gcm_decrypt B key (eh_nonce h) (drop 40 payload) (take 40 payload) of
                  None \<Rightarrow> Inl (DecryptionError ''incorrect password or corrupted archive'')
                | Some p \<Rightarrow> Inr p)))"


section \<open>Building\<close>

text \<open>A file of the data directory: the parts of its relative path, its content, and whether it
  is a regular file after following links.\<close>

record data_file =
  df_parts :: "ustr list"
  df_content :: bytes
  df_is_file :: bool

definition excluded_data_dir :: "ustr \<Rightarrow> bool" where
  "excluded_data_dir d \<longleftrightarrow>
     list_ex (\<lambda>p. take (length p) d = p) [lit ''restore-incoming'', lit ''backup-staging'', lit ''pre-restore-stash-'']"

text \<open>Directories are pruned at the top level only: a file directly in the data directory stays.\<close>

definition iter_included_data_files :: "data_file list \<Rightarrow> data_file list" where
  "iter_included_data_files fs =
     filter (\<lambda>f. df_is_file f \<and> \<not> (2 \<le> length (df_parts f) \<and> excluded_data_dir (hd (df_parts f)))) fs"

definition join_posix :: "ustr list \<Rightarrow> ustr" where
  "join_posix parts = concat (map (\<lambda>(i, p). if i = 0 then p else 47 # p) (enumerate 0 parts))"

definition sha256_hex :: "bytes \<Rightarrow> ustr" where
  "sha256_hex b = lit (bytes_hex hexdig (sha256 b))"

definition entry_from_file :: "ustr \<times> bytes \<Rightarrow> backup_entry" where
  "entry_from_file f =
     \<lparr>be_path = fst f, be_sha256 = sha256_hex (snd f), be_size_bytes = int (length (snd f))\<rparr>"

definition CONFIG_ARCHIVE_PATH :: ustr where
  "CONFIG_ARCHIVE_PATH = lit ''config/local.yaml''"

text \<open>The files the data tree contributes, with their paths in the archive; \<open>snapshot\<close> is the
  copy SQLite makes of the database.\<close>

definition add_data_tree :: "(bytes \<Rightarrow> bytes) \<Rightarrow> ustr \<Rightarrow> data_file list \<Rightarrow> (ustr \<times> bytes) list" where
  "add_data_tree snapshot db_name fs =
     map (\<lambda>f. (join_posix (lit ''data'' # df_parts f),
               if df_parts f = [db_name] then snapshot (df_content f) else df_content f))
       (filter (\<lambda>f. last (df_parts f) \<notin> {db_name @ lit ''-wal'', db_name @ lit ''-shm''})
         (sort_key df_parts (iter_included_data_files fs)))"

record backup_input =
  bi_local_config :: "bytes option"
  bi_data_files :: "data_file list"
  bi_db_name :: ustr
  bi_device_id :: ustr
  bi_device_name :: ustr
  bi_version :: ustr
  bi_created_at :: ustr
  bi_stamp :: ustr

definition bundle_name :: "backup_input \<Rightarrow> ustr" where
  "bundle_name i =
     lit ''meshpoint-backup-'' @ take 8 (if bi_device_id i = [] then lit ''unknown'' else bi_device_id i) @
     lit ''-'' @ bi_stamp i"

text \<open>The files of the bundle directory and the manifest; \<open>None\<close> is the \<^verbatim>\<open>FileNotFoundError\<close> for a missing
  configuration.\<close>

definition build_bundle ::
    "backup_lib \<Rightarrow> (bytes \<Rightarrow> bytes) \<Rightarrow> backup_input \<Rightarrow> ((ustr \<times> bytes) list \<times> backup_manifest) option" where
  "build_bundle B snapshot i =
     (case bi_local_config i of
        None \<Rightarrow> None
      | Some cfg \<Rightarrow>
          let files = (CONFIG_ARCHIVE_PATH, cfg) # add_data_tree snapshot (bi_db_name i) (bi_data_files i);
              entries = map entry_from_file files;
              m = \<lparr>bm_format_version = FORMAT_VERSION, bm_meshpoint_version = bi_version i,
                   bm_created_at = bi_created_at i, bm_device_id = bi_device_id i,
                   bm_device_name = bi_device_name i, bm_entries = entries,
                   bm_total_bytes = sum_list (map be_size_bytes entries)\<rparr> in
          Some (files @ [(lit ''manifest.json'', bk_dumps B (manifest_to_dict m))], m))"


section \<open>Validation of an upload\<close>

datatype member_kind = RegFile | Directory | OtherKind

record tar_member =
  tm_name :: ustr
  tm_kind :: member_kind
  tm_content :: bytes

definition decrypt_upload :: "backup_lib \<Rightarrow> bytes \<Rightarrow> ustr option \<Rightarrow> backup_error + bytes" where
  "decrypt_upload B payload password =
     (if \<not> is_encrypted payload then Inr payload
      else case password of
        None \<Rightarrow> Inl (Invalid ''archive is password-encrypted; password required'')
      | Some pw \<Rightarrow>
          if pw = [] then Inl (Invalid ''archive is password-encrypted; password required'')
          else (case decrypt_archive B payload pw of
                  Inl (DecryptionError msg) \<Rightarrow> Inl (Invalid msg)
                | Inl e \<Rightarrow> Inl e
                | Inr p \<Rightarrow> Inr p))"

fun split_on :: "nat \<Rightarrow> ustr \<Rightarrow> ustr list" where
  "split_on c [] = [[]]"
| "split_on c (x # xs) =
     (if x = c then [] # split_on c xs
      else case split_on c xs of [] \<Rightarrow> [[x]] | w # ws \<Rightarrow> (x # w) # ws)"

text \<open>\<^verbatim>\<open>PurePosixPath(name).parts\<close>: empty and \<^verbatim>\<open>.\<close> components are dropped, the root is a part.\<close>

definition posix_parts :: "ustr \<Rightarrow> ustr list" where
  "posix_parts s =
     (if take 1 s = [47] then [if take 2 s = [47, 47] \<and> take 3 s \<noteq> [47, 47, 47] then [47, 47] else [47]] else []) @
     filter (\<lambda>c. c \<noteq> [] \<and> c \<noteq> [46]) (split_on 47 s)"

definition ascii_word :: "nat \<Rightarrow> bool" where
  "ascii_word c \<longleftrightarrow> (97 \<le> c \<and> c \<le> 122) \<or> (65 \<le> c \<and> c \<le> 90) \<or> (48 \<le> c \<and> c \<le> 57) \<or> c = 95 \<or> c = 45"

definition digit_char :: "backup_lib \<Rightarrow> nat \<Rightarrow> bool" where
  "digit_char B c \<longleftrightarrow> (48 \<le> c \<and> c \<le> 57) \<or> (128 \<le> c \<and> bk_digit B c)"

text \<open>\<^verbatim>\<open>-\d{8}T\d{6}Z\<close>, and the whole pattern; the dollar also matches before a final line feed.\<close>

definition stamp_ok :: "backup_lib \<Rightarrow> ustr \<Rightarrow> bool" where
  "stamp_ok B s =
     list_all2 (\<lambda>p c. p c)
       ([(=) 45] @ replicate 8 (digit_char B) @ [(=) 84] @ replicate 6 (digit_char B) @ [(=) 90]) s"

definition bundle_body :: "backup_lib \<Rightarrow> ustr \<Rightarrow> bool" where
  "bundle_body B s \<longleftrightarrow>
     take 17 s = lit ''meshpoint-backup-'' \<and> 34 < length s \<and>
     list_all ascii_word (slice 17 (length s - 17) s) \<and> stamp_ok B (last_n 17 s)"

definition bundle_dir_pattern :: "backup_lib \<Rightarrow> ustr \<Rightarrow> bool" where
  "bundle_dir_pattern B s \<longleftrightarrow> bundle_body B s \<or> (s \<noteq> [] \<and> last s = 10 \<and> bundle_body B (butlast s))"

definition reject_non_regular_members :: "tar_member list \<Rightarrow> bool" where
  "reject_non_regular_members ms \<longleftrightarrow> list_ex (\<lambda>m. tm_kind m = OtherKind) ms"

definition resolve_bundle_prefix :: "backup_lib \<Rightarrow> tar_member list \<Rightarrow> backup_error + ustr" where
  "resolve_bundle_prefix B ms =
     (case remdups (concat (map (\<lambda>m. take 1 (posix_parts (tm_name m))) ms)) of
        [prefix] \<Rightarrow>
          if bundle_dir_pattern B prefix then Inr prefix else Inl (Invalid ''unexpected bundle folder name'')
      | _ \<Rightarrow> Inl (Invalid ''archive must contain one top-level folder''))"

definition member_archive_path :: "tar_member \<Rightarrow> ustr \<Rightarrow> ustr option" where
  "member_archive_path m bundle =
     (let prefix = bundle @ [47] in
      if take (length prefix) (tm_name m) \<noteq> prefix then None
      else
        let rel = drop (length prefix) (tm_name m) in
        if rel = [] \<or> last rel = 47 then None else Some rel)"

definition find_member :: "tar_member list \<Rightarrow> ustr \<Rightarrow> tar_member option" where
  "find_member ms path = find (\<lambda>m. tm_name m = path) ms"

fun dotdot_in :: "ustr \<Rightarrow> bool" where
  "dotdot_in (x # y # s) = ((x = 46 \<and> y = 46) \<or> dotdot_in (y # s))"
| "dotdot_in _ = False"

definition is_allowed_member_path :: "ustr \<Rightarrow> bool" where
  "is_allowed_member_path path \<longleftrightarrow>
     path = lit ''manifest.json'' \<or> path = CONFIG_ARCHIVE_PATH \<or>
     (take 5 path = lit ''data/'' \<and> \<not> dotdot_in path)"

definition validate_manifest_header :: "backup_manifest \<Rightarrow> backup_error option" where
  "validate_manifest_header m =
     (if bm_format_version m \<noteq> FORMAT_VERSION then Some (Invalid ''unsupported format_version'')
      else if bm_device_id m = [] then Some (Invalid ''manifest missing device_id'')
      else None)"

fun check_members :: "ustr \<Rightarrow> ustr set \<Rightarrow> tar_member list \<Rightarrow> backup_error option" where
  "check_members bundle expected [] = None"
| "check_members bundle expected (m # ms) =
     (if tm_kind m \<noteq> RegFile then check_members bundle expected ms
      else case member_archive_path m bundle of
        None \<Rightarrow> check_members bundle expected ms
      | Some rel \<Rightarrow>
          if rel = lit ''manifest.json'' then check_members bundle expected ms
          else if \<not> is_allowed_member_path rel then Some (Invalid ''disallowed archive path'')
          else if rel \<notin> expected then Some (Invalid ''unexpected file in archive'')
          else check_members bundle expected ms)"

text \<open>\<^verbatim>\<open>extractfile\<close> gives no file for a directory.\<close>

fun check_entries :: "ustr \<Rightarrow> tar_member list \<Rightarrow> backup_entry list \<Rightarrow> backup_error option" where
  "check_entries bundle ms [] = None"
| "check_entries bundle ms (e # es) =
     (case find_member ms (bundle @ [47] @ be_path e) of
        None \<Rightarrow> Some (Invalid ''manifest entry missing from archive'')
      | Some m \<Rightarrow>
          if tm_kind m = Directory then Some (Invalid ''could not read archive member'')
          else if sha256_hex (tm_content m) \<noteq> be_sha256 e then Some (Invalid ''checksum mismatch'')
          else check_entries bundle ms es)"

definition validate_members :: "text_lib \<Rightarrow> backup_lib \<Rightarrow> tar_member list \<Rightarrow> backup_error + backup_manifest" where
  "validate_members T B ms =
     (if reject_non_regular_members ms then Inl (Invalid ''archive contains a non-regular-file member'')
      else case resolve_bundle_prefix B ms of
        Inl e \<Rightarrow> Inl e
      | Inr bundle \<Rightarrow>
          (case find_member ms (bundle @ [47] @ lit ''manifest.json'') of
             None \<Rightarrow> Inl (Invalid ''manifest.json missing'')
           | Some mm \<Rightarrow>
               if tm_kind mm = Directory then Inl (Invalid ''could not read manifest.json'')
               else
                 (case Option.bind (tl_json T (tm_content mm)) (manifest_from_dict T) of
                    None \<Rightarrow> Inl Uncaught
                  | Some manifest \<Rightarrow>
                      (case validate_manifest_header manifest of
                         Some e \<Rightarrow> Inl e
                       | None \<Rightarrow>
                           (case check_members bundle (be_path ` set (bm_entries manifest)) ms of
                              Some e \<Rightarrow> Inl e
                            | None \<Rightarrow>
                                (case check_entries bundle ms (bm_entries manifest) of
                                   Some e \<Rightarrow> Inl e
                                 | None \<Rightarrow> Inr manifest))))))"

definition MAX_UPLOAD_BYTES :: nat where
  "MAX_UPLOAD_BYTES = 500 * 1024 * 1024"

text \<open>\<open>read_tar\<close> is \<^verbatim>\<open>tarfile.open(...).getmembers()\<close> with the contents, \<open>None\<close> a \<^verbatim>\<open>TarError\<close>.\<close>

definition validate_archive_bytes ::
    "text_lib \<Rightarrow> backup_lib \<Rightarrow> (bytes \<Rightarrow> tar_member list option) \<Rightarrow> bytes \<Rightarrow> backup_error + backup_manifest" where
  "validate_archive_bytes T B read_tar payload =
     (if length payload > MAX_UPLOAD_BYTES then Inl (Invalid ''archive exceeds byte limit'')
      else if length payload < 64 then Inl (Invalid ''archive is too small'')
      else case read_tar payload of
        None \<Rightarrow> Inl (Invalid ''invalid tar archive'')
      | Some ms \<Rightarrow> validate_members T B ms)"

text \<open>The upload part of the endpoint: what is handed to the restore script, and its manifest.\<close>

definition accept_upload ::
    "text_lib \<Rightarrow> backup_lib \<Rightarrow> (bytes \<Rightarrow> tar_member list option) \<Rightarrow> bytes \<Rightarrow> ustr option \<Rightarrow>
     backup_error + bytes \<times> backup_manifest" where
  "accept_upload T B read_tar payload password =
     (case decrypt_upload B payload password of
        Inl e \<Rightarrow> Inl e
      | Inr plain \<Rightarrow>
          (case validate_archive_bytes T B read_tar plain of Inl e \<Rightarrow> Inl e | Inr m \<Rightarrow> Inr (plain, m)))"

end
