(* ===== verification/Backup_Restore.thy ===== *)
theory Backup_Restore
  imports Backup Audit_Log Py_Countable
begin

text \<open>
  The properties of backups: what is built is accepted and restored as it was, and what an
  accepted archive can contain.
\<close>

section \<open>Paths\<close>

lemma split_on_append: "c \<notin> set b \<Longrightarrow> split_on c (b @ c # p) = b # split_on c p"
  by (induction b) auto

lemma split_on_not_Nil: "split_on c s \<noteq> []"
  by (induction s) (auto split: list.splits)

lemma dotdot_Cons: "dotdot_in s \<Longrightarrow> dotdot_in (x # s)"
  by (cases s) auto

lemma dotdot_component: "[46, 46] \<in> set (split_on 47 s) \<Longrightarrow> dotdot_in s"
proof -
  have "hd (split_on 47 s) = w \<longrightarrow> (\<exists>r. s = w @ r)" for s w
    by (induction s arbitrary: w) (auto split: list.splits if_splits simp: split_on_not_Nil)
  note hd = this [rule_format]
  show "[46, 46] \<in> set (split_on 47 s) \<Longrightarrow> dotdot_in s"
  proof (induction s)
    case (Cons x s)
    show ?case
    proof (cases "x = 47")
      case True
      then show ?thesis using Cons dotdot_Cons by auto
    next
      case False
      obtain w ws where ws: "split_on 47 s = w # ws" using split_on_not_Nil by (cases "split_on 47 s") auto
      show ?thesis
      proof (cases "x # w = [46, 46]")
        case True
        then obtain r where "s = [46] @ r" using hd [of s w] ws by auto
        then show ?thesis using True by simp
      next
        case no: False
        then have "[46, 46] \<in> set ws" using Cons.prems False ws by auto
        then show ?thesis using Cons.IH ws dotdot_Cons by auto
      qed
    qed
  qed simp
qed

lemma posix_parts_under:
  assumes "47 \<notin> set b" "b \<noteq> []" "b \<noteq> [46]"
  shows "posix_parts (b @ 47 # p) = b # filter (\<lambda>c. c \<noteq> [] \<and> c \<noteq> [46]) (split_on 47 p)"
proof -
  have "take 1 (b @ 47 # p) \<noteq> [47]" using assms(1,2) by (cases b) auto
  then show ?thesis using assms split_on_append [OF assms(1), of p] by (simp add: posix_parts_def)
qed

lemma list_all2_in: "list_all2 P ps s \<Longrightarrow> c \<in> set s \<Longrightarrow> \<exists>p \<in> set ps. P p c"
  by (induction ps s rule: list_all2_induct) auto

lemma stamp_chars:
  assumes "stamp_ok B s" "c \<in> set s"
  shows "c = 45 \<or> c = 84 \<or> c = 90 \<or> digit_char B c"
  using list_all2_in [OF assms(1) [unfolded stamp_ok_def] assms(2)] by auto

lemma bundle_body_parts:
  "34 < length s \<Longrightarrow> s = take 17 s @ slice 17 (length s - 17) s @ last_n 17 s"
proof -
  assume "34 < length s"
  then have "17 + (length s - 34) = length s - 17" by simp
  then have "take (length s - 34) (drop 17 s) @ drop (length s - 17) s = drop 17 s"
    by (metis append_take_drop_id drop_drop add.commute)
  then show ?thesis by (simp add: slice_def last_n_def)
qed

lemma bundle_body_chars:
  assumes "bundle_body B s"
  shows "47 \<notin> set s" "s \<noteq> []" "s \<noteq> [46]"
proof -
  have len: "34 < length s" and pre: "take 17 s = lit ''meshpoint-backup-''"
    and mid: "list_all ascii_word (slice 17 (length s - 17) s)" and st: "stamp_ok B (last_n 17 s)"
    using assms by (auto simp: bundle_body_def)
  have "47 \<notin> set (take 17 s)" unfolding pre by (simp add: lit_def)
  moreover have "47 \<notin> set (slice 17 (length s - 17) s)"
    using mid by (auto simp: list_all_iff ascii_word_def)
  moreover have "47 \<notin> set (last_n 17 s)"
    using stamp_chars [OF st, of 47] by (auto simp: digit_char_def)
  ultimately show "47 \<notin> set s" using bundle_body_parts [OF len] by (metis Un_iff set_append)
  show "s \<noteq> []" "s \<noteq> [46]" using len by auto
qed

lemma bundle_pattern_chars:
  assumes "bundle_dir_pattern B s"
  shows "47 \<notin> set s" "s \<noteq> []" "s \<noteq> [46]"
proof -
  from assms have "bundle_body B s \<or> (s = butlast s @ [10] \<and> bundle_body B (butlast s))"
    unfolding bundle_dir_pattern_def by (metis append_butlast_last_id)
  then show "47 \<notin> set s" "s \<noteq> []" "s \<noteq> [46]"
    using bundle_body_chars [of B s] bundle_body_chars [of B "butlast s"]
    by (auto, metis (no_types, lifting) Un_iff empty_iff insert_iff list.set(1) list.simps(15) numeral_eq_iff set_append semiring_norm(88) semiring_norm(90) num.simps)
qed


section \<open>What an accepted archive can contain\<close>

lemma check_members_None:
  "check_members b X ms = None \<longleftrightarrow>
     (\<forall>m \<in> set ms. tm_kind m = RegFile \<longrightarrow> (\<forall>rel. member_archive_path m b = Some rel \<longrightarrow>
        rel = lit ''manifest.json'' \<or> (is_allowed_member_path rel \<and> rel \<in> X)))"
  by (induction ms) (auto split: option.splits)

lemma check_entries_None:
  "check_entries b ms es = None \<longleftrightarrow>
     (\<forall>e \<in> set es. \<exists>m. find_member ms (b @ [47] @ be_path e) = Some m \<and> tm_kind m \<noteq> Directory \<and>
        sha256_hex (tm_content m) = be_sha256 e)"
  by (induction es) (auto split: option.splits)

lemma resolve_prefix_Inr:
  assumes "resolve_bundle_prefix B ms = Inr b"
  shows "bundle_dir_pattern B b" "\<And>m. m \<in> set ms \<Longrightarrow> posix_parts (tm_name m) \<noteq> [] \<Longrightarrow> hd (posix_parts (tm_name m)) = b"
proof -
  let ?ps = "concat (map (\<lambda>m. take 1 (posix_parts (tm_name m))) ms)"
  have r: "remdups ?ps = [b]" and p: "bundle_dir_pattern B b"
    using assms by (auto simp: resolve_bundle_prefix_def split: list.splits if_splits)
  show "bundle_dir_pattern B b" by (rule p)
  fix m
  assume m: "m \<in> set ms" "posix_parts (tm_name m) \<noteq> []"
  then have "hd (posix_parts (tm_name m)) \<in> set (take 1 (posix_parts (tm_name m)))"
    by (cases "posix_parts (tm_name m)") auto
  then have "hd (posix_parts (tm_name m)) \<in> set ?ps" using m(1) by auto
  moreover have "set ?ps = {b}" using r by (metis empty_set list.simps(15) set_remdups)
  ultimately show "hd (posix_parts (tm_name m)) = b" by blast
qed

text \<open>The acceptance of an archive, condition by condition.\<close>

lemma validate_Inr:
  "validate_members T B ms = Inr man \<longleftrightarrow>
     (\<forall>m \<in> set ms. tm_kind m \<noteq> OtherKind) \<and>
     (\<exists>b mm. resolve_bundle_prefix B ms = Inr b \<and> find_member ms (b @ [47] @ lit ''manifest.json'') = Some mm \<and>
        tm_kind mm \<noteq> Directory \<and> Option.bind (tl_json T (tm_content mm)) (manifest_from_dict T) = Some man \<and>
        validate_manifest_header man = None \<and>
        check_members b (be_path ` set (bm_entries man)) ms = None \<and> check_entries b ms (bm_entries man) = None)"
  by (auto simp: validate_members_def reject_non_regular_members_def list_ex_iff split: sum.splits option.splits)

lemma allowed_components:
  assumes "is_allowed_member_path rel"
  shows "[46, 46] \<notin> set (split_on 47 rel)"
proof -
  have "\<not> dotdot_in (lit ''manifest.json'')" "\<not> dotdot_in CONFIG_ARCHIVE_PATH"
    by (simp_all add: lit_def CONFIG_ARCHIVE_PATH_def)
  then show ?thesis using assms dotdot_component by (auto simp: is_allowed_member_path_def)
qed

lemma find_member_SomeD: "find_member ms p = Some m \<Longrightarrow> m \<in> set ms \<and> tm_name m = p"
  using find_SomeE [of _ ms m] by (auto simp: find_member_def)

lemma member_path_Some:
  assumes "member_archive_path m b = Some rel"
  shows "tm_name m = b @ 47 # rel"
proof -
  have "take (Suc (length b)) (tm_name m) = b @ [47]" "rel = drop (Suc (length b)) (tm_name m)"
    using assms by (auto simp: member_archive_path_def Let_def split: if_splits)
  then show ?thesis using append_take_drop_id [of "Suc (length b)" "tm_name m"] by simp
qed

text \<open>C23: What an accepted archive can contain, for members whose names are written below the bundle folder.
  Every member is a plain file or a directory, below one folder with the name of a bundle. Every file whose
  name starts with that folder is the manifest, or is listed in the manifest and is the file
  \<^verbatim>\<open>config/local.yaml\<close> or a file below \<^verbatim>\<open>data/\<close>, and its path has no parent component. Every file
  the manifest lists is there, and the first member of its name has the listed checksum.\<close>

theorem restore_admits:
  assumes "validate_members T B ms = Inr man"
  shows "\<exists>b. (\<forall>m \<in> set ms. tm_kind m \<noteq> OtherKind \<and> (posix_parts (tm_name m) \<noteq> [] \<longrightarrow> hd (posix_parts (tm_name m)) = b)) \<and>
    (\<forall>m \<in> set ms. \<forall>rel. tm_kind m = RegFile \<and> member_archive_path m b = Some rel \<longrightarrow>
       [46, 46] \<notin> set (posix_parts (tm_name m)) \<and>
       (rel = lit ''manifest.json'' \<or>
        (rel = lit ''config/local.yaml'' \<or> take 5 rel = lit ''data/'') \<and> rel \<in> be_path ` set (bm_entries man))) \<and>
    (\<forall>e \<in> set (bm_entries man). \<exists>m. find_member ms (b @ [47] @ be_path e) = Some m \<and> tm_kind m = RegFile \<and>
       sha256_hex (tm_content m) = be_sha256 e)"
proof -
  obtain b where kinds: "\<forall>m \<in> set ms. tm_kind m \<noteq> OtherKind" and b: "resolve_bundle_prefix B ms = Inr b"
    and mem: "check_members b (be_path ` set (bm_entries man)) ms = None" and ent: "check_entries b ms (bm_entries man) = None"
    using assms by (auto simp: validate_Inr)
  note pat = resolve_prefix_Inr(1) [OF b]
  have "[46, 46] \<notin> set (posix_parts (tm_name m)) \<and> (rel = lit ''manifest.json'' \<or>
      (rel = lit ''config/local.yaml'' \<or> take 5 rel = lit ''data/'') \<and> rel \<in> be_path ` set (bm_entries man))"
    if m: "m \<in> set ms" "tm_kind m = RegFile" and rel: "member_archive_path m b = Some rel" for m rel
  proof -
    have ok: "is_allowed_member_path rel" "rel = lit ''manifest.json'' \<or> rel \<in> be_path ` set (bm_entries man)"
      using mem m rel by (auto simp: check_members_None is_allowed_member_path_def)
    have "tm_name m = b @ 47 # rel" using rel by (rule member_path_Some)
    then have "posix_parts (tm_name m) = b # filter (\<lambda>c. c \<noteq> [] \<and> c \<noteq> [46]) (split_on 47 rel)"
      using posix_parts_under bundle_pattern_chars [OF pat] by simp
    moreover have "34 < length b"
      using pat by (auto simp: bundle_dir_pattern_def bundle_body_def)
    then have "b \<noteq> [46, 46]" by auto
    ultimately show ?thesis using allowed_components [OF ok(1)] ok by (auto simp: is_allowed_member_path_def CONFIG_ARCHIVE_PATH_def)
  qed
  moreover have "\<exists>m. find_member ms (b @ [47] @ be_path e) = Some m \<and> tm_kind m = RegFile \<and> sha256_hex (tm_content m) = be_sha256 e"
    if "e \<in> set (bm_entries man)" for e
    using ent that kinds find_member_SomeD member_kind.exhaust unfolding check_entries_None by metis
  ultimately show ?thesis using kinds resolve_prefix_Inr(2) [OF b] by blast
qed


section \<open>A backup can be restored\<close>

text \<open>The laws of the libraries: a manifest, whose dictionaries have their keys in the order \<^verbatim>\<open>json.dumps\<close> sorts them into and
  whose texts are Unicode text, is printed and parsed back as JSON; and AES-GCM.\<close>

definition manifest_texts :: "backup_manifest \<Rightarrow> ustr list" where
  "manifest_texts m =
     [bm_meshpoint_version m, bm_created_at m, bm_device_id m, bm_device_name m] @ concat (map (\<lambda>e. [be_path e, be_sha256 e]) (bm_entries m))"

definition json_law :: "text_lib \<Rightarrow> backup_lib \<Rightarrow> bool" where
  "json_law T B \<longleftrightarrow>
     (\<forall>m. list_all (list_all scalar) (manifest_texts m) \<longrightarrow>
        tl_json T (bk_dumps B (manifest_to_dict m)) = Some (manifest_to_dict m))"

definition gcm_law :: "backup_lib \<Rightarrow> bool" where
  "gcm_law B \<longleftrightarrow> (\<forall>k n p a. bk_gcm_decrypt B k n (bk_gcm_encrypt B k n p a) a = Some p)"

text \<open>What \<^verbatim>\<open>tar.add\<close> puts into the archive for a bundle folder with these files, in some order.\<close>

definition tar_holds :: "ustr \<Rightarrow> (ustr \<times> bytes) list \<Rightarrow> tar_member list \<Rightarrow> bool" where
  "tar_holds b files ms \<longleftrightarrow>
     distinct (map tm_name ms) \<and>
     (\<forall>m \<in> set ms. (tm_kind m = Directory \<and> take 1 (posix_parts (tm_name m)) = [b]) \<or>
        (tm_kind m = RegFile \<and> (\<exists>p. (p, tm_content m) \<in> set files \<and> tm_name m = b @ 47 # p))) \<and>
     (\<forall>(p, c) \<in> set files. \<exists>m \<in> set ms. tm_kind m = RegFile \<and> tm_name m = b @ 47 # p \<and> tm_content m = c)"

text \<open>A directory tree: names without a slash, each path once; and no two dots in a row, which the
  validation takes for a parent directory.\<close>

definition tree_ok :: "data_file list \<Rightarrow> bool" where
  "tree_ok fs \<longleftrightarrow> distinct (map df_parts fs) \<and>
     (\<forall>f \<in> set fs. df_parts f \<noteq> [] \<and> (\<forall>p \<in> set (df_parts f). p \<noteq> [] \<and> 47 \<notin> set p) \<and>
        \<not> dotdot_in (join_posix (lit ''data'' # df_parts f)))"

lemma entries_round_trip: "entries_from T (map entry_to_dict es) = Some es"
  by (induction es) (simp_all add: entry_to_dict_def str_field_def int_field_def)

lemma manifest_round_trip: "manifest_from_dict T (manifest_to_dict m) = Some m"
  by (simp add: manifest_to_dict_def dget_or_def entries_round_trip str_field_def int_field_def)


lemma join_posix_Cons: "ps \<noteq> [] \<Longrightarrow> join_posix (p # ps) = p @ concat (map (\<lambda>q. 47 # q) ps)"
proof -
  have "concat (map (\<lambda>(i, p). if i = 0 then p else 47 # p) (enumerate (Suc n) ps)) = concat (map (\<lambda>q. 47 # q) ps)" for n
    by (induction ps arbitrary: n) auto
  then show ?thesis by (simp add: join_posix_def)
qed

lemma data_path:
  assumes "ps \<noteq> []" "\<forall>p \<in> set ps. p \<noteq> [] \<and> 47 \<notin> set p" "\<not> dotdot_in (join_posix (lit ''data'' # ps))"
  shows "is_allowed_member_path (join_posix (lit ''data'' # ps))" "join_posix (lit ''data'' # ps) \<noteq> []"
    "last (join_posix (lit ''data'' # ps)) \<noteq> 47" "join_posix (lit ''data'' # ps) \<noteq> lit ''manifest.json''"
proof -
  obtain q qs where ps: "ps = q # qs" using assms(1) by (cases ps) auto
  have j: "join_posix (lit ''data'' # ps) = lit ''data/'' @ q @ concat (map (\<lambda>q. 47 # q) qs)"
    using join_posix_Cons [OF assms(1)] by (simp add: ps lit_def)
  then have "take 5 (join_posix (lit ''data'' # ps)) = lit ''data/''" by (simp add: lit_def)
  then show "is_allowed_member_path (join_posix (lit ''data'' # ps))" "join_posix (lit ''data'' # ps) \<noteq> []"
    "join_posix (lit ''data'' # ps) \<noteq> lit ''manifest.json''"
    using assms(3) by (auto simp: is_allowed_member_path_def lit_def)
  have "last (q @ concat (map (\<lambda>q. 47 # q) qs)) \<noteq> 47" if "\<forall>p \<in> set (q # qs). p \<noteq> [] \<and> 47 \<notin> set p" for q qs
    using that
  proof (induction qs arbitrary: q)
    case Nil
    then show ?case by (auto dest: last_in_set)
  next
    case (Cons r qs)
    then have "last (r @ concat (map (\<lambda>q. 47 # q) qs)) \<noteq> 47" "r \<noteq> []" by simp_all
    then show ?case by simp
  qed
  then have "last (q @ concat (map (\<lambda>q. 47 # q) qs)) \<noteq> 47" using assms(2) ps by blast
  moreover have "q \<noteq> []" using assms(2) ps by simp
  ultimately show "last (join_posix (lit ''data'' # ps)) \<noteq> 47" by (simp add: j)
qed

lemma data_tree_paths:
  assumes "tree_ok fs" "(p, c) \<in> set (add_data_tree snap db fs)"
  shows "is_allowed_member_path p" "p \<noteq> []" "last p \<noteq> 47" "p \<noteq> lit ''manifest.json''"
proof -
  obtain f where f: "f \<in> set fs" "p = join_posix (lit ''data'' # df_parts f)"
    using assms(2) by (auto simp: add_data_tree_def iter_included_data_files_def)
  have "df_parts f \<noteq> []" "\<forall>p \<in> set (df_parts f). p \<noteq> [] \<and> 47 \<notin> set p"
      "\<not> dotdot_in (join_posix (lit ''data'' # df_parts f))"
    using assms(1) f(1) by (simp_all add: tree_ok_def)
  then show "is_allowed_member_path p" "p \<noteq> []" "last p \<noteq> 47" "p \<noteq> lit ''manifest.json''"
    unfolding f(2) by (rule data_path)+
qed

lemma config_path: "is_allowed_member_path CONFIG_ARCHIVE_PATH" "CONFIG_ARCHIVE_PATH \<noteq> []"
  "last CONFIG_ARCHIVE_PATH \<noteq> 47" "CONFIG_ARCHIVE_PATH \<noteq> lit ''manifest.json''"
  by (simp_all add: is_allowed_member_path_def CONFIG_ARCHIVE_PATH_def lit_def)

lemma find_member_unique:
  assumes "distinct (map tm_name ms)" "m \<in> set ms" "tm_name m = p"
  shows "find_member ms p = Some m"
proof -
  obtain m' where "find_member ms p = Some m'"
    using assms(2,3) by (cases "find_member ms p") (auto simp: find_member_def find_None_iff)
  moreover from this have "m' \<in> set ms" "tm_name m' = p" using find_member_SomeD by auto
  moreover have "inj_on tm_name (set ms)" using assms(1) by (simp add: distinct_map)
  ultimately show ?thesis using assms(2,3) by (auto dest: inj_onD)
qed

definition device_ok :: "backup_input \<Rightarrow> bool" where
  "device_ok i \<longleftrightarrow> bi_device_id i \<noteq> [] \<and> list_all ascii_word (take 8 (bi_device_id i))"

lemma bundle_name_ok:
  assumes "device_ok i" "stamp_ok B (45 # bi_stamp i)"
  shows "bundle_dir_pattern B (bundle_name i)"
proof -
  have len: "length (bi_stamp i) = 16" using assms(2) unfolding stamp_ok_def by (auto dest: list_all2_lengthD)
  define d where "d = take 8 (bi_device_id i)"
  have b: "bundle_name i = lit ''meshpoint-backup-'' @ d @ 45 # bi_stamp i"
    using assms(1) by (simp add: bundle_name_def device_ok_def d_def lit_def)
  have "d \<noteq> []" "list_all ascii_word d" using assms(1) by (auto simp: device_ok_def d_def)
  moreover have "length (lit ''meshpoint-backup-'') = 17" by (simp add: lit_def)
  ultimately have "bundle_body B (bundle_name i)"
    using assms(2) len unfolding bundle_body_def b
    by (simp add: slice_def last_n_def)
  then show ?thesis by (simp add: bundle_dir_pattern_def)
qed

lemma remdups_singleton: "xs \<noteq> [] \<Longrightarrow> set xs \<subseteq> {b} \<Longrightarrow> remdups xs = [b]"
proof (induction xs)
  case (Cons x xs)
  then show ?case by (cases xs) auto
qed simp

lemma tar_holds_prefix:
  assumes "tar_holds b files ms" "files \<noteq> []" "bundle_dir_pattern B b"
  shows "resolve_bundle_prefix B ms = Inr b"
proof -
  let ?ps = "concat (map (\<lambda>m. take 1 (posix_parts (tm_name m))) ms)"
  have p: "take 1 (posix_parts (tm_name m)) = [b]" if "m \<in> set ms" for m
    using assms(1) that posix_parts_under bundle_pattern_chars [OF assms(3)] by (fastforce simp: tar_holds_def)
  have "ms \<noteq> []" using assms(1,2) by (cases files) (auto simp: tar_holds_def)
  then have "?ps \<noteq> []" using p by (cases ms) auto
  moreover have "set ?ps \<subseteq> {b}" using p by auto
  ultimately have "remdups ?ps = [b]" by (rule remdups_singleton)
  then show ?thesis using assms(3) by (simp add: resolve_bundle_prefix_def)
qed

lemma built_archive_validates:
  assumes "json_law T B" and build: "build_bundle B snap i = Some (files, man)"
    and tree: "tree_ok (bi_data_files i)" and dev: "device_ok i" and st: "stamp_ok B (45 # bi_stamp i)"
    and tar: "tar_holds (bundle_name i) files ms" and texts: "list_all (list_all scalar) (manifest_texts man)"
  shows "validate_members T B ms = Inr man"
proof -
  let ?b = "bundle_name i"
  obtain cfg where cfg: "bi_local_config i = Some cfg" using build by (auto simp: build_bundle_def split: option.splits)
  define body where "body = (CONFIG_ARCHIVE_PATH, cfg) # add_data_tree snap (bi_db_name i) (bi_data_files i)"
  have files: "files = body @ [(lit ''manifest.json'', bk_dumps B (manifest_to_dict man))]"
    and ents: "bm_entries man = map entry_from_file body" and hdr: "bm_format_version man = FORMAT_VERSION" "bm_device_id man = bi_device_id i"
    using build cfg by (auto simp: build_bundle_def Let_def body_def)
  have dist: "distinct (map tm_name ms)" using tar by (simp add: tar_holds_def)
  have found: "\<exists>m. find_member ms (?b @ [47] @ p) = Some m \<and> tm_kind m = RegFile \<and> tm_content m = c" if "(p, c) \<in> set files" for p c
    using tar that find_member_unique [OF dist] unfolding tar_holds_def by fastforce
  obtain mm where mm: "find_member ms (?b @ [47] @ lit ''manifest.json'') = Some mm" "tm_kind mm = RegFile"
      "tm_content mm = bk_dumps B (manifest_to_dict man)"
    using found [of "lit ''manifest.json''"] files by auto
  have body_ok: "is_allowed_member_path p \<and> p \<noteq> [] \<and> last p \<noteq> 47" if "(p, c) \<in> set body" for p c
    using that data_tree_paths(1-3) [OF tree, of p c] config_path unfolding body_def by fastforce
  have "check_members ?b (be_path ` set (bm_entries man)) ms = None"
    unfolding check_members_None
  proof (intro ballI allI impI)
    fix m rel
    assume m: "m \<in> set ms" "tm_kind m = RegFile" "member_archive_path m ?b = Some rel"
    then have "tm_name m = ?b @ 47 # rel" by (intro member_path_Some)
    then have "(rel, tm_content m) \<in> set files" using tar m(1,2) unfolding tar_holds_def by fastforce
    then have "rel = lit ''manifest.json'' \<or> (rel, tm_content m) \<in> set body" by (auto simp: files)
    then show "rel = lit ''manifest.json'' \<or> is_allowed_member_path rel \<and> rel \<in> be_path ` set (bm_entries man)"
      using body_ok by (force simp: ents entry_from_file_def image_image)
  qed
  moreover have "check_entries ?b ms (bm_entries man) = None"
    unfolding check_entries_None
  proof
    fix e
    assume "e \<in> set (bm_entries man)"
    then obtain p c where pc: "(p, c) \<in> set body" "e = entry_from_file (p, c)" by (auto simp: ents)
    then show "\<exists>m. find_member ms (?b @ [47] @ be_path e) = Some m \<and> tm_kind m \<noteq> Directory \<and> sha256_hex (tm_content m) = be_sha256 e"
      using found [of p c] by (auto simp: files entry_from_file_def)
  qed
  moreover have "validate_manifest_header man = None"
    using hdr dev by (simp add: validate_manifest_header_def device_ok_def)
  moreover have "Option.bind (tl_json T (tm_content mm)) (manifest_from_dict T) = Some man"
    using assms(1) mm(3) texts by (simp add: json_law_def manifest_round_trip)
  moreover have "resolve_bundle_prefix B ms = Inr ?b"
    using tar_holds_prefix [OF tar _ bundle_name_ok [OF dev st]] by (simp add: files)
  moreover have "\<forall>m \<in> set ms. tm_kind m \<noteq> OtherKind" using tar by (auto simp: tar_holds_def)
  ultimately show ?thesis unfolding validate_Inr using mm by auto
qed


section \<open>Encryption\<close>

lemma length_MAGIC: "length MAGIC = 8"
  by (simp add: MAGIC_def)

lemma header_round_trip:
  assumes "length (eh_salt h) = 16" "length (eh_nonce h) = 12" "eh_version h = 1"
  shows "length (pack_header h) = 40" "unpack_header (pack_header h @ rest) = Inr h"
    "is_encrypted (pack_header h @ rest)"
proof -
  show len: "length (pack_header h) = 40" by (simp add: pack_header_def length_MAGIC assms)
  have nths: "pack_header h ! 8 = eh_version h" "pack_header h ! 9 = eh_n_log2 h" "pack_header h ! 10 = eh_r h"
      "pack_header h ! 11 = eh_p h"
    by (simp_all add: pack_header_def nth_append length_MAGIC)
  have "slice 12 28 (pack_header h) = eh_salt h" "slice 28 40 (pack_header h) = eh_nonce h" "take 8 (pack_header h) = MAGIC"
    by (simp_all add: pack_header_def slice_def length_MAGIC assms)
  then show "unpack_header (pack_header h @ rest) = Inr h"
    using nths assms(3) len by (simp add: unpack_header_def Let_def)
  show "is_encrypted (pack_header h @ rest)" by (simp add: is_encrypted_def pack_header_def)
qed

lemma decrypt_encrypt:
  assumes "gcm_law B" "length salt = 16" "length nonce = 12" "encrypt_archive B salt nonce plain pw = Inr enc"
  shows "decrypt_upload B enc (Some pw) = Inr plain" "is_encrypted enc"
proof -
  define h where "h = \<lparr>eh_version = 1, eh_n_log2 = 14, eh_r = 8, eh_p = 1, eh_salt = salt, eh_nonce = nonce\<rparr>"
  obtain key where key: "derive_key B pw h = Some key" "backup_password_ok pw"
      "enc = pack_header h @ bk_gcm_encrypt B key nonce plain (pack_header h)"
    using assms(4) by (auto simp: encrypt_archive_def Let_def h_def split: if_splits option.splits)
  have hd: "length (eh_salt h) = 16" "length (eh_nonce h) = 12" "eh_version h = 1" "eh_nonce h = nonce"
    using assms(2,3) by (simp_all add: h_def)
  note rt = header_round_trip [OF hd(1-3)]
  show enc: "is_encrypted enc" using rt(3) by (simp add: key(3))
  have "decrypt_archive B enc pw = Inr plain"
    using rt(1,2) key(1) assms(1) hd(4) by (simp add: decrypt_archive_def key(3) gcm_law_def)
  moreover have "pw \<noteq> []" using key(2) by (auto simp: backup_password_ok_def)
  ultimately show "decrypt_upload B enc (Some pw) = Inr plain" using enc by (simp add: decrypt_upload_def)
qed

text \<open>C22: A backup can be restored. If no path of the data directory has two dots in a row, the device has an
  identifier of word characters, the names are Unicode text and the archive has at most 500 MB, then, whatever
  the configuration and the files hold and whichever way the members are ordered, the archive that is
  built for them is accepted when it is uploaded again, with the manifest it was built with; and so is
  the encrypted download with its password, from which exactly the archive comes back.\<close>

theorem backup_restores:
  assumes "json_law T B" "gcm_law B" "build_bundle B snap i = Some (files, man)"
    and "tree_ok (bi_data_files i)" "device_ok i" "stamp_ok B (45 # bi_stamp i)"
    and "tar_holds (bundle_name i) files ms" "read_tar archive = Some ms"
    and "64 \<le> length archive" "length archive \<le> MAX_UPLOAD_BYTES" "\<not> is_encrypted archive"
    and "length salt = 16" "length nonce = 12" "encrypt_archive B salt nonce archive pw = Inr enc"
    and "list_all (list_all scalar) (manifest_texts man)"
  shows "accept_upload T B read_tar archive None = Inr (archive, man) \<and>
    accept_upload T B read_tar enc (Some pw) = Inr (archive, man)"
proof -
  have "validate_archive_bytes T B read_tar archive = Inr man"
    using built_archive_validates [OF assms(1,3-7,15)] assms(8-10) by (simp add: validate_archive_bytes_def)
  then show ?thesis
    using decrypt_encrypt [OF assms(2,12-14)] assms(11) by (simp add: accept_upload_def decrypt_upload_def)
qed


section \<open>What the checks do not see\<close>

text \<open>A member whose name starts with \<^verbatim>\<open>./\<close> names the same folder, but is none of the files the checks
  look at; and of two members with one name the first is checked, while the last one is left after
  extraction.\<close>

definition plain_member :: "ustr \<Rightarrow> bytes \<Rightarrow> tar_member" where
  "plain_member n c = \<lparr>tm_name = n, tm_kind = RegFile, tm_content = c\<rparr>"

definition empty_manifest :: backup_manifest where
  "empty_manifest = \<lparr>bm_format_version = 1, bm_meshpoint_version = [], bm_created_at = [], bm_device_id = lit ''d'',
     bm_device_name = [], bm_entries = [], bm_total_bytes = 0\<rparr>"

lemma scalar_lit: "list_all (\<lambda>c. (of_char c :: nat) < 128) s \<Longrightarrow> list_all scalar (lit s)"
  by (auto simp: list_all_iff lit_def scalar_def)

lemma scalar_sha256_hex: "list_all scalar (sha256_hex b)"
  by (simp add: sha256_hex_def scalar_bytes_hex)

lemma empty_manifest_texts: "list_all (list_all scalar) (manifest_texts empty_manifest)"
  by (simp add: manifest_texts_def empty_manifest_def scalar_lit)

lemma unlisted_member_accepted:
  assumes "json_law T B" "bundle_dir_pattern B b"
  shows "validate_members T B
     [plain_member (b @ 47 # lit ''manifest.json'') (bk_dumps B (manifest_to_dict empty_manifest)),
      plain_member (46 # 47 # b @ 47 # lit ''config/local.yaml'') evil] = Inr empty_manifest"
    and "posix_parts (46 # 47 # b @ 47 # lit ''config/local.yaml'') = [b, lit ''config'', lit ''local.yaml'']"
proof -
  note b = bundle_pattern_chars [OF assms(2)]
  have sp: "split_on 47 (46 # 47 # b @ 47 # s) = [46] # b # split_on 47 s" for s
    using split_on_append [OF b(1), of s] by simp
  have sy: "split_on 47 (lit ''config/local.yaml'') = [lit ''config'', lit ''local.yaml'']"
    "split_on 47 (lit ''manifest.json'') = [lit ''manifest.json'']" by (simp_all add: lit_def)
  show p: "posix_parts (46 # 47 # b @ 47 # lit ''config/local.yaml'') = [b, lit ''config'', lit ''local.yaml'']"
    using b sp [of "lit ''config/local.yaml''"] sy by (simp add: posix_parts_def lit_def)
  have q: "posix_parts (b @ 47 # lit ''manifest.json'') = [b, lit ''manifest.json'']"
    using posix_parts_under [OF b] sy(2) by (simp add: lit_def)
  obtain x xs where bx: "b = x # xs" using b(2) by (cases b) auto
  have x: "x \<noteq> 46" using assms(2) by (auto simp: bx bundle_dir_pattern_def bundle_body_def lit_def split: if_splits)
  have nm: "member_archive_path (plain_member (46 # 47 # b @ 47 # lit ''config/local.yaml'') evil) b = None"
    using x by (simp add: member_archive_path_def plain_member_def bx)
  have mf: "member_archive_path (plain_member (b @ 47 # lit ''manifest.json'') c) b = Some (lit ''manifest.json'')" for c
    by (simp add: member_archive_path_def plain_member_def lit_def)
  let ?ms = "[plain_member (b @ 47 # lit ''manifest.json'') (bk_dumps B (manifest_to_dict empty_manifest)),
      plain_member (46 # 47 # b @ 47 # lit ''config/local.yaml'') evil]"
  have fld: "tm_name (plain_member n c) = n" "tm_kind (plain_member n c) = RegFile" "tm_content (plain_member n c) = c" for n c
    by (simp_all add: plain_member_def)
  have "Option.bind (tl_json T (bk_dumps B (manifest_to_dict empty_manifest))) (manifest_from_dict T) = Some empty_manifest"
    using assms(1) empty_manifest_texts by (simp add: json_law_def manifest_round_trip)
  moreover have "validate_manifest_header empty_manifest = None"
    by (simp add: validate_manifest_header_def empty_manifest_def FORMAT_VERSION_def lit_def)
  moreover have "resolve_bundle_prefix B ?ms = Inr b"
    using p q assms(2) by (simp add: resolve_bundle_prefix_def fld)
  moreover have "find_member ?ms (b @ [47] @ lit ''manifest.json'') =
      Some (plain_member (b @ 47 # lit ''manifest.json'') (bk_dumps B (manifest_to_dict empty_manifest)))"
    by (simp add: find_member_def fld)
  moreover have "check_entries b ?ms (bm_entries empty_manifest) = None" by (simp add: empty_manifest_def)
  moreover have "check_members b (be_path ` set (bm_entries empty_manifest)) ?ms = None"
    unfolding check_members_None using mf nm by simp
  ultimately show "validate_members T B ?ms = Inr empty_manifest"
    unfolding validate_Inr using fld by (auto simp: plain_member_def)
qed

lemma duplicate_member_accepted:
  assumes "json_law T B" "bundle_dir_pattern B b"
    and "man = empty_manifest\<lparr>bm_entries := [entry_from_file (CONFIG_ARCHIVE_PATH, good)]\<rparr>"
  shows "validate_members T B
     [plain_member (b @ 47 # lit ''manifest.json'') (bk_dumps B (manifest_to_dict man)),
      plain_member (b @ 47 # CONFIG_ARCHIVE_PATH) good, plain_member (b @ 47 # CONFIG_ARCHIVE_PATH) evil] = Inr man"
proof -
  note b = bundle_pattern_chars [OF assms(2)]
  have q: "take 1 (posix_parts (b @ 47 # s)) = [b]" for s
    using posix_parts_under [OF b] by simp
  let ?ms = "[plain_member (b @ 47 # lit ''manifest.json'') (bk_dumps B (manifest_to_dict man)),
      plain_member (b @ 47 # CONFIG_ARCHIVE_PATH) good, plain_member (b @ 47 # CONFIG_ARCHIVE_PATH) evil]"
  have mf: "member_archive_path (plain_member (b @ 47 # s) c) b = (if s = [] \<or> last s = 47 then None else Some s)" for s c
    by (simp add: member_archive_path_def plain_member_def)
  have nm: "tm_name (plain_member n c) = n" "tm_kind (plain_member n c) = RegFile" "tm_content (plain_member n c) = c" for n c
    by (simp_all add: plain_member_def)
  have ent: "bm_entries man = [entry_from_file (CONFIG_ARCHIVE_PATH, good)]" by (simp add: assms(3))
  have texts: "list_all (list_all scalar) (manifest_texts man)"
    using empty_manifest_texts
    by (simp add: assms(3) manifest_texts_def entry_from_file_def scalar_sha256_hex CONFIG_ARCHIVE_PATH_def scalar_lit)
  have "Option.bind (tl_json T (bk_dumps B (manifest_to_dict man))) (manifest_from_dict T) = Some man"
    using assms(1) texts by (simp add: json_law_def manifest_round_trip)
  moreover have "validate_manifest_header man = None"
    by (simp add: assms(3) validate_manifest_header_def empty_manifest_def FORMAT_VERSION_def lit_def)
  moreover have "resolve_bundle_prefix B ?ms = Inr b"
    using q assms(2) by (simp add: resolve_bundle_prefix_def nm del: One_nat_def)
  moreover have "find_member ?ms (b @ [47] @ lit ''manifest.json'') =
      Some (plain_member (b @ 47 # lit ''manifest.json'') (bk_dumps B (manifest_to_dict man)))"
    by (simp add: find_member_def nm)
  moreover have "find_member ?ms (b @ [47] @ CONFIG_ARCHIVE_PATH) = Some (plain_member (b @ 47 # CONFIG_ARCHIVE_PATH) good)"
    using config_path(4) by (simp add: find_member_def nm)
  then have "check_entries b ?ms (bm_entries man) = None"
    unfolding check_entries_None ent by (simp add: entry_from_file_def nm)
  moreover have "check_members b (be_path ` set (bm_entries man)) ?ms = None"
    unfolding check_members_None ent using config_path mf by (simp add: entry_from_file_def)
  ultimately show ?thesis unfolding validate_Inr using nm by (auto simp: plain_member_def)
qed

text \<open>C24: The checks can be passed by. For every bundle folder name and every content there is an
  archive that is accepted although it extracts that content as the configuration file and its
  manifest lists nothing: the member's name starts with \<^verbatim>\<open>./\<close>, so that neither the allowed paths
  nor the checksums are looked at.\<close>

theorem restore_checks_passed_by:
  assumes "json_law T B" "bundle_dir_pattern B b"
  shows "\<exists>ms man. validate_members T B ms = Inr man \<and> bm_entries man = [] \<and>
    (\<exists>m \<in> set ms. tm_kind m = RegFile \<and> tm_content m = evil \<and>
       posix_parts (tm_name m) = [b, lit ''config'', lit ''local.yaml''])"
proof (intro exI conjI)
  show "validate_members T B
     [plain_member (b @ 47 # lit ''manifest.json'') (bk_dumps B (manifest_to_dict empty_manifest)),
      plain_member (46 # 47 # b @ 47 # lit ''config/local.yaml'') evil] = Inr empty_manifest"
    by (rule unlisted_member_accepted(1) [OF assms])
  show "bm_entries empty_manifest = []" by (simp add: empty_manifest_def)
qed (use unlisted_member_accepted(2) [OF assms] in \<open>simp add: plain_member_def\<close>)


section \<open>Examples\<close>

definition toy_text_lib :: text_lib where
  "toy_text_lib = \<lparr>tl_json = \<lambda>b. Some (from_nat (length b)), tl_str = \<lambda>_. [], tl_int = \<lambda>_. None,
     tl_float = \<lambda>_. None, tl_lower = id, tl_is_hex = \<lambda>_. False\<rparr>"

definition toy_backup_lib :: backup_lib where
  "toy_backup_lib = \<lparr>bk_kdf = \<lambda>pw s n r p. Some pw, bk_gcm_encrypt = \<lambda>k n p a. p, bk_gcm_decrypt = \<lambda>k n c a. Some c,
     bk_dumps = \<lambda>v. replicate (to_nat v) 0, bk_digit = \<lambda>_. False\<rparr>"

lemma toy_backup_laws: "json_law toy_text_lib toy_backup_lib" "gcm_law toy_backup_lib"
  by (simp_all add: json_law_def gcm_law_def toy_text_lib_def toy_backup_lib_def)

definition toy_input :: backup_input where
  "toy_input = \<lparr>bi_local_config = Some [1], bi_data_files = [\<lparr>df_parts = [lit ''a.db''], df_content = [2], df_is_file = True\<rparr>],
     bi_db_name = lit ''a.db'', bi_device_id = lit ''dev'', bi_device_name = [], bi_version = [], bi_created_at = [],
     bi_stamp = lit ''20240101T000000Z''\<rparr>"

lemma toy_stamp: "stamp_ok toy_backup_lib (45 # bi_stamp toy_input)"
  by (simp add: stamp_ok_def toy_input_def lit_def digit_char_def numeral_eq_Suc)

lemma toy_tree: "tree_ok (bi_data_files toy_input)"
  by (simp add: tree_ok_def toy_input_def lit_def join_posix_def)

lemma toy_device: "device_ok toy_input"
  by (simp add: device_ok_def toy_input_def lit_def ascii_word_def)

theorem restore_checks_passed_by_witness:
  "\<exists>ms man. validate_members toy_text_lib toy_backup_lib ms = Inr man \<and> bm_entries man = [] \<and>
    (\<exists>m. m \<in> set ms \<and> tm_kind m = RegFile \<and> tm_content m = [6, 6, 6] \<and>
       posix_parts (tm_name m) = [bundle_name toy_input, lit ''config'', lit ''local.yaml''])"
proof -
  have "bundle_dir_pattern toy_backup_lib (bundle_name toy_input)" using toy_device toy_stamp by (rule bundle_name_ok)
  from restore_checks_passed_by [OF toy_backup_laws(1) this, of "[6, 6, 6]"] show ?thesis by blast
qed

lemma toy_bundle:
  obtains files man ms where "build_bundle toy_backup_lib id toy_input = Some (files, man)"
    "tar_holds (bundle_name toy_input) files ms" "bm_entries man \<noteq> []" "list_all (list_all scalar) (manifest_texts man)"
proof -
  obtain files man where b: "build_bundle toy_backup_lib id toy_input = Some (files, man)"
    by (simp add: build_bundle_def toy_input_def Let_def)
  have keys: "map fst files = [lit ''config/local.yaml'', lit ''data/a.db'', lit ''manifest.json'']"
    using b by (auto simp: build_bundle_def toy_input_def Let_def add_data_tree_def iter_included_data_files_def
        CONFIG_ARCHIVE_PATH_def join_posix_def lit_def excluded_data_dir_def)
  have ne: "bm_entries man \<noteq> []"
    using b by (auto simp: build_bundle_def toy_input_def Let_def)
  define ms where "ms = map (\<lambda>(p, c). plain_member (bundle_name toy_input @ 47 # p) c) files"
  have "distinct (map fst files)" unfolding keys by (simp add: lit_def)
  then have "distinct (map tm_name ms)"
    by (force simp: ms_def plain_member_def distinct_map inj_on_def)
  then have "tar_holds (bundle_name toy_input) files ms"
    by (force simp: tar_holds_def ms_def plain_member_def)
  moreover have "list_all (list_all scalar) (manifest_texts man)"
    using b by (auto simp: build_bundle_def toy_input_def Let_def add_data_tree_def iter_included_data_files_def manifest_texts_def
        CONFIG_ARCHIVE_PATH_def join_posix_def excluded_data_dir_def entry_from_file_def scalar_sha256_hex scalar_lit scalar_def)
  ultimately show ?thesis using that b ne by blast
qed

theorem backup_restores_witness:
  "\<exists>read_tar archive man enc. bm_entries man \<noteq> [] \<and>
     accept_upload toy_text_lib toy_backup_lib read_tar archive None = Inr (archive, man) \<and>
     accept_upload toy_text_lib toy_backup_lib read_tar enc (Some (lit ''password'')) = Inr (archive, man)"
proof -
  obtain files man ms where b: "build_bundle toy_backup_lib id toy_input = Some (files, man)"
      and t: "tar_holds (bundle_name toy_input) files ms" and ne: "bm_entries man \<noteq> []"
      and texts: "list_all (list_all scalar) (manifest_texts man)"
    using toy_bundle by blast
  define archive :: bytes where "archive = replicate 64 0"
  have len: "64 \<le> length archive" "length archive \<le> MAX_UPLOAD_BYTES" "\<not> is_encrypted archive"
    by (simp_all add: archive_def MAX_UPLOAD_BYTES_def is_encrypted_def MAGIC_def)
  obtain pw where "utf8_encode (lit ''password'') = Some pw" using utf8_encode_lit [of "''password''"] by simp
  then have kd: "derive_key toy_backup_lib (lit ''password'') h = Some pw" for h
    by (simp add: derive_key_def toy_backup_lib_def)
  have ok: "backup_password_ok (lit ''password'')" by (simp add: backup_password_ok_def lit_def)
  obtain enc where enc: "encrypt_archive toy_backup_lib (replicate 16 0) (replicate 12 0) archive (lit ''password'') = Inr enc"
    by (simp add: encrypt_archive_def ok kd Let_def)
  have "accept_upload toy_text_lib toy_backup_lib (\<lambda>_. Some ms) archive None = Inr (archive, man) \<and>
     accept_upload toy_text_lib toy_backup_lib (\<lambda>_. Some ms) enc (Some (lit ''password'')) = Inr (archive, man)"
    by (rule backup_restores [OF toy_backup_laws b toy_tree toy_device toy_stamp t _ len _ _ enc texts]) simp_all
  then show ?thesis using ne by blast
qed

theorem restore_admits_witness:
  "\<exists>ms man b e m. validate_members toy_text_lib toy_backup_lib ms = Inr man \<and> e \<in> set (bm_entries man) \<and>
     find_member ms (b @ [47] @ be_path e) = Some m \<and> sha256_hex (tm_content m) = be_sha256 e"
proof -
  obtain files man ms where b: "build_bundle toy_backup_lib id toy_input = Some (files, man)"
      and t: "tar_holds (bundle_name toy_input) files ms" and ne: "bm_entries man \<noteq> []"
      and texts: "list_all (list_all scalar) (manifest_texts man)"
    using toy_bundle by blast
  have v: "validate_members toy_text_lib toy_backup_lib ms = Inr man"
    by (rule built_archive_validates [OF toy_backup_laws(1) b toy_tree toy_device toy_stamp t texts])
  obtain e where e: "e \<in> set (bm_entries man)" using ne by (cases "bm_entries man") auto
  obtain b' where "\<forall>e \<in> set (bm_entries man). \<exists>m. find_member ms (b' @ [47] @ be_path e) = Some m \<and> tm_kind m = RegFile \<and>
       sha256_hex (tm_content m) = be_sha256 e"
    using restore_admits [OF v] by (elim exE conjE)
  then show ?thesis using v e by blast
qed

end
