(* ===== verification/Plugins.thy ===== *)
theory Plugins
  imports Backup
begin

text \<open>
  \<^verbatim>\<open>src/src/plugins/\<close>: the manifest of a plugin (\<^verbatim>\<open>manifest.py\<close>), finding, loading and registering plugins
  (\<^verbatim>\<open>loader.py\<close>, \<^verbatim>\<open>registry.py\<close>), their assets (\<^verbatim>\<open>assets.py\<close>), and installing one from the archive of a source
  repository (\<^verbatim>\<open>sources.py\<close>, \<^verbatim>\<open>installer.py\<close>).

  \<^item> The TOML and JSON parsers, the tar format and the network are parameters: a plugin folder comes with what
    reading its manifest gave, which of its files exist and where its paths lead after following links.
  \<^item> An error is its code; \<open>Crash\<close> stands for an exception the callers do not expect (a lookup of a list in a set).
\<close>

datatype plugin_error = PluginError string | Crash

section \<open>Regular expressions\<close>

definition lower_alnum :: "nat \<Rightarrow> bool" where
  "lower_alnum c \<longleftrightarrow> (97 \<le> c \<and> c \<le> 122) \<or> (48 \<le> c \<and> c \<le> 57)"

text \<open>\<^verbatim>\<open>^[a-z0-9][a-z0-9-]{lo,hi}$\<close>; the dollar also matches before a final line feed.\<close>

definition slug_body :: "nat \<Rightarrow> nat \<Rightarrow> ustr \<Rightarrow> bool" where
  "slug_body lo hi s \<longleftrightarrow>
     (case s of [] \<Rightarrow> False
      | c # cs \<Rightarrow> lower_alnum c \<and> lo \<le> length cs \<and> length cs \<le> hi \<and> list_all (\<lambda>x. lower_alnum x \<or> x = 45) cs)"

definition slug_match :: "nat \<Rightarrow> nat \<Rightarrow> ustr \<Rightarrow> bool" where
  "slug_match lo hi s \<longleftrightarrow> slug_body lo hi s \<or> (s \<noteq> [] \<and> last s = 10 \<and> slug_body lo hi (butlast s))"

definition SLUG_RE :: "ustr \<Rightarrow> bool" where
  "SLUG_RE = slug_match 1 38"

definition ROUTE_RE :: "ustr \<Rightarrow> bool" where
  "ROUTE_RE = slug_match 0 58"


section \<open>Manifest\<close>

definition PLUGIN_API_VERSION :: int where
  "PLUGIN_API_VERSION = 1"

definition KNOWN_PROVIDES :: "string list" where
  "KNOWN_PROVIDES = [''listener'', ''routes'', ''panel'', ''sidebar'', ''hook'', ''capture'', ''protocol'', ''topbar'', ''service'']"

definition KNOWN_SIDEBAR_CATEGORIES :: "string list" where
  "KNOWN_SIDEBAR_CATEGORIES = [''top'', ''networks'', ''radio'', ''ops'', ''configuration'', ''settings'']"

definition KNOWN_SIDEBAR_ICONS :: "string list" where
  "KNOWN_SIDEBAR_ICONS =
     [''plug'', ''antenna'', ''chart'', ''message'', ''terminal'', ''map'', ''list'', ''grid'',
      ''topology'', ''rf'', ''pager'', ''dapnet'', ''reticulum'', ''lorawan'', ''gear'', ''usb'',
      ''bluetooth'', ''wifi'', ''network'', ''radio'', ''satellite'', ''satellite-dish'',
      ''signal'', ''cpu'', ''server'', ''monitor'', ''battery'', ''thermometer'', ''zap'',
      ''plane'', ''ship'', ''car'', ''train'', ''cloud'', ''sun'', ''wind'', ''globe'',
      ''compass'', ''navigation'', ''bell'', ''camera'', ''mic'', ''headphones'', ''music'',
      ''phone'', ''users'', ''shield'', ''lock'', ''clock'', ''calendar'', ''database'',
      ''folder'', ''download'', ''activity'', ''eye'', ''star'', ''flag'', ''wrench'',
      ''code'', ''book'', ''home'', ''search'']"

datatype plugin_source = Builtin | Community

record sidebar_spec =
  sb_route :: ustr
  sb_label :: ustr
  sb_category :: ustr
  sb_icon :: ustr

datatype toml_read = TomlMissing | TomlUnreadable | TomlData pydict

text \<open>A plugin folder: its name, its manifest, the relative paths that are files, the parts of its
  resolved path, and where a relative path leads.\<close>

record plugin_folder =
  pf_dir_name :: ustr
  pf_toml :: toml_read
  pf_is_file :: "ustr \<Rightarrow> bool"
  pf_root :: "ustr list"
  pf_resolve :: "ustr \<Rightarrow> ustr list"

record plugin_manifest =
  pm_name :: ustr
  pm_version :: ustr
  pm_api_version :: int
  pm_provides :: "pyval list"
  pm_apt :: "pyval list"
  pm_setup :: "ustr option"
  pm_check :: "ustr option"
  pm_description :: ustr
  pm_homepage :: ustr
  pm_author :: ustr
  pm_scripts :: "ustr list"
  pm_styles :: "ustr list"
  pm_folder :: plugin_folder
  pm_source :: plugin_source
  pm_locked :: bool
  pm_sidebar :: "sidebar_spec option"
  pm_hook :: "ustr option"
  pm_requires :: "ustr option"

fun is_str :: "pyval \<Rightarrow> bool" where
  "is_str (PStr s) = True"
| "is_str _ = False"

fun str_val :: "pyval \<Rightarrow> ustr" where
  "str_val (PStr s) = s"
| "str_val _ = []"

fun hashable :: "pyval \<Rightarrow> bool" where
  "hashable (PList xs) = False"
| "hashable (PDict d) = False"
| "hashable _ = True"

definition strip_u :: "ustr \<Rightarrow> ustr" where
  "strip_u = ustrip uni_space"

definition str_field_of :: "pydict \<Rightarrow> string \<Rightarrow> string \<Rightarrow> plugin_error + ustr" where
  "str_field_of table key code =
     (case dget_or key (PStr []) table of PStr s \<Rightarrow> Inr s | _ \<Rightarrow> Inl (PluginError code))"

definition strict_prefix_of :: "'a list \<Rightarrow> 'a list \<Rightarrow> bool" where
  "strict_prefix_of p q \<longleftrightarrow> length p < length q \<and> take (length p) q = p"

fun rel_paths_loop :: "plugin_folder \<Rightarrow> pyval list \<Rightarrow> plugin_error + ustr list" where
  "rel_paths_loop f [] = Inr []"
| "rel_paths_loop f (v # vs) =
     (let rel = dropWhile (\<lambda>c. c = 47) (strip_u (str_val v)) in
      if \<not> strict_prefix_of (pf_root f) (pf_resolve f rel) then Inl (PluginError ''frontend'')
      else if \<not> pf_is_file f rel then Inl (PluginError ''frontend'')
      else case rel_paths_loop f vs of Inl e \<Rightarrow> Inl e | Inr rels \<Rightarrow> Inr (rel # rels))"

definition rel_paths :: "plugin_folder \<Rightarrow> pyval \<Rightarrow> plugin_error + ustr list" where
  "rel_paths f value =
     (case value of
        PList vs \<Rightarrow> if list_ex (\<lambda>v. \<not> is_str v) vs then Inl (PluginError ''frontend'') else rel_paths_loop f vs
      | _ \<Rightarrow> Inl (PluginError ''frontend''))"

definition parse_requires :: "pyval \<Rightarrow> ustr \<Rightarrow> plugin_error + ustr option" where
  "parse_requires value own_name =
     (if value = PNone then Inr None
      else if \<not> is_str value \<or> \<not> SLUG_RE (str_val value) then Inl (PluginError ''requires'')
      else if str_val value = own_name then Inl (PluginError ''requires'')
      else Inr (Some (str_val value)))"

definition provides_cap :: "string \<Rightarrow> pyval list \<Rightarrow> bool" where
  "provides_cap c provides \<longleftrightarrow> pstr c \<in> set provides"

definition parse_sidebar :: "pyval \<Rightarrow> pyval list \<Rightarrow> plugin_error + sidebar_spec option" where
  "parse_sidebar value provides =
     (if \<not> provides_cap ''sidebar'' provides then
        (if value \<noteq> PNone then Inl (PluginError ''sidebar'') else Inr None)
      else case value of
        PDict t \<Rightarrow>
          let route = dget ''route'' t; label = dget ''label'' t; category = dget ''category'' t;
              icon = dget_or ''icon'' (pstr ''plug'') t in
          if \<not> is_str route \<or> \<not> ROUTE_RE (str_val route) then Inl (PluginError ''sidebar'')
          else if \<not> is_str label \<or> strip_u (str_val label) = [] then Inl (PluginError ''sidebar'')
          else if \<not> hashable category then Inl Crash
          else if category \<notin> set (map pstr KNOWN_SIDEBAR_CATEGORIES) then Inl (PluginError ''sidebar'')
          else if \<not> is_str icon then Inl (PluginError ''sidebar'')
          else Inr (Some \<lparr>sb_route = str_val route, sb_label = strip_u (str_val label), sb_category = str_val category,
                 sb_icon = (if icon \<in> set (map pstr KNOWN_SIDEBAR_ICONS) then str_val icon else lit ''plug'')\<rparr>)
      | _ \<Rightarrow> Inl (PluginError ''sidebar''))"

definition parse_hook :: "pyval \<Rightarrow> pyval list \<Rightarrow> plugin_error + ustr option" where
  "parse_hook value provides =
     (if \<not> provides_cap ''hook'' provides then
        (if value \<noteq> PNone then Inl (PluginError ''hook'') else Inr None)
      else case value of
        PDict t \<Rightarrow>
          let host = dget ''host'' t in
          if \<not> is_str host \<or> \<not> ROUTE_RE (str_val host) then Inl (PluginError ''hook'') else Inr (Some (str_val host))
      | _ \<Rightarrow> Inl (PluginError ''hook''))"

text \<open>\<^verbatim>\<open>deps.setup\<close> and \<^verbatim>\<open>deps.check\<close>: a path that exists, wherever it leads.\<close>

definition script_field :: "plugin_folder \<Rightarrow> pyval \<Rightarrow> plugin_error + ustr option" where
  "script_field f value =
     (if value = PNone then Inr None
      else if \<not> is_str value \<or> strip_u (str_val value) = [] then Inl (PluginError ''deps'')
      else if \<not> pf_is_file f (str_val value) then Inl (PluginError ''deps'')
      else Inr (Some (str_val value)))"

definition and_then :: "'e + 'a \<Rightarrow> ('a \<Rightarrow> 'e + 'b) \<Rightarrow> 'e + 'b" where
  "and_then r f = (case r of Inl e \<Rightarrow> Inl e | Inr x \<Rightarrow> f x)"

fun table_of :: "pyval \<Rightarrow> pydict option" where
  "table_of (PDict d) = Some d"
| "table_of _ = None"

definition parse_tail ::
    "plugin_folder \<Rightarrow> plugin_source \<Rightarrow> pydict \<Rightarrow> ustr \<Rightarrow> ustr \<Rightarrow> bool \<Rightarrow> int \<Rightarrow> pyval list \<Rightarrow> plugin_error + plugin_manifest" where
  "parse_tail f src data name version locked api provides =
     (case table_of (dget_or ''deps'' (PDict []) data) of
        None \<Rightarrow> Inl (PluginError ''deps'')
      | Some deps \<Rightarrow>
     (case dget_or ''apt'' (PList []) deps of
        PList apt \<Rightarrow>
     if list_ex (\<lambda>p. \<not> is_str p \<or> strip_u (str_val p) = []) apt then Inl (PluginError ''deps'') else
     and_then (script_field f (dget ''setup'' deps)) (\<lambda>setup.
     and_then (script_field f (dget ''check'' deps)) (\<lambda>check.
     (case table_of (dget_or ''meta'' (PDict []) data) of
        None \<Rightarrow> Inl (PluginError ''meta'')
      | Some meta \<Rightarrow>
     (case table_of (dget_or ''frontend'' (PDict []) data) of
        None \<Rightarrow> Inl (PluginError ''frontend'')
      | Some frontend \<Rightarrow>
     and_then (rel_paths f (dget_or ''scripts'' (PList []) frontend)) (\<lambda>scripts.
     and_then (rel_paths f (dget_or ''styles'' (PList []) frontend)) (\<lambda>styles.
     if list_ex (\<lambda>c. provides_cap c provides) [''panel'', ''sidebar'', ''hook'', ''topbar''] \<and> scripts = []
     then Inl (PluginError ''frontend'') else
     and_then (parse_sidebar (dget ''sidebar'' data) provides) (\<lambda>sidebar.
     and_then (parse_hook (dget ''hook'' data) provides) (\<lambda>hook.
     and_then (parse_requires (dget ''requires'' data) name) (\<lambda>requires.
     and_then (str_field_of meta ''description'' ''meta'') (\<lambda>description.
     and_then (str_field_of meta ''homepage'' ''meta'') (\<lambda>homepage.
     and_then (str_field_of meta ''author'' ''meta'') (\<lambda>author.
     Inr \<lparr>pm_name = name, pm_version = version, pm_api_version = api, pm_provides = provides, pm_apt = apt,
          pm_setup = setup, pm_check = check, pm_description = description, pm_homepage = homepage, pm_author = author,
          pm_scripts = scripts, pm_styles = styles, pm_folder = f, pm_source = src, pm_locked = locked,
          pm_sidebar = sidebar, pm_hook = hook, pm_requires = requires\<rparr>))))))))))))
      | _ \<Rightarrow> Inl (PluginError ''deps'')))"

definition parse_manifest :: "plugin_folder \<Rightarrow> plugin_source \<Rightarrow> plugin_error + plugin_manifest" where
  "parse_manifest f src =
     (case pf_toml f of
        TomlMissing \<Rightarrow> Inl (PluginError ''missing'')
      | TomlUnreadable \<Rightarrow> Inl (PluginError ''toml'')
      | TomlData data \<Rightarrow>
          let name = dget ''name'' data; version = dget ''version'' data;
              locked = dget_or ''locked'' (PBool False) data in
          if \<not> is_str name \<or> \<not> SLUG_RE (str_val name) then Inl (PluginError ''name'')
          else if str_val name \<noteq> pf_dir_name f then Inl (PluginError ''name'')
          else if \<not> is_str version \<or> strip_u (str_val version) = [] then Inl (PluginError ''version'')
          else case locked of
            PBool lk \<Rightarrow>
              (case dget ''meshpoint_api'' data of
                 PInt api \<Rightarrow>
                   if api < 1 \<or> PLUGIN_API_VERSION < api then Inl (PluginError ''api'')
                   else (case dget ''provides'' data of
                           PList provides \<Rightarrow>
                             if provides = [] then Inl (PluginError ''provides'')
                             else if list_ex (\<lambda>p. \<not> hashable p) provides then Inl Crash
                             else if list_ex (\<lambda>p. p \<notin> set (map pstr KNOWN_PROVIDES)) provides
                             then Inl (PluginError ''provides'')
                             else parse_tail f src data (str_val name) (str_val version) lk api provides
                         | _ \<Rightarrow> Inl (PluginError ''provides''))
               | _ \<Rightarrow> Inl (PluginError ''api''))
          | _ \<Rightarrow> Inl (PluginError ''locked''))"


section \<open>Finding plugins\<close>

text \<open>The folders of a directory in the order of their names, those without a manifest skipped; an
  exception other than a manifest error ends the scan.\<close>

fun scan_dir ::
    "plugin_folder list \<Rightarrow> plugin_source \<Rightarrow> ustr set \<Rightarrow> plugin_error + plugin_manifest list \<times> ustr set" where
  "scan_dir [] src seen = Inr ([], seen)"
| "scan_dir (f # fs) src seen =
     (if pf_toml f = TomlMissing then scan_dir fs src seen
      else case parse_manifest f src of
        Inl Crash \<Rightarrow> Inl Crash
      | Inl (PluginError _) \<Rightarrow> scan_dir fs src seen
      | Inr m \<Rightarrow>
          if pm_name m \<in> seen then scan_dir fs src seen
          else and_then (scan_dir fs src (insert (pm_name m) seen)) (\<lambda>(ms, seen'). Inr (m # ms, seen')))"

definition discover_plugins :: "plugin_folder list \<Rightarrow> plugin_folder list option \<Rightarrow> plugin_error + plugin_manifest list" where
  "discover_plugins builtin_dir community_dir =
     and_then (scan_dir (sort_key pf_dir_name builtin_dir) Builtin {}) (\<lambda>(ms, seen).
     (case community_dir of
        None \<Rightarrow> Inr ms
      | Some fs \<Rightarrow> and_then (scan_dir (sort_key pf_dir_name fs) Community seen) (\<lambda>(ms', _). Inr (ms @ ms'))))"

definition landing_page_ids :: "plugin_manifest list \<Rightarrow> ustr set" where
  "landing_page_ids ms =
     insert (lit ''dashboard'') {sb_route s | m s. m \<in> set ms \<and> pm_sidebar m = Some s \<and> sb_category s = lit ''top''}"

definition resolve_plugin_asset :: "plugin_manifest list \<Rightarrow> ustr \<Rightarrow> ustr \<Rightarrow> ustr list option" where
  "resolve_plugin_asset ms plugin_id asset_path =
     (case find (\<lambda>m. pm_name m = plugin_id) ms of
        None \<Rightarrow> None
      | Some p \<Rightarrow>
          if asset_path \<notin> set (pm_scripts p @ pm_styles p) then None
          else
            let full = pf_resolve (pm_folder p) asset_path in
            if \<not> pf_is_file (pm_folder p) asset_path \<or> \<not> strict_prefix_of (pf_root (pm_folder p)) full then None
            else Some full)"


section \<open>Loading and registering\<close>

definition is_plugin_enabled :: "plugin_manifest \<Rightarrow> pydict \<Rightarrow> bool" where
  "is_plugin_enabled m conf =
     (let enabled = dget ''enabled'' conf in
      if pm_source m = Builtin then enabled \<noteq> PBool False else truthy enabled)"

datatype reg_call = AddRouter bool | AddListener ustr | AddCaptureSource ustr | AddService ustr | AddProtocol ustr | Raises

fun capability :: "reg_call \<Rightarrow> string" where
  "capability (AddRouter p) = ''routes''"
| "capability (AddListener n) = ''listener''"
| "capability (AddCaptureSource n) = ''capture''"
| "capability (AddService n) = ''service''"
| "capability (AddProtocol p) = ''protocol''"
| "capability Raises = []"

text \<open>The body of \<^verbatim>\<open>register(reg)\<close> is the sequence of its calls; the first call the manifest does not
  declare, or an exception of its own, ends it.\<close>

fun run_register :: "plugin_manifest \<Rightarrow> reg_call list \<Rightarrow> (ustr \<times> reg_call) list \<Rightarrow> bool \<times> (ustr \<times> reg_call) list" where
  "run_register m [] regs = (True, regs)"
| "run_register m (c # cs) regs =
     (if c = Raises \<or> \<not> provides_cap (capability c) (pm_provides m) then (False, regs)
      else run_register m cs (regs @ [(pm_name m, c)]))"

text \<open>\<open>backend m\<close> is what importing the backend of \<open>m\<close> gives: the calls of its \<^verbatim>\<open>register\<close>, or \<open>None\<close> when the
  import fails or there is no such function.\<close>

fun load_loop ::
    "(plugin_manifest \<Rightarrow> reg_call list option) \<Rightarrow> (ustr \<Rightarrow> pyval) \<Rightarrow> plugin_manifest list \<Rightarrow> (ustr \<times> reg_call) list \<Rightarrow>
     plugin_manifest list \<times> (ustr \<times> reg_call) list" where
  "load_loop backend config [] regs = ([], regs)"
| "load_loop backend config (m # ms) regs =
     (let conf = (case config (pm_name m) of PDict d \<Rightarrow> d | _ \<Rightarrow> []) in
      if \<not> is_plugin_enabled m conf then load_loop backend config ms regs
      else case backend m of
        None \<Rightarrow> load_loop backend config ms regs
      | Some cs \<Rightarrow>
          (case run_register m cs regs of
             (False, regs1) \<Rightarrow> load_loop backend config ms regs1
           | (True, regs1) \<Rightarrow>
               let (loaded, regs2) = load_loop backend config ms regs1 in (m # loaded, regs2)))"

text \<open>What running \<^verbatim>\<open>bash check.sh\<close> comes to; \<open>ProbeBadText\<close> is output that is not UTF-8, whose
  exception nothing on the way catches.\<close>

datatype probe = ProbeTimeout | ProbeOsError ustr | ProbeBadText | ProbeExit int ustr ustr

definition run_deps_check :: "plugin_manifest \<Rightarrow> probe \<Rightarrow> plugin_error + bool option \<times> ustr" where
  "run_deps_check m probe =
     (if pm_check m = None \<or> pm_check m = Some [] then Inr (None, [])
      else case probe of
        ProbeTimeout \<Rightarrow> Inr (Some False, lit ''dependency check timed out after 15s'')
      | ProbeOsError exc \<Rightarrow> Inr (Some False, lit ''could not run dependency check: '' @ exc)
      | ProbeBadText \<Rightarrow> Inl Crash
      | ProbeExit returncode stdout stderr \<Rightarrow>
          let detail = strip_u (stdout @ stderr) in
          Inr (Some (returncode = 0),
               if length detail > 2000 then 8230 # drop (length detail - 2000) detail else detail))"

record loaded_plugin =
  lp_manifest :: plugin_manifest
  lp_deps_ok :: "bool option"
  lp_deps_detail :: ustr

text \<open>The results are folded onto the plugins by name; the exception of one probe ends them all.\<close>

fun attach_deps_status :: "(plugin_manifest \<Rightarrow> probe) \<Rightarrow> plugin_manifest list \<Rightarrow> plugin_error + loaded_plugin list" where
  "attach_deps_status probe [] = Inr []"
| "attach_deps_status probe (m # ms) =
     and_then (run_deps_check m (probe m)) (\<lambda>(ok, detail).
     and_then (attach_deps_status probe ms) (\<lambda>lps.
       Inr (\<lparr>lp_manifest = m, lp_deps_ok = ok, lp_deps_detail = detail\<rparr> # lps)))"

definition load_plugins ::
    "(plugin_manifest \<Rightarrow> reg_call list option) \<Rightarrow> (plugin_manifest \<Rightarrow> probe) \<Rightarrow> plugin_folder list \<Rightarrow>
     plugin_folder list option \<Rightarrow> (ustr \<Rightarrow> pyval) \<Rightarrow> plugin_error + loaded_plugin list \<times> (ustr \<times> reg_call) list" where
  "load_plugins backend probe builtin_dir community_dir config =
     and_then (discover_plugins builtin_dir community_dir) (\<lambda>ms.
       let (loaded, regs) = load_loop backend config ms [] in
       and_then (attach_deps_status probe loaded) (\<lambda>lps. Inr (lps, regs)))"


section \<open>Assets in the page\<close>

definition plugin_asset_url :: "ustr \<Rightarrow> ustr \<Rightarrow> ustr" where
  "plugin_asset_url plugin_id rel_path = lit ''/plugins/apps/'' @ plugin_id @ [47] @ rel_path"

text \<open>\<^verbatim>\<open>s.replace(a, b)\<close> for a non-empty \<open>a\<close>, and with a count of 1 (\<open>None\<close> when \<open>a\<close> does not occur).\<close>

function ureplace :: "ustr \<Rightarrow> ustr \<Rightarrow> ustr \<Rightarrow> ustr" where
  "ureplace a b s =
     (if a = [] \<or> s = [] then s
      else if take (length a) s = a then b @ ureplace a b (drop (length a) s)
      else hd s # ureplace a b (tl s))"
  by auto
termination by (relation "measure (\<lambda>(a, b, s). length s)") auto

fun ureplace_first :: "ustr \<Rightarrow> ustr \<Rightarrow> ustr \<Rightarrow> ustr option" where
  "ureplace_first a b s =
     (if take (length a) s = a then Some (b @ drop (length a) s)
      else case s of [] \<Rightarrow> None | c # cs \<Rightarrow> map_option ((#) c) (ureplace_first a b cs))"

declare ureplace.simps [simp del] ureplace_first.simps [simp del]

definition sidebar_descriptor :: "plugin_manifest \<Rightarrow> sidebar_spec \<Rightarrow> pyval" where
  "sidebar_descriptor m sb = PDict
     [(''id'', PStr (pm_name m)), (''route'', PStr (sb_route sb)), (''label'', PStr (sb_label sb)),
      (''category'', PStr (sb_category sb)), (''icon'', PStr (sb_icon sb))]"

definition sidebar_descriptor_tags :: "(pyval \<Rightarrow> ustr) \<Rightarrow> plugin_manifest list \<Rightarrow> ustr" where
  "sidebar_descriptor_tags dumps ms =
     (let descriptors = List.map_filter (\<lambda>m. case pm_sidebar m of
            None \<Rightarrow> None
          | Some sb \<Rightarrow> if provides_cap ''sidebar'' (pm_provides m) then Some (sidebar_descriptor m sb) else None) ms in
      if descriptors = [] then []
      else lit ''<script>window.MESHPOINT_SIDEBAR_PLUGINS=(window.MESHPOINT_SIDEBAR_PLUGINS||[]).concat('' @
        ureplace (lit ''</'') (lit ''<'' @ [92, 47]) (dumps (PList descriptors)) @ lit '');</script>'')"

definition plugin_tags :: "plugin_manifest \<Rightarrow> ustr" where
  "plugin_tags m =
     (if \<not> list_ex (\<lambda>c. provides_cap c (pm_provides m)) [''panel'', ''sidebar'', ''hook''] then []
      else concat (map (\<lambda>css. lit ''<link rel='' @ [34] @ lit ''stylesheet'' @ [34] @ lit '' href='' @ [34] @
              plugin_asset_url (pm_name m) css @ [34] @ lit ''>'') (pm_styles m)) @
           concat (map (\<lambda>js. lit ''<script defer src='' @ [34] @ plugin_asset_url (pm_name m) js @ [34] @ lit ''></script>'')
              (filter (\<lambda>js. last_n 3 js = lit ''.js'') (pm_scripts m))))"

definition plugin_asset_tags :: "plugin_manifest list \<Rightarrow> ustr" where
  "plugin_asset_tags ms = concat (map plugin_tags ms)"

definition MARKER :: ustr where
  "MARKER = lit ''<!-- meshpoint:plugin-panels -->''"

definition inject_plugin_assets :: "(pyval \<Rightarrow> ustr) \<Rightarrow> ustr \<Rightarrow> plugin_manifest list \<Rightarrow> ustr" where
  "inject_plugin_assets dumps html ms =
     (let tags = sidebar_descriptor_tags dumps ms @ plugin_asset_tags ms in
      if tags = [] then html
      else case ureplace_first MARKER (tags @ MARKER) html of
        Some page \<Rightarrow> page
      | None \<Rightarrow>
          (case ureplace_first (lit ''</body>'') (tags @ lit ''</body>'') html of
             Some page \<Rightarrow> page
           | None \<Rightarrow> html @ tags))"

end
