(* ===== verification/Plugin_Sources.thy ===== *)
theory Plugin_Sources
  imports Plugins
begin

text \<open>
  \<^verbatim>\<open>src/src/plugins/sources.py\<close>: repository addresses, refs and the catalog \<^verbatim>\<open>repo.json\<close> of a plugin source.

  \<^item> The replies of the network and the JSON reader are parameters.
  \<^item> An error is its code; \<open>Crash\<close> stands for every exception that is not one of the module's own.
\<close>

section \<open>Addresses and refs\<close>

definition has_suffix :: "ustr \<Rightarrow> ustr \<Rightarrow> bool" where
  "has_suffix x s \<longleftrightarrow> length x \<le> length s \<and> last_n (length x) s = x"

definition drop_suffix :: "ustr \<Rightarrow> ustr \<Rightarrow> ustr" where
  "drop_suffix x s = take (length s - length x) s"

text \<open>\<^verbatim>\<open>s.partition("/")\<close>: the parts before and after the first slash.\<close>

definition before_slash :: "ustr \<Rightarrow> ustr" where
  "before_slash s = takeWhile (\<lambda>c. c \<noteq> 47) s"

definition after_slash :: "ustr \<Rightarrow> ustr" where
  "after_slash s = tl (dropWhile (\<lambda>c. c \<noteq> 47) s)"

text \<open>\<^verbatim>\<open>^https?://(?:[^@/]+@)?github\.com/([^/]+/[^/]+?)(?:\.git)?/?$\<close> on a stripped text; the group
  takes as little as it can, so one final slash and then one \<^verbatim>\<open>.git\<close> are left out of it.\<close>

definition https_host_ok :: "ustr \<Rightarrow> bool" where
  "https_host_ok h \<longleftrightarrow>
     h = lit ''github.com'' \<or>
     (has_suffix (lit ''@github.com'') h \<and> drop_suffix (lit ''@github.com'') h \<noteq> [] \<and>
      64 \<notin> set (drop_suffix (lit ''@github.com'') h))"

definition strip_git :: "ustr \<Rightarrow> ustr" where
  "strip_git b = (if has_suffix (lit ''.git'') b \<and> 4 < length b then drop_suffix (lit ''.git'') b else b)"

definition https_url_match :: "ustr \<Rightarrow> ustr option" where
  "https_url_match url =
     (let rest = (if take 8 url = lit ''https://'' then Some (drop 8 url)
                  else if take 7 url = lit ''http://'' then Some (drop 7 url) else None) in
      case rest of
        None \<Rightarrow> None
      | Some r \<Rightarrow>
          let path = after_slash r; owner = before_slash path; repo = after_slash path;
              body = (if has_suffix [47] repo then drop_suffix [47] repo else repo) in
          if 47 \<notin> set r \<or> \<not> https_host_ok (before_slash r) \<or> 47 \<notin> set path \<or> owner = [] \<or> body = [] \<or> 47 \<in> set body
          then None
          else Some (owner @ [47] @ strip_git body))"

text \<open>\<^verbatim>\<open>^git@github\.com:(.+?)(?:\.git)?/?$\<close>.\<close>

definition ssh_url_match :: "ustr \<Rightarrow> ustr option" where
  "ssh_url_match url =
     (if take 15 url \<noteq> lit ''git@github.com:'' then None
      else
        let r = drop 15 url;
            g = (if has_suffix (lit ''.git/'') r \<and> 5 < length r then drop_suffix (lit ''.git/'') r
                 else if has_suffix (lit ''.git'') r \<and> 4 < length r then drop_suffix (lit ''.git'') r
                 else if has_suffix [47] r \<and> 1 < length r then drop_suffix [47] r else r) in
        if g = [] \<or> 10 \<in> set g then None else Some g)"

definition owner_repo :: "ustr \<Rightarrow> (ustr \<times> ustr) option" where
  "owner_repo g =
     (if before_slash g \<noteq> [] \<and> after_slash g \<noteq> [] \<and> 47 \<notin> set (after_slash g)
      then Some (before_slash g, after_slash g) else None)"

definition parse_github_url :: "ustr \<Rightarrow> plugin_error + ustr \<times> ustr" where
  "parse_github_url url =
     (let u = strip_u url in
      case Option.bind (https_url_match u) owner_repo of
        Some r \<Rightarrow> Inr r
      | None \<Rightarrow>
          (case Option.bind (ssh_url_match u) owner_repo of
             Some r \<Rightarrow> Inr r
           | None \<Rightarrow> Inl (PluginError ''url'')))"

definition ref_char :: "nat \<Rightarrow> bool" where
  "ref_char c \<longleftrightarrow> (65 \<le> c \<and> c \<le> 90) \<or> (97 \<le> c \<and> c \<le> 122) \<or> (48 \<le> c \<and> c \<le> 57) \<or> c \<in> {46, 95, 45, 47}"

definition normalise_ref :: "ustr option \<Rightarrow> plugin_error + ustr" where
  "normalise_ref ref0 =
     (let r0 = strip_u (case ref0 of None \<Rightarrow> [] | Some r \<Rightarrow> r);
          ref = (if r0 = [] then lit ''main'' else r0) in
      if \<not> list_all ref_char ref \<or> 100 < length ref \<or> hd ref = 47 \<or> last ref = 47 \<or> [46, 46] \<in> set (split_on 47 ref)
      then Inl (PluginError ''ref'') else Inr ref)"

definition canonical_url :: "ustr \<Rightarrow> ustr \<Rightarrow> ustr" where
  "canonical_url owner repo = lit ''https://github.com/'' @ owner @ [47] @ repo"

definition catalog_raw_url :: "ustr \<Rightarrow> ustr \<Rightarrow> ustr \<Rightarrow> ustr" where
  "catalog_raw_url owner repo ref =
     lit ''https://raw.githubusercontent.com/'' @ owner @ [47] @ repo @ [47] @ ref @ lit ''/repo.json''"

definition tarball_url :: "ustr \<Rightarrow> ustr \<Rightarrow> ustr \<Rightarrow> ustr" where
  "tarball_url owner repo ref =
     lit ''https://api.github.com/repos/'' @ owner @ [47] @ repo @ lit ''/tarball/'' @ ref"

definition commits_api_url :: "(ustr \<Rightarrow> ustr) \<Rightarrow> ustr \<Rightarrow> ustr \<Rightarrow> ustr \<Rightarrow> ustr" where
  "commits_api_url quote owner repo ref =
     lit ''https://api.github.com/repos/'' @ owner @ [47] @ repo @ lit ''/commits?sha='' @ quote ref @ lit ''&per_page=1''"

text \<open>A bounded download: \<open>get url n\<close> is what reading at most \<open>n\<close> bytes gives, \<open>None\<close> any failure.\<close>

definition http_get :: "(ustr \<Rightarrow> nat \<Rightarrow> bytes option) \<Rightarrow> ustr \<Rightarrow> nat \<Rightarrow> plugin_error + bytes" where
  "http_get get url max_bytes =
     (case get url (max_bytes + 1) of
        None \<Rightarrow> Inl (PluginError ''fetch'')
      | Some data \<Rightarrow> if max_bytes < length data then Inl (PluginError ''fetch'') else Inr data)"

definition hex_lower :: "nat \<Rightarrow> bool" where
  "hex_lower c \<longleftrightarrow> (48 \<le> c \<and> c \<le> 57) \<or> (97 \<le> c \<and> c \<le> 102)"


section \<open>Catalog\<close>

record catalog_entry =
  ce_id :: ustr
  ce_theme :: bool
  ce_path :: ustr
  ce_version :: ustr
  ce_api :: int
  ce_provides :: "pyval list"
  ce_description :: ustr
  ce_author :: ustr
  ce_homepage :: ustr
  ce_has_setup :: bool
  ce_compatible :: bool
  ce_hook_host :: ustr
  ce_requires :: ustr

definition strip_slashes :: "ustr \<Rightarrow> ustr" where
  "strip_slashes = ustrip (\<lambda>c. c = 47)"

definition stripped_field :: "pydict \<Rightarrow> string \<Rightarrow> ustr" where
  "stripped_field raw key = (case dget_or key (PStr []) raw of PStr s \<Rightarrow> strip_u s | _ \<Rightarrow> [])"

definition slug_hint :: "pydict \<Rightarrow> string \<Rightarrow> ustr" where
  "slug_hint raw key = (case dget key raw of PStr s \<Rightarrow> if SLUG_RE (strip_u s) then strip_u s else [] | _ \<Rightarrow> [])"

definition entry_path_ok :: "bool \<Rightarrow> ustr \<Rightarrow> ustr \<Rightarrow> bool" where
  "entry_path_ok theme pid path \<longleftrightarrow>
     (let prefix = (if theme then lit ''themes/'' else lit ''apps/'');
          trimmed = rev (dropWhile (\<lambda>c. c = 47) (rev path)) in
      take (length prefix) path = prefix \<and> \<not> dotdot_in path \<and> count_list (strip_slashes path) 47 = 1 \<and>
      last (split_on 47 trimmed) = pid)"

definition catalog_entry_of :: "pyval \<Rightarrow> bool \<Rightarrow> plugin_error + catalog_entry" where
  "catalog_entry_of v theme =
     (case v of
        PDict raw \<Rightarrow>
          (case dget ''id'' raw of
             PStr pid \<Rightarrow>
               if \<not> SLUG_RE pid then Inl (PluginError ''catalog'')
               else (case dget ''path'' raw of
                  PStr path \<Rightarrow>
                    if \<not> entry_path_ok theme pid path then Inl (PluginError ''catalog'')
                    else (case dget ''version'' raw of
                       PStr version \<Rightarrow>
                         if strip_u version = [] then Inl (PluginError ''catalog'')
                         else (case dget_or ''meshpoint_api'' (PInt 1) raw of
                            PInt api \<Rightarrow>
                              if api < 1 then Inl (PluginError ''catalog'')
                              else Inr
                                \<lparr>ce_id = pid, ce_theme = theme, ce_path = strip_slashes path, ce_version = strip_u version,
                                 ce_api = api,
                                 ce_provides = (case dget_or ''provides'' (PList []) raw of
                                    PList ps \<Rightarrow> if list_all is_str ps then ps else [] | _ \<Rightarrow> []),
                                 ce_description = stripped_field raw ''description'',
                                 ce_author = stripped_field raw ''author'', ce_homepage = stripped_field raw ''homepage'',
                                 ce_has_setup = truthy (dget ''has_setup'' raw),
                                 ce_compatible = (api \<le> PLUGIN_API_VERSION),
                                 ce_hook_host = (if theme then [] else slug_hint raw ''hook_host''),
                                 ce_requires = (if theme then [] else slug_hint raw ''requires'')\<rparr>
                          | _ \<Rightarrow> Inl (PluginError ''catalog''))
                     | _ \<Rightarrow> Inl (PluginError ''catalog''))
                | _ \<Rightarrow> Inl (PluginError ''catalog''))
           | _ \<Rightarrow> Inl (PluginError ''catalog''))
      | _ \<Rightarrow> Inl (PluginError ''catalog''))"

text \<open>\<^verbatim>\<open>for e in raw.get(key, []) or []\<close>: a text and a dictionary yield texts, other values cannot be
  iterated.\<close>

fun iter_items :: "pyval \<Rightarrow> plugin_error + pyval list" where
  "iter_items (PList vs) = Inr vs"
| "iter_items (PStr s) = Inr (map (\<lambda>c. PStr [c]) s)"
| "iter_items (PDict d) = Inr (map (\<lambda>kv. pstr (fst kv)) d)"
| "iter_items v = (if truthy v then Inl Crash else Inr [])"

fun catalog_entries :: "bool \<Rightarrow> pyval list \<Rightarrow> plugin_error + catalog_entry list" where
  "catalog_entries theme [] = Inr []"
| "catalog_entries theme (v # vs) =
     and_then (catalog_entry_of v theme) (\<lambda>e. and_then (catalog_entries theme vs) (\<lambda>es. Inr (e # es)))"

fun equals_one :: "pyval \<Rightarrow> bool" where
  "equals_one (PInt i) = (i = 1)"
| "equals_one (PBool b) = b"
| "equals_one (PFloat r) = (r = 1)"
| "equals_one _ = False"

record catalog =
  cat_name :: ustr
  cat_description :: ustr
  cat_plugins :: "catalog_entry list"
  cat_themes :: "catalog_entry list"

definition parse_catalog :: "text_lib \<Rightarrow> bytes \<Rightarrow> plugin_error + catalog" where
  "parse_catalog T data =
     (case tl_json T data of
        Some (PDict raw) \<Rightarrow>
          if \<not> equals_one (dget ''meshpoint_repo'' raw) then Inl (PluginError ''catalog'')
          else
            and_then (iter_items (dget_or ''plugins'' (PList []) raw)) (\<lambda>ps.
            and_then (catalog_entries False ps) (\<lambda>plugins.
            and_then (iter_items (dget_or ''themes'' (PList []) raw)) (\<lambda>ts.
            and_then (catalog_entries True ts) (\<lambda>themes.
            if \<not> distinct (map ce_id (plugins @ themes)) then Inl (PluginError ''catalog'')
            else Inr \<lparr>cat_name = (case dget ''name'' raw of PStr s \<Rightarrow> strip_u s | _ \<Rightarrow> []),
                      cat_description = (case dget ''description'' raw of PStr s \<Rightarrow> strip_u s | _ \<Rightarrow> []),
                      cat_plugins = plugins, cat_themes = themes\<rparr>))))
      | _ \<Rightarrow> Inl (PluginError ''catalog''))"

definition MAX_CATALOG_BYTES :: nat where
  "MAX_CATALOG_BYTES = 256 * 1024"

definition fetch_catalog ::
    "text_lib \<Rightarrow> (ustr \<Rightarrow> nat \<Rightarrow> bytes option) \<Rightarrow> ustr \<Rightarrow> ustr option \<Rightarrow> plugin_error + catalog" where
  "fetch_catalog T get url ref0 =
     and_then (parse_github_url url) (\<lambda>(owner, repo).
     and_then (normalise_ref ref0) (\<lambda>ref.
     and_then (http_get get (catalog_raw_url owner repo ref) MAX_CATALOG_BYTES) (parse_catalog T)))"


section \<open>Resolving a ref\<close>

record commit_info =
  ci_sha :: ustr
  ci_message :: ustr
  ci_committed_at :: pyval
  ci_html_url :: pyval

definition line_break :: "nat \<Rightarrow> bool" where
  "line_break c \<longleftrightarrow> c \<in> {10, 11, 12, 13, 28, 29, 30, 133, 8232, 8233}"

definition truthy_or_empty :: "pyval \<Rightarrow> pyval" where
  "truthy_or_empty v = (if truthy v then v else PDict [])"

text \<open>\<^verbatim>\<open>(commit.get("message") or "").splitlines()[0][:200]\<close>: an empty text has no first line.\<close>

definition first_line :: "pyval \<Rightarrow> plugin_error + ustr" where
  "first_line v =
     (case v of PStr s \<Rightarrow> if s = [] then Inl Crash else Inr (take 200 (takeWhile (\<lambda>c. \<not> line_break c) s)) | _ \<Rightarrow> Inl Crash)"

definition MAX_COMMIT_JSON_BYTES :: nat where
  "MAX_COMMIT_JSON_BYTES = 512 * 1024"

definition commit_of_entry :: "pydict \<Rightarrow> plugin_error + commit_info" where
  "commit_of_entry entry =
     (case dget ''sha'' entry of
        PStr sha \<Rightarrow>
          if length sha \<noteq> 40 \<or> \<not> list_all hex_lower sha then Inl (PluginError ''fetch'')
          else
            let commit = truthy_or_empty (dget ''commit'' entry);
                author = (case commit of PDict c \<Rightarrow> truthy_or_empty (dget ''author'' c) | _ \<Rightarrow> PDict []) in
            and_then (case commit of PDict c \<Rightarrow> first_line (dget ''message'' c) | _ \<Rightarrow> Inr []) (\<lambda>message.
            Inr \<lparr>ci_sha = sha, ci_message = message,
                 ci_committed_at = (case author of PDict a \<Rightarrow> dget_or ''date'' (PStr []) a | _ \<Rightarrow> PStr []),
                 ci_html_url = dget_or ''html_url'' (PStr []) entry\<rparr>)
      | _ \<Rightarrow> Inl (PluginError ''fetch''))"

definition resolve_commit ::
    "text_lib \<Rightarrow> (ustr \<Rightarrow> ustr) \<Rightarrow> (ustr \<Rightarrow> nat \<Rightarrow> bytes option) \<Rightarrow> ustr \<Rightarrow> ustr option \<Rightarrow> plugin_error + commit_info" where
  "resolve_commit T quote get url ref0 =
     and_then (parse_github_url url) (\<lambda>(owner, repo).
     and_then (normalise_ref ref0) (\<lambda>ref.
     and_then (http_get get (commits_api_url quote owner repo ref) MAX_COMMIT_JSON_BYTES) (\<lambda>raw.
     (case tl_json T raw of
        Some (PList (PDict entry # _)) \<Rightarrow> commit_of_entry entry
      | _ \<Rightarrow> Inl (PluginError ''fetch'')))))"


section \<open>What a catalog entry can name\<close>

lemma slug_chars: "SLUG_RE s \<Longrightarrow> s \<noteq> [] \<and> 47 \<notin> set s \<and> 46 \<notin> set s \<and> 0 \<notin> set s \<and> length s \<le> 40"
proof -
  have b: "slug_body 1 38 x \<Longrightarrow> x \<noteq> [] \<and> 47 \<notin> set x \<and> 46 \<notin> set x \<and> 0 \<notin> set x \<and> length x \<le> 39" for x
    by (auto simp: slug_body_def lower_alnum_def list_all_iff split: list.splits)
  assume "SLUG_RE s"
  then consider "slug_body 1 38 s" | "s \<noteq> []" "last s = 10" "slug_body 1 38 (butlast s)"
    by (auto simp: SLUG_RE_def slug_match_def)
  then show ?thesis
  proof cases
    case 1
    with b [OF this] show ?thesis by simp
  next
    case 2
    then have "s = butlast s @ [10]" by (metis append_butlast_last_id)
    then have "set s = insert 10 (set (butlast s))" "length s = Suc (length (butlast s))"
      by (metis Un_insert_right list.simps(15) set_append sup_bot.right_neutral empty_set) (use 2(1) in simp)
    then show ?thesis using b [OF 2(3)] 2(1) by auto
  qed
qed

lemma split_on_slash_free: "c \<notin> set s \<Longrightarrow> split_on c s = [s]"
  by (induction s) auto

lemma split_on_join: "c \<notin> set a \<Longrightarrow> split_on c (a @ c # b) = a # split_on c b"
  by (induction a) auto

lemma strip_idem_front: "s \<noteq> [] \<Longrightarrow> \<not> p (hd s) \<Longrightarrow> ustrip p s = rev (dropWhile p (rev s))"
  by (cases s) (auto simp: ustrip_def)

text \<open>A valid entry names one folder directly below \<^verbatim>\<open>apps\<close> or \<^verbatim>\<open>themes\<close>, called like its id.\<close>

lemma catalog_entry_path:
  assumes "catalog_entry_of v theme = Inr e"
  shows "SLUG_RE (ce_id e)" "ce_theme e = theme"
    "ce_path e = (if theme then lit ''themes'' else lit ''apps'') @ [47] @ ce_id e"
proof -
  from assms obtain raw path where id: "SLUG_RE (ce_id e)" and th: "ce_theme e = theme"
    and ok: "entry_path_ok theme (ce_id e) path" and pe: "ce_path e = strip_slashes path"
    by (auto simp: catalog_entry_of_def split: pyval.splits if_splits)
  show "SLUG_RE (ce_id e)" "ce_theme e = theme" by fact+
  define k where "k = (if theme then lit ''themes'' else lit ''apps'')"
  define t where "t = rev (dropWhile (\<lambda>c. c = 47) (rev path))"
  have k: "47 \<notin> set k" "k \<noteq> []" by (auto simp: k_def lit_def)
  have pre: "take (Suc (length k)) path = k @ [47]"
    using ok by (auto simp: entry_path_ok_def k_def lit_def Let_def split: if_splits)
  obtain r where path: "path = k @ [47] @ r" using pre by (metis append_take_drop_id append_assoc)
  have hd: "hd path \<noteq> 47" "path \<noteq> []" using k path by (cases k; auto)+
  have st: "strip_slashes path = t" unfolding strip_slashes_def t_def using hd by (intro strip_idem_front) auto
  have cnt: "count_list t 47 = 1" and last: "last (split_on 47 t) = ce_id e"
    using ok st by (auto simp: entry_path_ok_def t_def Let_def)
  have "path = t @ rev (takeWhile (\<lambda>c. c = 47) (rev path))"
    unfolding t_def by (metis rev_append rev_rev_ident takeWhile_dropWhile_id)
  then obtain z where z: "t @ z = k @ [47] @ r" using path by metis
  obtain r' where t: "t = k @ [47] @ r'"
  proof (cases "length t \<le> length k")
    case True
    then have "t = take (length t) k" using z by (metis append_eq_conv_conj take_append take_all_iff diff_is_0_eq append_Nil2 take0)
    then have "47 \<notin> set t" using k(1) by (metis in_set_takeD)
    then show ?thesis using cnt by (simp add: count_list_0_iff)
  next
    case False
    then have "take (Suc (length k)) t = k @ [47]"
      using z by (metis Suc_leI append_take_drop_id linorder_not_le pre path take_append diff_is_0_eq take0 append_Nil2)
    then show ?thesis using that by (metis append_assoc append_take_drop_id)
  qed
  have "47 \<notin> set r'" using cnt k(1) unfolding t by (simp add: count_list_0_iff)
  then have "ce_id e = r'" using last k(1) unfolding t by (simp add: split_on_join split_on_slash_free)
  then show "ce_path e = (if theme then lit ''themes'' else lit ''apps'') @ [47] @ ce_id e"
    using pe st t unfolding k_def by simp
qed

lemma and_then_Inr: "and_then r f = Inr y \<longleftrightarrow> (\<exists>x. r = Inr x \<and> f x = Inr y)"
  by (auto simp: and_then_def split: sum.splits)

lemma catalog_entries_member:
  "catalog_entries th vs = Inr es \<Longrightarrow> e \<in> set es \<Longrightarrow> \<exists>v. catalog_entry_of v th = Inr e"
  by (induction th vs arbitrary: es rule: catalog_entries.induct) (auto simp: and_then_Inr)

lemma parse_catalog_inv:
  assumes "parse_catalog T data = Inr c"
  shows "(\<exists>ps. catalog_entries False ps = Inr (cat_plugins c)) \<and> (\<exists>ts. catalog_entries True ts = Inr (cat_themes c)) \<and>
    distinct (map ce_id (cat_plugins c @ cat_themes c))"
proof -
  obtain raw where "tl_json T data = Some (PDict raw)"
    using assms unfolding parse_catalog_def by (auto split: option.splits pyval.splits)
  then show ?thesis
    using assms unfolding parse_catalog_def by (simp add: and_then_Inr del: distinct_append map_append set_append split: if_splits) (metis catalog.select_convs(3,4))
qed

lemma catalog_member:
  assumes "parse_catalog T data = Inr c" "e \<in> set (cat_plugins c @ cat_themes c)"
  shows "\<exists>v. catalog_entry_of v (ce_theme e) = Inr e"
proof -
  obtain th v where "catalog_entry_of v th = Inr e"
    using parse_catalog_inv [OF assms(1)] catalog_entries_member assms(2) by (metis Un_iff set_append)
  then show ?thesis using catalog_entry_path(2) by blast
qed

end
