(* ===== verification/Plugin_Install.thy ===== *)
theory Plugin_Install
  imports Plugin_Sources
begin

text \<open>
  \<^verbatim>\<open>src/src/plugins/installer.py\<close>: installing one catalog entry from the archive of its repository.

  \<^item> The file system is a finite table from absolute paths (lists of names) to directories and
    files, without symbolic links. Parameters: the network, the tar and TOML readers, the paths
    the operating system refuses to write, and how a move ends.
  \<^item> An error is its code; \<open>Crash\<close> stands for every exception that is not one of the module's own.
\<close>

section \<open>File system\<close>

datatype fs_node = FDir | FFile bytes

type_synonym path = "ustr list"
type_synonym fs = "(path \<times> fs_node) list"

abbreviation fs_get :: "fs \<Rightarrow> path \<Rightarrow> fs_node option" where
  "fs_get fs p \<equiv> map_of fs p"

definition fs_set :: "path \<Rightarrow> fs_node \<Rightarrow> fs \<Rightarrow> fs" where
  "fs_set p n fs = (p, n) # fs"

definition below :: "path \<Rightarrow> path \<Rightarrow> bool" where
  "below p q \<longleftrightarrow> take (length p) q = p"

fun is_file_node :: "fs_node option \<Rightarrow> bool" where
  "is_file_node (Some (FFile b)) = True"
| "is_file_node _ = False"

text \<open>\<^verbatim>\<open>mkdir(parents=True, exist_ok=True)\<close>: fails when the path or a parent is a file.\<close>

definition mkdirs :: "path \<Rightarrow> fs \<Rightarrow> fs option" where
  "mkdirs p fs =
     (if list_ex (\<lambda>i. is_file_node (fs_get fs (take i p))) [0..<Suc (length p)] then None
      else Some (map (\<lambda>i. (take i p, FDir)) [0..<Suc (length p)] @ fs))"

definition write_file :: "path \<Rightarrow> bytes \<Rightarrow> fs \<Rightarrow> fs option" where
  "write_file p b fs = (if p = [] \<or> fs_get fs p = Some FDir then None else Some (fs_set p (FFile b) fs))"

text \<open>\<^verbatim>\<open>rmtree(p, ignore_errors=True)\<close> does nothing to a file.\<close>

definition rmtree :: "path \<Rightarrow> fs \<Rightarrow> fs" where
  "rmtree p fs = (if fs_get fs p = Some FDir then filter (\<lambda>(q, n). \<not> below p q) fs else fs)"

definition has_children :: "path \<Rightarrow> fs \<Rightarrow> bool" where
  "has_children p fs \<longleftrightarrow> list_ex (\<lambda>(q, n). below p q \<and> q \<noteq> p) fs"

definition relocate :: "path \<Rightarrow> path \<Rightarrow> fs \<Rightarrow> fs" where
  "relocate s d fs = map (\<lambda>(q, n). (if below s q then d @ drop (length s) q else q, n)) (filter (\<lambda>(q, n). \<not> below d q) fs)"

text \<open>\<^verbatim>\<open>rename(2)\<close>: a directory replaces only an empty directory, a file only a file.\<close>

definition rename_path :: "path \<Rightarrow> path \<Rightarrow> fs \<Rightarrow> fs option" where
  "rename_path s d fs =
     (case (fs_get fs s, fs_get fs d) of
        (None, _) \<Rightarrow> None
      | (Some n, None) \<Rightarrow> Some (relocate s d fs)
      | (Some FDir, Some FDir) \<Rightarrow> if has_children d fs then None else Some (relocate s d fs)
      | (Some (FFile _), Some (FFile _)) \<Rightarrow> Some (relocate s d fs)
      | _ \<Rightarrow> None)"

text \<open>\<^verbatim>\<open>shutil.move\<close> to a path that does not exist. It ends well (\<open>None\<close>), or fails after copying, between
  file systems, the files and folders for which the argument gives a number of bytes.\<close>

type_synonym move_end = "(path \<Rightarrow> nat option) option"

fun cut_node :: "nat \<Rightarrow> fs_node \<Rightarrow> fs_node" where
  "cut_node k FDir = FDir"
| "cut_node k (FFile b) = FFile (take k b)"

definition leftover :: "(path \<Rightarrow> nat option) \<Rightarrow> path \<Rightarrow> path \<Rightarrow> fs \<Rightarrow> fs" where
  "leftover copied s d fs =
     List.map_filter (\<lambda>(q, n).
       let r = drop (length s) q in
       if below s q \<and> list_all (\<lambda>i. copied (take i r) \<noteq> None) [0..<Suc (length r)]
       then Some (d @ r, cut_node (the (copied r)) n) else None) fs"

definition move_tree :: "move_end \<Rightarrow> path \<Rightarrow> path \<Rightarrow> fs \<Rightarrow> bool \<times> fs" where
  "move_tree mv s d fs =
     (case mv of
        None \<Rightarrow> (True, relocate s d fs)
      | Some copied \<Rightarrow> (False, leftover copied s d fs @ fs))"

text \<open>The kernel's walk along a relative path, and the lexical one of \<^verbatim>\<open>resolve()\<close>.\<close>

fun walk :: "fs \<Rightarrow> path \<Rightarrow> path \<Rightarrow> path option" where
  "walk fs cur [] = Some cur"
| "walk fs cur (p # ps) =
     (if cur \<noteq> [] \<and> fs_get fs cur \<noteq> Some FDir then None
      else if p = [46, 46] then walk fs (butlast cur) ps else walk fs (cur @ [p]) ps)"

fun lexical :: "path \<Rightarrow> path \<Rightarrow> path" where
  "lexical cur [] = cur"
| "lexical cur (p # ps) = (if p = [46, 46] then lexical (butlast cur) ps else lexical (cur @ [p]) ps)"

text \<open>\<^verbatim>\<open>dir / rel\<close>: an absolute \<open>rel\<close> replaces \<open>dir\<close>.\<close>

definition join_base :: "path \<Rightarrow> ustr \<Rightarrow> path" where
  "join_base dir rel = (if take 1 rel = [47] then [] else dir)"

definition rel_parts :: "ustr \<Rightarrow> path" where
  "rel_parts rel = filter (\<lambda>c. c \<noteq> [] \<and> c \<noteq> [46]) (split_on 47 rel)"

definition folder_at :: "(bytes \<Rightarrow> pydict option) \<Rightarrow> fs \<Rightarrow> path \<Rightarrow> plugin_folder" where
  "folder_at toml fs dir =
     \<lparr>pf_dir_name = last dir,
      pf_toml = (case fs_get fs (dir @ [lit ''plugin.toml'']) of
         Some (FFile b) \<Rightarrow> (case toml b of None \<Rightarrow> TomlUnreadable | Some d \<Rightarrow> TomlData d)
       | _ \<Rightarrow> TomlMissing),
      pf_is_file = (\<lambda>rel. case walk fs (join_base dir rel) (rel_parts rel) of
         None \<Rightarrow> False | Some q \<Rightarrow> is_file_node (fs_get fs q)),
      pf_root = dir,
      pf_resolve = (\<lambda>rel. lexical (join_base dir rel) (rel_parts rel))\<rparr>"


section \<open>Staging\<close>

definition MAX_TARBALL_BYTES :: nat where
  "MAX_TARBALL_BYTES = 25 * 1024 * 1024"

definition MAX_UNCOMPRESSED_BYTES :: nat where
  "MAX_UNCOMPRESSED_BYTES = 80 * 1024 * 1024"

definition MAX_MEMBERS :: nat where
  "MAX_MEMBERS = 4000"

text \<open>The reply to a download: no connection, or the chunks read before the end or a failure.\<close>

datatype reply = NoConnection | Chunks "bytes list" bool

fun read_chunks :: "nat \<Rightarrow> bytes list \<Rightarrow> bool \<Rightarrow> plugin_error + bytes" where
  "read_chunks tot [] ok = (if ok then Inr [] else Inl (PluginError ''fetch''))"
| "read_chunks tot (c # cs) ok =
     (if c = [] then Inr []
      else if tot + length c > MAX_TARBALL_BYTES then Inl (PluginError ''size'')
      else and_then (read_chunks (tot + length c) cs ok) (\<lambda>rest. Inr (c @ rest)))"

definition download_tarball :: "(ustr \<Rightarrow> reply) \<Rightarrow> ustr \<Rightarrow> ustr \<Rightarrow> ustr \<Rightarrow> plugin_error + bytes" where
  "download_tarball net owner repo ref =
     (case net (tarball_url owner repo ref) of
        NoConnection \<Rightarrow> Inl (PluginError ''fetch'')
      | Chunks cs ok \<Rightarrow> read_chunks 0 cs ok)"

text \<open>A member of the archive; \<open>sm_content\<close> is \<open>None\<close> when reading it raises.\<close>

record src_member =
  sm_name :: ustr
  sm_kind :: member_kind
  sm_size :: int
  sm_content :: "bytes option"

definition member_prefix :: "src_member list \<Rightarrow> ustr \<Rightarrow> ustr" where
  "member_prefix ms subpath = before_slash (sm_name (hd ms)) @ [47] @ strip_slashes subpath @ [47]"

text \<open>One member in \<^verbatim>\<open>_safe_members\<close>: skipped, refused, or handed on with its relative path.\<close>

datatype member_verdict = Skip | Refuse string | Take ustr

definition judge_member :: "ustr \<Rightarrow> src_member \<Rightarrow> member_verdict" where
  "judge_member prefix m =
     (let name = sm_name m in
      if name = rev (dropWhile (\<lambda>c. c = 47) (rev prefix)) then Skip
      else if take (length prefix) name \<noteq> prefix then Skip
      else
        let rel = strip_slashes (drop (length prefix) name) in
        if rel = [] then Skip
        else if take 1 rel = [47] \<or> [46, 46] \<in> set (posix_parts rel) then Refuse ''archive''
        else if sm_kind m = OtherKind then Refuse ''archive''
        else Take rel)"

text \<open>The loop of \<^verbatim>\<open>stage_from_tarball\<close> over what \<^verbatim>\<open>_safe_members\<close> yields: \<open>count\<close>, \<open>tot\<close> and \<open>matched\<close> are the variables of
  the generator, \<open>written\<close> that of the loop. \<open>refused\<close> are the paths the system does not let it write.\<close>

fun stage_loop ::
    "(path \<Rightarrow> bool) \<Rightarrow> ustr \<Rightarrow> path \<Rightarrow> src_member list \<Rightarrow> nat \<Rightarrow> nat \<Rightarrow> bool \<Rightarrow> nat \<Rightarrow> fs \<Rightarrow> plugin_error option \<times> fs" where
  "stage_loop refused prefix out [] count tot matched written fs =
     (if matched then None else Some (PluginError ''archive''), fs)"
| "stage_loop refused prefix out (m # ms) count tot matched written fs =
     (case judge_member prefix m of
        Skip \<Rightarrow> stage_loop refused prefix out ms count tot matched written fs
      | Refuse code \<Rightarrow> (Some (PluginError code), fs)
      | Take rel \<Rightarrow>
          let count1 = count + 1; tot1 = tot + nat (max (sm_size m) 0); target = out @ rel_parts rel in
          if count1 > MAX_MEMBERS then (Some (PluginError ''archive''), fs)
          else if tot1 > MAX_UNCOMPRESSED_BYTES then (Some (PluginError ''archive''), fs)
          else if refused target then (Some Crash, fs)
          else if sm_kind m = Directory
          then (case mkdirs target fs of
                  None \<Rightarrow> (Some Crash, fs)
                | Some fs1 \<Rightarrow> stage_loop refused prefix out ms count1 tot1 True written fs1)
          else (case mkdirs (butlast target) fs of
                  None \<Rightarrow> (Some Crash, fs)
                | Some fs1 \<Rightarrow>
                    (case sm_content m of
                       None \<Rightarrow> (Some Crash, fs1)
                     | Some b \<Rightarrow>
                         if written + length b > MAX_UNCOMPRESSED_BYTES then (Some (PluginError ''archive''), fs1)
                         else (case write_file target b fs1 of
                                 None \<Rightarrow> (Some Crash, fs1)
                               | Some fs2 \<Rightarrow> stage_loop refused prefix out ms count1 tot1 True (written + length b) fs2))))"

definition commit_from_toplevel :: "ustr \<Rightarrow> ustr" where
  "commit_from_toplevel toplevel =
     (let tail = (if 45 \<in> set toplevel then last (split_on 45 toplevel) else []) in
      if 7 \<le> length tail \<and> length tail \<le> 40 \<and> list_all hex_lower tail then tail else [])"

record install_env =
  ie_net :: "ustr \<Rightarrow> reply"
  ie_untar :: "bytes \<Rightarrow> src_member list option"
  ie_toml :: "bytes \<Rightarrow> pydict option"
  ie_refused :: "path \<Rightarrow> bool"
  ie_move :: move_end
  ie_staging :: path

text \<open>The fresh directory holds the archive and the folder \<^verbatim>\<open><plugin_id>\<close>; on any error it is removed.\<close>

definition stage_members ::
    "install_env \<Rightarrow> ustr \<Rightarrow> ustr \<Rightarrow> bytes \<Rightarrow> fs \<Rightarrow> plugin_error option \<times> ustr \<times> fs" where
  "stage_members env subpath pid archive fs =
     (let out = ie_staging env @ [pid]; fs1 = fs_set out FDir fs in
      case ie_untar env archive of
        None \<Rightarrow> (Some Crash, [], fs1)
      | Some [] \<Rightarrow> (Some (PluginError ''archive''), [], fs1)
      | Some ms \<Rightarrow>
          let (e, fs2) = stage_loop (ie_refused env) (member_prefix ms subpath) out ms 0 0 False 0 fs1 in
          (e, commit_from_toplevel (before_slash (sm_name (hd ms))), fs2))"

definition stage_from_tarball ::
    "install_env \<Rightarrow> ustr \<Rightarrow> ustr \<Rightarrow> ustr \<Rightarrow> ustr \<Rightarrow> ustr \<Rightarrow> fs \<Rightarrow> (plugin_error + ustr) \<times> fs" where
  "stage_from_tarball env owner repo ref subpath pid fs0 =
     (let stg = ie_staging env; archive = stg @ [lit ''src.tar.gz'']; fs1 = fs_set stg FDir fs0 in
      case download_tarball (ie_net env) owner repo ref of
        Inl e \<Rightarrow> (Inl e, rmtree stg fs1)
      | Inr b \<Rightarrow>
          (case stage_members env subpath pid b (fs_set archive (FFile b) fs1) of
             (Some e, commit, fs2) \<Rightarrow> (Inl e, rmtree stg fs2)
           | (None, commit, fs2) \<Rightarrow> (Inr commit, filter (\<lambda>(q, n). q \<noteq> archive) fs2)))"


section \<open>Validation and placing\<close>

definition validate_staged_app :: "plugin_folder \<Rightarrow> plugin_error + plugin_manifest" where
  "validate_staged_app f =
     (case parse_manifest f Community of
        Inl (PluginError _) \<Rightarrow> Inl (PluginError ''manifest'')
      | Inl Crash \<Rightarrow> Inl Crash
      | Inr m \<Rightarrow> if pm_locked m then Inl (PluginError ''manifest'') else Inr m)"

definition validate_staged_theme :: "text_lib \<Rightarrow> fs \<Rightarrow> path \<Rightarrow> ustr \<Rightarrow> plugin_error option" where
  "validate_staged_theme T fs dir theme_id =
     (case (fs_get fs (dir @ [lit ''theme.json'']), fs_get fs (dir @ [lit ''theme.css''])) of
        (Some (FFile j), Some (FFile c)) \<Rightarrow>
          (case tl_json T j of
             Some (PDict raw) \<Rightarrow>
               let i = dget ''id'' raw in
               if str_of T (if truthy i then i else PStr theme_id) \<noteq> theme_id then Some (PluginError ''manifest'') else None
           | _ \<Rightarrow> Some (PluginError ''manifest''))
      | _ \<Rightarrow> Some (PluginError ''manifest''))"

definition place :: "move_end \<Rightarrow> path \<Rightarrow> path \<Rightarrow> fs \<Rightarrow> bool \<times> fs" where
  "place mv staged dest fs0 =
     (case mkdirs (butlast dest) fs0 of
        None \<Rightarrow> (False, fs0)
      | Some fs \<Rightarrow>
          if fs_get fs dest \<noteq> None then
            let backup = butlast dest @ [last dest @ lit ''.replacing'']; fs1 = rmtree backup fs in
            (case rename_path dest backup fs1 of
               None \<Rightarrow> (False, fs1)
             | Some fs2 \<Rightarrow>
                 (case move_tree mv staged dest fs2 of
                    (True, fs3) \<Rightarrow> (True, rmtree backup fs3)
                  | (False, fs3) \<Rightarrow>
                      (False, case rename_path backup dest fs3 of None \<Rightarrow> fs3 | Some fs4 \<Rightarrow> fs4)))
          else move_tree mv staged dest fs)"

record install_result =
  ir_id :: ustr
  ir_theme :: bool
  ir_version :: ustr
  ir_has_setup :: bool
  ir_commit :: ustr

definition dest_of :: "path \<Rightarrow> catalog_entry \<Rightarrow> path" where
  "dest_of community_dir e =
     (if ce_theme e then butlast community_dir @ [lit ''themes'', ce_id e] else community_dir @ [ce_id e])"

definition validate_staged ::
    "text_lib \<Rightarrow> install_env \<Rightarrow> catalog_entry \<Rightarrow> fs \<Rightarrow> plugin_error + bool \<times> ustr" where
  "validate_staged T env e fs =
     (let staged = ie_staging env @ [ce_id e] in
      if ce_theme e
      then (case validate_staged_theme T fs staged (ce_id e) of
              Some err \<Rightarrow> Inl err | None \<Rightarrow> Inr (False, ce_version e))
      else and_then (validate_staged_app (folder_at (ie_toml env) fs staged))
             (\<lambda>m. Inr (pm_setup m \<noteq> None, pm_version m)))"

definition install_from_source ::
    "text_lib \<Rightarrow> install_env \<Rightarrow> ustr \<Rightarrow> ustr \<Rightarrow> ustr \<Rightarrow> catalog_entry \<Rightarrow> path \<Rightarrow> fs \<Rightarrow> (plugin_error + install_result) \<times> fs" where
  "install_from_source T env owner repo ref e community_dir fs0 =
     (let stg = ie_staging env in
      case stage_from_tarball env owner repo ref (ce_path e) (ce_id e) fs0 of
        (Inl err, fs1) \<Rightarrow> (Inl err, fs1)
      | (Inr commit, fs1) \<Rightarrow>
          (case validate_staged T env e fs1 of
             Inl err \<Rightarrow> (Inl err, rmtree stg fs1)
           | Inr (has_setup, version) \<Rightarrow>
               (case place (ie_move env) (stg @ [ce_id e]) (dest_of community_dir e) fs1 of
                  (False, fs2) \<Rightarrow> (Inl Crash, rmtree stg fs2)
                | (True, fs2) \<Rightarrow>
                    (Inr \<lparr>ir_id = ce_id e, ir_theme = ce_theme e, ir_version = version, ir_has_setup = has_setup,
                          ir_commit = commit\<rparr>, rmtree stg fs2))))"

end
