(* ===== verification/Plugin_Install_Safe.thy ===== *)
theory Plugin_Install_Safe
  imports Plugin_Install
begin

text \<open>
  What an installation can change: the effect of every file-system operation on every path, the
  staging loop, and the whole installation.
\<close>

section \<open>File-system operations\<close>

lemma below_refl [simp]: "below p p"
  by (simp add: below_def)

lemma below_append [simp]: "below p (p @ r)"
  by (simp add: below_def)

lemma below_iff: "below p q \<longleftrightarrow> (\<exists>r. q = p @ r)"
  unfolding below_def by (metis append_eq_conv_conj append_take_drop_id)

lemma below_take: "below p q \<Longrightarrow> p = take (length p) q"
  by (simp add: below_def)

lemma below_trans: "below p q \<Longrightarrow> below q r \<Longrightarrow> below p r"
  by (auto simp: below_iff)

lemma below_linear: "below p q \<Longrightarrow> below r q \<Longrightarrow> below p r \<or> below r p"
  unfolding below_iff by (metis append_eq_append_conv2)

lemma map_of_keep: "map_of (filter (\<lambda>(q, n). P q) fs) q = (if P q then map_of fs q else None)"
  by (induction fs) auto

lemma fs_get_rmtree:
  "fs_get (rmtree p fs) q = (if fs_get fs p = Some FDir \<and> below p q then None else fs_get fs q)"
  by (simp add: rmtree_def map_of_keep)

lemma fs_get_set: "fs_get (fs_set p n fs) q = (if q = p then Some n else fs_get fs q)"
  by (simp add: fs_set_def)

lemma fs_get_mkdirs:
  assumes "mkdirs p fs = Some fs1"
  shows "fs_get fs1 q = (if below q p then Some FDir else fs_get fs q)" "below q p \<Longrightarrow> \<not> is_file_node (fs_get fs q)"
proof -
  have f: "fs1 = map (\<lambda>i. (take i p, FDir)) [0..<Suc (length p)] @ fs"
    and n: "\<And>i. i \<le> length p \<Longrightarrow> \<not> is_file_node (fs_get fs (take i p))"
    using assms by (auto simp: mkdirs_def list_ex_iff split: if_splits)
  have m: "map_of (map (\<lambda>i. (take i p, FDir)) is) q = (if q \<in> (\<lambda>i. take i p) ` set is then Some FDir else None)" for "is"
    by (induction "is") auto
  have "q \<in> (\<lambda>i. take i p) ` set [0..<Suc (length p)] \<longleftrightarrow> below q p"
    unfolding below_def
  proof
    assume "take (length q) p = q"
    moreover from this have "length q \<le> length p" by (metis length_take min.cobounded1 min_def)
    ultimately show "q \<in> (\<lambda>i. take i p) ` set [0..<Suc (length p)]" by (intro image_eqI [of _ _ "length q"]) auto
  qed auto
  with m [of "[0..<Suc (length p)]"]
  have "map_of (map (\<lambda>i. (take i p, FDir)) [0..<Suc (length p)]) q = (if below q p then Some FDir else None)" by simp
  then show "fs_get fs1 q = (if below q p then Some FDir else fs_get fs q)"
    unfolding f map_of_append map_add_def by (simp del: upt_Suc)
  assume "below q p"
  then show "\<not> is_file_node (fs_get fs q)" using n [of "length q"]
    unfolding below_iff by fastforce
qed

lemma fs_get_relocate:
  assumes "\<not> below s d" "\<not> below d s"
  shows "fs_get (relocate s d fs) q =
    (if below d q then fs_get fs (s @ drop (length d) q) else if below s q then None else fs_get fs q)"
proof (induction fs)
  case Nil
  then show ?case by (simp add: relocate_def)
next
  case (Cons e fs)
  obtain p n where e: "e = (p, n)" by force
  have dis: "below s x \<Longrightarrow> below d x \<Longrightarrow> False" for x using below_linear [of s x d] assms by blast
  consider (d) "below d p" | (s) "below s p" "\<not> below d p" | (o) "\<not> below s p" "\<not> below d p" by blast
  then show ?case
  proof cases
    case d
    then have "s @ drop (length d) q \<noteq> p" for q using dis [of p] by (metis below_append)
    then show ?thesis using Cons d e dis by (auto simp: relocate_def)
  next
    case s
    then obtain r where r: "p = s @ r" by (auto simp: below_iff)
    have "d @ r = q \<longleftrightarrow> below d q \<and> s @ drop (length d) q = p" unfolding r by (auto simp: below_iff)
    moreover have "below s q \<Longrightarrow> \<not> below d q" using dis by blast
    moreover have "q \<noteq> p" if "\<not> below s q" using s that by auto
    ultimately show ?thesis using Cons s e r by (cases "below d q") (auto simp: relocate_def)
  next
    case o
    then show ?thesis using Cons e by (auto simp: relocate_def)
  qed
qed

lemma fs_get_leftover: "fs_get (leftover c s d fs) q \<noteq> None \<Longrightarrow> below d q"
  unfolding leftover_def
  by (induction fs) (auto simp: map_filter_simps Let_def split: if_splits prod.splits)



section \<open>Staging\<close>

definition dirs_to :: "path \<Rightarrow> fs \<Rightarrow> bool" where
  "dirs_to p fs \<longleftrightarrow> (\<forall>q. below q p \<longrightarrow> fs_get fs q = Some FDir)"

text \<open>The number of files below a path and of the bytes they hold.\<close>

fun weight :: "(bytes \<Rightarrow> nat) \<Rightarrow> fs_node option \<Rightarrow> nat" where
  "weight w (Some (FFile b)) = w b"
| "weight w _ = 0"

definition tree_weight :: "(bytes \<Rightarrow> nat) \<Rightarrow> path \<Rightarrow> fs \<Rightarrow> nat" where
  "tree_weight w out fs = (\<Sum>q \<in> {q \<in> fst ` set fs. below out q}. weight w (fs_get fs q))"

definition tree_bytes :: "path \<Rightarrow> fs \<Rightarrow> nat" where
  "tree_bytes = tree_weight length"

definition tree_files :: "path \<Rightarrow> fs \<Rightarrow> nat" where
  "tree_files = tree_weight (\<lambda>b. 1)"

lemma tree_weight_over:
  assumes "finite U" "fst ` set fs \<subseteq> U"
  shows "tree_weight w out fs = (\<Sum>q \<in> {q \<in> U. below out q}. weight w (fs_get fs q))"
  unfolding tree_weight_def
proof (rule sum.mono_neutral_left)
  show "\<forall>q \<in> {q \<in> U. below out q} - {q \<in> fst ` set fs. below out q}. weight w (fs_get fs q) = 0"
  proof
    fix q assume "q \<in> {q \<in> U. below out q} - {q \<in> fst ` set fs. below out q}"
    then have "fs_get fs q = None" by (auto simp: map_of_eq_None_iff)
    then show "weight w (fs_get fs q) = 0" by simp
  qed
qed (use assms in auto)

lemma tree_weight_step:
  assumes "\<And>q. below out q \<Longrightarrow> weight w (fs_get fs' q) \<le> weight w (fs_get fs q) + (if q = t then k else 0)"
  shows "tree_weight w out fs' \<le> tree_weight w out fs + k"
proof -
  let ?U = "fst ` set fs \<union> fst ` set fs'"
  let ?V = "{q \<in> ?U. below out q}"
  have "tree_weight w out fs' = (\<Sum>q \<in> ?V. weight w (fs_get fs' q))" by (rule tree_weight_over) auto
  also have "\<dots> \<le> (\<Sum>q \<in> ?V. weight w (fs_get fs q) + (if q = t then k else 0))"
    by (rule sum_mono) (use assms in auto)
  also have "\<dots> = tree_weight w out fs + (\<Sum>q \<in> ?V. if q = t then k else 0)"
    using tree_weight_over [of ?U fs w out] by (simp add: sum.distrib)
  also have "(\<Sum>q \<in> ?V. if q = t then k else 0) \<le> k" by (simp add: sum.delta)
  finally show ?thesis by simp
qed

lemma mkdirs_below:
  assumes "mkdirs p fs = Some fs1" "dirs_to out fs" "below out p \<or> below p out"
  shows "dirs_to out fs1" "\<not> below out q \<Longrightarrow> fs_get fs1 q = fs_get fs q"
    "fs_get fs1 q = Some (FFile b) \<longleftrightarrow> fs_get fs q = Some (FFile b)" "weight w (fs_get fs1 q) = weight w (fs_get fs q)"
proof -
  note g = fs_get_mkdirs [OF assms(1)]
  show "dirs_to out fs1" using g assms(2) unfolding dirs_to_def by simp
  show "fs_get fs1 q = fs_get fs q" if "\<not> below out q"
  proof (cases "below q p")
    case True
    then have "below q out" using assms(3) that below_linear below_trans by metis
    then show ?thesis using assms(2) g True unfolding dirs_to_def by simp
  next
    case False
    then show ?thesis using g by simp
  qed
  show "fs_get fs1 q = Some (FFile b) \<longleftrightarrow> fs_get fs q = Some (FFile b)" using g [of q] by (cases "below q p") auto
  show "weight w (fs_get fs1 q) = weight w (fs_get fs q)"
    using g [of q] by (cases "below q p"; cases "fs_get fs q" rule: is_file_node.cases) auto
qed

text \<open>What a member can put below the staging folder.\<close>

definition staged_from :: "ustr \<Rightarrow> path \<Rightarrow> src_member list \<Rightarrow> path \<Rightarrow> bytes \<Rightarrow> bool" where
  "staged_from prefix out ms q b \<longleftrightarrow>
     (\<exists>m \<in> set ms. \<exists>rel. judge_member prefix m = Take rel \<and> sm_kind m = RegFile \<and> sm_content m = Some b \<and>
        q = out @ rel_parts rel)"

definition stage_inv :: "path \<Rightarrow> nat \<Rightarrow> nat \<Rightarrow> fs \<Rightarrow> bool" where
  "stage_inv out count written fs \<longleftrightarrow>
     dirs_to out fs \<and> tree_files out fs \<le> count \<and> count \<le> MAX_MEMBERS \<and>
     tree_bytes out fs \<le> written \<and> written \<le> MAX_UNCOMPRESSED_BYTES"

definition staged_ok :: "ustr \<Rightarrow> path \<Rightarrow> src_member list \<Rightarrow> fs \<Rightarrow> fs \<Rightarrow> bool" where
  "staged_ok prefix out ms fs fs' \<longleftrightarrow>
     (\<forall>q. \<not> below out q \<longrightarrow> fs_get fs' q = fs_get fs q) \<and> dirs_to out fs' \<and>
     (\<forall>q b. fs_get fs' q = Some (FFile b) \<longrightarrow> fs_get fs q = Some (FFile b) \<or> staged_from prefix out ms q b) \<and>
     tree_files out fs' \<le> MAX_MEMBERS \<and> tree_bytes out fs' \<le> MAX_UNCOMPRESSED_BYTES"

lemma staged_ok_refl: "stage_inv out c w fs \<Longrightarrow> staged_ok prefix out ms fs fs"
  by (auto simp: staged_ok_def stage_inv_def)

lemma staged_from_mono: "staged_from prefix out ms q b \<Longrightarrow> staged_from prefix out (m # ms) q b"
  by (auto simp: staged_from_def)

lemma staged_ok_trans:
  assumes "staged_ok prefix out ms fs1 fs2" "\<And>q. \<not> below out q \<Longrightarrow> fs_get fs1 q = fs_get fs q"
    "\<And>q b. fs_get fs1 q = Some (FFile b) \<Longrightarrow> fs_get fs q = Some (FFile b) \<or> staged_from prefix out (m # ms) q b"
  shows "staged_ok prefix out (m # ms) fs fs2"
  unfolding staged_ok_def
proof (intro conjI allI impI)
  note ok = assms(1) [unfolded staged_ok_def]
  show "fs_get fs2 q = fs_get fs q" if "\<not> below out q" for q using ok assms(2) that by simp
  show "dirs_to out fs2" "tree_files out fs2 \<le> MAX_MEMBERS" "tree_bytes out fs2 \<le> MAX_UNCOMPRESSED_BYTES" using ok by simp_all
  show "fs_get fs q = Some (FFile b) \<or> staged_from prefix out (m # ms) q b" if "fs_get fs2 q = Some (FFile b)" for q b
    using ok assms(3) that staged_from_mono by blast
qed

lemma stage_inv_mkdirs:
  assumes "mkdirs p fs = Some fs1" "stage_inv out c w fs" "below out p \<or> below p out" "c \<le> c'" "c' \<le> MAX_MEMBERS"
  shows "stage_inv out c' w fs1"
proof -
  have d: "dirs_to out fs" using assms(2) by (simp add: stage_inv_def)
  have "tree_files out fs1 \<le> tree_files out fs + 0" "tree_bytes out fs1 \<le> tree_bytes out fs + 0"
    unfolding tree_files_def tree_bytes_def
    by (rule tree_weight_step; simp add: mkdirs_below(4) [OF assms(1) d assms(3)])+
  then show ?thesis using assms mkdirs_below(1) [OF assms(1) d assms(3)] by (auto simp: stage_inv_def)
qed

lemma stage_inv_write:
  assumes "write_file p b fs = Some fs1" "stage_inv out c w fs"
    "Suc c \<le> MAX_MEMBERS" "w + length b \<le> MAX_UNCOMPRESSED_BYTES"
  shows "stage_inv out (Suc c) (w + length b) fs1"
proof -
  have g: "fs_get fs1 q = (if q = p then Some (FFile b) else fs_get fs q)" and nd: "fs_get fs p \<noteq> Some FDir" for q
    using assms(1) by (auto simp: write_file_def fs_get_set split: if_splits)
  have "tree_files out fs1 \<le> tree_files out fs + 1" "tree_bytes out fs1 \<le> tree_bytes out fs + length b"
    unfolding tree_files_def tree_bytes_def by (rule tree_weight_step [where t = p]; simp add: g)+
  moreover have "dirs_to out fs1" using assms(2) g nd unfolding stage_inv_def dirs_to_def by metis
  ultimately show ?thesis using assms by (auto simp: stage_inv_def)
qed


lemma below_butlast: "below p (butlast (p @ r)) \<or> below (butlast (p @ r)) p"
proof (cases r rule: rev_cases)
  case Nil
  then show ?thesis by (simp add: below_def take_butlast butlast_conv_take)
next
  case (snoc ys y)
  then show ?thesis by (simp add: butlast_append)
qed

lemma stage_loop_ok:
  assumes "stage_loop refused prefix out ms count tot matched written fs = (e, fs')" "stage_inv out count written fs"
  shows "staged_ok prefix out ms fs fs'"
  using assms
proof (induction ms arbitrary: count tot matched written fs)
  case Nil
  then show ?case using staged_ok_refl by auto
next
  case (Cons m ms)
  show ?case
  proof (cases "judge_member prefix m")
    case Skip
    then have "staged_ok prefix out ms fs fs'" using Cons by simp
    then show ?thesis by (rule staged_ok_trans) auto
  next
    case (Refuse c)
    then show ?thesis using Cons.prems staged_ok_refl by auto
  next
    case (Take rel)
    define p where "p = out @ rel_parts rel"
    let ?q = "if sm_kind m = Directory then p else butlast p"
    have q: "below out ?q \<or> below ?q out"
      using below_butlast [of out "rel_parts rel"] unfolding p_def by simp
    show ?thesis
    proof (cases "count + 1 > MAX_MEMBERS \<or> tot + nat (max (sm_size m) 0) > MAX_UNCOMPRESSED_BYTES \<or> refused p \<or> mkdirs ?q fs = None")
      case True
      then have "fs' = fs" using Cons.prems(1) Take by (auto simp: p_def Let_def split: if_splits)
      then show ?thesis using Cons.prems(2) staged_ok_refl by auto
    next
      case False
      then obtain fs1 where m1: "mkdirs ?q fs = Some fs1" and c: "count + 1 \<le> MAX_MEMBERS" by auto
      have d: "dirs_to out fs" using Cons.prems(2) by (simp add: stage_inv_def)
      note mk = mkdirs_below [OF m1 d q]
      show ?thesis
      proof (cases "sm_kind m = Directory")
        case True
        have "stage_inv out (count + 1) written fs1" using stage_inv_mkdirs [OF m1 Cons.prems(2) q _ c] by simp
        then have "staged_ok prefix out ms fs1 fs'"
          using Cons.prems(1) Take False True m1 by (intro Cons.IH) (auto simp: p_def Let_def)
        then show ?thesis by (rule staged_ok_trans) (use mk in auto)
      next
        case dir: False
        have i1: "stage_inv out count written fs1" using stage_inv_mkdirs [OF m1 Cons.prems(2) q _ ] c by simp
        have kind: "sm_kind m = RegFile"
          using Take dir by (cases "sm_kind m") (auto simp: judge_member_def Let_def split: if_splits)
        have stop: ?thesis if "fs' = fs1"
          unfolding that by (rule staged_ok_trans [OF staged_ok_refl [OF i1]]) (use mk in auto)
        show ?thesis
        proof (cases "\<exists>b fs2. sm_content m = Some b \<and> written + length b \<le> MAX_UNCOMPRESSED_BYTES \<and> write_file p b fs1 = Some fs2")
          case True
          then obtain b fs2 where b: "sm_content m = Some b" "written + length b \<le> MAX_UNCOMPRESSED_BYTES"
            and w: "write_file p b fs1 = Some fs2" by blast
          have "stage_inv out (Suc count) (written + length b) fs2" using stage_inv_write [OF w i1] c b(2) by simp
          then have ok: "staged_ok prefix out ms fs2 fs'"
            using Cons.prems(1) Take False dir m1 b w by (intro Cons.IH) (auto simp: p_def Let_def)
          have g: "fs_get fs2 q = (if q = p then Some (FFile b) else fs_get fs1 q)" for q
            using w by (auto simp: write_file_def fs_get_set split: if_splits)
          have "staged_from prefix out (m # ms) p b"
            using Take kind b(1) by (auto simp: staged_from_def p_def)
          then show ?thesis by (intro staged_ok_trans [OF ok]) (use g mk p_def in \<open>auto split: if_splits\<close>)
        next
          case no: False
          have "fs' = fs1"
            using Cons.prems(1) Take False dir m1 no
            by (auto simp: p_def Let_def not_less split: if_splits option.splits)
          then show ?thesis by (rule stop)
        qed
      qed
    qed
  qed
qed


text \<open>The temporary directory is new and its parents exist.\<close>

definition fresh_dir :: "path \<Rightarrow> fs \<Rightarrow> bool" where
  "fresh_dir stg fs \<longleftrightarrow> (\<forall>q. below stg q \<longrightarrow> fs_get fs q = None) \<and> (\<forall>q. below q stg \<and> q \<noteq> stg \<longrightarrow> fs_get fs q = Some FDir)"

definition stage_result :: "install_env \<Rightarrow> ustr \<Rightarrow> ustr \<Rightarrow> ustr \<Rightarrow> ustr \<Rightarrow> path \<Rightarrow> fs \<Rightarrow> bool" where
  "stage_result env owner repo ref subpath out fs \<longleftrightarrow>
     (\<exists>b ms. download_tarball (ie_net env) owner repo ref = Inr b \<and> ie_untar env b = Some ms \<and>
        (\<forall>q c. below out q \<and> fs_get fs q = Some (FFile c) \<longrightarrow> staged_from (member_prefix ms subpath) out ms q c) \<and>
        tree_files out fs \<le> MAX_MEMBERS \<and> tree_bytes out fs \<le> MAX_UNCOMPRESSED_BYTES)"

lemma below_snoc: "below q (p @ [x]) \<longleftrightarrow> q = p @ [x] \<or> below q p"
proof (cases "length q \<le> length p")
  case True
  then show ?thesis by (auto simp: below_def)
next
  case False
  then show ?thesis by (auto simp: below_def)
qed

lemma stage_members_ok:
  assumes "fresh_dir stg fs0" "stg = ie_staging env" "pid \<noteq> lit ''src.tar.gz''"
    "stage_members env subpath pid b (fs_set (stg @ [lit ''src.tar.gz'']) (FFile b) (fs_set stg FDir fs0)) = (e, commit, fs')"
  shows "(\<forall>q. \<not> below stg q \<longrightarrow> fs_get fs' q = fs_get fs0 q) \<and> fs_get fs' stg = Some FDir \<and>
    (e = None \<longrightarrow> (\<exists>ms. ie_untar env b = Some ms \<and> dirs_to (stg @ [pid]) fs' \<and>
       (\<forall>q c. below (stg @ [pid]) q \<and> fs_get fs' q = Some (FFile c) \<longrightarrow>
          staged_from (member_prefix ms subpath) (stg @ [pid]) ms q c) \<and>
       tree_files (stg @ [pid]) fs' \<le> MAX_MEMBERS \<and> tree_bytes (stg @ [pid]) fs' \<le> MAX_UNCOMPRESSED_BYTES))"
proof -
  let ?out = "stg @ [pid]" and ?a = "stg @ [lit ''src.tar.gz'']"
  define fs1 where "fs1 = fs_set ?out FDir (fs_set ?a (FFile b) (fs_set stg FDir fs0))"
  have g: "fs_get fs1 q = (if q = ?out then Some FDir else if q = ?a then Some (FFile b) else if q = stg then Some FDir else fs_get fs0 q)" for q
    by (simp add: fs1_def fs_get_set)
  have out: "fs_get fs1 q = (if q = ?out then Some FDir else None)" if "below ?out q" for q
  proof -
    have "q \<noteq> ?a" using that assms(3) by (auto simp: below_iff)
    moreover have "q \<noteq> stg" "below stg q" using that by (auto simp: below_iff)
    ultimately show ?thesis using g assms(1) by (auto simp: fresh_dir_def)
  qed
  have d: "dirs_to ?out fs1"
    using assms(1) g unfolding dirs_to_def fresh_dir_def below_snoc by (auto simp: below_iff)
  have w: "tree_weight w ?out fs1 \<le> tree_weight w ?out [] + 0" for w
    by (rule tree_weight_step) (simp add: out)
  have inv: "stage_inv ?out 0 0 fs1"
    using d w by (simp add: stage_inv_def tree_files_def tree_bytes_def tree_weight_def)
  have off: "fs_get fs1 q = fs_get fs0 q" if "\<not> below stg q" for q using g that by auto
  have stg: "fs_get fs1 stg = Some FDir" using g by simp
  show ?thesis
  proof (cases "ie_untar env b = None \<or> ie_untar env b = Some []")
    case True
    then have "fs' = fs1 \<and> e \<noteq> None" using assms(4) by (auto simp: stage_members_def fs1_def assms(2) [symmetric] Let_def)
    then show ?thesis using off stg by auto
  next
    case False
    then obtain ms where ms: "ie_untar env b = Some ms" "ms \<noteq> []" by auto
    have "stage_loop (ie_refused env) (member_prefix ms subpath) ?out ms 0 0 False 0 fs1 = (e, fs')"
      using assms(4) ms by (cases ms) (auto simp: stage_members_def fs1_def assms(2) [symmetric] Let_def split: prod.splits)
    from stage_loop_ok [OF this inv] have ok: "staged_ok (member_prefix ms subpath) ?out ms fs1 fs'" .
    have "fs_get fs' q = fs_get fs0 q" if "\<not> below stg q" for q
    proof -
      have "\<not> below ?out q" using that below_trans below_append by blast
      then show ?thesis using ok off [OF that] by (simp add: staged_ok_def)
    qed
    moreover have "fs_get fs' stg = Some FDir" using ok unfolding staged_ok_def dirs_to_def by (simp add: below_snoc)
    moreover have "staged_from (member_prefix ms subpath) ?out ms q c" if "below ?out q" "fs_get fs' q = Some (FFile c)" for q c
      using ok that out [OF that(1)] unfolding staged_ok_def by (metis fs_node.distinct(1) option.distinct(1) option.inject)
    ultimately show ?thesis using ok ms(1) unfolding staged_ok_def by blast
  qed
qed

lemma stage_from_tarball_ok:
  assumes "fresh_dir stg fs0" "stg = ie_staging env" "pid \<noteq> lit ''src.tar.gz''"
    "stage_from_tarball env owner repo ref subpath pid fs0 = (res, fs')"
  shows "(\<forall>q. \<not> below stg q \<longrightarrow> fs_get fs' q = fs_get fs0 q) \<and>
    (case res of
       Inl e \<Rightarrow> \<forall>q. below stg q \<longrightarrow> fs_get fs' q = None
     | Inr c \<Rightarrow> dirs_to (stg @ [pid]) fs' \<and> stage_result env owner repo ref subpath (stg @ [pid]) fs')"
proof (cases "download_tarball (ie_net env) owner repo ref")
  case (Inl e)
  then have "res = Inl e" "fs' = rmtree stg (fs_set stg FDir fs0)"
    using assms(4) by (auto simp: stage_from_tarball_def assms(2) Let_def)
  then show ?thesis by (auto simp: fs_get_rmtree fs_get_set)
next
  case (Inr b)
  let ?a = "stg @ [lit ''src.tar.gz'']"
  obtain e c fs2 where st: "stage_members env subpath pid b (fs_set ?a (FFile b) (fs_set stg FDir fs0)) = (e, c, fs2)"
    by (metis prod_cases3)
  note ok = stage_members_ok [OF assms(1-3) st]
  show ?thesis
  proof (cases e)
    case (Some err)
    then have "res = Inl err" "fs' = rmtree stg fs2"
      using assms(4) Inr st by (auto simp: stage_from_tarball_def assms(2) [symmetric] Let_def)
    then show ?thesis using ok by (auto simp: fs_get_rmtree)
  next
    case None
    then have r: "res = Inr c" "fs' = filter (\<lambda>(q, n). q \<noteq> ?a) fs2"
      using assms(4) Inr st by (auto simp: stage_from_tarball_def assms(2) [symmetric] Let_def)
    have g: "fs_get fs' q = (if q = ?a then None else fs_get fs2 q)" for q
      unfolding r(2) by (simp add: map_of_keep [of "\<lambda>q. q \<noteq> ?a"])
    have out: "q \<noteq> ?a" if "below (stg @ [pid]) q" for q using that assms(3) by (auto simp: below_iff)
    have "tree_weight w (stg @ [pid]) fs' \<le> tree_weight w (stg @ [pid]) fs2 + 0" for w
      by (rule tree_weight_step) (simp add: g out)
    moreover have "\<not> below ?a (stg @ [pid])" using assms(3) by (auto simp: below_iff)
    ultimately show ?thesis
      using ok None r(1) g out Inr
      unfolding stage_result_def dirs_to_def tree_files_def tree_bytes_def by (fastforce intro: order_trans)
  qed
qed



section \<open>Placing\<close>

definition apart :: "path \<Rightarrow> path \<Rightarrow> bool" where
  "apart p q \<longleftrightarrow> \<not> below p q \<and> \<not> below q p"

lemma apart_sym: "apart p q \<Longrightarrow> apart q p"
  by (simp add: apart_def)

lemma apart_below: "apart p q \<Longrightarrow> below p p' \<Longrightarrow> below q q' \<Longrightarrow> apart p' q'"
  unfolding apart_def by (meson below_linear below_trans)

lemma apart_notD: "apart p q \<Longrightarrow> below p x \<Longrightarrow> \<not> below q x"
  unfolding apart_def using below_linear by blast

definition backup_of :: "path \<Rightarrow> path" where
  "backup_of dest = butlast dest @ [last dest @ lit ''.replacing'']"

lemma backup_apart: "dest \<noteq> [] \<Longrightarrow> apart dest (backup_of dest)"
proof -
  assume "dest \<noteq> []"
  then obtain p x where d: "dest = p @ [x]" by (metis append_butlast_last_id)
  have "x @ lit ''.replacing'' \<noteq> x" by (simp add: lit_def)
  then show ?thesis unfolding apart_def backup_of_def d by (auto simp: below_snoc below_def)
qed

lemma rename_path_Some: "rename_path s d fs = Some fs' \<Longrightarrow> fs' = relocate s d fs"
  by (auto simp: rename_path_def split: option.splits fs_node.splits if_splits)

text \<open>What a path outside the two folders keeps, whether or not the placing succeeds: at most a
  missing parent of the destination is created.\<close>

definition only_parents :: "path \<Rightarrow> fs \<Rightarrow> fs \<Rightarrow> path \<Rightarrow> bool" where
  "only_parents dest fs fs' q \<longleftrightarrow>
     fs_get fs' q = fs_get fs q \<or> (below q (butlast dest) \<and> fs_get fs q = None \<and> fs_get fs' q = Some FDir)"

lemma mkdirs_only_parents: "mkdirs (butlast dest) fs = Some fs1 \<Longrightarrow> only_parents dest fs fs1 q"
proof -
  assume m: "mkdirs (butlast dest) fs = Some fs1"
  note g = fs_get_mkdirs [OF m]
  show ?thesis
  proof (cases "below q (butlast dest)")
    case True
    then show ?thesis using g [of q] unfolding only_parents_def by (cases "fs_get fs q" rule: is_file_node.cases) auto
  next
    case False
    then show ?thesis using g [of q] by (simp add: only_parents_def)
  qed
qed

lemma place_frame:
  assumes "place mv staged dest fs = (ok, fs')" "dest \<noteq> []" "apart staged dest" "apart staged (backup_of dest)"
    "\<not> below dest q" "\<not> below (backup_of dest) q" "\<not> below staged q"
  shows "only_parents dest fs fs' q"
proof (cases "mkdirs (butlast dest) fs")
  case None
  then show ?thesis using assms(1) by (simp add: place_def only_parents_def)
next
  case (Some fs1)
  let ?b = "backup_of dest"
  note ab = backup_apart [OF assms(2)]
  have r1: "fs_get (relocate dest ?b x) q = fs_get x q" for x
    using fs_get_relocate [of dest ?b x q] ab assms(5,6) by (simp add: apart_def)
  have r2: "fs_get (relocate ?b dest x) q = fs_get x q" for x
    using fs_get_relocate [of ?b dest x q] ab assms(5,6) by (simp add: apart_def)
  have r3: "fs_get (relocate staged dest x) q = fs_get x q" for x
    using fs_get_relocate [of staged dest x q] assms(3,5,7) by (simp add: apart_def)
  have rm: "fs_get (rmtree ?b x) q = fs_get x q" for x using assms(6) by (simp add: fs_get_rmtree)
  have lf: "fs_get (leftover c staged dest x @ y) q = fs_get y q" for c x y
    using fs_get_leftover [of c staged dest x q] assms(5) by (auto simp: map_add_def split: option.splits)
  have mv: "fs_get (snd (move_tree mv staged dest x)) q = fs_get x q" for x
    using r3 lf by (simp add: move_tree_def split: option.splits)
  have rn: "rename_path s d x = Some y \<Longrightarrow> y = relocate s d x" for s d x y by (rule rename_path_Some)
  have "fs_get fs' q = fs_get fs1 q"
    using assms(1) Some unfolding place_def backup_of_def [symmetric]
    by (auto simp: Let_def r1 r2 rm dest!: rn split: if_splits option.splits prod.splits bool.splits)
      (metis mv r1 r2 rm snd_conv)+
  then show ?thesis using mkdirs_only_parents [OF Some, of q] by (simp add: only_parents_def)
qed

lemma place_done:
  assumes "place mv staged dest fs = (True, fs')" "dest \<noteq> []" "apart staged dest" "apart staged (backup_of dest)"
  shows "fs_get fs' (dest @ r) = fs_get fs (staged @ r)" "fs_get fs' (staged @ r) = None"
proof -
  let ?b = "backup_of dest"
  note ab = backup_apart [OF assms(2)]
  obtain fs1 where m: "mkdirs (butlast dest) fs = Some fs1" using assms(1) by (auto simp: place_def split: option.splits)
  have mvN: "mv = None"
    using assms(1) m by (auto simp: place_def move_tree_def Let_def split: if_splits option.splits)
  have nb: "\<not> below ?b (dest @ r)" "\<not> below dest (staged @ r)" "\<not> below ?b (staged @ r)" "\<not> below staged (dest @ r)"
    using apart_notD [OF ab] apart_notD [OF assms(3)] apart_notD [OF assms(4)] apart_notD [OF apart_sym [OF assms(3)]] by auto
  have pre: "fs_get fs1 (staged @ r) = fs_get fs (staged @ r)"
  proof -
    have "\<not> below (staged @ r) (butlast dest)"
    proof
      assume "below (staged @ r) (butlast dest)"
      moreover have "below (butlast dest) dest" by (simp add: below_def butlast_conv_take)
      ultimately have "below staged dest" using below_trans below_append by blast
      then show False using assms(3) by (simp add: apart_def)
    qed
    then show ?thesis using fs_get_mkdirs(1) [OF m] by simp
  qed
  have key: "fs_get (relocate staged dest x) (dest @ r) = fs_get x (staged @ r)"
    "fs_get (relocate staged dest x) (staged @ r) = None" for x
    using fs_get_relocate [of staged dest x] assms(3) nb by (simp_all add: apart_def)
  have rd: "fs_get (relocate dest ?b x) (staged @ r) = fs_get x (staged @ r)" for x
    using fs_get_relocate [of dest ?b x] ab nb by (simp add: apart_def)
  have rb: "fs_get (rmtree ?b x) (dest @ r) = fs_get x (dest @ r)" "fs_get (rmtree ?b x) (staged @ r) = fs_get x (staged @ r)" for x
    using nb by (simp_all add: fs_get_rmtree)
  have "fs' = relocate staged dest fs1 \<or> fs' = rmtree ?b (relocate staged dest (relocate dest ?b (rmtree ?b fs1)))"
    using assms(1) m mvN unfolding place_def backup_of_def [symmetric]
    by (auto simp: Let_def move_tree_def dest!: rename_path_Some split: if_splits option.splits)
  then show "fs_get fs' (dest @ r) = fs_get fs (staged @ r)" "fs_get fs' (staged @ r) = None"
    using key rd rb pre by auto
qed

lemma map_filter_Nil: "(\<And>x. x \<in> set xs \<Longrightarrow> f x = None) \<Longrightarrow> List.map_filter f xs = []"
  by (induction xs) (auto simp: map_filter_simps)

text \<open>A move that fails before anything is copied is undone.\<close>

lemma place_undone:
  assumes "place mv staged dest fs = (False, fs')" "dest \<noteq> []" "apart staged dest"
    "case mv of None \<Rightarrow> True | Some copied \<Rightarrow> copied [] = None"
  shows "fs_get fs' (dest @ r) = fs_get fs (dest @ r)"
proof (cases "mkdirs (butlast dest) fs")
  case None
  then show ?thesis using assms(1) by (simp add: place_def)
next
  case (Some fs1)
  let ?b = "backup_of dest"
  note ab = backup_apart [OF assms(2)]
  have nb: "\<not> below ?b (dest @ r)" using apart_notD [OF ab] by auto
  have "\<not> below (dest @ r) (butlast dest)"
  proof
    assume "below (dest @ r) (butlast dest)"
    then obtain x where "butlast dest = dest @ r @ x" by (auto simp: below_iff)
    from arg_cong [OF this, of length] show False using assms(2) unfolding length_butlast by (cases dest) auto
  qed
  then have pre: "fs_get fs1 (dest @ r) = fs_get fs (dest @ r)" using fs_get_mkdirs(1) [OF Some] by simp
  have lo: "leftover copied staged dest x = []" if "mv = Some copied" for copied x
  proof -
    have "\<not> list_all (\<lambda>i. copied (take i r) \<noteq> None) [0..<Suc (length r)]" for r
    proof
      assume "list_all (\<lambda>i. copied (take i r) \<noteq> None) [0..<Suc (length r)]"
      then have "copied (take 0 r) \<noteq> None" unfolding list_all_iff by (metis atLeastLessThan_iff set_upt zero_le zero_less_Suc)
      then show False using assms(4) that by simp
    qed
    note no = this
    show ?thesis unfolding leftover_def by (rule map_filter_Nil) (simp only: Let_def no simp_thms if_False split: prod.splits)
  qed
  have rr: "fs_get (relocate ?b dest (relocate dest ?b x)) (dest @ r) = fs_get x (dest @ r)" for x
    using fs_get_relocate [of ?b dest "relocate dest ?b x"] fs_get_relocate [of dest ?b x] ab
    by (simp add: apart_def)
  have rb: "fs_get (rmtree ?b x) (dest @ r) = fs_get x (dest @ r)" for x using nb by (simp add: fs_get_rmtree)
  have undo: "rename_path ?b dest (relocate dest ?b x) = Some (relocate ?b dest (relocate dest ?b x))"
    if "rename_path dest ?b x = Some y" for x y
  proof -
    have "fs_get x dest \<noteq> None" using that by (auto simp: rename_path_def split: option.splits)
    then have "fs_get (relocate dest ?b x) ?b \<noteq> None" "fs_get (relocate dest ?b x) dest = None"
      using fs_get_relocate [of dest ?b x] ab by (simp_all add: apart_def)
    then show ?thesis by (auto simp: rename_path_def split: option.splits fs_node.splits)
  qed
  have "fs_get fs' (dest @ r) = fs_get fs1 (dest @ r)"
  proof (cases "fs_get fs1 dest = None")
    case True
    then show ?thesis using assms(1) Some lo by (auto simp: place_def move_tree_def split: option.splits)
  next
    case False
    show ?thesis
    proof (cases "rename_path dest ?b (rmtree ?b fs1)")
      case None
      then show ?thesis using assms(1) Some False rb by (auto simp: place_def backup_of_def [symmetric] Let_def)
    next
      case (Some fs2)
      then have fs2: "fs2 = relocate dest ?b (rmtree ?b fs1)" by (rule rename_path_Some)
      obtain copied where c: "mv = Some copied"
        using assms(1) Some False \<open>mkdirs (butlast dest) fs = Some fs1\<close>
        by (auto simp: place_def backup_of_def [symmetric] Let_def move_tree_def split: option.splits)
      then have "fs' = relocate ?b dest fs2"
        using assms(1) Some False \<open>mkdirs (butlast dest) fs = Some fs1\<close> lo [OF c] undo [OF Some] fs2
        by (simp add: place_def backup_of_def [symmetric] Let_def move_tree_def)
      then show ?thesis using rr rb fs2 by simp
    qed
  qed
  then show ?thesis using pre by simp
qed



section \<open>Installing\<close>

lemma dest_below:
  assumes "community \<noteq> []"
  shows "below (butlast community) (dest_of community e)" "below (butlast community) (backup_of (dest_of community e))"
    "dest_of community e \<noteq> []"
proof -
  obtain p x where c: "community = p @ [x]" using assms by (metis append_butlast_last_id)
  show "below (butlast community) (dest_of community e)" "below (butlast community) (backup_of (dest_of community e))"
    "dest_of community e \<noteq> []"
    unfolding c by (auto simp: dest_of_def backup_of_def below_iff butlast_append)
qed

lemma tree_weight_rel:
  assumes "finite U" "\<And>r. p @ r \<in> fst ` set fs \<Longrightarrow> r \<in> U"
  shows "tree_weight w p fs = (\<Sum>r \<in> U. weight w (fs_get fs (p @ r)))"
proof -
  have "tree_weight w p fs = (\<Sum>q \<in> {q \<in> fst ` set fs \<union> (@) p ` U. below p q}. weight w (fs_get fs q))"
    by (rule tree_weight_over) (use assms(1) in auto)
  also have "{q \<in> fst ` set fs \<union> (@) p ` U. below p q} = (@) p ` U"
    using assms(2) by (auto simp: below_iff)
  finally show ?thesis by (simp add: sum.reindex inj_on_def)
qed

lemma tree_weight_cong:
  assumes "\<And>r. fs_get fs' (dest @ r) = fs_get fs (src @ r)"
  shows "tree_weight w dest fs' = tree_weight w src fs"
proof -
  let ?U = "(@) dest -` (fst ` set fs') \<union> (@) src -` (fst ` set fs)"
  have f: "finite ?U" by (auto intro!: finite_vimageI simp: inj_def)
  show ?thesis using tree_weight_rel [OF f, of dest fs' w] tree_weight_rel [OF f, of src fs w] assms by auto
qed

lemma stage_result_moved:
  assumes "stage_result env owner repo ref subpath out fs" "\<And>r. fs_get fs' (dest @ r) = fs_get fs (out @ r)"
  shows "stage_result env owner repo ref subpath dest fs'"
proof -
  obtain b ms where b: "download_tarball (ie_net env) owner repo ref = Inr b" "ie_untar env b = Some ms"
    and f: "\<And>q c. below out q \<Longrightarrow> fs_get fs q = Some (FFile c) \<Longrightarrow> staged_from (member_prefix ms subpath) out ms q c"
    and w: "tree_files out fs \<le> MAX_MEMBERS" "tree_bytes out fs \<le> MAX_UNCOMPRESSED_BYTES"
    using assms(1) unfolding stage_result_def by blast
  have "staged_from (member_prefix ms subpath) dest ms q c" if "below dest q" "fs_get fs' q = Some (FFile c)" for q c
  proof -
    obtain r where r: "q = dest @ r" using \<open>below dest q\<close> by (auto simp: below_iff)
    then have "fs_get fs (out @ r) = Some (FFile c)" using that(2) assms(2) by simp
    from f [OF _ this] show ?thesis unfolding staged_from_def r by auto
  qed
  then show ?thesis
    using b w tree_weight_cong [of fs' dest fs out, OF assms(2)] unfolding stage_result_def tree_files_def tree_bytes_def
    by (intro exI [of _ b] exI [of _ ms]) auto
qed

lemma install_effect:
  assumes "catalog_entry_of v theme = Inr e" and "fresh_dir (ie_staging env) fs"
    and "apart (ie_staging env) (butlast community)" and "community \<noteq> []"
    and "install_from_source T env owner repo ref e community fs = (res, fs')"
  shows "(\<forall>q. \<not> below (dest_of community e) q \<and> \<not> below (backup_of (dest_of community e)) q \<longrightarrow>
       only_parents (dest_of community e) fs fs' q) \<and>
     (case res of
        Inr r \<Rightarrow> ir_id r = ce_id e \<and> stage_result env owner repo ref (ce_path e) (dest_of community e) fs'
      | Inl err \<Rightarrow> (case ie_move env of None \<Rightarrow> True | Some copied \<Rightarrow> copied [] = None) \<longrightarrow>
          (\<forall>q. below (dest_of community e) q \<longrightarrow> fs_get fs' q = fs_get fs q))"
proof -
  define stg where "stg = ie_staging env"
  let ?d = "dest_of community e" and ?out = "stg @ [ce_id e]"
  have fresh: "fresh_dir stg fs" and ap: "apart stg (butlast community)" using assms(2,3) by (simp_all add: stg_def)
  note db = dest_below [OF assms(4), of e]
  have pid: "ce_id e \<noteq> lit ''src.tar.gz''"
    using slug_chars [OF catalog_entry_path(1) [OF assms(1)]] by (auto simp: lit_def)
  have a1: "apart ?out ?d" "apart ?out (backup_of ?d)" "apart stg ?d"
    using apart_below [OF ap] db by auto
  have nstg: "below stg q \<Longrightarrow> \<not> below ?d q" for q using apart_notD [OF a1(3)] .
  obtain sr fs1 where st: "stage_from_tarball env owner repo ref (ce_path e) (ce_id e) fs = (sr, fs1)" by force
  note sok = stage_from_tarball_ok [OF fresh stg_def pid st]
  have clean: "fs_get (rmtree stg fs1) q = fs_get fs q" if "fs_get fs1 stg = Some FDir" for q
    using sok that fresh by (auto simp: fs_get_rmtree fresh_dir_def)
  show ?thesis
  proof (cases sr)
    case (Inl err)
    then have "res = Inl err" "fs' = fs1" using assms(5) st by (auto simp: install_from_source_def Let_def)
    moreover have "fs_get fs1 q = fs_get fs q" for q using sok fresh Inl by (cases "below stg q") (auto simp: fresh_dir_def)
    ultimately show ?thesis by (simp add: only_parents_def)
  next
    case (Inr commit)
    have d1: "dirs_to ?out fs1" and sr1: "stage_result env owner repo ref (ce_path e) ?out fs1" using sok Inr by auto
    then have stg1: "fs_get fs1 stg = Some FDir" by (simp add: dirs_to_def below_snoc)
    show ?thesis
    proof (cases "validate_staged T env e fs1")
      case err: (Inl err)
      then have "res = Inl err" "fs' = rmtree stg fs1"
        using assms(5) st Inr by (auto simp: install_from_source_def Let_def stg_def)
      then show ?thesis using clean [OF stg1] by (simp add: only_parents_def)
    next
      case vok: (Inr hv)
      obtain ok fs2 where pl: "place (ie_move env) ?out ?d fs1 = (ok, fs2)" by force
      have fs': "fs' = rmtree stg fs2" and res: "ok \<longleftrightarrow> (\<exists>r. res = Inr r \<and> ir_id r = ce_id e)" "\<not> ok \<longleftrightarrow> res = Inl Crash"
        using assms(5) st Inr vok pl by (auto simp: install_from_source_def Let_def stg_def split: prod.splits bool.splits)
      have frame: "only_parents ?d fs1 fs2 q" if "\<not> below ?d q" "\<not> below (backup_of ?d) q" "\<not> below ?out q" for q
        using place_frame [OF pl db(3) a1(1,2) that] .
      have astg: "apart stg (backup_of ?d)" using apart_below [OF ap] db by auto
      have stg2: "fs_get fs2 stg = Some FDir"
        using frame [of stg] stg1 a1(3) astg by (auto simp: apart_def only_parents_def below_def)
      have frame': "only_parents ?d fs fs' q" if "\<not> below ?d q" "\<not> below (backup_of ?d) q" for q
      proof (cases "below stg q")
        case True
        then show ?thesis using fresh by (simp add: fs' fs_get_rmtree stg2 only_parents_def fresh_dir_def)
      next
        case False
        then have "\<not> below ?out q" using below_trans below_append by blast
        then show ?thesis using frame [OF that] False sok by (simp add: fs' fs_get_rmtree only_parents_def)
      qed
      have fsd: "fs_get fs' (?d @ r) = fs_get fs2 (?d @ r)" for r
        using nstg [of "?d @ r"] by (auto simp: fs' fs_get_rmtree)
      show ?thesis
      proof (cases ok)
        case True
        have "fs_get fs' (?d @ r) = fs_get fs1 (?out @ r)" for r
          using place_done(1) [of "ie_move env" ?out ?d fs1 fs2 r] pl True db(3) a1 fsd by simp
        then have "stage_result env owner repo ref (ce_path e) ?d fs'" by (rule stage_result_moved [OF sr1])
        then show ?thesis using frame' res True by auto
      next
        case False
        have "fs_get fs' (?d @ r) = fs_get fs (?d @ r)" if "case ie_move env of None \<Rightarrow> True | Some copied \<Rightarrow> copied [] = None" for r
          using place_undone [of "ie_move env" ?out ?d fs1 fs2 r] pl False db(3) a1 fsd that sok nstg [of "?d @ r"] by auto
        then show ?thesis using frame' res False by (auto simp: below_iff)
      qed
    qed
  qed
qed

lemmas install_contained_frame = install_effect [THEN conjunct1, rule_format, OF _ _ _ _ _ conjI]

text \<open>C19: Installing an entry of a catalog changes nothing but the folder of that entry below \<^verbatim>\<open>apps\<close> or
  \<^verbatim>\<open>themes\<close>, the copy of it set aside during the replacement, and missing parents of it; the staging
  directory is gone whatever happens. After success every file of the folder is a regular member
  of the downloaded archive below the entry's own path, at its relative path and with its bytes,
  and there are at most 4000 of them and 80 MiB. After an error the folder is as it was,
  unless a move had copied part of it.\<close>

theorem install_contained:
  assumes "catalog_entry_of v theme = Inr e" and "fresh_dir (ie_staging env) fs"
    and "apart (ie_staging env) (butlast community)" and "community \<noteq> []"
    and "install_from_source T env owner repo ref e community fs = (res, fs')"
  shows "(\<forall>q. \<not> below (dest_of community e) q \<and> \<not> below (backup_of (dest_of community e)) q \<longrightarrow>
       only_parents (dest_of community e) fs fs' q) \<and>
     (case res of
        Inr r \<Rightarrow> ir_id r = ce_id e \<and> stage_result env owner repo ref (ce_path e) (dest_of community e) fs'
      | Inl err \<Rightarrow> (case ie_move env of None \<Rightarrow> True | Some copied \<Rightarrow> copied [] = None) \<longrightarrow>
          (\<forall>q. below (dest_of community e) q \<longrightarrow> fs_get fs' q = fs_get fs q))"
  using install_effect [OF assms] .


text \<open>What such a member's relative path is: no empty name, no dot and no double dot in it.\<close>

lemma judged_rel:
  assumes "judge_member prefix m = Take rel"
  shows "[46, 46] \<notin> set (rel_parts rel) \<and> [] \<notin> set (rel_parts rel) \<and> [46] \<notin> set (rel_parts rel)"
  using assms by (auto simp: judge_member_def rel_parts_def posix_parts_def Let_def split: if_splits)

text \<open>A move that fails half way, as between file systems, is not undone: the old folder stays
  aside and the new one is incomplete.\<close>

definition half_fs :: fs where
  "half_fs = [([], FDir), ([[1]], FDir), ([[1], [2]], FFile [1]), ([[3]], FDir), ([[3], [4]], FFile [5]), ([[3], [6]], FFile [7])]"

lemma place_half_moved:
  defines "fs' \<equiv> snd (place (Some (\<lambda>r. if r = [[6]] then None else Some 1)) [[3]] [[1]] half_fs)"
  shows "\<not> fst (place (Some (\<lambda>r. if r = [[6]] then None else Some 1)) [[3]] [[1]] half_fs)"
    "fs_get fs' [[1], [2]] = None" "fs_get fs' [[1], [4]] = Some (FFile [5])" "fs_get fs' [[1], [6]] = None"
    "fs_get fs' [1 # lit ''.replacing'', [2]] = Some (FFile [1])"
  unfolding fs'_def half_fs_def
  by (simp_all add: place_def mkdirs_def rmtree_def rename_path_def relocate_def move_tree_def leftover_def below_def has_children_def
      map_filter_simps Let_def lit_def upt_rec numeral_eq_Suc)



section \<open>Witness\<close>

definition sample_text_lib :: text_lib where
  "sample_text_lib = \<lparr>tl_json = (\<lambda>_. None), tl_str = (\<lambda>_. []), tl_int = (\<lambda>_. None), tl_float = (\<lambda>_. None),
     tl_lower = (\<lambda>s. s), tl_is_hex = (\<lambda>_. False)\<rparr>"

definition sample_entry_json :: pyval where
  "sample_entry_json = PDict [(''id'', pstr ''aa''), (''path'', pstr ''apps/aa''), (''version'', pstr ''1'')]"

definition sample_entry :: catalog_entry where
  "sample_entry = \<lparr>ce_id = lit ''aa'', ce_theme = False, ce_path = lit ''apps/aa'', ce_version = lit ''1'', ce_api = 1,
     ce_provides = [], ce_description = [], ce_author = [], ce_homepage = [], ce_has_setup = False, ce_compatible = True,
     ce_hook_host = [], ce_requires = []\<rparr>"

definition sample_install_env :: install_env where
  "sample_install_env =
     \<lparr>ie_net = (\<lambda>_. Chunks [[0]] True),
      ie_untar = (\<lambda>_. Some [\<lparr>sm_name = lit ''r/apps/aa/plugin.toml'', sm_kind = RegFile, sm_size = 1, sm_content = Some [7]\<rparr>]),
      ie_toml = (\<lambda>_. Some [(''name'', pstr ''aa''), (''version'', pstr ''1''), (''meshpoint_api'', PInt 1),
        (''provides'', PList [pstr ''service''])]),
      ie_refused = (\<lambda>_. False), ie_move = None, ie_staging = [lit ''t'']\<rparr>"

abbreviation sample_fs :: fs where
  "sample_fs \<equiv> [([], FDir)]"

abbreviation sample_install :: "text_lib \<Rightarrow> (plugin_error + install_result) \<times> fs" where
  "sample_install T \<equiv> install_from_source T sample_install_env (lit ''o'') (lit ''r'') (lit ''main'') sample_entry
     [lit ''p'', lit ''apps''] sample_fs"

lemmas sample_entry_defs =
  catalog_entry_of_def sample_entry_json_def SLUG_RE_def slug_match_def slug_body_def
  lower_alnum_def entry_path_ok_def strip_slashes_def ustrip_def stripped_field_def dget_or_def slug_hint_def
  PLUGIN_API_VERSION_def strip_u_def uni_space_def lit_def Let_def

lemma sample_entry_ok: "catalog_entry_of sample_entry_json False = Inr sample_entry"
  by (simp add: sample_entry_defs sample_entry_def)

lemma sample_installed:
  "\<exists>r fs'. sample_install T = (Inr r, fs') \<and> fs_get fs' [lit ''p'', lit ''apps'', lit ''aa'', lit ''plugin.toml''] = Some (FFile [7])"
  by (simp add: install_from_source_def stage_from_tarball_def download_tarball_def sample_install_env_def sample_entry_def
      MAX_TARBALL_BYTES_def stage_members_def member_prefix_def before_slash_def judge_member_def posix_parts_def rel_parts_def
      MAX_MEMBERS_def MAX_UNCOMPRESSED_BYTES_def mkdirs_def write_file_def fs_set_def and_then_def strip_slashes_def ustrip_def
      validate_staged_def validate_staged_app_def folder_at_def parse_manifest_def parse_tail_def SLUG_RE_def slug_match_def slug_body_def
      lower_alnum_def PLUGIN_API_VERSION_def KNOWN_PROVIDES_def dget_or_def strip_u_def uni_space_def script_field_def rel_paths_def
      provides_cap_def parse_sidebar_def parse_hook_def parse_requires_def str_field_of_def place_def move_tree_def relocate_def below_def
      dest_of_def rmtree_def lit_def Let_def)

theorem install_contained_witness:
  "\<exists>r fs'. sample_install sample_text_lib = (Inr r, fs') \<and>
     stage_result sample_install_env (lit ''o'') (lit ''r'') (lit ''main'') (ce_path sample_entry) [lit ''p'', lit ''apps'', lit ''aa''] fs' \<and>
     tree_files [lit ''p'', lit ''apps'', lit ''aa''] fs' \<le> MAX_MEMBERS"
proof -
  obtain r fs' where i: "sample_install sample_text_lib = (Inr r, fs')" using sample_installed by blast
  have f: "fresh_dir (ie_staging sample_install_env) sample_fs"
    by (auto simp: fresh_dir_def sample_install_env_def below_def lit_def take_Cons')
  have a: "apart (ie_staging sample_install_env) (butlast [lit ''p'', lit ''apps''])"
    by (simp add: apart_def below_def sample_install_env_def lit_def)
  have d: "dest_of [lit ''p'', lit ''apps''] sample_entry = [lit ''p'', lit ''apps'', lit ''aa'']"
    by (simp add: dest_of_def sample_entry_def)
  show ?thesis
    using install_contained [OF sample_entry_ok f a _ i] i unfolding d by (auto simp: stage_result_def)
qed

end
