(* ===== verification/Plugin_Routes.thy ===== *)
theory Plugin_Routes
  imports Plugins Audit_Log
begin

text \<open>
  \<^verbatim>\<open>src/src/api/routes/plugin_routes.py\<close>: enabling and disabling plugins with their dependencies, the
  dependency probes, the setup script and uninstalling.

  \<^item> \<open>ps_plugins\<close> is the section \<^verbatim>\<open>plugins\<close> of the running configuration, \<open>ps_yaml\<close> the same section of
    \<^verbatim>\<open>local.yaml\<close>; both are dictionaries in insertion order.
  \<^item> A save takes the next answer of the disk from \<open>ps_disk\<close>; \<open>False\<close>, or an empty list, is a
    \<^verbatim>\<open>PermissionError\<close>. An error of a request is its status; 500 is an exception nobody handles.
\<close>

record plug_state =
  ps_plugins :: "(ustr \<times> pyval) list"
  ps_yaml :: "(ustr \<times> pyval) list"
  ps_disk :: "bool list"
  ps_overrides :: "(ustr \<times> bool option \<times> ustr) list"
  ps_setup_locked :: bool

definition conf_of :: "plug_state \<Rightarrow> ustr \<Rightarrow> pydict" where
  "conf_of s name = (case map_of (ps_plugins s) name of Some (PDict d) \<Rightarrow> d | _ \<Rightarrow> [])"

definition plugin_on :: "plug_state \<Rightarrow> plugin_manifest \<Rightarrow> bool" where
  "plugin_on s m = is_plugin_enabled m (conf_of s (pm_name m))"

definition deps_status :: "plug_state \<Rightarrow> loaded_plugin list \<Rightarrow> ustr \<Rightarrow> bool option \<times> ustr" where
  "deps_status s loaded plugin_id =
     (case map_of (ps_overrides s) plugin_id of
        Some r \<Rightarrow> r
      | None \<Rightarrow>
          (case find (\<lambda>lp. pm_name (lp_manifest lp) = plugin_id) loaded of
             Some lp \<Rightarrow> (lp_deps_ok lp, lp_deps_detail lp)
           | None \<Rightarrow> (None, [])))"

text \<open>A later plugin with the same route replaces an earlier one.\<close>

definition route_map :: "plugin_manifest list \<Rightarrow> ustr \<rightharpoonup> plugin_manifest" where
  "route_map ms r = find (\<lambda>m. case pm_sidebar m of None \<Rightarrow> False | Some sb \<Rightarrow> sb_route sb = r) (rev ms)"

definition name_map :: "plugin_manifest list \<Rightarrow> ustr \<rightharpoonup> plugin_manifest" where
  "name_map ms n = find (\<lambda>m. pm_name m = n) (rev ms)"

definition dependency_target ::
    "plugin_manifest list \<Rightarrow> plugin_manifest \<Rightarrow> plugin_manifest option \<times> ustr option" where
  "dependency_target ms m =
     (case pm_hook m of
        Some host \<Rightarrow> (route_map ms host, Some host)
      | None \<Rightarrow>
          (case pm_requires m of
             Some r \<Rightarrow> (name_map ms r, Some r)
           | None \<Rightarrow> (None, None)))"

record plugin_row =
  pr_id :: ustr
  pr_deps :: "bool option \<times> ustr"
  pr_enabled :: bool
  pr_loaded :: bool
  pr_restart_required :: bool
  pr_deletable :: bool
  pr_dependency :: "(ustr \<times> ustr option \<times> bool) option"
  pr_provenance :: "pydict option"

definition describe :: "plug_state \<Rightarrow> loaded_plugin list \<Rightarrow> plugin_manifest list \<Rightarrow> plugin_manifest \<Rightarrow> plugin_row" where
  "describe s loaded ms m =
     (let enabled = plugin_on s m;
          is_loaded = pm_name m \<in> (pm_name \<circ> lp_manifest) ` set loaded;
          (target, ref) = dependency_target ms m in
      \<lparr>pr_id = pm_name m, pr_deps = deps_status s loaded (pm_name m), pr_enabled = enabled, pr_loaded = is_loaded,
       pr_restart_required = (enabled \<noteq> is_loaded),
       pr_deletable = (pm_source m = Community \<and> \<not> pm_locked m),
       pr_dependency = map_option (\<lambda>r. (r, map_option pm_name target,
          case target of None \<Rightarrow> False | Some t \<Rightarrow> plugin_on s t)) ref,
       pr_provenance = (case dget ''source'' (conf_of s (pm_name m)) of PDict d \<Rightarrow> Some d | _ \<Rightarrow> None)\<rparr>)"

definition find_manifest :: "plugin_manifest list \<Rightarrow> ustr \<Rightarrow> nat + plugin_manifest" where
  "find_manifest ms plugin_id = (case find (\<lambda>m. pm_name m = plugin_id) ms of None \<Rightarrow> Inl 404 | Some m \<Rightarrow> Inr m)"

definition yaml_write :: "((ustr \<times> pyval) list \<Rightarrow> (ustr \<times> pyval) list) \<Rightarrow> plug_state \<Rightarrow> bool \<times> plug_state" where
  "yaml_write f s =
     (case ps_disk s of
        True # oks \<Rightarrow> (True, s\<lparr>ps_disk := oks, ps_yaml := f (ps_yaml s)\<rparr>)
      | _ \<Rightarrow> (False, s\<lparr>ps_disk := tl (ps_disk s)\<rparr>))"

text \<open>The running configuration is changed before the save is tried.\<close>

definition save_enabled :: "ustr \<Rightarrow> bool \<Rightarrow> plug_state \<Rightarrow> nat option \<times> plug_state" where
  "save_enabled plugin_id enabled s =
     (let existing = PDict (AList.update ''enabled'' (PBool enabled) (conf_of s plugin_id));
          (ok, s1) = yaml_write (AList.update plugin_id existing) (s\<lparr>ps_plugins := AList.update plugin_id existing (ps_plugins s)\<rparr>) in
      (if ok then None else Some 403, s1))"

text \<open>One round over the manifests: every enabled plugin whose dependency is in the frontier is
  disabled. The lists are the plugins disabled so far and the new frontier.\<close>

fun cascade_round ::
    "plugin_manifest list \<Rightarrow> ustr set \<Rightarrow> plugin_manifest list \<Rightarrow> ustr list \<Rightarrow> ustr list \<Rightarrow> plug_state \<Rightarrow>
     nat option \<times> ustr list \<times> ustr list \<times> plug_state" where
  "cascade_round ms frontier [] disabled newly s = (None, disabled, newly, s)"
| "cascade_round ms frontier (m # rest) disabled newly s =
     (if pm_name m \<in> set disabled \<or> pm_name m \<in> frontier then cascade_round ms frontier rest disabled newly s
      else case dependency_target ms m of
        (Some target, Some ref) \<Rightarrow>
          if pm_name target \<notin> frontier \<or> \<not> plugin_on s m then cascade_round ms frontier rest disabled newly s
          else (case save_enabled (pm_name m) False s of
                  (Some e, s1) \<Rightarrow> (Some e, disabled, newly, s1)
                | (None, s1) \<Rightarrow>
                    cascade_round ms frontier rest (disabled @ [pm_name m]) (newly @ [pm_name m]) s1)
      | _ \<Rightarrow> cascade_round ms frontier rest disabled newly s)"


lemma conf_of_save_enabled:
  "conf_of (snd (save_enabled i b s)) n =
     (if n = i then AList.update ''enabled'' (PBool b) (conf_of s i) else conf_of s n)"
  by (auto simp: save_enabled_def yaml_write_def conf_of_def update_conv' Let_def split: prod.splits list.splits bool.splits)

lemma plugin_on_disable:
  "plugin_on (snd (save_enabled i False s)) m \<longleftrightarrow> plugin_on s m \<and> pm_name m \<noteq> i"
  by (auto simp: plugin_on_def is_plugin_enabled_def conf_of_save_enabled Let_def)

lemma plugin_on_enable:
  "plugin_on (snd (save_enabled i True s)) m \<longleftrightarrow> plugin_on s m \<or> pm_name m = i"
  by (auto simp: plugin_on_def is_plugin_enabled_def conf_of_save_enabled Let_def)

text \<open>A plugin depends on the target that its reference resolves to.\<close>

definition depends :: "plugin_manifest list \<Rightarrow> plugin_manifest \<Rightarrow> plugin_manifest \<Rightarrow> bool" where
  "depends ms m t \<longleftrightarrow> fst (dependency_target ms m) = Some t"

text \<open>The plugins a round disables.\<close>

definition hit :: "plugin_manifest list \<Rightarrow> ustr set \<Rightarrow> ustr list \<Rightarrow> plug_state \<Rightarrow> plugin_manifest \<Rightarrow> bool" where
  "hit ms F d s m \<longleftrightarrow> plugin_on s m \<and> pm_name m \<notin> set d \<and> pm_name m \<notin> F \<and> (\<exists>t. depends ms m t \<and> pm_name t \<in> F)"

lemma cascade_round_cases:
  "cascade_round ms F (m # rest) d n s =
     (if hit ms F d s m
      then (case save_enabled (pm_name m) False s of
              (Some e, s1) \<Rightarrow> (Some e, d, n, s1)
            | (None, s1) \<Rightarrow> cascade_round ms F rest (d @ [pm_name m]) (n @ [pm_name m]) s1)
      else cascade_round ms F rest d n s)"
proof -
  have "snd (dependency_target ms m) \<noteq> None" if "fst (dependency_target ms m) \<noteq> None"
    using that by (auto simp: dependency_target_def split: option.splits)
  then show ?thesis by (auto simp: hit_def depends_def split: prod.splits option.splits)
qed

lemma cascade_round_spec:
  assumes "cascade_round ms F rest d n s = (None, d', n', s')"
  shows "\<exists>k. d' = d @ k \<and> n' = n @ k \<and> set k = pm_name ` {m \<in> set rest. hit ms F d s m} \<and>
     (\<forall>m. plugin_on s' m \<longleftrightarrow> plugin_on s m \<and> pm_name m \<notin> set k)"
  using assms
proof (induction rest arbitrary: d n s)
  case Nil
  then show ?case by simp
next
  case (Cons m rest)
  show ?case
  proof (cases "hit ms F d s m")
    case False
    with Cons.prems have r: "cascade_round ms F rest d n s = (None, d', n', s')"
      unfolding cascade_round_cases by simp
    have "{x \<in> set (m # rest). hit ms F d s x} = {x \<in> set rest. hit ms F d s x}" using False by auto
    then show ?thesis using Cons.IH [OF r] by presburger
  next
    case True
    then obtain s1 where s1: "save_enabled (pm_name m) False s = (None, s1)"
      and r: "cascade_round ms F rest (d @ [pm_name m]) (n @ [pm_name m]) s1 = (None, d', n', s')"
      using Cons.prems unfolding cascade_round_cases by (auto split: prod.splits option.splits)
    have on1: "plugin_on s1 x \<longleftrightarrow> plugin_on s x \<and> pm_name x \<noteq> pm_name m" for x
      using plugin_on_disable [of "pm_name m" s x] s1 by simp
    from Cons.IH [OF r] obtain k where k: "d' = (d @ [pm_name m]) @ k" "n' = (n @ [pm_name m]) @ k"
      "set k = pm_name ` {x \<in> set rest. hit ms F (d @ [pm_name m]) s1 x}"
      "\<forall>x. plugin_on s' x \<longleftrightarrow> plugin_on s1 x \<and> pm_name x \<notin> set k" by blast
    have h1: "hit ms F (d @ [pm_name m]) s1 x \<longleftrightarrow> hit ms F d s x \<and> pm_name x \<noteq> pm_name m" for x
      by (auto simp: hit_def on1)
    have "set (pm_name m # k) = pm_name ` {x \<in> set (m # rest). hit ms F d s x}"
      unfolding list.set k(3) h1 using True by force
    then show ?thesis using k on1 by (intro exI [of _ "pm_name m # k"]) auto
  qed
qed

lemma cascade_round_distinct:
  "cascade_round ms F rest d n s = (None, d', n', s') \<Longrightarrow> distinct d \<Longrightarrow> distinct d'"
  by (induction rest arbitrary: d n s)
    (auto simp: cascade_round_cases hit_def simp del: cascade_round.simps(2) split: if_splits prod.splits option.splits)

text \<open>The loop ends: a round that finds something to disable leaves fewer plugins enabled.\<close>

definition enabled_count :: "plugin_manifest list \<Rightarrow> plug_state \<Rightarrow> nat" where
  "enabled_count ms s = length (filter (plugin_on s) ms)"

lemma cascade_round_count:
  assumes "cascade_round ms F ms d [] s = (None, d', n', s')"
  shows "enabled_count ms s' \<le> enabled_count ms s" "n' \<noteq> [] \<Longrightarrow> enabled_count ms s' < enabled_count ms s"
proof -
  obtain k where k: "n' = k" "set k = pm_name ` {m \<in> set ms. hit ms F d s m}"
    and on: "\<forall>m. plugin_on s' m \<longleftrightarrow> plugin_on s m \<and> pm_name m \<notin> set k"
    using cascade_round_spec [OF assms] by auto
  have f: "filter (plugin_on s') ms = filter (\<lambda>m. pm_name m \<notin> set k) (filter (plugin_on s) ms)"
    using on by (auto intro: filter_cong)
  show "enabled_count ms s' \<le> enabled_count ms s"
    unfolding enabled_count_def f by (rule length_filter_le)
  assume "n' \<noteq> []"
  then have "set k \<noteq> {}" using k(1) by simp
  then obtain m where "m \<in> set ms" "hit ms F d s m" unfolding k(2) by auto
  then show "enabled_count ms s' < enabled_count ms s"
    unfolding enabled_count_def f using k(2) by (intro length_filter_less [of m]) (auto simp: hit_def)
qed

function cascade_disable_dependents ::
    "plugin_manifest list \<Rightarrow> ustr list \<Rightarrow> ustr list \<Rightarrow> plug_state \<Rightarrow> nat option \<times> ustr list \<times> plug_state" where
  "cascade_disable_dependents ms frontier disabled s =
     (if frontier = [] then (None, disabled, s)
      else case cascade_round ms (set frontier) ms disabled [] s of
        (Some e, d, n, s1) \<Rightarrow> (Some e, d, s1)
      | (None, d, n, s1) \<Rightarrow> cascade_disable_dependents ms n d s1)"
  by auto
termination
proof (relation "measure (\<lambda>(ms, f, d, s). 2 * enabled_count ms s + (if f = [] then 0 else 1))", goal_cases)
  case 1
  show ?case by simp
next
  case (2 ms f d s x y d' z n s1)
  then have "cascade_round ms (set f) ms d [] s = (None, d', n, s1)" by simp
  from cascade_round_count [OF this] show ?case using 2(1) by (cases "n = []") auto
qed

declare cascade_disable_dependents.simps [simp del]


text \<open>The body of the request, inside the audited action.\<close>

definition update_body ::
    "plugin_manifest list \<Rightarrow> plugin_manifest \<Rightarrow> bool \<Rightarrow> plug_state \<Rightarrow> (nat + ustr list) \<times> plug_state" where
  "update_body ms m enabled s =
     (if enabled \<and> (pm_hook m \<noteq> None \<or> pm_requires m \<noteq> None) \<and>
         (case fst (dependency_target ms m) of None \<Rightarrow> True | Some target \<Rightarrow> \<not> plugin_on s target)
      then (Inl 400, s)
      else case save_enabled (pm_name m) enabled s of
        (Some e, s1) \<Rightarrow> (Inl e, s1)
      | (None, s1) \<Rightarrow>
          if enabled then (Inr [], s1)
          else (case cascade_disable_dependents ms [pm_name m] [] s1 of
                  (Some e, d, s2) \<Rightarrow> (Inl e, s2)
                | (None, d, s2) \<Rightarrow> (Inr d, s2)))"

text \<open>\<^verbatim>\<open>PUT /api/plugins/{id}\<close>: the plugins disabled along with it.\<close>

definition update_plugin ::
    "audit_io \<Rightarrow> (nat \<Rightarrow> ustr) \<Rightarrow> ustr \<Rightarrow> plugin_manifest list \<Rightarrow> ustr \<Rightarrow> bool \<Rightarrow> audit_log \<Rightarrow> plug_state \<Rightarrow>
     (nat, ustr list) timed \<times> audit_log \<times> plug_state" where
  "update_plugin io exc_text user ms plugin_id enabled lg s =
     (case find (\<lambda>m. pm_name m = plugin_id) ms of
        None \<Rightarrow> (TimedRaise 404, lg, s)
      | Some m \<Rightarrow>
          timed_action io exc_text user ''config.plugin_update''
            [(''plugin_id'', PStr plugin_id), (''enabled'', PBool enabled)]
            (\<lambda>ctx s. let (r, s1) = update_body ms m enabled s in (r, ctx, s1)) lg s)"

text \<open>\<^verbatim>\<open>POST /api/plugins/{id}/check\<close> and \<^verbatim>\<open>check-all\<close>; a probe whose output is not text is answered with 500.\<close>

definition recheck_plugin_deps ::
    "audit_io \<Rightarrow> (nat \<Rightarrow> ustr) \<Rightarrow> ustr \<Rightarrow> plugin_manifest list \<Rightarrow> (plugin_manifest \<Rightarrow> probe) \<Rightarrow> ustr \<Rightarrow> audit_log \<Rightarrow> plug_state \<Rightarrow>
     (nat, bool option \<times> ustr) timed \<times> audit_log \<times> plug_state" where
  "recheck_plugin_deps io exc_text user ms probe plugin_id lg s =
     (case find_manifest ms plugin_id of
        Inl e \<Rightarrow> (TimedRaise e, lg, s)
      | Inr m \<Rightarrow>
          if pm_check m = None then (TimedRaise 400, lg, s)
          else
            (case timed_action io exc_text user ''config.plugin_deps_check'' [(''plugin_id'', PStr plugin_id)]
                    (\<lambda>ctx s. (case run_deps_check m (probe m) of Inl e \<Rightarrow> Inl 500 | Inr r \<Rightarrow> Inr r, ctx, s)) lg s of
               (TimedValue r, lg1, s1) \<Rightarrow>
                 (TimedValue r, lg1, s1\<lparr>ps_overrides := AList.update plugin_id r (ps_overrides s1)\<rparr>)
             | out \<Rightarrow> out))"

definition recheck_all_plugin_deps ::
    "audit_io \<Rightarrow> (nat \<Rightarrow> ustr) \<Rightarrow> ustr \<Rightarrow> plugin_manifest list \<Rightarrow> (plugin_manifest \<Rightarrow> probe) \<Rightarrow> audit_log \<Rightarrow> plug_state \<Rightarrow>
     (nat, nat) timed \<times> audit_log \<times> plug_state" where
  "recheck_all_plugin_deps io exc_text user ms probe lg s =
     (let checkable = filter (\<lambda>m. pm_check m \<noteq> None) ms in
      case timed_action io exc_text user ''config.plugin_deps_check''
             [(''plugin_id'', pstr ''*''), (''count'', PInt (int (length checkable)))]
             (\<lambda>ctx s. (case attach_deps_status probe checkable of Inl e \<Rightarrow> Inl 500 | Inr lps \<Rightarrow> Inr lps, ctx, s)) lg s of
        (TimedValue lps, lg1, s1) \<Rightarrow>
          (TimedValue (length checkable), lg1,
           s1\<lparr>ps_overrides := foldl (\<lambda>o' lp. AList.update (pm_name (lp_manifest lp)) (lp_deps_ok lp, lp_deps_detail lp) o')
                (ps_overrides s1) lps\<rparr>)
      | (TimedRaise e, lg1, s1) \<Rightarrow> (TimedRaise e, lg1, s1)
      | (TimedTypeError, lg1, s1) \<Rightarrow> (TimedTypeError, lg1, s1))"

text \<open>The setup script: what its process came to, and the lines sent to the browser.\<close>

datatype setup_run = SpawnError ustr | SetupTimeout "(string \<times> ustr) list" | SetupExit int "(string \<times> ustr) list" probe

datatype setup_event = Started "ustr list" | Line string ustr | Result int bool "bool option"

text \<open>The last component is the result for the audit log, or \<open>None\<close> after the exception of a probe.\<close>

definition drive_setup ::
    "ustr list \<Rightarrow> plugin_manifest \<Rightarrow> setup_run \<Rightarrow> plug_state \<Rightarrow> setup_event list \<times> plug_state \<times> bool option" where
  "drive_setup cmd m run s =
     (case run of
        SpawnError exc \<Rightarrow> ([Started cmd, Line ''stderr'' exc, Result (-1) False None], s, Some False)
      | SetupTimeout ls \<Rightarrow>
          ([Started cmd] @ map (\<lambda>(n, t). Line n t) ls @
           [Line ''stderr'' (lit ''setup.sh timed out after 30 min -- killed.''), Result (-1) False None], s, Some False)
      | SetupExit returncode ls probe \<Rightarrow>
          if pm_check m = None
          then ([Started cmd] @ map (\<lambda>(n, t). Line n t) ls @ [Result returncode (returncode = 0) None], s,
                Some (returncode = 0))
          else (case run_deps_check m probe of
                  Inl e \<Rightarrow> ([Started cmd] @ map (\<lambda>(n, t). Line n t) ls, s, None)
                | Inr (ok, detail) \<Rightarrow>
                    ([Started cmd] @ map (\<lambda>(n, t). Line n t) ls @ [Result returncode (returncode = 0) ok],
                     s\<lparr>ps_overrides := AList.update (pm_name m) (ok, detail) (ps_overrides s)\<rparr>, Some (returncode = 0))))"

text \<open>The stream as the server consumes it to its end; \<open>busy\<close> tells whether another run holds the lock.\<close>

definition stream_plugin_setup ::
    "audit_io \<Rightarrow> (nat \<Rightarrow> ustr) \<Rightarrow> ustr \<Rightarrow> (ustr \<Rightarrow> ustr) \<Rightarrow> plugin_manifest \<Rightarrow> setup_run \<Rightarrow> audit_log \<Rightarrow> plug_state \<Rightarrow>
     setup_event list \<times> audit_log \<times> plug_state" where
  "stream_plugin_setup io exc_text user resolve m run lg s =
     (case pm_setup m of
        None \<Rightarrow> ([Result (-1) False None], lg, s)
      | Some setup \<Rightarrow>
          if ps_setup_locked s
          then ([Line ''stderr'' (lit ''Another plugin setup is already running -- try again once it finishes.''),
                 Result (-1) False None], lg, s)
          else
            let cmd = [lit ''sudo'', lit ''bash'', resolve setup] in
            case timed_action io (\<lambda>_. exc_text 500) user ''config.plugin_setup''
                   [(''plugin_id'', PStr (pm_name m)), (''cmd'', PList (map PStr cmd))]
                   (\<lambda>ctx s. let (evs, s1, res) = drive_setup cmd m run (s\<lparr>ps_setup_locked := True\<rparr>) in
                      (case res of
                         None \<Rightarrow> (Inl evs, ctx, s1)
                       | Some ok \<Rightarrow> (Inr evs, set_result (if ok then ''success'' else ''error'') ctx, s1)))
                   lg s of
              (TimedValue evs, lg1, s1) \<Rightarrow> (evs, lg1, s1\<lparr>ps_setup_locked := False\<rparr>)
            | (TimedRaise evs, lg1, s1) \<Rightarrow> (evs, lg1, s1\<lparr>ps_setup_locked := False\<rparr>)
            | (TimedTypeError, lg1, s1) \<Rightarrow> ([], lg1, s1\<lparr>ps_setup_locked := False\<rparr>))"

text \<open>\<^verbatim>\<open>DELETE /api/plugins/{id}\<close>: \<open>rm\<close> is the status \<^verbatim>\<open>rmtree\<close> fails with, if it does. The value is the folder
  removed. An entry \<^verbatim>\<open>local.yaml\<close> keeps because it cannot be written is ignored.\<close>

definition delete_body :: "plugin_manifest \<Rightarrow> nat option \<Rightarrow> plug_state \<Rightarrow> (nat + ustr list) \<times> plug_state" where
  "delete_body m rm s =
     (case rm of
        Some e \<Rightarrow> (Inl e, s)
      | None \<Rightarrow>
          let s1 = s\<lparr>ps_plugins := AList.delete (pm_name m) (ps_plugins s)\<rparr> in
          (Inr (pf_root (pm_folder m)),
           if map_of (ps_yaml s) (pm_name m) = None then s1
           else snd (yaml_write (AList.delete (pm_name m)) s1)))"

definition delete_plugin ::
    "audit_io \<Rightarrow> (nat \<Rightarrow> ustr) \<Rightarrow> ustr \<Rightarrow> plugin_manifest list \<Rightarrow> ustr \<Rightarrow> nat option \<Rightarrow> audit_log \<Rightarrow> plug_state \<Rightarrow>
     (nat, ustr list) timed \<times> audit_log \<times> plug_state" where
  "delete_plugin io exc_text user ms plugin_id rm lg s =
     (case find_manifest ms plugin_id of
        Inl e \<Rightarrow> (TimedRaise e, lg, s)
      | Inr m \<Rightarrow>
          if pm_source m \<noteq> Community \<or> pm_locked m then (TimedRaise 403, lg, s)
          else timed_action io exc_text user ''config.plugin_delete'' [(''plugin_id'', PStr plugin_id)]
                 (\<lambda>ctx s. let (r, s1) = delete_body m rm s in (r, ctx, s1)) lg s)"

end
