(* ===== verification/Plugin_Deps.thy ===== *)
theory Plugin_Deps
  imports Plugin_Routes
begin

text \<open>
  Plugin dependencies: the cascade of \<^verbatim>\<open>plugin_routes.py\<close> ends, disables exactly the dependents, and leaves no
  enabled plugin without its dependency; names of discovered plugins are distinct.
\<close>

text \<open>Every enabled plugin has its resolved dependency enabled.\<close>

definition deps_closed :: "plugin_manifest list \<Rightarrow> plug_state \<Rightarrow> bool" where
  "deps_closed ms s \<longleftrightarrow> (\<forall>m \<in> set ms. \<forall>t. plugin_on s m \<and> depends ms m t \<longrightarrow> plugin_on s t)"

lemma depends_in: "depends ms m t \<Longrightarrow> t \<in> set ms"
  unfolding depends_def dependency_target_def route_map_def name_map_def
  by (auto split: option.splits dest: find_SomeE)

text \<open>The state of the cascade after some rounds, begun by disabling \<open>p\<close>.\<close>

definition cascade_inv ::
    "plugin_manifest list \<Rightarrow> plug_state \<Rightarrow> plugin_manifest \<Rightarrow> ustr list \<Rightarrow> ustr list \<Rightarrow> plug_state \<Rightarrow> bool" where
  "cascade_inv ms s0 p f d s \<longleftrightarrow>
     (\<forall>m. plugin_on s m \<longleftrightarrow> plugin_on s0 m \<and> pm_name m \<noteq> pm_name p \<and> pm_name m \<notin> set d) \<and>
     set f \<subseteq> insert (pm_name p) (set d) \<and>
     set d \<subseteq> pm_name ` {m \<in> set ms. plugin_on s0 m \<and> m \<noteq> p \<and> (depends ms)\<^sup>+\<^sup>+ m p} \<and>
     (\<forall>m \<in> set ms. \<forall>t. plugin_on s m \<and> depends ms m t \<and> pm_name t \<in> insert (pm_name p) (set d) \<longrightarrow> pm_name t \<in> set f) \<and>
     distinct d"

lemma cascade_inv_start:
  assumes "save_enabled (pm_name p) False s0 = (None, s1)"
  shows "cascade_inv ms s0 p [pm_name p] [] s1"
  using plugin_on_disable [of "pm_name p" s0] assms by (auto simp: cascade_inv_def)

lemma cascade_inv_round:
  assumes names: "inj_on pm_name (set ms)" and p: "p \<in> set ms" and inv: "cascade_inv ms s0 p f d s"
    and r: "cascade_round ms (set f) ms d [] s = (None, d', n', s')"
  shows "cascade_inv ms s0 p n' d' s'"
proof -
  obtain k where k: "d' = d @ k" "n' = k" "set k = pm_name ` {m \<in> set ms. hit ms (set f) d s m}"
    "\<And>m. plugin_on s' m \<longleftrightarrow> plugin_on s m \<and> pm_name m \<notin> set k"
    using cascade_round_spec [OF r] by auto
  have on: "\<And>m. plugin_on s m \<longleftrightarrow> plugin_on s0 m \<and> pm_name m \<noteq> pm_name p \<and> pm_name m \<notin> set d"
    and f: "set f \<subseteq> insert (pm_name p) (set d)"
    and d: "set d \<subseteq> pm_name ` {m \<in> set ms. plugin_on s0 m \<and> m \<noteq> p \<and> (depends ms)\<^sup>+\<^sup>+ m p}"
    and front: "\<And>m t. m \<in> set ms \<Longrightarrow> plugin_on s m \<Longrightarrow> depends ms m t \<Longrightarrow>
      pm_name t \<in> insert (pm_name p) (set d) \<Longrightarrow> pm_name t \<in> set f"
    and dd: "distinct d" using inv unfolding cascade_inv_def by auto
  have reach: "(depends ms)\<^sup>*\<^sup>* t p" if "t \<in> set ms" "pm_name t \<in> set f" for t
    using that f d p names unfolding inj_on_def by (auto dest!: subsetD intro: tranclp_into_rtranclp)
  have kd: "plugin_on s0 m \<and> m \<noteq> p \<and> (depends ms)\<^sup>+\<^sup>+ m p" if "hit ms (set f) d s m" for m
    using that reach depends_in on unfolding hit_def by (metis rtranclp_into_tranclp2)
  have "set d' \<subseteq> pm_name ` {m \<in> set ms. plugin_on s0 m \<and> m \<noteq> p \<and> (depends ms)\<^sup>+\<^sup>+ m p}"
    using d kd k by auto
  moreover have "pm_name t \<in> set n'" if "m \<in> set ms" "plugin_on s' m" "depends ms m t" "pm_name t \<in> insert (pm_name p) (set d')" for m t
  proof (rule ccontr)
    assume "pm_name t \<notin> set n'"
    then have "pm_name t \<in> set f" using front that k by auto
    then have "hit ms (set f) d s m" using that on f k by (auto simp: hit_def)
    then show False using that k by auto
  qed
  moreover have "distinct d'" using cascade_round_distinct [OF r dd] .
  ultimately show ?thesis unfolding cascade_inv_def using k on by auto
qed


lemma cascade_inv_end:
  assumes "inj_on pm_name (set ms)" "p \<in> set ms" "cascade_inv ms s0 p f d s"
    "cascade_disable_dependents ms f d s = (None, ds, s')"
  shows "cascade_inv ms s0 p [] ds s'"
  using assms
proof (induction ms f d s rule: cascade_disable_dependents.induct)
  case (1 ms f d s)
  show ?case
  proof (cases "f = []")
    case True
    with 1(3-5) show ?thesis by (simp add: cascade_disable_dependents.simps)
  next
    case False
    then obtain d' n' s1 where r: "cascade_round ms (set f) ms d [] s = (None, d', n', s1)"
      and c: "cascade_disable_dependents ms n' d' s1 = (None, ds, s')"
      using 1(5) by (auto simp: cascade_disable_dependents.simps [of ms f] split: prod.splits option.splits)
    show ?thesis
      using 1(1) [OF False r [symmetric] refl refl refl 1(2,3) cascade_inv_round [OF 1(2,3,4) r] c] .
  qed
qed

lemma cascade_inv_closed:
  assumes names: "inj_on pm_name (set ms)" and p: "p \<in> set ms" and cl: "deps_closed ms s0" and inv: "cascade_inv ms s0 p [] d s"
  shows "deps_closed ms s"
    "\<And>m. m \<in> set ms \<Longrightarrow> plugin_on s m \<longleftrightarrow> plugin_on s0 m \<and> \<not> (depends ms)\<^sup>*\<^sup>* m p"
    "set d = pm_name ` {m \<in> set ms. plugin_on s0 m \<and> m \<noteq> p \<and> (depends ms)\<^sup>+\<^sup>+ m p}"
proof -
  have on: "\<And>m. plugin_on s m \<longleftrightarrow> plugin_on s0 m \<and> pm_name m \<noteq> pm_name p \<and> pm_name m \<notin> set d"
    and d: "set d \<subseteq> pm_name ` {m \<in> set ms. plugin_on s0 m \<and> m \<noteq> p \<and> (depends ms)\<^sup>+\<^sup>+ m p}"
    and front: "\<And>m t. m \<in> set ms \<Longrightarrow> plugin_on s m \<Longrightarrow> depends ms m t \<Longrightarrow> pm_name t \<notin> insert (pm_name p) (set d)"
    using inv unfolding cascade_inv_def by auto
  show cl': "deps_closed ms s"
    unfolding deps_closed_def
  proof (intro ballI allI impI)
    fix m t assume "m \<in> set ms" "plugin_on s m \<and> depends ms m t"
    then show "plugin_on s t" using cl front [of m t] on [of m] on [of t] unfolding deps_closed_def by simp
  qed
  have off: "\<not> plugin_on s m" if "(depends ms)\<^sup>*\<^sup>* m p" "m \<in> set ms" for m
    using that
  proof (induction rule: converse_rtranclp_induct)
    case base
    then show ?case using on by simp
  next
    case (step m t)
    then show ?case using cl' depends_in unfolding deps_closed_def by blast
  qed
  show "plugin_on s m \<longleftrightarrow> plugin_on s0 m \<and> \<not> (depends ms)\<^sup>*\<^sup>* m p" if m: "m \<in> set ms" for m
  proof
    assume "plugin_on s m"
    then show "plugin_on s0 m \<and> \<not> (depends ms)\<^sup>*\<^sup>* m p" using on off [OF _ m] by auto
  next
    assume a: "plugin_on s0 m \<and> \<not> (depends ms)\<^sup>*\<^sup>* m p"
    have "pm_name m \<noteq> pm_name p" using a names m p by (auto dest: inj_onD)
    moreover have "pm_name m \<notin> set d"
    proof
      assume "pm_name m \<in> set d"
      then obtain m' where "m' \<in> set ms" "pm_name m' = pm_name m" "(depends ms)\<^sup>+\<^sup>+ m' p" using d by force
      then show False using a names m by (metis inj_onD tranclp_into_rtranclp)
    qed
    ultimately show "plugin_on s m" using a on by simp
  qed
  show "set d = pm_name ` {m \<in> set ms. plugin_on s0 m \<and> m \<noteq> p \<and> (depends ms)\<^sup>+\<^sup>+ m p}" (is "_ = pm_name ` ?A")
  proof (intro subset_antisym [OF d] subsetI)
    fix n assume "n \<in> pm_name ` ?A"
    then obtain m where m: "n = pm_name m" "m \<in> set ms" "plugin_on s0 m" "m \<noteq> p" "(depends ms)\<^sup>+\<^sup>+ m p" by blast
    then have "\<not> plugin_on s m" using off by (simp add: tranclp_into_rtranclp)
    then show "n \<in> set d" using m on names p by (auto dest: inj_onD)
  qed
qed

text \<open>With enough writable saves the cascade returns.\<close>

definition disk_for :: "nat \<Rightarrow> plug_state \<Rightarrow> bool" where
  "disk_for n s \<longleftrightarrow> take n (ps_disk s) = replicate n True"

lemma save_enabled_ok:
  "disk_for (Suc n) s \<Longrightarrow> \<exists>s1. save_enabled i b s = (None, s1) \<and> disk_for n s1"
  by (cases "ps_disk s") (auto simp: disk_for_def save_enabled_def yaml_write_def Let_def)

lemma disk_for_mono: "disk_for n s \<Longrightarrow> m \<le> n \<Longrightarrow> disk_for m s"
  unfolding disk_for_def by (metis min.absorb1 take_replicate take_take)

lemma enabled_count_disable:
  "m \<in> set ms \<Longrightarrow> plugin_on s m \<Longrightarrow> enabled_count ms (snd (save_enabled (pm_name m) False s)) < enabled_count ms s"
proof -
  assume m: "m \<in> set ms" "plugin_on s m"
  have "filter (plugin_on (snd (save_enabled (pm_name m) False s))) ms =
      filter (\<lambda>x. pm_name x \<noteq> pm_name m) (filter (plugin_on s) ms)"
    by (auto simp: plugin_on_disable intro: filter_cong)
  then show ?thesis unfolding enabled_count_def using m length_filter_less [of m "filter (plugin_on s) ms"] by auto
qed

lemma cascade_round_ok:
  assumes "disk_for (enabled_count ms s) s" "set rest \<subseteq> set ms"
  shows "\<exists>d' n' s1. cascade_round ms F rest d n s = (None, d', n', s1) \<and> disk_for (enabled_count ms s1) s1"
  using assms
proof (induction rest arbitrary: d n s)
  case Nil
  then show ?case by simp
next
  case (Cons m rest)
  show ?case
  proof (cases "hit ms F d s m")
    case False
    then show ?thesis using Cons.IH [OF Cons.prems(1)] Cons.prems(2) unfolding cascade_round_cases by simp
  next
    case True
    define s1 where "s1 = snd (save_enabled (pm_name m) False s)"
    have lt: "enabled_count ms s1 < enabled_count ms s"
      unfolding s1_def using True Cons.prems(2) by (intro enabled_count_disable) (auto simp: hit_def)
    then have "disk_for (Suc (enabled_count ms s1)) s" using Cons.prems(1) by (auto intro: disk_for_mono)
    from save_enabled_ok [OF this, of "pm_name m" False]
    have "save_enabled (pm_name m) False s = (None, s1)" "disk_for (enabled_count ms s1) s1"
      unfolding s1_def by auto
    then show ?thesis using Cons.IH [of s1 "d @ [pm_name m]" "n @ [pm_name m]"] Cons.prems(2) True
      unfolding cascade_round_cases by simp
  qed
qed

lemma cascade_ok:
  "disk_for (enabled_count ms s) s \<Longrightarrow> \<exists>ds s1. cascade_disable_dependents ms f d s = (None, ds, s1)"
proof (induction ms f d s rule: cascade_disable_dependents.induct)
  case (1 ms f d s)
  show ?case
  proof (cases "f = []")
    case True
    then show ?thesis by (simp add: cascade_disable_dependents.simps)
  next
    case False
    obtain d' n' s1 where r: "cascade_round ms (set f) ms d [] s = (None, d', n', s1)"
      and k: "disk_for (enabled_count ms s1) s1" using cascade_round_ok [OF 1(2), of ms] by blast
    then show ?thesis using 1(1) [OF False r [symmetric] refl refl refl k] False
      by (simp add: cascade_disable_dependents.simps [of ms f])
  qed
qed


lemma scan_dir_distinct:
  "scan_dir fs src seen = Inr (ms, seen') \<Longrightarrow>
     distinct (map pm_name ms) \<and> pm_name ` set ms \<inter> seen = {} \<and> seen' = seen \<union> pm_name ` set ms \<and>
     (\<forall>m \<in> set ms. \<exists>f \<in> set fs. parse_manifest f src = Inr m)"
proof (induction fs src seen arbitrary: ms seen' rule: scan_dir.induct)
  case (1 src seen)
  then show ?case by simp
next
  case (2 f fs src seen)
  show ?case
  proof (cases "parse_manifest f src")
    case (Inl e)
    then show ?thesis using 2 by (auto split: if_splits plugin_error.splits)
  next
    case (Inr m)
    show ?thesis
    proof (cases "pf_toml f = TomlMissing \<or> pm_name m \<in> seen")
      case True
      then show ?thesis using 2(1,3,5) Inr by (auto split: if_splits)
    next
      case False
      then obtain ms1 where "scan_dir fs src (insert (pm_name m) seen) = Inr (ms1, seen')" "ms = m # ms1"
        using 2(5) Inr by (auto simp: and_then_def split: sum.splits)
      then show ?thesis using 2(4) [OF _ Inr _] False Inr by auto
    qed
  qed
qed

lemma parse_manifest_fields:
  "parse_manifest f src = Inr m \<Longrightarrow> pm_source m = src \<and> pm_folder m = f \<and> pm_name m = pf_dir_name f \<and> SLUG_RE (pm_name m)"
  unfolding parse_manifest_def parse_tail_def and_then_def
  by (auto simp: Let_def split: toml_read.splits if_splits pyval.splits option.splits sum.splits)

lemma discover_distinct: "discover_plugins b c = Inr ms \<Longrightarrow> inj_on pm_name (set ms) \<and> distinct (map pm_name ms)"
proof -
  assume "discover_plugins b c = Inr ms"
  then obtain ms1 seen ms2 where 1: "scan_dir (sort_key pf_dir_name b) Builtin {} = Inr (ms1, seen)"
    and ms: "ms = ms1 @ ms2" and 2: "c \<noteq> None \<Longrightarrow> \<exists>s. scan_dir (sort_key pf_dir_name (the c)) Community seen = Inr (ms2, s)"
    and 3: "c = None \<Longrightarrow> ms2 = []"
    unfolding discover_plugins_def and_then_def by (cases c) (auto split: sum.splits)
  have "distinct (map pm_name ms)"
  proof (cases c)
    case None
    then show ?thesis using scan_dir_distinct [OF 1] 3 unfolding ms by simp
  next
    case (Some fs)
    then obtain s where "scan_dir (sort_key pf_dir_name fs) Community seen = Inr (ms2, s)" using 2 by auto
    from scan_dir_distinct [OF this] have "distinct (map pm_name ms2)" "pm_name ` set ms2 \<inter> seen = {}" by blast+
    moreover from scan_dir_distinct [OF 1] have "distinct (map pm_name ms1)" "seen = pm_name ` set ms1" by blast+
    ultimately show ?thesis unfolding ms by auto
  qed
  then show ?thesis by (simp add: distinct_map)
qed

lemma timed_action_passes:
  assumes "body \<lparr>tc_params = params, tc_error = None, tc_result = None\<rparr> s = (out, ctx, s1)"
    and "json_able_dict (tc_params ctx)"
  shows "\<exists>lg'. timed_action io exc_text user action params body lg s =
      (case out of Inl x \<Rightarrow> TimedRaise x | Inr v \<Rightarrow> TimedValue v, lg', s1)"
  using assms redact_json_able(3) [OF assms(2)]
  by (auto simp: timed_action_def audit_write_def write_entry_def entry_to_json_def split: sum.splits option.splits)

lemma update_plugin_eq:
  assumes "m \<in> set ms" "inj_on pm_name (set ms)" "update_body ms m b s = (r, s')"
  shows "\<exists>lg'. update_plugin io exc user ms (pm_name m) b lg s =
     (case r of Inl x \<Rightarrow> TimedRaise x | Inr v \<Rightarrow> TimedValue v, lg', s')"
proof -
  have f: "find (\<lambda>x. pm_name x = pm_name m) ms = Some m"
  proof (cases "find (\<lambda>x. pm_name x = pm_name m) ms")
    case None
    then show ?thesis using assms(1) by (auto simp: find_None_iff)
  next
    case (Some x)
    from find_SomeE [OF Some] have "x = m" using assms(1,2) by (auto dest: inj_onD)
    then show ?thesis using Some by simp
  qed
  show ?thesis
    unfolding update_plugin_def f option.case by (rule timed_action_passes, simp add: assms(3), simp)
qed

text \<open>C20: Disabling a plugin, when every enabled plugin has its dependency enabled and the saves
  succeed, returns; afterwards every enabled plugin still has its dependency enabled, and what was
  disabled is exactly the plugin itself and the enabled plugins that depend on it, directly or
  through others: these are reported, each once.\<close>

theorem disable_cascades_exactly:
  assumes "discover_plugins builtin community = Inr ms" and "p \<in> set ms" and "deps_closed ms s"
    and "disk_for (Suc (enabled_count ms s)) s"
  shows "\<exists>ds lg' s'. update_plugin io exc user ms (pm_name p) False lg s = (TimedValue ds, lg', s') \<and>
     deps_closed ms s' \<and> distinct ds \<and>
     set ds = pm_name ` {m \<in> set ms. plugin_on s m \<and> m \<noteq> p \<and> (depends ms)\<^sup>+\<^sup>+ m p} \<and>
     (\<forall>m. plugin_on s' m \<longleftrightarrow> plugin_on s m \<and> pm_name m \<noteq> pm_name p \<and> pm_name m \<notin> set ds)"
proof -
  have names: "inj_on pm_name (set ms)" using discover_distinct [OF assms(1)] by simp
  obtain s1 where s1: "save_enabled (pm_name p) False s = (None, s1)" and k: "disk_for (enabled_count ms s) s1"
    using save_enabled_ok [OF assms(4)] by blast
  have "enabled_count ms s1 \<le> enabled_count ms s"
    using plugin_on_disable [of "pm_name p" s] s1 unfolding enabled_count_def by (induction ms) auto
  with k obtain ds s2 where c: "cascade_disable_dependents ms [pm_name p] [] s1 = (None, ds, s2)"
    using cascade_ok disk_for_mono by metis
  have inv: "cascade_inv ms s p [] ds s2"
    by (rule cascade_inv_end [OF names assms(2) cascade_inv_start [OF s1] c])
  have "update_body ms p False s = (Inr ds, s2)" by (simp add: update_body_def s1 c)
  from update_plugin_eq [OF assms(2) names this] obtain lg' where
    "update_plugin io exc user ms (pm_name p) False lg s = (TimedValue ds, lg', s2)" by fastforce
  with cascade_inv_closed [OF names assms(2,3) inv] inv show ?thesis
    unfolding cascade_inv_def by blast
qed

lemma enable_keeps_closed:
  assumes "deps_closed ms s" "m \<in> set ms" "inj_on pm_name (set ms)" "update_body ms m True s = (Inr ds, s')"
  shows "deps_closed ms s'"
  unfolding deps_closed_def
proof (intro ballI allI impI)
  fix x t assume x: "x \<in> set ms" "plugin_on s' x \<and> depends ms x t"
  obtain s1 where s1: "save_enabled (pm_name m) True s = (None, s1)" "s' = s1"
    using assms(4) by (auto simp: update_body_def split: if_splits prod.splits option.splits)
  then have on: "plugin_on s' y \<longleftrightarrow> plugin_on s y \<or> pm_name y = pm_name m" for y
    using plugin_on_enable [of "pm_name m" s y] by simp
  show "plugin_on s' t"
  proof (cases "plugin_on s x")
    case True
    then show ?thesis using assms(1) x on unfolding deps_closed_def by blast
  next
    case False
    then have "x = m" using on x assms(2,3) by (auto dest: inj_onD)
    moreover have "pm_hook m \<noteq> None \<or> pm_requires m \<noteq> None" if "depends ms m t"
      using that by (auto simp: depends_def dependency_target_def split: option.splits)
    ultimately have "plugin_on s t" using x(2) assms(4) by (auto simp: update_body_def depends_def split: if_splits)
    then show ?thesis using on by simp
  qed
qed


definition sample_folder :: "ustr \<Rightarrow> pyval \<Rightarrow> plugin_folder" where
  "sample_folder n req =
     \<lparr>pf_dir_name = n,
      pf_toml = TomlData [(''name'', PStr n), (''version'', pstr ''1.0''), (''meshpoint_api'', PInt 1),
        (''provides'', PList [pstr ''service'']), (''requires'', req)],
      pf_is_file = (\<lambda>_. False), pf_root = [n], pf_resolve = (\<lambda>r. [n, r])\<rparr>"

definition sample_plugin :: "ustr \<Rightarrow> pyval \<Rightarrow> ustr option \<Rightarrow> plugin_manifest" where
  "sample_plugin n req r =
     \<lparr>pm_name = n, pm_version = lit ''1.0'', pm_api_version = 1, pm_provides = [pstr ''service''], pm_apt = [],
      pm_setup = None, pm_check = None, pm_description = [], pm_homepage = [], pm_author = [], pm_scripts = [],
      pm_styles = [], pm_folder = sample_folder n req, pm_source = Builtin, pm_locked = False, pm_sidebar = None,
      pm_hook = None, pm_requires = r\<rparr>"

abbreviation sample_folders :: "plugin_folder list" where
  "sample_folders \<equiv> [sample_folder [97, 97] PNone, sample_folder [98, 98] (PStr [97, 97]), sample_folder [99, 99] (PStr [98, 98])]"

abbreviation sample_plugins :: "plugin_manifest list" where
  "sample_plugins \<equiv> [sample_plugin [97, 97] PNone None, sample_plugin [98, 98] (PStr [97, 97]) (Some [97, 97]),
     sample_plugin [99, 99] (PStr [98, 98]) (Some [98, 98])]"

definition sample_plug_state :: plug_state where
  "sample_plug_state = \<lparr>ps_plugins = [], ps_yaml = [], ps_disk = [True, True, True, True], ps_overrides = [],
     ps_setup_locked = False\<rparr>"

lemmas sample_plugin_defs =
  parse_manifest_def parse_tail_def and_then_def PLUGIN_API_VERSION_def KNOWN_PROVIDES_def
  SLUG_RE_def slug_match_def slug_body_def lower_alnum_def dget_or_def lit_def strip_u_def ustrip_def uni_space_def
  rel_paths_def parse_sidebar_def parse_hook_def provides_cap_def parse_requires_def str_field_of_def script_field_def Let_def

lemma sample_parse:
  "parse_manifest (sample_folder [97, 97] PNone) Builtin = Inr (sample_plugin [97, 97] PNone None)"
  "parse_manifest (sample_folder [98, 98] (PStr [97, 97])) Builtin = Inr (sample_plugin [98, 98] (PStr [97, 97]) (Some [97, 97]))"
  "parse_manifest (sample_folder [99, 99] (PStr [98, 98])) Builtin = Inr (sample_plugin [99, 99] (PStr [98, 98]) (Some [98, 98]))"
  by (simp_all add: sample_folder_def sample_plugin_def sample_plugin_defs)

lemma sample_discover: "discover_plugins sample_folders None = Inr sample_plugins"
proof -
  have s: "sort_key pf_dir_name sample_folders = sample_folders"
    by (simp add: sample_folder_def)
  have t: "pf_toml (sample_folder n r) \<noteq> TomlMissing" for n r by (simp add: sample_folder_def)
  show ?thesis unfolding discover_plugins_def s
    by (simp add: sample_parse t and_then_def) (simp add: sample_plugin_def)
qed

lemma sample_closed: "deps_closed sample_plugins sample_plug_state" "enabled_count sample_plugins sample_plug_state = 3"
  "disk_for (Suc (enabled_count sample_plugins sample_plug_state)) sample_plug_state"
  by (simp_all add: deps_closed_def plugin_on_def is_plugin_enabled_def sample_plugin_def sample_plug_state_def conf_of_def
      enabled_count_def disk_for_def depends_def dependency_target_def name_map_def numeral_eq_Suc)

theorem disable_cascades_exactly_witness:
  "\<exists>ds lg' s'. update_plugin sample_audit_io (\<lambda>_. []) [] sample_plugins [97, 97] False [] sample_plug_state = (TimedValue ds, lg', s') \<and>
     distinct ds \<and> set ds = {[98, 98], [99, 99]}"
proof -
  let ?p = "sample_plugin [97, 97] PNone None"
  let ?b = "sample_plugin [98, 98] (PStr [97, 97]) (Some [97, 97])"
  let ?c = "sample_plugin [99, 99] (PStr [98, 98]) (Some [98, 98])"
  have b: "depends sample_plugins ?b ?p" and c: "depends sample_plugins ?c ?b"
    by (simp_all add: depends_def dependency_target_def name_map_def sample_plugin_def)
  have "pm_name ` {m \<in> set sample_plugins. plugin_on sample_plug_state m \<and> m \<noteq> ?p \<and> (depends sample_plugins)\<^sup>+\<^sup>+ m ?p} = {[98, 98], [99, 99]}"
  proof -
    have "{m \<in> set sample_plugins. plugin_on sample_plug_state m \<and> m \<noteq> ?p \<and> (depends sample_plugins)\<^sup>+\<^sup>+ m ?p} = {?b, ?c}"
      using b c tranclp.r_into_trancl [of "depends sample_plugins" ?b ?p, OF b]
        tranclp_into_tranclp2 [of "depends sample_plugins" ?c ?b ?p, OF c tranclp.r_into_trancl [of "depends sample_plugins" ?b ?p, OF b]]
      by (auto simp: sample_plugin_def plugin_on_def is_plugin_enabled_def sample_plug_state_def conf_of_def)
    then show ?thesis by (simp add: sample_plugin_def)
  qed
  moreover have "?p \<in> set sample_plugins" "pm_name ?p = [97, 97]" by (simp_all add: sample_plugin_def)
  ultimately show ?thesis
    using disable_cascades_exactly [OF sample_discover _ sample_closed(1,3), of ?p sample_audit_io "\<lambda>_. []" "[]" "[]"] by metis
qed

end
