(* ===== verification/Plugin_Source_Routes.thy ===== *)
theory Plugin_Source_Routes
  imports Plugin_Install_Safe Plugin_Deps
begin

text \<open>
  \<^verbatim>\<open>src/src/api/routes/plugin_source_routes.py\<close>: adding, removing and repointing plugin sources, browsing their
  catalogs, the update check, and installing from a source.

  \<^item> Requests come from an admin (see \<^verbatim>\<open>Auth_Access\<close>); an error is its status, and 500 stands for every
    exception that is not translated, a refusal of the operating system included.
  \<^item> A source is a record of the fields the routes read; an absent \<^verbatim>\<open>ref\<close> is the empty text.
\<close>

section \<open>State\<close>

record plugin_src =
  src_url :: ustr
  src_ref :: ustr
  src_added_at :: ustr
  src_added_by :: ustr
  src_pinned_from :: "ustr option"

type_synonym catalog_cache = "((ustr \<times> ustr) \<times> rat \<times> catalog) list"

record badge =
  bd_plugin :: bool
  bd_theme :: bool
  bd_checked_at :: ustr

record src_world =
  sw_enabled :: bool
  sw_sources :: "plugin_src list"
  sw_saved :: "plugin_src list"
  sw_plug :: plug_state
  sw_fs :: fs
  sw_cache :: catalog_cache
  sw_badge :: "badge option"
  sw_log :: audit_log

text \<open>What a request finds outside: the network, the clocks, the folders shipped with the program,
  the theme index and the installation's own parameters.\<close>

record src_env =
  se_text :: text_lib
  se_get :: "ustr \<Rightarrow> nat \<Rightarrow> bytes option"
  se_install :: install_env
  se_audit :: audit_io
  se_exc_text :: "nat \<Rightarrow> ustr"
  se_now_iso :: ustr
  se_monotonic :: rat
  se_builtin :: "plugin_folder list"
  se_community :: path
  se_themes :: "ustr list"

definition source_status :: "plugin_error \<Rightarrow> nat" where
  "source_status e = (case e of PluginError code \<Rightarrow> if code \<in> {''url'', ''ref''} then 400 else 502 | Crash \<Rightarrow> 500)"

text \<open>\<^verbatim>\<open>_persist\<close>: the running configuration is changed first.\<close>

definition persist_sources :: "plugin_src list \<Rightarrow> src_world \<Rightarrow> (nat + unit) \<times> src_world" where
  "persist_sources srcs w =
     (let (ok, p1) = yaml_write (\<lambda>y. y) (sw_plug w); w1 = w\<lparr>sw_sources := srcs, sw_plug := p1\<rparr> in
      if ok then (Inr (), w1\<lparr>sw_saved := srcs\<rparr>) else (Inl 403, w1))"

definition src_audited ::
    "src_env \<Rightarrow> ustr \<Rightarrow> string \<Rightarrow> pydict \<Rightarrow> (src_world \<Rightarrow> (nat + 'a) \<times> src_world) \<Rightarrow> src_world \<Rightarrow> (nat + 'a) \<times> src_world" where
  "src_audited env user action params body w =
     (case timed_action (se_audit env) (se_exc_text env) user action params
             (\<lambda>ctx w. let (r, w1) = body w in (r, ctx, w1)) (sw_log w) w of
        (TimedValue v, lg, w1) \<Rightarrow> (Inr v, w1\<lparr>sw_log := lg\<rparr>)
      | (TimedRaise e, lg, w1) \<Rightarrow> (Inl e, w1\<lparr>sw_log := lg\<rparr>)
      | (TimedTypeError, lg, w1) \<Rightarrow> (Inl 500, w1\<lparr>sw_log := lg\<rparr>))"

definition or_main :: "ustr \<Rightarrow> ustr" where
  "or_main r = (if r = [] then lit ''main'' else r)"


section \<open>Managing sources\<close>

definition add_source :: "src_env \<Rightarrow> ustr \<Rightarrow> ustr \<Rightarrow> ustr \<Rightarrow> bool \<Rightarrow> src_world \<Rightarrow> (nat + unit) \<times> src_world" where
  "add_source env user url ref confirm w =
     (if \<not> sw_enabled w then (Inl 403, w)
      else if \<not> confirm then (Inl 400, w)
      else case parse_github_url url of
        Inl e \<Rightarrow> (Inl 400, w)
      | Inr (owner, repo) \<Rightarrow>
          let canon = canonical_url owner repo;
              entry = \<lparr>src_url = canon, src_ref = or_main (strip_u (or_main ref)), src_added_at = se_now_iso env,
                       src_added_by = user, src_pinned_from = None\<rparr> in
          if canon \<in> src_url ` set (sw_sources w) then (Inl 409, w)
          else src_audited env user ''config.plugin_source_add'' [(''url'', PStr canon), (''ref'', PStr (src_ref entry))]
                 (\<lambda>w. persist_sources (sw_sources w @ [entry]) w) w)"

definition remove_source :: "src_env \<Rightarrow> ustr \<Rightarrow> ustr \<Rightarrow> src_world \<Rightarrow> (nat + unit) \<times> src_world" where
  "remove_source env user url w =
     (case parse_github_url url of
        Inl e \<Rightarrow> (Inl 400, w)
      | Inr (owner, repo) \<Rightarrow>
          let canon = canonical_url owner repo; kept = filter (\<lambda>s. src_url s \<noteq> canon) (sw_sources w) in
          if length kept = length (sw_sources w) then (Inl 404, w)
          else src_audited env user ''config.plugin_source_remove'' [(''url'', PStr canon)] (\<lambda>w. persist_sources kept w) w)"

definition sha_re :: "ustr \<Rightarrow> bool" where
  "sha_re s \<longleftrightarrow>
     (let body = (\<lambda>x. 7 \<le> length x \<and> length x \<le> 40 \<and> list_all hex_lower x) in
      body s \<or> (s \<noteq> [] \<and> last s = 10 \<and> body (butlast s)))"

fun index_of :: "('a \<Rightarrow> bool) \<Rightarrow> 'a list \<Rightarrow> nat option" where
  "index_of P [] = None"
| "index_of P (x # xs) = (if P x then Some 0 else map_option Suc (index_of P xs))"

definition repoint :: "plugin_src \<Rightarrow> ustr \<Rightarrow> plugin_src" where
  "repoint s new_ref =
     (let old_ref = or_main (src_ref s) in
      s\<lparr>src_ref := new_ref,
        src_pinned_from := (if sha_re new_ref \<and> \<not> sha_re old_ref then Some old_ref
                            else if \<not> sha_re new_ref then None else src_pinned_from s)\<rparr>)"

text \<open>\<^verbatim>\<open>PATCH\<close>: pin, unpin or move to another branch; the value tells whether anything changed.\<close>

definition repoint_source :: "src_env \<Rightarrow> ustr \<Rightarrow> ustr \<Rightarrow> ustr \<Rightarrow> src_world \<Rightarrow> (nat + bool) \<times> src_world" where
  "repoint_source env user url ref w =
     (case and_then (parse_github_url url) (\<lambda>or. and_then (normalise_ref (Some ref)) (\<lambda>r. Inr (or, r))) of
        Inl e \<Rightarrow> (Inl 400, w)
      | Inr ((owner, repo), new_ref) \<Rightarrow>
          let canon = canonical_url owner repo in
          (case index_of (\<lambda>s. src_url s = canon) (sw_sources w) of
             None \<Rightarrow> (Inl 404, w)
           | Some i \<Rightarrow>
               let s = sw_sources w ! i; old_ref = or_main (src_ref s) in
               if new_ref = old_ref then (Inr False, w)
               else src_audited env user ''config.plugin_source_repoint''
                      [(''url'', PStr canon), (''from'', PStr old_ref), (''to'', PStr new_ref)]
                      (\<lambda>w. case persist_sources ((sw_sources w)[i := repoint s new_ref]) w of
                             (Inl e, w1) \<Rightarrow> (Inl e, w1) | (Inr u, w1) \<Rightarrow> (Inr True, w1)) w))"



section \<open>Catalogs and the update check\<close>

definition CATALOG_CACHE_TTL :: rat where
  "CATALOG_CACHE_TTL = 300"

definition get_catalog_cached ::
    "src_env \<Rightarrow> ustr \<Rightarrow> ustr \<Rightarrow> bool \<Rightarrow> catalog_cache \<Rightarrow> (plugin_error + catalog) \<times> catalog_cache" where
  "get_catalog_cached env canon ref force cache =
     (case (if force then None else map_of cache (canon, ref)) of
        Some (expires, cat) \<Rightarrow>
          if se_monotonic env < expires then (Inr cat, cache)
          else (case fetch_catalog (se_text env) (se_get env) canon (Some ref) of
                  Inl e \<Rightarrow> (Inl e, cache)
                | Inr c \<Rightarrow> (Inr c, AList.update (canon, ref) (se_monotonic env + CATALOG_CACHE_TTL, c) cache))
      | None \<Rightarrow>
          (case fetch_catalog (se_text env) (se_get env) canon (Some ref) of
             Inl e \<Rightarrow> (Inl e, cache)
           | Inr c \<Rightarrow> (Inr c, AList.update (canon, ref) (se_monotonic env + CATALOG_CACHE_TTL, c) cache)))"

text \<open>The folders of a directory as \<^verbatim>\<open>discover_plugins\<close> sees them.\<close>

definition folders_in :: "(bytes \<Rightarrow> pydict option) \<Rightarrow> fs \<Rightarrow> path \<Rightarrow> plugin_folder list" where
  "folders_in toml fs dir =
     map (folder_at toml fs)
       (remdups (map fst (filter (\<lambda>(q, n). q \<noteq> [] \<and> butlast q = dir \<and> fs_get fs q = Some FDir) fs)))"

definition discovered :: "src_env \<Rightarrow> src_world \<Rightarrow> plugin_error + plugin_manifest list" where
  "discovered env w =
     discover_plugins (se_builtin env)
       (if fs_get (sw_fs w) (se_community env) = Some FDir
        then Some (folders_in (ie_toml (se_install env)) (sw_fs w) (se_community env)) else None)"

definition provenance :: "plug_state \<Rightarrow> ustr \<Rightarrow> pydict" where
  "provenance s plugin_id = (case dget ''source'' (conf_of s plugin_id) of PDict d \<Rightarrow> d | _ \<Rightarrow> [])"

text \<open>The installed version of a plugin or theme; a theme's comes from the record of its installation.\<close>

definition installed_index :: "src_env \<Rightarrow> src_world \<Rightarrow> plugin_manifest list \<Rightarrow> ustr \<Rightarrow> ustr option" where
  "installed_index env w ms i =
     (case find (\<lambda>m. pm_name m = i) (rev ms) of
        Some m \<Rightarrow> Some (pm_version m)
      | None \<Rightarrow>
          if i \<in> set (se_themes env)
          then Some (case dget ''version'' (provenance (sw_plug w) i) of PStr v \<Rightarrow> v | _ \<Rightarrow> []) else None)"

definition update_available :: "(ustr \<Rightarrow> ustr option) \<Rightarrow> catalog_entry \<Rightarrow> bool" where
  "update_available installed e = (case installed (ce_id e) of None \<Rightarrow> False | Some cur \<Rightarrow> cur \<noteq> [] \<and> cur \<noteq> ce_version e)"

record catalog_row =
  cr_entry :: catalog_entry
  cr_installed :: "ustr option"
  cr_update :: bool

text \<open>\<^verbatim>\<open>GET /catalog\<close>. A ref that is not well formed is not translated into an answer.\<close>

definition source_catalog ::
    "src_env \<Rightarrow> ustr \<Rightarrow> ustr option \<Rightarrow> bool \<Rightarrow> src_world \<Rightarrow> (nat + catalog_row list) \<times> src_world" where
  "source_catalog env url ref force w =
     (case parse_github_url url of
        Inl e \<Rightarrow> (Inl 400, w)
      | Inr (owner, repo) \<Rightarrow>
          let canon = canonical_url owner repo;
              ref1 = (case ref of Some r \<Rightarrow> Some r | None \<Rightarrow> map_option src_ref (find (\<lambda>s. src_url s = canon) (sw_sources w))) in
          (case normalise_ref ref1 of
             Inl e \<Rightarrow> (Inl 500, w)
           | Inr r \<Rightarrow>
               (case get_catalog_cached env canon r force (sw_cache w) of
                  (Inl e, cache) \<Rightarrow> (Inl (source_status e), w\<lparr>sw_cache := cache\<rparr>)
                | (Inr cat, cache) \<Rightarrow>
                    let w1 = w\<lparr>sw_cache := cache\<rparr> in
                    (case discovered env w of
                       Inl e \<Rightarrow> (Inl 500, w1)
                     | Inr ms \<Rightarrow>
                         (Inr (map (\<lambda>e. \<lparr>cr_entry = e, cr_installed = installed_index env w ms (ce_id e),
                                       cr_update = update_available (installed_index env w ms) e\<rparr>)
                              (cat_plugins cat @ cat_themes cat)), w1)))))"

text \<open>The loop of \<^verbatim>\<open>_check_sources_sync\<close>: a source that cannot be used is skipped, and the loop ends when both
  kinds are known to have an update.\<close>

fun check_sources ::
    "src_env \<Rightarrow> (ustr \<Rightarrow> ustr option) \<Rightarrow> bool \<Rightarrow> plugin_src list \<Rightarrow> bool \<Rightarrow> bool \<Rightarrow> catalog_cache \<Rightarrow> bool \<times> bool \<times> catalog_cache" where
  "check_sources env installed force [] p t cache = (p, t, cache)"
| "check_sources env installed force (s # ss) p t cache =
     (if src_url s = [] then check_sources env installed force ss p t cache
      else case and_then (parse_github_url (src_url s)) (\<lambda>(owner, repo).
                  and_then (normalise_ref (Some (src_ref s))) (\<lambda>r. Inr (canonical_url owner repo, r))) of
        Inl e \<Rightarrow> check_sources env installed force ss p t cache
      | Inr (canon, r) \<Rightarrow>
          (case get_catalog_cached env canon r force cache of
             (Inl e, cache1) \<Rightarrow> check_sources env installed force ss p t cache1
           | (Inr cat, cache1) \<Rightarrow>
               let p1 = (p \<or> list_ex (update_available installed) (cat_plugins cat));
                   t1 = (t \<or> list_ex (update_available installed) (cat_themes cat)) in
               if p1 \<and> t1 then (p1, t1, cache1) else check_sources env installed force ss p1 t1 cache1))"

definition run_periodic_plugin_check :: "src_env \<Rightarrow> bool \<Rightarrow> src_world \<Rightarrow> src_world" where
  "run_periodic_plugin_check env force w =
     (if \<not> sw_enabled w then w
      else case discovered env w of
        Inl e \<Rightarrow> w
      | Inr ms \<Rightarrow>
          let (p, t, cache) = check_sources env (installed_index env w ms) force (sw_sources w) False False (sw_cache w) in
          w\<lparr>sw_cache := cache, sw_badge := Some \<lparr>bd_plugin = p, bd_theme = t, bd_checked_at = se_now_iso env\<rparr>\<rparr>)"

definition resolve_source_ref ::
    "src_env \<Rightarrow> (ustr \<Rightarrow> ustr) \<Rightarrow> ustr \<Rightarrow> ustr option \<Rightarrow> src_world \<Rightarrow> nat + ustr \<times> bool \<times> commit_info" where
  "resolve_source_ref env quote url ref w =
     (case parse_github_url url of
        Inl e \<Rightarrow> Inl 400
      | Inr (owner, repo) \<Rightarrow>
          let canon = canonical_url owner repo;
              r = (case ref of
                     Some r \<Rightarrow> r
                   | None \<Rightarrow> or_main (case find (\<lambda>s. src_url s = canon) (sw_sources w) of None \<Rightarrow> [] | Some s \<Rightarrow> src_ref s)) in
          (case resolve_commit (se_text env) quote (se_get env) canon (Some r) of
             Inl e \<Rightarrow> Inl (source_status e)
           | Inr c \<Rightarrow> Inr (r, sha_re r, c)))"


section \<open>Installing from a source\<close>

definition record_provenance ::
    "src_env \<Rightarrow> ustr \<Rightarrow> ustr \<Rightarrow> ustr \<Rightarrow> install_result \<Rightarrow> plug_state \<Rightarrow> plug_state" where
  "record_provenance env plugin_id url ref r s =
     (let existing = PDict (AList.update ''source''
            (PDict [(''url'', PStr url), (''ref'', PStr ref), (''version'', PStr (ir_version r)), (''commit'', PStr (ir_commit r)),
                    (''installed_at'', PStr (se_now_iso env))]) (conf_of s plugin_id)) in
      snd (yaml_write (AList.update plugin_id existing) (s\<lparr>ps_plugins := AList.update plugin_id existing (ps_plugins s)\<rparr>)))"

definition install_status :: "plugin_error \<Rightarrow> nat" where
  "install_status e = (case e of PluginError code \<Rightarrow> if code \<in> {''fetch'', ''size'', ''archive''} then 502 else 400 | Crash \<Rightarrow> 500)"

definition install_body ::
    "src_env \<Rightarrow> ustr \<Rightarrow> ustr \<Rightarrow> ustr \<Rightarrow> catalog_entry \<Rightarrow> src_world \<Rightarrow> (nat + install_result) \<times> src_world" where
  "install_body env owner repo ref e w =
     (case install_from_source (se_text env) (se_install env) owner repo ref e (se_community env) (sw_fs w) of
        (Inl err, fs1) \<Rightarrow> (Inl (install_status err), w\<lparr>sw_fs := fs1\<rparr>)
      | (Inr r, fs1) \<Rightarrow>
          (Inr r, w\<lparr>sw_fs := fs1, sw_plug := record_provenance env (ir_id r) (canonical_url owner repo) ref r (sw_plug w)\<rparr>))"

text \<open>The checks before the download, and what they settle: the repository, the ref, the entry and whether
  it is an update.\<close>

definition install_checks ::
    "src_env \<Rightarrow> ustr \<Rightarrow> ustr \<Rightarrow> ustr \<Rightarrow> src_world \<Rightarrow> nat + (ustr \<times> ustr) \<times> ustr \<times> catalog_entry \<times> bool" where
  "install_checks env url plugin_id ref w =
     (if \<not> sw_enabled w then Inl 403
      else case parse_github_url url of
        Inl e \<Rightarrow> Inl 400
      | Inr (owner, repo) \<Rightarrow>
          let canon = canonical_url owner repo in
          (case find (\<lambda>s. src_url s = canon) (sw_sources w) of
             None \<Rightarrow> Inl 400
           | Some s \<Rightarrow>
               (case normalise_ref (Some (or_main (if ref = [] then src_ref s else ref))) of
                  Inl e \<Rightarrow> Inl 400
                | Inr r \<Rightarrow>
                    (case fetch_catalog (se_text env) (se_get env) canon (Some r) of
                       Inl e \<Rightarrow> Inl (source_status e)
                     | Inr cat \<Rightarrow>
                         (case find (\<lambda>e. ce_id e = plugin_id) (cat_plugins cat @ cat_themes cat) of
                            None \<Rightarrow> Inl 404
                          | Some e \<Rightarrow>
                              if \<not> ce_compatible e then Inl 400
                              else (case discovered env w of
                                 Inl err \<Rightarrow> Inl 500
                               | Inr ms \<Rightarrow>
                                   (case find (\<lambda>m. pm_name m = plugin_id) ms of
                                      None \<Rightarrow> Inr ((owner, repo), r, e, False)
                                    | Some m \<Rightarrow>
                                        if pm_source m \<noteq> Community then Inl 409
                                        else if pm_locked m then Inl 409
                                        else Inr ((owner, repo), r, e, True)))))))) "

definition install_from_source_route ::
    "src_env \<Rightarrow> ustr \<Rightarrow> ustr \<Rightarrow> ustr \<Rightarrow> ustr \<Rightarrow> src_world \<Rightarrow> (nat + install_result \<times> bool) \<times> src_world" where
  "install_from_source_route env user url plugin_id ref w =
     (case install_checks env url plugin_id ref w of
        Inl status \<Rightarrow> (Inl status, w)
      | Inr ((owner, repo), r, e, updating) \<Rightarrow>
          (case src_audited env user ''config.plugin_install''
                  [(''url'', PStr (canonical_url owner repo)), (''ref'', PStr r), (''id'', PStr plugin_id), (''update'', PBool updating)]
                  (install_body env owner repo r e) w of
             (Inl status, w1) \<Rightarrow> (Inl status, w1)
           | (Inr res, w1) \<Rightarrow> (Inr (res, updating), w1)))"


section \<open>Runs\<close>

datatype src_request =
    AddSource ustr ustr ustr bool
  | RemoveSource ustr ustr
  | RepointSource ustr ustr ustr
  | InstallPlugin ustr ustr ustr ustr
  | BrowseCatalog ustr "ustr option" bool
  | CheckNow bool
  | SetEnabled ustr ustr bool

text \<open>\<open>SetEnabled\<close> is \<^verbatim>\<open>PUT /api/plugins/{id}\<close> of \<^verbatim>\<open>plugin_routes.py\<close>, which shares the configuration.\<close>

fun src_step :: "src_env \<Rightarrow> src_request \<Rightarrow> src_world \<Rightarrow> src_world" where
  "src_step env (AddSource user url ref confirm) w = snd (add_source env user url ref confirm w)"
| "src_step env (RemoveSource user url) w = snd (remove_source env user url w)"
| "src_step env (RepointSource user url ref) w = snd (repoint_source env user url ref w)"
| "src_step env (InstallPlugin user url i ref) w = snd (install_from_source_route env user url i ref w)"
| "src_step env (BrowseCatalog url ref force) w = snd (source_catalog env url ref force w)"
| "src_step env (CheckNow force) w = run_periodic_plugin_check env force w"
| "src_step env (SetEnabled user i b) w =
     (case discovered env w of
        Inl e \<Rightarrow> w
      | Inr ms \<Rightarrow>
          let (r, lg, p) = update_plugin (se_audit env) (se_exc_text env) user ms i b (sw_log w) (sw_plug w) in
          w\<lparr>sw_plug := p, sw_log := lg\<rparr>)"

fun src_run :: "(src_env \<times> src_request) list \<Rightarrow> src_world \<Rightarrow> src_world" where
  "src_run [] w = w"
| "src_run ((env, rq) # rqs) w = src_run rqs (src_step env rq w)"

end
