(* ===== verification/Plugin_Consent.thy ===== *)
theory Plugin_Consent
  imports Plugin_Source_Routes
begin

text \<open>
  What reaches the disk through plugin sources: over every run of requests, a file changes only by
  an installation from a source somebody confirmed, and only in the folder of the plugin asked for.
\<close>

lemma src_audited_state:
  assumes "src_audited env user a ps body w = (r, w')"
  shows "\<exists>r1 w1 lg. body w = (r1, w1) \<and> w' = w1\<lparr>sw_log := lg\<rparr> \<and> (\<forall>v. r = Inr v \<longrightarrow> r1 = Inr v)"
proof -
  obtain r1 w1 where b: "body w = (r1, w1)" by force
  then show ?thesis
    using assms by (auto simp: src_audited_def timed_action_def Let_def split: sum.splits option.splits)
qed

lemma persist_sources_state:
  "persist_sources ss w = (r, w') \<Longrightarrow> sw_sources w' = ss \<and> sw_fs w' = sw_fs w \<and> sw_enabled w' = sw_enabled w"
  by (auto simp: persist_sources_def Let_def split: prod.splits if_splits)

text \<open>The sources after a request.\<close>

definition confirmed :: "src_request \<Rightarrow> ustr \<Rightarrow> bool" where
  "confirmed rq canon \<longleftrightarrow>
     (\<exists>user url ref owner repo. rq = AddSource user url ref True \<and> parse_github_url url = Inr (owner, repo) \<and>
        canon = canonical_url owner repo)"

lemma add_source_state:
  "add_source env user url ref confirm w = (r, w') \<Longrightarrow> sw_fs w' = sw_fs w \<and> sw_enabled w' = sw_enabled w \<and>
     src_url ` set (sw_sources w') \<subseteq> src_url ` set (sw_sources w) \<union> {c. confirmed (AddSource user url ref confirm) c}"
  by (auto simp: add_source_def confirmed_def Let_def dest!: src_audited_state persist_sources_state
      split: if_splits sum.splits prod.splits)

lemma remove_source_state:
  "remove_source env user url w = (r, w') \<Longrightarrow> sw_fs w' = sw_fs w \<and> sw_enabled w' = sw_enabled w \<and>
     src_url ` set (sw_sources w') \<subseteq> src_url ` set (sw_sources w)"
  by (auto simp: remove_source_def Let_def dest!: src_audited_state persist_sources_state
      split: if_splits sum.splits prod.splits)

lemma index_of_nth: "index_of P xs = Some i \<Longrightarrow> i < length xs \<and> P (xs ! i)"
  by (induction xs arbitrary: i) (auto split: if_splits)

lemma repoint_source_state:
  assumes "repoint_source env user url ref w = (r, w')"
  shows "sw_fs w' = sw_fs w \<and> sw_enabled w' = sw_enabled w \<and> src_url ` set (sw_sources w') \<subseteq> src_url ` set (sw_sources w)"
proof -
  have url: "src_url (repoint s n) = src_url s" for s n by (simp add: repoint_def Let_def)
  have "src_url ` set (ss[i := repoint (ss ! i) n]) \<subseteq> src_url ` set ss" if "i < length ss" for ss i n
    using that set_update_subset_insert [of ss i "repoint (ss ! i) n"] by (auto simp: url)
  then show ?thesis
    using assms
    by (auto simp: repoint_source_def Let_def dest!: src_audited_state persist_sources_state dest: index_of_nth
        split: if_splits sum.splits prod.splits option.splits) (meson image_subset_iff index_of_nth)+
qed


lemma source_catalog_state:
  "sw_fs (snd (source_catalog env url ref force w)) = sw_fs w \<and> sw_enabled (snd (source_catalog env url ref force w)) = sw_enabled w \<and>
   sw_sources (snd (source_catalog env url ref force w)) = sw_sources w"
  by (auto simp: source_catalog_def Let_def split: sum.splits prod.splits)

lemma periodic_check_state:
  "sw_fs (run_periodic_plugin_check env force w) = sw_fs w \<and> sw_enabled (run_periodic_plugin_check env force w) = sw_enabled w \<and>
   sw_sources (run_periodic_plugin_check env force w) = sw_sources w"
  by (auto simp: run_periodic_plugin_check_def Let_def split: sum.splits prod.splits)

lemma install_route_state:
  assumes "install_from_source_route env user url i ref w = (r, w')"
  shows "sw_enabled w' = sw_enabled w \<and> sw_sources w' = sw_sources w \<and>
    (sw_fs w' = sw_fs w \<or> (\<exists>owner repo rf e up res. install_checks env url i ref w = Inr ((owner, repo), rf, e, up) \<and>
       install_from_source (se_text env) (se_install env) owner repo rf e (se_community env) (sw_fs w) = (res, sw_fs w')))"
proof (cases "install_checks env url i ref w")
  case (Inl st)
  then show ?thesis using assms by (simp add: install_from_source_route_def)
next
  case (Inr c)
  obtain owner repo rf e up where c: "c = ((owner, repo), rf, e, up)" by (metis surj_pair)
  obtain r1 w1 lg where b: "install_body env owner repo rf e w = (r1, w1)" and w': "w' = w1\<lparr>sw_log := lg\<rparr>"
    using assms Inr c by (auto simp: install_from_source_route_def dest!: src_audited_state split: prod.splits sum.splits)
  obtain res fs1 where f: "install_from_source (se_text env) (se_install env) owner repo rf e (se_community env) (sw_fs w) = (res, fs1)"
    by force
  have "sw_fs w1 = fs1 \<and> sw_enabled w1 = sw_enabled w \<and> sw_sources w1 = sw_sources w"
    using b f by (auto simp: install_body_def split: sum.splits)
  then show ?thesis using Inr c f w' by auto
qed

text \<open>What the checks have settled.\<close>

lemma install_checks_ok:
  assumes "install_checks env url i ref w = Inr ((owner, repo), rf, e, up)"
  shows "sw_enabled w" "parse_github_url url = Inr (owner, repo)"
    "canonical_url owner repo \<in> src_url ` set (sw_sources w)" "ce_id e = i"
    "\<exists>v. catalog_entry_of v (ce_theme e) = Inr e"
    "\<exists>ms. discovered env w = Inr ms \<and> (\<forall>m \<in> set ms. pm_name m = i \<longrightarrow> pm_source m = Community \<and> \<not> pm_locked m)"
proof -
  note d = assms [unfolded install_checks_def Let_def]
  show en: "sw_enabled w" using d by (auto split: if_splits)
  show url: "parse_github_url url = Inr (owner, repo)"
    using d by (auto split: if_splits sum.splits option.splits)
  obtain s where s: "find (\<lambda>s. src_url s = canonical_url owner repo) (sw_sources w) = Some s"
    using d en url by (auto split: option.splits)
  then show "canonical_url owner repo \<in> src_url ` set (sw_sources w)"
    using find_SomeE [OF s] by (auto intro: image_eqI [of _ _ s])
  obtain rn where rn: "normalise_ref (Some (or_main (if ref = [] then src_ref s else ref))) = Inr rn"
    using d en url s by (auto split: sum.splits)
  obtain cat where cat: "fetch_catalog (se_text env) (se_get env) (canonical_url owner repo) (Some rn) = Inr cat"
    using d en url s rn by (auto split: sum.splits)
  obtain e' where e': "find (\<lambda>e. ce_id e = i) (cat_plugins cat @ cat_themes cat) = Some e'"
    using d en url s rn cat by (auto split: option.splits)
  obtain ms where ms: "discovered env w = Inr ms"
    using d en url s rn cat e' by (auto split: sum.splits if_splits)
  have "e' = e" and m: "\<And>m. find (\<lambda>m. pm_name m = i) ms = Some m \<Longrightarrow> pm_source m = Community \<and> \<not> pm_locked m"
    using d en url s rn cat e' ms by (auto split: option.splits if_splits)
  then show "ce_id e = i" using find_SomeE [OF e'] by simp
  obtain data where "parse_catalog (se_text env) data = Inr cat"
    using cat by (auto simp: fetch_catalog_def and_then_Inr)
  then show "\<exists>v. catalog_entry_of v (ce_theme e) = Inr e"
    using catalog_member find_SomeE(2) [OF e'] \<open>e' = e\<close> by blast
  have inj: "inj_on pm_name (set ms)" using ms discover_distinct unfolding discovered_def by blast
  have "pm_source m = Community \<and> \<not> pm_locked m" if mi: "m \<in> set ms" "pm_name m = i" for m
  proof -
    obtain m' where f: "find (\<lambda>m. pm_name m = i) ms = Some m'"
      using mi by (cases "find (\<lambda>m. pm_name m = i) ms") (auto simp: find_None_iff)
    then have "m' = m" using find_SomeE [OF f] mi inj by (auto dest: inj_onD)
    then show ?thesis using m [OF f] by simp
  qed
  with ms show "\<exists>ms. discovered env w = Inr ms \<and> (\<forall>m \<in> set ms. pm_name m = i \<longrightarrow> pm_source m = Community \<and> \<not> pm_locked m)"
    by blast
qed

lemmas src_parts =
  add_source_state [OF surjective_pairing] remove_source_state [OF surjective_pairing]
  repoint_source_state [OF surjective_pairing] install_route_state [OF surjective_pairing]
  source_catalog_state periodic_check_state

lemma src_step_enabled: "sw_enabled (src_step env rq w) = sw_enabled w"
  using src_parts by (cases rq) (auto simp: Let_def split: sum.splits prod.splits)

lemma src_step_fs:
  "(\<And>user url i ref. rq \<noteq> InstallPlugin user url i ref) \<Longrightarrow> sw_fs (src_step env rq w) = sw_fs w"
  using src_parts by (cases rq) (auto simp: Let_def split: sum.splits prod.splits)

lemma src_step_sources:
  "src_url ` set (sw_sources (src_step env rq w)) \<subseteq> src_url ` set (sw_sources w) \<union> {c. confirmed rq c}"
proof (cases rq)
  case (AddSource user url ref confirm)
  then show ?thesis using src_parts(1) by simp
next
  case (RemoveSource user url)
  then show ?thesis using src_parts(2) by (simp add: le_supI1)
next
  case (RepointSource user url ref)
  then show ?thesis using src_parts(3) by (simp add: le_supI1)
next
  case (InstallPlugin user url i ref)
  then show ?thesis using src_parts(4) by (simp add: le_supI1)
next
  case (SetEnabled user i b)
  then show ?thesis by (auto simp: Let_def split: sum.splits prod.splits)
qed (simp_all add: src_parts(5,6) le_supI1)

definition consented :: "ustr \<Rightarrow> src_world \<Rightarrow> (src_env \<times> src_request) list \<Rightarrow> bool" where
  "consented canon w rqs \<longleftrightarrow> canon \<in> src_url ` set (sw_sources w) \<or> (\<exists>(env, rq) \<in> set rqs. confirmed rq canon)"

lemma src_run_state:
  "sw_enabled (src_run rqs w) = sw_enabled w \<and> src_url ` set (sw_sources (src_run rqs w)) \<subseteq> {c. consented c w rqs}"
proof (induction rqs w rule: src_run.induct)
  case (1 w)
  then show ?case by (auto simp: consented_def)
next
  case (2 env rq rqs w)
  have "consented c w ((env, rq) # rqs)" if "consented c (src_step env rq w) rqs" for c
  proof -
    from that consider "c \<in> src_url ` set (sw_sources (src_step env rq w))" | "\<exists>(env, rq) \<in> set rqs. confirmed rq c"
      unfolding consented_def by blast
    then show ?thesis
    proof cases
      case 1
      then have "c \<in> src_url ` set (sw_sources w) \<or> confirmed rq c" using src_step_sources [of env rq w] by blast
      then show ?thesis unfolding consented_def by auto
    next
      case 2
      then show ?thesis unfolding consented_def by auto
    qed
  qed
  then show ?case using 2 src_step_enabled [of env rq w] by auto
qed

lemma provenance_keeps_enabled: "plugin_on (record_provenance env i url ref r s) m \<longleftrightarrow> plugin_on s m"
  by (auto simp: record_provenance_def plugin_on_def is_plugin_enabled_def conf_of_def yaml_write_def update_conv' Let_def
      split: list.splits bool.splits option.splits pyval.splits)

lemma install_keeps_enabled:
  "plugin_on (sw_plug (snd (install_from_source_route env user url i ref w))) m \<longleftrightarrow> plugin_on (sw_plug w) m"
proof -
  obtain r w' where i: "install_from_source_route env user url i ref w = (r, w')" by force
  show ?thesis
  proof (cases "install_checks env url i ref w")
    case (Inl st)
    then show ?thesis by (simp add: install_from_source_route_def)
  next
    case (Inr c)
    obtain owner repo rf e up where c: "c = ((owner, repo), rf, e, up)" by (metis surj_pair)
    obtain r1 w1 lg where b: "install_body env owner repo rf e w = (r1, w1)" and w': "w' = w1\<lparr>sw_log := lg\<rparr>"
      using i Inr c by (auto simp: install_from_source_route_def dest!: src_audited_state split: prod.splits sum.splits)
    have "plugin_on (sw_plug w1) m \<longleftrightarrow> plugin_on (sw_plug w) m"
      using b by (auto simp: install_body_def provenance_keeps_enabled split: prod.splits sum.splits)
    then show ?thesis using i w' by simp
  qed
qed

text \<open>C18: In every run of requests, a step changes a path of the file system only if it installs a
  plugin or theme, with the master switch on from the start, from a repository that was configured
  at the start or added earlier by a request that confirmed it; the id asked for is not that of a
  built-in or locked plugin; the path is the folder of that id below \<^verbatim>\<open>apps\<close> or \<^verbatim>\<open>themes\<close>, its copy set aside, or
  one of its parents; and no plugin becomes enabled or disabled by it.\<close>

theorem installs_are_consented:
  assumes "w = src_run before w0" and "w' = src_step env rq w" and "fs_get (sw_fs w') q \<noteq> fs_get (sw_fs w) q"
    and "fresh_dir (ie_staging (se_install env)) (sw_fs w)"
    and "apart (ie_staging (se_install env)) (butlast (se_community env))" and "se_community env \<noteq> []"
  shows "sw_enabled w0 \<and>
     (\<exists>user url i ref owner repo e ms. rq = InstallPlugin user url i ref \<and> parse_github_url url = Inr (owner, repo) \<and>
        consented (canonical_url owner repo) w0 before \<and> SLUG_RE i \<and> ce_id e = i \<and>
        discovered env w = Inr ms \<and> (\<forall>m \<in> set ms. pm_name m = i \<longrightarrow> pm_source m = Community \<and> \<not> pm_locked m) \<and>
        (below (dest_of (se_community env) e) q \<or> below (backup_of (dest_of (se_community env) e)) q \<or>
         below q (dest_of (se_community env) e))) \<and>
     (\<forall>m. plugin_on (sw_plug w') m \<longleftrightarrow> plugin_on (sw_plug w) m)"
proof -
  obtain user url i ref where rq: "rq = InstallPlugin user url i ref"
    using src_step_fs assms(2,3) by metis
  define r where "r = install_from_source_route env user url i ref w"
  have w': "w' = snd r" using assms(2) rq by (simp add: r_def)
  have "sw_fs w' \<noteq> sw_fs w" using assms(3) by auto
  then obtain owner repo rf e up res where c: "install_checks env url i ref w = Inr ((owner, repo), rf, e, up)"
    and inst: "install_from_source (se_text env) (se_install env) owner repo rf e (se_community env) (sw_fs w) = (res, sw_fs w')"
    using install_route_state [of env user url i ref w "fst r" "snd r"] unfolding w' r_def by auto
  note ok = install_checks_ok [OF c]
  obtain v where v: "catalog_entry_of v (ce_theme e) = Inr e" using ok(5) by blast
  have "below (dest_of (se_community env) e) q \<or> below (backup_of (dest_of (se_community env) e)) q \<or> below q (dest_of (se_community env) e)"
  proof (rule ccontr)
    assume n: "\<not> ?thesis"
    then have "only_parents (dest_of (se_community env) e) (sw_fs w) (sw_fs w') q"
      using install_contained_frame [OF v assms(4-6) inst] by blast
    then have "below q (butlast (dest_of (se_community env) e))" using assms(3) by (auto simp: only_parents_def)
    moreover have "below (butlast d) d" for d :: path by (simp add: below_def butlast_conv_take)
    ultimately show False using n below_trans by blast
  qed
  moreover have "sw_enabled w0" "consented (canonical_url owner repo) w0 before"
    using ok(1,3) src_run_state [of before w0] assms(1) by auto
  moreover have "SLUG_RE i" using catalog_entry_path(1) [OF v] ok(4) by simp
  moreover have "plugin_on (sw_plug w') m \<longleftrightarrow> plugin_on (sw_plug w) m" for m
    using install_keeps_enabled unfolding w' r_def .
  ultimately show ?thesis using rq ok(2,4,6) by blast
qed



section \<open>Witness\<close>

definition sample_src_env :: src_env where
  "sample_src_env =
     \<lparr>se_text = sample_text_lib\<lparr>tl_json := (\<lambda>_. Some (PDict [(''meshpoint_repo'', PInt 1), (''plugins'', PList [sample_entry_json])]))\<rparr>,
      se_get = (\<lambda>_ _. Some []), se_install = sample_install_env, se_audit = sample_audit_io, se_exc_text = (\<lambda>_. []),
      se_now_iso = [], se_monotonic = 0, se_builtin = [], se_community = [lit ''p'', lit ''apps''], se_themes = []\<rparr>"

definition sample_world :: src_world where
  "sample_world = \<lparr>sw_enabled = True, sw_sources = [], sw_saved = [], sw_plug = sample_plug_state, sw_fs = sample_fs, sw_cache = [],
     sw_badge = None, sw_log = []\<rparr>"

abbreviation sample_url :: ustr where
  "sample_url \<equiv> lit ''https://github.com/o/r''"

abbreviation sample_add :: src_request where
  "sample_add \<equiv> AddSource [] sample_url [] True"

lemma sample_url_ok: "parse_github_url sample_url = Inr (lit ''o'', lit ''r'')" "canonical_url (lit ''o'') (lit ''r'') = sample_url"
  by (simp_all add: parse_github_url_def https_url_match_def strip_u_def ustrip_def uni_space_def after_slash_def before_slash_def
      https_host_ok_def has_suffix_def drop_suffix_def last_n_def strip_git_def owner_repo_def canonical_url_def lit_def Let_def)

lemma sample_added:
  defines "w \<equiv> src_step sample_src_env sample_add sample_world"
  shows "sw_enabled w" "sw_fs w = sample_fs" "\<exists>s. sw_sources w = [s] \<and> src_url s = sample_url \<and> src_ref s = lit ''main''"
proof -
  define s where "s = \<lparr>src_url = sample_url, src_ref = lit ''main'', src_added_at = [], src_added_by = [], src_pinned_from = None\<rparr>"
  have m: "or_main (strip_u (or_main [])) = lit ''main''"
    by (simp add: or_main_def strip_u_def ustrip_def uni_space_def lit_def)
  obtain r w1 where a: "add_source sample_src_env [] sample_url [] True sample_world = (r, w1)" by force
  have "src_audited sample_src_env [] ''config.plugin_source_add'' [(''url'', PStr sample_url), (''ref'', PStr (lit ''main''))]
      (\<lambda>w. persist_sources (sw_sources w @ [s]) w) sample_world = (r, w1)"
    using a m by (simp add: add_source_def sample_url_ok s_def sample_world_def sample_src_env_def Let_def)
  from src_audited_state [OF this] obtain r1 w2 lg where p: "persist_sources (sw_sources sample_world @ [s]) sample_world = (r1, w2)"
    and w1: "w1 = w2\<lparr>sw_log := lg\<rparr>" by blast
  have "w = w1" unfolding w_def using a by simp
  then show "sw_enabled w" "sw_fs w = sample_fs" "\<exists>s. sw_sources w = [s] \<and> src_url s = sample_url \<and> src_ref s = lit ''main''"
    using persist_sources_state [OF p] w1 by (auto simp: sample_world_def s_def)
qed

lemma sample_catalog:
  "fetch_catalog (se_text sample_src_env) (se_get sample_src_env) sample_url (Some (lit ''main'')) =
     Inr \<lparr>cat_name = [], cat_description = [], cat_plugins = [sample_entry], cat_themes = []\<rparr>"
  "normalise_ref (Some (or_main (lit ''main''))) = Inr (lit ''main'')"
proof -
  show n: "normalise_ref (Some (or_main (lit ''main''))) = Inr (lit ''main'')"
    by (simp add: normalise_ref_def or_main_def strip_u_def ustrip_def uni_space_def ref_char_def lit_def Let_def)
  then have n': "normalise_ref (Some (lit ''main'')) = Inr (lit ''main'')" by (simp add: or_main_def lit_def)
  show "fetch_catalog (se_text sample_src_env) (se_get sample_src_env) sample_url (Some (lit ''main'')) =
     Inr \<lparr>cat_name = [], cat_description = [], cat_plugins = [sample_entry], cat_themes = []\<rparr>"
    by (simp add: fetch_catalog_def sample_url_ok n' and_then_def http_get_def sample_src_env_def parse_catalog_def dget_or_def
        sample_entry_ok)
qed

lemma sample_checks:
  assumes "sw_enabled w" "sw_fs w = sample_fs" "sw_sources w = [s]" "src_url s = sample_url" "src_ref s = lit ''main''"
  shows "install_checks sample_src_env sample_url (lit ''aa'') [] w = Inr ((lit ''o'', lit ''r''), lit ''main'', sample_entry, False)"
proof -
  have "discovered sample_src_env w = Inr []"
    by (simp add: discovered_def assms(2) discover_plugins_def sample_src_env_def and_then_def)
  moreover have "ce_id sample_entry = lit ''aa''" "ce_compatible sample_entry" by (simp_all add: sample_entry_def)
  ultimately show ?thesis
    by (simp add: install_checks_def assms sample_url_ok sample_catalog)
qed

theorem installs_are_consented_witness:
  "sw_enabled sample_world \<and>
   fs_get (sw_fs (src_run [(sample_src_env, sample_add), (sample_src_env, InstallPlugin [] sample_url (lit ''aa'') [])] sample_world))
     [lit ''p'', lit ''apps'', lit ''aa'', lit ''plugin.toml''] = Some (FFile [7]) \<and>
   consented sample_url sample_world [(sample_src_env, sample_add)]"
proof -
  let ?q = "[lit ''p'', lit ''apps'', lit ''aa'', lit ''plugin.toml'']" and ?i = "InstallPlugin [] sample_url (lit ''aa'') []"
  define w where "w = src_run [(sample_src_env, sample_add)] sample_world"
  define w' where "w' = src_step sample_src_env ?i w"
  obtain s where w: "sw_enabled w" "sw_fs w = sample_fs" "sw_sources w = [s]" "src_url s = sample_url" "src_ref s = lit ''main''"
    using sample_added unfolding w_def by auto
  note c = sample_checks [OF w]
  obtain r fs' where i: "sample_install (se_text sample_src_env) = (Inr r, fs')" and q: "fs_get fs' ?q = Some (FFile [7])"
    using sample_installed by blast
  have "sw_fs w' = fs'"
  proof -
    obtain r0 w1 where a: "src_audited sample_src_env [] ''config.plugin_install''
        [(''url'', PStr sample_url), (''ref'', PStr (lit ''main'')), (''id'', PStr (lit ''aa'')), (''update'', PBool False)]
        (install_body sample_src_env (lit ''o'') (lit ''r'') (lit ''main'') sample_entry) w = (r0, w1)" by force
    obtain r1 w2 lg where "install_body sample_src_env (lit ''o'') (lit ''r'') (lit ''main'') sample_entry w = (r1, w2)"
      "w1 = w2\<lparr>sw_log := lg\<rparr>" using src_audited_state [OF a] by blast
    moreover have "se_install sample_src_env = sample_install_env" "se_community sample_src_env = [lit ''p'', lit ''apps'']"
      by (simp_all add: sample_src_env_def)
    ultimately have "sw_fs w1 = fs'" using i w(2) by (auto simp: install_body_def)
    then show ?thesis
      unfolding w'_def using a c by (auto simp: install_from_source_route_def sample_url_ok split: sum.splits)
  qed
  then have ch: "fs_get (sw_fs w') ?q \<noteq> fs_get (sw_fs w) ?q" using q w(2) by simp
  have f: "fresh_dir (ie_staging (se_install sample_src_env)) (sw_fs w)"
    by (auto simp: fresh_dir_def sample_src_env_def sample_install_env_def below_def lit_def take_Cons' w(2))
  have a: "apart (ie_staging (se_install sample_src_env)) (butlast (se_community sample_src_env))" "se_community sample_src_env \<noteq> []"
    by (simp_all add: apart_def below_def sample_src_env_def sample_install_env_def lit_def)
  have "consented sample_url sample_world [(sample_src_env, sample_add)]"
    using installs_are_consented [OF w_def w'_def ch f a] sample_url_ok by auto
  moreover have "src_run [(sample_src_env, sample_add), (sample_src_env, ?i)] sample_world = w'"
    by (simp add: w_def w'_def)
  ultimately show ?thesis using q \<open>sw_fs w' = fs'\<close> by (simp add: sample_world_def)
qed


text \<open>A source whose save is refused is nevertheless in the running configuration.\<close>

lemma refused_add_takes_effect:
  assumes "ps_disk (sw_plug w) = []" "sw_enabled w" "parse_github_url url = Inr (owner, repo)"
    "canonical_url owner repo \<notin> src_url ` set (sw_sources w)"
  shows "\<exists>e w'. add_source env user url ref True w = (Inl e, w') \<and> canonical_url owner repo \<in> src_url ` set (sw_sources w') \<and>
    sw_saved w' = sw_saved w"
proof -
  obtain r w' where a: "add_source env user url ref True w = (r, w')" by force
  then show ?thesis
    using assms
    by (auto simp: add_source_def src_audited_def timed_action_def persist_sources_def yaml_write_def Let_def
        split: option.splits)
qed

end
