(* ===== verification/Plugin_Load.thy ===== *)
theory Plugin_Load
  imports Plugin_Deps
begin

text \<open>
  Loading plugins (\<^verbatim>\<open>loader.py\<close>, \<^verbatim>\<open>registry.py\<close>) and their assets: what can register, and what the page and the
  asset route give out.
\<close>

lemma run_register_regs:
  "run_register m cs regs = (ok, regs') \<Longrightarrow>
     \<exists>new. regs' = regs @ new \<and> (\<forall>(n, c) \<in> set new. n = pm_name m \<and> provides_cap (capability c) (pm_provides m)) \<and>
       (ok \<longrightarrow> new = map (Pair (pm_name m)) cs)"
  by (induction m cs regs arbitrary: ok regs' rule: run_register.induct) (fastforce split: if_splits)+

definition conf_in :: "(ustr \<Rightarrow> pyval) \<Rightarrow> ustr \<Rightarrow> pydict" where
  "conf_in config n = (case config n of PDict d \<Rightarrow> d | _ \<Rightarrow> [])"

definition reg_allowed :: "(ustr \<Rightarrow> pyval) \<Rightarrow> plugin_manifest list \<Rightarrow> ustr \<times> reg_call \<Rightarrow> bool" where
  "reg_allowed config ms r \<longleftrightarrow>
     (\<exists>m \<in> set ms. pm_name m = fst r \<and> is_plugin_enabled m (conf_in config (fst r)) \<and> provides_cap (capability (snd r)) (pm_provides m))"

definition load_ok ::
    "(plugin_manifest \<Rightarrow> reg_call list option) \<Rightarrow> (ustr \<Rightarrow> pyval) \<Rightarrow> plugin_manifest list \<Rightarrow> (ustr \<times> reg_call) list \<Rightarrow>
     plugin_manifest list \<Rightarrow> (ustr \<times> reg_call) list \<Rightarrow> bool" where
  "load_ok backend config ms regs loaded regs' \<longleftrightarrow>
     (\<forall>m \<in> set loaded. m \<in> set ms \<and> is_plugin_enabled m (conf_in config (pm_name m)) \<and>
        (\<exists>cs. backend m = Some cs \<and> Pair (pm_name m) ` set cs \<subseteq> set regs')) \<and>
     (\<forall>r \<in> set regs'. r \<in> set regs \<or> reg_allowed config ms r) \<and> set regs \<subseteq> set regs' \<and>
     (distinct (map pm_name ms) \<longrightarrow> distinct (map pm_name loaded))"

lemma reg_allowed_Cons: "reg_allowed config ms r \<Longrightarrow> reg_allowed config (m # ms) r"
  by (auto simp: reg_allowed_def)

lemma load_ok_skip: "load_ok backend config ms regs loaded regs' \<Longrightarrow> load_ok backend config (m # ms) regs loaded regs'"
  unfolding load_ok_def using reg_allowed_Cons by auto

lemma load_loop_spec: "load_loop backend config ms regs = (loaded, regs') \<Longrightarrow> load_ok backend config ms regs loaded regs'"
proof (induction ms arbitrary: regs loaded regs')
  case Nil
  then show ?case by (simp add: load_ok_def)
next
  case (Cons m ms)
  have conf: "(case config (pm_name m) of PDict d \<Rightarrow> d | _ \<Rightarrow> []) = conf_in config (pm_name m)" by (simp add: conf_in_def)
  show ?case
  proof (cases "is_plugin_enabled m (conf_in config (pm_name m)) \<and> backend m \<noteq> None")
    case False
    then have "load_loop backend config ms regs = (loaded, regs')"
      using Cons.prems unfolding load_loop.simps conf Let_def by (auto split: if_splits)
    from load_ok_skip [OF Cons.IH [OF this]] show ?thesis .
  next
    case True
    then obtain cs where cs: "backend m = Some cs" and en: "is_plugin_enabled m (conf_in config (pm_name m))" by auto
    obtain ok regs1 where rr: "run_register m cs regs = (ok, regs1)" by force
    obtain new where new: "regs1 = regs @ new" "\<forall>(n, c) \<in> set new. n = pm_name m \<and> provides_cap (capability c) (pm_provides m)"
      "ok \<longrightarrow> new = map (Pair (pm_name m)) cs" using run_register_regs [OF rr] by blast
    obtain l2 where l2: "load_loop backend config ms regs1 = (l2, regs')" "loaded = (if ok then m # l2 else l2)"
      using Cons.prems cs en rr unfolding load_loop.simps conf Let_def by (auto split: prod.splits bool.splits if_splits)
    note ih = load_ok_skip [OF Cons.IH [OF l2(1)], of m, unfolded load_ok_def]
    have nw: "reg_allowed config (m # ms) r" if "r \<in> set new" for r
      using that new(2) en by (auto simp: reg_allowed_def)
    have l: "x \<in> set (m # ms) \<and> is_plugin_enabled x (conf_in config (pm_name x)) \<and>
        (\<exists>cs. backend x = Some cs \<and> Pair (pm_name x) ` set cs \<subseteq> set regs')" if "x \<in> set loaded" for x
    proof (cases "x \<in> set l2")
      case True
      then show ?thesis using ih by blast
    next
      case False
      then have "x = m" "ok" using that l2(2) by (auto split: if_splits)
      then show ?thesis using cs en new ih by auto
    qed
    have "r \<in> set regs \<or> reg_allowed config (m # ms) r" if "r \<in> set regs'" for r
    proof -
      have "r \<in> set regs1 \<or> reg_allowed config (m # ms) r" using ih that by blast
      then show ?thesis using nw [of r] unfolding new(1) set_append by blast
    qed
    moreover have "distinct (map pm_name loaded)" if "distinct (map pm_name (m # ms))"
    proof -
      have "set l2 \<subseteq> set ms" "distinct (map pm_name l2)" using Cons.IH [OF l2(1)] that by (auto simp: load_ok_def)
      then show ?thesis using that l2(2) by auto
    qed
    ultimately show ?thesis unfolding load_ok_def using l ih new(1) by auto
  qed
qed


lemma attach_deps_manifests: "attach_deps_status probe ms = Inr lps \<Longrightarrow> map lp_manifest lps = ms"
  by (induction probe ms arbitrary: lps rule: attach_deps_status.induct) (auto simp: and_then_def split: sum.splits)

lemma discover_members:
  assumes "discover_plugins b c = Inr ms" "m \<in> set ms"
  shows "(\<exists>f \<in> set b. parse_manifest f Builtin = Inr m) \<or>
    (\<exists>fs f. c = Some fs \<and> f \<in> set fs \<and> parse_manifest f Community = Inr m \<and> (\<forall>x \<in> set ms. pm_source x = Builtin \<longrightarrow> pm_name x \<noteq> pm_name m))"
proof -
  obtain ms1 seen where 1: "scan_dir (sort_key pf_dir_name b) Builtin {} = Inr (ms1, seen)"
    using assms(1) unfolding discover_plugins_def and_then_def by (auto split: sum.splits)
  note s1 = scan_dir_distinct [OF 1]
  show ?thesis
  proof (cases c)
    case None
    then have "ms = ms1" using assms(1) 1 by (simp add: discover_plugins_def and_then_def)
    then show ?thesis using s1 assms(2) by auto
  next
    case (Some fs)
    then obtain ms2 s where 2: "scan_dir (sort_key pf_dir_name fs) Community seen = Inr (ms2, s)" and ms: "ms = ms1 @ ms2"
      using assms(1) 1 unfolding discover_plugins_def and_then_def by (auto split: sum.splits)
    note s2 = scan_dir_distinct [OF 2]
    show ?thesis
    proof (cases "m \<in> set ms1")
      case True
      then show ?thesis using s1 by auto
    next
      case False
      then have m2: "m \<in> set ms2" using assms(2) ms by simp
      then obtain f where f: "f \<in> set fs" "parse_manifest f Community = Inr m" using s2 by auto
      have "pm_name x \<noteq> pm_name m" if x: "x \<in> set ms" "pm_source x = Builtin" for x
      proof (cases "x \<in> set ms1")
        case True
        then have "pm_name x \<in> seen" using s1 by auto
        then show ?thesis using s2 m2 by (metis disjoint_iff image_eqI)
      next
        case False
        then obtain g where "parse_manifest g Community = Inr x" using x ms s2 by auto
        then show ?thesis using parse_manifest_fields x(2) by fastforce
      qed
      then show ?thesis using f Some by blast
    qed
  qed
qed

text \<open>C21: Whatever the plugin folders hold, loading them registers only capabilities that the
  manifest of an enabled plugin declares: every registration belongs to a discovered plugin, under
  its name, that is enabled and whose manifest provides the capability; a plugin found outside
  the program's own folder is loaded only if the configuration enables it, and never under the
  name of a built-in one; loaded plugins have distinct names and all their registrations in place.\<close>

theorem plugins_register_declared:
  assumes "load_plugins backend probe builtin community config = Inr (lps, regs)"
  shows "\<exists>ms. discover_plugins builtin community = Inr ms \<and> distinct (map (pm_name \<circ> lp_manifest) lps) \<and>
     (\<forall>r \<in> set regs. reg_allowed config ms r) \<and>
     (\<forall>lp \<in> set lps. let m = lp_manifest lp in
        m \<in> set ms \<and> (\<exists>cs. backend m = Some cs \<and> Pair (pm_name m) ` set cs \<subseteq> set regs) \<and>
        (pm_source m = Community \<longrightarrow> truthy (dget ''enabled'' (conf_in config (pm_name m))) \<and>
           (\<forall>x \<in> set ms. pm_source x = Builtin \<longrightarrow> pm_name x \<noteq> pm_name m)))"
proof -
  obtain ms loaded where ms: "discover_plugins builtin community = Inr ms"
    and l: "load_loop backend config ms [] = (loaded, regs)" and at: "attach_deps_status probe loaded = Inr lps"
    using assms by (auto simp: load_plugins_def and_then_def split: sum.splits prod.splits)
  note ok = load_loop_spec [OF l, unfolded load_ok_def]
  have lm: "map lp_manifest lps = loaded" by (rule attach_deps_manifests [OF at])
  have "distinct (map pm_name loaded)" using ok discover_distinct [OF ms] by blast
  then have d: "distinct (map (pm_name \<circ> lp_manifest) lps)" using lm by (metis map_map)
  have m: "m \<in> set ms \<and> (\<exists>cs. backend m = Some cs \<and> Pair (pm_name m) ` set cs \<subseteq> set regs) \<and>
      (pm_source m = Community \<longrightarrow> truthy (dget ''enabled'' (conf_in config (pm_name m))) \<and>
         (\<forall>x \<in> set ms. pm_source x = Builtin \<longrightarrow> pm_name x \<noteq> pm_name m))" if "m \<in> set loaded" for m
  proof -
    have 1: "m \<in> set ms" "is_plugin_enabled m (conf_in config (pm_name m))"
      "\<exists>cs. backend m = Some cs \<and> Pair (pm_name m) ` set cs \<subseteq> set regs" using ok that by blast+
    have 2: "truthy (dget ''enabled'' (conf_in config (pm_name m)))" if "pm_source m = Community"
      using 1(2) that by (simp add: is_plugin_enabled_def Let_def)
    have 3: "\<forall>x \<in> set ms. pm_source x = Builtin \<longrightarrow> pm_name x \<noteq> pm_name m" if c: "pm_source m = Community"
    proof -
      have "\<not> (\<exists>f \<in> set builtin. parse_manifest f Builtin = Inr m)" using parse_manifest_fields c by fastforce
      then show ?thesis using discover_members [OF ms 1(1)] by blast
    qed
    show ?thesis using 1 2 3 by blast
  qed
  have "lp_manifest lp \<in> set loaded" if "lp \<in> set lps" for lp using that lm by auto
  then show ?thesis unfolding Let_def using ms d ok m by (intro exI [of _ ms]) (simp add: load_ok_def)
qed

theorem plugins_register_declared_witness:
  "\<exists>ms. discover_plugins sample_folders None = Inr ms \<and>
     reg_allowed (\<lambda>_. PNone) ms ([97, 97], AddService [1])"
proof -
  let ?b = "\<lambda>m. if pm_name m = [97, 97] then Some [AddService [1]] else Some [AddRouter True]"
  have "load_plugins ?b (\<lambda>_. ProbeTimeout) sample_folders None (\<lambda>_. PNone) =
      Inr ([\<lparr>lp_manifest = sample_plugin [97, 97] PNone None, lp_deps_ok = None, lp_deps_detail = []\<rparr>], [([97, 97], AddService [1])])"
    unfolding load_plugins_def sample_discover
    by (simp add: and_then_def sample_plugin_def is_plugin_enabled_def provides_cap_def run_deps_check_def lit_def)
  from plugins_register_declared [OF this] show ?thesis by fastforce
qed

text \<open>The asset route gives out only files that a loaded plugin declares, from inside its folder.\<close>

lemma asset_declared_inside:
  "resolve_plugin_asset ms i p = Some full \<Longrightarrow>
     \<exists>m \<in> set ms. pm_name m = i \<and> p \<in> set (pm_scripts m @ pm_styles m) \<and> pf_is_file (pm_folder m) p \<and>
       full = pf_resolve (pm_folder m) p \<and> strict_prefix_of (pf_root (pm_folder m)) full"
  by (auto simp: resolve_plugin_asset_def Let_def dest: find_SomeE split: option.splits if_splits)

text \<open>A plugin that only provides an entry of the top bar must have a script, but the page does not
  load it.\<close>

lemma topbar_only_not_loaded: "pm_provides m = [pstr ''topbar''] \<Longrightarrow> plugin_tags m = []"
  by (simp add: plugin_tags_def provides_cap_def lit_def)

text \<open>A refused save still changes the running configuration.\<close>

lemma refused_save_takes_effect:
  "ps_disk s = [] \<Longrightarrow> fst (save_enabled (pm_name m) False s) = Some 403 \<and> \<not> plugin_on (snd (save_enabled (pm_name m) False s)) m"
  by (simp add: plugin_on_disable) (simp add: save_enabled_def yaml_write_def)

end
