(* ===== verification/Meshcore_Tx.thy ===== *)
theory Meshcore_Tx
  imports Event_Adapters
begin

text \<open>
  \<^verbatim>\<open>src/src/transmit/meshcore_tx_client.py\<close>: the commands to a MeshCore companion, the client that shares the connection of a
  capture source, the contact list, polling a repeater, and the channel table of the device.

  \<^item> The library that talks to the companion is a parameter: each operation is given the replies to its commands, and gives the
    commands it issues (\<open>mc_action\<close>) with the callback that runs afterwards. The library is installed, and a command that returns
    returns an event.
  \<^item> Floating-point numbers are rationals; texts of exceptions are given; error texts that quote the offending value are
    shortened.
  \<^item> The channel table of the device is a map from slots to name and secret; a slot that does not answer is absent.
\<close>

section \<open>Commands\<close>

datatype mc_reply = ReplyTimeout | ReplyRaises ustr | ReplyEvent bool ustr pyval

text \<open>\<open>ReplyEvent err kind payload\<close> is an event; \<open>err\<close> tells whether its type is \<^verbatim>\<open>ERROR\<close>.\<close>

record mc_result =
  mr_success :: bool
  mr_event_type :: ustr
  mr_error :: ustr
  mr_timed_out :: bool

definition mc_fail :: "ustr \<Rightarrow> mc_result" where
  "mc_fail e = \<lparr>mr_success = False, mr_event_type = [], mr_error = e, mr_timed_out = False\<rparr>"

definition mc_timeout :: "ustr \<Rightarrow> mc_result" where
  "mc_timeout e = \<lparr>mr_success = False, mr_event_type = [], mr_error = e, mr_timed_out = True\<rparr>"

definition mc_ok :: "ustr \<Rightarrow> mc_result" where
  "mc_ok t = \<lparr>mr_success = True, mr_event_type = t, mr_error = [], mr_timed_out = False\<rparr>"

datatype mc_action =
    SetRadio rat rat int int | Reboot | SetName ustr | SendAdvert bool | SendChanMsg int ustr | SendMsg ustr ustr
  | GetChannel nat | SetChannel nat ustr bytes | Login | ReqStatus | ReqTelemetry | FetchNeighbours | ResetPath
  | GetContacts | AddContact pydict | DeviceQuery | StopAutoFetch | PostCommand

text \<open>A handle may be absent (\<open>None\<close>); \<open>Some reply\<close> is the answer to the one command.\<close>

definition plain_send :: "string \<Rightarrow> mc_reply option \<Rightarrow> mc_result" where
  "plain_send timeout_text mc =
     (case mc of
        None \<Rightarrow> mc_fail (lit ''Not connected'')
      | Some ReplyTimeout \<Rightarrow> mc_timeout (lit timeout_text)
      | Some (ReplyRaises e) \<Rightarrow> mc_fail e
      | Some (ReplyEvent err kind payload) \<Rightarrow> mc_ok kind)"

definition send_companion_advert :: "bool \<Rightarrow> mc_reply option \<Rightarrow> mc_result \<times> mc_action list" where
  "send_companion_advert flood mc = (plain_send ''Advert timed out'' mc, if mc = None then [] else [SendAdvert flood])"

definition send_mc_channel_message :: "int \<Rightarrow> ustr \<Rightarrow> mc_reply option \<Rightarrow> mc_result \<times> mc_action list" where
  "send_mc_channel_message channel msg mc = (plain_send ''Send timed out'' mc, if mc = None then [] else [SendChanMsg channel msg])"

definition send_mc_direct_message :: "ustr \<Rightarrow> ustr \<Rightarrow> mc_reply option \<Rightarrow> mc_result \<times> mc_action list" where
  "send_mc_direct_message destination msg mc = (plain_send ''Send timed out'' mc, if mc = None then [] else [SendMsg destination msg])"

text \<open>The detail of an error event: \<^verbatim>\<open>reason\<close>, else \<^verbatim>\<open>error\<close>, else the payload itself.\<close>

definition error_detail :: "text_lib \<Rightarrow> pyval \<Rightarrow> ustr" where
  "error_detail T payload =
     (case payload of
        PNone \<Rightarrow> []
      | PDict d \<Rightarrow> str_of T (if truthy (dget ''reason'' d) then dget ''reason'' d
                             else if truthy (dget ''error'' d) then dget ''error'' d else payload)
      | _ \<Rightarrow> str_of T payload)"

definition MAX_COMPANION_NAME_BYTES :: nat where
  "MAX_COMPANION_NAME_BYTES = 32"

text \<open>The cached \<^verbatim>\<open>self_info\<close> is a dictionary or something else (\<open>None\<close>). A name that cannot be encoded raises an
  exception, which is the result \<open>None\<close>.\<close>

definition send_set_companion_name ::
    "text_lib \<Rightarrow> ustr \<Rightarrow> mc_reply option \<Rightarrow> pydict option \<Rightarrow> mc_result option \<times> mc_action list \<times> pydict option" where
  "send_set_companion_name T name mc self_info =
     (let cleaned = ustrip uni_space name in
      if mc = None then (Some (mc_fail (lit ''Not connected'')), [], self_info)
      else if cleaned = [] then (Some (mc_fail (lit ''Name must not be empty'')), [], self_info)
      else case utf8_encode cleaned of
        None \<Rightarrow> (None, [], self_info)
      | Some enc \<Rightarrow>
          if length enc > MAX_COMPANION_NAME_BYTES then (Some (mc_fail (lit ''Name is too long'')), [], self_info)
          else (case the mc of
             ReplyTimeout \<Rightarrow> (Some (mc_timeout (lit ''set_name timed out'')), [SetName cleaned], self_info)
           | ReplyRaises e \<Rightarrow> (Some (mc_fail e), [SetName cleaned], self_info)
           | ReplyEvent err kind payload \<Rightarrow>
               if err then
                 (Some (mc_fail (if error_detail T payload = [] then lit ''Companion rejected name''
                            else lit ''Companion rejected name: '' @ error_detail T payload)), [SetName cleaned], self_info)
               else (Some (mc_ok []), [SetName cleaned], map_option (AList.update ''name'' (PStr cleaned)) self_info)))"

text \<open>\<open>reboot\<close> is ignored whatever it answers; \<open>stoppable\<close> tells whether the library can pause its own polling.\<close>

definition send_set_radio_params ::
    "text_lib \<Rightarrow> bool \<Rightarrow> rat \<Rightarrow> rat \<Rightarrow> int \<Rightarrow> int \<Rightarrow> mc_reply option \<Rightarrow> mc_result \<times> mc_action list" where
  "send_set_radio_params T stoppable freq bw sf cr mc =
     (if mc = None then (mc_fail (lit ''Not connected''), [])
      else if \<not> (150 \<le> freq \<and> freq \<le> 2500) then (mc_fail (lit ''Frequency out of range''), [])
      else if \<not> (7 \<le> bw \<and> bw \<le> 500) then (mc_fail (lit ''Bandwidth out of range''), [])
      else if \<not> (5 \<le> sf \<and> sf \<le> 12) then (mc_fail (lit ''Spreading factor out of range''), [])
      else if \<not> (5 \<le> cr \<and> cr \<le> 8) then (mc_fail (lit ''Coding rate out of range''), [])
      else
        let acts = (if stoppable then [StopAutoFetch] else []) @ [SetRadio freq bw sf cr] in
        case the mc of
          ReplyTimeout \<Rightarrow> (mc_timeout (lit ''set_radio timed out''), acts)
        | ReplyRaises e \<Rightarrow> (mc_fail e, acts)
        | ReplyEvent err kind payload \<Rightarrow>
            if err then
              (let detail = error_detail T payload in
               (if detail \<in> {lit ''no_event_received'', lit ''timeout''}
                then mc_timeout (lit ''set_radio timed out ('' @ detail @ lit '')'')
                else mc_fail (if detail = [] then lit ''Companion rejected radio params''
                              else lit ''Companion rejected radio params: '' @ detail), acts))
            else (mc_ok [], acts @ [Reboot]))"



section \<open>The client\<close>

text \<open>The attached capture source as the client sees it: whether it is connected and has a handle.\<close>

record mc_device_info =
  di_firmware_version :: ustr
  di_model :: ustr
  di_build_date :: ustr
  di_protocol_version :: int

record mc_client =
  mcl_source :: "(bool \<times> bool) option"
  mcl_owned :: bool
  mcl_owned_connected :: bool
  mcl_callback :: bool
  mcl_device_info :: "mc_device_info option"

definition mc_handle :: "mc_client \<Rightarrow> bool" where
  "mc_handle c = (case mcl_source c of Some (conn, h) \<Rightarrow> h | None \<Rightarrow> mcl_owned c)"

definition mc_connected :: "mc_client \<Rightarrow> bool" where
  "mc_connected c = (case mcl_source c of Some (conn, h) \<Rightarrow> conn \<and> h | None \<Rightarrow> mcl_owned_connected c \<and> mcl_owned c)"

definition mc_set_source :: "bool \<times> bool \<Rightarrow> mc_client \<Rightarrow> mc_client" where
  "mc_set_source src c = c\<lparr>mcl_source := Some src\<rparr>"

definition mc_set_connection :: "bool \<Rightarrow> mc_client \<Rightarrow> mc_client" where
  "mc_set_connection mc c = c\<lparr>mcl_source := None, mcl_owned := mc, mcl_owned_connected := mc\<rparr>"

text \<open>\<open>outcome\<close> of opening a connection of its own: an exception, no handle, or a handle.\<close>

definition create_connection :: "bool option \<Rightarrow> mc_client \<Rightarrow> bool \<times> mc_client" where
  "create_connection outcome c =
     (if mc_connected c then (True, c)
      else case outcome of
        None \<Rightarrow> (False, c\<lparr>mcl_owned_connected := False\<rparr>)
      | Some False \<Rightarrow> (False, c\<lparr>mcl_owned := False, mcl_owned_connected := False\<rparr>)
      | Some True \<Rightarrow> (True, c\<lparr>mcl_owned := True, mcl_source := None, mcl_owned_connected := True\<rparr>))"

definition post_command :: "mc_client \<Rightarrow> mc_action list" where
  "post_command c = (if mcl_callback c then [PostCommand] else [])"

definition through_client :: "mc_client \<Rightarrow> mc_result \<times> mc_action list \<Rightarrow> mc_result \<times> mc_action list" where
  "through_client c ra =
     (if \<not> mc_connected c then (mc_fail (lit ''Not connected''), []) else (fst ra, snd ra @ post_command c))"

definition send_channel_message :: "mc_client \<Rightarrow> int \<Rightarrow> ustr \<Rightarrow> mc_reply \<Rightarrow> mc_result \<times> mc_action list" where
  "send_channel_message c channel msg reply = through_client c (send_mc_channel_message channel msg (Some reply))"

definition send_direct_message :: "mc_client \<Rightarrow> ustr \<Rightarrow> ustr \<Rightarrow> mc_reply \<Rightarrow> mc_result \<times> mc_action list" where
  "send_direct_message c destination msg reply = through_client c (send_mc_direct_message destination msg (Some reply))"

definition send_advert :: "mc_client \<Rightarrow> bool \<Rightarrow> mc_reply \<Rightarrow> mc_result \<times> mc_action list" where
  "send_advert c flood reply = through_client c (send_companion_advert flood (Some reply))"

definition set_companion_name ::
    "text_lib \<Rightarrow> mc_client \<Rightarrow> ustr \<Rightarrow> mc_reply \<Rightarrow> pydict option \<Rightarrow> mc_result option \<times> mc_action list \<times> pydict option" where
  "set_companion_name T c name reply self_info =
     (if \<not> mc_connected c then (Some (mc_fail (lit ''Not connected'')), [], self_info)
      else case send_set_companion_name T name (Some reply) self_info of
        (None, acts, info) \<Rightarrow> (None, acts, info)
      | (Some r, acts, info) \<Rightarrow> (Some r, acts @ post_command c, info))"

text \<open>\<^verbatim>\<open>read_radio_status\<close> of the cached \<^verbatim>\<open>self_info\<close>: a value that does not convert makes it answer \<^verbatim>\<open>None\<close>. An infinite
  number, which the firmware cannot send, is taken as one that does not convert.\<close>

record mc_radio_status =
  rs_frequency_mhz :: rat
  rs_bandwidth_khz :: rat
  rs_spreading_factor :: int
  rs_coding_rate :: int
  rs_tx_power :: int
  rs_name :: pyval
  rs_public_key :: pyval

definition read_radio_status :: "text_lib \<Rightarrow> pydict \<Rightarrow> mc_radio_status option" where
  "read_radio_status T info =
     (if info = [] then None
      else case (float_of T (dget_or ''radio_freq'' (PFloat 0) info), float_of T (dget_or ''radio_bw'' (PFloat 0) info),
                 int_of T (dget_or ''radio_sf'' (PInt 0) info), int_of T (dget_or ''radio_cr'' (PInt 0) info),
                 int_of T (dget_or ''tx_power'' (PInt 0) info)) of
        (Some f, Some b, Inr sf, Inr cr, Inr p) \<Rightarrow>
          Some \<lparr>rs_frequency_mhz = f, rs_bandwidth_khz = b, rs_spreading_factor = sf, rs_coding_rate = cr, rs_tx_power = p,
                rs_name = dget_or ''name'' (PStr []) info, rs_public_key = dget_or ''public_key'' (PStr []) info\<rparr>
      | _ \<Rightarrow> None)"

definition get_radio_info :: "text_lib \<Rightarrow> mc_client \<Rightarrow> pydict \<Rightarrow> mc_radio_status option" where
  "get_radio_info T c self_info = (if mc_connected c then read_radio_status T self_info else None)"

text \<open>\<^verbatim>\<open>read_device_info\<close>: the payload is used as a dictionary and the version compared with 3 outside the guarded part, so
  another kind of value raises (the outer \<open>None\<close>).\<close>

definition device_info_of :: "text_lib \<Rightarrow> int \<Rightarrow> pydict \<Rightarrow> mc_device_info" where
  "device_info_of T v p =
     (if 3 \<le> v \<and> truthy (dget ''ver'' p)
      then \<lparr>di_firmware_version = str_of T (dget ''ver'' p), di_model = str_of T (dget_or ''model'' (PStr []) p),
            di_build_date = str_of T (dget_or ''fw_build'' (PStr []) p), di_protocol_version = v\<rparr>
      else \<lparr>di_firmware_version = [], di_model = [], di_build_date = [], di_protocol_version = v\<rparr>)"

definition read_device_info :: "text_lib \<Rightarrow> mc_reply \<Rightarrow> mc_device_info option option" where
  "read_device_info T reply =
     (case reply of
        ReplyEvent False kind payload \<Rightarrow>
          if \<not> truthy payload then Some None
          else (case payload of
                  PDict p \<Rightarrow>
                    (case dget ''fw ver'' p of
                       PNone \<Rightarrow> Some None
                     | PInt v \<Rightarrow> Some (Some (device_info_of T v p))
                     | PBool b \<Rightarrow> Some (Some (device_info_of T (if b then 1 else 0) p))
                     | PFloat r \<Rightarrow> Some (Some (device_info_of T (py_trunc r) p))
                     | _ \<Rightarrow> None)
                | _ \<Rightarrow> None)
      | _ \<Rightarrow> Some None)"

definition get_device_info ::
    "text_lib \<Rightarrow> mc_client \<Rightarrow> mc_reply \<Rightarrow> mc_device_info option option \<times> mc_action list \<times> mc_client" where
  "get_device_info T c reply =
     (case mcl_device_info c of
        Some info \<Rightarrow> (Some (Some info), [], c)
      | None \<Rightarrow>
          if \<not> mc_connected c then (Some None, [], c)
          else case read_device_info T reply of
            Some (Some info) \<Rightarrow> (Some (Some info), [DeviceQuery], c\<lparr>mcl_device_info := Some info\<rparr>)
          | r \<Rightarrow> (r, [DeviceQuery], c))"


section \<open>Contacts\<close>

text \<open>A contact record that the library hands over is a dictionary; the entries keep their position in the payload.\<close>

definition only_dicts :: "pyval list \<Rightarrow> pydict list" where
  "only_dicts vs = List.map_filter (\<lambda>v. case v of PDict d \<Rightarrow> Some d | _ \<Rightarrow> None) vs"

fun normalize_contact_payload :: "pyval \<Rightarrow> pydict list" where
  "normalize_contact_payload (PDict d) = only_dicts (map snd d)"
| "normalize_contact_payload (PList vs) = only_dicts vs"
| "normalize_contact_payload _ = []"

record mc_contact =
  ct_index :: nat
  ct_name :: pyval
  ct_public_key :: pyval
  ct_last_seen :: pyval

definition contact_of :: "nat \<times> pydict \<Rightarrow> mc_contact option" where
  "contact_of ie =
     (let (i, e) = ie; name = first_truthy [''adv_name'', ''name''] e; pk = dget_or ''public_key'' (PStr []) e in
      if truthy name \<and> truthy pk
      then Some \<lparr>ct_index = i, ct_name = name, ct_public_key = pk, ct_last_seen = dget_or ''lastmod'' (PInt 0) e\<rparr>
      else None)"

definition get_contacts :: "mc_client \<Rightarrow> mc_reply \<Rightarrow> mc_contact list" where
  "get_contacts c reply =
     (if \<not> mc_connected c then []
      else case reply of
        ReplyEvent err kind payload \<Rightarrow> List.map_filter contact_of (enumerate 0 (normalize_contact_payload payload))
      | _ \<Rightarrow> [])"

text \<open>The answer to adding a contact: an exception (\<open>None\<close>), or an event, which is the type \<^verbatim>\<open>OK\<close> or not. The callback runs
  either way.\<close>

definition add_contact :: "mc_client \<Rightarrow> pydict \<Rightarrow> bool option \<Rightarrow> bool \<times> mc_action list" where
  "add_contact c contact answer =
     (if \<not> mc_connected c then (False, []) else (answer = Some True, AddContact contact # post_command c))"


section \<open>Polling a repeater\<close>

fun json_safe :: "pyval \<Rightarrow> pyval" where
  "json_safe (PDict d) = PDict (map (\<lambda>(k, v). (k, json_safe v)) d)"
| "json_safe (PList vs) = PList (map json_safe vs)"
| "json_safe (PBytes b) = pstr (bytes_hex hexdig b)"
| "json_safe v = v"

datatype poll_reply = PollTimeout | PollRaises ustr | PollValue pyval

record poll_replies =
  pp_login :: poll_reply
  pp_status :: poll_reply
  pp_telemetry :: poll_reply
  pp_neighbours :: poll_reply

record poll_out =
  po_ok :: bool
  po_status :: pyval
  po_telemetry :: pyval
  po_neighbours :: pyval
  po_contact :: "pydict option"
  po_error :: ustr

definition poll_failed :: "pydict option \<Rightarrow> ustr \<Rightarrow> poll_out" where
  "poll_failed contact e = \<lparr>po_ok = False, po_status = PNone, po_telemetry = PNone, po_neighbours = PNone,
     po_contact = contact, po_error = e\<rparr>"

definition poll_telemetry :: "poll_reply \<Rightarrow> pyval" where
  "poll_telemetry r =
     (case r of
        PollValue (PList vs) \<Rightarrow> PDict [(''lpp'', json_safe (PList vs))]
      | PollValue v \<Rightarrow> json_safe v
      | _ \<Rightarrow> PNone)"

definition poll_neighbours :: "poll_reply \<Rightarrow> pyval" where
  "poll_neighbours r = (case r of PollValue v \<Rightarrow> json_safe v | _ \<Rightarrow> PNone)"

text \<open>The status request and what follows it, and the whole body of the guarded part with the commands it issues.\<close>

definition poll_after_login :: "pydict \<Rightarrow> poll_replies \<Rightarrow> poll_out \<times> mc_action list" where
  "poll_after_login contact r =
     (case pp_status r of
        PollTimeout \<Rightarrow> (poll_failed (Some contact) (lit ''timed out''), [ReqStatus])
      | PollRaises e \<Rightarrow> (poll_failed (Some contact) e, [ReqStatus])
      | PollValue v \<Rightarrow>
          (\<lparr>po_ok = (v \<noteq> PNone), po_status = json_safe v, po_telemetry = poll_telemetry (pp_telemetry r),
            po_neighbours = poll_neighbours (pp_neighbours r), po_contact = Some contact,
            po_error = (if v = PNone then lit ''no status response'' else [])\<rparr>,
           [ReqStatus, ReqTelemetry, FetchNeighbours]))"

definition poll_body :: "bool \<Rightarrow> pydict \<Rightarrow> poll_replies \<Rightarrow> poll_out \<times> mc_action list" where
  "poll_body password contact r =
     (if \<not> password then poll_after_login contact r
      else case pp_login r of
        PollTimeout \<Rightarrow> (poll_failed (Some contact) (lit ''timed out''), [Login])
      | PollRaises e \<Rightarrow> (poll_failed (Some contact) e, [Login])
      | PollValue v \<Rightarrow>
          if v = PNone then (poll_failed (Some contact) (lit ''login failed or timed out''), [Login])
          else (case poll_after_login contact r of (out, acts) \<Rightarrow> (out, Login # acts)))"

text \<open>\<open>found\<close> is what the library's lookup by key prefix gives, \<^verbatim>\<open>None\<close> also when it raises.\<close>

definition NOT_IN_ROSTER :: ustr where
  "NOT_IN_ROSTER = lit ''contact not in companion roster''"

definition poll_repeater :: "mc_client \<Rightarrow> bool \<Rightarrow> pydict option \<Rightarrow> poll_replies \<Rightarrow> poll_out \<times> mc_action list" where
  "poll_repeater c password found r =
     (if \<not> mc_connected c then (poll_failed None (lit ''companion not connected''), [])
      else case found of
        None \<Rightarrow> (poll_failed None NOT_IN_ROSTER, [])
      | Some contact \<Rightarrow>
          (case poll_body password contact r of
             (out, acts) \<Rightarrow>
               (out, acts @ (if password \<and> po_error out \<noteq> [] then [ResetPath] else []) @ post_command c)))"


section \<open>The channel table of the companion\<close>

definition MESHCORE_MAX_DEVICE_SLOTS :: nat where
  "MESHCORE_MAX_DEVICE_SLOTS = 41"

definition MESHCORE_MAX_USER_CHANNELS :: nat where
  "MESHCORE_MAX_USER_CHANNELS = MESHCORE_MAX_DEVICE_SLOTS - 1"

type_synonym slots = "nat \<rightharpoonup> ustr \<times> bytes"

text \<open>Reading stops at the first slot that gives no answer or an error.\<close>

fun read_slots :: "slots \<Rightarrow> nat list \<Rightarrow> (nat \<times> ustr \<times> bytes) list" where
  "read_slots device [] = []"
| "read_slots device (i # is) = (case device i of None \<Rightarrow> [] | Some c \<Rightarrow> (i, c) # read_slots device is)"

fun write_cmds :: "(nat \<times> ustr \<times> bytes) list \<Rightarrow> nat \<Rightarrow> (ustr \<times> ustr) list \<Rightarrow> (nat \<times> ustr \<times> bytes) list" where
  "write_cmds known slot [] = []"
| "write_cmds known slot ((name, key_hex) # desired) =
     (case fromhex key_hex of
        None \<Rightarrow> write_cmds known (Suc slot) desired
      | Some secret \<Rightarrow>
          if length secret \<noteq> 16 then write_cmds known (Suc slot) desired
          else if (case map_of known slot of None \<Rightarrow> ([], []) | Some c \<Rightarrow> c) = (name, secret) then write_cmds known (Suc slot) desired
          else (slot, name, secret) # write_cmds known (Suc slot) desired)"

fun clear_cmds :: "(nat \<times> ustr \<times> bytes) list \<Rightarrow> nat list \<Rightarrow> (nat \<times> ustr \<times> bytes) list" where
  "clear_cmds known [] = []"
| "clear_cmds known (i # is) =
     (case map_of known i of
        None \<Rightarrow> []
      | Some (name, secret) \<Rightarrow> if name = [] then clear_cmds known is else (i, [], replicate 16 0) # clear_cmds known is)"

text \<open>\<open>accepts\<close> are the slots whose write succeeds; a failed write is logged and the rest goes on. An accepted write is
  stored as it was sent: name and secret of the slot are those of the command.\<close>

fun apply_cmds :: "(nat \<Rightarrow> bool) \<Rightarrow> (nat \<times> ustr \<times> bytes) list \<Rightarrow> slots \<Rightarrow> slots" where
  "apply_cmds accepts [] device = device"
| "apply_cmds accepts ((i, c) # cmds) device = apply_cmds accepts cmds (if accepts i then device(i \<mapsto> c) else device)"

definition sync_cmds :: "slots \<Rightarrow> (ustr \<times> ustr) list \<Rightarrow> (nat \<times> ustr \<times> bytes) list" where
  "sync_cmds device channel_keys =
     (let known = read_slots device [0..<MESHCORE_MAX_DEVICE_SLOTS];
          desired = take MESHCORE_MAX_USER_CHANNELS channel_keys in
      write_cmds known 1 desired @ clear_cmds known [1 + length desired..<MESHCORE_MAX_DEVICE_SLOTS])"

definition sync_channels ::
    "mc_client \<Rightarrow> (nat \<Rightarrow> bool) \<Rightarrow> (ustr \<times> ustr) list \<Rightarrow> slots \<Rightarrow> mc_action list \<times> slots" where
  "sync_channels c accepts channel_keys device =
     (if \<not> mc_connected c then ([], device)
      else
        let known = read_slots device [0..<MESHCORE_MAX_DEVICE_SLOTS]; cmds = sync_cmds device channel_keys in
        (map GetChannel [0..<min (Suc (length known)) MESHCORE_MAX_DEVICE_SLOTS] @ map (\<lambda>(i, n, k). SetChannel i n k) cmds @ post_command c,
         apply_cmds accepts cmds device))"



section \<open>Properties\<close>

text \<open>Only parameters the firmware takes are sent, and the companion is restarted exactly when it accepted them.\<close>

lemma set_radio_in_range:
  assumes "SetRadio f b s r \<in> set (snd (send_set_radio_params T stoppable freq bw sf cr mc))"
  shows "150 \<le> f \<and> f \<le> 2500 \<and> 7 \<le> b \<and> b \<le> 500 \<and> 5 \<le> s \<and> s \<le> 12 \<and> 5 \<le> r \<and> r \<le> 8"
  using assms by (auto simp: send_set_radio_params_def Let_def split: if_splits option.splits mc_reply.splits)

lemma reboot_iff_accepted:
  "Reboot \<in> set (snd (send_set_radio_params T stoppable freq bw sf cr mc)) \<longleftrightarrow>
   mr_success (fst (send_set_radio_params T stoppable freq bw sf cr mc))"
  by (auto simp: send_set_radio_params_def mc_fail_def mc_timeout_def mc_ok_def Let_def split: option.splits mc_reply.splits)

lemma set_name_bounded:
  assumes "SetName n \<in> set (fst (snd (send_set_companion_name T name mc info)))"
  shows "n \<noteq> [] \<and> (\<exists>enc. utf8_encode n = Some enc \<and> length enc \<le> MAX_COMPANION_NAME_BYTES)"
  using assms by (auto simp: send_set_companion_name_def Let_def split: if_splits option.splits mc_reply.splits)

text \<open>An error event of the companion counts as a message that was sent.\<close>

lemma error_event_reported_sent: "mr_success (plain_send s (Some (ReplyEvent True kind payload)))"
  by (simp add: plain_send_def mc_ok_def)

text \<open>A poll succeeds exactly when it read a status, and then it logged in first if there is a password; the path is forgotten only
  after a failure, as the last command before the callback.\<close>

lemma poll_ok_status:
  "po_ok (fst (poll_repeater c pw found r)) \<Longrightarrow> po_status (fst (poll_repeater c pw found r)) \<noteq> PNone"
proof -
  have "json_safe v \<noteq> PNone" if "v \<noteq> PNone" for v using that by (cases v) auto
  then show "po_ok (fst (poll_repeater c pw found r)) \<Longrightarrow> po_status (fst (poll_repeater c pw found r)) \<noteq> PNone"
    by (auto simp: poll_repeater_def poll_body_def poll_after_login_def poll_failed_def split: if_splits option.splits poll_reply.splits)
qed

lemma poll_ok_no_error: "po_ok (fst (poll_repeater c pw found r)) \<Longrightarrow> po_error (fst (poll_repeater c pw found r)) = []"
  by (auto simp: poll_repeater_def poll_body_def poll_after_login_def poll_failed_def split: if_splits option.splits poll_reply.splits)

lemma reset_path_iff:
  "ResetPath \<in> set (snd (poll_repeater c pw found r)) \<longleftrightarrow>
   mc_connected c \<and> found \<noteq> None \<and> pw \<and> po_error (fst (poll_repeater c pw found r)) \<noteq> []"
  by (auto simp: poll_repeater_def poll_body_def poll_after_login_def poll_failed_def post_command_def split: option.splits poll_reply.splits)

lemma poll_contact: "mc_connected c \<Longrightarrow> po_contact (fst (poll_repeater c pw found r)) = found"
  by (auto simp: poll_repeater_def poll_body_def poll_after_login_def poll_failed_def split: option.splits poll_reply.splits)

text \<open>What a synchronisation leaves in a slot, said directly: the configured channel in its slot if its key is one of 16 bytes, an
  empty channel after them in every slot that is read and in use, and everything else as it was.\<close>

definition slot_readable :: "slots \<Rightarrow> nat \<Rightarrow> bool" where
  "slot_readable device i \<longleftrightarrow> list_all (\<lambda>j. device j \<noteq> None) [0..<Suc i]"

definition usable_secret :: "ustr \<Rightarrow> bytes option" where
  "usable_secret key_hex = (case fromhex key_hex of None \<Rightarrow> None | Some s \<Rightarrow> if length s = 16 then Some s else None)"

definition synced_slot :: "slots \<Rightarrow> (ustr \<times> ustr) list \<Rightarrow> nat \<Rightarrow> (ustr \<times> bytes) option" where
  "synced_slot device channel_keys i =
     (if i = 0 \<or> MESHCORE_MAX_DEVICE_SLOTS \<le> i then device i
      else if i \<le> length channel_keys then
        (case usable_secret (snd (channel_keys ! (i - 1))) of
           None \<Rightarrow> device i | Some secret \<Rightarrow> Some (fst (channel_keys ! (i - 1)), secret))
      else if slot_readable device i \<and> fst (the (device i)) \<noteq> [] then Some ([], replicate 16 0)
      else device i)"

lemma map_of_read_slots:
  "map_of (read_slots d [a..<b]) i = (if a \<le> i \<and> i < b \<and> (\<forall>j. a \<le> j \<longrightarrow> j \<le> i \<longrightarrow> d j \<noteq> None) then d i else None)"
proof (induction "b - a" arbitrary: a)
  case 0
  then show ?case by auto
next
  case (Suc n)
  then have ab: "a < b" and IH: "map_of (read_slots d [Suc a..<b]) i =
      (if Suc a \<le> i \<and> i < b \<and> (\<forall>j. Suc a \<le> j \<longrightarrow> j \<le> i \<longrightarrow> d j \<noteq> None) then d i else None)" by auto
  show ?case
  proof (cases "d a")
    case None
    then show ?thesis using ab by (auto simp: upt_conv_Cons)
  next
    case (Some c)
    have "(\<forall>j. a \<le> j \<longrightarrow> j \<le> i \<longrightarrow> d j \<noteq> None) \<longleftrightarrow> (\<forall>j. Suc a \<le> j \<longrightarrow> j \<le> i \<longrightarrow> d j \<noteq> None)"
      using Some by (metis Suc_leI le_neq_implies_less option.distinct(1) Suc_leD)
    then show ?thesis using ab Some IH by (auto simp: upt_conv_Cons)
  qed
qed

lemma slot_readable_iff: "slot_readable d i \<longleftrightarrow> (\<forall>j\<le>i. d j \<noteq> None)"
  by (simp add: slot_readable_def list_all_iff less_Suc_eq_le del: upt_Suc) auto

lemma known_slots:
  "map_of (read_slots d [0..<n]) i = (if i < n \<and> slot_readable d i then d i else None)"
  by (simp add: map_of_read_slots slot_readable_iff)

lemma slot_readableD: "slot_readable d i \<Longrightarrow> \<exists>c. d i = Some c"
  by (auto simp: slot_readable_iff)

lemma slot_readable_mono: "slot_readable d i \<Longrightarrow> j \<le> i \<Longrightarrow> slot_readable d j"
  by (simp add: slot_readable_iff)

text \<open>The commands: their slots ascend, so each slot is written at most once.\<close>

lemma write_cmds_slots: "i \<in> fst ` set (write_cmds known s ds) \<Longrightarrow> s \<le> i \<and> i < s + length ds"
  by (induction known s ds rule: write_cmds.induct) (force split: option.splits if_splits)+

lemma distinct_write_cmds: "distinct (map fst (write_cmds known s ds))"
proof (induction known s ds rule: write_cmds.induct)
  case (2 known s name key_hex ds)
  have "s \<notin> fst ` set (write_cmds known (Suc s) ds)" using write_cmds_slots [of s known "Suc s" ds] by auto
  then show ?case using 2 by (auto split: option.splits)
qed simp

lemma clear_cmds_slots: "fst ` set (clear_cmds known is) \<subseteq> set is"
proof (induction "is")
  case (Cons i "is")
  then show ?case by (auto split: option.splits)
qed simp

lemma distinct_clear_cmds: "distinct is \<Longrightarrow> distinct (map fst (clear_cmds known is))"
proof (induction "is")
  case (Cons i "is")
  then show ?case using clear_cmds_slots [of known "is"] by (auto split: option.splits)
qed simp

lemma map_of_write_cmds:
  "s \<le> i \<Longrightarrow> i < s + length ds \<Longrightarrow>
   map_of (write_cmds known s ds) i =
     (case usable_secret (snd (ds ! (i - s))) of
        None \<Rightarrow> None
      | Some secret \<Rightarrow> if map_of known i = Some (fst (ds ! (i - s)), secret) then None else Some (fst (ds ! (i - s)), secret))"
proof (induction ds arbitrary: s)
  case (Cons nk ds)
  obtain name key_hex where nk: "nk = (name, key_hex)" by (cases nk)
  show ?case
  proof (cases "i = s")
    case True
    have "map_of (write_cmds known (Suc s) ds) s = None"
      using write_cmds_slots [of s known "Suc s" ds] by (auto simp: map_of_eq_None_iff)
    then show ?thesis using True by (auto simp: nk usable_secret_def split: option.splits)
  next
    case False
    then have i: "Suc s \<le> i" "i < Suc s + length ds" "((name, key_hex) # ds) ! (i - s) = ds ! (i - Suc s)"
      using Cons.prems by (auto simp: nth_Cons' nk)
    have "map_of (write_cmds known s ((name, key_hex) # ds)) i = map_of (write_cmds known (Suc s) ds) i"
      using False by (simp split: option.split)
    also have "\<dots> = (case usable_secret (snd (ds ! (i - Suc s))) of None \<Rightarrow> None
        | Some secret \<Rightarrow> if map_of known i = Some (fst (ds ! (i - Suc s)), secret) then None else Some (fst (ds ! (i - Suc s)), secret))"
      by (rule Cons.IH [OF i(1,2)])
    finally show ?thesis unfolding nk i(3) .
  qed
qed simp

lemma map_of_clear_cmds:
  "map_of (clear_cmds known [a..<b]) i =
     (if a \<le> i \<and> i < b \<and> (\<forall>j. a \<le> j \<longrightarrow> j \<le> i \<longrightarrow> map_of known j \<noteq> None) \<and> fst (the (map_of known i)) \<noteq> []
      then Some ([], replicate 16 0) else None)"
proof (induction "b - a" arbitrary: a)
  case 0
  then show ?case by auto
next
  case (Suc n)
  then have ab: "a < b" and IH: "map_of (clear_cmds known [Suc a..<b]) i =
     (if Suc a \<le> i \<and> i < b \<and> (\<forall>j. Suc a \<le> j \<longrightarrow> j \<le> i \<longrightarrow> map_of known j \<noteq> None) \<and> fst (the (map_of known i)) \<noteq> []
      then Some ([], replicate 16 0) else None)" by auto
  show ?case
  proof (cases "map_of known a")
    case None
    then show ?thesis using ab by (auto simp: upt_conv_Cons)
  next
    case (Some c)
    have "(\<forall>j. a \<le> j \<longrightarrow> j \<le> i \<longrightarrow> map_of known j \<noteq> None) \<longleftrightarrow> (\<forall>j. Suc a \<le> j \<longrightarrow> j \<le> i \<longrightarrow> map_of known j \<noteq> None)"
      using Some by (metis Suc_leI le_neq_implies_less option.distinct(1) Suc_leD)
    then show ?thesis using ab Some IH by (cases c) (auto simp: upt_conv_Cons)
  qed
qed

lemma apply_cmds_lookup:
  "distinct (map fst cmds) \<Longrightarrow>
   apply_cmds accepts cmds d i = (case map_of cmds i of None \<Rightarrow> d i | Some c \<Rightarrow> if accepts i then Some c else d i)"
proof (induction accepts cmds d rule: apply_cmds.induct)
  case (2 accepts j c cmds d)
  then have "map_of cmds j = None" by (simp add: map_of_eq_None_iff)
  then show ?case using 2 by (cases "i = j") (auto split: option.splits)
qed simp

lemma map_of_sync_cmds:
  "map_of (sync_cmds d keys) i =
     (let known = read_slots d [0..<MESHCORE_MAX_DEVICE_SLOTS]; n = length (take MESHCORE_MAX_USER_CHANNELS keys) in
      if 1 \<le> i \<and> i \<le> n then map_of (write_cmds known 1 (take MESHCORE_MAX_USER_CHANNELS keys)) i
      else map_of (clear_cmds known [1 + n..<MESHCORE_MAX_DEVICE_SLOTS]) i)"
proof -
  define known where "known = read_slots d [0..<MESHCORE_MAX_DEVICE_SLOTS]"
  define ds where "ds = take MESHCORE_MAX_USER_CHANNELS keys"
  have w: "map_of (write_cmds known 1 ds) i = None" if "\<not> (1 \<le> i \<and> i \<le> length ds)"
    using write_cmds_slots [of i known 1 ds] that unfolding map_of_eq_None_iff by linarith
  have c: "map_of (clear_cmds known [1 + length ds..<MESHCORE_MAX_DEVICE_SLOTS]) i = None" if "i \<le> length ds"
    using that by (simp add: map_of_clear_cmds)
  show ?thesis unfolding sync_cmds_def Let_def known_def [symmetric] ds_def [symmetric]
    using w c by (cases "1 \<le> i \<and> i \<le> length ds") (simp_all add: map_add_def split: option.split)
qed

lemma distinct_sync_cmds: "distinct (map fst (sync_cmds d keys))"
proof -
  define ds where "ds = take MESHCORE_MAX_USER_CHANNELS keys"
  define known where "known = read_slots d [0..<MESHCORE_MAX_DEVICE_SLOTS]"
  have "fst ` set (write_cmds known 1 ds) \<subseteq> {1..length ds}" using write_cmds_slots [of _ known 1 ds] by fastforce
  moreover have "fst ` set (clear_cmds known [1 + length ds..<MESHCORE_MAX_DEVICE_SLOTS]) \<subseteq> {Suc (length ds)..}"
    using clear_cmds_slots [of known "[1 + length ds..<MESHCORE_MAX_DEVICE_SLOTS]"] by auto
  ultimately have "fst ` set (write_cmds known 1 ds) \<inter> fst ` set (clear_cmds known [1 + length ds..<MESHCORE_MAX_DEVICE_SLOTS]) = {}"
    by fastforce
  then show ?thesis unfolding sync_cmds_def Let_def known_def [symmetric] ds_def [symmetric]
    by (simp add: distinct_write_cmds distinct_clear_cmds)
qed

lemma sync_target:
  "(case map_of (sync_cmds d keys) i of None \<Rightarrow> d i | Some c \<Rightarrow> Some c) = synced_slot d (take MESHCORE_MAX_USER_CHANNELS keys) i"
proof -
  define known where "known = read_slots d [0..<MESHCORE_MAX_DEVICE_SLOTS]"
  define ds where "ds = take MESHCORE_MAX_USER_CHANNELS keys"
  have len: "length ds < MESHCORE_MAX_DEVICE_SLOTS"
    by (simp add: ds_def MESHCORE_MAX_USER_CHANNELS_def MESHCORE_MAX_DEVICE_SLOTS_def)
  have known: "map_of known j = (if j < MESHCORE_MAX_DEVICE_SLOTS \<and> slot_readable d j then d j else None)" for j
    by (simp add: known_def known_slots)
  consider (user) "1 \<le> i" "i \<le> length ds" | (zero) "i = 0" | (rest) "length ds < i" by linarith
  then show ?thesis
  proof cases
    case user
    then have "map_of (sync_cmds d keys) i = map_of (write_cmds known 1 ds) i"
      by (simp add: map_of_sync_cmds Let_def known_def [symmetric] ds_def [symmetric])
    then show ?thesis unfolding ds_def [symmetric] using user len map_of_write_cmds [of 1 i ds known]
      by (auto simp: synced_slot_def known split: option.splits)
  next
    case zero
    then show ?thesis by (simp add: map_of_sync_cmds Let_def map_of_clear_cmds synced_slot_def)
  next
    case rest
    have all: "(\<forall>j. 1 + length ds \<le> j \<longrightarrow> j \<le> i \<longrightarrow> map_of known j \<noteq> None) \<longleftrightarrow> slot_readable d i" if "i < MESHCORE_MAX_DEVICE_SLOTS"
      using that rest slot_readable_mono [of d i] slot_readableD [of d] by (auto simp: known)
    have "map_of (sync_cmds d keys) i = map_of (clear_cmds known [1 + length ds..<MESHCORE_MAX_DEVICE_SLOTS]) i"
      using rest by (simp add: map_of_sync_cmds Let_def known_def [symmetric] ds_def [symmetric])
    then show ?thesis unfolding ds_def [symmetric] using rest all
      by (auto simp: synced_slot_def map_of_clear_cmds known)
  qed
qed

lemma sync_device:
  "apply_cmds accepts (sync_cmds d keys) d i = (if accepts i then synced_slot d (take MESHCORE_MAX_USER_CHANNELS keys) i else d i)"
  using sync_target [of d i keys] by (auto simp: apply_cmds_lookup distinct_sync_cmds split: option.splits)

text \<open>On a device whose slots can all be read, a synchronised table needs no command.\<close>

lemma synced_slot_readable:
  "(\<And>j. j < MESHCORE_MAX_DEVICE_SLOTS \<Longrightarrow> d j \<noteq> None) \<Longrightarrow> i < MESHCORE_MAX_DEVICE_SLOTS \<Longrightarrow> slot_readable (synced_slot d keys) i"
  by (auto simp: slot_readable_def list_all_iff synced_slot_def split: option.splits)

lemma no_sync_cmds_if:
  assumes "\<And>i c. map_of (sync_cmds d keys) i = Some c \<Longrightarrow> False"
  shows "sync_cmds d keys = []"
proof (rule ccontr)
  assume "sync_cmds d keys \<noteq> []"
  then obtain i c cs where "sync_cmds d keys = (i, c) # cs" by (metis neq_Nil_conv surj_pair)
  then show False using assms [of i c] by simp
qed


lemma synced_no_cmds:
  assumes all: "\<And>j. j < MESHCORE_MAX_DEVICE_SLOTS \<Longrightarrow> d j \<noteq> None"
  shows "sync_cmds (synced_slot d (take MESHCORE_MAX_USER_CHANNELS keys)) keys = []"
proof (rule no_sync_cmds_if)
  fix i c
  define ds where "ds = take MESHCORE_MAX_USER_CHANNELS keys"
  define e where "e = synced_slot d ds"
  define known where "known = read_slots e [0..<MESHCORE_MAX_DEVICE_SLOTS]"
  have len: "length ds < MESHCORE_MAX_DEVICE_SLOTS"
    by (simp add: ds_def MESHCORE_MAX_USER_CHANNELS_def MESHCORE_MAX_DEVICE_SLOTS_def)
  have known: "map_of known j = e j" if "j < MESHCORE_MAX_DEVICE_SLOTS" for j
    using that synced_slot_readable [of d j ds] all by (simp add: known_def known_slots e_def)
  assume "map_of (sync_cmds (synced_slot d (take MESHCORE_MAX_USER_CHANNELS keys)) keys) i = Some c"
  then have c: "(if 1 \<le> i \<and> i \<le> length ds then map_of (write_cmds known 1 ds) i
      else map_of (clear_cmds known [1 + length ds..<MESHCORE_MAX_DEVICE_SLOTS]) i) = Some c"
    by (simp only: map_of_sync_cmds Let_def ds_def [symmetric] e_def [symmetric] known_def [symmetric])
  show False
  proof (cases "1 \<le> i \<and> i \<le> length ds")
    case True
    then show ?thesis using c map_of_write_cmds [of 1 i ds known] len known [of i]
      by (auto simp: e_def synced_slot_def split: option.splits if_splits)
  next
    case False
    then have "length ds < i" "i < MESHCORE_MAX_DEVICE_SLOTS" "fst (the (map_of known i)) \<noteq> []"
      using c by (auto simp: map_of_clear_cmds split: if_splits)
    then show ?thesis using all by (auto simp: known e_def synced_slot_def slot_readable_iff split: if_splits)
  qed
qed

lemma read_all_slots: "(\<And>j. j \<in> set is \<Longrightarrow> d j \<noteq> None) \<Longrightarrow> length (read_slots d is) = length is"
proof (induction "is")
  case (Cons i "is")
  obtain c where "d i = Some c" using Cons.prems [of i] by auto
  then show ?case using Cons by simp
qed simp

lemma snd_sync_channels: "mc_connected c \<Longrightarrow> snd (sync_channels c accepts keys d) = apply_cmds accepts (sync_cmds d keys) d"
  by (simp add: sync_channels_def Let_def)

text \<open>C31: Synchronising the configured channels leaves exactly the specified table on the device: a write the device refuses
  changes nothing, slot 0 is never written, slot \<open>n\<close> gets the \<open>n\<close>-th configured channel when its key is 16 bytes in hexadecimal
  and is left alone otherwise, and every later slot in use that could be read is emptied. On a device that answers for all its
  slots and accepts the writes, a second synchronisation issues no write and changes nothing.\<close>

theorem sync_channels_exact:
  assumes "mc_connected c"
  shows "snd (sync_channels c accepts keys d) i =
           (if accepts i then synced_slot d (take MESHCORE_MAX_USER_CHANNELS keys) i else d i) \<and>
         ((\<forall>j<MESHCORE_MAX_DEVICE_SLOTS. d j \<noteq> None) \<and> (\<forall>j. accepts j) \<longrightarrow>
           sync_channels c accepts keys (snd (sync_channels c accepts keys d)) =
             (map GetChannel [0..<MESHCORE_MAX_DEVICE_SLOTS] @ post_command c, snd (sync_channels c accepts keys d)))"
proof (intro conjI impI)
  show "snd (sync_channels c accepts keys d) i = (if accepts i then synced_slot d (take MESHCORE_MAX_USER_CHANNELS keys) i else d i)"
    by (simp only: snd_sync_channels [OF assms] sync_device)
next
  assume full: "(\<forall>j<MESHCORE_MAX_DEVICE_SLOTS. d j \<noteq> None) \<and> (\<forall>j. accepts j)"
  define e where "e = synced_slot d (take MESHCORE_MAX_USER_CHANNELS keys)"
  have e: "snd (sync_channels c accepts keys d) = e"
    using full by (intro ext) (simp add: snd_sync_channels [OF assms] sync_device e_def)
  have "length (read_slots e [0..<MESHCORE_MAX_DEVICE_SLOTS]) = MESHCORE_MAX_DEVICE_SLOTS"
    using full synced_slot_readable [of d _ "take MESHCORE_MAX_USER_CHANNELS keys"] by (subst read_all_slots) (auto simp: e_def slot_readable_iff)
  moreover have "sync_cmds e keys = []" unfolding e_def by (rule synced_no_cmds) (use full in blast)
  ultimately show "sync_channels c accepts keys (snd (sync_channels c accepts keys d)) =
      (map GetChannel [0..<MESHCORE_MAX_DEVICE_SLOTS] @ post_command c, snd (sync_channels c accepts keys d))"
    using assms by (simp only: e) (simp add: sync_channels_def Let_def)
qed


definition demo_mc_client :: mc_client where
  "demo_mc_client = \<lparr>mcl_source = Some (True, True), mcl_owned = False, mcl_owned_connected = False, mcl_callback = True,
     mcl_device_info = None\<rparr>"

definition demo_slots :: slots where
  "demo_slots i = (if i < MESHCORE_MAX_DEVICE_SLOTS then Some (if i = 3 then (lit ''old'', replicate 16 7) else ([], replicate 16 0)) else None)"

lemma sync_channels_exact_witness:
  "snd (sync_channels demo_mc_client (\<lambda>_. True) [(lit ''ops'', replicate 32 49)] demo_slots) 1 = Some (lit ''ops'', replicate 16 17) \<and>
   snd (sync_channels demo_mc_client (\<lambda>_. True) [(lit ''ops'', replicate 32 49)] demo_slots) 3 = Some ([], replicate 16 0) \<and>
   snd (sync_channels demo_mc_client (\<lambda>_. True) [(lit ''ops'', replicate 32 49)]
     (snd (sync_channels demo_mc_client (\<lambda>_. True) [(lit ''ops'', replicate 32 49)] demo_slots))) =
   snd (sync_channels demo_mc_client (\<lambda>_. True) [(lit ''ops'', replicate 32 49)] demo_slots)"
proof -
  have c: "mc_connected demo_mc_client" by (simp add: mc_connected_def demo_mc_client_def)
  have full: "(\<forall>j<MESHCORE_MAX_DEVICE_SLOTS. demo_slots j \<noteq> None) \<and> (\<forall>j. (\<lambda>_. True) j)" by (simp add: demo_slots_def)
  note t = sync_channels_exact [OF c, of "\<lambda>_. True" "[(lit ''ops'', replicate 32 49)]" demo_slots]
  have 1: "synced_slot demo_slots (take MESHCORE_MAX_USER_CHANNELS [(lit ''ops'', replicate 32 49)]) 1 = Some (lit ''ops'', replicate 16 17)"
    by code_simp
  have 3: "synced_slot demo_slots (take MESHCORE_MAX_USER_CHANNELS [(lit ''ops'', replicate 32 49)]) 3 = Some ([], replicate 16 0)"
    by code_simp
  show ?thesis using t [of 1] t [of 3] full by (simp only: 1 3 if_True simp_thms snd_conv)
qed

end
