(* ===== verification/Repeater_Poller.thy ===== *)
theory Repeater_Poller
  imports Meshcore_Tx Storage
begin

text \<open>
  \<^verbatim>\<open>src/src/transmit/repeater_poller.py\<close>: the poller of MeshCore repeaters, with what it remembers of each, the contact records it
  puts back on a companion that lost them, and the rows it stores.

  \<^item> An attempt is given with the state of the client, what the library's contact lookup answers, the replies to the commands of
    the poll and the answer to a contact that is added. \<^verbatim>\<open>poll_repeater\<close> has no path that raises.
  \<^item> The JSON files that carry the two dictionaries over a restart are not modelled. The printed form of a time is a parameter.
  \<^item> An exception that \<^verbatim>\<open>_poll_one\<close> does not catch ends the polling task: it is the flag \<open>rp_dead\<close> of the state.
\<close>

section \<open>One poll\<close>

definition POLL_ATTEMPTS :: nat where
  "POLL_ATTEMPTS = 3"

record poll_attempt =
  at_client :: mc_client
  at_found :: "pydict option"
  at_replies :: poll_replies
  at_add :: "bool option"

datatype poll_step = Polled | Injected pydict bool | RetryPause

record repeater_entry =
  re_name :: string
  re_ok :: bool
  re_error :: ustr
  re_status :: pyval
  re_telemetry :: pyval
  re_neighbours :: pyval
  re_updated_at :: time
  re_last_ok_at :: "time option"

record repeater =
  rp_key :: string
  rp_name :: string
  rp_password :: bool

record poller =
  rp_latest :: "string \<rightharpoonup> repeater_entry"
  rp_contacts :: "string \<rightharpoonup> pydict"
  rp_db :: database
  rp_dead :: bool

definition remember_contact :: "string \<Rightarrow> poll_out \<Rightarrow> (string \<rightharpoonup> pydict) \<Rightarrow> (string \<rightharpoonup> pydict)" where
  "remember_contact key out cache =
     (case po_contact out of None \<Rightarrow> cache | Some c \<Rightarrow> if c = [] then cache else cache(key \<mapsto> c))"

text \<open>The attempts, at most \<^const>\<open>POLL_ATTEMPTS\<close> of them: the last result, the contact cache and what was done. The last element
  of the list is the last attempt.\<close>

fun poll_attempts ::
    "string \<Rightarrow> bool \<Rightarrow> poll_attempt list \<Rightarrow> poll_out \<Rightarrow> (string \<rightharpoonup> pydict) \<Rightarrow> poll_out \<times> (string \<rightharpoonup> pydict) \<times> poll_step list" where
  "poll_attempts key password [] result cache = (result, cache, [])"
| "poll_attempts key password (a # as) result cache =
     (let out = fst (poll_repeater (at_client a) password (at_found a) (at_replies a));
          cache = remember_contact key out cache;
          pause = (if as = [] then [] else [RetryPause]) in
      if po_ok out then (out, cache, [Polled])
      else
        let steps =
          (case cache key of
             None \<Rightarrow> pause
           | Some contact \<Rightarrow>
               if po_error out = NOT_IN_ROSTER then
                 (let injected = fst (add_contact (at_client a) contact (at_add a)) in
                  Injected contact injected # (if injected then [] else pause))
               else pause)
        in (case poll_attempts key password as out cache of
              (result, cache, later) \<Rightarrow> (result, cache, Polled # steps @ later)))"

text \<open>The entry shown for the repeater: what the poll gave, with what was last known where it gave nothing.\<close>

definition py_or :: "pyval \<Rightarrow> pyval \<Rightarrow> pyval" where
  "py_or a b = (if truthy a then a else b)"

definition merge_entry :: "string \<Rightarrow> time \<Rightarrow> poll_out \<Rightarrow> repeater_entry option \<Rightarrow> repeater_entry" where
  "merge_entry name now out prev =
     \<lparr>re_name = name, re_ok = po_ok out, re_error = po_error out,
      re_status = (if po_ok out then po_status out
                   else py_or (po_status out) (case prev of None \<Rightarrow> PNone | Some e \<Rightarrow> re_status e)),
      re_telemetry = py_or (po_telemetry out) (case prev of None \<Rightarrow> PNone | Some e \<Rightarrow> re_telemetry e),
      re_neighbours = py_or (po_neighbours out) (case prev of None \<Rightarrow> PNone | Some e \<Rightarrow> re_neighbours e),
      re_updated_at = now,
      re_last_ok_at = (if po_ok out then Some now else case prev of None \<Rightarrow> None | Some e \<Rightarrow> re_last_ok_at e)\<rparr>"


section \<open>What is stored\<close>

text \<open>The number a value stands for where the code asks for \<^verbatim>\<open>(int, float)\<close>; a boolean is one.\<close>

fun finite_number :: "pyval \<Rightarrow> rat option" where
  "finite_number (PInt i) = Some (of_int i)"
| "finite_number (PBool b) = Some (if b then 1 else 0)"
| "finite_number (PFloat r) = Some r"
| "finite_number _ = None"

fun lpp_hashable :: "pyval \<Rightarrow> bool" where
  "lpp_hashable (PList vs) = False"
| "lpp_hashable (PDict d) = False"
| "lpp_hashable v = True"

datatype lpp_field = LppVoltage | LppTemperature | LppPressure | LppHumidity

definition LPP_MAP :: "((rat \<times> ustr) \<times> lpp_field) list" where
  "LPP_MAP =
     [((1, lit ''voltage''), LppVoltage), ((1, lit ''temperature''), LppTemperature), ((3, lit ''temperature''), LppTemperature),
      ((3, lit ''barometer''), LppPressure), ((4, lit ''temperature''), LppTemperature), ((4, lit ''humidity''), LppHumidity)]"

definition lpp_lookup :: "pyval \<Rightarrow> pyval \<Rightarrow> lpp_field option" where
  "lpp_lookup ch ty =
     (case (finite_number ch, ty) of (Some n, PStr s) \<Rightarrow> map_of LPP_MAP (n, s) | _ \<Rightarrow> None)"

fun lpp_get :: "lpp_field \<Rightarrow> telemetry \<Rightarrow> pyval" where
  "lpp_get LppVoltage t = voltage t"
| "lpp_get LppTemperature t = temperature t"
| "lpp_get LppPressure t = barometric_pressure t"
| "lpp_get LppHumidity t = humidity t"

fun lpp_set :: "lpp_field \<Rightarrow> pyval \<Rightarrow> telemetry \<Rightarrow> telemetry" where
  "lpp_set LppVoltage v t = t\<lparr>voltage := v\<rparr>"
| "lpp_set LppTemperature v t = t\<lparr>temperature := v\<rparr>"
| "lpp_set LppPressure v t = t\<lparr>barometric_pressure := v\<rparr>"
| "lpp_set LppHumidity v t = t\<lparr>humidity := v\<rparr>"

definition iter_lpp :: "pyval \<Rightarrow> pydict list" where
  "iter_lpp telem =
     (case telem of PDict d \<Rightarrow> (case dget ''lpp'' d of PList vs \<Rightarrow> only_dicts vs | _ \<Rightarrow> []) | _ \<Rightarrow> [])"

text \<open>A reading whose channel or type cannot be a dictionary key raises (\<open>None\<close>).\<close>

fun lpp_readings :: "pydict list \<Rightarrow> telemetry \<Rightarrow> telemetry option" where
  "lpp_readings [] t = Some t"
| "lpp_readings (r # rs) t =
     (if \<not> lpp_hashable (dget ''channel'' r) \<or> \<not> lpp_hashable (dget ''type'' r) then None
      else lpp_readings rs
        (case lpp_lookup (dget ''channel'' r) (dget ''type'' r) of
           None \<Rightarrow> t
         | Some f \<Rightarrow> if lpp_get f t = PNone then lpp_set f (dget ''value'' r) t else t))"

definition battery_volts :: "pyval \<Rightarrow> pyval" where
  "battery_volts bat =
     (case finite_number bat of
        Some mv \<Rightarrow> if mv > 0 then PFloat (py_round 3 (mv / 1000)) else PNone
      | None \<Rightarrow> if bat = PInf False then PInf False else PNone)"

text \<open>\<^verbatim>\<open>int(uptime)\<close> of a number; an infinity and \<^verbatim>\<open>nan\<close> raise.\<close>

definition uptime_of :: "pyval \<Rightarrow> pyval option" where
  "uptime_of v =
     (case v of PInf neg \<Rightarrow> None | PNan \<Rightarrow> None
      | _ \<Rightarrow> Some (case finite_number v of Some n \<Rightarrow> PInt (py_trunc n) | None \<Rightarrow> PNone))"

definition telemetry_of_poll :: "string \<Rightarrow> time \<Rightarrow> poll_out \<Rightarrow> telemetry option" where
  "telemetry_of_poll key now out =
     (case (if truthy (po_status out) then po_status out else PDict []) of
        PDict status \<Rightarrow>
          (case uptime_of (dget ''uptime'' status) of
             None \<Rightarrow> None
           | Some up \<Rightarrow>
               lpp_readings (iter_lpp (po_telemetry out))
                 ((default_telemetry key now)\<lparr>voltage := battery_volts (dget ''bat'' status), uptime_seconds := up\<rparr>))
      | _ \<Rightarrow> None)"

text \<open>Both stores give whether an exception escaped and the database. A failed insert is only logged, here it succeeds.\<close>

definition store_poll_telemetry :: "string \<Rightarrow> time \<Rightarrow> poll_out \<Rightarrow> database \<Rightarrow> bool \<times> database" where
  "store_poll_telemetry key now out db =
     (case telemetry_of_poll key now out of
        None \<Rightarrow> (True, db)
      | Some t \<Rightarrow> (False, if voltage t = PNone \<and> temperature t = PNone then db else telemetry_insert t db))"

text \<open>The row of a neighbour report replaces the earlier one of the same repeater and node. \<^verbatim>\<open>LIKE\<close> compares without case; the keys
  are hexadecimal and hold no wildcard. The column \<^verbatim>\<open>capture_source\<close> is \<^verbatim>\<open>NULL\<close>, here the empty text.\<close>

definition nb_prefix :: "string \<Rightarrow> string \<Rightarrow> string" where
  "nb_prefix key nid = ''nb:'' @ key @ '':'' @ nid @ '':''"

definition insert_neighbour_report :: "(time \<Rightarrow> string) \<Rightarrow> string \<Rightarrow> string \<Rightarrow> rat option \<Rightarrow> time \<Rightarrow> database \<Rightarrow> database" where
  "insert_neighbour_report fmt key nid ratio heard db =
     db\<lparr>db_packets :=
          filter (\<lambda>p. \<not> starts_with (lower (pr_packet_id p)) (lower (nb_prefix key nid))) (db_packets db) @
          [\<lparr>pr_packet_id = nb_prefix key nid @ fmt heard, pr_source_id = nid, pr_destination_id = ''broadcast'',
            pr_protocol = ''meshcore'', pr_packet_type = ''neighbour_advert'', pr_payload = None, pr_rssi = None, pr_snr = ratio,
            pr_capture_source = [], pr_timestamp = heard\<rparr>]\<rparr>"

text \<open>The first time a \<^verbatim>\<open>datetime\<close> can hold.\<close>

definition MIN_TIME :: time where
  "MIN_TIME = - 62135596800"

text \<open>One entry of the neighbour list: \<open>None\<close> is an exception outside the guarded part.\<close>

definition store_neighbour :: "text_lib \<Rightarrow> (time \<Rightarrow> string) \<Rightarrow> string \<Rightarrow> time \<Rightarrow> pyval \<Rightarrow> database \<Rightarrow> database option" where
  "store_neighbour T fmt key now nb db =
     (case nb of
        PDict d \<Rightarrow>
          (case (if truthy (dget ''pubkey'' d) then dget ''pubkey'' d else PStr []) of
             PStr s \<Rightarrow>
               let pubkey = tl_lower T (ustrip uni_space s); secs = dget ''secs_ago'' d in
               if pubkey = [] then Some db
               else (case finite_number secs of
                 None \<Rightarrow> if secs = PInf False \<or> secs = PNan then None else Some db
               | Some n \<Rightarrow>
                   if n < 0 then Some db
                   else if now - n < MIN_TIME then None
                   else if \<not> storable pubkey then Some db
                   else Some (insert_neighbour_report fmt key (ident pubkey) (finite_number (dget ''snr'' d)) (now - n)
                          (upsert_from_neighbour_report (ident pubkey) (now - n) db)))
           | _ \<Rightarrow> None)
      | _ \<Rightarrow> None)"

fun store_neighbours :: "text_lib \<Rightarrow> (time \<Rightarrow> string) \<Rightarrow> string \<Rightarrow> time \<Rightarrow> pyval list \<Rightarrow> database \<Rightarrow> bool \<times> database" where
  "store_neighbours T fmt key now [] db = (False, db)"
| "store_neighbours T fmt key now (nb # nbs) db =
     (case store_neighbour T fmt key now nb db of
        None \<Rightarrow> (True, db)
      | Some db' \<Rightarrow> store_neighbours T fmt key now nbs db')"

definition store_neighbour_reports :: "text_lib \<Rightarrow> (time \<Rightarrow> string) \<Rightarrow> string \<Rightarrow> time \<Rightarrow> poll_out \<Rightarrow> database \<Rightarrow> bool \<times> database" where
  "store_neighbour_reports T fmt key now out db =
     (case (if truthy (po_neighbours out) then po_neighbours out else PDict []) of
        PDict d \<Rightarrow> (case dget ''neighbours'' d of PList nbs \<Rightarrow> store_neighbours T fmt key now nbs db | _ \<Rightarrow> (False, db))
      | _ \<Rightarrow> (True, db))"


section \<open>The poller\<close>

definition record_result :: "text_lib \<Rightarrow> (time \<Rightarrow> string) \<Rightarrow> repeater \<Rightarrow> time \<Rightarrow> poll_out \<Rightarrow> poller \<Rightarrow> poller" where
  "record_result T fmt rep now out p =
     (let key = rp_key rep; name = (if rp_name rep = [] then key else rp_name rep);
          p1 = p\<lparr>rp_latest := (rp_latest p)(key \<mapsto> merge_entry name now out (rp_latest p key))\<rparr> in
      if \<not> po_ok out then p1
      else case store_poll_telemetry key now out (rp_db p1) of
        (True, db) \<Rightarrow> p1\<lparr>rp_db := db, rp_dead := True\<rparr>
      | (False, db) \<Rightarrow>
          (case store_neighbour_reports T fmt key now out db of
             (raised, db) \<Rightarrow> p1\<lparr>rp_db := db, rp_dead := raised\<rparr>))"

definition not_attempted :: poll_out where
  "not_attempted = poll_failed None (lit ''not attempted'')"

definition poll_one :: "text_lib \<Rightarrow> (time \<Rightarrow> string) \<Rightarrow> repeater \<Rightarrow> time \<Rightarrow> poll_attempt list \<Rightarrow> poller \<Rightarrow> poller \<times> poll_step list" where
  "poll_one T fmt rep now attempts p =
     (case poll_attempts (rp_key rep) (rp_password rep) (take POLL_ATTEMPTS attempts) not_attempted (rp_contacts p) of
        (out, cache, steps) \<Rightarrow> (record_result T fmt rep now out (p\<lparr>rp_contacts := cache\<rparr>), steps))"

text \<open>The rounds of the task, each repeater once per round, until an exception ends it.\<close>

fun poll_round :: "text_lib \<Rightarrow> (time \<Rightarrow> string) \<Rightarrow> (repeater \<times> time \<times> poll_attempt list) list \<Rightarrow> poller \<Rightarrow> poller" where
  "poll_round T fmt [] p = p"
| "poll_round T fmt ((rep, now, attempts) # rest) p =
     (if rp_dead p then p else poll_round T fmt rest (fst (poll_one T fmt rep now attempts p)))"

definition poll_interval :: "int \<Rightarrow> int" where
  "poll_interval minutes = max 60 (minutes * 60)"


section \<open>Properties\<close>

subsection \<open>What the poller remembers\<close>

type_synonym poll_event = "repeater \<times> time \<times> poll_out"

definition run_results :: "text_lib \<Rightarrow> (time \<Rightarrow> string) \<Rightarrow> poll_event list \<Rightarrow> poller \<Rightarrow> poller" where
  "run_results T fmt es p = fold (\<lambda>(rep, now, out). record_result T fmt rep now out) es p"

definition polls_of :: "string \<Rightarrow> poll_event list \<Rightarrow> (time \<times> poll_out) list" where
  "polls_of key es = map snd (filter (\<lambda>(rep, _). rp_key rep = key) es)"

text \<open>The last element of a list that satisfies a condition.\<close>

definition last_such :: "('a \<Rightarrow> bool) \<Rightarrow> 'a list \<Rightarrow> 'a option" where
  "last_such P xs = find P (rev xs)"

lemma last_such_snoc [simp]: "last_such P (xs @ [x]) = (if P x then Some x else last_such P xs)"
  by (simp add: last_such_def)

lemma last_such_Nil [simp]: "last_such P [] = None"
  by (simp add: last_such_def)

definition last_truthy :: "pyval list \<Rightarrow> pyval" where
  "last_truthy vs = (case last_such truthy vs of None \<Rightarrow> PNone | Some v \<Rightarrow> v)"

lemma last_truthy_snoc [simp]: "last_truthy (vs @ [v]) = py_or v (last_truthy vs)"
  by (simp add: last_truthy_def py_or_def)

lemma last_truthy_Nil [simp]: "last_truthy [] = PNone"
  by (simp add: last_truthy_def)

text \<open>What is known of a repeater after its polls, from scratch.\<close>

definition known_entry :: "(time \<times> poll_out) list \<Rightarrow> repeater_entry \<Rightarrow> bool" where
  "known_entry ps e \<longleftrightarrow>
     ps \<noteq> [] \<and> re_ok e = po_ok (snd (last ps)) \<and> re_error e = po_error (snd (last ps)) \<and> re_updated_at e = fst (last ps) \<and>
     re_telemetry e = last_truthy (map (po_telemetry \<circ> snd) ps) \<and>
     re_neighbours e = last_truthy (map (po_neighbours \<circ> snd) ps) \<and>
     re_last_ok_at e = map_option fst (last_such (po_ok \<circ> snd) ps)"

lemma known_entry_first: "known_entry [(now, out)] (merge_entry name now out None)"
  by (simp add: known_entry_def merge_entry_def last_truthy_def last_such_def py_or_def)

lemma known_entry_next: "known_entry ps e \<Longrightarrow> known_entry (ps @ [(now, out)]) (merge_entry name now out (Some e))"
  by (auto simp: known_entry_def merge_entry_def)

lemma latest_record_result:
  "rp_latest (record_result T fmt rep now out p) =
     (rp_latest p)(rp_key rep \<mapsto> merge_entry (if rp_name rep = [] then rp_key rep else rp_name rep) now out (rp_latest p (rp_key rep)))"
  by (auto simp: record_result_def Let_def split: prod.splits bool.splits)

lemma polls_of_snoc:
  "polls_of key (es @ [(rep, now, out)]) = (if rp_key rep = key then polls_of key es @ [(now, out)] else polls_of key es)"
  by (simp add: polls_of_def)

lemma run_results_snoc: "run_results T fmt (es @ [(rep, now, out)]) p = record_result T fmt rep now out (run_results T fmt es p)"
  by (simp add: run_results_def)

lemma latest_run_results:
  assumes "rp_latest p = Map.empty"
  shows "case rp_latest (run_results T fmt es p) key of None \<Rightarrow> polls_of key es = [] | Some e \<Rightarrow> known_entry (polls_of key es) e"
proof (induction es rule: rev_induct)
  case Nil
  then show ?case using assms by (simp add: run_results_def polls_of_def)
next
  case (snoc x es)
  obtain rep now out where x: "x = (rep, now, out)" by (cases x)
  then show ?case using snoc
    by (auto simp: run_results_snoc latest_record_result polls_of_snoc known_entry_next
        intro: known_entry_first split: option.splits)
qed

text \<open>C33: After any sequence of polls of any repeaters, what the poller shows of one is exactly: nothing if it was never polled;
  otherwise the outcome and time of its last poll, the last sensor data and the last neighbour list that were not empty, however
  many polls without any came after them, and the time of its last successful poll.\<close>

theorem poller_remembers_last_good:
  assumes "rp_latest p = Map.empty"
  shows "(rp_latest (run_results T fmt es p) key = None \<longleftrightarrow> polls_of key es = []) \<and>
         (case rp_latest (run_results T fmt es p) key of None \<Rightarrow> True | Some e \<Rightarrow> known_entry (polls_of key es) e)"
  using latest_run_results [OF assms, where T = T and fmt = fmt and es = es and key = key] by (auto simp: known_entry_def split: option.splits)

definition demo_poller :: poller where
  "demo_poller = \<lparr>rp_latest = Map.empty, rp_contacts = [''a1'' \<mapsto> [(''public_key'', pstr ''a1b2'')]], rp_db = empty_database, rp_dead = False\<rparr>"

definition demo_repeater :: repeater where
  "demo_repeater = \<lparr>rp_key = ''a1'', rp_name = ''Hill'', rp_password = True\<rparr>"

definition demo_poll_lib :: text_lib where
  "demo_poll_lib = \<lparr>tl_json = \<lambda>_. None, tl_str = \<lambda>_. [], tl_int = \<lambda>_. None, tl_float = \<lambda>_. None, tl_lower = \<lambda>s. s, tl_is_hex = \<lambda>_. True\<rparr>"

definition demo_good_poll :: poll_out where
  "demo_good_poll = \<lparr>po_ok = True, po_status = PDict [(''bat'', PInt 4012)], po_telemetry = PDict [(''lpp'', PList [])], po_neighbours = PNone,
     po_contact = None, po_error = []\<rparr>"

lemma poller_remembers_last_good_witness:
  "\<exists>e. rp_latest (run_results demo_poll_lib (\<lambda>_. []) [(demo_repeater, 100, demo_good_poll), (demo_repeater, 200, not_attempted)] demo_poller)
         ''a1'' = Some e \<and> \<not> re_ok e \<and> re_telemetry e = PDict [(''lpp'', PList [])] \<and> re_last_ok_at e = Some 100"
proof -
  let ?es = "[(demo_repeater, 100, demo_good_poll), (demo_repeater, 200, not_attempted)]"
  have ps: "polls_of ''a1'' ?es = [(100, demo_good_poll), (200, not_attempted)]" by (simp add: polls_of_def demo_repeater_def)
  have "rp_latest demo_poller = Map.empty" by (simp add: demo_poller_def)
  note t = poller_remembers_last_good [OF this, where T = demo_poll_lib and fmt = "\<lambda>_. []" and es = ?es and key = "''a1''"]
  obtain e where e: "rp_latest (run_results demo_poll_lib (\<lambda>_. []) ?es demo_poller) ''a1'' = Some e" "known_entry (polls_of ''a1'' ?es) e"
    using t unfolding ps by (auto split: option.splits)
  then show ?thesis unfolding ps
    by (auto simp: known_entry_def demo_good_poll_def not_attempted_def poll_failed_def last_truthy_def last_such_def)
qed


subsection \<open>A companion that lost its contacts\<close>

lemma poll_attempts_recover:
  assumes "po_error out1 = NOT_IN_ROSTER" "\<not> po_ok out1" "po_contact out1 = None"
    and "out1 = fst (poll_repeater (at_client a) pw (at_found a) (at_replies a))"
    and "cache key = Some c" "fst (add_contact (at_client a) c (at_add a))"
    and "po_ok (fst (poll_repeater (at_client b) pw (at_found b) (at_replies b)))"
  shows "\<exists>cache'. poll_attempts key pw (a # b # rest) r cache =
           (fst (poll_repeater (at_client b) pw (at_found b) (at_replies b)), cache', [Polled, Injected c True, Polled])"
  using assms by (simp add: Let_def remember_contact_def)

lemma poll_ok_if:
  assumes "mc_connected c" "pw \<longrightarrow> (\<exists>v. pp_login r = PollValue v \<and> v \<noteq> PNone)" "pp_status r = PollValue s" "s \<noteq> PNone"
  shows "po_ok (fst (poll_repeater c pw (Some contact) r))"
  using assms by (auto simp: poll_repeater_def poll_body_def poll_after_login_def)

text \<open>A repeater that a reset companion has forgotten is recovered within one poll: when its contact record is remembered, the
  companion takes it back and then finds it, and the repeater answers the login and the status request, the poll puts the record
  back, tries again without a pause, and succeeds.\<close>

lemma lost_contact_recovered:
  assumes "rp_contacts p (rp_key rep) = Some c"
    and "mc_connected (at_client a)" "at_found a = None" "at_add a = Some True"
    and "mc_connected (at_client b)" "at_found b = Some d"
    and "rp_password rep \<longrightarrow> (\<exists>v. pp_login (at_replies b) = PollValue v \<and> v \<noteq> PNone)"
    and "pp_status (at_replies b) = PollValue s" "s \<noteq> PNone"
  shows "snd (poll_one T fmt rep now (a # b # rest) p) = [Polled, Injected c True, Polled] \<and>
         map_option re_ok (rp_latest (fst (poll_one T fmt rep now (a # b # rest) p)) (rp_key rep)) = Some True"
proof -
  let ?out1 = "fst (poll_repeater (at_client a) (rp_password rep) (at_found a) (at_replies a))"
  let ?out = "fst (poll_repeater (at_client b) (rp_password rep) (at_found b) (at_replies b))"
  have 1: "?out1 = poll_failed None NOT_IN_ROSTER" using assms by (simp add: poll_repeater_def)
  have 2: "po_ok ?out" using assms by (simp add: poll_ok_if)
  have "\<exists>cache. poll_attempts (rp_key rep) (rp_password rep) (a # b # take 1 rest) not_attempted (rp_contacts p) =
          (?out, cache, [Polled, Injected c True, Polled])"
    by (rule poll_attempts_recover [where ?out1.0 = ?out1])
      (use assms 1 2 in \<open>simp_all add: poll_failed_def add_contact_def\<close>)
  then show ?thesis using 2
    by (auto simp: poll_one_def POLL_ATTEMPTS_def numeral_3_eq_3 latest_record_result merge_entry_def)
qed

definition demo_attempt :: "pydict option \<Rightarrow> poll_attempt" where
  "demo_attempt found = \<lparr>at_client = demo_mc_client, at_found = found, at_replies = \<lparr>pp_login = PollValue (PBool True),
     pp_status = PollValue (PDict [(''bat'', PInt 4012)]), pp_telemetry = PollTimeout, pp_neighbours = PollTimeout\<rparr>, at_add = Some True\<rparr>"

lemma lost_contact_recovered_witness:
  "snd (poll_one demo_poll_lib (\<lambda>_. []) demo_repeater 100
          [demo_attempt None, demo_attempt (Some [(''public_key'', pstr ''a1b2'')]), demo_attempt None] demo_poller) =
     [Polled, Injected [(''public_key'', pstr ''a1b2'')] True, Polled] \<and>
   map_option re_ok (rp_latest (fst (poll_one demo_poll_lib (\<lambda>_. []) demo_repeater 100
          [demo_attempt None, demo_attempt (Some [(''public_key'', pstr ''a1b2'')]), demo_attempt None] demo_poller)) (rp_key demo_repeater)) = Some True"
  by (rule lost_contact_recovered [where s = "PDict [(''bat'', PInt 4012)]" and d = "[(''public_key'', pstr ''a1b2'')]"])
    (simp_all add: demo_poller_def demo_repeater_def demo_attempt_def demo_mc_client_def mc_connected_def)


subsection \<open>Where it goes wrong\<close>

text \<open>A repeater whose neighbours come as a plain list ends the polling of all repeaters.\<close>

lemma neighbour_list_kills:
  assumes "po_ok out" "po_neighbours out = PList (v # vs)" "telemetry_of_poll (rp_key rep) now out \<noteq> None"
  shows "rp_dead (record_result T fmt rep now out p)"
  using assms by (auto simp: record_result_def Let_def store_poll_telemetry_def store_neighbour_reports_def split: option.splits)

lemma dead_poller_stops: "rp_dead p \<Longrightarrow> poll_round T fmt polls p = p"
  by (induction polls) auto

text \<open>A neighbour report as new as the node's packets hides the capture source that heard the node.\<close>

lemma newest_last: "(\<And>q. q \<in> set rows \<Longrightarrow> key q \<le> key r) \<Longrightarrow> newest key (rows @ [r]) = Some r"
proof (induction rows)
  case (Cons a rows)
  then have "\<not> key r < key a" by (simp add: not_less)
  then show ?case using Cons by simp
qed simp

lemma neighbour_report_hides_source:
  assumes "\<And>q. q \<in> set (db_packets db) \<Longrightarrow> pr_source_id q = nid \<Longrightarrow> pr_timestamp q \<le> heard"
  shows "get_latest_capture_source nid (insert_neighbour_report fmt key nid ratio heard db) = Some []"
proof -
  let ?r = "\<lparr>pr_packet_id = nb_prefix key nid @ fmt heard, pr_source_id = nid, pr_destination_id = ''broadcast'',
            pr_protocol = ''meshcore'', pr_packet_type = ''neighbour_advert'', pr_payload = None, pr_rssi = None, pr_snr = ratio,
            pr_capture_source = [], pr_timestamp = heard\<rparr>"
  let ?rows = "filter (\<lambda>x. \<not> starts_with (lower (pr_packet_id x)) (lower (nb_prefix key nid)) \<and> pr_source_id x = nid) (db_packets db)"
  have "newest pr_timestamp (?rows @ [?r]) = Some ?r" using assms by (intro newest_last) auto
  then show ?thesis by (simp add: get_latest_capture_source_def insert_neighbour_report_def)
qed

end
