(* ===== verification/Meshcore_Usb.thy ===== *)
theory Meshcore_Usb
  imports Meshcore_Tx Storage Tx_Service
begin

text \<open>
  \<^verbatim>\<open>src/src/capture/meshcore_usb_source.py\<close>: the capture source of a MeshCore companion on USB, with its connection, its health
  check, the captures made of events and the commands sent through it, and the part of
  \<^verbatim>\<open>src/src/transmit/tx_service.py\<close> that chooses the companion for a message.

  \<^item> The companion library is a parameter, as in \<^verbatim>\<open>Meshcore_Tx\<close>. A connection it opens is a handle with a number; \<open>us_open\<close> lists
    the handles that were opened and not yet closed.
  \<^item> Background tasks are flags. A step of a loop is given what it observes: whether the source still runs, what the library
    answers. Waits are the numbers of seconds.
  \<^item> \<^verbatim>\<open>json.dumps\<close> is a parameter.
\<close>

section \<open>State\<close>

record usb_source =
  us_label :: string
  us_running :: bool
  us_connected :: bool
  us_handle :: "nat option"
  us_open :: "nat list"
  us_next_handle :: nat
  us_subscriptions :: nat
  us_reconnecting :: bool
  us_health_task :: bool
  us_reconnect_task :: bool
  us_callbacks :: nat
  us_has_callback :: bool

definition usb_name :: "usb_source \<Rightarrow> string" where
  "usb_name s = (if us_label s = [] then ''meshcore_usb'' else ''meshcore_usb_'' @ us_label s)"

text \<open>How \<^verbatim>\<open>_connect\<close> goes: opening raises, gives no handle, gives one on which a later call raises after some of the seven
  subscriptions, or succeeds.\<close>

datatype connect_outcome = ConnRaises | ConnNone | ConnBroken nat | ConnOk

definition usb_connect :: "connect_outcome \<Rightarrow> usb_source \<Rightarrow> usb_source" where
  "usb_connect out s =
     (case out of
        ConnRaises \<Rightarrow> s\<lparr>us_connected := False\<rparr>
      | ConnNone \<Rightarrow> s\<lparr>us_handle := None, us_connected := False\<rparr>
      | ConnBroken k \<Rightarrow>
          s\<lparr>us_handle := Some (us_next_handle s), us_open := us_open s @ [us_next_handle s], us_next_handle := Suc (us_next_handle s),
            us_subscriptions := us_subscriptions s + min k 7, us_connected := False\<rparr>
      | ConnOk \<Rightarrow>
          s\<lparr>us_handle := Some (us_next_handle s), us_open := us_open s @ [us_next_handle s], us_next_handle := Suc (us_next_handle s),
            us_subscriptions := us_subscriptions s + 7, us_connected := True,
            us_callbacks := us_callbacks s + (if us_has_callback s then 1 else 0)\<rparr>)"

definition usb_disconnect :: "usb_source \<Rightarrow> usb_source" where
  "usb_disconnect s =
     (case us_handle s of
        None \<Rightarrow> s\<lparr>us_connected := False\<rparr>
      | Some h \<Rightarrow> s\<lparr>us_connected := False, us_subscriptions := 0, us_open := filter (\<lambda>k. k \<noteq> h) (us_open s), us_handle := None\<rparr>)"

definition RECONNECT_BASE_DELAY_SECONDS :: nat where
  "RECONNECT_BASE_DELAY_SECONDS = 5"

definition RECONNECT_MAX_DELAY_SECONDS :: nat where
  "RECONNECT_MAX_DELAY_SECONDS = 60"

text \<open>The loop of \<^verbatim>\<open>_reconnect\<close>. Each round is given whether the source still runs after the wait and how the connection goes; every
  attempt resets the device first. The waits come out with the state; the list runs out where the observation ends.\<close>

fun reconnect_loop :: "nat \<Rightarrow> (bool \<times> connect_outcome) list \<Rightarrow> usb_source \<Rightarrow> nat list \<times> usb_source" where
  "reconnect_loop delay [] s = ([], s)"
| "reconnect_loop delay ((running, out) # rounds) s =
     (if \<not> us_running s then ([], s)
      else if \<not> running then ([delay], s\<lparr>us_running := False\<rparr>)
      else
        let s = usb_connect out s in
        if us_connected s then ([delay], s)
        else (case reconnect_loop (min (delay * 2) RECONNECT_MAX_DELAY_SECONDS) rounds s of (waits, s) \<Rightarrow> (delay # waits, s)))"

definition usb_reconnect :: "(bool \<times> connect_outcome) list \<Rightarrow> usb_source \<Rightarrow> nat list \<times> usb_source" where
  "usb_reconnect rounds s =
     (if us_reconnecting s then ([], s)
      else case reconnect_loop RECONNECT_BASE_DELAY_SECONDS rounds (usb_disconnect (s\<lparr>us_reconnecting := True\<rparr>)) of
        (waits, s) \<Rightarrow> (waits, s\<lparr>us_reconnecting := False\<rparr>))"

definition reconnect_until_connected :: "(bool \<times> connect_outcome) list \<Rightarrow> usb_source \<Rightarrow> nat list \<times> usb_source" where
  "reconnect_until_connected rounds s =
     (case usb_reconnect rounds s of (waits, s) \<Rightarrow> (waits, if us_connected s then s\<lparr>us_health_task := True\<rparr> else s))"

text \<open>\<open>port\<close> is the configured or detected port.\<close>

definition usb_start :: "bool \<Rightarrow> connect_outcome \<Rightarrow> usb_source \<Rightarrow> usb_source" where
  "usb_start port out s =
     (if \<not> port then s
      else
        let s = usb_connect out (s\<lparr>us_running := True\<rparr>) in
        if us_connected s then s\<lparr>us_health_task := True\<rparr> else s\<lparr>us_reconnect_task := True\<rparr>)"

definition usb_stop :: "usb_source \<Rightarrow> usb_source" where
  "usb_stop s = usb_disconnect (s\<lparr>us_running := False, us_reconnect_task := False, us_health_task := False\<rparr>)"

definition trigger_reconnect :: "usb_source \<Rightarrow> usb_source" where
  "trigger_reconnect s =
     (if us_reconnecting s then s else s\<lparr>us_health_task := False, us_connected := False, us_reconnect_task := True\<rparr>)"


section \<open>The health check\<close>

definition HEALTH_CHECK_MAX_FAILURES :: nat where
  "HEALTH_CHECK_MAX_FAILURES = 2"

definition HEALTH_CHECK_INTERVAL_SECONDS :: nat where
  "HEALTH_CHECK_INTERVAL_SECONDS = 180"

definition HEALTH_CHECK_RETRY_DELAY_SECONDS :: nat where
  "HEALTH_CHECK_RETRY_DELAY_SECONDS = 20"

definition has_recent_event_activity :: "time \<Rightarrow> time \<Rightarrow> bool" where
  "has_recent_event_activity last_event now \<longleftrightarrow> last_event \<noteq> 0 \<and> now - last_event < 120"

text \<open>What one round finds: events arrived lately, the probe is answered, or it is missed. And what it does after the round.\<close>

datatype health_check = RecentEvents | ProbeAnswered | ProbeMissed

datatype health_action = HealthFine | HealthRetry | HealthReconnect

definition health_of_reply :: "bool \<Rightarrow> mc_reply \<Rightarrow> health_check" where
  "health_of_reply handle reply =
     (if \<not> handle then ProbeMissed
      else case reply of ReplyEvent False kind payload \<Rightarrow> ProbeAnswered | _ \<Rightarrow> ProbeMissed)"

fun health_step :: "nat \<Rightarrow> health_check \<Rightarrow> nat \<times> health_action" where
  "health_step failures RecentEvents = (0, HealthFine)"
| "health_step failures ProbeAnswered = (0, HealthFine)"
| "health_step failures ProbeMissed =
     (if Suc failures < HEALTH_CHECK_MAX_FAILURES then (Suc failures, HealthRetry) else (0, HealthReconnect))"

fun health_run :: "nat \<Rightarrow> health_check list \<Rightarrow> health_action list" where
  "health_run failures [] = []"
| "health_run failures (h # hs) = (case health_step failures h of (failures, a) \<Rightarrow> a # health_run failures hs)"

text \<open>The seconds from one round to the next, apart from the time a probe takes.\<close>

fun next_check_after :: "health_action \<Rightarrow> nat" where
  "next_check_after HealthRetry = HEALTH_CHECK_RETRY_DELAY_SECONDS + HEALTH_CHECK_INTERVAL_SECONDS"
| "next_check_after _ = HEALTH_CHECK_INTERVAL_SECONDS"


section \<open>Events\<close>

definition USB_QUEUE_SIZE :: nat where
  "USB_QUEUE_SIZE = 500"

definition on_event :: "bool \<Rightarrow> time \<Rightarrow> 'e \<Rightarrow> time \<times> 'e list \<Rightarrow> time \<times> 'e list" where
  "on_event running now ev lq =
     (if \<not> running then lq
      else (now, if length (snd lq) < USB_QUEUE_SIZE then snd lq @ [ev] else snd lq))"

text \<open>An event with the companion's \<^verbatim>\<open>self_info\<close> at the time it is wrapped (empty when there is none).\<close>

record companion_event =
  ce_type :: string
  ce_payload :: pyval
  ce_radio :: pydict

definition event_dict :: "companion_event \<Rightarrow> pydict" where
  "event_dict ev = (case ce_payload ev of PDict d \<Rightarrow> d | _ \<Rightarrow> [])"

text \<open>\<^verbatim>\<open>float(v)\<close> unless the value is missing; \<open>None\<close> is an exception.\<close>

definition float_or :: "text_lib \<Rightarrow> rat \<Rightarrow> pyval \<Rightarrow> rat option" where
  "float_or T dflt v = (if v = PNone then Some dflt else float_of T v)"

definition radio_float :: "text_lib \<Rightarrow> string \<Rightarrow> pydict \<Rightarrow> rat option" where
  "radio_float T k info = (if info = [] then Some 0 else float_of T (dget_or k (PFloat 0) info))"

definition radio_int :: "text_lib \<Rightarrow> string \<Rightarrow> pydict \<Rightarrow> int option" where
  "radio_int T k info =
     (if info = [] then Some 0 else case int_of T (dget_or k (PInt 0) info) of Inr i \<Rightarrow> Some i | Inl _ \<Rightarrow> None)"

definition extract_signal :: "text_lib \<Rightarrow> pydict \<Rightarrow> pydict \<Rightarrow> signal_metrics option" where
  "extract_signal T payload info =
     (case (radio_float T ''radio_freq'' info, radio_float T ''radio_bw'' info, radio_int T ''radio_sf'' info,
            float_or T (- 120) (dget_or ''rssi'' (dget ''RSSI'' payload) payload),
            float_or T 0 (dget_or ''snr'' (dget ''SNR'' payload) payload)) of
        (Some f, Some b, Some sf, Some r, Some n) \<Rightarrow>
          Some \<lparr>rssi = r, snr = n, frequency_mhz = f, spreading_factor = sf, bandwidth_khz = b, coding_rate = ''N/A''\<rparr>
      | _ \<Rightarrow> None)"

fun make_json_safe :: "pydict \<Rightarrow> pydict" and make_value_safe :: "pyval \<Rightarrow> pyval" where
  "make_json_safe [] = []"
| "make_json_safe ((k, v) # d) = (k, make_value_safe v) # make_json_safe d"
| "make_value_safe (PBytes b) = pstr (bytes_hex hexdig b)"
| "make_value_safe (PDict d) = PDict (make_json_safe d)"
| "make_value_safe v = v"

definition RF_FLOOR :: rat where
  "RF_FLOOR = - 119"

definition is_rf_log :: "companion_event \<Rightarrow> bool" where
  "is_rf_log ev \<longleftrightarrow> ce_type ev = ''rx_log_data''"

definition is_message :: "companion_event \<Rightarrow> bool" where
  "is_message ev \<longleftrightarrow> ce_type ev \<in> {''channel_message'', ''contact_message'', ''advertisement''}"

text \<open>What \<^verbatim>\<open>_wrap_event\<close> makes: a capture (with the envelope before it is printed), or nothing for a radio log entry, and the signal
  it remembers. \<open>None\<close> is an exception.\<close>

record wrapped =
  wr_envelope :: pyval
  wr_signal :: signal_metrics

definition with_rf_signal :: "signal_metrics \<Rightarrow> pydict \<Rightarrow> pydict" where
  "with_rf_signal sig d = AList.update ''SNR'' (PFloat (snr sig)) (AList.update ''RSSI'' (PFloat (rssi sig)) d)"

definition envelope_of :: "companion_event \<Rightarrow> pydict \<Rightarrow> pyval" where
  "envelope_of ev d = PDict [(''event_type'', pstr (ce_type ev)), (''payload'', PDict d)]"

definition wrap_event ::
    "text_lib \<Rightarrow> companion_event \<Rightarrow> signal_metrics option \<Rightarrow> (wrapped option \<times> signal_metrics option) option" where
  "wrap_event T ev last_rf =
     (case extract_signal T (event_dict ev) (ce_radio ev) of
        None \<Rightarrow> None
      | Some sig \<Rightarrow>
          if is_rf_log ev then Some (None, if rssi sig > RF_FLOOR then Some sig else last_rf)
          else
            let safe = make_json_safe (event_dict ev) in
            if is_message ev then
              (case last_rf of
                 Some rf \<Rightarrow>
                   if rssi sig \<le> RF_FLOOR then Some (Some \<lparr>wr_envelope = envelope_of ev (with_rf_signal rf safe), wr_signal = rf\<rparr>, None)
                   else Some (Some \<lparr>wr_envelope = envelope_of ev safe, wr_signal = sig\<rparr>, None)
               | None \<Rightarrow> Some (Some \<lparr>wr_envelope = envelope_of ev safe, wr_signal = sig\<rparr>, None))
            else Some (Some \<lparr>wr_envelope = envelope_of ev safe, wr_signal = sig\<rparr>, last_rf))"

text \<open>The capture yielded, with \<^verbatim>\<open>json.dumps\<close> given.\<close>

definition capture_of_event :: "(pyval \<Rightarrow> bytes option) \<Rightarrow> string \<Rightarrow> time \<Rightarrow> wrapped \<Rightarrow> raw_capture option" where
  "capture_of_event dumps name now w =
     (case dumps (wr_envelope w) of
        None \<Rightarrow> None
      | Some bs \<Rightarrow> Some \<lparr>rc_payload = bs, rc_signal = Some (wr_signal w), rc_capture_source = name, rc_timestamp = now,
                        rc_protocol_hint = Some MESHCORE, rc_pre_decoded = None\<rparr>)"

text \<open>A stretch of the event stream, until an exception ends the generator.\<close>

fun wrap_run :: "text_lib \<Rightarrow> companion_event list \<Rightarrow> signal_metrics option \<Rightarrow> (wrapped option list \<times> signal_metrics option) option" where
  "wrap_run T [] last_rf = Some ([], last_rf)"
| "wrap_run T (ev # evs) last_rf =
     (case wrap_event T ev last_rf of
        None \<Rightarrow> None
      | Some (w, last_rf) \<Rightarrow>
          (case wrap_run T evs last_rf of None \<Rightarrow> None | Some (ws, last_rf) \<Rightarrow> Some (w # ws, last_rf)))"


section \<open>Commands through the source\<close>

text \<open>\<open>handle\<close> gives the reply to the command; the second component tells whether automatic fetching is started again.\<close>

definition through_source :: "(mc_reply option \<Rightarrow> mc_result) \<Rightarrow> mc_reply \<Rightarrow> usb_source \<Rightarrow> mc_result \<times> bool \<times> usb_source" where
  "through_source send reply s =
     (if \<not> us_connected s then (mc_fail (lit ''Not connected''), False, s)
      else
        let r = send (if us_handle s = None then None else Some reply) in
        if mr_timed_out r then (r, False, trigger_reconnect s)
        else (r, us_handle s \<noteq> None, s))"

definition source_send_advert :: "bool \<Rightarrow> mc_reply \<Rightarrow> usb_source \<Rightarrow> mc_result \<times> bool \<times> usb_source" where
  "source_send_advert flood reply s = through_source (\<lambda>mc. fst (send_companion_advert flood mc)) reply s"

definition source_send_direct :: "ustr \<Rightarrow> ustr \<Rightarrow> mc_reply \<Rightarrow> usb_source \<Rightarrow> mc_result \<times> bool \<times> usb_source" where
  "source_send_direct dst msg reply s = through_source (\<lambda>mc. fst (send_mc_direct_message dst msg mc)) reply s"

definition source_send_channel :: "int \<Rightarrow> ustr \<Rightarrow> mc_reply \<Rightarrow> usb_source \<Rightarrow> mc_result \<times> bool \<times> usb_source" where
  "source_send_channel channel msg reply s = through_source (\<lambda>mc. fst (send_mc_channel_message channel msg mc)) reply s"

definition source_set_name :: "text_lib \<Rightarrow> ustr \<Rightarrow> mc_reply \<Rightarrow> usb_source \<Rightarrow> (mc_result \<times> bool \<times> usb_source) option" where
  "source_set_name T name reply s =
     (if \<not> us_connected s then Some (mc_fail (lit ''Not connected''), False, s)
      else case fst (send_set_companion_name T name (if us_handle s = None then None else Some reply) None) of
        None \<Rightarrow> None
      | Some r \<Rightarrow> if mr_timed_out r then Some (r, False, trigger_reconnect s) else Some (r, us_handle s \<noteq> None, s))"


section \<open>Setting the radio over an exclusive connection\<close>

text \<open>What happens on the way: the first connection (\<open>None\<close> when the handshake fails) with the reply to \<^verbatim>\<open>set_radio\<close>, and the second
  one with the \<^verbatim>\<open>self_info\<close> it reads.\<close>

record radio_apply =
  ap_stoppable :: bool
  ap_first :: "mc_reply option"
  ap_second :: "pydict option"

definition RADIO_FREQ_MATCH_TOLERANCE_MHZ :: rat where
  "RADIO_FREQ_MATCH_TOLERANCE_MHZ = 2 / 1000"

definition RADIO_BW_MATCH_TOLERANCE_KHZ :: rat where
  "RADIO_BW_MATCH_TOLERANCE_KHZ = 1 / 10"

definition radio_matches :: "rat \<Rightarrow> rat \<Rightarrow> int \<Rightarrow> int \<Rightarrow> mc_radio_status \<Rightarrow> bool" where
  "radio_matches freq bw sf cr st \<longleftrightarrow>
     \<bar>rs_frequency_mhz st - freq\<bar> \<le> RADIO_FREQ_MATCH_TOLERANCE_MHZ \<and> \<bar>rs_bandwidth_khz st - bw\<bar> \<le> RADIO_BW_MATCH_TOLERANCE_KHZ \<and>
     rs_spreading_factor st = sf \<and> rs_coding_rate st = cr"

definition verify_radio :: "text_lib \<Rightarrow> rat \<Rightarrow> rat \<Rightarrow> int \<Rightarrow> int \<Rightarrow> pydict option \<Rightarrow> mc_result" where
  "verify_radio T freq bw sf cr second =
     (case second of
        None \<Rightarrow> mc_timeout (lit ''set_radio sent but the companion did not come back for verify'')
      | Some info \<Rightarrow>
          (case read_radio_status T info of
             None \<Rightarrow> mc_timeout (lit ''set_radio sent; companion reconnected but its radio info is unavailable; check the preset and retry'')
           | Some st \<Rightarrow>
               if radio_matches freq bw sf cr st then mc_ok []
               else mc_timeout (lit ''set_radio sent; the radio of the companion is different'')))"

definition apply_radio_params_exclusive :: "text_lib \<Rightarrow> rat \<Rightarrow> rat \<Rightarrow> int \<Rightarrow> int \<Rightarrow> radio_apply \<Rightarrow> mc_result" where
  "apply_radio_params_exclusive T freq bw sf cr ap =
     (case ap_first ap of
        None \<Rightarrow> mc_fail (lit ''MeshCore handshake failed during exclusive radio set'')
      | Some reply \<Rightarrow>
          let r = fst (send_set_radio_params T (ap_stoppable ap) freq bw sf cr (Some reply)) in
          if mr_success r \<or> mr_timed_out r then verify_radio T freq bw sf cr (ap_second ap) else r)"

text \<open>The source lets go of the port, and takes it back through its reconnection whatever happened.\<close>

definition detach_for_exclusive :: "usb_source \<Rightarrow> usb_source" where
  "detach_for_exclusive s = usb_disconnect (s\<lparr>us_health_task := False, us_reconnect_task := False, us_reconnecting := False\<rparr>)"

definition reattach_after_exclusive :: "usb_source \<Rightarrow> usb_source" where
  "reattach_after_exclusive s = (if us_running s then s\<lparr>us_reconnect_task := True\<rparr> else s)"

definition source_set_radio :: "text_lib \<Rightarrow> rat \<Rightarrow> rat \<Rightarrow> int \<Rightarrow> int \<Rightarrow> radio_apply \<Rightarrow> usb_source \<Rightarrow> mc_result \<times> usb_source" where
  "source_set_radio T freq bw sf cr ap s =
     (if \<not> us_connected s then (mc_fail (lit ''Not connected''), s)
      else (apply_radio_params_exclusive T freq bw sf cr ap, reattach_after_exclusive (detach_for_exclusive s)))"


section \<open>Choosing the companion\<close>

text \<open>A companion of the send path: its source, and the reply its connection would give.\<close>

type_synonym companion = "usb_source \<times> mc_reply"

definition is_mc_broadcast :: "destination \<Rightarrow> bool" where
  "is_mc_broadcast dst =
     (case dst of
        DestInt n \<Rightarrow> n = 0 \<or> n = 65535
      | DestStr s \<Rightarrow> lower s \<in> {''broadcast'', ''ffff'', ''0''})"

definition dest_text :: "destination \<Rightarrow> string" where
  "dest_text dst = (case dst of DestInt n \<Rightarrow> fmt_d n | DestStr s \<Rightarrow> s)"

definition resolve_meshcore_send_source :: "database option \<Rightarrow> companion list \<Rightarrow> destination \<Rightarrow> companion option" where
  "resolve_meshcore_send_source repo sources dst =
     (case repo of
        None \<Rightarrow> None
      | Some db \<Rightarrow>
          if sources = [] then None
          else (case get_latest_capture_source (dropWhile (\<lambda>c. c = CHR ''!'') (lower (dest_text dst))) db of
             None \<Rightarrow> None
           | Some name \<Rightarrow>
               if name = [] then None else find (\<lambda>(s, _). usb_name s = name \<and> us_connected s) sources))"

definition pick_result :: "mc_result list \<Rightarrow> mc_result" where
  "pick_result rs = (case find mr_success rs of Some r \<Rightarrow> r | None \<Rightarrow> hd rs)"

text \<open>\<open>client\<close> is the primary client with the reply of its connection. The second component lists the companions a message went to,
  by the name of the source, the primary client as \<open>None\<close>.\<close>

definition send_meshcore ::
    "(mc_client \<times> mc_reply) option \<Rightarrow> database option \<Rightarrow> companion list \<Rightarrow> ustr \<Rightarrow> destination \<Rightarrow> int \<Rightarrow> mc_result \<times> string option list" where
  "send_meshcore client repo sources msg dst channel =
     (case client of
        None \<Rightarrow> (mc_fail (lit ''MeshCore companion not connected''), [])
      | Some (c, reply) \<Rightarrow>
          if \<not> mc_connected c then (mc_fail (lit ''MeshCore companion not connected''), [])
          else if is_mc_broadcast dst then
            (case filter (\<lambda>(s, _). us_connected s) sources of
               [] \<Rightarrow> (fst (send_channel_message c channel msg reply), [None])
             | live \<Rightarrow> (pick_result (map (\<lambda>(s, r). fst (source_send_channel channel msg r s)) live), map (\<lambda>(s, _). Some (usb_name s)) live))
          else
            (case resolve_meshcore_send_source repo sources dst of
               Some (s, r) \<Rightarrow> (fst (source_send_direct (lit (dest_text dst)) msg r s), [Some (usb_name s)])
             | None \<Rightarrow> (fst (send_direct_message c (lit (dest_text dst)) msg reply), [None])))"



section \<open>Properties\<close>

subsection \<open>Radio log entries and messages\<close>

text \<open>The strong radio log entry that came last since the last message, if there is one.\<close>

definition rf_signal_of :: "text_lib \<Rightarrow> companion_event \<Rightarrow> signal_metrics option" where
  "rf_signal_of T ev =
     (if \<not> is_rf_log ev then None
      else case extract_signal T (event_dict ev) (ce_radio ev) of
        None \<Rightarrow> None | Some sig \<Rightarrow> if rssi sig > RF_FLOOR then Some sig else None)"

definition heard_since_message :: "text_lib \<Rightarrow> companion_event list \<Rightarrow> signal_metrics option" where
  "heard_since_message T evs =
     (case List.map_filter (rf_signal_of T) (takeWhile (\<lambda>ev. \<not> is_message ev) (rev evs)) of [] \<Rightarrow> None | sig # _ \<Rightarrow> Some sig)"

lemma rf_log_no_message: "is_rf_log ev \<Longrightarrow> \<not> is_message ev"
  by (auto simp: is_rf_log_def is_message_def)

lemma heard_since_message_snoc:
  "heard_since_message T (evs @ [ev]) =
     (if is_message ev then None
      else case rf_signal_of T ev of Some sig \<Rightarrow> Some sig | None \<Rightarrow> heard_since_message T evs)"
  by (simp add: heard_since_message_def map_filter_simps split: option.split)

lemma wrap_event_remembers:
  assumes "wrap_event T ev l = Some (w, l')"
  shows "l' = (if is_message ev then None else case rf_signal_of T ev of Some sig \<Rightarrow> Some sig | None \<Rightarrow> l)"
  using assms rf_log_no_message [of ev]
  by (auto simp: wrap_event_def rf_signal_of_def Let_def split: option.splits if_splits)

lemma wrap_run_snoc:
  "wrap_run T (evs @ [ev]) l =
     (case wrap_run T evs l of
        None \<Rightarrow> None
      | Some (ws, l) \<Rightarrow> (case wrap_event T ev l of None \<Rightarrow> None | Some (w, l) \<Rightarrow> Some (ws @ [w], l)))"
  by (induction evs arbitrary: l) (auto split: option.splits prod.splits)

lemma wrap_run_remembers: "wrap_run T evs None = Some (ws, l) \<Longrightarrow> l = heard_since_message T evs"
proof (induction evs arbitrary: ws l rule: rev_induct)
  case Nil
  then show ?case by (simp add: heard_since_message_def map_filter_simps)
next
  case (snoc ev evs)
  then obtain ws' l' w where "wrap_run T evs None = Some (ws', l')" "wrap_event T ev l' = Some (w, l)"
    by (auto simp: wrap_run_snoc split: option.splits)
  then show ?case using snoc.IH wrap_event_remembers by (simp add: heard_since_message_snoc)
qed

text \<open>C32: A message that carries no signal of its own is given the signal of the strong radio log entry that came last since the
  previous message, and of no earlier one; without such an entry, and when it has a signal of its own, it keeps its own. The
  captures of the events before it do not change this.\<close>

theorem message_signal_pairing:
  assumes "wrap_run T (evs @ [ev]) None = Some (ws, l)" "is_message ev"
  shows "\<exists>own w. extract_signal T (event_dict ev) (ce_radio ev) = Some own \<and> last ws = Some w \<and>
           wr_signal w = (case heard_since_message T evs of
                            Some rf \<Rightarrow> if rssi own \<le> RF_FLOOR then rf else own
                          | None \<Rightarrow> own)"
proof -
  obtain ws' l' w where run: "wrap_run T evs None = Some (ws', l')" "wrap_event T ev l' = Some (w, l)" "ws = ws' @ [w]"
    using assms(1) by (auto simp: wrap_run_snoc split: option.splits)
  have l': "l' = heard_since_message T evs" using run(1) by (rule wrap_run_remembers)
  have "\<not> is_rf_log ev" using assms(2) rf_log_no_message by blast
  then show ?thesis using run(2) assms(2) unfolding run(3) l'
    by (auto simp: wrap_event_def Let_def split: option.splits if_splits)
qed

definition demo_usb_lib :: text_lib where
  "demo_usb_lib = \<lparr>tl_json = \<lambda>_. None, tl_str = \<lambda>_. [], tl_int = \<lambda>_. None, tl_float = \<lambda>_. None, tl_lower = \<lambda>s. s, tl_is_hex = \<lambda>_. True\<rparr>"

definition demo_event :: "string \<Rightarrow> pydict \<Rightarrow> companion_event" where
  "demo_event t d = \<lparr>ce_type = t, ce_payload = PDict d, ce_radio = []\<rparr>"

definition demo_events :: "companion_event list" where
  "demo_events = [demo_event ''rx_log_data'' [(''rssi'', PInt (- 80)), (''snr'', PInt 7)], demo_event ''channel_message'' [],
     demo_event ''rx_log_data'' [(''rssi'', PInt (- 91)), (''snr'', PInt 3)], demo_event ''new_contact'' []]"

lemma message_signal_pairing_witness:
  "\<exists>ws l w. wrap_run demo_usb_lib (demo_events @ [demo_event ''contact_message'' []]) None = Some (ws, l) \<and> last ws = Some w \<and>
     rssi (wr_signal w) = - 91"
proof -
  have own: "extract_signal demo_usb_lib (event_dict (demo_event ''contact_message'' [])) (ce_radio (demo_event ''contact_message'' [])) =
      Some \<lparr>rssi = - 120, snr = 0, frequency_mhz = 0, spreading_factor = 0, bandwidth_khz = 0, coding_rate = ''N/A''\<rparr>" by code_simp
  have heard: "heard_since_message demo_usb_lib demo_events =
      Some \<lparr>rssi = - 91, snr = 3, frequency_mhz = 0, spreading_factor = 0, bandwidth_khz = 0, coding_rate = ''N/A''\<rparr>" by code_simp
  have "wrap_run demo_usb_lib (demo_events @ [demo_event ''contact_message'' []]) None \<noteq> None" by code_simp
  then obtain ws l where run: "wrap_run demo_usb_lib (demo_events @ [demo_event ''contact_message'' []]) None = Some (ws, l)" by auto
  have "is_message (demo_event ''contact_message'' [])" by (simp add: is_message_def demo_event_def)
  with message_signal_pairing [OF run this] run show ?thesis unfolding own heard by (auto simp: RF_FLOOR_def)
qed


subsection \<open>The health check\<close>

definition misses :: "health_check list \<Rightarrow> nat" where
  "misses hs = length (takeWhile (\<lambda>h. h = ProbeMissed) (rev hs))"

lemma misses_snoc: "misses (hs @ [h]) = (if h = ProbeMissed then Suc (misses hs) else 0)"
  by (simp add: misses_def)

definition action_after :: "nat \<Rightarrow> health_action" where
  "action_after n = (if n = 0 then HealthFine else if even n then HealthReconnect else HealthRetry)"

lemma health_step_misses:
  "health_step (misses hs mod 2) h = (misses (hs @ [h]) mod 2, action_after (misses (hs @ [h])))"
  by (cases h) (auto simp: misses_snoc action_after_def HEALTH_CHECK_MAX_FAILURES_def mod_Suc even_iff_mod_2_eq_zero)

lemma health_run_from:
  "health_run (misses gs mod 2) hs = map (\<lambda>k. action_after (misses (gs @ take (Suc k) hs))) [0..<length hs]"
proof (induction hs arbitrary: gs)
  case (Cons h hs)
  have "health_run (misses gs mod 2) (h # hs) = action_after (misses (gs @ [h])) # health_run (misses (gs @ [h]) mod 2) hs"
    by (simp only: health_run.simps health_step_misses prod.case)
  also have "\<dots> = action_after (misses (gs @ [h])) # map (\<lambda>k. action_after (misses ((gs @ [h]) @ take (Suc k) hs))) [0..<length hs]"
    using Cons.IH by simp
  also have "\<dots> = map (\<lambda>k. action_after (misses (gs @ take (Suc k) (h # hs)))) [0..<length (h # hs)]"
    by (simp add: upt_conv_Cons map_Suc_upt [symmetric] comp_def del: upt_Suc)
  finally show ?case .
qed simp

text \<open>The source reconnects after a check exactly when it is the second, the fourth and so on of a run of missed probes without
  an answer or any event between them.\<close>

lemma health_reconnects_iff:
  assumes "k < length hs"
  shows "health_run 0 hs ! k = HealthReconnect \<longleftrightarrow> misses (take (Suc k) hs) > 0 \<and> even (misses (take (Suc k) hs))"
  using assms health_run_from [of "[]" hs] by (simp add: misses_def action_after_def)

text \<open>The check after a missed probe comes later, not sooner, than the one after an answered probe.\<close>

lemma retry_is_later: "next_check_after HealthRetry = 200" "next_check_after HealthFine = 180"
  by (simp_all add: HEALTH_CHECK_RETRY_DELAY_SECONDS_def HEALTH_CHECK_INTERVAL_SECONDS_def)


subsection \<open>Connections\<close>

text \<open>The waits double from the base to the maximum.\<close>

lemma min_scale: "1 \<le> p \<Longrightarrow> min (min a m * p) m = min (a * p) (m :: nat)"
proof -
  assume p: "1 \<le> p"
  have "m \<le> m * p" using p by simp
  moreover have "m \<le> a * p" if "m \<le> a" using that p by (metis mult_le_mono nat_mult_1_right)
  ultimately show ?thesis by (auto simp: min_def)
qed

lemma reconnect_waits:
  "i < length (fst (reconnect_loop d rounds s)) \<Longrightarrow> d \<le> RECONNECT_MAX_DELAY_SECONDS \<Longrightarrow>
   fst (reconnect_loop d rounds s) ! i = min (d * 2 ^ i) RECONNECT_MAX_DELAY_SECONDS"
proof (induction d rounds s arbitrary: i rule: reconnect_loop.induct)
  case (2 delay running out rounds s)
  show ?case
  proof (cases "us_running s \<and> running \<and> \<not> us_connected (usb_connect out s)")
    case True
    obtain ws s' where r: "reconnect_loop (min (delay * 2) RECONNECT_MAX_DELAY_SECONDS) rounds (usb_connect out s) = (ws, s')"
      by (cases "reconnect_loop (min (delay * 2) RECONNECT_MAX_DELAY_SECONDS) rounds (usb_connect out s)")
    have IH: "j < length ws \<Longrightarrow> ws ! j = min (min (delay * 2) RECONNECT_MAX_DELAY_SECONDS * 2 ^ j) RECONNECT_MAX_DELAY_SECONDS" for j
      using 2(1) [OF _ _ refl, of j] True r by simp
    have m: "min (min (delay * 2) RECONNECT_MAX_DELAY_SECONDS * 2 ^ j) RECONNECT_MAX_DELAY_SECONDS =
        min (delay * 2 ^ Suc j) RECONNECT_MAX_DELAY_SECONDS" for j
      using min_scale [of "2 ^ j" "delay * 2"] by (simp add: mult.assoc)
    show ?thesis using 2(2,3) True r IH m by (cases i) (auto simp: Let_def)
  next
    case False
    then have "fst (reconnect_loop delay ((running, out) # rounds) s) \<in> {[], [delay]}" by (auto simp: Let_def)
    then show ?thesis using 2(2,3) by (auto simp: min_def)
  qed
qed simp

text \<open>At most one handle is open, the one the source holds, and a connected source holds one.\<close>

definition usb_ok :: "usb_source \<Rightarrow> bool" where
  "usb_ok s \<longleftrightarrow> us_open s = (case us_handle s of None \<Rightarrow> [] | Some h \<Rightarrow> [h]) \<and> (us_connected s \<longrightarrow> us_handle s \<noteq> None)"

lemma usb_ok_disconnect: "usb_ok s \<Longrightarrow> usb_ok (usb_disconnect s) \<and> us_handle (usb_disconnect s) = None"
  by (auto simp: usb_ok_def usb_disconnect_def split: option.splits)

lemma usb_ok_connect: "usb_ok s \<Longrightarrow> us_handle s = None \<Longrightarrow> usb_ok (usb_connect out s)"
  by (cases out) (auto simp: usb_ok_def usb_connect_def)

lemma clean_connect_failed:
  "us_handle s = None \<Longrightarrow> (\<And>k. out \<noteq> ConnBroken k) \<Longrightarrow> \<not> us_connected (usb_connect out s) \<Longrightarrow> us_handle (usb_connect out s) = None"
  by (cases out) (auto simp: usb_connect_def)

definition clean_rounds :: "(bool \<times> connect_outcome) list \<Rightarrow> bool" where
  "clean_rounds rounds \<longleftrightarrow> list_all (\<lambda>(_, out). case out of ConnBroken k \<Rightarrow> False | _ \<Rightarrow> True) rounds"

lemma usb_ok_reconnect_loop:
  "clean_rounds rounds \<Longrightarrow> usb_ok s \<Longrightarrow> us_handle s = None \<Longrightarrow> usb_ok (snd (reconnect_loop d rounds s))"
proof (induction d rounds s rule: reconnect_loop.induct)
  case (2 delay running out rounds s)
  have clean: "clean_rounds rounds" and out: "\<And>k. out \<noteq> ConnBroken k" using 2(2) by (auto simp: clean_rounds_def)
  have ok: "usb_ok (usb_connect out s)" using 2(3,4) by (rule usb_ok_connect)
  show ?case
  proof (cases "us_running s \<and> running \<and> \<not> us_connected (usb_connect out s)")
    case True
    then have "usb_ok (snd (reconnect_loop (min (delay * 2) RECONNECT_MAX_DELAY_SECONDS) rounds (usb_connect out s)))"
      using 2(1) [OF _ _ refl _ clean ok] clean_connect_failed [OF 2(4) out] by simp
    then show ?thesis using True by (auto simp: Let_def split: prod.splits)
  next
    case False
    then show ?thesis using 2(3) ok by (auto simp: Let_def usb_ok_def)
  qed
qed simp

lemma usb_ok_flags:
  "usb_ok s \<Longrightarrow> usb_ok (s\<lparr>us_reconnecting := b\<rparr>)" "usb_ok s \<Longrightarrow> usb_ok (s\<lparr>us_health_task := b\<rparr>)"
  "usb_ok s \<Longrightarrow> usb_ok (s\<lparr>us_reconnect_task := b\<rparr>)" "usb_ok s \<Longrightarrow> usb_ok (s\<lparr>us_running := b\<rparr>)"
  by (simp_all add: usb_ok_def)

lemma usb_ok_reconnect: "clean_rounds rounds \<Longrightarrow> usb_ok s \<Longrightarrow> usb_ok (snd (usb_reconnect rounds s))"
  using usb_ok_reconnect_loop [of rounds "usb_disconnect (s\<lparr>us_reconnecting := True\<rparr>)" RECONNECT_BASE_DELAY_SECONDS]
    usb_ok_disconnect [of "s\<lparr>us_reconnecting := True\<rparr>"]
  by (auto simp: usb_reconnect_def usb_ok_flags split: prod.splits)

lemma usb_ok_trigger: "usb_ok s \<Longrightarrow> usb_ok (trigger_reconnect s)"
  by (auto simp: trigger_reconnect_def usb_ok_def)

lemma usb_ok_stop: "usb_ok s \<Longrightarrow> usb_ok (usb_stop s) \<and> us_open (usb_stop s) = []"
  using usb_ok_disconnect [of "s\<lparr>us_running := False, us_reconnect_task := False, us_health_task := False\<rparr>"]
  by (auto simp: usb_stop_def usb_ok_def)

text \<open>A handle on which a call after the handshake raises is not closed before the next attempt opens another.\<close>

lemma broken_connect_leaks:
  assumes "usb_ok s" "us_running s" "\<not> us_reconnecting s"
  shows "length (us_open (snd (usb_reconnect [(True, ConnBroken k), (True, ConnOk)] s))) = 2 \<and>
         us_open (usb_stop (snd (usb_reconnect [(True, ConnBroken k), (True, ConnOk)] s))) \<noteq> []"
  using assms by (auto simp: usb_reconnect_def usb_disconnect_def usb_connect_def usb_stop_def usb_ok_def Let_def split: option.splits)


subsection \<open>Commands\<close>

text \<open>Setting the radio of a companion is reported as done exactly when the parameters are within what the firmware takes, the
  companion did not refuse them (it accepted or gave no answer), and after the restart it reports a radio within the tolerances
  of what was asked. And however it ends, a running source is left with its reconnection started.\<close>

lemma set_radio_verified:
  assumes "us_connected s"
  shows "(mr_success (fst (source_set_radio T freq bw sf cr ap s)) \<longleftrightarrow>
            (\<exists>reply info st. ap_first ap = Some reply \<and> ap_second ap = Some info \<and> read_radio_status T info = Some st \<and>
               radio_matches freq bw sf cr st \<and>
               (let r = fst (send_set_radio_params T (ap_stoppable ap) freq bw sf cr (Some reply)) in mr_success r \<or> mr_timed_out r))) \<and>
         (us_running s \<longrightarrow> us_reconnect_task (snd (source_set_radio T freq bw sf cr ap s)))"
proof (intro conjI impI)
  have v: "mr_success (verify_radio T freq bw sf cr second) \<longleftrightarrow>
      (\<exists>info st. second = Some info \<and> read_radio_status T info = Some st \<and> radio_matches freq bw sf cr st)" for second
    by (auto simp: verify_radio_def mc_timeout_def mc_ok_def split: option.splits)
  show "mr_success (fst (source_set_radio T freq bw sf cr ap s)) \<longleftrightarrow>
            (\<exists>reply info st. ap_first ap = Some reply \<and> ap_second ap = Some info \<and> read_radio_status T info = Some st \<and>
               radio_matches freq bw sf cr st \<and>
               (let r = fst (send_set_radio_params T (ap_stoppable ap) freq bw sf cr (Some reply)) in mr_success r \<or> mr_timed_out r))"
    using assms by (auto simp: source_set_radio_def apply_radio_params_exclusive_def mc_fail_def v Let_def split: option.splits)
next
  assume "us_running s"
  then show "us_reconnect_task (snd (source_set_radio T freq bw sf cr ap s))"
    using assms by (auto simp: source_set_radio_def reattach_after_exclusive_def detach_for_exclusive_def usb_disconnect_def split: option.splits)
qed

text \<open>A broadcast succeeds exactly when it goes out on one of the connected companions.\<close>

lemma pick_result_success: "rs \<noteq> [] \<Longrightarrow> mr_success (pick_result rs) \<longleftrightarrow> (\<exists>r\<in>set rs. mr_success r)"
  by (auto simp: pick_result_def find_None_iff find_Some_iff split: option.splits)

lemma broadcast_success:
  assumes "mc_connected c" "is_mc_broadcast dst" "filter (\<lambda>(s, _). us_connected s) sources = live" "live \<noteq> []"
  shows "snd (send_meshcore (Some (c, reply)) repo sources msg dst channel) = map (\<lambda>(s, _). Some (usb_name s)) live"
    and "mr_success (fst (send_meshcore (Some (c, reply)) repo sources msg dst channel)) \<longleftrightarrow>
         (\<exists>(s, r)\<in>set live. mr_success (fst (source_send_channel channel msg r s)))"
proof -
  have e: "send_meshcore (Some (c, reply)) repo sources msg dst channel =
      (pick_result (map (\<lambda>(s, r). fst (source_send_channel channel msg r s)) live), map (\<lambda>(s, _). Some (usb_name s)) live)"
    using assms by (auto simp: send_meshcore_def split: list.splits)
  show "snd (send_meshcore (Some (c, reply)) repo sources msg dst channel) = map (\<lambda>(s, _). Some (usb_name s)) live" by (simp add: e)
  show "mr_success (fst (send_meshcore (Some (c, reply)) repo sources msg dst channel)) \<longleftrightarrow>
         (\<exists>(s, r)\<in>set live. mr_success (fst (source_send_channel channel msg r s)))"
    using assms(4) by (simp add: e pick_result_success) (auto simp: split_def)
qed

text \<open>A direct message goes out once, on the connected companion that last heard the contact, else on the primary one.\<close>

lemma direct_message_route:
  assumes "mc_connected c" "\<not> is_mc_broadcast dst"
  shows "snd (send_meshcore (Some (c, reply)) repo sources msg dst channel) =
           [map_option (\<lambda>(s, _). usb_name s) (resolve_meshcore_send_source repo sources dst)]"
  using assms by (auto simp: send_meshcore_def split: option.splits)

end
