(* ===== verification/Spec2Isabelle.thy ===== *)
theory Spec2Isabelle
  imports Inbound_Handler Concentrator Broadcasters Pipeline Map_Report Auth_Login Backup_Restore Plugin_Consent Plugin_Load Repeater_Poller Meshcore_Usb
begin

text \<open>
  A verification library for Meshpoint, a LoRa mesh gateway written in Python (under \<^verbatim>\<open>src/src/\<close>). An SX1302
  concentrator, serial radios and USB companions deliver captured frames; the gateway decodes them (Meshtastic,
  MeshCore, LoRaWAN, a pager protocol, plugins), stores packets and nodes in SQLite, shows them on a dashboard,
  publishes them over MQTT, relays some of them, answers those addressed to it, and sends messages and periodic
  broadcasts of its own under a duty-cycle limit.

  \<^bold>\<open>How the parts interact.\<close> A capture source puts raw captures into a bounded queue (\<^verbatim>\<open>capture/\<close>). The pipeline
  (\<^verbatim>\<open>coordinator.py\<close>) takes them one by one: an adapter or the packet router (\<^verbatim>\<open>decode/\<close>) makes a packet of the capture or
  it goes to the stray-frame log; the packet is stored (\<^verbatim>\<open>storage/\<close>), its node and its public key are learned, listeners
  are notified (one of them answers requests, \<^verbatim>\<open>transmit/\<close>), the relay decides (\<^verbatim>\<open>relay/\<close>), the MQTT publisher filters and
  publishes, the statistics count (\<^verbatim>\<open>analytics/\<close>). The transmission service encrypts, paces and sends what the
  dashboard, the answers, the relay and the broadcasters hand to it. Beside the packet path stand the accounts and sessions of the
  dashboard (\<^verbatim>\<open>api/auth/\<close>), plugins with their sources and installer (\<^verbatim>\<open>plugins/\<close>), backups (\<^verbatim>\<open>backup/\<close>), and the
  MeshCore companions with their own capture source, client and repeater poller.

  \<^bold>\<open>Theories and sources.\<close>
  \<^item> \<open>Prelude\<close>: bytes, hexadecimal and decimal texts, dynamically typed Python values, rounding (\<open>Py_Countable\<close>: they are countable);
    \<open>Sliding_Window\<close>, \<open>Keyed_Store\<close>:
    the contracts (locales) of a time window of events and of a table of rows merged by key; \<open>Utf8\<close>, \<open>Base64\<close>, \<open>Sha256\<close>,
    \<open>Protobuf_Wire\<close>: the library codecs the sources call; \<open>Stream_Cipher\<close>: the contract of a counter-mode cipher.
  \<^item> \<open>Models\<close>: \<^verbatim>\<open>models/\<close>, packets, captures, signal, nodes, telemetry.
  \<^item> \<open>Dedup_Filter\<close>, \<open>Rate_Limiter\<close>, \<open>Relay_Manager\<close>: \<^verbatim>\<open>relay/dedup_filter.py\<close>, \<^verbatim>\<open>rate_limiter.py\<close>, \<^verbatim>\<open>relay_manager.py\<close>,
    \<^verbatim>\<open>meshtastic_transmitter.py\<close>.
  \<^item> \<open>Aes_Ccm\<close>, \<open>Pki_Crypto\<close>, \<open>Crypto_Service\<close>, \<open>Portnum_Handlers\<close>, \<open>Meshtastic_Decoder\<close>, \<open>Meshcore_Decoder\<close>, \<open>Lorawan_Crypto\<close>,
    \<open>Lorawan_Decoder\<close>, \<open>Packet_Router\<close>, \<open>Event_Adapters\<close>: the modules of \<^verbatim>\<open>decode/\<close> of the same names.
  \<^item> \<open>Duty_Cycle\<close>, \<open>Reply_Hop_Policy\<close>, \<open>Meshtastic_Builder\<close>, \<open>Tx_Service\<close>, \<open>Tx_Messages\<close>, \<open>Inbound_Handler\<close>, \<open>Broadcast_Interval\<close>,
    \<open>Broadcasters\<close>: the modules of \<^verbatim>\<open>transmit/\<close> (\<open>Tx_Service\<close> the radio path of \<^verbatim>\<open>tx_service.py\<close>, \<open>Tx_Messages\<close> its send methods).
  \<^item> \<open>Channel_Resolver\<close>, \<open>Mqtt_Privacy\<close>, \<open>Mqtt_Publisher\<close>: \<^verbatim>\<open>relay/channel_resolver.py\<close>, \<^verbatim>\<open>mqtt_privacy.py\<close>, \<^verbatim>\<open>mqtt_publisher.py\<close>,
    \<^verbatim>\<open>mqtt_formatter.py\<close>, \<^verbatim>\<open>hal/location/privacy.py\<close>; \<open>Map_Report\<close>: \<^verbatim>\<open>relay/map_report.py\<close> with its publication and its loop.
  \<^item> \<open>Radio_Plan\<close>: \<^verbatim>\<open>radio/\<close> and \<^verbatim>\<open>hal/concentrator_config.py\<close>; \<open>Concentrator\<close>: the reception side of \<^verbatim>\<open>hal/sx1302_wrapper.py\<close>,
    \<^verbatim>\<open>capture/concentrator_source.py\<close>, \<^verbatim>\<open>capture/capture_coordinator.py\<close>.
  \<^item> \<open>Storage\<close>: the repositories of \<^verbatim>\<open>storage/\<close>; \<open>Analytics\<close>: \<^verbatim>\<open>analytics/\<close> and \<^verbatim>\<open>api/topology_graph.py\<close>.
  \<^item> \<open>Meshcore_Tx\<close>, \<open>Repeater_Poller\<close>, \<open>Meshcore_Usb\<close>: \<^verbatim>\<open>transmit/meshcore_tx_client.py\<close>, \<^verbatim>\<open>transmit/repeater_poller.py\<close>,
    \<^verbatim>\<open>capture/meshcore_usb_source.py\<close> and the MeshCore part of \<^verbatim>\<open>tx_service.py\<close>.
  \<^item> \<open>Lockout\<close>, \<open>Audit_Log\<close>, \<open>Auth_Service\<close>, \<open>Auth_Routes\<close>: the modules of \<^verbatim>\<open>api/auth/\<close>, \<^verbatim>\<open>api/audit/audit_log.py\<close> and the
    authentication endpoints of \<^verbatim>\<open>api/routes/\<close>; \<open>Auth_Access\<close>, \<open>Auth_Restart\<close>, \<open>Auth_Login\<close>: what they guarantee over any
    requests, over a restart, and from the first setup to a session.
  \<^item> \<open>Backup\<close>, \<open>Backup_Restore\<close>: \<^verbatim>\<open>backup/\<close> and its properties.
  \<^item> \<open>Plugins\<close>, \<open>Plugin_Sources\<close>, \<open>Plugin_Install\<close>: \<^verbatim>\<open>plugins/\<close>; \<open>Plugin_Routes\<close>, \<open>Plugin_Source_Routes\<close>: their endpoints;
    \<open>Plugin_Load\<close>, \<open>Plugin_Deps\<close>, \<open>Plugin_Install_Safe\<close>, \<open>Plugin_Consent\<close>: their properties.
  \<^item> \<open>Pipeline\<close>: \<^verbatim>\<open>coordinator.py\<close> from a capture to all its effects; this theory: the properties that span the components.

  \<^bold>\<open>Conventions.\<close> An object is a record and a method a function from its arguments and the object to the result and the new
  object; clock readings, random numbers and the answers of hardware are arguments. An exception that leaves a function is
  \<^const>\<open>None\<close>, or \<^const>\<open>Inl\<close> with the error where the kind matters. Code outside the repository (AES, X25519, generated
  protobuf classes, the JSON, TOML and tar readers, bcrypt, PyJWT, Scrypt and AES-GCM, the functions of \<^verbatim>\<open>math\<close> on floats, the
  network, the MQTT client, the meshcore library, the code of plugins) is a parameter; what is assumed of it are named
  predicates, such as \<open>aes_lib\<close> (a 16-byte block in, a 16-byte block out, ECB and counter mode of it), \<open>reads_data\<close> (a protobuf
  message with a non-negative 32-bit port number and a payload below \<open>2 ^ 30\<close> bytes is parsed back), \<open>jwt_ok\<close> (a session token
  decodes under its secret while it lasts) and \<open>json_law\<close> (a backup's manifest is read back), and instances show that they can
  hold. Floating-point numbers are rationals with the rounding the code writes; NaN and infinities are kept where a frame can
  bring them in, and the great-circle distance, where rounding can lead outside the domain of a square root, is computed
  with the functions of \<^verbatim>\<open>math\<close> given and may fail. Dictionaries are association lists in insertion order. The file system of
  installations and backups has no symbolic links; error texts that quote data are abbreviated.
  Coroutines run to their next wait: where a component is shared, the interleavings are explicit sequences of steps (the
  broadcast loop with the dashboard's calls, the tasks of the capture coordinator, overlapping transmissions between the
  duty-cycle check and its record). A request to the dashboard and a statement of the message table are one step each.

  \<^bold>\<open>What the lemmas show.\<close> Reception: decoding and the pipeline are total on every frame of the radio, keep the key ring and
  the LoRaWAN sessions sound, and account for every frame; a direct message that opens was
  made with the sender's key. Round
  trips: texts, direct messages, LoRaWAN sessions and MeshCore frames built by one side are read back by the other, and
  a node's key learned from its NodeInfo opens its direct messages. Transmission: airtime and relay rates stay within their
  limits in every window of time (the airtime up to what overlapping transmissions had not yet recorded), a packet is relayed
  once, relayed frames keep every byte but the hop limit, answers go to their sender, broadcasts keep their distance and
  happen. Privacy: only packets of the configured channels are published, the location policy reaches every message made
  from a packet, and the map report gives the position on a coarse grid only. Storage: tables are exactly the history of
  the updates, retention keeps the newest rows. Radio: frequencies and channel plans stay within the band. Accounts: every
  change is justified by a session or a password, a revoked session stays revoked, guessing is throttled, the configuration
  file restores accounts and sessions. Plugins: only declared capabilities of enabled plugins are registered, disabling
  cascades exactly, and files change only by an installation somebody confirmed and only in its folder. Backups: what is
  built is accepted again, and what an accepted archive may hold. MeshCore: the channel table is synchronised exactly,
  signals are paired with their messages, the poller remembers the last good values. The error properties state
  behaviours that contradict what the code means to do.

  \<^bold>\<open>Bounds.\<close> Frames of at most 4080 bytes where the one-byte block counter of LoRaWAN matters (a LoRa frame has at most 255
  bytes); no fuel is used: every recursion has a termination proof.

  \<^bold>\<open>Not modelled.\<close> The FastAPI wiring and the endpoints that only read, the dashboard and the command-line tools (input and
  output around the modelled state); the ctypes bindings and start-up of the concentrator, the serial source, gpsd and UART
  readers (device drivers); the restore script that unpacks an accepted archive; the code of plugins; the upstream client and
  the remote commands; configuration loading apart from the radio frequency and the section of the accounts; logging.
\<close>

section \<open>The whole pipeline\<close>


text \<open>What the concentrator source hands over for a LoRa packet is such a capture.\<close>

lemma concentrator_capture_is_radio:
  assumes "cp_modulation x \<noteq> ''fsk''" "length (cp_payload x) \<le> 256" "int64 (cp_spreading_factor x)"
    and "for_capture_source (pe_specs e) ''concentrator'' = None" "for_protocol (pe_specs e) ''meshtastic'' = None"
    and "for_protocol (pe_specs e) ''lorawan'' = None" "aes_lib (re_lib (pe_router e))"
  shows "radio_capture e (capture_of now x)"
  using assms by (auto simp: radio_capture_def capture_of_def capture_hint_def capture_signal_def starts_with_def)


definition demo_pipe_env :: "mqtt_lib \<Rightarrow> text_lib \<Rightarrow> pipe_env" where
  "demo_pipe_env Q T = \<lparr>pe_router = fi_env (demo_frame [] None), pe_text = T, pe_event_id = ''e1'', pe_specs = [], pe_mqtt = Q,
     pe_math = \<lparr>ml_round = id, ml_radians = (\<lambda>_. 0), ml_sin = (\<lambda>_. 0), ml_cos = (\<lambda>_. 1), ml_sqrt = (\<lambda>_. 0), ml_atan2 = (\<lambda>_ _. 0)\<rparr>, pe_device = Some (52, 13), pe_pager_capcode = 0, pe_now_dedup = 0, pe_now_limit = 0, pe_now_gate = 0,
     pe_now_publish = 0, pe_now = 0\<rparr>"

definition demo_signal :: signal_metrics where
  "demo_signal = \<lparr>rssi = - 90, snr = 5, frequency_mhz = 8695 / 10, spreading_factor = 11, bandwidth_khz = 250, coding_rate = ''4/5''\<rparr>"

definition demo_capture :: "bytes \<Rightarrow> protocol option \<Rightarrow> raw_capture" where
  "demo_capture raw hint = \<lparr>rc_payload = raw, rc_signal = Some demo_signal, rc_capture_source = ''serial'', rc_timestamp = 0,
     rc_protocol_hint = hint, rc_pre_decoded = None\<rparr>"

definition demo_pipeline :: "crypto \<Rightarrow> pipeline" where
  "demo_pipeline cs = \<lparr>pc_router = \<lparr>rt_crypto = cs, rt_lorawan = lorawan_init None\<rparr>, pc_stray = stray_init 500,
     pc_relay = relay_init 20 5 (- 110) (- 50) True, pc_mqtt = None, pc_db = empty_database, pc_stats = stats_init 0, pc_last_node = []\<rparr>"

lemma demo_pipe_inv: "crypto_reach cs \<Longrightarrow> pipe_inv (demo_pipeline cs)"
  by (simp add: pipe_inv_def demo_pipeline_def router_inv_def lorawan_inv_def lorawan_init_def)

lemma demo_radio_capture:
  "length raw \<le> 4080 \<Longrightarrow> h = MESHTASTIC \<or> h = LORAWAN \<Longrightarrow> radio_capture (demo_pipe_env Q T) (demo_capture raw (Some h))"
  by (auto simp: radio_capture_def demo_pipe_env_def demo_capture_def demo_frame_def demo_signal_def starts_with_def for_capture_source_def
      for_protocol_def toy_lib_ok int64_def)



text \<open>A NodeInfo teaches the gateway the public key it carries, and leaves the gateway's own keys alone.\<close>

lemma extract_node_update_source [simp]: "extract_node_update (p\<lparr>capture_source := x\<rparr>) = extract_node_update p"
  by (simp add: extract_node_update_def Let_def split: option.split)

lemma make_packet_protocol: "protocol (make_packet now raw sig h enc v) = MESHTASTIC"
  by (simp add: make_packet_def)

lemma nodeinfo_teaches_key:
  assumes "radio_capture e c" "pipe_inv pc" "rc_protocol_hint c = Some MESHTASTIC"
    and "dispatch e c (pc_router pc) = Some (Some p, rt)" "extract_node_update p = Some n" "node_bindable n"
    and "public_key n = raw_hex key" "node_id n = fmt_x 8 src" "length key = 32" "0 \<le> src"
    and o: "process_capture e c pc = Some (out, pc1)"
  shows "own_keys (rt_crypto (pc_router pc1)) = own_keys (rt_crypto (pc_router pc)) \<and>
    lookup_public_key db src (rt_crypto (pc_router pc1)) = (Some key, rt_crypto (pc_router pc1))"
proof -
  let ?p = "p\<lparr>capture_source := rc_capture_source c\<rparr>" and ?pc = "pc\<lparr>pc_router := rt\<rparr>"
  obtain cs where d: "decode (re_lib (pe_router e)) (re_pb (pe_router e)) (re_db (pe_router e)) (re_db' (pe_router e))
        (re_now (pe_router e)) (re_our (pe_router e)) (rc_payload c) (rc_signal c) (rc_pre_decoded c) (rt_crypto (pc_router pc)) = Some (Some p, cs)"
      "rt = (pc_router pc)\<lparr>rt_crypto := cs\<rparr>"
    using assms(3,4) radio_dispatch [OF assms(1)] by (auto simp: route_in_def route_def frame_of_def via_meshtastic_def)
  have m: "protocol p = MESHTASTIC" using decode_handled [OF d(1)] by (metis make_packet_protocol)
  have b: "packet_bindable ?p" using meshtastic_bindable [OF d(1)] assms(1) by (simp add: radio_capture_def)
  have "process_capture e c pc = deliver e ?p ?pc"
    using assms(1,4) m by (simp add: process_capture_def handle_packet_def tier_of_def radio_capture_def)
  then have "pc_router pc1 = pc_router (store_packet e ?p ?pc)" using deliver_router o by metis
  also have "\<dots> = rt\<lparr>rt_crypto := snd (learn_public_key (re_db (pe_router e)) n (rt_crypto rt))\<rparr>"
    using store_packet_router [OF b, of n e ?pc] m assms(5,6) by simp
  finally show ?thesis
    using learn_public_key_registers [OF assms(7,9,8,10), of "re_db (pe_router e)" cs db] decode_keeps_own_keys [OF d(1)] d(2) by simp
qed

text \<open>C6: a direct message is readable as soon as its sender has introduced itself: once the capture of a node's NodeInfo with its public key
  has been processed, a direct message that this node builds for the gateway is opened by it with that key, without any channel key,
  although no key was configured by hand; and whatever the gateway opens with that key for a packet id of the node is byte for byte what the
  node's private key seals for it, so an altered message, tag included, is not taken for one of the node.\<close>

theorem direct_message_after_nodeinfo:
  assumes "radio_capture e c" "pipe_inv pc" "rc_protocol_hint c = Some MESHTASTIC"
    and "dispatch e c (pc_router pc) = Some (Some p, rt)" "packet_type p = NODEINFO" "extract_node_update p = Some n" "node_bindable n"
    and "public_key n = raw_hex pub_a" "node_id n = fmt_x 8 src"
    and "aes_lib L" "reads_data PB" "u32 dest" "u32 src" "u32 pid" "params_ok tp" "utf8_encode msg = Some bs" "dest \<noteq> BROADCAST_ADDR"
    and "0 \<le> nonce" "nonce < 2 ^ 32" "tp_recipient_public_key tp = Some pub_b" "length pub_b = 32" "length pub_a = 32"
    and "length priv_a = 32" "length priv_b = 32" "x25519 L priv_a pub_b = Some s" "x25519 L priv_b pub_a = Some s"
    and "has_pki tx" "cs_private_key tx = Some priv_a"
    and "own_keys (rt_crypto (pc_router pc)) = (Some priv_b, Some own)" "length bs < 2 ^ 30"
    and "process_capture e c pc = Some (out, pc1)"
  shows "(\<exists>raw q. build_text_message L nonce msg dest src pid ack tp tx = Some (Some raw) \<and>
    decode L PB db db' now (Some dest) raw sig None (rt_crypto (pc_router pc1)) = Some (Some q, rt_crypto (pc_router pc1)) \<and>
    decrypted q \<and> packet_type q = TEXT \<and> decoded_payload q = Some [(''text'', PStr msg)] \<and> matched_channel_index q = None) \<and>
    (\<forall>enc inner. decrypt_meshtastic_pki L enc pid src pub_a (rt_crypto (pc_router pc1)) = Some inner \<longrightarrow>
       encrypt_pki_payload L (le_int (last_n 4 enc)) inner priv_a pub_b src pid = Some enc)"
proof -
  have o: "own_keys (rt_crypto (pc_router pc1)) = own_keys (rt_crypto (pc_router pc))"
      "lookup_public_key db src (rt_crypto (pc_router pc1)) = (Some pub_a, rt_crypto (pc_router pc1))"
    using nodeinfo_teaches_key [OF assms(1-4,6-9,22) _ assms(31), of db] assms(13) by (auto simp: u32_def)
  let ?rx = "rt_crypto (pc_router pc1)"
  have rx: "cs_private_key ?rx = Some priv_b" "has_pki ?rx" using o(1) assms(29) by (simp_all add: own_keys_def has_pki_def)
  have "derive_shared_key L priv_a pub_b = derive_shared_key L priv_b pub_a"
    using assms(21-26) by (simp add: derive_shared_key_def)
  then have "encrypt_pki_payload L e inner priv_a pub_b src pid = encrypt_pki_payload L e inner priv_b pub_a src pid" for e inner
    by (simp add: encrypt_pki_payload_def)
  then have "encrypt_pki_payload L (le_int (last_n 4 enc)) inner priv_a pub_b src pid = Some enc"
    if "decrypt_meshtastic_pki L enc pid src pub_a ?rx = Some inner" for enc inner
    using that rx(1) pki_authentic [OF assms(10), of enc priv_b pub_a src pid inner] by (auto simp: decrypt_meshtastic_pki_def)
  moreover have "\<exists>raw q. build_text_message L nonce msg dest src pid ack tp tx = Some (Some raw) \<and>
      decode L PB db db' now (Some dest) raw sig None ?rx = Some (Some q, ?rx) \<and> decrypted q \<and> packet_type q = TEXT \<and>
      decoded_payload q = Some [(''text'', PStr msg)] \<and> matched_channel_index q = None"
    by (rule text_direct_round_trip [OF assms(10-16,18,19,17,20-26) assms(27,28) rx(2,1) o(2) assms(30)])
  ultimately show ?thesis by blast
qed


definition intro_env :: "mqtt_lib \<Rightarrow> text_lib \<Rightarrow> pipe_env" where
  "intro_env Q T = (demo_pipe_env Q T)\<lparr>pe_router := (fi_env (demo_frame [] None))\<lparr>re_pb := wire_lib\<lparr>parse_user :=
     (\<lambda>_. Some \<lparr>user_id = [], user_long_name = [], user_short_name = [], user_hw_model = 0, user_role = 0, user_public_key = replicate 32 1\<rparr>)\<rparr>\<rparr>\<rparr>"

definition intro_capture :: raw_capture where
  "intro_capture = (demo_capture [255, 255, 255, 255, 5, 0, 0, 0, 6, 0, 0, 0, 0, 0, 0, 0, 1] (Some MESHTASTIC))
     \<lparr>rc_pre_decoded := Some \<lparr>pd_portnum = Some 4, pd_payload = Some [1], pd_request_id = None, pd_channel_name = None\<rparr>\<rparr>"

lemma intro_capture_radio: "radio_capture (intro_env Q T) intro_capture"
  using demo_radio_capture [of "rc_payload intro_capture" MESHTASTIC Q T]
  by (simp add: radio_capture_def intro_env_def intro_capture_def demo_capture_def demo_pipe_env_def demo_frame_def)

lemma intro_dispatch:
  "\<exists>p rt n. dispatch (intro_env Q T) intro_capture (pc_router (demo_pipeline cs)) = Some (Some p, rt) \<and> packet_type p = NODEINFO \<and>
     extract_node_update p = Some n \<and> node_bindable n \<and> public_key n = raw_hex (replicate 32 1) \<and> node_id n = fmt_x 8 5"
proof -
  let ?e = "pe_router (intro_env Q T)"
  let ?v = "use_pre_decoded (re_pb ?e) (the (rc_pre_decoded intro_capture))"
  obtain h where h: "parse_header (take 16 (rc_payload intro_capture)) = Some h" "mh_source_id h = 5"
    by (simp add: parse_header_def slice_def intro_capture_def demo_capture_def)
  let ?p = "make_packet (re_now ?e) (rc_payload intro_capture) (rc_signal intro_capture) h [1] ?v"
  have v: "dv_payload ?v = Some [(''long_name'', PNone), (''short_name'', PNone), (''hw_model'', PNone), (''id'', PNone), (''role'', PNone),
      (''public_key'', raw_hex (replicate 32 1))]" "dv_type ?v = NODEINFO" "dv_request_id ?v = 0" "dv_decrypted ?v"
    by (simp_all add: use_pre_decoded_def intro_capture_def demo_capture_def dispatch_portnum_def HANDLERS_def decode_nodeinfo_def with_pb_def
        intro_env_def demo_frame_def wire_lib_def str_or_none_def enum_or_none_def or_none_def vars_init_def)
  have "first_stage (re_lib ?e) (re_pb ?e) (re_db ?e) (re_db' ?e) (re_our ?e) h (drop 16 (rc_payload intro_capture)) (rc_pre_decoded intro_capture) cs = (?v, cs)"
    by (simp add: first_stage_def intro_capture_def)
  from decode_eq [OF h(1) _ this] have "route_in (frame_of (intro_env Q T) intro_capture) (pc_router (demo_pipeline cs)) =
      Some (Some ?p, pc_router (demo_pipeline cs))"
    using v(4) by (simp add: route_in_def route_def frame_of_def via_meshtastic_def intro_capture_def demo_capture_def mark_encrypted_def demo_pipeline_def)
  then have d: "dispatch (intro_env Q T) intro_capture (pc_router (demo_pipeline cs)) = Some (Some ?p, pc_router (demo_pipeline cs))"
    by (simp add: radio_dispatch [OF intro_capture_radio])
  obtain n where n: "extract_node_update ?p = Some n" "public_key n = raw_hex (replicate 32 1)" "node_id n = fmt_x 8 5"
      "list_all (\<lambda>x. x = PNone) [long_name n, short_name n, hardware_model n, firmware_version n, role n, latitude n, longitude n, altitude n]"
    using v h(2) by (auto simp: extract_node_update_def make_packet_def add_request_id_def default_node_def Let_def)
  have "storable_id (fmt_x 8 5)" by (rule storable_fmt_x) simp
  then have "node_bindable n" using n scalar_bytes_hex by (simp add: node_bindable_def raw_hex_def)
  then show ?thesis using d n v(2) by auto
qed

theorem direct_message_after_nodeinfo_witness:
  "\<forall>Q T. \<exists>out pc1 raw q. process_capture (intro_env Q T) intro_capture
       (demo_pipeline (set_keypair (replicate 32 2) (replicate 32 2) demo_crypto)) = Some (out, pc1) \<and>
     build_text_message toy_lib 7 (lit ''hi'') 9 5 6 True (default_params\<lparr>tp_recipient_public_key := Some (replicate 32 2)\<rparr>) demo_tx = Some (Some raw) \<and>
     decode toy_lib wire_lib (\<lambda>_. None) (\<lambda>_. None) 0 (Some 9) raw None None (rt_crypto (pc_router pc1)) = Some (Some q, rt_crypto (pc_router pc1)) \<and>
     decoded_payload q = Some [(''text'', PStr (lit ''hi''))] \<and> matched_channel_index q = None"
proof (intro allI)
  fix Q T
  let ?rx = "set_keypair (replicate 32 2) (replicate 32 2) demo_crypto" and ?e = "intro_env Q T"
  let ?tp = "default_params\<lparr>tp_recipient_public_key := Some (replicate 32 2)\<rparr>"
  obtain p rt n where d: "dispatch ?e intro_capture (pc_router (demo_pipeline ?rx)) = Some (Some p, rt)" "packet_type p = NODEINFO"
      "extract_node_update p = Some n" "node_bindable n" "public_key n = raw_hex (replicate 32 1)" "node_id n = fmt_x 8 5"
    using intro_dispatch [of Q T ?rx] by blast
  have inv: "pipe_inv (demo_pipeline ?rx)" by (rule demo_pipe_inv [OF crypto_reach.keypair [OF demo_reach]])
  have "\<not> distance_stops ?e intro_capture pc" for pc
    by (simp add: distance_stops_def distance_fails_def demo_pipe_env_def intro_env_def haversine_mi_def)
  then obtain out pc1 where o: "process_capture ?e intro_capture (demo_pipeline ?rx) = Some (out, pc1)"
    using radio_capture_None [OF intro_capture_radio inv] by fastforce
  have u: "utf8_encode (lit ''hi'') = Some [104, 105]" using utf8_encode_lit [of "''hi''"] by simp
  have x: "x25519 toy_lib (replicate 32 1) (replicate 32 2) = Some (replicate 32 3)"
      "x25519 toy_lib (replicate 32 2) (replicate 32 1) = Some (replicate 32 3)"
    by (simp_all add: toy_lib_def numeral_eq_Suc)
  have "\<exists>raw q. build_text_message toy_lib 7 (lit ''hi'') 9 5 6 True ?tp demo_tx = Some (Some raw) \<and>
      decode toy_lib wire_lib (\<lambda>_. None) (\<lambda>_. None) 0 (Some 9) raw None None (rt_crypto (pc_router pc1)) = Some (Some q, rt_crypto (pc_router pc1)) \<and>
      decrypted q \<and> packet_type q = TEXT \<and> decoded_payload q = Some [(''text'', PStr (lit ''hi''))] \<and> matched_channel_index q = None"
    by (rule direct_message_after_nodeinfo [THEN conjunct1, OF intro_capture_radio inv _ d toy_lib_ok
          wire_lib_reads_data _ _ _ _ u _ _ _ _ _ _ _ _ x _ _ _ _ o])
      (simp_all add: u32_def params_ok_def default_params_def BROADCAST_ADDR_def demo_tx_def set_keypair_def has_pki_def own_keys_def
        demo_pipeline_def intro_capture_def demo_capture_def)
  then show "\<exists>out pc1 raw q. process_capture ?e intro_capture (demo_pipeline ?rx) = Some (out, pc1) \<and>
     build_text_message toy_lib 7 (lit ''hi'') 9 5 6 True ?tp demo_tx = Some (Some raw) \<and>
     decode toy_lib wire_lib (\<lambda>_. None) (\<lambda>_. None) 0 (Some 9) raw None None (rt_crypto (pc_router pc1)) = Some (Some q, rt_crypto (pc_router pc1)) \<and>
     decoded_payload q = Some [(''text'', PStr (lit ''hi''))] \<and> matched_channel_index q = None"
    using o by blast
qed


text \<open>One frame can silence the gateway: the position of a MeshCore advertisement is read as two floats from the air, and an infinite
  latitude reaches the distance computation of the statistics, which raises; the exception leaves the loop over the captures, so
  this capture and every later one, of whatever protocol, goes unprocessed until the service is restarted.\<close>

lemma infinite_advert_stops:
  assumes "dispatch e c (pc_router pc) = Some (Some p, rt)" "for_protocol (pe_specs e) ''meshcore'' = None"
    and "protocol p = MESHCORE" "packet_type p = NODEINFO" "decoded_payload p = Some d"
    and "dget ''latitude'' d = PInf neg" "dget ''longitude'' d \<noteq> PNone" "dget ''long_name'' d = PNone"
    and "bindable (dget ''longitude'' d)" "packet_bindable (p\<lparr>capture_source := rc_capture_source c\<rparr>)" "source_id p \<noteq> []"
    and "hop_start p = 0" "signal p = Some sig" "pe_device e = Some dev"
  shows "run_pipeline ((e, c) # later) pc = ([], None)"
  by (simp add: infinite_coordinate_stops [OF assms])

definition inf_advert :: bytes where
  "inf_advert = [4, 0x10, 0, 0, 0x80, 0x7F, 0, 0, 0, 0]"

lemma inf_advert_payload:
  "mc_decode_payload inf_advert = (Some [(''node_type'', PInt 0), (''latitude'', PInf False), (''longitude'', PFloat 0)], NODEINFO)"
  by (simp add: mc_decode_payload_def inf_advert_def mc_decode_nodeinfo_def slice_def f32_def)

lemma mc_decode_defaults:
  "mc_decode L now raw sig cs = Some (Some p) \<Longrightarrow> hop_start p = 0 \<and> channel_hash p = 0 \<and> relay_node p = 0"
  by (auto simp: mc_decode_def default_packet_def Let_def split: option.splits if_splits Option.bind_splits prod.splits)

lemma infinite_advert_stops_witness:
  "\<forall>Q T later. \<exists>body. run_pipeline ((demo_pipe_env Q T, demo_capture (meshcore_frame 7 9 0xFFFF 0 0 body) (Some MESHCORE)) # later)
     (demo_pipeline demo_crypto) = ([], None)"
proof (intro allI)
  fix Q T later
  obtain iv where iv: "build_meshcore_nonce 7 9 = Some iv" "length iv = 16" using meshcore_nonce [of 7 9] by auto
  have good: "good_key MESHTASTIC_DEFAULT_PSK" by (simp add: good_key_def MESHTASTIC_DEFAULT_PSK_def)
  obtain body where body: "aes_ctr toy_lib MESHTASTIC_DEFAULT_PSK iv inf_advert = Some body"
    using ctr.crypt_total [of "(toy_lib, MESHTASTIC_DEFAULT_PSK, iv)" inf_advert] toy_lib_ok good iv
    by (auto simp: ctr_ok_def ctr_stream_def good_key_def)
  let ?f = "meshcore_frame 7 9 0xFFFF 0 0 body"
  from meshcore_frame_decodes [OF toy_lib_ok demo_crypto_eq(2) good _ _ _ _ _ _ iv(1) body inf_advert_payload, of "0xFFFF" 0 0 0 "Some demo_signal"]
  obtain p where p: "mc_decode toy_lib 0 ?f (Some demo_signal) demo_crypto = Some (Some p)" "packet_id p = fmt_x 4 7" "source_id p = fmt_x 4 9"
      "destination_id p = fmt_x 4 0xFFFF" "hop_limit p = 0" "packet_type p = NODEINFO"
      "decoded_payload p = Some [(''node_type'', PInt 0), (''latitude'', PInf False), (''longitude'', PFloat 0)]" by auto
  have m: "protocol p = MESHCORE" "signal p = Some demo_signal" "hop_start p = 0" "channel_hash p = 0" "relay_node p = 0"
    using mc_decode_total [of toy_lib 0 ?f "Some demo_signal" demo_crypto] mc_decode_defaults [OF p(1)] p(1) by auto
  have "dispatch (demo_pipe_env Q T) (demo_capture ?f (Some MESHCORE)) (pc_router (demo_pipeline demo_crypto)) =
      Some (Some p, pc_router (demo_pipeline demo_crypto))"
    using p(1) by (simp add: dispatch_def demo_capture_def starts_with_def for_capture_source_def demo_pipe_env_def route_def via_meshcore_def
        demo_pipeline_def demo_frame_def)
  then have "run_pipeline ((demo_pipe_env Q T, demo_capture ?f (Some MESHCORE)) # later) (demo_pipeline demo_crypto) = ([], None)"
    by (rule infinite_advert_stops [where neg = False, OF _ _ m(1) p(6,7) _ _ _ _ _ _ m(3,2)])
      (use p m in \<open>simp_all add: demo_pipe_env_def for_protocol_def packet_bindable_def storable_fmt_x demo_capture_def int64_def
         demo_signal_def, simp_all add: fmt_hex_def hex_nat_digits(3) zfill_def\<close>)
  then show "\<exists>body. run_pipeline ((demo_pipe_env Q T, demo_capture (meshcore_frame 7 9 0xFFFF 0 0 body) (Some MESHCORE)) # later)
     (demo_pipeline demo_crypto) = ([], None)" by blast
qed

end
